(* ===== verification/Xir_Prelude.thy ===== *)
theory Xir_Prelude
  imports Main
begin

text \<open>
  Shared vocabulary of the development.

  \<^item> The exception monad: a Python function that may raise is a function into
    \<open>'e + 'a\<close>; \<open>bindE\<close> sequences, \<open>ensure\<close> is a guard that raises, \<open>foldE\<close> is a
    \<^verbatim>\<open>for\<close> loop whose body may raise. The rules in \<open>exn_simps\<close> turn ``this program
    returned'' into the conjunction of the guards it passed.
  \<^item> SQL tables as lists of rows: \<open>update_where\<close> is \<^verbatim>\<open>UPDATE .. WHERE\<close>,
    \<open>find\<close> is a \<^verbatim>\<open>SELECT .. fetchone()\<close>, \<open>uniq_on\<close> is a \<^verbatim>\<open>UNIQUE\<close> constraint
    with SQL's reading of \<^verbatim>\<open>NULL\<close> (an optional key that is absent never clashes).
  \<^item> \<open>transition_system\<close>: the contract of a state machine with an invariant, interpreted by
    every component that keeps durable state.
  \<^item> Small data types: aware and naive datetimes, JSON values, decimal strings, the range of a
    SQLite integer.
\<close>

named_theorems exn_simps \<open>how a fallible program can return\<close>
named_theorems sql_simps \<open>tables as lists of rows\<close>

section \<open>Programs that may raise\<close>

definition bindE :: "'e + 'a \<Rightarrow> ('a \<Rightarrow> 'e + 'b) \<Rightarrow> 'e + 'b" where
  "bindE m f = (case m of Inl e \<Rightarrow> Inl e | Inr a \<Rightarrow> f a)"

definition ensure :: "bool \<Rightarrow> 'e \<Rightarrow> 'e + unit" where
  "ensure b e = (if b then Inr () else Inl e)"

definition require :: "'a option \<Rightarrow> 'e \<Rightarrow> 'e + 'a" where
  "require x e = (case x of None \<Rightarrow> Inl e | Some a \<Rightarrow> Inr a)"

fun foldE :: "('a \<Rightarrow> 's \<Rightarrow> 'e + 's) \<Rightarrow> 'a list \<Rightarrow> 's \<Rightarrow> 'e + 's" where
  "foldE f [] s = Inr s"
| "foldE f (x # xs) s = bindE (f x s) (foldE f xs)"

lemma bindE_simps [simp]:
  "bindE (Inl e) f = Inl e"
  "bindE (Inr a) f = f a"
  by (simp_all add: bindE_def)

lemma bindE_Inr [exn_simps]: "bindE m f = Inr b \<longleftrightarrow> (\<exists>a. m = Inr a \<and> f a = Inr b)"
  by (cases m) auto

lemma bindE_Inl [exn_simps]:
  "bindE m f = Inl e \<longleftrightarrow> m = Inl e \<or> (\<exists>a. m = Inr a \<and> f a = Inl e)"
  by (cases m) auto

lemma ensure_simps [simp]:
  "ensure True e = Inr ()"
  "ensure False e = Inl e"
  by (simp_all add: ensure_def)

lemma ensure_Inr [exn_simps]: "ensure b e = Inr u \<longleftrightarrow> b"
  by (simp add: ensure_def)

lemma ensure_Inl [exn_simps]: "ensure b e = Inl e' \<longleftrightarrow> \<not> b \<and> e' = e"
  by (auto simp: ensure_def)

lemma require_simps [simp]:
  "require None e = Inl e"
  "require (Some a) e = Inr a"
  by (simp_all add: require_def)

lemma require_Inr [exn_simps]: "require x e = Inr a \<longleftrightarrow> x = Some a"
  by (auto simp: require_def split: option.splits)

lemma require_Inl [exn_simps]: "require x e = Inl e' \<longleftrightarrow> x = None \<and> e' = e"
  by (auto simp: require_def split: option.splits)

lemma if_raise_Inr [exn_simps]: "(if b then Inl e else m) = Inr a \<longleftrightarrow> \<not> b \<and> m = Inr a"
  by simp

text \<open>An invariant of a loop body is an invariant of the loop.\<close>

lemma foldE_invariant:
  assumes "foldE f xs s = Inr s'" and "P s"
    and "\<And>x t t'. x \<in> set xs \<Longrightarrow> P t \<Longrightarrow> f x t = Inr t' \<Longrightarrow> P t'"
  shows "P s'"
  using assms by (induction xs arbitrary: s) (auto simp: exn_simps)

lemma foldE_checks:
  assumes "foldE (\<lambda>x s. bindE (f x s) (\<lambda>_. Inr s)) xs s = Inr s'"
  shows "\<forall>x\<in>set xs. \<exists>u. f x s = Inr u"
  using assms by (induction xs) (auto simp: exn_simps)

section \<open>Tables as lists of rows\<close>

definition update_where :: "('r \<Rightarrow> bool) \<Rightarrow> ('r \<Rightarrow> 'r) \<Rightarrow> 'r list \<Rightarrow> 'r list" where
  "update_where p f rows = map (\<lambda>r. if p r then f r else r) rows"

definition uniq_on :: "('r \<Rightarrow> 'k option) \<Rightarrow> 'r list \<Rightarrow> bool" where
  "uniq_on k rows = distinct (List.map_filter k rows)"

definition clashes :: "('r \<Rightarrow> 'k option) \<Rightarrow> 'r \<Rightarrow> 'r list \<Rightarrow> bool" where
  "clashes k r rows = list_ex (\<lambda>x. k x \<noteq> None \<and> k x = k r) rows"

lemma update_where_Nil [simp, sql_simps]: "update_where p f [] = []"
  by (simp add: update_where_def)

lemma update_where_Cons [simp]:
  "update_where p f (r # rows) = (if p r then f r else r) # update_where p f rows"
  by (simp add: update_where_def)

lemma update_where_append [sql_simps]:
  "update_where p f (xs @ ys) = update_where p f xs @ update_where p f ys"
  by (simp add: update_where_def)

lemma set_update_where: "set (update_where p f rows) = (\<lambda>r. if p r then f r else r) ` set rows"
  by (simp add: update_where_def)

lemma length_update_where [simp]: "length (update_where p f rows) = length rows"
  by (simp add: update_where_def)

lemma update_where_none [sql_simps]: "\<forall>r\<in>set rows. \<not> p r \<Longrightarrow> update_where p f rows = rows"
  by (induction rows) auto

lemma find_update_where:
  assumes "\<And>r. q (f r) = q r"
  shows "find q (update_where p f rows) = map_option (\<lambda>r. if p r then f r else r) (find q rows)"
  by (induction rows) (auto simp: assms)

lemma bex_update_where:
  assumes "\<And>r. q (f r) = q r"
  shows "(\<exists>r\<in>set (update_where p f rows). q r) \<longleftrightarrow> (\<exists>r\<in>set rows. q r)"
  by (induction rows) (auto simp: assms)

lemma find_append: "find q (xs @ ys) = (case find q xs of None \<Rightarrow> find q ys | Some r \<Rightarrow> Some r)"
  by (induction xs) auto

lemma find_SomeD: "find q rows = Some r \<Longrightarrow> r \<in> set rows \<and> q r"
  by (induction rows) (auto split: if_splits)

lemma find_NoneD: "find q rows = None \<Longrightarrow> r \<in> set rows \<Longrightarrow> \<not> q r"
  by (simp add: find_None_iff)

lemma map_filter_simps_xir [simp]:
  "List.map_filter k [] = []"
  "List.map_filter k (r # rows) =
     (case k r of None \<Rightarrow> List.map_filter k rows | Some v \<Rightarrow> v # List.map_filter k rows)"
  by (simp_all add: List.map_filter_def split: option.splits)

lemma map_filter_append_xir: "List.map_filter k (xs @ ys) = List.map_filter k xs @ List.map_filter k ys"
  by (simp add: List.map_filter_def)

lemma set_map_filter_xir: "v \<in> set (List.map_filter k rows) \<longleftrightarrow> (\<exists>r\<in>set rows. k r = Some v)"
  by (induction rows) (auto split: option.splits)

lemma uniq_on_Nil [simp]: "uniq_on k []"
  by (simp add: uniq_on_def)

lemma uniq_on_snoc [sql_simps]: "uniq_on k (rows @ [r]) \<longleftrightarrow> uniq_on k rows \<and> \<not> clashes k r rows"
  unfolding uniq_on_def clashes_def list_ex_iff map_filter_append_xir
  by (cases "k r") (auto simp: set_map_filter_xir)

lemma uniq_on_update_where:
  assumes "\<And>r. r \<in> set rows \<Longrightarrow> p r \<Longrightarrow> k (f r) = k r"
  shows "uniq_on k (update_where p f rows) \<longleftrightarrow> uniq_on k rows"
proof -
  have "List.map_filter k (update_where p f rows) = List.map_filter k rows"
    using assms by (induction rows) (auto split: option.splits)
  then show ?thesis by (simp add: uniq_on_def)
qed

text \<open>A unique key picks at most one row, so a \<^verbatim>\<open>WHERE\<close> on it selects that row alone.\<close>

lemma uniq_on_filter:
  assumes "uniq_on k rows" and "find (\<lambda>r. k r = Some v) rows = Some r"
  shows "filter (\<lambda>r. k r = Some v) rows = [r]"
  using assms
proof (induction rows)
  case Nil
  then show ?case by simp
next
  case (Cons x rows)
  show ?case
  proof (cases "k x = Some v")
    case True
    with Cons.prems have "\<forall>y\<in>set rows. k y \<noteq> Some v"
      by (auto simp: uniq_on_def set_map_filter_xir)
    with True Cons.prems show ?thesis by (simp add: filter_empty_conv)
  next
    case False
    with Cons.prems have "uniq_on k rows"
      by (auto simp: uniq_on_def split: option.splits)
    with False Cons show ?thesis by simp
  qed
qed

lemma uniq_on_find:
  assumes "uniq_on k rows" and "r \<in> set rows" and "k r = Some v"
  shows "find (\<lambda>r. k r = Some v) rows = Some r"
proof -
  obtain s where s: "find (\<lambda>r. k r = Some v) rows = Some s"
    using assms(2,3) by (metis (mono_tags) find_None_iff not_None_eq)
  have "r \<in> set (filter (\<lambda>r. k r = Some v) rows)" using assms by simp
  with uniq_on_filter [OF assms(1) s] s show ?thesis by simp
qed

lemma uniq_on_update_dropped:
  assumes "uniq_on k rows" and "\<And>r. r \<in> set rows \<Longrightarrow> p r \<Longrightarrow> k (f r) = k r \<or> k (f r) = None"
  shows "uniq_on k (update_where p f rows)"
proof -
  have "uniq_on k rows \<Longrightarrow> uniq_on k (update_where p f rows)
      \<and> set (List.map_filter k (update_where p f rows)) \<subseteq> set (List.map_filter k rows)"
    using assms(2)
  proof (induction rows)
    case (Cons r rows)
    then have "uniq_on k rows" by (auto simp: uniq_on_def split: option.splits)
    with Cons.IH Cons.prems(2) have IH: "uniq_on k (update_where p f rows)"
      "set (List.map_filter k (update_where p f rows)) \<subseteq> set (List.map_filter k rows)" by auto
    from Cons.prems(2) [of r] have "p r \<Longrightarrow> k (f r) = k r \<or> k (f r) = None" by simp
    with IH Cons.prems(1) show ?case by (cases "p r") (auto simp: uniq_on_def split: option.splits)
  qed simp
  with assms(1) show ?thesis by blast
qed

lemma uniq_on_map: "uniq_on (\<lambda>x. Some (g (h x))) xs \<longleftrightarrow> uniq_on (\<lambda>y. Some (g y)) (map h xs)"
  by (induction xs) (auto simp: uniq_on_def set_map_filter_xir)

text \<open>Sums over a table, and how an update of one row changes them.\<close>

definition total :: "('r \<Rightarrow> int) \<Rightarrow> 'r list \<Rightarrow> int" where
  "total g rows = sum_list (map g rows)"

lemma total_simps [simp]:
  "total g [] = 0"
  "total g (r # rows) = g r + total g rows"
  by (simp_all add: total_def)

lemma total_append [simp]: "total g (xs @ ys) = total g xs + total g ys"
  by (simp add: total_def)

lemma total_cong: "(\<And>r. r \<in> set rows \<Longrightarrow> g r = h r) \<Longrightarrow> total g rows = total h rows"
  unfolding total_def by (metis map_cong)

lemma total_nonneg: "(\<And>r. r \<in> set rows \<Longrightarrow> 0 \<le> g r) \<Longrightarrow> 0 \<le> total g rows"
  by (induction rows) auto

lemma total_mono: "(\<And>r. r \<in> set rows \<Longrightarrow> g r \<le> h r) \<Longrightarrow> total g rows \<le> total h rows"
  by (induction rows) (auto intro: add_mono)

lemma total_zero: "(\<And>r. r \<in> set rows \<Longrightarrow> g r = 0) \<Longrightarrow> total g rows = 0"
  by (induction rows) auto

lemma total_update_where_same:
  assumes "\<And>r. r \<in> set rows \<Longrightarrow> p r \<Longrightarrow> g (f r) = g r"
  shows "total g (update_where p f rows) = total g rows"
  using assms by (induction rows) auto

lemma total_update_where_unique:
  assumes "filter p rows = [r]"
  shows "total g (update_where p f rows) = total g rows - g r + g (f r)"
  using assms
proof (induction rows)
  case Nil
  then show ?case by simp
next
  case (Cons x rows)
  show ?case
  proof (cases "p x")
    case True
    with Cons.prems have "x = r" and "filter p rows = []" by auto
    then have "update_where p f rows = rows" by (simp add: filter_empty_conv sql_simps)
    with True \<open>x = r\<close> show ?thesis by simp
  next
    case False
    with Cons show ?thesis by simp
  qed
qed

lemma update_where_False [simp]: "update_where (\<lambda>_. False) f rows = rows"
  by (simp add: update_where_def)

lemma uniq_on_update_fresh:
  assumes "uniq_on k rows" and "filter p rows = [r]" and "k (f r) = Some v"
    and "\<forall>x\<in>set rows. k x \<noteq> Some v"
  shows "uniq_on k (update_where p f rows)"
  using assms
proof (induction rows)
  case (Cons x rows)
  show ?case
  proof (cases "p x")
    case True
    with Cons.prems have "x = r" "update_where p f rows = rows"
      by (auto simp: filter_empty_conv intro!: update_where_none)
    with True Cons.prems show ?thesis
      by (auto simp: uniq_on_def set_map_filter_xir split: option.splits)
  next
    case False
    with Cons have "uniq_on k (update_where p f rows)" by (auto simp: uniq_on_def split: option.splits)
    moreover have "w \<notin> set (List.map_filter k (update_where p f rows))" if "k x = Some w" for w
    proof
      assume "w \<in> set (List.map_filter k (update_where p f rows))"
      then obtain y where y: "y \<in> set rows" "k (if p y then f y else y) = Some w"
        by (auto simp: set_map_filter_xir set_update_where)
      from Cons.prems(2) False have "set (filter p rows) = {r}" by simp
      with y(1) have "p y \<Longrightarrow> y = r" by auto
      with y that Cons.prems False show False
        by (auto simp: uniq_on_def set_map_filter_xir split: if_splits)
    qed
    ultimately show ?thesis using False by (auto simp: uniq_on_def split: option.splits)
  qed
qed simp

lemma total_map: "total g (map h xs) = total (\<lambda>x. g (h x)) xs"
  by (induction xs) auto

section \<open>State machines with an invariant\<close>

text \<open>
  The contract a durable component meets: an initial condition, a step relation, and an invariant
  that the first establishes and the second keeps. What clients use is that the invariant holds in
  every reachable state and along every run.
\<close>

locale transition_system =
  fixes initial :: "'s \<Rightarrow> bool"
    and step :: "'s \<Rightarrow> 's \<Rightarrow> bool"
    and inv :: "'s \<Rightarrow> bool"
  assumes inv_initial: "initial s \<Longrightarrow> inv s"
    and inv_step: "inv s \<Longrightarrow> step s t \<Longrightarrow> inv t"
begin

lemma run_inv: "step\<^sup>*\<^sup>* s t \<Longrightarrow> inv s \<Longrightarrow> inv t"
  by (induction rule: rtranclp_induct) (auto intro: inv_step)

lemma reachable_inv: "initial s \<Longrightarrow> step\<^sup>*\<^sup>* s t \<Longrightarrow> inv t"
  by (auto intro: run_inv inv_initial)

end

section \<open>Values\<close>

text \<open>A Python \<^verbatim>\<open>datetime\<close>: aware ones denote an instant (microseconds of UTC).\<close>

datatype pydatetime = Aware int | Naive int

text \<open>
  \<^verbatim>\<open>value or datetime.now(UTC)\<close> followed by the awareness check every module repeats;
  \<open>clk\<close> is what the system clock reads, \<open>e\<close> the module's own exception.
\<close>

definition utc_of :: "'e \<Rightarrow> int \<Rightarrow> pydatetime option \<Rightarrow> 'e + int" where
  "utc_of e clk value =
     (case value of None \<Rightarrow> Inr clk | Some (Aware t) \<Rightarrow> Inr t | Some (Naive _) \<Rightarrow> Inl e)"

lemma utc_of_simps [simp]:
  "utc_of e clk None = Inr clk"
  "utc_of e clk (Some (Aware t)) = Inr t"
  "utc_of e clk (Some (Naive t)) = Inl e"
  by (simp_all add: utc_of_def)

text \<open>
  JSON values as the code builds them before serialization. \<open>JTime\<close> stands for the ISO-8601
  text of an instant, \<open>JFloat m e\<close> for the binary floating-point number \<open>m * 2 ^ e\<close>.
\<close>

datatype json =
  JNull
| JBool bool
| JInt int
| JFloat int int
| JTime int
| JStr string
| JList "json list"
| JObj "(string \<times> json) list"

text \<open>SQLite stores 64-bit integers; binding a larger Python integer raises.\<close>

definition int64 :: "int \<Rightarrow> bool" where
  "int64 x \<longleftrightarrow> - (2 ^ 63) \<le> x \<and> x < 2 ^ 63"

text \<open>Python's \<^verbatim>\<open>str\<close> on integers.\<close>

fun str_nat :: "nat \<Rightarrow> string" where
  "str_nat n = (if n < 10 then [char_of (48 + n)] else str_nat (n div 10) @ [char_of (48 + n mod 10)])"

declare str_nat.simps [simp del]

lemma char_of_digit: "m < 10 \<Longrightarrow> n < 10 \<Longrightarrow> char_of (48 + m) = char_of (48 + n) \<longleftrightarrow> m = (n::nat)"
  by (auto simp: char_of_eq_iff of_char_of take_bit_nat_eq_self)

lemma str_nat_nonempty [simp]: "str_nat n \<noteq> []" "[] \<noteq> str_nat n"
  by (simp_all add: str_nat.simps [of n])

lemma str_nat_inject: "str_nat m = str_nat n \<Longrightarrow> m = n"
proof (induction m arbitrary: n rule: str_nat.induct)
  case (1 m)
  show ?case
  proof (cases "m < 10"; cases "n < 10")
    assume "m < 10" "n < 10"
    with "1.prems" show ?thesis by (simp add: str_nat.simps [of m] str_nat.simps [of n] char_of_digit)
  next
    assume "m < 10" "\<not> n < 10"
    with "1.prems" show ?thesis
      by (simp add: str_nat.simps [of m] str_nat.simps [of n])
  next
    assume "\<not> m < 10" "n < 10"
    with "1.prems" show ?thesis
      by (simp add: str_nat.simps [of m] str_nat.simps [of n])
  next
    assume big: "\<not> m < 10" "\<not> n < 10"
    with "1.prems" have "str_nat (m div 10) = str_nat (n div 10)" and "m mod 10 = n mod 10"
      by (simp_all add: str_nat.simps [of m] str_nat.simps [of n] char_of_digit)
    with "1.IH" big show ?thesis by (metis div_mult_mod_eq)
  qed
qed

definition str_int :: "int \<Rightarrow> string" where
  "str_int i = (if i < 0 then ''-'' @ str_nat (nat (- i)) else str_nat (nat i))"

text \<open>Case-insensitive comparison of hashes: \<^verbatim>\<open>str.lower\<close> on ASCII text.\<close>

definition lower_char :: "char \<Rightarrow> char" where
  "lower_char c = (if 65 \<le> (of_char c :: nat) \<and> (of_char c :: nat) \<le> 90 then char_of ((of_char c :: nat) + 32) else c)"

text \<open>On the bits of a character, for evaluation.\<close>

lemma lower_char_code [code]:
  "lower_char (Char b0 b1 b2 b3 b4 b5 b6 b7) = Char b0 b1 b2 b3 b4
     (b5 \<or> \<not> b7 \<and> b6 \<and> (b0 \<or> b1 \<or> b2 \<or> b3 \<or> b4) \<and> \<not> (b4 \<and> b3 \<and> (b2 \<or> b1 \<and> b0))) b6 b7"
  by (cases b0; cases b1; cases b2; cases b3; cases b4; cases b5; cases b6; cases b7;
      simp add: lower_char_def char_of_def bit_simps)

definition lower :: "string \<Rightarrow> string" where
  "lower s = map lower_char s"

text \<open>The order of texts, in SQLite by bytes and in Python by code points, and stable sorting by it.\<close>

fun text_le :: "string \<Rightarrow> string \<Rightarrow> bool" where
  "text_le [] t = True"
| "text_le (c # s) [] = False"
| "text_le (c # s) (e # t) = (if c = e then text_le s t else (of_char c :: nat) < of_char e)"

fun text_insert :: "string \<Rightarrow> string list \<Rightarrow> string list" where
  "text_insert s [] = [s]"
| "text_insert s (t # ts) = (if text_le s t then s # t # ts else t # text_insert s ts)"

definition text_sort :: "string list \<Rightarrow> string list" where
  "text_sort ts = foldr text_insert ts []"

fun insert_item :: "string \<times> 'a \<Rightarrow> (string \<times> 'a) list \<Rightarrow> (string \<times> 'a) list" where
  "insert_item x [] = [x]"
| "insert_item x (y # ys) = (if text_le (fst x) (fst y) then x # y # ys else y # insert_item x ys)"

definition sorted_items :: "(string \<times> 'a) list \<Rightarrow> (string \<times> 'a) list" where
  "sorted_items xs = foldr insert_item xs []"

definition sort_by_key :: "('a \<Rightarrow> string) \<Rightarrow> 'a list \<Rightarrow> 'a list" where
  "sort_by_key f xs = map snd (sorted_items (map (\<lambda>x. (f x, x)) xs))"

lemma mset_insert_item: "set (insert_item x ys) = insert x (set ys)" "length (insert_item x ys) = Suc (length ys)"
  by (induction ys) auto

lemma sorted_items_set: "set (sorted_items xs) = set xs" "length (sorted_items xs) = length xs"
  unfolding sorted_items_def by (induction xs) (auto simp: mset_insert_item)

text \<open>The digest check several modules repeat: sixty-four lowercase hexadecimal characters.\<close>

definition is_sha256_hex :: "string \<Rightarrow> bool" where
  "is_sha256_hex s \<longleftrightarrow> length s = 64 \<and> list_all (\<lambda>c. c \<in> set ''0123456789abcdef'') s"

end
