(* ===== verification/Xir_Errors.thy ===== *)
theory Xir_Errors
  imports Xir_Prelude
begin

text \<open>
  The exceptions of the program. Each Python exception class of a modelled module is a datatype with one constructor
  per distinct message the module raises (two sites with the same text share a constructor; \<open>LocalTopologyError\<close> of the
  local network carries the text itself). \<open>exn\<close> is their sum together with the exceptions of the runtime that the code
  lets escape: \<open>IntegrityError\<close> (a violated SQL constraint), \<open>OverflowError\<close> (an integer outside SQLite's range bound to
  a statement), \<open>OSError\<close> (a missing file), \<open>ValueError\<close>, \<open>TypeError\<close>, \<open>AssertionError\<close>, \<open>KeyError\<close>, \<open>AttributeError\<close> and
  \<open>ZeroDivisionError\<close>.
\<close>

datatype (plugins only: code size) control_error =
  CE_digest_format
| CE_naive_time
| CE_unknown_run
| CE_already_initialized
| CE_existing_stop_state
| CE_changed_state_needs_approval
| CE_not_initialized
| CE_cannot_prove_binding
| CE_mode_blocks_signature
| CE_attempt_not_in_flight
| CE_incomplete_reservation
| CE_drain_blocks_source
| CE_cannot_transition
| CE_empty_decision

datatype (plugins only: code size) lease_error =
  LE_ttl_not_positive
| LE_unknown_attempt
| LE_already_leased string
| LE_unresolved_submission
| LE_not_active
| LE_holder_mismatch
| LE_expired
| LE_negative_nonce_request
| LE_unknown_subreservation
| LE_source_not_in_flight
| LE_nonce_bound_elsewhere
| LE_stage_bound_elsewhere
| LE_bad_pending_state
| LE_settled_cannot_be_pending
| LE_settled_cannot_be_included
| LE_released_cannot_finalize
| LE_not_reorganizable
| LE_unknown_lineage

datatype (plugins only: code size) budget_error =
  BE_no_limits
| BE_duplicate_chain_limits
| BE_unknown_run
| BE_negative_limit
| BE_limit_order
| BE_limits_immutable
| BE_negative_stage_value
| BE_no_stages
| BE_duplicate_stage_keys
| BE_unknown_attempt
| BE_attempt_not_planned
| BE_run_state_blocks
| BE_already_reserved
| BE_stage_over_transaction_limit
| BE_unknown_reservation
| BE_stop_blocks_start
| BE_start_requires_planned
| BE_over_subreservation
| BE_over_transaction_limit
| BE_negative_spending
| BE_receipt_over_reservation
| BE_finalized_immutable
| BE_final_over_reservation
| BE_release_evidence
| BE_release_digest_format
| BE_resolve_first
| BE_in_flight_not_cancellable
| BE_missing_limit
| BE_missing_totals
| BE_run_exhausted
| BE_batch_exhausted
| BE_balance_floor
| BE_missing_batch_totals
| BE_reorg_not_restored

datatype (plugins only: code size) store_error =
  ST_unknown_attempt
| ST_terminal_attempt
| ST_unknown_retry_predecessor
| ST_retry_changed_coordinates
| ST_unexpected_retry_lineage
| ST_unknown_replacement_predecessor
| ST_replacement_changed
| ST_secret string
| ST_unknown_raw string
| ST_unreadable_raw string
| ST_digest_mismatch string
| ST_unknown_superseded
| ST_changed_subject
| ST_spool_destination
| ST_unresolved_violations
| ST_spool_path
| ST_native_fields
| ST_native_digest
| ST_native_unknown_predecessor string
| ST_native_coordinates
| ST_native_retry_index
| ST_native_root_index
| ST_native_no_intent string
| ST_native_terminal string
| ST_native_intended
| ST_native_leg
| ST_native_no_message_intent
| ST_native_empty_sample

datatype (plugins only: code size) stop_policy_error =
  SP_negative_quote_age
| SP_negative_quote_movement
| SP_count_thresholds
| SP_rate_range
| SP_actions_not_halt
| SP_negative_operations_threshold
| SP_heartbeat_threshold
| SP_naive_time
| SP_negative_request
| SP_missing_limits
| SP_negative_quote
| SP_empty_outcome_id
| SP_duplicate_outcome
| SP_negative_nonce
| SP_too_few_providers
| SP_negative_block
| SP_negative_operations
| SP_stop_not_established
| SP_event_collision
| SP_execution_not_configured
| SP_operations_not_configured

datatype (plugins only: code size) schedule_error =
  SE_empty_run_id
| SE_designated_kind
| SE_lost_slot
| SE_attempt_count
| SE_pair_count
| SE_unbalanced
| SE_template_plan
| SE_missing_limits
| SE_not_active
| SE_retry_index
| SE_outside_plan
| SE_retry_registered
| SE_unplanned
| SE_missing_limit
| SE_unsupported_arm

datatype (plugins only: code size) profile_error =
  PF_count_identity
| PF_approval_type
| PF_template_limits
| PF_template_executable
| PF_live_limits
| PF_live_policy
| PF_derivation
| PF_reconciled_freeze
| PF_not_pilot_template
| PF_partial_conditions
| PF_not_executable

datatype (plugins only: code size) approval_error =
  AE_schema
| AE_naive_time
| AE_digest_mismatch
| AE_not_pinned
| AE_invalid_signature
| AE_time_order
| AE_not_currently_valid
| AE_revoked
| AE_consumed
| AE_sequence
| AE_replay
| AE_revocation_sequence

datatype (plugins only: code size) signer_error =
  SG_empty
| SG_different_bytes
| SG_escapes
| SG_integrity
| SG_different_operation
| SG_schema
| SG_binding
| SG_network
| SG_calldata
| SG_unsigned
| SG_priority
| SG_fee
| SG_role
| SG_unsupported_network
| SG_not_allowed
| SG_allowed_digest
| SG_bound_request
| SG_message_size
| SG_rejected
| SG_unsupported_role

datatype (plugins only: code size) submission_error =
  SU_naive_time
| SU_digest_format
| SU_empty_identifier
| SU_negative
| SU_intent_bound
| SU_coordinates
| SU_request_changed
| SU_lineage_inactive
| SU_nonce_bound
| SU_replacement_changed
| SU_over_subreservation
| SU_approval_not_consumed
| SU_not_eligible_for_signing
| SU_request_changed_intent
| SU_request_changed_after
| SU_changed_while_signing
| SU_changed_before_reference
| SU_metadata_changed
| SU_not_eligible_for_broadcast
| SU_changed_before_broadcast
| SU_changed_before_ack
| SU_gate_phase
| SU_unresolved_coordinates
| SU_gate_changed
| SU_approval_mismatch
| SU_approval_revoked
| SU_approval_expired
| SU_stop_blocks
| SU_drain_blocks
| SU_no_route_reservation
| SU_nonce_invalid
| SU_reservation_invalid
| SU_quote_stale
| SU_simulation_stale
| SU_unknown_transaction
| SU_incomplete_metadata
| SU_observation_column
| SU_cannot_advance

datatype stage_template_error =
  TE_duplicate_cell
| TE_duplicate_template
| TE_carrier_sequence
| TE_physical_transactions
| TE_duplicate_transaction
| TE_baseline_labels
| TE_xir_labels
| TE_missing_cells

datatype (plugins only: code size) executor_error =
  EX_naive_time
| EX_not_executable
| EX_eight_templates
| EX_other_plan
| EX_lost_slot
| EX_plan_count
| EX_missing_limit
| EX_lost_race
| EX_unknown_stage
| EX_invalid_transition
| EX_prior_incomplete
| EX_no_intent
| EX_unknown_attempt
| EX_unfinished_stages
| EX_unsigned_broadcast string
| EX_plan_mismatch

datatype (plugins only: code size) resolution_error =
  RS_naive_time
| RS_unknown_transaction
| RS_not_ambiguous
| RS_no_hash
| RS_changed
| RS_negative_maximum
| RS_unknown_predecessor
| RS_limit_exhausted
| RS_predecessor_state
| RS_replacement_changed
| RS_gates_failed

datatype (plugins only: code size) finality_error =
  FE_duplicate_chains
| FE_unknown_run
| FE_policy_immutable
| FE_not_canonical
| FE_head_unavailable
| FE_not_reached
| FE_hash_changed
| FE_hash_unavailable string
| FE_unresolved "string list"
| FE_no_policy
| FE_no_receipt
| FE_unknown_transaction
| FE_chain_id
| FE_confirmation_count
| FE_unexpected_count

datatype (plugins only: code size) outcome_error =
  OC_negative_threshold
| OC_deadline_order
| OC_session_start
| OC_approval_binding
| OC_window_immutable
| OC_phase_fields
| OC_clock_backwards
| OC_duration_attempt
| OC_chain_fields
| OC_interval_attempt
| OC_interval_endpoints
| OC_before_deadline
| OC_unknown_attempt
| OC_terminal_outcome
| OC_needs_timeout
| OC_needs_proof
| OC_unexpected_proof
| OC_failure_source
| OC_observer_clock
| OC_already_recorded
| OC_no_window
| OC_unknown_clock
| OC_unknown_chain_clock
| OC_proof_invalid
| OC_not_utc
| OC_invalid_timestamp

datatype reconciliation_error =
  RE_scope_invalid
| RE_unknown_attempts "string list"
| RE_prior_freeze
| RE_backfill_fields
| RE_no_scope
| RE_expectations
| RE_failed nat

datatype (plugins only: code size) backfill_error =
  BE_max_pages
| BE_key_and_chain
| BE_empty_filter
| BE_block_bounds
| BE_outside_bounds
| BE_missing_fields
| BE_unknown_checkpoint
| BE_stale_version
| BE_backlogged
| BE_target_bounds
| BE_not_linked_to_message
| BE_provider_changed
| BE_hash_not_linked
| BE_identifier_not_linked
| BE_below_approved
| BE_above_approved
| BE_below_requested
| BE_above_requested
| BE_address
| BE_topic
| BE_log_index

datatype (plugins only: code size) protocol_link_error =
  PL_route_coverage
| PL_selectors
| PL_order
| PL_differ
| PL_identifier
| PL_digest
| PL_nonce_required
| PL_nonce_negative
| PL_route_identity
| PL_attempts
| PL_chains
| PL_already_linked
| PL_changed_linkage
| PL_unknown_transaction string

datatype (plugins only: code size) xir_link_error =
  XL_locations
| XL_continuity
| XL_bytes32 string
| XL_digest
| XL_payload
| XL_consumed_key
| XL_not_verified
| XL_not_succeeded
| XL_attempts
| XL_baseline
| XL_route_order
| XL_not_atomic
| XL_both_legs
| XL_path
| XL_carrier_payload
| XL_already_linked
| XL_changed_trace
| XL_unknown_transaction string
| XL_final_stage
| XL_effect_immutable

datatype (plugins only: code size) evm_error =
  EC_no_hash
| EC_read_failed
| EC_no_transaction
| EC_no_receipt
| EC_block_failed
| EC_no_block
| EC_hash
| EC_chain_nonce
| EC_block_mismatch
| EC_status
| EC_negative
| EC_funding
| EC_l1_fee
| EC_l1_negative
| EC_log_indices
| EC_input_hex
| EC_address
| EC_balance
| EC_disappeared

datatype (plugins only: code size) record_error =
  RD_duplicate string string
| RD_unknown string string
| RD_cyclic string string
| RD_unknown_predecessor string string
| RD_cell string
| RD_arm_condition string
| RD_retry_fields string
| RD_non_retry string
| RD_pair_condition string
| RD_repetition_pair string
| RD_retry_coordinates string
| RD_retry_kind string
| RD_chain string
| RD_replacement string
| RD_freeze_run string

datatype (plugins only: code size) operation_error =
  OE_digest
| OE_identity
| OE_nonce_reused
| OE_other_batch
| OE_order
| OE_not_observable
| OE_rebroadcast
| OE_journal_order
| OE_unknown_transaction
| OE_journal_corrupt
| OE_journal_root
| OE_journal_digest

datatype (plugins only: code size) deployment_error =
  DP_deployer_hex
| DP_deployer
| DP_artifact string
| DP_empty_bytecode
| DP_unknown_reference string
| DP_specs
| DP_negative
| DP_toolchain
| DP_factory
| DP_bounds
| DP_encoding string
| DP_simulation string
| DP_network
| DP_configuration_digest
| DP_code_digest
| DP_changed
| DP_order

datatype (plugins only: code size) estimator_error =
  ES_coverage
| ES_unique
| ES_margin
| ES_capacity
| ES_negative
| ES_addresses
| ES_cost
| ES_role
| ES_targets
| ES_target

datatype (plugins only: code size) funding_error =
  FU_schema
| FU_time
| FU_offset
| FU_wei string
| FU_expiry
| FU_not_passing
| FU_request_digest
| FU_handoff_digest
| FU_other_request
| FU_providers
| FU_duplicate_target
| FU_coverage
| FU_recipient
| FU_duplicate_hash
| FU_expired
| FU_facts
| FU_reorg
| FU_bounds
| FU_balance
| FU_floor

datatype readiness_error = RE_negative

datatype recommendation_error =
  RC_digest string
| RC_scope

text \<open>The boundaries of \<^verbatim>\<open>faults.py\<close> at which a process can be made to stop.\<close>

datatype (plugins only: code size) crash_point =
  CP_before_prepared_intent_commit
| CP_after_prepared_intent_commit
| CP_after_signer_return
| CP_during_spool_temporary_write
| CP_after_spool_file_fsync
| CP_after_spool_rename_before_directory_fsync
| CP_after_spool_directory_fsync_before_database_reference
| CP_after_hash_reference_persistence
| CP_after_broadcast_before_acknowledgement
| CP_after_acknowledgement_before_receipt
| CP_after_receipt_before_raw_commit
| CP_after_raw_commit_before_normalized_commit

datatype (plugins only: code size) exn =
  ControlError control_error
| LeaseError lease_error
| BudgetError budget_error
| StoreError store_error
| StopPolicyError stop_policy_error
| ScheduleError schedule_error
| ProfileError profile_error
| ApprovalError approval_error
| SignerError signer_error
| SubmissionError submission_error
| StageTemplateError stage_template_error
| ExecutorError executor_error
| ResolutionError resolution_error
| FinalityError finality_error
| OutcomeClockError outcome_error
| ReconciliationError reconciliation_error
| BackfillError backfill_error
| ProtocolLinkError protocol_link_error
| XirLinkError xir_link_error
| EvmCollectorError evm_error
| RecordError record_error
| ApprovedOperationError operation_error
| DeploymentPlanError deployment_error
| EstimatorError estimator_error
| FundingHandoffError funding_error
| ReadinessError readiness_error
| RecommendationError recommendation_error
| LocalTopologyError string
| ExternalError
| InjectedCrash crash_point
| OSError
| TypeError
| AssertionError
| ZeroDivisionError
| IntegrityError
| OverflowError
| ValueError
| KeyError
| AttributeError

end
