(* ===== verification/Xir_Store.thy ===== *)
theory Xir_Store
  imports Xir_Errors
begin

text \<open>
  The evidence ledger of \<^verbatim>\<open>evidence/store.py\<close> with the schema of
  \<^verbatim>\<open>evidence/migrations/001_initial.sql\<close>: one record per table row, the database as a
  record of tables, and the durable transaction \<open>store_write\<close> that commits on return and rolls back
  on every exception. Columns keep their names behind a two-letter table prefix. Columns with a
  \<^verbatim>\<open>CHECK .. IN\<close> constraint are datatypes; free-text state columns are datatypes with a
  constructor for every value the code writes or compares and one for any other text. Time stamps
  are instants (microseconds); an \<^verbatim>\<open>AUTOINCREMENT\<close> sequence is the position in the list;
  JSON columns hold the value whose canonical text the code stores.
\<close>

section \<open>Column types\<close>

datatype control_mode = Running | Drain | Halted | Revoked

datatype run_state = Run_mode control_mode | Run_other string

datatype attempt_state =
  A_planned | A_in_flight | A_not_submitted | A_delivered | A_submission_failed
| A_carrier_failed | A_xir_rejected | A_destination_failed | A_timed_out
| A_observer_failed | A_incomplete_evidence | A_other string

datatype stage_state =
  G_planned | G_prepared | G_in_flight | G_completed | G_failed | G_collecting | G_other string

datatype tx_state =
  T_prepared | T_signer_return | T_signed_hash_persisted | T_broadcast_unknown | T_submitted
| T_included | T_finalized | T_orphaned | T_released | T_dropped | T_other string

datatype lease_state = W_active | W_released | W_expired

datatype nonce_state =
  N_active | N_broadcast_unknown | N_submitted | N_included | N_finalized | N_released

datatype budget_state = B_reserved | B_in_flight | B_settled | B_released

datatype sub_state =
  S_reserved | S_active | S_broadcast_unknown | S_submitted | S_included
| S_finalized | S_released | S_reopened

datatype arm = Baseline | Xir

datatype attempt_kind = Pilot | Warmup | Primary | Retry

text \<open>What the transition journal records as the state of an entity.\<close>

datatype entity_state =
  E_mode control_mode
| E_attempt attempt_state
| E_stage stage_state
| E_tx tx_state
| E_lease lease_state
| E_budget budget_state

section \<open>Rows\<close>

record run_row =
  rn_run_id :: string
  rn_profile_id :: string
  rn_plan_sha256 :: string
  rn_state :: run_state
  rn_created_at :: int

record condition_row =
  cd_condition_id :: string
  cd_run_id :: string
  cd_carrier_sequence :: string
  cd_state :: string

record pair_row =
  pr_pair_id :: string
  pr_condition_id :: string
  pr_slot_index :: int

record attempt_row =
  at_attempt_id :: string
  at_condition_id :: string
  at_pair_id :: "string option"
  at_arm :: arm
  at_attempt_kind :: attempt_kind
  at_original_attempt_kind :: "attempt_kind option"
  at_retry_of :: "string option"
  at_schedule_index :: "int option"
  at_batch_index :: "int option"
  at_state :: attempt_state
  at_created_at :: int

record stage_row =
  sg_stage_id :: string
  sg_attempt_id :: string
  sg_ordinal :: int
  sg_stage_name :: string
  sg_stage_template_id :: "string option"
  sg_chain_id :: "int option"
  sg_accounting_bucket :: "string option"
  sg_logical_labels :: "string list option"
  sg_state :: stage_state

record intent_row =
  it_intent_id :: string
  it_stage_id :: string
  it_signer_operation_id :: string
  it_chain_id :: int
  it_nonce :: int
  it_state :: tx_state
  it_payload_sha256 :: string
  it_approval_id :: "string option"
  it_approval_payload_sha256 :: "string option"
  it_signer_id :: "string option"
  it_signer_identity_sha256 :: "string option"
  it_network_identity_sha256 :: "string option"
  it_quote_sha256 :: "string option"
  it_quote_valid_until :: "int option"
  it_simulation_sha256 :: "string option"
  it_simulation_valid_until :: "int option"
  it_reservation_id :: "string option"
  it_reservation_stage_key :: "string option"
  it_requested_wei :: "int option"
  it_created_at :: int

record transaction_row =
  tx_transaction_id :: string
  tx_intent_id :: string
  tx_chain_id :: int
  tx_nonce :: int
  tx_transaction_hash :: "string option"
  tx_replaces_transaction_id :: "string option"
  tx_state :: tx_state
  tx_signed_sha256 :: "string option"
  tx_signed_length :: "int option"
  tx_spool_relative_path :: "string option"
  tx_signer_returned_at :: "int option"
  tx_signed_hash_persisted_at :: "int option"
  tx_broadcast_started_at :: "int option"
  tx_submitted_at :: "int option"
  tx_included_at :: "int option"
  tx_finalized_at :: "int option"

record work_lease_row =
  wl_lease_id :: string
  wl_attempt_id :: string
  wl_holder_id :: string
  wl_acquired_at :: int
  wl_heartbeat_at :: int
  wl_expires_at :: int
  wl_state :: lease_state
  wl_released_at :: "int option"

record nonce_lease_row =
  nl_lease_id :: string
  nl_lineage_id :: string
  nl_chain_id :: int
  nl_signer_id :: string
  nl_holder_id :: string
  nl_nonce :: int
  nl_attempt_id :: string
  nl_stage_key :: string
  nl_reservation_id :: string
  nl_intent_id :: "string option"
  nl_acquired_at :: int
  nl_expires_at :: int
  nl_state :: nonce_state
  nl_locked :: bool
  nl_released_at :: "int option"

record budget_row =
  bg_reservation_id :: string
  bg_attempt_id :: string
  bg_run_id :: string
  bg_batch_id :: string
  bg_chain_id :: int
  bg_reserved_wei :: int
  bg_provisional_wei :: int
  bg_finalized_wei :: int
  bg_source_in_flight :: bool
  bg_state :: budget_state
  bg_created_at :: int

record limit_row =
  bl_run_id :: string
  bl_chain_id :: int
  bl_max_transaction_wei :: int
  bl_max_batch_wei :: int
  bl_max_run_wei :: int
  bl_minimum_runner_balance_wei :: int
  bl_observed_runner_balance_wei :: int
  bl_updated_at :: int

record total_row =
  bt_run_id :: string
  bt_chain_id :: int
  bt_active_reserved_wei :: int
  bt_provisional_wei :: int
  bt_finalized_wei :: int
  bt_updated_at :: int

record batch_total_row =
  bb_run_id :: string
  bb_batch_id :: string
  bb_chain_id :: int
  bb_active_reserved_wei :: int
  bb_provisional_wei :: int
  bb_finalized_wei :: int
  bb_updated_at :: int

record sub_row =
  sb_subreservation_id :: string
  sb_reservation_id :: string
  sb_attempt_id :: string
  sb_stage_key :: string
  sb_chain_id :: int
  sb_lineage_id :: "string option"
  sb_reserved_wei :: int
  sb_allocated_wei :: int
  sb_provisional_wei :: int
  sb_finalized_wei :: int
  sb_state :: sub_state
  sb_release_proof_sha256 :: "string option"
  sb_manual_release_decision_sha256 :: "string option"
  sb_signed_bytes_destroyed :: bool

record budget_event_row =
  be_run_id :: string
  be_batch_id :: string
  be_chain_id :: int
  be_reservation_id :: string
  be_subreservation_id :: "string option"
  be_event_type :: string
  be_reserved_delta_wei :: int
  be_provisional_delta_wei :: int
  be_finalized_delta_wei :: int
  be_details :: json
  be_occurred_at :: int

record control_row =
  rc_run_id :: string
  rc_mode :: control_mode
  rc_reason_code :: string
  rc_decision_id :: string
  rc_decision_sha256 :: string
  rc_approval_payload_sha256 :: "string option"
  rc_sequence :: int
  rc_updated_at :: int

record control_event_row =
  ce_run_id :: string
  ce_from_mode :: "control_mode option"
  ce_to_mode :: control_mode
  ce_reason_code :: string
  ce_decision_id :: string
  ce_decision_sha256 :: string
  ce_approval_payload_sha256 :: "string option"
  ce_occurred_at :: int

record carrier_message_row =
  cm_carrier_message_id :: string
  cm_attempt_id :: string
  cm_leg_index :: int
  cm_protocol :: string
  cm_protocol_identifier :: string
  cm_source_selector :: "int option"
  cm_destination_selector :: "int option"
  cm_protocol_nonce :: "int option"
  cm_payload_sha256 :: "string option"
  cm_source_transaction_id :: "string option"
  cm_destination_transaction_id :: "string option"

record violation_row =
  iv_violation_id :: string
  iv_run_id :: string
  iv_invariant_code :: string
  iv_details :: json
  iv_resolved_at :: "int option"

record journal_row =
  tj_entity_kind :: string
  tj_entity_id :: string
  tj_from_state :: "entity_state option"
  tj_to_state :: entity_state
  tj_payload :: json
  tj_occurred_at :: int

datatype policy_category = Financial | Execution | Evidence_operations

record policy_event_row =
  pe_event_id :: string
  pe_run_id :: string
  pe_category :: policy_category
  pe_policy_code :: string
  pe_triggered :: bool
  pe_threshold :: json
  pe_observed :: json
  pe_occurred_at :: int

record outcome_row =
  xo_outcome_id :: string
  xo_run_id :: string
  xo_failed :: bool
  xo_timed_out :: bool
  xo_occurred_at :: int

record consumption_row =
  ac_approval_id :: string
  ac_issuer_id :: string
  ac_approval_key_id :: string
  ac_issuer_sequence :: int
  ac_operation_type :: string
  ac_operation_id :: string
  ac_payload_sha256 :: string
  ac_valid_from :: int
  ac_valid_until :: int
  ac_consumed_at :: int

record revocation_row =
  ar_revocation_id :: string
  ar_approval_id :: string
  ar_issuer_id :: string
  ar_approval_key_id :: string
  ar_issuer_sequence :: int
  ar_payload_sha256 :: string
  ar_revoked_at :: int

section \<open>The database\<close>

record db =
  t_runs :: "run_row list"
  t_conditions :: "condition_row list"
  t_pairs :: "pair_row list"
  t_attempts :: "attempt_row list"
  t_stages :: "stage_row list"
  t_intents :: "intent_row list"
  t_transactions :: "transaction_row list"
  t_work_leases :: "work_lease_row list"
  t_nonce_leases :: "nonce_lease_row list"
  t_budgets :: "budget_row list"
  t_limits :: "limit_row list"
  t_totals :: "total_row list"
  t_batch_totals :: "batch_total_row list"
  t_subs :: "sub_row list"
  t_budget_events :: "budget_event_row list"
  t_run_controls :: "control_row list"
  t_control_events :: "control_event_row list"
  t_carrier_messages :: "carrier_message_row list"
  t_violations :: "violation_row list"
  t_journal :: "journal_row list"
  t_policy_events :: "policy_event_row list"
  t_outcomes :: "outcome_row list"
  t_consumptions :: "consumption_row list"
  t_revocations :: "revocation_row list"

definition empty_db :: db where
  "empty_db = \<lparr>t_runs = [], t_conditions = [], t_pairs = [], t_attempts = [], t_stages = [],
     t_intents = [], t_transactions = [], t_work_leases = [], t_nonce_leases = [], t_budgets = [],
     t_limits = [], t_totals = [], t_batch_totals = [], t_subs = [], t_budget_events = [],
     t_run_controls = [], t_control_events = [], t_carrier_messages = [], t_violations = [],
     t_journal = [], t_policy_events = [], t_outcomes = [], t_consumptions = [], t_revocations = []\<rparr>"

text \<open>
  \<^verbatim>\<open>EvidenceStore.write\<close>: the body runs in one SQLite transaction; an exception rolls the
  database back and propagates, a return commits.
\<close>

type_synonym 'a txn = "db \<Rightarrow> exn + 'a \<times> db"
type_synonym 'a outcome = "(exn + 'a) \<times> db"

definition store_write :: "('d \<Rightarrow> exn + 'a \<times> 'd) \<Rightarrow> 'd \<Rightarrow> (exn + 'a) \<times> 'd" where
  "store_write body db = (case body db of Inl e \<Rightarrow> (Inl e, db) | Inr (a, db') \<Rightarrow> (Inr a, db'))"

lemma store_write_cases:
  obtains (rolled_back) e where "body db = Inl e" and "store_write body db = (Inl e, db)"
  | (committed) a db' where "body db = Inr (a, db')" and "store_write body db = (Inr a, db')"
  by (cases "body db") (auto simp: store_write_def)

lemma snd_store_write: "snd (store_write body db) = (case body db of Inl _ \<Rightarrow> db | Inr r \<Rightarrow> snd r)"
  by (auto simp: store_write_def split: sum.splits)

text \<open>What a transaction body keeps, the whole transaction keeps.\<close>

lemma store_write_keeps:
  assumes "P db" and "\<And>a db'. body db = Inr (a, db') \<Longrightarrow> P db'"
  shows "P (snd (store_write body db))"
  using assms by (auto simp: snd_store_write split: sum.splits)

section \<open>Journal, attempts and transactions\<close>

definition append_transition ::
  "int \<Rightarrow> string \<Rightarrow> string \<Rightarrow> entity_state option \<Rightarrow> entity_state \<Rightarrow> json \<Rightarrow> db \<Rightarrow> db" where
  "append_transition clk entity_kind entity_id from_state to_state payload db =
     db\<lparr>t_journal := t_journal db @
       [\<lparr>tj_entity_kind = entity_kind, tj_entity_id = entity_id, tj_from_state = from_state,
         tj_to_state = to_state, tj_payload = payload, tj_occurred_at = clk\<rparr>]\<rparr>"

definition terminal_attempt_states :: "attempt_state list" where
  "terminal_attempt_states =
     [A_not_submitted, A_delivered, A_submission_failed, A_carrier_failed, A_xir_rejected,
      A_destination_failed, A_timed_out, A_observer_failed, A_incomplete_evidence]"

definition find_run :: "string \<Rightarrow> db \<Rightarrow> run_row option" where
  "find_run i db = find (\<lambda>r. rn_run_id r = i) (t_runs db)"

definition find_condition :: "string \<Rightarrow> db \<Rightarrow> condition_row option" where
  "find_condition i db = find (\<lambda>r. cd_condition_id r = i) (t_conditions db)"

definition find_attempt :: "string \<Rightarrow> db \<Rightarrow> attempt_row option" where
  "find_attempt i db = find (\<lambda>r. at_attempt_id r = i) (t_attempts db)"

definition find_stage :: "string \<Rightarrow> db \<Rightarrow> stage_row option" where
  "find_stage i db = find (\<lambda>r. sg_stage_id r = i) (t_stages db)"

definition find_intent :: "string \<Rightarrow> db \<Rightarrow> intent_row option" where
  "find_intent i db = find (\<lambda>r. it_intent_id r = i) (t_intents db)"

definition find_transaction :: "string \<Rightarrow> db \<Rightarrow> transaction_row option" where
  "find_transaction i db = find (\<lambda>r. tx_transaction_id r = i) (t_transactions db)"

text \<open>The run of a transaction, along intent, stage, attempt and condition.\<close>

definition run_of_transaction :: "string \<Rightarrow> db \<Rightarrow> (transaction_row \<times> string) option" where
  "run_of_transaction transaction_id db =
     Option.bind (find_transaction transaction_id db) (\<lambda>t.
     Option.bind (find_intent (tx_intent_id t) db) (\<lambda>i.
     Option.bind (find_stage (it_stage_id i) db) (\<lambda>g.
     Option.bind (find_attempt (sg_attempt_id g) db) (\<lambda>a.
     Option.bind (find_condition (at_condition_id a) db) (\<lambda>c. Some (t, cd_run_id c))))))"

definition set_attempt_state :: "string \<Rightarrow> attempt_state \<Rightarrow> db \<Rightarrow> db" where
  "set_attempt_state i s db =
     db\<lparr>t_attempts := update_where (\<lambda>r. at_attempt_id r = i) (at_state_update (\<lambda>_. s)) (t_attempts db)\<rparr>"

definition set_run_state :: "string \<Rightarrow> run_state \<Rightarrow> db \<Rightarrow> db" where
  "set_run_state i s db =
     db\<lparr>t_runs := update_where (\<lambda>r. rn_run_id r = i) (rn_state_update (\<lambda>_. s)) (t_runs db)\<rparr>"

lemma find_run_set_state:
  "find_run r (set_run_state r s d) = map_option (rn_state_update (\<lambda>_. s)) (find_run r d)"
proof (cases "find_run r d")
  case (Some x)
  then have "rn_run_id x = r" by (auto simp: find_run_def dest: find_SomeD)
  with Some show ?thesis by (simp add: find_run_def set_run_state_def find_update_where)
qed (simp add: find_run_def set_run_state_def find_update_where)

definition update_attempt_state_txn :: "int \<Rightarrow> string \<Rightarrow> attempt_state \<Rightarrow> unit txn" where
  "update_attempt_state_txn clk attempt_id to_state db =
     bindE (require (find_attempt attempt_id db) (StoreError ST_unknown_attempt)) (\<lambda>row.
     bindE (ensure (at_state row \<notin> set terminal_attempt_states) (StoreError ST_terminal_attempt)) (\<lambda>_.
     Inr ((), append_transition clk ''attempt'' attempt_id (Some (E_attempt (at_state row)))
                (E_attempt to_state) (JObj []) (set_attempt_state attempt_id to_state db))))"

definition update_attempt_state :: "int \<Rightarrow> string \<Rightarrow> attempt_state \<Rightarrow> db \<Rightarrow> unit outcome" where
  "update_attempt_state clk attempt_id to_state = store_write (update_attempt_state_txn clk attempt_id to_state)"

text \<open>
  \<^verbatim>\<open>insert_attempt\<close>. The insert itself fails on the primary key, on a dangling condition or
  pair and on the retry shape \<^verbatim>\<open>CHECK\<close>.
\<close>

definition attempt_shape_ok :: "attempt_kind \<Rightarrow> attempt_kind option \<Rightarrow> string option \<Rightarrow> bool" where
  "attempt_shape_ok kind original retry_of \<longleftrightarrow>
     (kind = Retry \<and> retry_of \<noteq> None \<and> original \<noteq> None \<and> original \<noteq> Some Retry) \<or>
     (kind \<noteq> Retry \<and> retry_of = None \<and> original = None)"

definition retry_lineage_ok ::
  "string \<Rightarrow> string option \<Rightarrow> arm \<Rightarrow> attempt_kind option \<Rightarrow> attempt_row \<Rightarrow> bool" where
  "retry_lineage_ok condition_id pair_id arm original prior \<longleftrightarrow>
     (let expected = (if at_attempt_kind prior = Retry then at_original_attempt_kind prior
                      else Some (at_attempt_kind prior))
      in (at_condition_id prior, at_pair_id prior, at_arm prior, expected)
           = (condition_id, pair_id, arm, original))"

definition check_retry_lineage ::
  "string \<Rightarrow> string option \<Rightarrow> arm \<Rightarrow> attempt_kind \<Rightarrow> attempt_kind option \<Rightarrow> string option \<Rightarrow> db
     \<Rightarrow> exn + unit" where
  "check_retry_lineage condition_id pair_id arm kind original retry_of db =
     (if kind = Retry
      then bindE (require (Option.bind retry_of (\<lambda>i. find_attempt i db))
                          (StoreError ST_unknown_retry_predecessor)) (\<lambda>prior.
           ensure (retry_lineage_ok condition_id pair_id arm original prior)
                  (StoreError ST_retry_changed_coordinates))
      else ensure (retry_of = None \<and> original = None) (StoreError ST_unexpected_retry_lineage))"

definition insert_attempt_txn ::
  "int \<Rightarrow> string \<Rightarrow> string \<Rightarrow> string option \<Rightarrow> arm \<Rightarrow> attempt_kind \<Rightarrow> attempt_kind option
     \<Rightarrow> string option \<Rightarrow> unit txn" where
  "insert_attempt_txn clk attempt_id condition_id pair_id arm kind original retry_of db =
     bindE (check_retry_lineage condition_id pair_id arm kind original retry_of db) (\<lambda>_.
     bindE (ensure (find_attempt attempt_id db = None
                    \<and> find_condition condition_id db \<noteq> None
                    \<and> (case pair_id of None \<Rightarrow> True
                       | Some p \<Rightarrow> list_ex (\<lambda>r. pr_pair_id r = p) (t_pairs db))
                    \<and> attempt_shape_ok kind original retry_of) IntegrityError) (\<lambda>_.
     Inr ((), append_transition clk ''attempt'' attempt_id None (E_attempt A_planned)
                (JObj [(''attempt_kind'', JStr (case kind of Pilot \<Rightarrow> ''pilot'' | Warmup \<Rightarrow> ''warmup''
                                                 | Primary \<Rightarrow> ''primary'' | Retry \<Rightarrow> ''retry''))])
                (db\<lparr>t_attempts := t_attempts db @
                   [\<lparr>at_attempt_id = attempt_id, at_condition_id = condition_id, at_pair_id = pair_id,
                     at_arm = arm, at_attempt_kind = kind, at_original_attempt_kind = original,
                     at_retry_of = retry_of, at_schedule_index = None, at_batch_index = None,
                     at_state = A_planned, at_created_at = clk\<rparr>]\<rparr>))))"

definition insert_attempt ::
  "int \<Rightarrow> string \<Rightarrow> string \<Rightarrow> string option \<Rightarrow> arm \<Rightarrow> attempt_kind \<Rightarrow> attempt_kind option
     \<Rightarrow> string option \<Rightarrow> db \<Rightarrow> unit outcome" where
  "insert_attempt clk attempt_id condition_id pair_id arm kind original retry_of =
     store_write (insert_attempt_txn clk attempt_id condition_id pair_id arm kind original retry_of)"

end
