(* ===== verification/Xir_Leases.thy ===== *)
theory Xir_Leases
  imports Xir_Store
begin

text \<open>
  \<^verbatim>\<open>execute/leases.py\<close>: durable work leases, nonce leases and complete-route budget
  reservations. Every public method of \<^verbatim>\<open>LeaseBudgetManager\<close> is a definition of the same
  name from the database to an outcome (a value or an exception, and the database afterwards); the
  body that runs inside \<^verbatim>\<open>with self.store.write()\<close> is the definition with suffix
  \<open>_txn\<close>. Amounts are integers of wei; columns with \<^verbatim>\<open>CHECK(.. >= 0)\<close> in a
  \<^verbatim>\<open>STRICT\<close> table accept \<open>amount_ok\<close> values only. \<open>clk\<close> is the system clock
  during the call.
\<close>

section \<open>Arguments and results\<close>

record budget_limit =
  lim_chain_id :: int
  lim_max_transaction_wei :: int
  lim_max_batch_wei :: int
  lim_max_run_wei :: int
  lim_minimum_runner_balance_wei :: int
  lim_observed_runner_balance_wei :: int

record planned_stage =
  ps_stage_key :: string
  ps_chain_id :: int
  ps_gas_wei :: int
  ps_carrier_payment_wei :: int
  ps_transaction_value_wei :: int
  ps_other_runner_funded_wei :: int
  ps_replacement_allowance_wei :: int

record work_lease =
  wk_lease_id :: string
  wk_attempt_id :: string
  wk_holder_id :: string
  wk_expires_at :: int

record budget_snapshot =
  bs_run_id :: string
  bs_chain_id :: int
  bs_active_reserved_wei :: int
  bs_provisional_wei :: int
  bs_finalized_wei :: int
  bs_observed_runner_balance_wei :: int
  bs_minimum_runner_balance_wei :: int

definition worst_case_wei :: "planned_stage \<Rightarrow> exn + int" where
  "worst_case_wei s =
     (let values = [ps_gas_wei s, ps_carrier_payment_wei s, ps_transaction_value_wei s,
                    ps_other_runner_funded_wei s, ps_replacement_allowance_wei s]
      in if list_ex (\<lambda>v. v < 0) values then Inl (BudgetError BE_negative_stage_value)
         else Inr (sum_list values))"

text \<open>A value a \<^verbatim>\<open>CHECK(x >= 0)\<close> integer column accepts.\<close>

definition amount_ok :: "int \<Rightarrow> bool" where
  "amount_ok v \<longleftrightarrow> 0 \<le> v \<and> int64 v"

section \<open>Private helpers\<close>

definition find_limit :: "string \<Rightarrow> int \<Rightarrow> db \<Rightarrow> limit_row option" where
  "find_limit run_id chain_id db = find (\<lambda>r. bl_run_id r = run_id \<and> bl_chain_id r = chain_id) (t_limits db)"

definition find_total :: "string \<Rightarrow> int \<Rightarrow> db \<Rightarrow> total_row option" where
  "find_total run_id chain_id db = find (\<lambda>r. bt_run_id r = run_id \<and> bt_chain_id r = chain_id) (t_totals db)"

definition find_batch_total :: "string \<Rightarrow> string \<Rightarrow> int \<Rightarrow> db \<Rightarrow> batch_total_row option" where
  "find_batch_total run_id batch_id chain_id db =
     find (\<lambda>r. bb_run_id r = run_id \<and> bb_batch_id r = batch_id \<and> bb_chain_id r = chain_id) (t_batch_totals db)"

definition find_budget :: "string \<Rightarrow> int \<Rightarrow> db \<Rightarrow> budget_row option" where
  "find_budget reservation_id chain_id db =
     find (\<lambda>r. bg_reservation_id r = reservation_id \<and> bg_chain_id r = chain_id) (t_budgets db)"

definition budget_limit_of :: "string \<Rightarrow> int \<Rightarrow> db \<Rightarrow> exn + limit_row" where
  "budget_limit_of run_id chain_id db =
     bindE (ensure (int64 chain_id) OverflowError) (\<lambda>_.
     require (find_limit run_id chain_id db) (BudgetError BE_missing_limit))"

definition assert_capacity ::
  "string \<Rightarrow> string \<Rightarrow> int \<Rightarrow> int \<Rightarrow> int \<Rightarrow> db \<Rightarrow> exn + unit" where
  "assert_capacity run_id batch_id chain_id requested_wei finalized_credit_wei db =
     bindE (budget_limit_of run_id chain_id db) (\<lambda>limit.
     bindE (require (find_total run_id chain_id db) (BudgetError BE_missing_totals)) (\<lambda>tot.
     let batch = find_batch_total run_id batch_id chain_id db;
         batch_active = (case batch of None \<Rightarrow> 0 | Some b \<Rightarrow> bb_active_reserved_wei b);
         batch_finalized = (case batch of None \<Rightarrow> 0 | Some b \<Rightarrow> bb_finalized_wei b);
         run_use = bt_active_reserved_wei tot + bt_finalized_wei tot - finalized_credit_wei + requested_wei;
         batch_use = batch_active + batch_finalized - finalized_credit_wei + requested_wei
     in bindE (ensure (\<not> run_use > bl_max_run_wei limit) (BudgetError BE_run_exhausted)) (\<lambda>_.
        bindE (ensure (\<not> batch_use > bl_max_batch_wei limit) (BudgetError BE_batch_exhausted)) (\<lambda>_.
        ensure (\<not> bl_observed_runner_balance_wei limit - bt_active_reserved_wei tot - requested_wei
                   < bl_minimum_runner_balance_wei limit) (BudgetError BE_balance_floor)))))"

definition total_ok :: "total_row \<Rightarrow> bool" where
  "total_ok r \<longleftrightarrow> amount_ok (bt_active_reserved_wei r) \<and> amount_ok (bt_provisional_wei r)
                 \<and> amount_ok (bt_finalized_wei r)"

definition batch_total_ok :: "batch_total_row \<Rightarrow> bool" where
  "batch_total_ok r \<longleftrightarrow> amount_ok (bb_active_reserved_wei r) \<and> amount_ok (bb_provisional_wei r)
                 \<and> amount_ok (bb_finalized_wei r)"

definition bump_total :: "int \<Rightarrow> int \<Rightarrow> int \<Rightarrow> int \<Rightarrow> total_row \<Rightarrow> total_row" where
  "bump_total reserved_delta provisional_delta finalized_delta at r =
     r\<lparr>bt_active_reserved_wei := bt_active_reserved_wei r + reserved_delta,
       bt_provisional_wei := bt_provisional_wei r + provisional_delta,
       bt_finalized_wei := bt_finalized_wei r + finalized_delta,
       bt_updated_at := at\<rparr>"

definition bump_batch_total :: "int \<Rightarrow> int \<Rightarrow> int \<Rightarrow> int \<Rightarrow> batch_total_row \<Rightarrow> batch_total_row" where
  "bump_batch_total reserved_delta provisional_delta finalized_delta at r =
     r\<lparr>bb_active_reserved_wei := bb_active_reserved_wei r + reserved_delta,
       bb_provisional_wei := bb_provisional_wei r + provisional_delta,
       bb_finalized_wei := bb_finalized_wei r + finalized_delta,
       bb_updated_at := at\<rparr>"

text \<open>The two statements of \<^verbatim>\<open>_change_totals\<close>, one per table.\<close>

definition change_run_totals ::
  "string \<Rightarrow> int \<Rightarrow> int \<Rightarrow> int \<Rightarrow> int \<Rightarrow> int \<Rightarrow> total_row list \<Rightarrow> exn + total_row list" where
  "change_run_totals run_id chain_id rd pd fd at rows =
     (let hit = (\<lambda>r. bt_run_id r = run_id \<and> bt_chain_id r = chain_id);
          rows' = update_where hit (bump_total rd pd fd at) rows
      in bindE (ensure (list_all (\<lambda>r. hit r \<longrightarrow> total_ok r) rows') IntegrityError) (\<lambda>_. Inr rows'))"

definition change_batch_totals ::
  "string \<Rightarrow> string \<Rightarrow> int \<Rightarrow> int \<Rightarrow> int \<Rightarrow> int \<Rightarrow> int \<Rightarrow> batch_total_row list
     \<Rightarrow> exn + batch_total_row list" where
  "change_batch_totals run_id batch_id chain_id rd pd fd at rows =
     (let hit = (\<lambda>r. bb_run_id r = run_id \<and> bb_batch_id r = batch_id \<and> bb_chain_id r = chain_id)
      in if list_ex hit rows
         then (let rows' = update_where hit (bump_batch_total rd pd fd at) rows
               in bindE (ensure (list_all (\<lambda>r. hit r \<longrightarrow> batch_total_ok r) rows') IntegrityError)
                        (\<lambda>_. Inr rows'))
         else if min rd (min pd fd) < 0 then Inl (BudgetError BE_missing_batch_totals)
         else bindE (ensure (list_all int64 [rd, pd, fd]) OverflowError) (\<lambda>_.
              Inr (rows @ [\<lparr>bb_run_id = run_id, bb_batch_id = batch_id, bb_chain_id = chain_id,
                            bb_active_reserved_wei = rd, bb_provisional_wei = pd,
                            bb_finalized_wei = fd, bb_updated_at = at\<rparr>])))"

definition change_totals ::
  "string \<Rightarrow> string \<Rightarrow> int \<Rightarrow> int \<Rightarrow> int \<Rightarrow> int \<Rightarrow> int \<Rightarrow> db \<Rightarrow> exn + db" where
  "change_totals run_id batch_id chain_id reserved_delta provisional_delta finalized_delta at db =
     bindE (change_run_totals run_id chain_id reserved_delta provisional_delta finalized_delta at
              (t_totals db)) (\<lambda>ts.
     bindE (change_batch_totals run_id batch_id chain_id reserved_delta provisional_delta
              finalized_delta at (t_batch_totals db)) (\<lambda>bs.
     Inr (db\<lparr>t_totals := ts, t_batch_totals := bs\<rparr>)))"

definition budget_event ::
  "string \<Rightarrow> string \<Rightarrow> int \<Rightarrow> string \<Rightarrow> string option \<Rightarrow> string \<Rightarrow> int \<Rightarrow> int \<Rightarrow> int \<Rightarrow> json \<Rightarrow> int
     \<Rightarrow> db \<Rightarrow> db" where
  "budget_event run_id batch_id chain_id reservation_id subreservation_id event_type
     reserved_delta provisional_delta finalized_delta details at db =
     db\<lparr>t_budget_events := t_budget_events db @
       [\<lparr>be_run_id = run_id, be_batch_id = batch_id, be_chain_id = chain_id,
         be_reservation_id = reservation_id, be_subreservation_id = subreservation_id,
         be_event_type = event_type, be_reserved_delta_wei = reserved_delta,
         be_provisional_delta_wei = provisional_delta,
         be_finalized_delta_wei = finalized_delta, be_details = details, be_occurred_at = at\<rparr>]\<rparr>"

text \<open>
  \<^verbatim>\<open>_lineage\<close>: the sub-reservation bound to a lineage, joined with its nonce lease and its
  budget row. All three keys are unique, so the join has at most one row.
\<close>

definition lineage :: "string \<Rightarrow> db \<Rightarrow> exn + sub_row \<times> nonce_lease_row \<times> budget_row" where
  "lineage lineage_id db =
     bindE (require (find (\<lambda>r. sb_lineage_id r = Some lineage_id) (t_subs db))
              (LeaseError LE_unknown_lineage)) (\<lambda>sub.
     bindE (require (find (\<lambda>r. nl_lineage_id r = lineage_id) (t_nonce_leases db))
              (LeaseError LE_unknown_lineage)) (\<lambda>nonce.
     bindE (require (find_budget (sb_reservation_id sub) (sb_chain_id sub) db)
              (LeaseError LE_unknown_lineage)) (\<lambda>budget.
     Inr (sub, nonce, budget))))"

definition lineage_event ::
  "sub_row \<Rightarrow> budget_row \<Rightarrow> string \<Rightarrow> int \<Rightarrow> int \<Rightarrow> int \<Rightarrow> json \<Rightarrow> int \<Rightarrow> db \<Rightarrow> db" where
  "lineage_event sub budget event_type reserved_delta provisional_delta finalized_delta details at =
     budget_event (bg_run_id budget) (bg_batch_id budget) (sb_chain_id sub) (sb_reservation_id sub)
       (Some (sb_subreservation_id sub)) event_type reserved_delta provisional_delta finalized_delta
       details at"

definition update_lineage_sub :: "string \<Rightarrow> (sub_row \<Rightarrow> sub_row) \<Rightarrow> db \<Rightarrow> db" where
  "update_lineage_sub lineage_id f db =
     db\<lparr>t_subs := update_where (\<lambda>r. sb_lineage_id r = Some lineage_id) f (t_subs db)\<rparr>"

definition update_lineage_nonce :: "string \<Rightarrow> (nonce_lease_row \<Rightarrow> nonce_lease_row) \<Rightarrow> db \<Rightarrow> db" where
  "update_lineage_nonce lineage_id f db =
     db\<lparr>t_nonce_leases := update_where (\<lambda>r. nl_lineage_id r = lineage_id) f (t_nonce_leases db)\<rparr>"

definition update_budget_amounts :: "sub_row \<Rightarrow> (budget_row \<Rightarrow> budget_row) \<Rightarrow> db \<Rightarrow> exn + db" where
  "update_budget_amounts sub f db =
     (let hit = (\<lambda>r. bg_reservation_id r = sb_reservation_id sub \<and> bg_chain_id r = sb_chain_id sub);
          rows = update_where hit f (t_budgets db)
      in bindE (ensure (list_all (\<lambda>r. hit r \<longrightarrow> amount_ok (bg_provisional_wei r)
                                      \<and> amount_ok (bg_finalized_wei r)) rows) IntegrityError)
               (\<lambda>_. Inr (db\<lparr>t_budgets := rows\<rparr>)))"

definition sub_settled :: "sub_row \<Rightarrow> bool" where
  "sub_settled s \<longleftrightarrow> sb_state s = S_finalized \<or> sb_state s = S_released"

definition settle_completed_budget_rows :: "string \<Rightarrow> db \<Rightarrow> db" where
  "settle_completed_budget_rows reservation_id db =
     db\<lparr>t_budgets := update_where
       (\<lambda>r. bg_reservation_id r = reservation_id
          \<and> \<not> list_ex (\<lambda>s. sb_reservation_id s = bg_reservation_id r
                          \<and> sb_chain_id s = bg_chain_id r \<and> \<not> sub_settled s) (t_subs db))
       (bg_state_update (\<lambda>_. B_settled)) (t_budgets db)\<rparr>"

definition attempt_has_unresolved_submission :: "string \<Rightarrow> db \<Rightarrow> bool" where
  "attempt_has_unresolved_submission attempt_id db \<longleftrightarrow>
     list_ex (\<lambda>t. case find_intent (tx_intent_id t) db of None \<Rightarrow> False
                 | Some i \<Rightarrow> (case find_stage (it_stage_id i) db of None \<Rightarrow> False
                    | Some g \<Rightarrow> sg_attempt_id g = attempt_id
                        \<and> tx_state t \<notin> {T_finalized, T_released, T_dropped})) (t_transactions db)
     \<or> list_ex (\<lambda>n. nl_attempt_id n = attempt_id \<and> nl_locked n) (t_nonce_leases db)"

section \<open>Budget limits\<close>

definition immutable_limits :: "budget_limit \<Rightarrow> int \<times> int \<times> int \<times> int" where
  "immutable_limits l = (lim_max_transaction_wei l, lim_max_batch_wei l, lim_max_run_wei l,
                         lim_minimum_runner_balance_wei l)"

definition stored_limits :: "limit_row \<Rightarrow> int \<times> int \<times> int \<times> int" where
  "stored_limits r = (bl_max_transaction_wei r, bl_max_batch_wei r, bl_max_run_wei r,
                      bl_minimum_runner_balance_wei r)"

definition upsert_limit :: "string \<Rightarrow> budget_limit \<Rightarrow> int \<Rightarrow> db \<Rightarrow> db" where
  "upsert_limit run_id l now db =
     (case find_limit run_id (lim_chain_id l) db of
        None \<Rightarrow> db\<lparr>t_limits := t_limits db @
          [\<lparr>bl_run_id = run_id, bl_chain_id = lim_chain_id l,
            bl_max_transaction_wei = lim_max_transaction_wei l, bl_max_batch_wei = lim_max_batch_wei l,
            bl_max_run_wei = lim_max_run_wei l,
            bl_minimum_runner_balance_wei = lim_minimum_runner_balance_wei l,
            bl_observed_runner_balance_wei = lim_observed_runner_balance_wei l, bl_updated_at = now\<rparr>]\<rparr>
      | Some _ \<Rightarrow> db\<lparr>t_limits := update_where
          (\<lambda>r. bl_run_id r = run_id \<and> bl_chain_id r = lim_chain_id l)
          (\<lambda>r. r\<lparr>bl_observed_runner_balance_wei := lim_observed_runner_balance_wei l,
                 bl_updated_at := now\<rparr>) (t_limits db)\<rparr>)"

definition init_totals :: "string \<Rightarrow> int \<Rightarrow> int \<Rightarrow> db \<Rightarrow> db" where
  "init_totals run_id chain_id now db =
     (case find_total run_id chain_id db of
        Some _ \<Rightarrow> db
      | None \<Rightarrow> db\<lparr>t_totals := t_totals db @
          [\<lparr>bt_run_id = run_id, bt_chain_id = chain_id, bt_active_reserved_wei = 0,
            bt_provisional_wei = 0, bt_finalized_wei = 0, bt_updated_at = now\<rparr>]\<rparr>)"

definition configure_limit :: "string \<Rightarrow> int \<Rightarrow> budget_limit \<Rightarrow> db \<Rightarrow> exn + db" where
  "configure_limit run_id now l db =
     (let values = [lim_max_transaction_wei l, lim_max_batch_wei l, lim_max_run_wei l,
                    lim_minimum_runner_balance_wei l, lim_observed_runner_balance_wei l]
      in bindE (ensure (\<not> list_ex (\<lambda>v. v < 0) values) (BudgetError BE_negative_limit)) (\<lambda>_.
         bindE (ensure (lim_max_transaction_wei l \<le> lim_max_batch_wei l
                        \<and> lim_max_batch_wei l \<le> lim_max_run_wei l) (BudgetError BE_limit_order)) (\<lambda>_.
         bindE (ensure (int64 (lim_chain_id l)) OverflowError) (\<lambda>_.
         bindE (ensure (case find_limit run_id (lim_chain_id l) db of None \<Rightarrow> True
                        | Some present \<Rightarrow> stored_limits present = immutable_limits l)
                       (BudgetError BE_limits_immutable)) (\<lambda>_.
         bindE (ensure (list_all int64 values) OverflowError) (\<lambda>_.
         Inr (init_totals run_id (lim_chain_id l) now (upsert_limit run_id l now db))))))))"

definition configure_limits_txn :: "string \<Rightarrow> budget_limit list \<Rightarrow> int \<Rightarrow> unit txn" where
  "configure_limits_txn run_id rows now db =
     bindE (require (find_run run_id db) (BudgetError BE_unknown_run)) (\<lambda>_.
     bindE (foldE (configure_limit run_id now) rows db) (\<lambda>db'. Inr ((), db')))"

definition configure_limits ::
  "int \<Rightarrow> string \<Rightarrow> budget_limit list \<Rightarrow> pydatetime option \<Rightarrow> db \<Rightarrow> unit outcome" where
  "configure_limits clk run_id rows observed_at db =
     (if rows = [] then (Inl (BudgetError BE_no_limits), db)
      else if \<not> distinct (map lim_chain_id rows) then (Inl (BudgetError BE_duplicate_chain_limits), db)
      else case utc_of ValueError clk observed_at of
             Inl e \<Rightarrow> (Inl e, db)
           | Inr now \<Rightarrow> store_write (configure_limits_txn run_id rows now) db)"

section \<open>Work leases\<close>

definition find_active_lease :: "string \<Rightarrow> db \<Rightarrow> work_lease_row option" where
  "find_active_lease attempt_id db =
     find (\<lambda>r. wl_attempt_id r = attempt_id \<and> wl_state r = W_active) (t_work_leases db)"

definition find_lease :: "string \<Rightarrow> db \<Rightarrow> work_lease_row option" where
  "find_lease lease_id db = find (\<lambda>r. wl_lease_id r = lease_id) (t_work_leases db)"

definition update_lease :: "string \<Rightarrow> (work_lease_row \<Rightarrow> work_lease_row) \<Rightarrow> db \<Rightarrow> db" where
  "update_lease lease_id f db =
     db\<lparr>t_work_leases := update_where (\<lambda>r. wl_lease_id r = lease_id) f (t_work_leases db)\<rparr>"

definition expire_active_lease :: "string \<Rightarrow> int \<Rightarrow> db \<Rightarrow> exn + db" where
  "expire_active_lease attempt_id acquired db =
     (case find_active_lease attempt_id db of
        None \<Rightarrow> Inr db
      | Some active \<Rightarrow>
          bindE (ensure (\<not> wl_expires_at active > acquired)
                   (LeaseError (LE_already_leased (wl_holder_id active)))) (\<lambda>_.
          bindE (ensure (\<not> attempt_has_unresolved_submission attempt_id db)
                   (LeaseError LE_unresolved_submission)) (\<lambda>_.
          Inr (update_lease (wl_lease_id active)
                 (\<lambda>r. r\<lparr>wl_state := W_expired, wl_released_at := Some acquired\<rparr>) db))))"

definition acquire_work_txn ::
  "int \<Rightarrow> string \<Rightarrow> string \<Rightarrow> string \<Rightarrow> int \<Rightarrow> int \<Rightarrow> work_lease txn" where
  "acquire_work_txn clk lease_id attempt_id holder_id acquired expires db =
     bindE (require (find_attempt attempt_id db) (LeaseError LE_unknown_attempt)) (\<lambda>_.
     bindE (expire_active_lease attempt_id acquired db) (\<lambda>db1.
     bindE (ensure (find_lease lease_id db1 = None \<and> find_active_lease attempt_id db1 = None)
              IntegrityError) (\<lambda>_.
     Inr (\<lparr>wk_lease_id = lease_id, wk_attempt_id = attempt_id, wk_holder_id = holder_id,
            wk_expires_at = expires\<rparr>,
          append_transition clk ''work_lease'' lease_id None (E_lease W_active)
            (JObj [(''attempt_id'', JStr attempt_id), (''holder_id'', JStr holder_id)])
            (db1\<lparr>t_work_leases := t_work_leases db1 @
              [\<lparr>wl_lease_id = lease_id, wl_attempt_id = attempt_id, wl_holder_id = holder_id,
                wl_acquired_at = acquired, wl_heartbeat_at = acquired, wl_expires_at = expires,
                wl_state = W_active, wl_released_at = None\<rparr>]\<rparr>)))))"

definition acquire_work ::
  "int \<Rightarrow> string \<Rightarrow> string \<Rightarrow> string \<Rightarrow> int \<Rightarrow> pydatetime option \<Rightarrow> db \<Rightarrow> work_lease outcome" where
  "acquire_work clk lease_id attempt_id holder_id ttl now db =
     (case utc_of ValueError clk now of
        Inl e \<Rightarrow> (Inl e, db)
      | Inr acquired \<Rightarrow>
          if ttl \<le> 0 then (Inl (LeaseError LE_ttl_not_positive), db)
          else store_write (acquire_work_txn clk lease_id attempt_id holder_id acquired (acquired + ttl)) db)"

definition heartbeat_work_txn ::
  "string \<Rightarrow> string \<Rightarrow> int \<Rightarrow> int \<Rightarrow> work_lease txn" where
  "heartbeat_work_txn lease_id holder_id heartbeat expires db =
     (case find_lease lease_id db of
        None \<Rightarrow> Inl (LeaseError LE_not_active)
      | Some row \<Rightarrow>
          bindE (ensure (wl_state row = W_active) (LeaseError LE_not_active)) (\<lambda>_.
          bindE (ensure (wl_holder_id row = holder_id) (LeaseError LE_holder_mismatch)) (\<lambda>_.
          bindE (ensure (\<not> wl_expires_at row \<le> heartbeat) (LeaseError LE_expired)) (\<lambda>_.
          Inr (\<lparr>wk_lease_id = lease_id, wk_attempt_id = wl_attempt_id row, wk_holder_id = holder_id,
                 wk_expires_at = expires\<rparr>,
               update_lease lease_id
                 (\<lambda>r. r\<lparr>wl_heartbeat_at := heartbeat, wl_expires_at := expires\<rparr>) db)))))"

definition heartbeat_work ::
  "int \<Rightarrow> string \<Rightarrow> string \<Rightarrow> int \<Rightarrow> pydatetime option \<Rightarrow> db \<Rightarrow> work_lease outcome" where
  "heartbeat_work clk lease_id holder_id ttl now db =
     (case utc_of ValueError clk now of
        Inl e \<Rightarrow> (Inl e, db)
      | Inr heartbeat \<Rightarrow>
          if ttl \<le> 0 then (Inl (LeaseError LE_ttl_not_positive), db)
          else store_write (heartbeat_work_txn lease_id holder_id heartbeat (heartbeat + ttl)) db)"

definition release_work_txn :: "int \<Rightarrow> string \<Rightarrow> string \<Rightarrow> unit txn" where
  "release_work_txn clk lease_id holder_id db =
     (case find_lease lease_id db of
        None \<Rightarrow> Inl (LeaseError LE_not_active)
      | Some row \<Rightarrow>
          bindE (ensure (wl_state row = W_active) (LeaseError LE_not_active)) (\<lambda>_.
          bindE (ensure (wl_holder_id row = holder_id) (LeaseError LE_holder_mismatch)) (\<lambda>_.
          Inr ((), update_lease lease_id
                     (\<lambda>r. r\<lparr>wl_state := W_released, wl_released_at := Some clk\<rparr>) db))))"

definition release_work :: "int \<Rightarrow> string \<Rightarrow> string \<Rightarrow> db \<Rightarrow> unit outcome" where
  "release_work clk lease_id holder_id = store_write (release_work_txn clk lease_id holder_id)"

section \<open>Complete-route reservations\<close>

fun stage_totals :: "planned_stage list \<Rightarrow> exn + (planned_stage \<times> int) list" where
  "stage_totals [] = Inr []"
| "stage_totals (s # ss) =
     bindE (worst_case_wei s) (\<lambda>v. bindE (stage_totals ss) (\<lambda>rest. Inr ((s, v) # rest)))"

text \<open>The \<^verbatim>\<open>defaultdict(int)\<close> keyed by chain, in insertion order.\<close>

fun add_to_chain :: "int \<Rightarrow> int \<Rightarrow> (int \<times> int) list \<Rightarrow> (int \<times> int) list" where
  "add_to_chain c v [] = [(c, v)]"
| "add_to_chain c v ((d, w) # rest) =
     (if c = d then (d, w + v) # rest else (d, w) # add_to_chain c v rest)"

definition by_chain :: "(planned_stage \<times> int) list \<Rightarrow> (int \<times> int) list" where
  "by_chain sts = fold (\<lambda>(s, v). add_to_chain (ps_chain_id s) v) sts []"

definition blocks_new_source :: "run_state \<Rightarrow> bool" where
  "blocks_new_source s \<longleftrightarrow> s = Run_mode Drain \<or> s = Run_mode Halted \<or> s = Run_mode Revoked"

definition check_stage_limit :: "string \<Rightarrow> planned_stage \<times> int \<Rightarrow> db \<Rightarrow> exn + db" where
  "check_stage_limit run_id st db =
     bindE (budget_limit_of run_id (ps_chain_id (fst st)) db) (\<lambda>limit.
     bindE (ensure (\<not> snd st > bl_max_transaction_wei limit)
              (BudgetError BE_stage_over_transaction_limit)) (\<lambda>_. Inr db))"

definition check_chain_capacity :: "string \<Rightarrow> string \<Rightarrow> int \<times> int \<Rightarrow> db \<Rightarrow> exn + db" where
  "check_chain_capacity run_id batch_id cv db =
     bindE (assert_capacity run_id batch_id (fst cv) (snd cv) 0 db) (\<lambda>_. Inr db)"

definition budget_conflict :: "string \<Rightarrow> string \<Rightarrow> int \<Rightarrow> db \<Rightarrow> bool" where
  "budget_conflict reservation_id attempt_id chain_id db \<longleftrightarrow>
     list_ex (\<lambda>b. bg_chain_id b = chain_id
                \<and> (bg_reservation_id b = reservation_id \<or> bg_attempt_id b = attempt_id)) (t_budgets db)"

definition reserve_chain ::
  "string \<Rightarrow> string \<Rightarrow> string \<Rightarrow> string \<Rightarrow> int \<Rightarrow> int \<times> int \<Rightarrow> db \<Rightarrow> exn + db" where
  "reserve_chain reservation_id attempt_id run_id batch_id at cv db =
     (let chain_id = fst cv; requested = snd cv
      in bindE (ensure (int64 requested) OverflowError) (\<lambda>_.
         bindE (ensure (\<not> budget_conflict reservation_id attempt_id chain_id db \<and> 0 \<le> requested)
                  IntegrityError) (\<lambda>_.
         bindE (change_totals run_id batch_id chain_id requested 0 0 at
           (db\<lparr>t_budgets := t_budgets db @
             [\<lparr>bg_reservation_id = reservation_id, bg_attempt_id = attempt_id, bg_run_id = run_id,
               bg_batch_id = batch_id, bg_chain_id = chain_id, bg_reserved_wei = requested,
               bg_provisional_wei = 0, bg_finalized_wei = 0, bg_source_in_flight = False,
               bg_state = B_reserved, bg_created_at = at\<rparr>]\<rparr>)) (\<lambda>db'.
         Inr (budget_event run_id batch_id chain_id reservation_id None ''route_reserved''
                requested 0 0 (JObj [(''attempt_id'', JStr attempt_id)]) at db')))))"

definition subreservation_id :: "string \<Rightarrow> nat \<Rightarrow> string" where
  "subreservation_id reservation_id index = reservation_id @ '':stage:'' @ str_nat index"

definition new_sub :: "string \<Rightarrow> string \<Rightarrow> nat \<Rightarrow> planned_stage \<Rightarrow> int \<Rightarrow> sub_row" where
  "new_sub reservation_id attempt_id index stage v =
     \<lparr>sb_subreservation_id = subreservation_id reservation_id index,
      sb_reservation_id = reservation_id, sb_attempt_id = attempt_id,
      sb_stage_key = ps_stage_key stage, sb_chain_id = ps_chain_id stage, sb_lineage_id = None,
      sb_reserved_wei = v, sb_allocated_wei = 0, sb_provisional_wei = 0, sb_finalized_wei = 0,
      sb_state = S_reserved, sb_release_proof_sha256 = None,
      sb_manual_release_decision_sha256 = None, sb_signed_bytes_destroyed = False\<rparr>"

definition sub_conflict :: "sub_row \<Rightarrow> db \<Rightarrow> bool" where
  "sub_conflict s db \<longleftrightarrow>
     list_ex (\<lambda>x. sb_subreservation_id x = sb_subreservation_id s
                \<or> (sb_reservation_id x = sb_reservation_id s \<and> sb_stage_key x = sb_stage_key s))
             (t_subs db)"

definition reserve_stage ::
  "string \<Rightarrow> string \<Rightarrow> nat \<times> planned_stage \<times> int \<Rightarrow> db \<Rightarrow> exn + db" where
  "reserve_stage reservation_id attempt_id ist db =
     (let s = new_sub reservation_id attempt_id (fst ist) (fst (snd ist)) (snd (snd ist))
      in bindE (ensure (\<not> sub_conflict s db
                        \<and> find_budget reservation_id (sb_chain_id s) db \<noteq> None
                        \<and> amount_ok (sb_reserved_wei s)) IntegrityError) (\<lambda>_.
         Inr (db\<lparr>t_subs := t_subs db @ [s]\<rparr>)))"

definition reserve_complete_route_txn ::
  "int \<Rightarrow> string \<Rightarrow> string \<Rightarrow> string \<Rightarrow> (planned_stage \<times> int) list \<Rightarrow> int \<Rightarrow> unit txn" where
  "reserve_complete_route_txn clk reservation_id attempt_id batch_id sts at db =
     bindE (require (find_attempt attempt_id db) (BudgetError BE_unknown_attempt)) (\<lambda>attempt.
     bindE (require (find_condition (at_condition_id attempt) db) (BudgetError BE_unknown_attempt)) (\<lambda>condition.
     bindE (require (find_run (cd_run_id condition) db) (BudgetError BE_unknown_attempt)) (\<lambda>run.
     bindE (ensure (at_state attempt = A_planned) (BudgetError BE_attempt_not_planned)) (\<lambda>_.
     bindE (ensure (\<not> blocks_new_source (rn_state run)) (BudgetError BE_run_state_blocks)) (\<lambda>_.
     bindE (ensure (\<not> list_ex (\<lambda>b. bg_attempt_id b = attempt_id) (t_budgets db))
              (BudgetError BE_already_reserved)) (\<lambda>_.
     bindE (foldE (check_stage_limit (rn_run_id run)) sts db) (\<lambda>_.
     bindE (foldE (check_chain_capacity (rn_run_id run) batch_id) (by_chain sts) db) (\<lambda>_.
     bindE (foldE (reserve_chain reservation_id attempt_id (rn_run_id run) batch_id at) (by_chain sts) db)
       (\<lambda>db1.
     bindE (foldE (reserve_stage reservation_id attempt_id) (enumerate 0 sts) db1) (\<lambda>db2.
     Inr ((), append_transition clk ''budget_reservation'' reservation_id None (E_budget B_reserved)
       (JObj [(''attempt_id'', JStr attempt_id), (''batch_id'', JStr batch_id),
              (''chains'', JObj (map (\<lambda>(c, v). (str_int c, JInt v)) (sort_key fst (by_chain sts))))])
       db2)))))))))))"

definition reserve_complete_route ::
  "int \<Rightarrow> string \<Rightarrow> string \<Rightarrow> string \<Rightarrow> planned_stage list \<Rightarrow> pydatetime option \<Rightarrow> db \<Rightarrow> unit outcome" where
  "reserve_complete_route clk reservation_id attempt_id batch_id planned now db =
     (if planned = [] then (Inl (BudgetError BE_no_stages), db)
      else if \<not> distinct (map ps_stage_key planned) then (Inl (BudgetError BE_duplicate_stage_keys), db)
      else case stage_totals planned of
             Inl e \<Rightarrow> (Inl e, db)
           | Inr sts \<Rightarrow> (case utc_of ValueError clk now of
                Inl e \<Rightarrow> (Inl e, db)
              | Inr at \<Rightarrow> store_write (reserve_complete_route_txn clk reservation_id attempt_id
                              batch_id sts at) db))"

definition reservation_rows :: "string \<Rightarrow> db \<Rightarrow> budget_row list" where
  "reservation_rows reservation_id db =
     filter (\<lambda>b. bg_reservation_id b = reservation_id) (t_budgets db)"

definition mark_source_in_flight_txn ::
  "int \<Rightarrow> string \<Rightarrow> pydatetime option \<Rightarrow> unit txn" where
  "mark_source_in_flight_txn clk reservation_id now db =
     (case filter (\<lambda>b. find_run (bg_run_id b) db \<noteq> None) (reservation_rows reservation_id db) of
        [] \<Rightarrow> Inl (BudgetError BE_unknown_reservation)
      | row # rows \<Rightarrow>
          if list_ex bg_source_in_flight (row # rows) then Inr ((), db)
          else
          bindE (ensure (\<not> (case find_run (bg_run_id row) db of None \<Rightarrow> False
                             | Some run \<Rightarrow> blocks_new_source (rn_state run)))
                   (BudgetError BE_stop_blocks_start)) (\<lambda>_.
          bindE (ensure (case find_attempt (bg_attempt_id row) db of None \<Rightarrow> False
                         | Some a \<Rightarrow> at_state a = A_planned) (BudgetError BE_start_requires_planned)) (\<lambda>_.
          bindE (utc_of ValueError clk now) (\<lambda>at.
          Inr ((), append_transition clk ''attempt'' (bg_attempt_id row) (Some (E_attempt A_planned))
                     (E_attempt A_in_flight)
                     (JObj [(''reservation_id'', JStr reservation_id), (''at'', JTime at)])
                     (set_attempt_state (bg_attempt_id row) A_in_flight
                       (db\<lparr>t_budgets := update_where (\<lambda>b. bg_reservation_id b = reservation_id)
                          (\<lambda>b. b\<lparr>bg_source_in_flight := True, bg_state := B_in_flight\<rparr>)
                          (t_budgets db)\<rparr>)))))))"

definition mark_source_in_flight ::
  "int \<Rightarrow> string \<Rightarrow> pydatetime option \<Rightarrow> db \<Rightarrow> unit outcome" where
  "mark_source_in_flight clk reservation_id now =
     store_write (mark_source_in_flight_txn clk reservation_id now)"

section \<open>Nonce lineages\<close>

definition find_sub :: "string \<Rightarrow> string \<Rightarrow> db \<Rightarrow> sub_row option" where
  "find_sub reservation_id stage_key db =
     find (\<lambda>s. sb_reservation_id s = reservation_id \<and> sb_stage_key s = stage_key) (t_subs db)"

definition update_sub :: "string \<Rightarrow> (sub_row \<Rightarrow> sub_row) \<Rightarrow> db \<Rightarrow> db" where
  "update_sub i f db = db\<lparr>t_subs := update_where (\<lambda>s. sb_subreservation_id s = i) f (t_subs db)\<rparr>"

definition new_nonce_lease ::
  "string \<Rightarrow> string \<Rightarrow> string \<Rightarrow> string \<Rightarrow> int \<Rightarrow> int \<Rightarrow> int \<Rightarrow> sub_row \<Rightarrow> nonce_lease_row" where
  "new_nonce_lease lease_id lineage_id signer_id holder_id nonce acquired expires sub =
     \<lparr>nl_lease_id = lease_id, nl_lineage_id = lineage_id, nl_chain_id = sb_chain_id sub,
      nl_signer_id = signer_id, nl_holder_id = holder_id, nl_nonce = nonce,
      nl_attempt_id = sb_attempt_id sub, nl_stage_key = sb_stage_key sub,
      nl_reservation_id = sb_reservation_id sub, nl_intent_id = None, nl_acquired_at = acquired,
      nl_expires_at = expires, nl_state = N_active, nl_locked = True, nl_released_at = None\<rparr>"

definition bind_new_nonce ::
  "string \<Rightarrow> string \<Rightarrow> string \<Rightarrow> string \<Rightarrow> int \<Rightarrow> int \<Rightarrow> int \<Rightarrow> int \<Rightarrow> sub_row \<Rightarrow> db \<Rightarrow> exn + db" where
  "bind_new_nonce lease_id lineage_id signer_id holder_id nonce requested_wei acquired expires sub db =
     bindE (ensure (sb_lineage_id sub = None) (LeaseError LE_stage_bound_elsewhere)) (\<lambda>_.
     bindE (ensure (\<not> list_ex (\<lambda>n. nl_lease_id n = lease_id \<or> nl_lineage_id n = lineage_id)
                      (t_nonce_leases db)
                    \<and> \<not> list_ex (\<lambda>s. sb_lineage_id s = Some lineage_id) (t_subs db)) IntegrityError) (\<lambda>_.
     Inr (update_sub (sb_subreservation_id sub)
            (\<lambda>s. s\<lparr>sb_lineage_id := Some lineage_id, sb_allocated_wei := requested_wei,
                   sb_state := S_active\<rparr>)
            (db\<lparr>t_nonce_leases := t_nonce_leases db @
               [new_nonce_lease lease_id lineage_id signer_id holder_id nonce acquired expires sub]\<rparr>))))"

definition acquire_nonce_txn ::
  "string \<Rightarrow> string \<Rightarrow> string \<Rightarrow> string \<Rightarrow> string \<Rightarrow> string \<Rightarrow> int \<Rightarrow> int \<Rightarrow> int \<Rightarrow> int \<Rightarrow> unit txn" where
  "acquire_nonce_txn lease_id lineage_id reservation_id stage_key signer_id holder_id nonce
     requested_wei acquired expires db =
     bindE (require (find_sub reservation_id stage_key db) (LeaseError LE_unknown_subreservation)) (\<lambda>sub.
     bindE (require (find_budget reservation_id (sb_chain_id sub) db)
              (LeaseError LE_unknown_subreservation)) (\<lambda>budget.
     bindE (ensure (bg_source_in_flight budget) (LeaseError LE_source_not_in_flight)) (\<lambda>_.
     bindE (ensure (\<not> requested_wei > sb_reserved_wei sub) (BudgetError BE_over_subreservation)) (\<lambda>_.
     bindE (budget_limit_of (bg_run_id budget) (sb_chain_id sub) db) (\<lambda>limit.
     bindE (ensure (\<not> requested_wei > bl_max_transaction_wei limit)
              (BudgetError BE_over_transaction_limit)) (\<lambda>_.
     bindE (ensure (int64 nonce) OverflowError) (\<lambda>_.
     case find (\<lambda>n. nl_chain_id n = sb_chain_id sub \<and> nl_signer_id n = signer_id \<and> nl_nonce n = nonce)
            (t_nonce_leases db) of
       Some existing \<Rightarrow>
         bindE (ensure ((nl_lineage_id existing, nl_reservation_id existing, nl_stage_key existing)
                          = (lineage_id, reservation_id, stage_key))
                  (LeaseError LE_nonce_bound_elsewhere)) (\<lambda>_.
         Inr ((), update_sub (sb_subreservation_id sub)
                    (\<lambda>s. s\<lparr>sb_allocated_wei := max (sb_allocated_wei s) requested_wei\<rparr>) db))
     | None \<Rightarrow>
         bindE (bind_new_nonce lease_id lineage_id signer_id holder_id nonce requested_wei
                  acquired expires sub db) (\<lambda>db'. Inr ((), db')))))))))"

definition acquire_nonce_subreservation ::
  "int \<Rightarrow> string \<Rightarrow> string \<Rightarrow> string \<Rightarrow> string \<Rightarrow> string \<Rightarrow> string \<Rightarrow> int \<Rightarrow> int \<Rightarrow> int
     \<Rightarrow> pydatetime option \<Rightarrow> db \<Rightarrow> unit outcome" where
  "acquire_nonce_subreservation clk lease_id lineage_id reservation_id stage_key signer_id holder_id
     nonce requested_wei ttl now db =
     (case utc_of ValueError clk now of
        Inl e \<Rightarrow> (Inl e, db)
      | Inr acquired \<Rightarrow>
          if nonce < 0 \<or> requested_wei < 0 \<or> ttl \<le> 0
          then (Inl (LeaseError LE_negative_nonce_request), db)
          else store_write (acquire_nonce_txn lease_id lineage_id reservation_id stage_key signer_id
                 holder_id nonce requested_wei acquired (acquired + ttl)) db)"

definition pending_sub_state :: "nonce_state \<Rightarrow> sub_state option" where
  "pending_sub_state s =
     (case s of N_broadcast_unknown \<Rightarrow> Some S_broadcast_unknown
              | N_submitted \<Rightarrow> Some S_submitted | _ \<Rightarrow> None)"

definition mark_lineage_pending_txn ::
  "int \<Rightarrow> string \<Rightarrow> nonce_state \<Rightarrow> sub_state \<Rightarrow> pydatetime option \<Rightarrow> unit txn" where
  "mark_lineage_pending_txn clk lineage_id state sstate now db =
     bindE (lineage lineage_id db) (\<lambda>(sub, nonce, budget).
     bindE (ensure (\<not> sub_settled sub) (LeaseError LE_settled_cannot_be_pending)) (\<lambda>_.
     bindE (utc_of ValueError clk now) (\<lambda>at.
     Inr ((), lineage_event sub budget
                (if state = N_submitted then ''lineage_submitted'' else ''lineage_broadcast_unknown'')
                0 0 0 (JObj []) at
                (update_lineage_sub lineage_id (sb_state_update (\<lambda>_. sstate))
                  (update_lineage_nonce lineage_id
                    (\<lambda>n. n\<lparr>nl_state := state, nl_locked := True\<rparr>) db))))))"

definition mark_lineage_pending ::
  "int \<Rightarrow> string \<Rightarrow> nonce_state \<Rightarrow> pydatetime option \<Rightarrow> db \<Rightarrow> unit outcome" where
  "mark_lineage_pending clk lineage_id state now db =
     (case pending_sub_state state of
        None \<Rightarrow> (Inl (LeaseError LE_bad_pending_state), db)
      | Some sstate \<Rightarrow> store_write (mark_lineage_pending_txn clk lineage_id state sstate now) db)"

definition record_included_txn :: "string \<Rightarrow> int \<Rightarrow> int \<Rightarrow> unit txn" where
  "record_included_txn lineage_id actual_spent_wei at db =
     bindE (lineage lineage_id db) (\<lambda>(sub, nonce, budget).
     bindE (ensure (\<not> sub_settled sub) (LeaseError LE_settled_cannot_be_included)) (\<lambda>_.
     bindE (ensure (\<not> actual_spent_wei > sb_reserved_wei sub)
              (BudgetError BE_receipt_over_reservation)) (\<lambda>_.
     let difference = actual_spent_wei - sb_provisional_wei sub;
         db1 = update_lineage_sub lineage_id
                 (\<lambda>s. s\<lparr>sb_provisional_wei := actual_spent_wei, sb_state := S_included\<rparr>)
                 (update_lineage_nonce lineage_id (\<lambda>n. n\<lparr>nl_state := N_included, nl_locked := True\<rparr>) db)
     in bindE (update_budget_amounts sub
                 (\<lambda>b. b\<lparr>bg_provisional_wei := bg_provisional_wei b + difference\<rparr>) db1) (\<lambda>db2.
        bindE (change_totals (bg_run_id budget) (bg_batch_id budget) (sb_chain_id sub) 0 difference 0 at db2)
          (\<lambda>db3.
        Inr ((), lineage_event sub budget ''receipt_included'' 0 difference 0
                   (JObj [(''actual_spent_wei'', JInt actual_spent_wei)]) at db3))))))"

definition record_included ::
  "int \<Rightarrow> string \<Rightarrow> int \<Rightarrow> pydatetime option \<Rightarrow> db \<Rightarrow> unit outcome" where
  "record_included clk lineage_id actual_spent_wei now db =
     (if actual_spent_wei < 0 then (Inl (BudgetError BE_negative_spending), db)
      else case utc_of ValueError clk now of
             Inl e \<Rightarrow> (Inl e, db)
           | Inr at \<Rightarrow> store_write (record_included_txn lineage_id actual_spent_wei at) db)"

definition finalize_lineage_txn :: "string \<Rightarrow> int \<Rightarrow> int \<Rightarrow> unit txn" where
  "finalize_lineage_txn lineage_id actual_spent_wei at db =
     bindE (lineage lineage_id db) (\<lambda>(sub, nonce, budget).
     if sb_state sub = S_finalized
     then bindE (ensure (sb_finalized_wei sub = actual_spent_wei)
                   (BudgetError BE_finalized_immutable)) (\<lambda>_. Inr ((), db))
     else
     bindE (ensure (sb_state sub \<noteq> S_released) (LeaseError LE_released_cannot_finalize)) (\<lambda>_.
     bindE (ensure (\<not> actual_spent_wei > sb_reserved_wei sub)
              (BudgetError BE_final_over_reservation)) (\<lambda>_.
     let reserved = sb_reserved_wei sub;
         provisional = sb_provisional_wei sub;
         db1 = update_lineage_nonce lineage_id
                 (\<lambda>n. n\<lparr>nl_state := N_finalized, nl_locked := False, nl_released_at := Some at\<rparr>)
                 (update_lineage_sub lineage_id
                   (\<lambda>s. s\<lparr>sb_provisional_wei := 0, sb_finalized_wei := actual_spent_wei,
                          sb_state := S_finalized\<rparr>) db)
     in bindE (update_budget_amounts sub
                 (\<lambda>b. b\<lparr>bg_provisional_wei := bg_provisional_wei b - provisional,
                        bg_finalized_wei := bg_finalized_wei b + actual_spent_wei\<rparr>) db1) (\<lambda>db2.
        bindE (change_totals (bg_run_id budget) (bg_batch_id budget) (sb_chain_id sub)
                 (- reserved) (- provisional) actual_spent_wei at db2) (\<lambda>db3.
        Inr ((), settle_completed_budget_rows (sb_reservation_id sub)
                   (lineage_event sub budget ''lineage_finalized'' (- reserved) (- provisional)
                      actual_spent_wei (JObj [(''actual_spent_wei'', JInt actual_spent_wei)]) at db3)))))))"

definition finalize_lineage ::
  "int \<Rightarrow> string \<Rightarrow> int \<Rightarrow> pydatetime option \<Rightarrow> db \<Rightarrow> unit outcome" where
  "finalize_lineage clk lineage_id actual_spent_wei now db =
     (if actual_spent_wei < 0 then (Inl (BudgetError BE_negative_spending), db)
      else case utc_of ValueError clk now of
             Inl e \<Rightarrow> (Inl e, db)
           | Inr at \<Rightarrow> store_write (finalize_lineage_txn lineage_id actual_spent_wei at) db)"

section \<open>Releases and reorganizations\<close>

definition release_dead_lineage_txn ::
  "string \<Rightarrow> string option \<Rightarrow> bool \<Rightarrow> string option \<Rightarrow> bool \<Rightarrow> int \<Rightarrow> unit txn" where
  "release_dead_lineage_txn lineage_id proof_sha256 destroyed manual proof_release at db =
     bindE (lineage lineage_id db) (\<lambda>(sub, nonce, budget).
     bindE (ensure (sb_state sub \<noteq> S_included \<and> sb_state sub \<noteq> S_finalized)
              (BudgetError BE_resolve_first)) (\<lambda>_.
     if sb_state sub = S_released then Inr ((), db)
     else
     let reserved = sb_reserved_wei sub;
         db1 = update_lineage_nonce lineage_id
                 (\<lambda>n. n\<lparr>nl_state := N_released, nl_locked := False, nl_released_at := Some at\<rparr>)
                 (update_lineage_sub lineage_id
                   (\<lambda>s. s\<lparr>sb_state := S_released, sb_release_proof_sha256 := proof_sha256,
                          sb_manual_release_decision_sha256 := manual,
                          sb_signed_bytes_destroyed := destroyed\<rparr>) db)
     in bindE (change_totals (bg_run_id budget) (bg_batch_id budget) (sb_chain_id sub)
                 (- reserved) 0 0 at db1) (\<lambda>db2.
        Inr ((), settle_completed_budget_rows (sb_reservation_id sub)
                   (lineage_event sub budget
                      (if proof_release then ''lineage_proof_released'' else ''lineage_manual_released'')
                      (- reserved) 0 0
                      (JObj [(''proof_sha256'', (case proof_sha256 of None \<Rightarrow> JNull | Some d \<Rightarrow> JStr d)),
                             (''manual_release_decision_sha256'',
                                (case manual of None \<Rightarrow> JNull | Some d \<Rightarrow> JStr d)),
                             (''signed_bytes_destroyed'', JBool destroyed)]) at db2)))))"

definition release_dead_lineage ::
  "int \<Rightarrow> string \<Rightarrow> string option \<Rightarrow> bool \<Rightarrow> string option \<Rightarrow> pydatetime option \<Rightarrow> db \<Rightarrow> unit outcome" where
  "release_dead_lineage clk lineage_id proof_sha256 destroyed manual now db =
     (let proof_release = (proof_sha256 \<noteq> None \<and> destroyed); manual_release = (manual \<noteq> None)
      in if proof_release = manual_release then (Inl (BudgetError BE_release_evidence), db)
         else if list_ex (\<lambda>d. d \<noteq> None \<and> \<not> is_sha256_hex (the d)) [proof_sha256, manual]
         then (Inl (BudgetError BE_release_digest_format), db)
         else case utc_of ValueError clk now of
                Inl e \<Rightarrow> (Inl e, db)
              | Inr at \<Rightarrow> store_write (release_dead_lineage_txn lineage_id proof_sha256 destroyed manual
                             proof_release at) db)"

text \<open>The reorganization of a lineage whose receipt was included but not final.\<close>

definition reopen_included :: "string \<Rightarrow> sub_row \<Rightarrow> budget_row \<Rightarrow> int \<Rightarrow> db \<Rightarrow> exn + db" where
  "reopen_included lineage_id sub budget at db =
     (let provisional = sb_provisional_wei sub;
          db1 = update_lineage_nonce lineage_id
                  (\<lambda>n. n\<lparr>nl_state := N_active, nl_locked := True, nl_released_at := None\<rparr>)
                  (update_lineage_sub lineage_id
                    (\<lambda>s. s\<lparr>sb_provisional_wei := 0, sb_state := S_reopened\<rparr>) db)
      in bindE (update_budget_amounts sub
                  (\<lambda>b. b\<lparr>bg_provisional_wei := bg_provisional_wei b - provisional\<rparr>) db1) (\<lambda>db2.
         bindE (change_totals (bg_run_id budget) (bg_batch_id budget) (sb_chain_id sub)
                  0 (- provisional) 0 at db2) (\<lambda>db3.
         Inr (lineage_event sub budget ''included_receipt_reopened'' 0 (- provisional) 0 (JObj []) at db3))))"

text \<open>The reorganization of a finalized lineage whose reservation fits again.\<close>

definition reopen_finalized :: "string \<Rightarrow> sub_row \<Rightarrow> budget_row \<Rightarrow> int \<Rightarrow> db \<Rightarrow> exn + db" where
  "reopen_finalized lineage_id sub budget at db =
     (let reserved = sb_reserved_wei sub;
          finalized = sb_finalized_wei sub;
          db1 = update_lineage_nonce lineage_id
                  (\<lambda>n. n\<lparr>nl_state := N_active, nl_locked := True, nl_released_at := None\<rparr>)
                  (update_lineage_sub lineage_id
                    (\<lambda>s. s\<lparr>sb_finalized_wei := 0, sb_state := S_reopened\<rparr>) db)
      in bindE (update_budget_amounts sub
                  (\<lambda>b. b\<lparr>bg_finalized_wei := bg_finalized_wei b - finalized, bg_state := B_in_flight\<rparr>)
                  db1) (\<lambda>db2.
         bindE (change_totals (bg_run_id budget) (bg_batch_id budget) (sb_chain_id sub)
                  reserved 0 (- finalized) at db2) (\<lambda>db3.
         Inr (lineage_event sub budget ''finalized_receipt_reopened'' reserved 0 (- finalized)
                (JObj []) at db3))))"

definition capacity_reason :: "budget_error \<Rightarrow> int \<Rightarrow> string" where
  "capacity_reason e chain_id =
     (case e of
        BE_run_exhausted \<Rightarrow> ''run budget exhausted on chain '' @ str_int chain_id
      | BE_batch_exhausted \<Rightarrow> ''batch budget exhausted on chain '' @ str_int chain_id
      | BE_balance_floor \<Rightarrow> ''runner balance floor would be violated on chain '' @ str_int chain_id
      | BE_missing_limit \<Rightarrow> ''missing budget limit for chain '' @ str_int chain_id
      | _ \<Rightarrow> ''budget totals were not initialized'')"

text \<open>
  The failure branch: the run is halted and a violation recorded in the same transaction, which
  commits; the exception is raised afterwards.
\<close>

definition halt_after_reorg :: "string \<Rightarrow> string \<Rightarrow> string \<Rightarrow> budget_error \<Rightarrow> int \<Rightarrow> db \<Rightarrow> exn + db" where
  "halt_after_reorg violation_id lineage_id run_id e chain_id db =
     bindE (ensure (\<not> list_ex (\<lambda>v. iv_violation_id v = violation_id) (t_violations db)) IntegrityError) (\<lambda>_.
     Inr ((set_run_state run_id (Run_mode Halted) db)\<lparr>t_violations := t_violations db @
       [\<lparr>iv_violation_id = violation_id, iv_run_id = run_id,
         iv_invariant_code = ''budget_reorg_restore_failed'',
         iv_details = JObj [(''lineage_id'', JStr lineage_id),
                            (''reason'', JStr (capacity_reason e chain_id))],
         iv_resolved_at = None\<rparr>]\<rparr>))"

definition reopen_txn :: "string \<Rightarrow> string \<Rightarrow> int \<Rightarrow> bool txn" where
  "reopen_txn lineage_id violation_id at db =
     bindE (lineage lineage_id db) (\<lambda>(sub, nonce, budget).
     if sb_state sub = S_included
     then bindE (reopen_included lineage_id sub budget at db) (\<lambda>db'. Inr (True, db'))
     else if sb_state sub \<noteq> S_finalized then Inl (LeaseError LE_not_reorganizable)
     else case assert_capacity (bg_run_id budget) (bg_batch_id budget) (sb_chain_id sub)
                 (sb_reserved_wei sub) (sb_finalized_wei sub) db of
            Inl (BudgetError e) \<Rightarrow>
              bindE (halt_after_reorg violation_id lineage_id (bg_run_id budget) e (sb_chain_id sub) db)
                (\<lambda>db'. Inr (False, db'))
          | Inl e \<Rightarrow> Inl e
          | Inr _ \<Rightarrow> bindE (reopen_finalized lineage_id sub budget at db) (\<lambda>db'. Inr (True, db')))"

definition reopen_after_reorganization ::
  "int \<Rightarrow> string \<Rightarrow> string \<Rightarrow> pydatetime option \<Rightarrow> db \<Rightarrow> unit outcome" where
  "reopen_after_reorganization clk lineage_id violation_id now db =
     (case utc_of ValueError clk now of
        Inl e \<Rightarrow> (Inl e, db)
      | Inr at \<Rightarrow> (case store_write (reopen_txn lineage_id violation_id at) db of
            (Inl e, db') \<Rightarrow> (Inl e, db')
          | (Inr True, db') \<Rightarrow> (Inr (), db')
          | (Inr False, db') \<Rightarrow> (Inl (BudgetError BE_reorg_not_restored), db')))"

definition release_row :: "string \<Rightarrow> int \<Rightarrow> budget_row \<Rightarrow> db \<Rightarrow> exn + db" where
  "release_row reservation_id at row db =
     bindE (change_totals (bg_run_id row) (bg_batch_id row) (bg_chain_id row)
              (- bg_reserved_wei row) 0 0 at db) (\<lambda>db'.
     Inr (budget_event (bg_run_id row) (bg_batch_id row) (bg_chain_id row) reservation_id None
            ''unstarted_route_released'' (- bg_reserved_wei row) 0 0 (JObj []) at db'))"

definition release_unstarted_route_txn :: "string \<Rightarrow> int \<Rightarrow> unit txn" where
  "release_unstarted_route_txn reservation_id at db =
     (let budgets = reservation_rows reservation_id db
      in bindE (ensure (budgets \<noteq> []) (BudgetError BE_unknown_reservation)) (\<lambda>_.
         bindE (ensure (\<not> list_ex bg_source_in_flight budgets)
                  (BudgetError BE_in_flight_not_cancellable)) (\<lambda>_.
         bindE (foldE (release_row reservation_id at) budgets db) (\<lambda>db1.
         Inr ((), db1\<lparr>t_subs := update_where (\<lambda>s. sb_reservation_id s = reservation_id)
                         (sb_state_update (\<lambda>_. S_released)) (t_subs db1),
                      t_budgets := update_where (\<lambda>b. bg_reservation_id b = reservation_id)
                         (bg_state_update (\<lambda>_. B_released)) (t_budgets db1)\<rparr>)))))"

definition release_unstarted_route ::
  "int \<Rightarrow> string \<Rightarrow> pydatetime option \<Rightarrow> db \<Rightarrow> unit outcome" where
  "release_unstarted_route clk reservation_id now db =
     (case utc_of ValueError clk now of
        Inl e \<Rightarrow> (Inl e, db)
      | Inr at \<Rightarrow> store_write (release_unstarted_route_txn reservation_id at) db)"

definition snapshots :: "string \<Rightarrow> db \<Rightarrow> budget_snapshot list" where
  "snapshots run_id db =
     List.map_filter (\<lambda>tot. map_option (\<lambda>l.
         \<lparr>bs_run_id = bt_run_id tot, bs_chain_id = bt_chain_id tot,
          bs_active_reserved_wei = bt_active_reserved_wei tot,
          bs_provisional_wei = bt_provisional_wei tot, bs_finalized_wei = bt_finalized_wei tot,
          bs_observed_runner_balance_wei = bl_observed_runner_balance_wei l,
          bs_minimum_runner_balance_wei = bl_minimum_runner_balance_wei l\<rparr>)
         (find_limit (bt_run_id tot) (bt_chain_id tot) db))
       (sort_key bt_chain_id (filter (\<lambda>tot. bt_run_id tot = run_id) (t_totals db)))"

end
