(* ===== verification/Xir_Budget.thy ===== *)
theory Xir_Budget
  imports Xir_Leases
begin

text \<open>
  The accounting invariant of the budget ledger and its preservation by every operation of
  \<^verbatim>\<open>execute/leases.py\<close>.

  The code keeps three running totals per run and chain and three per batch (reserved, provisional,
  finalized wei) in lockstep with the sub-reservations and with an append-only event table.
  \<open>ledger_inv\<close> says that all three views agree (totals, a fold over the sub-reservations, a
  replay of the events), that every reference resolves, that no sub-reservation holds more than it
  reserved, and that reserved plus finalized never exceeds the configured limit.
\<close>

section \<open>Views of the ledger\<close>

text \<open>A posting is filed under reservation, run, batch and chain; a scope selects postings.\<close>

type_synonym posting_key = "string \<times> string \<times> string \<times> int"
type_synonym scope = "posting_key \<Rightarrow> bool"

definition bkey :: "budget_row \<Rightarrow> posting_key" where
  "bkey b = (bg_reservation_id b, bg_run_id b, bg_batch_id b, bg_chain_id b)"

definition ekey :: "budget_event_row \<Rightarrow> posting_key" where
  "ekey e = (be_reservation_id e, be_run_id e, be_batch_id e, be_chain_id e)"

definition run_scope :: "string \<Rightarrow> int \<Rightarrow> scope" where
  "run_scope r c = (\<lambda>(_, r', _, c'). r' = r \<and> c' = c)"

definition batch_scope :: "string \<Rightarrow> string \<Rightarrow> int \<Rightarrow> scope" where
  "batch_scope r b c = (\<lambda>(_, r', b', c'). r' = r \<and> b' = b \<and> c' = c)"

definition route_scope :: "string \<Rightarrow> int \<Rightarrow> scope" where
  "route_scope i c = (\<lambda>(i', _, _, c'). i' = i \<and> c' = c)"

lemma scope_simps [simp]:
  "run_scope r c (i, r', b', c') \<longleftrightarrow> r = r' \<and> c = c'"
  "batch_scope r b c (i, r', b', c') \<longleftrightarrow> r = r' \<and> b = b' \<and> c = c'"
  "route_scope j c (i, r', b', c') \<longleftrightarrow> j = i \<and> c = c'"
  by (auto simp: run_scope_def batch_scope_def route_scope_def)

definition owner :: "budget_row list \<Rightarrow> sub_row \<Rightarrow> budget_row option" where
  "owner bs s = find (\<lambda>b. bg_reservation_id b = sb_reservation_id s \<and> bg_chain_id b = sb_chain_id s) bs"

definition in_scope :: "scope \<Rightarrow> budget_row list \<Rightarrow> sub_row \<Rightarrow> bool" where
  "in_scope Q bs s \<longleftrightarrow> (case owner bs s of None \<Rightarrow> False | Some b \<Rightarrow> Q (bkey b))"

definition sub_sum :: "scope \<Rightarrow> (sub_row \<Rightarrow> int) \<Rightarrow> budget_row list \<Rightarrow> sub_row list \<Rightarrow> int" where
  "sub_sum Q g bs ss = total (\<lambda>s. if in_scope Q bs s then g s else 0) ss"

definition budget_sum :: "scope \<Rightarrow> (budget_row \<Rightarrow> int) \<Rightarrow> budget_row list \<Rightarrow> int" where
  "budget_sum Q g bs = total (\<lambda>b. if Q (bkey b) then g b else 0) bs"

definition event_sum :: "scope \<Rightarrow> (budget_event_row \<Rightarrow> int) \<Rightarrow> budget_event_row list \<Rightarrow> int" where
  "event_sum Q g es = total (\<lambda>e. if Q (ekey e) then g e else 0) es"

definition settled_wei :: "sub_row \<Rightarrow> int" where
  "settled_wei s = (if sub_settled s then sb_reserved_wei s else 0)"

definition live_wei :: "sub_row \<Rightarrow> int" where
  "live_wei s = (if sub_settled s then 0 else sb_reserved_wei s)"

text \<open>What the sub-reservations say is reserved, provisional and finalized in a scope.\<close>

definition active_in :: "db \<Rightarrow> scope \<Rightarrow> int" where
  "active_in d Q = budget_sum Q bg_reserved_wei (t_budgets d)
                   - sub_sum Q settled_wei (t_budgets d) (t_subs d)"

definition provisional_in :: "db \<Rightarrow> scope \<Rightarrow> int" where
  "provisional_in d Q = sub_sum Q sb_provisional_wei (t_budgets d) (t_subs d)"

definition finalized_in :: "db \<Rightarrow> scope \<Rightarrow> int" where
  "finalized_in d Q = sub_sum Q sb_finalized_wei (t_budgets d) (t_subs d)"

text \<open>What a replay of the event table says.\<close>

definition active_replay :: "db \<Rightarrow> scope \<Rightarrow> int" where
  "active_replay d Q = event_sum Q be_reserved_delta_wei (t_budget_events d)"

definition provisional_replay :: "db \<Rightarrow> scope \<Rightarrow> int" where
  "provisional_replay d Q = event_sum Q be_provisional_delta_wei (t_budget_events d)"

definition finalized_replay :: "db \<Rightarrow> scope \<Rightarrow> int" where
  "finalized_replay d Q = event_sum Q be_finalized_delta_wei (t_budget_events d)"

section \<open>The invariant\<close>

definition rows_agree ::
  "(scope \<Rightarrow> int) \<Rightarrow> (scope \<Rightarrow> int) \<Rightarrow> (scope \<Rightarrow> int) \<Rightarrow> total_row list \<Rightarrow> batch_total_row list \<Rightarrow> bool" where
  "rows_agree A P F ts bs \<longleftrightarrow>
     (\<forall>t\<in>set ts. bt_active_reserved_wei t = A (run_scope (bt_run_id t) (bt_chain_id t))
               \<and> bt_provisional_wei t = P (run_scope (bt_run_id t) (bt_chain_id t))
               \<and> bt_finalized_wei t = F (run_scope (bt_run_id t) (bt_chain_id t)))
   \<and> (\<forall>b\<in>set bs. bb_active_reserved_wei b = A (batch_scope (bb_run_id b) (bb_batch_id b) (bb_chain_id b))
               \<and> bb_provisional_wei b = P (batch_scope (bb_run_id b) (bb_batch_id b) (bb_chain_id b))
               \<and> bb_finalized_wei b = F (batch_scope (bb_run_id b) (bb_batch_id b) (bb_chain_id b)))"

definition has_total :: "db \<Rightarrow> posting_key \<Rightarrow> bool" where
  "has_total d = (\<lambda>(i, r, b, c). find_total r c d \<noteq> None)"

definition has_batch_total :: "db \<Rightarrow> posting_key \<Rightarrow> bool" where
  "has_batch_total d = (\<lambda>(i, r, b, c). find_batch_total r b c d \<noteq> None)"

definition keys_ok :: "db \<Rightarrow> bool" where
  "keys_ok d \<longleftrightarrow>
     uniq_on (\<lambda>b. Some (bg_reservation_id b, bg_chain_id b)) (t_budgets d)
   \<and> uniq_on (\<lambda>s. Some (sb_subreservation_id s)) (t_subs d)
   \<and> uniq_on sb_lineage_id (t_subs d)
   \<and> uniq_on (\<lambda>t. Some (bt_run_id t, bt_chain_id t)) (t_totals d)
   \<and> uniq_on (\<lambda>t. Some (bb_run_id t, bb_batch_id t, bb_chain_id t)) (t_batch_totals d)
   \<and> uniq_on (\<lambda>l. Some (bl_run_id l, bl_chain_id l)) (t_limits d)"

definition covered :: "db \<Rightarrow> bool" where
  "covered d \<longleftrightarrow>
     (\<forall>b\<in>set (t_budgets d). has_total d (bkey b) \<and> has_batch_total d (bkey b))
   \<and> (\<forall>e\<in>set (t_budget_events d). has_total d (ekey e) \<and> has_batch_total d (ekey e))
   \<and> (\<forall>s\<in>set (t_subs d). owner (t_budgets d) s \<noteq> None)
   \<and> (\<forall>t\<in>set (t_totals d). find_limit (bt_run_id t) (bt_chain_id t) d \<noteq> None)
   \<and> (\<forall>t\<in>set (t_batch_totals d). find_limit (bb_run_id t) (bb_chain_id t) d \<noteq> None)"

definition sub_amounts_ok :: "sub_row \<Rightarrow> bool" where
  "sub_amounts_ok s \<longleftrightarrow>
     0 \<le> sb_provisional_wei s \<and> sb_provisional_wei s \<le> sb_reserved_wei s
   \<and> 0 \<le> sb_finalized_wei s \<and> sb_finalized_wei s \<le> sb_reserved_wei s
   \<and> (sb_state s \<noteq> S_finalized \<longrightarrow> sb_finalized_wei s = 0)
   \<and> (sb_state s = S_finalized \<longrightarrow> sb_provisional_wei s = 0)"

text \<open>A stage without a lineage is untouched; a lineage exists only on a started route.\<close>

definition sub_started_ok :: "budget_row list \<Rightarrow> sub_row \<Rightarrow> bool" where
  "sub_started_ok bs s \<longleftrightarrow>
     (case owner bs s of None \<Rightarrow> False
      | Some b \<Rightarrow>
          (case sb_lineage_id s of
             None \<Rightarrow> sb_provisional_wei s = 0 \<and> sb_finalized_wei s = 0
                   \<and> (sb_state s = S_reserved \<or> sb_state s = S_released \<and> \<not> bg_source_in_flight b)
           | Some _ \<Rightarrow> bg_source_in_flight b))"

definition limit_ok :: "limit_row \<Rightarrow> bool" where
  "limit_ok l \<longleftrightarrow> 0 \<le> bl_max_transaction_wei l \<and> bl_max_transaction_wei l \<le> bl_max_batch_wei l
     \<and> bl_max_batch_wei l \<le> bl_max_run_wei l \<and> int64 (bl_max_run_wei l)"

definition within_limits :: "db \<Rightarrow> bool" where
  "within_limits d \<longleftrightarrow>
     (\<forall>t\<in>set (t_totals d). \<forall>l\<in>set (t_limits d).
        bl_run_id l = bt_run_id t \<and> bl_chain_id l = bt_chain_id t
          \<longrightarrow> bt_active_reserved_wei t + bt_finalized_wei t \<le> bl_max_run_wei l)
   \<and> (\<forall>t\<in>set (t_batch_totals d). \<forall>l\<in>set (t_limits d).
        bl_run_id l = bb_run_id t \<and> bl_chain_id l = bb_chain_id t
          \<longrightarrow> bb_active_reserved_wei t + bb_finalized_wei t \<le> bl_max_batch_wei l)"

text \<open>Every reservation is split completely over its stages.\<close>

definition fully_split :: "db \<Rightarrow> bool" where
  "fully_split d \<longleftrightarrow>
     (\<forall>Q. budget_sum Q bg_reserved_wei (t_budgets d) = sub_sum Q sb_reserved_wei (t_budgets d) (t_subs d))"

definition ledger_core :: "db \<Rightarrow> bool" where
  "ledger_core d \<longleftrightarrow>
     keys_ok d \<and> covered d
   \<and> (\<forall>s\<in>set (t_subs d). sub_amounts_ok s)
   \<and> (\<forall>s\<in>set (t_subs d). sub_started_ok (t_budgets d) s)
   \<and> (\<forall>b\<in>set (t_budgets d). 0 \<le> bg_reserved_wei b)
   \<and> (\<forall>l\<in>set (t_limits d). limit_ok l)
   \<and> rows_agree (active_in d) (provisional_in d) (finalized_in d) (t_totals d) (t_batch_totals d)
   \<and> rows_agree (active_replay d) (provisional_replay d) (finalized_replay d) (t_totals d) (t_batch_totals d)
   \<and> within_limits d"

definition ledger_inv :: "db \<Rightarrow> bool" where
  "ledger_inv d \<longleftrightarrow> ledger_core d \<and> fully_split d"

section \<open>Sums under the updates the code makes\<close>

named_theorems ledger_defs \<open>the parts of the ledger invariant\<close>
declare keys_ok_def [ledger_defs] covered_def [ledger_defs] ledger_core_def [ledger_defs]
  ledger_inv_def [ledger_defs] fully_split_def [ledger_defs] within_limits_def [ledger_defs]
  active_in_def [ledger_defs] provisional_in_def [ledger_defs] finalized_in_def [ledger_defs]
  active_replay_def [ledger_defs] provisional_replay_def [ledger_defs] finalized_replay_def [ledger_defs]
  has_total_def [ledger_defs] has_batch_total_def [ledger_defs]

text \<open>Updates that leave the filing of a budget row alone.\<close>

definition same_filing :: "(budget_row \<Rightarrow> budget_row) \<Rightarrow> bool" where
  "same_filing f \<longleftrightarrow> (\<forall>b. bkey (f b) = bkey b \<and> bg_reserved_wei (f b) = bg_reserved_wei b
                      \<and> bg_source_in_flight (f b) = bg_source_in_flight b)"

lemma bkey_fields:
  "bkey a = bkey b \<longleftrightarrow> bg_reservation_id a = bg_reservation_id b \<and> bg_run_id a = bg_run_id b
     \<and> bg_batch_id a = bg_batch_id b \<and> bg_chain_id a = bg_chain_id b"
  by (auto simp: bkey_def)

lemma owner_update_where:
  assumes "\<And>b. bkey (f b) = bkey b"
  shows "owner (update_where p f bs) s = map_option (\<lambda>b. if p b then f b else b) (owner bs s)"
  unfolding owner_def by (rule find_update_where) (use assms in \<open>auto simp: bkey_fields\<close>)

lemma in_scope_update_where [simp]:
  assumes "\<And>b. bkey (f b) = bkey b"
  shows "in_scope Q (update_where p f bs) s \<longleftrightarrow> in_scope Q bs s"
  using assms by (auto simp: in_scope_def owner_update_where split: option.splits)

lemma sub_sum_budget_update:
  assumes "\<And>b. bkey (f b) = bkey b"
  shows "sub_sum Q g (update_where p f bs) ss = sub_sum Q g bs ss"
  using assms by (simp add: sub_sum_def)

lemma budget_sum_update:
  assumes "\<And>b. bkey (f b) = bkey b" and "\<And>b. g (f b) = g b"
  shows "budget_sum Q g (update_where p f bs) = budget_sum Q g bs"
  unfolding budget_sum_def by (rule total_update_where_same) (simp add: assms)

lemma in_scope_filing:
  assumes "sb_reservation_id s' = sb_reservation_id s" and "sb_chain_id s' = sb_chain_id s"
  shows "in_scope Q bs s' = in_scope Q bs s"
  using assms by (simp add: in_scope_def owner_def)

lemma sub_sum_update_one:
  assumes "filter p ss = [s]"
    and "sb_reservation_id (f s) = sb_reservation_id s" and "sb_chain_id (f s) = sb_chain_id s"
  shows "sub_sum Q g bs (update_where p f ss)
         = sub_sum Q g bs ss + (if in_scope Q bs s then g (f s) - g s else 0)"
  using in_scope_filing [OF assms(2,3)]
  by (simp add: sub_sum_def total_update_where_unique [OF assms(1)])

lemma sub_sum_snoc: "sub_sum Q g bs (ss @ [s]) = sub_sum Q g bs ss + (if in_scope Q bs s then g s else 0)"
  by (simp add: sub_sum_def)

lemma budget_sum_snoc: "budget_sum Q g (bs @ [b]) = budget_sum Q g bs + (if Q (bkey b) then g b else 0)"
  by (simp add: budget_sum_def)

lemma event_sum_snoc: "event_sum Q g (es @ [e]) = event_sum Q g es + (if Q (ekey e) then g e else 0)"
  by (simp add: event_sum_def)

lemma owner_snoc: "owner bs s = Some b \<Longrightarrow> owner (bs @ [b']) s = Some b"
  by (simp add: owner_def find_append)

lemma in_scope_snoc: "owner bs s \<noteq> None \<Longrightarrow> in_scope Q (bs @ [b']) s = in_scope Q bs s"
  by (auto simp: in_scope_def owner_snoc split: option.splits)

lemma sub_sum_budget_snoc:
  assumes "\<forall>s\<in>set ss. owner bs s \<noteq> None"
  shows "sub_sum Q g (bs @ [b']) ss = sub_sum Q g bs ss"
  unfolding sub_sum_def by (rule total_cong) (use assms in \<open>simp add: in_scope_snoc\<close>)

text \<open>Splitting the reservations over stages turns ``reserved minus settled'' into ``live''.\<close>

lemma sub_sum_diff: "sub_sum Q g bs ss - sub_sum Q h bs ss = sub_sum Q (\<lambda>s. g s - h s) bs ss"
  by (induction ss) (auto simp: sub_sum_def)

lemma active_in_live:
  assumes "fully_split d"
  shows "active_in d Q = sub_sum Q live_wei (t_budgets d) (t_subs d)"
proof -
  have "(\<lambda>s. sb_reserved_wei s - settled_wei s) = live_wei"
    by (auto simp: settled_wei_def live_wei_def)
  with assms show ?thesis by (simp add: active_in_def fully_split_def sub_sum_diff)
qed

section \<open>Postings\<close>

text \<open>\<^verbatim>\<open>_change_totals\<close> moves every row by exactly the posting it is in scope of.\<close>

definition plus_posting :: "(scope \<Rightarrow> int) \<Rightarrow> posting_key \<Rightarrow> int \<Rightarrow> scope \<Rightarrow> int" where
  "plus_posting A k v = (\<lambda>Q. A Q + (if Q k then v else 0))"

lemma change_totals_fields:
  assumes "change_totals r b c rd pd fd at d = Inr d'"
  obtains ts bs where "change_run_totals r c rd pd fd at (t_totals d) = Inr ts"
    and "change_batch_totals r b c rd pd fd at (t_batch_totals d) = Inr bs"
    and "d' = d\<lparr>t_totals := ts, t_batch_totals := bs\<rparr>"
  using assms by (auto simp: change_totals_def exn_simps)

lemma change_run_totals_eq:
  "change_run_totals r c rd pd fd at rows = Inr rows' \<Longrightarrow>
     rows' = update_where (\<lambda>t. bt_run_id t = r \<and> bt_chain_id t = c) (bump_total rd pd fd at) rows"
  by (simp add: change_run_totals_def Let_def exn_simps)

lemma change_batch_totals_cases:
  assumes "change_batch_totals r b c rd pd fd at rows = Inr rows'"
  obtains (updated) "\<exists>t\<in>set rows. bb_run_id t = r \<and> bb_batch_id t = b \<and> bb_chain_id t = c"
      and "rows' = update_where (\<lambda>t. bb_run_id t = r \<and> bb_batch_id t = b \<and> bb_chain_id t = c)
                     (bump_batch_total rd pd fd at) rows"
  | (inserted) "\<forall>t\<in>set rows. \<not> (bb_run_id t = r \<and> bb_batch_id t = b \<and> bb_chain_id t = c)"
      and "rows' = rows @ [\<lparr>bb_run_id = r, bb_batch_id = b, bb_chain_id = c,
                            bb_active_reserved_wei = rd, bb_provisional_wei = pd,
                            bb_finalized_wei = fd, bb_updated_at = at\<rparr>]"
  using assms
  by (auto simp: change_batch_totals_def Let_def exn_simps list_ex_iff split: if_splits)

lemma bump_fields [simp]:
  "bt_run_id (bump_total rd pd fd at t) = bt_run_id t"
  "bt_chain_id (bump_total rd pd fd at t) = bt_chain_id t"
  "bt_active_reserved_wei (bump_total rd pd fd at t) = bt_active_reserved_wei t + rd"
  "bt_provisional_wei (bump_total rd pd fd at t) = bt_provisional_wei t + pd"
  "bt_finalized_wei (bump_total rd pd fd at t) = bt_finalized_wei t + fd"
  "bb_run_id (bump_batch_total rd pd fd at u) = bb_run_id u"
  "bb_batch_id (bump_batch_total rd pd fd at u) = bb_batch_id u"
  "bb_chain_id (bump_batch_total rd pd fd at u) = bb_chain_id u"
  "bb_active_reserved_wei (bump_batch_total rd pd fd at u) = bb_active_reserved_wei u + rd"
  "bb_provisional_wei (bump_batch_total rd pd fd at u) = bb_provisional_wei u + pd"
  "bb_finalized_wei (bump_batch_total rd pd fd at u) = bb_finalized_wei u + fd"
  by (simp_all add: bump_total_def bump_batch_total_def)

lemma change_totals_agree:
  assumes post: "change_totals r b c rd pd fd at d = Inr d'"
    and agree: "rows_agree A P F (t_totals d) (t_batch_totals d)"
    and fresh: "find_batch_total r b c d = None \<Longrightarrow>
                  A (batch_scope r b c) = 0 \<and> P (batch_scope r b c) = 0 \<and> F (batch_scope r b c) = 0"
  shows "rows_agree (plus_posting A (i, r, b, c) rd) (plus_posting P (i, r, b, c) pd)
           (plus_posting F (i, r, b, c) fd) (t_totals d') (t_batch_totals d')"
proof -
  from post obtain ts bs where ts: "change_run_totals r c rd pd fd at (t_totals d) = Inr ts"
    and bs: "change_batch_totals r b c rd pd fd at (t_batch_totals d) = Inr bs"
    and d': "d' = d\<lparr>t_totals := ts, t_batch_totals := bs\<rparr>"
    by (rule change_totals_fields)
  have runs: "bt_active_reserved_wei t = plus_posting A (i, r, b, c) rd (run_scope (bt_run_id t) (bt_chain_id t))
      \<and> bt_provisional_wei t = plus_posting P (i, r, b, c) pd (run_scope (bt_run_id t) (bt_chain_id t))
      \<and> bt_finalized_wei t = plus_posting F (i, r, b, c) fd (run_scope (bt_run_id t) (bt_chain_id t))"
    if t: "t \<in> set ts" for t
  proof -
    from t ts obtain u where u: "u \<in> set (t_totals d)"
      and t_eq: "t = (if bt_run_id u = r \<and> bt_chain_id u = c then bump_total rd pd fd at u else u)"
      by (auto dest!: change_run_totals_eq simp: set_update_where)
    from agree u have "bt_active_reserved_wei u = A (run_scope (bt_run_id u) (bt_chain_id u))"
      "bt_provisional_wei u = P (run_scope (bt_run_id u) (bt_chain_id u))"
      "bt_finalized_wei u = F (run_scope (bt_run_id u) (bt_chain_id u))"
      by (simp_all add: rows_agree_def)
    with t_eq show ?thesis by (auto simp: plus_posting_def)
  qed
  from bs have "\<forall>t\<in>set bs. bb_active_reserved_wei t = plus_posting A (i, r, b, c) rd (batch_scope (bb_run_id t) (bb_batch_id t) (bb_chain_id t))
      \<and> bb_provisional_wei t = plus_posting P (i, r, b, c) pd (batch_scope (bb_run_id t) (bb_batch_id t) (bb_chain_id t))
      \<and> bb_finalized_wei t = plus_posting F (i, r, b, c) fd (batch_scope (bb_run_id t) (bb_batch_id t) (bb_chain_id t))"
  proof (cases rule: change_batch_totals_cases)
    case updated
    then show ?thesis using agree by (auto simp: rows_agree_def set_update_where plus_posting_def)
  next
    case inserted
    then have "find_batch_total r b c d = None" by (simp add: find_batch_total_def find_None_iff)
    with fresh inserted agree show ?thesis by (auto simp: rows_agree_def plus_posting_def)
  qed
  with runs d' show ?thesis by (simp add: rows_agree_def)
qed


lemma uniq_find_limit:
  "keys_ok d \<Longrightarrow> l \<in> set (t_limits d) \<Longrightarrow> find_limit (bl_run_id l) (bl_chain_id l) d = Some l"
  using uniq_on_find [of "\<lambda>l. Some (bl_run_id l, bl_chain_id l)" "t_limits d" l]
  by (simp add: keys_ok_def find_limit_def)

lemma uniq_find_total:
  "keys_ok d \<Longrightarrow> t \<in> set (t_totals d) \<Longrightarrow> find_total (bt_run_id t) (bt_chain_id t) d = Some t"
  using uniq_on_find [of "\<lambda>l. Some (bt_run_id l, bt_chain_id l)" "t_totals d" t]
  by (simp add: keys_ok_def find_total_def)

lemma uniq_find_batch_total:
  "keys_ok d \<Longrightarrow> t \<in> set (t_batch_totals d) \<Longrightarrow>
     find_batch_total (bb_run_id t) (bb_batch_id t) (bb_chain_id t) d = Some t"
  using uniq_on_find [of "\<lambda>l. Some (bb_run_id l, bb_batch_id l, bb_chain_id l)" "t_batch_totals d" t]
  by (simp add: keys_ok_def find_batch_total_def)

lemma find_limitD: "find_limit r c d = Some l \<Longrightarrow> l \<in> set (t_limits d) \<and> bl_run_id l = r \<and> bl_chain_id l = c"
  unfolding find_limit_def by (drule find_SomeD) simp

lemma find_totalD: "find_total r c d = Some t \<Longrightarrow> t \<in> set (t_totals d) \<and> bt_run_id t = r \<and> bt_chain_id t = c"
  unfolding find_total_def by (drule find_SomeD) simp

lemma find_batch_totalD:
  "find_batch_total r b c d = Some t \<Longrightarrow>
     t \<in> set (t_batch_totals d) \<and> bb_run_id t = r \<and> bb_batch_id t = b \<and> bb_chain_id t = c"
  unfolding find_batch_total_def by (drule find_SomeD) simp

lemma find_budgetD:
  "find_budget i c d = Some b \<Longrightarrow> b \<in> set (t_budgets d) \<and> bg_reservation_id b = i \<and> bg_chain_id b = c"
  unfolding find_budget_def by (drule find_SomeD) simp

text \<open>The room a posting needs, and the two ways the code establishes it.\<close>

definition batch_use :: "db \<Rightarrow> string \<Rightarrow> string \<Rightarrow> int \<Rightarrow> int" where
  "batch_use d r b c = (case find_batch_total r b c d of None \<Rightarrow> 0
                        | Some t \<Rightarrow> bb_active_reserved_wei t + bb_finalized_wei t)"

definition fits :: "db \<Rightarrow> string \<Rightarrow> string \<Rightarrow> int \<Rightarrow> int \<Rightarrow> bool" where
  "fits d r b c v \<longleftrightarrow> (\<forall>l. find_limit r c d = Some l \<longrightarrow>
     (\<forall>t. find_total r c d = Some t \<longrightarrow>
        bt_active_reserved_wei t + bt_finalized_wei t + v \<le> bl_max_run_wei l)
     \<and> batch_use d r b c + v \<le> bl_max_batch_wei l)"

lemma fits_nonpositive:
  assumes "within_limits d" and "\<forall>l\<in>set (t_limits d). limit_ok l" and "v \<le> 0"
  shows "fits d r b c v"
proof -
  { fix l assume l: "find_limit r c d = Some l"
    from find_limitD [OF l] assms(2) have "0 \<le> bl_max_batch_wei l" by (force simp: limit_ok_def)
    with l assms(1,3) have "batch_use d r b c + v \<le> bl_max_batch_wei l"
      by (auto simp: batch_use_def within_limits_def split: option.splits
          dest!: find_batch_totalD find_limitD) force
    moreover have "bt_active_reserved_wei t + bt_finalized_wei t + v \<le> bl_max_run_wei l"
      if "find_total r c d = Some t" for t
      using find_totalD [OF that] find_limitD [OF l] assms(1,3) by (force simp: within_limits_def)
    ultimately have "(\<forall>t. find_total r c d = Some t \<longrightarrow>
        bt_active_reserved_wei t + bt_finalized_wei t + v \<le> bl_max_run_wei l)
      \<and> batch_use d r b c + v \<le> bl_max_batch_wei l" by blast }
  then show ?thesis by (simp add: fits_def)
qed

lemma assert_capacity_fits:
  assumes "assert_capacity r b c requested credit d = Inr u"
  shows "fits d r b c (requested - credit)" and "find_total r c d \<noteq> None" and "find_limit r c d \<noteq> None"
  using assms
  by (auto simp: assert_capacity_def fits_def batch_use_def budget_limit_of_def Let_def exn_simps
      split: option.splits)

lemma change_totals_find:
  assumes "change_totals r b c rd pd fd at d = Inr d'"
  shows "find_total r' c' d' = map_option (\<lambda>t. if bt_run_id t = r \<and> bt_chain_id t = c
                                              then bump_total rd pd fd at t else t) (find_total r' c' d)"
    and "find_batch_total r' b' c' d' \<noteq> None
         \<longleftrightarrow> find_batch_total r' b' c' d \<noteq> None \<or> (r', b', c') = (r, b, c)"
    and "find_limit r' c' d' = find_limit r' c' d"
proof -
  from assms obtain ts bs where ts: "change_run_totals r c rd pd fd at (t_totals d) = Inr ts"
    and bs: "change_batch_totals r b c rd pd fd at (t_batch_totals d) = Inr bs"
    and d': "d' = d\<lparr>t_totals := ts, t_batch_totals := bs\<rparr>"
    by (rule change_totals_fields)
  from ts d' show "find_total r' c' d' = map_option (\<lambda>t. if bt_run_id t = r \<and> bt_chain_id t = c
                     then bump_total rd pd fd at t else t) (find_total r' c' d)"
    by (simp add: find_total_def change_run_totals_eq [OF ts] find_update_where)
  have some: "find_batch_total r' b' c' e \<noteq> None \<longleftrightarrow>
      (\<exists>t\<in>set (t_batch_totals e). bb_run_id t = r' \<and> bb_batch_id t = b' \<and> bb_chain_id t = c')" for e
    by (auto simp: find_batch_total_def find_None_iff)
  from bs show "find_batch_total r' b' c' d' \<noteq> None
         \<longleftrightarrow> find_batch_total r' b' c' d \<noteq> None \<or> (r', b', c') = (r, b, c)"
    unfolding some
    by (cases rule: change_batch_totals_cases) (use d' in \<open>auto simp: bex_update_where\<close>)
  show "find_limit r' c' d' = find_limit r' c' d" using d' by (simp add: find_limit_def)
qed

lemma change_totals_keys:
  assumes "change_totals r b c rd pd fd at d = Inr d'" and "keys_ok d"
  shows "keys_ok d'"
proof -
  from assms obtain ts bs where ts: "change_run_totals r c rd pd fd at (t_totals d) = Inr ts"
    and bs: "change_batch_totals r b c rd pd fd at (t_batch_totals d) = Inr bs"
    and d': "d' = d\<lparr>t_totals := ts, t_batch_totals := bs\<rparr>"
    by (auto elim: change_totals_fields)
  from ts assms(2) have "uniq_on (\<lambda>t. Some (bt_run_id t, bt_chain_id t)) ts"
    by (simp add: change_run_totals_eq [OF ts] uniq_on_update_where keys_ok_def)
  moreover from bs have "uniq_on (\<lambda>t. Some (bb_run_id t, bb_batch_id t, bb_chain_id t)) bs"
    by (cases rule: change_batch_totals_cases)
       (use assms(2) in \<open>auto simp: uniq_on_update_where keys_ok_def uniq_on_snoc clashes_def list_ex_iff\<close>)
  ultimately show ?thesis using assms(2) d' by (simp add: keys_ok_def)
qed

lemma change_totals_within:
  assumes post: "change_totals r b c rd pd fd at d = Inr d'"
    and "keys_ok d" and lim: "within_limits d" and fit: "fits d r b c (rd + fd)"
  shows "within_limits d'"
proof -
  from post obtain ts bs where ts: "change_run_totals r c rd pd fd at (t_totals d) = Inr ts"
    and bs: "change_batch_totals r b c rd pd fd at (t_batch_totals d) = Inr bs"
    and d': "d' = d\<lparr>t_totals := ts, t_batch_totals := bs\<rparr>"
    by (rule change_totals_fields)
  note find = uniq_find_limit [OF assms(2)] uniq_find_total [OF assms(2)] uniq_find_batch_total [OF assms(2)]
  have "bt_active_reserved_wei t + bt_finalized_wei t \<le> bl_max_run_wei l"
    if "t \<in> set ts" and l: "l \<in> set (t_limits d)"
      and key: "bl_run_id l = bt_run_id t" "bl_chain_id l = bt_chain_id t" for t l
  proof -
    from that ts obtain u where u: "u \<in> set (t_totals d)"
      and t_eq: "t = (if bt_run_id u = r \<and> bt_chain_id u = c then bump_total rd pd fd at u else u)"
      by (auto dest!: change_run_totals_eq simp: set_update_where)
    show ?thesis
    proof (cases "bt_run_id u = r \<and> bt_chain_id u = c")
      case True
      with find(1) [OF l] find(2) [OF u] key t_eq fit show ?thesis by (simp add: fits_def)
    next
      case False
      with t_eq have "t = u" by auto
      with key l u lim show ?thesis by (simp add: within_limits_def)
    qed
  qed
  moreover have "bb_active_reserved_wei t + bb_finalized_wei t \<le> bl_max_batch_wei l"
    if t: "t \<in> set bs" and l: "l \<in> set (t_limits d)"
      and key: "bl_run_id l = bb_run_id t" "bl_chain_id l = bb_chain_id t" for t l
    using bs
  proof (cases rule: change_batch_totals_cases)
    case updated
    with t obtain u where u: "u \<in> set (t_batch_totals d)"
      and t_eq: "t = (if bb_run_id u = r \<and> bb_batch_id u = b \<and> bb_chain_id u = c
                      then bump_batch_total rd pd fd at u else u)"
      by (auto simp: set_update_where)
    show ?thesis
    proof (cases "bb_run_id u = r \<and> bb_batch_id u = b \<and> bb_chain_id u = c")
      case True
      with find(1) [OF l] find(3) [OF u] key t_eq fit show ?thesis by (simp add: fits_def batch_use_def)
    next
      case False
      with t_eq have "t = u" by (simp only: if_False)
      with key l u lim show ?thesis by (simp add: within_limits_def)
    qed
  next
    case inserted
    then have "find_batch_total r b c d = None" by (simp add: find_batch_total_def find_None_iff)
    with inserted t l key lim fit find(1) [OF l] show ?thesis
      by (auto simp: within_limits_def fits_def batch_use_def)
  qed
  ultimately show ?thesis using d' by (simp add: within_limits_def)
qed


text \<open>A posting at a filing whose batch row exists.\<close>

definition posted :: "db \<Rightarrow> db \<Rightarrow> posting_key \<Rightarrow> int \<Rightarrow> int \<Rightarrow> int \<Rightarrow> bool" where
  "posted d d' k rd pd fd \<longleftrightarrow>
     (\<forall>A P F. rows_agree A P F (t_totals d) (t_batch_totals d) \<longrightarrow>
        rows_agree (plus_posting A k rd) (plus_posting P k pd) (plus_posting F k fd)
          (t_totals d') (t_batch_totals d'))
   \<and> (\<forall>j. has_total d j \<longrightarrow> has_total d' j) \<and> (\<forall>j. has_batch_total d j \<longrightarrow> has_batch_total d' j)
   \<and> (\<forall>t\<in>set (t_totals d'). find_limit (bt_run_id t) (bt_chain_id t) d' \<noteq> None)
   \<and> (\<forall>t\<in>set (t_batch_totals d'). find_limit (bb_run_id t) (bb_chain_id t) d' \<noteq> None)
   \<and> uniq_on (\<lambda>t. Some (bt_run_id t, bt_chain_id t)) (t_totals d')
   \<and> uniq_on (\<lambda>t. Some (bb_run_id t, bb_batch_id t, bb_chain_id t)) (t_batch_totals d')
   \<and> t_limits d' = t_limits d \<and> within_limits d'"

lemma plus_posting_zero [simp]: "plus_posting A k 0 = A"
  by (auto simp: plus_posting_def)

lemma posted_refl: "ledger_core d \<Longrightarrow> posted d d k 0 0 0"
  by (simp add: posted_def ledger_core_def covered_def keys_ok_def)

lemma change_totals_covers:
  assumes "change_totals r b c rd pd fd at d = Inr d'" and "find_limit r c d \<noteq> None"
    and "\<forall>t\<in>set (t_totals d). find_limit (bt_run_id t) (bt_chain_id t) d \<noteq> None"
    and "\<forall>t\<in>set (t_batch_totals d). find_limit (bb_run_id t) (bb_chain_id t) d \<noteq> None"
  shows "\<forall>t\<in>set (t_totals d'). find_limit (bt_run_id t) (bt_chain_id t) d' \<noteq> None"
    and "\<forall>t\<in>set (t_batch_totals d'). find_limit (bb_run_id t) (bb_chain_id t) d' \<noteq> None"
proof -
  from assms(1) obtain ts bs where ts: "change_run_totals r c rd pd fd at (t_totals d) = Inr ts"
    and bs: "change_batch_totals r b c rd pd fd at (t_batch_totals d) = Inr bs"
    and d': "d' = d\<lparr>t_totals := ts, t_batch_totals := bs\<rparr>"
    by (rule change_totals_fields)
  note lim = change_totals_find(3) [OF assms(1)]
  show "\<forall>t\<in>set (t_totals d'). find_limit (bt_run_id t) (bt_chain_id t) d' \<noteq> None"
    unfolding lim using change_run_totals_eq [OF ts] assms(3) d' by (auto simp: set_update_where)
  from bs show "\<forall>t\<in>set (t_batch_totals d'). find_limit (bb_run_id t) (bb_chain_id t) d' \<noteq> None"
    unfolding lim
    by (cases rule: change_batch_totals_cases) (use assms(2,4) d' in \<open>auto simp: set_update_where\<close>)
qed

lemma change_totals_limits: "change_totals r b c rd pd fd at d = Inr d' \<Longrightarrow> t_limits d' = t_limits d"
  by (erule change_totals_fields) simp

lemma change_totals_posted:
  assumes post: "change_totals r b c rd pd fd at d = Inr d'"
    and k: "k = (i, r, b, c)" and inv: "keys_ok d" "within_limits d"
    and cov: "\<forall>t\<in>set (t_totals d). find_limit (bt_run_id t) (bt_chain_id t) d \<noteq> None"
      "\<forall>t\<in>set (t_batch_totals d). find_limit (bb_run_id t) (bb_chain_id t) d \<noteq> None"
    and row: "has_batch_total d k" and fit: "fits d r b c (rd + fd)"
  shows "posted d d' k rd pd fd"
proof -
  from row k obtain t where "find_batch_total r b c d = Some t" by (auto simp: has_batch_total_def)
  then have lim: "find_limit r c d \<noteq> None" using find_batch_totalD cov(2) by blast
  have "keys_ok d'" using change_totals_keys [OF post inv(1)] .
  moreover have "rows_agree (plus_posting A k rd) (plus_posting P k pd) (plus_posting F k fd)
      (t_totals d') (t_batch_totals d')" if "rows_agree A P F (t_totals d) (t_batch_totals d)" for A P F
    unfolding k by (rule change_totals_agree [OF post that]) (use row k in \<open>simp add: has_batch_total_def\<close>)
  ultimately show ?thesis
    using change_totals_covers [OF post lim cov] change_totals_within [OF post inv fit]
      change_totals_limits [OF post] change_totals_find(1,2) [OF post]
    unfolding posted_def keys_ok_def has_total_def has_batch_total_def by auto
qed

end
