(* ===== verification/Xir_Budget_Steps.thy ===== *)
theory Xir_Budget_Steps
  imports Xir_Budget
begin

text \<open>
  Every operation of \<^verbatim>\<open>execute/leases.py\<close> keeps the ledger invariant of
  \<open>Xir_Budget\<close>. The lineage operations are instances of one lemma, \<open>ledger_post\<close>: a change
  of one sub-reservation, a posting of the matching deltas and an event with the same deltas.
\<close>

section \<open>What the invariant depends on\<close>

definition same_ledger :: "db \<Rightarrow> db \<Rightarrow> bool" where
  "same_ledger d d' \<longleftrightarrow>
     t_budgets d' = t_budgets d \<and> t_subs d' = t_subs d \<and> t_totals d' = t_totals d
   \<and> t_batch_totals d' = t_batch_totals d \<and> t_limits d' = t_limits d
   \<and> t_budget_events d' = t_budget_events d"

lemma same_ledger_views:
  assumes "same_ledger d d'"
  shows "active_in d' = active_in d" "provisional_in d' = provisional_in d" "finalized_in d' = finalized_in d"
    "active_replay d' = active_replay d" "provisional_replay d' = provisional_replay d"
    "finalized_replay d' = finalized_replay d" "has_total d' = has_total d"
    "has_batch_total d' = has_batch_total d" "find_limit r c d' = find_limit r c d"
    "find_total r c d' = find_total r c d" "within_limits d' = within_limits d" "keys_ok d' = keys_ok d"
    "fully_split d' = fully_split d"
  using assms
  by (auto simp: same_ledger_def fun_eq_iff active_in_def provisional_in_def finalized_in_def
      active_replay_def provisional_replay_def finalized_replay_def has_total_def has_batch_total_def
      find_total_def find_batch_total_def find_limit_def within_limits_def keys_ok_def fully_split_def)

lemma ledger_core_cong: "same_ledger d d' \<Longrightarrow> ledger_core d' \<longleftrightarrow> ledger_core d"
  unfolding ledger_core_def covered_def by (simp add: same_ledger_views) (simp add: same_ledger_def)

lemma ledger_inv_cong: "same_ledger d d' \<Longrightarrow> ledger_inv d' \<longleftrightarrow> ledger_inv d"
  unfolding ledger_inv_def using ledger_core_cong same_ledger_views(13) by blast

lemma ledger_inv_core: "ledger_inv d \<Longrightarrow> ledger_core d"
  by (simp add: ledger_inv_def)

lemma same_filing_bkey: "same_filing g \<Longrightarrow> bkey (g b) = bkey b"
  by (simp add: same_filing_def)

lemma sub_started_budget_update:
  assumes "same_filing g"
  shows "sub_started_ok (update_where p g bs) s = sub_started_ok bs s"
  using assms
  by (auto simp: sub_started_ok_def owner_update_where [OF same_filing_bkey [OF assms]]
      same_filing_def split: option.splits)

lemma uniq_budget_update:
  assumes "same_filing g" and "uniq_on (\<lambda>b. Some (bg_reservation_id b, bg_chain_id b)) bs"
  shows "uniq_on (\<lambda>b. Some (bg_reservation_id b, bg_chain_id b)) (update_where p g bs)"
  using assms by (subst uniq_on_update_where) (auto simp: same_filing_def bkey_fields)

text \<open>A relabelling of budget rows is invisible to the ledger.\<close>

lemma relabel_budgets:
  assumes inv: "ledger_inv d" and g: "same_filing g"
    and d': "same_ledger (d\<lparr>t_budgets := update_where p g (t_budgets d)\<rparr>) d'"
  shows "ledger_inv d'"
proof -
  let ?d = "d\<lparr>t_budgets := update_where p g (t_budgets d)\<rparr>"
  have key: "\<And>b. bkey (g b) = bkey b" and wei: "\<And>b. bg_reserved_wei (g b) = bg_reserved_wei b"
    using g by (simp_all add: same_filing_def)
  have sums: "active_in ?d = active_in d" "provisional_in ?d = provisional_in d"
    "finalized_in ?d = finalized_in d"
    by (auto simp: active_in_def provisional_in_def finalized_in_def sub_sum_budget_update [OF key]
        budget_sum_update [where g = bg_reserved_wei, OF key wei])
  have split: "fully_split ?d"
    using inv by (simp add: ledger_inv_def fully_split_def sub_sum_budget_update [OF key]
        budget_sum_update [where g = bg_reserved_wei, OF key wei])
  have frame: "has_total ?d = has_total d" "has_batch_total ?d = has_batch_total d"
    "within_limits ?d = within_limits d" "active_replay ?d = active_replay d"
    "provisional_replay ?d = provisional_replay d" "finalized_replay ?d = finalized_replay d"
    "\<And>r c. find_limit r c ?d = find_limit r c d"
    by (auto simp: fun_eq_iff has_total_def has_batch_total_def within_limits_def find_limit_def
        find_total_def find_batch_total_def active_replay_def provisional_replay_def finalized_replay_def)
  have core: "ledger_core d" using inv by (rule ledger_inv_core)
  then have "keys_ok ?d" by (simp add: ledger_core_def keys_ok_def uniq_budget_update [OF g])
  moreover from core have "covered ?d"
    by (auto simp: ledger_core_def covered_def frame owner_update_where [OF key] set_update_where key)
  ultimately have "ledger_core ?d"
    using core unfolding ledger_core_def sums frame
    by (auto simp: sub_started_budget_update [OF g] set_update_where wei)
  with split have "ledger_inv ?d" by (simp add: ledger_inv_def)
  then show ?thesis using ledger_inv_cong [OF d'] by blast
qed

lemma lineageD:
  assumes "lineage L d = Inr (s, n, b)"
  shows "find (\<lambda>r. sb_lineage_id r = Some L) (t_subs d) = Some s" and "owner (t_budgets d) s = Some b"
    and "s \<in> set (t_subs d)" and "sb_lineage_id s = Some L"
    and "b \<in> set (t_budgets d)" and "bg_reservation_id b = sb_reservation_id s"
    and "bg_chain_id b = sb_chain_id s"
  using assms find_SomeD [of "\<lambda>r. sb_lineage_id r = Some L" "t_subs d" s]
    find_budgetD [of "sb_reservation_id s" "sb_chain_id s" d b]
  by (auto simp: lineage_def exn_simps owner_def find_budget_def)

lemma lineage_unique:
  assumes "keys_ok d" and "lineage L d = Inr (s, n, b)"
  shows "filter (\<lambda>r. sb_lineage_id r = Some L) (t_subs d) = [s]"
  using uniq_on_filter [OF _ lineageD(1) [OF assms(2)]] assms(1) by (simp add: keys_ok_def)

text \<open>Updates that keep the identity of a sub-reservation.\<close>

definition same_sub :: "(sub_row \<Rightarrow> sub_row) \<Rightarrow> bool" where
  "same_sub f \<longleftrightarrow> (\<forall>s. sb_subreservation_id (f s) = sb_subreservation_id s
      \<and> sb_reservation_id (f s) = sb_reservation_id s \<and> sb_chain_id (f s) = sb_chain_id s
      \<and> sb_lineage_id (f s) = sb_lineage_id s \<and> sb_reserved_wei (f s) = sb_reserved_wei s)"

section \<open>One posting\<close>

lemma ledger_post:
  assumes inv: "ledger_inv d" and lin: "lineage L d = Inr (s, n, b)"
    and subs: "t_subs d' = update_where (\<lambda>r. sb_lineage_id r = Some L) f (t_subs d)"
    and f: "same_sub f" "sub_amounts_ok (f s)"
    and budgets: "t_budgets d' = update_where p g (t_budgets d)" and g: "same_filing g"
    and events: "t_budget_events d' = t_budget_events d @ [e]" and e: "ekey e = bkey b"
    and post: "posted d d' (bkey b) (be_reserved_delta_wei e) (be_provisional_delta_wei e)
                 (be_finalized_delta_wei e)"
    and deltas: "be_reserved_delta_wei e = settled_wei s - settled_wei (f s)"
      "be_provisional_delta_wei e = sb_provisional_wei (f s) - sb_provisional_wei s"
      "be_finalized_delta_wei e = sb_finalized_wei (f s) - sb_finalized_wei s"
  shows "ledger_inv d'"
proof -
  note core = ledger_inv_core [OF inv, unfolded ledger_core_def]
  have keys: "keys_ok d" and cov: "covered d" using core by simp_all
  note one = lineage_unique [OF keys lin]
  have scope: "in_scope Q (t_budgets d) s = Q (bkey b)" for Q
    by (simp add: in_scope_def lineageD(2) [OF lin])
  have key: "\<And>b. bkey (g b) = bkey b" and wei: "\<And>b. bg_reserved_wei (g b) = bg_reserved_wei b"
    using g by (simp_all add: same_filing_def)
  have fs: "sb_reservation_id (f s) = sb_reservation_id s" "sb_chain_id (f s) = sb_chain_id s"
    using f by (simp_all add: same_sub_def)
  note upd = sub_sum_update_one [of _ _ s f, OF one fs]
  have sums: "active_in d' = plus_posting (active_in d) (bkey b) (be_reserved_delta_wei e)"
    "provisional_in d' = plus_posting (provisional_in d) (bkey b) (be_provisional_delta_wei e)"
    "finalized_in d' = plus_posting (finalized_in d) (bkey b) (be_finalized_delta_wei e)"
    by (auto simp: fun_eq_iff active_in_def provisional_in_def finalized_in_def plus_posting_def subs
        budgets deltas sub_sum_budget_update [OF key] budget_sum_update [where g = bg_reserved_wei, OF key wei] upd
        in_scope_update_where [OF key] scope)
  have replays: "active_replay d' = plus_posting (active_replay d) (bkey b) (be_reserved_delta_wei e)"
    "provisional_replay d' = plus_posting (provisional_replay d) (bkey b) (be_provisional_delta_wei e)"
    "finalized_replay d' = plus_posting (finalized_replay d) (bkey b) (be_finalized_delta_wei e)"
    by (auto simp: fun_eq_iff active_replay_def provisional_replay_def finalized_replay_def events
        plus_posting_def event_sum_snoc e)
  have agree: "rows_agree (active_in d') (provisional_in d') (finalized_in d') (t_totals d') (t_batch_totals d')"
    "rows_agree (active_replay d') (provisional_replay d') (finalized_replay d') (t_totals d') (t_batch_totals d')"
    unfolding sums replays using post core by (simp_all add: posted_def)
  have "uniq_on sb_lineage_id (t_subs d')" "uniq_on (\<lambda>s. Some (sb_subreservation_id s)) (t_subs d')"
    using keys f(1) unfolding subs
    by (simp_all add: uniq_on_update_where same_sub_def keys_ok_def)
  then have keys': "keys_ok d'"
    using keys post uniq_budget_update [OF g, of "t_budgets d" p] budgets by (simp add: keys_ok_def posted_def)
  have own_f: "owner bs (f r) = owner bs r" for bs r
    using f(1) by (simp add: owner_def same_sub_def)
  have mono: "\<And>j. has_total d j \<Longrightarrow> has_total d' j" "\<And>j. has_batch_total d j \<Longrightarrow> has_batch_total d' j"
    and lims: "\<forall>t\<in>set (t_totals d'). find_limit (bt_run_id t) (bt_chain_id t) d' \<noteq> None"
      "\<forall>t\<in>set (t_batch_totals d'). find_limit (bb_run_id t) (bb_chain_id t) d' \<noteq> None"
    using post unfolding posted_def by blast+
  moreover have "\<forall>b\<in>set (t_budgets d'). has_total d' (bkey b) \<and> has_batch_total d' (bkey b)"
    using cov by (auto intro!: mono simp: covered_def budgets set_update_where key)
  moreover have "\<forall>r\<in>set (t_subs d'). owner (t_budgets d') r \<noteq> None"
    using cov by (auto simp: covered_def subs set_update_where own_f budgets owner_update_where [OF key])
  moreover have "\<forall>x\<in>set (t_budget_events d'). has_total d' (ekey x) \<and> has_batch_total d' (ekey x)"
    using cov lineageD(5) [OF lin] by (auto intro!: mono simp: covered_def events e)
  ultimately have cov': "covered d'" unfolding covered_def by blast
  have started: "sub_started_ok (t_budgets d') r" if r: "r \<in> set (t_subs d')" for r
  proof -
    from r subs obtain q where q: "q \<in> set (t_subs d)"
      and r_eq: "r = (if sb_lineage_id q = Some L then f q else q)" by (auto simp: set_update_where)
    with core have "sub_started_ok (t_budgets d) q" by simp
    with r_eq f(1) show ?thesis
      unfolding budgets sub_started_budget_update [OF g]
      by (auto simp: sub_started_ok_def own_f same_sub_def split: option.splits if_splits)
  qed
  have amounts: "\<forall>r\<in>set (t_subs d'). sub_amounts_ok r"
  proof -
    have "q = s" if "q \<in> set (t_subs d)" "sb_lineage_id q = Some L" for q
    proof -
      from that have "q \<in> set (filter (\<lambda>r. sb_lineage_id r = Some L) (t_subs d))" by simp
      with one show ?thesis by simp
    qed
    with core f(2) show ?thesis by (auto simp: subs set_update_where)
  qed
  have split: "fully_split d'"
    using inv f(1)
    by (simp add: ledger_inv_def fully_split_def subs budgets sub_sum_budget_update [OF key]
        budget_sum_update [where g = bg_reserved_wei, OF key wei] upd same_sub_def)
  from core post keys' cov' started amounts agree split wei show ?thesis
    by (auto simp: ledger_inv_def ledger_core_def posted_def budgets set_update_where)
qed


lemma change_totals_frame:
  assumes "change_totals r b c rd pd fd at d = Inr d'"
  shows "t_budgets d' = t_budgets d" "t_subs d' = t_subs d" "t_budget_events d' = t_budget_events d"
    "t_limits d' = t_limits d" "t_nonce_leases d' = t_nonce_leases d" "t_attempts d' = t_attempts d"
    "t_runs d' = t_runs d" "t_work_leases d' = t_work_leases d"
  using assms by (auto elim: change_totals_fields)

definition same_totals :: "db \<Rightarrow> db \<Rightarrow> bool" where
  "same_totals d d' \<longleftrightarrow> t_totals d' = t_totals d \<and> t_batch_totals d' = t_batch_totals d \<and> t_limits d' = t_limits d"

lemma posting_of:
  assumes core: "ledger_core d" and b: "b \<in> set (t_budgets d)"
    and post: "change_totals (bg_run_id b) (bg_batch_id b) (bg_chain_id b) rd pd fd at d1 = Inr d2"
    and d1: "same_totals d d1" and d': "same_totals d2 d'"
    and fit: "fits d (bg_run_id b) (bg_batch_id b) (bg_chain_id b) (rd + fd)"
  shows "posted d d' (bkey b) rd pd fd"
proof -
  let ?d = "d\<lparr>t_totals := t_totals d2, t_batch_totals := t_batch_totals d2\<rparr>"
  have "change_totals (bg_run_id b) (bg_batch_id b) (bg_chain_id b) rd pd fd at d = Inr ?d"
    using post d1 by (auto simp: change_totals_def same_totals_def exn_simps)
  moreover have "has_batch_total d (bkey b)" using core b by (simp add: ledger_core_def covered_def)
  ultimately have "posted d ?d (bkey b) rd pd fd"
    using core fit by (auto intro!: change_totals_posted simp: ledger_core_def bkey_def covered_def)
  moreover have "t_limits d' = t_limits d"
    using d' d1 change_totals_limits [OF post] by (simp add: same_totals_def)
  ultimately show ?thesis
    using d' by (simp add: posted_def same_totals_def within_limits_def find_limit_def
        has_total_def has_batch_total_def find_total_def find_batch_total_def)
qed

lemma update_budget_amountsD:
  assumes "update_budget_amounts s g d = Inr d'"
  shows "d' = d\<lparr>t_budgets := update_where (\<lambda>r. bg_reservation_id r = sb_reservation_id s
                              \<and> bg_chain_id r = sb_chain_id s) g (t_budgets d)\<rparr>"
  using assms by (auto simp: update_budget_amounts_def Let_def exn_simps)

lemmas lineage_updates = update_lineage_sub_def update_lineage_nonce_def lineage_event_def
  budget_event_def same_totals_def change_totals_frame

lemma ledger_fits:
  assumes "ledger_inv d" and "v \<le> 0"
  shows "fits d r b c v"
  using assms by (intro fits_nonpositive) (auto simp: ledger_inv_def ledger_core_def)

text \<open>The shape of every settling operation: change the sub-reservation, post, append the event.\<close>

lemma lineage_posting:
  assumes inv: "ledger_inv d" and lin: "lineage L d = Inr (s, n, b)"
    and post: "change_totals (bg_run_id b) (bg_batch_id b) (sb_chain_id s) rd pd fd at d2 = Inr d3"
    and event: "d' = lineage_event s b ty rd pd fd js at d3"
    and f: "same_sub f" "sub_amounts_ok (f s)" and g: "same_filing g"
    and d2: "t_subs d2 = update_where (\<lambda>r. sb_lineage_id r = Some L) f (t_subs d)"
      "t_budgets d2 = update_where p g (t_budgets d)" "t_budget_events d2 = t_budget_events d"
      "same_totals d d2"
    and deltas: "rd = settled_wei s - settled_wei (f s)"
      "pd = sb_provisional_wei (f s) - sb_provisional_wei s"
      "fd = sb_finalized_wei (f s) - sb_finalized_wei s"
    and fit: "fits d (bg_run_id b) (bg_batch_id b) (sb_chain_id s) (rd + fd)"
  shows "ledger_inv d'"
proof (rule ledger_post [OF inv lin, where f = f and g = g and p = p and e = "last (t_budget_events d')"])
  note eqs = change_totals_frame [OF post] event d2 lineageD(6,7) [OF lin]
  show "posted d d' (bkey b) (be_reserved_delta_wei (last (t_budget_events d')))
      (be_provisional_delta_wei (last (t_budget_events d')))
      (be_finalized_delta_wei (last (t_budget_events d')))"
    using posting_of [OF ledger_inv_core [OF inv] lineageD(5) [OF lin], of rd pd fd at d2 d3 d'] post fit d2(4)
    by (simp add: eqs lineage_event_def budget_event_def same_totals_def)
qed (use f g change_totals_frame [OF post] lineageD(6,7) [OF lin] d2 deltas in
     \<open>auto simp: event lineage_event_def budget_event_def bkey_def ekey_def\<close>)

lemma lineage_amounts:
  "ledger_inv d \<Longrightarrow> lineage L d = Inr (s, n, b) \<Longrightarrow> sub_amounts_ok s"
  using lineageD(3) by (auto simp: ledger_inv_def ledger_core_def)

lemmas posting_simps = same_sub_def same_filing_def sub_amounts_ok_def bkey_def settled_wei_def
  sub_settled_def

lemma record_included_keeps:
  assumes "ledger_inv d" and "0 \<le> spent" and "record_included_txn L spent at d = Inr (u, d')"
  shows "ledger_inv d'"
proof -
  let ?f = "\<lambda>s. s\<lparr>sb_provisional_wei := spent, sb_state := S_included\<rparr>"
  let ?g = "\<lambda>s b. b\<lparr>bg_provisional_wei := bg_provisional_wei b + (spent - sb_provisional_wei s)\<rparr>"
  from assms(3) obtain s n b d2 d3 where lin: "lineage L d = Inr (s, n, b)"
    and live: "\<not> sub_settled s" and le: "spent \<le> sb_reserved_wei s"
    and d2: "update_budget_amounts s (?g s)
        (update_lineage_sub L ?f (update_lineage_nonce L (\<lambda>n. n\<lparr>nl_state := N_included, nl_locked := True\<rparr>) d)) = Inr d2"
    and d3: "change_totals (bg_run_id b) (bg_batch_id b) (sb_chain_id s) 0 (spent - sb_provisional_wei s) 0 at d2 = Inr d3"
    and d': "d' = lineage_event s b ''receipt_included'' 0 (spent - sb_provisional_wei s) 0
                   (JObj [(''actual_spent_wei'', JInt spent)]) at d3"
    by (auto simp: record_included_txn_def Let_def exn_simps split: prod.splits)
  show ?thesis
    by (rule lineage_posting [OF assms(1) lin d3 d', where f = ?f and g = "?g s"])
       (use lineage_amounts [OF assms(1) lin] live le assms(2) ledger_fits [OF assms(1)] in
        \<open>auto simp: update_budget_amountsD [OF d2] lineage_updates posting_simps\<close>)
qed

lemma mark_lineage_pending_keeps:
  assumes "ledger_inv d" and "mark_lineage_pending_txn clk L st sst now d = Inr (u, d')"
    and "pending_sub_state st = Some sst"
  shows "ledger_inv d'"
proof -
  from assms(2) obtain s n b at where lin: "lineage L d = Inr (s, n, b)" and live: "\<not> sub_settled s"
    and d': "d' = lineage_event s b
                (if st = N_submitted then ''lineage_submitted'' else ''lineage_broadcast_unknown'')
                0 0 0 (JObj []) at
                (update_lineage_sub L (sb_state_update (\<lambda>_. sst))
                  (update_lineage_nonce L (\<lambda>n. n\<lparr>nl_state := st, nl_locked := True\<rparr>) d))"
    by (auto simp: mark_lineage_pending_txn_def exn_simps split: prod.splits)
  have s: "sub_amounts_ok s" using assms(1) lineageD(3) [OF lin] by (simp add: ledger_inv_def ledger_core_def)
  have st: "sst = S_broadcast_unknown \<or> sst = S_submitted"
    using assms(3) by (auto simp: pending_sub_state_def split: nonce_state.splits)
  show ?thesis
  proof (rule ledger_post [OF assms(1) lin, where f = "sb_state_update (\<lambda>_. sst)"
        and e = "last (t_budget_events d')" and p = "\<lambda>_. False" and g = id])
    have "posted d d (bkey b) 0 0 0" using assms(1) by (intro posted_refl ledger_inv_core)
    then show "posted d d' (bkey b) (be_reserved_delta_wei (last (t_budget_events d')))
        (be_provisional_delta_wei (last (t_budget_events d')))
        (be_finalized_delta_wei (last (t_budget_events d')))"
      by (simp add: d' lineage_updates posted_def within_limits_def find_limit_def
        has_total_def has_batch_total_def find_total_def find_batch_total_def)
  qed (use s live st lineageD(6,7) [OF lin] in
       \<open>auto simp: d' lineage_updates same_sub_def same_filing_def sub_amounts_ok_def bkey_def ekey_def
             settled_wei_def sub_settled_def\<close>)
qed

lemma settle_keeps: "ledger_inv d \<Longrightarrow> ledger_inv (settle_completed_budget_rows i d)"
  unfolding settle_completed_budget_rows_def
  by (erule relabel_budgets) (auto simp: same_ledger_def same_filing_def bkey_def)

lemma finalize_lineage_keeps:
  assumes "ledger_inv d" and "0 \<le> spent" and "finalize_lineage_txn L spent at d = Inr (u, d')"
  shows "ledger_inv d'"
proof (cases "d' = d")
  case False
  let ?f = "\<lambda>s. s\<lparr>sb_provisional_wei := 0, sb_finalized_wei := spent, sb_state := S_finalized\<rparr>"
  let ?g = "\<lambda>s b. b\<lparr>bg_provisional_wei := bg_provisional_wei b - sb_provisional_wei s,
                      bg_finalized_wei := bg_finalized_wei b + spent\<rparr>"
  let ?n = "\<lambda>n. n\<lparr>nl_state := N_finalized, nl_locked := False, nl_released_at := Some at\<rparr>"
  from assms(3) False obtain s n b d2 d3 d4 where lin: "lineage L d = Inr (s, n, b)"
    and live: "\<not> sub_settled s" and le: "spent \<le> sb_reserved_wei s"
    and d2: "update_budget_amounts s (?g s)
               (update_lineage_nonce L ?n (update_lineage_sub L ?f d)) = Inr d2"
    and d3: "change_totals (bg_run_id b) (bg_batch_id b) (sb_chain_id s) (- sb_reserved_wei s)
               (- sb_provisional_wei s) spent at d2 = Inr d3"
    and d4: "d4 = lineage_event s b ''lineage_finalized'' (- sb_reserved_wei s) (- sb_provisional_wei s) spent
                   (JObj [(''actual_spent_wei'', JInt spent)]) at d3"
    and d': "d' = settle_completed_budget_rows (sb_reservation_id s) d4"
    by (auto simp: finalize_lineage_txn_def Let_def exn_simps sub_settled_def split: prod.splits if_splits)
  have "ledger_inv d4"
    by (rule lineage_posting [OF assms(1) lin d3 d4, where f = ?f and g = "?g s"])
       (use lineage_amounts [OF assms(1) lin] live le assms(2) ledger_fits [OF assms(1)] in
        \<open>auto simp: update_budget_amountsD [OF d2] lineage_updates posting_simps\<close>)
  then show ?thesis unfolding d' by (rule settle_keeps)
qed (use assms(1) in simp)

lemma release_dead_lineage_keeps:
  assumes "ledger_inv d"
    and "release_dead_lineage_txn L proof_sha destroyed manual proof_release at d = Inr (u, d')"
  shows "ledger_inv d'"
proof (cases "d' = d")
  case False
  let ?f = "\<lambda>s. s\<lparr>sb_state := S_released, sb_release_proof_sha256 := proof_sha,
              sb_manual_release_decision_sha256 := manual, sb_signed_bytes_destroyed := destroyed\<rparr>"
  let ?d1 = "update_lineage_nonce L
        (\<lambda>n. n\<lparr>nl_state := N_released, nl_locked := False, nl_released_at := Some at\<rparr>)
        (update_lineage_sub L ?f d)"
  from assms(2) False obtain s n b d3 d4 ty js where lin: "lineage L d = Inr (s, n, b)"
    and live: "\<not> sub_settled s"
    and d3: "change_totals (bg_run_id b) (bg_batch_id b) (sb_chain_id s) (- sb_reserved_wei s) 0 0 at ?d1 = Inr d3"
    and d4: "d4 = lineage_event s b ty (- sb_reserved_wei s) 0 0 js at d3"
    and d': "d' = settle_completed_budget_rows (sb_reservation_id s) d4"
    by (auto simp: release_dead_lineage_txn_def Let_def exn_simps sub_settled_def split: prod.splits if_splits)
  have "ledger_inv d4"
    by (rule lineage_posting [OF assms(1) lin d3 d4, where f = ?f and p = "\<lambda>_. False" and g = id])
       (use lineage_amounts [OF assms(1) lin] live ledger_fits [OF assms(1)] in
        \<open>auto simp: lineage_updates posting_simps\<close>)
  then show ?thesis unfolding d' by (rule settle_keeps)
qed (use assms(1) in simp)

lemma reopen_included_keeps:
  assumes "ledger_inv d" and lin: "lineage L d = Inr (s, n, b)" and st: "sb_state s = S_included"
    and "reopen_included L s b at d = Inr d'"
  shows "ledger_inv d'"
proof -
  let ?f = "\<lambda>s. s\<lparr>sb_provisional_wei := 0, sb_state := S_reopened\<rparr>"
  let ?g = "\<lambda>b. b\<lparr>bg_provisional_wei := bg_provisional_wei b - sb_provisional_wei s\<rparr>"
  from assms(4) obtain d2 d3 where
    d2: "update_budget_amounts s ?g (update_lineage_nonce L
           (\<lambda>n. n\<lparr>nl_state := N_active, nl_locked := True, nl_released_at := None\<rparr>)
           (update_lineage_sub L ?f d)) = Inr d2"
    and d3: "change_totals (bg_run_id b) (bg_batch_id b) (sb_chain_id s) 0 (- sb_provisional_wei s) 0 at d2 = Inr d3"
    and d': "d' = lineage_event s b ''included_receipt_reopened'' 0 (- sb_provisional_wei s) 0 (JObj []) at d3"
    by (auto simp: reopen_included_def Let_def exn_simps)
  show ?thesis
    by (rule lineage_posting [OF assms(1) lin d3 d', where f = ?f and g = ?g])
       (use lineage_amounts [OF assms(1) lin] st ledger_fits [OF assms(1)] in
        \<open>auto simp: update_budget_amountsD [OF d2] lineage_updates posting_simps\<close>)
qed

lemma reopen_finalized_keeps:
  assumes "ledger_inv d" and lin: "lineage L d = Inr (s, n, b)" and st: "sb_state s = S_finalized"
    and room: "assert_capacity (bg_run_id b) (bg_batch_id b) (sb_chain_id s) (sb_reserved_wei s)
                 (sb_finalized_wei s) d = Inr v"
    and "reopen_finalized L s b at d = Inr d'"
  shows "ledger_inv d'"
proof -
  let ?f = "\<lambda>s. s\<lparr>sb_finalized_wei := 0, sb_state := S_reopened\<rparr>"
  let ?g = "\<lambda>b. b\<lparr>bg_finalized_wei := bg_finalized_wei b - sb_finalized_wei s, bg_state := B_in_flight\<rparr>"
  from assms(5) obtain d2 d3 where
    d2: "update_budget_amounts s ?g (update_lineage_nonce L
           (\<lambda>n. n\<lparr>nl_state := N_active, nl_locked := True, nl_released_at := None\<rparr>)
           (update_lineage_sub L ?f d)) = Inr d2"
    and d3: "change_totals (bg_run_id b) (bg_batch_id b) (sb_chain_id s) (sb_reserved_wei s) 0
               (- sb_finalized_wei s) at d2 = Inr d3"
    and d': "d' = lineage_event s b ''finalized_receipt_reopened'' (sb_reserved_wei s) 0
               (- sb_finalized_wei s) (JObj []) at d3"
    by (auto simp: reopen_finalized_def Let_def exn_simps)
  show ?thesis
    by (rule lineage_posting [OF assms(1) lin d3 d', where f = ?f and g = ?g])
       (use lineage_amounts [OF assms(1) lin] st assert_capacity_fits(1) [OF room] in
        \<open>auto simp: update_budget_amountsD [OF d2] lineage_updates posting_simps\<close>)
qed

lemma reopen_keeps:
  assumes "ledger_inv d" and "reopen_txn L v at d = Inr (r, d')"
  shows "ledger_inv d'"
proof -
  from assms(2) obtain s n b where lin: "lineage L d = Inr (s, n, b)"
    by (auto simp: reopen_txn_def exn_simps)
  show ?thesis
  proof (cases "sb_state s = S_included")
    case True
    with assms(2) lin have "reopen_included L s b at d = Inr d'" by (auto simp: reopen_txn_def exn_simps)
    with True assms(1) lin show ?thesis by (blast intro: reopen_included_keeps)
  next
    case False
    with assms(2) lin have fin: "sb_state s = S_finalized"
      by (auto simp: reopen_txn_def exn_simps split: if_splits)
    let ?room = "assert_capacity (bg_run_id b) (bg_batch_id b) (sb_chain_id s) (sb_reserved_wei s)
                   (sb_finalized_wei s) d"
    show ?thesis
    proof (cases ?room)
      case (Inl e)
      then obtain be where "halt_after_reorg v L (bg_run_id b) be (sb_chain_id s) d = Inr d'"
        using assms(2) lin False fin by (cases e) (auto simp: reopen_txn_def exn_simps)
      then have "same_ledger d d'"
        by (auto simp: halt_after_reorg_def exn_simps same_ledger_def set_run_state_def)
      with assms(1) show ?thesis using ledger_inv_cong by blast
    next
      case (Inr w)
      with assms(2) lin False fin have "reopen_finalized L s b at d = Inr d'"
        by (auto simp: reopen_txn_def exn_simps)
      with Inr assms(1) lin fin show ?thesis by (blast intro: reopen_finalized_keeps)
    qed
  qed
qed


section \<open>Binding nonces and starting routes\<close>

text \<open>Changes of sub-reservations that no sum can see.\<close>

lemma relabel_subs:
  assumes inv: "ledger_inv d"
    and row: "\<And>r. r \<in> set (t_subs d) \<Longrightarrow> p r \<Longrightarrow>
        sb_subreservation_id (f r) = sb_subreservation_id r \<and> sb_reservation_id (f r) = sb_reservation_id r
      \<and> sb_chain_id (f r) = sb_chain_id r \<and> sb_reserved_wei (f r) = sb_reserved_wei r
      \<and> settled_wei (f r) = settled_wei r \<and> sb_provisional_wei (f r) = sb_provisional_wei r
      \<and> sb_finalized_wei (f r) = sb_finalized_wei r \<and> sub_amounts_ok (f r)
      \<and> sub_started_ok (t_budgets d) (f r)"
    and uniq: "uniq_on sb_lineage_id (update_where p f (t_subs d))"
    and d': "same_ledger (d\<lparr>t_subs := update_where p f (t_subs d)\<rparr>) d'"
  shows "ledger_inv d'"
proof -
  let ?d = "d\<lparr>t_subs := update_where p f (t_subs d)\<rparr>"
  have own: "owner bs (f r) = owner bs r" if "r \<in> set (t_subs d)" "p r" for bs r
    using row [OF that] by (simp add: owner_def)
  have sums: "sub_sum Q g (t_budgets d) (update_where p f (t_subs d)) = sub_sum Q g (t_budgets d) (t_subs d)"
    if "\<And>r. r \<in> set (t_subs d) \<Longrightarrow> p r \<Longrightarrow> g (f r) = g r" for Q g
    unfolding sub_sum_def by (rule total_update_where_same) (simp add: that own in_scope_def)
  have views: "active_in ?d = active_in d" "provisional_in ?d = provisional_in d"
    "finalized_in ?d = finalized_in d" "fully_split ?d = fully_split d"
    "has_total ?d = has_total d" "has_batch_total ?d = has_batch_total d"
    "within_limits ?d = within_limits d" "active_replay ?d = active_replay d"
    "provisional_replay ?d = provisional_replay d" "finalized_replay ?d = finalized_replay d"
    "\<And>r c. find_limit r c ?d = find_limit r c d"
    using row by (auto simp: fun_eq_iff active_in_def provisional_in_def finalized_in_def fully_split_def
        sums has_total_def has_batch_total_def within_limits_def find_limit_def find_total_def
        find_batch_total_def active_replay_def provisional_replay_def finalized_replay_def)
  have core: "ledger_core d" using inv by (rule ledger_inv_core)
  have "uniq_on (\<lambda>s. Some (sb_subreservation_id s)) (update_where p f (t_subs d))"
    using core row by (subst uniq_on_update_where) (auto simp: ledger_core_def keys_ok_def)
  then have "keys_ok ?d" using core uniq by (simp add: ledger_core_def keys_ok_def)
  moreover from core have "covered ?d"
    unfolding ledger_core_def covered_def views by (auto simp: set_update_where own)
  moreover from core row have "\<forall>s\<in>set (t_subs ?d). sub_amounts_ok s \<and> sub_started_ok (t_budgets d) s"
    by (auto simp: ledger_core_def set_update_where)
  ultimately have "ledger_inv ?d"
    using core inv unfolding ledger_inv_def ledger_core_def views by simp
  then show ?thesis using ledger_inv_cong [OF d'] by blast
qed

lemma find_subD:
  "find_sub i k d = Some s \<Longrightarrow> s \<in> set (t_subs d) \<and> sb_reservation_id s = i \<and> sb_stage_key s = k"
  unfolding find_sub_def by (drule find_SomeD) simp

lemma sub_by_id:
  assumes "keys_ok d" and "s \<in> set (t_subs d)"
  shows "filter (\<lambda>r. sb_subreservation_id r = sb_subreservation_id s) (t_subs d) = [s]"
  using uniq_on_filter [of "\<lambda>s. Some (sb_subreservation_id s)" "t_subs d" "sb_subreservation_id s" s]
    uniq_on_find [of "\<lambda>s. Some (sb_subreservation_id s)" "t_subs d" s "sb_subreservation_id s"] assms
  by (simp add: keys_ok_def)

lemma sub_by_idD:
  assumes "keys_ok d" and "s \<in> set (t_subs d)" and "r \<in> set (t_subs d)"
    and "sb_subreservation_id r = sb_subreservation_id s"
  shows "r = s"
proof -
  have "r \<in> set (filter (\<lambda>r. sb_subreservation_id r = sb_subreservation_id s) (t_subs d))"
    using assms(3,4) by simp
  with sub_by_id [OF assms(1,2)] show ?thesis by simp
qed

lemma bind_new_nonce_keeps:
  assumes inv: "ledger_inv d" and s: "s \<in> set (t_subs d)" and b: "owner (t_budgets d) s = Some b"
    and started: "bg_source_in_flight b"
    and bind: "bind_new_nonce lease_id L signer holder nonce wei acquired expires s d = Inr d'"
  shows "ledger_inv d'"
proof -
  let ?f = "\<lambda>s. s\<lparr>sb_lineage_id := Some L, sb_allocated_wei := wei, sb_state := S_active\<rparr>"
  from bind have none: "sb_lineage_id s = None" and fresh: "\<forall>x\<in>set (t_subs d). sb_lineage_id x \<noteq> Some L"
    and d': "same_ledger (d\<lparr>t_subs := update_where (\<lambda>r. sb_subreservation_id r = sb_subreservation_id s) ?f (t_subs d)\<rparr>) d'"
    by (auto simp: bind_new_nonce_def exn_simps list_ex_iff update_sub_def same_ledger_def)
  have core: "ledger_core d" using inv by (rule ledger_inv_core)
  then have keys: "keys_ok d" by (simp add: ledger_core_def)
  from core s have "sub_started_ok (t_budgets d) s" "sub_amounts_ok s" by (simp_all add: ledger_core_def)
  with none b started have ok: "sb_state s = S_reserved" "sub_amounts_ok s"
    by (auto simp: sub_started_ok_def)
  have "owner bs (?f s) = owner bs s" for bs by (simp add: owner_def)
  with ok b started have "sub_amounts_ok (?f s)" "sub_started_ok (t_budgets d) (?f s)"
    "settled_wei (?f s) = settled_wei s"
    by (simp_all add: sub_amounts_ok_def sub_started_ok_def settled_wei_def sub_settled_def)
  then show ?thesis
    by (intro relabel_subs [OF inv _ _ d'] uniq_on_update_fresh [OF _ sub_by_id [OF keys s]])
       (use fresh keys in \<open>auto dest: sub_by_idD [OF keys s] simp: keys_ok_def\<close>)
qed

lemma acquire_nonce_keeps:
  assumes inv: "ledger_inv d"
    and run: "acquire_nonce_txn lease_id L i k signer holder nonce wei acquired expires d = Inr (u, d')"
  shows "ledger_inv d'"
proof -
  from run obtain s b where s: "find_sub i k d = Some s" and b: "find_budget i (sb_chain_id s) d = Some b"
    and started: "bg_source_in_flight b"
    and next_step: "bind_new_nonce lease_id L signer holder nonce wei acquired expires s d = Inr d'
       \<or> d' = update_sub (sb_subreservation_id s) (\<lambda>s. s\<lparr>sb_allocated_wei := max (sb_allocated_wei s) wei\<rparr>) d"
    by (auto simp: acquire_nonce_txn_def exn_simps split: option.splits)
  have mem: "s \<in> set (t_subs d)" using find_subD [OF s] by simp
  have own: "owner (t_budgets d) s = Some b" using b find_subD [OF s] by (simp add: owner_def find_budget_def)
  have core: "ledger_core d" using inv by (rule ledger_inv_core)
  from next_step show ?thesis
  proof
    assume "d' = update_sub (sb_subreservation_id s) (\<lambda>s. s\<lparr>sb_allocated_wei := max (sb_allocated_wei s) wei\<rparr>) d"
    then show ?thesis
      by (intro relabel_subs [OF inv, where f = "\<lambda>s. s\<lparr>sb_allocated_wei := max (sb_allocated_wei s) wei\<rparr>"
            and p = "\<lambda>r. sb_subreservation_id r = sb_subreservation_id s"])
         (use core in \<open>auto simp: update_sub_def same_ledger_def ledger_core_def keys_ok_def
            uniq_on_update_where sub_amounts_ok_def sub_started_ok_def owner_def settled_wei_def
            sub_settled_def split: option.splits\<close>)
  qed (use bind_new_nonce_keeps [OF inv mem own started] in blast)
qed


text \<open>
  Starting a route. The code does not look at the state of the reservation, so the lemma needs that
  none of its stages was released before.
\<close>

definition has_released_stage :: "string \<Rightarrow> db \<Rightarrow> bool" where
  "has_released_stage i d \<longleftrightarrow> list_ex (\<lambda>s. sb_reservation_id s = i \<and> sb_state s = S_released) (t_subs d)"

lemma mark_source_in_flight_keeps:
  assumes inv: "ledger_inv d" and fresh: "\<not> has_released_stage i d"
    and run: "mark_source_in_flight_txn clk i now d = Inr (u, d')"
  shows "ledger_inv d'"
proof (cases "d' = d")
  case False
  let ?g = "\<lambda>b. b\<lparr>bg_source_in_flight := True, bg_state := B_in_flight\<rparr>"
  let ?p = "\<lambda>b. bg_reservation_id b = i"
  let ?d = "d\<lparr>t_budgets := update_where ?p ?g (t_budgets d)\<rparr>"
  from run False have d': "same_ledger ?d d'"
    by (auto simp: mark_source_in_flight_txn_def exn_simps same_ledger_def append_transition_def
        set_attempt_state_def split: list.splits if_splits)
  have key: "\<And>b. bkey (?g b) = bkey b" and wei: "\<And>b. bg_reserved_wei (?g b) = bg_reserved_wei b"
    by (simp_all add: bkey_def)
  have views: "active_in ?d = active_in d" "provisional_in ?d = provisional_in d"
    "finalized_in ?d = finalized_in d" "fully_split ?d = fully_split d"
    "has_total ?d = has_total d" "has_batch_total ?d = has_batch_total d"
    "within_limits ?d = within_limits d" "active_replay ?d = active_replay d"
    "provisional_replay ?d = provisional_replay d" "finalized_replay ?d = finalized_replay d"
    "\<And>r c. find_limit r c ?d = find_limit r c d"
    by (auto simp: fun_eq_iff active_in_def provisional_in_def finalized_in_def fully_split_def
        sub_sum_budget_update [OF key] budget_sum_update [where g = bg_reserved_wei, OF key wei]
        has_total_def has_batch_total_def within_limits_def find_limit_def find_total_def
        find_batch_total_def active_replay_def provisional_replay_def finalized_replay_def)
  have core: "ledger_core d" using inv by (rule ledger_inv_core)
  have "uniq_on (\<lambda>b. Some (bg_reservation_id b, bg_chain_id b)) (t_budgets ?d)"
    using core by (simp add: uniq_on_update_where ledger_core_def keys_ok_def)
  then have "keys_ok ?d" using core by (simp add: ledger_core_def keys_ok_def)
  moreover from core have "covered ?d"
    unfolding ledger_core_def covered_def views
    by (auto simp: set_update_where key owner_update_where [OF key])
  moreover have "sub_started_ok (t_budgets ?d) s" if s: "s \<in> set (t_subs d)" for s
  proof -
    from core s have ok: "sub_started_ok (t_budgets d) s" by (simp add: ledger_core_def)
    then obtain b where b: "owner (t_budgets d) s = Some b"
      by (auto simp: sub_started_ok_def split: option.splits)
    then have "bg_reservation_id b = sb_reservation_id s" by (auto simp: owner_def dest: find_SomeD)
    with ok b fresh s show ?thesis
      by (auto simp: sub_started_ok_def owner_update_where [OF key] has_released_stage_def list_ex_iff
          split: option.splits)
  qed
  ultimately have "ledger_inv ?d"
    using core inv unfolding ledger_inv_def ledger_core_def views by (auto simp: set_update_where)
  then show ?thesis using ledger_inv_cong [OF d'] by blast
qed (use inv in simp)

end
