(* ===== verification/Xir_Budget_Routes.thy ===== *)
theory Xir_Budget_Routes
  imports Xir_Budget_Steps
begin

text \<open>
  The operations on whole routes keep the ledger invariant: \<^verbatim>\<open>configure_limits\<close>,
  \<^verbatim>\<open>reserve_complete_route\<close> (a loop over chains, a loop over stages, and the argument that both
  loops insert the same total) and \<^verbatim>\<open>release_unstarted_route\<close>.
\<close>

section \<open>Configuring limits\<close>

lemma untotalled_zero:
  assumes cov: "covered d" and none: "\<And>k. Q k \<Longrightarrow> \<not> has_total d k \<or> \<not> has_batch_total d k"
  shows "active_in d Q = 0" "provisional_in d Q = 0" "finalized_in d Q = 0"
    "active_replay d Q = 0" "provisional_replay d Q = 0" "finalized_replay d Q = 0"
proof -
  have b: "\<not> Q (bkey b)" if "b \<in> set (t_budgets d)" for b
    using cov none [of "bkey b"] that by (auto simp: covered_def)
  have e: "\<not> Q (ekey e)" if "e \<in> set (t_budget_events d)" for e
    using cov none [of "ekey e"] that by (auto simp: covered_def)
  have "\<not> in_scope Q (t_budgets d) s" for s
    using b by (auto simp: in_scope_def owner_def dest!: find_SomeD split: option.splits)
  then have "sub_sum Q g (t_budgets d) ss = 0" for g ss by (simp add: sub_sum_def total_zero)
  moreover have "budget_sum Q g (t_budgets d) = 0" for g
    unfolding budget_sum_def by (rule total_zero) (simp add: b)
  moreover have "event_sum Q g (t_budget_events d) = 0" for g
    unfolding event_sum_def by (rule total_zero) (simp add: e)
  ultimately show "active_in d Q = 0" "provisional_in d Q = 0" "finalized_in d Q = 0"
    "active_replay d Q = 0" "provisional_replay d Q = 0" "finalized_replay d Q = 0"
    by (simp_all add: active_in_def provisional_in_def finalized_in_def active_replay_def
        provisional_replay_def finalized_replay_def)
qed


lemma upsert_limit_keeps:
  assumes inv: "ledger_inv d" and ok: "limit_ok \<lparr>bl_run_id = r, bl_chain_id = lim_chain_id l,
      bl_max_transaction_wei = lim_max_transaction_wei l, bl_max_batch_wei = lim_max_batch_wei l,
      bl_max_run_wei = lim_max_run_wei l, bl_minimum_runner_balance_wei = lim_minimum_runner_balance_wei l,
      bl_observed_runner_balance_wei = lim_observed_runner_balance_wei l, bl_updated_at = now\<rparr>"
  shows "ledger_inv (upsert_limit r l now d)" and "find_limit r (lim_chain_id l) (upsert_limit r l now d) \<noteq> None"
proof -
  let ?d = "upsert_limit r l now d" and ?c = "lim_chain_id l"
  have core: "ledger_core d" using inv by (rule ledger_inv_core)
  then have keys: "keys_ok d" and cov: "covered d" and lims: "\<forall>l\<in>set (t_limits d). limit_ok l"
    and within: "within_limits d" by (simp_all add: ledger_core_def)
  have frame: "t_totals ?d = t_totals d" "t_batch_totals ?d = t_batch_totals d" "t_budgets ?d = t_budgets d"
    "t_subs ?d = t_subs d" "t_budget_events ?d = t_budget_events d"
    by (auto simp: upsert_limit_def split: option.splits)
  have views: "active_in ?d = active_in d" "provisional_in ?d = provisional_in d"
    "finalized_in ?d = finalized_in d" "fully_split ?d = fully_split d"
    "has_total ?d = has_total d" "has_batch_total ?d = has_batch_total d" "active_replay ?d = active_replay d"
    "provisional_replay ?d = provisional_replay d" "finalized_replay ?d = finalized_replay d"
    by (auto simp: fun_eq_iff active_in_def provisional_in_def finalized_in_def fully_split_def frame
        has_total_def has_batch_total_def find_total_def find_batch_total_def
        active_replay_def provisional_replay_def finalized_replay_def)
  have more: "find_limit r' c' d \<noteq> None \<Longrightarrow> find_limit r' c' ?d \<noteq> None" for r' c'
    by (auto simp: upsert_limit_def find_limit_def find_update_where find_append split: option.splits)
  show "find_limit r ?c ?d \<noteq> None"
    by (auto simp: upsert_limit_def find_limit_def find_update_where find_append split: option.splits)
  have keys': "keys_ok ?d"
  proof (cases "find_limit r ?c d")
    case None
    then have "\<forall>x\<in>set (t_limits d). (bl_run_id x, bl_chain_id x) \<noteq> (r, ?c)"
      by (auto simp: find_limit_def find_None_iff)
    with None keys show ?thesis
      by (auto simp: keys_ok_def upsert_limit_def uniq_on_snoc clashes_def list_ex_iff)
  next
    case (Some a)
    with keys show ?thesis by (simp add: keys_ok_def upsert_limit_def uniq_on_update_where)
  qed
  have lims': "\<forall>l\<in>set (t_limits ?d). limit_ok l"
    using lims ok by (auto simp: upsert_limit_def limit_ok_def set_update_where split: option.splits)
  have within': "within_limits ?d"
  proof (cases "find_limit r ?c d")
    case None
    with cov have "\<forall>t\<in>set (t_totals d). (bt_run_id t, bt_chain_id t) \<noteq> (r, ?c)"
      "\<forall>t\<in>set (t_batch_totals d). (bb_run_id t, bb_chain_id t) \<noteq> (r, ?c)"
      by (auto simp: covered_def)
    with within None show ?thesis by (auto simp: within_limits_def upsert_limit_def)
  next
    case (Some a)
    with within show ?thesis by (auto simp: within_limits_def upsert_limit_def set_update_where)
  qed
  have "covered ?d" using cov more unfolding covered_def views frame by blast
  with core inv keys' lims' within' show "ledger_inv ?d"
    unfolding ledger_inv_def ledger_core_def views frame by simp
qed

lemma init_totals_keeps:
  assumes inv: "ledger_inv d" and lim: "find_limit r c d \<noteq> None"
  shows "ledger_inv (init_totals r c now d)"
proof (cases "find_total r c d")
  case None
  let ?d = "init_totals r c now d"
  have core: "ledger_core d" using inv by (rule ledger_inv_core)
  then have keys: "keys_ok d" and cov: "covered d" and lims: "\<forall>l\<in>set (t_limits d). limit_ok l"
    and within: "within_limits d" by (simp_all add: ledger_core_def)
  from None have eq: "?d = d\<lparr>t_totals := t_totals d @ [\<lparr>bt_run_id = r, bt_chain_id = c,
      bt_active_reserved_wei = 0, bt_provisional_wei = 0, bt_finalized_wei = 0, bt_updated_at = now\<rparr>]\<rparr>"
    by (simp add: init_totals_def)
  have views: "active_in ?d = active_in d" "provisional_in ?d = provisional_in d"
    "finalized_in ?d = finalized_in d" "fully_split ?d = fully_split d"
    "has_batch_total ?d = has_batch_total d" "active_replay ?d = active_replay d"
    "provisional_replay ?d = provisional_replay d" "finalized_replay ?d = finalized_replay d"
    "\<And>r c. find_limit r c ?d = find_limit r c d"
    by (auto simp: fun_eq_iff active_in_def provisional_in_def finalized_in_def fully_split_def eq
        has_batch_total_def find_batch_total_def find_limit_def
        active_replay_def provisional_replay_def finalized_replay_def)
  have more: "has_total d k \<Longrightarrow> has_total ?d k" for k
    by (auto simp: has_total_def eq find_total_def find_append split: option.splits)
  have "run_scope r c k \<Longrightarrow> \<not> has_total d k \<or> \<not> has_batch_total d k" for k
    using None by (cases k) (auto simp: has_total_def)
  note zero = untotalled_zero [OF cov this]
  have "keys_ok ?d" using keys None
    by (auto simp: keys_ok_def eq uniq_on_snoc clashes_def list_ex_iff find_total_def find_None_iff)
  moreover have "covered ?d" using cov lim unfolding covered_def views by (auto simp: eq intro!: more [unfolded eq])
  moreover have "within_limits ?d" using within lims by (auto simp: within_limits_def eq limit_ok_def)
  moreover have "rows_agree (active_in d) (provisional_in d) (finalized_in d) (t_totals d) (t_batch_totals d)"
    "rows_agree (active_replay d) (provisional_replay d) (finalized_replay d) (t_totals d) (t_batch_totals d)"
    using core unfolding ledger_core_def by blast+
  then have "rows_agree (active_in d) (provisional_in d) (finalized_in d) (t_totals ?d) (t_batch_totals ?d)"
    "rows_agree (active_replay d) (provisional_replay d) (finalized_replay d) (t_totals ?d) (t_batch_totals ?d)"
    using zero by (simp_all add: rows_agree_def eq)
  ultimately show ?thesis using core inv unfolding ledger_inv_def ledger_core_def views
    by (simp add: eq)
qed (use inv in \<open>simp add: init_totals_def\<close>)

lemma configure_limit_keeps:
  assumes "ledger_inv d" and "configure_limit r now l d = Inr d'"
  shows "ledger_inv d'"
proof -
  from assms(2) have ok: "limit_ok \<lparr>bl_run_id = r, bl_chain_id = lim_chain_id l,
      bl_max_transaction_wei = lim_max_transaction_wei l, bl_max_batch_wei = lim_max_batch_wei l,
      bl_max_run_wei = lim_max_run_wei l, bl_minimum_runner_balance_wei = lim_minimum_runner_balance_wei l,
      bl_observed_runner_balance_wei = lim_observed_runner_balance_wei l, bl_updated_at = now\<rparr>"
    and d': "d' = init_totals r (lim_chain_id l) now (upsert_limit r l now d)"
    by (auto simp: configure_limit_def Let_def exn_simps limit_ok_def)
  show ?thesis unfolding d' using upsert_limit_keeps [OF assms(1) ok] by (rule init_totals_keeps)
qed

lemma configure_limits_keeps:
  assumes "ledger_inv d" and "configure_limits_txn r rows now d = Inr (u, d')"
  shows "ledger_inv d'"
  using assms
  by (auto simp: configure_limits_txn_def exn_simps intro: foldE_invariant configure_limit_keeps)


section \<open>Reserving a complete route\<close>

lemma reserve_chain_fields:
  assumes "reserve_chain i a r b at (c, v) d = Inr d'"
  obtains row e ts bs where "change_totals r b c v 0 0 at d = Inr (d\<lparr>t_totals := ts, t_batch_totals := bs\<rparr>)"
    and "d' = d\<lparr>t_totals := ts, t_batch_totals := bs, t_budgets := t_budgets d @ [row],
               t_budget_events := t_budget_events d @ [e]\<rparr>"
    and "bkey row = (i, r, b, c)" and "ekey e = (i, r, b, c)" and "bg_reserved_wei row = v" and "0 \<le> v"
    and "be_reserved_delta_wei e = v" "be_provisional_delta_wei e = 0" "be_finalized_delta_wei e = 0"
    and "\<forall>x\<in>set (t_budgets d). (bg_reservation_id x, bg_chain_id x) \<noteq> (i, c)"
    and "change_batch_totals r b c v 0 0 at (t_batch_totals d) = Inr bs"
proof -
  from assms obtain d2 where
    d2: "change_totals r b c v 0 0 at (d\<lparr>t_budgets := t_budgets d @
             [\<lparr>bg_reservation_id = i, bg_attempt_id = a, bg_run_id = r, bg_batch_id = b, bg_chain_id = c,
               bg_reserved_wei = v, bg_provisional_wei = 0, bg_finalized_wei = 0,
               bg_source_in_flight = False, bg_state = B_reserved, bg_created_at = at\<rparr>]\<rparr>) = Inr d2"
    and d': "d' = budget_event r b c i None ''route_reserved'' v 0 0 (JObj [(''attempt_id'', JStr a)]) at d2"
    and "0 \<le> v" and "\<forall>x\<in>set (t_budgets d). (bg_reservation_id x, bg_chain_id x) \<noteq> (i, c)"
    by (auto simp: reserve_chain_def Let_def exn_simps budget_conflict_def list_ex_iff)
  moreover from d2 obtain ts bs where "change_run_totals r c v 0 0 at (t_totals d) = Inr ts"
    "change_batch_totals r b c v 0 0 at (t_batch_totals d) = Inr bs"
    "d2 = d\<lparr>t_totals := ts, t_batch_totals := bs, t_budgets := t_budgets d @
             [\<lparr>bg_reservation_id = i, bg_attempt_id = a, bg_run_id = r, bg_batch_id = b, bg_chain_id = c,
               bg_reserved_wei = v, bg_provisional_wei = 0, bg_finalized_wei = 0,
               bg_source_in_flight = False, bg_state = B_reserved, bg_created_at = at\<rparr>]\<rparr>"
    by (rule change_totals_fields) simp
  ultimately show thesis
    by (intro that) (auto simp: change_totals_def budget_event_def bkey_def ekey_def)
qed

lemma sub_started_snoc: "owner bs s \<noteq> None \<Longrightarrow> sub_started_ok (bs @ [b]) s = sub_started_ok bs s"
  by (auto simp: sub_started_ok_def owner_snoc)

lemma reserve_chain_core:
  assumes core: "ledger_core d" and run: "reserve_chain i a r b at (c, v) d = Inr d'"
    and fit: "fits d r b c v" and tot: "find_total r c d \<noteq> None" and lim: "find_limit r c d \<noteq> None"
  shows "ledger_core d'"
proof -
  let ?k = "(i, r, b, c)"
  from run obtain row e ts bs where
    post: "change_totals r b c v 0 0 at d = Inr (d\<lparr>t_totals := ts, t_batch_totals := bs\<rparr>)"
    (is "_ = Inr ?d2")
    and d': "d' = d\<lparr>t_totals := ts, t_batch_totals := bs, t_budgets := t_budgets d @ [row],
               t_budget_events := t_budget_events d @ [e]\<rparr>"
    and row: "bkey row = ?k" "bg_reserved_wei row = v" "0 \<le> v" and e: "ekey e = ?k"
      "be_reserved_delta_wei e = v" "be_provisional_delta_wei e = 0" "be_finalized_delta_wei e = 0"
    and fresh: "\<forall>x\<in>set (t_budgets d). (bg_reservation_id x, bg_chain_id x) \<noteq> (i, c)"
    by (rule reserve_chain_fields)
  have keys: "keys_ok d" and cov: "covered d" and within: "within_limits d"
    using core by (simp_all add: ledger_core_def)
  have owned: "\<forall>s\<in>set (t_subs d). owner (t_budgets d) s \<noteq> None" using cov by (simp add: covered_def)
  note sums = sub_sum_budget_snoc [OF owned]
  have views: "active_in d' = plus_posting (active_in d) ?k v" "provisional_in d' = plus_posting (provisional_in d) ?k 0"
    "finalized_in d' = plus_posting (finalized_in d) ?k 0" "active_replay d' = plus_posting (active_replay d) ?k v"
    "provisional_replay d' = plus_posting (provisional_replay d) ?k 0"
    "finalized_replay d' = plus_posting (finalized_replay d) ?k 0"
    by (auto simp: fun_eq_iff active_in_def provisional_in_def finalized_in_def active_replay_def
        provisional_replay_def finalized_replay_def plus_posting_def d' sums budget_sum_snoc row e event_sum_snoc)
  have zero: "active_in d (batch_scope r b c) = 0" "provisional_in d (batch_scope r b c) = 0"
    "finalized_in d (batch_scope r b c) = 0" "active_replay d (batch_scope r b c) = 0"
    "provisional_replay d (batch_scope r b c) = 0" "finalized_replay d (batch_scope r b c) = 0"
    if "find_batch_total r b c d = None"
    using that by (auto intro!: untotalled_zero [OF cov] simp: has_batch_total_def)
  have agree: "rows_agree (active_in d') (provisional_in d') (finalized_in d') (t_totals d') (t_batch_totals d')"
    "rows_agree (active_replay d') (provisional_replay d') (finalized_replay d') (t_totals d') (t_batch_totals d')"
    unfolding views using change_totals_agree [OF post, where i = i] core zero
    by (simp_all add: ledger_core_def d')
  have keys': "keys_ok d'"
    using change_totals_keys [OF post keys] fresh row(1)
    by (auto simp: keys_ok_def d' uniq_on_snoc clashes_def list_ex_iff bkey_def)
  have finds: "find_limit r' c' d' = find_limit r' c' ?d2" "has_total d' = has_total ?d2"
    "has_batch_total d' = has_batch_total ?d2" "within_limits d' = within_limits ?d2" for r' c'
    by (auto simp: fun_eq_iff d' find_limit_def has_total_def has_batch_total_def find_total_def
        find_batch_total_def within_limits_def)
  have more: "has_total d j \<Longrightarrow> has_total d' j" "has_batch_total d j \<Longrightarrow> has_batch_total d' j"
    "has_total d' ?k" "has_batch_total d' ?k" for j
    using change_totals_find(1,2) [OF post] tot unfolding finds by (auto simp: has_total_def has_batch_total_def)
  have "covered d'"
    using cov change_totals_covers [OF post lim] owned more unfolding covered_def finds(1)
    by (auto simp: d' row e owner_snoc)
  moreover have "within_limits d'"
    unfolding finds by (rule change_totals_within [OF post keys within]) (use fit in simp)
  moreover have "\<forall>s\<in>set (t_subs d'). sub_started_ok (t_budgets d') s"
    using core owned by (simp add: ledger_core_def d' sub_started_snoc)
  ultimately show ?thesis
    using core keys' agree row unfolding ledger_core_def by (simp add: d')
qed


lemma reserve_chain_frame:
  assumes "reserve_chain i a r b at (c, v) d = Inr d'" and "c' \<noteq> c"
  shows "find_total r c' d' = find_total r c' d" "find_limit r c' d' = find_limit r c' d"
    "fits d' r b c' w = fits d r b c' w"
proof -
  from assms(1) obtain ts bs row e where
    post: "change_totals r b c v 0 0 at d = Inr (d\<lparr>t_totals := ts, t_batch_totals := bs\<rparr>)"
    and d': "d' = d\<lparr>t_totals := ts, t_batch_totals := bs, t_budgets := t_budgets d @ [row],
               t_budget_events := t_budget_events d @ [e]\<rparr>"
    and batch: "change_batch_totals r b c v 0 0 at (t_batch_totals d) = Inr bs"
    by (rule reserve_chain_fields)
  have "find_total r c' d' = map_option (\<lambda>t. if bt_run_id t = r \<and> bt_chain_id t = c
                   then bump_total v 0 0 at t else t) (find_total r c' d)"
    using change_totals_find(1) [OF post] by (simp add: d' find_total_def)
  also have "\<dots> = find_total r c' d"
    using assms(2) by (cases "find_total r c' d") (auto dest: find_totalD)
  finally show tot: "find_total r c' d' = find_total r c' d" .
  show lim: "find_limit r c' d' = find_limit r c' d" by (simp add: d' find_limit_def)
  from batch have "find_batch_total r b c' d' = find_batch_total r b c' d"
  proof (cases rule: change_batch_totals_cases)
    case updated
    then have "find_batch_total r b c' d' = map_option (\<lambda>t. if bb_run_id t = r \<and> bb_batch_id t = b
         \<and> bb_chain_id t = c then bump_batch_total v 0 0 at t else t) (find_batch_total r b c' d)"
      by (simp add: d' find_batch_total_def find_update_where)
    with assms(2) show ?thesis by (cases "find_batch_total r b c' d") (auto dest: find_batch_totalD)
  next
    case inserted
    with assms(2) show ?thesis by (auto simp: d' find_batch_total_def find_append split: option.splits)
  qed
  with tot lim show "fits d' r b c' w = fits d r b c' w" by (simp add: fits_def batch_use_def)
qed

lemma reserve_chains_core:
  assumes "foldE (reserve_chain i a r b at) cvs d = Inr d'" and "ledger_core d" and "distinct (map fst cvs)"
    and "\<forall>(c, v)\<in>set cvs. fits d r b c v \<and> find_total r c d \<noteq> None \<and> find_limit r c d \<noteq> None"
  shows "ledger_core d' \<and> t_subs d' = t_subs d
    \<and> (\<exists>rows. t_budgets d' = t_budgets d @ rows
         \<and> map (\<lambda>x. (bkey x, bg_reserved_wei x)) rows = map (\<lambda>(c, v). ((i, r, b, c), v)) cvs)"
  using assms
proof (induction cvs arbitrary: d)
  case Nil
  then show ?case by simp
next
  case (Cons cv cvs)
  obtain c v where cv: "cv = (c, v)" by fastforce
  with Cons.prems obtain d1 where d1: "reserve_chain i a r b at (c, v) d = Inr d1"
    and rest: "foldE (reserve_chain i a r b at) cvs d1 = Inr d'" by (auto simp: exn_simps)
  from d1 obtain ts bs row e where
    "d1 = d\<lparr>t_totals := ts, t_batch_totals := bs, t_budgets := t_budgets d @ [row],
               t_budget_events := t_budget_events d @ [e]\<rparr>" and row: "bkey row = (i, r, b, c)" "bg_reserved_wei row = v"
    by (rule reserve_chain_fields)
  then have tables: "t_subs d1 = t_subs d" "t_budgets d1 = t_budgets d @ [row]" by simp_all
  have "\<forall>(c, v)\<in>set cvs. fits d1 r b c v \<and> find_total r c d1 \<noteq> None \<and> find_limit r c d1 \<noteq> None"
  proof (safe, goal_cases)
    case (1 c' v')
    with Cons.prems cv have "c' \<noteq> c" by force
    with 1 Cons.prems(4) show ?case by (auto simp: reserve_chain_frame(3) [OF d1])
  next
    case (2 c' v')
    with Cons.prems cv have "c' \<noteq> c" by force
    with 2 Cons.prems(4) show ?case by (fastforce simp: reserve_chain_frame(1) [OF d1])
  next
    case (3 c' v')
    with Cons.prems cv have "c' \<noteq> c" by force
    with 3 Cons.prems(4) show ?case by (fastforce simp: reserve_chain_frame(2) [OF d1])
  qed
  moreover have "ledger_core d1"
    using Cons.prems(2,4) cv by (auto intro: reserve_chain_core [OF _ d1])
  ultimately have IH: "ledger_core d' \<and> t_subs d' = t_subs d1
    \<and> (\<exists>rows. t_budgets d' = t_budgets d1 @ rows
         \<and> map (\<lambda>x. (bkey x, bg_reserved_wei x)) rows = map (\<lambda>(c, v). ((i, r, b, c), v)) cvs)"
    using Cons.IH [OF rest] Cons.prems(3) by simp
  then obtain rows where "t_budgets d' = t_budgets d @ row # rows"
    "map (\<lambda>x. (bkey x, bg_reserved_wei x)) rows = map (\<lambda>(c, v). ((i, r, b, c), v)) cvs"
    by (auto simp: tables)
  with IH row show ?case
    by (intro conjI exI [of _ "row # rows"]) (simp_all add: tables cv)
qed

lemma reserve_stageD:
  assumes "reserve_stage i a (n, st, v) d = Inr d'"
  shows "\<not> sub_conflict (new_sub i a n st v) d" "find_budget i (ps_chain_id st) d \<noteq> None" "0 \<le> v"
    "d' = d\<lparr>t_subs := t_subs d @ [new_sub i a n st v]\<rparr>"
  using assms by (auto simp: reserve_stage_def Let_def exn_simps amount_ok_def) (simp_all add: new_sub_def)

lemma reserve_stages_core:
  assumes "foldE (reserve_stage i a) ists d = Inr d'" and "ledger_core d"
  shows "ledger_core d' \<and> t_budgets d' = t_budgets d
    \<and> t_subs d' = t_subs d @ map (\<lambda>(n, st, v). new_sub i a n st v) ists
    \<and> (\<forall>(n, st, v)\<in>set ists. find_budget i (ps_chain_id st) d \<noteq> None)"
  using assms
proof (induction ists arbitrary: d)
  case Nil
  then show ?case by simp
next
  case (Cons x ists)
  obtain n st v where x: "x = (n, st, v)" by (cases x) auto
  let ?s = "new_sub i a n st v" and ?d = "d\<lparr>t_subs := t_subs d @ [new_sub i a n st v]\<rparr>"
  from Cons.prems(1) x obtain d1 where d1: "reserve_stage i a (n, st, v) d = Inr d1"
    and "foldE (reserve_stage i a) ists d1 = Inr d'" by (auto simp: exn_simps)
  then have rest: "foldE (reserve_stage i a) ists ?d = Inr d'" using reserve_stageD(4) [OF d1] by simp
  note ok = reserve_stageD(1-3) [OF d1]
  have own: "owner (t_budgets d) ?s \<noteq> None" using ok(2) by (simp add: owner_def find_budget_def new_sub_def)
  have views: "active_in ?d = active_in d" "provisional_in ?d = provisional_in d"
    "finalized_in ?d = finalized_in d" "has_total ?d = has_total d" "has_batch_total ?d = has_batch_total d"
    "within_limits ?d = within_limits d" "active_replay ?d = active_replay d"
    "provisional_replay ?d = provisional_replay d" "finalized_replay ?d = finalized_replay d"
    "\<And>r c. find_limit r c ?d = find_limit r c d"
    by (auto simp: fun_eq_iff active_in_def provisional_in_def finalized_in_def sub_sum_snoc new_sub_def
        settled_wei_def sub_settled_def has_total_def has_batch_total_def within_limits_def find_limit_def
        find_total_def find_batch_total_def active_replay_def provisional_replay_def finalized_replay_def)
  have "keys_ok ?d"
    using Cons.prems(2) ok(1)
    by (auto simp: ledger_core_def keys_ok_def uniq_on_snoc clashes_def list_ex_iff sub_conflict_def new_sub_def)
  moreover have "covered ?d"
    using Cons.prems(2) own unfolding ledger_core_def covered_def views by simp
  moreover have "sub_amounts_ok ?s" using ok(3) by (simp add: sub_amounts_ok_def new_sub_def)
  moreover have "sub_started_ok (t_budgets d) ?s"
    using own by (auto simp: sub_started_ok_def) (simp_all add: new_sub_def)
  ultimately have "ledger_core ?d" using Cons.prems(2) unfolding ledger_core_def views by simp
  from Cons.IH [OF rest this] ok(2) show ?case by (auto simp: x find_budget_def)
qed

lemma add_to_chain_set: "fst ` set (add_to_chain c v cvs) = insert c (fst ` set cvs)"
  by (induction c v cvs rule: add_to_chain.induct) (simp_all add: insert_commute)

lemma add_to_chain_distinct: "distinct (map fst cvs) \<Longrightarrow> distinct (map fst (add_to_chain c v cvs))"
  by (induction cvs) (auto simp: add_to_chain_set image_iff split: if_splits)

lemma add_to_chain_total:
  "total (\<lambda>(c, v). if P c then v else 0) (add_to_chain c v cvs)
     = total (\<lambda>(c, v). if P c then v else 0) cvs + (if P c then v else 0)"
  by (induction cvs) auto

lemma by_chain_props:
  "distinct (map fst (by_chain sts))"
  "set (map fst (by_chain sts)) = ps_chain_id ` fst ` set sts"
  "total (\<lambda>(c, v). if P c then v else 0) (by_chain sts)
     = total (\<lambda>(s, v). if P (ps_chain_id s) then v else 0) sts"
proof -
  have "(distinct (map fst cvs) \<longrightarrow> distinct (map fst (fold (\<lambda>(s, v). add_to_chain (ps_chain_id s) v) sts cvs)))
    \<and> set (map fst (fold (\<lambda>(s, v). add_to_chain (ps_chain_id s) v) sts cvs))
        = set (map fst cvs) \<union> ps_chain_id ` fst ` set sts
    \<and> total (\<lambda>(c, v). if P c then v else 0) (fold (\<lambda>(s, v). add_to_chain (ps_chain_id s) v) sts cvs)
        = total (\<lambda>(c, v). if P c then v else 0) cvs
          + total (\<lambda>(s, v). if P (ps_chain_id s) then v else 0) sts" for cvs
  proof (induction sts arbitrary: cvs)
    case (Cons x sts)
    obtain st v where x: "x = (st, v)" by fastforce
    show ?case
      using Cons.IH [of "add_to_chain (ps_chain_id st) v cvs"]
        add_to_chain_distinct [of cvs "ps_chain_id st" v]
      by (auto simp: x add_to_chain_set add_to_chain_total)
  qed simp
  from this [of "[]"] show "distinct (map fst (by_chain sts))"
    "set (map fst (by_chain sts)) = ps_chain_id ` fst ` set sts"
    "total (\<lambda>(c, v). if P c then v else 0) (by_chain sts)
     = total (\<lambda>(s, v). if P (ps_chain_id s) then v else 0) sts"
    by (simp_all add: by_chain_def)
qed


lemma sub_sum_budget_append:
  assumes "\<forall>s\<in>set ss. owner bs s \<noteq> None"
  shows "sub_sum Q g (bs @ bs') ss = sub_sum Q g bs ss"
  unfolding sub_sum_def
  by (rule total_cong) (use assms in \<open>auto simp: in_scope_def owner_def find_append\<close>)

lemma reserved_scope:
  assumes core: "ledger_core d" and budgets: "t_budgets d = bs @ rows"
    and rows: "map (\<lambda>x. (bkey x, bg_reserved_wei x)) rows = map (\<lambda>(c, v). ((i, r, b, c), v)) (by_chain sts)"
    and st: "(st, v) \<in> set sts"
  shows "in_scope Q (t_budgets d) (new_sub i a n st v) \<longleftrightarrow> Q (i, r, b, ps_chain_id st)"
proof -
  from st have "ps_chain_id st \<in> set (map fst (by_chain sts))" unfolding by_chain_props(2) by force
  then obtain w where "((i, r, b, ps_chain_id st), w) \<in> set (map (\<lambda>(c, v). ((i, r, b, c), v)) (by_chain sts))"
    by force
  then obtain x where x: "x \<in> set rows" "bkey x = (i, r, b, ps_chain_id st)" unfolding rows [symmetric] by auto
  have "find (\<lambda>b. Some (bg_reservation_id b, bg_chain_id b) = Some (i, ps_chain_id st)) (t_budgets d) = Some x"
    by (rule uniq_on_find) (use x core budgets in \<open>auto simp: ledger_core_def keys_ok_def bkey_def\<close>)
  then have "owner (t_budgets d) (new_sub i a n st v) = Some x" by (simp add: owner_def new_sub_def)
  with x show ?thesis by (simp add: in_scope_def)
qed

text \<open>The rows inserted per chain and the sub-reservations inserted per stage have the same total.\<close>

lemma reserved_split:
  assumes core: "ledger_core d" and budgets: "t_budgets d = bs @ rows"
    and rows: "map (\<lambda>x. (bkey x, bg_reserved_wei x)) rows = map (\<lambda>(c, v). ((i, r, b, c), v)) (by_chain sts)"
  shows "budget_sum Q bg_reserved_wei rows
     = sub_sum Q sb_reserved_wei (t_budgets d) (map (\<lambda>(n, st, v). new_sub i a n st v) (enumerate 0 sts))"
proof -
  have "budget_sum Q bg_reserved_wei rows
      = total (\<lambda>(k, v). if Q k then v else 0) (map (\<lambda>x. (bkey x, bg_reserved_wei x)) rows)"
    by (simp add: total_map budget_sum_def)
  also have "\<dots> = total (\<lambda>(c, v). if Q (i, r, b, c) then v else 0) (by_chain sts)"
    unfolding rows by (simp add: total_map case_prod_unfold cong: if_cong)
  also have "\<dots> = total (\<lambda>(s, v). if Q (i, r, b, ps_chain_id s) then v else 0) (map snd (enumerate 0 sts))"
    by (simp add: by_chain_props(3))
  also have "\<dots> = sub_sum Q sb_reserved_wei (t_budgets d) (map (\<lambda>(n, st, v). new_sub i a n st v) (enumerate 0 sts))"
    unfolding total_map sub_sum_def
  proof (rule total_cong)
    fix x assume x: "x \<in> set (enumerate 0 sts)"
    then have "snd x \<in> set (map snd (enumerate 0 sts))" by (simp del: map_snd_enumerate)
    then have "snd x \<in> set sts" by simp
    with reserved_scope [OF core budgets rows, of "fst (snd x)" "snd (snd x)" Q a "fst x"]
    show "(case snd x of (s, v) \<Rightarrow> if Q (i, r, b, ps_chain_id s) then v else 0)
      = (if in_scope Q (t_budgets d) (case x of (n, st, v) \<Rightarrow> new_sub i a n st v)
         then sb_reserved_wei (case x of (n, st, v) \<Rightarrow> new_sub i a n st v) else 0)"
      by (simp add: case_prod_unfold) (simp add: new_sub_def)
  qed
  finally show ?thesis .
qed

definition attempt_run :: "string \<Rightarrow> db \<Rightarrow> string option" where
  "attempt_run a d = Option.bind (find_attempt a d) (\<lambda>x.
     Option.bind (find_condition (at_condition_id x) d) (\<lambda>c. map_option rn_run_id (find_run (cd_run_id c) d)))"

text \<open>What a successful reservation does to the two tables, and that it keeps the invariant.\<close>

lemma reserve_effect:
  assumes inv: "ledger_inv d" and run: "reserve_complete_route_txn clk i a b sts at d = Inr (u, d')"
  obtains r rows where "ledger_inv d'" and "attempt_run a d = Some r" and "t_budgets d' = t_budgets d @ rows"
    and "map (\<lambda>x. (bkey x, bg_reserved_wei x)) rows = map (\<lambda>(c, v). ((i, r, b, c), v)) (by_chain sts)"
    and "t_subs d' = t_subs d @ map (\<lambda>(n, st, v). new_sub i a n st v) (enumerate 0 sts)"
proof -
  from run obtain r d1 d2 w where who: "attempt_run a d = Some r"
    and room: "foldE (check_chain_capacity r b) (by_chain sts) d = Inr w"
    and d1: "foldE (reserve_chain i a r b at) (by_chain sts) d = Inr d1"
    and d2: "foldE (reserve_stage i a) (enumerate 0 sts) d1 = Inr d2" and d': "same_ledger d2 d'"
    by (auto simp: reserve_complete_route_txn_def exn_simps same_ledger_def append_transition_def attempt_run_def)
  have "foldE (\<lambda>cv s. bindE (assert_capacity r b (fst cv) (snd cv) 0 s) (\<lambda>_. Inr s)) (by_chain sts) d = Inr w"
    using room by (simp add: check_chain_capacity_def [abs_def])
  note foldE_checks [OF this]
  then have "\<forall>(c, v)\<in>set (by_chain sts). fits d r b c v \<and> find_total r c d \<noteq> None \<and> find_limit r c d \<noteq> None"
    by (force dest: assert_capacity_fits)
  from reserve_chains_core [OF d1 ledger_inv_core [OF inv] by_chain_props(1) this] obtain rows
    where core1: "ledger_core d1" and subs1: "t_subs d1 = t_subs d" and budgets1: "t_budgets d1 = t_budgets d @ rows"
      and rows: "map (\<lambda>x. (bkey x, bg_reserved_wei x)) rows = map (\<lambda>(c, v). ((i, r, b, c), v)) (by_chain sts)"
    by blast
  from reserve_stages_core [OF d2 core1] have core2: "ledger_core d2" and budgets2: "t_budgets d2 = t_budgets d1"
    and subs2: "t_subs d2 = t_subs d1 @ map (\<lambda>(n, st, v). new_sub i a n st v) (enumerate 0 sts)" by auto
  have owned: "\<forall>s\<in>set (t_subs d). owner (t_budgets d) s \<noteq> None"
    using inv by (simp add: ledger_inv_def ledger_core_def covered_def)
  have "budget_sum Q bg_reserved_wei (t_budgets d2) = sub_sum Q sb_reserved_wei (t_budgets d2) (t_subs d2)" for Q
  proof -
    have "budget_sum Q bg_reserved_wei (t_budgets d) = sub_sum Q sb_reserved_wei (t_budgets d1) (t_subs d)"
      using inv by (simp add: ledger_inv_def fully_split_def budgets1 sub_sum_budget_append [OF owned])
    with reserved_split [OF core1 budgets1 rows, of Q a] show ?thesis
      by (simp add: budgets2 subs2 subs1 sub_sum_def [of _ _ _ "_ @ _"]) (simp add: budgets1 budget_sum_def sub_sum_def)
  qed
  then have "ledger_inv d2" using core2 by (simp add: ledger_inv_def fully_split_def)
  then have "ledger_inv d'" using ledger_inv_cong [OF d'] by blast
  then show thesis
    by (rule that) (use who rows d' in \<open>auto simp: same_ledger_def budgets1 budgets2 subs1 subs2\<close>)
qed

lemma reserve_keeps:
  assumes "ledger_inv d" and "reserve_complete_route_txn clk i a b sts at d = Inr (u, d')"
  shows "ledger_inv d'"
  using assms by (rule reserve_effect)

section \<open>Releasing an unstarted route\<close>

lemma release_row_effect:
  assumes run: "release_row i at b d = Inr d'" and b: "b \<in> set (t_budgets d)" "bg_reservation_id b = i"
    "0 \<le> bg_reserved_wei b"
    and inv: "keys_ok d" "covered d" "within_limits d" "\<forall>l\<in>set (t_limits d). limit_ok l"
  shows "keys_ok d'" "covered d'" "within_limits d'"
    "t_budgets d' = t_budgets d" "t_subs d' = t_subs d" "t_limits d' = t_limits d"
    "rows_agree A P F (t_totals d) (t_batch_totals d) \<Longrightarrow>
       rows_agree (plus_posting A (bkey b) (- bg_reserved_wei b)) P F (t_totals d') (t_batch_totals d')"
    "active_replay d' = plus_posting (active_replay d) (bkey b) (- bg_reserved_wei b)"
    "provisional_replay d' = provisional_replay d" "finalized_replay d' = finalized_replay d"
proof -
  from run obtain d2 where
    post: "change_totals (bg_run_id b) (bg_batch_id b) (bg_chain_id b) (- bg_reserved_wei b) 0 0 at d = Inr d2"
    and d': "d' = budget_event (bg_run_id b) (bg_batch_id b) (bg_chain_id b) i None ''unstarted_route_released''
              (- bg_reserved_wei b) 0 0 (JObj []) at d2"
    by (auto simp: release_row_def exn_simps)
  note tabs = change_totals_frame [OF post]
  show t: "t_budgets d' = t_budgets d" "t_subs d' = t_subs d" "t_limits d' = t_limits d"
    by (simp_all add: d' budget_event_def tabs)
  have finds: "find_limit r c d' = find_limit r c d2" "has_total d' = has_total d2"
    "has_batch_total d' = has_batch_total d2" "within_limits d' = within_limits d2" "keys_ok d' = keys_ok d2" for r c
    by (auto simp: fun_eq_iff d' budget_event_def find_limit_def has_total_def has_batch_total_def find_total_def
        find_batch_total_def within_limits_def keys_ok_def)
  have "posted d d2 (bkey b) (- bg_reserved_wei b) 0 0"
    by (rule change_totals_posted [OF post])
       (use inv b in \<open>auto simp: bkey_def covered_def intro!: fits_nonpositive\<close>)
  note p = this [unfolded posted_def]
  show "keys_ok d'" unfolding finds by (rule change_totals_keys [OF post inv(1)])
  show "within_limits d'" unfolding finds using p by blast
  show "rows_agree A P F (t_totals d) (t_batch_totals d) \<Longrightarrow>
       rows_agree (plus_posting A (bkey b) (- bg_reserved_wei b)) P F (t_totals d') (t_batch_totals d')"
    using p by (simp add: d' budget_event_def)
  have "ekey (last (t_budget_events d')) = bkey b" by (simp add: d' budget_event_def ekey_def bkey_def b(2))
  moreover have "\<And>j. has_total d j \<Longrightarrow> has_total d2 j" "\<And>j. has_batch_total d j \<Longrightarrow> has_batch_total d2 j"
    using p by blast+
  moreover have "t_budget_events d' = t_budget_events d @ [last (t_budget_events d')]"
    by (simp add: d' budget_event_def tabs)
  ultimately have "\<forall>e\<in>set (t_budget_events d'). has_total d2 (ekey e) \<and> has_batch_total d2 (ekey e)"
    "\<forall>e\<in>set (t_budgets d'). has_total d2 (bkey e) \<and> has_batch_total d2 (bkey e)"
    using inv(2) b(1) unfolding covered_def t
    by (metis (no_types, lifting) Un_iff empty_iff empty_set insert_iff list.simps(15) set_append, blast)
  with inv(2) p show "covered d'" unfolding covered_def finds t by (simp add: d' budget_event_def)
  show "active_replay d' = plus_posting (active_replay d) (bkey b) (- bg_reserved_wei b)"
    "provisional_replay d' = provisional_replay d" "finalized_replay d' = finalized_replay d"
    by (auto simp: fun_eq_iff d' budget_event_def tabs active_replay_def provisional_replay_def
        finalized_replay_def event_sum_snoc plus_posting_def ekey_def bkey_def b(2))
qed


lemma release_rows_effect:
  assumes "foldE (release_row i at) rows d = Inr d'"
    and "\<forall>b\<in>set rows. b \<in> set (t_budgets d) \<and> bg_reservation_id b = i \<and> 0 \<le> bg_reserved_wei b"
    and "keys_ok d" "covered d" "within_limits d" "\<forall>l\<in>set (t_limits d). limit_ok l"
    and "rows_agree A P F (t_totals d) (t_batch_totals d)"
  shows "keys_ok d' \<and> covered d' \<and> within_limits d' \<and> t_budgets d' = t_budgets d \<and> t_subs d' = t_subs d
    \<and> t_limits d' = t_limits d
    \<and> rows_agree (\<lambda>Q. A Q - budget_sum Q bg_reserved_wei rows) P F (t_totals d') (t_batch_totals d')
    \<and> active_replay d' = (\<lambda>Q. active_replay d Q - budget_sum Q bg_reserved_wei rows)
    \<and> provisional_replay d' = provisional_replay d \<and> finalized_replay d' = finalized_replay d"
  using assms
proof (induction rows arbitrary: d A)
  case Nil
  then show ?case by (simp add: budget_sum_def)
next
  case (Cons b rows)
  from Cons.prems(1) obtain d1 where d1: "release_row i at b d = Inr d1"
    and rest: "foldE (release_row i at) rows d1 = Inr d'" by (auto simp: exn_simps)
  have b: "b \<in> set (t_budgets d)" "bg_reservation_id b = i" "0 \<le> bg_reserved_wei b" using Cons.prems(2) by auto
  note eff = release_row_effect [OF d1 b Cons.prems(3-6)]
  have sum: "plus_posting X (bkey b) (- bg_reserved_wei b) Q - budget_sum Q bg_reserved_wei rows
      = X Q - budget_sum Q bg_reserved_wei (b # rows)" for X Q
    by (simp add: plus_posting_def budget_sum_def)
  from Cons.IH [OF rest _ eff(1-3) _ eff(7) [OF Cons.prems(7)]] Cons.prems(2,6) show ?case
    by (simp add: eff(4-6,8-10) sum)
qed

lemma in_reservation:
  "in_scope (\<lambda>k. Q k \<and> fst k = i) bs s \<longleftrightarrow> in_scope Q bs s \<and> sb_reservation_id s = i"
  by (auto simp: in_scope_def owner_def bkey_def dest!: find_SomeD split: option.splits)

lemma unstarted_subs:
  assumes inv: "ledger_inv d" and idle: "\<not> list_ex bg_source_in_flight (reservation_rows i d)"
    and fresh: "\<not> has_released_stage i d" and s: "s \<in> set (t_subs d)" "sb_reservation_id s = i"
  shows "sb_lineage_id s = None" "sb_state s = S_reserved" "sb_provisional_wei s = 0" "sb_finalized_wei s = 0"
    "\<exists>b. owner (t_budgets d) s = Some b \<and> \<not> bg_source_in_flight b"
proof -
  from inv s have ok: "sub_started_ok (t_budgets d) s" by (simp add: ledger_inv_def ledger_core_def)
  then obtain b where b: "owner (t_budgets d) s = Some b" by (auto simp: sub_started_ok_def split: option.splits)
  then have "b \<in> set (reservation_rows i d)"
    using s by (auto simp: owner_def reservation_rows_def dest: find_SomeD)
  with idle have "\<not> bg_source_in_flight b" by (auto simp: list_ex_iff)
  with ok b fresh s show "sb_lineage_id s = None" "sb_state s = S_reserved" "sb_provisional_wei s = 0"
    "sb_finalized_wei s = 0" "\<exists>b. owner (t_budgets d) s = Some b \<and> \<not> bg_source_in_flight b"
    by (auto simp: sub_started_ok_def has_released_stage_def list_ex_iff split: option.splits)
qed

lemma released_settled:
  assumes inv: "ledger_inv d" and idle: "\<not> list_ex bg_source_in_flight (reservation_rows i d)"
    and fresh: "\<not> has_released_stage i d"
  shows "sub_sum Q settled_wei (t_budgets d)
           (update_where (\<lambda>s. sb_reservation_id s = i) (sb_state_update (\<lambda>_. S_released)) (t_subs d))
         = sub_sum Q settled_wei (t_budgets d) (t_subs d) + budget_sum Q bg_reserved_wei (reservation_rows i d)"
    (is "sub_sum Q _ ?bs (update_where ?p ?f _) = _")
proof -
  have "sub_sum Q settled_wei ?bs (update_where ?p ?f ss)
      = sub_sum Q settled_wei ?bs ss + sub_sum (\<lambda>k. Q k \<and> fst k = i) sb_reserved_wei ?bs ss"
    if "set ss \<subseteq> set (t_subs d)" for ss
    using that
  proof (induction ss)
    case (Cons s ss)
    have "settled_wei (?f s) = settled_wei s + sb_reserved_wei s" if "?p s"
      using unstarted_subs(2) [OF inv idle fresh, of s] Cons.prems that
      by (simp add: settled_wei_def sub_settled_def)
    moreover have "in_scope Q ?bs (?f s) = in_scope Q ?bs s" by (simp add: in_scope_def owner_def)
    ultimately show ?case using Cons by (auto simp: sub_sum_def in_reservation)
  qed (simp add: sub_sum_def)
  moreover have "sub_sum (\<lambda>k. Q k \<and> fst k = i) sb_reserved_wei ?bs (t_subs d)
      = budget_sum (\<lambda>k. Q k \<and> fst k = i) bg_reserved_wei ?bs"
    using inv by (simp add: ledger_inv_def fully_split_def)
  moreover have "budget_sum (\<lambda>k. Q k \<and> fst k = i) bg_reserved_wei bs
      = budget_sum Q bg_reserved_wei (filter (\<lambda>b. bg_reservation_id b = i) bs)" for bs
    by (induction bs) (auto simp: budget_sum_def bkey_def)
  ultimately show ?thesis by (simp add: reservation_rows_def)
qed

lemma release_unstarted_keeps:
  assumes inv: "ledger_inv d" and fresh: "\<not> has_released_stage i d"
    and run: "release_unstarted_route_txn i at d = Inr (u, d')"
  shows "ledger_inv d'"
proof -
  let ?rows = "reservation_rows i d"
  let ?p = "\<lambda>s. sb_reservation_id s = i" and ?f = "sb_state_update (\<lambda>_. S_released)"
  from run obtain d1 where idle: "\<not> list_ex bg_source_in_flight ?rows"
    and d1: "foldE (release_row i at) ?rows d = Inr d1"
    and d': "d' = d1\<lparr>t_subs := update_where ?p ?f (t_subs d1),
        t_budgets := update_where (\<lambda>b. bg_reservation_id b = i) (bg_state_update (\<lambda>_. B_released)) (t_budgets d1)\<rparr>"
    by (auto simp: release_unstarted_route_txn_def Let_def exn_simps)
  let ?d = "d1\<lparr>t_subs := update_where ?p ?f (t_subs d1)\<rparr>"
  have core: "ledger_core d" using inv by (rule ledger_inv_core)
  then have keys: "keys_ok d" "covered d" "within_limits d" "\<forall>l\<in>set (t_limits d). limit_ok l"
    and rows: "\<forall>b\<in>set ?rows. b \<in> set (t_budgets d) \<and> bg_reservation_id b = i \<and> 0 \<le> bg_reserved_wei b"
    and agree: "rows_agree (active_in d) (provisional_in d) (finalized_in d) (t_totals d) (t_batch_totals d)"
      "rows_agree (active_replay d) (provisional_replay d) (finalized_replay d) (t_totals d) (t_batch_totals d)"
    by (auto simp: ledger_core_def reservation_rows_def)
  note eff = release_rows_effect [OF d1 rows keys agree(1)]
  note effr = release_rows_effect [OF d1 rows keys agree(2)]
  have tabs: "t_budgets ?d = t_budgets d" "t_subs ?d = update_where ?p ?f (t_subs d)" using eff by simp_all
  have own: "owner bs (?f s) = owner bs s" for bs s by (simp add: owner_def)
  have same: "sub_sum Q g (t_budgets d) (update_where ?p ?f (t_subs d)) = sub_sum Q g (t_budgets d) (t_subs d)"
    if "\<And>s. g (?f s) = g s" for Q g
    unfolding sub_sum_def by (rule total_update_where_same) (simp add: that in_scope_def own)
  have views: "active_in ?d = (\<lambda>Q. active_in d Q - budget_sum Q bg_reserved_wei ?rows)"
    "provisional_in ?d = provisional_in d" "finalized_in ?d = finalized_in d" "fully_split ?d = fully_split d"
    by (auto simp: fun_eq_iff active_in_def provisional_in_def finalized_in_def fully_split_def tabs same
        released_settled [OF inv idle fresh])
  have frame: "active_replay ?d = active_replay d1" "provisional_replay ?d = provisional_replay d1"
    "finalized_replay ?d = finalized_replay d1" "has_total ?d = has_total d1" "has_batch_total ?d = has_batch_total d1"
    "within_limits ?d = within_limits d1" "find_limit r c ?d = find_limit r c d1" for r c
    by (auto simp: fun_eq_iff active_replay_def provisional_replay_def finalized_replay_def has_total_def
        has_batch_total_def find_total_def find_batch_total_def within_limits_def find_limit_def)
  from eff have "keys_ok d1" by blast
  then have "keys_ok ?d" by (simp add: keys_ok_def uniq_on_update_where)
  moreover have "covered ?d" using eff unfolding covered_def frame tabs by (auto simp: set_update_where own)
  moreover have subs: "\<forall>s\<in>set (t_subs d). sub_amounts_ok s" "\<forall>s\<in>set (t_subs d). sub_started_ok (t_budgets d) s"
    using core unfolding ledger_core_def by blast+
  have "\<forall>s\<in>set (t_subs ?d). sub_amounts_ok s \<and> sub_started_ok (t_budgets d) s"
  proof
    fix s assume "s \<in> set (t_subs ?d)"
    then obtain s' where s': "s' \<in> set (t_subs d)" "s = (if ?p s' then ?f s' else s')" by (auto simp: tabs set_update_where)
    show "sub_amounts_ok s \<and> sub_started_ok (t_budgets d) s"
    proof (cases "?p s'")
      case True
      with s' subs unstarted_subs [OF inv idle fresh s'(1) True] show ?thesis by (auto simp: sub_amounts_ok_def sub_started_ok_def own)
    next
      case False
      with s' subs show ?thesis by simp
    qed
  qed
  ultimately have "ledger_inv ?d"
    using core inv eff effr unfolding ledger_inv_def ledger_core_def views frame by simp
  then show ?thesis
    by (rule relabel_budgets [where p = "\<lambda>b. bg_reservation_id b = i" and g = "bg_state_update (\<lambda>_. B_released)"])
       (auto simp: d' same_ledger_def same_filing_def bkey_def)
qed

end
