(* ===== verification/Xir_Ledger_Totals.thy ===== *)
theory Xir_Ledger_Totals
  imports Xir_Budget_Routes
begin

text \<open>
  What the running totals keep under every call of \<^verbatim>\<open>execute/leases.py\<close>, also the calls
  \<open>ledger_inv\<close> excludes (releasing or starting a reservation whose stages were released before):
  \<open>totals_inv\<close> says that run and batch totals are a replay of the event table, hold amounts SQLite
  accepts, and stay within the configured limits. One lemma, \<open>totals_post\<close>, covers every operation
  that posts.
\<close>

section \<open>The invariant of the totals\<close>

definition totals_inv :: "db \<Rightarrow> bool" where
  "totals_inv d \<longleftrightarrow>
     uniq_on (\<lambda>t. Some (bt_run_id t, bt_chain_id t)) (t_totals d)
   \<and> uniq_on (\<lambda>t. Some (bb_run_id t, bb_batch_id t, bb_chain_id t)) (t_batch_totals d)
   \<and> uniq_on (\<lambda>l. Some (bl_run_id l, bl_chain_id l)) (t_limits d)
   \<and> (\<forall>e\<in>set (t_budget_events d). has_total d (ekey e) \<and> has_batch_total d (ekey e))
   \<and> (\<forall>b\<in>set (t_budgets d). has_total d (bkey b) \<and> has_batch_total d (bkey b) \<and> 0 \<le> bg_reserved_wei b)
   \<and> (\<forall>s\<in>set (t_subs d). 0 \<le> sb_reserved_wei s)
   \<and> (\<forall>t\<in>set (t_totals d). find_limit (bt_run_id t) (bt_chain_id t) d \<noteq> None \<and> total_ok t)
   \<and> (\<forall>t\<in>set (t_batch_totals d). find_limit (bb_run_id t) (bb_chain_id t) d \<noteq> None \<and> batch_total_ok t)
   \<and> (\<forall>l\<in>set (t_limits d). limit_ok l)
   \<and> rows_agree (active_replay d) (provisional_replay d) (finalized_replay d) (t_totals d) (t_batch_totals d)
   \<and> within_limits d"

text \<open>The views of a store that has no reservations, but the totals, limits and events of another.\<close>

definition strip :: "db \<Rightarrow> db" where
  "strip d = d\<lparr>t_budgets := [], t_subs := []\<rparr>"

lemma strip_simps [simp]:
  "t_totals (strip d) = t_totals d" "t_batch_totals (strip d) = t_batch_totals d" "t_limits (strip d) = t_limits d"
  "t_budget_events (strip d) = t_budget_events d" "find_limit r c (strip d) = find_limit r c d"
  "find_total r c (strip d) = find_total r c d" "find_batch_total r b c (strip d) = find_batch_total r b c d"
  "within_limits (strip d) = within_limits d" "fits (strip d) r b c v = fits d r b c v"
  by (auto simp: strip_def find_limit_def find_total_def find_batch_total_def within_limits_def fits_def batch_use_def)

lemma totals_keys: "totals_inv d \<Longrightarrow> keys_ok (strip d)"
  by (simp add: totals_inv_def keys_ok_def) (simp add: strip_def)

lemma has_total_cong:
  "t_totals d' = t_totals d \<Longrightarrow> has_total d' = has_total d"
  "t_batch_totals d' = t_batch_totals d \<Longrightarrow> has_batch_total d' = has_batch_total d"
  by (simp_all add: fun_eq_iff has_total_def has_batch_total_def find_total_def find_batch_total_def)

lemma replay_cong:
  assumes "t_budget_events d' = t_budget_events d"
  shows "active_replay d' = active_replay d" "provisional_replay d' = provisional_replay d"
    "finalized_replay d' = finalized_replay d"
  using assms by (simp_all add: fun_eq_iff active_replay_def provisional_replay_def finalized_replay_def)

text \<open>Calls that post nothing: rows keep their filing and their reserved amounts stay non-negative.\<close>

definition filed_among :: "posting_key set \<Rightarrow> db \<Rightarrow> bool" where
  "filed_among K d \<longleftrightarrow> (\<forall>b\<in>set (t_budgets d). 0 \<le> bg_reserved_wei b \<and> bkey b \<in> K)
     \<and> (\<forall>s\<in>set (t_subs d). 0 \<le> sb_reserved_wei s)"

lemma totals_filed: "totals_inv d \<Longrightarrow> filed_among (bkey ` set (t_budgets d)) d"
  by (auto simp: totals_inv_def filed_among_def)

lemma totals_keep:
  assumes "totals_inv d" and "same_totals d d'" and "t_budget_events d' = t_budget_events d"
    and "filed_among (bkey ` set (t_budgets d)) d'"
  shows "totals_inv d'"
proof -
  from assms(2) have "t_totals d' = t_totals d" "t_batch_totals d' = t_batch_totals d" "t_limits d' = t_limits d"
    by (simp_all add: same_totals_def)
  then have frame: "has_total d' = has_total d" "has_batch_total d' = has_batch_total d"
    "find_limit r c d' = find_limit r c d" "within_limits d' = within_limits d" for r c
    using has_total_cong [of d' d] by (simp_all add: find_limit_def within_limits_def)
  note tabs = \<open>t_totals d' = t_totals d\<close> \<open>t_batch_totals d' = t_batch_totals d\<close> \<open>t_limits d' = t_limits d\<close>
  have "\<forall>b\<in>set (t_budgets d'). has_total d (bkey b) \<and> has_batch_total d (bkey b) \<and> 0 \<le> bg_reserved_wei b"
    using assms(1,4) unfolding filed_among_def totals_inv_def by (metis (no_types, lifting) imageE)
  then show ?thesis
    using assms(1,3,4) unfolding totals_inv_def frame tabs replay_cong [OF assms(3)] by (simp add: filed_among_def)
qed

section \<open>One posting\<close>

lemma change_totals_ok:
  assumes "change_totals r b c rd pd fd at d = Inr d'"
    and "\<forall>t\<in>set (t_totals d). total_ok t" and "\<forall>t\<in>set (t_batch_totals d). batch_total_ok t"
  shows "\<forall>t\<in>set (t_totals d'). total_ok t" and "\<forall>t\<in>set (t_batch_totals d'). batch_total_ok t"
proof -
  from assms(1) obtain ts bs where ts: "change_run_totals r c rd pd fd at (t_totals d) = Inr ts"
    and bs: "change_batch_totals r b c rd pd fd at (t_batch_totals d) = Inr bs"
    and d': "d' = d\<lparr>t_totals := ts, t_batch_totals := bs\<rparr>"
    by (rule change_totals_fields)
  from ts assms(2) show "\<forall>t\<in>set (t_totals d'). total_ok t"
    by (auto simp: d' change_run_totals_def Let_def exn_simps list_all_iff set_update_where)
  from bs have "\<forall>t\<in>set bs. batch_total_ok t"
  proof (cases rule: change_batch_totals_cases)
    case updated
    with bs assms(3) show ?thesis
      by (auto simp: change_batch_totals_def Let_def exn_simps list_ex_iff list_all_iff set_update_where)
  next
    case inserted
    with bs have "0 \<le> min rd (min pd fd)" "list_all int64 [rd, pd, fd]"
      by (auto simp: change_batch_totals_def Let_def exn_simps list_ex_iff not_less split: if_splits)
    with inserted assms(3) show ?thesis by (auto simp: batch_total_ok_def amount_ok_def)
  qed
  then show "\<forall>t\<in>set (t_batch_totals d'). batch_total_ok t" by (simp add: d')
qed

lemma totals_post:
  assumes inv: "totals_inv d" and k: "k = (i, r, b, c)"
    and post: "change_totals r b c rd pd fd at d1 = Inr d2" and same: "same_totals d d1" "same_totals d2 d'"
    and tot: "has_total d k" and lim: "find_limit r c d \<noteq> None" and fit: "fits d r b c (rd + fd)"
    and events: "t_budget_events d' = t_budget_events d @ [e]" and e: "ekey e = k"
      "be_reserved_delta_wei e = rd" "be_provisional_delta_wei e = pd" "be_finalized_delta_wei e = fd"
    and filed: "filed_among (insert k (bkey ` set (t_budgets d))) d'"
  shows "totals_inv d'"
proof -
  let ?D = "strip d" and ?E = "strip d\<lparr>t_totals := t_totals d2, t_batch_totals := t_batch_totals d2\<rparr>"
  have go: "change_totals r b c rd pd fd at ?D = Inr ?E"
    using post same(1) by (auto simp: change_totals_def same_totals_def exn_simps)
  have tabs: "t_totals d' = t_totals ?E" "t_batch_totals d' = t_batch_totals ?E" "t_limits d' = t_limits ?E"
    using same change_totals_limits [OF post] by (simp_all add: same_totals_def)
  then have frame: "has_total d' = has_total ?E" "has_batch_total d' = has_batch_total ?E"
    "find_limit r c d' = find_limit r c ?E" "within_limits d' = within_limits ?E" for r c
    using has_total_cong [of d' ?E] by (simp_all add: find_limit_def within_limits_def)
  note d = inv [unfolded totals_inv_def] and keys = totals_keys [OF inv]
  have unseen: "event_sum (batch_scope r b c) g (t_budget_events d) = 0" if "find_batch_total r b c d = None" for g
    unfolding event_sum_def
  proof (rule total_zero)
    fix x assume "x \<in> set (t_budget_events d)"
    then have "has_batch_total d (ekey x)" using d by blast
    with that show "(if batch_scope r b c (ekey x) then g x else 0) = 0"
      by (cases "ekey x") (auto simp: has_batch_total_def)
  qed
  have replays: "active_replay d' = plus_posting (active_replay d) k rd"
    "provisional_replay d' = plus_posting (provisional_replay d) k pd"
    "finalized_replay d' = plus_posting (finalized_replay d) k fd"
    by (auto simp: fun_eq_iff active_replay_def provisional_replay_def finalized_replay_def events e
        event_sum_snoc plus_posting_def)
  have agree: "rows_agree (active_replay d') (provisional_replay d') (finalized_replay d') (t_totals d') (t_batch_totals d')"
    unfolding replays tabs k by (rule change_totals_agree [OF go])
      (use d unseen in \<open>simp_all add: active_replay_def provisional_replay_def finalized_replay_def\<close>)
  have found: "has_total d j \<Longrightarrow> has_total d' j" "has_batch_total d j \<Longrightarrow> has_batch_total d' j" for j
    unfolding frame using change_totals_find(1,2) [OF go] by (auto simp: has_total_def has_batch_total_def)
  have "has_batch_total ?E k" using change_totals_find(2) [OF go] by (simp add: has_batch_total_def k)
  with found(1) [OF tot] have here: "has_total d' k" "has_batch_total d' k" by (simp_all add: frame)
  have events': "\<forall>x\<in>set (t_budget_events d'). has_total d' (ekey x) \<and> has_batch_total d' (ekey x)"
    using d found here by (auto simp: events e)
  have budgets': "\<forall>x\<in>set (t_budgets d'). has_total d' (bkey x) \<and> has_batch_total d' (bkey x) \<and> 0 \<le> bg_reserved_wei x"
    using filed d found here unfolding filed_among_def by (metis (no_types, lifting) imageE insertE)
  have uniq: "keys_ok ?E" using change_totals_keys [OF go keys] .
  have "find_limit r c ?D \<noteq> None" "\<forall>t\<in>set (t_totals ?D). find_limit (bt_run_id t) (bt_chain_id t) ?D \<noteq> None"
    "\<forall>t\<in>set (t_batch_totals ?D). find_limit (bb_run_id t) (bb_chain_id t) ?D \<noteq> None"
    using d lim by simp_all
  note covers = change_totals_covers [OF go this, folded frame tabs]
  have "\<forall>t\<in>set (t_totals ?D). total_ok t" "\<forall>t\<in>set (t_batch_totals ?D). batch_total_ok t"
    unfolding strip_simps using d by blast+
  note ok = change_totals_ok [OF go this, folded tabs]
  have "within_limits ?D" "fits ?D r b c (rd + fd)" unfolding strip_simps using d fit by blast+
  note within = change_totals_within [OF go keys this, folded frame]
  have keys': "uniq_on (\<lambda>t. Some (bt_run_id t, bt_chain_id t)) (t_totals d')"
    "uniq_on (\<lambda>t. Some (bb_run_id t, bb_batch_id t, bb_chain_id t)) (t_batch_totals d')"
    "uniq_on (\<lambda>l. Some (bl_run_id l, bl_chain_id l)) (t_limits d')"
    unfolding tabs using uniq unfolding keys_ok_def by blast+
  have limits: "\<forall>l\<in>set (t_limits d'). limit_ok l" unfolding tabs using d by simp
  have subs: "\<forall>s\<in>set (t_subs d'). 0 \<le> sb_reserved_wei s" using filed by (simp add: filed_among_def)
  show ?thesis
    unfolding totals_inv_def using keys' events' budgets' subs covers ok limits agree within by blast
qed

section \<open>Every call keeps it\<close>

lemma totals_fits: "totals_inv d \<Longrightarrow> v \<le> 0 \<Longrightarrow> fits d r b c v"
  by (rule fits_nonpositive) (simp_all add: totals_inv_def)

lemma totals_budget: "totals_inv d \<Longrightarrow> b \<in> set (t_budgets d) \<Longrightarrow>
    has_total d (bkey b) \<and> has_batch_total d (bkey b) \<and> 0 \<le> bg_reserved_wei b"
  by (simp add: totals_inv_def)

lemma totals_budget_limit:
  assumes "totals_inv d" and "b \<in> set (t_budgets d)"
  shows "find_limit (bg_run_id b) (bg_chain_id b) d \<noteq> None"
proof -
  from totals_budget [OF assms] obtain t where "find_total (bg_run_id b) (bg_chain_id b) d = Some t"
    by (auto simp: has_total_def bkey_def)
  with assms(1) show ?thesis by (auto simp: totals_inv_def dest!: find_totalD)
qed

text \<open>The shape of every settling call: rows change in place, the totals move, the event follows.\<close>

lemma totals_lineage:
  assumes inv: "totals_inv d" and lin: "lineage L d = Inr (s, n, b)"
    and post: "change_totals (bg_run_id b) (bg_batch_id b) (sb_chain_id s) rd pd fd at d2 = Inr d3"
    and same: "same_totals d d2" "same_totals (lineage_event s b ty rd pd fd js at d3) d'"
    and events: "t_budget_events d2 = t_budget_events d"
      "t_budget_events d' = t_budget_events (lineage_event s b ty rd pd fd js at d3)"
    and filed: "filed_among (bkey ` set (t_budgets d)) d'"
    and fit: "fits d (bg_run_id b) (bg_batch_id b) (sb_chain_id s) (rd + fd)"
  shows "totals_inv d'"
proof (rule totals_post [OF inv _ post same(1), where e = "last (t_budget_events d')" and i = "sb_reservation_id s"])
  note b = lineageD(5-7) [OF lin]
  show "(sb_reservation_id s, bg_run_id b, bg_batch_id b, sb_chain_id s)
      = (sb_reservation_id s, bg_run_id b, bg_batch_id b, sb_chain_id s)" ..
  show "has_total d (sb_reservation_id s, bg_run_id b, bg_batch_id b, sb_chain_id s)"
    using totals_budget [OF inv b(1)] b by (simp add: bkey_def)
  show "find_limit (bg_run_id b) (sb_chain_id s) d \<noteq> None" using totals_budget_limit [OF inv b(1)] b by simp
  show "same_totals d3 d'" using same(2) by (simp add: same_totals_def lineage_event_def budget_event_def)
  show "filed_among (insert (sb_reservation_id s, bg_run_id b, bg_batch_id b, sb_chain_id s) (bkey ` set (t_budgets d))) d'"
    using filed by (simp add: filed_among_def)
qed (use fit events change_totals_frame(3) [OF post] in \<open>simp_all add: lineage_event_def budget_event_def ekey_def\<close>)

lemma filed_update:
  assumes "filed_among K d" and "\<And>b. bkey (g b) = bkey b \<and> bg_reserved_wei (g b) = bg_reserved_wei b"
    and "\<And>s. sb_reserved_wei (f s) = sb_reserved_wei s"
    and "t_budgets d' = update_where p g (t_budgets d)" and "t_subs d' = update_where q f (t_subs d)"
  shows "filed_among K d'"
  using assms by (auto simp: filed_among_def set_update_where)

lemma filed_cong: "filed_among K d \<Longrightarrow> t_budgets d' = t_budgets d \<Longrightarrow> t_subs d' = t_subs d \<Longrightarrow> filed_among K d'"
  by (simp add: filed_among_def)

lemma filed_settle: "filed_among K d \<Longrightarrow> filed_among K (settle_completed_budget_rows i d)"
  by (auto simp: filed_among_def settle_completed_budget_rows_def set_update_where bkey_def)


lemma record_included_totals:
  assumes "totals_inv d" and "record_included_txn L spent at d = Inr (u, d')"
  shows "totals_inv d'"
proof -
  let ?f = "\<lambda>s. s\<lparr>sb_provisional_wei := spent, sb_state := S_included\<rparr>"
  let ?g = "\<lambda>s b. b\<lparr>bg_provisional_wei := bg_provisional_wei b + (spent - sb_provisional_wei s)\<rparr>"
  from assms(2) obtain s n b d2 d3 where lin: "lineage L d = Inr (s, n, b)"
    and d2: "update_budget_amounts s (?g s)
        (update_lineage_sub L ?f (update_lineage_nonce L (\<lambda>n. n\<lparr>nl_state := N_included, nl_locked := True\<rparr>) d)) = Inr d2"
    and d3: "change_totals (bg_run_id b) (bg_batch_id b) (sb_chain_id s) 0 (spent - sb_provisional_wei s) 0 at d2 = Inr d3"
    and d': "d' = lineage_event s b ''receipt_included'' 0 (spent - sb_provisional_wei s) 0
                   (JObj [(''actual_spent_wei'', JInt spent)]) at d3"
    by (auto simp: record_included_txn_def Let_def exn_simps split: prod.splits)
  note eqs = update_budget_amountsD [OF d2] d' change_totals_frame [OF d3]
  have filed: "filed_among (bkey ` set (t_budgets d)) d'"
    by (rule filed_update [OF totals_filed [OF assms(1)], where f = ?f and g = "?g s"])
      (auto simp: eqs lineage_updates bkey_def)
  show ?thesis
    by (rule totals_lineage [OF assms(1) lin d3 _ _ _ _ filed])
      (simp_all add: eqs lineage_updates totals_fits [OF assms(1)])
qed


lemma pending_totals:
  assumes "totals_inv d" and "mark_lineage_pending_txn clk L st sst now d = Inr (u, d')"
  shows "totals_inv d'"
proof -
  from assms(2) obtain s n b at ty where lin: "lineage L d = Inr (s, n, b)"
    and d': "d' = lineage_event s b ty 0 0 0 (JObj []) at
                (update_lineage_sub L (sb_state_update (\<lambda>_. sst))
                  (update_lineage_nonce L (\<lambda>n. n\<lparr>nl_state := st, nl_locked := True\<rparr>) d))"
    by (auto simp: mark_lineage_pending_txn_def exn_simps split: prod.splits)
  note b = lineageD(5-7) [OF lin]
  let ?d = "d'\<lparr>t_budget_events := t_budget_events d\<rparr>"
  have "filed_among (bkey ` set (t_budgets d)) ?d"
    using totals_filed [OF assms(1)] by (auto simp: filed_among_def set_update_where d' lineage_updates)
  then have inv: "totals_inv ?d"
    by (intro totals_keep [OF assms(1)]) (simp_all add: d' lineage_updates)
  obtain e where e: "t_budget_events d' = t_budget_events d @ [e]" "ekey e = bkey b" "be_reserved_delta_wei e = 0"
    "be_provisional_delta_wei e = 0" "be_finalized_delta_wei e = 0"
    using b by (simp add: d' lineage_updates ekey_def bkey_def)
  then have replays: "active_replay d' = active_replay ?d" "provisional_replay d' = provisional_replay ?d"
    "finalized_replay d' = finalized_replay ?d"
    by (auto simp: fun_eq_iff active_replay_def provisional_replay_def finalized_replay_def event_sum_snoc)
  have "has_total d (bkey b) \<and> has_batch_total d (bkey b)" using totals_budget [OF assms(1) b(1)] by simp
  moreover have tots: "has_total d' = has_total ?d" "has_batch_total d' = has_batch_total ?d"
    "has_total ?d = has_total d" "has_batch_total ?d = has_batch_total d"
    "\<And>r c. find_limit r c d' = find_limit r c ?d" "within_limits d' = within_limits ?d"
    by (simp_all add: fun_eq_iff has_total_def has_batch_total_def find_total_def find_batch_total_def
        find_limit_def within_limits_def d' lineage_updates)
  ultimately have "\<forall>x\<in>set (t_budget_events d'). has_total ?d (ekey x) \<and> has_batch_total ?d (ekey x)"
    using assms(1) e(1,2) unfolding totals_inv_def by auto
  with inv show ?thesis unfolding totals_inv_def replays tots(1,2,5,6) by simp
qed

lemma finalize_lineage_totals:
  assumes "totals_inv d" and "finalize_lineage_txn L spent at d = Inr (u, d')"
  shows "totals_inv d'"
proof (cases "d' = d")
  case False
  let ?f = "\<lambda>s. s\<lparr>sb_provisional_wei := 0, sb_finalized_wei := spent, sb_state := S_finalized\<rparr>"
  let ?g = "\<lambda>s b. b\<lparr>bg_provisional_wei := bg_provisional_wei b - sb_provisional_wei s,
                      bg_finalized_wei := bg_finalized_wei b + spent\<rparr>"
  let ?n = "\<lambda>n. n\<lparr>nl_state := N_finalized, nl_locked := False, nl_released_at := Some at\<rparr>"
  from assms(2) False obtain s n b d2 d3 js where lin: "lineage L d = Inr (s, n, b)"
    and le: "spent \<le> sb_reserved_wei s"
    and d2: "update_budget_amounts s (?g s)
               (update_lineage_nonce L ?n (update_lineage_sub L ?f d)) = Inr d2"
    and d3: "change_totals (bg_run_id b) (bg_batch_id b) (sb_chain_id s) (- sb_reserved_wei s)
               (- sb_provisional_wei s) spent at d2 = Inr d3"
    and d': "d' = settle_completed_budget_rows (sb_reservation_id s)
        (lineage_event s b ''lineage_finalized'' (- sb_reserved_wei s) (- sb_provisional_wei s) spent js at d3)"
    by (auto simp: finalize_lineage_txn_def Let_def exn_simps split: prod.splits if_splits)
  note eqs = update_budget_amountsD [OF d2] change_totals_frame [OF d3]
  have filed: "filed_among (bkey ` set (t_budgets d)) d'"
    unfolding d' by (rule filed_settle, rule filed_update [OF totals_filed [OF assms(1)], where f = ?f and g = "?g s"])
      (auto simp: eqs lineage_updates bkey_def)
  show ?thesis
    by (rule totals_lineage [OF assms(1) lin d3 _ _ _ _ filed])
      (use le in \<open>simp_all add: eqs d' settle_completed_budget_rows_def lineage_updates totals_fits [OF assms(1)]\<close>)
qed (use assms(1) in simp)

lemma release_dead_totals:
  assumes "totals_inv d"
    and "release_dead_lineage_txn L proof_sha destroyed manual proof_release at d = Inr (u, d')"
  shows "totals_inv d'"
proof (cases "d' = d")
  case False
  let ?f = "\<lambda>s. s\<lparr>sb_state := S_released, sb_release_proof_sha256 := proof_sha,
              sb_manual_release_decision_sha256 := manual, sb_signed_bytes_destroyed := destroyed\<rparr>"
  let ?d1 = "update_lineage_nonce L
        (\<lambda>n. n\<lparr>nl_state := N_released, nl_locked := False, nl_released_at := Some at\<rparr>)
        (update_lineage_sub L ?f d)"
  from assms(2) False obtain s n b d3 ty js where lin: "lineage L d = Inr (s, n, b)"
    and d3: "change_totals (bg_run_id b) (bg_batch_id b) (sb_chain_id s) (- sb_reserved_wei s) 0 0 at ?d1 = Inr d3"
    and d': "d' = settle_completed_budget_rows (sb_reservation_id s)
        (lineage_event s b ty (- sb_reserved_wei s) 0 0 js at d3)"
    by (auto simp: release_dead_lineage_txn_def Let_def exn_simps split: prod.splits if_splits)
  have nonneg: "0 \<le> sb_reserved_wei s" using assms(1) lineageD(3) [OF lin] by (simp add: totals_inv_def)
  note eqs = change_totals_frame [OF d3]
  have filed: "filed_among (bkey ` set (t_budgets d)) d'"
    unfolding d' by (rule filed_settle)
      (use totals_filed [OF assms(1)] in \<open>auto simp: filed_among_def set_update_where eqs lineage_updates\<close>)
  show ?thesis
    by (rule totals_lineage [OF assms(1) lin d3 _ _ _ _ filed])
      (use nonneg in \<open>simp_all add: eqs d' settle_completed_budget_rows_def lineage_updates totals_fits [OF assms(1)]\<close>)
qed (use assms(1) in simp)


lemma reopen_included_totals:
  assumes "totals_inv d" and lin: "lineage L d = Inr (s, n, b)" and "reopen_included L s b at d = Inr d'"
  shows "totals_inv d'"
proof -
  let ?f = "\<lambda>s. s\<lparr>sb_provisional_wei := 0, sb_state := S_reopened\<rparr>"
  let ?g = "\<lambda>b. b\<lparr>bg_provisional_wei := bg_provisional_wei b - sb_provisional_wei s\<rparr>"
  from assms(3) obtain d2 d3 where
    d2: "update_budget_amounts s ?g (update_lineage_nonce L
           (\<lambda>n. n\<lparr>nl_state := N_active, nl_locked := True, nl_released_at := None\<rparr>)
           (update_lineage_sub L ?f d)) = Inr d2"
    and d3: "change_totals (bg_run_id b) (bg_batch_id b) (sb_chain_id s) 0 (- sb_provisional_wei s) 0 at d2 = Inr d3"
    and d': "d' = lineage_event s b ''included_receipt_reopened'' 0 (- sb_provisional_wei s) 0 (JObj []) at d3"
    by (auto simp: reopen_included_def Let_def exn_simps)
  note eqs = update_budget_amountsD [OF d2] d' change_totals_frame [OF d3]
  have filed: "filed_among (bkey ` set (t_budgets d)) d'"
    by (rule filed_update [OF totals_filed [OF assms(1)], where f = ?f and g = ?g])
      (auto simp: eqs lineage_updates bkey_def)
  show ?thesis
    by (rule totals_lineage [OF assms(1) lin d3 _ _ _ _ filed])
      (simp_all add: eqs lineage_updates totals_fits [OF assms(1)])
qed

lemma reopen_finalized_totals:
  assumes "totals_inv d" and lin: "lineage L d = Inr (s, n, b)"
    and room: "assert_capacity (bg_run_id b) (bg_batch_id b) (sb_chain_id s) (sb_reserved_wei s)
                 (sb_finalized_wei s) d = Inr v"
    and "reopen_finalized L s b at d = Inr d'"
  shows "totals_inv d'"
proof -
  let ?f = "\<lambda>s. s\<lparr>sb_finalized_wei := 0, sb_state := S_reopened\<rparr>"
  let ?g = "\<lambda>b. b\<lparr>bg_finalized_wei := bg_finalized_wei b - sb_finalized_wei s, bg_state := B_in_flight\<rparr>"
  from assms(4) obtain d2 d3 where
    d2: "update_budget_amounts s ?g (update_lineage_nonce L
           (\<lambda>n. n\<lparr>nl_state := N_active, nl_locked := True, nl_released_at := None\<rparr>)
           (update_lineage_sub L ?f d)) = Inr d2"
    and d3: "change_totals (bg_run_id b) (bg_batch_id b) (sb_chain_id s) (sb_reserved_wei s) 0
               (- sb_finalized_wei s) at d2 = Inr d3"
    and d': "d' = lineage_event s b ''finalized_receipt_reopened'' (sb_reserved_wei s) 0
               (- sb_finalized_wei s) (JObj []) at d3"
    by (auto simp: reopen_finalized_def Let_def exn_simps)
  note eqs = update_budget_amountsD [OF d2] d' change_totals_frame [OF d3]
  have filed: "filed_among (bkey ` set (t_budgets d)) d'"
    by (rule filed_update [OF totals_filed [OF assms(1)], where f = ?f and g = ?g])
      (auto simp: eqs lineage_updates bkey_def)
  show ?thesis
    by (rule totals_lineage [OF assms(1) lin d3 _ _ _ _ filed])
      (use assert_capacity_fits(1) [OF room] in \<open>simp_all add: eqs lineage_updates\<close>)
qed

lemma totals_same: "totals_inv d \<Longrightarrow> same_ledger d d' \<Longrightarrow> totals_inv d'"
  using totals_keep [of d d'] filed_cong [OF totals_filed, of d d'] by (simp add: same_ledger_def same_totals_def)

lemma reopen_totals:
  assumes "totals_inv d" and "reopen_txn L v at d = Inr (r, d')"
  shows "totals_inv d'"
proof -
  from assms(2) obtain s n b where lin: "lineage L d = Inr (s, n, b)"
    by (auto simp: reopen_txn_def exn_simps)
  let ?room = "assert_capacity (bg_run_id b) (bg_batch_id b) (sb_chain_id s) (sb_reserved_wei s)
                   (sb_finalized_wei s) d"
  from assms(2) lin consider "reopen_included L s b at d = Inr d'"
    | be where "halt_after_reorg v L (bg_run_id b) be (sb_chain_id s) d = Inr d'"
    | w where "?room = Inr w" "reopen_finalized L s b at d = Inr d'"
    by (auto simp: reopen_txn_def exn_simps split: if_splits sum.splits exn.splits)
  then show ?thesis
  proof cases
    case 2
    then have "same_ledger d d'"
      by (auto simp: halt_after_reorg_def exn_simps same_ledger_def set_run_state_def)
    with assms(1) show ?thesis by (rule totals_same)
  qed (use assms(1) lin in \<open>blast intro: reopen_included_totals reopen_finalized_totals\<close>)+
qed

section \<open>Calls on routes and limits\<close>

lemma configure_limit_totals:
  assumes inv: "totals_inv d" and run: "configure_limit r now l d = Inr d'"
  shows "totals_inv d'"
proof -
  let ?c = "lim_chain_id l"
  let ?l = "\<lparr>bl_run_id = r, bl_chain_id = ?c,
      bl_max_transaction_wei = lim_max_transaction_wei l, bl_max_batch_wei = lim_max_batch_wei l,
      bl_max_run_wei = lim_max_run_wei l, bl_minimum_runner_balance_wei = lim_minimum_runner_balance_wei l,
      bl_observed_runner_balance_wei = lim_observed_runner_balance_wei l, bl_updated_at = now\<rparr>"
  from run have ok: "limit_ok ?l" and d': "d' = init_totals r ?c now (upsert_limit r l now d)"
    by (auto simp: configure_limit_def Let_def exn_simps limit_ok_def)
  let ?d = "upsert_limit r l now d"
  note d = inv [unfolded totals_inv_def]
  have frame: "t_totals ?d = t_totals d" "t_batch_totals ?d = t_batch_totals d" "t_budgets ?d = t_budgets d"
    "t_subs ?d = t_subs d" "t_budget_events ?d = t_budget_events d"
    by (auto simp: upsert_limit_def split: option.splits)
  have tots: "has_total ?d = has_total d" "has_batch_total ?d = has_batch_total d"
    using has_total_cong frame by blast+
  have more: "find_limit r' c' d \<noteq> None \<Longrightarrow> find_limit r' c' ?d \<noteq> None" for r' c'
    by (auto simp: upsert_limit_def find_limit_def find_update_where find_append split: option.splits)
  have lim: "find_limit r ?c ?d \<noteq> None"
    by (auto simp: upsert_limit_def find_limit_def find_update_where find_append split: option.splits)
  have uniq: "uniq_on (\<lambda>l. Some (bl_run_id l, bl_chain_id l)) (t_limits ?d)"
  proof (cases "find_limit r ?c d")
    case None
    then have "\<forall>x\<in>set (t_limits d). (bl_run_id x, bl_chain_id x) \<noteq> (r, ?c)"
      by (auto simp: find_limit_def find_None_iff)
    with None d show ?thesis by (auto simp: upsert_limit_def uniq_on_snoc clashes_def list_ex_iff)
  qed (use d in \<open>simp add: upsert_limit_def uniq_on_update_where\<close>)
  have limits: "\<forall>l\<in>set (t_limits ?d). limit_ok l"
    using d ok by (auto simp: upsert_limit_def limit_ok_def set_update_where split: option.splits)
  have within: "within_limits ?d"
  proof (cases "find_limit r ?c d")
    case None
    with d have "\<forall>t\<in>set (t_totals d). (bt_run_id t, bt_chain_id t) \<noteq> (r, ?c)"
      "\<forall>t\<in>set (t_batch_totals d). (bb_run_id t, bb_chain_id t) \<noteq> (r, ?c)" by auto
    with d None show ?thesis by (auto simp: within_limits_def upsert_limit_def)
  qed (use d in \<open>auto simp: within_limits_def upsert_limit_def set_update_where\<close>)
  have inv': "totals_inv ?d"
    unfolding totals_inv_def frame tots replay_cong [OF frame(5)] using d uniq limits within more by blast
  show ?thesis
  proof (cases "find_total r ?c d")
    case (Some t)
    then have "d' = ?d" by (simp add: d' init_totals_def find_total_def frame)
    with inv' show ?thesis by simp
  next
    case None
    let ?t = "\<lparr>bt_run_id = r, bt_chain_id = ?c, bt_active_reserved_wei = 0, bt_provisional_wei = 0,
      bt_finalized_wei = 0, bt_updated_at = now\<rparr>"
    from None have eq: "d' = ?d\<lparr>t_totals := t_totals ?d @ [?t]\<rparr>" by (simp add: d' init_totals_def find_total_def frame)
    have unseen: "event_sum (run_scope r ?c) g (t_budget_events d) = 0" for g
      unfolding event_sum_def
    proof (rule total_zero)
      fix x assume "x \<in> set (t_budget_events d)"
      then have "has_total d (ekey x)" using d by blast
      with None show "(if run_scope r ?c (ekey x) then g x else 0) = 0"
        by (cases "ekey x") (auto simp: has_total_def)
    qed
    have tabs: "t_batch_totals d' = t_batch_totals ?d" "t_limits d' = t_limits ?d" "t_budgets d' = t_budgets d"
      "t_subs d' = t_subs d" "t_budget_events d' = t_budget_events d" "t_totals d' = t_totals d @ [?t]"
      by (simp_all add: eq frame)
    have keep: "find_limit a b d' = find_limit a b ?d" for a b by (simp add: eq find_limit_def)
    have found: "has_total d k \<Longrightarrow> has_total d' k" "has_batch_total d' = has_batch_total d" for k
      using tabs frame(2) by (auto simp: fun_eq_iff has_total_def has_batch_total_def find_total_def find_batch_total_def find_append
          split: option.splits)
    have "uniq_on (\<lambda>t. Some (bt_run_id t, bt_chain_id t)) (t_totals d')"
      using d None by (auto simp: tabs uniq_on_snoc clashes_def list_ex_iff find_total_def find_None_iff)
    moreover have "within_limits d'"
      using within limits by (auto simp: within_limits_def tabs frame limit_ok_def)
    moreover have "rows_agree (active_replay d) (provisional_replay d) (finalized_replay d) (t_totals d') (t_batch_totals d')"
      using d unseen by (simp add: rows_agree_def tabs frame active_replay_def provisional_replay_def finalized_replay_def)
    moreover have "\<forall>t\<in>set (t_totals d'). find_limit (bt_run_id t) (bt_chain_id t) d' \<noteq> None \<and> total_ok t"
      using d more lim by (auto simp: keep tabs total_ok_def amount_ok_def int64_def)
    ultimately show ?thesis
      using inv' found
      unfolding totals_inv_def tabs(1-5) keep found(2) frame tots replay_cong [OF tabs(5)] by blast
  qed
qed


lemma configure_limits_totals:
  assumes "totals_inv d" and "configure_limits_txn r rows now d = Inr (u, d')"
  shows "totals_inv d'"
  using assms
  by (auto simp: configure_limits_txn_def exn_simps intro: foldE_invariant configure_limit_totals)

lemma reserve_chain_totals:
  assumes inv: "totals_inv d" and run: "reserve_chain i a r b at (c, v) d = Inr d'"
    and fit: "fits d r b c v" and tot: "find_total r c d \<noteq> None" and lim: "find_limit r c d \<noteq> None"
  shows "totals_inv d'"
proof -
  from run obtain row e ts bs where
    post: "change_totals r b c v 0 0 at d = Inr (d\<lparr>t_totals := ts, t_batch_totals := bs\<rparr>)"
    and d': "d' = d\<lparr>t_totals := ts, t_batch_totals := bs, t_budgets := t_budgets d @ [row],
               t_budget_events := t_budget_events d @ [e]\<rparr>"
    and row: "bkey row = (i, r, b, c)" "bg_reserved_wei row = v" "0 \<le> v" and e: "ekey e = (i, r, b, c)"
      "be_reserved_delta_wei e = v" "be_provisional_delta_wei e = 0" "be_finalized_delta_wei e = 0"
    by (rule reserve_chain_fields)
  show ?thesis
    by (rule totals_post [OF inv refl post _ _ _ lim _ _ e])
      (use fit tot row totals_filed [OF inv] in \<open>auto simp: d' same_totals_def has_total_def filed_among_def\<close>)
qed

lemma reserve_chains_totals:
  assumes "foldE (reserve_chain i a r b at) cvs d = Inr d'" and "totals_inv d" and "distinct (map fst cvs)"
    and "\<forall>(c, v)\<in>set cvs. fits d r b c v \<and> find_total r c d \<noteq> None \<and> find_limit r c d \<noteq> None"
  shows "totals_inv d'"
  using assms
proof (induction cvs arbitrary: d)
  case (Cons cv cvs)
  obtain c v where cv: "cv = (c, v)" by fastforce
  with Cons.prems obtain d1 where d1: "reserve_chain i a r b at (c, v) d = Inr d1"
    and rest: "foldE (reserve_chain i a r b at) cvs d1 = Inr d'" by (auto simp: exn_simps)
  have "fits d1 r b c' v' \<and> find_total r c' d1 \<noteq> None \<and> find_limit r c' d1 \<noteq> None" if "(c', v') \<in> set cvs" for c' v'
  proof -
    from that Cons.prems(3) cv have other: "c' \<noteq> c" by force
    from that Cons.prems(4) have "fits d r b c' v' \<and> find_total r c' d \<noteq> None \<and> find_limit r c' d \<noteq> None" by fastforce
    then show ?thesis unfolding reserve_chain_frame [OF d1 other] .
  qed
  moreover have "totals_inv d1"
    by (rule reserve_chain_totals [OF Cons.prems(2) d1]) (use Cons.prems(4) cv in auto)
  ultimately show ?case using Cons.IH [OF rest] Cons.prems(3) by auto
qed simp

lemma reserve_totals:
  assumes inv: "totals_inv d" and run: "reserve_complete_route_txn clk i a b sts at d = Inr (u, d')"
  shows "totals_inv d'"
proof -
  from run obtain r d1 d2 w where room: "foldE (check_chain_capacity r b) (by_chain sts) d = Inr w"
    and d1: "foldE (reserve_chain i a r b at) (by_chain sts) d = Inr d1"
    and d2: "foldE (reserve_stage i a) (enumerate 0 sts) d1 = Inr d2" and d': "same_ledger d2 d'"
    by (auto simp: reserve_complete_route_txn_def exn_simps same_ledger_def append_transition_def)
  have "foldE (\<lambda>cv s. bindE (assert_capacity r b (fst cv) (snd cv) 0 s) (\<lambda>_. Inr s)) (by_chain sts) d = Inr w"
    using room by (simp add: check_chain_capacity_def [abs_def])
  note foldE_checks [OF this]
  then have "\<forall>(c, v)\<in>set (by_chain sts). fits d r b c v \<and> find_total r c d \<noteq> None \<and> find_limit r c d \<noteq> None"
    by (force dest: assert_capacity_fits)
  from reserve_chains_totals [OF d1 inv by_chain_props(1) this] have "totals_inv d1" .
  then have "totals_inv d2"
  proof (rule foldE_invariant [OF d2, where P = totals_inv])
    fix x t t' assume "reserve_stage i a x t = Inr t'" and t: "totals_inv t"
    then obtain s where "0 \<le> sb_reserved_wei s" "t' = t\<lparr>t_subs := t_subs t @ [s]\<rparr>"
      by (auto simp: reserve_stage_def Let_def exn_simps amount_ok_def)
    with totals_filed [OF t] show "totals_inv t'"
      by (intro totals_keep [OF t]) (auto simp: same_totals_def filed_among_def)
  qed
  with d' show ?thesis by (rule totals_same [rotated])
qed

lemma mark_source_totals:
  assumes "totals_inv d" and "mark_source_in_flight_txn clk i now d = Inr (u, d')"
  shows "totals_inv d'"
proof (cases "d' = d")
  case False
  let ?g = "\<lambda>b. b\<lparr>bg_source_in_flight := True, bg_state := B_in_flight\<rparr>"
  let ?d = "d\<lparr>t_budgets := update_where (\<lambda>b. bg_reservation_id b = i) ?g (t_budgets d)\<rparr>"
  from assms(2) False have d': "same_ledger ?d d'"
    by (auto simp: mark_source_in_flight_txn_def exn_simps same_ledger_def append_transition_def
        set_attempt_state_def split: list.splits if_splits)
  have "totals_inv ?d"
    using totals_filed [OF assms(1)]
    by (intro totals_keep [OF assms(1)]) (auto simp: same_totals_def filed_among_def set_update_where bkey_def)
  with d' show ?thesis by (rule totals_same [rotated])
qed (use assms(1) in simp)

lemma acquire_nonce_totals:
  assumes "totals_inv d" and "acquire_nonce_txn lease_id L i k signer holder nonce wei acquired expires d = Inr (u, d')"
  shows "totals_inv d'"
proof -
  from assms(2) have "\<exists>p f. same_ledger (d\<lparr>t_subs := update_where p f (t_subs d)\<rparr>) d' \<and> (\<forall>s. sb_reserved_wei (f s) = sb_reserved_wei s)"
    by (auto simp: acquire_nonce_txn_def bind_new_nonce_def update_sub_def same_ledger_def exn_simps split: option.splits)
      (fastforce intro: exI)+
  then obtain p f where d': "same_ledger (d\<lparr>t_subs := update_where p f (t_subs d)\<rparr>) d'"
    and f: "\<And>s. sb_reserved_wei (f s) = sb_reserved_wei s" by blast
  have "totals_inv (d\<lparr>t_subs := update_where p f (t_subs d)\<rparr>)"
    using totals_filed [OF assms(1)] f
    by (intro totals_keep [OF assms(1)]) (auto simp: same_totals_def filed_among_def set_update_where)
  with d' show ?thesis by (rule totals_same [rotated])
qed

lemma release_row_totals:
  assumes inv: "totals_inv d" and b: "b \<in> set (t_budgets d)" "bg_reservation_id b = i"
    and run: "release_row i at b d = Inr d'"
  shows "totals_inv d'" and "t_budgets d' = t_budgets d"
proof -
  from run obtain d2 where
    post: "change_totals (bg_run_id b) (bg_batch_id b) (bg_chain_id b) (- bg_reserved_wei b) 0 0 at d = Inr d2"
    and d': "d' = budget_event (bg_run_id b) (bg_batch_id b) (bg_chain_id b) i None ''unstarted_route_released''
              (- bg_reserved_wei b) 0 0 (JObj []) at d2"
    by (auto simp: release_row_def exn_simps)
  note tabs = change_totals_frame [OF post]
  show "t_budgets d' = t_budgets d" by (simp add: d' budget_event_def tabs)
  show "totals_inv d'"
    by (rule totals_post [OF inv _ post, where i = i and e = "last (t_budget_events d')"])
      (use totals_budget [OF inv b(1)] totals_budget_limit [OF inv b(1)] totals_filed [OF inv] b(2) in
        \<open>auto simp: d' budget_event_def tabs same_totals_def bkey_def ekey_def totals_fits [OF inv] filed_among_def\<close>)
qed

lemma release_unstarted_totals:
  assumes inv: "totals_inv d" and run: "release_unstarted_route_txn i at d = Inr (u, d')"
  shows "totals_inv d'"
proof -
  let ?p = "\<lambda>s. sb_reservation_id s = i" and ?f = "sb_state_update (\<lambda>_. S_released)"
  from run obtain d1 where d1: "foldE (release_row i at) (reservation_rows i d) d = Inr d1"
    and d': "d' = d1\<lparr>t_subs := update_where ?p ?f (t_subs d1),
        t_budgets := update_where (\<lambda>b. bg_reservation_id b = i) (bg_state_update (\<lambda>_. B_released)) (t_budgets d1)\<rparr>"
    by (auto simp: release_unstarted_route_txn_def Let_def exn_simps)
  have "totals_inv e" if "foldE (release_row i at) rows x = Inr e" "totals_inv x"
      "\<forall>b\<in>set rows. b \<in> set (t_budgets x) \<and> bg_reservation_id b = i" for rows x e
    using that
  proof (induction rows arbitrary: x)
    case (Cons b rows)
    from Cons.prems(1) obtain y where y: "release_row i at b x = Inr y"
      and rest: "foldE (release_row i at) rows y = Inr e" by (auto simp: exn_simps)
    from Cons.prems(3) have "b \<in> set (t_budgets x)" "bg_reservation_id b = i" by auto
    note one = release_row_totals [OF Cons.prems(2) this y]
    show ?case by (rule Cons.IH [OF rest one(1)]) (use Cons.prems(3) in \<open>simp add: one(2)\<close>)
  qed simp
  from this [OF d1 inv] have d1: "totals_inv d1" by (auto simp: reservation_rows_def)
  show ?thesis
    using totals_filed [OF d1]
    by (intro totals_keep [OF d1]) (auto simp: d' same_totals_def filed_among_def set_update_where bkey_def)
qed

end
