(* ===== verification/Xir_Ledger.thy ===== *)
theory Xir_Ledger
  imports Xir_Ledger_Totals
begin

text \<open>
  The lease and budget manager as a state machine: \<open>lease_step\<close> has one rule per public
  method of \<^verbatim>\<open>LeaseBudgetManager\<close> (whatever its arguments and whether it returns or raises) and one
  rule for everything the rest of the program may do to other tables. Its parameter says when a route may
  be started or cancelled: \<open>lease_call\<close> is every call there is, as the code has it;
  \<open>ledger_step\<close> is the discipline the code does not enforce (\<^verbatim>\<open>execute/leases.py:430\<close> and
  \<^verbatim>\<open>:952\<close> do not look at it), that no route with a released stage is started or released
  again. The interpretations \<open>calls\<close> and \<open>ledger\<close> of \<open>transition_system\<close> give what
  holds in every reachable state of the one and of the other.
\<close>

section \<open>Work and nonce leases\<close>

definition active_attempt :: "work_lease_row \<Rightarrow> string option" where
  "active_attempt w = (if wl_state w = W_active then Some (wl_attempt_id w) else None)"

definition nonce_slot :: "nonce_lease_row \<Rightarrow> int \<times> string \<times> int" where
  "nonce_slot n = (nl_chain_id n, nl_signer_id n, nl_nonce n)"

definition lease_tables_ok :: "db \<Rightarrow> bool" where
  "lease_tables_ok d \<longleftrightarrow>
     uniq_on (\<lambda>w. Some (wl_lease_id w)) (t_work_leases d)
   \<and> uniq_on active_attempt (t_work_leases d)
   \<and> uniq_on (\<lambda>n. Some (nl_lease_id n)) (t_nonce_leases d)
   \<and> uniq_on (\<lambda>n. Some (nl_lineage_id n)) (t_nonce_leases d)
   \<and> uniq_on (\<lambda>n. Some (nonce_slot n)) (t_nonce_leases d)"

text \<open>What a nonce lease is bound to, and keeps for ever.\<close>

definition nonce_binding :: "nonce_lease_row \<Rightarrow> string \<times> string \<times> (int \<times> string \<times> int) \<times> string \<times> string" where
  "nonce_binding n = (nl_lease_id n, nl_lineage_id n, nonce_slot n, nl_reservation_id n, nl_stage_key n)"

definition bindings :: "db \<Rightarrow> (string \<times> string \<times> (int \<times> string \<times> int) \<times> string \<times> string) list" where
  "bindings d = map nonce_binding (t_nonce_leases d)"

lemma nonce_uniq_bindings:
  "uniq_on (\<lambda>n. Some (nl_lease_id n)) (t_nonce_leases d) \<longleftrightarrow> uniq_on (\<lambda>b. Some (fst b)) (bindings d)"
  "uniq_on (\<lambda>n. Some (nl_lineage_id n)) (t_nonce_leases d) \<longleftrightarrow> uniq_on (\<lambda>b. Some (fst (snd b))) (bindings d)"
  "uniq_on (\<lambda>n. Some (nonce_slot n)) (t_nonce_leases d) \<longleftrightarrow> uniq_on (\<lambda>b. Some (fst (snd (snd b)))) (bindings d)"
  unfolding bindings_def by (simp_all add: nonce_binding_def flip: uniq_on_map)

lemma lease_tables_cong:
  assumes "t_work_leases d' = t_work_leases d" and "bindings d' = bindings d" and "lease_tables_ok d"
  shows "lease_tables_ok d'"
  using assms unfolding lease_tables_ok_def nonce_uniq_bindings by simp

lemma bindings_update_lineage:
  assumes "\<And>n. nonce_binding (f n) = nonce_binding n"
  shows "map nonce_binding (update_where p f rows) = map nonce_binding rows"
  by (induction rows) (auto simp: assms)

lemma active_leaseD:
  "find_active_lease a d = None \<longleftrightarrow> (\<forall>w\<in>set (t_work_leases d). active_attempt w \<noteq> Some a)"
  by (auto simp: find_active_lease_def find_None_iff active_attempt_def)

lemma acquire_work_tables:
  assumes ok: "lease_tables_ok d" and run: "acquire_work_txn clk l a h acquired expires d = Inr (u, d')"
  shows "lease_tables_ok d'" and "same_ledger d d'" and "bindings d' = bindings d"
proof -
  from run obtain d1 row where d1: "expire_active_lease a acquired d = Inr d1"
    and none: "find_lease l d1 = None" "find_active_lease a d1 = None"
    and d': "same_ledger d1 d'" "t_nonce_leases d' = t_nonce_leases d1"
      "t_work_leases d' = t_work_leases d1 @ [row]" "wl_lease_id row = l" "active_attempt row = Some a"
    by (auto simp: acquire_work_txn_def exn_simps append_transition_def same_ledger_def active_attempt_def)
  have e: "same_ledger d d1 \<and> t_nonce_leases d1 = t_nonce_leases d \<and> lease_tables_ok d1"
    using d1 ok
    by (auto simp: expire_active_lease_def exn_simps update_lease_def same_ledger_def lease_tables_ok_def
        uniq_on_update_where active_attempt_def intro!: uniq_on_update_dropped split: option.splits)
  show "same_ledger d d'" "bindings d' = bindings d" using e d'(1,2) by (simp_all add: same_ledger_def bindings_def)
  have "\<not> clashes (\<lambda>w. Some (wl_lease_id w)) row (t_work_leases d1)"
    "\<not> clashes active_attempt row (t_work_leases d1)"
    using none d'(4,5) by (auto simp: clashes_def list_ex_iff active_leaseD find_lease_def find_None_iff)
  with e d'(2,3) show "lease_tables_ok d'" by (auto simp: lease_tables_ok_def uniq_on_snoc)
qed

lemma heartbeat_release_tables:
  assumes ok: "lease_tables_ok d"
    and run: "heartbeat_work_txn l h beat expires d = Inr (x, d') \<or> release_work_txn clk l h d = Inr (u, d')"
  shows "lease_tables_ok d'" and "same_ledger d d'" and "bindings d' = bindings d"
proof -
  from run obtain f where d': "d' = update_lease l f d"
    and f: "\<And>w. wl_lease_id (f w) = wl_lease_id w"
      "\<And>w. active_attempt (f w) = active_attempt w \<or> active_attempt (f w) = None"
    by (auto simp: heartbeat_work_txn_def release_work_txn_def exn_simps active_attempt_def split: option.splits)
  show "same_ledger d d'" "bindings d' = bindings d" by (simp_all add: d' update_lease_def same_ledger_def bindings_def)
  have "uniq_on active_attempt (update_where (\<lambda>w. wl_lease_id w = l) f (t_work_leases d))"
    by (rule uniq_on_update_dropped) (use ok f(2) in \<open>simp_all add: lease_tables_ok_def\<close>)
  then show "lease_tables_ok d'"
    using ok f(1) by (simp add: d' update_lease_def lease_tables_ok_def uniq_on_update_where)
qed


text \<open>The other operations leave the work leases alone and only ever add a nonce binding.\<close>

definition leases_grow :: "db \<Rightarrow> db \<Rightarrow> bool" where
  "leases_grow d d' \<longleftrightarrow> t_work_leases d' = t_work_leases d
     \<and> (bindings d' = bindings d \<or> (\<exists>b. bindings d' = bindings d @ [b]
          \<and> (\<forall>x\<in>set (bindings d). fst x \<noteq> fst b \<and> fst (snd x) \<noteq> fst (snd b)
                              \<and> fst (snd (snd x)) \<noteq> fst (snd (snd b)))))"

lemma leases_grow_ok: "leases_grow d d' \<Longrightarrow> lease_tables_ok d \<Longrightarrow> lease_tables_ok d'"
  unfolding lease_tables_ok_def nonce_uniq_bindings leases_grow_def
  by (auto simp: uniq_on_snoc clashes_def list_ex_iff)

lemma leases_grow_same: "t_work_leases d' = t_work_leases d \<Longrightarrow> bindings d' = bindings d \<Longrightarrow> leases_grow d d'"
  by (simp add: leases_grow_def)

lemma bindings_lineage [simp]:
  "(\<And>n. nonce_binding (f n) = nonce_binding n) \<Longrightarrow> bindings (update_lineage_nonce L f d) = bindings d"
  by (simp add: bindings_def update_lineage_nonce_def bindings_update_lineage)

lemma nonce_binding_upd [simp]:
  "nonce_binding (nl_state_update f n) = nonce_binding n" "nonce_binding (nl_locked_update g n) = nonce_binding n"
  "nonce_binding (nl_released_at_update h n) = nonce_binding n" "nonce_binding (nl_intent_id_update k n) = nonce_binding n"
  by (simp_all add: nonce_binding_def nonce_slot_def)

lemma bindings_cong: "t_nonce_leases d' = t_nonce_leases d \<Longrightarrow> bindings d' = bindings d"
  by (simp add: bindings_def)

lemma change_totals_leases:
  assumes "change_totals r b c rd pd fd at d = Inr d'"
  shows "t_work_leases d' = t_work_leases d" "bindings d' = bindings d"
  using change_totals_frame [OF assms] by (simp_all add: bindings_def)

lemma update_budget_amounts_leases:
  assumes "update_budget_amounts s g d = Inr d'"
  shows "t_work_leases d' = t_work_leases d" "bindings d' = bindings d"
  using update_budget_amountsD [OF assms] by (simp_all add: bindings_def)

lemma leases_simps [simp]:
  "t_work_leases (lineage_event s b ty rd pd fd js at d) = t_work_leases d"
  "bindings (lineage_event s b ty rd pd fd js at d) = bindings d"
  "t_work_leases (settle_completed_budget_rows i d) = t_work_leases d"
  "bindings (settle_completed_budget_rows i d) = bindings d"
  "t_work_leases (update_lineage_sub L f d) = t_work_leases d"
  "bindings (update_lineage_sub L f d) = bindings d"
  "t_work_leases (update_lineage_nonce L g d) = t_work_leases d"
  "t_work_leases (append_transition clk k i from to js d) = t_work_leases d"
  "bindings (append_transition clk k i from to js d) = bindings d"
  "bindings (d\<lparr>t_runs := rs, t_violations := vs\<rparr>) = bindings d"
  "bindings (d\<lparr>t_subs := ss, t_budgets := bs\<rparr>) = bindings d"
  by (simp_all add: bindings_def lineage_event_def budget_event_def settle_completed_budget_rows_def
      update_lineage_sub_def update_lineage_nonce_def append_transition_def)

lemma lineage_ops_leases:
  "mark_lineage_pending_txn clk L st sst now d = Inr (u, d') \<Longrightarrow> leases_grow d d'"
  "record_included_txn L spent at d = Inr (u, d') \<Longrightarrow> leases_grow d d'"
  "finalize_lineage_txn L spent at d = Inr (u, d') \<Longrightarrow> leases_grow d d'"
  "release_dead_lineage_txn L pf destroyed manual pr at d = Inr (u, d') \<Longrightarrow> leases_grow d d'"
  "reopen_txn L v at d = Inr (w, d') \<Longrightarrow> leases_grow d d'"
  by (auto simp: mark_lineage_pending_txn_def record_included_txn_def finalize_lineage_txn_def
      release_dead_lineage_txn_def reopen_txn_def reopen_included_def reopen_finalized_def
      halt_after_reorg_def set_run_state_def Let_def exn_simps change_totals_leases
      update_budget_amounts_leases
      intro!: leases_grow_same split: if_splits sum.splits exn.splits)


definition same_leases :: "db \<Rightarrow> db \<Rightarrow> bool" where
  "same_leases d d' \<longleftrightarrow> t_work_leases d' = t_work_leases d \<and> t_nonce_leases d' = t_nonce_leases d"

lemma same_leases_refl [simp]: "same_leases d d"
  by (simp add: same_leases_def)

lemma same_leases_grow: "same_leases d d' \<Longrightarrow> leases_grow d d'"
  by (simp add: same_leases_def leases_grow_def bindings_def)

lemma foldE_leases:
  assumes "foldE f xs d = Inr d'" and "\<And>x t t'. f x t = Inr t' \<Longrightarrow> same_leases t t'"
  shows "same_leases d d'"
  by (rule foldE_invariant [where P = "same_leases d", OF assms(1)])
     (use assms(2) in \<open>auto simp: same_leases_def\<close>)

lemma loop_bodies_leases:
  "configure_limit r now l d = Inr d' \<Longrightarrow> same_leases d d'"
  "reserve_chain i a r b at cv d = Inr d' \<Longrightarrow> same_leases d d'"
  "reserve_stage i a ist d = Inr d' \<Longrightarrow> same_leases d d'"
  "release_row i at row d = Inr d' \<Longrightarrow> same_leases d d'"
  by (auto simp: configure_limit_def init_totals_def upsert_limit_def reserve_chain_def reserve_stage_def
      release_row_def budget_event_def Let_def exn_simps same_leases_def change_totals_frame split: option.splits)

lemma route_ops_leases:
  assumes "configure_limits_txn r rows now d = Inr (u, d')
    \<or> reserve_complete_route_txn clk i a b sts at d = Inr (u, d')
    \<or> mark_source_in_flight_txn clk i now' d = Inr (u, d')
    \<or> release_unstarted_route_txn i at d = Inr (u, d')"
  shows "same_leases d d'"
  using assms
proof (elim disjE)
  assume "reserve_complete_route_txn clk i a b sts at d = Inr (u, d')"
  then obtain r d1 d2 where d1: "foldE (reserve_chain i a r b at) (by_chain sts) d = Inr d1"
    and d2: "foldE (reserve_stage i a) (enumerate 0 sts) d1 = Inr d2" and d': "same_leases d2 d'"
    by (auto simp: reserve_complete_route_txn_def exn_simps append_transition_def same_leases_def)
  from foldE_leases [OF d1] foldE_leases [OF d2] d' loop_bodies_leases show ?thesis
    by (simp add: same_leases_def)
next
  assume "release_unstarted_route_txn i at d = Inr (u, d')"
  then obtain d1 where "foldE (release_row i at) (reservation_rows i d) d = Inr d1" "same_leases d1 d'"
    by (auto simp: release_unstarted_route_txn_def Let_def exn_simps same_leases_def)
  with foldE_leases [OF this(1)] loop_bodies_leases(4) show ?thesis by (simp add: same_leases_def)
qed (auto simp: configure_limits_txn_def mark_source_in_flight_txn_def exn_simps append_transition_def
       set_attempt_state_def same_leases_def [of d "_\<lparr>t_journal := _\<rparr>"]
       intro: foldE_leases loop_bodies_leases split: list.splits if_splits)

lemma acquire_nonce_leases:
  assumes "acquire_nonce_txn lease_id L i k signer holder nonce wei acquired expires d = Inr (u, d')"
  shows "leases_grow d d'"
proof -
  from assms obtain s where
    "(case find (\<lambda>n. nl_chain_id n = sb_chain_id s \<and> nl_signer_id n = signer \<and> nl_nonce n = nonce) (t_nonce_leases d) of
       Some existing \<Rightarrow>
         bindE (ensure ((nl_lineage_id existing, nl_reservation_id existing, nl_stage_key existing) = (L, i, k))
                  (LeaseError LE_nonce_bound_elsewhere)) (\<lambda>_.
         Inr ((), update_sub (sb_subreservation_id s)
                    (\<lambda>s. s\<lparr>sb_allocated_wei := max (sb_allocated_wei s) wei\<rparr>) d))
     | None \<Rightarrow> bindE (bind_new_nonce lease_id L signer holder nonce wei acquired expires s d) (\<lambda>d'. Inr ((), d')))
      = Inr (u, d')" (is "case_option _ _ ?slot = _")
    unfolding acquire_nonce_txn_def exn_simps by blast
  then show ?thesis
  proof (cases ?slot)
    case None
    with \<open>case_option _ _ ?slot = _\<close> have "bind_new_nonce lease_id L signer holder nonce wei acquired expires s d = Inr d'"
      by (simp add: exn_simps)
    then have "t_work_leases d' = t_work_leases d"
      "\<not> list_ex (\<lambda>n. nl_lease_id n = lease_id \<or> nl_lineage_id n = L) (t_nonce_leases d)"
      "t_nonce_leases d' = t_nonce_leases d @ [new_nonce_lease lease_id L signer holder nonce acquired expires s]"
      by (auto simp: bind_new_nonce_def exn_simps update_sub_def)
    with None show ?thesis
      by (auto simp: leases_grow_def bindings_def nonce_binding_def nonce_slot_def new_nonce_lease_def
          list_ex_iff find_None_iff)
  qed (auto simp: exn_simps update_sub_def same_leases_def intro!: same_leases_grow)
qed

section \<open>The state machine\<close>

definition ledger_empty :: "db \<Rightarrow> bool" where
  "ledger_empty d \<longleftrightarrow> t_budgets d = [] \<and> t_subs d = [] \<and> t_totals d = [] \<and> t_batch_totals d = []
     \<and> t_limits d = [] \<and> t_budget_events d = [] \<and> t_work_leases d = [] \<and> t_nonce_leases d = []"

inductive lease_step :: "(string \<Rightarrow> db \<Rightarrow> bool) \<Rightarrow> db \<Rightarrow> db \<Rightarrow> bool" for allowed where
  limits: "lease_step allowed d (snd (configure_limits clk r rows now d))"
| work: "lease_step allowed d (snd (acquire_work clk l a h ttl now d))"
| heartbeat: "lease_step allowed d (snd (heartbeat_work clk l h ttl now d))"
| release: "lease_step allowed d (snd (release_work clk l h d))"
| reserve: "lease_step allowed d (snd (reserve_complete_route clk i a b stages now d))"
| start: "allowed i d \<Longrightarrow> lease_step allowed d (snd (mark_source_in_flight clk i now d))"
| nonce: "lease_step allowed d (snd (acquire_nonce_subreservation clk l L i k signer h nc wei ttl now d))"
| pending: "lease_step allowed d (snd (mark_lineage_pending clk L st now d))"
| included: "lease_step allowed d (snd (record_included clk L wei now d))"
| finalized: "lease_step allowed d (snd (finalize_lineage clk L wei now d))"
| dead: "lease_step allowed d (snd (release_dead_lineage clk L pf destroyed manual now d))"
| reorganized: "lease_step allowed d (snd (reopen_after_reorganization clk L v now d))"
| cancel: "allowed i d \<Longrightarrow> lease_step allowed d (snd (release_unstarted_route clk i now d))"
| elsewhere: "same_ledger d d' \<Longrightarrow> t_work_leases d' = t_work_leases d \<Longrightarrow> bindings d' = bindings d \<Longrightarrow> lease_step allowed d d'"

abbreviation lease_call :: "db \<Rightarrow> db \<Rightarrow> bool" where
  "lease_call \<equiv> lease_step (\<lambda>_ _. True)"

abbreviation ledger_step :: "db \<Rightarrow> db \<Rightarrow> bool" where
  "ledger_step \<equiv> lease_step (\<lambda>i d. \<not> has_released_stage i d)"

lemma lease_step_call: "lease_step allowed d d' \<Longrightarrow> lease_call d d'"
  by (induction rule: lease_step.induct) (rule lease_step.intros; assumption | simp add: lease_step.intros)+

lemma ledger_steps_calls: "ledger_step\<^sup>*\<^sup>* d d' \<Longrightarrow> lease_call\<^sup>*\<^sup>* d d'"
  by (rule rtranclp_mono [THEN predicate2D]) (auto intro: lease_step_call)

definition machine_inv :: "db \<Rightarrow> bool" where
  "machine_inv d \<longleftrightarrow> ledger_inv d \<and> lease_tables_ok d"

lemma machine_inv_empty: "ledger_empty d \<Longrightarrow> machine_inv d"
  by (simp add: ledger_empty_def machine_inv_def ledger_defs lease_tables_ok_def rows_agree_def
      budget_sum_def sub_sum_def)

lemma machine_inv_grow: "machine_inv d \<Longrightarrow> ledger_inv d' \<Longrightarrow> leases_grow d d' \<Longrightarrow> machine_inv d'"
  by (auto simp: machine_inv_def intro: leases_grow_ok)

lemma machine_inv_leases: "machine_inv d \<Longrightarrow> same_ledger d d' \<Longrightarrow> lease_tables_ok d' \<Longrightarrow> machine_inv d'"
  using ledger_inv_cong by (auto simp: machine_inv_def)


text \<open>
  A public method is a guard on its arguments followed by a transaction; each keeps the invariant
  because its transaction body does.
\<close>

lemma txn_keeps:
  assumes "machine_inv d" and "\<And>u d'. body d = Inr (u, d') \<Longrightarrow> machine_inv d'"
  shows "machine_inv (snd (store_write body d))"
  using assms by (rule store_write_keeps)

lemmas public_ops = configure_limits_def acquire_work_def heartbeat_work_def release_work_def
  reserve_complete_route_def mark_source_in_flight_def acquire_nonce_subreservation_def
  mark_lineage_pending_def record_included_def finalize_lineage_def release_dead_lineage_def
  reopen_after_reorganization_def release_unstarted_route_def

lemma work_ops_machine:
  assumes "machine_inv d"
  shows "acquire_work_txn clk l a h acquired expires d = Inr (u, d') \<Longrightarrow> machine_inv d'"
    and "heartbeat_work_txn l h beat expires d = Inr (x, d') \<Longrightarrow> machine_inv d'"
    and "release_work_txn clk l h d = Inr (v, d') \<Longrightarrow> machine_inv d'"
proof -
  have ok: "lease_tables_ok d" using assms by (simp add: machine_inv_def)
  note keep = machine_inv_leases [OF assms]
  show "acquire_work_txn clk l a h acquired expires d = Inr (u, d') \<Longrightarrow> machine_inv d'"
    by (rule keep) (auto intro: acquire_work_tables [OF ok])
  show "heartbeat_work_txn l h beat expires d = Inr (x, d') \<Longrightarrow> machine_inv d'"
    by (rule keep) (auto intro: heartbeat_release_tables [OF ok])
  show "release_work_txn clk l h d = Inr (v, d') \<Longrightarrow> machine_inv d'"
    by (rule keep) (auto intro: heartbeat_release_tables [OF ok])
qed

lemma ledger_ops_machine:
  assumes "machine_inv d"
  shows "configure_limits_txn r rows at d = Inr (u, d') \<Longrightarrow> machine_inv d'"
    and "reserve_complete_route_txn clk i a b sts at d = Inr (u, d') \<Longrightarrow> machine_inv d'"
    and "\<not> has_released_stage i d \<Longrightarrow> mark_source_in_flight_txn clk i now d = Inr (u, d') \<Longrightarrow> machine_inv d'"
    and "\<not> has_released_stage i d \<Longrightarrow> release_unstarted_route_txn i at d = Inr (u, d') \<Longrightarrow> machine_inv d'"
    and "acquire_nonce_txn l L i k signer h nc wei acquired expires d = Inr (u, d') \<Longrightarrow> machine_inv d'"
    and "pending_sub_state st = Some sst \<Longrightarrow> mark_lineage_pending_txn clk L st sst now d = Inr (u, d') \<Longrightarrow> machine_inv d'"
    and "\<not> wei < 0 \<Longrightarrow> record_included_txn L wei at d = Inr (u, d') \<Longrightarrow> machine_inv d'"
    and "\<not> wei < 0 \<Longrightarrow> finalize_lineage_txn L wei at d = Inr (u, d') \<Longrightarrow> machine_inv d'"
    and "release_dead_lineage_txn L pf destroyed manual pr at d = Inr (u, d') \<Longrightarrow> machine_inv d'"
    and "reopen_txn L v at d = Inr (ok, d') \<Longrightarrow> machine_inv d'"
proof -
  have inv: "ledger_inv d" using assms by (simp add: machine_inv_def)
  note keep = machine_inv_grow [OF assms] and route = machine_inv_grow [OF assms _ same_leases_grow]
  show "configure_limits_txn r rows at d = Inr (u, d') \<Longrightarrow> machine_inv d'"
    by (rule route) (auto intro: configure_limits_keeps [OF inv] route_ops_leases)
  show "reserve_complete_route_txn clk i a b sts at d = Inr (u, d') \<Longrightarrow> machine_inv d'"
    by (rule route) (auto intro: reserve_keeps [OF inv] route_ops_leases)
  show "\<not> has_released_stage i d \<Longrightarrow> mark_source_in_flight_txn clk i now d = Inr (u, d') \<Longrightarrow> machine_inv d'"
    by (rule route) (auto intro: mark_source_in_flight_keeps [OF inv] route_ops_leases)
  show "\<not> has_released_stage i d \<Longrightarrow> release_unstarted_route_txn i at d = Inr (u, d') \<Longrightarrow> machine_inv d'"
    by (rule route) (auto intro: release_unstarted_keeps [OF inv] route_ops_leases)
  show "acquire_nonce_txn l L i k signer h nc wei acquired expires d = Inr (u, d') \<Longrightarrow> machine_inv d'"
    by (rule keep) (auto intro: acquire_nonce_keeps [OF inv] acquire_nonce_leases)
  show "pending_sub_state st = Some sst \<Longrightarrow> mark_lineage_pending_txn clk L st sst now d = Inr (u, d') \<Longrightarrow> machine_inv d'"
    by (rule keep) (auto intro: mark_lineage_pending_keeps [OF inv] lineage_ops_leases)
  show "\<not> wei < 0 \<Longrightarrow> record_included_txn L wei at d = Inr (u, d') \<Longrightarrow> machine_inv d'"
    by (rule keep) (auto simp: not_less intro: record_included_keeps [OF inv] lineage_ops_leases)
  show "\<not> wei < 0 \<Longrightarrow> finalize_lineage_txn L wei at d = Inr (u, d') \<Longrightarrow> machine_inv d'"
    by (rule keep) (auto simp: not_less intro: finalize_lineage_keeps [OF inv] lineage_ops_leases)
  show "release_dead_lineage_txn L pf destroyed manual pr at d = Inr (u, d') \<Longrightarrow> machine_inv d'"
    by (rule keep) (auto intro: release_dead_lineage_keeps [OF inv] lineage_ops_leases)
  show "reopen_txn L v at d = Inr (ok, d') \<Longrightarrow> machine_inv d'"
    by (rule keep) (auto intro: reopen_keeps [OF inv] lineage_ops_leases)
qed

lemma reopen_snd:
  "snd (case store_write (reopen_txn L v at) d of (Inl e, d') \<Rightarrow> (Inl e, d')
        | (Inr True, d') \<Rightarrow> (Inr (), d') | (Inr False, d') \<Rightarrow> (Inl err, d'))
   = snd (store_write (reopen_txn L v at) d)"
  by (auto split: prod.splits sum.splits bool.splits)

lemma lease_step_inv:
  assumes "machine_inv d" and "ledger_step d d'"
  shows "machine_inv d'"
  using assms(2,1)
proof cases
  case elsewhere
  with assms(1) lease_tables_cong machine_inv_leases show ?thesis by (auto simp: machine_inv_def)
qed (auto simp: public_ops Let_def reopen_snd intro!: txn_keeps split: sum.splits option.splits
       dest: work_ops_machine ledger_ops_machine)

text \<open>What every call keeps, whatever was released before.\<close>

definition calls_inv :: "db \<Rightarrow> bool" where
  "calls_inv d \<longleftrightarrow> totals_inv d \<and> lease_tables_ok d"

lemma calls_inv_empty: "ledger_empty d \<Longrightarrow> calls_inv d"
  by (simp add: ledger_empty_def calls_inv_def totals_inv_def lease_tables_ok_def rows_agree_def within_limits_def)

lemma calls_grow: "calls_inv d \<Longrightarrow> totals_inv d' \<Longrightarrow> leases_grow d d' \<Longrightarrow> calls_inv d'"
  by (auto simp: calls_inv_def intro: leases_grow_ok)

lemma calls_leases: "calls_inv d \<Longrightarrow> same_ledger d d' \<Longrightarrow> lease_tables_ok d' \<Longrightarrow> calls_inv d'"
  using totals_same by (auto simp: calls_inv_def)

lemma calls_txn:
  assumes "calls_inv d" and "\<And>u d'. body d = Inr (u, d') \<Longrightarrow> calls_inv d'"
  shows "calls_inv (snd (store_write body d))"
  using assms by (rule store_write_keeps)

lemma work_ops_calls:
  assumes "calls_inv d"
  shows "acquire_work_txn clk l a h acquired expires d = Inr (u, d') \<Longrightarrow> calls_inv d'"
    and "heartbeat_work_txn l h beat expires d = Inr (x, d') \<Longrightarrow> calls_inv d'"
    and "release_work_txn clk l h d = Inr (v, d') \<Longrightarrow> calls_inv d'"
proof -
  have ok: "lease_tables_ok d" using assms by (simp add: calls_inv_def)
  note keep = calls_leases [OF assms]
  show "acquire_work_txn clk l a h acquired expires d = Inr (u, d') \<Longrightarrow> calls_inv d'"
    by (rule keep) (auto intro: acquire_work_tables [OF ok])
  show "heartbeat_work_txn l h beat expires d = Inr (x, d') \<Longrightarrow> calls_inv d'"
    by (rule keep) (auto intro: heartbeat_release_tables [OF ok])
  show "release_work_txn clk l h d = Inr (v, d') \<Longrightarrow> calls_inv d'"
    by (rule keep) (auto intro: heartbeat_release_tables [OF ok])
qed

lemma ledger_ops_calls:
  assumes "calls_inv d"
  shows "configure_limits_txn r rows at d = Inr (u, d') \<Longrightarrow> calls_inv d'"
    and "reserve_complete_route_txn clk i a b sts at d = Inr (u, d') \<Longrightarrow> calls_inv d'"
    and "mark_source_in_flight_txn clk i now d = Inr (u, d') \<Longrightarrow> calls_inv d'"
    and "release_unstarted_route_txn i at d = Inr (u, d') \<Longrightarrow> calls_inv d'"
    and "acquire_nonce_txn l L i k signer h nc wei acquired expires d = Inr (u, d') \<Longrightarrow> calls_inv d'"
    and "mark_lineage_pending_txn clk L st sst now d = Inr (u, d') \<Longrightarrow> calls_inv d'"
    and "record_included_txn L wei at d = Inr (u, d') \<Longrightarrow> calls_inv d'"
    and "finalize_lineage_txn L wei at d = Inr (u, d') \<Longrightarrow> calls_inv d'"
    and "release_dead_lineage_txn L pf destroyed manual pr at d = Inr (u, d') \<Longrightarrow> calls_inv d'"
    and "reopen_txn L v at d = Inr (ok, d') \<Longrightarrow> calls_inv d'"
proof -
  have inv: "totals_inv d" using assms by (simp add: calls_inv_def)
  note keep = calls_grow [OF assms] and route = calls_grow [OF assms _ same_leases_grow]
  show "configure_limits_txn r rows at d = Inr (u, d') \<Longrightarrow> calls_inv d'"
    by (rule route) (auto intro: configure_limits_totals [OF inv] route_ops_leases)
  show "reserve_complete_route_txn clk i a b sts at d = Inr (u, d') \<Longrightarrow> calls_inv d'"
    by (rule route) (auto intro: reserve_totals [OF inv] route_ops_leases)
  show "mark_source_in_flight_txn clk i now d = Inr (u, d') \<Longrightarrow> calls_inv d'"
    by (rule route) (auto intro: mark_source_totals [OF inv] route_ops_leases)
  show "release_unstarted_route_txn i at d = Inr (u, d') \<Longrightarrow> calls_inv d'"
    by (rule route) (auto intro: release_unstarted_totals [OF inv] route_ops_leases)
  show "acquire_nonce_txn l L i k signer h nc wei acquired expires d = Inr (u, d') \<Longrightarrow> calls_inv d'"
    by (rule keep) (auto intro: acquire_nonce_totals [OF inv] acquire_nonce_leases)
  show "mark_lineage_pending_txn clk L st sst now d = Inr (u, d') \<Longrightarrow> calls_inv d'"
    by (rule keep) (auto intro: pending_totals [OF inv] lineage_ops_leases)
  show "record_included_txn L wei at d = Inr (u, d') \<Longrightarrow> calls_inv d'"
    by (rule keep) (auto intro: record_included_totals [OF inv] lineage_ops_leases)
  show "finalize_lineage_txn L wei at d = Inr (u, d') \<Longrightarrow> calls_inv d'"
    by (rule keep) (auto intro: finalize_lineage_totals [OF inv] lineage_ops_leases)
  show "release_dead_lineage_txn L pf destroyed manual pr at d = Inr (u, d') \<Longrightarrow> calls_inv d'"
    by (rule keep) (auto intro: release_dead_totals [OF inv] lineage_ops_leases)
  show "reopen_txn L v at d = Inr (ok, d') \<Longrightarrow> calls_inv d'"
    by (rule keep) (auto intro: reopen_totals [OF inv] lineage_ops_leases)
qed

lemma lease_call_inv:
  assumes "calls_inv d" and "lease_call d d'"
  shows "calls_inv d'"
  using assms(2,1)
proof cases
  case elsewhere
  with assms(1) show ?thesis
    using lease_tables_cong [of d' d] totals_same [of d d'] by (simp add: calls_inv_def)
qed (auto simp: public_ops Let_def reopen_snd intro!: calls_txn split: sum.splits option.splits
       dest: work_ops_calls ledger_ops_calls)

interpretation calls: transition_system ledger_empty lease_call calls_inv
  by unfold_locales (auto intro: calls_inv_empty lease_call_inv)

interpretation ledger: transition_system ledger_empty ledger_step machine_inv
  by unfold_locales (auto intro: machine_inv_empty lease_step_inv)

end
