(* ===== verification/Xir_Ledger_Properties.thy ===== *)
theory Xir_Ledger_Properties
  imports Xir_Ledger
begin

text \<open>
  What the lease and budget manager guarantees: over every state its calls reach (\<open>lease_call\<close>), and,
  where the stages themselves are counted, over every state they reach without starting or releasing again a
  route that has a released stage (\<open>ledger_step\<close>; the last section shows what such a call does). The
  witnesses follow one route of two stages on one chain: limits configured, the route reserved and
  started, a nonce bound to the first stage and its transaction finalized at 5 of 7 reserved wei.
\<close>

section \<open>A concrete run\<close>

definition demo_start :: db where
  "demo_start = empty_db\<lparr>
     t_runs := [\<lparr>rn_run_id = ''r'', rn_profile_id = ''p'', rn_plan_sha256 = [], rn_state = Run_mode Running,
                 rn_created_at = 0\<rparr>],
     t_conditions := [\<lparr>cd_condition_id = ''c'', cd_run_id = ''r'', cd_carrier_sequence = [], cd_state = []\<rparr>],
     t_attempts := [\<lparr>at_attempt_id = ''a'', at_condition_id = ''c'', at_pair_id = None, at_arm = Xir,
        at_attempt_kind = Primary, at_original_attempt_kind = None, at_retry_of = None,
        at_schedule_index = None, at_batch_index = None, at_state = A_planned, at_created_at = 0\<rparr>]\<rparr>"

definition demo_limits :: "budget_limit list" where
  "demo_limits = [\<lparr>lim_chain_id = 1, lim_max_transaction_wei = 10, lim_max_batch_wei = 50, lim_max_run_wei = 100,
     lim_minimum_runner_balance_wei = 5, lim_observed_runner_balance_wei = 1000\<rparr>]"

definition demo_stages :: "planned_stage list" where
  "demo_stages = [\<lparr>ps_stage_key = ''s0'', ps_chain_id = 1, ps_gas_wei = 4, ps_carrier_payment_wei = 1,
      ps_transaction_value_wei = 2, ps_other_runner_funded_wei = 0, ps_replacement_allowance_wei = 0\<rparr>,
    \<lparr>ps_stage_key = ''s1'', ps_chain_id = 1, ps_gas_wei = 3, ps_carrier_payment_wei = 0,
      ps_transaction_value_wei = 0, ps_other_runner_funded_wei = 0, ps_replacement_allowance_wei = 0\<rparr>]"

definition demo_configured :: db where
  "demo_configured = snd (configure_limits 0 ''r'' demo_limits None demo_start)"
definition demo_reserved :: db where
  "demo_reserved = snd (reserve_complete_route 0 ''R'' ''a'' ''b'' demo_stages None demo_configured)"
definition demo_started :: db where
  "demo_started = snd (mark_source_in_flight 0 ''R'' None demo_reserved)"
definition demo_nonced :: db where
  "demo_nonced = snd (acquire_nonce_subreservation 0 ''nl'' ''L'' ''R'' ''s0'' ''sig'' ''h'' 7 6 10 None demo_started)"
definition demo_finalized :: db where
  "demo_finalized = snd (finalize_lineage 0 ''L'' 5 None demo_nonced)"


lemma demo_reachable:
  "ledger_empty demo_start"
  "ledger_step\<^sup>*\<^sup>* demo_start demo_reserved"
  "ledger_step\<^sup>*\<^sup>* demo_start demo_nonced"
  "ledger_step\<^sup>*\<^sup>* demo_start demo_finalized"
proof -
  show "ledger_empty demo_start" by (simp add: ledger_empty_def demo_start_def empty_db_def)
  have 1: "ledger_step demo_start demo_configured" unfolding demo_configured_def by (rule lease_step.limits)
  have 2: "ledger_step demo_configured demo_reserved" unfolding demo_reserved_def by (rule lease_step.reserve)
  have "\<not> has_released_stage ''R'' demo_reserved" by code_simp
  then have 3: "ledger_step demo_reserved demo_started" unfolding demo_started_def by (rule lease_step.start)
  have 4: "ledger_step demo_started demo_nonced" unfolding demo_nonced_def by (rule lease_step.nonce)
  have 5: "ledger_step demo_nonced demo_finalized" unfolding demo_finalized_def by (rule lease_step.finalized)
  show r: "ledger_step\<^sup>*\<^sup>* demo_start demo_reserved" using 1 2 by (meson converse_rtranclp_into_rtranclp rtranclp.rtrancl_refl)
  then show n: "ledger_step\<^sup>*\<^sup>* demo_start demo_nonced" using 3 4 by (meson rtranclp.rtrancl_into_rtrancl)
  then show "ledger_step\<^sup>*\<^sup>* demo_start demo_finalized" using 5 by (meson rtranclp.rtrancl_into_rtrancl)
qed

section \<open>Accounting\<close>

lemma reachable_ledger:
  assumes "ledger_empty d0" and "ledger_step\<^sup>*\<^sup>* d0 d"
  shows "ledger_inv d" and "lease_tables_ok d"
  using ledger.reachable_inv [OF assms] by (simp_all add: machine_inv_def)

lemma reachable_calls:
  assumes "ledger_empty d0" and "lease_call\<^sup>*\<^sup>* d0 d"
  shows "totals_inv d" and "lease_tables_ok d"
  using calls.reachable_inv [OF assms] by (simp_all add: calls_inv_def)

text \<open>The three amounts the stages of a scope say: reserved and not yet settled, provisional, finalized.\<close>

definition live_in :: "db \<Rightarrow> scope \<Rightarrow> int" where
  "live_in d Q = sub_sum Q live_wei (t_budgets d) (t_subs d)"



text \<open>
  C2: the budget is respected. After any calls at all, the totals the ledger keeps stay within the limits:
  reserved plus finalized wei of a run and chain never exceeds the run limit, of a batch and chain never the
  batch limit, and both amounts are non-negative SQLite integers. As long as no route with a released stage is
  started or released again, which the code does not refuse, the same bounds hold of the reservations
  themselves: what the stages of the run (and of every batch) still reserve plus what they have spent.
\<close>

theorem budget_limits_respected:
  assumes "ledger_empty d0" and "lease_call\<^sup>*\<^sup>* d0 d" and "l \<in> set (t_limits d)"
  shows "(\<forall>t\<in>set (t_totals d). bt_run_id t = bl_run_id l \<and> bt_chain_id t = bl_chain_id l \<longrightarrow>
            bt_active_reserved_wei t + bt_finalized_wei t \<le> bl_max_run_wei l
          \<and> amount_ok (bt_active_reserved_wei t) \<and> amount_ok (bt_finalized_wei t))
       \<and> (\<forall>t\<in>set (t_batch_totals d). bb_run_id t = bl_run_id l \<and> bb_chain_id t = bl_chain_id l \<longrightarrow>
            bb_active_reserved_wei t + bb_finalized_wei t \<le> bl_max_batch_wei l
          \<and> amount_ok (bb_active_reserved_wei t) \<and> amount_ok (bb_finalized_wei t))
       \<and> (ledger_step\<^sup>*\<^sup>* d0 d \<longrightarrow>
            (let Q = run_scope (bl_run_id l) (bl_chain_id l) in live_in d Q + finalized_in d Q \<le> bl_max_run_wei l)
          \<and> (\<forall>b. let Q = batch_scope (bl_run_id l) b (bl_chain_id l) in
               live_in d Q + finalized_in d Q \<le> bl_max_batch_wei l))"
proof -
  have inv: "totals_inv d" using assms(1,2) by (rule reachable_calls)
  have "live_in d Q + finalized_in d Q \<le> bl_max_run_wei l"
    if led: "ledger_inv d" and Q: "Q = run_scope (bl_run_id l) (bl_chain_id l)" for Q
  proof (cases "find_total (bl_run_id l) (bl_chain_id l) d")
    case None
    have "active_in d Q = 0" "finalized_in d Q = 0"
      using None led unfolding ledger_inv_def ledger_core_def
      by (auto intro!: untotalled_zero simp: Q has_total_def)
    with led inv assms(3) show ?thesis
      by (auto simp: live_in_def ledger_inv_def totals_inv_def limit_ok_def simp flip: active_in_live)
  next
    case (Some t)
    from find_totalD [OF this] led have "active_in d Q = bt_active_reserved_wei t" "finalized_in d Q = bt_finalized_wei t"
      by (auto simp: ledger_inv_def ledger_core_def rows_agree_def Q)
    with find_totalD [OF Some] led inv assms(3) show ?thesis
      by (auto simp: live_in_def ledger_inv_def totals_inv_def within_limits_def simp flip: active_in_live)
  qed
  moreover have "live_in d Q + finalized_in d Q \<le> bl_max_batch_wei l"
    if led: "ledger_inv d" and Q: "Q = batch_scope (bl_run_id l) b (bl_chain_id l)" for Q b
  proof (cases "find_batch_total (bl_run_id l) b (bl_chain_id l) d")
    case None
    have "active_in d Q = 0" "finalized_in d Q = 0"
      using None led unfolding ledger_inv_def ledger_core_def
      by (auto intro!: untotalled_zero simp: Q has_batch_total_def)
    with led inv assms(3) show ?thesis
      by (auto simp: live_in_def ledger_inv_def totals_inv_def limit_ok_def simp flip: active_in_live)
  next
    case (Some t)
    from find_batch_totalD [OF this] led
    have "active_in d Q = bb_active_reserved_wei t" "finalized_in d Q = bb_finalized_wei t"
      by (auto simp: ledger_inv_def ledger_core_def rows_agree_def Q)
    with find_batch_totalD [OF Some] led inv assms(3) show ?thesis
      by (auto simp: live_in_def ledger_inv_def totals_inv_def within_limits_def simp flip: active_in_live)
  qed
  moreover have "within_limits d" "\<forall>t\<in>set (t_totals d). total_ok t" "\<forall>t\<in>set (t_batch_totals d). batch_total_ok t"
    using inv unfolding totals_inv_def by blast+
  ultimately show ?thesis
    using assms(3) reachable_ledger(1) [OF assms(1)]
    by (simp add: within_limits_def total_ok_def batch_total_ok_def Let_def)
qed

theorem budget_limits_respected_witness:
  "bl_max_run_wei (hd (t_limits demo_reserved)) = 100 \<and>
   bt_active_reserved_wei (hd (t_totals demo_reserved)) + bt_finalized_wei (hd (t_totals demo_reserved)) \<le> 100
   \<and> live_in demo_reserved (run_scope ''r'' 1) + finalized_in demo_reserved (run_scope ''r'' 1) \<le> 100
   \<and> live_in demo_reserved (batch_scope ''r'' ''b'' 1) + finalized_in demo_reserved (batch_scope ''r'' ''b'' 1) \<le> 50"
proof -
  have "t_limits demo_reserved = [\<lparr>bl_run_id = ''r'', bl_chain_id = 1, bl_max_transaction_wei = 10,
      bl_max_batch_wei = 50, bl_max_run_wei = 100, bl_minimum_runner_balance_wei = 5,
      bl_observed_runner_balance_wei = 1000, bl_updated_at = 0\<rparr>]" by code_simp
  moreover have "t_totals demo_reserved = [\<lparr>bt_run_id = ''r'', bt_chain_id = 1, bt_active_reserved_wei = 10,
      bt_provisional_wei = 0, bt_finalized_wei = 0, bt_updated_at = 0\<rparr>]" by code_simp
  ultimately show ?thesis
    using budget_limits_respected [OF demo_reachable(1) ledger_steps_calls [OF demo_reachable(2)], of "hd (t_limits demo_reserved)"]
      demo_reachable(2)
    by (simp add: Let_def)
qed


text \<open>
  C3: no transaction lineage can settle for more than was reserved for its stage: in every
  state reached without starting or releasing again a route that has a released stage, the provisional and the finalized amount of a sub-reservation lie between zero and
  its reservation, wei is finalized only in state \<open>finalized\<close>, and what is finalized is no longer
  provisional.
\<close>

theorem settlement_within_reservation:
  assumes "ledger_empty d0" and "ledger_step\<^sup>*\<^sup>* d0 d" and "s \<in> set (t_subs d)"
  shows "0 \<le> sb_provisional_wei s \<and> sb_provisional_wei s \<le> sb_reserved_wei s
       \<and> 0 \<le> sb_finalized_wei s \<and> sb_finalized_wei s \<le> sb_reserved_wei s
       \<and> (sb_state s \<noteq> S_finalized \<longrightarrow> sb_finalized_wei s = 0)
       \<and> (sb_state s = S_finalized \<longrightarrow> sb_provisional_wei s = 0)"
  using reachable_ledger(1) [OF assms(1,2)] assms(3)
  by (simp add: ledger_inv_def ledger_core_def sub_amounts_ok_def)

theorem settlement_within_reservation_witness:
  "sb_finalized_wei (hd (t_subs demo_finalized)) = 5
   \<and> sb_finalized_wei (hd (t_subs demo_finalized)) \<le> sb_reserved_wei (hd (t_subs demo_finalized))"
proof -
  have "length (t_subs demo_finalized) = 2" by code_simp
  then have "hd (t_subs demo_finalized) \<in> set (t_subs demo_finalized)" by (cases "t_subs demo_finalized") auto
  moreover have "sb_finalized_wei (hd (t_subs demo_finalized)) = 5" by code_simp
  ultimately show ?thesis
    using settlement_within_reservation [OF demo_reachable(1) demo_reachable(4), of "hd (t_subs demo_finalized)"]
    by simp
qed

section \<open>Exclusive leases\<close>

lemma uniq_on_eq:
  assumes "uniq_on k rows" and "x \<in> set rows" "y \<in> set rows" "k x = Some v" "k y = Some v"
  shows "x = y"
  using uniq_on_find [OF assms(1,2,4)] uniq_on_find [OF assms(1,3,5)] by simp

text \<open>C4: at most one work lease of an attempt is active, after any calls of the manager.\<close>

theorem work_lease_exclusive:
  assumes "ledger_empty d0" and "lease_call\<^sup>*\<^sup>* d0 d"
    and "w \<in> set (t_work_leases d)" and "w' \<in> set (t_work_leases d)"
    and "wl_state w = W_active" and "wl_state w' = W_active" and "wl_attempt_id w = wl_attempt_id w'"
  shows "w = w'"
proof (rule uniq_on_eq)
  show "uniq_on active_attempt (t_work_leases d)"
    using reachable_calls(2) [OF assms(1,2)] by (simp add: lease_tables_ok_def)
qed (use assms in \<open>auto simp: active_attempt_def\<close>)

definition demo_leased :: db where
  "demo_leased = snd (acquire_work 20 ''w2'' ''a'' ''h2'' 10 None
                   (snd (acquire_work 0 ''w1'' ''a'' ''h1'' 10 None demo_start)))"

theorem work_lease_exclusive_witness:
  "map wl_state (t_work_leases demo_leased) = [W_expired, W_active] \<and>
   {w \<in> set (t_work_leases demo_leased). wl_state w = W_active} = {t_work_leases demo_leased ! 1}"
proof -
  have "lease_call\<^sup>*\<^sup>* demo_start demo_leased"
    unfolding demo_leased_def by (meson converse_rtranclp_into_rtranclp rtranclp.rtrancl_refl lease_step.work)
  note excl = work_lease_exclusive [OF demo_reachable(1) this]
  have st: "map wl_state (t_work_leases demo_leased) = [W_expired, W_active]" by code_simp
  have "list_all (\<lambda>w. wl_attempt_id w = ''a'') (t_work_leases demo_leased)" by code_simp
  then have a: "wl_attempt_id w = ''a''" if "w \<in> set (t_work_leases demo_leased)" for w
    using that by (simp add: list_all_iff)
  have "length (t_work_leases demo_leased) = 2" using arg_cong [OF st, of length] by simp
  then have i: "t_work_leases demo_leased ! 1 \<in> set (t_work_leases demo_leased)" by simp
  have act: "wl_state (t_work_leases demo_leased ! 1) = W_active" by code_simp
  then have "w = t_work_leases demo_leased ! 1" if "w \<in> set (t_work_leases demo_leased)" "wl_state w = W_active" for w
    using excl [OF that(1) i that(2)] a [OF that(1)] a [OF i] by simp
  with st i act show ?thesis by blast
qed

text \<open>
  C5: an expired work lease is not taken over while a transaction of the attempt is unresolved: with
  an active lease on the attempt and a submission outstanding, \<^verbatim>\<open>acquire_work\<close> raises and
  leaves the database as it was, whatever the clock says.
\<close>

theorem no_takeover_while_unresolved:
  assumes "find_active_lease a d = Some w" and "attempt_has_unresolved_submission a d"
  shows "\<exists>e. acquire_work clk l a h ttl now d = (Inl e, d)"
  using assms
  by (auto simp: acquire_work_def acquire_work_txn_def expire_active_lease_def store_write_def ensure_def
      bindE_def require_def split: sum.splits option.splits)

theorem no_takeover_while_unresolved_witness:
  "\<exists>e. acquire_work 1000 ''w9'' ''a'' ''h2'' 10 None (snd (acquire_work 0 ''w1'' ''a'' ''h1'' 10 None demo_nonced))
     = (Inl e, snd (acquire_work 0 ''w1'' ''a'' ''h1'' 10 None demo_nonced))"
proof (rule no_takeover_while_unresolved)
  show "find_active_lease ''a'' (snd (acquire_work 0 ''w1'' ''a'' ''h1'' 10 None demo_nonced))
    = Some \<lparr>wl_lease_id = ''w1'', wl_attempt_id = ''a'', wl_holder_id = ''h1'', wl_acquired_at = 0,
        wl_heartbeat_at = 0, wl_expires_at = 10, wl_state = W_active, wl_released_at = None\<rparr>" by code_simp
  show "attempt_has_unresolved_submission ''a'' (snd (acquire_work 0 ''w1'' ''a'' ''h1'' 10 None demo_nonced))"
    by code_simp
qed


text \<open>Nonce bindings are only ever appended.\<close>

lemma grow_prefix: "leases_grow d d' \<Longrightarrow> \<exists>bs. bindings d' = bindings d @ bs"
  by (auto simp: leases_grow_def)

lemma same_prefix: "same_leases d d' \<Longrightarrow> \<exists>bs. bindings d' = bindings d @ bs"
  by (auto dest: same_leases_grow grow_prefix)

lemma txn_prefix:
  assumes "\<And>u d'. body d = Inr (u, d') \<Longrightarrow> \<exists>bs. bindings d' = bindings d @ bs"
  shows "\<exists>bs. bindings (snd (store_write body d)) = bindings d @ bs"
  by (rule store_write_keeps) (use assms in auto)

lemma lease_step_bindings:
  assumes "lease_call d d'" and "lease_tables_ok d"
  shows "\<exists>bs. bindings d' = bindings d @ bs"
  using assms(1)
proof cases
  case elsewhere
  then show ?thesis by simp
qed (auto simp: public_ops Let_def reopen_snd intro!: txn_prefix split: sum.splits option.splits
       dest: acquire_work_tables(3) [OF assms(2)] heartbeat_release_tables(3) [OF assms(2) disjI1]
             heartbeat_release_tables(3) [OF assms(2) disjI2]
             lineage_ops_leases acquire_nonce_leases same_prefix grow_prefix
       intro: route_ops_leases [THEN same_prefix])

text \<open>
  C6: a nonce belongs to one transaction lineage for ever: after any calls of the manager two nonce leases
  with the same chain, signer and nonce, or with the same lineage, are the same row, and whatever
  happens afterwards every binding of lease, lineage, nonce, reservation and stage is still there.
\<close>

theorem nonce_binding_permanent:
  assumes "ledger_empty d0" and "lease_call\<^sup>*\<^sup>* d0 d" and "lease_call\<^sup>*\<^sup>* d d'"
    and "n \<in> set (t_nonce_leases d)" and "m \<in> set (t_nonce_leases d)"
  shows "(nonce_slot n = nonce_slot m \<or> nl_lineage_id n = nl_lineage_id m \<longrightarrow> n = m)
       \<and> (\<exists>n'\<in>set (t_nonce_leases d'). nonce_binding n' = nonce_binding n)"
proof -
  have ok: "lease_tables_ok d" using assms(1,2) by (rule reachable_calls)
  have "nonce_slot n = nonce_slot m \<or> nl_lineage_id n = nl_lineage_id m \<Longrightarrow> n = m"
    using ok assms(4,5) uniq_on_eq [of "\<lambda>n. Some (nonce_slot n)" "t_nonce_leases d" n m "nonce_slot m"]
      uniq_on_eq [of "\<lambda>n. Some (nl_lineage_id n)" "t_nonce_leases d" n m "nl_lineage_id m"]
    by (auto simp: lease_tables_ok_def)
  moreover have "set (bindings d) \<subseteq> set (bindings d')"
    using assms(3)
  proof (induction rule: rtranclp_induct)
    case (step x y)
    have "lease_tables_ok x" using assms(1) rtranclp_trans [OF assms(2) step.hyps(1)] by (rule reachable_calls)
    with lease_step_bindings [OF step.hyps(2)] step.IH show ?case by auto
  qed simp
  ultimately show ?thesis using assms(4) by (force simp: bindings_def)
qed

theorem nonce_binding_permanent_witness:
  "\<exists>n\<in>set (t_nonce_leases demo_finalized). nonce_binding n = (''nl'', ''L'', (1, ''sig'', 7), ''R'', ''s0'')"
proof -
  have "length (t_nonce_leases demo_nonced) = 1" by code_simp
  then have n: "hd (t_nonce_leases demo_nonced) \<in> set (t_nonce_leases demo_nonced)"
    by (cases "t_nonce_leases demo_nonced") auto
  have b: "nonce_binding (hd (t_nonce_leases demo_nonced)) = (''nl'', ''L'', (1, ''sig'', 7), ''R'', ''s0'')"
    by code_simp
  have "lease_call\<^sup>*\<^sup>* demo_nonced demo_finalized" unfolding demo_finalized_def by (blast intro: lease_step.finalized)
  from nonce_binding_permanent [OF demo_reachable(1) ledger_steps_calls [OF demo_reachable(3)] this n n] b show ?thesis by simp
qed

section \<open>Reserving a route\<close>

lemma stage_totals_eq:
  "stage_totals stages = Inr sts \<Longrightarrow>
     sts = map (\<lambda>s. (s, ps_gas_wei s + ps_carrier_payment_wei s + ps_transaction_value_wei s
                       + ps_other_runner_funded_wei s + ps_replacement_allowance_wei s)) stages"
  by (induction stages arbitrary: sts)
     (auto simp: exn_simps worst_case_wei_def Let_def algebra_simps split: if_splits)

text \<open>
  A successful \<^verbatim>\<open>reserve_complete_route\<close> raises the reserved total of every chain of the
  attempt's run by exactly the sum of the worst cases of the stages on that chain (gas, carrier
  payment, value, other funding, replacement allowance) and changes no other total, nor the
  provisional and finalized ones.
\<close>

theorem reservation_is_worst_case:
  assumes "ledger_empty d0" and "ledger_step\<^sup>*\<^sup>* d0 d"
    and "reserve_complete_route clk i a b stages now d = (Inr (), d')"
    and "t \<in> set (t_totals d)" and "t' \<in> set (t_totals d')"
    and "bt_run_id t' = bt_run_id t" and "bt_chain_id t' = bt_chain_id t"
  shows "bt_active_reserved_wei t' = bt_active_reserved_wei t
      + (if attempt_run a d = Some (bt_run_id t)
         then total (\<lambda>s. if ps_chain_id s = bt_chain_id t
                         then ps_gas_wei s + ps_carrier_payment_wei s + ps_transaction_value_wei s
                              + ps_other_runner_funded_wei s + ps_replacement_allowance_wei s else 0) stages
         else 0)
    \<and> bt_provisional_wei t' = bt_provisional_wei t \<and> bt_finalized_wei t' = bt_finalized_wei t"
proof -
  let ?Q = "run_scope (bt_run_id t) (bt_chain_id t)"
  have inv: "ledger_inv d" using assms(1,2) by (rule reachable_ledger)
  from assms(3) obtain sts at u where sts: "stage_totals stages = Inr sts"
    and run: "reserve_complete_route_txn clk i a b sts at d = Inr (u, d')"
    by (auto simp: reserve_complete_route_def store_write_def split: if_splits sum.splits)
  from reserve_effect [OF inv run] obtain r rows where inv': "ledger_inv d'" and who: "attempt_run a d = Some r"
    and budgets: "t_budgets d' = t_budgets d @ rows"
    and rows: "map (\<lambda>x. (bkey x, bg_reserved_wei x)) rows = map (\<lambda>(c, v). ((i, r, b, c), v)) (by_chain sts)"
    and subs: "t_subs d' = t_subs d @ map (\<lambda>(n, st, v). new_sub i a n st v) (enumerate 0 sts)" by blast
  let ?new = "map (\<lambda>(n, st, v). new_sub i a n st v) (enumerate 0 sts)"
  have owned: "\<forall>s\<in>set (t_subs d). owner (t_budgets d) s \<noteq> None"
    using inv by (simp add: ledger_inv_def ledger_core_def covered_def)
  have grow: "sub_sum ?Q g (t_budgets d') (t_subs d') = sub_sum ?Q g (t_budgets d) (t_subs d)
      + sub_sum ?Q g (t_budgets d') ?new" for g
    using sub_sum_budget_append [OF owned, of ?Q g rows] by (simp add: subs budgets sub_sum_def)
  have new: "sub_sum ?Q live_wei (t_budgets d') ?new = budget_sum ?Q bg_reserved_wei rows"
    unfolding reserved_split [OF ledger_inv_core [OF inv'] budgets rows, of _ a] sub_sum_def
    by (rule total_cong) (auto simp: live_wei_def sub_settled_def new_sub_def)
  have none: "sub_sum ?Q sb_provisional_wei (t_budgets d') ?new = 0" "sub_sum ?Q sb_finalized_wei (t_budgets d') ?new = 0"
    unfolding sub_sum_def by (auto intro!: total_zero simp: new_sub_def)
  have "budget_sum ?Q bg_reserved_wei rows = total (\<lambda>(k, v). if ?Q k then v else 0) (map (\<lambda>x. (bkey x, bg_reserved_wei x)) rows)"
    by (simp add: total_map budget_sum_def)
  also have "\<dots> = total (\<lambda>(c, v). if r = bt_run_id t \<and> c = bt_chain_id t then v else 0) (by_chain sts)"
    unfolding rows by (auto simp: total_map case_prod_unfold intro!: total_cong)
  also have "\<dots> = total (\<lambda>(s, v). if r = bt_run_id t \<and> ps_chain_id s = bt_chain_id t then v else 0) sts"
    by (simp add: by_chain_props(3))
  finally have amount: "budget_sum ?Q bg_reserved_wei rows
      = (if r = bt_run_id t then total (\<lambda>s. if ps_chain_id s = bt_chain_id t
                         then ps_gas_wei s + ps_carrier_payment_wei s + ps_transaction_value_wei s
                              + ps_other_runner_funded_wei s + ps_replacement_allowance_wei s else 0) stages else 0)"
    by (auto simp: stage_totals_eq [OF sts] total_map intro!: total_zero)
  have agree: "rows_agree (active_in d) (provisional_in d) (finalized_in d) (t_totals d) (t_batch_totals d)"
    and agree': "rows_agree (active_in d') (provisional_in d') (finalized_in d') (t_totals d') (t_batch_totals d')"
    using inv inv' by (simp_all add: ledger_inv_def ledger_core_def)
  have live: "active_in x Q = sub_sum Q live_wei (t_budgets x) (t_subs x)" if "ledger_inv x" for x Q
    using that by (simp add: ledger_inv_def active_in_live)
  have "bt_active_reserved_wei t = active_in d ?Q" "bt_active_reserved_wei t' = active_in d' ?Q"
    "bt_provisional_wei t = provisional_in d ?Q" "bt_provisional_wei t' = provisional_in d' ?Q"
    "bt_finalized_wei t = finalized_in d ?Q" "bt_finalized_wei t' = finalized_in d' ?Q"
    using agree agree' assms(4-7) by (simp_all add: rows_agree_def)
  then show ?thesis
    by (simp add: live [OF inv] live [OF inv'] provisional_in_def finalized_in_def grow new none amount who)
qed

theorem reservation_is_worst_case_witness:
  "reserve_complete_route 0 ''R'' ''a'' ''b'' demo_stages None demo_configured = (Inr (), demo_reserved)
   \<and> bt_active_reserved_wei (hd (t_totals demo_reserved)) = 10"
proof -
  have run: "fst (reserve_complete_route 0 ''R'' ''a'' ''b'' demo_stages None demo_configured) = Inr ()" by code_simp
  then have ok: "reserve_complete_route 0 ''R'' ''a'' ''b'' demo_stages None demo_configured = (Inr (), demo_reserved)"
    by (simp add: demo_reserved_def prod_eq_iff)
  have t: "t_totals demo_configured = [\<lparr>bt_run_id = ''r'', bt_chain_id = 1, bt_active_reserved_wei = 0,
      bt_provisional_wei = 0, bt_finalized_wei = 0, bt_updated_at = 0\<rparr>]" by code_simp
  have "ledger_step\<^sup>*\<^sup>* demo_start demo_configured" unfolding demo_configured_def by (blast intro: lease_step.limits)
  note applied = reservation_is_worst_case [OF demo_reachable(1) this ok, of "hd (t_totals demo_configured)" "hd (t_totals demo_reserved)"]
  have t': "map (\<lambda>t. (bt_run_id t, bt_chain_id t)) (t_totals demo_reserved) = [(''r'', 1)]" by code_simp
  then have "hd (t_totals demo_reserved) \<in> set (t_totals demo_reserved)"
    "bt_run_id (hd (t_totals demo_reserved)) = ''r''" "bt_chain_id (hd (t_totals demo_reserved)) = 1"
    by (cases "t_totals demo_reserved"; simp)+
  moreover have "attempt_run ''a'' demo_configured = Some ''r''" by code_simp
  ultimately show ?thesis using applied ok by (simp add: t demo_stages_def)
qed


section \<open>Settlement is final until a reorganization\<close>

lemma find_budget_update:
  assumes "\<And>b. bkey (g b) = bkey b"
  shows "find_budget i c (d\<lparr>t_budgets := update_where p g (t_budgets d)\<rparr>)
       = map_option (\<lambda>b. if p b then g b else b) (find_budget i c d)"
  unfolding find_budget_def using assms by (simp add: find_update_where bkey_fields)

lemma finalized_lineage:
  assumes "finalize_lineage_txn L w at d = Inr (u, d')"
  shows "\<exists>s n b. lineage L d' = Inr (s, n, b) \<and> sb_state s = S_finalized \<and> sb_finalized_wei s = w"
proof (cases "\<exists>s n b. lineage L d = Inr (s, n, b) \<and> sb_state s = S_finalized")
  case True
  with assms show ?thesis by (auto simp: finalize_lineage_txn_def exn_simps)
next
  case False
  let ?f = "\<lambda>s. s\<lparr>sb_provisional_wei := 0, sb_finalized_wei := w, sb_state := S_finalized\<rparr>"
  let ?g = "\<lambda>s b. b\<lparr>bg_provisional_wei := bg_provisional_wei b - sb_provisional_wei s,
                      bg_finalized_wei := bg_finalized_wei b + w\<rparr>"
  let ?n = "\<lambda>n. n\<lparr>nl_state := N_finalized, nl_locked := False, nl_released_at := Some at\<rparr>"
  from assms False obtain s n b d2 d3 where lin: "lineage L d = Inr (s, n, b)"
    and d2: "update_budget_amounts s (?g s) (update_lineage_nonce L ?n (update_lineage_sub L ?f d)) = Inr d2"
    and d3: "change_totals (bg_run_id b) (bg_batch_id b) (sb_chain_id s) (- sb_reserved_wei s)
               (- sb_provisional_wei s) w at d2 = Inr d3"
    and d': "d' = settle_completed_budget_rows (sb_reservation_id s) (lineage_event s b ''lineage_finalized''
               (- sb_reserved_wei s) (- sb_provisional_wei s) w (JObj [(''actual_spent_wei'', JInt w)]) at d3)"
    by (auto simp: finalize_lineage_txn_def Let_def exn_simps split: prod.splits if_splits)
  note eqs = update_budget_amountsD [OF d2] change_totals_frame [OF d3] d'
  have subs: "t_subs d' = update_where (\<lambda>r. sb_lineage_id r = Some L) ?f (t_subs d)"
    and nonces: "t_nonce_leases d' = update_where (\<lambda>r. nl_lineage_id r = L) ?n (t_nonce_leases d)"
    by (simp_all add: eqs settle_completed_budget_rows_def lineage_event_def budget_event_def
        update_lineage_sub_def update_lineage_nonce_def)
  have "find_budget i c d' \<noteq> None \<longleftrightarrow> find_budget i c d \<noteq> None" for i c
    by (simp add: find_budget_def eqs settle_completed_budget_rows_def lineage_event_def budget_event_def
        update_lineage_sub_def update_lineage_nonce_def find_update_where)
  moreover from lin have "find_budget (sb_reservation_id s) (sb_chain_id s) d \<noteq> None"
    and s: "find (\<lambda>r. sb_lineage_id r = Some L) (t_subs d) = Some s"
    and n: "find (\<lambda>r. nl_lineage_id r = L) (t_nonce_leases d) = Some n"
    by (auto simp: lineage_def exn_simps)
  ultimately obtain b' where "find_budget (sb_reservation_id s) (sb_chain_id s) d' = Some b'" by blast
  with find_SomeD [OF s] find_SomeD [OF n] show ?thesis
    by (simp add: lineage_def subs nonces find_update_where s n)
qed

text \<open>
  Once a lineage is finalized at some amount, finalizing it again at the same amount returns and
  changes nothing, and every other settlement of it (another amount, an inclusion, a return to
  pending, a release as dead) raises and changes nothing.
\<close>

theorem finalization_immutable:
  assumes "finalize_lineage clk L w now d = (Inr (), d')"
  shows "finalize_lineage clk' L w None d' = (Inr (), d')
    \<and> (w' \<noteq> w \<longrightarrow> (\<exists>e. finalize_lineage clk' L w' now' d' = (Inl e, d')))
    \<and> (\<exists>e. record_included clk' L w' now' d' = (Inl e, d'))
    \<and> (\<exists>e. mark_lineage_pending clk' L st now' d' = (Inl e, d'))
    \<and> (\<exists>e. release_dead_lineage clk' L pf destroyed manual now' d' = (Inl e, d'))"
proof -
  from assms obtain at u where pos: "\<not> w < 0" and "finalize_lineage_txn L w at d = Inr (u, d')"
    by (auto simp: finalize_lineage_def store_write_def split: if_splits sum.splits)
  from finalized_lineage [OF this(2)] obtain s n b where
    lin: "lineage L d' = Inr (s, n, b)" "sb_state s = S_finalized" "sb_finalized_wei s = w" by blast
  then have settled: "sub_settled s" by (simp add: sub_settled_def)
  have "finalize_lineage clk' L w None d' = (Inr (), d')"
    using lin pos by (simp add: finalize_lineage_def finalize_lineage_txn_def store_write_def)
  moreover have "w' \<noteq> w \<longrightarrow> (\<exists>e. finalize_lineage clk' L w' now' d' = (Inl e, d'))"
    using lin by (auto simp: finalize_lineage_def finalize_lineage_txn_def store_write_def ensure_def split: sum.splits)
  moreover have "\<exists>e. record_included clk' L w' now' d' = (Inl e, d')"
    using lin settled by (auto simp: record_included_def record_included_txn_def store_write_def split: sum.splits)
  moreover have "\<exists>e. mark_lineage_pending clk' L st now' d' = (Inl e, d')"
    using lin settled
    by (auto simp: mark_lineage_pending_def mark_lineage_pending_txn_def store_write_def split: option.splits)
  moreover have "\<exists>e. release_dead_lineage clk' L pf destroyed manual now' d' = (Inl e, d')"
    using lin by (auto simp: release_dead_lineage_def release_dead_lineage_txn_def store_write_def Let_def split: sum.splits)
  ultimately show ?thesis by blast
qed

theorem finalization_immutable_witness:
  "finalize_lineage 0 ''L'' 5 None demo_nonced = (Inr (), demo_finalized)
   \<and> finalize_lineage 9 ''L'' 5 None demo_finalized = (Inr (), demo_finalized)
   \<and> (\<exists>e. finalize_lineage 9 ''L'' 6 None demo_finalized = (Inl e, demo_finalized))"
proof -
  have "fst (finalize_lineage 0 ''L'' 5 None demo_nonced) = Inr ()" by code_simp
  then have ok: "finalize_lineage 0 ''L'' 5 None demo_nonced = (Inr (), demo_finalized)"
    by (simp add: demo_finalized_def prod_eq_iff)
  from finalization_immutable [OF ok, of 9 6 None] show ?thesis using ok by simp
qed

section \<open>Releasing a route twice\<close>

definition demo_two_routes :: db where
  "demo_two_routes = snd (reserve_complete_route 0 ''R2'' ''a2'' ''b'' demo_stages None
     (demo_reserved\<lparr>t_attempts := t_attempts demo_reserved @
        map (at_attempt_id_update (\<lambda>_. ''a2'')) (t_attempts demo_reserved)\<rparr>))"

definition demo_released_twice :: db where
  "demo_released_twice = snd (release_unstarted_route 0 ''R'' None (snd (release_unstarted_route 0 ''R'' None demo_two_routes)))"

text \<open>
  \<^verbatim>\<open>release_unstarted_route\<close> does not look at the state of the reservation. A second
  release of the same reservation returns normally and takes its wei off the totals again, so the
  reserved total of the run no longer covers the reservation of another attempt that is still live.
\<close>

theorem double_release_loses_reservation:
  "fst (release_unstarted_route 0 ''R'' None (snd (release_unstarted_route 0 ''R'' None demo_two_routes))) = Inr ()
   \<and> map bt_active_reserved_wei (t_totals demo_two_routes) = [20]
   \<and> map bt_active_reserved_wei (t_totals demo_released_twice) = [0]
   \<and> sub_sum (run_scope ''r'' 1) live_wei (t_budgets demo_released_twice) (t_subs demo_released_twice) = 10"
  by code_simp

end
