(* ===== verification/Xir_Controls.thy ===== *)
theory Xir_Controls
  imports Xir_Ledger_Properties
begin

text \<open>
  \<^verbatim>\<open>execute/controls.py\<close>: the persistent drain, halt, resume and revocation control plane. The
  public methods of \<^verbatim>\<open>RunControlManager\<close> are definitions of the same name (\<open>state\<close> is
  \<open>control_state_of\<close>); the read-only ones return a result and no database.
\<close>

section \<open>Definitions\<close>

record control_decision =
  dc_decision_id :: string
  dc_decision_sha256 :: string
  dc_reason_code :: string
  dc_approval_payload_sha256 :: "string option"

record control_state =
  ct_run_id :: string
  ct_mode :: control_mode
  ct_reason_code :: string
  ct_decision_id :: string
  ct_decision_sha256 :: string
  ct_approval_payload_sha256 :: "string option"
  ct_sequence :: int
  ct_updated_at :: int

record observation_work =
  ow_transaction_ids :: "string list"
  ow_attempt_ids :: "string list"

definition check_digest :: "string option \<Rightarrow> bool \<Rightarrow> exn + unit" where
  "check_digest value optional =
     (if optional \<and> value = None then Inr ()
      else ensure (case value of None \<Rightarrow> False | Some v \<Rightarrow> is_sha256_hex v) (ControlError CE_digest_format))"

definition control_time :: "int \<Rightarrow> pydatetime option \<Rightarrow> exn + int" where
  "control_time clk value = utc_of (ControlError CE_naive_time) clk value"

definition validate_decision :: "control_decision \<Rightarrow> exn + unit" where
  "validate_decision decision =
     bindE (ensure (dc_decision_id decision \<noteq> [] \<and> dc_reason_code decision \<noteq> [])
              (ControlError CE_empty_decision)) (\<lambda>_.
     bindE (check_digest (Some (dc_decision_sha256 decision)) False) (\<lambda>_.
     check_digest (dc_approval_payload_sha256 decision) True))"

definition state_of_row :: "control_row \<Rightarrow> control_state" where
  "state_of_row row =
     \<lparr>ct_run_id = rc_run_id row, ct_mode = rc_mode row, ct_reason_code = rc_reason_code row,
      ct_decision_id = rc_decision_id row, ct_decision_sha256 = rc_decision_sha256 row,
      ct_approval_payload_sha256 = rc_approval_payload_sha256 row, ct_sequence = rc_sequence row,
      ct_updated_at = rc_updated_at row\<rparr>"

definition find_control :: "string \<Rightarrow> db \<Rightarrow> control_row option" where
  "find_control run_id db = find (\<lambda>r. rc_run_id r = run_id) (t_run_controls db)"

definition control_state_of :: "string \<Rightarrow> db \<Rightarrow> exn + control_state" where
  "control_state_of run_id db =
     bindE (require (find_control run_id db) (ControlError CE_not_initialized)) (\<lambda>row.
     Inr (state_of_row row))"

text \<open>The event table is unique in run and decision, so a decision is used at most once.\<close>

definition control_event ::
  "string \<Rightarrow> control_mode option \<Rightarrow> control_mode \<Rightarrow> control_decision \<Rightarrow> int \<Rightarrow> db \<Rightarrow> exn + db" where
  "control_event run_id from_mode to_mode decision occurred_at db =
     bindE (ensure (\<not> list_ex (\<lambda>e. ce_run_id e = run_id \<and> ce_decision_id e = dc_decision_id decision)
                      (t_control_events db)) IntegrityError) (\<lambda>_.
     Inr (db\<lparr>t_control_events := t_control_events db @
       [\<lparr>ce_run_id = run_id, ce_from_mode = from_mode, ce_to_mode = to_mode,
         ce_reason_code = dc_reason_code decision, ce_decision_id = dc_decision_id decision,
         ce_decision_sha256 = dc_decision_sha256 decision,
         ce_approval_payload_sha256 = dc_approval_payload_sha256 decision,
         ce_occurred_at = occurred_at\<rparr>]\<rparr>))"

definition initialize_txn :: "string \<Rightarrow> control_decision \<Rightarrow> int \<Rightarrow> unit txn" where
  "initialize_txn run_id decision occurred_at db =
     bindE (require (find_run run_id db) (ControlError CE_unknown_run)) (\<lambda>run.
     bindE (ensure (find_control run_id db = None) (ControlError CE_already_initialized)) (\<lambda>_.
     bindE (ensure (rn_state run \<noteq> Run_mode Halted \<and> rn_state run \<noteq> Run_mode Revoked
                    \<and> rn_state run \<noteq> Run_mode Drain) (ControlError CE_existing_stop_state)) (\<lambda>_.
     bindE (control_event run_id None Running decision occurred_at
       (db\<lparr>t_run_controls := t_run_controls db @
         [\<lparr>rc_run_id = run_id, rc_mode = Running, rc_reason_code = dc_reason_code decision,
           rc_decision_id = dc_decision_id decision, rc_decision_sha256 = dc_decision_sha256 decision,
           rc_approval_payload_sha256 = dc_approval_payload_sha256 decision, rc_sequence = 1,
           rc_updated_at = occurred_at\<rparr>]\<rparr>)) (\<lambda>db'. Inr ((), db')))))"

text \<open>A transaction followed by a read of the state it left.\<close>

definition then_state :: "string \<Rightarrow> unit outcome \<Rightarrow> control_state outcome" where
  "then_state run_id out =
     (case out of (Inl e, db) \<Rightarrow> (Inl e, db) | (Inr _, db) \<Rightarrow> (control_state_of run_id db, db))"

definition initialize ::
  "int \<Rightarrow> string \<Rightarrow> control_decision \<Rightarrow> pydatetime option \<Rightarrow> db \<Rightarrow> control_state outcome" where
  "initialize clk run_id decision now db =
     (case bindE (validate_decision decision) (\<lambda>_. control_time clk now) of
        Inl e \<Rightarrow> (Inl e, db)
      | Inr occurred_at \<Rightarrow> then_state run_id (store_write (initialize_txn run_id decision occurred_at) db))"

definition transition_txn ::
  "int \<Rightarrow> string \<Rightarrow> control_mode list \<Rightarrow> control_mode \<Rightarrow> control_decision \<Rightarrow> int \<Rightarrow> unit txn" where
  "transition_txn clk run_id allowed_from to_mode decision occurred_at db =
     bindE (require (find_control run_id db) (ControlError CE_not_initialized)) (\<lambda>row.
     bindE (ensure (rc_mode row \<in> set allowed_from) (ControlError CE_cannot_transition)) (\<lambda>_.
     bindE (ensure (int64 (rc_sequence row + 1)) OverflowError) (\<lambda>_.
     bindE (control_event run_id (Some (rc_mode row)) to_mode decision occurred_at
       (set_run_state run_id (Run_mode to_mode)
         (db\<lparr>t_run_controls := update_where (\<lambda>r. rc_run_id r = run_id)
            (\<lambda>r. r\<lparr>rc_mode := to_mode, rc_reason_code := dc_reason_code decision,
                   rc_decision_id := dc_decision_id decision,
                   rc_decision_sha256 := dc_decision_sha256 decision,
                   rc_approval_payload_sha256 := dc_approval_payload_sha256 decision,
                   rc_sequence := rc_sequence row + 1, rc_updated_at := occurred_at\<rparr>)
            (t_run_controls db)\<rparr>))) (\<lambda>db1.
     Inr ((), append_transition clk ''run_control'' run_id (Some (E_mode (rc_mode row))) (E_mode to_mode)
                (JObj [(''decision_id'', JStr (dc_decision_id decision)),
                       (''reason_code'', JStr (dc_reason_code decision))]) db1)))))"

definition transition ::
  "int \<Rightarrow> string \<Rightarrow> control_mode list \<Rightarrow> control_mode \<Rightarrow> control_decision \<Rightarrow> pydatetime option \<Rightarrow> db
     \<Rightarrow> control_state outcome" where
  "transition clk run_id allowed_from to_mode decision now db =
     (case bindE (validate_decision decision) (\<lambda>_. control_time clk now) of
        Inl e \<Rightarrow> (Inl e, db)
      | Inr occurred_at \<Rightarrow> then_state run_id
          (store_write (transition_txn clk run_id allowed_from to_mode decision occurred_at) db))"

definition drain ::
  "int \<Rightarrow> string \<Rightarrow> control_decision \<Rightarrow> pydatetime option \<Rightarrow> db \<Rightarrow> control_state outcome" where
  "drain clk run_id decision now = transition clk run_id [Running] Drain decision now"

definition halt ::
  "int \<Rightarrow> string \<Rightarrow> control_decision \<Rightarrow> pydatetime option \<Rightarrow> db \<Rightarrow> control_state outcome" where
  "halt clk run_id decision now = transition clk run_id [Running, Drain] Halted decision now"

definition revoke ::
  "int \<Rightarrow> string \<Rightarrow> control_decision \<Rightarrow> pydatetime option \<Rightarrow> db \<Rightarrow> control_state outcome" where
  "revoke clk run_id decision now = transition clk run_id [Running, Drain, Halted] Revoked decision now"

definition resume ::
  "int \<Rightarrow> string \<Rightarrow> control_decision \<Rightarrow> bool \<Rightarrow> pydatetime option \<Rightarrow> db \<Rightarrow> control_state outcome" where
  "resume clk run_id decision approval_state_changed now db =
     (if approval_state_changed \<and> dc_approval_payload_sha256 decision = None
      then (Inl (ControlError CE_changed_state_needs_approval), db)
      else transition clk run_id [Drain, Halted] Running decision now db)"

definition assert_signature_allowed :: "string \<Rightarrow> string \<Rightarrow> bool \<Rightarrow> bool \<Rightarrow> db \<Rightarrow> exn + unit" where
  "assert_signature_allowed run_id attempt_id is_source_stage retained_signed_bytes db =
     (let budgets = filter (\<lambda>b. bg_attempt_id b = attempt_id) (t_budgets db) in
     bindE (require (find_control run_id db) (ControlError CE_cannot_prove_binding)) (\<lambda>control.
     bindE (require (find_attempt attempt_id db) (ControlError CE_cannot_prove_binding)) (\<lambda>attempt.
     bindE (ensure (case find_condition (at_condition_id attempt) db of None \<Rightarrow> False
                    | Some c \<Rightarrow> cd_run_id c = run_id) (ControlError CE_cannot_prove_binding)) (\<lambda>_.
     bindE (ensure (rc_mode control \<noteq> Halted \<and> rc_mode control \<noteq> Revoked)
              (ControlError CE_mode_blocks_signature)) (\<lambda>_.
     bindE (ensure (at_state attempt = A_in_flight) (ControlError CE_attempt_not_in_flight)) (\<lambda>_.
     bindE (ensure (budgets \<noteq> [] \<and> list_all bg_source_in_flight budgets)
              (ControlError CE_incomplete_reservation)) (\<lambda>_.
     ensure (\<not> (rc_mode control = Drain \<and> is_source_stage)) (ControlError CE_drain_blocks_source))))))))"

text \<open>The run of an attempt or a transaction, through the joins of the observation queries.\<close>

definition attempt_in_run :: "string \<Rightarrow> db \<Rightarrow> string \<Rightarrow> bool" where
  "attempt_in_run run_id db attempt_id \<longleftrightarrow>
     (case find_attempt attempt_id db of None \<Rightarrow> False
      | Some a \<Rightarrow> (case find_condition (at_condition_id a) db of None \<Rightarrow> False
                  | Some c \<Rightarrow> cd_run_id c = run_id))"

definition transaction_in_run :: "string \<Rightarrow> db \<Rightarrow> transaction_row \<Rightarrow> bool" where
  "transaction_in_run run_id db t \<longleftrightarrow>
     (case find_intent (tx_intent_id t) db of None \<Rightarrow> False
      | Some i \<Rightarrow> (case find_stage (it_stage_id i) db of None \<Rightarrow> False
                  | Some g \<Rightarrow> attempt_in_run run_id db (sg_attempt_id g)))"

definition pending_observation_work :: "string \<Rightarrow> db \<Rightarrow> observation_work" where
  "pending_observation_work run_id db =
     \<lparr>ow_transaction_ids = text_sort (map tx_transaction_id (filter (\<lambda>t.
          tx_state t \<in> {T_broadcast_unknown, T_submitted, T_included} \<and> transaction_in_run run_id db t)
          (t_transactions db))),
      ow_attempt_ids = text_sort (remdups (map at_attempt_id (filter (\<lambda>a.
          attempt_in_run run_id db (at_attempt_id a)
          \<and> (at_state a = A_in_flight
             \<or> list_ex (\<lambda>m. cm_attempt_id m = at_attempt_id a) (t_carrier_messages db)))
          (t_attempts db))))\<rparr>"


section \<open>The mode automaton\<close>

text \<open>The abstract control plane: which mode may follow which.\<close>

fun mode_allowed :: "control_mode option \<Rightarrow> control_mode \<Rightarrow> bool" where
  "mode_allowed None m = (m = Running)"
| "mode_allowed (Some Running) m = (m = Drain \<or> m = Halted \<or> m = Revoked)"
| "mode_allowed (Some Drain) m = (m = Halted \<or> m = Revoked \<or> m = Running)"
| "mode_allowed (Some Halted) m = (m = Revoked \<or> m = Running)"
| "mode_allowed (Some Revoked) m = False"

text \<open>Replaying the event log of a run through the automaton; a log it refuses gives \<open>None\<close>.\<close>

fun replay_modes :: "control_mode option \<Rightarrow> control_event_row list \<Rightarrow> control_mode option option" where
  "replay_modes m [] = Some m"
| "replay_modes m (e # es) =
     (if ce_from_mode e = m \<and> mode_allowed m (ce_to_mode e) then replay_modes (Some (ce_to_mode e)) es else None)"

definition mode_of :: "string \<Rightarrow> db \<Rightarrow> control_mode option" where
  "mode_of r d = map_option rc_mode (find_control r d)"

definition run_events :: "string \<Rightarrow> db \<Rightarrow> control_event_row list" where
  "run_events r d = filter (\<lambda>e. ce_run_id e = r) (t_control_events d)"

definition control_inv :: "db \<Rightarrow> bool" where
  "control_inv d \<longleftrightarrow>
     uniq_on (\<lambda>c. Some (rc_run_id c)) (t_run_controls d)
   \<and> uniq_on (\<lambda>e. Some (ce_run_id e, ce_decision_id e)) (t_control_events d)
   \<and> (\<forall>r. replay_modes None (run_events r d) = Some (mode_of r d))
   \<and> (\<forall>c\<in>set (t_run_controls d). rc_sequence c = int (length (run_events (rc_run_id c) d)))"

lemma replay_modes_snoc:
  "replay_modes m es = Some m' \<Longrightarrow>
     replay_modes m (es @ [e]) = (if ce_from_mode e = m' \<and> mode_allowed m' (ce_to_mode e) then Some (Some (ce_to_mode e)) else None)"
  by (induction m es rule: replay_modes.induct) (auto split: if_splits)

lemma replay_modes_None: "replay_modes m es = Some None \<Longrightarrow> es = []"
  by (induction m es rule: replay_modes.induct) (auto split: if_splits)

text \<open>How a control transaction changes what the invariant sees.\<close>

definition control_changed ::
  "string \<Rightarrow> control_mode option \<Rightarrow> control_mode \<Rightarrow> string \<Rightarrow> db \<Rightarrow> db \<Rightarrow> bool" where
  "control_changed r m m' dec d d' \<longleftrightarrow>
     mode_of r d = m \<and> mode_allowed m m' \<and> mode_of r d' = Some m'
   \<and> (\<forall>r'. r' \<noteq> r \<longrightarrow> mode_of r' d' = mode_of r' d)
   \<and> \<not> list_ex (\<lambda>e. ce_run_id e = r \<and> ce_decision_id e = dec) (t_control_events d)
   \<and> (\<exists>e. t_control_events d' = t_control_events d @ [e] \<and> ce_run_id e = r \<and> ce_from_mode e = m
        \<and> ce_to_mode e = m' \<and> ce_decision_id e = dec)"

lemma control_changed_events:
  assumes "control_changed r m m' dec d d'"
  obtains e where "run_events r d' = run_events r d @ [e]" "ce_from_mode e = m" "ce_to_mode e = m'"
    and "\<And>r'. r' \<noteq> r \<Longrightarrow> run_events r' d' = run_events r' d"
proof -
  from assms obtain e where e: "t_control_events d' = t_control_events d @ [e]" "ce_run_id e = r"
    "ce_from_mode e = m" "ce_to_mode e = m'" by (auto simp: control_changed_def)
  show thesis by (rule that [of e]) (use e in \<open>auto simp: run_events_def\<close>)
qed

lemma control_changed_inv:
  assumes ch: "control_changed r m m' dec d d'" and inv: "control_inv d"
    and uniq: "uniq_on (\<lambda>c. Some (rc_run_id c)) (t_run_controls d')"
    and seq: "\<forall>c\<in>set (t_run_controls d'). if rc_run_id c = r
                then rc_sequence c = int (length (run_events r d)) + 1 else c \<in> set (t_run_controls d)"
  shows "control_inv d'"
proof -
  from ch obtain e where e: "run_events r d' = run_events r d @ [e]" "ce_from_mode e = m" "ce_to_mode e = m'"
    and other: "\<And>r'. r' \<noteq> r \<Longrightarrow> run_events r' d' = run_events r' d" by (rule control_changed_events) blast
  have "replay_modes None (run_events r' d') = Some (mode_of r' d')" for r'
  proof (cases "r' = r")
    case True
    from inv have "replay_modes None (run_events r d) = Some (mode_of r d)" by (simp add: control_inv_def)
    with ch e True show ?thesis by (simp add: replay_modes_snoc control_changed_def)
  next
    case False
    with inv ch other show ?thesis by (simp add: control_inv_def control_changed_def)
  qed
  moreover have "uniq_on (\<lambda>e. Some (ce_run_id e, ce_decision_id e)) (t_control_events d')"
    using ch inv by (auto simp: control_changed_def control_inv_def uniq_on_snoc clashes_def list_ex_iff)
  moreover have "rc_sequence c = int (length (run_events (rc_run_id c) d'))" if "c \<in> set (t_run_controls d')" for c
    using that seq inv e other by (cases "rc_run_id c = r") (auto simp: control_inv_def)
  ultimately show ?thesis using uniq by (simp add: control_inv_def)
qed

lemma find_controlD: "find_control r d = Some c \<Longrightarrow> c \<in> set (t_run_controls d) \<and> rc_run_id c = r"
  unfolding find_control_def by (drule find_SomeD) simp

lemma initialize_effect:
  assumes "initialize_txn r dec at d = Inr (u, d')"
  shows "control_changed r None Running (dc_decision_id dec) d d'"
    and "control_inv d \<Longrightarrow> control_inv d'"
proof -
  from assms obtain c where c: "t_run_controls d' = t_run_controls d @ [c]" "rc_run_id c = r" "rc_mode c = Running"
      "rc_sequence c = 1" and none: "find_control r d = None"
    and ev: "\<not> list_ex (\<lambda>e. ce_run_id e = r \<and> ce_decision_id e = dc_decision_id dec) (t_control_events d)"
      "\<exists>e. t_control_events d' = t_control_events d @ [e] \<and> ce_run_id e = r \<and> ce_from_mode e = None
        \<and> ce_to_mode e = Running \<and> ce_decision_id e = dc_decision_id dec"
    by (auto simp: initialize_txn_def control_event_def exn_simps)
  have modes: "mode_of r d = None" "mode_of r d' = Some Running" "r' \<noteq> r \<Longrightarrow> mode_of r' d' = mode_of r' d" for r'
    using none c by (auto simp: mode_of_def find_control_def find_append split: option.splits)
  with ev show ch: "control_changed r None Running (dc_decision_id dec) d d'" by (simp add: control_changed_def)
  assume inv: "control_inv d"
  have "run_events r d = []"
    by (rule replay_modes_None [where m = None]) (use inv modes in \<open>simp add: control_inv_def\<close>)
  moreover from none have "\<forall>x\<in>set (t_run_controls d). rc_run_id x \<noteq> r"
    by (auto simp: find_control_def find_None_iff)
  ultimately show "control_inv d'"
    using inv c by (intro control_changed_inv [OF ch])
      (auto simp: control_inv_def uniq_on_snoc clashes_def list_ex_iff)
qed

lemma transition_effect:
  assumes run: "transition_txn clk r allowed m' dec at d = Inr (u, d')"
    and ok: "\<forall>m\<in>set allowed. mode_allowed (Some m) m'"
  shows "\<exists>m\<in>set allowed. control_changed r (Some m) m' (dc_decision_id dec) d d'"
    and "control_inv d \<Longrightarrow> control_inv d'"
    and "find_run r d' = map_option (rn_state_update (\<lambda>_. Run_mode m')) (find_run r d)"
proof -
  let ?f = "\<lambda>k x. x\<lparr>rc_mode := m', rc_reason_code := dc_reason_code dec, rc_decision_id := dc_decision_id dec,
      rc_decision_sha256 := dc_decision_sha256 dec, rc_approval_payload_sha256 := dc_approval_payload_sha256 dec,
      rc_sequence := k, rc_updated_at := at\<rparr>"
  from run obtain c where c: "find_control r d = Some c" "rc_mode c \<in> set allowed"
    and rows: "t_run_controls d' = update_where (\<lambda>x. rc_run_id x = r) (?f (rc_sequence c + 1)) (t_run_controls d)"
    and runs: "t_runs d' = t_runs (set_run_state r (Run_mode m') d)"
    and ev: "\<not> list_ex (\<lambda>e. ce_run_id e = r \<and> ce_decision_id e = dc_decision_id dec) (t_control_events d)"
      "\<exists>e. t_control_events d' = t_control_events d @ [e] \<and> ce_run_id e = r \<and> ce_from_mode e = Some (rc_mode c)
        \<and> ce_to_mode e = m' \<and> ce_decision_id e = dc_decision_id dec"
    by (auto simp: transition_txn_def control_event_def exn_simps append_transition_def set_run_state_def)
  have find: "find_control r' d' = map_option (\<lambda>x. if rc_run_id x = r then ?f (rc_sequence c + 1) x else x) (find_control r' d)"
    for r' unfolding find_control_def rows by (rule find_update_where) simp
  have modes: "mode_of r d = Some (rc_mode c)" "mode_of r d' = Some m'" "r' \<noteq> r \<Longrightarrow> mode_of r' d' = mode_of r' d" for r'
    using c find_controlD [OF c(1)] by (auto simp: mode_of_def find dest!: find_controlD split: option.splits)
      (cases "find_control r' d"; auto dest: find_controlD)
  with ev ok c have ch: "control_changed r (Some (rc_mode c)) m' (dc_decision_id dec) d d'"
    by (simp add: control_changed_def)
  with c show "\<exists>m\<in>set allowed. control_changed r (Some m) m' (dc_decision_id dec) d d'" by blast
  show "find_run r d' = map_option (rn_state_update (\<lambda>_. Run_mode m')) (find_run r d)"
    using find_run_set_state [of r "Run_mode m'" d] by (simp add: find_run_def runs)
  assume inv: "control_inv d"
  then have "rc_sequence c = int (length (run_events r d))"
    using find_controlD [OF c(1)] by (auto simp: control_inv_def)
  with inv show "control_inv d'"
    by (intro control_changed_inv [OF ch]) (auto simp: control_inv_def rows uniq_on_update_where set_update_where)
qed


section \<open>What the public methods do\<close>

text \<open>A control method either raises and changes nothing, or takes one step of the automaton.\<close>

lemma then_state_commit:
  assumes "mode_of r d' = Some m"
  shows "\<exists>st. then_state r (Inr u, d') = (Inr st, d') \<and> ct_mode st = m \<and> ct_run_id st = r"
  using assms by (auto simp: then_state_def control_state_of_def mode_of_def state_of_row_def dest: find_controlD)

lemma transition_cases:
  assumes ok: "\<forall>m\<in>set allowed. mode_allowed (Some m) m'"
  obtains (raised) e where "transition clk r allowed m' dec now d = (Inl e, d)"
  | (moved) st d' m where "transition clk r allowed m' dec now d = (Inr st, d')" and "ct_mode st = m'"
      and "m \<in> set allowed" and "control_changed r (Some m) m' (dc_decision_id dec) d d'"
      and "control_inv d \<Longrightarrow> control_inv d'"
      and "find_run r d' = map_option (rn_state_update (\<lambda>_. Run_mode m')) (find_run r d)"
proof (cases "bindE (validate_decision dec) (\<lambda>_. control_time clk now)")
  case (Inl e)
  then show thesis using raised by (simp add: transition_def)
next
  case (Inr at)
  show thesis
  proof (rule store_write_cases [of "transition_txn clk r allowed m' dec at" d])
    fix e assume "store_write (transition_txn clk r allowed m' dec at) d = (Inl e, d)"
    with Inr show thesis using raised by (simp add: transition_def then_state_def)
  next
    fix u d' assume run: "transition_txn clk r allowed m' dec at d = Inr (u, d')"
      and w: "store_write (transition_txn clk r allowed m' dec at) d = (Inr u, d')"
    note eff = transition_effect [OF run ok]
    from eff(1) obtain m where m: "m \<in> set allowed" "control_changed r (Some m) m' (dc_decision_id dec) d d'" by blast
    then have "mode_of r d' = Some m'" by (simp add: control_changed_def)
    from then_state_commit [OF this, of u] Inr w obtain st where
      "transition clk r allowed m' dec now d = (Inr st, d')" "ct_mode st = m'"
      by (auto simp: transition_def)
    then show thesis using m eff(2,3) by (rule moved)
  qed
qed

lemma initialize_cases:
  obtains (raised) e where "initialize clk r dec now d = (Inl e, d)"
  | (moved) st d' where "initialize clk r dec now d = (Inr st, d')" and "ct_mode st = Running"
      and "control_changed r None Running (dc_decision_id dec) d d'" and "control_inv d \<Longrightarrow> control_inv d'"
proof (cases "bindE (validate_decision dec) (\<lambda>_. control_time clk now)")
  case (Inl e)
  then show thesis using raised by (simp add: initialize_def)
next
  case (Inr at)
  show thesis
  proof (rule store_write_cases [of "initialize_txn r dec at" d])
    fix e assume "store_write (initialize_txn r dec at) d = (Inl e, d)"
    with Inr show thesis using raised by (simp add: initialize_def then_state_def)
  next
    fix u d' assume run: "initialize_txn r dec at d = Inr (u, d')"
      and w: "store_write (initialize_txn r dec at) d = (Inr u, d')"
    note eff = initialize_effect [OF run]
    from eff(1) have "mode_of r d' = Some Running" by (simp add: control_changed_def)
    from then_state_commit [OF this, of u] Inr w obtain st where
      "initialize clk r dec now d = (Inr st, d')" "ct_mode st = Running"
      by (auto simp: initialize_def)
    then show thesis using eff by (rule moved)
  qed
qed

inductive control_step :: "db \<Rightarrow> db \<Rightarrow> bool" where
  initialize: "control_step d (snd (initialize clk r dec now d))"
| drain: "control_step d (snd (drain clk r dec now d))"
| halt: "control_step d (snd (halt clk r dec now d))"
| revoke: "control_step d (snd (revoke clk r dec now d))"
| resume: "control_step d (snd (resume clk r dec changed now d))"
| elsewhere: "t_run_controls d' = t_run_controls d \<Longrightarrow> t_control_events d' = t_control_events d \<Longrightarrow> control_step d d'"

text \<open>The refinement: every step of the program is no step or one step of the automaton on one run.\<close>

definition control_simulates :: "db \<Rightarrow> db \<Rightarrow> bool" where
  "control_simulates d d' \<longleftrightarrow>
     (\<forall>r. mode_of r d' = mode_of r d)
   \<or> (\<exists>r m'. mode_allowed (mode_of r d) m' \<and> mode_of r d' = Some m' \<and> (\<forall>r'. r' \<noteq> r \<longrightarrow> mode_of r' d' = mode_of r' d))"

lemma control_changed_simulates: "control_changed r m m' dec d d' \<Longrightarrow> control_simulates d d'"
  unfolding control_changed_def control_simulates_def by blast

lemma transition_step:
  assumes "\<forall>m\<in>set allowed. mode_allowed (Some m) m'"
  shows "control_simulates d (snd (transition clk r allowed m' dec now d))"
    and "control_inv d \<Longrightarrow> control_inv (snd (transition clk r allowed m' dec now d))"
  by (cases rule: transition_cases [OF assms, of clk r dec now d];
      simp add: control_changed_simulates; simp add: control_simulates_def)+

lemma control_step_ok:
  assumes "control_step d d'"
  shows "control_simulates d d'" and "control_inv d \<Longrightarrow> control_inv d'"
proof -
  have init: "control_simulates d (snd (initialize clk r dec now d))
      \<and> (control_inv d \<longrightarrow> control_inv (snd (initialize clk r dec now d)))" for clk r dec now
    by (cases rule: initialize_cases [of clk r dec now d])
       (auto simp: control_changed_simulates, simp add: control_simulates_def)
  have same: "control_simulates d d" by (simp add: control_simulates_def)
  from assms have "control_simulates d d' \<and> (control_inv d \<longrightarrow> control_inv d')"
  proof cases
    case elsewhere
    then show ?thesis
      by (auto simp: control_simulates_def control_inv_def mode_of_def find_control_def run_events_def)
  qed (use init same in \<open>auto simp: drain_def halt_def revoke_def resume_def intro!: transition_step\<close>)
  then show "control_simulates d d'" and "control_inv d \<Longrightarrow> control_inv d'" by blast+
qed

definition controls_empty :: "db \<Rightarrow> bool" where
  "controls_empty d \<longleftrightarrow> t_run_controls d = [] \<and> t_control_events d = []"

interpretation controls: transition_system controls_empty control_step control_inv
proof
  show "control_inv d" if "controls_empty d" for d
    using that by (simp add: controls_empty_def control_inv_def run_events_def mode_of_def find_control_def)
qed (rule control_step_ok)

section \<open>The interface its clients rely on\<close>

text \<open>
  What the stop policies and the resolution logic need of a control plane: a successful halt or
  drain leaves the run in that mode and came from a mode that allows it, a failed one changes
  nothing, and no other run is touched.
\<close>

locale stop_plane =
  fixes mode :: "string \<Rightarrow> 's \<Rightarrow> control_mode option"
    and halt_run :: "'a \<Rightarrow> string \<Rightarrow> 's \<Rightarrow> ('e + 'v) \<times> 's"
    and drain_run :: "'a \<Rightarrow> string \<Rightarrow> 's \<Rightarrow> ('e + 'v) \<times> 's"
  assumes halt_done: "halt_run a r s = (Inr v, t) \<Longrightarrow> mode r t = Some Halted"
    and drain_done: "drain_run a r s = (Inr v, t) \<Longrightarrow> mode r t = Some Drain"
    and halt_failed: "halt_run a r s = (Inl e, t) \<Longrightarrow> t = s"
    and drain_failed: "drain_run a r s = (Inl e, t) \<Longrightarrow> t = s"
    and halt_other: "r' \<noteq> r \<Longrightarrow> mode r' (snd (halt_run a r s)) = mode r' s"
    and drain_other: "r' \<noteq> r \<Longrightarrow> mode r' (snd (drain_run a r s)) = mode r' s"
begin

lemma halt_guarded:
  assumes "mode r s = Some m" and "m = Running \<or> m = Drain \<Longrightarrow> \<exists>v. fst (halt_run a r s) = Inr v"
  shows "mode r (if m = Running \<or> m = Drain then snd (halt_run a r s) else s) \<in> {Some Halted, Some Revoked}"
proof (cases "m = Running \<or> m = Drain")
  case True
  with assms(2) obtain v where "fst (halt_run a r s) = Inr v" by blast
  then have "halt_run a r s = (Inr v, snd (halt_run a r s))" by (simp add: prod_eq_iff)
  from halt_done [OF this] True show ?thesis by simp
next
  case False
  with assms(1) show ?thesis by (cases m) auto
qed

lemma drain_guarded:
  assumes "mode r s = Some m" and "m = Running \<Longrightarrow> \<exists>v. fst (drain_run a r s) = Inr v"
  shows "mode r (if m = Running then snd (drain_run a r s) else s) \<noteq> Some Running"
proof (cases "m = Running")
  case True
  with assms(2) obtain v where "fst (drain_run a r s) = Inr v" by blast
  then have "drain_run a r s = (Inr v, snd (drain_run a r s))" by (simp add: prod_eq_iff)
  from drain_done [OF this] True show ?thesis by simp
qed (use assms(1) in simp)

end

definition halt_call :: "int \<times> control_decision \<times> pydatetime option \<Rightarrow> string \<Rightarrow> db \<Rightarrow> control_state outcome" where
  "halt_call a r d = halt (fst a) r (fst (snd a)) (snd (snd a)) d"

definition drain_call :: "int \<times> control_decision \<times> pydatetime option \<Rightarrow> string \<Rightarrow> db \<Rightarrow> control_state outcome" where
  "drain_call a r d = drain (fst a) r (fst (snd a)) (snd (snd a)) d"

lemma stop_calls:
  assumes "op = halt \<and> m' = Halted \<or> op = drain \<and> m' = Drain \<or> op = revoke \<and> m' = Revoked"
  shows "op clk r dec now d = (Inr v, t) \<Longrightarrow> mode_of r t = Some m'"
    and "op clk r dec now d = (Inl e, t) \<Longrightarrow> t = d"
    and "r' \<noteq> r \<Longrightarrow> mode_of r' (snd (op clk r dec now d)) = mode_of r' d"
proof -
  have "\<exists>allowed. op = (\<lambda>clk r dec now. transition clk r allowed m' dec now) \<and> (\<forall>m\<in>set allowed. mode_allowed (Some m) m')"
    using assms
  proof (elim disjE)
    assume "op = halt \<and> m' = Halted"
    then show ?thesis by (intro exI [of _ "[Running, Drain]"]) (auto simp: halt_def [abs_def])
  next
    assume "op = revoke \<and> m' = Revoked"
    then show ?thesis by (intro exI [of _ "[Running, Drain, Halted]"]) (auto simp: revoke_def [abs_def])
  next
    assume "op = drain \<and> m' = Drain"
    then show ?thesis by (intro exI [of _ "[Running]"]) (auto simp: drain_def [abs_def])
  qed
  then obtain allowed where op: "op = (\<lambda>clk r dec now. transition clk r allowed m' dec now)"
    and ok: "\<forall>m\<in>set allowed. mode_allowed (Some m) m'" by blast
  show "op clk r dec now d = (Inr v, t) \<Longrightarrow> mode_of r t = Some m'"
    "op clk r dec now d = (Inl e, t) \<Longrightarrow> t = d"
    "r' \<noteq> r \<Longrightarrow> mode_of r' (snd (op clk r dec now d)) = mode_of r' d"
    unfolding op by (cases rule: transition_cases [OF ok, of clk r dec now d]; simp add: control_changed_def)+
qed

interpretation control_plane: stop_plane mode_of halt_call drain_call
  by unfold_locales (auto simp: halt_call_def drain_call_def intro: stop_calls)


section \<open>Properties\<close>

definition demo_decision :: "string \<Rightarrow> control_decision" where
  "demo_decision i = \<lparr>dc_decision_id = i, dc_decision_sha256 = replicate 64 CHR ''a'', dc_reason_code = ''manual'',
                      dc_approval_payload_sha256 = None\<rparr>"

definition demo_run :: db where
  "demo_run = empty_db\<lparr>t_runs := [\<lparr>rn_run_id = ''r'', rn_profile_id = ''p'', rn_plan_sha256 = [],
     rn_state = Run_other ''planned'', rn_created_at = 0\<rparr>]\<rparr>"

definition demo_running :: db where
  "demo_running = snd (initialize 0 ''r'' (demo_decision ''d0'') None demo_run)"

definition demo_halted :: db where
  "demo_halted = snd (halt 1 ''r'' (demo_decision ''d1'') None demo_running)"

definition demo_revoked :: db where
  "demo_revoked = snd (revoke 2 ''r'' (demo_decision ''d2'') None demo_halted)"

lemma demo_controls_reachable:
  "controls_empty demo_run" "control_step\<^sup>*\<^sup>* demo_run demo_halted" "control_step\<^sup>*\<^sup>* demo_run demo_revoked"
proof -
  show "controls_empty demo_run" by (simp add: controls_empty_def demo_run_def empty_db_def)
  have "control_step demo_run demo_running" "control_step demo_running demo_halted" "control_step demo_halted demo_revoked"
    unfolding demo_running_def demo_halted_def demo_revoked_def by (rule control_step.intros)+
  then show "control_step\<^sup>*\<^sup>* demo_run demo_halted" "control_step\<^sup>*\<^sup>* demo_run demo_revoked"
    by (meson rtranclp.rtrancl_into_rtrancl rtranclp.rtrancl_refl)+
qed

text \<open>
  C10: the append-only event log and the control row never disagree: in every reachable state,
  replaying the events of a run through the mode automaton succeeds and ends in the stored mode,
  the stored sequence is the number of events, and no decision occurs twice.
\<close>

theorem control_log_replays:
  assumes "controls_empty d0" and "control_step\<^sup>*\<^sup>* d0 d" and "c \<in> set (t_run_controls d)"
  shows "replay_modes None (run_events (rc_run_id c) d) = Some (Some (rc_mode c))
       \<and> rc_sequence c = int (length (run_events (rc_run_id c) d))
       \<and> distinct (map ce_decision_id (run_events (rc_run_id c) d))"
proof -
  have inv: "control_inv d" using assms(1,2) by (rule controls.reachable_inv)
  then have "find (\<lambda>x. Some (rc_run_id x) = Some (rc_run_id c)) (t_run_controls d) = Some c"
    using assms(3) by (intro uniq_on_find) (auto simp: control_inv_def)
  then have "mode_of (rc_run_id c) d = Some (rc_mode c)" by (simp add: mode_of_def find_control_def)
  moreover have "distinct (map ce_decision_id (filter (\<lambda>e. ce_run_id e = r) es))"
    if "uniq_on (\<lambda>e. Some (ce_run_id e, ce_decision_id e)) es" for es r
    using that by (induction es) (auto simp: uniq_on_def set_map_filter_xir)
  ultimately show ?thesis using inv assms(3) by (auto simp: control_inv_def run_events_def)
qed

theorem control_log_replays_witness:
  "replay_modes None (run_events ''r'' demo_halted) = Some (Some Halted)
   \<and> int (length (run_events ''r'' demo_halted)) = 2"
proof -
  have c: "t_run_controls demo_halted = [\<lparr>rc_run_id = ''r'', rc_mode = Halted, rc_reason_code = ''manual'',
      rc_decision_id = ''d1'', rc_decision_sha256 = replicate 64 CHR ''a'', rc_approval_payload_sha256 = None,
      rc_sequence = 2, rc_updated_at = 1\<rparr>]" by code_simp
  then show ?thesis
    using control_log_replays [OF demo_controls_reachable(1,2), of "hd (t_run_controls demo_halted)"] by simp
qed

text \<open>Revocation is terminal: once a run is revoked no sequence of calls changes its mode.\<close>

theorem revocation_terminal:
  assumes "control_step\<^sup>*\<^sup>* d d'" and "mode_of r d = Some Revoked"
  shows "mode_of r d' = Some Revoked"
  using assms
proof (induction rule: rtranclp_induct)
  case (step x y)
  then have "mode_of r x = Some Revoked" by simp
  with control_step_ok(1) [OF step.hyps(2)] show ?case
    by (auto simp: control_simulates_def) (metis mode_allowed.simps(5))
qed

theorem revocation_terminal_witness:
  "mode_of ''r'' (snd (resume 3 ''r'' (demo_decision ''d3'') False None demo_revoked)) = Some Revoked"
  by (rule revocation_terminal [of demo_revoked]) (blast intro: control_step.resume, code_simp)

text \<open>
  The signature gate. A signature is allowed exactly when the run's control row, the attempt and
  its condition are bound together, the mode is running (or draining and the stage is not a source
  stage), the attempt is in flight and its whole route reservation is in flight.
\<close>

theorem signature_gate:
  "assert_signature_allowed r a source kept d = Inr ()
     \<longleftrightarrow> attempt_in_run r d a
       \<and> (mode_of r d = Some Running \<or> mode_of r d = Some Drain \<and> \<not> source)
       \<and> (\<exists>x. find_attempt a d = Some x \<and> at_state x = A_in_flight)
       \<and> (\<exists>b\<in>set (t_budgets d). bg_attempt_id b = a)
       \<and> filter (\<lambda>b. bg_attempt_id b = a \<and> \<not> bg_source_in_flight b) (t_budgets d) = []"
proof -
  have modes: "(m \<noteq> Halted \<and> m \<noteq> Revoked) \<and> \<not> (m = Drain \<and> source) \<longleftrightarrow> m = Running \<or> m = Drain \<and> \<not> source" for m
    by (cases m) auto
  have some: "filter (\<lambda>b. bg_attempt_id b = a) (t_budgets d) \<noteq> [] \<longleftrightarrow> (\<exists>b\<in>set (t_budgets d). bg_attempt_id b = a)"
    by (auto simp: filter_empty_conv)
  have all: "list_all bg_source_in_flight (filter (\<lambda>b. bg_attempt_id b = a) (t_budgets d))
      \<longleftrightarrow> filter (\<lambda>b. bg_attempt_id b = a \<and> \<not> bg_source_in_flight b) (t_budgets d) = []"
    by (auto simp: list_all_iff filter_empty_conv)
  show ?thesis
    unfolding assert_signature_allowed_def Let_def exn_simps some all attempt_in_run_def mode_of_def
    by (auto split: option.splits) (metis modes)+
qed

text \<open>C13: after a halt or a revocation succeeded, no signature of that run is allowed.\<close>

theorem stop_blocks_signatures:
  assumes "halt clk r dec now d = (Inr st, d') \<or> revoke clk r dec now d = (Inr st, d')"
  shows "\<exists>e. assert_signature_allowed r a source kept d' = Inl e"
proof -
  have "mode_of r d' = Some Halted \<or> mode_of r d' = Some Revoked"
    using assms stop_calls(1) [of halt Halted] stop_calls(1) [of revoke Revoked] by blast
  then have "assert_signature_allowed r a source kept d' \<noteq> Inr ()"
    by (auto simp: assert_signature_allowed_def mode_of_def Let_def exn_simps)
  then show ?thesis by (cases "assert_signature_allowed r a source kept d'") auto
qed

theorem stop_blocks_signatures_witness:
  "\<exists>e. assert_signature_allowed ''r'' ''a'' False True demo_halted = Inl e"
proof -
  have "map_prod (\<lambda>r. case r of Inl _ \<Rightarrow> None | Inr s \<Rightarrow> Some (ct_mode s)) (\<lambda>_. ()) (halt 1 ''r'' (demo_decision ''d1'') None demo_running)
    = (Some Halted, ())" by code_simp
  then obtain st where "halt 1 ''r'' (demo_decision ''d1'') None demo_running = (Inr st, demo_halted)"
    by (cases "halt 1 ''r'' (demo_decision ''d1'') None demo_running") (auto simp: demo_halted_def split: sum.splits)
  then show ?thesis by (intro stop_blocks_signatures [of 1 "''r''" "demo_decision ''d1''" None demo_running]) blast
qed

text \<open>
  A decision identifier is used at most once per run: when an earlier event of the run carries
  it, every control method raises and leaves the database as it was.
\<close>

theorem decision_single_use:
  assumes "\<exists>e\<in>set (t_control_events d). ce_run_id e = r \<and> ce_decision_id e = dc_decision_id dec"
  shows "(\<exists>e. initialize clk r dec now d = (Inl e, d)) \<and> (\<exists>e. drain clk r dec now d = (Inl e, d))
    \<and> (\<exists>e. halt clk r dec now d = (Inl e, d)) \<and> (\<exists>e. revoke clk r dec now d = (Inl e, d))
    \<and> (\<exists>e. resume clk r dec changed now d = (Inl e, d))"
proof -
  have used: "\<not> control_changed r m m' (dc_decision_id dec) d d'" for m m' d'
    using assms by (auto simp: control_changed_def list_ex_iff)
  have move: "\<exists>e. transition clk r allowed m' dec now d = (Inl e, d)"
    if "\<forall>m\<in>set allowed. mode_allowed (Some m) m'" for allowed m'
    by (cases rule: transition_cases [OF that, of clk r dec now d]) (use used in auto)
  have "\<exists>e. initialize clk r dec now d = (Inl e, d)"
    by (cases rule: initialize_cases [of clk r dec now d]) (use used in auto)
  then show ?thesis by (auto simp: drain_def halt_def revoke_def resume_def intro!: move)
qed

theorem decision_single_use_witness:
  "\<exists>e. resume 5 ''r'' (demo_decision ''d1'') False None demo_halted = (Inl e, demo_halted)"
proof -
  have "list_ex (\<lambda>e. ce_run_id e = ''r'' \<and> ce_decision_id e = dc_decision_id (demo_decision ''d1'')) (t_control_events demo_halted)"
    by code_simp
  then show ?thesis using decision_single_use [of demo_halted "''r''" "demo_decision ''d1''" 5 None False]
    by (simp add: list_ex_iff)
qed

section \<open>A halt the control plane does not see\<close>

text \<open>
  When a reorganized lineage cannot be restored, \<^verbatim>\<open>reopen_after_reorganization\<close> sets the
  state of the run to halted but not its control mode: the mode, and with it the answer of the
  signature gate to every question, is the same as before.
\<close>

theorem reorg_halt_not_in_control_plane:
  assumes "reopen_after_reorganization clk L v now d = (Inl (BudgetError BE_reorg_not_restored), d')"
  shows "\<exists>s n b. lineage L d = Inr (s, n, b)
      \<and> find_run (bg_run_id b) d' = map_option (rn_state_update (\<lambda>_. Run_mode Halted)) (find_run (bg_run_id b) d)
      \<and> (\<exists>x\<in>set (t_violations d'). iv_violation_id x = v \<and> iv_run_id x = bg_run_id b)
      \<and> mode_of r d' = mode_of r d
      \<and> assert_signature_allowed r a source kept d' = assert_signature_allowed r a source kept d"
proof -
  have "reopen_txn L v at d \<noteq> Inl (BudgetError BE_reorg_not_restored)" for at
    by (auto simp: reopen_txn_def reopen_included_def reopen_finalized_def halt_after_reorg_def lineage_def
        update_budget_amounts_def change_totals_def change_run_totals_def change_batch_totals_def
        exn_simps Let_def split: sum.splits exn.splits if_splits)
  with assms obtain at where run: "reopen_txn L v at d = Inr (False, d')"
    by (auto simp: reopen_after_reorganization_def store_write_def utc_of_def
        split: sum.splits bool.splits prod.splits option.splits pydatetime.splits)
  then obtain s n b e where lin: "lineage L d = Inr (s, n, b)"
    and halt: "halt_after_reorg v L (bg_run_id b) e (sb_chain_id s) d = Inr d'"
    by (auto simp: reopen_txn_def exn_simps split: if_splits sum.splits exn.splits)
  have runs: "find_run (bg_run_id b) d' = map_option (rn_state_update (\<lambda>_. Run_mode Halted)) (find_run (bg_run_id b) d)"
    using halt find_run_set_state [of "bg_run_id b" "Run_mode Halted" d]
    by (auto simp: halt_after_reorg_def exn_simps find_run_def)
  have same: "t_run_controls d' = t_run_controls d" "t_attempts d' = t_attempts d" "t_conditions d' = t_conditions d"
    "t_budgets d' = t_budgets d"
    using halt by (auto simp: halt_after_reorg_def exn_simps set_run_state_def)
  then have "mode_of r d' = mode_of r d"
    "assert_signature_allowed r a source kept d' = assert_signature_allowed r a source kept d"
    by (simp_all add: mode_of_def find_control_def assert_signature_allowed_def find_attempt_def find_condition_def)
  with lin runs halt show ?thesis by (auto simp: halt_after_reorg_def exn_simps)
qed


definition demo_poor :: db where
  "demo_poor = snd (initialize 0 ''r'' (demo_decision ''d0'') None (snd (configure_limits 0 ''r''
     (map (lim_observed_runner_balance_wei_update (\<lambda>_. 9)) demo_limits) None demo_finalized)))"

theorem reorg_halt_not_in_control_plane_witness:
  "map rn_state (t_runs (snd (reopen_after_reorganization 0 ''L'' ''v'' None demo_poor))) = [Run_mode Halted]
   \<and> mode_of ''r'' (snd (reopen_after_reorganization 0 ''L'' ''v'' None demo_poor)) = Some Running
   \<and> assert_signature_allowed ''r'' ''a'' True False (snd (reopen_after_reorganization 0 ''L'' ''v'' None demo_poor)) = Inr ()"
proof -
  let ?d = "snd (reopen_after_reorganization 0 ''L'' ''v'' None demo_poor)"
  have "fst (reopen_after_reorganization 0 ''L'' ''v'' None demo_poor) = Inl (BudgetError BE_reorg_not_restored)"
    by code_simp
  then have run: "reopen_after_reorganization 0 ''L'' ''v'' None demo_poor = (Inl (BudgetError BE_reorg_not_restored), ?d)"
    by (simp add: prod_eq_iff)
  have "mode_of ''r'' demo_poor = Some Running" "assert_signature_allowed ''r'' ''a'' True False demo_poor = Inr ()"
    by code_simp+
  moreover have "map rn_state (t_runs ?d) = [Run_mode Halted]" by code_simp
  ultimately show ?thesis
    using reorg_halt_not_in_control_plane [OF run, of "''r''" "''a''" True False] by auto
qed

end
