(* ===== verification/Xir_Floats.thy ===== *)
theory Xir_Floats
  imports Xir_Prelude
begin

text \<open>
  Binary floating-point numbers of the program: \<open>(m, e)\<close> is \<open>m * 2 ^ e\<close> with a non-negative mantissa, and
  every operation rounds to 53 bits, half to even. The exponent range of binary64 is not limited, which the
  magnitudes of the program (durations, rates and counts) never come near.
\<close>

function bit_len :: "int \<Rightarrow> nat" where
  "bit_len n = (if n \<le> 0 then 0 else Suc (bit_len (n div 2)))"
  by auto
termination by (relation "measure nat") auto

declare bit_len.simps [simp del]

type_synonym pyfloat = "int \<times> int"

definition round53 :: "int \<Rightarrow> int \<Rightarrow> pyfloat" where
  "round53 m e =
     (let k = bit_len m - 53; q = m div 2 ^ k; r = m mod 2 ^ k
      in if k = 0 then (m, e)
         else (if 2 * r > 2 ^ k \<or> 2 * r = 2 ^ k \<and> odd q then q + 1 else q, e + int k))"

definition float_of_int :: "int \<Rightarrow> pyfloat" where
  "float_of_int n = round53 n 0"

definition float_mult :: "pyfloat \<Rightarrow> pyfloat \<Rightarrow> pyfloat" where
  "float_mult x y = round53 (fst x * fst y) (snd x + snd y)"

definition int_ge_float :: "int \<Rightarrow> pyfloat \<Rightarrow> bool" where
  "int_ge_float c x = (if 0 \<le> snd x then c \<ge> fst x * 2 ^ nat (snd x) else c * 2 ^ nat (- snd x) \<ge> fst x)"

text \<open>
  The correctly rounded quotient of two non-negative integers: a quotient with at least 64 bits and a sticky
  bit for the remainder, rounded once.
\<close>

definition float_quotient :: "int \<Rightarrow> int \<Rightarrow> pyfloat" where
  "float_quotient a b =
     (let k = 64 + bit_len b; n = a * 2 ^ k
      in round53 (2 * (n div b) + (if n mod b = 0 then 0 else 1)) (- int k - 1))"

definition float_trunc :: "pyfloat \<Rightarrow> int" where
  "float_trunc x = (if 0 \<le> snd x then fst x * 2 ^ nat (snd x) else fst x div 2 ^ nat (- snd x))"

text \<open>
  \<^verbatim>\<open>int(delta.total_seconds() * 1_000)\<close> for a difference of two instants in microseconds: division,
  multiplication and truncation toward zero are symmetric in the sign.
\<close>

definition total_milliseconds :: "int \<Rightarrow> int" where
  "total_milliseconds us =
     sgn us * float_trunc (float_mult (float_quotient \<bar>us\<bar> 1000000) (float_of_int 1000))"

end
