(* ===== verification/Xir_Stop_Policies.thy ===== *)
theory Xir_Stop_Policies
  imports Xir_Controls Xir_Floats
begin

text \<open>
  \<^verbatim>\<open>execute/stop_policies.py\<close>: every evaluated threshold is recorded and a trigger durably halts
  or drains the run through the control plane. \<open>h\<close> is the lowercase hexadecimal SHA-256 of the
  canonical (RFC 8785) serialization of a JSON value, a parameter because the serialization is a
  third-party package. \<open>JFloat m e\<close> is the binary64 number \<open>m * 2 ^ e\<close>; the product of the
  failure rate and the window is rounded to 53 bits, ties to even, as the hardware does. Ages in whole
  seconds truncate the exact difference of two instants, which is what the code's conversion through a
  float yields for differences below 272 years.
\<close>

section \<open>Canonical numbers\<close>

fun jcs_safe :: "json \<Rightarrow> json" where
  "jcs_safe (JInt i) = (if abs i > 9007199254740991 then JStr (str_int i) else JInt i)"
| "jcs_safe (JList xs) = JList (map jcs_safe xs)"
| "jcs_safe (JObj xs) = JObj (map (\<lambda>(k, v). (k, jcs_safe v)) xs)"
| "jcs_safe JNull = JNull"
| "jcs_safe (JBool b) = JBool b"
| "jcs_safe (JFloat m e) = JFloat m e"
| "jcs_safe (JTime t) = JTime t"
| "jcs_safe (JStr s) = JStr s"

section \<open>Policies\<close>

record financial_policy =
  fp_max_quote_age_seconds :: int
  fp_max_quote_movement_bps :: int

record execution_policy =
  xp_consecutive_failures :: int
  xp_rolling_window :: int
  xp_rolling_failure_rate :: pyfloat
  xp_timeout_count :: int
  xp_nonce_gap_action :: string
  xp_rpc_disagreement_action :: string
  xp_reorganization_action :: string

record operations_policy =
  op_collector_backlog :: int
  op_collector_heartbeat_seconds :: int
  op_disk_floor_bytes :: int

record quote_observation =
  qo_quote_id :: string
  qo_quoted_at :: pydatetime
  qo_amount_wei :: int
  qo_reference_amount_wei :: int

record policy_result =
  pr_event_id :: string
  pr_policy_code :: string
  pr_triggered :: bool

record engine =
  en_financial :: financial_policy
  en_execution :: "execution_policy option"
  en_operations :: "operations_policy option"

definition policy_utc :: "int \<Rightarrow> pydatetime option \<Rightarrow> exn + int" where
  "policy_utc clk value = utc_of (StopPolicyError SP_naive_time) clk value"

definition check_execution_policy :: "execution_policy \<Rightarrow> exn + unit" where
  "check_execution_policy x =
     bindE (ensure (\<not> min (xp_consecutive_failures x) (min (xp_rolling_window x) (xp_timeout_count x)) < 1)
              (StopPolicyError SP_count_thresholds)) (\<lambda>_.
     bindE (ensure (0 \<le> fst (xp_rolling_failure_rate x) \<and> int_ge_float 1 (xp_rolling_failure_rate x))
              (StopPolicyError SP_rate_range)) (\<lambda>_.
     ensure ({xp_nonce_gap_action x, xp_rpc_disagreement_action x, xp_reorganization_action x} = {''halt''})
              (StopPolicyError SP_actions_not_halt)))"

definition check_operations_policy :: "operations_policy \<Rightarrow> exn + unit" where
  "check_operations_policy p =
     bindE (ensure (\<not> min (op_collector_backlog p)
                        (min (op_collector_heartbeat_seconds p) (op_disk_floor_bytes p)) < 0)
              (StopPolicyError SP_negative_operations_threshold)) (\<lambda>_.
     ensure (op_collector_heartbeat_seconds p \<noteq> 0) (StopPolicyError SP_heartbeat_threshold))"

definition make_engine ::
  "financial_policy \<Rightarrow> execution_policy option \<Rightarrow> operations_policy option \<Rightarrow> exn + engine" where
  "make_engine financial execution operations =
     bindE (ensure (\<not> fp_max_quote_age_seconds financial < 0) (StopPolicyError SP_negative_quote_age)) (\<lambda>_.
     bindE (ensure (\<not> fp_max_quote_movement_bps financial < 0) (StopPolicyError SP_negative_quote_movement)) (\<lambda>_.
     bindE (case execution of None \<Rightarrow> Inr () | Some x \<Rightarrow> check_execution_policy x) (\<lambda>_.
     bindE (case operations of None \<Rightarrow> Inr () | Some p \<Rightarrow> check_operations_policy p) (\<lambda>_.
     Inr \<lparr>en_financial = financial, en_execution = execution, en_operations = operations\<rparr>))))"

definition execution_policy_of :: "engine \<Rightarrow> exn + execution_policy" where
  "execution_policy_of en = require (en_execution en) (StopPolicyError SP_execution_not_configured)"

definition operations_policy_of :: "engine \<Rightarrow> exn + operations_policy" where
  "operations_policy_of en = require (en_operations en) (StopPolicyError SP_operations_not_configured)"

section \<open>Recording and stopping\<close>

definition category_text :: "policy_category \<Rightarrow> string" where
  "category_text c = (case c of Financial \<Rightarrow> ''financial'' | Execution \<Rightarrow> ''execution''
                      | Evidence_operations \<Rightarrow> ''evidence_operations'')"

definition policy_event_id ::
  "(json \<Rightarrow> string) \<Rightarrow> string \<Rightarrow> policy_category \<Rightarrow> string \<Rightarrow> json \<Rightarrow> json \<Rightarrow> int \<Rightarrow> string" where
  "policy_event_id h run_id category policy_code threshold observed occurred =
     ''stop_'' @ take 24 (h (jcs_safe (JObj
       [(''run_id'', JStr run_id), (''category'', JStr (category_text category)),
        (''policy_code'', JStr policy_code), (''threshold'', threshold), (''observed'', observed),
        (''occurred_at'', JTime occurred)])))"

definition find_policy_event :: "string \<Rightarrow> db \<Rightarrow> policy_event_row option" where
  "find_policy_event i db = find (\<lambda>e. pe_event_id e = i) (t_policy_events db)"

definition record_event_txn ::
  "string \<Rightarrow> string \<Rightarrow> policy_category \<Rightarrow> string \<Rightarrow> bool \<Rightarrow> json \<Rightarrow> json \<Rightarrow> int \<Rightarrow> policy_result txn" where
  "record_event_txn event_id run_id category policy_code triggered threshold observed occurred db =
     (let result = \<lparr>pr_event_id = event_id, pr_policy_code = policy_code, pr_triggered = triggered\<rparr>
      in if find_policy_event event_id db = None \<and> find_run run_id db \<noteq> None
         then Inr (result, db\<lparr>t_policy_events := t_policy_events db @
                [\<lparr>pe_event_id = event_id, pe_run_id = run_id, pe_category = category,
                  pe_policy_code = policy_code, pe_triggered = triggered,
                  pe_threshold = jcs_safe threshold, pe_observed = jcs_safe observed,
                  pe_occurred_at = occurred\<rparr>]\<rparr>)
         else bindE (ensure (case find_policy_event event_id db of None \<Rightarrow> False
                             | Some e \<Rightarrow> (pe_run_id e, pe_category e, pe_policy_code e, pe_triggered e)
                                        = (run_id, category, policy_code, triggered))
                       (StopPolicyError SP_event_collision)) (\<lambda>_. Inr (result, db)))"

definition record_event ::
  "(json \<Rightarrow> string) \<Rightarrow> string \<Rightarrow> policy_category \<Rightarrow> string \<Rightarrow> bool \<Rightarrow> json \<Rightarrow> json \<Rightarrow> int \<Rightarrow> db
     \<Rightarrow> policy_result outcome" where
  "record_event h run_id category policy_code triggered threshold observed occurred =
     store_write (record_event_txn
       (policy_event_id h run_id category policy_code threshold observed occurred)
       run_id category policy_code triggered threshold observed occurred)"

definition stop_decision :: "(json \<Rightarrow> string) \<Rightarrow> string \<Rightarrow> policy_result \<Rightarrow> string \<Rightarrow> control_decision" where
  "stop_decision h run_id result policy_code =
     \<lparr>dc_decision_id = pr_event_id result,
      dc_decision_sha256 = h (JObj [(''event_id'', JStr (pr_event_id result)), (''run_id'', JStr run_id),
                                    (''policy_code'', JStr policy_code)]),
      dc_reason_code = policy_code, dc_approval_payload_sha256 = None\<rparr>"

text \<open>The \<^verbatim>\<open>try\<close> block: a control error becomes a stop-policy error, anything else escapes.\<close>

definition establish_stop ::
  "int \<Rightarrow> string \<Rightarrow> control_mode \<Rightarrow> control_decision \<Rightarrow> int \<Rightarrow> db \<Rightarrow> unit outcome" where
  "establish_stop clk run_id triggered_mode decision occurred db =
     (let attempt = (case control_state_of run_id db of
            Inl e \<Rightarrow> (Inl e, db)
          | Inr state \<Rightarrow>
              if triggered_mode = Halted \<and> (ct_mode state = Running \<or> ct_mode state = Drain)
              then halt clk run_id decision (Some (Aware occurred)) db
              else if triggered_mode = Drain \<and> ct_mode state = Running
              then drain clk run_id decision (Some (Aware occurred)) db
              else (Inr state, db))
      in case attempt of
           (Inl (ControlError _), db') \<Rightarrow> (Inl (StopPolicyError SP_stop_not_established), db')
         | (Inl e, db') \<Rightarrow> (Inl e, db')
         | (Inr _, db') \<Rightarrow> (Inr (), db'))"

definition record_and_stop ::
  "(json \<Rightarrow> string) \<Rightarrow> int \<Rightarrow> string \<Rightarrow> policy_category \<Rightarrow> string \<Rightarrow> bool \<Rightarrow> json \<Rightarrow> json
     \<Rightarrow> pydatetime option \<Rightarrow> control_mode \<Rightarrow> db \<Rightarrow> policy_result outcome" where
  "record_and_stop h clk run_id category policy_code triggered threshold observed checked_at triggered_mode db =
     (case policy_utc clk checked_at of
        Inl e \<Rightarrow> (Inl e, db)
      | Inr occurred \<Rightarrow>
          (case record_event h run_id category policy_code triggered threshold observed occurred db of
             (Inl e, db1) \<Rightarrow> (Inl e, db1)
           | (Inr result, db1) \<Rightarrow>
               if \<not> triggered then (Inr result, db1)
               else (case establish_stop clk run_id triggered_mode
                            (stop_decision h run_id result policy_code) occurred db1 of
                       (Inl e, db2) \<Rightarrow> (Inl e, db2)
                     | (Inr _, db2) \<Rightarrow> (Inr result, db2))))"

text \<open>A check that fails before it records anything.\<close>

definition guarded :: "exn + 'a \<Rightarrow> ('a \<Rightarrow> db \<Rightarrow> 'b outcome) \<Rightarrow> db \<Rightarrow> 'b outcome" where
  "guarded m f db = (case m of Inl e \<Rightarrow> (Inl e, db) | Inr a \<Rightarrow> f a db)"

section \<open>Financial checks\<close>

record budget_use =
  bu_max_transaction :: int
  bu_max_batch :: int
  bu_max_run :: int
  bu_min_balance :: int
  bu_batch_use :: int
  bu_run_use :: int
  bu_remaining :: int

definition budget_usage :: "string \<Rightarrow> string \<Rightarrow> int \<Rightarrow> int \<Rightarrow> db \<Rightarrow> exn + budget_use" where
  "budget_usage run_id batch_id chain_id requested_wei db =
     bindE (ensure (int64 chain_id) OverflowError) (\<lambda>_.
     bindE (require (find_limit run_id chain_id db) (StopPolicyError SP_missing_limits)) (\<lambda>limit.
     bindE (require (find_total run_id chain_id db) (StopPolicyError SP_missing_limits)) (\<lambda>tot.
     let batch = find_batch_total run_id batch_id chain_id db;
         batch_reserved = (case batch of None \<Rightarrow> 0 | Some b \<Rightarrow> bb_active_reserved_wei b);
         batch_finalized = (case batch of None \<Rightarrow> 0 | Some b \<Rightarrow> bb_finalized_wei b)
     in Inr \<lparr>bu_max_transaction = bl_max_transaction_wei limit, bu_max_batch = bl_max_batch_wei limit,
             bu_max_run = bl_max_run_wei limit, bu_min_balance = bl_minimum_runner_balance_wei limit,
             bu_batch_use = batch_reserved + batch_finalized + requested_wei,
             bu_run_use = bt_active_reserved_wei tot + bt_finalized_wei tot + requested_wei,
             bu_remaining = bl_observed_runner_balance_wei limit - bt_active_reserved_wei tot - requested_wei\<rparr>)))"

definition budget_code :: "int \<Rightarrow> budget_use \<Rightarrow> string" where
  "budget_code requested_wei u =
     (if requested_wei > bu_max_transaction u then ''transaction_budget_exhausted''
      else if bu_batch_use u > bu_max_batch u then ''batch_budget_exhausted''
      else if bu_run_use u > bu_max_run u then ''run_budget_exhausted''
      else if bu_remaining u < bu_min_balance u then ''runner_balance_floor''
      else ''financial_budget_pass'')"

definition check_budget ::
  "(json \<Rightarrow> string) \<Rightarrow> int \<Rightarrow> string \<Rightarrow> string \<Rightarrow> int \<Rightarrow> int \<Rightarrow> pydatetime option \<Rightarrow> db
     \<Rightarrow> policy_result outcome" where
  "check_budget h clk run_id batch_id chain_id requested_wei checked_at db =
     guarded (bindE (ensure (\<not> requested_wei < 0) (StopPolicyError SP_negative_request)) (\<lambda>_.
              budget_usage run_id batch_id chain_id requested_wei db))
       (\<lambda>u. let code = budget_code requested_wei u
            in record_and_stop h clk run_id Financial code (code \<noteq> ''financial_budget_pass'')
                 (JObj [(''max_transaction_wei'', JInt (bu_max_transaction u)),
                        (''max_batch_wei'', JInt (bu_max_batch u)), (''max_run_wei'', JInt (bu_max_run u)),
                        (''minimum_runner_balance_wei'', JInt (bu_min_balance u))])
                 (JObj [(''chain_id'', JInt chain_id), (''batch_id'', JStr batch_id),
                        (''requested_wei'', JInt requested_wei), (''batch_use_wei'', JInt (bu_batch_use u)),
                        (''run_use_wei'', JInt (bu_run_use u)),
                        (''remaining_balance_wei'', JInt (bu_remaining u))])
                 checked_at Halted) db"

definition age_in_seconds :: "int \<Rightarrow> int \<Rightarrow> int" where
  "age_in_seconds now t = max 0 ((now - t) div 1000000)"

definition quote_movement_exceeded :: "int \<Rightarrow> int \<Rightarrow> int \<Rightarrow> bool" where
  "quote_movement_exceeded bps amount reference =
     (if reference = 0 then amount \<noteq> 0 else abs (amount - reference) * 10000 > reference * bps)"

definition quote_code :: "financial_policy \<Rightarrow> int \<Rightarrow> quote_observation \<Rightarrow> string" where
  "quote_code policy age q =
     (if age > fp_max_quote_age_seconds policy then ''quote_age_exceeded''
      else if quote_movement_exceeded (fp_max_quote_movement_bps policy) (qo_amount_wei q)
                (qo_reference_amount_wei q) then ''quote_movement_exceeded''
      else ''financial_quote_pass'')"

definition check_quote ::
  "(json \<Rightarrow> string) \<Rightarrow> engine \<Rightarrow> int \<Rightarrow> string \<Rightarrow> quote_observation \<Rightarrow> pydatetime option \<Rightarrow> db
     \<Rightarrow> policy_result outcome" where
  "check_quote h en clk run_id q checked_at db =
     guarded (bindE (policy_utc clk checked_at) (\<lambda>checked.
              bindE (policy_utc clk (Some (qo_quoted_at q))) (\<lambda>quoted.
              bindE (ensure (\<not> (qo_amount_wei q < 0 \<or> qo_reference_amount_wei q < 0))
                       (StopPolicyError SP_negative_quote)) (\<lambda>_. Inr (checked, quoted)))))
       (\<lambda>(checked, quoted).
          let age = age_in_seconds checked quoted; code = quote_code (en_financial en) age q
          in record_and_stop h clk run_id Financial code (code \<noteq> ''financial_quote_pass'')
               (JObj [(''max_quote_age_seconds'', JInt (fp_max_quote_age_seconds (en_financial en))),
                      (''max_quote_movement_bps'', JInt (fp_max_quote_movement_bps (en_financial en)))])
               (JObj [(''quote_id'', JStr (qo_quote_id q)), (''quoted_at'', JTime quoted),
                      (''checked_at'', JTime checked), (''age_seconds'', JInt age),
                      (''amount_wei'', JInt (qo_amount_wei q)),
                      (''reference_amount_wei'', JInt (qo_reference_amount_wei q)),
                      (''movement_numerator'', JInt (abs (qo_amount_wei q - qo_reference_amount_wei q) * 10000)),
                      (''movement_denominator'', JInt (qo_reference_amount_wei q))])
               (Some (Aware checked)) Halted) db"


section \<open>Execution checks\<close>

definition run_outcomes :: "string \<Rightarrow> db \<Rightarrow> outcome_row list" where
  "run_outcomes run_id db = filter (\<lambda>x. xo_run_id x = run_id) (t_outcomes db)"

text \<open>The insert, and the two queries made in the same transaction.\<close>

definition record_outcome_txn ::
  "string \<Rightarrow> string \<Rightarrow> bool \<Rightarrow> bool \<Rightarrow> int \<Rightarrow> int \<Rightarrow> (outcome_row list \<times> int) txn" where
  "record_outcome_txn run_id outcome_id failed timed_out occurred window db =
     bindE (ensure (\<not> list_ex (\<lambda>x. xo_outcome_id x = outcome_id) (t_outcomes db) \<and> find_run run_id db \<noteq> None)
              (StopPolicyError SP_duplicate_outcome)) (\<lambda>_.
     bindE (ensure (int64 window) OverflowError) (\<lambda>_.
     let db' = db\<lparr>t_outcomes := t_outcomes db @
           [\<lparr>xo_outcome_id = outcome_id, xo_run_id = run_id, xo_failed = failed, xo_timed_out = timed_out,
             xo_occurred_at = occurred\<rparr>]\<rparr>
     in Inr ((take (nat window) (rev (run_outcomes run_id db')),
              int (length (filter xo_timed_out (run_outcomes run_id db')))), db')))"

definition failure_streak :: "outcome_row list \<Rightarrow> int" where
  "failure_streak recent = int (length (takeWhile xo_failed recent))"

definition failure_count :: "outcome_row list \<Rightarrow> int" where
  "failure_count recent = int (length (filter xo_failed recent))"

definition rolling_exceeded :: "execution_policy \<Rightarrow> outcome_row list \<Rightarrow> bool" where
  "rolling_exceeded p recent \<longleftrightarrow>
     int (length recent) = xp_rolling_window p \<and> failure_count recent > 0
   \<and> int_ge_float (failure_count recent)
       (float_mult (xp_rolling_failure_rate p) (float_of_int (xp_rolling_window p)))"

definition outcome_code :: "execution_policy \<Rightarrow> outcome_row list \<Rightarrow> int \<Rightarrow> string" where
  "outcome_code p recent timeout_total =
     (if failure_streak recent \<ge> xp_consecutive_failures p then ''consecutive_failures''
      else if rolling_exceeded p recent then ''rolling_failure_rate''
      else if timeout_total \<ge> xp_timeout_count p then ''timeout_count''
      else ''execution_outcome_pass'')"

definition record_execution_outcome ::
  "(json \<Rightarrow> string) \<Rightarrow> engine \<Rightarrow> int \<Rightarrow> string \<Rightarrow> string \<Rightarrow> bool \<Rightarrow> bool \<Rightarrow> pydatetime option \<Rightarrow> db
     \<Rightarrow> policy_result outcome" where
  "record_execution_outcome h en clk run_id outcome_id failed timed_out occurred_at db =
     guarded (bindE (execution_policy_of en) (\<lambda>p.
              bindE (ensure (outcome_id \<noteq> []) (StopPolicyError SP_empty_outcome_id)) (\<lambda>_.
              bindE (policy_utc clk occurred_at) (\<lambda>occurred. Inr (p, occurred)))))
       (\<lambda>(p, occurred) db0.
          (case store_write (record_outcome_txn run_id outcome_id failed timed_out occurred
                               (xp_rolling_window p)) db0 of
             (Inl e, db1) \<Rightarrow> (Inl e, db1)
           | (Inr (recent, timeout_total), db1) \<Rightarrow>
               let code = outcome_code p recent timeout_total
               in record_and_stop h clk run_id Execution code (code \<noteq> ''execution_outcome_pass'')
                    (JObj [(''consecutive_failures'', JInt (xp_consecutive_failures p)),
                           (''rolling_window'', JInt (xp_rolling_window p)),
                           (''rolling_failure_rate'', JFloat (fst (xp_rolling_failure_rate p))
                                                             (snd (xp_rolling_failure_rate p))),
                           (''timeout_count'', JInt (xp_timeout_count p))])
                    (JObj [(''outcome_id'', JStr outcome_id), (''failed'', JBool failed),
                           (''timed_out'', JBool timed_out),
                           (''consecutive_failures'', JInt (failure_streak recent)),
                           (''rolling_observations'', JInt (int (length recent))),
                           (''rolling_failures'', JInt (failure_count recent)),
                           (''timeout_total'', JInt timeout_total)])
                    (Some (Aware occurred)) Halted db1)) db"

definition check_nonce_gap ::
  "(json \<Rightarrow> string) \<Rightarrow> engine \<Rightarrow> int \<Rightarrow> string \<Rightarrow> int \<Rightarrow> int \<Rightarrow> int \<Rightarrow> pydatetime option \<Rightarrow> db
     \<Rightarrow> policy_result outcome" where
  "check_nonce_gap h en clk run_id chain_id expected_nonce observed_nonce checked_at db =
     guarded (bindE (execution_policy_of en) (\<lambda>p.
              bindE (ensure (\<not> min expected_nonce observed_nonce < 0) (StopPolicyError SP_negative_nonce)) (\<lambda>_.
              Inr p)))
       (\<lambda>p. let triggered = (expected_nonce \<noteq> observed_nonce)
            in record_and_stop h clk run_id Execution
                 (if triggered then ''nonce_gap'' else ''nonce_contiguous'') triggered
                 (JObj [(''action'', JStr (xp_nonce_gap_action p))])
                 (JObj [(''chain_id'', JInt chain_id), (''expected_nonce'', JInt expected_nonce),
                        (''observed_nonce'', JInt observed_nonce)])
                 checked_at Halted) db"

text \<open>A \<^verbatim>\<open>dict\<close> argument is an association list with distinct keys.\<close>

definition check_rpc_agreement ::
  "(json \<Rightarrow> string) \<Rightarrow> engine \<Rightarrow> int \<Rightarrow> string \<Rightarrow> string \<Rightarrow> (string \<times> string) list \<Rightarrow> pydatetime option \<Rightarrow> db
     \<Rightarrow> policy_result outcome" where
  "check_rpc_agreement h en clk run_id subject_id provider_digests checked_at db =
     guarded (bindE (execution_policy_of en) (\<lambda>p.
              bindE (ensure (\<not> length provider_digests < 2) (StopPolicyError SP_too_few_providers)) (\<lambda>_.
              Inr p)))
       (\<lambda>p. let triggered = (length (remdups (map snd provider_digests)) \<noteq> 1)
            in record_and_stop h clk run_id Execution
                 (if triggered then ''rpc_disagreement'' else ''rpc_agreement'') triggered
                 (JObj [(''action'', JStr (xp_rpc_disagreement_action p))])
                 (JObj [(''subject_id'', JStr subject_id),
                        (''provider_digests'',
                           JObj (map (\<lambda>(k, v). (k, JStr v)) (sorted_items provider_digests)))])
                 checked_at Halted) db"

definition check_reorganization ::
  "(json \<Rightarrow> string) \<Rightarrow> engine \<Rightarrow> int \<Rightarrow> string \<Rightarrow> int \<Rightarrow> int \<Rightarrow> string \<Rightarrow> string \<Rightarrow> pydatetime option \<Rightarrow> db
     \<Rightarrow> policy_result outcome" where
  "check_reorganization h en clk run_id chain_id block_number prior_block_hash current_block_hash checked_at db =
     guarded (bindE (execution_policy_of en) (\<lambda>p.
              bindE (ensure (\<not> block_number < 0) (StopPolicyError SP_negative_block)) (\<lambda>_. Inr p)))
       (\<lambda>p. let triggered = (prior_block_hash \<noteq> current_block_hash)
            in record_and_stop h clk run_id Execution
                 (if triggered then ''chain_reorganization'' else ''canonical_block_match'') triggered
                 (JObj [(''action'', JStr (xp_reorganization_action p))])
                 (JObj [(''chain_id'', JInt chain_id), (''block_number'', JInt block_number),
                        (''prior_block_hash'', JStr prior_block_hash),
                        (''current_block_hash'', JStr current_block_hash)])
                 checked_at Halted) db"

section \<open>Operations checks and manual stops\<close>

definition operations_code :: "operations_policy \<Rightarrow> int \<Rightarrow> int \<Rightarrow> int \<Rightarrow> string \<times> control_mode" where
  "operations_code p backlog heartbeat_age disk =
     (if disk < op_disk_floor_bytes p then (''disk_floor'', Halted)
      else if heartbeat_age > op_collector_heartbeat_seconds p then (''collector_heartbeat_loss'', Drain)
      else if backlog > op_collector_backlog p then (''collector_backlog'', Drain)
      else (''evidence_operations_pass'', Drain))"

definition check_evidence_operations ::
  "(json \<Rightarrow> string) \<Rightarrow> engine \<Rightarrow> int \<Rightarrow> string \<Rightarrow> int \<Rightarrow> pydatetime \<Rightarrow> int \<Rightarrow> pydatetime option \<Rightarrow> db
     \<Rightarrow> policy_result outcome" where
  "check_evidence_operations h en clk run_id backlog heartbeat_at disk checked_at db =
     guarded (bindE (operations_policy_of en) (\<lambda>p.
              bindE (policy_utc clk checked_at) (\<lambda>checked.
              bindE (policy_utc clk (Some heartbeat_at)) (\<lambda>heartbeat.
              bindE (ensure (\<not> (backlog < 0 \<or> disk < 0)) (StopPolicyError SP_negative_operations)) (\<lambda>_.
              Inr (p, checked, heartbeat))))))
       (\<lambda>(p, checked, heartbeat).
          let age = age_in_seconds checked heartbeat; (code, mode) = operations_code p backlog age disk
          in record_and_stop h clk run_id Evidence_operations code (code \<noteq> ''evidence_operations_pass'')
               (JObj [(''collector_backlog'', JInt (op_collector_backlog p)),
                      (''collector_heartbeat_seconds'', JInt (op_collector_heartbeat_seconds p)),
                      (''disk_floor_bytes'', JInt (op_disk_floor_bytes p))])
               (JObj [(''collector_backlog'', JInt backlog), (''collector_heartbeat_at'', JTime heartbeat),
                      (''collector_heartbeat_age_seconds'', JInt age),
                      (''disk_available_bytes'', JInt disk)])
               (Some (Aware checked)) mode) db"

text \<open>\<open>halting\<close> distinguishes the two values \<^verbatim>\<open>"halted"\<close> and \<^verbatim>\<open>"drain"\<close> of the mode argument.\<close>

definition manual_stop ::
  "(json \<Rightarrow> string) \<Rightarrow> int \<Rightarrow> string \<Rightarrow> bool \<Rightarrow> control_decision \<Rightarrow> pydatetime option \<Rightarrow> db
     \<Rightarrow> policy_result outcome" where
  "manual_stop h clk run_id halting decision checked_at db =
     guarded (policy_utc clk checked_at)
       (\<lambda>occurred db0.
          (case (if halting then halt clk run_id decision (Some (Aware occurred)) db0
                 else drain clk run_id decision (Some (Aware occurred)) db0) of
             (Inl e, db1) \<Rightarrow> (Inl e, db1)
           | (Inr _, db1) \<Rightarrow> record_event h run_id Evidence_operations
                 (if halting then ''manual_halt'' else ''manual_drain'') True
                 (JObj [(''mode'', JStr (if halting then ''halted'' else ''drain''))])
                 (JObj [(''decision_id'', JStr (dc_decision_id decision)),
                        (''reason_code'', JStr (dc_reason_code decision))]) occurred db1)) db"

section \<open>What a trigger guarantees\<close>

lemma record_event_effect:
  assumes "record_event h r cat code trig thr obs at d = (Inr res, d')"
  shows "pr_event_id res = policy_event_id h r cat code thr obs at" "pr_policy_code res = code" "pr_triggered res = trig"
    "\<exists>e. find_policy_event (pr_event_id res) d' = Some e
       \<and> (pe_run_id e, pe_category e, pe_policy_code e, pe_triggered e) = (r, cat, code, trig)"
    "t_run_controls d' = t_run_controls d" "t_control_events d' = t_control_events d" "t_runs d' = t_runs d"
proof -
  from assms have run: "record_event_txn (policy_event_id h r cat code thr obs at) r cat code trig thr obs at d = Inr (res, d')"
    by (auto simp: record_event_def store_write_def split: sum.splits)
  then show "pr_event_id res = policy_event_id h r cat code thr obs at" "pr_policy_code res = code" "pr_triggered res = trig"
    "t_run_controls d' = t_run_controls d" "t_control_events d' = t_control_events d" "t_runs d' = t_runs d"
    by (auto simp: record_event_txn_def Let_def exn_simps split: if_splits)
  from run show "\<exists>e. find_policy_event (pr_event_id res) d' = Some e
       \<and> (pe_run_id e, pe_category e, pe_policy_code e, pe_triggered e) = (r, cat, code, trig)"
    by (auto simp: record_event_txn_def Let_def exn_simps find_policy_event_def find_append
        split: if_splits option.splits)
qed

text \<open>
  A stop requested through the control plane, by the client lemmas of its interface: if
  \<open>establish_stop\<close> returns, the run is stopped.
\<close>

lemma establish_stop_done:
  assumes "establish_stop clk r m dec at d = (Inr u, d')" and "m = Halted \<or> m = Drain"
  shows "mode_of r d' \<noteq> Some Running" and "mode_of r d' \<noteq> None"
    and "m = Halted \<Longrightarrow> mode_of r d' = Some Halted \<or> mode_of r d' = Some Revoked"
proof -
  from assms(1) obtain st where st: "control_state_of r d = Inr st"
    by (cases "control_state_of r d") (auto simp: establish_stop_def Let_def split: exn.splits)
  then have mode: "mode_of r d = Some (ct_mode st)"
    by (auto simp: control_state_of_def exn_simps mode_of_def state_of_row_def)
  let ?a = "(clk, dec, Some (Aware at))"
  show "m = Halted \<Longrightarrow> mode_of r d' = Some Halted \<or> mode_of r d' = Some Revoked"
    using control_plane.halt_guarded [OF mode, of ?a] assms(1) st
    by (auto simp: establish_stop_def Let_def halt_call_def split: prod.splits sum.splits exn.splits if_splits)
  moreover have "mode_of r d' \<noteq> Some Running \<and> mode_of r d' \<noteq> None" if "m = Drain"
    using control_plane.drain_done [of ?a r d] control_plane.drain_guarded [OF mode, of ?a] assms(1) st that mode
    by (auto simp: establish_stop_def Let_def drain_call_def split: prod.splits sum.splits exn.splits if_splits)
  ultimately show "mode_of r d' \<noteq> Some Running" and "mode_of r d' \<noteq> None" using assms(2) by auto
qed


lemma record_and_stop_done:
  assumes "record_and_stop h clk r cat code trig thr obs checked m d = (Inr res, d')"
    and "m = Halted \<or> m = Drain"
  shows "pr_triggered res = trig \<and> pr_policy_code res = code
    \<and> (\<exists>e. find_policy_event (pr_event_id res) d' = Some e
        \<and> (pe_run_id e, pe_category e, pe_policy_code e, pe_triggered e) = (r, cat, code, trig))
    \<and> (trig \<longrightarrow> mode_of r d' \<noteq> Some Running \<and> mode_of r d' \<noteq> None
        \<and> (m = Halted \<longrightarrow> mode_of r d' = Some Halted \<or> mode_of r d' = Some Revoked))"
proof -
  from assms(1) obtain at d1 where at: "policy_utc clk checked = Inr at"
    and ev: "record_event h r cat code trig thr obs at d = (Inr res, d1)"
    and rest: "if \<not> trig then d' = d1
               else establish_stop clk r m (stop_decision h r res code) at d1 = (Inr (), d')"
    by (auto simp: record_and_stop_def split: sum.splits prod.splits if_splits)
  note eff = record_event_effect [OF ev]
  have "t_policy_events d' = t_policy_events d1"
  proof (cases trig)
    case True
    with rest have "establish_stop clk r m (stop_decision h r res code) at d1 = (Inr (), d')" by simp
    then show ?thesis
      by (auto simp: establish_stop_def Let_def halt_def drain_def transition_def then_state_def store_write_def
          transition_txn_def control_event_def append_transition_def set_run_state_def exn_simps
          split: sum.splits prod.splits exn.splits if_splits)
  qed (use rest in simp)
  with eff(4) have "\<exists>e. find_policy_event (pr_event_id res) d' = Some e
        \<and> (pe_run_id e, pe_category e, pe_policy_code e, pe_triggered e) = (r, cat, code, trig)"
    by (simp add: find_policy_event_def)
  moreover have "trig \<longrightarrow> mode_of r d' \<noteq> Some Running \<and> mode_of r d' \<noteq> None
        \<and> (m = Halted \<longrightarrow> mode_of r d' = Some Halted \<or> mode_of r d' = Some Revoked)"
    using rest establish_stop_done [OF _ assms(2), of clk r "stop_decision h r res code" at d1 "()" d'] by auto
  ultimately show ?thesis using eff(2,3) by blast
qed

text \<open>Every check that returns has gone through \<open>record_and_stop\<close>.\<close>

definition halting_check :: "(json \<Rightarrow> string) \<Rightarrow> int \<Rightarrow> string \<Rightarrow> policy_result \<Rightarrow> db \<Rightarrow> bool" where
  "halting_check h clk r res d' \<longleftrightarrow>
     (\<exists>cat code trig thr obs checked d0. record_and_stop h clk r cat code trig thr obs checked Halted d0 = (Inr res, d'))"

lemma halting_checks:
  "check_budget h clk r batch chain wei checked d = (Inr res, d') \<Longrightarrow> halting_check h clk r res d'"
  "check_quote h en clk r q checked d = (Inr res, d') \<Longrightarrow> halting_check h clk r res d'"
  "record_execution_outcome h en clk r outcome failed timed_out checked d = (Inr res, d') \<Longrightarrow> halting_check h clk r res d'"
  "check_nonce_gap h en clk r chain expected observed checked d = (Inr res, d') \<Longrightarrow> halting_check h clk r res d'"
  "check_rpc_agreement h en clk r subject digests checked d = (Inr res, d') \<Longrightarrow> halting_check h clk r res d'"
  "check_reorganization h en clk r chain block prior current checked d = (Inr res, d') \<Longrightarrow> halting_check h clk r res d'"
  unfolding check_budget_def check_quote_def record_execution_outcome_def check_nonce_gap_def
    check_rpc_agreement_def check_reorganization_def guarded_def Let_def halting_check_def
  by (simp split: sum.splits; blast)
     (simp split: sum.splits prod.splits; blast)+

text \<open>
  A triggered check stops the run. Whenever one of the checks whose action is to halt returns a
  triggered result, the run is halted or revoked afterwards and the event that says so is recorded
  under the identifier of the result.
\<close>

theorem triggered_check_halts:
  assumes "check_budget h clk r batch chain wei checked d = (Inr res, d')
     \<or> check_quote h en clk r q checked d = (Inr res, d')
     \<or> record_execution_outcome h en clk r outcome failed timed_out checked d = (Inr res, d')
     \<or> check_nonce_gap h en clk r chain expected observed checked d = (Inr res, d')
     \<or> check_rpc_agreement h en clk r subject digests checked d = (Inr res, d')
     \<or> check_reorganization h en clk r chain block prior current checked d = (Inr res, d')"
    and "pr_triggered res"
  shows "(mode_of r d' = Some Halted \<or> mode_of r d' = Some Revoked)
       \<and> (\<exists>e. find_policy_event (pr_event_id res) d' = Some e \<and> pe_run_id e = r \<and> pe_triggered e
              \<and> pe_policy_code e = pr_policy_code res)"
proof -
  from assms(1) have "halting_check h clk r res d'" by (elim disjE) (rule halting_checks, assumption)+
  then obtain cat code trig thr obs checked' d0 where
    "record_and_stop h clk r cat code trig thr obs checked' Halted d0 = (Inr res, d')"
    by (auto simp: halting_check_def)
  from record_and_stop_done [OF this] assms(2) show ?thesis by auto
qed

definition demo_hash :: "json \<Rightarrow> string" where
  "demo_hash j = replicate 64 CHR ''a''"

definition demo_checked :: "policy_result outcome" where
  "demo_checked = check_budget demo_hash 5 ''r'' ''b'' 1 60 None demo_poor"

theorem triggered_check_halts_witness:
  "pr_policy_code (projr (fst demo_checked)) = ''transaction_budget_exhausted''
   \<and> (mode_of ''r'' (snd demo_checked) = Some Halted \<or> mode_of ''r'' (snd demo_checked) = Some Revoked)"
proof -
  have ok: "(case fst demo_checked of Inl _ \<Rightarrow> False | Inr x \<Rightarrow> pr_triggered x \<and> pr_policy_code x = ''transaction_budget_exhausted'')"
    by code_simp
  then obtain x where x: "fst demo_checked = Inr x" "pr_triggered x" "pr_policy_code x = ''transaction_budget_exhausted''"
    by (auto split: sum.splits)
  then have "check_budget demo_hash 5 ''r'' ''b'' 1 60 None demo_poor = (Inr x, snd demo_checked)"
    by (simp add: demo_checked_def prod_eq_iff)
  then show ?thesis
    using triggered_check_halts [of demo_hash 5 "''r''" "''b''" 1 60 None demo_poor x "snd demo_checked"] x by simp
qed

text \<open>
  A trigger does stop a running run: with the control row running, digests that are SHA-256 text
  and an event identifier not used before by an event or a decision of the run, recording a trigger
  returns and leaves the run halted.
\<close>

theorem trigger_stops_running_run:
  assumes "mode_of r d = Some Running" and "find_run r d \<noteq> None" and "\<forall>j. is_sha256_hex (h j)" and "code \<noteq> []"
    and "find_policy_event (policy_event_id h r cat code thr obs at) d = None"
    and "list_all (\<lambda>e. ce_run_id e \<noteq> r \<or> ce_decision_id e \<noteq> policy_event_id h r cat code thr obs at) (t_control_events d)"
    and "list_all (\<lambda>c. rc_run_id c = r \<longrightarrow> int64 (rc_sequence c + 1)) (t_run_controls d)"
  shows "\<exists>res d'. record_and_stop h clk r cat code True thr obs (Some (Aware at)) Halted d = (Inr res, d')
           \<and> pr_triggered res \<and> mode_of r d' = Some Halted"
proof -
  let ?id = "policy_event_id h r cat code thr obs at"
  obtain d1 res where ev: "record_event h r cat code True thr obs at d = (Inr res, d1)"
    using assms(2,5) by (auto simp: record_event_def store_write_def record_event_txn_def Let_def)
  note eff = record_event_effect [OF ev]
  let ?dec = "stop_decision h r res code"
  from assms(1) obtain c where c: "find_control r d = Some c" "rc_mode c = Running" by (auto simp: mode_of_def)
  then have c1: "find_control r d1 = Some c" by (simp add: find_control_def eff)
  have "policy_event_id h r cat code thr obs at \<noteq> []" by (simp add: policy_event_id_def)
  then have valid: "validate_decision ?dec = Inr ()"
    using assms(3,4) by (simp add: validate_decision_def stop_decision_def check_digest_def eff(1))
  have "int64 (rc_sequence c + 1)" using assms(7) find_controlD [OF c(1)] by (auto simp: list_all_iff)
  moreover have "\<not> list_ex (\<lambda>e. ce_run_id e = r \<and> ce_decision_id e = dc_decision_id ?dec) (t_control_events d1)"
    using assms(6) by (auto simp: stop_decision_def eff list_ex_iff list_all_iff)
  ultimately obtain d2 where run: "transition_txn clk r [Running, Drain] Halted ?dec at d1 = Inr ((), d2)"
    using c1 c(2) by (auto simp: transition_txn_def control_event_def set_run_state_def)
  then have w: "store_write (transition_txn clk r [Running, Drain] Halted ?dec at) d1 = (Inr (), d2)"
    by (simp add: store_write_def)
  have mode: "mode_of r d2 = Some Halted"
    using transition_effect(1) [OF run] by (auto simp: control_changed_def)
  from then_state_commit [OF mode, of "()"] w valid obtain st where
    "halt clk r ?dec (Some (Aware at)) d1 = (Inr st, d2)"
    by (auto simp: halt_def transition_def control_time_def)
  then have "establish_stop clk r Halted ?dec at d1 = (Inr (), d2)"
    using c1 c(2) by (simp add: establish_stop_def control_state_of_def state_of_row_def)
  with ev mode eff(3) show ?thesis by (simp add: record_and_stop_def policy_utc_def)
qed


theorem trigger_stops_running_run_witness:
  "\<exists>res d'. record_and_stop demo_hash 5 ''r'' Financial ''quote_age_exceeded'' True JNull JNull (Some (Aware 5)) Halted demo_running
     = (Inr res, d') \<and> pr_triggered res \<and> mode_of ''r'' d' = Some Halted"
proof (rule trigger_stops_running_run)
  show "\<forall>j. is_sha256_hex (demo_hash j)" by (simp add: demo_hash_def is_sha256_hex_def list_all_iff)
  show "find_run ''r'' demo_running \<noteq> None" by code_simp
  show "mode_of ''r'' demo_running = Some Running"
    "find_policy_event (policy_event_id demo_hash ''r'' Financial ''quote_age_exceeded'' JNull JNull 5) demo_running = None"
    "list_all (\<lambda>e. ce_run_id e \<noteq> ''r'' \<or> ce_decision_id e \<noteq> policy_event_id demo_hash ''r'' Financial
        ''quote_age_exceeded'' JNull JNull 5) (t_control_events demo_running)"
    "list_all (\<lambda>c. rc_run_id c = ''r'' \<longrightarrow> int64 (rc_sequence c + 1)) (t_run_controls demo_running)"
    by code_simp+
qed simp

text \<open>
  The financial stop policy and the reservation code agree: for the same request, the budget
  check passes exactly when the request is within the transaction limit and the capacity check of
  \<^verbatim>\<open>reserve_complete_route\<close> accepts it.
\<close>

theorem budget_policy_agrees_with_capacity:
  assumes "budget_usage r b c wei d = Inr u"
  shows "budget_code wei u = ''financial_budget_pass''
     \<longleftrightarrow> wei \<le> bu_max_transaction u \<and> assert_capacity r b c wei 0 d = Inr ()"
  using assms
  by (auto simp: budget_usage_def budget_code_def assert_capacity_def budget_limit_of_def Let_def exn_simps
      split: option.splits if_splits)

theorem budget_policy_agrees_with_capacity_witness:
  "assert_capacity ''r'' ''b'' 1 9 0 demo_reserved = Inr ()
   \<and> (\<exists>u. budget_usage ''r'' ''b'' 1 9 demo_reserved = Inr u \<and> budget_code 9 u = ''financial_budget_pass'')"
proof -
  have "(case budget_usage ''r'' ''b'' 1 9 demo_reserved of Inl _ \<Rightarrow> False
         | Inr u \<Rightarrow> budget_code 9 u = ''financial_budget_pass'')" by code_simp
  then obtain u where "budget_usage ''r'' ''b'' 1 9 demo_reserved = Inr u" "budget_code 9 u = ''financial_budget_pass''"
    by (auto split: sum.splits)
  then show ?thesis using budget_policy_agrees_with_capacity [of "''r''" "''b''" 1 9 demo_reserved u] by blast
qed

section \<open>Failure thresholds\<close>

lemma takeWhile_ge: "n \<le> length (takeWhile P xs) \<longleftrightarrow> n \<le> length xs \<and> list_all P (take n xs)"
proof (induction xs arbitrary: n)
  case (Cons x xs)
  show ?case by (cases n) (auto simp: Cons.IH)
qed simp

text \<open>
  The consecutive-failure rule. With \<open>n\<close> the positive threshold and \<open>w\<close> the rolling window,
  the code \<^verbatim>\<open>consecutive_failures\<close> is chosen exactly when \<open>n\<close> does not exceed the window,
  the run has at least \<open>n\<close> outcomes and the last \<open>n\<close> of them failed. In particular a threshold
  above the window can never trigger, however many outcomes fail.
\<close>

theorem consecutive_failures_rule:
  assumes "1 \<le> xp_consecutive_failures p"
  shows "outcome_code p (take (nat (xp_rolling_window p)) (rev outcomes)) timeouts = ''consecutive_failures''
     \<longleftrightarrow> xp_consecutive_failures p \<le> xp_rolling_window p
       \<and> xp_consecutive_failures p \<le> int (length outcomes)
       \<and> list_all xo_failed (take (nat (xp_consecutive_failures p)) (rev outcomes))"
proof -
  let ?n = "nat (xp_consecutive_failures p)" and ?w = "nat (xp_rolling_window p)"
  have "outcome_code p (take ?w (rev outcomes)) timeouts = ''consecutive_failures''
      \<longleftrightarrow> failure_streak (take ?w (rev outcomes)) \<ge> xp_consecutive_failures p"
    by (simp add: outcome_code_def)
  also have "\<dots> \<longleftrightarrow> ?n \<le> length (takeWhile xo_failed (take ?w (rev outcomes)))"
    using assms by (simp add: failure_streak_def nat_le_iff)
  also have "\<dots> \<longleftrightarrow> ?n \<le> ?w \<and> ?n \<le> length outcomes \<and> list_all xo_failed (take ?n (rev outcomes))"
    unfolding takeWhile_ge by (auto simp: min_def)
  finally show ?thesis using assms by (simp add: nat_le_iff)
qed

definition demo_policy :: "int \<Rightarrow> int \<Rightarrow> execution_policy" where
  "demo_policy n w = \<lparr>xp_consecutive_failures = n, xp_rolling_window = w, xp_rolling_failure_rate = (1, 0),
     xp_timeout_count = 99, xp_nonce_gap_action = ''halt'', xp_rpc_disagreement_action = ''halt'',
     xp_reorganization_action = ''halt''\<rparr>"

definition demo_outcomes :: "nat \<Rightarrow> outcome_row list" where
  "demo_outcomes n = map (\<lambda>i. \<lparr>xo_outcome_id = str_nat i, xo_run_id = ''r'', xo_failed = True, xo_timed_out = False,
     xo_occurred_at = int i\<rparr>) [0..<n]"

theorem consecutive_failures_rule_witness:
  "outcome_code (demo_policy 2 3) (take (nat 3) (rev (demo_outcomes 4))) 0 = ''consecutive_failures''
   \<and> outcome_code (demo_policy 4 3) (take (nat 3) (rev (demo_outcomes 50))) 0 \<noteq> ''consecutive_failures''"
  using consecutive_failures_rule [of "demo_policy 2 3" "demo_outcomes 4" 0]
    consecutive_failures_rule [of "demo_policy 4 3" "demo_outcomes 50" 0]
  by (simp add: demo_policy_def demo_outcomes_def list_all_iff take_map rev_map in_set_conv_nth)

text \<open>
  The rolling rule compares in binary floating point: with the rate 0.07 (whose nearest double is
  \<open>5044031582654956 * 2 ^ -56\<close>) and a window of 100, seven failures do not reach the threshold,
  because the rounded product is just above 7.
\<close>

lemma seven_percent_of_hundred:
  "float_mult (5044031582654956, - 56) (float_of_int 100) = (7881299347898369, - 50)
   \<and> \<not> int_ge_float 7 (float_mult (5044031582654956, - 56) (float_of_int 100))
   \<and> int_ge_float 8 (float_mult (5044031582654956, - 56) (float_of_int 100))"
  by code_simp

end
