(* ===== verification/Xir_Profiles.thy ===== *)
theory Xir_Profiles
  imports Xir_Errors
begin

text \<open>
  \<^verbatim>\<open>config/profiles.py\<close>: execution profiles, the count identities each kind of profile must have,
  the gates between template and live profiles and the materialization of a live pilot. Reading the
  file and the JSON-schema check of \<^verbatim>\<open>load_execution_profile\<close> are outside the model: its
  profile is the value the constructor built from a document that passed the schema.
\<close>

datatype profile_mode = Template | Live

datatype profile_kind = K_pilot | K_primary | K_scale

record profile_counts =
  pc_pair_slots_per_condition :: int
  pc_planned_pair_slots :: int
  pc_designated_attempt_kind :: string
  pc_planned_designated_attempts :: int
  pc_warmups_per_condition_arm :: int
  pc_planned_warmup_attempts :: int
  pc_planned_total_non_retry_attempts :: int
  pc_retry_attempts_in_designated_count :: bool

record live_limits =
  ll_max_retries_per_lineage :: "int option"
  ll_max_batch_attempts :: "int option"
  ll_max_duration_seconds :: "int option"
  ll_max_in_flight_attempts :: "int option"
  ll_chain_budget_wei :: "(string \<times> int option) list"
  ll_stop_policy :: "json option"
  ll_allow_partial_conditions :: "bool option"

record derivation =
  dv_kind :: string
  dv_run_id :: "string option"
  dv_freeze_sha256 :: "string option"
  dv_reconciled :: "bool option"

record execution_profile =
  ep_profile_id :: string
  ep_profile_version :: int
  ep_profile_mode :: profile_mode
  ep_profile_kind :: profile_kind
  ep_approval_operation_type :: profile_kind
  ep_fixed_seed :: string
  ep_conditions :: "string list"
  ep_counts :: profile_counts
  ep_live_limits :: live_limits
  ep_derived_from :: derivation

definition executable :: "execution_profile \<Rightarrow> bool" where
  "executable p \<longleftrightarrow> ep_profile_mode p = Live"

definition kind_text :: "profile_kind \<Rightarrow> string" where
  "kind_text k = (case k of K_pilot \<Rightarrow> ''pilot'' | K_primary \<Rightarrow> ''primary'' | K_scale \<Rightarrow> ''scale'')"

definition expected_counts :: "profile_kind \<Rightarrow> int \<times> int \<times> string \<times> int \<times> int \<times> int \<times> int" where
  "expected_counts k =
     (case k of K_pilot \<Rightarrow> (5, 20, ''pilot'', 40, 0, 0, 40)
      | K_primary \<Rightarrow> (30, 120, ''primary'', 240, 1, 8, 248)
      | K_scale \<Rightarrow> (1250, 5000, ''primary'', 10000, 0, 0, 10000))"

definition validate_counts :: "execution_profile \<Rightarrow> exn + unit" where
  "validate_counts p =
     (let c = ep_counts p
      in bindE (ensure ((pc_pair_slots_per_condition c, pc_planned_pair_slots c, pc_designated_attempt_kind c,
                  pc_planned_designated_attempts c, pc_warmups_per_condition_arm c,
                  pc_planned_warmup_attempts c, pc_planned_total_non_retry_attempts c)
                 = expected_counts (ep_profile_kind p) \<and> \<not> pc_retry_attempts_in_designated_count c)
               (ProfileError PF_count_identity)) (\<lambda>_.
         ensure (ep_approval_operation_type p = ep_profile_kind p) (ProfileError PF_approval_type)))"

definition derivation_tuple :: "derivation \<Rightarrow> string \<times> string option \<times> string option \<times> bool option" where
  "derivation_tuple d = (dv_kind d, dv_run_id d, dv_freeze_sha256 d, dv_reconciled d)"

definition limit_values :: "live_limits \<Rightarrow> int option list" where
  "limit_values l = [ll_max_retries_per_lineage l, ll_max_batch_attempts l, ll_max_duration_seconds l,
                     ll_max_in_flight_attempts l] @ map snd (ll_chain_budget_wei l)"

definition validate_mode :: "execution_profile \<Rightarrow> exn + unit" where
  "validate_mode p =
     (let l = ep_live_limits p; d = ep_derived_from p; k = ep_profile_kind p
      in if ep_profile_mode p = Template
         then bindE (ensure (list_all (\<lambda>v. v = None) (limit_values l)) (ProfileError PF_template_limits)) (\<lambda>_.
              bindE (ensure (ll_stop_policy l = None \<and> ll_allow_partial_conditions l = None)
                       (ProfileError PF_template_executable)) (\<lambda>_.
              ensure (derivation_tuple d
                      = ((case k of K_pilot \<Rightarrow> ''none'' | K_primary \<Rightarrow> ''pilot'' | K_scale \<Rightarrow> ''primary''),
                         None, None, None)) (ProfileError PF_derivation)))
         else bindE (ensure (list_all (\<lambda>v. v \<noteq> None) (limit_values l)) (ProfileError PF_live_limits)) (\<lambda>_.
              bindE (ensure (ll_stop_policy l \<noteq> None \<and> ll_allow_partial_conditions l \<noteq> None)
                       (ProfileError PF_live_policy)) (\<lambda>_.
              if k = K_pilot
              then ensure (derivation_tuple d = (''none'', None, None, None)) (ProfileError PF_derivation)
              else ensure (dv_kind d = (if k = K_primary then ''pilot'' else ''primary'')
                           \<and> dv_run_id d \<noteq> None \<and> dv_freeze_sha256 d \<noteq> None
                           \<and> dv_reconciled d = Some True) (ProfileError PF_reconciled_freeze))))"

definition materialize_live_pilot :: "execution_profile \<Rightarrow> string \<Rightarrow> live_limits \<Rightarrow> exn + execution_profile" where
  "materialize_live_pilot template profile_id limits =
     bindE (ensure (ep_profile_mode template = Template \<and> ep_profile_kind template = K_pilot \<and> profile_id \<noteq> [])
              (ProfileError PF_not_pilot_template)) (\<lambda>_.
     let profile = template\<lparr>ep_profile_id := profile_id, ep_profile_mode := Live, ep_live_limits := limits\<rparr>
     in bindE (validate_counts profile) (\<lambda>_.
        bindE (validate_mode profile) (\<lambda>_.
        bindE (ensure (ll_allow_partial_conditions (ep_live_limits profile) = Some False)
                 (ProfileError PF_partial_conditions)) (\<lambda>_.
        Inr profile))))"

section \<open>Properties\<close>

text \<open>The arithmetic the constants of the count table encode, for four conditions and two arms.\<close>

lemma counts_consistent:
  assumes "validate_counts p = Inr ()"
  shows "pc_planned_pair_slots (ep_counts p) = 4 * pc_pair_slots_per_condition (ep_counts p)"
    and "pc_planned_designated_attempts (ep_counts p) = 2 * pc_planned_pair_slots (ep_counts p)"
    and "pc_planned_warmup_attempts (ep_counts p) = 4 * 2 * pc_warmups_per_condition_arm (ep_counts p)"
    and "pc_planned_total_non_retry_attempts (ep_counts p)
         = pc_planned_designated_attempts (ep_counts p) + pc_planned_warmup_attempts (ep_counts p)"
    and "pc_designated_attempt_kind (ep_counts p) \<in> {''pilot'', ''primary''}"
    and "0 < pc_pair_slots_per_condition (ep_counts p)" and "0 \<le> pc_warmups_per_condition_arm (ep_counts p)"
  using assms
  by (auto simp: validate_counts_def expected_counts_def Let_def exn_simps split: profile_kind.splits)

text \<open>
  The live gate. A live pilot made from a template is executable, keeps the template's kind,
  seed, conditions and counts, has every scalar limit and every chain budget resolved, a stop policy,
  and does not allow partial conditions; and nothing but a pilot template can be materialized.
\<close>

theorem materialized_pilot_is_bounded:
  assumes "materialize_live_pilot t i l = Inr p"
  shows "executable p \<and> ep_profile_kind t = K_pilot \<and> ep_profile_mode t = Template
       \<and> ep_profile_kind p = K_pilot \<and> ep_fixed_seed p = ep_fixed_seed t \<and> ep_conditions p = ep_conditions t
       \<and> ep_counts p = ep_counts t \<and> list_all (\<lambda>v. v \<noteq> None) (limit_values (ep_live_limits p))
       \<and> ll_stop_policy (ep_live_limits p) \<noteq> None \<and> ll_allow_partial_conditions (ep_live_limits p) = Some False
       \<and> dv_run_id (ep_derived_from p) = None
       \<and> pc_planned_total_non_retry_attempts (ep_counts p) = 40"
  using assms
  by (auto simp: materialize_live_pilot_def validate_mode_def validate_counts_def expected_counts_def
      executable_def derivation_tuple_def Let_def exn_simps)

definition demo_template :: execution_profile where
  "demo_template = \<lparr>ep_profile_id = ''t'', ep_profile_version = 1, ep_profile_mode = Template,
     ep_profile_kind = K_pilot, ep_approval_operation_type = K_pilot, ep_fixed_seed = ''s'',
     ep_conditions = [''hh'', ''hl'', ''lh'', ''ll''],
     ep_counts = \<lparr>pc_pair_slots_per_condition = 5, pc_planned_pair_slots = 20,
        pc_designated_attempt_kind = ''pilot'', pc_planned_designated_attempts = 40,
        pc_warmups_per_condition_arm = 0, pc_planned_warmup_attempts = 0,
        pc_planned_total_non_retry_attempts = 40, pc_retry_attempts_in_designated_count = False\<rparr>,
     ep_live_limits = \<lparr>ll_max_retries_per_lineage = None, ll_max_batch_attempts = None,
        ll_max_duration_seconds = None, ll_max_in_flight_attempts = None, ll_chain_budget_wei = [(''1'', None)],
        ll_stop_policy = None, ll_allow_partial_conditions = None\<rparr>,
     ep_derived_from = \<lparr>dv_kind = ''none'', dv_run_id = None, dv_freeze_sha256 = None, dv_reconciled = None\<rparr>\<rparr>"

definition demo_live_limits :: live_limits where
  "demo_live_limits = \<lparr>ll_max_retries_per_lineage = Some 1, ll_max_batch_attempts = Some 3,
     ll_max_duration_seconds = Some 60, ll_max_in_flight_attempts = Some 2, ll_chain_budget_wei = [(''1'', Some 7)],
     ll_stop_policy = Some JNull, ll_allow_partial_conditions = Some False\<rparr>"

definition demo_live :: execution_profile where
  "demo_live = demo_template\<lparr>ep_profile_id := ''live'', ep_profile_mode := Live, ep_live_limits := demo_live_limits\<rparr>"

theorem materialized_pilot_is_bounded_witness:
  "materialize_live_pilot demo_template ''live'' demo_live_limits = Inr demo_live \<and> executable demo_live"
proof -
  have "materialize_live_pilot demo_template ''live'' demo_live_limits = Inr demo_live"
    by (simp add: materialize_live_pilot_def validate_mode_def validate_counts_def expected_counts_def Let_def
        derivation_tuple_def limit_values_def demo_template_def demo_live_limits_def demo_live_def)
  from this materialized_pilot_is_bounded [OF this] show ?thesis by blast
qed

end
