(* ===== verification/Xir_Scheduler.thy ===== *)
theory Xir_Scheduler
  imports Xir_Profiles
begin

text \<open>
  \<^verbatim>\<open>execute/scheduler.py\<close>: expansion of a profile into a deterministic plan and the bounded
  dispatch of that plan. \<open>h\<close> is the hexadecimal SHA-256 of the canonical serialization of a JSON
  value (a parameter, as the serialization is a third-party package). The attributes of
  \<^verbatim>\<open>BoundedScheduler\<close> are a record; its dictionaries are lists of scheduled attempts keyed by
  their identifier in insertion order, its set of completed identifiers is a list without repetition.
\<close>

section \<open>Plans\<close>

datatype sched_arm = S_baseline | S_xir

datatype sched_kind = S_pilot | S_warmup | S_primary | S_retry

record scheduled_attempt =
  sa_attempt_id :: string
  sa_condition :: string
  sa_arm :: sched_arm
  sa_attempt_kind :: sched_kind
  sa_pair_id :: "string option"
  sa_pair_slot_index :: "int option"
  sa_retry_of :: "string option"
  sa_retry_index :: "int option"
  sa_sequence_index :: int
  sa_batch_index :: int

record execution_plan =
  pl_plan_id :: string
  pl_run_id :: string
  pl_profile_id :: string
  pl_fixed_seed :: string
  pl_profile_kind :: profile_kind
  pl_executable :: bool
  pl_max_retries_per_lineage :: "int option"
  pl_max_batch_attempts :: "int option"
  pl_max_in_flight_attempts :: "int option"
  pl_attempts :: "scheduled_attempt list"
  pl_plan_sha256 :: string

definition planned_pair_slots :: "execution_plan \<Rightarrow> nat" where
  "planned_pair_slots plan = length (remdups (List.map_filter sa_pair_id (pl_attempts plan)))"

definition planned_non_retry_attempts :: "execution_plan \<Rightarrow> nat" where
  "planned_non_retry_attempts plan = length (filter (\<lambda>x. sa_attempt_kind x \<noteq> S_retry) (pl_attempts plan))"

definition arm_text :: "sched_arm \<Rightarrow> string" where
  "arm_text a = (case a of S_baseline \<Rightarrow> ''baseline'' | S_xir \<Rightarrow> ''xir'')"

definition sched_kind_text :: "sched_kind \<Rightarrow> string" where
  "sched_kind_text k = (case k of S_pilot \<Rightarrow> ''pilot'' | S_warmup \<Rightarrow> ''warmup'' | S_primary \<Rightarrow> ''primary''
                        | S_retry \<Rightarrow> ''retry'')"

text \<open>\<^verbatim>\<open>stable_id\<close> of \<^verbatim>\<open>evidence/records.py\<close>.\<close>

definition stable_id :: "(json \<Rightarrow> string) \<Rightarrow> string \<Rightarrow> json list \<Rightarrow> string" where
  "stable_id h kind components =
     kind @ ''_'' @ take 24 (h (JObj [(''kind'', JStr kind), (''components'', JList components)]))"

definition seeded_key :: "(json \<Rightarrow> string) \<Rightarrow> string \<Rightarrow> string \<Rightarrow> json list \<Rightarrow> string" where
  "seeded_key h seed domain coordinates =
     h (JObj [(''domain'', JStr domain), (''seed'', JStr seed), (''coordinates'', JList coordinates)])"

definition json_opt :: "('a \<Rightarrow> json) \<Rightarrow> 'a option \<Rightarrow> json" where
  "json_opt f x = (case x of None \<Rightarrow> JNull | Some v \<Rightarrow> f v)"

definition attempt_json :: "scheduled_attempt \<Rightarrow> json" where
  "attempt_json x = JObj
     [(''attempt_id'', JStr (sa_attempt_id x)), (''condition'', JStr (sa_condition x)),
      (''arm'', JStr (arm_text (sa_arm x))), (''attempt_kind'', JStr (sched_kind_text (sa_attempt_kind x))),
      (''pair_id'', json_opt JStr (sa_pair_id x)), (''pair_slot_index'', json_opt JInt (sa_pair_slot_index x)),
      (''retry_of'', json_opt JStr (sa_retry_of x)), (''retry_index'', json_opt JInt (sa_retry_index x)),
      (''sequence_index'', JInt (sa_sequence_index x)), (''batch_index'', JInt (sa_batch_index x))]"

definition plan_digest ::
  "(json \<Rightarrow> string) \<Rightarrow> string \<Rightarrow> string \<Rightarrow> execution_profile \<Rightarrow> scheduled_attempt list \<Rightarrow> string" where
  "plan_digest h plan_id run_id profile attempts =
     (let l = ep_live_limits profile in h (JObj
       [(''schema_version'', JStr ''xir-lab-execution-plan-v1''), (''plan_id'', JStr plan_id),
        (''run_id'', JStr run_id), (''profile_id'', JStr (ep_profile_id profile)),
        (''profile_kind'', JStr (kind_text (ep_profile_kind profile))),
        (''fixed_seed'', JStr (ep_fixed_seed profile)),
        (''live_limits'', JObj
           [(''max_retries_per_lineage'', json_opt JInt (ll_max_retries_per_lineage l)),
            (''max_batch_attempts'', json_opt JInt (ll_max_batch_attempts l)),
            (''max_in_flight_attempts'', json_opt JInt (ll_max_in_flight_attempts l))]),
        (''attempts'', JList (map attempt_json attempts))]))"

section \<open>Expansion\<close>

type_synonym raw_attempt = "string \<times> sched_arm \<times> sched_kind \<times> string option \<times> int option"

definition warmup_coordinates :: "execution_profile \<Rightarrow> (string \<times> sched_arm) list" where
  "warmup_coordinates p =
     concat (map (\<lambda>c. concat (map (\<lambda>a. replicate (nat (pc_warmups_per_condition_arm (ep_counts p))) (c, a))
                               [S_baseline, S_xir])) (ep_conditions p))"

definition pair_coordinates :: "execution_profile \<Rightarrow> (string \<times> int) list" where
  "pair_coordinates p =
     concat (map (\<lambda>c. map (\<lambda>s. (c, int s)) [0..<nat (pc_pair_slots_per_condition (ep_counts p))])
               (ep_conditions p))"

definition sorted_warmups :: "(json \<Rightarrow> string) \<Rightarrow> execution_profile \<Rightarrow> (string \<times> sched_arm) list" where
  "sorted_warmups h p =
     sort_by_key (\<lambda>(c, a). seeded_key h (ep_fixed_seed p) ''warmup-order'' [JStr c, JStr (arm_text a)])
       (warmup_coordinates p)"

definition sorted_pairs :: "(json \<Rightarrow> string) \<Rightarrow> execution_profile \<Rightarrow> (string \<times> int) list" where
  "sorted_pairs h p =
     sort_by_key (\<lambda>(c, s). seeded_key h (ep_fixed_seed p) ''pair-order'' [JStr c, JInt s]) (pair_coordinates p)"

text \<open>\<^verbatim>\<open>key[-1] in "02468ace"\<close>; an empty key would raise, a digest is never empty.\<close>

definition baseline_first :: "(json \<Rightarrow> string) \<Rightarrow> string \<Rightarrow> string \<Rightarrow> int \<Rightarrow> bool" where
  "baseline_first h seed condition slot \<longleftrightarrow>
     last (seeded_key h seed ''within-pair-order'' [JStr condition, JInt slot]) \<in> set ''02468ace''"

definition pair_raw ::
  "(json \<Rightarrow> string) \<Rightarrow> string \<Rightarrow> string \<Rightarrow> sched_kind \<Rightarrow> string \<times> int \<Rightarrow> raw_attempt list" where
  "pair_raw h seed run_id kind = (\<lambda>(condition, slot).
     let pair_id = stable_id h ''pair'' [JStr run_id, JStr condition, JInt slot];
         arms = (if baseline_first h seed condition slot then [S_baseline, S_xir] else [S_xir, S_baseline])
     in map (\<lambda>a. (condition, a, kind, Some pair_id, Some slot)) arms)"

definition raw_attempts ::
  "(json \<Rightarrow> string) \<Rightarrow> execution_profile \<Rightarrow> string \<Rightarrow> sched_kind \<Rightarrow> raw_attempt list" where
  "raw_attempts h p run_id kind =
     map (\<lambda>(c, a). (c, a, S_warmup, None, None)) (sorted_warmups h p)
     @ concat (map (pair_raw h (ep_fixed_seed p) run_id kind) (sorted_pairs h p))"

definition cell_count :: "string \<times> sched_arm \<Rightarrow> ((string \<times> sched_arm) \<times> int) list \<Rightarrow> int" where
  "cell_count cell cells = (case map_of cells cell of None \<Rightarrow> 0 | Some n \<Rightarrow> n)"

definition batch_of :: "int option \<Rightarrow> int \<Rightarrow> exn + int" where
  "batch_of batch_size i =
     (case batch_size of None \<Rightarrow> Inr 0
      | Some b \<Rightarrow> if b = 0 then Inl ZeroDivisionError else Inr (i div b))"

fun number_attempts ::
  "(json \<Rightarrow> string) \<Rightarrow> string \<Rightarrow> string \<Rightarrow> int option \<Rightarrow> int \<Rightarrow> ((string \<times> sched_arm) \<times> int) list
     \<Rightarrow> raw_attempt list \<Rightarrow> exn + scheduled_attempt list" where
  "number_attempts h run_id designated batch_size i cells [] = Inr []"
| "number_attempts h run_id designated batch_size i cells ((condition, arm, kind, pair_id, slot) # rest) =
     (let cell = (condition, arm); repetition = cell_count cell cells;
          cells' = (if kind = S_warmup then (cell, repetition + 1) # cells else cells)
      in bindE (if kind = S_warmup
                then Inr (stable_id h ''attempt'' [JStr run_id, JStr condition, JStr (arm_text arm),
                                                   JStr ''warmup'', JInt repetition])
                else bindE (require slot (ScheduleError SE_lost_slot)) (\<lambda>s.
                     Inr (stable_id h ''attempt'' [JStr run_id, JStr condition, JStr (arm_text arm),
                                                   JStr designated, JInt s]))) (\<lambda>attempt_id.
         bindE (batch_of batch_size i) (\<lambda>batch_index.
         bindE (number_attempts h run_id designated batch_size (i + 1) cells' rest) (\<lambda>more.
         Inr (\<lparr>sa_attempt_id = attempt_id, sa_condition = condition, sa_arm = arm, sa_attempt_kind = kind,
               sa_pair_id = pair_id, sa_pair_slot_index = slot, sa_retry_of = None, sa_retry_index = None,
               sa_sequence_index = i, sa_batch_index = batch_index\<rparr> # more)))))"

definition designated_kind_of :: "string \<Rightarrow> exn + sched_kind" where
  "designated_kind_of s =
     (if s = ''pilot'' then Inr S_pilot else if s = ''primary'' then Inr S_primary
      else Inl (ScheduleError SE_designated_kind))"

definition cell_size :: "scheduled_attempt list \<Rightarrow> sched_kind \<Rightarrow> string \<Rightarrow> sched_arm \<Rightarrow> int" where
  "cell_size attempts kind condition arm =
     int (length (filter (\<lambda>x. sa_condition x = condition \<and> sa_arm x = arm \<and> sa_attempt_kind x = kind) attempts))"

definition expand_plan :: "(json \<Rightarrow> string) \<Rightarrow> execution_profile \<Rightarrow> string \<Rightarrow> exn + execution_plan" where
  "expand_plan h profile run_id =
     (let c = ep_counts profile; l = ep_live_limits profile in
      bindE (ensure (run_id \<noteq> []) (ScheduleError SE_empty_run_id)) (\<lambda>_.
      bindE (designated_kind_of (pc_designated_attempt_kind c)) (\<lambda>kind.
      bindE (number_attempts h run_id (pc_designated_attempt_kind c) (ll_max_batch_attempts l) 0 []
               (raw_attempts h profile run_id kind)) (\<lambda>frozen.
      bindE (ensure (int (length frozen) = pc_planned_total_non_retry_attempts c)
               (ScheduleError SE_attempt_count)) (\<lambda>_.
      bindE (ensure (int (length (remdups (List.map_filter sa_pair_id frozen))) = pc_planned_pair_slots c)
               (ScheduleError SE_pair_count)) (\<lambda>_.
      bindE (ensure (set (concat (map (\<lambda>cd. map (cell_size frozen kind cd) [S_baseline, S_xir])
                                    (ep_conditions profile))) = {pc_pair_slots_per_condition c})
               (ScheduleError SE_unbalanced)) (\<lambda>_.
      let plan_id = stable_id h ''run'' [JStr run_id, JStr (ep_profile_id profile), JStr (ep_fixed_seed profile)]
      in Inr \<lparr>pl_plan_id = plan_id, pl_run_id = run_id, pl_profile_id = ep_profile_id profile,
              pl_fixed_seed = ep_fixed_seed profile, pl_profile_kind = ep_profile_kind profile,
              pl_executable = executable profile,
              pl_max_retries_per_lineage = ll_max_retries_per_lineage l,
              pl_max_batch_attempts = ll_max_batch_attempts l,
              pl_max_in_flight_attempts = ll_max_in_flight_attempts l, pl_attempts = frozen,
              pl_plan_sha256 = plan_digest h plan_id run_id profile frozen\<rparr>)))))))"

section \<open>Dispatch\<close>

record scheduler =
  sc_plan :: execution_plan
  sc_next_index :: nat
  sc_active :: "scheduled_attempt list"
  sc_completed :: "string list"
  sc_retries :: "scheduled_attempt list"

definition cast_int :: "int option \<Rightarrow> exn + int" where
  "cast_int value = require value (ScheduleError SE_missing_limit)"

definition make_scheduler :: "execution_plan \<Rightarrow> exn + scheduler" where
  "make_scheduler plan =
     bindE (ensure (pl_executable plan) (ScheduleError SE_template_plan)) (\<lambda>_.
     bindE (ensure (pl_max_batch_attempts plan \<noteq> None \<and> pl_max_in_flight_attempts plan \<noteq> None)
              (ScheduleError SE_missing_limits)) (\<lambda>_.
     Inr \<lparr>sc_plan = plan, sc_next_index = 0, sc_active = [], sc_completed = [], sc_retries = []\<rparr>))"

definition active_attempt_ids :: "scheduler \<Rightarrow> string list" where
  "active_attempt_ids s = text_sort (map sa_attempt_id (sc_active s))"

definition complete :: "scheduler \<Rightarrow> bool" where
  "complete s \<longleftrightarrow> sc_next_index s = length (pl_attempts (sc_plan s)) \<and> sc_active s = []
                 \<and> set (map sa_attempt_id (sc_retries s)) \<subseteq> set (sc_completed s)"

text \<open>Dictionary assignment: an existing key keeps its place.\<close>

definition dict_put :: "scheduled_attempt \<Rightarrow> scheduled_attempt list \<Rightarrow> scheduled_attempt list" where
  "dict_put x xs =
     (if list_ex (\<lambda>y. sa_attempt_id y = sa_attempt_id x) xs
      then map (\<lambda>y. if sa_attempt_id y = sa_attempt_id x then x else y) xs else xs @ [x])"

definition dict_get :: "string \<Rightarrow> scheduled_attempt list \<Rightarrow> scheduled_attempt option" where
  "dict_get i xs = find (\<lambda>x. sa_attempt_id x = i) xs"

text \<open>The comprehension \<^verbatim>\<open>{item.attempt_id: item for item in self.plan.attempts}\<close>: the last value of a key wins.\<close>

definition planned_get :: "string \<Rightarrow> execution_plan \<Rightarrow> scheduled_attempt option" where
  "planned_get i plan = dict_get i (rev (pl_attempts plan))"

fun first_min :: "scheduled_attempt \<Rightarrow> scheduled_attempt list \<Rightarrow> scheduled_attempt" where
  "first_min x [] = x"
| "first_min x (y # ys) = first_min (if sa_sequence_index y < sa_sequence_index x then y else x) ys"

definition pending_retries :: "scheduler \<Rightarrow> scheduled_attempt list" where
  "pending_retries s =
     filter (\<lambda>r. sa_attempt_id r \<notin> set (sc_completed s)
               \<and> dict_get (sa_attempt_id r) (sc_active s) = None) (sc_retries s)"

definition claim_next :: "scheduler \<Rightarrow> exn + scheduled_attempt option \<times> scheduler" where
  "claim_next s =
     bindE (cast_int (pl_max_in_flight_attempts (sc_plan s))) (\<lambda>bound.
     if int (length (sc_active s)) \<ge> bound then Inr (None, s)
     else if sc_next_index s \<ge> length (pl_attempts (sc_plan s))
     then (case pending_retries s of [] \<Rightarrow> Inr (None, s)
           | r # rs \<Rightarrow> let item = first_min r rs
                       in Inr (Some item, s\<lparr>sc_active := dict_put item (sc_active s)\<rparr>))
     else let item = pl_attempts (sc_plan s) ! sc_next_index s
          in if list_ex (\<lambda>a. sa_batch_index a \<noteq> sa_batch_index item) (sc_active s) then Inr (None, s)
             else if sa_pair_id item \<noteq> None \<and> list_ex (\<lambda>a. sa_pair_id a = sa_pair_id item) (sc_active s)
             then Inr (None, s)
             else Inr (Some item, s\<lparr>sc_next_index := sc_next_index s + 1,
                                   sc_active := dict_put item (sc_active s)\<rparr>))"

definition complete_attempt :: "string \<Rightarrow> scheduler \<Rightarrow> exn + scheduler" where
  "complete_attempt i s =
     bindE (ensure (dict_get i (sc_active s) \<noteq> None) (ScheduleError SE_not_active)) (\<lambda>_.
     Inr (s\<lparr>sc_active := filter (\<lambda>a. sa_attempt_id a \<noteq> i) (sc_active s),
            sc_completed := List.insert i (sc_completed s)\<rparr>))"

text \<open>
  \<^verbatim>\<open>_root_attempt_id\<close>: the \<^verbatim>\<open>while\<close> loop along \<^verbatim>\<open>retry_of\<close>; not returning is \<open>None\<close>.
\<close>

partial_function (option) root_attempt_id :: "scheduled_attempt list \<Rightarrow> scheduled_attempt \<Rightarrow> string option" where
  "root_attempt_id retries current =
     (case sa_retry_of current of
        None \<Rightarrow> Some (sa_attempt_id current)
      | Some i \<Rightarrow> (case dict_get i retries of
           None \<Rightarrow> Some i
         | Some predecessor \<Rightarrow> root_attempt_id retries predecessor))"

declare root_attempt_id.simps [code]

definition max_batch :: "scheduled_attempt list \<Rightarrow> int" where
  "max_batch xs = (case xs of [] \<Rightarrow> 0 | x # ys \<Rightarrow> fold max (map sa_batch_index ys) (sa_batch_index x))"

definition replace_batch :: "scheduled_attempt \<Rightarrow> int \<Rightarrow> scheduled_attempt" where
  "replace_batch x b = x\<lparr>sa_batch_index := b\<rparr>"

text \<open>\<open>None\<close> when the search for a root does not return.\<close>

definition register_retry ::
  "(json \<Rightarrow> string) \<Rightarrow> string \<Rightarrow> int \<Rightarrow> scheduler \<Rightarrow> (exn + scheduled_attempt \<times> scheduler) option" where
  "register_retry h prior_attempt_id retry_index s =
     (let plan = sc_plan s; planned = pl_attempts plan; retries = sc_retries s in
      case bindE (cast_int (pl_max_retries_per_lineage plan)) (\<lambda>maximum.
           bindE (ensure (\<not> (retry_index < 1 \<or> retry_index > maximum)) (ScheduleError SE_retry_index)) (\<lambda>_.
           require (case planned_get prior_attempt_id plan of Some x \<Rightarrow> Some x
                    | None \<Rightarrow> dict_get prior_attempt_id retries) (ScheduleError SE_outside_plan))) of
        Inl e \<Rightarrow> Some (Inl e)
      | Inr prior \<Rightarrow>
          Option.bind (root_attempt_id retries prior) (\<lambda>root_id.
          case planned_get root_id plan of
            None \<Rightarrow> Some (Inl KeyError)
          | Some root \<Rightarrow>
              if list_ex (\<lambda>x. root_attempt_id retries x = None) retries then None
              else Some (
                bindE (ensure (\<not> list_ex (\<lambda>x. root_attempt_id retries x = Some (sa_attempt_id root)
                                             \<and> sa_retry_index x = Some retry_index) retries)
                         (ScheduleError SE_retry_registered)) (\<lambda>_.
                bindE (cast_int (pl_max_batch_attempts plan)) (\<lambda>batch_size.
                bindE (ensure (batch_size \<noteq> 0) ZeroDivisionError) (\<lambda>_.
                let attempt_id = stable_id h ''attempt'' [JStr (pl_run_id plan), JStr (sa_attempt_id root),
                                                          JStr ''retry'', JInt retry_index];
                    retry = replace_batch
                      \<lparr>sa_attempt_id = attempt_id, sa_condition = sa_condition root, sa_arm = sa_arm root,
                       sa_attempt_kind = S_retry, sa_pair_id = sa_pair_id root,
                       sa_pair_slot_index = sa_pair_slot_index root, sa_retry_of = Some (sa_attempt_id prior),
                       sa_retry_index = Some retry_index,
                       sa_sequence_index = int (length planned) + int (length retries),
                       sa_batch_index = max_batch planned + 1\<rparr>
                      (max_batch planned + 1 + int (length retries) div batch_size)
                in Inr (retry, s\<lparr>sc_retries := dict_put retry retries\<rparr>)))))))"

definition assert_registered :: "string \<Rightarrow> scheduler \<Rightarrow> exn + unit" where
  "assert_registered i s =
     ensure (dict_get i (pl_attempts (sc_plan s)) \<noteq> None \<or> dict_get i (sc_retries s) \<noteq> None)
       (ScheduleError SE_unplanned)"

end
