(* ===== verification/Xir_Scheduler_Properties.thy ===== *)
theory Xir_Scheduler_Properties
  imports Xir_Scheduler
begin

text \<open>
  The plan a validated profile expands to, and the dispatcher as a state machine: its bounds, that it
  is never stuck, and that the search for the root of a retry returns.
\<close>

section \<open>Expansion\<close>




















section \<open>The dispatcher as a state machine\<close>

abbreviation ids :: "scheduled_attempt list \<Rightarrow> string set" where
  "ids xs \<equiv> sa_attempt_id ` set xs"

definition plan_ok :: "execution_plan \<Rightarrow> bool" where
  "plan_ok plan \<longleftrightarrow> distinct (map sa_attempt_id (pl_attempts plan))
     \<and> (\<forall>a\<in>set (pl_attempts plan). sa_retry_of a = None)"

definition fresh_retry :: "scheduled_attempt \<Rightarrow> scheduler \<Rightarrow> bool" where
  "fresh_retry r s \<longleftrightarrow> sa_attempt_id r \<notin> ids (pl_attempts (sc_plan s)) \<union> ids (sc_retries s)"

inductive sched_step :: "scheduler \<Rightarrow> scheduler \<Rightarrow> bool" where
  claim: "claim_next s = Inr (x, s') \<Longrightarrow> sched_step s s'"
| finish: "complete_attempt i s = Inr s' \<Longrightarrow> sched_step s s'"
| retry: "register_retry h i k s = Some (Inr (r, s')) \<Longrightarrow> fresh_retry r s \<Longrightarrow> sched_step s s'"

definition sched_start :: "scheduler \<Rightarrow> bool" where
  "sched_start s \<longleftrightarrow> (\<exists>plan. plan_ok plan \<and> make_scheduler plan = Inr s)"

text \<open>The retries of a scheduler hang on the plan: each names a planned attempt or an earlier retry.\<close>

definition retries_ok :: "scheduler \<Rightarrow> bool" where
  "retries_ok s \<longleftrightarrow>
     distinct (map sa_attempt_id (sc_retries s)) \<and> ids (sc_retries s) \<inter> ids (pl_attempts (sc_plan s)) = {}
   \<and> (\<forall>k<length (sc_retries s). \<exists>p. sa_retry_of (sc_retries s ! k) = Some p
        \<and> (p \<in> ids (pl_attempts (sc_plan s)) \<or> p \<in> ids (take k (sc_retries s))))"

definition dispatch_ok :: "scheduler \<Rightarrow> bool" where
  "dispatch_ok s \<longleftrightarrow>
     sc_next_index s \<le> length (pl_attempts (sc_plan s))
   \<and> distinct (map sa_attempt_id (sc_active s))
   \<and> set (sc_active s) \<subseteq> set (take (sc_next_index s) (pl_attempts (sc_plan s))) \<union> set (sc_retries s)
   \<and> (sc_next_index s < length (pl_attempts (sc_plan s)) \<longrightarrow> set (sc_active s) \<subseteq> set (pl_attempts (sc_plan s)))
   \<and> ids (sc_active s) \<inter> set (sc_completed s) = {}
   \<and> ids (take (sc_next_index s) (pl_attempts (sc_plan s))) \<subseteq> ids (sc_active s) \<union> set (sc_completed s)
   \<and> set (sc_completed s) \<subseteq> ids (take (sc_next_index s) (pl_attempts (sc_plan s))) \<union> ids (sc_retries s)"

text \<open>Two planned attempts in flight together: one batch, and not the two halves of one pair.\<close>

definition together :: "scheduled_attempt \<Rightarrow> scheduled_attempt \<Rightarrow> bool" where
  "together a b \<longleftrightarrow> sa_batch_index a = sa_batch_index b \<and> (a = b \<or> sa_pair_id a = None \<or> sa_pair_id a \<noteq> sa_pair_id b)"

definition bounds_ok :: "scheduler \<Rightarrow> bool" where
  "bounds_ok s \<longleftrightarrow>
     (\<exists>bound. pl_max_in_flight_attempts (sc_plan s) = Some bound
        \<and> (sc_active s = [] \<or> int (length (sc_active s)) \<le> bound))
   \<and> (\<forall>a\<in>set (sc_active s). \<forall>b\<in>set (sc_active s).
        a \<in> set (pl_attempts (sc_plan s)) \<longrightarrow> b \<in> set (pl_attempts (sc_plan s)) \<longrightarrow> together a b)"

text \<open>Within a lineage every retry has its own index, from 1 to the bound of the plan.\<close>

definition lineage_ok :: "scheduler \<Rightarrow> bool" where
  "lineage_ok s \<longleftrightarrow>
     (\<forall>x\<in>set (sc_retries s). \<exists>m k. pl_max_retries_per_lineage (sc_plan s) = Some m \<and> sa_retry_index x = Some k \<and> 1 \<le> k \<and> k \<le> m)
   \<and> (\<forall>x\<in>set (sc_retries s). \<forall>y\<in>set (sc_retries s).
        root_attempt_id (sc_retries s) x = root_attempt_id (sc_retries s) y \<longrightarrow> sa_retry_index x = sa_retry_index y \<longrightarrow> x = y)"

definition sched_inv :: "scheduler \<Rightarrow> bool" where
  "sched_inv s \<longleftrightarrow> plan_ok (sc_plan s) \<and> retries_ok s \<and> lineage_ok s \<and> dispatch_ok s \<and> bounds_ok s"

lemma dict_get_None: "dict_get i xs = None \<longleftrightarrow> i \<notin> ids xs"
  by (auto simp: dict_get_def find_None_iff)

lemma dict_get_Some: "dict_get i xs = Some x \<Longrightarrow> x \<in> set xs \<and> sa_attempt_id x = i"
  unfolding dict_get_def by (drule find_SomeD) simp

lemma dict_put_fresh: "sa_attempt_id x \<notin> ids xs \<Longrightarrow> dict_put x xs = xs @ [x]"
  by (auto simp: dict_put_def list_ex_iff image_iff)

lemma first_min_mem: "first_min x ys \<in> insert x (set ys)"
  by (induction x ys rule: first_min.induct) auto

text \<open>What \<^verbatim>\<open>claim_next\<close> can do: nothing, dispatch the next planned attempt, or dispatch a retry.\<close>

lemma claim_cases:
  assumes "claim_next s = Inr (x, s')"
  obtains (nothing) "x = None" "s' = s"
  | (planned) item bound where "x = Some item" "pl_max_in_flight_attempts (sc_plan s) = Some bound"
      "int (length (sc_active s)) < bound" "sc_next_index s < length (pl_attempts (sc_plan s))"
      "item = pl_attempts (sc_plan s) ! sc_next_index s"
      "\<forall>a\<in>set (sc_active s). sa_batch_index a = sa_batch_index item"
      "sa_pair_id item = None \<or> (\<forall>a\<in>set (sc_active s). sa_pair_id a \<noteq> sa_pair_id item)"
      "s' = s\<lparr>sc_next_index := sc_next_index s + 1, sc_active := dict_put item (sc_active s)\<rparr>"
  | (retry) item bound where "x = Some item" "pl_max_in_flight_attempts (sc_plan s) = Some bound"
      "int (length (sc_active s)) < bound" "\<not> sc_next_index s < length (pl_attempts (sc_plan s))"
      "item \<in> set (pending_retries s)" "s' = s\<lparr>sc_active := dict_put item (sc_active s)\<rparr>"
proof -
  from assms obtain bound where bound: "pl_max_in_flight_attempts (sc_plan s) = Some bound"
    by (auto simp: claim_next_def cast_int_def exn_simps)
  let ?item = "pl_attempts (sc_plan s) ! sc_next_index s"
  let ?other_batch = "list_ex (\<lambda>a. sa_batch_index a \<noteq> sa_batch_index ?item) (sc_active s)"
  let ?same_pair = "sa_pair_id ?item \<noteq> None \<and> list_ex (\<lambda>a. sa_pair_id a = sa_pair_id ?item) (sc_active s)"
  have run: "claim_next s = (if bound \<le> int (length (sc_active s)) then Inr (None, s)
     else if length (pl_attempts (sc_plan s)) \<le> sc_next_index s
     then (case pending_retries s of [] \<Rightarrow> Inr (None, s)
           | r # rs \<Rightarrow> Inr (Some (first_min r rs), s\<lparr>sc_active := dict_put (first_min r rs) (sc_active s)\<rparr>))
     else if ?other_batch then Inr (None, s) else if ?same_pair then Inr (None, s)
     else Inr (Some ?item, s\<lparr>sc_next_index := sc_next_index s + 1, sc_active := dict_put ?item (sc_active s)\<rparr>))"
    by (simp only: claim_next_def cast_int_def bound require_simps bindE_simps Let_def)
  show thesis
  proof (cases "bound \<le> int (length (sc_active s))")
    case True
    with assms run have "x = None" "s' = s" by simp_all
    then show thesis by (rule nothing)
  next
    case room: False
    show thesis
    proof (cases "length (pl_attempts (sc_plan s)) \<le> sc_next_index s")
      case True
      show thesis
      proof (cases "pending_retries s")
        case Nil
        with assms run room True have "x = None" "s' = s" by simp_all
        then show thesis by (rule nothing)
      next
        case (Cons r rs)
        with assms run room True have "x = Some (first_min r rs)"
          "s' = s\<lparr>sc_active := dict_put (first_min r rs) (sc_active s)\<rparr>" by simp_all
        with Cons room True first_min_mem [of r rs] show thesis by (intro retry [OF _ bound]) auto
      qed
    next
      case False
      show thesis
      proof (cases "?other_batch \<or> ?same_pair")
        case True
        with assms run room False have "x = None" "s' = s" by (auto split: if_splits)
        then show thesis by (rule nothing)
      next
        case free: False
        with assms run room False have "x = Some ?item"
          "s' = s\<lparr>sc_next_index := sc_next_index s + 1, sc_active := dict_put ?item (sc_active s)\<rparr>" by (auto split: if_splits)
        with free room False show thesis by (intro planned [OF _ bound]) (auto simp: list_ex_iff)
      qed
    qed
  qed
qed


section \<open>The invariant\<close>

lemma pending_retries_mem:
  "item \<in> set (pending_retries s) \<longleftrightarrow> item \<in> set (sc_retries s) \<and> sa_attempt_id item \<notin> set (sc_completed s)
     \<and> sa_attempt_id item \<notin> ids (sc_active s)"
  by (auto simp: pending_retries_def dict_get_None)

lemma next_item_fresh:
  assumes inv: "sched_inv s" and more: "sc_next_index s < length (pl_attempts (sc_plan s))"
  shows "sa_attempt_id (pl_attempts (sc_plan s) ! sc_next_index s) \<notin> ids (sc_active s)"
    and "sa_attempt_id (pl_attempts (sc_plan s) ! sc_next_index s) \<notin> set (sc_completed s)"
proof -
  let ?A = "pl_attempts (sc_plan s)" and ?n = "sc_next_index s"
  have d: "distinct (map sa_attempt_id ?A)" using inv by (simp add: sched_inv_def plan_ok_def)
  have "sa_attempt_id (?A ! ?n) \<notin> ids (take ?n ?A)"
  proof
    assume "sa_attempt_id (?A ! ?n) \<in> ids (take ?n ?A)"
    then obtain i where "i < ?n" "map sa_attempt_id ?A ! i = map sa_attempt_id ?A ! ?n"
      using more by (auto simp: in_set_conv_nth)
    with d more show False using nth_eq_iff_index_eq [OF d, of i ?n] by simp
  qed
  moreover have "sa_attempt_id (?A ! ?n) \<notin> ids (sc_retries s)"
    using inv imageI [OF nth_mem [OF more], of sa_attempt_id] by (auto simp only: sched_inv_def retries_ok_def)
  ultimately show "sa_attempt_id (?A ! ?n) \<notin> ids (sc_active s)" "sa_attempt_id (?A ! ?n) \<notin> set (sc_completed s)"
    using inv by (auto simp: sched_inv_def dispatch_ok_def)
qed

lemma bounds_ok_mono:
  assumes "bounds_ok s" "sc_plan s' = sc_plan s" "set (sc_active s') \<subseteq> set (sc_active s)"
    and "length (sc_active s') \<le> length (sc_active s)"
  shows "bounds_ok s'"
proof -
  from assms(1) obtain bound where b: "pl_max_in_flight_attempts (sc_plan s) = Some bound"
    "sc_active s = [] \<or> int (length (sc_active s)) \<le> bound" unfolding bounds_ok_def by blast
  with assms(4) have len: "sc_active s' = [] \<or> int (length (sc_active s')) \<le> bound" by auto
  have "together a c" if "a \<in> set (sc_active s')" "c \<in> set (sc_active s')"
    "a \<in> set (pl_attempts (sc_plan s))" "c \<in> set (pl_attempts (sc_plan s))" for a c
    using assms(1) subsetD [OF assms(3) that(1)] subsetD [OF assms(3) that(2)] that(3,4) by (simp add: bounds_ok_def)
  with b(1) len show ?thesis by (simp add: bounds_ok_def assms(2))
qed

lemma dispatch_okD:
  assumes "dispatch_ok s"
  shows "sc_next_index s \<le> length (pl_attempts (sc_plan s))"
    and "distinct (map sa_attempt_id (sc_active s))"
    and "set (sc_active s) \<subseteq> set (take (sc_next_index s) (pl_attempts (sc_plan s))) \<union> set (sc_retries s)"
    and "sc_next_index s < length (pl_attempts (sc_plan s)) \<Longrightarrow> set (sc_active s) \<subseteq> set (pl_attempts (sc_plan s))"
    and "ids (sc_active s) \<inter> set (sc_completed s) = {}"
    and "ids (take (sc_next_index s) (pl_attempts (sc_plan s))) \<subseteq> ids (sc_active s) \<union> set (sc_completed s)"
    and "set (sc_completed s) \<subseteq> ids (take (sc_next_index s) (pl_attempts (sc_plan s))) \<union> ids (sc_retries s)"
  using assms unfolding dispatch_ok_def by simp_all

lemma claim_inv:
  assumes inv: "sched_inv s" and run: "claim_next s = Inr (x, s')"
  shows "sched_inv s'"
  using run
proof (cases rule: claim_cases)
  case nothing
  with inv show ?thesis by simp
next
  case (planned item bound)
  let ?A = "pl_attempts (sc_plan s)" and ?n = "sc_next_index s"
  have s': "s' = s\<lparr>sc_next_index := Suc ?n, sc_active := sc_active s @ [item]\<rparr>"
    using planned next_item_fresh [OF inv planned(4)] by (simp add: dict_put_fresh)
  have item: "item \<in> set ?A" using planned(4,5) by simp
  have take: "take (Suc ?n) ?A = take ?n ?A @ [item]" using planned(4,5) by (simp add: take_Suc_conv_app_nth)
  have act: "set (sc_active s) \<subseteq> set ?A" using inv planned(4) by (simp add: sched_inv_def dispatch_ok_def)
  have "dispatch_ok s'"
    using inv next_item_fresh [OF inv planned(4)] planned(4,5) item act
    by (auto simp: sched_inv_def dispatch_ok_def s' take simp del: take_append)
  moreover have "bounds_ok s'"
  proof -
    have b: "bounds_ok s" using inv by (simp add: sched_inv_def)
    have new: "together a item \<and> together item a" if "a \<in> set (sc_active s)" for a
      using planned(6,7) that by (metis together_def)
    have old: "together a b" if "a \<in> set (sc_active s)" "b \<in> set (sc_active s)" for a b
      using b act that unfolding bounds_ok_def by blast
    have "together item item" by (simp add: together_def)
    with new old planned(2,3) show ?thesis by (auto simp: bounds_ok_def s')
  qed
  ultimately show ?thesis using inv by (simp add: sched_inv_def s' retries_ok_def lineage_ok_def)
next
  case (retry item bound)
  let ?A = "pl_attempts (sc_plan s)"
  have item: "item \<in> set (sc_retries s)" "sa_attempt_id item \<notin> set (sc_completed s)" "sa_attempt_id item \<notin> ids (sc_active s)"
    using retry(5) by (simp_all add: pending_retries_mem)
  then have s': "s' = s\<lparr>sc_active := sc_active s @ [item]\<rparr>" using retry(6) by (simp add: dict_put_fresh)
  have "item \<notin> set ?A" using inv item by (auto simp: sched_inv_def retries_ok_def)
  then have "bounds_ok s'" using inv retry(2,3) by (auto simp: sched_inv_def bounds_ok_def s')
  moreover have "dispatch_ok s'" using inv item retry(4) by (auto simp: sched_inv_def dispatch_ok_def s')
  ultimately show ?thesis using inv by (simp add: sched_inv_def s' retries_ok_def lineage_ok_def)
qed

lemma complete_inv:
  assumes inv: "sched_inv s" and run: "complete_attempt i s = Inr s'"
  shows "sched_inv s'"
proof -
  let ?act = "filter (\<lambda>a. sa_attempt_id a \<noteq> i) (sc_active s)"
  from run have i: "i \<in> ids (sc_active s)" and s': "s' = s\<lparr>sc_active := ?act, sc_completed := List.insert i (sc_completed s)\<rparr>"
    using dict_get_None [of i "sc_active s"] by (auto simp: complete_attempt_def exn_simps)
  have d: "dispatch_ok s" and b: "bounds_ok s" using inv by (simp_all add: sched_inv_def)
  have act: "set (sc_active s') = {a \<in> set (sc_active s). sa_attempt_id a \<noteq> i}"
    and comp: "set (sc_completed s') = insert i (set (sc_completed s))"
    and same: "sc_plan s' = sc_plan s" "sc_next_index s' = sc_next_index s" "sc_retries s' = sc_retries s"
    by (auto simp: s')
  have ids: "ids (sc_active s') = ids (sc_active s) - {i}" by (auto simp: act)
  note d = dispatch_okD [OF d]
  have "dispatch_ok s'"
    unfolding dispatch_ok_def same ids comp
  proof (intro conjI impI)
    show "distinct (map sa_attempt_id (sc_active s'))" using d(2) by (simp add: s' distinct_map inj_on_def)
    show "set (sc_active s') \<subseteq> set (take (sc_next_index s) (pl_attempts (sc_plan s))) \<union> set (sc_retries s)"
      using d(3) unfolding act by blast
    show "set (sc_active s') \<subseteq> set (pl_attempts (sc_plan s))" if "sc_next_index s < length (pl_attempts (sc_plan s))"
      using d(4) [OF that] unfolding act by blast
    show "(ids (sc_active s) - {i}) \<inter> insert i (set (sc_completed s)) = {}" using d(5) by blast
    show "ids (take (sc_next_index s) (pl_attempts (sc_plan s))) \<subseteq> ids (sc_active s) - {i} \<union> insert i (set (sc_completed s))"
      using d(6) by blast
    show "insert i (set (sc_completed s)) \<subseteq> ids (take (sc_next_index s) (pl_attempts (sc_plan s))) \<union> ids (sc_retries s)"
      using d(7) i d(3) by blast
  qed (rule d(1))
  moreover have "bounds_ok s'" using b by (rule bounds_ok_mono) (auto simp: s')
  ultimately show ?thesis using inv by (simp add: sched_inv_def same retries_ok_def lineage_ok_def)
qed

section \<open>Retries\<close>

lemma planned_get_Some: "planned_get i plan = Some x \<Longrightarrow> x \<in> set (pl_attempts plan) \<and> sa_attempt_id x = i"
  unfolding planned_get_def by (drule dict_get_Some) simp

lemma register_cases:
  assumes "register_retry h i k s = Some (Inr (r, s'))"
  obtains prior root maximum where
    "prior \<in> set (pl_attempts (sc_plan s)) \<union> set (sc_retries s)" "pl_max_retries_per_lineage (sc_plan s) = Some maximum"
    "1 \<le> k" "k \<le> maximum" "root_attempt_id (sc_retries s) prior = Some root"
    "\<forall>x\<in>set (sc_retries s). \<not> (root_attempt_id (sc_retries s) x = Some root \<and> sa_retry_index x = Some k)"
    "sa_retry_of r = Some (sa_attempt_id prior)" "sa_retry_index r = Some k"
    "s' = s\<lparr>sc_retries := dict_put r (sc_retries s)\<rparr>"
proof -
  from assms obtain prior root_id root maximum where
    prior: "(case planned_get i (sc_plan s) of Some x \<Rightarrow> Some x | None \<Rightarrow> dict_get i (sc_retries s)) = Some prior"
    and max: "pl_max_retries_per_lineage (sc_plan s) = Some maximum" "1 \<le> k" "k \<le> maximum"
    and root_id: "root_attempt_id (sc_retries s) prior = Some root_id" "planned_get root_id (sc_plan s) = Some root"
    and fresh: "\<forall>x\<in>set (sc_retries s). \<not> (root_attempt_id (sc_retries s) x = Some (sa_attempt_id root) \<and> sa_retry_index x = Some k)"
    and r: "sa_retry_of r = Some (sa_attempt_id prior)" "sa_retry_index r = Some k"
      "s' = s\<lparr>sc_retries := dict_put r (sc_retries s)\<rparr>"
    unfolding register_retry_def
    by (auto simp: Let_def cast_int_def exn_simps replace_batch_def list_ex_iff split: option.splits sum.splits if_splits bind_splits)
  have "sa_attempt_id root = root_id" using planned_get_Some [OF root_id(2)] by simp
  moreover have "prior \<in> set (pl_attempts (sc_plan s)) \<union> set (sc_retries s)"
    using prior planned_get_Some dict_get_Some by (fastforce split: option.splits)
  ultimately show thesis using that max root_id(1) fresh r by blast
qed

text \<open>The loop returns, at a planned attempt, and later retries do not change its result.\<close>

lemma dict_get_nth:
  assumes "distinct (map sa_attempt_id xs)" "j < length xs"
  shows "dict_get (sa_attempt_id (xs ! j)) (xs @ zs) = Some (xs ! j)"
proof -
  have "sa_attempt_id (xs ! i) \<noteq> sa_attempt_id (xs ! j)" if "i < j" for i
    using nth_eq_iff_index_eq [OF assms(1), of i j] assms(2) that by simp
  with assms(2) show ?thesis
    unfolding dict_get_def find_Some_iff by (intro exI [of _ j]) (simp add: nth_append)
qed

lemma root_of_retry:
  assumes "retries_ok s" "k < length (sc_retries s)"
  shows "\<exists>q\<in>ids (pl_attempts (sc_plan s)). \<forall>zs. ids zs \<inter> ids (pl_attempts (sc_plan s)) = {}
           \<longrightarrow> root_attempt_id (sc_retries s @ zs) (sc_retries s ! k) = Some q"
  using assms(2)
proof (induction k rule: less_induct)
  case (less k)
  let ?A = "pl_attempts (sc_plan s)" and ?R = "sc_retries s"
  have dist: "distinct (map sa_attempt_id ?R)" and dis: "ids ?R \<inter> ids ?A = {}" using assms(1) by (simp_all add: retries_ok_def)
  from assms(1) less.prems obtain p where p: "sa_retry_of (?R ! k) = Some p" "p \<in> ids ?A \<or> p \<in> ids (take k ?R)"
    unfolding retries_ok_def by blast
  show ?case
  proof (cases "p \<in> ids ?A")
    case True
    have "root_attempt_id (?R @ zs) (?R ! k) = Some p" if "ids zs \<inter> ids ?A = {}" for zs
    proof -
      have "dict_get p (?R @ zs) = None" using True that dis by (auto simp: dict_get_None)
      then show ?thesis by (subst root_attempt_id.simps) (simp add: p(1))
    qed
    with True show ?thesis by blast
  next
    case False
    with p(2) obtain j where j: "j < k" "sa_attempt_id (?R ! j) = p"
      using less.prems by (auto simp: in_set_conv_nth)
    then have "root_attempt_id (?R @ zs) (?R ! k) = root_attempt_id (?R @ zs) (?R ! j)" for zs
      using dict_get_nth [OF dist, of j zs] less.prems by (subst root_attempt_id.simps) (simp add: p(1))
    with less.IH [OF j(1)] j(1) less.prems show ?thesis by simp
  qed
qed

lemma root_returns:
  assumes "sched_inv s" "x \<in> set (pl_attempts (sc_plan s)) \<union> set (sc_retries s)"
  shows "\<exists>q\<in>ids (pl_attempts (sc_plan s)). \<forall>zs. ids zs \<inter> ids (pl_attempts (sc_plan s)) = {}
           \<longrightarrow> root_attempt_id (sc_retries s @ zs) x = Some q"
proof (cases "x \<in> set (sc_retries s)")
  case True
  with assms(1) root_of_retry [of s] show ?thesis by (auto simp: in_set_conv_nth sched_inv_def)
next
  case False
  with assms have "sa_retry_of x = None" "x \<in> set (pl_attempts (sc_plan s))" by (auto simp: sched_inv_def plan_ok_def)
  then show ?thesis by (auto simp: root_attempt_id.simps)
qed

lemma root_stable:
  assumes "sched_inv s" "x \<in> set (pl_attempts (sc_plan s)) \<union> set (sc_retries s)" "fresh_retry r s"
  shows "root_attempt_id (sc_retries s @ [r]) x = root_attempt_id (sc_retries s) x"
proof -
  obtain q where q: "\<And>zs. ids zs \<inter> ids (pl_attempts (sc_plan s)) = {} \<Longrightarrow> root_attempt_id (sc_retries s @ zs) x = Some q"
    using root_returns [OF assms(1,2)] by blast
  from q [of "[]"] q [of "[r]"] assms(3) show ?thesis by (simp add: fresh_retry_def)
qed

lemma root_of_new:
  assumes inv: "sched_inv s" and prior: "prior \<in> set (pl_attempts (sc_plan s)) \<union> set (sc_retries s)"
    and fresh: "fresh_retry r s" and r: "sa_retry_of r = Some (sa_attempt_id prior)"
  shows "root_attempt_id (sc_retries s @ [r]) r = root_attempt_id (sc_retries s) prior"
proof (cases "prior \<in> set (sc_retries s)")
  case True
  then obtain j where j: "j < length (sc_retries s)" "prior = sc_retries s ! j" by (auto simp: in_set_conv_nth)
  have "dict_get (sa_attempt_id prior) (sc_retries s @ [r]) = Some prior"
    using inv j dict_get_nth [of "sc_retries s" j "[r]"] by (simp add: sched_inv_def retries_ok_def)
  then show ?thesis using root_stable [OF inv prior fresh] by (subst root_attempt_id.simps) (simp add: r)
next
  case False
  then have p: "prior \<in> set (pl_attempts (sc_plan s))" using prior by simp
  then have none: "sa_retry_of prior = None" using inv by (simp add: sched_inv_def plan_ok_def)
  have "sa_attempt_id prior \<notin> ids (sc_retries s @ [r])"
    using inv fresh imageI [OF p, of sa_attempt_id] by (auto simp: sched_inv_def retries_ok_def fresh_retry_def)
  then have "root_attempt_id (sc_retries s @ [r]) r = Some (sa_attempt_id prior)"
    by (subst root_attempt_id.simps) (simp add: r dict_get_None [THEN iffD2])
  then show ?thesis by (simp add: root_attempt_id.simps none)
qed

lemma retry_inv:
  assumes inv: "sched_inv s" and run: "register_retry h i k s = Some (Inr (r, s'))" and fresh: "fresh_retry r s"
  shows "sched_inv s'"
proof -
  let ?A = "pl_attempts (sc_plan s)" and ?R = "sc_retries s"
  obtain prior root maximum where prior: "prior \<in> set ?A \<union> set ?R"
    and max: "pl_max_retries_per_lineage (sc_plan s) = Some maximum" "1 \<le> k" "k \<le> maximum"
    and root: "root_attempt_id ?R prior = Some root"
    and new: "\<forall>x\<in>set ?R. \<not> (root_attempt_id ?R x = Some root \<and> sa_retry_index x = Some k)"
    and r: "sa_retry_of r = Some (sa_attempt_id prior)" "sa_retry_index r = Some k"
    and put: "s' = s\<lparr>sc_retries := dict_put r ?R\<rparr>"
    using run by (rule register_cases)
  have id: "sa_attempt_id r \<notin> ids ?A" "sa_attempt_id r \<notin> ids ?R" using fresh by (auto simp: fresh_retry_def)
  then have s': "s' = s\<lparr>sc_retries := ?R @ [r]\<rparr>" using put by (simp add: dict_put_fresh)
  have old: "retries_ok s" "lineage_ok s" "dispatch_ok s" "bounds_ok s" "plan_ok (sc_plan s)" using inv by (simp_all add: sched_inv_def)
  have "retries_ok s'"
    unfolding retries_ok_def
  proof (intro conjI allI impI)
    show "distinct (map sa_attempt_id (sc_retries s'))" using old(1) id by (simp add: retries_ok_def s')
    show "ids (sc_retries s') \<inter> ids (pl_attempts (sc_plan s')) = {}" using old(1) id by (simp add: retries_ok_def s')
    fix j assume "j < length (sc_retries s')"
    then consider "j < length ?R" | "j = length ?R" by (auto simp: s' less_Suc_eq)
    then show "\<exists>p. sa_retry_of (sc_retries s' ! j) = Some p \<and> (p \<in> ids (pl_attempts (sc_plan s')) \<or> p \<in> ids (take j (sc_retries s')))"
      using old(1) prior r(1) by cases (auto simp: retries_ok_def s' nth_append)
  qed
  moreover have "lineage_ok s'"
  proof -
    have "root_attempt_id (?R @ [r]) x = root_attempt_id ?R x" if "x \<in> set ?R" for x
      using root_stable [OF inv _ fresh] that by simp
    moreover have "root_attempt_id (?R @ [r]) r = Some root" using root_of_new [OF inv prior fresh r(1)] root by simp
    ultimately show ?thesis using old(2) max new r(2) by (simp add: lineage_ok_def s' ball_Un) metis
  qed
  moreover have "dispatch_ok s'"
    using dispatch_okD [OF old(3)] unfolding dispatch_ok_def s' by (simp; blast)
  moreover have "bounds_ok s'" using old(4) by (rule bounds_ok_mono) (simp_all add: s')
  ultimately show ?thesis using old(5) by (simp add: sched_inv_def s')
qed

lemma start_inv: "sched_start s \<Longrightarrow> sched_inv s"
  by (auto simp: sched_start_def make_scheduler_def exn_simps sched_inv_def retries_ok_def lineage_ok_def
      dispatch_ok_def bounds_ok_def)

interpretation dispatch: transition_system sched_start sched_step sched_inv
proof
  show "sched_inv s" if "sched_start s" for s using that by (rule start_inv)
  show "sched_inv s'" if "sched_inv s" "sched_step s s'" for s s'
    using that(2) that(1) by cases (auto intro: claim_inv complete_inv retry_inv)
qed

section \<open>Progress\<close>

text \<open>Twice the undispatched work plus the work in flight.\<close>

definition work_left :: "scheduler \<Rightarrow> nat" where
  "work_left s = 2 * (length (pl_attempts (sc_plan s)) - sc_next_index s) + 2 * length (pending_retries s) + length (sc_active s)"

lemma complete_step:
  assumes inv: "sched_inv s" and a: "a \<in> set (sc_active s)"
  obtains s' where "complete_attempt (sa_attempt_id a) s = Inr s'" "work_left s' < work_left s" "sc_plan s' = sc_plan s"
proof -
  let ?i = "sa_attempt_id a"
  let ?s = "s\<lparr>sc_active := filter (\<lambda>b. sa_attempt_id b \<noteq> ?i) (sc_active s), sc_completed := List.insert ?i (sc_completed s)\<rparr>"
  have i: "dict_get ?i (sc_active s) \<noteq> None" using a by (simp add: dict_get_None)
  have run: "complete_attempt ?i s = Inr ?s" unfolding complete_attempt_def using i by simp
  have "pending_retries ?s = pending_retries s"
    unfolding pending_retries_def using a by (auto simp: dict_get_None intro!: filter_cong)
  moreover have "length (sc_active ?s) < length (sc_active s)" using a by (auto intro: length_filter_less)
  ultimately have "work_left ?s < work_left s" by (simp add: work_left_def)
  with run that show thesis by simp
qed

lemma claim_step:
  assumes inv: "sched_inv s" and bound: "pl_max_in_flight_attempts (sc_plan s) = Some bound" "1 \<le> bound"
    and idle: "sc_active s = []" and unfinished: "\<not> complete s"
  obtains item s' where "claim_next s = Inr (Some item, s')" "work_left s' < work_left s" "sc_plan s' = sc_plan s"
proof (cases "sc_next_index s < length (pl_attempts (sc_plan s))")
  case True
  let ?item = "pl_attempts (sc_plan s) ! sc_next_index s"
  let ?s = "s\<lparr>sc_next_index := sc_next_index s + 1, sc_active := [?item]\<rparr>"
  have "claim_next s = Inr (Some ?item, ?s)"
    using True bound idle by (simp add: claim_next_def cast_int_def Let_def dict_put_def)
  moreover have "length (pending_retries ?s) \<le> length (pending_retries s)"
    unfolding pending_retries_def idle by (auto simp: dict_get_None simp flip: filter_filter intro: length_filter_le)
  ultimately show thesis using that True idle by (simp add: work_left_def)
next
  case False
  then have n: "sc_next_index s = length (pl_attempts (sc_plan s))" using inv by (auto simp: sched_inv_def dest: dispatch_okD(1))
  with unfinished idle obtain r where r: "r \<in> set (sc_retries s)" "sa_attempt_id r \<notin> set (sc_completed s)"
    by (auto simp: complete_def)
  then have "r \<in> set (pending_retries s)" by (simp add: pending_retries_mem idle)
  then obtain x xs where P: "pending_retries s = x # xs" by (cases "pending_retries s") auto
  let ?item = "first_min x xs" and ?s = "s\<lparr>sc_active := [first_min x xs]\<rparr>"
  have "claim_next s = Inr (Some ?item, ?s)"
    using n bound idle P by (simp add: claim_next_def cast_int_def Let_def dict_put_def)
  moreover have "pending_retries ?s = filter (\<lambda>r. sa_attempt_id r \<noteq> sa_attempt_id ?item) (pending_retries s)"
    unfolding pending_retries_def idle by (auto simp: dict_get_None intro!: filter_cong)
  moreover have "length (filter (\<lambda>r. sa_attempt_id r \<noteq> sa_attempt_id ?item) (pending_retries s)) < length (pending_retries s)"
    using first_min_mem [of x xs] P by (intro length_filter_less [of ?item]) simp_all
  ultimately show thesis using that idle by (simp add: work_left_def)
qed

lemma can_complete:
  assumes "sched_inv s" "pl_max_in_flight_attempts (sc_plan s) = Some bound" "1 \<le> bound"
  shows "\<exists>t. sched_step\<^sup>*\<^sup>* s t \<and> complete t"
  using assms
proof (induction "work_left s" arbitrary: s rule: less_induct)
  case less
  have "\<exists>t. sched_step\<^sup>*\<^sup>* s t \<and> complete t" if "sched_step s s'" "work_left s' < work_left s" "sc_plan s' = sc_plan s" for s'
    using less.hyps [OF that(2)] that less.prems dispatch.inv_step [of s s']
    by (auto intro: converse_rtranclp_into_rtranclp)
  note go = this
  show ?case
  proof (cases "sc_active s")
    case (Cons a as)
    then obtain s' where "complete_attempt (sa_attempt_id a) s = Inr s'" "work_left s' < work_left s" "sc_plan s' = sc_plan s"
      using complete_step [OF less.prems(1), of a] by auto
    then show ?thesis by (blast intro: go sched_step.finish)
  next
    case Nil
    show ?thesis
    proof (cases "complete s")
      case False
      obtain item s' where "claim_next s = Inr (Some item, s')" "work_left s' < work_left s" "sc_plan s' = sc_plan s"
        using claim_step [OF less.prems Nil False] .
      then show ?thesis by (blast intro: go sched_step.claim)
    qed blast
  qed
qed

lemma lineage_card:
  assumes "lineage_ok s" "pl_max_retries_per_lineage (sc_plan s) = Some m"
  shows "int (card {x \<in> set (sc_retries s). root_attempt_id (sc_retries s) x = Some q}) \<le> max 0 m"
proof -
  let ?L = "{x \<in> set (sc_retries s). root_attempt_id (sc_retries s) x = Some q}"
  let ?f = "\<lambda>x. the (sa_retry_index x)"
  have index: "\<exists>k. sa_retry_index x = Some k \<and> 1 \<le> k \<and> k \<le> m" if "x \<in> set (sc_retries s)" for x
    using assms that by (fastforce simp: lineage_ok_def)
  have "inj_on ?f ?L"
  proof (rule inj_onI)
    fix x y assume "x \<in> ?L" "y \<in> ?L" "?f x = ?f y"
    then show "x = y" using index [of x] index [of y] assms(1) unfolding lineage_ok_def by auto
  qed
  moreover have "?f ` ?L \<subseteq> {1..m}" using index by force
  ultimately have "card ?L \<le> card {1..m}" by (intro card_inj_on_le) auto
  then show ?thesis by simp
qed

lemma planned_get_mem: "i \<in> ids (pl_attempts plan) \<Longrightarrow> \<exists>x. planned_get i plan = Some x"
  using dict_get_None [of i "rev (pl_attempts plan)"] by (cases "planned_get i plan") (auto simp: planned_get_def)

lemma register_returns:
  assumes inv: "sched_inv s" and root: "\<And>x. x \<in> set (pl_attempts (sc_plan s)) \<union> set (sc_retries s) \<Longrightarrow>
      \<exists>q\<in>ids (pl_attempts (sc_plan s)). root_attempt_id (sc_retries s) x = Some q"
  shows "\<exists>result. register_retry h i k s = Some result \<and> result \<noteq> Inl KeyError"
proof -
  let ?pre = "bindE (cast_int (pl_max_retries_per_lineage (sc_plan s))) (\<lambda>maximum.
      bindE (ensure (\<not> (k < 1 \<or> k > maximum)) (ScheduleError SE_retry_index)) (\<lambda>_.
      require (case planned_get i (sc_plan s) of Some x \<Rightarrow> Some x | None \<Rightarrow> dict_get i (sc_retries s)) (ScheduleError SE_outside_plan)))"
  have roots: "\<not> list_ex (\<lambda>x. root_attempt_id (sc_retries s) x = None) (sc_retries s)"
    using root by (fastforce simp: list_ex_iff)
  show ?thesis
  proof (cases ?pre)
    case (Inl e)
    then have "e \<noteq> KeyError" by (auto simp: exn_simps cast_int_def)
    with Inl show ?thesis by (simp add: register_retry_def Let_def)
  next
    case (Inr prior)
    then have "prior \<in> set (pl_attempts (sc_plan s)) \<union> set (sc_retries s)"
      by (auto simp: exn_simps split: option.splits dest: planned_get_Some dict_get_Some)
    then obtain q x where "root_attempt_id (sc_retries s) prior = Some q" "planned_get q (sc_plan s) = Some x"
      using root planned_get_mem by blast
    with Inr roots show ?thesis
      by (auto simp: register_retry_def Let_def exn_simps cast_int_def)
  qed
qed

section \<open>Properties of the dispatcher\<close>

text \<open>
  Whatever is claimed, completed and registered, in any order, the attempts in flight have distinct
  identifiers and never exceed the in-flight bound of the plan, and any two planned attempts in flight
  are of one batch and, when they belong to a pair, of different pairs.
\<close>

theorem dispatch_is_bounded:
  assumes "sched_start s0" and "sched_step\<^sup>*\<^sup>* s0 s" and "sc_active s \<noteq> []"
  shows "(\<exists>bound. pl_max_in_flight_attempts (sc_plan s) = Some bound \<and> int (length (sc_active s)) \<le> bound)
    \<and> distinct (map sa_attempt_id (sc_active s))
    \<and> (\<forall>a\<in>set (sc_active s). \<forall>b\<in>set (sc_active s).
         a \<in> set (pl_attempts (sc_plan s)) \<longrightarrow> b \<in> set (pl_attempts (sc_plan s)) \<longrightarrow>
         sa_batch_index a = sa_batch_index b \<and> (a = b \<or> sa_pair_id a = None \<or> sa_pair_id a \<noteq> sa_pair_id b))"
proof -
  have "sched_inv s" using assms(1,2) by (rule dispatch.reachable_inv)
  then have b: "bounds_ok s" and d: "dispatch_ok s" by (simp_all add: sched_inv_def)
  from b assms(3) show ?thesis using dispatch_okD(2) [OF d] unfolding bounds_ok_def together_def by blast
qed

text \<open>
  C23: dispatch is exactly once and cannot get stuck. In every reachable state an attempt that is claimed
  was neither in flight nor completed before; when the scheduler reports completion, the completed
  identifiers are exactly those of the plan and of the registered retries; and as long as the plan allows
  one attempt in flight, some continuation of the run reports completion.
\<close>

theorem dispatch_once_and_never_stuck:
  assumes "sched_start s0" and "sched_step\<^sup>*\<^sup>* s0 s"
  shows "(\<forall>item s'. claim_next s = Inr (Some item, s') \<longrightarrow>
            sa_attempt_id item \<notin> ids (sc_active s) \<and> sa_attempt_id item \<notin> set (sc_completed s)
            \<and> sc_active s' = sc_active s @ [item])
    \<and> (complete s \<longrightarrow> set (sc_completed s) = ids (pl_attempts (sc_plan s)) \<union> ids (sc_retries s))
    \<and> (\<forall>bound. pl_max_in_flight_attempts (sc_plan s) = Some bound \<longrightarrow> 1 \<le> bound \<longrightarrow>
          (\<exists>t. sched_step\<^sup>*\<^sup>* s t \<and> complete t))"
proof -
  have inv: "sched_inv s" using assms by (rule dispatch.reachable_inv)
  note d = dispatch_okD [OF inv [unfolded sched_inv_def, THEN conjunct2, THEN conjunct2, THEN conjunct2, THEN conjunct1]]
  have "sa_attempt_id item \<notin> ids (sc_active s) \<and> sa_attempt_id item \<notin> set (sc_completed s) \<and> sc_active s' = sc_active s @ [item]"
    if "claim_next s = Inr (Some item, s')" for item s'
    using that
  proof (cases rule: claim_cases)
    case (planned item' bound)
    with next_item_fresh [OF inv planned(4)] show ?thesis by (auto simp: dict_put_fresh)
  next
    case (retry item' bound)
    then show ?thesis by (auto simp: dict_put_fresh pending_retries_mem)
  qed simp
  moreover have "set (sc_completed s) = ids (pl_attempts (sc_plan s)) \<union> ids (sc_retries s)" if "complete s"
    using that d(6,7) by (auto simp: complete_def)
  ultimately show ?thesis using can_complete [OF inv] by blast
qed

text \<open>
  C24: the search for the root of an attempt returns for every planned attempt and every retry, at a
  planned attempt; registering a retry always returns, and never fails to find the root; and no planned
  attempt has more retries in its lineage than the plan allows, however retries of retries are chained.
\<close>

theorem retry_lineages_are_bounded:
  assumes "sched_start s0" and "sched_step\<^sup>*\<^sup>* s0 s"
  shows "(\<forall>x\<in>set (pl_attempts (sc_plan s)) \<union> set (sc_retries s).
            \<exists>q\<in>ids (pl_attempts (sc_plan s)). root_attempt_id (sc_retries s) x = Some q)
    \<and> (\<exists>result. register_retry h i k s = Some result \<and> result \<noteq> Inl KeyError)
    \<and> (\<forall>m q. pl_max_retries_per_lineage (sc_plan s) = Some m \<longrightarrow>
          int (card {x \<in> set (sc_retries s). root_attempt_id (sc_retries s) x = Some q}) \<le> max 0 m)"
proof -
  have inv: "sched_inv s" using assms by (rule dispatch.reachable_inv)
  have root: "\<exists>q\<in>ids (pl_attempts (sc_plan s)). root_attempt_id (sc_retries s) x = Some q"
    if "x \<in> set (pl_attempts (sc_plan s)) \<union> set (sc_retries s)" for x
    using root_returns [OF inv that] by (metis append_Nil2 image_empty inf_bot_left list.set(1))
  moreover have "\<exists>result. register_retry h i k s = Some result \<and> result \<noteq> Inl KeyError"
    using register_returns [OF inv root] .
  moreover have "int (card {x \<in> set (sc_retries s). root_attempt_id (sc_retries s) x = Some q}) \<le> max 0 m"
    if "pl_max_retries_per_lineage (sc_plan s) = Some m" for m q
    using lineage_card [OF _ that] inv by (simp add: sched_inv_def)
  ultimately show ?thesis by blast
qed

section \<open>A run with retries\<close>

definition demo_attempt :: "string \<Rightarrow> sched_arm \<Rightarrow> int \<Rightarrow> scheduled_attempt" where
  "demo_attempt i arm n = \<lparr>sa_attempt_id = i, sa_condition = ''c'', sa_arm = arm, sa_attempt_kind = S_pilot,
     sa_pair_id = Some ''p'', sa_pair_slot_index = Some 0, sa_retry_of = None, sa_retry_index = None,
     sa_sequence_index = n, sa_batch_index = n\<rparr>"

definition demo_plan :: execution_plan where
  "demo_plan = \<lparr>pl_plan_id = ''plan'', pl_run_id = ''r'', pl_profile_id = ''live'', pl_fixed_seed = ''seed'',
     pl_profile_kind = K_pilot, pl_executable = True, pl_max_retries_per_lineage = Some 1,
     pl_max_batch_attempts = Some 1, pl_max_in_flight_attempts = Some 2,
     pl_attempts = [demo_attempt ''a'' S_baseline 0, demo_attempt ''b'' S_xir 1], pl_plan_sha256 = []\<rparr>"

fun demo_second :: "json \<Rightarrow> string" where
  "demo_second (JObj [_, (_, JList (_ # JStr r # _))]) = r"
| "demo_second j = ''0''"

definition demo_retry :: "string \<Rightarrow> sched_arm \<Rightarrow> int \<Rightarrow> scheduled_attempt" where
  "demo_retry i arm n = (demo_attempt i arm n)\<lparr>sa_attempt_id := ''attempt_'' @ i, sa_attempt_kind := S_retry,
     sa_retry_of := Some i, sa_retry_index := Some 1\<rparr>"

definition demo_sched :: "nat \<Rightarrow> scheduled_attempt list \<Rightarrow> string list \<Rightarrow> scheduled_attempt list \<Rightarrow> scheduler" where
  "demo_sched n act fin ret = \<lparr>sc_plan = demo_plan, sc_next_index = n, sc_active = act, sc_completed = fin, sc_retries = ret\<rparr>"

definition demo_final :: scheduler where
  "demo_final = demo_sched 2 [demo_retry ''a'' S_baseline 2, demo_retry ''b'' S_xir 3] [''b'', ''a'']
     [demo_retry ''a'' S_baseline 2, demo_retry ''b'' S_xir 3]"

lemmas demo_sched_defs = demo_sched_def demo_plan_def demo_attempt_def demo_retry_def

lemma demo_sched_start: "sched_start (demo_sched 0 [] [] [])"
  unfolding sched_start_def
  by (rule exI [of _ demo_plan]) (simp add: demo_sched_defs plan_ok_def make_scheduler_def)

lemma demo_sched_run: "sched_step\<^sup>*\<^sup>* (demo_sched 0 [] [] []) demo_final"
proof -
  let ?a = "demo_attempt ''a'' S_baseline 0" and ?b = "demo_attempt ''b'' S_xir 1"
  let ?ra = "demo_retry ''a'' S_baseline 2" and ?rb = "demo_retry ''b'' S_xir 3"
  have "claim_next (demo_sched 0 [] [] []) = Inr (Some ?a, demo_sched 1 [?a] [] [])"
    "complete_attempt ''a'' (demo_sched 1 [?a] [] []) = Inr (demo_sched 1 [] [''a''] [])"
    "claim_next (demo_sched 1 [] [''a''] []) = Inr (Some ?b, demo_sched 2 [?b] [''a''] [])"
    "complete_attempt ''b'' (demo_sched 2 [?b] [''a''] []) = Inr (demo_sched 2 [] [''b'', ''a''] [])"
    by code_simp+
  moreover have "register_retry demo_second ''a'' 1 (demo_sched 2 [] [''b'', ''a''] []) = Some (Inr (?ra, demo_sched 2 [] [''b'', ''a''] [?ra]))"
    "register_retry demo_second ''b'' 1 (demo_sched 2 [] [''b'', ''a''] [?ra]) = Some (Inr (?rb, demo_sched 2 [] [''b'', ''a''] [?ra, ?rb]))"
    by code_simp+
  moreover have "fresh_retry ?ra (demo_sched 2 [] [''b'', ''a''] [])" "fresh_retry ?rb (demo_sched 2 [] [''b'', ''a''] [?ra])"
    by (simp_all add: fresh_retry_def demo_sched_defs)
  moreover have "claim_next (demo_sched 2 [] [''b'', ''a''] [?ra, ?rb]) = Inr (Some ?ra, demo_sched 2 [?ra] [''b'', ''a''] [?ra, ?rb])"
    "claim_next (demo_sched 2 [?ra] [''b'', ''a''] [?ra, ?rb]) = Inr (Some ?rb, demo_final)"
    by code_simp+
  ultimately show ?thesis
    by (meson claim converse_rtranclp_into_rtranclp finish retry rtranclp.rtrancl_refl)
qed

lemma demo_active: "sc_active demo_final \<noteq> []" by (simp add: demo_final_def demo_sched_def)

theorem dispatch_is_bounded_witness:
  "length (sc_active demo_final) = 2 \<and> distinct (map sa_attempt_id (sc_active demo_final))"
proof -
  have "distinct (map sa_attempt_id (sc_active demo_final))"
    using dispatch_is_bounded [OF demo_sched_start demo_sched_run demo_active] by blast
  then show ?thesis by (simp add: demo_final_def demo_sched_def)
qed

theorem dispatch_once_and_never_stuck_witness: "\<exists>t. sched_step\<^sup>*\<^sup>* demo_final t \<and> complete t"
proof -
  have "pl_max_in_flight_attempts (sc_plan demo_final) = Some 2" by (simp add: demo_final_def demo_sched_defs)
  with dispatch_once_and_never_stuck [OF demo_sched_start demo_sched_run] show ?thesis by simp
qed

theorem retry_lineages_are_bounded_witness:
  "int (card {x \<in> set (sc_retries demo_final). root_attempt_id (sc_retries demo_final) x = Some ''a''}) \<le> 1
   \<and> register_retry demo_second ''a'' 1 demo_final = Some (Inl (ScheduleError SE_retry_registered))"
proof -
  have "pl_max_retries_per_lineage (sc_plan demo_final) = Some 1" by (simp add: demo_final_def demo_sched_defs)
  then have "int (card {x \<in> set (sc_retries demo_final). root_attempt_id (sc_retries demo_final) x = Some ''a''}) \<le> max 0 1"
    using retry_lineages_are_bounded [OF demo_sched_start demo_sched_run] by blast
  moreover have "register_retry demo_second ''a'' 1 demo_final = Some (Inl (ScheduleError SE_retry_registered))"
    by code_simp
  ultimately show ?thesis by simp
qed

text \<open>
  The bounds of the plan do not hold for retries. Although the scheduler is described as never
  crossing batch bounds, some run has the two retries of one pair in flight at once, in different batches:
  the branch of \<^verbatim>\<open>claim_next\<close> that dispatches retries tests neither the batch nor the pair.
\<close>

theorem retries_ignore_batch_and_pair:
  "\<exists>s0 s a b. sched_start s0 \<and> sched_step\<^sup>*\<^sup>* s0 s \<and> a \<in> set (sc_active s) \<and> b \<in> set (sc_active s)
     \<and> sa_batch_index a \<noteq> sa_batch_index b \<and> sa_pair_id a = sa_pair_id b \<and> sa_pair_id a \<noteq> None"
proof -
  let ?ra = "demo_retry ''a'' S_baseline 2" and ?rb = "demo_retry ''b'' S_xir 3"
  have "?ra \<in> set (sc_active demo_final)" "?rb \<in> set (sc_active demo_final)"
    by (simp_all add: demo_final_def demo_sched_def)
  moreover have "sa_batch_index ?ra \<noteq> sa_batch_index ?rb" "sa_pair_id ?ra = sa_pair_id ?rb" "sa_pair_id ?ra \<noteq> None"
    by (simp_all add: demo_retry_def demo_attempt_def)
  ultimately show ?thesis using demo_sched_start demo_sched_run by blast
qed

end
