(* ===== verification/Xir_Stages.thy ===== *)
theory Xir_Stages
  imports Xir_Scheduler "HOL-Library.Multiset"
begin

text \<open>
  \<^verbatim>\<open>config/stages.py\<close>: the preregistered templates of the physical transactions of a route, one for
  each condition and arm, and the semantic validation that pins them. Sets of labels are lists compared
  as sets. Reading the file and the JSON schema are not modelled: a template set is a value.
\<close>

section \<open>Templates\<close>

record physical_template =
  pt_transaction_template_id :: string
  pt_ordinal :: int
  pt_chain_id :: int
  pt_accounting_bucket :: string
  pt_funding_attribution :: string
  pt_logical_labels :: "string list"

record stage_template =
  te_template_id :: string
  te_template_version :: int
  te_condition :: string
  te_arm :: sched_arm
  te_ordered_chain_ids :: "int list"
  te_carrier_sequence :: "string list"
  te_physical :: "physical_template list"

record stage_template_set =
  ts_template_set_id :: string
  ts_templates :: "stage_template list"

definition route_conditions :: "string list" where
  "route_conditions = [''HH'', ''HL'', ''LH'', ''LL'']"

text \<open>The dictionary of carrier protocols; another condition is a \<^verbatim>\<open>KeyError\<close>.\<close>

definition expected_protocols :: "string \<Rightarrow> exn + string list" where
  "expected_protocols condition =
     require (map_of [(''HH'', [''hyperlane'', ''hyperlane'']), (''HL'', [''hyperlane'', ''layerzero-v2'']),
                      (''LH'', [''layerzero-v2'', ''hyperlane'']), (''LL'', [''layerzero-v2'', ''layerzero-v2''])]
                condition) KeyError"

definition expected_transactions :: "(int \<times> int \<times> string) list" where
  "expected_transactions = [(0, 11155420, ''source''), (1, 421614, ''intermediate''), (2, 84532, ''destination'')]"

definition common_labels :: "string list list" where
  "common_labels =
     [[''source_application_preparation'', ''carrier_one_dispatch''],
      [''carrier_one_receive'', ''carrier_two_forward''],
      [''carrier_two_receive'', ''destination_application_effect'']]"

definition baseline_only_labels :: "string option list" where
  "baseline_only_labels = [None, Some ''intermediate_baseline_control'', None]"

definition xir_only_labels :: "string list" where
  "xir_only_labels = [''xir_record_encode'', ''xir_intermediate_verification'', ''xir_destination_verification'']"

section \<open>Validation\<close>

definition transaction_shape :: "stage_template \<Rightarrow> (int \<times> int \<times> string) list" where
  "transaction_shape t = map (\<lambda>x. (pt_ordinal x, pt_chain_id x, pt_accounting_bucket x)) (te_physical t)"

definition labels_ok :: "sched_arm \<Rightarrow> string list \<Rightarrow> string option \<Rightarrow> string \<Rightarrow> string list \<Rightarrow> exn + unit" where
  "labels_ok arm required baseline_only xir_only labels =
     (case arm of
        S_baseline \<Rightarrow> ensure (set labels = set required \<union> (case baseline_only of None \<Rightarrow> {} | Some l \<Rightarrow> {l}))
                        (StageTemplateError TE_baseline_labels)
      | S_xir \<Rightarrow> ensure (set labels = set required \<union> {xir_only}) (StageTemplateError TE_xir_labels))"

text \<open>The loop over the transactions of a template; the state is the set of identifiers seen.\<close>

fun check_transactions ::
  "sched_arm \<Rightarrow> (physical_template \<times> string list \<times> string option \<times> string) list \<Rightarrow> string list
     \<Rightarrow> exn + string list" where
  "check_transactions arm [] seen = Inr seen"
| "check_transactions arm ((x, required, baseline_only, xir_only) # rest) seen =
     bindE (ensure (pt_transaction_template_id x \<notin> set seen) (StageTemplateError TE_duplicate_transaction)) (\<lambda>_.
     bindE (labels_ok arm required baseline_only xir_only (pt_logical_labels x)) (\<lambda>_.
     check_transactions arm rest (pt_transaction_template_id x # seen)))"

type_synonym template_scan = "(string \<times> sched_arm) list \<times> string list \<times> string list"

text \<open>
  One template. After the shape test there are exactly three transactions, as many as label rows, so
  pairing the lists is indexing them.
\<close>

definition check_template :: "stage_template \<Rightarrow> template_scan \<Rightarrow> exn + template_scan" where
  "check_template t = (\<lambda>(cells, ids, transaction_ids).
     bindE (ensure ((te_condition t, te_arm t) \<notin> set cells) (StageTemplateError TE_duplicate_cell)) (\<lambda>_.
     bindE (ensure (te_template_id t \<notin> set ids) (StageTemplateError TE_duplicate_template)) (\<lambda>_.
     bindE (expected_protocols (te_condition t)) (\<lambda>protocols.
     bindE (ensure (te_carrier_sequence t = protocols) (StageTemplateError TE_carrier_sequence)) (\<lambda>_.
     bindE (ensure (transaction_shape t = expected_transactions) (StageTemplateError TE_physical_transactions)) (\<lambda>_.
     bindE (check_transactions (te_arm t)
              (zip (te_physical t) (zip common_labels (zip baseline_only_labels xir_only_labels))) transaction_ids)
       (\<lambda>seen. Inr ((te_condition t, te_arm t) # cells, te_template_id t # ids, seen))))))))"

definition expected_cells :: "(string \<times> sched_arm) list" where
  "expected_cells = concat (map (\<lambda>c. [(c, S_baseline), (c, S_xir)]) route_conditions)"

definition semantic_validate :: "stage_template_set \<Rightarrow> exn + unit" where
  "semantic_validate s =
     bindE (foldE check_template (ts_templates s) ([], [], [])) (\<lambda>(cells, _, _).
     ensure (set cells = set expected_cells) (StageTemplateError TE_missing_cells))"

section \<open>What a validated set is\<close>

text \<open>
  The labels the protocol prescribes for the transactions of an arm, in the order of the route, as sets; and what it
  means for a template to be pinned: the fixed transactions, the carriers of its condition and those labels.
\<close>

definition prescribed_labels :: "sched_arm \<Rightarrow> string set list" where
  "prescribed_labels arm =
     (case arm of
        S_baseline \<Rightarrow> map2 (\<lambda>required only. set required \<union> set_option only) common_labels baseline_only_labels
      | S_xir \<Rightarrow> map2 (\<lambda>required only. insert only (set required)) common_labels xir_only_labels)"

definition well_shaped :: "stage_template \<Rightarrow> bool" where
  "well_shaped t \<longleftrightarrow> transaction_shape t = expected_transactions
     \<and> expected_protocols (te_condition t) = Inr (te_carrier_sequence t)"

definition labelled :: "stage_template \<Rightarrow> bool" where
  "labelled t \<longleftrightarrow> map (\<lambda>x. set (pt_logical_labels x)) (te_physical t) = prescribed_labels (te_arm t)"

definition template_transactions :: "stage_template list \<Rightarrow> string list" where
  "template_transactions ts = concat (map (\<lambda>t. map pt_transaction_template_id (te_physical t)) ts)"

lemma check_transactions_Inr:
  "check_transactions arm rows seen = Inr seen' \<longleftrightarrow>
     list_all (\<lambda>(x, required, baseline_only, xir_only). labels_ok arm required baseline_only xir_only (pt_logical_labels x) = Inr ()) rows
   \<and> distinct (map (pt_transaction_template_id \<circ> fst) rows) \<and> set (map (pt_transaction_template_id \<circ> fst) rows) \<inter> set seen = {}
   \<and> seen' = rev (map (pt_transaction_template_id \<circ> fst) rows) @ seen"
  by (induction arm rows seen rule: check_transactions.induct) (auto simp: exn_simps)

lemma labels_ok_Inr:
  "labels_ok arm required baseline_only xir_only labels = Inr () \<longleftrightarrow>
     set labels = (case arm of S_baseline \<Rightarrow> set required \<union> set_option baseline_only | S_xir \<Rightarrow> insert xir_only (set required))"
  by (auto simp: labels_ok_def exn_simps split: sched_arm.splits option.splits)

text \<open>One template passes exactly when it is new and pinned, and its transactions are new.\<close>

lemma check_template_Inr:
  "check_template t (cells, ids, txs) = Inr s \<longleftrightarrow>
     (te_condition t, te_arm t) \<notin> set cells \<and> te_template_id t \<notin> set ids \<and> well_shaped t \<and> labelled t
   \<and> distinct (map pt_transaction_template_id (te_physical t))
   \<and> set (map pt_transaction_template_id (te_physical t)) \<inter> set txs = {}
   \<and> s = ((te_condition t, te_arm t) # cells, te_template_id t # ids, rev (map pt_transaction_template_id (te_physical t)) @ txs)"
proof (cases "well_shaped t")
  case True
  then have "transaction_shape t = expected_transactions" by (simp add: well_shaped_def)
  from arg_cong [OF this, of length] have "length (te_physical t) = 3"
    by (simp add: transaction_shape_def expected_transactions_def)
  then obtain x y z where xyz: "te_physical t = [x, y, z]" by (auto simp: length_Suc_conv numeral_3_eq_3)
  let ?rows = "zip (te_physical t) (zip common_labels (zip baseline_only_labels xir_only_labels))"
  have labels: "list_all (\<lambda>(x, required, baseline_only, xir_only).
      labels_ok (te_arm t) required baseline_only xir_only (pt_logical_labels x) = Inr ()) ?rows \<longleftrightarrow> labelled t"
    by (cases "te_arm t") (auto simp: labels_ok_Inr labelled_def prescribed_labels_def xyz common_labels_def
        baseline_only_labels_def xir_only_labels_def)
  have "map (pt_transaction_template_id \<circ> fst) ?rows = map pt_transaction_template_id (te_physical t)"
    by (simp add: xyz common_labels_def baseline_only_labels_def xir_only_labels_def)
  with labels True show ?thesis
    unfolding check_template_def well_shaped_def by (auto simp: exn_simps check_transactions_Inr)
next
  case False
  then show ?thesis by (auto simp: check_template_def well_shaped_def exn_simps)
qed

lemma check_templates_Inr:
  "foldE check_template ts (cells, ids, txs) = Inr s \<longleftrightarrow>
     distinct (map (\<lambda>t. (te_condition t, te_arm t)) ts) \<and> (\<lambda>t. (te_condition t, te_arm t)) ` set ts \<inter> set cells = {}
   \<and> distinct (map te_template_id ts) \<and> te_template_id ` set ts \<inter> set ids = {}
   \<and> list_all (\<lambda>t. well_shaped t \<and> labelled t) ts
   \<and> distinct (template_transactions ts) \<and> set (template_transactions ts) \<inter> set txs = {}
   \<and> s = (rev (map (\<lambda>t. (te_condition t, te_arm t)) ts) @ cells, rev (map te_template_id ts) @ ids,
          rev (template_transactions ts) @ txs)"
proof (induction ts arbitrary: cells ids txs)
  case (Cons t ts)
  have "foldE check_template (t # ts) (cells, ids, txs) = Inr s \<longleftrightarrow>
      (\<exists>s1. check_template t (cells, ids, txs) = Inr s1 \<and> foldE check_template ts s1 = Inr s)"
    by (auto simp: exn_simps)
  also have "\<dots> \<longleftrightarrow> (te_condition t, te_arm t) \<notin> set cells \<and> te_template_id t \<notin> set ids \<and> well_shaped t \<and> labelled t
     \<and> distinct (map pt_transaction_template_id (te_physical t))
     \<and> set (map pt_transaction_template_id (te_physical t)) \<inter> set txs = {}
     \<and> foldE check_template ts ((te_condition t, te_arm t) # cells, te_template_id t # ids,
         rev (map pt_transaction_template_id (te_physical t)) @ txs) = Inr s"
    unfolding check_template_Inr by blast
  finally have one: "foldE check_template (t # ts) (cells, ids, txs) = Inr s \<longleftrightarrow> \<dots>" .
  have parts: "template_transactions (t # ts) = map pt_transaction_template_id (te_physical t) @ template_transactions ts"
    by (simp add: template_transactions_def)
  show ?case
    unfolding one Cons.IH parts
    by (rule iffI; elim conjE; intro conjI) (simp_all add: Int_Un_distrib Int_Un_distrib2 Int_commute)
qed (auto simp: template_transactions_def)

lemma expected_cells_distinct: "distinct expected_cells" "length expected_cells = 8"
  by code_simp+

text \<open>
  C31: the semantic validation accepts exactly the template sets that pin the routes: one template for every
  condition and arm and nothing else, with distinct identifiers, each with the three physical transactions of the fixed
  route on their chains and in their buckets, with the carriers its condition prescribes and with exactly the logical
  labels of its arm on each transaction, and no transaction template used twice in the whole set; so there are
  eight templates and 24 transactions.
\<close>

theorem validated_templates_pin_the_routes:
  "(semantic_validate s = Inr () \<longleftrightarrow>
      distinct (map (\<lambda>t. (te_condition t, te_arm t)) (ts_templates s))
    \<and> (\<lambda>t. (te_condition t, te_arm t)) ` set (ts_templates s) = set expected_cells
    \<and> distinct (map te_template_id (ts_templates s))
    \<and> list_all (\<lambda>t. well_shaped t \<and> labelled t) (ts_templates s)
    \<and> distinct (template_transactions (ts_templates s)))
   \<and> (semantic_validate s = Inr () \<longrightarrow>
      length (ts_templates s) = 8 \<and> length (template_transactions (ts_templates s)) = 24)"
proof -
  let ?cell = "\<lambda>t. (te_condition t, te_arm t)"
  have iff: "semantic_validate s = Inr () \<longleftrightarrow>
      distinct (map ?cell (ts_templates s)) \<and> ?cell ` set (ts_templates s) = set expected_cells
    \<and> distinct (map te_template_id (ts_templates s)) \<and> list_all (\<lambda>t. well_shaped t \<and> labelled t) (ts_templates s)
    \<and> distinct (template_transactions (ts_templates s))"
    unfolding semantic_validate_def by (auto simp: exn_simps check_templates_Inr split: prod.splits)
  moreover have "length (ts_templates s) = 8 \<and> length (template_transactions (ts_templates s)) = 24"
    if "semantic_validate s = Inr ()"
  proof -
    from that iff have cells: "distinct (map ?cell (ts_templates s))" "set (map ?cell (ts_templates s)) = set expected_cells"
      and shaped: "list_all well_shaped (ts_templates s)" by (auto simp: list_all_iff)
    have "length (ts_templates s) = card (set (map ?cell (ts_templates s)))" using distinct_card [OF cells(1)] by simp
    also have "\<dots> = 8" using cells(2) distinct_card [OF expected_cells_distinct(1)] expected_cells_distinct(2) by simp
    finally have eight: "length (ts_templates s) = 8" .
    have "length (te_physical t) = 3" if "well_shaped t" for t
    proof -
      from that have "length (transaction_shape t) = length expected_transactions" by (simp add: well_shaped_def)
      then show ?thesis by (simp add: transaction_shape_def expected_transactions_def)
    qed
    then have "length (template_transactions ts) = 3 * length ts" if "list_all well_shaped ts" for ts
      using that by (induction ts) (simp_all add: template_transactions_def)
    with shaped eight show ?thesis by simp
  qed
  ultimately show ?thesis by blast
qed

definition demo_route :: "string \<Rightarrow> sched_arm \<Rightarrow> stage_template" where
  "demo_route c a =
     (let tag = c @ arm_text a;
          extra = (case a of S_baseline \<Rightarrow> [[], [''intermediate_baseline_control''], []] | S_xir \<Rightarrow> map (\<lambda>l. [l]) xir_only_labels)
      in \<lparr>te_template_id = tag, te_template_version = 1, te_condition = c, te_arm = a,
          te_ordered_chain_ids = [11155420, 421614, 84532],
          te_carrier_sequence = (case expected_protocols c of Inr p \<Rightarrow> p | Inl _ \<Rightarrow> []),
          te_physical = map (\<lambda>((o', c', b), req, ex). \<lparr>pt_transaction_template_id = tag @ b, pt_ordinal = o',
             pt_chain_id = c', pt_accounting_bucket = b, pt_funding_attribution = ''runner'',
             pt_logical_labels = req @ ex\<rparr>) (zip expected_transactions (zip common_labels extra))\<rparr>)"

definition demo_templates :: stage_template_set where
  "demo_templates = \<lparr>ts_template_set_id = ''demo'',
     ts_templates = map (\<lambda>(c, a). demo_route c a) expected_cells\<rparr>"

lemma demo_templates_valid: "semantic_validate demo_templates = Inr ()"
  by code_simp

theorem validated_templates_pin_the_routes_witness:
  "length (template_transactions (ts_templates demo_templates)) = 24 \<and> labelled (demo_route ''HH'' S_baseline)"
proof -
  have "demo_route ''HH'' S_baseline \<in> set (ts_templates demo_templates)"
    by (simp add: demo_templates_def expected_cells_def route_conditions_def)
  with validated_templates_pin_the_routes [of demo_templates] demo_templates_valid show ?thesis
    by (simp add: list_all_iff)
qed

end
