(* ===== verification/Xir_Executor.thy ===== *)
theory Xir_Executor
  imports Xir_Stages Xir_Leases Xir_Controls
begin

text \<open>
  \<^verbatim>\<open>execute/executor.py\<close>: registration of a frozen plan in the evidence store, restart-safe claims of
  attempts, and the transitions of stages and attempts. A \<^verbatim>\<open>DurableBatchExecutor\<close> is its plan and its
  dictionary of stage templates; everything else it knows is in the database. \<open>h\<close> is the hexadecimal
  SHA-256 of a canonical JSON value, \<open>clk\<close> the system clock.
\<close>

section \<open>The executor\<close>

record executor =
  ex_plan :: execution_plan
  ex_templates :: "stage_template list"

record claimed_attempt =
  ca_attempt :: scheduled_attempt
  ca_work_lease_id :: string
  ca_holder_id :: string
  ca_expires_at :: int

record executor_snapshot =
  es_planned :: int
  es_leased :: int
  es_in_flight :: int
  es_terminal :: int
  es_current_batch :: "int option"

text \<open>The dictionary keyed by condition and arm: the last template of a key wins.\<close>

definition template_keys :: "executor \<Rightarrow> (string \<times> sched_arm) list" where
  "template_keys ex = remdups (map (\<lambda>t. (te_condition t, te_arm t)) (ex_templates ex))"

definition template_of :: "executor \<Rightarrow> string \<Rightarrow> sched_arm \<Rightarrow> exn + stage_template" where
  "template_of ex condition arm =
     require (find (\<lambda>t. te_condition t = condition \<and> te_arm t = arm) (rev (ex_templates ex))) KeyError"

definition executor_time :: "int \<Rightarrow> pydatetime option \<Rightarrow> exn + int" where
  "executor_time clk value = utc_of (ExecutorError EX_naive_time) clk value"

definition claim_lease_id :: "(json \<Rightarrow> string) \<Rightarrow> string \<Rightarrow> string \<Rightarrow> string \<Rightarrow> int \<Rightarrow> string" where
  "claim_lease_id h run_id attempt_id holder_id now =
     ''lease_'' @ take 24 (h (JObj
       [(''domain'', JStr ''xir-lab-work-lease-v1''), (''run_id'', JStr run_id),
        (''attempt_id'', JStr attempt_id), (''holder_id'', JStr holder_id), (''acquired_at'', JTime now)]))"

section \<open>Registering a plan\<close>

definition condition_id_of :: "(json \<Rightarrow> string) \<Rightarrow> string \<Rightarrow> string \<Rightarrow> string" where
  "condition_id_of h run_id condition = stable_id h ''condition'' [JStr run_id, JStr condition]"

definition planned_condition_id :: "(json \<Rightarrow> string) \<Rightarrow> string \<Rightarrow> string \<Rightarrow> exn + string" where
  "planned_condition_id h run_id condition =
     (if condition \<in> set route_conditions then Inr (condition_id_of h run_id condition) else Inl KeyError)"

text \<open>
  \<^verbatim>\<open>INSERT OR IGNORE\<close>: a row that violates a uniqueness or check constraint is skipped silently, a
  dangling reference is an error all the same.
\<close>

definition ensure_run :: "string \<Rightarrow> string \<Rightarrow> string \<Rightarrow> int \<Rightarrow> db \<Rightarrow> exn + db" where
  "ensure_run run_id profile_id plan_sha256 created_at db =
     (case find_run run_id db of
        None \<Rightarrow>
          bindE (ensure (length plan_sha256 = 64) IntegrityError) (\<lambda>_.
          Inr (db\<lparr>t_runs := t_runs db @
            [\<lparr>rn_run_id = run_id, rn_profile_id = profile_id, rn_plan_sha256 = plan_sha256,
              rn_state = Run_mode Running, rn_created_at = created_at\<rparr>]\<rparr>))
      | Some r \<Rightarrow>
          bindE (ensure ((rn_profile_id r, rn_plan_sha256 r) = (profile_id, plan_sha256))
                   (ExecutorError EX_other_plan)) (\<lambda>_. Inr db))"

definition register_condition :: "(json \<Rightarrow> string) \<Rightarrow> string \<Rightarrow> string \<Rightarrow> db \<Rightarrow> exn + db" where
  "register_condition h run_id condition db =
     (let i = condition_id_of h run_id condition in
      if list_ex (\<lambda>c. cd_condition_id c = i \<or> cd_run_id c = run_id \<and> cd_carrier_sequence c = condition)
           (t_conditions db) then Inr db
      else bindE (ensure (find_run run_id db \<noteq> None) IntegrityError) (\<lambda>_.
           Inr (db\<lparr>t_conditions := t_conditions db @
             [\<lparr>cd_condition_id = i, cd_run_id = run_id, cd_carrier_sequence = condition,
               cd_state = ''planned''\<rparr>]\<rparr>)))"

definition register_pair :: "string \<Rightarrow> string \<Rightarrow> int \<Rightarrow> db \<Rightarrow> exn + db" where
  "register_pair pair_id condition_id slot_index db =
     bindE (ensure (int64 slot_index) OverflowError) (\<lambda>_.
     if slot_index < 0 \<or> list_ex (\<lambda>p. pr_pair_id p = pair_id
          \<or> pr_condition_id p = condition_id \<and> pr_slot_index p = slot_index) (t_pairs db) then Inr db
     else bindE (ensure (find_condition condition_id db \<noteq> None) IntegrityError) (\<lambda>_.
          Inr (db\<lparr>t_pairs := t_pairs db @
            [\<lparr>pr_pair_id = pair_id, pr_condition_id = condition_id, pr_slot_index = slot_index\<rparr>]\<rparr>)))"

definition stored_arm :: "sched_arm \<Rightarrow> arm" where
  "stored_arm a = (case a of S_baseline \<Rightarrow> Baseline | S_xir \<Rightarrow> Xir)"

definition stored_kind :: "sched_kind \<Rightarrow> attempt_kind" where
  "stored_kind k = (case k of S_pilot \<Rightarrow> Pilot | S_warmup \<Rightarrow> Warmup | S_primary \<Rightarrow> Primary | S_retry \<Rightarrow> Retry)"

definition planned_row :: "string \<Rightarrow> int \<Rightarrow> scheduled_attempt \<Rightarrow> attempt_row" where
  "planned_row condition_id created_at x =
     \<lparr>at_attempt_id = sa_attempt_id x, at_condition_id = condition_id, at_pair_id = sa_pair_id x,
      at_arm = stored_arm (sa_arm x), at_attempt_kind = stored_kind (sa_attempt_kind x),
      at_original_attempt_kind = None, at_retry_of = None, at_schedule_index = Some (sa_sequence_index x),
      at_batch_index = Some (sa_batch_index x), at_state = A_planned, at_created_at = created_at\<rparr>"

definition register_attempt :: "string \<Rightarrow> int \<Rightarrow> scheduled_attempt \<Rightarrow> db \<Rightarrow> exn + db" where
  "register_attempt condition_id created_at x db =
     bindE (ensure (int64 (sa_sequence_index x) \<and> int64 (sa_batch_index x)) OverflowError) (\<lambda>_.
     if sa_sequence_index x < 0 \<or> sa_batch_index x < 0 \<or> sa_attempt_kind x = S_retry
        \<or> find_attempt (sa_attempt_id x) db \<noteq> None then Inr db
     else bindE (ensure (find_condition condition_id db \<noteq> None
                         \<and> (case sa_pair_id x of None \<Rightarrow> True
                            | Some p \<Rightarrow> list_ex (\<lambda>r. pr_pair_id r = p) (t_pairs db))) IntegrityError) (\<lambda>_.
          Inr (db\<lparr>t_attempts := t_attempts db @ [planned_row condition_id created_at x]\<rparr>)))"

definition planned_stage_row ::
  "(json \<Rightarrow> string) \<Rightarrow> string \<Rightarrow> stage_template \<Rightarrow> physical_template \<Rightarrow> stage_row" where
  "planned_stage_row h attempt_id t x =
     \<lparr>sg_stage_id = stable_id h ''stage'' [JStr attempt_id, JStr (te_template_id t), JInt (pt_ordinal x)],
      sg_attempt_id = attempt_id, sg_ordinal = pt_ordinal x, sg_stage_name = pt_transaction_template_id x,
      sg_stage_template_id = Some (te_template_id t), sg_chain_id = Some (pt_chain_id x),
      sg_accounting_bucket = Some (pt_accounting_bucket x), sg_logical_labels = Some (pt_logical_labels x),
      sg_state = G_planned\<rparr>"

definition register_stage ::
  "(json \<Rightarrow> string) \<Rightarrow> string \<Rightarrow> stage_template \<Rightarrow> physical_template \<Rightarrow> db \<Rightarrow> exn + db" where
  "register_stage h attempt_id t x db =
     (let row = planned_stage_row h attempt_id t x in
      bindE (ensure (int64 (pt_ordinal x) \<and> int64 (pt_chain_id x)) OverflowError) (\<lambda>_.
      if pt_ordinal x < 0 \<or> pt_accounting_bucket x \<notin> {''source'', ''intermediate'', ''destination''}
         \<or> list_ex (\<lambda>s. sg_stage_id s = sg_stage_id row
              \<or> sg_attempt_id s = attempt_id \<and> sg_ordinal s = pt_ordinal x) (t_stages db) then Inr db
      else bindE (ensure (find_attempt attempt_id db \<noteq> None) IntegrityError) (\<lambda>_.
           Inr (db\<lparr>t_stages := t_stages db @ [row]\<rparr>))))"

definition register_item :: "(json \<Rightarrow> string) \<Rightarrow> executor \<Rightarrow> int \<Rightarrow> scheduled_attempt \<Rightarrow> db \<Rightarrow> exn + db" where
  "register_item h ex created_at x db =
     bindE (planned_condition_id h (pl_run_id (ex_plan ex)) (sa_condition x)) (\<lambda>condition_id.
     bindE (case sa_pair_id x of None \<Rightarrow> Inr db
            | Some pair_id \<Rightarrow>
                bindE (require (sa_pair_slot_index x) (ExecutorError EX_lost_slot)) (\<lambda>slot.
                register_pair pair_id condition_id slot db)) (\<lambda>db1.
     bindE (register_attempt condition_id created_at x db1) (\<lambda>db2.
     bindE (template_of ex (sa_condition x) (sa_arm x)) (\<lambda>t.
     foldE (register_stage h (sa_attempt_id x) t) (te_physical t) db2))))"

text \<open>Attempts of a run that are not retries, as the joins of the executor select them.\<close>

definition planned_attempts :: "string \<Rightarrow> db \<Rightarrow> attempt_row list" where
  "planned_attempts run_id db =
     filter (\<lambda>a. at_retry_of a = None
               \<and> map_option cd_run_id (find_condition (at_condition_id a) db) = Some run_id) (t_attempts db)"

definition check_registered :: "execution_plan \<Rightarrow> db \<Rightarrow> exn + unit" where
  "check_registered plan db =
     (let rows = planned_attempts (pl_run_id plan) db in
      ensure (length rows = length (pl_attempts plan)
              \<and> length (remdups (List.map_filter at_schedule_index rows)) = length (pl_attempts plan))
        (ExecutorError EX_plan_count))"

definition register_plan_txn :: "(json \<Rightarrow> string) \<Rightarrow> executor \<Rightarrow> int \<Rightarrow> unit txn" where
  "register_plan_txn h ex created_at db =
     (let plan = ex_plan ex in
      bindE (ensure_run (pl_run_id plan) (pl_profile_id plan) (pl_plan_sha256 plan) created_at db) (\<lambda>db1.
      bindE (foldE (register_condition h (pl_run_id plan)) route_conditions db1) (\<lambda>db2.
      bindE (foldE (register_item h ex created_at) (pl_attempts plan) db2) (\<lambda>db3.
      bindE (check_registered plan db3) (\<lambda>_. Inr ((), db3))))))"

definition register_plan ::
  "(json \<Rightarrow> string) \<Rightarrow> int \<Rightarrow> executor \<Rightarrow> pydatetime option \<Rightarrow> db \<Rightarrow> unit outcome" where
  "register_plan h clk ex now db =
     (case bindE (ensure (pl_executable (ex_plan ex)) (ExecutorError EX_not_executable)) (\<lambda>_.
           bindE (ensure (length (template_keys ex) = 8) (ExecutorError EX_eight_templates)) (\<lambda>_.
           executor_time clk now)) of
        Inl e \<Rightarrow> (Inl e, db)
      | Inr created_at \<Rightarrow> store_write (register_plan_txn h ex created_at) db)"

section \<open>Claiming\<close>

text \<open>
  \<^verbatim>\<open>_claim_state\<close>: the planned attempts joined with their active leases (one row per active lease, one
  without lease otherwise); the result is the state of every attempt, the identifiers that are in flight
  or under a lease that has not expired, and the smallest batch with an unfinished attempt.
\<close>

type_synonym claim_state = "(string \<times> attempt_state) list \<times> string list \<times> int option"

definition leased_rows :: "string \<Rightarrow> db \<Rightarrow> (attempt_row \<times> int option) list" where
  "leased_rows run_id db =
     concat (map (\<lambda>a. case filter (\<lambda>l. wl_attempt_id l = at_attempt_id a \<and> wl_state l = W_active) (t_work_leases db) of
                    [] \<Rightarrow> [(a, None)]
                  | ls \<Rightarrow> map (\<lambda>l. (a, Some (wl_expires_at l))) ls)
       (planned_attempts run_id db))"

definition row_active :: "int \<Rightarrow> attempt_row \<times> int option \<Rightarrow> bool" where
  "row_active now row \<longleftrightarrow> at_state (fst row) = A_in_flight
     \<or> (case snd row of None \<Rightarrow> False | Some expires \<Rightarrow> expires > now)"

definition batch_numbers :: "attempt_row list \<Rightarrow> exn + int list" where
  "batch_numbers rows =
     (if list_ex (\<lambda>a. at_batch_index a = None) rows then Inl TypeError else Inr (List.map_filter at_batch_index rows))"

definition min_opt :: "int list \<Rightarrow> int option" where
  "min_opt xs = (case xs of [] \<Rightarrow> None | x # ys \<Rightarrow> Some (fold min ys x))"

definition claim_state_of :: "execution_plan \<Rightarrow> int \<Rightarrow> db \<Rightarrow> exn + claim_state" where
  "claim_state_of plan now db =
     (let rows = leased_rows (pl_run_id plan) db in
      bindE (ensure (length rows = length (pl_attempts plan)) (ExecutorError EX_plan_mismatch)) (\<lambda>_.
      bindE (batch_numbers (filter (\<lambda>a. at_state a \<notin> set terminal_attempt_states) (map fst rows))) (\<lambda>batches.
      Inr (map (\<lambda>r. (at_attempt_id (fst r), at_state (fst r))) rows,
           map (\<lambda>r. at_attempt_id (fst r)) (filter (row_active now) rows), min_opt batches))))"

text \<open>The loop of \<^verbatim>\<open>claim_next\<close> over the plan: the attempt to claim, or nothing.\<close>

fun choose_attempt ::
  "(string \<times> attempt_state) list \<Rightarrow> string list \<Rightarrow> int \<Rightarrow> string list \<Rightarrow> scheduled_attempt list
     \<Rightarrow> exn + scheduled_attempt option" where
  "choose_attempt states active batch pairs [] = Inr None"
| "choose_attempt states active batch pairs (x # xs) =
     (if sa_batch_index x \<noteq> batch then choose_attempt states active batch pairs xs
      else bindE (require (map_of (rev states) (sa_attempt_id x)) KeyError) (\<lambda>state.
           if state \<noteq> A_planned \<or> sa_attempt_id x \<in> set active then choose_attempt states active batch pairs xs
           else case sa_pair_id x of
                  Some p \<Rightarrow> if p \<in> set pairs then Inr None else Inr (Some x)
                | None \<Rightarrow> Inr (Some x)))"

definition active_pairs :: "execution_plan \<Rightarrow> string list \<Rightarrow> string list" where
  "active_pairs plan active =
     List.map_filter sa_pair_id (filter (\<lambda>x. sa_attempt_id x \<in> set active) (pl_attempts plan))"

definition next_attempt :: "execution_plan \<Rightarrow> int \<Rightarrow> db \<Rightarrow> exn + scheduled_attempt option" where
  "next_attempt plan now db =
     bindE (control_state_of (pl_run_id plan) db) (\<lambda>control.
     if ct_mode control \<noteq> Running then Inr None
     else bindE (claim_state_of plan now db) (\<lambda>(states, active, current_batch).
     case current_batch of
       None \<Rightarrow> Inr None
     | Some batch \<Rightarrow>
         bindE (require (pl_max_in_flight_attempts plan) (ExecutorError EX_missing_limit)) (\<lambda>maximum.
         if int (length (remdups active)) \<ge> maximum then Inr None
         else choose_attempt states active batch (active_pairs plan active) (pl_attempts plan))))"

definition lease_failure :: "exn \<Rightarrow> exn" where
  "lease_failure e = (case e of LeaseError _ \<Rightarrow> ExecutorError EX_lost_race | _ \<Rightarrow> e)"

definition executor_claim_next ::
  "(json \<Rightarrow> string) \<Rightarrow> int \<Rightarrow> executor \<Rightarrow> string \<Rightarrow> int \<Rightarrow> pydatetime option \<Rightarrow> db
     \<Rightarrow> claimed_attempt option outcome" where
  "executor_claim_next h clk ex holder_id ttl now db =
     (case bindE (executor_time clk now) (\<lambda>acquired.
           bindE (next_attempt (ex_plan ex) acquired db) (\<lambda>choice. Inr (acquired, choice))) of
        Inl e \<Rightarrow> (Inl e, db)
      | Inr (_, None) \<Rightarrow> (Inr None, db)
      | Inr (acquired, Some x) \<Rightarrow>
          let lease_id = claim_lease_id h (pl_run_id (ex_plan ex)) (sa_attempt_id x) holder_id acquired
          in (case acquire_work clk lease_id (sa_attempt_id x) holder_id ttl (Some (Aware acquired)) db of
                (Inl e, db') \<Rightarrow> (Inl (lease_failure e), db')
              | (Inr lease, db') \<Rightarrow>
                  (Inr (Some \<lparr>ca_attempt = x, ca_work_lease_id = wk_lease_id lease, ca_holder_id = holder_id,
                              ca_expires_at = wk_expires_at lease\<rparr>), db')))"

section \<open>Stages and attempts\<close>

definition stage_transitions :: "stage_state \<Rightarrow> stage_state list" where
  "stage_transitions s =
     (case s of G_planned \<Rightarrow> [G_prepared] | G_prepared \<Rightarrow> [G_in_flight] | G_in_flight \<Rightarrow> [G_completed, G_failed] | _ \<Rightarrow> [])"

definition set_stage_state :: "string \<Rightarrow> stage_state \<Rightarrow> db \<Rightarrow> db" where
  "set_stage_state i s db =
     db\<lparr>t_stages := update_where (\<lambda>r. sg_stage_id r = i) (sg_state_update (\<lambda>_. s)) (t_stages db)\<rparr>"

definition transition_stage_txn :: "int \<Rightarrow> string \<Rightarrow> stage_state \<Rightarrow> unit txn" where
  "transition_stage_txn clk stage_id to_state db =
     bindE (require (Option.bind (find_stage stage_id db) (\<lambda>g.
              if find_attempt (sg_attempt_id g) db = None then None else Some g))
              (ExecutorError EX_unknown_stage)) (\<lambda>row.
     if sg_state row = to_state then Inr ((), db)
     else
     bindE (ensure (to_state \<in> set (stage_transitions (sg_state row))) (ExecutorError EX_invalid_transition)) (\<lambda>_.
     bindE (ensure (to_state = G_prepared \<longrightarrow>
              \<not> list_ex (\<lambda>s. sg_attempt_id s = sg_attempt_id row \<and> sg_ordinal s < sg_ordinal row
                           \<and> sg_state s \<noteq> G_completed) (t_stages db)) (ExecutorError EX_prior_incomplete)) (\<lambda>_.
     bindE (ensure (to_state = G_in_flight \<longrightarrow> list_ex (\<lambda>i. it_stage_id i = stage_id) (t_intents db))
              (ExecutorError EX_no_intent)) (\<lambda>_.
     Inr ((), append_transition clk ''stage'' stage_id (Some (E_stage (sg_state row))) (E_stage to_state) (JObj [])
                (set_stage_state stage_id to_state db))))))"

definition transition_stage :: "int \<Rightarrow> string \<Rightarrow> stage_state \<Rightarrow> db \<Rightarrow> unit outcome" where
  "transition_stage clk stage_id to_state = store_write (transition_stage_txn clk stage_id to_state)"

text \<open>
  \<^verbatim>\<open>complete_attempt\<close> inner joins the stages, so an attempt without stages is unknown. The flag tells
  whether the call went on to release the lease; a delivered attempt returns at once.
\<close>

definition complete_attempt_txn :: "int \<Rightarrow> string \<Rightarrow> bool txn" where
  "complete_attempt_txn clk attempt_id db =
     bindE (require (Option.bind (find_attempt attempt_id db) (\<lambda>a.
              if list_ex (\<lambda>s. sg_attempt_id s = attempt_id) (t_stages db) then Some a else None))
              (ExecutorError EX_unknown_attempt)) (\<lambda>row.
     bindE (ensure (\<not> list_ex (\<lambda>s. sg_attempt_id s = attempt_id \<and> sg_state s \<noteq> G_completed) (t_stages db))
              (ExecutorError EX_unfinished_stages)) (\<lambda>_.
     if at_state row = A_delivered then Inr (False, db)
     else Inr (True, append_transition clk ''attempt'' attempt_id (Some (E_attempt (at_state row)))
                       (E_attempt A_delivered) (JObj []) (set_attempt_state attempt_id A_delivered db))))"

definition executor_complete_attempt :: "int \<Rightarrow> string \<Rightarrow> string \<Rightarrow> string \<Rightarrow> db \<Rightarrow> unit outcome" where
  "executor_complete_attempt clk attempt_id work_lease_id holder_id db =
     (case store_write (complete_attempt_txn clk attempt_id) db of
        (Inl e, db') \<Rightarrow> (Inl e, db')
      | (Inr False, db') \<Rightarrow> (Inr (), db')
      | (Inr True, db') \<Rightarrow> release_work clk work_lease_id holder_id db')"

section \<open>Audits\<close>

definition unsigned_broadcast :: "db \<Rightarrow> transaction_row \<Rightarrow> bool" where
  "unsigned_broadcast db t \<longleftrightarrow>
     tx_state t \<in> {T_broadcast_unknown, T_submitted, T_included, T_finalized}
     \<and> (case find_intent (tx_intent_id t) db of None \<Rightarrow> True | Some i \<Rightarrow> it_state i = T_prepared)"

text \<open>The first offending row in table order; SQL leaves open which one \<^verbatim>\<open>LIMIT 1\<close> picks.\<close>

definition assert_intent_before_broadcast :: "db \<Rightarrow> exn + unit" where
  "assert_intent_before_broadcast db =
     (case find (unsigned_broadcast db) (t_transactions db) of
        None \<Rightarrow> Inr ()
      | Some t \<Rightarrow> Inl (ExecutorError (EX_unsigned_broadcast (tx_transaction_id t))))"

text \<open>Counts over a dictionary: one value per key, the last.\<close>

definition dict_values :: "('k \<times> 'v) list \<Rightarrow> 'v list" where
  "dict_values xs = List.map_filter (\<lambda>k. map_of (rev xs) k) (remdups (map fst xs))"

definition count_if :: "('a \<Rightarrow> bool) \<Rightarrow> 'a list \<Rightarrow> int" where
  "count_if p xs = int (length (filter p xs))"

text \<open>The argument is the instant \<^verbatim>\<open>now.astimezone(UTC)\<close>; a naive one is read in the local time zone.\<close>

definition snapshot :: "int \<Rightarrow> executor \<Rightarrow> int option \<Rightarrow> db \<Rightarrow> exn + executor_snapshot" where
  "snapshot clk ex now db =
     bindE (claim_state_of (ex_plan ex) (case now of None \<Rightarrow> clk | Some t \<Rightarrow> t) db) (\<lambda>(states, active, batch).
     let values = dict_values states; in_flight = count_if (\<lambda>s. s = A_in_flight) values
     in Inr \<lparr>es_planned = count_if (\<lambda>s. s = A_planned) values,
             es_leased = max 0 (int (length (remdups active)) - in_flight), es_in_flight = in_flight,
             es_terminal = count_if (\<lambda>s. s \<in> set terminal_attempt_states) values, es_current_batch = batch\<rparr>)"

end
