(* ===== verification/Xir_Executor_Plan.thy ===== *)
theory Xir_Executor_Plan
  imports Xir_Executor
begin

text \<open>
  Registration of a plan: it is idempotent, and into a store that does not know the run it writes exactly
  the frozen plan. The tables it writes only grow, \<open>plan_grows\<close>, and a row it skipped or wrote is skipped
  when it is offered again.
\<close>

section \<open>Tables that only grow\<close>

definition plan_grows :: "db \<Rightarrow> db \<Rightarrow> bool" where
  "plan_grows d u \<longleftrightarrow> (\<exists>xs. t_runs u = t_runs d @ xs) \<and> (\<exists>xs. t_conditions u = t_conditions d @ xs)
     \<and> (\<exists>xs. t_pairs u = t_pairs d @ xs) \<and> (\<exists>xs. t_attempts u = t_attempts d @ xs)
     \<and> (\<exists>xs. t_stages u = t_stages d @ xs)"

lemma plan_grows_refl [simp]: "plan_grows d d"
  by (simp add: plan_grows_def)

lemma plan_grows_trans: "plan_grows d e \<Longrightarrow> plan_grows e u \<Longrightarrow> plan_grows d u"
  unfolding plan_grows_def by (metis append.assoc)

lemma plan_grows_find:
  assumes "plan_grows d u"
  shows "find_run i d = Some r \<Longrightarrow> find_run i u = Some r"
    "find_condition i d = Some c \<Longrightarrow> find_condition i u = Some c"
    "find_attempt i d = Some a \<Longrightarrow> find_attempt i u = Some a"
  using assms
  by (auto simp: plan_grows_def find_run_def find_condition_def find_attempt_def find_append)

lemma plan_grows_ex:
  assumes "plan_grows d u"
  shows "list_ex p (t_conditions d) \<Longrightarrow> list_ex p (t_conditions u)"
    "list_ex q (t_pairs d) \<Longrightarrow> list_ex q (t_pairs u)"
    "list_ex s (t_stages d) \<Longrightarrow> list_ex s (t_stages u)"
  using assms by (auto simp: plan_grows_def)

text \<open>
  A step \<open>f\<close> is settled by \<open>f\<close> for \<open>g\<close>: it grows the tables, and \<open>g\<close>, the same step at another time, returns
  every later database as it is. Loops and sequences of such steps are such steps.
\<close>

definition repeatable :: "(db \<Rightarrow> exn + db) \<Rightarrow> (db \<Rightarrow> exn + db) \<Rightarrow> bool" where
  "repeatable f g \<longleftrightarrow> (\<forall>d d'. f d = Inr d' \<longrightarrow> plan_grows d d' \<and> (\<forall>u. plan_grows d' u \<longrightarrow> g u = Inr u))"

lemma repeatableI:
  assumes "\<And>d d'. f d = Inr d' \<Longrightarrow> plan_grows d d'"
    and "\<And>d d' u. f d = Inr d' \<Longrightarrow> plan_grows d' u \<Longrightarrow> g u = Inr u"
  shows "repeatable f g"
  unfolding repeatable_def using assms by blast

lemma repeatableD:
  assumes "repeatable f g" and "f d = Inr d'"
  shows "plan_grows d d'" and "plan_grows d' u \<Longrightarrow> g u = Inr u"
  using assms unfolding repeatable_def by blast+

lemma repeatable_return [intro]: "repeatable Inr Inr" "repeatable (\<lambda>_. Inl e) g"
  by (auto simp: repeatable_def)

lemma repeatable_const:
  "(\<And>x. repeatable (\<lambda>d. f x d) (\<lambda>d. g x d)) \<Longrightarrow> repeatable (\<lambda>d. bindE m (\<lambda>x. f x d)) (\<lambda>d. bindE m (\<lambda>x. g x d))"
  by (cases m) auto

lemma repeatable_seq:
  assumes "repeatable f f'" and "repeatable g g'"
  shows "repeatable (\<lambda>d. bindE (f d) g) (\<lambda>d. bindE (f' d) g')"
proof (rule repeatableI)
  fix d d' assume "bindE (f d) g = Inr d'"
  then obtain e where e: "f d = Inr e" "g e = Inr d'" by (auto simp: exn_simps)
  note f = repeatableD [OF assms(1) e(1)] and g = repeatableD [OF assms(2) e(2)]
  from f(1) g(1) show "plan_grows d d'" by (rule plan_grows_trans)
  fix u assume "plan_grows d' u"
  with g(1) have "plan_grows e u" by (rule plan_grows_trans)
  with f(2) g(2) \<open>plan_grows d' u\<close> show "bindE (f' u) g' = Inr u" by simp
qed

lemma repeatable_loop:
  assumes "\<And>x. repeatable (f x) (g x)"
  shows "repeatable (foldE f xs) (foldE g xs)"
proof (induction xs)
  case (Cons x xs)
  from repeatable_seq [OF assms Cons.IH] show ?case by simp
qed auto

section \<open>Registration is repeatable\<close>

lemma ensure_run_repeatable: "repeatable (ensure_run run_id profile_id sha t) (ensure_run run_id profile_id sha t')"
proof (rule repeatableI)
  fix d d' assume step: "ensure_run run_id profile_id sha t d = Inr d'"
  then show "plan_grows d d'"
    by (auto simp: ensure_run_def exn_simps plan_grows_def split: option.splits)
  from step have "\<exists>r. find_run run_id d' = Some r \<and> (rn_profile_id r, rn_plan_sha256 r) = (profile_id, sha)"
    by (auto simp: ensure_run_def exn_simps find_run_def find_append split: option.splits)
  then obtain r where r: "find_run run_id d' = Some r" "(rn_profile_id r, rn_plan_sha256 r) = (profile_id, sha)"
    by blast
  fix u assume "plan_grows d' u"
  from plan_grows_find(1) [OF this r(1)] r(2) show "ensure_run run_id profile_id sha t' u = Inr u"
    by (simp add: ensure_run_def)
qed

lemma register_condition_repeatable: "repeatable (register_condition h run_id c) (register_condition h run_id c)"
proof (rule repeatableI)
  fix d d' assume step: "register_condition h run_id c d = Inr d'"
  then show "plan_grows d d'"
    by (auto simp: register_condition_def Let_def exn_simps plan_grows_def split: if_splits)
  from step have ex: "list_ex (\<lambda>x. cd_condition_id x = condition_id_of h run_id c \<or> cd_run_id x = run_id \<and> cd_carrier_sequence x = c)
      (t_conditions d')"
    by (auto simp: register_condition_def Let_def exn_simps split: if_splits)
  fix u assume "plan_grows d' u"
  from plan_grows_ex(1) [OF this ex] show "register_condition h run_id c u = Inr u"
    by (simp add: register_condition_def Let_def)
qed

lemma register_pair_repeatable: "repeatable (register_pair p c slot) (register_pair p c slot)"
proof (rule repeatableI)
  fix d d' assume step: "register_pair p c slot d = Inr d'"
  then show "plan_grows d d'"
    by (auto simp: register_pair_def exn_simps plan_grows_def split: if_splits)
  from step have int: "int64 slot" and ex: "slot < 0 \<or> list_ex (\<lambda>x. pr_pair_id x = p
        \<or> pr_condition_id x = c \<and> pr_slot_index x = slot) (t_pairs d')"
    by (auto simp: register_pair_def exn_simps split: if_splits)
  fix u assume "plan_grows d' u"
  from int ex plan_grows_ex(2) [OF this] show "register_pair p c slot u = Inr u"
    by (auto simp: register_pair_def)
qed

lemma register_attempt_repeatable: "repeatable (register_attempt c t x) (register_attempt c t' x)"
proof (rule repeatableI)
  fix d d' assume step: "register_attempt c t x d = Inr d'"
  then show "plan_grows d d'"
    by (auto simp: register_attempt_def exn_simps plan_grows_def split: if_splits)
  from step have int: "int64 (sa_sequence_index x)" "int64 (sa_batch_index x)"
    and ex: "sa_sequence_index x < 0 \<or> sa_batch_index x < 0 \<or> sa_attempt_kind x = S_retry
        \<or> (\<exists>a. find_attempt (sa_attempt_id x) d' = Some a)"
    by (auto simp: register_attempt_def exn_simps find_attempt_def find_append planned_row_def
        split: if_splits option.splits)
  fix u assume "plan_grows d' u"
  from int ex plan_grows_find(3) [OF this] show "register_attempt c t' x u = Inr u"
    by (auto simp: register_attempt_def)
qed

lemma register_stage_repeatable: "repeatable (register_stage h i t x) (register_stage h i t x)"
proof (rule repeatableI)
  fix d d' assume step: "register_stage h i t x d = Inr d'"
  let ?row = "planned_stage_row h i t x"
  let ?clash = "\<lambda>s. sg_stage_id s = sg_stage_id ?row \<or> sg_attempt_id s = i \<and> sg_ordinal s = pt_ordinal x"
  let ?skip = "pt_ordinal x < 0 \<or> pt_accounting_bucket x \<notin> {''source'', ''intermediate'', ''destination''}"
  from step have int: "int64 (pt_ordinal x)" "int64 (pt_chain_id x)"
    and cases: "d' = d \<and> (?skip \<or> list_ex ?clash (t_stages d)) \<or> d' = d\<lparr>t_stages := t_stages d @ [?row]\<rparr>"
    by (auto simp: register_stage_def Let_def exn_simps split: if_splits)
  from cases show "plan_grows d d'" by (auto simp: plan_grows_def)
  from cases have ex: "?skip \<or> list_ex ?clash (t_stages d')" by auto
  fix u assume "plan_grows d' u"
  from plan_grows_ex(3) [OF this] ex have "?skip \<or> list_ex ?clash (t_stages u)" by blast
  with int show "register_stage h i t x u = Inr u"
    unfolding register_stage_def Let_def by auto
qed

lemma register_item_repeatable: "repeatable (register_item h ex t x) (register_item h ex t' x)"
  unfolding register_item_def
proof (intro repeatable_const repeatable_seq [OF _ repeatable_seq [OF register_attempt_repeatable]]
    repeatable_loop register_stage_repeatable)
  fix c
  let ?pair = "\<lambda>d. case sa_pair_id x of None \<Rightarrow> Inr d
          | Some pair_id \<Rightarrow> bindE (require (sa_pair_slot_index x) (ExecutorError EX_lost_slot)) (\<lambda>slot. register_pair pair_id c slot d)"
  show "repeatable ?pair ?pair"
    by (cases "sa_pair_id x") (auto intro: repeatable_const register_pair_repeatable)
qed

definition register_rows :: "(json \<Rightarrow> string) \<Rightarrow> executor \<Rightarrow> int \<Rightarrow> db \<Rightarrow> exn + db" where
  "register_rows h ex t d =
     bindE (ensure_run (pl_run_id (ex_plan ex)) (pl_profile_id (ex_plan ex)) (pl_plan_sha256 (ex_plan ex)) t d) (\<lambda>d1.
     bindE (foldE (register_condition h (pl_run_id (ex_plan ex))) route_conditions d1)
       (foldE (register_item h ex t) (pl_attempts (ex_plan ex))))"

lemma register_plan_txn_rows:
  "register_plan_txn h ex t d = bindE (register_rows h ex t d) (\<lambda>d3.
     bindE (check_registered (ex_plan ex) d3) (\<lambda>_. Inr ((), d3)))"
  unfolding register_plan_txn_def register_rows_def Let_def bindE_def by (auto split: sum.splits)

lemma register_rows_repeatable: "repeatable (register_rows h ex t) (register_rows h ex t')"
  unfolding register_rows_def
  by (intro repeatable_seq ensure_run_repeatable repeatable_loop register_condition_repeatable register_item_repeatable)


section \<open>What a first registration writes\<close>

definition references_ok :: "db \<Rightarrow> bool" where
  "references_ok d \<longleftrightarrow> list_all (\<lambda>a. case find_condition (at_condition_id a) d of None \<Rightarrow> False
     | Some c \<Rightarrow> find_run (cd_run_id c) d \<noteq> None) (t_attempts d)"

lemma register_frames:
  "ensure_run run_id profile_id sha t d = Inr d' \<Longrightarrow> t_conditions d' = t_conditions d \<and> t_attempts d' = t_attempts d"
  "register_condition h run_id c d = Inr d' \<Longrightarrow> t_attempts d' = t_attempts d \<and> t_runs d' = t_runs d"
  "register_pair p i slot d = Inr d' \<Longrightarrow> t_conditions d' = t_conditions d \<and> t_attempts d' = t_attempts d"
  "register_stage h a tm y d = Inr d' \<Longrightarrow> t_conditions d' = t_conditions d \<and> t_attempts d' = t_attempts d"
  by (auto simp: ensure_run_def register_condition_def register_pair_def register_stage_def Let_def exn_simps
      split: if_splits option.splits)

lemma register_stages_frame:
  assumes "foldE (register_stage h a tm) ys d = Inr d'"
  shows "t_conditions d' = t_conditions d \<and> t_attempts d' = t_attempts d"
  by (rule foldE_invariant [OF assms, of "\<lambda>e. t_conditions e = t_conditions d \<and> t_attempts e = t_attempts d"])
    (auto dest: register_frames(4))

lemma register_conditions_frame:
  assumes "foldE (register_condition h run_id) cs d = Inr d'"
  shows "t_attempts d' = t_attempts d \<and> t_runs d' = t_runs d"
  by (rule foldE_invariant [OF assms, of "\<lambda>e. t_attempts e = t_attempts d \<and> t_runs e = t_runs d"])
    (auto dest: register_frames(2))

lemma register_conditions_stages:
  assumes "foldE (register_condition h run_id) cs d = Inr d'"
  shows "t_stages d' = t_stages d"
  by (rule foldE_invariant [OF assms, of "\<lambda>e. t_stages e = t_stages d"])
    (auto simp: register_condition_def Let_def exn_simps split: if_splits)

abbreviation frozen_row :: "(json \<Rightarrow> string) \<Rightarrow> string \<Rightarrow> int \<Rightarrow> scheduled_attempt \<Rightarrow> attempt_row" where
  "frozen_row h run_id t x \<equiv> planned_row (condition_id_of h run_id (sa_condition x)) t x"

lemma register_item_attempts:
  assumes "register_item h ex t x d = Inr d'"
  shows "t_conditions d' = t_conditions d
    \<and> (t_attempts d' = t_attempts d \<or> t_attempts d' = t_attempts d @ [frozen_row h (pl_run_id (ex_plan ex)) t x])"
proof -
  let ?run = "pl_run_id (ex_plan ex)"
  from assms obtain c d1 d2 tm where c: "planned_condition_id h ?run (sa_condition x) = Inr c"
    and pair: "(case sa_pair_id x of None \<Rightarrow> Inr d
            | Some pair_id \<Rightarrow> bindE (require (sa_pair_slot_index x) (ExecutorError EX_lost_slot)) (\<lambda>slot.
                register_pair pair_id c slot d)) = Inr d1"
    and attempt: "register_attempt c t x d1 = Inr d2"
    and stages: "foldE (register_stage h (sa_attempt_id x) tm) (te_physical tm) d2 = Inr d'"
    unfolding register_item_def by (auto simp: exn_simps)
  from pair have d1: "t_conditions d1 = t_conditions d \<and> t_attempts d1 = t_attempts d"
    by (auto simp: exn_simps dest: register_frames(3) split: option.splits)
  from c have "c = condition_id_of h ?run (sa_condition x)" by (auto simp: planned_condition_id_def split: if_splits)
  with attempt have "t_conditions d2 = t_conditions d1
      \<and> (t_attempts d2 = t_attempts d1 \<or> t_attempts d2 = t_attempts d1 @ [frozen_row h ?run t x])"
    by (auto simp: register_attempt_def exn_simps split: if_splits)
  with d1 register_stages_frame [OF stages] show ?thesis by simp
qed

lemma planned_attempts_cong:
  assumes "t_conditions e = t_conditions d" and "t_attempts e = t_attempts d @ xs"
  shows "planned_attempts run_id e = planned_attempts run_id d
    @ filter (\<lambda>a. at_retry_of a = None \<and> map_option cd_run_id (find_condition (at_condition_id a) d) = Some run_id) xs"
  using assms by (simp add: planned_attempts_def find_condition_def)

lemma register_items_planned:
  assumes "foldE (register_item h ex t) xs d = Inr d'" and "run = pl_run_id (ex_plan ex)"
  shows "\<exists>ys. planned_attempts run d' = planned_attempts run d @ map (frozen_row h run t) ys
    \<and> length ys \<le> length xs \<and> (length ys = length xs \<longrightarrow> ys = xs)"
  using assms(1)
proof (induction xs arbitrary: d)
  case (Cons x xs)
  then obtain e where e: "register_item h ex t x d = Inr e" "foldE (register_item h ex t) xs e = Inr d'"
    by (auto simp: exn_simps)
  from Cons.IH [OF e(2)] obtain ys where ys: "planned_attempts run d' = planned_attempts run e @ map (frozen_row h run t) ys"
    "length ys \<le> length xs" "length ys = length xs \<longrightarrow> ys = xs" by blast
  from register_item_attempts [OF e(1)] have "t_conditions e = t_conditions d"
    and "t_attempts e = t_attempts d @ [] \<or> t_attempts e = t_attempts d @ [frozen_row h run t x]"
    using assms(2) by auto
  then have "planned_attempts run e = planned_attempts run d
      \<or> planned_attempts run e = planned_attempts run d @ [frozen_row h run t x]"
    using planned_attempts_cong [of e d _ run] by (auto split: if_splits)
  then show ?case
  proof
    assume "planned_attempts run e = planned_attempts run d"
    with ys show ?thesis by (intro exI [of _ ys]) auto
  next
    assume "planned_attempts run e = planned_attempts run d @ [frozen_row h run t x]"
    with ys show ?thesis by (intro exI [of _ "x # ys"]) auto
  qed
qed simp

lemma no_planned_attempts:
  assumes "references_ok d" and "find_run run d = None" and "plan_grows d e" and "t_attempts e = t_attempts d"
  shows "planned_attempts run e = []"
proof -
  have "map_option cd_run_id (find_condition (at_condition_id a) e) \<noteq> Some run" if "a \<in> set (t_attempts e)" for a
  proof -
    from that assms(1,4) obtain c where c: "find_condition (at_condition_id a) d = Some c" "find_run (cd_run_id c) d \<noteq> None"
      by (auto simp: references_ok_def list_all_iff split: option.splits)
    with plan_grows_find(2) [OF assms(3) c(1)] assms(2) show ?thesis by auto
  qed
  then show ?thesis by (auto simp: planned_attempts_def filter_empty_conv)
qed

section \<open>The stages of a first registration\<close>

text \<open>The stage rows a plan freezes: for every attempt, those of its template, in the template's order.\<close>

definition frozen_stages :: "(json \<Rightarrow> string) \<Rightarrow> executor \<Rightarrow> scheduled_attempt \<Rightarrow> stage_row list" where
  "frozen_stages h ex x = (case template_of ex (sa_condition x) (sa_arm x) of
     Inl _ \<Rightarrow> [] | Inr tm \<Rightarrow> map (planned_stage_row h (sa_attempt_id x) tm) (te_physical tm))"

definition plan_stages :: "(json \<Rightarrow> string) \<Rightarrow> executor \<Rightarrow> scheduled_attempt list \<Rightarrow> stage_row list" where
  "plan_stages h ex xs = concat (map (frozen_stages h ex) xs)"

text \<open>
  A store whose references resolve, and identifiers derived for the stages that neither collide among
  themselves nor with those of the store.
\<close>

definition stage_references_ok :: "db \<Rightarrow> bool" where
  "stage_references_ok d \<longleftrightarrow> list_all (\<lambda>s. find_attempt (sg_attempt_id s) d \<noteq> None) (t_stages d)"

definition stage_ids_fresh :: "(json \<Rightarrow> string) \<Rightarrow> executor \<Rightarrow> scheduled_attempt list \<Rightarrow> db \<Rightarrow> bool" where
  "stage_ids_fresh h ex xs d \<longleftrightarrow> distinct (map sg_stage_id (plan_stages h ex xs))
     \<and> sg_stage_id ` set (plan_stages h ex xs) \<inter> sg_stage_id ` set (t_stages d) = {}"

definition storable :: "physical_template list \<Rightarrow> bool" where
  "storable ys \<longleftrightarrow> distinct (map pt_ordinal ys)
     \<and> (\<forall>y\<in>set ys. 0 \<le> pt_ordinal y \<and> pt_accounting_bucket y \<in> {''source'', ''intermediate'', ''destination''})"

lemma well_shaped_storable: "well_shaped t \<Longrightarrow> storable (te_physical t)"
proof -
  assume "well_shaped t"
  then have shape: "transaction_shape t = expected_transactions" by (simp add: well_shaped_def)
  from arg_cong [OF this, of length] have "length (te_physical t) = 3"
    by (simp add: transaction_shape_def expected_transactions_def)
  then obtain x y z where "te_physical t = [x, y, z]" by (auto simp: length_Suc_conv numeral_3_eq_3)
  with shape show ?thesis by (auto simp: storable_def transaction_shape_def expected_transactions_def)
qed

lemma planned_stage_fields [simp]:
  "sg_attempt_id (planned_stage_row h i t x) = i" "sg_ordinal (planned_stage_row h i t x) = pt_ordinal x"
  by (simp_all add: planned_stage_row_def)

lemma register_stages_rows:
  assumes "foldE (register_stage h i t) ys d = Inr d'" and "storable ys"
    and "distinct (map (\<lambda>y. sg_stage_id (planned_stage_row h i t y)) ys)"
    and "\<forall>s\<in>set (t_stages d). \<forall>y\<in>set ys. sg_stage_id s \<noteq> sg_stage_id (planned_stage_row h i t y)
          \<and> \<not> (sg_attempt_id s = i \<and> sg_ordinal s = pt_ordinal y)"
  shows "t_stages d' = t_stages d @ map (planned_stage_row h i t) ys"
  using assms
proof (induction ys arbitrary: d)
  case (Cons y ys)
  from Cons.prems(1) obtain e where e: "register_stage h i t y d = Inr e" and rest: "foldE (register_stage h i t) ys e = Inr d'"
    by (auto simp: exn_simps)
  have "\<not> list_ex (\<lambda>s. sg_stage_id s = sg_stage_id (planned_stage_row h i t y)
      \<or> sg_attempt_id s = i \<and> sg_ordinal s = pt_ordinal y) (t_stages d)"
    using Cons.prems(4) by (auto simp: list_ex_iff)
  with e Cons.prems(2) have step: "t_stages e = t_stages d @ [planned_stage_row h i t y]"
    by (auto simp: register_stage_def Let_def exn_simps storable_def split: if_splits)
  have "storable ys" "distinct (map (\<lambda>y. sg_stage_id (planned_stage_row h i t y)) ys)"
    using Cons.prems(2,3) by (auto simp: storable_def)
  moreover have "\<forall>s\<in>set (t_stages e). \<forall>z\<in>set ys. sg_stage_id s \<noteq> sg_stage_id (planned_stage_row h i t z)
      \<and> \<not> (sg_attempt_id s = i \<and> sg_ordinal s = pt_ordinal z)"
    using Cons.prems(2-4) by (force simp: step storable_def image_iff)
  ultimately show ?case using Cons.IH [OF rest] by (simp add: step)
qed simp

lemma register_item_stages:
  assumes run: "register_item h ex t x d = Inr d'" and refs: "stage_references_ok d"
    and new: "t_attempts d' \<noteq> t_attempts d" and shaped: "list_all well_shaped (ex_templates ex)"
    and fresh: "stage_ids_fresh h ex [x] d"
  shows "t_stages d' = t_stages d @ frozen_stages h ex x" and "stage_references_ok d'"
proof -
  from run obtain c d1 d2 tm where
    pair: "(case sa_pair_id x of None \<Rightarrow> Inr d
            | Some pair_id \<Rightarrow> bindE (require (sa_pair_slot_index x) (ExecutorError EX_lost_slot)) (\<lambda>slot.
                register_pair pair_id c slot d)) = Inr d1"
    and attempt: "register_attempt c t x d1 = Inr d2" and tm: "template_of ex (sa_condition x) (sa_arm x) = Inr tm"
    and stages: "foldE (register_stage h (sa_attempt_id x) tm) (te_physical tm) d2 = Inr d'"
    unfolding register_item_def by (auto simp: exn_simps)
  from pair have d1: "t_stages d1 = t_stages d" "t_attempts d1 = t_attempts d"
    by (auto simp: register_pair_def exn_simps split: option.splits if_splits)
  from register_stages_frame [OF stages] new d1 have "t_attempts d2 \<noteq> t_attempts d1" by simp
  with attempt have none: "find_attempt (sa_attempt_id x) d1 = None"
    and d2: "t_stages d2 = t_stages d1" "t_attempts d2 = t_attempts d1 @ [planned_row c t x]"
    by (auto simp: register_attempt_def exn_simps split: if_splits)
  have "find_attempt (sa_attempt_id x) d = None" using none by (simp add: find_attempt_def d1)
  with refs have other: "sg_attempt_id s \<noteq> sa_attempt_id x" if "s \<in> set (t_stages d)" for s
    using that by (auto simp: stage_references_ok_def list_all_iff)
  have frozen: "frozen_stages h ex x = map (planned_stage_row h (sa_attempt_id x) tm) (te_physical tm)"
    by (simp add: frozen_stages_def tm)
  have "tm \<in> set (ex_templates ex)" using tm by (auto simp: template_of_def exn_simps dest: find_SomeD)
  with shaped have ok: "storable (te_physical tm)" by (auto simp: list_all_iff intro: well_shaped_storable)
  show rows: "t_stages d' = t_stages d @ frozen_stages h ex x"
    unfolding frozen d1(1) [symmetric] d2(1) [symmetric]
    by (rule register_stages_rows [OF stages ok])
      (use fresh other in \<open>auto simp: stage_ids_fresh_def plan_stages_def frozen d1 d2 comp_def\<close>)
  have attempts: "t_attempts d' = t_attempts d @ [planned_row c t x]"
    using register_stages_frame [OF stages] d1 d2 by simp
  have "find_attempt i d' \<noteq> None" if "find_attempt i d \<noteq> None" for i
    using that by (auto simp: find_attempt_def attempts find_append)
  moreover have "find_attempt (sa_attempt_id x) d' \<noteq> None"
    by (auto simp: find_attempt_def attempts find_append planned_row_def split: option.split)
  ultimately show "stage_references_ok d'"
    using refs by (auto simp: stage_references_ok_def list_all_iff rows frozen)
qed

text \<open>When every attempt of the plan was new, every attempt got its stages.\<close>

lemma register_items_stages:
  assumes "foldE (register_item h ex t) xs d = Inr d'" and run: "run = pl_run_id (ex_plan ex)"
    and "length (planned_attempts run d') = length (planned_attempts run d) + length xs"
    and "stage_references_ok d" and shaped: "list_all well_shaped (ex_templates ex)" and "stage_ids_fresh h ex xs d"
  shows "t_stages d' = t_stages d @ plan_stages h ex xs"
  using assms(1,3,4,6)
proof (induction xs arbitrary: d)
  case (Cons x xs)
  from Cons.prems(1) obtain e where e: "register_item h ex t x d = Inr e" and rest: "foldE (register_item h ex t) xs e = Inr d'"
    by (auto simp: exn_simps)
  from register_items_planned [OF rest run] have le: "length (planned_attempts run d') \<le> length (planned_attempts run e) + length xs"
    by auto
  note one = register_item_attempts [OF e]
  from one consider "t_attempts e = t_attempts d @ []" | "t_attempts e = t_attempts d @ [frozen_row h run t x]"
    using run by auto
  then have "length (planned_attempts run e) \<le> length (planned_attempts run d)
      + (if t_attempts e = t_attempts d then 0 else 1)"
    by cases (use one planned_attempts_cong [of e d _ run] in \<open>auto split: if_splits\<close>)
  with le Cons.prems(2) have new: "t_attempts e \<noteq> t_attempts d"
    and count: "length (planned_attempts run d') = length (planned_attempts run e) + length xs"
    by (auto split: if_splits)
  have "stage_ids_fresh h ex [x] d" using Cons.prems(4) by (auto simp: stage_ids_fresh_def plan_stages_def)
  note step = register_item_stages [OF e Cons.prems(3) new shaped this]
  have "stage_ids_fresh h ex xs e"
    using Cons.prems(4) by (force simp: stage_ids_fresh_def plan_stages_def step(1))
  from Cons.IH [OF rest count step(2) this] show ?case by (simp add: step(1) plan_stages_def)
qed (simp add: plan_stages_def)

text \<open>
  C32: registering a plan freezes it, attempt by attempt and stage by stage. When the run is new to a store
  with intact references, a registration that returns has written for the run exactly the attempts of the
  plan, in its order and all planned; and, with templates of the shape the validator pins (C31) and stage
  identifiers that do not collide, it has added to the stages exactly those of the attempts' templates, in the
  order of plan and template. The run is bound to the plan's profile and digest. From then on, at any later
  time and whatever else was registered meanwhile: registering the same plan into the store it left returns
  and changes nothing, a plan with another profile or digest under the same run is refused and changes nothing
  in any store that still has the rows, and no registration of whatever plan takes a row away or alters it.
\<close>

theorem registration_freezes_the_plan:
  assumes "register_plan h clk ex now d = (Inr (), d')"
    and "executor_time clk now = Inr t" and "executor_time clk' now' = Inr t'"
    and "run = pl_run_id (ex_plan ex)"
  shows "(references_ok d \<and> find_run run d = None \<longrightarrow>
      planned_attempts run d' = map (frozen_row h run t) (pl_attempts (ex_plan ex))
      \<and> (stage_references_ok d \<and> list_all well_shaped (ex_templates ex) \<and> stage_ids_fresh h ex (pl_attempts (ex_plan ex)) d
         \<longrightarrow> t_stages d' = t_stages d @ plan_stages h ex (pl_attempts (ex_plan ex))))
    \<and> (\<exists>r. find_run run d' = Some r
          \<and> (rn_profile_id r, rn_plan_sha256 r) = (pl_profile_id (ex_plan ex), pl_plan_sha256 (ex_plan ex)))
    \<and> register_plan h clk' ex now' d' = (Inr (), d')
    \<and> (\<forall>u other clk2 now2. plan_grows d' u \<and> pl_run_id (ex_plan other) = run
          \<and> (pl_profile_id (ex_plan other), pl_plan_sha256 (ex_plan other)) \<noteq> (pl_profile_id (ex_plan ex), pl_plan_sha256 (ex_plan ex))
          \<longrightarrow> (\<exists>e. register_plan h clk2 other now2 u = (Inl e, u)))
    \<and> (\<forall>u other clk2 now2. plan_grows u (snd (register_plan h clk2 other now2 u)))"
proof (intro conjI impI allI)
  from assms(1,2) have guards: "pl_executable (ex_plan ex)" "length (template_keys ex) = 8"
    and body: "register_plan_txn h ex t d = Inr ((), d')"
    by (auto simp: register_plan_def exn_simps store_write_def ensure_def split: sum.splits if_splits)
  from body have rows: "register_rows h ex t d = Inr d'" and count: "check_registered (ex_plan ex) d' = Inr ()"
    by (auto simp: register_plan_txn_rows exn_simps)
  from repeatableD(2) [OF register_rows_repeatable rows plan_grows_refl] count
  have "register_plan_txn h ex t' d' = Inr ((), d')" by (simp add: register_plan_txn_rows)
  with guards assms(3) show "register_plan h clk' ex now' d' = (Inr (), d')"
    by (simp add: register_plan_def store_write_def)
  from rows obtain d1 d2 where d1: "ensure_run run (pl_profile_id (ex_plan ex)) (pl_plan_sha256 (ex_plan ex)) t d = Inr d1"
    and d2: "foldE (register_condition h run) route_conditions d1 = Inr d2"
    and d3: "foldE (register_item h ex t) (pl_attempts (ex_plan ex)) d2 = Inr d'"
    using assms(4) by (auto simp: register_rows_def exn_simps)
  note g1 = repeatableD(1) [OF ensure_run_repeatable d1]
    and g2 = repeatableD(1) [OF repeatable_loop [OF register_condition_repeatable] d2]
    and g3 = repeatableD(1) [OF repeatable_loop [OF register_item_repeatable] d3]
  from d1 obtain r where r: "find_run run d1 = Some r"
    "(rn_profile_id r, rn_plan_sha256 r) = (pl_profile_id (ex_plan ex), pl_plan_sha256 (ex_plan ex))"
    by (auto simp: ensure_run_def exn_simps find_run_def find_append split: option.splits)
  note bound = plan_grows_find(1) [OF plan_grows_trans [OF g2 g3] r(1)]
  from bound r(2) show "\<exists>r. find_run run d' = Some r
      \<and> (rn_profile_id r, rn_plan_sha256 r) = (pl_profile_id (ex_plan ex), pl_plan_sha256 (ex_plan ex))" by blast
  show "\<exists>e. register_plan h clk2 other now2 u = (Inl e, u)"
    if "plan_grows d' u \<and> pl_run_id (ex_plan other) = run
      \<and> (pl_profile_id (ex_plan other), pl_plan_sha256 (ex_plan other)) \<noteq> (pl_profile_id (ex_plan ex), pl_plan_sha256 (ex_plan ex))"
    for u other clk2 now2
  proof -
    from plan_grows_find(1) [of d' u, OF _ bound] that have "find_run (pl_run_id (ex_plan other)) u = Some r" by simp
    with that r(2) have "register_rows h other x u = Inl (ExecutorError EX_other_plan)" for x
      by (auto simp: register_rows_def ensure_run_def ensure_def)
    then show ?thesis
      by (auto simp: register_plan_def store_write_def register_plan_txn_rows split: sum.split)
  qed
  show "plan_grows u (snd (register_plan h clk2 other now2 u))" for u other clk2 now2
    using repeatableD(1) [OF register_rows_repeatable, of h other _ u]
    by (auto simp: register_plan_def store_write_def register_plan_txn_rows exn_simps split: sum.split)
  assume new: "references_ok d \<and> find_run run d = None"
  have "t_attempts d2 = t_attempts d" using register_conditions_frame [OF d2] register_frames(1) [OF d1] by simp
  with new no_planned_attempts [OF _ _ plan_grows_trans [OF g1 g2]] have none: "planned_attempts run d2 = []" by blast
  from count assms(4) have all: "length (planned_attempts run d') = length (pl_attempts (ex_plan ex))"
    by (simp add: check_registered_def Let_def exn_simps)
  with register_items_planned [OF d3 assms(4)] none
  show "planned_attempts run d' = map (frozen_row h run t) (pl_attempts (ex_plan ex))" by auto
  assume stages: "stage_references_ok d \<and> list_all well_shaped (ex_templates ex) \<and> stage_ids_fresh h ex (pl_attempts (ex_plan ex)) d"
  have same: "t_stages d2 = t_stages d"
    using register_conditions_stages [OF d2] d1 by (auto simp: ensure_run_def exn_simps split: option.splits)
  with stages \<open>t_attempts d2 = t_attempts d\<close> have "stage_references_ok d2" "stage_ids_fresh h ex (pl_attempts (ex_plan ex)) d2"
    by (simp_all add: stage_references_ok_def stage_ids_fresh_def find_attempt_def)
  from register_items_stages [OF d3 assms(4) _ this(1) _ this(2)] all none stages
  show "t_stages d' = t_stages d @ plan_stages h ex (pl_attempts (ex_plan ex))" by (simp add: same)
qed


section \<open>An example\<close>

fun demo_flat :: "json \<Rightarrow> string" where
  "demo_flat (JStr s) = s"
| "demo_flat (JInt i) = str_int i"
| "demo_flat (JList js) = concat (map demo_flat js)"
| "demo_flat (JObj js) = concat (map (\<lambda>j. demo_flat (snd j)) js)"
| "demo_flat _ = []"

definition demo_planned :: "string \<Rightarrow> sched_arm \<Rightarrow> int \<Rightarrow> scheduled_attempt" where
  "demo_planned i a n = \<lparr>sa_attempt_id = i, sa_condition = ''HH'', sa_arm = a, sa_attempt_kind = S_primary,
     sa_pair_id = Some ''p'', sa_pair_slot_index = Some 0, sa_retry_of = None, sa_retry_index = None,
     sa_sequence_index = n, sa_batch_index = 0\<rparr>"

definition demo_executor :: executor where
  "demo_executor = \<lparr>ex_plan = \<lparr>pl_plan_id = ''plan'', pl_run_id = ''r'', pl_profile_id = ''f'', pl_fixed_seed = ''s'',
       pl_profile_kind = K_pilot, pl_executable = True, pl_max_retries_per_lineage = Some 1,
       pl_max_batch_attempts = Some 2, pl_max_in_flight_attempts = Some 2,
       pl_attempts = [demo_planned ''a'' S_baseline 0, demo_planned ''b'' S_xir 1],
       pl_plan_sha256 = replicate 64 CHR ''0''\<rparr>,
     ex_templates = ts_templates demo_templates\<rparr>"

definition demo_registered :: db where
  "demo_registered = snd (register_plan demo_flat 1 demo_executor None empty_db)"

lemma demo_registers: "register_plan demo_flat 1 demo_executor None empty_db = (Inr (), demo_registered)"
proof -
  have "fst (register_plan demo_flat 1 demo_executor None empty_db) = Inr ()" by code_simp
  then show ?thesis by (simp add: demo_registered_def prod_eq_iff)
qed

theorem registration_freezes_the_plan_witness:
  "planned_attempts ''r'' demo_registered
     = [frozen_row demo_flat ''r'' 1 (demo_planned ''a'' S_baseline 0), frozen_row demo_flat ''r'' 1 (demo_planned ''b'' S_xir 1)]
   \<and> map (\<lambda>s. (sg_attempt_id s, sg_ordinal s)) (t_stages demo_registered)
     = [(''a'', 0), (''a'', 1), (''a'', 2), (''b'', 0), (''b'', 1), (''b'', 2)]
   \<and> register_plan demo_flat 9 demo_executor None demo_registered = (Inr (), demo_registered)
   \<and> (\<exists>e. register_plan demo_flat 9 (demo_executor\<lparr>ex_plan := (ex_plan demo_executor)\<lparr>pl_profile_id := ''g''\<rparr>\<rparr>) None demo_registered
       = (Inl e, demo_registered))"
proof -
  have "references_ok empty_db \<and> find_run ''r'' empty_db = None" by code_simp
  moreover have "stage_references_ok empty_db \<and> list_all well_shaped (ex_templates demo_executor)
      \<and> stage_ids_fresh demo_flat demo_executor (pl_attempts (ex_plan demo_executor)) empty_db" by code_simp
  moreover have "map (\<lambda>s. (sg_attempt_id s, sg_ordinal s)) (plan_stages demo_flat demo_executor (pl_attempts (ex_plan demo_executor)))
     = [(''a'', 0), (''a'', 1), (''a'', 2), (''b'', 0), (''b'', 1), (''b'', 2)]" by code_simp
  moreover have "t_stages empty_db = []" by (simp add: empty_db_def)
  moreover note frozen = registration_freezes_the_plan [OF demo_registers, of 1 9 None 9 "''r''"]
  ultimately show ?thesis
    using frozen [THEN conjunct2, THEN conjunct2, THEN conjunct2, THEN conjunct1, rule_format, of demo_registered
        "demo_executor\<lparr>ex_plan := (ex_plan demo_executor)\<lparr>pl_profile_id := ''g''\<rparr>\<rparr>" 9 None]
    by (simp add: executor_time_def demo_executor_def)
qed


end
