(* ===== verification/Xir_Evidence.thy ===== *)
theory Xir_Evidence
  imports Xir_Store
begin

text \<open>
  The tables of \<^verbatim>\<open>evidence/migrations/001_initial.sql\<close> that collection and analysis write: receipts,
  finality policies and observations, observation windows, outcomes and clocks, backfill status, freezes,
  declared scopes, raw blobs, what the bounded collector keeps, the resources, headers, logs and balances of
  collected transactions, linked traces and destination effects. They are a record beside the execution tables, so a transaction of the store on both is
  a function on \<open>evidence\<close>.
\<close>

datatype finality_kind = Confirmations | L2_safe | L2_finalized | L1_settlement

datatype finality_state = F_included | F_finalized | F_orphaned

datatype outcome_kind = OK_deadline | OK_eventual | OK_failure

datatype failure_source = FS_observer | FS_evidence | FS_submission | FS_carrier | FS_xir | FS_destination

datatype clock_role = CR_source | CR_intermediate | CR_destination

datatype measurement_kind = Observer_elapsed | Cross_chain_block_interval

datatype backfill_state = BF_pending | BF_resolved

record receipt_row =
  rp_transaction_id :: string
  rp_block_number :: int
  rp_block_hash :: string
  rp_receipt_status :: int
  rp_gas_used :: int
  rp_effective_gas_price_wei :: string
  rp_raw_sha256 :: string

record finality_policy_row =
  fp_run_id :: string
  fp_chain_id :: int
  fp_kind :: finality_kind
  fp_confirmation_count :: "int option"
  fp_registered_at :: int

record finality_row =
  fo_observation_id :: string
  fo_transaction_id :: string
  fo_chain_id :: int
  fo_block_number :: int
  fo_block_hash :: string
  fo_state :: finality_state
  fo_canonical :: bool
  fo_policy_kind :: finality_kind
  fo_policy_head :: "int option"
  fo_supersedes :: "string option"
  fo_observed_at :: int

record window_row =
  aw_attempt_id :: string
  aw_approval_id :: string
  aw_approval_payload_sha256 :: string
  aw_observer_session_id :: string
  aw_started_utc :: int
  aw_started_monotonic_ns :: int
  aw_deadline_utc :: int
  aw_registered_at :: int

record outcome_observation_row =
  ao_observation_id :: string
  ao_attempt_id :: string
  ao_kind :: outcome_kind
  ao_outcome :: string
  ao_failure_source :: "failure_source option"
  ao_failure_code :: "string option"
  ao_observation_horizon_ms :: "int option"
  ao_observed_utc :: int
  ao_observer_session_id :: string
  ao_observed_monotonic_ns :: int
  ao_proof_finality_observation_id :: "string option"

record backfill_row =
  bf_attempt_id :: string
  bf_state :: backfill_state
  bf_reason_code :: string
  bf_updated_at :: int

record observer_clock_row =
  oc_observation_id :: string
  oc_attempt_id :: string
  oc_phase :: string
  oc_observer_session_id :: string
  oc_wall_utc :: int
  oc_monotonic_ns :: int
  oc_wall_clock_discontinuity :: bool
  oc_discontinuity_reason :: "string option"

record chain_clock_row =
  cc_observation_id :: string
  cc_attempt_id :: string
  cc_role :: clock_role
  cc_chain_id :: int
  cc_block_number :: int
  cc_block_hash :: string
  cc_block_timestamp :: int

record measurement_row =
  cx_measurement_id :: string
  cx_attempt_id :: string
  cx_kind :: measurement_kind
  cx_start_observation_id :: string
  cx_end_observation_id :: string
  cx_elapsed_ms :: "int option"
  cx_unavailable_reason :: "string option"
  cx_clock_statement :: string
  cx_created_at :: int

record freeze_row =
  fz_freeze_id :: string
  fz_run_id :: string
  fz_version :: int
  fz_scope :: json
  fz_database_sha256 :: string
  fz_raw_manifest_sha256 :: string
  fz_journal_sha256 :: string
  fz_created_at :: int

record scope_row =
  sk_scope_id :: string
  sk_run_id :: string
  sk_version :: int
  sk_attempt_ids :: "string list"
  sk_scope_sha256 :: string
  sk_prior_freeze_id :: "string option"
  sk_prior_freeze_sha256 :: "string option"
  sk_declared_at :: int

record raw_row =
  rw_raw_sha256 :: string
  rw_relative_path :: string
  rw_exact_size :: int
  rw_stored_size :: int
  rw_media_type :: string
  rw_metadata :: json
  rw_created_at :: int

record observation_row =
  ob_observation_id :: string
  ob_subject_kind :: string
  ob_subject_id :: string
  ob_observed_at :: int
  ob_raw_sha256 :: string
  ob_supersedes :: "string option"
  ob_status :: string

datatype checkpoint_state = CK_ready | CK_backlogged

record checkpoint_row =
  ck_checkpoint_id :: string
  ck_collector_key :: string
  ck_version :: int
  ck_chain_id :: int
  ck_contract_addresses :: "string list"
  ck_topics :: "string list"
  ck_exact_filter :: json
  ck_approved_from_block :: int
  ck_approved_to_block :: int
  ck_last_finalized_block_number :: int
  ck_last_finalized_block_hash :: string
  ck_overlap_blocks :: int
  ck_parser_version :: string
  ck_provider_id :: string
  ck_state :: checkpoint_state
  ck_backlog_reason :: "string option"
  ck_created_at :: int

datatype backfill_strategy = BS_known_hash | BS_exact_identifier | BS_bounded_filter

record collector_call_row =
  cl_call_sequence :: nat
  cl_checkpoint_id :: string
  cl_strategy :: backfill_strategy
  cl_query_value :: "string option"
  cl_from_block :: "int option"
  cl_to_block :: "int option"
  cl_page_token :: "string option"
  cl_result_count :: nat
  cl_complete :: bool
  cl_raw_sha256 :: string
  cl_observed_at :: int

record chain_event_row =
  ch_collector_event_id :: string
  ch_chain_id :: int
  ch_block_number :: int
  ch_block_hash :: string
  ch_transaction_hash :: string
  ch_log_index :: int
  ch_contract_address :: string
  ch_topic0 :: "string option"
  ch_exact_identifier_kind :: "string option"
  ch_exact_identifier :: "string option"
  ch_raw_sha256 :: string
  ch_first_call_sequence :: nat

record auxiliary_row =
  ax_auxiliary_observation_id :: string
  ax_attempt_id :: string
  ax_protocol :: string
  ax_protocol_identifier :: string
  ax_reported_status :: string
  ax_provider_id :: string
  ax_raw_sha256 :: string
  ax_observed_at :: int

text \<open>Columns that hold the decimal text of an integer are that integer.\<close>

record resource_row =
  rc_transaction_id :: string
  rc_chain_id :: int
  rc_sender :: string
  rc_recipient :: "string option"
  rc_input_bytes :: int
  rc_transaction_value_wei :: int
  rc_gas_used :: int
  rc_effective_gas_price_wei :: int
  rc_execution_fee_wei :: int
  rc_l1_data_fee_wei :: "int option"
  rc_l1_data_fee_unavailable_reason :: "string option"
  rc_carrier_payment_wei :: int
  rc_funding_attribution :: string

record header_row =
  hd_chain_id :: int
  hd_block_number :: int
  hd_block_hash :: string
  hd_parent_hash :: string
  hd_block_timestamp :: int
  hd_raw_sha256 :: string

record event_log_row =
  el_event_id :: string
  el_transaction_id :: string
  el_log_index :: int
  el_topic0 :: "string option"
  el_raw_sha256 :: string

record snapshot_row =
  as_snapshot_id :: string
  as_attempt_id :: string
  as_chain_id :: int
  as_account :: string
  as_balance_wei :: int
  as_block_number :: int
  as_raw_sha256 :: string

record xir_record_row =
  xr_attempt_id :: string
  xr_rid :: string
  xr_mid :: string
  xr_payload_sha256 :: string
  xr_profile_sha256 :: string
  xr_evidence_sha256 :: string
  xr_transition_sha256 :: string
  xr_consumed_key :: string
  xr_leg0_carrier_message_id :: string
  xr_leg1_carrier_message_id :: string
  xr_source_transaction_id :: string
  xr_intermediate_transaction_id :: string
  xr_destination_transaction_id :: string
  xr_intermediate_verified :: bool
  xr_destination_verified :: bool
  xr_destination_effect_id :: string
  xr_effect_before_sha256 :: string
  xr_effect_after_sha256 :: string
  xr_effect_succeeded :: bool

record effect_row =
  ef_attempt_id :: string
  ef_transaction_id :: string
  ef_destination_effect_id :: string
  ef_predicate_sha256 :: string
  ef_succeeded :: bool

record evidence =
  ev_db :: db
  ev_receipts :: "receipt_row list"
  ev_policies :: "finality_policy_row list"
  ev_finality :: "finality_row list"
  ev_windows :: "window_row list"
  ev_outcomes :: "outcome_observation_row list"
  ev_backfill :: "backfill_row list"
  ev_observer_clocks :: "observer_clock_row list"
  ev_chain_clocks :: "chain_clock_row list"
  ev_measurements :: "measurement_row list"
  ev_freezes :: "freeze_row list"
  ev_scopes :: "scope_row list"
  ev_raw :: "raw_row list"
  ev_observations :: "observation_row list"
  ev_checkpoints :: "checkpoint_row list"
  ev_calls :: "collector_call_row list"
  ev_chain_events :: "chain_event_row list"
  ev_auxiliary :: "auxiliary_row list"
  ev_resources :: "resource_row list"
  ev_headers :: "header_row list"
  ev_logs :: "event_log_row list"
  ev_snapshots :: "snapshot_row list"
  ev_xir_records :: "xir_record_row list"
  ev_effects :: "effect_row list"

definition empty_evidence :: "db \<Rightarrow> evidence" where
  "empty_evidence d = \<lparr>ev_db = d, ev_receipts = [], ev_policies = [], ev_finality = [], ev_windows = [],
     ev_outcomes = [], ev_backfill = [], ev_observer_clocks = [], ev_chain_clocks = [], ev_measurements = [],
     ev_freezes = [], ev_scopes = [], ev_raw = [], ev_observations = [], ev_checkpoints = [], ev_calls = [],
     ev_chain_events = [], ev_auxiliary = [], ev_resources = [], ev_headers = [], ev_logs = [], ev_snapshots = [],
     ev_xir_records = [], ev_effects = []\<rparr>"

type_synonym 'a ev_txn = "evidence \<Rightarrow> exn + 'a \<times> evidence"
type_synonym 'a ev_outcome = "(exn + 'a) \<times> evidence"

end
