(* ===== verification/Xir_Actions.thy ===== *)
theory Xir_Actions
  imports Xir_Store
begin

text \<open>
  Calls that run several transactions and talk to the outside in between: actions on a state that keep what
  was done when an exception ends them, and a small program logic for them. The state is the world of the
  submission coordinator or that of the finality manager.
\<close>

section \<open>Actions\<close>

type_synonym ('w, 'a) action = "'w \<Rightarrow> (exn + 'a) \<times> 'w"

definition act_bind :: "('w, 'a) action \<Rightarrow> ('a \<Rightarrow> ('w, 'b) action) \<Rightarrow> ('w, 'b) action" where
  "act_bind m f w = (case m w of (Inl e, w') \<Rightarrow> (Inl e, w') | (Inr a, w') \<Rightarrow> f a w')"

definition act_return :: "'a \<Rightarrow> ('w, 'a) action" where
  "act_return a w = (Inr a, w)"

definition act_lift :: "exn + 'a \<Rightarrow> ('w, 'a) action" where
  "act_lift r w = (r, w)"

section \<open>Triples\<close>

text \<open>From a state in \<open>P\<close>, an exception leaves a state in \<open>I\<close>, and a return of \<open>a\<close> one in \<open>Q a\<close>.\<close>

definition triple :: "('w \<Rightarrow> bool) \<Rightarrow> ('w \<Rightarrow> bool) \<Rightarrow> ('w, 'a) action \<Rightarrow> ('a \<Rightarrow> 'w \<Rightarrow> bool) \<Rightarrow> bool" where
  "triple I P m Q \<longleftrightarrow> (\<forall>w. P w \<longrightarrow> (case m w of (Inl e, w') \<Rightarrow> I w' | (Inr a, w') \<Rightarrow> Q a w'))"

lemma triple_bind:
  assumes "triple I P m R" "\<And>a. triple I (R a) (f a) Q"
  shows "triple I P (act_bind m f) Q"
  unfolding triple_def act_bind_def
proof (intro allI impI)
  fix w assume "P w"
  with assms(1) have m: "case m w of (Inl e, w') \<Rightarrow> I w' | (Inr a, w') \<Rightarrow> R a w'" by (simp add: triple_def)
  obtain r w' where mw: "m w = (r, w')" by (cases "m w")
  show "case (case m w of (Inl e, w') \<Rightarrow> (Inl e, w') | (Inr a, w') \<Rightarrow> f a w') of (Inl e, w') \<Rightarrow> I w' | (Inr a, w') \<Rightarrow> Q a w'"
  proof (cases r)
    case (Inl e)
    with m mw show ?thesis by simp
  next
    case (Inr a)
    with m mw have "R a w'" by simp
    with assms(2) [of a] mw Inr show ?thesis by (simp add: triple_def)
  qed
qed

lemma triple_lift: "(\<And>w. P w \<Longrightarrow> I w) \<Longrightarrow> (\<And>a w. r = Inr a \<Longrightarrow> P w \<Longrightarrow> Q a w) \<Longrightarrow> triple I P (act_lift r) Q"
  by (auto simp: triple_def act_lift_def split: sum.splits)

lemma triple_return: "(\<And>w. P w \<Longrightarrow> Q a w) \<Longrightarrow> triple I P (act_return a) Q"
  by (simp add: triple_def act_return_def)

lemma triple_if: "(b \<Longrightarrow> triple I P m Q) \<Longrightarrow> (\<not> b \<Longrightarrow> triple I P n Q) \<Longrightarrow> triple I P (if b then m else n) Q"
  by simp

lemma triple_keeps: "triple I P m (\<lambda>_. I) \<Longrightarrow> P w \<Longrightarrow> I (snd (m w))"
  by (cases "m w") (auto simp: triple_def split: sum.splits)

lemma triple_keep: "triple I I (act_lift r) (\<lambda>_. I)" "triple I I (act_return a) (\<lambda>_. I)"
  by (auto intro: triple_lift triple_return)

lemma triple_lift_same: "(\<And>w. P w \<Longrightarrow> I w) \<Longrightarrow> triple I P (act_lift r) (\<lambda>_. P)"
  by (rule triple_lift)

end
