(* ===== verification/Xir_Finality.thy ===== *)
theory Xir_Finality
  imports Xir_Evidence Xir_Actions Xir_Scheduler
begin

text \<open>
  \<^verbatim>\<open>collect/finality.py\<close>: finality policies, observations of inclusion and finality, rechecks of
  canonicality and the audit before a freeze. The read-only provider of a chain is a pair of functions that
  may raise and that depend on the number of the call, since the chain moves between two calls; a call of
  the manager is a program over the evidence and that number. An exception leaves what was written before.
\<close>

section \<open>Programs over the evidence and a provider\<close>

record finality_world =
  fw_ev :: evidence
  fw_calls :: nat

record finality_provider =
  pv_canonical :: "nat \<Rightarrow> int \<Rightarrow> int \<Rightarrow> exn + string option"
  pv_head :: "nat \<Rightarrow> int \<Rightarrow> finality_kind \<Rightarrow> exn + int option"

type_synonym 'a fin = "(finality_world, 'a) action"

definition fin_read :: "(evidence \<Rightarrow> exn + 'a) \<Rightarrow> 'a fin" where
  "fin_read f w = (f (fw_ev w), w)"

definition fin_write :: "'a ev_txn \<Rightarrow> 'a fin" where
  "fin_write body w = (case store_write body (fw_ev w) of (r, e) \<Rightarrow> (r, w\<lparr>fw_ev := e\<rparr>))"

definition fin_hash :: "finality_provider \<Rightarrow> int \<Rightarrow> int \<Rightarrow> string option fin" where
  "fin_hash pv chain_id block_number w =
     (pv_canonical pv (fw_calls w) chain_id block_number, w\<lparr>fw_calls := Suc (fw_calls w)\<rparr>)"

definition fin_head :: "finality_provider \<Rightarrow> int \<Rightarrow> finality_kind \<Rightarrow> int option fin" where
  "fin_head pv chain_id kind w = (pv_head pv (fw_calls w) chain_id kind, w\<lparr>fw_calls := Suc (fw_calls w)\<rparr>)"

section \<open>Policies\<close>

record chain_policy =
  cp_chain_id :: int
  cp_kind :: finality_kind
  cp_confirmation_count :: "int option"

record finality_audit =
  fa_run_id :: string
  fa_finalized_transactions :: nat
  fa_labels :: "finality_kind list"
  fa_orphaned_transactions :: "string list"

definition validate_policy :: "chain_policy \<Rightarrow> exn + unit" where
  "validate_policy p =
     bindE (ensure (\<not> cp_chain_id p \<le> 0) (FinalityError FE_chain_id)) (\<lambda>_.
     if cp_kind p = Confirmations
     then ensure (case cp_confirmation_count p of None \<Rightarrow> False | Some n \<Rightarrow> \<not> n < 1) (FinalityError FE_confirmation_count)
     else ensure (cp_confirmation_count p = None) (FinalityError FE_unexpected_count))"

definition find_policy :: "string \<Rightarrow> int \<Rightarrow> evidence \<Rightarrow> finality_policy_row option" where
  "find_policy run_id chain_id ev = find (\<lambda>p. fp_run_id p = run_id \<and> fp_chain_id p = chain_id) (ev_policies ev)"

definition register_policy :: "int \<Rightarrow> string \<Rightarrow> chain_policy \<Rightarrow> evidence \<Rightarrow> exn + evidence" where
  "register_policy clk run_id p ev =
     bindE (validate_policy p) (\<lambda>_.
     bindE (ensure (int64 (cp_chain_id p)) OverflowError) (\<lambda>_.
     case find_policy run_id (cp_chain_id p) ev of
       Some existing \<Rightarrow>
         bindE (ensure ((fp_kind existing, fp_confirmation_count existing) = (cp_kind p, cp_confirmation_count p))
                  (FinalityError FE_policy_immutable)) (\<lambda>_. Inr ev)
     | None \<Rightarrow>
         bindE (ensure (case cp_confirmation_count p of None \<Rightarrow> True | Some n \<Rightarrow> int64 n) OverflowError) (\<lambda>_.
         Inr (ev\<lparr>ev_policies := ev_policies ev @
           [\<lparr>fp_run_id = run_id, fp_chain_id = cp_chain_id p, fp_kind = cp_kind p,
             fp_confirmation_count = cp_confirmation_count p, fp_registered_at = clk\<rparr>]\<rparr>))))"

definition register_policies_txn :: "int \<Rightarrow> string \<Rightarrow> chain_policy list \<Rightarrow> unit ev_txn" where
  "register_policies_txn clk run_id policies ev =
     bindE (ensure (find_run run_id (ev_db ev) \<noteq> None) (FinalityError FE_unknown_run)) (\<lambda>_.
     bindE (foldE (register_policy clk run_id) policies ev) (\<lambda>ev'. Inr ((), ev')))"

definition register_policies :: "int \<Rightarrow> string \<Rightarrow> chain_policy list \<Rightarrow> unit fin" where
  "register_policies clk run_id policies =
     act_bind (act_lift (ensure (policies \<noteq> [] \<and> distinct (map cp_chain_id policies)) (FinalityError FE_duplicate_chains))) (\<lambda>_.
     fin_write (register_policies_txn clk run_id policies))"

section \<open>Observations\<close>

definition transaction_receipt :: "string \<Rightarrow> evidence \<Rightarrow> exn + transaction_row \<times> receipt_row \<times> string" where
  "transaction_receipt transaction_id ev =
     require (Option.bind (run_of_transaction transaction_id (ev_db ev)) (\<lambda>(t, run_id).
              map_option (\<lambda>r. (t, r, run_id)) (find (\<lambda>r. rp_transaction_id r = transaction_id) (ev_receipts ev))))
       (FinalityError FE_no_receipt)"

definition policy_of :: "string \<Rightarrow> int \<Rightarrow> evidence \<Rightarrow> exn + finality_policy_row" where
  "policy_of run_id chain_id ev = require (find_policy run_id chain_id ev) (FinalityError FE_no_policy)"

definition policy_for_transaction :: "string \<Rightarrow> evidence \<Rightarrow> exn + finality_policy_row" where
  "policy_for_transaction transaction_id ev =
     bindE (transaction_receipt transaction_id ev) (\<lambda>(t, r, run_id). policy_of run_id (tx_chain_id t) ev)"

text \<open>The observation of the transaction that no other observation supersedes.\<close>

definition latest :: "string \<Rightarrow> evidence \<Rightarrow> finality_row option" where
  "latest transaction_id ev =
     find (\<lambda>r. fo_transaction_id r = transaction_id
             \<and> \<not> list_ex (\<lambda>l. fo_supersedes l = Some (fo_observation_id r)) (ev_finality ev)) (ev_finality ev)"

definition state_text :: "finality_state \<Rightarrow> string" where
  "state_text s = (case s of F_included \<Rightarrow> ''included'' | F_finalized \<Rightarrow> ''finalized'' | F_orphaned \<Rightarrow> ''orphaned'')"

definition finality_observation_id ::
  "(json \<Rightarrow> string) \<Rightarrow> string \<Rightarrow> finality_state \<Rightarrow> string \<Rightarrow> string option \<Rightarrow> string" where
  "finality_observation_id h transaction_id state block_hash supersedes =
     stable_id h ''observation'' [JStr ''transaction-finality'', JStr transaction_id, JStr (state_text state),
       JStr (lower block_hash), JStr (case supersedes of None \<Rightarrow> ''root'' | Some s \<Rightarrow> s)]"

definition new_observation ::
  "(json \<Rightarrow> string) \<Rightarrow> int \<Rightarrow> string \<Rightarrow> int \<Rightarrow> int \<Rightarrow> string \<Rightarrow> finality_state \<Rightarrow> finality_kind \<Rightarrow> int option
     \<Rightarrow> string option \<Rightarrow> finality_row" where
  "new_observation h clk transaction_id chain_id block_number block_hash state kind head supersedes =
     \<lparr>fo_observation_id = finality_observation_id h transaction_id state block_hash supersedes,
      fo_transaction_id = transaction_id, fo_chain_id = chain_id, fo_block_number = block_number,
      fo_block_hash = lower block_hash, fo_state = state, fo_canonical = (state \<noteq> F_orphaned), fo_policy_kind = kind,
      fo_policy_head = head, fo_supersedes = supersedes, fo_observed_at = clk\<rparr>"

text \<open>
  \<^verbatim>\<open>_append\<close>: identifiers are a primary key, a row is superseded at most once. The callers pass
  \<^verbatim>\<open>canonical\<close> as true exactly when the state is not orphaned.
\<close>

definition append_txn :: "finality_row \<Rightarrow> finality_row ev_txn" where
  "append_txn r ev =
     bindE (ensure (int64 (fo_chain_id r) \<and> int64 (fo_block_number r)
                    \<and> (case fo_policy_head r of None \<Rightarrow> True | Some n \<Rightarrow> int64 n)) OverflowError) (\<lambda>_.
     bindE (ensure (0 \<le> fo_block_number r
                    \<and> \<not> list_ex (\<lambda>l. fo_observation_id l = fo_observation_id r) (ev_finality ev)
                    \<and> (case fo_supersedes r of None \<Rightarrow> True
                       | Some s \<Rightarrow> \<not> list_ex (\<lambda>l. fo_supersedes l = Some s) (ev_finality ev)
                           \<and> (s = fo_observation_id r \<or> list_ex (\<lambda>l. fo_observation_id l = s) (ev_finality ev)))
                    \<and> find_transaction (fo_transaction_id r) (ev_db ev) \<noteq> None) IntegrityError) (\<lambda>_.
     Inr (r, ev\<lparr>ev_finality := ev_finality ev @ [r]\<rparr>)))"

definition stamped :: "int \<Rightarrow> finality_state \<Rightarrow> transaction_row \<Rightarrow> transaction_row" where
  "stamped clk s t =
     (case s of
        F_included \<Rightarrow> t\<lparr>tx_state := T_included,
                        tx_included_at := (case tx_included_at t of None \<Rightarrow> Some clk | Some x \<Rightarrow> Some x)\<rparr>
      | F_finalized \<Rightarrow> t\<lparr>tx_state := T_finalized, tx_finalized_at := Some clk\<rparr>
      | F_orphaned \<Rightarrow> t\<lparr>tx_state := T_orphaned, tx_finalized_at := None\<rparr>)"

definition stage_after :: "finality_state \<Rightarrow> stage_state \<Rightarrow> stage_state" where
  "stage_after s g = (case s of F_finalized \<Rightarrow> G_completed | F_orphaned \<Rightarrow> G_collecting | F_included \<Rightarrow> g)"

text \<open>\<^verbatim>\<open>_set_transaction_state\<close>: a finalized transaction completes its stage, an orphaned one reopens it.\<close>

definition set_transaction_state_txn :: "int \<Rightarrow> string \<Rightarrow> finality_state \<Rightarrow> unit ev_txn" where
  "set_transaction_state_txn clk transaction_id s ev =
     (let db = ev_db ev in
      bindE (require (Option.bind (find_transaction transaction_id db) (\<lambda>t.
                      Option.bind (find_intent (tx_intent_id t) db) (\<lambda>i. find_stage (it_stage_id i) db)))
               (FinalityError FE_unknown_transaction)) (\<lambda>g.
      Inr ((), ev\<lparr>ev_db := db\<lparr>t_transactions := update_where (\<lambda>r. tx_transaction_id r = transaction_id)
                                  (stamped clk s) (t_transactions db),
                             t_stages := update_where (\<lambda>x. sg_stage_id x = sg_stage_id g)
                                  (sg_state_update (\<lambda>_. stage_after s (sg_state g))) (t_stages db)\<rparr>\<rparr>)))"

definition record_observation :: "int \<Rightarrow> finality_row \<Rightarrow> finality_row fin" where
  "record_observation clk r =
     act_bind (fin_write (append_txn r)) (\<lambda>observation.
     act_bind (fin_write (set_transaction_state_txn clk (fo_transaction_id r) (fo_state r))) (\<lambda>_.
     act_return observation))"

definition matches_hash :: "string option \<Rightarrow> string \<Rightarrow> bool" where
  "matches_hash canonical_hash block_hash =
     (case canonical_hash of None \<Rightarrow> False | Some x \<Rightarrow> lower x = block_hash)"

definition still_current :: "receipt_row \<Rightarrow> finality_row \<Rightarrow> bool" where
  "still_current rc r \<longleftrightarrow> fo_state r \<in> {F_included, F_finalized} \<and> fo_block_number r = rp_block_number rc
     \<and> fo_block_hash r = lower (rp_block_hash rc)"

definition observe_included ::
  "(json \<Rightarrow> string) \<Rightarrow> finality_provider \<Rightarrow> int \<Rightarrow> string \<Rightarrow> finality_row fin" where
  "observe_included h pv clk transaction_id =
     act_bind (fin_read (transaction_receipt transaction_id)) (\<lambda>(t, rc, run_id).
     act_bind (fin_read (policy_of run_id (tx_chain_id t))) (\<lambda>policy.
     act_bind (fin_hash pv (fp_chain_id policy) (rp_block_number rc)) (\<lambda>canonical_hash.
     act_bind (act_lift (ensure (matches_hash canonical_hash (lower (rp_block_hash rc))) (FinalityError FE_not_canonical))) (\<lambda>_.
     act_bind (fin_read (\<lambda>ev. Inr (latest transaction_id ev))) (\<lambda>l.
     let observation = new_observation h clk transaction_id (fp_chain_id policy) (rp_block_number rc)
           (rp_block_hash rc) F_included (fp_kind policy) None (map_option fo_observation_id l)
     in case l of
          Some r \<Rightarrow> if still_current rc r then act_return r else record_observation clk observation
        | None \<Rightarrow> record_observation clk observation)))))"

definition reached :: "finality_policy_row \<Rightarrow> int \<Rightarrow> int \<Rightarrow> bool" where
  "reached policy head block_number =
     (case fp_confirmation_count policy of
        Some n \<Rightarrow> if fp_kind policy = Confirmations then head - block_number + 1 \<ge> n else head \<ge> block_number
      | None \<Rightarrow> head \<ge> block_number)"

text \<open>A confirmations policy without a count fails the code's \<^verbatim>\<open>assert\<close>; the schema excludes it.\<close>

definition finalize :: "(json \<Rightarrow> string) \<Rightarrow> finality_provider \<Rightarrow> int \<Rightarrow> string \<Rightarrow> finality_row fin" where
  "finalize h pv clk transaction_id =
     act_bind (observe_included h pv clk transaction_id) (\<lambda>included.
     if fo_state included = F_finalized then act_return included
     else
     act_bind (fin_read (policy_for_transaction transaction_id)) (\<lambda>policy.
     act_bind (fin_head pv (fp_chain_id policy) (fp_kind policy)) (\<lambda>policy_head.
     act_bind (act_lift (require policy_head (FinalityError FE_head_unavailable))) (\<lambda>head.
     act_bind (act_lift (ensure (fp_kind policy = Confirmations \<longrightarrow> fp_confirmation_count policy \<noteq> None) AssertionError)) (\<lambda>_.
     act_bind (act_lift (ensure (reached policy head (fo_block_number included)) (FinalityError FE_not_reached))) (\<lambda>_.
     act_bind (fin_hash pv (fp_chain_id policy) (fo_block_number included)) (\<lambda>canonical_hash.
     act_bind (act_lift (ensure (matches_hash canonical_hash (fo_block_hash included)) (FinalityError FE_hash_changed))) (\<lambda>_.
     record_observation clk (new_observation h clk transaction_id (fp_chain_id policy) (fo_block_number included)
       (fo_block_hash included) F_finalized (fp_kind policy) (Some head) (Some (fo_observation_id included)))))))))))"

section \<open>Rechecks and the audit\<close>

definition run_transactions :: "string \<Rightarrow> db \<Rightarrow> transaction_row list" where
  "run_transactions run_id db =
     sort_by_key tx_transaction_id
       (filter (\<lambda>t. map_option snd (run_of_transaction (tx_transaction_id t) db) = Some run_id) (t_transactions db))"

text \<open>The loop over the transactions of a run, in the order of their identifiers.\<close>

fun recheck_all ::
  "(json \<Rightarrow> string) \<Rightarrow> finality_provider \<Rightarrow> int \<Rightarrow> string list \<Rightarrow> string list fin" where
  "recheck_all h pv clk [] = act_return []"
| "recheck_all h pv clk (i # is) =
     act_bind (fin_read (\<lambda>ev. Inr (latest i ev))) (\<lambda>l.
     case l of None \<Rightarrow> recheck_all h pv clk is
     | Some r \<Rightarrow>
         if fo_state r = F_orphaned then recheck_all h pv clk is
         else
         act_bind (fin_read (policy_for_transaction i)) (\<lambda>policy.
         act_bind (fin_hash pv (fp_chain_id policy) (fo_block_number r)) (\<lambda>canonical_hash.
         act_bind (act_lift (require canonical_hash (FinalityError (FE_hash_unavailable i)))) (\<lambda>x.
         if lower x = fo_block_hash r then recheck_all h pv clk is
         else
         act_bind (record_observation clk (new_observation h clk i (fp_chain_id policy) (fo_block_number r)
                     (fo_block_hash r) F_orphaned (fp_kind policy) None (Some (fo_observation_id r)))) (\<lambda>_.
         act_bind (recheck_all h pv clk is) (\<lambda>rest. act_return (i # rest)))))))"

definition recheck_canonicality ::
  "(json \<Rightarrow> string) \<Rightarrow> finality_provider \<Rightarrow> int \<Rightarrow> string \<Rightarrow> string list fin" where
  "recheck_canonicality h pv clk run_id =
     act_bind (fin_read (\<lambda>ev. Inr (map tx_transaction_id (run_transactions run_id (ev_db ev))))) (recheck_all h pv clk)"

definition finalized_now :: "evidence \<Rightarrow> transaction_row \<Rightarrow> bool" where
  "finalized_now ev t \<longleftrightarrow> tx_state t = T_finalized
     \<and> (case latest (tx_transaction_id t) ev of None \<Rightarrow> False | Some r \<Rightarrow> fo_state r = F_finalized)"

definition kind_name :: "finality_kind \<Rightarrow> string" where
  "kind_name k = (case k of Confirmations \<Rightarrow> ''confirmations'' | L2_safe \<Rightarrow> ''l2-safe'' | L2_finalized \<Rightarrow> ''l2-finalized''
                  | L1_settlement \<Rightarrow> ''l1-settlement'')"

definition freeze_audit :: "string \<Rightarrow> string list \<Rightarrow> evidence \<Rightarrow> exn + finality_audit" where
  "freeze_audit run_id orphaned ev =
     (let rows = run_transactions run_id (ev_db ev);
          incomplete = map tx_transaction_id (filter (\<lambda>t. \<not> finalized_now ev t) rows);
          labels = List.map_filter (\<lambda>t. map_option fo_policy_kind (latest (tx_transaction_id t) ev))
                     (filter (finalized_now ev) rows)
      in bindE (ensure (orphaned = [] \<and> incomplete = [])
                  (FinalityError (FE_unresolved (text_sort (remdups (orphaned @ incomplete)))))) (\<lambda>_.
         Inr \<lparr>fa_run_id = run_id, fa_finalized_transactions = length rows,
              fa_labels = sort_by_key kind_name (remdups labels), fa_orphaned_transactions = []\<rparr>))"

definition audit_for_freeze ::
  "(json \<Rightarrow> string) \<Rightarrow> finality_provider \<Rightarrow> int \<Rightarrow> string \<Rightarrow> finality_audit fin" where
  "audit_for_freeze h pv clk run_id =
     act_bind (recheck_canonicality h pv clk run_id) (\<lambda>orphaned. fin_read (freeze_audit run_id orphaned))"

end
