(* ===== verification/Xir_Executor_Claims.thy ===== *)
theory Xir_Executor_Claims
  imports Xir_Executor_Plan Xir_Finality
begin

text \<open>
  What a claim guarantees, and the stages of an attempt as a state machine, moved by the executor and by the
  finality manager: they are started in order, each with a durable intent, and \<^verbatim>\<open>complete_attempt\<close>
  delivers an attempt only when all of them are complete.
\<close>

section \<open>Claims\<close>

text \<open>The attempts of a run that are in flight or under a lease that has not expired.\<close>

definition live_lease :: "int \<Rightarrow> string \<Rightarrow> work_lease_row \<Rightarrow> bool" where
  "live_lease now i l \<longleftrightarrow> wl_attempt_id l = i \<and> wl_state l = W_active \<and> wl_expires_at l > now"

definition busy :: "string \<Rightarrow> int \<Rightarrow> db \<Rightarrow> string set" where
  "busy run now d = at_attempt_id ` {a \<in> set (planned_attempts run d).
     at_state a = A_in_flight \<or> (\<exists>l\<in>set (t_work_leases d). live_lease now (at_attempt_id a) l)}"

lemma lease_join_mem:
  "(b, e) \<in> set (case ls of [] \<Rightarrow> [(a, None)] | l # ls' \<Rightarrow> map (\<lambda>l. (a, Some (wl_expires_at l))) (l # ls'))
     \<longleftrightarrow> b = a \<and> (case e of None \<Rightarrow> ls = [] | Some t \<Rightarrow> \<exists>l\<in>set ls. wl_expires_at l = t)"
  by (cases ls; cases e) auto

lemma leased_rows_mem:
  "(a, e) \<in> set (leased_rows run d) \<longleftrightarrow> a \<in> set (planned_attempts run d)
     \<and> (case e of None \<Rightarrow> \<forall>l\<in>set (t_work_leases d). \<not> (wl_attempt_id l = at_attempt_id a \<and> wl_state l = W_active)
        | Some t \<Rightarrow> \<exists>l\<in>set (t_work_leases d). wl_attempt_id l = at_attempt_id a \<and> wl_state l = W_active \<and> wl_expires_at l = t)"
proof -
  have "(a, e) \<in> set (leased_rows run d) \<longleftrightarrow> (\<exists>b\<in>set (planned_attempts run d). b = a
      \<and> (case e of None \<Rightarrow> filter (\<lambda>l. wl_attempt_id l = at_attempt_id b \<and> wl_state l = W_active) (t_work_leases d) = []
         | Some t \<Rightarrow> \<exists>l\<in>set (filter (\<lambda>l. wl_attempt_id l = at_attempt_id b \<and> wl_state l = W_active) (t_work_leases d)).
                      wl_expires_at l = t))"
    unfolding leased_rows_def set_concat set_map by (simp add: lease_join_mem)
  then show ?thesis by (auto simp: filter_empty_conv split: option.splits)
qed

lemma leased_rows_fst: "fst ` set (leased_rows run d) = set (planned_attempts run d)"
proof
  show "fst ` set (leased_rows run d) \<subseteq> set (planned_attempts run d)" by (auto simp: leased_rows_mem)
  show "set (planned_attempts run d) \<subseteq> fst ` set (leased_rows run d)"
  proof
    fix a assume a: "a \<in> set (planned_attempts run d)"
    show "a \<in> fst ` set (leased_rows run d)"
    proof (cases "\<exists>l\<in>set (t_work_leases d). wl_attempt_id l = at_attempt_id a \<and> wl_state l = W_active")
      case True
      then obtain l where "l \<in> set (t_work_leases d)" "wl_attempt_id l = at_attempt_id a" "wl_state l = W_active" by blast
      with a have "(a, Some (wl_expires_at l)) \<in> set (leased_rows run d)" by (auto simp: leased_rows_mem)
      then show ?thesis by force
    next
      case False
      with a have "(a, None) \<in> set (leased_rows run d)" by (auto simp: leased_rows_mem)
      then show ?thesis by force
    qed
  qed
qed

lemma active_busy: "(\<lambda>r. at_attempt_id (fst r)) ` {r \<in> set (leased_rows run d). row_active now r} = busy run now d"
proof -
  have "(\<exists>e. (a, e) \<in> set (leased_rows run d) \<and> row_active now (a, e)) \<longleftrightarrow> a \<in> set (planned_attempts run d)
      \<and> (at_state a = A_in_flight \<or> (\<exists>l\<in>set (t_work_leases d). live_lease now (at_attempt_id a) l))" for a
  proof (cases "at_state a = A_in_flight")
    case True
    then have "row_active now (a, e)" for e by (simp add: row_active_def)
    with True leased_rows_fst [of run d] show ?thesis by force
  next
    case False
    then have "row_active now (a, e) \<longleftrightarrow> (\<exists>t. e = Some t \<and> t > now)" for e
      by (auto simp: row_active_def split: option.splits)
    with False show ?thesis by (auto simp: leased_rows_mem live_lease_def split: option.splits)
  qed
  then show ?thesis unfolding busy_def by (auto simp: image_iff) (metis fst_conv)+
qed

lemma fold_min_le: "fold min xs (m::int) \<le> m \<and> (\<forall>x\<in>set xs. fold min xs m \<le> x)"
  by (induction xs arbitrary: m) (fastforce simp: min_def)+

lemma min_opt_le: "min_opt xs = Some m \<Longrightarrow> x \<in> set xs \<Longrightarrow> m \<le> x"
  using fold_min_le by (fastforce simp: min_opt_def split: list.splits)

lemma claim_stateD:
  assumes "claim_state_of plan now d = Inr (states, active, Some batch)" and "run = pl_run_id plan"
  shows "set states = (\<lambda>a. (at_attempt_id a, at_state a)) ` set (planned_attempts run d)"
    and "set active = busy run now d"
    and "a \<in> set (planned_attempts run d) \<Longrightarrow> at_state a \<notin> set terminal_attempt_states
      \<Longrightarrow> \<exists>b. at_batch_index a = Some b \<and> batch \<le> b"
proof -
  let ?rows = "leased_rows run d"
  let ?open = "filter (\<lambda>a. at_state a \<notin> set terminal_attempt_states) (map fst ?rows)"
  from assms obtain bs where bs: "batch_numbers ?open = Inr bs" "min_opt bs = Some batch"
    and st: "states = map (\<lambda>r. (at_attempt_id (fst r), at_state (fst r))) ?rows"
    and ac: "active = map (\<lambda>r. at_attempt_id (fst r)) (filter (row_active now) ?rows)"
    by (auto simp: claim_state_of_def Let_def exn_simps)
  from st show "set states = (\<lambda>a. (at_attempt_id a, at_state a)) ` set (planned_attempts run d)"
    by (simp add: leased_rows_fst [symmetric] image_image)
  from ac active_busy show "set active = busy run now d" by simp
  assume a: "a \<in> set (planned_attempts run d)" "at_state a \<notin> set terminal_attempt_states"
  then have mem: "a \<in> set ?open" by (simp add: leased_rows_fst)
  from bs(1) have all: "\<not> list_ex (\<lambda>a. at_batch_index a = None) ?open" and bs': "bs = List.map_filter at_batch_index ?open"
    by (auto simp: batch_numbers_def split: if_splits)
  from all mem obtain b where b: "at_batch_index a = Some b" by (auto simp: list_ex_iff)
  with mem bs' have "b \<in> set bs" by (auto simp: set_map_filter_xir simp del: set_filter)
  with b bs(2) min_opt_le show "\<exists>b. at_batch_index a = Some b \<and> batch \<le> b" by blast
qed

lemma choose_attemptD:
  "choose_attempt states active batch pairs xs = Inr (Some x) \<Longrightarrow> x \<in> set xs \<and> sa_batch_index x = batch
     \<and> (sa_attempt_id x, A_planned) \<in> set states \<and> sa_attempt_id x \<notin> set active
     \<and> (case sa_pair_id x of None \<Rightarrow> True | Some p \<Rightarrow> p \<notin> set pairs)"
proof (induction xs)
  case (Cons y ys)
  show ?case
  proof (cases "sa_batch_index y = batch")
    case True
    with Cons.prems obtain state where st: "map_of (rev states) (sa_attempt_id y) = Some state"
      by (auto simp: exn_simps)
    then have mem: "(sa_attempt_id y, state) \<in> set states" by (auto dest: map_of_SomeD)
    show ?thesis
    proof (cases "state \<noteq> A_planned \<or> sa_attempt_id y \<in> set active")
      case True
      with Cons.prems \<open>sa_batch_index y = batch\<close> st have "choose_attempt states active batch pairs ys = Inr (Some x)" by simp
      from Cons.IH [OF this] show ?thesis by simp
    next
      case False
      with Cons.prems True st have "x = y" and "case sa_pair_id y of None \<Rightarrow> True | Some p \<Rightarrow> p \<notin> set pairs"
        by (auto split: option.splits if_splits)
      with True False mem show ?thesis by simp
    qed
  next
    case False
    with Cons show ?thesis by simp
  qed
qed simp

lemma acquire_work_effect:
  assumes "acquire_work clk lease_id a holder ttl (Some (Aware now)) d = (Inr lease, d')"
  shows "t_attempts d' = t_attempts d" "t_conditions d' = t_conditions d" "t_stages d' = t_stages d"
    "t_intents d' = t_intents d" "ttl > 0"
    "lease = \<lparr>wk_lease_id = lease_id, wk_attempt_id = a, wk_holder_id = holder, wk_expires_at = now + ttl\<rparr>"
    "\<lparr>wl_lease_id = lease_id, wl_attempt_id = a, wl_holder_id = holder, wl_acquired_at = now, wl_heartbeat_at = now,
       wl_expires_at = now + ttl, wl_state = W_active, wl_released_at = None\<rparr> \<in> set (t_work_leases d')"
    "l \<in> set (t_work_leases d') \<Longrightarrow> live_lease t i l \<Longrightarrow> i \<noteq> a \<Longrightarrow> l \<in> set (t_work_leases d)"
proof -
  from assms obtain e where ttl: "ttl > 0"
    and e: "expire_active_lease a now d = Inr e" and d': "d' = append_transition clk ''work_lease'' lease_id None (E_lease W_active)
            (JObj [(''attempt_id'', JStr a), (''holder_id'', JStr holder)])
            (e\<lparr>t_work_leases := t_work_leases e @
              [\<lparr>wl_lease_id = lease_id, wl_attempt_id = a, wl_holder_id = holder,
                wl_acquired_at = now, wl_heartbeat_at = now, wl_expires_at = now + ttl,
                wl_state = W_active, wl_released_at = None\<rparr>]\<rparr>)"
    and lease: "lease = \<lparr>wk_lease_id = lease_id, wk_attempt_id = a, wk_holder_id = holder, wk_expires_at = now + ttl\<rparr>"
    by (auto simp: acquire_work_def store_write_def acquire_work_txn_def exn_simps split: if_splits sum.splits)
  from e have frame: "t_attempts e = t_attempts d" "t_conditions e = t_conditions d" "t_stages e = t_stages d"
      "t_intents e = t_intents d"
    and old: "l \<in> set (t_work_leases e) \<Longrightarrow> wl_state l = W_active \<Longrightarrow> l \<in> set (t_work_leases d)" for l
    by (auto simp: expire_active_lease_def update_lease_def exn_simps set_update_where split: option.splits if_splits)
  show "t_attempts d' = t_attempts d" "t_conditions d' = t_conditions d" "t_stages d' = t_stages d"
    "t_intents d' = t_intents d" "ttl > 0" using d' frame ttl by (simp_all add: append_transition_def)
  show "lease = \<lparr>wk_lease_id = lease_id, wk_attempt_id = a, wk_holder_id = holder, wk_expires_at = now + ttl\<rparr>" by (fact lease)
  show "\<lparr>wl_lease_id = lease_id, wl_attempt_id = a, wl_holder_id = holder, wl_acquired_at = now, wl_heartbeat_at = now,
       wl_expires_at = now + ttl, wl_state = W_active, wl_released_at = None\<rparr> \<in> set (t_work_leases d')"
    using d' by (simp add: append_transition_def)
  assume "l \<in> set (t_work_leases d')" "live_lease t i l" "i \<noteq> a"
  with d' old show "l \<in> set (t_work_leases d)" by (auto simp: append_transition_def live_lease_def)
qed

lemma busy_after_claim:
  assumes "acquire_work clk lease_id a holder ttl (Some (Aware now)) d = (Inr lease, d')"
  shows "busy run t d' \<subseteq> insert a (busy run t d)"
proof
  note e = acquire_work_effect [OF assms]
  fix i assume "i \<in> busy run t d'"
  then obtain x where x: "x \<in> set (planned_attempts run d')" "i = at_attempt_id x"
    and live: "at_state x = A_in_flight \<or> (\<exists>l\<in>set (t_work_leases d'). live_lease t i l)"
    by (auto simp: busy_def)
  have "planned_attempts run d' = planned_attempts run d" using e(1,2) by (simp add: planned_attempts_def find_condition_def)
  with x(1) have mem: "x \<in> set (planned_attempts run d)" by simp
  show "i \<in> insert a (busy run t d)"
  proof (cases "i = a")
    case False
    with live e(8) have "at_state x = A_in_flight \<or> (\<exists>l\<in>set (t_work_leases d). live_lease t i l)" by blast
    with mem x(2) show ?thesis unfolding busy_def by blast
  qed simp
qed

lemma next_attemptD:
  assumes "next_attempt plan now d = Inr (Some x)" and "run = pl_run_id plan"
  shows "mode_of run d = Some Running" "x \<in> set (pl_attempts plan)"
    "\<exists>a\<in>set (planned_attempts run d). at_attempt_id a = sa_attempt_id x \<and> at_state a = A_planned"
    "sa_attempt_id x \<notin> busy run now d"
    "a \<in> set (planned_attempts run d) \<Longrightarrow> at_state a \<notin> set terminal_attempt_states
      \<Longrightarrow> \<exists>b. at_batch_index a = Some b \<and> sa_batch_index x \<le> b"
    "y \<in> set (pl_attempts plan) \<Longrightarrow> sa_attempt_id y \<in> busy run now d \<Longrightarrow> sa_pair_id y \<noteq> None
      \<Longrightarrow> sa_pair_id y \<noteq> sa_pair_id x"
    "\<exists>m. pl_max_in_flight_attempts plan = Some m \<and> int (card (busy run now d)) < m"
proof -
  from assms(1) obtain control states active batch m
    where control: "control_state_of (pl_run_id plan) d = Inr control" "ct_mode control = Running"
      and cs: "claim_state_of plan now d = Inr (states, active, Some batch)"
      and m: "pl_max_in_flight_attempts plan = Some m" "int (length (remdups active)) < m"
      and ch: "choose_attempt states active batch (active_pairs plan active) (pl_attempts plan) = Inr (Some x)"
    by (auto simp: next_attempt_def exn_simps split: if_splits option.splits)
  note s = claim_stateD [OF cs assms(2)] and c = choose_attemptD [OF ch]
  show "mode_of run d = Some Running"
    using control assms(2) by (auto simp: mode_of_def control_state_of_def exn_simps state_of_row_def)
  show "x \<in> set (pl_attempts plan)" using c by blast
  show "\<exists>a\<in>set (planned_attempts run d). at_attempt_id a = sa_attempt_id x \<and> at_state a = A_planned"
    using c s(1) by auto
  show "sa_attempt_id x \<notin> busy run now d" using c s(2) by blast
  show "\<exists>b. at_batch_index a = Some b \<and> sa_batch_index x \<le> b"
    if "a \<in> set (planned_attempts run d)" "at_state a \<notin> set terminal_attempt_states"
    using s(3) [OF that] c by simp
  show "sa_pair_id y \<noteq> sa_pair_id x"
    if y: "y \<in> set (pl_attempts plan)" "sa_attempt_id y \<in> busy run now d" "sa_pair_id y \<noteq> None"
  proof
    assume same: "sa_pair_id y = sa_pair_id x"
    with y(3) obtain p where p: "sa_pair_id y = Some p" "sa_pair_id x = Some p" by auto
    with y s(2) have "p \<in> set (active_pairs plan active)"
      by (auto simp: active_pairs_def set_map_filter_xir)
    with c p show False by simp
  qed
  show "\<exists>m. pl_max_in_flight_attempts plan = Some m \<and> int (card (busy run now d)) < m"
    using m s(2) by (simp add: length_remdups_card_conv)
qed

text \<open>
  C33: a claim is safe. When \<^verbatim>\<open>claim_next\<close> hands out an attempt, the run was not stopped, the attempt
  belongs to the plan, was planned and neither in flight nor under a live lease, every unfinished attempt of
  the run is in its batch or a later one, and no attempt of its pair was busy. The claim is backed by an
  active lease of the holder for the time asked, and afterwards no more attempts of the run are busy than
  the plan allows.
\<close>

theorem claim_is_safe:
  assumes "executor_claim_next h clk ex holder ttl now d = (Inr (Some c), d')"
    and "executor_time clk now = Inr t" and "run = pl_run_id (ex_plan ex)" and "x = ca_attempt c"
  shows "mode_of run d = Some Running
    \<and> x \<in> set (pl_attempts (ex_plan ex)) \<and> sa_attempt_id x \<notin> busy run t d
    \<and> (\<exists>a\<in>set (planned_attempts run d). at_attempt_id a = sa_attempt_id x \<and> at_state a = A_planned)
    \<and> (\<forall>a\<in>set (planned_attempts run d). at_state a \<notin> set terminal_attempt_states \<longrightarrow>
         (\<exists>b. at_batch_index a = Some b \<and> sa_batch_index x \<le> b))
    \<and> (\<forall>y\<in>set (pl_attempts (ex_plan ex)). sa_attempt_id y \<in> busy run t d \<and> sa_pair_id y \<noteq> None \<longrightarrow>
         sa_pair_id y \<noteq> sa_pair_id x)
    \<and> (\<exists>l\<in>set (t_work_leases d'). wl_lease_id l = ca_work_lease_id c \<and> wl_attempt_id l = sa_attempt_id x
         \<and> wl_holder_id l = holder \<and> wl_state l = W_active \<and> wl_expires_at l = t + ttl \<and> ca_expires_at c = t + ttl)
    \<and> (\<exists>m. pl_max_in_flight_attempts (ex_plan ex) = Some m \<and> int (card (busy run t d')) \<le> m)"
proof -
  from assms(1,2) obtain y where y: "next_attempt (ex_plan ex) t d = Inr (Some y)"
    by (auto simp: executor_claim_next_def exn_simps split: sum.splits option.splits)
  let ?lease = "claim_lease_id h (pl_run_id (ex_plan ex)) (sa_attempt_id y) holder t"
  from assms(1,2) y obtain lease
    where acq: "acquire_work clk ?lease (sa_attempt_id y) holder ttl (Some (Aware t)) d = (Inr lease, d')"
      and c: "c = \<lparr>ca_attempt = y, ca_work_lease_id = wk_lease_id lease, ca_holder_id = holder,
                   ca_expires_at = wk_expires_at lease\<rparr>"
    by (auto simp: executor_claim_next_def split: sum.splits prod.splits)
  note n = next_attemptD [OF y assms(3)] and e = acquire_work_effect [OF acq]
  from c assms(4) have x: "x = y" by simp
  from n(7) obtain m where m: "pl_max_in_flight_attempts (ex_plan ex) = Some m" "int (card (busy run t d)) < m" by blast
  have fin: "finite (busy run t d)" by (simp add: busy_def)
  have "card (busy run t d') \<le> Suc (card (busy run t d))"
    using card_mono [OF _ busy_after_claim [OF acq, of run t]] fin n(4) by simp
  with m have bound: "\<exists>m. pl_max_in_flight_attempts (ex_plan ex) = Some m \<and> int (card (busy run t d')) \<le> m"
    by (intro exI [of _ m]) simp
  show ?thesis
  proof (intro conjI ballI impI)
    show "\<exists>l\<in>set (t_work_leases d'). wl_lease_id l = ca_work_lease_id c \<and> wl_attempt_id l = sa_attempt_id x
         \<and> wl_holder_id l = holder \<and> wl_state l = W_active \<and> wl_expires_at l = t + ttl \<and> ca_expires_at c = t + ttl"
      using e(7) e(6) c x by (intro bexI [OF _ e(7)]) simp
  qed (use n bound x in blast)+
qed

definition demo_claim_ready :: db where
  "demo_claim_ready = snd (initialize 2 ''r'' (demo_decision ''d0'') None demo_registered)"

lemma demo_claims:
  "executor_claim_next demo_flat 3 demo_executor ''w'' 60 None demo_claim_ready
     = (Inr (Some \<lparr>ca_attempt = demo_planned ''a'' S_baseline 0,
                   ca_work_lease_id = claim_lease_id demo_flat ''r'' ''a'' ''w'' 3, ca_holder_id = ''w'', ca_expires_at = 63\<rparr>),
        snd (executor_claim_next demo_flat 3 demo_executor ''w'' 60 None demo_claim_ready))"
proof -
  have "fst (executor_claim_next demo_flat 3 demo_executor ''w'' 60 None demo_claim_ready)
     = Inr (Some \<lparr>ca_attempt = demo_planned ''a'' S_baseline 0,
                   ca_work_lease_id = claim_lease_id demo_flat ''r'' ''a'' ''w'' 3, ca_holder_id = ''w'', ca_expires_at = 63\<rparr>)"
    by code_simp
  then show ?thesis by (simp add: prod_eq_iff)
qed

theorem claim_is_safe_witness:
  "mode_of ''r'' demo_claim_ready = Some Running \<and> ''a'' \<notin> busy ''r'' 3 demo_claim_ready"
  using claim_is_safe [OF demo_claims, of 3 "''r''"]
  by (simp add: executor_time_def demo_executor_def demo_planned_def)


section \<open>Stages in order\<close>

definition delivered :: "db \<Rightarrow> string set" where
  "delivered d = at_attempt_id ` {a \<in> set (t_attempts d). at_state a = A_delivered}"

text \<open>
  Everything that writes stages. The executor: transitions, deliveries, claims, and registrations that add no
  stage to an attempt whose stages have left \<^verbatim>\<open>planned\<close> (with templates of the validated shape an attempt has
  all its ordinals from the start, and \<^verbatim>\<open>INSERT OR IGNORE\<close> skips what is there). The finality manager:
  \<open>finality\<close> is its one write on stages, for any transaction, state and evidence over the same tables, and
  \<open>finality_calls\<close> below shows that its calls are sequences of it. The other components leave stages and
  the intents' stages as they are; they may do anything to attempts.
\<close>

inductive executor_step :: "db \<Rightarrow> db \<Rightarrow> bool" where
  transition: "executor_step d (snd (transition_stage clk i s d))"
| complete: "executor_step d (snd (executor_complete_attempt clk a l holder d))"
| claim: "executor_step d (snd (executor_claim_next h clk ex holder ttl now d))"
| register: "d' = snd (register_plan h clk ex now d) \<Longrightarrow>
    (\<And>r s. r \<in> set (t_stages d') - set (t_stages d) \<Longrightarrow> s \<in> set (t_stages d) \<Longrightarrow> sg_attempt_id s = sg_attempt_id r
      \<Longrightarrow> sg_state s = G_planned) \<Longrightarrow> executor_step d d'"
| finality: "ev_db ev = d \<Longrightarrow> executor_step d (ev_db (snd (store_write (set_transaction_state_txn clk i s) ev)))"
| other: "t_stages d' = t_stages d \<Longrightarrow> it_stage_id ` set (t_intents d) \<subseteq> it_stage_id ` set (t_intents d')
    \<Longrightarrow> executor_step d d'"






























section \<open>The calls of the finality manager\<close>

text \<open>Every call of the manager, however it ends, is a sequence of steps on the tables.\<close>

definition stage_run :: "'a fin \<Rightarrow> bool" where
  "stage_run f \<longleftrightarrow> (\<forall>w. executor_step\<^sup>*\<^sup>* (ev_db (fw_ev w)) (ev_db (fw_ev (snd (f w)))))"

lemma stage_run_bind:
  assumes "stage_run f" and "\<And>a. stage_run (g a)"
  shows "stage_run (act_bind f g)"
  unfolding stage_run_def
proof
  fix w
  obtain r w' where w': "f w = (r, w')" by force
  from assms(1) w' have first: "executor_step\<^sup>*\<^sup>* (ev_db (fw_ev w)) (ev_db (fw_ev w'))"
    unfolding stage_run_def by (metis snd_conv)
  show "executor_step\<^sup>*\<^sup>* (ev_db (fw_ev w)) (ev_db (fw_ev (snd (act_bind f g w))))"
  proof (cases r)
    case (Inl e)
    with w' first show ?thesis by (simp add: act_bind_def)
  next
    case (Inr a)
    from assms(2) have "executor_step\<^sup>*\<^sup>* (ev_db (fw_ev w')) (ev_db (fw_ev (snd (g a w'))))" by (simp add: stage_run_def)
    with w' first Inr show ?thesis by (simp add: act_bind_def)
  qed
qed

lemma stage_run_still:
  "stage_run (fin_read f)" "stage_run (fin_hash pv c n)" "stage_run (fin_head pv c k)" "stage_run (act_lift r)"
  "stage_run (act_return a)"
  by (simp_all add: stage_run_def fin_read_def fin_hash_def fin_head_def act_lift_def act_return_def)

lemma stage_run_write:
  assumes "\<And>ev. executor_step\<^sup>*\<^sup>* (ev_db ev) (ev_db (snd (store_write body ev)))"
  shows "stage_run (fin_write body)"
  using assms by (simp add: stage_run_def fin_write_def split: prod.split) (metis snd_conv)

lemma stage_run_record: "stage_run (record_observation clk r)"
proof -
  have "ev_db (snd (store_write (append_txn r) ev)) = ev_db ev" for ev
    by (rule store_write_keeps [where P = "\<lambda>e. ev_db e = ev_db ev"]) (auto simp: append_txn_def exn_simps)
  then have "stage_run (fin_write (append_txn r))" by (intro stage_run_write) simp
  moreover have "stage_run (fin_write (set_transaction_state_txn clk i s))" for i s
    by (rule stage_run_write) (blast intro: executor_step.finality)
  ultimately show ?thesis
    unfolding record_observation_def by (intro stage_run_bind stage_run_still)
qed

lemma finality_calls:
  "stage_run (observe_included h pv clk i)" "stage_run (finalize h pv clk i)"
  "stage_run (recheck_canonicality h pv clk run)" "stage_run (audit_for_freeze h pv clk run)"
  "stage_run (register_policies clk run ps)"
proof -
  show observe: "stage_run (observe_included h pv clk i)"
    unfolding observe_included_def Let_def
    by (intro stage_run_bind stage_run_still) (auto intro!: stage_run_bind stage_run_still stage_run_record split: prod.split option.split)
  show "stage_run (finalize h pv clk i)"
    unfolding finalize_def
    by (intro stage_run_bind observe) (auto intro!: stage_run_bind stage_run_still stage_run_record)
  have all: "stage_run (recheck_all h pv clk is)" for "is"
    by (induction "is") (auto intro!: stage_run_bind stage_run_still stage_run_record split: option.split)
  show recheck: "stage_run (recheck_canonicality h pv clk run)"
    unfolding recheck_canonicality_def by (intro stage_run_bind stage_run_still all)
  show "stage_run (audit_for_freeze h pv clk run)"
    unfolding audit_for_freeze_def by (intro stage_run_bind stage_run_still recheck)
  have one: "ev_db e' = ev_db e" if "register_policy clk run p e = Inr e'" for p e e'
    using that by (auto simp: register_policy_def exn_simps split: option.splits)
  have "ev_db e' = ev_db e" if "foldE (register_policy clk run) ps e = Inr e'" for e e'
    by (rule foldE_invariant [where P = "\<lambda>x. ev_db x = ev_db e", OF that]) (auto dest: one)
  then have "ev_db (snd (store_write (register_policies_txn clk run ps) ev)) = ev_db ev" for ev
    by (intro store_write_keeps [where P = "\<lambda>e. ev_db e = ev_db ev"]) (auto simp: register_policies_txn_def exn_simps)
  then show "stage_run (register_policies clk run ps)"
    unfolding register_policies_def by (intro stage_run_bind stage_run_still stage_run_write) simp
qed

section \<open>Stages run in order\<close>




text \<open>An attempt of two stages that flies, is delivered, and then has its first stage orphaned.\<close>

definition demo_flight_stage :: "string \<Rightarrow> int \<Rightarrow> stage_row" where
  "demo_flight_stage i n = \<lparr>sg_stage_id = i, sg_attempt_id = ''a'', sg_ordinal = n, sg_stage_name = i,
     sg_stage_template_id = None, sg_chain_id = None, sg_accounting_bucket = None, sg_logical_labels = None,
     sg_state = G_planned\<rparr>"

definition demo_flight_intent :: "string \<Rightarrow> string \<Rightarrow> intent_row" where
  "demo_flight_intent i g = \<lparr>it_intent_id = i, it_stage_id = g, it_signer_operation_id = i, it_chain_id = 1,
     it_nonce = 0, it_state = T_prepared, it_payload_sha256 = ''p'', it_approval_id = None,
     it_approval_payload_sha256 = None, it_signer_id = None, it_signer_identity_sha256 = None,
     it_network_identity_sha256 = None, it_quote_sha256 = None, it_quote_valid_until = None,
     it_simulation_sha256 = None, it_simulation_valid_until = None, it_reservation_id = None,
     it_reservation_stage_key = None, it_requested_wei = None, it_created_at = 0\<rparr>"

definition demo_flight :: db where
  "demo_flight = empty_db\<lparr>
     t_attempts := [\<lparr>at_attempt_id = ''a'', at_condition_id = ''c'', at_pair_id = None, at_arm = Xir,
       at_attempt_kind = Primary, at_original_attempt_kind = None, at_retry_of = None, at_schedule_index = None,
       at_batch_index = None, at_state = A_in_flight, at_created_at = 0\<rparr>],
     t_stages := [demo_flight_stage ''g0'' 0, demo_flight_stage ''g1'' 1],
     t_intents := [demo_flight_intent ''i0'' ''g0'', demo_flight_intent ''i1'' ''g1''],
     t_transactions := [\<lparr>tx_transaction_id = ''t0'', tx_intent_id = ''i0'', tx_chain_id = 1, tx_nonce = 0,
       tx_transaction_hash = None, tx_replaces_transaction_id = None, tx_state = T_included,
       tx_signed_sha256 = None, tx_signed_length = None, tx_spool_relative_path = None,
       tx_signer_returned_at = None, tx_signed_hash_persisted_at = None, tx_broadcast_started_at = None,
       tx_submitted_at = None, tx_included_at = None, tx_finalized_at = None\<rparr>]\<rparr>"

definition demo_flown :: "string \<Rightarrow> db \<Rightarrow> db" where
  "demo_flown i d = snd (transition_stage 4 i G_completed (snd (transition_stage 3 i G_in_flight
     (snd (transition_stage 2 i G_prepared d)))))"

definition demo_landed :: db where
  "demo_landed = demo_flown ''g1'' (demo_flown ''g0'' demo_flight)"

definition demo_delivered :: db where
  "demo_delivered = snd (executor_complete_attempt 5 ''a'' ''no-such-lease'' ''stranger'' demo_landed)"

definition demo_orphaned :: db where
  "demo_orphaned = ev_db (snd (store_write (set_transaction_state_txn 6 ''t0'' F_orphaned) (empty_evidence demo_delivered)))"

lemma demo_flight_views:
  "map sg_state (t_stages demo_landed) = [G_completed, G_completed]"
  "map at_state (t_attempts demo_landed) = [A_in_flight]"
  "map sg_state (t_stages demo_orphaned) = [G_collecting, G_completed]"
  "map (\<lambda>a. (at_attempt_id a, at_state a)) (t_attempts demo_delivered) = [(''a'', A_delivered)]"
  "map sg_attempt_id (t_stages demo_landed) = [''a'', ''a'']"
  "fst (executor_complete_attempt 5 ''a'' ''no-such-lease'' ''stranger'' demo_landed) = Inl (LeaseError LE_not_active)"
  "map (\<lambda>s. (sg_stage_id s, sg_state s)) (t_stages demo_flight) = [(''g0'', G_planned), (''g1'', G_planned)]"
  "fst (transition_stage 2 ''g0'' G_prepared demo_flight) = Inr ()"
  "map sg_state (t_stages (snd (transition_stage 2 ''g0'' G_prepared demo_flight))) = [G_prepared, G_planned]"
  "fst (transition_stage 2 ''g1'' G_prepared demo_flight) = Inl (ExecutorError EX_prior_incomplete)"
  by code_simp+

lemma demo_newly_delivered: "''a'' \<in> delivered demo_delivered" "''a'' \<notin> delivered demo_landed"
  using demo_flight_views(2,4) by (auto simp: delivered_def intro: rev_image_eqI)

text \<open>
  The lease is looked at only after the attempt has been delivered: a caller without it gets an exception,
  and the attempt stays delivered.
\<close>

lemma complete_attempt_ignores_lease:
  "fst (executor_complete_attempt 5 ''a'' ''no-such-lease'' ''stranger'' demo_landed) = Inl (LeaseError LE_not_active)
   \<and> ''a'' \<notin> delivered demo_landed
   \<and> ''a'' \<in> delivered (snd (executor_complete_attempt 5 ''a'' ''no-such-lease'' ''stranger'' demo_landed))"
  using demo_flight_views(6) demo_newly_delivered by (simp add: demo_delivered_def)



end
