(* ===== verification/Xir_Approvals.thy ===== *)
theory Xir_Approvals
  imports Xir_Store
begin

text \<open>
  \<^verbatim>\<open>execute/approvals.py\<close>: signed operation approvals, revocations and the anti-replay
  ledger. Parameters stand for the third-party packages: \<open>h\<close> is the hexadecimal SHA-256 of the
  canonical (RFC 8785) serialization of a JSON value, \<open>ed\<close> tells whether an Ed25519 public key (raw
  bytes) verifies a signature over a message, \<open>schema\<close> whether a document passes the JSON schema.
  A document is what the schema admits: the fields the module reads, with the remaining fields of the
  payload kept as JSON so that the digest covers the whole payload. Bytes are characters.
\<close>

section \<open>Documents and keys\<close>

record pinned_key =
  pk_issuer_id :: string
  pk_approval_key_id :: string
  pk_public_key_hex :: string

record verified_approval =
  va_approval_id :: string
  va_operation_type :: string
  va_operation_id :: string
  va_payload_sha256 :: string
  va_issuer_sequence :: int

record approval_payload =
  ap_approval_id :: string
  ap_issuer_id :: string
  ap_approval_key_id :: string
  ap_issuer_sequence :: int
  ap_operation_type :: string
  ap_operation_id :: string
  ap_issued_at :: pydatetime
  ap_valid_from :: pydatetime
  ap_valid_until :: pydatetime
  ap_other :: "(string \<times> json) list"

record approval_document =
  ad_payload :: approval_payload
  ad_payload_sha256 :: string
  ad_signature :: string

record revocation_payload =
  rp_revocation_id :: string
  rp_approval_id :: string
  rp_issuer_id :: string
  rp_approval_key_id :: string
  rp_issuer_sequence :: int
  rp_revoked_at :: pydatetime
  rp_reason :: string

record revocation_document =
  rd_payload :: revocation_payload
  rd_payload_sha256 :: string
  rd_signature :: string

text \<open>The text of a time stamp: an instant, or a local time without an offset.\<close>

definition time_json :: "pydatetime \<Rightarrow> json" where
  "time_json d = (case d of Aware t \<Rightarrow> JTime t | Naive t \<Rightarrow> JList [JTime t])"

definition approval_json :: "approval_payload \<Rightarrow> json" where
  "approval_json p = JObj
     ([(''approval_id'', JStr (ap_approval_id p)), (''issuer_id'', JStr (ap_issuer_id p)),
       (''approval_key_id'', JStr (ap_approval_key_id p)), (''issuer_sequence'', JInt (ap_issuer_sequence p)),
       (''operation_type'', JStr (ap_operation_type p)), (''operation_id'', JStr (ap_operation_id p)),
       (''issued_at'', time_json (ap_issued_at p)), (''valid_from'', time_json (ap_valid_from p)),
       (''valid_until'', time_json (ap_valid_until p))] @ ap_other p)"

definition revocation_json :: "revocation_payload \<Rightarrow> json" where
  "revocation_json p = JObj
     [(''revocation_id'', JStr (rp_revocation_id p)), (''approval_id'', JStr (rp_approval_id p)),
      (''issuer_id'', JStr (rp_issuer_id p)), (''approval_key_id'', JStr (rp_approval_key_id p)),
      (''issuer_sequence'', JInt (rp_issuer_sequence p)), (''revoked_at'', time_json (rp_revoked_at p)),
      (''reason'', JStr (rp_reason p))]"

definition APPROVAL_DOMAIN :: string where
  "APPROVAL_DOMAIN = ''xir-testnet-lab-approval-v1''"

definition REVOCATION_DOMAIN :: string where
  "REVOCATION_DOMAIN = ''xir-testnet-lab-revocation-v1''"

section \<open>Digests and signatures\<close>

definition hex_digit :: "char \<Rightarrow> nat option" where
  "hex_digit c =
     (let n = of_char c :: nat in
      if 48 \<le> n \<and> n \<le> 57 then Some (n - 48)
      else if 97 \<le> n \<and> n \<le> 102 then Some (n - 87)
      else if 65 \<le> n \<and> n \<le> 70 then Some (n - 55) else None)"

text \<open>\<^verbatim>\<open>bytes.fromhex\<close>: ASCII white space may stand between two bytes; anything else raises.\<close>

fun fromhex :: "string \<Rightarrow> string option" where
  "fromhex [] = Some []"
| "fromhex (c # cs) =
     (if (of_char c :: nat) \<in> {9, 10, 11, 12, 13, 32} then fromhex cs
      else case cs of [] \<Rightarrow> None
           | d # ds \<Rightarrow> (case (hex_digit c, hex_digit d) of
                (Some a, Some b) \<Rightarrow> map_option (\<lambda>rest. char_of (16 * a + b) # rest) (fromhex ds)
              | _ \<Rightarrow> None))"

definition canonical_payload_digest :: "(json \<Rightarrow> string) \<Rightarrow> json \<Rightarrow> string" where
  "canonical_payload_digest h payload = h payload"

definition signature_message :: "string \<Rightarrow> string \<Rightarrow> string option" where
  "signature_message domain payload_sha256 = map_option (\<lambda>b. domain @ [CHR 0x00] @ b) (fromhex payload_sha256)"

definition parse_time :: "pydatetime \<Rightarrow> exn + int" where
  "parse_time value = (case value of Aware t \<Rightarrow> Inr t | Naive _ \<Rightarrow> Inl (ApprovalError AE_naive_time))"

text \<open>\<^verbatim>\<open>(now or datetime.now(UTC)).astimezone(UTC)\<close>; \<open>tz\<close> converts the local time of the host.\<close>

definition current_time :: "(int \<Rightarrow> int) \<Rightarrow> int \<Rightarrow> pydatetime option \<Rightarrow> int" where
  "current_time tz clk now = (case now of None \<Rightarrow> clk | Some (Aware t) \<Rightarrow> t | Some (Naive t) \<Rightarrow> tz t)"

text \<open>The verifier keeps its keys in a dictionary by key identifier: the last of a name wins.\<close>

definition pinned :: "pinned_key list \<Rightarrow> string \<Rightarrow> pinned_key option" where
  "pinned keys key_id = find (\<lambda>k. pk_approval_key_id k = key_id) (rev keys)"

definition signature_valid :: "(string \<Rightarrow> string \<Rightarrow> string \<Rightarrow> bool) \<Rightarrow> string \<Rightarrow> string \<Rightarrow> string \<Rightarrow> string \<Rightarrow> bool" where
  "signature_valid ed public_key_hex signature_hex domain payload_sha256 \<longleftrightarrow>
     (case (fromhex public_key_hex, fromhex signature_hex, signature_message domain payload_sha256) of
        (Some key, Some signature, Some message) \<Rightarrow> ed key signature message
      | _ \<Rightarrow> False)"

definition verify_signature ::
  "(json \<Rightarrow> string) \<Rightarrow> (string \<Rightarrow> string \<Rightarrow> string \<Rightarrow> bool) \<Rightarrow> pinned_key list \<Rightarrow> json \<Rightarrow> string \<Rightarrow> string
     \<Rightarrow> string \<Rightarrow> string \<Rightarrow> string \<Rightarrow> exn + pinned_key" where
  "verify_signature h ed keys payload key_id issuer_id payload_sha256 signature_hex domain =
     bindE (ensure (canonical_payload_digest h payload = payload_sha256) (ApprovalError AE_digest_mismatch)) (\<lambda>_.
     bindE (require (pinned keys key_id) (ApprovalError AE_not_pinned)) (\<lambda>key.
     bindE (ensure (pk_issuer_id key = issuer_id) (ApprovalError AE_not_pinned)) (\<lambda>_.
     bindE (ensure (signature_valid ed (pk_public_key_hex key) signature_hex domain payload_sha256)
              (ApprovalError AE_invalid_signature)) (\<lambda>_.
     Inr key))))"

section \<open>The ledger\<close>

text \<open>\<^verbatim>\<open>SELECT max(issuer_sequence)\<close> over both tables: \<^verbatim>\<open>NULL\<close> on no row.\<close>

definition issuer_sequences :: "string \<Rightarrow> db \<Rightarrow> int list" where
  "issuer_sequences issuer_id db =
     map ac_issuer_sequence (filter (\<lambda>r. ac_issuer_id r = issuer_id) (t_consumptions db))
     @ map ar_issuer_sequence (filter (\<lambda>r. ar_issuer_id r = issuer_id) (t_revocations db))"

definition sequence_is_new :: "string \<Rightarrow> int \<Rightarrow> db \<Rightarrow> bool" where
  "sequence_is_new issuer_id sequence db \<longleftrightarrow>
     (case issuer_sequences issuer_id db of [] \<Rightarrow> True | x # xs \<Rightarrow> \<not> sequence \<le> fold max xs x)"

definition is_revoked :: "string \<Rightarrow> db \<Rightarrow> bool" where
  "is_revoked approval_id db = list_ex (\<lambda>r. ar_approval_id r = approval_id) (t_revocations db)"

definition find_consumption :: "string \<Rightarrow> db \<Rightarrow> consumption_row option" where
  "find_consumption approval_id db = find (\<lambda>r. ac_approval_id r = approval_id) (t_consumptions db)"

definition verify_approval ::
  "(json \<Rightarrow> string) \<Rightarrow> (string \<Rightarrow> string \<Rightarrow> string \<Rightarrow> bool) \<Rightarrow> (approval_document \<Rightarrow> bool) \<Rightarrow> (int \<Rightarrow> int) \<Rightarrow> int
     \<Rightarrow> pinned_key list \<Rightarrow> approval_document \<Rightarrow> pydatetime option \<Rightarrow> db \<Rightarrow> exn + verified_approval" where
  "verify_approval h ed schema tz clk keys document now db =
     (let p = ad_payload document in
      bindE (ensure (schema document) (ApprovalError AE_schema)) (\<lambda>_.
      bindE (verify_signature h ed keys (approval_json p) (ap_approval_key_id p) (ap_issuer_id p)
               (ad_payload_sha256 document) (ad_signature document) APPROVAL_DOMAIN) (\<lambda>_.
      bindE (parse_time (ap_issued_at p)) (\<lambda>issued_at.
      bindE (parse_time (ap_valid_from p)) (\<lambda>valid_from.
      bindE (parse_time (ap_valid_until p)) (\<lambda>valid_until.
      let current = current_time tz clk now in
      bindE (ensure (issued_at \<le> valid_from \<and> valid_from < valid_until) (ApprovalError AE_time_order)) (\<lambda>_.
      bindE (ensure (valid_from \<le> current \<and> current < valid_until) (ApprovalError AE_not_currently_valid)) (\<lambda>_.
      bindE (ensure (\<not> is_revoked (ap_approval_id p) db) (ApprovalError AE_revoked)) (\<lambda>_.
      bindE (ensure (find_consumption (ap_approval_id p) db = None) (ApprovalError AE_consumed)) (\<lambda>_.
      bindE (ensure (sequence_is_new (ap_issuer_id p) (ap_issuer_sequence p) db) (ApprovalError AE_sequence)) (\<lambda>_.
      Inr \<lparr>va_approval_id = ap_approval_id p, va_operation_type = ap_operation_type p,
           va_operation_id = ap_operation_id p, va_payload_sha256 = ad_payload_sha256 document,
           va_issuer_sequence = ap_issuer_sequence p\<rparr>)))))))))))"

text \<open>What the tables accept: a positive 64-bit sequence, a digest of 64 characters, new keys.\<close>

definition ledger_row_ok :: "int \<Rightarrow> string \<Rightarrow> bool" where
  "ledger_row_ok sequence payload_sha256 \<longleftrightarrow> 1 \<le> sequence \<and> int64 sequence \<and> length payload_sha256 = 64"

definition consume_txn :: "verified_approval \<Rightarrow> approval_payload \<Rightarrow> string \<Rightarrow> int \<Rightarrow> int \<Rightarrow> int \<Rightarrow> unit txn" where
  "consume_txn verified p payload_sha256 valid_from valid_until current db =
     (let row = \<lparr>ac_approval_id = va_approval_id verified, ac_issuer_id = ap_issuer_id p,
                 ac_approval_key_id = ap_approval_key_id p, ac_issuer_sequence = va_issuer_sequence verified,
                 ac_operation_type = ap_operation_type p, ac_operation_id = ap_operation_id p,
                 ac_payload_sha256 = payload_sha256, ac_valid_from = valid_from, ac_valid_until = valid_until,
                 ac_consumed_at = current\<rparr>
      in bindE (ensure (\<not> is_revoked (va_approval_id verified) db) (ApprovalError AE_revoked)) (\<lambda>_.
         bindE (ensure (sequence_is_new (ap_issuer_id p) (va_issuer_sequence verified) db)
                  (ApprovalError AE_sequence)) (\<lambda>_.
         bindE (ensure (find_consumption (va_approval_id verified) db = None
                        \<and> \<not> list_ex (\<lambda>r. ac_issuer_id r = ap_issuer_id p
                                        \<and> ac_issuer_sequence r = va_issuer_sequence verified) (t_consumptions db)
                        \<and> ledger_row_ok (va_issuer_sequence verified) payload_sha256)
                  (ApprovalError AE_replay)) (\<lambda>_.
         Inr ((), db\<lparr>t_consumptions := t_consumptions db @ [row]\<rparr>)))))"

definition verify_and_consume ::
  "(json \<Rightarrow> string) \<Rightarrow> (string \<Rightarrow> string \<Rightarrow> string \<Rightarrow> bool) \<Rightarrow> (approval_document \<Rightarrow> bool) \<Rightarrow> (int \<Rightarrow> int) \<Rightarrow> int \<Rightarrow> int
     \<Rightarrow> pinned_key list \<Rightarrow> approval_document \<Rightarrow> pydatetime option \<Rightarrow> db \<Rightarrow> verified_approval outcome" where
  "verify_and_consume h ed schema tz clk clk2 keys document now db =
     (let p = ad_payload document in
      case bindE (verify_approval h ed schema tz clk keys document now db) (\<lambda>verified.
           bindE (ensure (schema document) (ApprovalError AE_schema)) (\<lambda>_.
           bindE (parse_time (ap_valid_from p)) (\<lambda>valid_from.
           bindE (parse_time (ap_valid_until p)) (\<lambda>valid_until.
           Inr (verified, valid_from, valid_until))))) of
        Inl e \<Rightarrow> (Inl e, db)
      | Inr (verified, valid_from, valid_until) \<Rightarrow>
          (case store_write (consume_txn verified p (ad_payload_sha256 document) valid_from valid_until
                               (current_time tz clk2 now)) db of
             (Inl e, db') \<Rightarrow> (Inl e, db')
           | (Inr _, db') \<Rightarrow> (Inr \<lparr>va_approval_id = va_approval_id verified,
                va_operation_type = va_operation_type verified, va_operation_id = va_operation_id verified,
                va_payload_sha256 = ad_payload_sha256 document,
                va_issuer_sequence = va_issuer_sequence verified\<rparr>, db')))"

definition revocation_txn :: "revocation_payload \<Rightarrow> string \<Rightarrow> int \<Rightarrow> unit txn" where
  "revocation_txn p payload_sha256 revoked_at db =
     bindE (ensure (sequence_is_new (rp_issuer_id p) (rp_issuer_sequence p) db)
              (ApprovalError AE_revocation_sequence)) (\<lambda>_.
     bindE (ensure (int64 (rp_issuer_sequence p)) OverflowError) (\<lambda>_.
     bindE (ensure (\<not> list_ex (\<lambda>r. ar_revocation_id r = rp_revocation_id p
                      \<or> ar_issuer_id r = rp_issuer_id p \<and> ar_issuer_sequence r = rp_issuer_sequence p) (t_revocations db)
                    \<and> ledger_row_ok (rp_issuer_sequence p) payload_sha256) IntegrityError) (\<lambda>_.
     Inr ((), db\<lparr>t_revocations := t_revocations db @
       [\<lparr>ar_revocation_id = rp_revocation_id p, ar_approval_id = rp_approval_id p, ar_issuer_id = rp_issuer_id p,
         ar_approval_key_id = rp_approval_key_id p, ar_issuer_sequence = rp_issuer_sequence p,
         ar_payload_sha256 = payload_sha256, ar_revoked_at = revoked_at\<rparr>]\<rparr>))))"

definition verify_and_record_revocation ::
  "(json \<Rightarrow> string) \<Rightarrow> (string \<Rightarrow> string \<Rightarrow> string \<Rightarrow> bool) \<Rightarrow> (revocation_document \<Rightarrow> bool) \<Rightarrow> pinned_key list
     \<Rightarrow> revocation_document \<Rightarrow> db \<Rightarrow> unit outcome" where
  "verify_and_record_revocation h ed schema keys document db =
     (let p = rd_payload document in
      case bindE (ensure (schema document) (ApprovalError AE_schema)) (\<lambda>_.
           bindE (verify_signature h ed keys (revocation_json p) (rp_approval_key_id p) (rp_issuer_id p)
                    (rd_payload_sha256 document) (rd_signature document) REVOCATION_DOMAIN) (\<lambda>_.
           parse_time (rp_revoked_at p))) of
        Inl e \<Rightarrow> (Inl e, db)
      | Inr revoked_at \<Rightarrow> store_write (revocation_txn p (rd_payload_sha256 document) revoked_at) db)"

section \<open>The ledger as a state machine\<close>

inductive approval_step :: "db \<Rightarrow> db \<Rightarrow> bool" where
  consume: "approval_step d (snd (verify_and_consume h ed schema tz clk clk2 keys document now d))"
| revoke: "approval_step d (snd (verify_and_record_revocation h ed schema2 keys notice d))"

definition no_approvals :: "db \<Rightarrow> bool" where
  "no_approvals d \<longleftrightarrow> t_consumptions d = [] \<and> t_revocations d = []"

lemma fold_max_less: "fold max xs x < s \<longleftrightarrow> (\<forall>y\<in>insert x (set xs). y < (s::int))"
  by (induction xs arbitrary: x) auto

lemma sequence_is_new_iff: "sequence_is_new i s d \<longleftrightarrow> (\<forall>x\<in>set (issuer_sequences i d). x < s)"
  by (cases "issuer_sequences i d") (simp_all add: sequence_is_new_def not_le fold_max_less)

text \<open>A step leaves the ledger alone or appends one row whose sequence is new.\<close>

lemma consume_cases:
  obtains (same) e where "verify_and_consume h ed schema tz clk clk2 keys document now d = (Inl e, d)"
  | (added) v row where "fst (verify_and_consume h ed schema tz clk clk2 keys document now d) = Inr v"
      "snd (verify_and_consume h ed schema tz clk clk2 keys document now d) = d\<lparr>t_consumptions := t_consumptions d @ [row]\<rparr>"
      "ac_approval_id row = ap_approval_id (ad_payload document)" "ac_issuer_id row = ap_issuer_id (ad_payload document)"
      "\<not> is_revoked (ac_approval_id row) d" "find_consumption (ac_approval_id row) d = None"
      "sequence_is_new (ac_issuer_id row) (ac_issuer_sequence row) d"
      "ac_payload_sha256 row = ad_payload_sha256 document"
      "verify_approval h ed schema tz clk keys document now d = Inr v"
proof (cases "verify_approval h ed schema tz clk keys document now d")
  case (Inl e)
  then have "verify_and_consume h ed schema tz clk clk2 keys document now d = (Inl e, d)"
    by (simp add: verify_and_consume_def Let_def)
  then show thesis by (rule same)
next
  case (Inr v)
  then have v: "v = \<lparr>va_approval_id = ap_approval_id (ad_payload document), va_operation_type = ap_operation_type (ad_payload document),
      va_operation_id = ap_operation_id (ad_payload document), va_payload_sha256 = ad_payload_sha256 document,
      va_issuer_sequence = ap_issuer_sequence (ad_payload document)\<rparr>" and schema: "schema document"
    by (auto simp: verify_approval_def Let_def exn_simps)
  from Inr obtain from_t until_t where times: "parse_time (ap_valid_from (ad_payload document)) = Inr from_t"
    "parse_time (ap_valid_until (ad_payload document)) = Inr until_t"
    by (auto simp: verify_approval_def Let_def exn_simps)
  let ?body = "consume_txn v (ad_payload document) (ad_payload_sha256 document) from_t until_t (current_time tz clk2 now)"
  show thesis
  proof (cases "?body d")
    case (Inl e)
    with Inr schema times have "verify_and_consume h ed schema tz clk clk2 keys document now d = (Inl e, d)"
      by (simp add: verify_and_consume_def Let_def store_write_def)
    then show thesis by (rule same)
  next
    case body: (Inr r)
    then obtain row where row: "snd r = d\<lparr>t_consumptions := t_consumptions d @ [row]\<rparr>"
      "ac_approval_id row = va_approval_id v" "ac_issuer_id row = ap_issuer_id (ad_payload document)"
      "ac_issuer_sequence row = va_issuer_sequence v" "ac_payload_sha256 row = ad_payload_sha256 document"
      "\<not> is_revoked (va_approval_id v) d" "find_consumption (va_approval_id v) d = None"
      "sequence_is_new (ap_issuer_id (ad_payload document)) (va_issuer_sequence v) d"
      by (auto simp: consume_txn_def Let_def exn_simps)
    from Inr schema times body have
      "verify_and_consume h ed schema tz clk clk2 keys document now d = (Inr v, snd r)"
      by (cases r) (simp add: verify_and_consume_def Let_def store_write_def v)
    with row Inr show thesis by (intro added) (simp_all add: v)
  qed
qed

lemma revocation_cases:
  obtains (same) e where "verify_and_record_revocation h ed schema keys notice d = (Inl e, d)"
  | (added) row where "verify_and_record_revocation h ed schema keys notice d = (Inr (), d\<lparr>t_revocations := t_revocations d @ [row]\<rparr>)"
      "ar_approval_id row = rp_approval_id (rd_payload notice)"
      "sequence_is_new (ar_issuer_id row) (ar_issuer_sequence row) d"
proof (cases "verify_and_record_revocation h ed schema keys notice d")
  case (Pair r d')
  show thesis
  proof (cases r)
    case (Inl e)
    with Pair have "verify_and_record_revocation h ed schema keys notice d = (Inl e, d)"
      by (auto simp: verify_and_record_revocation_def Let_def store_write_def exn_simps split: sum.splits)
    then show thesis by (rule same)
  next
    case (Inr u)
    with Pair obtain row where "d' = d\<lparr>t_revocations := t_revocations d @ [row]\<rparr>"
      "ar_approval_id row = rp_approval_id (rd_payload notice)"
      "sequence_is_new (ar_issuer_id row) (ar_issuer_sequence row) d"
      by (auto simp: verify_and_record_revocation_def Let_def store_write_def revocation_txn_def exn_simps split: sum.splits)
    with Pair Inr show thesis by (intro added) simp_all
  qed
qed

text \<open>Both tables only grow.\<close>

lemma approval_step_grows:
  assumes "approval_step d d'"
  shows "set (t_consumptions d) \<subseteq> set (t_consumptions d') \<and> set (t_revocations d) \<subseteq> set (t_revocations d')"
  using assms
proof cases
  case (consume h ed schema tz clk clk2 keys document now)
  show ?thesis
    by (rule consume_cases [of h ed schema tz clk clk2 keys document now d]) (auto simp: consume)
next
  case (revoke h ed schema keys notice)
  show ?thesis
    by (rule revocation_cases [of h ed schema keys notice d]) (auto simp: revoke)
qed

lemma approval_run_grows:
  "approval_step\<^sup>*\<^sup>* d d' \<Longrightarrow> set (t_consumptions d) \<subseteq> set (t_consumptions d') \<and> set (t_revocations d) \<subseteq> set (t_revocations d')"
  by (induction rule: rtranclp_induct) (use approval_step_grows in blast)+

definition spent :: "string \<Rightarrow> db \<Rightarrow> bool" where
  "spent i d \<longleftrightarrow> find_consumption i d \<noteq> None \<or> is_revoked i d"

lemma spent_iff: "spent i d \<longleftrightarrow> (\<exists>r\<in>set (t_consumptions d). ac_approval_id r = i) \<or> (\<exists>r\<in>set (t_revocations d). ar_approval_id r = i)"
  by (auto simp: spent_def find_consumption_def is_revoked_def find_None_iff list_ex_iff)

text \<open>The invariant: an approval is consumed once, and the sequence of an issuer is strictly increasing.\<close>

definition approval_inv :: "db \<Rightarrow> bool" where
  "approval_inv d \<longleftrightarrow> distinct (map ac_approval_id (t_consumptions d))
     \<and> (\<forall>i. distinct (issuer_sequences i d)
          \<and> sorted_wrt (<) (map ac_issuer_sequence (filter (\<lambda>r. ac_issuer_id r = i) (t_consumptions d)))
          \<and> sorted_wrt (<) (map ar_issuer_sequence (filter (\<lambda>r. ar_issuer_id r = i) (t_revocations d))))"

lemma consume_row_inv:
  assumes "approval_inv d" "find_consumption (ac_approval_id row) d = None"
    and "sequence_is_new (ac_issuer_id row) (ac_issuer_sequence row) d"
  shows "approval_inv (d\<lparr>t_consumptions := t_consumptions d @ [row]\<rparr>)"
  unfolding approval_inv_def
proof (intro conjI allI)
  show "distinct (map ac_approval_id (t_consumptions (d\<lparr>t_consumptions := t_consumptions d @ [row]\<rparr>)))"
    using assms(1,2) by (auto simp: approval_inv_def find_consumption_def find_None_iff)
  fix i
  have old: "distinct (issuer_sequences i d)"
    "sorted_wrt (<) (map ac_issuer_sequence (filter (\<lambda>r. ac_issuer_id r = i) (t_consumptions d)))"
    "sorted_wrt (<) (map ar_issuer_sequence (filter (\<lambda>r. ar_issuer_id r = i) (t_revocations d)))"
    using assms(1) by (simp_all add: approval_inv_def)
  have new: "\<forall>x \<in> set (issuer_sequences (ac_issuer_id row) d). x < ac_issuer_sequence row"
    using assms(3) by (simp add: sequence_is_new_iff)
  show "distinct (issuer_sequences i (d\<lparr>t_consumptions := t_consumptions d @ [row]\<rparr>))"
    using old(1) new by (auto simp: issuer_sequences_def)
  show "sorted_wrt (<) (map ac_issuer_sequence (filter (\<lambda>r. ac_issuer_id r = i) (t_consumptions (d\<lparr>t_consumptions := t_consumptions d @ [row]\<rparr>))))"
    using old(2) new by (auto simp: issuer_sequences_def sorted_wrt_append)
  show "sorted_wrt (<) (map ar_issuer_sequence (filter (\<lambda>r. ar_issuer_id r = i) (t_revocations (d\<lparr>t_consumptions := t_consumptions d @ [row]\<rparr>))))"
    using old(3) by simp
qed

lemma revocation_row_inv:
  assumes "approval_inv d" "sequence_is_new (ar_issuer_id row) (ar_issuer_sequence row) d"
  shows "approval_inv (d\<lparr>t_revocations := t_revocations d @ [row]\<rparr>)"
  using assms by (fastforce simp: approval_inv_def sequence_is_new_iff issuer_sequences_def sorted_wrt_append)

interpretation approvals: transition_system no_approvals approval_step approval_inv
proof
  show "approval_inv d" if "no_approvals d" for d
    using that by (simp add: no_approvals_def approval_inv_def issuer_sequences_def)
  show "approval_inv d'" if inv: "approval_inv d" and step: "approval_step d d'" for d d'
    using step
  proof cases
    case (consume h ed schema tz clk clk2 keys document now)
    show ?thesis
      by (rule consume_cases [of h ed schema tz clk clk2 keys document now d]) (auto simp: consume inv intro: consume_row_inv)
  next
    case (revoke h ed schema keys notice)
    show ?thesis
      by (rule revocation_cases [of h ed schema keys notice d]) (auto simp: revoke inv intro: revocation_row_inv)
  qed
qed

section \<open>Properties\<close>

text \<open>
  C26: anti-replay. An approval that has been consumed or revoked is refused ever after, whatever else
  the ledger records in between and whichever document carries its identifier, and the refusal changes
  nothing; and in every reachable ledger no identifier was consumed twice, and the sequence numbers of
  each issuer are pairwise distinct across both tables and strictly increase in the order of recording.
\<close>

theorem approval_single_use:
  assumes "no_approvals d0" and "approval_step\<^sup>*\<^sup>* d0 d" and "spent (ap_approval_id (ad_payload document)) d"
    and "approval_step\<^sup>*\<^sup>* d d'"
  shows "(\<exists>e. verify_and_consume h ed schema tz clk clk2 keys document now d' = (Inl e, d'))
    \<and> distinct (map ac_approval_id (t_consumptions d'))
    \<and> (\<forall>i. distinct (issuer_sequences i d')
          \<and> sorted_wrt (<) (map ac_issuer_sequence (filter (\<lambda>r. ac_issuer_id r = i) (t_consumptions d')))
          \<and> sorted_wrt (<) (map ar_issuer_sequence (filter (\<lambda>r. ar_issuer_id r = i) (t_revocations d'))))"
proof -
  have "spent (ap_approval_id (ad_payload document)) d'"
    using assms(3) approval_run_grows [OF assms(4)] by (auto simp: spent_iff)
  then have "\<exists>e. verify_and_consume h ed schema tz clk clk2 keys document now d' = (Inl e, d')"
    by (cases rule: consume_cases [of h ed schema tz clk clk2 keys document now d']) (auto simp: spent_def)
  moreover have "approval_inv d'" using approvals.reachable_inv [OF assms(1) rtranclp_trans [OF assms(2,4)]] .
  ultimately show ?thesis by (simp add: approval_inv_def)
qed

text \<open>An approval signature is no revocation signature: the two messages differ whatever the digests.\<close>

lemma domains_separate: "signature_message APPROVAL_DOMAIN x = Some m \<Longrightarrow> signature_message REVOCATION_DOMAIN y \<noteq> Some m"
  by (auto simp: signature_message_def APPROVAL_DOMAIN_def REVOCATION_DOMAIN_def)

text \<open>
  C27: authenticity. When an approval is consumed, a pinned key of its issuer verified the Ed25519
  signature over the approval domain and the digest of the complete payload, the moment of the check
  lies in the validity window, and the ledger gains exactly one row binding the identifier to that
  digest; the signed message is not the message of any revocation.
\<close>

theorem consumed_approval_is_authentic:
  assumes "verify_and_consume h ed schema tz clk clk2 keys document now d = (Inr v, d')"
  shows "\<exists>key m pub sig t0 t1 t2 row. key \<in> set keys
    \<and> pk_approval_key_id key = ap_approval_key_id (ad_payload document) \<and> pk_issuer_id key = ap_issuer_id (ad_payload document)
    \<and> ad_payload_sha256 document = h (approval_json (ad_payload document))
    \<and> signature_message APPROVAL_DOMAIN (ad_payload_sha256 document) = Some m
    \<and> fromhex (pk_public_key_hex key) = Some pub \<and> fromhex (ad_signature document) = Some sig \<and> ed pub sig m
    \<and> (\<forall>digest. signature_message REVOCATION_DOMAIN digest \<noteq> Some m)
    \<and> ap_issued_at (ad_payload document) = Aware t0 \<and> ap_valid_from (ad_payload document) = Aware t1
    \<and> ap_valid_until (ad_payload document) = Aware t2
    \<and> t0 \<le> t1 \<and> t1 \<le> current_time tz clk now \<and> current_time tz clk now < t2
    \<and> d' = d\<lparr>t_consumptions := t_consumptions d @ [row]\<rparr>
    \<and> ac_approval_id row = ap_approval_id (ad_payload document) \<and> ac_payload_sha256 row = ad_payload_sha256 document"
proof (rule consume_cases [of h ed schema tz clk clk2 keys document now d])
  show ?thesis if "verify_and_consume h ed schema tz clk clk2 keys document now d = (Inl e, d)" for e
    using that assms by simp
next
  fix w row
  assume row: "snd (verify_and_consume h ed schema tz clk clk2 keys document now d) = d\<lparr>t_consumptions := t_consumptions d @ [row]\<rparr>"
      "ac_approval_id row = ap_approval_id (ad_payload document)" "ac_payload_sha256 row = ad_payload_sha256 document"
    and ok: "verify_approval h ed schema tz clk keys document now d = Inr w"
  let ?p = "ad_payload document"
  from ok obtain key t0 t1 t2 where sig: "verify_signature h ed keys (approval_json ?p) (ap_approval_key_id ?p) (ap_issuer_id ?p)
        (ad_payload_sha256 document) (ad_signature document) APPROVAL_DOMAIN = Inr key"
    and t: "parse_time (ap_issued_at ?p) = Inr t0" "parse_time (ap_valid_from ?p) = Inr t1" "parse_time (ap_valid_until ?p) = Inr t2"
      "t0 \<le> t1" "t1 \<le> current_time tz clk now" "current_time tz clk now < t2"
    by (auto simp: verify_approval_def Let_def exn_simps)
  from t(1-3) have aware: "ap_issued_at ?p = Aware t0" "ap_valid_from ?p = Aware t1" "ap_valid_until ?p = Aware t2"
    by (auto simp: parse_time_def split: pydatetime.splits)
  from sig have digest: "ad_payload_sha256 document = h (approval_json ?p)"
    and key: "pinned keys (ap_approval_key_id ?p) = Some key" "pk_issuer_id key = ap_issuer_id ?p"
    and valid: "signature_valid ed (pk_public_key_hex key) (ad_signature document) APPROVAL_DOMAIN (ad_payload_sha256 document)"
    by (auto simp: verify_signature_def canonical_payload_digest_def exn_simps)
  from key(1) have mem: "key \<in> set keys" "pk_approval_key_id key = ap_approval_key_id ?p"
    by (auto simp: pinned_def dest: find_SomeD)
  from valid obtain pub sg m where "fromhex (pk_public_key_hex key) = Some pub" "fromhex (ad_signature document) = Some sg"
    "signature_message APPROVAL_DOMAIN (ad_payload_sha256 document) = Some m" "ed pub sg m"
    by (auto simp: signature_valid_def split: option.splits)
  with domains_separate row assms mem key(2) digest aware t(4-6) show ?thesis by auto
qed

definition demo_document :: approval_document where
  "demo_document = \<lparr>ad_payload = \<lparr>ap_approval_id = ''pilot-1'', ap_issuer_id = ''ops'', ap_approval_key_id = ''k'',
     ap_issuer_sequence = 1, ap_operation_type = ''pilot'', ap_operation_id = ''op'', ap_issued_at = Aware 0,
     ap_valid_from = Aware 10, ap_valid_until = Aware 20, ap_other = []\<rparr>,
     ad_payload_sha256 = replicate 64 CHR ''0'', ad_signature = ''00''\<rparr>"

definition demo_keys :: "pinned_key list" where
  "demo_keys = [\<lparr>pk_issuer_id = ''ops'', pk_approval_key_id = ''k'', pk_public_key_hex = ''ab''\<rparr>]"

definition demo_consume :: "db \<Rightarrow> verified_approval outcome" where
  "demo_consume = verify_and_consume (\<lambda>_. replicate 64 CHR ''0'') (\<lambda>key _ _. key = [CHR 0xAB]) (\<lambda>_. True) id 15 15
     demo_keys demo_document None"

lemma demo_consumed: "fst (demo_consume empty_db) = Inr \<lparr>va_approval_id = ''pilot-1'', va_operation_type = ''pilot'',
     va_operation_id = ''op'', va_payload_sha256 = replicate 64 CHR ''0'', va_issuer_sequence = 1\<rparr>"
  by code_simp

theorem consumed_approval_is_authentic_witness:
  "\<exists>row. snd (demo_consume empty_db) = empty_db\<lparr>t_consumptions := [row]\<rparr> \<and> ac_approval_id row = ''pilot-1''"
proof -
  have empty: "t_consumptions empty_db = []" by (simp add: empty_db_def)
  obtain v where "demo_consume empty_db = (Inr v, snd (demo_consume empty_db))"
    using demo_consumed by (metis prod.collapse)
  from consumed_approval_is_authentic [OF this [unfolded demo_consume_def]] show ?thesis
    unfolding demo_consume_def [symmetric] empty by (auto simp: demo_document_def)
qed

theorem approval_single_use_witness:
  "\<exists>e. demo_consume (snd (demo_consume empty_db)) = (Inl e, snd (demo_consume empty_db))"
proof -
  have "no_approvals empty_db" by (simp add: no_approvals_def empty_db_def)
  moreover have "approval_step\<^sup>*\<^sup>* empty_db (snd (demo_consume empty_db))"
    unfolding demo_consume_def by (rule r_into_rtranclp) (rule approval_step.consume)
  moreover have "spent (ap_approval_id (ad_payload demo_document)) (snd (demo_consume empty_db))" by code_simp
  ultimately show ?thesis unfolding demo_consume_def by (blast dest: approval_single_use)
qed

end
