(* ===== verification/Xir_Signer.thy ===== *)
theory Xir_Signer
  imports Xir_Approvals
begin

text \<open>
  \<^verbatim>\<open>execute/signer.py\<close>: the boundary to the external signer and the private spool of signed
  transactions. The spool is the tree of files under its root, a list from relative paths to contents
  (the newest entry of a path counts); directories, permissions and symbolic links are not represented.
  \<open>sha\<close> is \<^verbatim>\<open>hashlib.sha256(..).hexdigest()\<close>, \<open>h\<close> the digest of a canonical JSON text,
  \<open>crash\<close> the crash injector, which raises at the points it selects. A rename is atomic, so a
  destination file is absent or complete, and an exception unlinks the temporary file.
\<close>

section \<open>Requests and results\<close>

record signer_request =
  sr_network_id :: string
  sr_chain_id :: int
  sr_signer_id :: string
  sr_intent_id :: string
  sr_nonce :: int
  sr_destination :: "string option"
  sr_value_wei :: int
  sr_calldata_sha256 :: string
  sr_calldata_length :: int
  sr_fee_limit_wei :: int
  sr_role :: string
  sr_config_sha256 :: string
  sr_code_sha256 :: string
  sr_gas_limit :: int
  sr_max_fee_per_gas_wei :: int
  sr_max_priority_fee_per_gas_wei :: int
  sr_calldata_hex :: string
  sr_unsigned_transaction_sha256 :: string

record signed_transaction =
  st_operation_id :: string
  st_transaction_hash :: string
  st_signed_bytes :: string

record spool_reference =
  sp_operation_id :: string
  sp_relative_path :: string
  sp_signed_sha256 :: string
  sp_signed_length :: int

type_synonym signer = "string \<Rightarrow> signer_request \<Rightarrow> exn + signed_transaction"

definition request_json :: "signer_request \<Rightarrow> json" where
  "request_json r = JObj
     [(''network_id'', JStr (sr_network_id r)), (''chain_id'', JInt (sr_chain_id r)),
      (''signer_id'', JStr (sr_signer_id r)), (''intent_id'', JStr (sr_intent_id r)),
      (''nonce'', JInt (sr_nonce r)),
      (''destination'', case sr_destination r of None \<Rightarrow> JNull | Some a \<Rightarrow> JStr a),
      (''value_wei'', JInt (sr_value_wei r)), (''calldata_sha256'', JStr (sr_calldata_sha256 r)),
      (''calldata_length'', JInt (sr_calldata_length r)), (''fee_limit_wei'', JInt (sr_fee_limit_wei r)),
      (''role'', JStr (sr_role r)), (''config_sha256'', JStr (sr_config_sha256 r)),
      (''code_sha256'', JStr (sr_code_sha256 r)), (''gas_limit'', JInt (sr_gas_limit r)),
      (''max_fee_per_gas_wei'', JInt (sr_max_fee_per_gas_wei r)),
      (''max_priority_fee_per_gas_wei'', JInt (sr_max_priority_fee_per_gas_wei r)),
      (''calldata_hex'', JStr (sr_calldata_hex r)),
      (''unsigned_transaction_sha256'', JStr (sr_unsigned_transaction_sha256 r))]"

definition signer_operation_id :: "(json \<Rightarrow> string) \<Rightarrow> signer_request \<Rightarrow> string" where
  "signer_operation_id h request =
     ''signop_'' @ h (JObj [(''domain'', JStr ''xir-testnet-lab-signer-operation-v1''),
                            (''request'', request_json request)])"

section \<open>The private spool\<close>

type_synonym spool = "(string \<times> string) list"

definition file_exists :: "spool \<Rightarrow> string \<Rightarrow> bool" where
  "file_exists sp path \<longleftrightarrow> map_of sp path \<noteq> None"

definition relative_path :: "(string \<Rightarrow> string) \<Rightarrow> string \<Rightarrow> string" where
  "relative_path sha operation_id =
     ''signed/'' @ take 2 (sha operation_id) @ ''/'' @ operation_id @ ''.bin''"

definition hit :: "(crash_point \<Rightarrow> bool) \<Rightarrow> crash_point \<Rightarrow> exn + unit" where
  "hit crash point = ensure (\<not> crash point) (InjectedCrash point)"

definition spool_persist ::
  "(string \<Rightarrow> string) \<Rightarrow> (crash_point \<Rightarrow> bool) \<Rightarrow> signed_transaction \<Rightarrow> spool \<Rightarrow> (exn + spool_reference) \<times> spool" where
  "spool_persist sha crash t sp =
     (let signed_sha256 = sha (st_signed_bytes t); path = relative_path sha (st_operation_id t);
          reference = \<lparr>sp_operation_id = st_operation_id t, sp_relative_path = path,
                       sp_signed_sha256 = signed_sha256, sp_signed_length = int (length (st_signed_bytes t))\<rparr>;
          sp' = (path, st_signed_bytes t) # sp
      in if st_operation_id t = [] \<or> st_signed_bytes t = [] then (Inl (SignerError SG_empty), sp)
         else case map_of sp path of
           Some existing \<Rightarrow>
             if sha existing \<noteq> signed_sha256 then (Inl (SignerError SG_different_bytes), sp) else (Inr reference, sp)
         | None \<Rightarrow>
             (case bindE (hit crash CP_during_spool_temporary_write) (\<lambda>_. hit crash CP_after_spool_file_fsync) of
                Inl e \<Rightarrow> (Inl e, sp)
              | Inr _ \<Rightarrow>
                  (bindE (hit crash CP_after_spool_rename_before_directory_fsync) (\<lambda>_.
                   bindE (hit crash CP_after_spool_directory_fsync_before_database_reference) (\<lambda>_.
                   Inr reference)), sp')))"

text \<open>Resolving a path below the root: \<open>None\<close> when it leaves the root.\<close>

fun split_path :: "string \<Rightarrow> string list" where
  "split_path [] = [[]]"
| "split_path (c # cs) =
     (if c = CHR ''/'' then [] # split_path cs
      else case split_path cs of [] \<Rightarrow> [[c]] | p # ps \<Rightarrow> (c # p) # ps)"

fun join_path :: "string list \<Rightarrow> string" where
  "join_path [] = []"
| "join_path [p] = p"
| "join_path (p # q # ps) = p @ CHR ''/'' # join_path (q # ps)"

fun resolve_parts :: "string list \<Rightarrow> string list \<Rightarrow> string list option" where
  "resolve_parts done [] = Some (rev done)"
| "resolve_parts done (p # ps) =
     (if p = [] \<or> p = ''.'' then resolve_parts done ps
      else if p = ''..'' then (case done of [] \<Rightarrow> None | _ # up \<Rightarrow> resolve_parts up ps)
      else resolve_parts (p # done) ps)"

definition resolve :: "string \<Rightarrow> string option" where
  "resolve path =
     (if path \<noteq> [] \<and> hd path = CHR ''/'' then None
      else map_option join_path (resolve_parts [] (split_path path)))"

definition spool_load :: "(string \<Rightarrow> string) \<Rightarrow> spool_reference \<Rightarrow> spool \<Rightarrow> exn + string" where
  "spool_load sha reference sp =
     bindE (require (resolve (sp_relative_path reference)) (SignerError SG_escapes)) (\<lambda>candidate.
     bindE (require (map_of sp candidate) OSError) (\<lambda>data.
     bindE (ensure (\<not> (int (length data) \<noteq> sp_signed_length reference \<or> sha data \<noteq> sp_signed_sha256 reference))
              (SignerError SG_integrity)) (\<lambda>_.
     Inr data)))"

definition spool_destroy :: "(string \<Rightarrow> string) \<Rightarrow> spool_reference \<Rightarrow> spool \<Rightarrow> (exn + unit) \<times> spool" where
  "spool_destroy sha reference sp =
     (case spool_load sha reference sp of
        Inl e \<Rightarrow> (Inl e, sp)
      | Inr _ \<Rightarrow> (Inr (), filter (\<lambda>f. Some (fst f) \<noteq> resolve (sp_relative_path reference)) sp))"

text \<open>
  \<^verbatim>\<open>sorted(candidates)\<close> compares paths part by part, which is the order of the texts with the
  separator below every other character.
\<close>

definition path_key :: "string \<Rightarrow> string" where
  "path_key = map (\<lambda>c. if c = CHR ''/'' then CHR 0x00 else c)"

definition base_name :: "string \<Rightarrow> string" where
  "base_name path = last (split_path path)"

definition signed_candidates :: "spool \<Rightarrow> string list" where
  "signed_candidates sp = sort_by_key path_key (filter (\<lambda>p. take 7 p = ''signed/'') (remdups (map fst sp)))"

definition move_file :: "string \<Rightarrow> string \<Rightarrow> spool \<Rightarrow> spool" where
  "move_file source destination sp =
     (case map_of sp source of None \<Rightarrow> sp
      | Some data \<Rightarrow> (destination, data) # filter (\<lambda>f. fst f \<noteq> source) sp)"

definition quarantine_name :: "(string \<Rightarrow> string) \<Rightarrow> string \<Rightarrow> string" where
  "quarantine_name sha relative = ''quarantine/'' @ sha relative @ ''-'' @ base_name relative"

definition quarantine_orphans :: "(string \<Rightarrow> string) \<Rightarrow> string list \<Rightarrow> spool \<Rightarrow> string list \<times> spool" where
  "quarantine_orphans sha referenced sp =
     (let orphans = filter (\<lambda>p. p \<notin> set referenced) (signed_candidates sp)
      in (orphans, fold (\<lambda>p. move_file p (quarantine_name sha p)) orphans sp))"

section \<open>The coordinator\<close>

definition obtain_signed :: "(json \<Rightarrow> string) \<Rightarrow> signer \<Rightarrow> signer_request \<Rightarrow> exn + signed_transaction" where
  "obtain_signed h ext request =
     (let operation_id = signer_operation_id h request in
      bindE (ext operation_id request) (\<lambda>signed.
      bindE (ensure (st_operation_id signed = operation_id) (SignerError SG_different_operation)) (\<lambda>_.
      Inr signed)))"

definition sign_to_spool ::
  "(json \<Rightarrow> string) \<Rightarrow> (string \<Rightarrow> string) \<Rightarrow> (crash_point \<Rightarrow> bool) \<Rightarrow> signer \<Rightarrow> signer_request \<Rightarrow> spool
     \<Rightarrow> (exn + spool_reference \<times> string) \<times> spool" where
  "sign_to_spool h sha crash ext request sp =
     (case obtain_signed h ext request of
        Inl e \<Rightarrow> (Inl e, sp)
      | Inr signed \<Rightarrow>
          (case spool_persist sha crash signed sp of
             (Inl e, sp') \<Rightarrow> (Inl e, sp')
           | (Inr reference, sp') \<Rightarrow> (Inr (reference, st_transaction_hash signed), sp')))"

end
