(* ===== verification/Xir_Submission.thy ===== *)
theory Xir_Submission
  imports Xir_Signer Xir_Actions
begin

text \<open>
  \<^verbatim>\<open>execute/submission.py\<close>: intents are durable before the signer is called, and the
  reference to the signed bytes is durable before they are broadcast. The state of a call is the world:
  the database, the private spool, and what the two external parties have seen so far, the operations
  the signer was asked for and the byte strings given to the broadcaster. A call is a sequence of
  transactions, file operations and calls of those parties; an exception, a crash of the injector
  included, leaves the world as the last completed step left it. \<open>ext\<close> is the external signer,
  \<open>bc\<close> the broadcaster.
\<close>

section \<open>Arguments and results\<close>

record intent_preparation =
  ip_transaction_id :: string
  ip_stage_id :: string
  ip_lineage_id :: string
  ip_reservation_id :: string
  ip_reservation_stage_key :: string
  ip_approval_id :: string
  ip_approval_payload_sha256 :: string
  ip_signer_identity_sha256 :: string
  ip_network_identity_sha256 :: string
  ip_quote_sha256 :: string
  ip_quote_valid_until :: pydatetime
  ip_simulation_sha256 :: string
  ip_simulation_valid_until :: pydatetime
  ip_payload_sha256 :: string
  ip_requested_wei :: int
  ip_request :: signer_request
  ip_is_source_stage :: bool
  ip_replaces_transaction_id :: "string option"

record gate_evidence =
  ge_approval_id :: string
  ge_approval_payload_sha256 :: string
  ge_signer_id :: string
  ge_signer_identity_sha256 :: string
  ge_network_identity_sha256 :: string
  ge_quote_sha256 :: string
  ge_observed_nonce :: int
  ge_checked_at :: pydatetime
  ge_simulation_sha256 :: string
  ge_simulation_valid_until :: pydatetime

record broadcast_result =
  br_accepted :: bool
  br_provider_reference :: "string option"

record recovery_report =
  rr_quarantined_orphans :: "string list"
  rr_corrupt_references :: "string list"
  rr_recoverable_pending :: "string list"

type_synonym broadcaster = "string \<Rightarrow> string \<Rightarrow> exn + broadcast_result"

section \<open>The world and its actions\<close>

record world =
  wd_db :: db
  wd_spool :: spool
  wd_signed :: "string list"
  wd_sent :: "(string \<times> string) list"

type_synonym 'a act = "(world, 'a) action"

definition act_read :: "(db \<Rightarrow> exn + 'a) \<Rightarrow> 'a act" where
  "act_read f w = (f (wd_db w), w)"

definition act_write :: "'a txn \<Rightarrow> 'a act" where
  "act_write body w = (case store_write body (wd_db w) of (r, d) \<Rightarrow> (r, w\<lparr>wd_db := d\<rparr>))"

definition act_spool :: "(spool \<Rightarrow> (exn + 'a) \<times> spool) \<Rightarrow> 'a act" where
  "act_spool f w = (case f (wd_spool w) of (r, sp) \<Rightarrow> (r, w\<lparr>wd_spool := sp\<rparr>))"

definition act_sign :: "(json \<Rightarrow> string) \<Rightarrow> signer \<Rightarrow> signer_request \<Rightarrow> signed_transaction act" where
  "act_sign h ext request w =
     (obtain_signed h ext request, w\<lparr>wd_signed := wd_signed w @ [signer_operation_id h request]\<rparr>)"

definition act_broadcast :: "broadcaster \<Rightarrow> string \<Rightarrow> string \<Rightarrow> broadcast_result act" where
  "act_broadcast bc signed_bytes expected_hash w =
     (bc signed_bytes expected_hash, w\<lparr>wd_sent := wd_sent w @ [(signed_bytes, expected_hash)]\<rparr>)"

section \<open>Helpers\<close>

definition utc :: "pydatetime \<Rightarrow> exn + int" where
  "utc value = (case value of Aware t \<Rightarrow> Inr t | Naive _ \<Rightarrow> Inl (SubmissionError SU_naive_time))"

definition time_of :: "int \<Rightarrow> pydatetime option \<Rightarrow> exn + int" where
  "time_of clk value = utc_of (SubmissionError SU_naive_time) clk value"

definition digest_check :: "string \<Rightarrow> exn + unit" where
  "digest_check value = ensure (is_sha256_hex value) (SubmissionError SU_digest_format)"

text \<open>A transaction joined with its intent.\<close>

definition transaction_from :: "string \<Rightarrow> db \<Rightarrow> exn + transaction_row \<times> intent_row" where
  "transaction_from transaction_id db =
     require (Option.bind (find_transaction transaction_id db) (\<lambda>t.
              Option.bind (find_intent (tx_intent_id t) db) (\<lambda>i. Some (t, i))))
       (SubmissionError SU_unknown_transaction)"

definition reference_of :: "transaction_row \<times> intent_row \<Rightarrow> exn + spool_reference" where
  "reference_of = (\<lambda>(t, i).
     case (tx_spool_relative_path t, tx_signed_sha256 t, tx_signed_length t) of
       (Some path, Some digest, Some n) \<Rightarrow>
         Inr \<lparr>sp_operation_id = it_signer_operation_id i, sp_relative_path = path,
              sp_signed_sha256 = digest, sp_signed_length = n\<rparr>
     | _ \<Rightarrow> Inl (SubmissionError SU_incomplete_metadata))"

definition update_transaction :: "string \<Rightarrow> (transaction_row \<Rightarrow> transaction_row) \<Rightarrow> db \<Rightarrow> db" where
  "update_transaction i f db = db\<lparr>t_transactions := update_where (\<lambda>r. tx_transaction_id r = i) f (t_transactions db)\<rparr>"

definition set_intent_state :: "string \<Rightarrow> tx_state \<Rightarrow> db \<Rightarrow> db" where
  "set_intent_state i s db =
     db\<lparr>t_intents := update_where (\<lambda>r. it_intent_id r = i) (it_state_update (\<lambda>_. s)) (t_intents db)\<rparr>"

definition json_text :: "string option \<Rightarrow> json" where
  "json_text x = (case x of None \<Rightarrow> JNull | Some s \<Rightarrow> JStr s)"

section \<open>Preparing an intent\<close>

text \<open>
  The join of stage, sub-reservation, nonce lease and budget. Every table is joined on a unique key, so
  at most one row results.
\<close>

definition intent_coordinates ::
  "intent_preparation \<Rightarrow> db \<Rightarrow> (stage_row \<times> sub_row \<times> nonce_lease_row \<times> budget_row) option" where
  "intent_coordinates p db =
     Option.bind (find_stage (ip_stage_id p) db) (\<lambda>g.
     Option.bind (find (\<lambda>s. sb_attempt_id s = sg_attempt_id g \<and> sb_reservation_id s = ip_reservation_id p
                          \<and> sb_stage_key s = ip_reservation_stage_key p) (t_subs db)) (\<lambda>s.
     Option.bind (find (\<lambda>n. nl_lineage_id n = ip_lineage_id p \<and> nl_reservation_id n = sb_reservation_id s
                          \<and> nl_stage_key n = sb_stage_key s) (t_nonce_leases db)) (\<lambda>n.
     Option.bind (find (\<lambda>b. bg_reservation_id b = sb_reservation_id s \<and> bg_chain_id b = sb_chain_id s)
                    (t_budgets db)) (\<lambda>b.
     Some (g, s, n, b)))))"

definition prior_coordinates :: "string \<Rightarrow> db \<Rightarrow> (int \<times> int \<times> string) option" where
  "prior_coordinates transaction_id db =
     Option.bind (find_transaction transaction_id db) (\<lambda>t.
     Option.bind (find_intent (tx_intent_id t) db) (\<lambda>i.
     Option.bind (find_stage (it_stage_id i) db) (\<lambda>g.
     Some (tx_chain_id t, tx_nonce t, sg_attempt_id g))))"

definition check_replacement :: "intent_preparation \<Rightarrow> string \<Rightarrow> string option \<Rightarrow> db \<Rightarrow> exn + unit" where
  "check_replacement p attempt_id bound_intent db =
     (let request = ip_request p in
      if bound_intent = None \<or> bound_intent = Some (sr_intent_id request) then Inr ()
      else bindE (require (ip_replaces_transaction_id p) (SubmissionError SU_nonce_bound)) (\<lambda>replaced.
           ensure (prior_coordinates replaced db = Some (sr_chain_id request, sr_nonce request, attempt_id))
             (SubmissionError SU_replacement_changed)))"

definition new_intent :: "string \<Rightarrow> int \<Rightarrow> int \<Rightarrow> int \<Rightarrow> intent_preparation \<Rightarrow> intent_row" where
  "new_intent operation_id valid_until simulation_valid_until created_at p =
     \<lparr>it_intent_id = sr_intent_id (ip_request p), it_stage_id = ip_stage_id p, it_signer_operation_id = operation_id,
      it_chain_id = sr_chain_id (ip_request p), it_nonce = sr_nonce (ip_request p), it_state = T_prepared,
      it_payload_sha256 = ip_payload_sha256 p, it_approval_id = Some (ip_approval_id p),
      it_approval_payload_sha256 = Some (ip_approval_payload_sha256 p),
      it_signer_id = Some (sr_signer_id (ip_request p)),
      it_signer_identity_sha256 = Some (ip_signer_identity_sha256 p),
      it_network_identity_sha256 = Some (ip_network_identity_sha256 p), it_quote_sha256 = Some (ip_quote_sha256 p),
      it_quote_valid_until = Some valid_until, it_simulation_sha256 = Some (ip_simulation_sha256 p),
      it_simulation_valid_until = Some simulation_valid_until, it_reservation_id = Some (ip_reservation_id p),
      it_reservation_stage_key = Some (ip_reservation_stage_key p), it_requested_wei = Some (ip_requested_wei p),
      it_created_at = created_at\<rparr>"

definition new_transaction :: "intent_preparation \<Rightarrow> transaction_row" where
  "new_transaction p =
     \<lparr>tx_transaction_id = ip_transaction_id p, tx_intent_id = sr_intent_id (ip_request p),
      tx_chain_id = sr_chain_id (ip_request p), tx_nonce = sr_nonce (ip_request p), tx_transaction_hash = None,
      tx_replaces_transaction_id = ip_replaces_transaction_id p, tx_state = T_prepared, tx_signed_sha256 = None,
      tx_signed_length = None, tx_spool_relative_path = None, tx_signer_returned_at = None,
      tx_signed_hash_persisted_at = None, tx_broadcast_started_at = None, tx_submitted_at = None,
      tx_included_at = None, tx_finalized_at = None\<rparr>"

definition bind_nonce_intent :: "string \<Rightarrow> string \<Rightarrow> db \<Rightarrow> db" where
  "bind_nonce_intent lineage_id intent_id db =
     db\<lparr>t_nonce_leases := update_where (\<lambda>n. nl_lineage_id n = lineage_id
            \<and> (nl_intent_id n = None \<or> nl_intent_id n = Some intent_id))
          (nl_intent_id_update (\<lambda>_. Some intent_id)) (t_nonce_leases db)\<rparr>"

text \<open>The body of the transaction; the flag tells whether a new intent was written.\<close>

definition prepare_intent_txn ::
  "(crash_point \<Rightarrow> bool) \<Rightarrow> int \<Rightarrow> string \<Rightarrow> int \<Rightarrow> int \<Rightarrow> int \<Rightarrow> intent_preparation \<Rightarrow> (string \<times> bool) txn" where
  "prepare_intent_txn crash clk operation_id valid_until simulation_valid_until created_at p db =
     (let request = ip_request p in
      case find_intent (sr_intent_id request) db of
        Some existing \<Rightarrow>
          if it_signer_operation_id existing = operation_id then Inr ((operation_id, False), db)
          else Inl (SubmissionError SU_intent_bound)
      | None \<Rightarrow>
          bindE (require (intent_coordinates p db) (SubmissionError SU_coordinates)) (\<lambda>(g, s, n, b).
          bindE (ensure (\<not> (sb_chain_id s \<noteq> sr_chain_id request \<or> nl_nonce n \<noteq> sr_nonce request
                            \<or> nl_signer_id n \<noteq> sr_signer_id request)) (SubmissionError SU_request_changed)) (\<lambda>_.
          bindE (ensure (\<not> (\<not> bg_source_in_flight b \<or> \<not> nl_locked n \<or> nl_state n = N_finalized \<or> nl_state n = N_released))
                   (SubmissionError SU_lineage_inactive)) (\<lambda>_.
          bindE (check_replacement p (sg_attempt_id g) (nl_intent_id n) db) (\<lambda>_.
          bindE (ensure (\<not> ip_requested_wei p > sb_allocated_wei s) (SubmissionError SU_over_subreservation)) (\<lambda>_.
          bindE (ensure (case find_consumption (ip_approval_id p) db of None \<Rightarrow> False
                         | Some a \<Rightarrow> ac_payload_sha256 a = ip_approval_payload_sha256 p)
                   (SubmissionError SU_approval_not_consumed)) (\<lambda>_.
          bindE (ensure (int64 (sr_chain_id request) \<and> int64 (sr_nonce request) \<and> int64 (ip_requested_wei p))
                   OverflowError) (\<lambda>_.
          bindE (ensure (\<not> list_ex (\<lambda>i. it_signer_operation_id i = operation_id) (t_intents db)
                         \<and> find_transaction (ip_transaction_id p) db = None
                         \<and> (case ip_replaces_transaction_id p of None \<Rightarrow> True
                            | Some r \<Rightarrow> r = ip_transaction_id p \<or> find_transaction r db \<noteq> None)) IntegrityError) (\<lambda>_.
          bindE (hit crash CP_before_prepared_intent_commit) (\<lambda>_.
          Inr ((operation_id, True),
            append_transition clk ''transaction'' (ip_transaction_id p) None (E_tx T_prepared)
              (JObj [(''intent_id'', JStr (sr_intent_id request)), (''is_source_stage'', JBool (ip_is_source_stage p))])
              (bind_nonce_intent (ip_lineage_id p) (sr_intent_id request)
                (db\<lparr>t_intents := t_intents db @ [new_intent operation_id valid_until simulation_valid_until created_at p],
                    t_transactions := t_transactions db @ [new_transaction p]\<rparr>)))))))))))))"

definition prepare_checks :: "int \<Rightarrow> intent_preparation \<Rightarrow> pydatetime option \<Rightarrow> exn + int \<times> int \<times> int" where
  "prepare_checks clk p now =
     bindE (ensure (\<not> (sr_intent_id (ip_request p) = [] \<or> ip_transaction_id p = [])) (SubmissionError SU_empty_identifier)) (\<lambda>_.
     bindE (ensure (\<not> (sr_chain_id (ip_request p) < 0 \<or> sr_nonce (ip_request p) < 0 \<or> ip_requested_wei p < 0))
              (SubmissionError SU_negative)) (\<lambda>_.
     bindE (digest_check (ip_approval_payload_sha256 p)) (\<lambda>_.
     bindE (digest_check (ip_signer_identity_sha256 p)) (\<lambda>_.
     bindE (digest_check (ip_network_identity_sha256 p)) (\<lambda>_.
     bindE (digest_check (ip_quote_sha256 p)) (\<lambda>_.
     bindE (digest_check (ip_simulation_sha256 p)) (\<lambda>_.
     bindE (digest_check (ip_payload_sha256 p)) (\<lambda>_.
     bindE (utc (ip_quote_valid_until p)) (\<lambda>valid_until.
     bindE (utc (ip_simulation_valid_until p)) (\<lambda>simulation_valid_until.
     bindE (time_of clk now) (\<lambda>created_at.
     Inr (valid_until, simulation_valid_until, created_at))))))))))))"

definition prepare_intent ::
  "(json \<Rightarrow> string) \<Rightarrow> (crash_point \<Rightarrow> bool) \<Rightarrow> int \<Rightarrow> intent_preparation \<Rightarrow> pydatetime option \<Rightarrow> string act" where
  "prepare_intent h crash clk p now =
     act_bind (act_lift (prepare_checks clk p now)) (\<lambda>(valid_until, simulation_valid_until, created_at).
     act_bind (act_write (prepare_intent_txn crash clk (signer_operation_id h (ip_request p))
                            valid_until simulation_valid_until created_at p)) (\<lambda>(operation_id, fresh).
     if fresh then act_bind (act_lift (hit crash CP_after_prepared_intent_commit)) (\<lambda>_. act_return operation_id)
     else act_return operation_id))"

section \<open>Gates\<close>

record gate_row =
  gr_intent :: intent_row
  gr_stage :: stage_row
  gr_attempt :: attempt_row
  gr_run :: run_row
  gr_sub :: sub_row
  gr_nonce :: nonce_lease_row
  gr_budget :: budget_row
  gr_approval :: consumption_row

text \<open>The join of \<^verbatim>\<open>revalidate\<close>, again along unique keys.\<close>

definition gate_coordinates :: "string \<Rightarrow> db \<Rightarrow> gate_row option" where
  "gate_coordinates transaction_id db =
     Option.bind (find_transaction transaction_id db) (\<lambda>t.
     Option.bind (find_intent (tx_intent_id t) db) (\<lambda>i.
     Option.bind (find_stage (it_stage_id i) db) (\<lambda>g.
     Option.bind (find_attempt (sg_attempt_id g) db) (\<lambda>a.
     Option.bind (find_condition (at_condition_id a) db) (\<lambda>c.
     Option.bind (find_run (cd_run_id c) db) (\<lambda>r.
     Option.bind (find (\<lambda>s. sb_attempt_id s = at_attempt_id a \<and> Some (sb_reservation_id s) = it_reservation_id i
                          \<and> Some (sb_stage_key s) = it_reservation_stage_key i) (t_subs db)) (\<lambda>s.
     Option.bind (find (\<lambda>n. Some (nl_lineage_id n) = sb_lineage_id s) (t_nonce_leases db)) (\<lambda>n.
     Option.bind (find (\<lambda>b. bg_reservation_id b = sb_reservation_id s \<and> bg_chain_id b = sb_chain_id s) (t_budgets db)) (\<lambda>b.
     Option.bind (find (\<lambda>c. Some (ac_approval_id c) = it_approval_id i) (t_consumptions db)) (\<lambda>v.
     Some \<lparr>gr_intent = i, gr_stage = g, gr_attempt = a, gr_run = r, gr_sub = s, gr_nonce = n, gr_budget = b,
           gr_approval = v\<rparr>))))))))))"

definition gates_match :: "intent_row \<Rightarrow> gate_evidence \<Rightarrow> bool" where
  "gates_match i gates \<longleftrightarrow>
     (it_approval_id i, it_approval_payload_sha256 i, it_signer_id i, it_signer_identity_sha256 i,
      it_network_identity_sha256 i, it_quote_sha256 i, it_simulation_sha256 i, it_nonce i)
     = (Some (ge_approval_id gates), Some (ge_approval_payload_sha256 gates), Some (ge_signer_id gates),
        Some (ge_signer_identity_sha256 gates), Some (ge_network_identity_sha256 gates),
        Some (ge_quote_sha256 gates), Some (ge_simulation_sha256 gates), ge_observed_nonce gates)"

definition is_source_stage :: "stage_row \<Rightarrow> bool" where
  "is_source_stage g \<longleftrightarrow> take 6 (sg_stage_name g) = ''source''"

definition gate_checks :: "gate_row \<Rightarrow> gate_evidence \<Rightarrow> int \<Rightarrow> db \<Rightarrow> exn + unit" where
  "gate_checks row gates checked_at db =
     (let i = gr_intent row; v = gr_approval row; n = gr_nonce row; s = gr_sub row; run = rn_state (gr_run row) in
      bindE (ensure (gates_match i gates) (SubmissionError SU_gate_changed)) (\<lambda>_.
      bindE (ensure (ac_payload_sha256 v = ge_approval_payload_sha256 gates) (SubmissionError SU_approval_mismatch)) (\<lambda>_.
      bindE (ensure (\<not> is_revoked (ac_approval_id v) db) (SubmissionError SU_approval_revoked)) (\<lambda>_.
      bindE (ensure (ac_valid_from v \<le> checked_at \<and> checked_at < ac_valid_until v) (SubmissionError SU_approval_expired)) (\<lambda>_.
      bindE (ensure (\<not> (run = Run_mode Halted \<or> run = Run_mode Revoked)) (SubmissionError SU_stop_blocks)) (\<lambda>_.
      bindE (ensure (\<not> (run = Run_mode Drain \<and> is_source_stage (gr_stage row))) (SubmissionError SU_drain_blocks)) (\<lambda>_.
      bindE (ensure (\<not> (at_state (gr_attempt row) \<noteq> A_in_flight \<or> \<not> bg_source_in_flight (gr_budget row)))
               (SubmissionError SU_no_route_reservation)) (\<lambda>_.
      bindE (ensure (\<not> (\<not> nl_locked n \<or> nl_state n = N_finalized \<or> nl_state n = N_released
                        \<or> nl_nonce n \<noteq> ge_observed_nonce gates \<or> nl_signer_id n \<noteq> ge_signer_id gates))
               (SubmissionError SU_nonce_invalid)) (\<lambda>_.
      bindE (ensure (\<not> (sb_state s = S_finalized \<or> sb_state s = S_released)) (SubmissionError SU_reservation_invalid)) (\<lambda>_.
      bindE (require (it_requested_wei i) TypeError) (\<lambda>requested.
      bindE (ensure (\<not> requested > sb_allocated_wei s) (SubmissionError SU_reservation_invalid)) (\<lambda>_.
      bindE (require (it_quote_valid_until i) ValueError) (\<lambda>quote_until.
      bindE (ensure (\<not> checked_at \<ge> quote_until) (SubmissionError SU_quote_stale)) (\<lambda>_.
      bindE (require (it_simulation_valid_until i) ValueError) (\<lambda>simulation_until.
      bindE (ensure (\<not> checked_at \<ge> simulation_until) (SubmissionError SU_simulation_stale)) (\<lambda>_.
      bindE (utc (ge_simulation_valid_until gates)) (\<lambda>gate_until.
      ensure (\<not> checked_at \<ge> gate_until) (SubmissionError SU_simulation_stale))))))))))))))))))"

definition revalidate :: "string \<Rightarrow> gate_evidence \<Rightarrow> string \<Rightarrow> db \<Rightarrow> exn + unit" where
  "revalidate transaction_id gates phase db =
     bindE (ensure (phase \<in> {''sign'', ''broadcast''}) (SubmissionError SU_gate_phase)) (\<lambda>_.
     bindE (utc (ge_checked_at gates)) (\<lambda>checked_at.
     bindE (require (gate_coordinates transaction_id db) (SubmissionError SU_unresolved_coordinates)) (\<lambda>row.
     gate_checks row gates checked_at db)))"

section \<open>Signing\<close>

definition signer_return_txn :: "int \<Rightarrow> string \<Rightarrow> string \<Rightarrow> int \<Rightarrow> unit txn" where
  "signer_return_txn clk transaction_id operation_id returned_at db =
     bindE (transaction_from transaction_id db) (\<lambda>(t, i).
     bindE (ensure (tx_state t = T_prepared \<or> tx_state t = T_signer_return) (SubmissionError SU_changed_while_signing)) (\<lambda>_.
     Inr ((), append_transition clk ''transaction'' transaction_id (Some (E_tx (tx_state t))) (E_tx T_signer_return)
                (JObj [(''operation_id'', JStr operation_id)])
                (update_transaction transaction_id
                   (\<lambda>r. r\<lparr>tx_state := T_signer_return, tx_signer_returned_at := Some returned_at\<rparr>) db))))"

text \<open>The flag tells whether this call wrote the reference.\<close>

definition persist_reference_txn ::
  "int \<Rightarrow> string \<Rightarrow> string \<Rightarrow> string \<Rightarrow> spool_reference \<Rightarrow> int \<Rightarrow> (spool_reference \<times> bool) txn" where
  "persist_reference_txn clk transaction_id intent_id transaction_hash reference persisted_at db =
     bindE (transaction_from transaction_id db) (\<lambda>(t, i).
     bindE (ensure (tx_state t = T_signer_return \<or> tx_state t = T_signed_hash_persisted)
              (SubmissionError SU_changed_before_reference)) (\<lambda>_.
     if tx_state t = T_signed_hash_persisted
     then bindE (reference_of (t, i)) (\<lambda>existing.
          bindE (ensure (existing = reference) (SubmissionError SU_metadata_changed)) (\<lambda>_.
          Inr ((existing, False), db)))
     else bindE (ensure (int64 (sp_signed_length reference)) OverflowError) (\<lambda>_.
          bindE (ensure (\<not> list_ex (\<lambda>r. tx_transaction_id r \<noteq> transaction_id \<and> tx_chain_id r = tx_chain_id t
                                        \<and> tx_transaction_hash r = Some transaction_hash) (t_transactions db)
                         \<and> length (sp_signed_sha256 reference) = 64 \<and> sp_signed_length reference > 0) IntegrityError) (\<lambda>_.
          Inr ((reference, True),
            append_transition clk ''transaction'' transaction_id (Some (E_tx T_signer_return)) (E_tx T_signed_hash_persisted)
              (JObj [(''signed_sha256'', JStr (sp_signed_sha256 reference)),
                     (''signed_length'', JInt (sp_signed_length reference))])
              (set_intent_state intent_id T_signed_hash_persisted
                (update_transaction transaction_id
                  (\<lambda>r. r\<lparr>tx_state := T_signed_hash_persisted, tx_transaction_hash := Some transaction_hash,
                         tx_signed_sha256 := Some (sp_signed_sha256 reference),
                         tx_signed_length := Some (sp_signed_length reference),
                         tx_spool_relative_path := Some (sp_relative_path reference),
                         tx_signed_hash_persisted_at := Some persisted_at\<rparr>) db)))))))"

text \<open>What \<^verbatim>\<open>sign_prepared\<close> does with the bytes the signer returned.\<close>

definition store_signed ::
  "(string \<Rightarrow> string) \<Rightarrow> (crash_point \<Rightarrow> bool) \<Rightarrow> int \<Rightarrow> string \<Rightarrow> string \<Rightarrow> gate_evidence \<Rightarrow> signed_transaction
     \<Rightarrow> spool_reference act" where
  "store_signed sha crash clk transaction_id intent_id gates signed =
     act_bind (act_lift (hit crash CP_after_signer_return)) (\<lambda>_.
     act_bind (act_lift (utc (ge_checked_at gates))) (\<lambda>returned_at.
     act_bind (act_write (signer_return_txn clk transaction_id (st_operation_id signed) returned_at)) (\<lambda>_.
     act_bind (act_spool (spool_persist sha crash signed)) (\<lambda>reference.
     act_bind (act_write (persist_reference_txn clk transaction_id intent_id (st_transaction_hash signed)
                            reference clk)) (\<lambda>(result, fresh).
     if fresh then act_bind (act_lift (hit crash CP_after_hash_reference_persistence)) (\<lambda>_. act_return reference)
     else act_return result)))))"

definition sign_prepared ::
  "(json \<Rightarrow> string) \<Rightarrow> (string \<Rightarrow> string) \<Rightarrow> (crash_point \<Rightarrow> bool) \<Rightarrow> signer \<Rightarrow> int \<Rightarrow> string \<Rightarrow> signer_request
     \<Rightarrow> gate_evidence \<Rightarrow> spool_reference act" where
  "sign_prepared h sha crash ext clk transaction_id request gates =
     act_bind (act_read (transaction_from transaction_id)) (\<lambda>(t, i).
     if tx_state t \<noteq> T_prepared \<and> tx_state t \<noteq> T_signer_return
     then (if tx_state t = T_signed_hash_persisted then act_lift (reference_of (t, i))
           else act_lift (Inl (SubmissionError SU_not_eligible_for_signing)))
     else
     act_bind (act_lift (ensure (tx_intent_id t = sr_intent_id request) (SubmissionError SU_request_changed_intent))) (\<lambda>_.
     act_bind (act_lift (ensure (it_signer_operation_id i = signer_operation_id h request)
                           (SubmissionError SU_request_changed_after))) (\<lambda>_.
     act_bind (act_read (revalidate transaction_id gates ''sign'')) (\<lambda>_.
     act_bind (act_sign h ext request)
       (store_signed sha crash clk transaction_id (sr_intent_id request) gates)))))"

section \<open>Broadcasting\<close>

definition broadcast_allowed :: "bool \<Rightarrow> tx_state \<Rightarrow> bool" where
  "broadcast_allowed allow_repeat s \<longleftrightarrow>
     s = T_signed_hash_persisted \<or> s = T_broadcast_unknown \<or> allow_repeat \<and> s = T_submitted"

definition broadcast_start_txn :: "int \<Rightarrow> string \<Rightarrow> string \<Rightarrow> bool \<Rightarrow> int \<Rightarrow> unit txn" where
  "broadcast_start_txn clk transaction_id intent_id allow_repeat started_at db =
     bindE (transaction_from transaction_id db) (\<lambda>(t, i).
     bindE (ensure (broadcast_allowed allow_repeat (tx_state t)) (SubmissionError SU_changed_before_broadcast)) (\<lambda>_.
     Inr ((), append_transition clk ''transaction'' transaction_id (Some (E_tx (tx_state t))) (E_tx T_broadcast_unknown)
                (JObj [(''repeat'', JBool (tx_state t \<noteq> T_signed_hash_persisted))])
                (set_intent_state intent_id T_broadcast_unknown
                  (update_transaction transaction_id
                    (\<lambda>r. r\<lparr>tx_state := T_broadcast_unknown, tx_broadcast_started_at := Some started_at\<rparr>) db)))))"

definition acknowledge_txn :: "int \<Rightarrow> string \<Rightarrow> string \<Rightarrow> broadcast_result \<Rightarrow> unit txn" where
  "acknowledge_txn clk transaction_id intent_id result db =
     bindE (transaction_from transaction_id db) (\<lambda>(t, i).
     bindE (ensure (tx_state t = T_broadcast_unknown) (SubmissionError SU_changed_before_ack)) (\<lambda>_.
     Inr ((), append_transition clk ''transaction'' transaction_id (Some (E_tx T_broadcast_unknown)) (E_tx T_submitted)
                (JObj [(''provider_reference'', json_text (br_provider_reference result))])
                (set_intent_state intent_id T_submitted
                  (update_transaction transaction_id
                    (\<lambda>r. r\<lparr>tx_state := T_submitted, tx_submitted_at := Some clk\<rparr>) db)))))"

text \<open>Handing over loaded bytes: the state is durable before, the acknowledgement after.\<close>

definition send_signed ::
  "(crash_point \<Rightarrow> bool) \<Rightarrow> broadcaster \<Rightarrow> int \<Rightarrow> string \<Rightarrow> string \<Rightarrow> gate_evidence \<Rightarrow> bool \<Rightarrow> string \<Rightarrow> string
     \<Rightarrow> broadcast_result act" where
  "send_signed crash bc clk transaction_id intent_id gates allow_repeat expected_hash signed_bytes =
     act_bind (act_lift (utc (ge_checked_at gates))) (\<lambda>started_at.
     act_bind (act_write (broadcast_start_txn clk transaction_id intent_id allow_repeat started_at)) (\<lambda>_.
     act_bind (act_broadcast bc signed_bytes expected_hash) (\<lambda>result.
     act_bind (act_lift (hit crash CP_after_broadcast_before_acknowledgement)) (\<lambda>_.
     if \<not> br_accepted result then act_return result
     else
     act_bind (act_write (acknowledge_txn clk transaction_id intent_id result)) (\<lambda>_.
     act_bind (act_lift (hit crash CP_after_acknowledgement_before_receipt)) (\<lambda>_.
     act_return result))))))"

definition broadcast ::
  "(string \<Rightarrow> string) \<Rightarrow> (crash_point \<Rightarrow> bool) \<Rightarrow> broadcaster \<Rightarrow> int \<Rightarrow> string \<Rightarrow> gate_evidence \<Rightarrow> bool
     \<Rightarrow> broadcast_result act" where
  "broadcast sha crash bc clk transaction_id gates allow_repeat =
     act_bind (act_read (transaction_from transaction_id)) (\<lambda>(t, i).
     act_bind (act_lift (ensure (broadcast_allowed allow_repeat (tx_state t))
                           (SubmissionError SU_not_eligible_for_broadcast))) (\<lambda>_.
     act_bind (act_read (revalidate transaction_id gates ''broadcast'')) (\<lambda>_.
     act_bind (act_lift (reference_of (t, i))) (\<lambda>reference.
     act_bind (act_spool (\<lambda>sp. (spool_load sha reference sp, sp)))
       (send_signed crash bc clk transaction_id (tx_intent_id t) gates allow_repeat
          (case tx_transaction_hash t of None \<Rightarrow> ''None'' | Some x \<Rightarrow> x))))))"

section \<open>Observations\<close>

datatype observation_column = Included_at | Finalized_at

definition stamp :: "observation_column \<Rightarrow> int \<Rightarrow> transaction_row \<Rightarrow> transaction_row" where
  "stamp column at r =
     (case column of Included_at \<Rightarrow> r\<lparr>tx_included_at := Some at\<rparr> | Finalized_at \<Rightarrow> r\<lparr>tx_finalized_at := Some at\<rparr>)"

definition advance_observation_txn ::
  "int \<Rightarrow> string \<Rightarrow> tx_state list \<Rightarrow> tx_state \<Rightarrow> observation_column \<Rightarrow> pydatetime option \<Rightarrow> unit txn" where
  "advance_observation_txn clk transaction_id expected to_state column observed_at db =
     bindE (transaction_from transaction_id db) (\<lambda>(t, i).
     if tx_state t = to_state then Inr ((), db)
     else
     bindE (ensure (tx_state t \<in> set expected) (SubmissionError SU_cannot_advance)) (\<lambda>_.
     bindE (time_of clk observed_at) (\<lambda>at.
     Inr ((), append_transition clk ''transaction'' transaction_id (Some (E_tx (tx_state t))) (E_tx to_state) (JObj [])
                (set_intent_state (tx_intent_id t) to_state
                  (update_transaction transaction_id (\<lambda>r. stamp column at (r\<lparr>tx_state := to_state\<rparr>)) db))))))"

definition submission_record_included :: "int \<Rightarrow> string \<Rightarrow> pydatetime option \<Rightarrow> unit act" where
  "submission_record_included clk transaction_id observed_at =
     act_write (advance_observation_txn clk transaction_id [T_broadcast_unknown, T_submitted] T_included Included_at observed_at)"

definition submission_record_finalized :: "int \<Rightarrow> string \<Rightarrow> pydatetime option \<Rightarrow> unit act" where
  "submission_record_finalized clk transaction_id observed_at =
     act_write (advance_observation_txn clk transaction_id [T_included] T_finalized Finalized_at observed_at)"

section \<open>Recovery\<close>

definition recovery_rows :: "db \<Rightarrow> (transaction_row \<times> intent_row) list" where
  "recovery_rows db =
     filter (\<lambda>(t, i). tx_spool_relative_path t \<noteq> None \<or> tx_state t = T_signer_return)
       (List.map_filter (\<lambda>t. map_option (\<lambda>i. (t, i)) (find_intent (tx_intent_id t) db)) (t_transactions db))"

text \<open>A signed file whose reference was never recorded is recognised by the name its operation has.\<close>

definition pending_file :: "(string \<Rightarrow> string) \<Rightarrow> spool \<Rightarrow> transaction_row \<times> intent_row \<Rightarrow> bool" where
  "pending_file sha sp = (\<lambda>(t, i).
     tx_spool_relative_path t = None \<and> file_exists sp (relative_path sha (it_signer_operation_id i)))"

definition referenced_path :: "(string \<Rightarrow> string) \<Rightarrow> spool \<Rightarrow> transaction_row \<times> intent_row \<Rightarrow> string option" where
  "referenced_path sha sp row =
     (case tx_spool_relative_path (fst row) of
        Some path \<Rightarrow> Some path
      | None \<Rightarrow> if pending_file sha sp row then Some (relative_path sha (it_signer_operation_id (snd row))) else None)"

definition recorded_reference :: "transaction_row \<times> intent_row \<Rightarrow> exn + spool_reference" where
  "recorded_reference = (\<lambda>(t, i).
     bindE (require (tx_signed_length t) TypeError) (\<lambda>n.
     Inr \<lparr>sp_operation_id = it_signer_operation_id i,
          sp_relative_path = (case tx_spool_relative_path t of None \<Rightarrow> ''None'' | Some p \<Rightarrow> p),
          sp_signed_sha256 = (case tx_signed_sha256 t of None \<Rightarrow> ''None'' | Some d \<Rightarrow> d),
          sp_signed_length = n\<rparr>))"

fun corrupt_transactions ::
  "(string \<Rightarrow> string) \<Rightarrow> spool \<Rightarrow> (transaction_row \<times> intent_row) list \<Rightarrow> exn + string list" where
  "corrupt_transactions sha sp [] = Inr []"
| "corrupt_transactions sha sp (row # rows) =
     (if tx_spool_relative_path (fst row) = None then corrupt_transactions sha sp rows
      else bindE (recorded_reference row) (\<lambda>reference.
           bindE (corrupt_transactions sha sp rows) (\<lambda>rest.
           Inr (case spool_load sha reference sp of Inr _ \<Rightarrow> rest | Inl _ \<Rightarrow> tx_transaction_id (fst row) # rest))))"

definition recover_spool :: "(string \<Rightarrow> string) \<Rightarrow> recovery_report act" where
  "recover_spool sha w =
     (let rows = recovery_rows (wd_db w);
          recoverable = map (tx_transaction_id \<circ> fst) (filter (pending_file sha (wd_spool w)) rows);
          referenced = List.map_filter (referenced_path sha (wd_spool w)) rows;
          (quarantined, sp) = quarantine_orphans sha referenced (wd_spool w)
      in (bindE (corrupt_transactions sha sp rows) (\<lambda>corrupt.
          Inr \<lparr>rr_quarantined_orphans = quarantined, rr_corrupt_references = text_sort corrupt,
               rr_recoverable_pending = text_sort recoverable\<rparr>),
          w\<lparr>wd_spool := sp\<rparr>))"


end
