(* ===== verification/Xir_Submission_Properties.thy ===== *)
theory Xir_Submission_Properties
  imports Xir_Submission
begin

text \<open>
  The submission coordinator as a state machine over the world, with a crash possible at every boundary.
  The triples of \<^verbatim>\<open>Xir_Actions\<close> carry the invariant through the calls: it has to hold wherever an
  exception can leave the world. What is assumed of the outside: digests are 64 lowercase
  hexadecimal characters (\<open>hex_digests\<close>), and the external signer returns the same bytes for every repeat
  of one operation (\<open>signer_contract\<close>), as its protocol documents.
\<close>

section \<open>Assumptions on the outside\<close>

definition hex_digests :: "(json \<Rightarrow> string) \<Rightarrow> (string \<Rightarrow> string) \<Rightarrow> bool" where
  "hex_digests h sha \<longleftrightarrow> (\<forall>j. is_sha256_hex (h j)) \<and> (\<forall>b. is_sha256_hex (sha b))"

definition signer_contract :: "signer \<Rightarrow> (string \<Rightarrow> string) \<Rightarrow> bool" where
  "signer_contract ext bytes_of \<longleftrightarrow>
     (\<forall>op r t. ext op r = Inr t \<longrightarrow> st_operation_id t = op \<longrightarrow> st_signed_bytes t = bytes_of op)"

section \<open>Paths of the spool\<close>

lemma relative_path_inj:
  assumes "hex_digests h sha" "relative_path sha x = relative_path sha y"
  shows "x = y"
proof -
  have "length (take 2 (sha z)) = 2" for z using assms(1) by (simp add: hex_digests_def is_sha256_hex_def)
  with assms(2) show ?thesis by (auto simp: relative_path_def append_eq_append_conv)
qed

lemma quarantine_not_signed: "quarantine_name sha p \<noteq> relative_path sha' op"
  by (simp add: quarantine_name_def relative_path_def)

lemma split_path_plain: "CHR ''/'' \<notin> set p \<Longrightarrow> split_path p = [p]"
  by (induction p) auto

lemma split_path_append: "CHR ''/'' \<notin> set p \<Longrightarrow> split_path (p @ CHR ''/'' # q) = p # split_path q"
  by (induction p) auto

lemma hex_plain: "is_sha256_hex s \<Longrightarrow> CHR ''/'' \<notin> set s \<and> CHR ''.'' \<notin> set s"
proof -
  assume "is_sha256_hex s"
  then have "c \<in> set ''0123456789abcdef''" if "c \<in> set s" for c
    using that by (simp only: is_sha256_hex_def list_all_iff)
  moreover have "CHR ''/'' \<notin> set ''0123456789abcdef''" "CHR ''.'' \<notin> set ''0123456789abcdef''" by simp_all
  ultimately show ?thesis by metis
qed

lemma resolve_relative_path:
  assumes "hex_digests h sha"
  shows "resolve (relative_path sha (signer_operation_id h r)) = Some (relative_path sha (signer_operation_id h r))"
proof -
  let ?op = "signer_operation_id h r"
  have hex: "is_sha256_hex (sha ?op)" "is_sha256_hex (h j)" for j using assms by (simp_all add: hex_digests_def)
  have two: "CHR ''/'' \<notin> set (take 2 (sha ?op))" "CHR ''.'' \<notin> set (take 2 (sha ?op))" "length (take 2 (sha ?op)) = 2"
    using hex_plain [OF hex(1)] hex(1) set_take_subset [of 2 "sha ?op"] by (auto simp: is_sha256_hex_def)
  have plain: "CHR ''/'' \<notin> set ''signed''" "CHR ''/'' \<notin> set (?op @ ''.bin'')"
    using hex_plain [OF hex(2)] by (simp_all add: signer_operation_id_def)
  have "relative_path sha ?op = ''signed'' @ CHR ''/'' # take 2 (sha ?op) @ CHR ''/'' # ?op @ ''.bin''"
    by (simp add: relative_path_def)
  then have "split_path (relative_path sha ?op) = [''signed'', take 2 (sha ?op), ?op @ ''.bin'']"
    by (simp only: split_path_append [OF plain(1)] split_path_append [OF two(1)] split_path_plain [OF plain(2)])
  moreover have "take 2 (sha ?op) \<noteq> []" "take 2 (sha ?op) \<noteq> ''.''" "take 2 (sha ?op) \<noteq> ''..''"
    using two(2,3) by (metis list.size(3) zero_neq_numeral, metis list.set_intros(1), metis list.set_intros(1))
  moreover have "?op @ ''.bin'' \<noteq> []" "?op @ ''.bin'' \<noteq> ''.''" "?op @ ''.bin'' \<noteq> ''..''" by (simp_all add: signer_operation_id_def)
  ultimately show ?thesis by (simp add: resolve_def) (simp add: relative_path_def)
qed

section \<open>Triples of the world\<close>

lemma triple_read:
  "(\<And>w. P w \<Longrightarrow> I w) \<Longrightarrow> (\<And>a w. f (wd_db w) = Inr a \<Longrightarrow> P w \<Longrightarrow> Q a w) \<Longrightarrow> triple I P (act_read f) Q"
  by (auto simp: triple_def act_read_def split: sum.splits)

lemma triple_db_write:
  "(\<And>w. P w \<Longrightarrow> I w) \<Longrightarrow> (\<And>a d w. body (wd_db w) = Inr (a, d) \<Longrightarrow> P w \<Longrightarrow> Q a (w\<lparr>wd_db := d\<rparr>))
     \<Longrightarrow> triple I P (act_write body) Q"
  by (auto simp: triple_def act_write_def store_write_def split: sum.splits prod.splits)

section \<open>The invariant\<close>

definition unsigned_state :: "tx_state \<Rightarrow> bool" where
  "unsigned_state s \<longleftrightarrow> s = T_prepared \<or> s = T_signer_return"

definition sent_state :: "tx_state \<Rightarrow> bool" where
  "sent_state s \<longleftrightarrow> s = T_broadcast_unknown \<or> s = T_submitted \<or> s = T_included \<or> s = T_finalized"

definition signed_state :: "tx_state \<Rightarrow> bool" where
  "signed_state s \<longleftrightarrow> s = T_signed_hash_persisted \<or> sent_state s"

definition op_of :: "db \<Rightarrow> transaction_row \<Rightarrow> string option" where
  "op_of d t = map_option it_signer_operation_id (find_intent (tx_intent_id t) d)"

text \<open>The complete record of signed bytes: the reference in the row, and the file it names.\<close>

definition recorded :: "(string \<Rightarrow> string) \<Rightarrow> (string \<Rightarrow> string) \<Rightarrow> spool \<Rightarrow> string \<Rightarrow> transaction_row \<Rightarrow> bool" where
  "recorded sha bytes_of sp op t \<longleftrightarrow> tx_transaction_hash t \<noteq> None
     \<and> tx_spool_relative_path t = Some (relative_path sha op) \<and> tx_signed_sha256 t = Some (sha (bytes_of op))
     \<and> tx_signed_length t = Some (int (length (bytes_of op))) \<and> map_of sp (relative_path sha op) = Some (bytes_of op)"

definition tx_good :: "(string \<Rightarrow> string) \<Rightarrow> (string \<Rightarrow> string) \<Rightarrow> spool \<Rightarrow> string \<Rightarrow> transaction_row \<Rightarrow> bool" where
  "tx_good sha bytes_of sp op t \<longleftrightarrow>
     unsigned_state (tx_state t) \<and> tx_spool_relative_path t = None
     \<or> signed_state (tx_state t) \<and> recorded sha bytes_of sp op t"

definition sent_ok :: "(string \<Rightarrow> string) \<Rightarrow> db \<Rightarrow> string \<times> string \<Rightarrow> bool" where
  "sent_ok bytes_of d x \<longleftrightarrow> (\<exists>t\<in>set (t_transactions d). \<exists>op. op_of d t = Some op \<and> sent_state (tx_state t)
     \<and> tx_transaction_hash t = Some (snd x) \<and> fst x = bytes_of op)"

definition sub_inv :: "(json \<Rightarrow> string) \<Rightarrow> (string \<Rightarrow> string) \<Rightarrow> (string \<Rightarrow> string) \<Rightarrow> world \<Rightarrow> bool" where
  "sub_inv h sha bytes_of w \<longleftrightarrow>
     distinct (map tx_transaction_id (t_transactions (wd_db w)))
   \<and> (\<forall>t\<in>set (t_transactions (wd_db w)). \<exists>op. op_of (wd_db w) t = Some op \<and> tx_good sha bytes_of (wd_spool w) op t)
   \<and> (\<forall>i\<in>set (t_intents (wd_db w)). \<exists>r. it_signer_operation_id i = signer_operation_id h r)
   \<and> (\<forall>op b. map_of (wd_spool w) (relative_path sha op) = Some b \<longrightarrow> b = bytes_of op)
   \<and> (\<forall>op\<in>set (wd_signed w). \<exists>i\<in>set (t_intents (wd_db w)). it_signer_operation_id i = op)
   \<and> (\<forall>x\<in>set (wd_sent w). sent_ok bytes_of (wd_db w) x)"

lemma sub_invD:
  assumes "sub_inv h sha bytes_of w"
  shows "distinct (map tx_transaction_id (t_transactions (wd_db w)))"
    and "t \<in> set (t_transactions (wd_db w)) \<Longrightarrow> \<exists>op. op_of (wd_db w) t = Some op \<and> tx_good sha bytes_of (wd_spool w) op t"
    and "i \<in> set (t_intents (wd_db w)) \<Longrightarrow> \<exists>r. it_signer_operation_id i = signer_operation_id h r"
    and "map_of (wd_spool w) (relative_path sha op) = Some b \<Longrightarrow> b = bytes_of op"
    and "op \<in> set (wd_signed w) \<Longrightarrow> \<exists>i\<in>set (t_intents (wd_db w)). it_signer_operation_id i = op"
    and "x \<in> set (wd_sent w) \<Longrightarrow> sent_ok bytes_of (wd_db w) x"
  using assms by (simp_all add: sub_inv_def)

lemma transaction_from_Inr:
  "transaction_from tid d = Inr (t, i) \<longleftrightarrow> find_transaction tid d = Some t \<and> find_intent (tx_intent_id t) d = Some i"
  by (auto simp: transaction_from_def exn_simps bind_eq_Some_conv)

lemma find_transactionD: "find_transaction tid d = Some t \<Longrightarrow> t \<in> set (t_transactions d) \<and> tx_transaction_id t = tid"
  unfolding find_transaction_def by (drule find_SomeD) simp

lemma find_intentD: "find_intent x d = Some i \<Longrightarrow> i \<in> set (t_intents d) \<and> it_intent_id i = x"
  unfolding find_intent_def by (drule find_SomeD) simp

lemma row_unique:
  assumes "sub_inv h sha bytes_of w" "find_transaction tid (wd_db w) = Some t"
    and "u \<in> set (t_transactions (wd_db w))" "tx_transaction_id u = tid"
  shows "u = t"
  using assms(3,4) find_transactionD [OF assms(2)] sub_invD(1) [OF assms(1)] by (auto simp: distinct_map inj_on_def)

text \<open>
  Databases that differ in ways the coordinator does not look at: the same transactions, and intents
  that agree on identifiers and operations.
\<close>

definition same_ops :: "db \<Rightarrow> db \<Rightarrow> bool" where
  "same_ops d d' \<longleftrightarrow> map (\<lambda>i. (it_intent_id i, it_signer_operation_id i)) (t_intents d')
                    = map (\<lambda>i. (it_intent_id i, it_signer_operation_id i)) (t_intents d)"

lemma same_ops_op_of: "same_ops d d' \<Longrightarrow> op_of d' t = op_of d t"
proof -
  have "map_option it_signer_operation_id (find (\<lambda>i. it_intent_id i = x) ys)
      = map_option it_signer_operation_id (find (\<lambda>i. it_intent_id i = x) xs)"
    if "map (\<lambda>i. (it_intent_id i, it_signer_operation_id i)) ys = map (\<lambda>i. (it_intent_id i, it_signer_operation_id i)) xs" for x xs ys
    using that by (induction xs arbitrary: ys) (auto simp: map_eq_Cons_conv)
  then show "same_ops d d' \<Longrightarrow> op_of d' t = op_of d t" by (simp add: same_ops_def op_of_def find_intent_def)
qed

lemma same_ops_ops: "same_ops d d' \<Longrightarrow> it_signer_operation_id ` set (t_intents d') = it_signer_operation_id ` set (t_intents d)"
proof -
  assume "same_ops d d'"
  then have "map snd (map (\<lambda>i. (it_intent_id i, it_signer_operation_id i)) (t_intents d'))
      = map snd (map (\<lambda>i. (it_intent_id i, it_signer_operation_id i)) (t_intents d))" by (simp add: same_ops_def)
  then have "map it_signer_operation_id (t_intents d') = map it_signer_operation_id (t_intents d)" by (simp add: comp_def)
  then show ?thesis by (metis set_map)
qed

lemma same_ops_simps [simp]:
  "same_ops d d" "same_ops d (set_intent_state x s d') \<longleftrightarrow> same_ops d d'"
  "same_ops d (append_transition clk k e s0 s1 p d') \<longleftrightarrow> same_ops d d'" "same_ops d (update_transaction tid f d') \<longleftrightarrow> same_ops d d'"
  "t_transactions (set_intent_state x s d') = t_transactions d'"
  "t_transactions (append_transition clk k e s0 s1 p d') = t_transactions d'"
  by (auto simp: same_ops_def set_intent_state_def append_transition_def update_transaction_def update_where_def comp_def
      intro!: arg_cong [where f = "\<lambda>x. x = _"] map_cong)

text \<open>Updating the row of one transaction keeps the invariant when the new row is good.\<close>

lemma update_inv:
  assumes inv: "sub_inv h sha bytes_of w" and t: "find_transaction tid (wd_db w) = Some t"
    and ops: "same_ops (wd_db w) d" and txs: "t_transactions d = update_where (\<lambda>r. tx_transaction_id r = tid) f (t_transactions (wd_db w))"
    and keeps: "tx_transaction_id (f t) = tid" "tx_intent_id (f t) = tx_intent_id t"
    and good: "\<And>op. op_of (wd_db w) t = Some op \<Longrightarrow> tx_good sha bytes_of (wd_spool w) op t \<Longrightarrow> tx_good sha bytes_of (wd_spool w) op (f t)"
    and sent: "sent_state (tx_state t) \<Longrightarrow> sent_state (tx_state (f t)) \<and> tx_transaction_hash (f t) = tx_transaction_hash t"
  shows "sub_inv h sha bytes_of (w\<lparr>wd_db := d\<rparr>)"
proof -
  let ?T = "t_transactions (wd_db w)"
  have row: "u = t" if "u \<in> set ?T" "tx_transaction_id u = tid" for u using row_unique [OF inv t that] .
  have new: "set (t_transactions d) = (\<lambda>r. if tx_transaction_id r = tid then f t else r) ` set ?T"
    using row by (auto simp: txs set_update_where image_iff)
  have op: "op_of d (f t) = op_of (wd_db w) t" "op_of d u = op_of (wd_db w) u" for u
    using same_ops_op_of [OF ops] keeps(2) by (simp_all add: op_of_def)
  have ids: "map tx_transaction_id (t_transactions d) = map tx_transaction_id ?T"
    using row keeps(1) by (auto simp: txs update_where_def)
  have goods: "\<exists>op. op_of d u = Some op \<and> tx_good sha bytes_of (wd_spool w) op u" if "u \<in> set (t_transactions d)" for u
  proof -
    from that new obtain v where v: "v \<in> set ?T" "u = (if tx_transaction_id v = tid then f t else v)" by auto
    with sub_invD(2) [OF inv v(1)] row [OF v(1)] good op show ?thesis by (cases "tx_transaction_id v = tid") auto
  qed
  have sents: "sent_ok bytes_of d x" if "sent_ok bytes_of (wd_db w) x" for x
  proof -
    from that obtain u op' where u: "u \<in> set ?T" "op_of (wd_db w) u = Some op'" "sent_state (tx_state u)"
      "tx_transaction_hash u = Some (snd x)" "fst x = bytes_of op'" unfolding sent_ok_def by blast
    let ?u = "if tx_transaction_id u = tid then f t else u"
    have "?u \<in> set (t_transactions d)" using u(1) new by auto
    moreover have "op_of d ?u = Some op'" "sent_state (tx_state ?u)" "tx_transaction_hash ?u = Some (snd x)"
      using u row [OF u(1)] op sent by auto
    ultimately show ?thesis using u(5) unfolding sent_ok_def by blast
  qed
  have intents: "\<exists>r. it_signer_operation_id i = signer_operation_id h r" if "i \<in> set (t_intents d)" for i
    using same_ops_ops [OF ops] sub_invD(3) [OF inv] that by (metis imageE imageI)
  have signed: "\<exists>i\<in>set (t_intents d). it_signer_operation_id i = x" if "x \<in> set (wd_signed w)" for x
    using same_ops_ops [OF ops] sub_invD(5) [OF inv that] by (metis imageE imageI)
  show ?thesis
    unfolding sub_inv_def using ids goods sents intents signed sub_invD(1,4,6) [OF inv] by simp
qed

section \<open>The invariant through the calls\<close>

definition at_tx :: "string \<Rightarrow> string \<Rightarrow> world \<Rightarrow> bool" where
  "at_tx tid op w \<longleftrightarrow> (\<exists>t. find_transaction tid (wd_db w) = Some t \<and> op_of (wd_db w) t = Some op)"

lemma transaction_from_at_tx:
  "transaction_from tid (wd_db w) = Inr (t, i) \<Longrightarrow> at_tx tid (it_signer_operation_id i) w"
  by (auto simp: transaction_from_Inr at_tx_def op_of_def)

lemma find_transaction_update:
  assumes "\<And>r. tx_transaction_id (f r) = tx_transaction_id r"
  shows "find_transaction tid (update_transaction tid f d) = map_option f (find_transaction tid d)"
proof (cases "find_transaction tid d")
  case (Some t)
  with find_transactionD [OF Some] show ?thesis
    by (simp add: find_transaction_def update_transaction_def find_update_where assms)
qed (simp add: find_transaction_def update_transaction_def find_update_where assms)

lemma find_transaction_frame [simp]:
  "find_transaction tid (set_intent_state x s d) = find_transaction tid d"
  "find_transaction tid (append_transition clk k e s0 s1 p d) = find_transaction tid d"
  by (simp_all add: find_transaction_def)

text \<open>One transaction of the coordinator: a new row of one transaction, a journal entry, states of intents.\<close>

lemma row_step:
  assumes inv: "sub_inv h sha bytes_of w" and t: "find_transaction tid (wd_db w) = Some t" and op: "op_of (wd_db w) t = Some op"
    and d: "same_ops (wd_db w) d" "t_transactions d = t_transactions (update_transaction tid f (wd_db w))"
    and keeps: "\<And>r. tx_transaction_id (f r) = tx_transaction_id r" "\<And>r. tx_intent_id (f r) = tx_intent_id r"
    and good: "tx_good sha bytes_of (wd_spool w) op t \<Longrightarrow> tx_good sha bytes_of (wd_spool w) op (f t)"
    and sent: "sent_state (tx_state t) \<Longrightarrow> sent_state (tx_state (f t)) \<and> tx_transaction_hash (f t) = tx_transaction_hash t"
  shows "sub_inv h sha bytes_of (w\<lparr>wd_db := d\<rparr>)" "find_transaction tid d = Some (f t)" "op_of d (f t) = Some op"
proof -
  show "sub_inv h sha bytes_of (w\<lparr>wd_db := d\<rparr>)"
  proof (rule update_inv [where f = f, OF inv t d(1)])
    show "t_transactions d = update_where (\<lambda>r. tx_transaction_id r = tid) f (t_transactions (wd_db w))"
      using d(2) by (simp add: update_transaction_def)
    show "tx_good sha bytes_of (wd_spool w) op' (f t)"
      if "op_of (wd_db w) t = Some op'" "tx_good sha bytes_of (wd_spool w) op' t" for op'
      using that good op by simp
  qed (use keeps sent find_transactionD [OF t] in simp_all)
  show "find_transaction tid d = Some (f t)"
    using find_transaction_update [OF keeps(1), of tid "wd_db w"] t d(2) by (simp add: find_transaction_def)
  show "op_of d (f t) = Some op" using same_ops_op_of [OF d(1)] op by (simp add: op_of_def keeps(2))
qed

lemma signer_return_inv:
  assumes inv: "sub_inv h sha bytes_of w" and at: "at_tx tid op w"
    and run: "signer_return_txn clk tid x at (wd_db w) = Inr (u, d)"
  shows "sub_inv h sha bytes_of (w\<lparr>wd_db := d\<rparr>) \<and> at_tx tid op (w\<lparr>wd_db := d\<rparr>)"
proof -
  from at obtain t where t: "find_transaction tid (wd_db w) = Some t" "op_of (wd_db w) t = Some op" by (auto simp: at_tx_def)
  let ?f = "\<lambda>r. r\<lparr>tx_state := T_signer_return, tx_signer_returned_at := Some at\<rparr>"
  from run t(1) have state: "unsigned_state (tx_state t)" and d: "same_ops (wd_db w) d"
    "t_transactions d = t_transactions (update_transaction tid ?f (wd_db w))"
    by (auto simp: signer_return_txn_def exn_simps transaction_from_Inr unsigned_state_def)
  note step = row_step [OF inv t d]
  show ?thesis
    using step state by (auto simp: at_tx_def tx_good_def unsigned_state_def signed_state_def sent_state_def)
qed

lemma persist_reference_inv:
  assumes inv: "sub_inv h sha bytes_of w" and at: "at_tx tid op w"
    and ref: "sp_relative_path ref = relative_path sha op" "sp_signed_sha256 ref = sha (bytes_of op)"
      "sp_signed_length ref = int (length (bytes_of op))"
    and stored: "map_of (wd_spool w) (relative_path sha op) = Some (bytes_of op)"
    and run: "persist_reference_txn clk tid x hash ref at (wd_db w) = Inr (u, d)"
  shows "sub_inv h sha bytes_of (w\<lparr>wd_db := d\<rparr>)"
proof -
  from at obtain t where t: "find_transaction tid (wd_db w) = Some t" "op_of (wd_db w) t = Some op" by (auto simp: at_tx_def)
  show ?thesis
  proof (cases "tx_state t = T_signed_hash_persisted")
    case True
    with run t have "d = wd_db w" by (auto simp: persist_reference_txn_def exn_simps transaction_from_Inr)
    with inv show ?thesis by simp
  next
    case False
    let ?f = "\<lambda>r. r\<lparr>tx_state := T_signed_hash_persisted, tx_transaction_hash := Some hash, tx_signed_sha256 := Some (sp_signed_sha256 ref),
        tx_signed_length := Some (sp_signed_length ref), tx_spool_relative_path := Some (sp_relative_path ref),
        tx_signed_hash_persisted_at := Some at\<rparr>"
    from run t False have state: "tx_state t = T_signer_return" and d: "same_ops (wd_db w) d"
      "t_transactions d = t_transactions (update_transaction tid ?f (wd_db w))"
      by (auto simp: persist_reference_txn_def exn_simps transaction_from_Inr)
    show ?thesis
      by (rule row_step(1) [OF inv t d])
        (auto simp: state tx_good_def recorded_def signed_state_def sent_state_def ref stored)
  qed
qed

text \<open>A transaction past signing: its record, and the states broadcasting and observing move it through.\<close>

lemma recorded_state:
  assumes "sub_inv h sha bytes_of w" "find_transaction tid (wd_db w) = Some t" "op_of (wd_db w) t = Some op" "signed_state (tx_state t)"
  shows "recorded sha bytes_of (wd_spool w) op t"
  using sub_invD(2) [OF assms(1), of t] find_transactionD [OF assms(2)] assms(3,4)
  by (auto simp: tx_good_def unsigned_state_def signed_state_def sent_state_def)

lemma sent_step:
  assumes inv: "sub_inv h sha bytes_of w" and t: "find_transaction tid (wd_db w) = Some t" "op_of (wd_db w) t = Some op"
    and state: "signed_state (tx_state t)" and d: "same_ops (wd_db w) d"
      "t_transactions d = t_transactions (update_transaction tid f (wd_db w))"
    and keeps: "\<And>r. tx_transaction_id (f r) = tx_transaction_id r" "\<And>r. tx_intent_id (f r) = tx_intent_id r"
      "sent_state (tx_state (f t))" "tx_transaction_hash (f t) = tx_transaction_hash t"
      "tx_spool_relative_path (f t) = tx_spool_relative_path t" "tx_signed_sha256 (f t) = tx_signed_sha256 t"
      "tx_signed_length (f t) = tx_signed_length t"
  shows "sub_inv h sha bytes_of (w\<lparr>wd_db := d\<rparr>)" "find_transaction tid d = Some (f t)" "op_of d (f t) = Some op"
proof -
  have "recorded sha bytes_of (wd_spool w) op (f t)"
    using recorded_state [OF inv t state] by (simp add: recorded_def keeps)
  then have good: "tx_good sha bytes_of (wd_spool w) op (f t)" by (simp add: tx_good_def signed_state_def keeps)
  note step = row_step [OF inv t d keeps(1,2)]
  show "sub_inv h sha bytes_of (w\<lparr>wd_db := d\<rparr>)" "find_transaction tid d = Some (f t)" "op_of d (f t) = Some op"
    using step good keeps(3,4) by simp_all
qed

subsection \<open>The spool\<close>

lemma spool_inv:
  assumes inv: "sub_inv h sha bytes_of w"
    and keep: "\<And>op. map_of sp (relative_path sha op) = map_of (wd_spool w) (relative_path sha op)
        \<or> map_of sp (relative_path sha op) = Some (bytes_of op)"
  shows "sub_inv h sha bytes_of (w\<lparr>wd_spool := sp\<rparr>)"
proof -
  have rec: "recorded sha bytes_of sp op t" if "recorded sha bytes_of (wd_spool w) op t" for op t
    using that keep [of op] by (auto simp: recorded_def)
  have "\<exists>op. op_of (wd_db w) t = Some op \<and> tx_good sha bytes_of sp op t" if "t \<in> set (t_transactions (wd_db w))" for t
    using sub_invD(2) [OF inv that] rec by (auto simp: tx_good_def)
  moreover have "b = bytes_of op" if "map_of sp (relative_path sha op) = Some b" for op b
    using that keep [of op] sub_invD(4) [OF inv, of op b] by auto
  ultimately show ?thesis using inv by (simp add: sub_inv_def)
qed

lemma persist_triple:
  assumes hex: "hex_digests h sha" and signed: "st_operation_id signed = op" "st_signed_bytes signed = bytes_of op"
  shows "triple (sub_inv h sha bytes_of) (\<lambda>w. sub_inv h sha bytes_of w \<and> at_tx tid op w) (act_spool (spool_persist sha crash signed))
    (\<lambda>ref w. sub_inv h sha bytes_of w \<and> at_tx tid op w \<and> map_of (wd_spool w) (relative_path sha op) = Some (bytes_of op)
       \<and> sp_relative_path ref = relative_path sha op \<and> sp_signed_sha256 ref = sha (bytes_of op)
       \<and> sp_signed_length ref = int (length (bytes_of op)))"
proof -
  have "sub_inv h sha bytes_of (w\<lparr>wd_spool := sp\<rparr>)
      \<and> (\<forall>ref. r = Inr ref \<longrightarrow> map_of sp (relative_path sha op) = Some (bytes_of op)
           \<and> sp_relative_path ref = relative_path sha op \<and> sp_signed_sha256 ref = sha (bytes_of op)
           \<and> sp_signed_length ref = int (length (bytes_of op)))"
    if inv: "sub_inv h sha bytes_of w" and run: "spool_persist sha crash signed (wd_spool w) = (r, sp)" for w r sp
  proof -
    have "sp = wd_spool w \<or> sp = (relative_path sha op, bytes_of op) # wd_spool w"
      using run by (auto simp: spool_persist_def Let_def signed split: if_splits option.splits sum.splits)
    then have "sub_inv h sha bytes_of (w\<lparr>wd_spool := sp\<rparr>)"
    proof
      show "sub_inv h sha bytes_of (w\<lparr>wd_spool := sp\<rparr>)" if "sp = wd_spool w" using that inv by simp
    next
      assume "sp = (relative_path sha op, bytes_of op) # wd_spool w"
      then show "sub_inv h sha bytes_of (w\<lparr>wd_spool := sp\<rparr>)"
        by (intro spool_inv [OF inv]) (auto dest: relative_path_inj [OF hex])
    qed
    moreover have "map_of sp (relative_path sha op) = Some (bytes_of op)
           \<and> sp_relative_path ref = relative_path sha op \<and> sp_signed_sha256 ref = sha (bytes_of op)
           \<and> sp_signed_length ref = int (length (bytes_of op))" if "r = Inr ref" for ref
      using run that sub_invD(4) [OF inv, of op]
      by (auto simp: spool_persist_def Let_def signed exn_simps split: if_splits option.splits sum.splits)
    ultimately show ?thesis by blast
  qed
  then show ?thesis by (auto simp: triple_def act_spool_def at_tx_def split: prod.splits sum.splits)
qed

subsection \<open>Signing\<close>

lemma sign_call_triple:
  assumes contract: "signer_contract ext bytes_of" and op: "op = signer_operation_id h request"
  shows "triple (sub_inv h sha bytes_of) (\<lambda>w. sub_inv h sha bytes_of w \<and> at_tx tid op w) (act_sign h ext request)
    (\<lambda>signed w. sub_inv h sha bytes_of w \<and> at_tx tid op w \<and> st_operation_id signed = op \<and> st_signed_bytes signed = bytes_of op)"
proof -
  have "sub_inv h sha bytes_of (w\<lparr>wd_signed := wd_signed w @ [op]\<rparr>)" if "sub_inv h sha bytes_of w" "at_tx tid op w" for w
    using that by (auto simp: sub_inv_def at_tx_def op_of_def dest: find_intentD)
  moreover have "st_operation_id t = op \<and> st_signed_bytes t = bytes_of op" if "obtain_signed h ext request = Inr t" for t
    using that contract by (auto simp: obtain_signed_def Let_def exn_simps signer_contract_def op)
  ultimately show ?thesis by (auto simp: triple_def act_sign_def at_tx_def op split: sum.splits)
qed

lemma record_triple:
  assumes "sp_relative_path ref = relative_path sha op" "sp_signed_sha256 ref = sha (bytes_of op)"
    "sp_signed_length ref = int (length (bytes_of op))"
  shows "triple (sub_inv h sha bytes_of)
    (\<lambda>w. sub_inv h sha bytes_of w \<and> at_tx tid op w \<and> map_of (wd_spool w) (relative_path sha op) = Some (bytes_of op))
    (act_bind (act_write (persist_reference_txn clk tid x hash ref at)) (\<lambda>(result, fresh).
       if fresh then act_bind (act_lift (hit crash CP_after_hash_reference_persistence)) (\<lambda>_. act_return ref)
       else act_return result)) (\<lambda>_. sub_inv h sha bytes_of)"
proof (rule triple_bind [where R = "\<lambda>_. sub_inv h sha bytes_of"], goal_cases)
  case 1
  show ?case by (rule triple_db_write) (auto intro: persist_reference_inv assms)
next
  case (2 result)
  show ?case by (cases result) (auto intro!: triple_if triple_bind [OF triple_keep(1)] triple_keep(2))
qed

lemma store_signed_triple:
  assumes hex: "hex_digests h sha" and signed: "st_operation_id signed = op" "st_signed_bytes signed = bytes_of op"
  shows "triple (sub_inv h sha bytes_of) (\<lambda>w. sub_inv h sha bytes_of w \<and> at_tx tid op w)
    (store_signed sha crash clk tid x gates signed) (\<lambda>_. sub_inv h sha bytes_of)"
proof -
  let ?I = "sub_inv h sha bytes_of" and ?at = "\<lambda>w. sub_inv h sha bytes_of w \<and> at_tx tid op w"
  have lift: "triple ?I ?at (act_lift r) (\<lambda>_. ?at)" for r :: "exn + 'x" by (rule triple_lift_same) simp
  have return: "triple ?I ?at (act_write (signer_return_txn clk tid y at)) (\<lambda>_. ?at)" for y at
    by (rule triple_db_write) (auto dest: signer_return_inv)
  show ?thesis
    unfolding store_signed_def
  proof (intro triple_bind [OF lift] triple_bind [OF return])
    fix at
    show "triple ?I ?at (act_bind (act_spool (spool_persist sha crash signed)) (\<lambda>reference.
       act_bind (act_write (persist_reference_txn clk tid x (st_transaction_hash signed) reference clk)) (\<lambda>(result, fresh).
       if fresh then act_bind (act_lift (hit crash CP_after_hash_reference_persistence)) (\<lambda>_. act_return reference)
       else act_return result))) (\<lambda>_. ?I)"
    proof (rule triple_bind [OF persist_triple [where op = op and tid = tid and bytes_of = bytes_of, OF hex signed]])
      fix ref :: spool_reference
      let ?good = "sp_relative_path ref = relative_path sha op \<and> sp_signed_sha256 ref = sha (bytes_of op)
         \<and> sp_signed_length ref = int (length (bytes_of op))"
      show "triple ?I (\<lambda>w. ?I w \<and> at_tx tid op w \<and> map_of (wd_spool w) (relative_path sha op) = Some (bytes_of op)
          \<and> sp_relative_path ref = relative_path sha op \<and> sp_signed_sha256 ref = sha (bytes_of op)
          \<and> sp_signed_length ref = int (length (bytes_of op)))
        (act_bind (act_write (persist_reference_txn clk tid x (st_transaction_hash signed) ref clk)) (\<lambda>(result, fresh).
         if fresh then act_bind (act_lift (hit crash CP_after_hash_reference_persistence)) (\<lambda>_. act_return ref)
         else act_return result)) (\<lambda>_. ?I)"
        using record_triple [of ref sha op bytes_of h tid clk x "st_transaction_hash signed" clk crash]
        by (cases ?good) (auto simp: triple_def)
    qed
  qed
qed

lemma sign_prepared_triple:
  assumes hex: "hex_digests h sha" and contract: "signer_contract ext bytes_of"
  shows "triple (sub_inv h sha bytes_of) (sub_inv h sha bytes_of) (sign_prepared h sha crash ext clk tid request gates)
    (\<lambda>_. sub_inv h sha bytes_of)"
proof -
  let ?I = "sub_inv h sha bytes_of" and ?op = "signer_operation_id h request"
  let ?at = "\<lambda>op w. sub_inv h sha bytes_of w \<and> at_tx tid op w"
  have lift: "triple ?I (?at op) (act_lift r) (\<lambda>_. ?at op)" for op and r :: "exn + 'x" by (rule triple_lift_same) simp
  have from_db: "triple ?I ?I (act_read (transaction_from tid)) (\<lambda>(t, i). ?at (it_signer_operation_id i))"
    by (rule triple_read) (auto dest: transaction_from_at_tx)
  have same: "triple ?I (?at op) (act_lift (ensure (op = ?op) e)) (\<lambda>_. ?at ?op)" for op e
    by (rule triple_lift) (auto simp: exn_simps)
  have gate: "triple ?I (?at ?op) (act_read (revalidate tid gates phase)) (\<lambda>_. ?at ?op)" for phase
    by (rule triple_read) auto
  have store: "triple ?I (\<lambda>w. ?I w \<and> at_tx tid ?op w \<and> st_operation_id signed = ?op \<and> st_signed_bytes signed = bytes_of ?op)
     (store_signed sha crash clk tid x gates signed) (\<lambda>_. ?I)" for signed x
    using store_signed_triple [OF hex, of signed ?op bytes_of tid crash clk x gates]
    by (cases "st_operation_id signed = ?op \<and> st_signed_bytes signed = bytes_of ?op") (auto simp: triple_def)
  have early: "triple ?I (?at op) (act_lift r) (\<lambda>_. ?I)" for op and r :: "exn + 'x" by (rule triple_lift) auto
  show ?thesis
    unfolding sign_prepared_def
    by (rule triple_bind [OF from_db])
      (auto intro!: triple_if early triple_bind [OF lift] triple_bind [OF same] triple_bind [OF gate]
        triple_bind [OF sign_call_triple [OF contract refl]] store)
qed

subsection \<open>Broadcasting\<close>

definition at_signed :: "string \<Rightarrow> string \<Rightarrow> string \<Rightarrow> world \<Rightarrow> bool" where
  "at_signed tid op hash w \<longleftrightarrow> (\<exists>t. find_transaction tid (wd_db w) = Some t \<and> op_of (wd_db w) t = Some op
     \<and> signed_state (tx_state t) \<and> tx_transaction_hash t = Some hash)"

definition at_sent :: "string \<Rightarrow> string \<Rightarrow> string \<Rightarrow> world \<Rightarrow> bool" where
  "at_sent tid op hash w \<longleftrightarrow> (\<exists>t. find_transaction tid (wd_db w) = Some t \<and> op_of (wd_db w) t = Some op
     \<and> sent_state (tx_state t) \<and> tx_transaction_hash t = Some hash)"

lemma broadcast_start_inv:
  assumes inv: "sub_inv h sha bytes_of w" and at: "at_signed tid op hash w"
    and run: "broadcast_start_txn clk tid x rep at (wd_db w) = Inr (u, d)"
  shows "sub_inv h sha bytes_of (w\<lparr>wd_db := d\<rparr>) \<and> at_sent tid op hash (w\<lparr>wd_db := d\<rparr>)"
proof -
  from at obtain t where t: "find_transaction tid (wd_db w) = Some t" "op_of (wd_db w) t = Some op"
    "signed_state (tx_state t)" "tx_transaction_hash t = Some hash" by (auto simp: at_signed_def)
  let ?f = "\<lambda>r. r\<lparr>tx_state := T_broadcast_unknown, tx_broadcast_started_at := Some at\<rparr>"
  from run t(1) have d: "same_ops (wd_db w) d" "t_transactions d = t_transactions (update_transaction tid ?f (wd_db w))"
    by (auto simp: broadcast_start_txn_def exn_simps transaction_from_Inr)
  from sent_step [OF inv t(1-3) d] t(4) show ?thesis by (simp add: at_sent_def sent_state_def)
qed

lemma acknowledge_inv:
  assumes inv: "sub_inv h sha bytes_of w" and run: "acknowledge_txn clk tid x result (wd_db w) = Inr (u, d)"
  shows "sub_inv h sha bytes_of (w\<lparr>wd_db := d\<rparr>)"
proof -
  let ?f = "\<lambda>r. r\<lparr>tx_state := T_submitted, tx_submitted_at := Some clk\<rparr>"
  from run obtain t i where t: "find_transaction tid (wd_db w) = Some t" "find_intent (tx_intent_id t) (wd_db w) = Some i"
    and state: "tx_state t = T_broadcast_unknown" and d: "same_ops (wd_db w) d"
      "t_transactions d = t_transactions (update_transaction tid ?f (wd_db w))"
    by (auto simp: acknowledge_txn_def exn_simps transaction_from_Inr)
  have op: "op_of (wd_db w) t = Some (it_signer_operation_id i)" by (simp add: op_of_def t(2))
  show ?thesis
    by (rule sent_step(1) [OF inv t(1) op _ d]) (simp_all add: state signed_state_def sent_state_def)
qed

lemma send_signed_triple:
  "triple (sub_inv h sha bytes_of) (\<lambda>w. sub_inv h sha bytes_of w \<and> at_signed tid op hash w)
     (send_signed crash bc clk tid x gates rep hash (bytes_of op)) (\<lambda>_. sub_inv h sha bytes_of)"
proof -
  let ?I = "sub_inv h sha bytes_of"
  let ?P = "\<lambda>w. ?I w \<and> at_signed tid op hash w" and ?R = "\<lambda>w. ?I w \<and> at_sent tid op hash w"
  have lift: "triple ?I ?P (act_lift r) (\<lambda>_. ?P)" for r :: "exn + 'x" by (rule triple_lift_same) simp
  have start: "triple ?I ?P (act_write (broadcast_start_txn clk tid x rep at)) (\<lambda>_. ?R)" for at
    by (rule triple_db_write) (auto dest: broadcast_start_inv)
  have send: "triple ?I ?R (act_broadcast bc (bytes_of op) hash) (\<lambda>_. ?I)"
  proof -
    have "?I (w\<lparr>wd_sent := wd_sent w @ [(bytes_of op, hash)]\<rparr>)" if "?R w" for w
    proof -
      from that obtain t where t: "find_transaction tid (wd_db w) = Some t" "op_of (wd_db w) t = Some op" "sent_state (tx_state t)"
        "tx_transaction_hash t = Some hash" by (auto simp: at_sent_def)
      then have "sent_ok bytes_of (wd_db w) (bytes_of op, hash)"
        using find_transactionD [OF t(1)] unfolding sent_ok_def by auto
      with that show ?thesis by (simp add: sub_inv_def)
    qed
    then show ?thesis by (auto simp: triple_def act_broadcast_def split: sum.splits)
  qed
  have ack: "triple ?I ?I (act_write (acknowledge_txn clk tid x result)) (\<lambda>_. ?I)" for result
    by (rule triple_db_write) (auto intro: acknowledge_inv)
  show ?thesis
    unfolding send_signed_def
    by (intro triple_bind [OF lift] triple_bind [OF start] triple_bind [OF send] triple_if
        triple_bind [OF triple_keep(1)] triple_bind [OF ack] triple_keep(2))
qed

lemma loaded_bytes:
  assumes hex: "hex_digests h sha" and inv: "sub_inv h sha bytes_of w" and t: "transaction_from tid (wd_db w) = Inr (t, i)"
    and state: "signed_state (tx_state t)" and ref: "reference_of (t, i) = Inr ref"
    and load: "spool_load sha ref (wd_spool w) = Inr data"
  shows "data = bytes_of (it_signer_operation_id i)"
proof -
  have find: "find_transaction tid (wd_db w) = Some t" "op_of (wd_db w) t = Some (it_signer_operation_id i)"
    and i: "i \<in> set (t_intents (wd_db w))" using t by (auto simp: transaction_from_Inr op_of_def dest: find_intentD)
  from sub_invD(3) [OF inv i] have res: "resolve (relative_path sha (it_signer_operation_id i)) = Some (relative_path sha (it_signer_operation_id i))"
    using resolve_relative_path [OF hex] by auto
  from recorded_state [OF inv find state] ref have "sp_relative_path ref = relative_path sha (it_signer_operation_id i)"
    by (auto simp: recorded_def reference_of_def)
  with load res have "map_of (wd_spool w) (relative_path sha (it_signer_operation_id i)) = Some data"
    by (auto simp: spool_load_def exn_simps)
  then show ?thesis by (rule sub_invD(4) [OF inv])
qed

lemma broadcast_triple:
  assumes hex: "hex_digests h sha"
  shows "triple (sub_inv h sha bytes_of) (sub_inv h sha bytes_of) (broadcast sha crash bc clk tid gates rep) (\<lambda>_. sub_inv h sha bytes_of)"
proof -
  let ?I = "sub_inv h sha bytes_of"
  let ?A = "\<lambda>t i w. ?I w \<and> transaction_from tid (wd_db w) = Inr (t, i)"
  let ?B = "\<lambda>t i w. ?A t i w \<and> broadcast_allowed rep (tx_state t)"
  have from_db: "triple ?I ?I (act_read (transaction_from tid)) (\<lambda>(t, i). ?A t i)" by (rule triple_read) auto
  have allowed: "triple ?I (?A t i) (act_lift (ensure (broadcast_allowed rep (tx_state t)) e)) (\<lambda>_. ?B t i)" for t i e
    by (rule triple_lift) (auto simp: exn_simps)
  have gate: "triple ?I (?B t i) (act_read (revalidate tid gates phase)) (\<lambda>_. ?B t i)" for t i phase by (rule triple_read) auto
  have ref: "triple ?I (?B t i) (act_lift (reference_of (t, i))) (\<lambda>ref w. ?B t i w \<and> reference_of (t, i) = Inr ref)" for t i
    by (rule triple_lift) auto
  have load: "triple ?I (\<lambda>w. ?B t i w \<and> reference_of (t, i) = Inr ref) (act_spool (\<lambda>sp. (spool_load sha ref sp, sp)))
      (\<lambda>data w. ?B t i w \<and> data = bytes_of (it_signer_operation_id i))" for t i ref
    using loaded_bytes [OF hex, where tid = tid and t = t and i = i and ref = ref and bytes_of = bytes_of]
    by (auto simp: triple_def act_spool_def broadcast_allowed_def signed_state_def sent_state_def split: sum.splits)
  have send: "triple ?I (\<lambda>w. ?B t i w \<and> data = bytes_of (it_signer_operation_id i))
      (send_signed crash bc clk tid x gates rep (case tx_transaction_hash t of None \<Rightarrow> ''None'' | Some x \<Rightarrow> x) data) (\<lambda>_. ?I)" for t i data x
  proof -
    have at: "at_signed tid (it_signer_operation_id i) (case tx_transaction_hash t of None \<Rightarrow> ''None'' | Some x \<Rightarrow> x) w" if "?B t i w" for w
    proof -
      have find: "find_transaction tid (wd_db w) = Some t" "op_of (wd_db w) t = Some (it_signer_operation_id i)" "signed_state (tx_state t)"
        using that by (auto simp: transaction_from_Inr op_of_def broadcast_allowed_def signed_state_def sent_state_def)
      have "recorded sha bytes_of (wd_spool w) (it_signer_operation_id i) t"
        using recorded_state [OF _ find] that by blast
      with find show ?thesis by (auto simp: at_signed_def recorded_def)
    qed
    show ?thesis
    proof (cases "data = bytes_of (it_signer_operation_id i)")
      case True
      with at send_signed_triple [of h sha bytes_of tid "it_signer_operation_id i" _ crash bc clk x gates rep]
      show ?thesis by (fastforce simp: triple_def)
    qed (simp add: triple_def)
  qed
  show ?thesis
    unfolding broadcast_def
    by (rule triple_bind [OF from_db])
      (auto intro!: triple_bind [OF allowed] triple_bind [OF gate] triple_bind [OF ref] triple_bind [OF load] send)
qed

subsection \<open>Preparing, observing, recovering\<close>

lemma observation_inv:
  assumes inv: "sub_inv h sha bytes_of w" and states: "\<forall>s\<in>set expected. sent_state s" "sent_state to_state"
    and run: "advance_observation_txn clk tid expected to_state column at (wd_db w) = Inr (u, d)"
  shows "sub_inv h sha bytes_of (w\<lparr>wd_db := d\<rparr>)"
proof (cases "d = wd_db w")
  case True
  with inv show ?thesis by simp
next
  case False
  with run obtain t i s where t: "find_transaction tid (wd_db w) = Some t" "find_intent (tx_intent_id t) (wd_db w) = Some i"
    and state: "sent_state (tx_state t)" and d: "same_ops (wd_db w) d"
      "t_transactions d = t_transactions (update_transaction tid (\<lambda>r. stamp column s (r\<lparr>tx_state := to_state\<rparr>)) (wd_db w))"
    using states(1) by (auto simp: advance_observation_txn_def exn_simps transaction_from_Inr split: if_splits)
  have op: "op_of (wd_db w) t = Some (it_signer_operation_id i)" by (simp add: op_of_def t(2))
  show ?thesis
    by (rule sent_step(1) [OF inv t(1) op _ d]) (cases column; simp add: stamp_def state states(2) signed_state_def)+
qed

lemma observe_triple:
  "triple (sub_inv h sha bytes_of) (sub_inv h sha bytes_of) (submission_record_included clk tid at) (\<lambda>_. sub_inv h sha bytes_of)"
  "triple (sub_inv h sha bytes_of) (sub_inv h sha bytes_of) (submission_record_finalized clk tid at) (\<lambda>_. sub_inv h sha bytes_of)"
proof -
  have body: "triple (sub_inv h sha bytes_of) (sub_inv h sha bytes_of)
      (act_write (advance_observation_txn clk tid expected to_state column at)) (\<lambda>_. sub_inv h sha bytes_of)"
    if "\<forall>s\<in>set expected. sent_state s" "sent_state to_state" for expected to_state column
    by (rule triple_db_write) (auto intro: observation_inv [OF _ that])
  show "triple (sub_inv h sha bytes_of) (sub_inv h sha bytes_of) (submission_record_included clk tid at) (\<lambda>_. sub_inv h sha bytes_of)"
    unfolding submission_record_included_def by (rule body) (simp_all add: sent_state_def)
  show "triple (sub_inv h sha bytes_of) (sub_inv h sha bytes_of) (submission_record_finalized clk tid at) (\<lambda>_. sub_inv h sha bytes_of)"
    unfolding submission_record_finalized_def by (rule body) (simp_all add: sent_state_def)
qed

lemma prepare_inv:
  assumes inv: "sub_inv h sha bytes_of w"
    and run: "prepare_intent_txn crash clk (signer_operation_id h r) a b c p (wd_db w) = Inr (x, d)"
  shows "sub_inv h sha bytes_of (w\<lparr>wd_db := d\<rparr>)"
proof (cases "find_intent (sr_intent_id (ip_request p)) (wd_db w)")
  case (Some existing)
  with run have "d = wd_db w" by (auto simp: prepare_intent_txn_def Let_def split: if_splits)
  with inv show ?thesis by simp
next
  case None
  let ?i = "new_intent (signer_operation_id h r) a b c p" and ?t = "new_transaction p"
  from run None have d: "t_intents d = t_intents (wd_db w) @ [?i]" "t_transactions d = t_transactions (wd_db w) @ [?t]"
    and new: "find_transaction (ip_transaction_id p) (wd_db w) = None"
    by (auto simp: prepare_intent_txn_def Let_def exn_simps append_transition_def bind_nonce_intent_def split: option.splits)
  have find: "find_intent y d = (case find_intent y (wd_db w) of None \<Rightarrow> if y = sr_intent_id (ip_request p) then Some ?i else None | Some j \<Rightarrow> Some j)" for y
    by (simp add: find_intent_def d(1) find_append new_intent_def split: option.splits)
  have op: "op_of d t = Some op" if "op_of (wd_db w) t = Some op" for t op
    using that by (auto simp: op_of_def find split: option.splits)
  have newop: "op_of d ?t = Some (signer_operation_id h r)"
    using None by (simp add: op_of_def find new_transaction_def new_intent_def)
  have "tx_good sha bytes_of (wd_spool w) (signer_operation_id h r) ?t"
    by (simp add: tx_good_def new_transaction_def unsigned_state_def)
  moreover have "distinct (map tx_transaction_id (t_transactions d))"
    using sub_invD(1) [OF inv] new by (auto simp: d(2) find_transaction_def find_None_iff new_transaction_def)
  moreover have "sent_ok bytes_of d x" if "sent_ok bytes_of (wd_db w) x" for x
  proof -
    from that obtain t op' where "t \<in> set (t_transactions (wd_db w))" "op_of (wd_db w) t = Some op'" "sent_state (tx_state t)"
      "tx_transaction_hash t = Some (snd x)" "fst x = bytes_of op'" unfolding sent_ok_def by blast
    then show ?thesis using op unfolding sent_ok_def d(2) by (metis UnCI set_append)
  qed
  moreover have "\<exists>op. op_of d t = Some op \<and> tx_good sha bytes_of (wd_spool w) op t" if "t \<in> set (t_transactions (wd_db w))" for t
    using sub_invD(2) [OF inv that] op by blast
  ultimately show ?thesis
    using sub_invD(3-6) [OF inv] newop unfolding sub_inv_def
    by (auto simp: d new_intent_def)
qed

lemma prepare_triple:
  "triple (sub_inv h sha bytes_of) (sub_inv h sha bytes_of) (prepare_intent h crash clk p now) (\<lambda>_. sub_inv h sha bytes_of)"
proof -
  have body: "triple (sub_inv h sha bytes_of) (sub_inv h sha bytes_of)
      (act_write (prepare_intent_txn crash clk (signer_operation_id h r) a b c p)) (\<lambda>_. sub_inv h sha bytes_of)" for r a b c
    by (rule triple_db_write) (auto intro: prepare_inv)
  show ?thesis
    unfolding prepare_intent_def
    by (rule triple_bind [OF triple_keep(1)])
      (auto intro!: triple_bind [OF body] triple_if triple_bind [OF triple_keep(1)] triple_keep(2))
qed

text \<open>Quarantine: a name outside the quarantine is kept as it was or, when it is an orphan, gone.\<close>

lemma map_of_filter_neq: "p \<noteq> q \<Longrightarrow> map_of (filter (\<lambda>f. fst f \<noteq> q) sp) p = map_of sp p"
  by (induction sp) auto

lemma map_of_filter_self: "map_of (filter (\<lambda>f. fst f \<noteq> q) sp) q = None"
  by (auto simp: map_of_eq_None_iff)

lemma move_lookup:
  assumes "p \<noteq> destination"
  shows "map_of (move_file source destination sp) p = (if p = source then None else map_of sp p)"
  using assms by (auto simp: move_file_def map_of_filter_neq map_of_filter_self split: option.splits)

lemma quarantine_lookup:
  assumes "\<And>q. p \<noteq> quarantine_name sha q"
  shows "map_of (fold (\<lambda>q. move_file q (quarantine_name sha q)) orphans sp) p = (if p \<in> set orphans then None else map_of sp p)"
  by (induction orphans arbitrary: sp) (auto simp: move_lookup [OF assms])

lemma quarantine_keeps:
  assumes "quarantine_orphans sha referenced sp = (orphans, sp')"
  shows "map_of sp' (relative_path sha op) = (if relative_path sha op \<in> set orphans then None else map_of sp (relative_path sha op))"
    and "\<And>p. p \<in> set orphans \<Longrightarrow> p \<notin> set referenced"
proof -
  have sp': "sp' = fold (\<lambda>q. move_file q (quarantine_name sha q)) orphans sp" and "set orphans \<inter> set referenced = {}"
    using assms by (auto simp: quarantine_orphans_def Let_def)
  then show "\<And>p. p \<in> set orphans \<Longrightarrow> p \<notin> set referenced" by blast
  show "map_of sp' (relative_path sha op) = (if relative_path sha op \<in> set orphans then None else map_of sp (relative_path sha op))"
    unfolding sp' by (rule quarantine_lookup) (rule quarantine_not_signed [symmetric])
qed

lemma recovery_referenced:
  assumes "t \<in> set (t_transactions d)" "find_intent (tx_intent_id t) d = Some i" "tx_spool_relative_path t = Some path"
  shows "path \<in> set (List.map_filter (referenced_path sha sp) (recovery_rows d))"
proof -
  have "(t, i) \<in> set (recovery_rows d)" using assms by (auto simp: recovery_rows_def set_map_filter_xir)
  moreover have "referenced_path sha sp (t, i) = Some path" using assms(3) by (simp add: referenced_path_def)
  ultimately show ?thesis by (auto simp: set_map_filter_xir)
qed

lemma recover_inv:
  assumes inv: "sub_inv h sha bytes_of w"
  shows "sub_inv h sha bytes_of (snd (recover_spool sha w))"
proof -
  let ?ref = "List.map_filter (referenced_path sha (wd_spool w)) (recovery_rows (wd_db w))"
  obtain orphans sp where q: "quarantine_orphans sha ?ref (wd_spool w) = (orphans, sp)" by (cases "quarantine_orphans sha ?ref (wd_spool w)")
  have w': "snd (recover_spool sha w) = w\<lparr>wd_spool := sp\<rparr>" by (simp add: recover_spool_def Let_def q)
  have rec: "recorded sha bytes_of sp op t"
    if t: "t \<in> set (t_transactions (wd_db w))" "op_of (wd_db w) t = Some op" "recorded sha bytes_of (wd_spool w) op t" for op t
  proof -
    from t obtain i where i: "find_intent (tx_intent_id t) (wd_db w) = Some i" by (auto simp: op_of_def)
    have "relative_path sha op \<in> set ?ref" by (rule recovery_referenced [OF t(1) i]) (use t(3) in \<open>simp add: recorded_def\<close>)
    with quarantine_keeps [OF q] t(3) show ?thesis by (auto simp: recorded_def)
  qed
  have "\<exists>op. op_of (wd_db w) t = Some op \<and> tx_good sha bytes_of sp op t" if "t \<in> set (t_transactions (wd_db w))" for t
    using sub_invD(2) [OF inv that] rec [OF that] by (auto simp: tx_good_def)
  moreover have "b = bytes_of op" if "map_of sp (relative_path sha op) = Some b" for op b
    using that quarantine_keeps(1) [OF q] sub_invD(4) [OF inv, of op b] by (auto split: if_splits)
  ultimately show ?thesis using inv by (simp add: w' sub_inv_def)
qed

section \<open>The coordinator as a state machine\<close>

text \<open>
  The calls of the coordinator, each with its own crash injector, clock and broadcaster, and steps of the
  other components, which write neither intents nor transactions nor spool files.
\<close>

inductive sub_step :: "(json \<Rightarrow> string) \<Rightarrow> (string \<Rightarrow> string) \<Rightarrow> signer \<Rightarrow> world \<Rightarrow> world \<Rightarrow> bool" for h sha ext where
  prepare: "sub_step h sha ext w (snd (prepare_intent h crash clk p now w))"
| sign: "sub_step h sha ext w (snd (sign_prepared h sha crash ext clk tid request gates w))"
| send: "sub_step h sha ext w (snd (broadcast sha crash bc clk tid gates rep w))"
| included: "sub_step h sha ext w (snd (submission_record_included clk tid at w))"
| finalized: "sub_step h sha ext w (snd (submission_record_finalized clk tid at w))"
| recover: "sub_step h sha ext w (snd (recover_spool sha w))"
| elsewhere: "t_intents d = t_intents (wd_db w) \<Longrightarrow> t_transactions d = t_transactions (wd_db w)
    \<Longrightarrow> sub_step h sha ext w (w\<lparr>wd_db := d\<rparr>)"

definition fresh_world :: "world \<Rightarrow> bool" where
  "fresh_world w \<longleftrightarrow> t_intents (wd_db w) = [] \<and> t_transactions (wd_db w) = [] \<and> wd_spool w = []
     \<and> wd_signed w = [] \<and> wd_sent w = []"

lemma step_inv:
  assumes hex: "hex_digests h sha" and contract: "signer_contract ext bytes_of"
    and inv: "sub_inv h sha bytes_of w" and step: "sub_step h sha ext w w'"
  shows "sub_inv h sha bytes_of w'"
  using step
proof cases
  case (elsewhere d)
  have "op_of d t = op_of (wd_db w) t" for t by (simp add: op_of_def find_intent_def elsewhere)
  with inv elsewhere show ?thesis by (simp add: sub_inv_def sent_ok_def)
qed (use inv in \<open>auto intro!: recover_inv triple_keeps [OF prepare_triple] triple_keeps [OF sign_prepared_triple [OF hex contract]]
    triple_keeps [OF broadcast_triple [OF hex]] triple_keeps [OF observe_triple(1)] triple_keeps [OF observe_triple(2)]\<close>)

text \<open>The invariant under the assumptions on the outside, for any digests, signer and contract.\<close>

definition assumed_inv :: "(json \<Rightarrow> string) \<Rightarrow> (string \<Rightarrow> string) \<Rightarrow> signer \<Rightarrow> (string \<Rightarrow> string) \<Rightarrow> world \<Rightarrow> bool" where
  "assumed_inv h sha ext bytes_of w \<longleftrightarrow> (hex_digests h sha \<and> signer_contract ext bytes_of \<longrightarrow> sub_inv h sha bytes_of w)"

interpretation submission: transition_system fresh_world "sub_step h sha ext" "assumed_inv h sha ext bytes_of"
  for h sha ext bytes_of
proof
  show "assumed_inv h sha ext bytes_of w" if "fresh_world w" for w
    using that by (simp add: assumed_inv_def fresh_world_def sub_inv_def)
  show "assumed_inv h sha ext bytes_of w'" if "assumed_inv h sha ext bytes_of w" "sub_step h sha ext w w'" for w w'
    using that step_inv by (auto simp: assumed_inv_def)
qed

lemma reached_inv:
  "hex_digests h sha \<Longrightarrow> signer_contract ext bytes_of \<Longrightarrow> fresh_world w0 \<Longrightarrow> (sub_step h sha ext)\<^sup>*\<^sup>* w0 w
     \<Longrightarrow> sub_inv h sha bytes_of w"
  using submission.reachable_inv [where h = h and sha = sha and ext = ext and bytes_of = bytes_of]
  by (simp add: assumed_inv_def)

section \<open>Properties\<close>

text \<open>
  C28: write-ahead. In every world the coordinator can reach, crashes and failing parties included, the
  signer has been asked only for operations of a durable intent, and every byte string the broadcaster was
  given is the signed transaction of a durable row whose state says that it may be on chain, under the
  transaction hash recorded there.
\<close>

theorem nothing_leaves_unrecorded:
  assumes "hex_digests h sha" and "signer_contract ext bytes_of" and "fresh_world w0" and "(sub_step h sha ext)\<^sup>*\<^sup>* w0 w"
  shows "(\<forall>op\<in>set (wd_signed w). \<exists>i\<in>set (t_intents (wd_db w)). it_signer_operation_id i = op)
    \<and> (\<forall>(bytes, hash)\<in>set (wd_sent w). \<exists>t\<in>set (t_transactions (wd_db w)). \<exists>i\<in>set (t_intents (wd_db w)).
         tx_intent_id t = it_intent_id i \<and> bytes = bytes_of (it_signer_operation_id i)
         \<and> tx_transaction_hash t = Some hash
         \<and> tx_state t \<in> {T_broadcast_unknown, T_submitted, T_included, T_finalized})"
proof -
  have inv: "sub_inv h sha bytes_of w" by (rule reached_inv [OF assms])
  have "\<exists>t\<in>set (t_transactions (wd_db w)). \<exists>i\<in>set (t_intents (wd_db w)).
         tx_intent_id t = it_intent_id i \<and> bytes = bytes_of (it_signer_operation_id i)
         \<and> tx_transaction_hash t = Some hash \<and> tx_state t \<in> {T_broadcast_unknown, T_submitted, T_included, T_finalized}"
    if "(bytes, hash) \<in> set (wd_sent w)" for bytes hash
  proof -
    from sub_invD(6) [OF inv that] obtain t i where "t \<in> set (t_transactions (wd_db w))"
      "find_intent (tx_intent_id t) (wd_db w) = Some i" "sent_state (tx_state t)" "tx_transaction_hash t = Some hash"
      "bytes = bytes_of (it_signer_operation_id i)" by (auto simp: sent_ok_def op_of_def)
    then show ?thesis using find_intentD [of "tx_intent_id t" "wd_db w" i]
      by (intro bexI [of _ t] bexI [of _ i]) (auto simp: sent_state_def)
  qed
  with sub_invD(5) [OF inv] show ?thesis by blast
qed

lemma recorded_loads:
  assumes hex: "hex_digests h sha" and inv: "sub_inv h sha bytes_of w"
    and t: "t \<in> set (t_transactions (wd_db w))" "find_intent (tx_intent_id t) (wd_db w) = Some i" "signed_state (tx_state t)"
  shows "\<exists>ref. reference_of (t, i) = Inr ref \<and> recorded_reference (t, i) = Inr ref
    \<and> spool_load sha ref (wd_spool w) = Inr (bytes_of (it_signer_operation_id i))"
proof -
  let ?op = "it_signer_operation_id i"
  have "recorded sha bytes_of (wd_spool w) ?op t"
    using sub_invD(2) [OF inv t(1)] t(2,3) by (auto simp: op_of_def tx_good_def unsigned_state_def signed_state_def sent_state_def)
  moreover have "resolve (relative_path sha ?op) = Some (relative_path sha ?op)"
    using sub_invD(3) [OF inv, of i] find_intentD [OF t(2)] resolve_relative_path [OF hex] by auto
  ultimately show ?thesis
    by (auto simp: recorded_def reference_of_def recorded_reference_def spool_load_def)
qed

lemma no_corruption:
  assumes hex: "hex_digests h sha" and inv: "sub_inv h sha bytes_of w"
    and rows: "set rows \<subseteq> set (recovery_rows (wd_db w))" and spool: "sub_inv h sha bytes_of (w\<lparr>wd_spool := sp\<rparr>)"
  shows "corrupt_transactions sha sp rows = Inr []"
  using rows
proof (induction rows)
  case (Cons row rows)
  obtain t i where row: "row = (t, i)" by (cases row)
  from Cons.prems have t: "t \<in> set (t_transactions (wd_db w))" "find_intent (tx_intent_id t) (wd_db w) = Some i"
    by (auto simp: row recovery_rows_def set_map_filter_xir)
  show ?case
  proof (cases "tx_spool_relative_path t")
    case (Some path)
    with sub_invD(2) [OF inv t(1)] have "signed_state (tx_state t)" by (auto simp: tx_good_def)
    from recorded_loads [OF hex spool _ _ this] t Cons show ?thesis by (auto simp: row Some)
  qed (use Cons row in simp)
qed simp

text \<open>
  C29: crash recovery. In every reachable world the bytes of every transaction that was persisted, and so
  of every transaction that may be on chain, can still be loaded from the spool and are exactly the bytes
  the signer returned for its operation; \<^verbatim>\<open>recover_spool\<close> reports no corrupt reference and after it
  the same bytes still load, so it never takes a file that a transaction needs.
\<close>

theorem signed_bytes_survive:
  assumes "hex_digests h sha" and "signer_contract ext bytes_of" and "fresh_world w0" and "(sub_step h sha ext)\<^sup>*\<^sup>* w0 w"
    and "transaction_from tid (wd_db w) = Inr (t, i)"
    and "tx_state t \<in> {T_signed_hash_persisted, T_broadcast_unknown, T_submitted, T_included, T_finalized}"
  shows "\<exists>ref report w'. reference_of (t, i) = Inr ref
    \<and> spool_load sha ref (wd_spool w) = Inr (bytes_of (it_signer_operation_id i))
    \<and> recover_spool sha w = (Inr report, w') \<and> rr_corrupt_references report = []
    \<and> wd_db w' = wd_db w \<and> spool_load sha ref (wd_spool w') = Inr (bytes_of (it_signer_operation_id i))"
proof -
  have inv: "sub_inv h sha bytes_of w" by (rule reached_inv [OF assms(1-4)])
  have t: "t \<in> set (t_transactions (wd_db w))" "find_intent (tx_intent_id t) (wd_db w) = Some i" "signed_state (tx_state t)"
    using assms(5,6) by (auto simp: transaction_from_Inr signed_state_def sent_state_def dest: find_transactionD)
  let ?ref = "List.map_filter (referenced_path sha (wd_spool w)) (recovery_rows (wd_db w))"
  obtain orphans sp where q: "quarantine_orphans sha ?ref (wd_spool w) = (orphans, sp)" by (cases "quarantine_orphans sha ?ref (wd_spool w)")
  have w': "snd (recover_spool sha w) = w\<lparr>wd_spool := sp\<rparr>" by (simp add: recover_spool_def Let_def q)
  then have after: "sub_inv h sha bytes_of (w\<lparr>wd_spool := sp\<rparr>)" using recover_inv [OF inv] by simp
  obtain report where rep: "recover_spool sha w = (Inr report, w\<lparr>wd_spool := sp\<rparr>)" "rr_corrupt_references report = []"
    using no_corruption [OF assms(1) inv subset_refl after]
    by (auto simp: recover_spool_def Let_def q text_sort_def)
  from recorded_loads [OF assms(1) inv t] recorded_loads [OF assms(1) after, of t i] t rep show ?thesis by auto
qed

end
