(* ===== verification/Xir_Resolution.thy ===== *)
theory Xir_Resolution
  imports Xir_Submission_Properties Xir_Controls
begin

text \<open>
  \<^verbatim>\<open>execute/resolution.py\<close>: what to do with a submission whose outcome is unknown, and bounded
  replacements of a pending transaction under the same nonce. The public provider is two functions,
  the lookup of a transaction hash and of an account nonce, each of which may raise; an exception of
  theirs is caught by the code.
\<close>

section \<open>Ambiguous submissions\<close>

record probe =
  pb_transaction_hash :: string
  pb_nonce :: int
  pb_included :: bool
  pb_canonical :: bool

datatype resolution_status = R_unknown | R_conflict | R_included | R_submitted | R_not_found

record resolution_result =
  rv_transaction_id :: string
  rv_status :: resolution_status
  rv_reason_code :: string
  rv_safe_to_repeat :: bool

type_synonym hash_lookup = "int \<Rightarrow> string \<Rightarrow> exn + probe option"
type_synonym nonce_lookup = "int \<Rightarrow> string \<Rightarrow> exn + int option"

definition resolution_time :: "int \<Rightarrow> pydatetime option \<Rightarrow> exn + int" where
  "resolution_time clk value = utc_of (ResolutionError RS_naive_time) clk value"

definition advance_txn ::
  "int \<Rightarrow> string \<Rightarrow> string \<Rightarrow> tx_state \<Rightarrow> tx_state \<Rightarrow> pydatetime option \<Rightarrow> unit txn" where
  "advance_txn clk transaction_id intent_id from_state to_state checked_at db =
     bindE (ensure (map_option tx_state (find_transaction transaction_id db) = Some from_state)
              (ResolutionError RS_changed)) (\<lambda>_.
     bindE (resolution_time clk checked_at) (\<lambda>at.
     Inr ((), append_transition clk ''transaction'' transaction_id (Some (E_tx from_state)) (E_tx to_state)
                (JObj [(''resolution'', JStr ''precomputed_hash'')])
                (set_intent_state intent_id to_state
                  (update_transaction transaction_id
                    (\<lambda>r. if to_state = T_included then r\<lparr>tx_state := to_state, tx_included_at := Some at\<rparr>
                         else r\<lparr>tx_state := to_state, tx_submitted_at := Some at\<rparr>) db)))))"

definition advance ::
  "int \<Rightarrow> string \<Rightarrow> string \<Rightarrow> tx_state \<Rightarrow> tx_state \<Rightarrow> pydatetime option \<Rightarrow> db \<Rightarrow> unit outcome" where
  "advance clk transaction_id intent_id from_state to_state checked_at db =
     (if from_state = to_state then (Inr (), db)
      else store_write (advance_txn clk transaction_id intent_id from_state to_state checked_at) db)"

definition conflict_material :: "string \<Rightarrow> string \<Rightarrow> string \<Rightarrow> int \<Rightarrow> json" where
  "conflict_material run_id transaction_id reason_code occurred_at =
     JObj [(''run_id'', JStr run_id), (''transaction_id'', JStr transaction_id),
           (''reason_code'', JStr reason_code), (''occurred_at'', JTime occurred_at)]"

definition conflict_id :: "string \<Rightarrow> string" where
  "conflict_id digest = ''violation_'' @ take 24 digest"

definition record_conflict_txn :: "string \<Rightarrow> string \<Rightarrow> json \<Rightarrow> unit txn" where
  "record_conflict_txn violation_id run_id material db =
     (if list_ex (\<lambda>v. iv_violation_id v = violation_id) (t_violations db) then Inr ((), db)
      else bindE (ensure (find_run run_id db \<noteq> None) IntegrityError) (\<lambda>_.
           Inr ((), db\<lparr>t_violations := t_violations db @
             [\<lparr>iv_violation_id = violation_id, iv_run_id = run_id, iv_invariant_code = ''ambiguous_submission_conflict'',
               iv_details = material, iv_resolved_at = None\<rparr>]\<rparr>)))"

definition halt_conflict ::
  "(json \<Rightarrow> string) \<Rightarrow> int \<Rightarrow> string \<Rightarrow> string \<Rightarrow> string \<Rightarrow> pydatetime option \<Rightarrow> db \<Rightarrow> unit outcome" where
  "halt_conflict h clk run_id transaction_id reason_code checked_at db =
     (case resolution_time clk checked_at of
        Inl e \<Rightarrow> (Inl e, db)
      | Inr occurred_at \<Rightarrow>
          let material = conflict_material run_id transaction_id reason_code occurred_at; digest = h material;
              decision = \<lparr>dc_decision_id = conflict_id digest, dc_decision_sha256 = digest,
                          dc_reason_code = reason_code, dc_approval_payload_sha256 = None\<rparr>
          in case store_write (record_conflict_txn (conflict_id digest) run_id material) db of
               (Inl e, db1) \<Rightarrow> (Inl e, db1)
             | (Inr _, db1) \<Rightarrow>
                 (case control_state_of run_id db1 of
                    Inl e \<Rightarrow> (Inl e, db1)
                  | Inr state \<Rightarrow>
                      if ct_mode state = Running \<or> ct_mode state = Drain
                      then (case halt clk run_id decision (Some (Aware occurred_at)) db1 of
                              (Inl e, db2) \<Rightarrow> (Inl e, db2) | (Inr _, db2) \<Rightarrow> (Inr (), db2))
                      else (Inr (), db1)))"

definition then_result :: "unit outcome \<Rightarrow> resolution_result \<Rightarrow> resolution_result outcome" where
  "then_result out result = (case out of (Inl e, db) \<Rightarrow> (Inl e, db) | (Inr _, db) \<Rightarrow> (Inr result, db))"

definition result_of :: "string \<Rightarrow> resolution_status \<Rightarrow> string \<Rightarrow> bool \<Rightarrow> resolution_result" where
  "result_of transaction_id status reason_code safe =
     \<lparr>rv_transaction_id = transaction_id, rv_status = status, rv_reason_code = reason_code, rv_safe_to_repeat = safe\<rparr>"

text \<open>The hash was found: a conflict when hash or nonce differ, progress otherwise.\<close>

definition resolve_found ::
  "(json \<Rightarrow> string) \<Rightarrow> int \<Rightarrow> transaction_row \<Rightarrow> string \<Rightarrow> string \<Rightarrow> probe \<Rightarrow> pydatetime option \<Rightarrow> db
     \<Rightarrow> resolution_result outcome" where
  "resolve_found h clk t run_id expected_hash p checked_at db =
     (let i = tx_transaction_id t; target = (if pb_included p \<and> pb_canonical p then T_included else T_submitted) in
      if lower (pb_transaction_hash p) \<noteq> lower expected_hash \<or> pb_nonce p \<noteq> tx_nonce t
      then then_result (halt_conflict h clk run_id i ''hash_or_nonce_conflict'' checked_at db)
             (result_of i R_conflict ''hash_or_nonce_conflict'' False)
      else then_result (advance clk i (tx_intent_id t) (tx_state t) target checked_at db)
             (result_of i (if target = T_included then R_included else R_submitted) ''precomputed_hash_found'' False))"

definition resolve_absent ::
  "(json \<Rightarrow> string) \<Rightarrow> int \<Rightarrow> transaction_row \<Rightarrow> string \<Rightarrow> exn + int option \<Rightarrow> pydatetime option \<Rightarrow> db
     \<Rightarrow> resolution_result outcome" where
  "resolve_absent h clk t run_id observed checked_at db =
     (let i = tx_transaction_id t in
      case observed of
        Inr (Some observed_nonce) \<Rightarrow>
          if observed_nonce > tx_nonce t
          then then_result (halt_conflict h clk run_id i ''nonce_consumed_without_known_hash'' checked_at db)
                 (result_of i R_conflict ''nonce_consumed_without_known_hash'' False)
          else (Inr (result_of i R_not_found ''exact_hash_absent_nonce_not_consumed'' True), db)
      | _ \<Rightarrow> (Inr (result_of i R_unknown ''nonce_lookup_unavailable'' False), db))"

definition resolve_submission ::
  "(json \<Rightarrow> string) \<Rightarrow> hash_lookup \<Rightarrow> nonce_lookup \<Rightarrow> int \<Rightarrow> string \<Rightarrow> string \<Rightarrow> pydatetime option \<Rightarrow> db
     \<Rightarrow> resolution_result outcome" where
  "resolve_submission h by_hash by_nonce clk transaction_id signer_address checked_at db =
     (case run_of_transaction transaction_id db of
        None \<Rightarrow> (Inl (ResolutionError RS_unknown_transaction), db)
      | Some (t, run_id) \<Rightarrow>
          if tx_state t \<noteq> T_broadcast_unknown \<and> tx_state t \<noteq> T_submitted
          then (Inl (ResolutionError RS_not_ambiguous), db)
          else (case tx_transaction_hash t of
                  None \<Rightarrow> (Inl (ResolutionError RS_no_hash), db)
                | Some expected_hash \<Rightarrow>
                    (case by_hash (tx_chain_id t) expected_hash of
                       Inl _ \<Rightarrow> (Inr (result_of transaction_id R_unknown ''hash_lookup_error'' False), db)
                     | Inr (Some p) \<Rightarrow> resolve_found h clk t run_id expected_hash p checked_at db
                     | Inr None \<Rightarrow> resolve_absent h clk t run_id (by_nonce (tx_chain_id t) signer_address) checked_at db)))"

section \<open>Replacements\<close>

text \<open>
  The recursive query over \<^verbatim>\<open>replaces_transaction_id\<close> counts a transaction and all it replaces;
  it has no bound of its own, so not returning is \<open>None\<close>.
\<close>

partial_function (option) ancestor_count :: "db \<Rightarrow> string \<Rightarrow> nat option" where
  "ancestor_count db i =
     (case find_transaction i db of
        None \<Rightarrow> Some 0
      | Some t \<Rightarrow> (case tx_replaces_transaction_id t of
           None \<Rightarrow> Some 1
         | Some predecessor \<Rightarrow> Option.bind (ancestor_count db predecessor) (\<lambda>n. Some (Suc n))))"

declare ancestor_count.simps [code]

definition replacement_manager :: "int \<Rightarrow> exn + int" where
  "replacement_manager maximum = (if maximum < 0 then Inl (ResolutionError RS_negative_maximum) else Inr maximum)"

definition check_predecessor :: "int \<Rightarrow> nat \<Rightarrow> transaction_row \<times> intent_row \<Rightarrow> intent_preparation \<Rightarrow> exn + unit" where
  "check_predecessor maximum count prior p =
     bindE (ensure (\<not> int count - 1 \<ge> maximum) (ResolutionError RS_limit_exhausted)) (\<lambda>_.
     bindE (ensure (tx_state (fst prior) \<in> {T_broadcast_unknown, T_submitted, T_orphaned})
              (ResolutionError RS_predecessor_state)) (\<lambda>_.
     ensure (\<not> (sr_chain_id (ip_request p) \<noteq> tx_chain_id (fst prior) \<or> sr_nonce (ip_request p) \<noteq> tx_nonce (fst prior)
                \<or> ip_stage_id p \<noteq> it_stage_id (snd prior))) (ResolutionError RS_replacement_changed)))"

definition gates_failure :: "exn \<Rightarrow> exn" where
  "gates_failure e = (case e of SubmissionError _ \<Rightarrow> ResolutionError RS_gates_failed | _ \<Rightarrow> e)"

definition prepare_replacement ::
  "(json \<Rightarrow> string) \<Rightarrow> (crash_point \<Rightarrow> bool) \<Rightarrow> int \<Rightarrow> int \<Rightarrow> string \<Rightarrow> intent_preparation \<Rightarrow> pydatetime option
     \<Rightarrow> world \<Rightarrow> ((exn + string) \<times> world) option" where
  "prepare_replacement h crash clk maximum prior_transaction_id p now w =
     (case Option.bind (find_transaction prior_transaction_id (wd_db w)) (\<lambda>t.
           map_option (\<lambda>i. (t, i)) (find_intent (tx_intent_id t) (wd_db w))) of
        None \<Rightarrow> Some (Inl (ResolutionError RS_unknown_predecessor), w)
      | Some prior \<Rightarrow>
          Option.bind (ancestor_count (wd_db w) prior_transaction_id) (\<lambda>count.
          case check_predecessor maximum count prior p of
            Inl e \<Rightarrow> Some (Inl e, w)
          | Inr _ \<Rightarrow>
              (case prepare_intent h crash clk (p\<lparr>ip_replaces_transaction_id := Some prior_transaction_id\<rparr>) now w of
                 (Inl e, w') \<Rightarrow> Some (Inl (gates_failure e), w')
               | (Inr operation_id, w') \<Rightarrow> Some (Inr operation_id, w'))))"

end
