(* ===== verification/Xir_Submission_Life.thy ===== *)
theory Xir_Submission_Life
  imports Xir_Submission_Properties
begin

text \<open>
  A complete submission as a concrete run, the witnesses of the crash-safety properties, and the life cycle
  of a transaction under all calls of the coordinator.
\<close>

section \<open>A submission\<close>

definition zeros :: string where
  "zeros = replicate 64 CHR ''0''"

definition demo_request :: signer_request where
  "demo_request = \<lparr>sr_network_id = ''net'', sr_chain_id = 1, sr_signer_id = ''s'', sr_intent_id = ''i'', sr_nonce = 7,
     sr_destination = None, sr_value_wei = 0, sr_calldata_sha256 = zeros, sr_calldata_length = 0, sr_fee_limit_wei = 5,
     sr_role = ''runner'', sr_config_sha256 = zeros, sr_code_sha256 = zeros, sr_gas_limit = 0,
     sr_max_fee_per_gas_wei = 0, sr_max_priority_fee_per_gas_wei = 0, sr_calldata_hex = [],
     sr_unsigned_transaction_sha256 = zeros\<rparr>"

definition demo_preparation :: intent_preparation where
  "demo_preparation = \<lparr>ip_transaction_id = ''t'', ip_stage_id = ''g'', ip_lineage_id = ''l'', ip_reservation_id = ''r'',
     ip_reservation_stage_key = ''k'', ip_approval_id = ''a'', ip_approval_payload_sha256 = zeros,
     ip_signer_identity_sha256 = zeros, ip_network_identity_sha256 = zeros, ip_quote_sha256 = zeros,
     ip_quote_valid_until = Aware 100, ip_simulation_sha256 = zeros, ip_simulation_valid_until = Aware 100,
     ip_payload_sha256 = zeros, ip_requested_wei = 5, ip_request = demo_request, ip_is_source_stage = True,
     ip_replaces_transaction_id = None\<rparr>"

definition demo_gates :: gate_evidence where
  "demo_gates = \<lparr>ge_approval_id = ''a'', ge_approval_payload_sha256 = zeros, ge_signer_id = ''s'',
     ge_signer_identity_sha256 = zeros, ge_network_identity_sha256 = zeros, ge_quote_sha256 = zeros,
     ge_observed_nonce = 7, ge_checked_at = Aware 50, ge_simulation_sha256 = zeros, ge_simulation_valid_until = Aware 100\<rparr>"

definition demo_ready :: db where
  "demo_ready = empty_db\<lparr>
     t_runs := [\<lparr>rn_run_id = ''run'', rn_profile_id = ''p'', rn_plan_sha256 = zeros, rn_state = Run_mode Running, rn_created_at = 0\<rparr>],
     t_conditions := [\<lparr>cd_condition_id = ''c'', cd_run_id = ''run'', cd_carrier_sequence = ''HY'', cd_state = ''planned''\<rparr>],
     t_attempts := [\<lparr>at_attempt_id = ''at'', at_condition_id = ''c'', at_pair_id = None, at_arm = Xir, at_attempt_kind = Pilot,
        at_original_attempt_kind = None, at_retry_of = None, at_schedule_index = None, at_batch_index = None,
        at_state = A_in_flight, at_created_at = 0\<rparr>],
     t_stages := [\<lparr>sg_stage_id = ''g'', sg_attempt_id = ''at'', sg_ordinal = 0, sg_stage_name = ''source-send'',
        sg_stage_template_id = None, sg_chain_id = Some 1, sg_accounting_bucket = None,
        sg_logical_labels = None, sg_state = G_planned\<rparr>],
     t_subs := [\<lparr>sb_subreservation_id = ''sub'', sb_reservation_id = ''r'', sb_attempt_id = ''at'', sb_stage_key = ''k'',
        sb_chain_id = 1, sb_lineage_id = Some ''l'', sb_reserved_wei = 10, sb_allocated_wei = 10, sb_provisional_wei = 0,
        sb_finalized_wei = 0, sb_state = S_active, sb_release_proof_sha256 = None,
        sb_manual_release_decision_sha256 = None, sb_signed_bytes_destroyed = False\<rparr>],
     t_nonce_leases := [\<lparr>nl_lease_id = ''n'', nl_lineage_id = ''l'', nl_chain_id = 1, nl_signer_id = ''s'', nl_holder_id = ''h'',
        nl_nonce = 7, nl_attempt_id = ''at'', nl_stage_key = ''k'', nl_reservation_id = ''r'', nl_intent_id = None,
        nl_acquired_at = 0, nl_expires_at = 100, nl_state = N_active, nl_locked = True, nl_released_at = None\<rparr>],
     t_budgets := [\<lparr>bg_reservation_id = ''r'', bg_attempt_id = ''at'', bg_run_id = ''run'', bg_batch_id = ''b'', bg_chain_id = 1,
        bg_reserved_wei = 10, bg_provisional_wei = 0, bg_finalized_wei = 0, bg_source_in_flight = True,
        bg_state = B_in_flight, bg_created_at = 0\<rparr>],
     t_consumptions := [\<lparr>ac_approval_id = ''a'', ac_issuer_id = ''ops'', ac_approval_key_id = ''k'', ac_issuer_sequence = 1,
        ac_operation_type = ''pilot'', ac_operation_id = ''op'', ac_payload_sha256 = zeros, ac_valid_from = 10,
        ac_valid_until = 90, ac_consumed_at = 20\<rparr>]\<rparr>"

definition demo_h :: "json \<Rightarrow> string" where "demo_h j = zeros"
definition demo_sha :: "string \<Rightarrow> string" where "demo_sha b = zeros"
definition demo_ext :: signer where
  "demo_ext op r = Inr \<lparr>st_operation_id = op, st_transaction_hash = ''0xaa'', st_signed_bytes = ''bytes''\<rparr>"
definition demo_bc :: broadcaster where
  "demo_bc b x = Inr \<lparr>br_accepted = True, br_provider_reference = None\<rparr>"

definition demo_w0 :: world where
  "demo_w0 = \<lparr>wd_db = demo_ready, wd_spool = [], wd_signed = [], wd_sent = []\<rparr>"

text \<open>Prepared; signed by a call that stops right after the signer returned; signed again; broadcast.\<close>

definition demo_w1 :: world where
  "demo_w1 = snd (prepare_intent demo_h (\<lambda>_. False) 30 demo_preparation None demo_w0)"

definition demo_w2 :: world where
  "demo_w2 = snd (sign_prepared demo_h demo_sha (\<lambda>p. p = CP_after_signer_return) demo_ext 51 ''t'' demo_request demo_gates demo_w1)"

definition demo_w3 :: world where
  "demo_w3 = snd (sign_prepared demo_h demo_sha (\<lambda>_. False) demo_ext 52 ''t'' demo_request demo_gates demo_w2)"

definition demo_w4 :: world where
  "demo_w4 = snd (broadcast demo_sha (\<lambda>_. False) demo_bc 53 ''t'' demo_gates False demo_w3)"

lemma demo_outside: "hex_digests demo_h demo_sha" "signer_contract demo_ext (\<lambda>_. ''bytes'')"
proof -
  have "is_sha256_hex zeros" by code_simp
  then show "hex_digests demo_h demo_sha" by (simp add: hex_digests_def demo_h_def demo_sha_def)
  show "signer_contract demo_ext (\<lambda>_. ''bytes'')" by (auto simp: signer_contract_def demo_ext_def)
qed

lemma demo_fresh: "fresh_world demo_w0" by (simp add: fresh_world_def demo_w0_def demo_ready_def empty_db_def)

lemma demo_steps: "sub_step demo_h demo_sha demo_ext demo_w0 demo_w1" "sub_step demo_h demo_sha demo_ext demo_w1 demo_w2"
  "sub_step demo_h demo_sha demo_ext demo_w2 demo_w3" "sub_step demo_h demo_sha demo_ext demo_w3 demo_w4"
  unfolding demo_w1_def demo_w2_def demo_w3_def demo_w4_def by (rule sub_step.intros)+

lemma demo_run: "(sub_step demo_h demo_sha demo_ext)\<^sup>*\<^sup>* demo_w0 demo_w4"
  using demo_steps by (meson converse_rtranclp_into_rtranclp rtranclp.rtrancl_refl)

definition demo_view :: "world \<Rightarrow> (string \<times> string) list \<times> nat \<times> tx_state list \<times> bool" where
  "demo_view w = (wd_sent w, length (wd_signed w), map tx_state (t_transactions (wd_db w)), isl (transaction_from ''t'' (wd_db w)))"

lemma demo_viewed: "demo_view demo_w4 = ([(''bytes'', ''0xaa'')], 2, [T_submitted], False)"
  by code_simp

lemma demo_sent: "wd_sent demo_w4 = [(''bytes'', ''0xaa'')] \<and> length (wd_signed demo_w4) = 2
    \<and> map tx_state (t_transactions (wd_db demo_w4)) = [T_submitted]"
  using demo_viewed by (simp add: demo_view_def)

theorem nothing_leaves_unrecorded_witness:
  "\<exists>t\<in>set (t_transactions (wd_db demo_w4)). tx_transaction_hash t = Some ''0xaa''
     \<and> tx_state t \<in> {T_broadcast_unknown, T_submitted, T_included, T_finalized}"
proof -
  have "(''bytes'', ''0xaa'') \<in> set (wd_sent demo_w4)" by (simp add: demo_sent)
  with nothing_leaves_unrecorded [OF demo_outside demo_fresh demo_run] show ?thesis by fastforce
qed

theorem signed_bytes_survive_witness:
  "\<exists>report w'. recover_spool demo_sha demo_w4 = (Inr report, w') \<and> rr_corrupt_references report = []"
proof -
  obtain t i where t: "transaction_from ''t'' (wd_db demo_w4) = Inr (t, i)"
    using demo_viewed by (cases "transaction_from ''t'' (wd_db demo_w4)") (auto simp: demo_view_def)
  then have "t \<in> set (t_transactions (wd_db demo_w4))" by (auto simp: transaction_from_Inr dest: find_transactionD)
  then have "tx_state t \<in> set (map tx_state (t_transactions (wd_db demo_w4)))" by simp
  then have "tx_state t = T_submitted" using demo_sent by simp
  then have "tx_state t \<in> {T_signed_hash_persisted, T_broadcast_unknown, T_submitted, T_included, T_finalized}" by simp
  from signed_bytes_survive [OF demo_outside demo_fresh demo_run t this] show ?thesis by blast
qed

section \<open>The life of a transaction\<close>

text \<open>The edges single transactions of the coordinator take.\<close>

fun tx_edge :: "tx_state \<Rightarrow> tx_state \<Rightarrow> bool" where
  "tx_edge T_prepared s = (s = T_signer_return)"
| "tx_edge T_signer_return s = (s = T_signed_hash_persisted)"
| "tx_edge T_signed_hash_persisted s = (s = T_broadcast_unknown)"
| "tx_edge T_broadcast_unknown s = (s = T_submitted \<or> s = T_included)"
| "tx_edge T_submitted s = (s = T_broadcast_unknown \<or> s = T_included)"
| "tx_edge T_included s = (s = T_finalized)"
| "tx_edge _ s = False"

definition row_kept :: "transaction_row \<Rightarrow> transaction_row \<Rightarrow> bool" where
  "row_kept t t' \<longleftrightarrow> tx_transaction_id t' = tx_transaction_id t \<and> tx_intent_id t' = tx_intent_id t
     \<and> tx_chain_id t' = tx_chain_id t \<and> tx_nonce t' = tx_nonce t
     \<and> tx_replaces_transaction_id t' = tx_replaces_transaction_id t
     \<and> tx_edge\<^sup>*\<^sup>* (tx_state t) (tx_state t')
     \<and> (signed_state (tx_state t) \<longrightarrow> tx_transaction_hash t' = tx_transaction_hash t
          \<and> tx_spool_relative_path t' = tx_spool_relative_path t \<and> tx_signed_sha256 t' = tx_signed_sha256 t
          \<and> tx_signed_length t' = tx_signed_length t)"

definition evolves :: "db \<Rightarrow> db \<Rightarrow> bool" where
  "evolves d d' \<longleftrightarrow> (distinct (map tx_transaction_id (t_transactions d)) \<longrightarrow>
     distinct (map tx_transaction_id (t_transactions d'))
     \<and> (\<forall>t\<in>set (t_transactions d). \<exists>t'\<in>set (t_transactions d'). row_kept t t'))"

lemma edge_runs [simp]:
  "tx_edge\<^sup>*\<^sup>* T_prepared T_signer_return" "tx_edge\<^sup>*\<^sup>* T_signer_return T_signed_hash_persisted"
  "tx_edge\<^sup>*\<^sup>* T_signed_hash_persisted T_broadcast_unknown" "tx_edge\<^sup>*\<^sup>* T_submitted T_broadcast_unknown"
  "tx_edge\<^sup>*\<^sup>* T_broadcast_unknown T_submitted" "tx_edge\<^sup>*\<^sup>* T_broadcast_unknown T_included"
  "tx_edge\<^sup>*\<^sup>* T_submitted T_included" "tx_edge\<^sup>*\<^sup>* T_included T_finalized"
  by (rule r_into_rtranclp; simp)+

lemma edge_signed: "tx_edge\<^sup>*\<^sup>* s s' \<Longrightarrow> signed_state s \<Longrightarrow> signed_state s'"
proof (induction rule: rtranclp_induct)
  case (step y z)
  then show ?case by (cases y) (auto simp: signed_state_def sent_state_def)
qed simp

lemma row_kept_refl [simp]: "row_kept t t"
  by (simp add: row_kept_def)

lemma row_kept_trans: "row_kept t u \<Longrightarrow> row_kept u v \<Longrightarrow> row_kept t v"
  using edge_signed [of "tx_state t" "tx_state u"] by (auto simp: row_kept_def intro: rtranclp_trans)

lemma evolves_refl [simp]: "evolves d d"
  by (auto simp: evolves_def intro: row_kept_refl)

lemma evolves_trans: "evolves d e \<Longrightarrow> evolves e f \<Longrightarrow> evolves d f"
  unfolding evolves_def by (meson row_kept_trans)

lemma evolves_same: "t_transactions d' = t_transactions d \<Longrightarrow> evolves d d'"
  by (auto simp: evolves_def intro: row_kept_refl)

lemma evolves_update:
  assumes t: "find_transaction tid d = Some t" and d': "t_transactions d' = t_transactions (update_transaction tid f d)"
    and ids: "\<And>r. tx_transaction_id (f r) = tx_transaction_id r" and kept: "row_kept t (f t)"
  shows "evolves d d'"
  unfolding evolves_def
proof (intro impI conjI ballI)
  assume dist: "distinct (map tx_transaction_id (t_transactions d))"
  have "map tx_transaction_id (t_transactions d') = map tx_transaction_id (t_transactions d)"
    by (simp add: d' update_transaction_def update_where_def ids)
  with dist show "distinct (map tx_transaction_id (t_transactions d'))" by simp
  fix u assume u: "u \<in> set (t_transactions d)"
  show "\<exists>u'\<in>set (t_transactions d'). row_kept u u'"
  proof (cases "tx_transaction_id u = tid")
    case True
    with u dist find_transactionD [OF t] have "u = t" by (auto simp: distinct_map inj_on_def)
    with kept u True show ?thesis by (auto simp: d' update_transaction_def set_update_where)
  next
    case False
    with u show ?thesis by (intro bexI [of _ u]) (auto simp: d' update_transaction_def set_update_where)
  qed
qed

lemma evolves_txn:
  "prepare_intent_txn crash clk op a b c p d = Inr (x1, d1) \<Longrightarrow> evolves d d1"
  "signer_return_txn clk tid op at d = Inr (u, d2) \<Longrightarrow> evolves d d2"
  "persist_reference_txn clk tid y hash ref at d = Inr (x3, d3) \<Longrightarrow> evolves d d3"
  "broadcast_start_txn clk tid y rep at d = Inr (u, d4) \<Longrightarrow> evolves d d4"
  "acknowledge_txn clk tid y result d = Inr (u, d5) \<Longrightarrow> evolves d d5"
proof -
  show "evolves d d1" if "prepare_intent_txn crash clk op a b c p d = Inr (x1, d1)"
  proof (cases "find_intent (sr_intent_id (ip_request p)) d")
    case None
    with that have "t_transactions d1 = t_transactions d @ [new_transaction p]" "find_transaction (ip_transaction_id p) d = None"
      by (auto simp: prepare_intent_txn_def Let_def exn_simps bind_nonce_intent_def split: option.splits)
    then show ?thesis
      by (auto simp: evolves_def find_transaction_def find_None_iff new_transaction_def intro: row_kept_refl)
  qed (use that in \<open>auto simp: prepare_intent_txn_def Let_def split: if_splits\<close>)
  show "evolves d d2" if "signer_return_txn clk tid op at d = Inr (u, d2)"
    using that by (auto simp: signer_return_txn_def exn_simps transaction_from_Inr row_kept_def signed_state_def sent_state_def
        intro!: evolves_update [where f = "\<lambda>r. r\<lparr>tx_state := T_signer_return, tx_signer_returned_at := Some at\<rparr>"])
  show "evolves d d4" if "broadcast_start_txn clk tid y rep at d = Inr (u, d4)"
    using that by (auto simp: broadcast_start_txn_def exn_simps transaction_from_Inr row_kept_def broadcast_allowed_def
        intro!: evolves_update [where f = "\<lambda>r. r\<lparr>tx_state := T_broadcast_unknown, tx_broadcast_started_at := Some at\<rparr>"])
  show "evolves d d5" if "acknowledge_txn clk tid y result d = Inr (u, d5)"
    using that by (auto simp: acknowledge_txn_def exn_simps transaction_from_Inr row_kept_def
        intro!: evolves_update [where f = "\<lambda>r. r\<lparr>tx_state := T_submitted, tx_submitted_at := Some clk\<rparr>"])
  show "evolves d d3" if run: "persist_reference_txn clk tid y hash ref at d = Inr (x3, d3)"
  proof (cases "d3 = d")
    case False
    with run show ?thesis
      by (auto simp: persist_reference_txn_def exn_simps transaction_from_Inr row_kept_def signed_state_def sent_state_def split: if_splits
        intro!: evolves_update [where f = "\<lambda>r. r\<lparr>tx_state := T_signed_hash_persisted, tx_transaction_hash := Some hash,
                         tx_signed_sha256 := Some (sp_signed_sha256 ref), tx_signed_length := Some (sp_signed_length ref),
                         tx_spool_relative_path := Some (sp_relative_path ref), tx_signed_hash_persisted_at := Some at\<rparr>"])
  qed simp
qed

lemma evolves_observation:
  assumes run: "advance_observation_txn clk tid expected to_state column at d = Inr (u, d')"
    and "\<forall>s\<in>set expected. tx_edge\<^sup>*\<^sup>* s to_state"
  shows "evolves d d'"
proof (cases "d' = d")
  case False
  with run obtain t i s where t: "find_transaction tid d = Some t" "tx_state t \<in> set expected"
    and d': "t_transactions d' = t_transactions (update_transaction tid (\<lambda>r. stamp column s (r\<lparr>tx_state := to_state\<rparr>)) d)"
    by (auto simp: advance_observation_txn_def exn_simps transaction_from_Inr split: if_splits)
  show ?thesis
    using t(2) assms(2) by (intro evolves_update [OF t(1) d']) (cases column; simp add: stamp_def row_kept_def)+
qed simp

lemma evolves_write:
  assumes "\<And>d a e. body d = Inr (a, e) \<Longrightarrow> evolves d e"
  shows "triple (\<lambda>w. evolves d0 (wd_db w)) (\<lambda>w. evolves d0 (wd_db w)) (act_write body) (\<lambda>_ w. evolves d0 (wd_db w))"
  by (rule triple_db_write) (use assms in \<open>auto intro: evolves_trans\<close>)

lemma evolves_other:
  "triple (\<lambda>w. evolves d0 (wd_db w)) (\<lambda>w. evolves d0 (wd_db w)) (act_read f) (\<lambda>_ w. evolves d0 (wd_db w))"
  "triple (\<lambda>w. evolves d0 (wd_db w)) (\<lambda>w. evolves d0 (wd_db w)) (act_spool g) (\<lambda>_ w. evolves d0 (wd_db w))"
  "triple (\<lambda>w. evolves d0 (wd_db w)) (\<lambda>w. evolves d0 (wd_db w)) (act_sign h ext r) (\<lambda>_ w. evolves d0 (wd_db w))"
  "triple (\<lambda>w. evolves d0 (wd_db w)) (\<lambda>w. evolves d0 (wd_db w)) (act_broadcast bc b x) (\<lambda>_ w. evolves d0 (wd_db w))"
  by (auto simp: triple_def act_read_def act_spool_def act_sign_def act_broadcast_def split: sum.splits prod.splits)

lemma evolves_writes:
  "triple (\<lambda>w. evolves d0 (wd_db w)) (\<lambda>w. evolves d0 (wd_db w)) (act_write (prepare_intent_txn crash clk op a b c p)) (\<lambda>_ w. evolves d0 (wd_db w))"
  "triple (\<lambda>w. evolves d0 (wd_db w)) (\<lambda>w. evolves d0 (wd_db w)) (act_write (signer_return_txn clk tid op at)) (\<lambda>_ w. evolves d0 (wd_db w))"
  "triple (\<lambda>w. evolves d0 (wd_db w)) (\<lambda>w. evolves d0 (wd_db w)) (act_write (persist_reference_txn clk tid y hash ref at)) (\<lambda>_ w. evolves d0 (wd_db w))"
  "triple (\<lambda>w. evolves d0 (wd_db w)) (\<lambda>w. evolves d0 (wd_db w)) (act_write (broadcast_start_txn clk tid y rep at)) (\<lambda>_ w. evolves d0 (wd_db w))"
  "triple (\<lambda>w. evolves d0 (wd_db w)) (\<lambda>w. evolves d0 (wd_db w)) (act_write (acknowledge_txn clk tid y result)) (\<lambda>_ w. evolves d0 (wd_db w))"
  by (rule evolves_write, erule evolves_txn)+

lemmas evolves_steps = evolves_writes [THEN triple_bind] evolves_other [THEN triple_bind] triple_keep(1) [THEN triple_bind]
  triple_keep triple_if

lemma call_evolves:
  "evolves (wd_db w) (wd_db (snd (prepare_intent h crash clk p now w)))"
  "evolves (wd_db w) (wd_db (snd (sign_prepared h sha crash ext clk tid request gates w)))"
  "evolves (wd_db w) (wd_db (snd (broadcast sha crash bc clk tid gates rep w)))"
  "evolves (wd_db w) (wd_db (snd (submission_record_included clk tid at w)))"
  "evolves (wd_db w) (wd_db (snd (submission_record_finalized clk tid at w)))"
proof -
  let ?E = "\<lambda>u. evolves (wd_db w) (wd_db u)"
  have store: "triple ?E ?E (store_signed sha crash clk tid x gates signed) (\<lambda>_. ?E)" for x signed
    unfolding store_signed_def by (auto intro!: evolves_steps)
  have send: "triple ?E ?E (send_signed crash bc clk tid x gates rep y b) (\<lambda>_. ?E)" for x y b
    unfolding send_signed_def by (auto intro!: evolves_steps)
  have "triple ?E ?E (prepare_intent h crash clk p now) (\<lambda>_. ?E)"
    unfolding prepare_intent_def by (auto intro!: evolves_steps)
  then show "?E (snd (prepare_intent h crash clk p now w))" by (rule triple_keeps) simp
  have "triple ?E ?E (sign_prepared h sha crash ext clk tid request gates) (\<lambda>_. ?E)"
    unfolding sign_prepared_def by (auto intro!: evolves_steps store)
  then show "?E (snd (sign_prepared h sha crash ext clk tid request gates w))" by (rule triple_keeps) simp
  have "triple ?E ?E (broadcast sha crash bc clk tid gates rep) (\<lambda>_. ?E)"
    unfolding broadcast_def by (auto intro!: evolves_steps send)
  then show "?E (snd (broadcast sha crash bc clk tid gates rep w))" by (rule triple_keeps) simp
  have observe: "?E (snd (act_write (advance_observation_txn clk tid expected to_state column at) w))"
    if "\<forall>s\<in>set expected. tx_edge\<^sup>*\<^sup>* s to_state" for expected to_state column
    by (rule triple_keeps [OF evolves_write [OF evolves_observation [OF _ that]]]) simp_all
  show "?E (snd (submission_record_included clk tid at w))" unfolding submission_record_included_def by (rule observe) simp
  show "?E (snd (submission_record_finalized clk tid at w))" unfolding submission_record_finalized_def by (rule observe) simp
qed

text \<open>
  C30: whatever the calls of the coordinator do, in any order and with any crash, a transaction is never
  lost, keeps its intent, chain, nonce and replaced transaction, moves only along the edges of the
  life cycle (forward, except that a repeated broadcast returns to the unknown state), and once its signed
  bytes are recorded, neither the hash nor the reference to the bytes ever changes.
\<close>

theorem transactions_evolve:
  assumes "(sub_step h sha ext)\<^sup>*\<^sup>* w w'" and "distinct (map tx_transaction_id (t_transactions (wd_db w)))"
    and "t \<in> set (t_transactions (wd_db w))"
  shows "\<exists>t'\<in>set (t_transactions (wd_db w')). tx_transaction_id t' = tx_transaction_id t \<and> tx_intent_id t' = tx_intent_id t
     \<and> tx_chain_id t' = tx_chain_id t \<and> tx_nonce t' = tx_nonce t
     \<and> tx_replaces_transaction_id t' = tx_replaces_transaction_id t
     \<and> tx_edge\<^sup>*\<^sup>* (tx_state t) (tx_state t')
     \<and> (signed_state (tx_state t) \<longrightarrow> tx_transaction_hash t' = tx_transaction_hash t
          \<and> tx_spool_relative_path t' = tx_spool_relative_path t \<and> tx_signed_sha256 t' = tx_signed_sha256 t
          \<and> tx_signed_length t' = tx_signed_length t)"
proof -
  have "evolves (wd_db w) (wd_db w')"
    using assms(1)
  proof (induction rule: rtranclp_induct)
    case (step u v)
    from step(2) have "evolves (wd_db u) (wd_db v)"
      by cases (auto simp: recover_spool_def Let_def intro: call_evolves evolves_same split: prod.splits)
    with step(3) show ?case by (rule evolves_trans)
  qed simp
  with assms(2,3) show ?thesis unfolding evolves_def row_kept_def by blast
qed

theorem transactions_evolve_witness:
  "\<exists>t\<in>set (t_transactions (wd_db demo_w1)). \<exists>t'\<in>set (t_transactions (wd_db demo_w4)).
     tx_nonce t' = tx_nonce t \<and> tx_edge\<^sup>*\<^sup>* (tx_state t) (tx_state t') \<and> tx_state t = T_prepared"
proof -
  have one: "map tx_transaction_id (t_transactions (wd_db demo_w1)) = [''t'']"
    "map tx_state (t_transactions (wd_db demo_w1)) = [T_prepared]" by code_simp+
  then obtain t where t: "t_transactions (wd_db demo_w1) = [t]" "tx_state t = T_prepared" by auto
  have run: "(sub_step demo_h demo_sha demo_ext)\<^sup>*\<^sup>* demo_w1 demo_w4"
    using demo_steps by (meson converse_rtranclp_into_rtranclp rtranclp.rtrancl_refl)
  have "distinct (map tx_transaction_id (t_transactions (wd_db demo_w1)))" by (simp add: one)
  from transactions_evolve [OF run this, of t] t show ?thesis by auto
qed

end
