(* ===== verification/Xir_Resolution_Properties.thy ===== *)
theory Xir_Resolution_Properties
  imports Xir_Resolution Xir_Submission_Life
begin

text \<open>
  What resolution may conclude, that a conflict stops the run, and that replacements of a nonce are
  bounded, which is also why the recursive query over them returns.
\<close>

section \<open>Resolution\<close>

lemma halt_keeps:
  "t_transactions (snd (halt clk r dec now d)) = t_transactions d \<and> t_intents (snd (halt clk r dec now d)) = t_intents d
     \<and> t_violations (snd (halt clk r dec now d)) = t_violations d"
proof -
  have body: "t_transactions d' = t_transactions d \<and> t_intents d' = t_intents d \<and> t_violations d' = t_violations d"
    if "transition_txn clk r allowed m dec at d = Inr (u, d')" for allowed m at u d'
    using that by (auto simp: transition_txn_def control_event_def exn_simps append_transition_def set_run_state_def)
  have "t_transactions (snd (store_write (transition_txn clk r allowed m dec at) d)) = t_transactions d
      \<and> t_intents (snd (store_write (transition_txn clk r allowed m dec at) d)) = t_intents d
      \<and> t_violations (snd (store_write (transition_txn clk r allowed m dec at) d)) = t_violations d" for allowed m at
    by (rule store_write_keeps [of "\<lambda>e. t_transactions e = t_transactions d \<and> t_intents e = t_intents d
          \<and> t_violations e = t_violations d"])
      (simp, rule body)
  moreover have "snd (then_state r out) = snd out" for out
    by (cases out; cases "fst out") (auto simp: then_state_def)
  ultimately show ?thesis
    unfolding halt_def transition_def by (simp split: sum.split)
qed

lemma record_conflict_effect:
  assumes "store_write (record_conflict_txn i run m) d = (Inr u, d')"
  shows "t_transactions d' = t_transactions d" "mode_of r d' = mode_of r d"
    "\<exists>v\<in>set (t_violations d'). iv_violation_id v = i"
  using assms
  by (auto simp: store_write_def record_conflict_txn_def exn_simps mode_of_def find_control_def list_ex_iff
      split: sum.splits if_splits)

text \<open>Whatever becomes of a conflict, no transaction and no intent is touched.\<close>

lemma halt_conflict_keeps:
  "t_transactions (snd (halt_conflict h clk run i reason at d)) = t_transactions d
   \<and> t_intents (snd (halt_conflict h clk run i reason at d)) = t_intents d"
proof -
  have row: "t_transactions (snd (store_write (record_conflict_txn v run m) d)) = t_transactions d
      \<and> t_intents (snd (store_write (record_conflict_txn v run m) d)) = t_intents d" for v m
    by (auto simp: store_write_def record_conflict_txn_def exn_simps split: sum.splits)
  have "t_transactions e = t_transactions d \<and> t_intents e = t_intents d"
    if "store_write (record_conflict_txn v run m) d = (u, e)" for v m u e
    using row [of v m] that by simp
  moreover have "t_transactions f = t_transactions e \<and> t_intents f = t_intents e"
    if "halt clk run dec now e = (u, f)" for dec now e u f
    using halt_keeps [of clk run dec now e] that by simp
  ultimately show ?thesis
    unfolding halt_conflict_def Let_def by (simp split: sum.split prod.split)
qed

text \<open>A recorded conflict has stopped its run: the contract of the control plane does the rest.\<close>

lemma halt_conflict_stops:
  assumes "halt_conflict h clk run i reason at d = (Inr u, d')" and "resolution_time clk at = Inr occ"
  shows "mode_of run d' \<in> {Some Halted, Some Revoked}" "t_transactions d' = t_transactions d"
    "\<exists>v\<in>set (t_violations d'). iv_violation_id v = conflict_id (h (conflict_material run i reason occ))"
proof -
  let ?digest = "h (conflict_material run i reason occ)"
  let ?dec = "\<lparr>dc_decision_id = conflict_id ?digest, dc_decision_sha256 = ?digest, dc_reason_code = reason,
    dc_approval_payload_sha256 = None\<rparr>"
  from assms obtain e state where e: "store_write (record_conflict_txn (conflict_id ?digest) run (conflict_material run i reason occ)) d = (Inr (), e)"
    and state: "control_state_of run e = Inr state"
    and run: "(if ct_mode state = Running \<or> ct_mode state = Drain
        then (case halt clk run ?dec (Some (Aware occ)) e of (Inl x, f) \<Rightarrow> (Inl x, f) | (Inr _, f) \<Rightarrow> (Inr (), f))
        else (Inr (), e)) = (Inr u, d')"
    by (auto simp: halt_conflict_def Let_def split: sum.splits prod.splits)
  have mode: "mode_of run e = Some (ct_mode state)"
    using state by (auto simp: control_state_of_def exn_simps mode_of_def state_of_row_def)
  let ?call = "halt_call (clk, ?dec, Some (Aware occ)) run e"
  have d': "d' = (if ct_mode state = Running \<or> ct_mode state = Drain then snd ?call else e)"
    and ok: "ct_mode state = Running \<or> ct_mode state = Drain \<Longrightarrow> \<exists>v. fst ?call = Inr v"
    using run by (auto simp: halt_call_def split: if_splits prod.splits sum.splits)
  show "mode_of run d' \<in> {Some Halted, Some Revoked}"
    unfolding d' by (rule control_plane.halt_guarded [OF mode ok])
  have keep: "t_transactions d' = t_transactions e \<and> t_violations d' = t_violations e"
    unfolding d' halt_call_def using halt_keeps by simp
  with record_conflict_effect(1,3) [OF e] show "t_transactions d' = t_transactions d"
    "\<exists>v\<in>set (t_violations d'). iv_violation_id v = conflict_id ?digest" by simp_all
qed

lemma halt_conflict_time: "halt_conflict h clk run i reason at d = (Inr u, d') \<Longrightarrow> \<exists>occ. resolution_time clk at = Inr occ"
  by (auto simp: halt_conflict_def split: sum.splits)

lemma run_of_transaction_id:
  assumes "run_of_transaction i d = Some (t, run)"
  shows "tx_transaction_id t = i" and "find_transaction i d = Some t"
proof -
  from assms show f: "find_transaction i d = Some t" by (auto simp: run_of_transaction_def bind_eq_Some_conv)
  then show "tx_transaction_id t = i" by (auto simp: find_transaction_def dest: find_SomeD)
qed

text \<open>
  What the two lookups can say of a transaction: they find exactly its precomputed hash and nonce, they do
  not know the hash, they contradict the record, or they cannot be had.
\<close>

definition probed_exactly :: "hash_lookup \<Rightarrow> transaction_row \<Rightarrow> probe \<Rightarrow> bool" where
  "probed_exactly by_hash t p \<longleftrightarrow> (\<exists>x. tx_transaction_hash t = Some x \<and> by_hash (tx_chain_id t) x = Inr (Some p)
     \<and> lower (pb_transaction_hash p) = lower x \<and> pb_nonce p = tx_nonce t)"

definition hash_absent :: "hash_lookup \<Rightarrow> transaction_row \<Rightarrow> bool" where
  "hash_absent by_hash t \<longleftrightarrow> (\<exists>x. tx_transaction_hash t = Some x \<and> by_hash (tx_chain_id t) x = Inr None)"

definition answers_conflict :: "hash_lookup \<Rightarrow> nonce_lookup \<Rightarrow> string \<Rightarrow> transaction_row \<Rightarrow> bool" where
  "answers_conflict by_hash by_nonce addr t \<longleftrightarrow>
     (\<exists>x p. tx_transaction_hash t = Some x \<and> by_hash (tx_chain_id t) x = Inr (Some p)
        \<and> (lower (pb_transaction_hash p) \<noteq> lower x \<or> pb_nonce p \<noteq> tx_nonce t))
     \<or> hash_absent by_hash t \<and> (\<exists>n. by_nonce (tx_chain_id t) addr = Inr (Some n) \<and> n > tx_nonce t)"

definition lookups_failed :: "hash_lookup \<Rightarrow> nonce_lookup \<Rightarrow> string \<Rightarrow> transaction_row \<Rightarrow> bool" where
  "lookups_failed by_hash by_nonce addr t \<longleftrightarrow>
     (\<exists>x e. tx_transaction_hash t = Some x \<and> by_hash (tx_chain_id t) x = Inl e)
     \<or> hash_absent by_hash t \<and> (\<forall>n. by_nonce (tx_chain_id t) addr \<noteq> Inr (Some n))"

text \<open>The only progress there is: one transaction has a new state and time, and no run is stopped.\<close>

definition advanced_to :: "tx_state \<Rightarrow> string \<Rightarrow> db \<Rightarrow> db \<Rightarrow> bool" where
  "advanced_to s i d d' \<longleftrightarrow>
     (\<exists>t a b. find_transaction i d = Some t
        \<and> find_transaction i d' = Some (t\<lparr>tx_state := s, tx_submitted_at := a, tx_included_at := b\<rparr>))
     \<and> (\<forall>j. j \<noteq> i \<longrightarrow> find_transaction j d' = find_transaction j d)
     \<and> t_violations d' = t_violations d \<and> (\<forall>run. mode_of run d' = mode_of run d)"

text \<open>The four ways a resolution can end.\<close>

lemma resolve_cases:
  assumes "resolve_submission h by_hash by_nonce clk i addr at d = (Inr res, d')" and "run_of_transaction i d = Some (t, run)"
  obtains (unknown) "rv_status res = R_unknown" "\<not> rv_safe_to_repeat res" "d' = d"
      "lookups_failed by_hash by_nonce addr t"
  | (conflict) "rv_status res = R_conflict" "\<not> rv_safe_to_repeat res" "answers_conflict by_hash by_nonce addr t"
      "halt_conflict h clk run i (rv_reason_code res) at d = (Inr (), d')"
  | (found) x p target where "tx_transaction_hash t = Some x" "by_hash (tx_chain_id t) x = Inr (Some p)"
      "lower (pb_transaction_hash p) = lower x" "pb_nonce p = tx_nonce t"
      "target = (if pb_included p \<and> pb_canonical p then T_included else T_submitted)"
      "rv_status res = (if target = T_included then R_included else R_submitted)" "\<not> rv_safe_to_repeat res"
      "advance clk i (tx_intent_id t) (tx_state t) target at d = (Inr (), d')"
  | (absent) x n where "tx_transaction_hash t = Some x" "by_hash (tx_chain_id t) x = Inr None"
      "by_nonce (tx_chain_id t) addr = Inr (Some n)" "n \<le> tx_nonce t" "rv_status res = R_not_found"
      "rv_safe_to_repeat res" "d' = d"
proof -
  note id = run_of_transaction_id(1) [OF assms(2)]
  from assms obtain x where x: "tx_transaction_hash t = Some x"
    and run: "(case by_hash (tx_chain_id t) x of
                 Inl _ \<Rightarrow> (Inr (result_of i R_unknown ''hash_lookup_error'' False), d)
               | Inr (Some p) \<Rightarrow> resolve_found h clk t run x p at d
               | Inr None \<Rightarrow> resolve_absent h clk t run (by_nonce (tx_chain_id t) addr) at d) = (Inr res, d')"
    by (auto simp: resolve_submission_def split: if_splits option.splits)
  show thesis
  proof (cases "by_hash (tx_chain_id t) x")
    case (Inl e)
    with run x show thesis by (intro unknown) (auto simp: result_of_def lookups_failed_def)
  next
    case (Inr found')
    show thesis
    proof (cases found')
      case (Some p)
      let ?target = "if pb_included p \<and> pb_canonical p then T_included else T_submitted"
      from run Inr Some have r: "resolve_found h clk t run x p at d = (Inr res, d')" by simp
      show thesis
      proof (cases "lower (pb_transaction_hash p) \<noteq> lower x \<or> pb_nonce p \<noteq> tx_nonce t")
        case True
        with x Inr Some have "answers_conflict by_hash by_nonce addr t" by (auto simp: answers_conflict_def)
        with True r id show thesis
          by (intro conflict) (auto simp: resolve_found_def Let_def then_result_def result_of_def split: sum.splits prod.splits)
      next
        case False
        with r id have "advance clk i (tx_intent_id t) (tx_state t) ?target at d = (Inr (), d')"
          and res: "res = result_of i (if ?target = T_included then R_included else R_submitted) ''precomputed_hash_found'' False"
          by (auto simp: resolve_found_def Let_def then_result_def split: sum.splits prod.splits)
        with False x Inr Some show thesis by (intro found [of x p ?target]) (auto simp: result_of_def)
      qed
    next
      case None
      from run Inr None have r: "resolve_absent h clk t run (by_nonce (tx_chain_id t) addr) at d = (Inr res, d')" by simp
      show thesis
      proof (cases "\<exists>n. by_nonce (tx_chain_id t) addr = Inr (Some n)")
        case True
        then obtain n where n: "by_nonce (tx_chain_id t) addr = Inr (Some n)" by blast
        show thesis
        proof (cases "n > tx_nonce t")
          case True
          with x Inr None n have "answers_conflict by_hash by_nonce addr t" by (auto simp: answers_conflict_def hash_absent_def)
          with True r id n show thesis
            by (intro conflict) (auto simp: resolve_absent_def Let_def then_result_def result_of_def split: sum.splits prod.splits)
        next
          case False
          with r id n x Inr None show thesis
            by (intro absent [of x n]) (auto simp: resolve_absent_def result_of_def)
        qed
      next
        case False
        with x Inr None have "lookups_failed by_hash by_nonce addr t"
          by (cases "by_nonce (tx_chain_id t) addr") (auto simp: lookups_failed_def hash_absent_def split: option.splits)
        with False r id show thesis
          by (intro unknown) (auto simp: resolve_absent_def result_of_def split: sum.splits option.splits)
      qed
    qed
  qed
qed

lemma advance_state:
  assumes "advance clk i j from_state to at d = (Inr (), d')" and "find_transaction i d = Some t" and "tx_state t = from_state"
  shows "advanced_to to i d d'"
proof (cases "from_state = to")
  case True
  with assms have "d' = d" by (simp add: advance_def)
  moreover from True assms have "t = t\<lparr>tx_state := to, tx_submitted_at := tx_submitted_at t, tx_included_at := tx_included_at t\<rparr>"
    by simp
  ultimately show ?thesis using assms(2) unfolding advanced_to_def by metis
next
  case False
  with assms have "t_violations d' = t_violations d \<and> t_run_controls d' = t_run_controls d \<and>
      (\<exists>s. t_transactions d' = update_where (\<lambda>r. tx_transaction_id r = i)
        (\<lambda>r. if to = T_included then r\<lparr>tx_state := to, tx_included_at := Some s\<rparr>
             else r\<lparr>tx_state := to, tx_submitted_at := Some s\<rparr>) (t_transactions d))"
    by (auto simp: advance_def store_write_def advance_txn_def exn_simps append_transition_def set_intent_state_def
        update_transaction_def split: sum.splits)
  then obtain s where frame: "t_violations d' = t_violations d" "t_run_controls d' = t_run_controls d"
    and rows: "t_transactions d' = update_where (\<lambda>r. tx_transaction_id r = i)
        (\<lambda>r. if to = T_included then r\<lparr>tx_state := to, tx_included_at := Some s\<rparr>
             else r\<lparr>tx_state := to, tx_submitted_at := Some s\<rparr>) (t_transactions d)" by blast
  have i: "tx_transaction_id t = i" using assms(2) by (auto simp: find_transaction_def dest: find_SomeD)
  have "find_transaction i d' = Some (if to = T_included then t\<lparr>tx_state := to, tx_included_at := Some s\<rparr>
             else t\<lparr>tx_state := to, tx_submitted_at := Some s\<rparr>)"
    using assms(2) i unfolding find_transaction_def rows by (simp add: find_update_where)
  moreover have "\<exists>a b. (if to = T_included then t\<lparr>tx_state := to, tx_included_at := Some s\<rparr>
             else t\<lparr>tx_state := to, tx_submitted_at := Some s\<rparr>) = t\<lparr>tx_state := to, tx_submitted_at := a, tx_included_at := b\<rparr>"
    by (cases t) (auto)
  ultimately have "\<exists>a b. find_transaction i d' = Some (t\<lparr>tx_state := to, tx_submitted_at := a, tx_included_at := b\<rparr>)"
    by auto
  moreover have "find_transaction j d' = find_transaction j d" if "j \<noteq> i" for j
  proof -
    have "find (\<lambda>r. tx_transaction_id r = j) (t_transactions d') = map_option (\<lambda>r. if tx_transaction_id r = i
        then (if to = T_included then r\<lparr>tx_state := to, tx_included_at := Some s\<rparr>
              else r\<lparr>tx_state := to, tx_submitted_at := Some s\<rparr>) else r) (find (\<lambda>r. tx_transaction_id r = j) (t_transactions d))"
      unfolding rows by (rule find_update_where) simp
    with that show ?thesis
      unfolding find_transaction_def by (cases "find (\<lambda>r. tx_transaction_id r = j) (t_transactions d)") (auto dest: find_SomeD)
  qed
  ultimately show ?thesis
    using assms(2) frame unfolding advanced_to_def by (auto simp: mode_of_def find_control_def)
qed

text \<open>A call that raises has touched no transaction and no intent either.\<close>

lemma resolve_failure_keeps:
  assumes "resolve_submission h by_hash by_nonce clk i addr at d = (Inl e, d')"
  shows "t_transactions d' = t_transactions d \<and> t_intents d' = t_intents d"
proof -
  have conflict: "t_transactions d' = t_transactions d \<and> t_intents d' = t_intents d"
    if "then_result (halt_conflict h clk run j reason at d) res = (Inl e, d')" for run j reason res
    using that halt_conflict_keeps [of h clk run j reason at d]
    by (auto simp: then_result_def split: prod.splits sum.splits)
  have advance: "d' = d" if "then_result (advance clk j k a b at d) res = (Inl e, d')" for j k a b res
    using that by (auto simp: then_result_def advance_def store_write_def split: prod.splits sum.splits if_splits)
  from assms show ?thesis
    unfolding resolve_submission_def resolve_found_def resolve_absent_def Let_def
    by (auto split: option.splits if_splits sum.splits prod.splits dest: conflict advance)
qed

text \<open>
  C35: resolution is conservative. Every answer is justified by what the provider said and touches no more
  than it must. Unknown: the hash could not be looked up, or it is absent and the nonce could not be looked
  up; nothing is written. Not found, the only answer that calls a repeated broadcast safe: the provider does
  not know the hash and the account nonce has not passed the transaction's; nothing is written. Conflict:
  another hash or nonce was returned, or the nonce is consumed without the hash; a violation is on record and
  the run is halted or revoked, and no transaction or intent is touched. Included and submitted: exactly the
  precomputed hash and nonce were found, in a canonical block for the first and not for the second, and only
  then is this one transaction moved to that state, with no violation and no run stopped. A call that raises
  touches no transaction and no intent.
\<close>

theorem resolution_is_conservative:
  assumes "resolve_submission h by_hash by_nonce clk i addr at d = (result, d')" and "run_of_transaction i d = Some (t, run)"
  shows "case result of Inl e \<Rightarrow> t_transactions d' = t_transactions d \<and> t_intents d' = t_intents d
     | Inr res \<Rightarrow> rv_safe_to_repeat res = (rv_status res = R_not_found) \<and> (case rv_status res of
         R_unknown \<Rightarrow> d' = d \<and> lookups_failed by_hash by_nonce addr t
       | R_not_found \<Rightarrow> d' = d \<and> hash_absent by_hash t
           \<and> (\<exists>n. by_nonce (tx_chain_id t) addr = Inr (Some n) \<and> n \<le> tx_nonce t)
       | R_conflict \<Rightarrow> answers_conflict by_hash by_nonce addr t \<and> mode_of run d' \<in> {Some Halted, Some Revoked}
           \<and> t_transactions d' = t_transactions d \<and> t_intents d' = t_intents d
           \<and> (\<exists>v\<in>set (t_violations d'). \<exists>occ. resolution_time clk at = Inr occ
                \<and> iv_violation_id v = conflict_id (h (conflict_material run i (rv_reason_code res) occ)))
       | R_included \<Rightarrow> advanced_to T_included i d d' \<and> (\<exists>p. probed_exactly by_hash t p \<and> pb_included p \<and> pb_canonical p)
       | R_submitted \<Rightarrow> advanced_to T_submitted i d d'
           \<and> (\<exists>p. probed_exactly by_hash t p \<and> \<not> (pb_included p \<and> pb_canonical p)))"
proof (cases result)
  case (Inl e)
  with assms(1) resolve_failure_keeps show ?thesis by auto
next
  case (Inr res)
  with assms(1) have run: "resolve_submission h by_hash by_nonce clk i addr at d = (Inr res, d')" by simp
  from run assms(2) show ?thesis
  proof (cases rule: resolve_cases)
    case unknown
    with Inr show ?thesis by simp
  next
    case conflict
    from halt_conflict_time [OF conflict(4)] obtain occ where occ: "resolution_time clk at = Inr occ" ..
    have "t_intents d' = t_intents d" using halt_conflict_keeps [of h clk run i "rv_reason_code res" at d] conflict(4) by simp
    with Inr conflict(1-3) occ halt_conflict_stops [OF conflict(4) occ] show ?thesis by auto
  next
    case (found x p target)
    then have "probed_exactly by_hash t p" by (auto simp: probed_exactly_def)
    with found advance_state [OF found(8) run_of_transaction_id(2) [OF assms(2)] refl] Inr show ?thesis
      by (auto split: if_splits)
  next
    case (absent x n)
    with Inr show ?thesis by (auto simp: hash_absent_def)
  qed
qed

section \<open>Replacements\<close>

text \<open>
  The manager of a maximum interleaved with everything that neither adds transactions nor relinks them:
  fresh intents replace nothing, the other calls of the coordinator update rows in place.
\<close>

definition replacement_links :: "db \<Rightarrow> (string \<times> string option) list" where
  "replacement_links d = map (\<lambda>t. (tx_transaction_id t, tx_replaces_transaction_id t)) (t_transactions d)"

inductive replacement_step :: "(json \<Rightarrow> string) \<Rightarrow> int \<Rightarrow> db \<Rightarrow> db \<Rightarrow> bool" for h maximum where
  prepare: "ip_replaces_transaction_id p = None \<Longrightarrow> wd_db w = d
    \<Longrightarrow> replacement_step h maximum d (wd_db (snd (prepare_intent h crash clk p now w)))"
| replace: "wd_db w = d \<Longrightarrow> prepare_replacement h crash clk maximum i p now w = Some (r, w')
    \<Longrightarrow> replacement_step h maximum d (wd_db w')"
| other: "replacement_links d' = replacement_links d \<Longrightarrow> replacement_step h maximum d d'"

definition replacement_start :: "int \<Rightarrow> db \<Rightarrow> bool" where
  "replacement_start maximum d \<longleftrightarrow> 0 \<le> maximum \<and> t_transactions d = []"

definition replacements_ok :: "int \<Rightarrow> db \<Rightarrow> bool" where
  "replacements_ok maximum d \<longleftrightarrow> 0 \<le> maximum
     \<and> (\<forall>t\<in>set (t_transactions d). \<forall>r. tx_replaces_transaction_id t = Some r \<longrightarrow> find_transaction r d \<noteq> None)
     \<and> (\<forall>t\<in>set (t_transactions d). \<exists>n. ancestor_count d (tx_transaction_id t) = Some n \<and> int n \<le> maximum + 1)"

text \<open>The query reads only identifiers and links, and a store that links further rows leaves it as it is.\<close>

definition link_of :: "db \<Rightarrow> string \<Rightarrow> string option option" where
  "link_of d i = map_option tx_replaces_transaction_id (find_transaction i d)"

lemma ancestor_count_link:
  "ancestor_count d i = (case link_of d i of None \<Rightarrow> Some 0 | Some None \<Rightarrow> Some 1
     | Some (Some p) \<Rightarrow> Option.bind (ancestor_count d p) (\<lambda>n. Some (Suc n)))"
  unfolding link_of_def by (subst ancestor_count.simps) (simp split: option.split)

lemma ancestor_count_stable:
  assumes "\<And>i l. link_of d i = Some l \<Longrightarrow> link_of e i = Some l"
    and "\<And>i r. link_of d i = Some (Some r) \<Longrightarrow> link_of d r \<noteq> None"
  shows "ancestor_count d i = Some n \<Longrightarrow> link_of d i \<noteq> None \<Longrightarrow> ancestor_count e i = Some n"
proof (induction n arbitrary: i)
  case 0
  then show ?case by (subst (asm) ancestor_count_link) (auto simp: bind_eq_Some_conv split: option.splits)
next
  case (Suc n)
  from Suc.prems(2) obtain l where l: "link_of d i = Some l" by blast
  show ?case
  proof (cases l)
    case None
    with Suc.prems(1) l assms(1) [OF l] show ?thesis by (simp add: ancestor_count_link [of _ i])
  next
    case (Some r)
    with Suc.prems(1) l have "ancestor_count d r = Some n"
      by (simp add: ancestor_count_link [of d i] bind_eq_Some_conv)
    with Suc.IH assms(2) l Some have "ancestor_count e r = Some n" by blast
    with assms(1) [OF l] Some show ?thesis by (simp add: ancestor_count_link [of e i])
  qed
qed

lemma link_of_links: "link_of d i = map_of (replacement_links d) i"
proof -
  have "map_option tx_replaces_transaction_id (find (\<lambda>t. tx_transaction_id t = i) ts)
      = map_of (map (\<lambda>t. (tx_transaction_id t, tx_replaces_transaction_id t)) ts) i" for ts
    by (induction ts) auto
  then show ?thesis by (simp add: link_of_def replacement_links_def find_transaction_def)
qed

lemma replacements_ok_links:
  "replacements_ok maximum d \<longleftrightarrow> 0 \<le> maximum
     \<and> (\<forall>(i, l)\<in>set (replacement_links d). \<forall>r. l = Some r \<longrightarrow> link_of d r \<noteq> None)
     \<and> (\<forall>(i, l)\<in>set (replacement_links d). \<exists>n. ancestor_count d i = Some n \<and> int n \<le> maximum + 1)"
  unfolding replacements_ok_def replacement_links_def link_of_def by simp

lemma link_of_mem: "link_of d i = Some l \<Longrightarrow> (i, l) \<in> set (replacement_links d)"
  unfolding link_of_links by (rule map_of_SomeD)

lemma mem_link_of: "(i, l) \<in> set (replacement_links d) \<Longrightarrow> link_of d i \<noteq> None"
  unfolding link_of_links by (auto simp: map_of_eq_None_iff image_iff) (metis fst_conv)

lemma replacements_ok_same:
  assumes "replacements_ok maximum d" and "replacement_links e = replacement_links d"
  shows "replacements_ok maximum e"
proof -
  have l: "link_of e = link_of d" using assms(2) by (simp add: fun_eq_iff link_of_links)
  have fk: "link_of d r \<noteq> None" if "link_of d j = Some (Some r)" for j r
    using link_of_mem [OF that] assms(1) by (auto simp: replacements_ok_links)
  have keep: "link_of e j = Some k" if "link_of d j = Some k" for j k using that l by simp
  have "ancestor_count e i = Some n" if "ancestor_count d i = Some n" "(i, k) \<in> set (replacement_links d)" for i n k
    using ancestor_count_stable [OF keep fk that(1) mem_link_of [OF that(2)]] .
  with assms l show ?thesis unfolding replacements_ok_links assms(2) by fastforce
qed

text \<open>A new row that replaces nothing, or replaces a row that may still be replaced.\<close>

lemma replacements_ok_snoc:
  assumes ok: "replacements_ok maximum d" and links: "replacement_links e = replacement_links d @ [(i, l)]"
    and new: "link_of d i = None"
    and room: "case l of None \<Rightarrow> True | Some r \<Rightarrow> link_of d r \<noteq> None
        \<and> (\<exists>n. ancestor_count d r = Some n \<and> int n \<le> maximum)"
  shows "replacements_ok maximum e"
proof -
  have keep: "link_of e j = Some k" if "link_of d j = Some k" for j k
    using that by (simp add: link_of_links links map_of_append map_add_Some_iff)
  have fk: "link_of d r \<noteq> None" if "link_of d j = Some (Some r)" for j r
    using link_of_mem [OF that] ok by (auto simp: replacements_ok_links)
  have old: "ancestor_count e j = Some n" if "ancestor_count d j = Some n" "link_of d j \<noteq> None" for j n
    using ancestor_count_stable [OF keep fk that] .
  have self: "link_of e i = Some l"
    using new by (simp add: link_of_links links map_of_append map_add_def)
  have count: "\<exists>n. ancestor_count e i = Some n \<and> int n \<le> maximum + 1"
  proof (cases l)
    case None
    with self ok show ?thesis by (simp add: ancestor_count_link [of e i] replacements_ok_links)
  next
    case (Some r)
    with room obtain n where "ancestor_count d r = Some n" "int n \<le> maximum" "link_of d r \<noteq> None" by auto
    with old [of r n] self Some show ?thesis by (simp add: ancestor_count_link [of e i])
  qed
  have link: "link_of e r \<noteq> None" if "link_of d r \<noteq> None" for r using that keep by (cases "link_of d r") auto
  show ?thesis
    unfolding replacements_ok_links links
  proof (intro conjI)
    show "0 \<le> maximum" using ok by (simp add: replacements_ok_links)
    show "\<forall>(j, k)\<in>set (replacement_links d @ [(i, l)]). \<forall>r. k = Some r \<longrightarrow> link_of e r \<noteq> None"
      using ok link room by (auto simp: replacements_ok_links split: option.splits)
    show "\<forall>(j, k)\<in>set (replacement_links d @ [(i, l)]). \<exists>n. ancestor_count e j = Some n \<and> int n \<le> maximum + 1"
      using ok old count mem_link_of by (fastforce simp: replacements_ok_links)
  qed
qed


lemma prepare_links:
  assumes "w' = snd (prepare_intent h crash clk p now w)"
  shows "replacement_links (wd_db w') = replacement_links (wd_db w)
    \<or> replacement_links (wd_db w') = replacement_links (wd_db w) @ [(ip_transaction_id p, ip_replaces_transaction_id p)]
      \<and> link_of (wd_db w) (ip_transaction_id p) = None"
proof (cases "prepare_checks clk p now")
  case (Inl e)
  with assms show ?thesis by (simp add: prepare_intent_def act_bind_def act_lift_def)
next
  case (Inr times)
  obtain a b c where times: "times = (a, b, c)" by (cases times)
  let ?body = "prepare_intent_txn crash clk (signer_operation_id h (ip_request p)) a b c p"
  have "wd_db w' = snd (store_write ?body (wd_db w))"
    using assms Inr times
    by (auto simp: prepare_intent_def act_bind_def act_lift_def act_write_def act_return_def split: prod.splits sum.splits if_splits)
  moreover have "replacement_links e = replacement_links (wd_db w)
      \<or> replacement_links e = replacement_links (wd_db w) @ [(ip_transaction_id p, ip_replaces_transaction_id p)]
        \<and> link_of (wd_db w) (ip_transaction_id p) = None" if "?body (wd_db w) = Inr (x, e)" for x e
  proof (cases "find_intent (sr_intent_id (ip_request p)) (wd_db w)")
    case (Some i)
    with that show ?thesis by (auto simp: prepare_intent_txn_def Let_def split: if_splits)
  next
    case None
    with that have "t_transactions e = t_transactions (wd_db w) @ [new_transaction p]"
      "find_transaction (ip_transaction_id p) (wd_db w) = None"
      by (auto simp: prepare_intent_txn_def Let_def exn_simps append_transition_def bind_nonce_intent_def split: option.splits)
    then show ?thesis by (simp add: replacement_links_def link_of_def new_transaction_def)
  qed
  ultimately show ?thesis by (cases "?body (wd_db w)") (auto simp: store_write_def)
qed

lemma prepare_replacement_cases:
  assumes "prepare_replacement h crash clk maximum i p now w = Some (r, w')"
  obtains (rejected) "w' = w"
  | (prepared) n where "ancestor_count (wd_db w) i = Some n" "int n \<le> maximum" "link_of (wd_db w) i \<noteq> None"
      "w' = snd (prepare_intent h crash clk (p\<lparr>ip_replaces_transaction_id := Some i\<rparr>) now w)"
proof -
  let ?prior = "Option.bind (find_transaction i (wd_db w)) (\<lambda>t. map_option (\<lambda>x. (t, x)) (find_intent (tx_intent_id t) (wd_db w)))"
  show thesis
  proof (cases ?prior)
    case None
    with assms show thesis by (intro rejected) (simp add: prepare_replacement_def)
  next
    case (Some prior)
    with assms obtain n where n: "ancestor_count (wd_db w) i = Some n"
      by (auto simp: prepare_replacement_def bind_eq_Some_conv)
    show thesis
    proof (cases "check_predecessor maximum n prior p")
      case (Inl e)
      with assms Some n show thesis by (intro rejected) (simp add: prepare_replacement_def)
    next
      case (Inr u)
      then have "int n \<le> maximum" by (auto simp: check_predecessor_def exn_simps)
      moreover have "link_of (wd_db w) i \<noteq> None" using Some by (auto simp: link_of_def bind_eq_Some_conv)
      moreover from assms Some n Inr
      have "w' = snd (prepare_intent h crash clk (p\<lparr>ip_replaces_transaction_id := Some i\<rparr>) now w)"
        by (cases "prepare_intent h crash clk (p\<lparr>ip_replaces_transaction_id := Some i\<rparr>) now w")
          (auto simp: prepare_replacement_def split: sum.splits)
      ultimately show thesis by (rule prepared [OF n])
    qed
  qed
qed

lemma replacement_step_inv: "replacements_ok maximum d \<Longrightarrow> replacement_step h maximum d d' \<Longrightarrow> replacements_ok maximum d'"
proof (elim replacement_step.cases)
  fix p w d0 crash clk now
  assume ok: "replacements_ok maximum d" and p: "ip_replaces_transaction_id p = None" and eq: "wd_db w = d0" "d = d0"
    and d': "d' = wd_db (snd (prepare_intent h crash clk p now w))"
  from prepare_links [OF refl, of h crash clk p now w] show "replacements_ok maximum d'"
  proof
    assume "replacement_links (wd_db (snd (prepare_intent h crash clk p now w))) = replacement_links (wd_db w)"
    with eq d' show ?thesis by (intro replacements_ok_same [OF ok]) simp
  next
    assume "replacement_links (wd_db (snd (prepare_intent h crash clk p now w))) = replacement_links (wd_db w)
        @ [(ip_transaction_id p, ip_replaces_transaction_id p)] \<and> link_of (wd_db w) (ip_transaction_id p) = None"
    with eq d' p show ?thesis by (intro replacements_ok_snoc [OF ok, of d' "ip_transaction_id p" None]) simp_all
  qed
next
  fix w d0 crash clk i p now r w'
  assume ok: "replacements_ok maximum d" and eq: "wd_db w = d0" "d = d0" "d' = wd_db w'"
    and run: "prepare_replacement h crash clk maximum i p now w = Some (r, w')"
  from run show "replacements_ok maximum d'"
  proof (cases rule: prepare_replacement_cases)
    case rejected
    with ok eq show ?thesis by simp
  next
    case (prepared n)
    from prepare_links [OF prepared(4)] show ?thesis
    proof
      assume "replacement_links (wd_db w') = replacement_links (wd_db w)"
      with eq show ?thesis by (intro replacements_ok_same [OF ok]) simp
    next
      assume "replacement_links (wd_db w') = replacement_links (wd_db w)
          @ [(ip_transaction_id (p\<lparr>ip_replaces_transaction_id := Some i\<rparr>),
              ip_replaces_transaction_id (p\<lparr>ip_replaces_transaction_id := Some i\<rparr>))]
        \<and> link_of (wd_db w) (ip_transaction_id (p\<lparr>ip_replaces_transaction_id := Some i\<rparr>)) = None"
      with eq prepared(1-3) show ?thesis
        by (intro replacements_ok_snoc [OF ok, of d' "ip_transaction_id p" "Some i"]) auto
    qed
  qed
qed (erule replacements_ok_same, simp)

interpretation replacement: transition_system "replacement_start maximum" "replacement_step h maximum" "replacements_ok maximum"
  for maximum h
  by unfold_locales (simp add: replacement_start_def replacements_ok_def, rule replacement_step_inv)

text \<open>
  Replacements are bounded and the manager always answers. Starting without transactions and however
  its calls interleave with fresh intents and with everything that leaves the links alone, a manager with
  maximum \<open>m\<close> never lets a transaction stand on more than \<open>m\<close> predecessors, so the recursive query over them
  ends and every call of \<^verbatim>\<open>prepare_replacement\<close> returns.
\<close>

theorem replacements_are_bounded:
  assumes "replacement_start maximum d0" and "(replacement_step h maximum)\<^sup>*\<^sup>* d0 d"
  shows "(\<forall>t\<in>set (t_transactions d). \<exists>n. ancestor_count d (tx_transaction_id t) = Some n \<and> int n - 1 \<le> maximum)
    \<and> (wd_db w = d \<longrightarrow> (\<exists>r w'. prepare_replacement h crash clk maximum i p now w = Some (r, w')))"
proof -
  from replacement.reachable_inv [OF assms] have ok: "replacements_ok maximum d" .
  then have bounded: "\<exists>n. ancestor_count d (tx_transaction_id t) = Some n \<and> int n - 1 \<le> maximum"
    if "t \<in> set (t_transactions d)" for t using that by (auto simp: replacements_ok_def)
  have "prepare_replacement h crash clk maximum i p now w \<noteq> None" if "wd_db w = d"
  proof (cases "find_transaction i d")
    case (Some t)
    then have "t \<in> set (t_transactions d)" "tx_transaction_id t = i" by (auto simp: find_transaction_def dest: find_SomeD)
    with bounded obtain n where "ancestor_count d i = Some n" by blast
    with that show ?thesis by (auto simp: prepare_replacement_def split: option.splits sum.splits prod.splits)
  qed (simp add: prepare_replacement_def that)
  then have "\<exists>r w'. prepare_replacement h crash clk maximum i p now w = Some (r, w')" if "wd_db w = d"
    using that by (cases "prepare_replacement h crash clk maximum i p now w") auto
  with bounded show ?thesis by blast
qed


section \<open>Examples\<close>

text \<open>A submitted transaction whose nonce another transaction consumed.\<close>

definition demo_ambiguous :: db where
  "demo_ambiguous = snd (initialize 60 ''run'' (demo_decision ''d0'') None (wd_db demo_w4))"

definition demo_resolved :: "int \<Rightarrow> resolution_result outcome" where
  "demo_resolved nonce = resolve_submission demo_h (\<lambda>_ _. Inr None) (\<lambda>_ _. Inr (Some nonce)) 61 ''t'' ''0xsigner'' None demo_ambiguous"

definition demo_resolution_view :: "db \<Rightarrow> string option \<times> (exn + resolution_result) \<times> (exn + resolution_result)" where
  "demo_resolution_view d = (map_option snd (run_of_transaction ''t'' d),
     fst (resolve_submission demo_h (\<lambda>_ _. Inr None) (\<lambda>_ _. Inr (Some 9)) 61 ''t'' ''0xsigner'' None d),
     fst (resolve_submission demo_h (\<lambda>_ _. Inr None) (\<lambda>_ _. Inr (Some 7)) 61 ''t'' ''0xsigner'' None d))"

lemma demo_resolution_viewed: "demo_resolution_view demo_ambiguous = (Some ''run'',
     Inr (result_of ''t'' R_conflict ''nonce_consumed_without_known_hash'' False),
     Inr (result_of ''t'' R_not_found ''exact_hash_absent_nonce_not_consumed'' True))"
  by code_simp

theorem resolution_is_conservative_witness:
  "fst (demo_resolved 9) = Inr (result_of ''t'' R_conflict ''nonce_consumed_without_known_hash'' False)
   \<and> mode_of ''run'' (snd (demo_resolved 9)) \<in> {Some Halted, Some Revoked}
   \<and> fst (demo_resolved 7) = Inr (result_of ''t'' R_not_found ''exact_hash_absent_nonce_not_consumed'' True)
   \<and> snd (demo_resolved 7) = demo_ambiguous"
proof -
  have row: "map_option snd (run_of_transaction ''t'' demo_ambiguous) = Some ''run''"
    using demo_resolution_viewed by (simp add: demo_resolution_view_def)
  then obtain t where t: "run_of_transaction ''t'' demo_ambiguous = Some (t, ''run'')" by auto
  have nine: "fst (demo_resolved 9) = Inr (result_of ''t'' R_conflict ''nonce_consumed_without_known_hash'' False)"
    using demo_resolution_viewed by (simp add: demo_resolution_view_def demo_resolved_def)
  have seven: "fst (demo_resolved 7) = Inr (result_of ''t'' R_not_found ''exact_hash_absent_nonce_not_consumed'' True)"
    using demo_resolution_viewed by (simp add: demo_resolution_view_def demo_resolved_def)
  from nine have "demo_resolved 9 = (Inr (result_of ''t'' R_conflict ''nonce_consumed_without_known_hash'' False), snd (demo_resolved 9))"
    by (simp add: prod_eq_iff)
  from resolution_is_conservative [OF this [unfolded demo_resolved_def] t] have "mode_of ''run'' (snd (demo_resolved 9)) \<in> {Some Halted, Some Revoked}"
    by (simp add: result_of_def demo_resolved_def)
  moreover from seven have "demo_resolved 7 = (Inr (result_of ''t'' R_not_found ''exact_hash_absent_nonce_not_consumed'' True), snd (demo_resolved 7))"
    by (simp add: prod_eq_iff)
  from resolution_is_conservative [OF this [unfolded demo_resolved_def] t] have "snd (demo_resolved 7) = demo_ambiguous"
    by (simp add: result_of_def demo_resolved_def)
  ultimately show ?thesis using nine seven by simp
qed

text \<open>With a maximum of one, the submitted transaction may still be replaced.\<close>

theorem replacements_are_bounded_witness:
  "map tx_transaction_id (t_transactions (wd_db demo_w1)) = [''t'']
   \<and> (\<exists>n. ancestor_count (wd_db demo_w1) ''t'' = Some n \<and> int n - 1 \<le> 1)
   \<and> (\<exists>r w'. prepare_replacement demo_h (\<lambda>_. False) 70 1 ''t'' demo_preparation None demo_w1 = Some (r, w'))"
proof -
  have start: "replacement_start 1 (wd_db demo_w0)"
    by (simp add: replacement_start_def demo_w0_def demo_ready_def empty_db_def)
  have run: "(replacement_step demo_h 1)\<^sup>*\<^sup>* (wd_db demo_w0) (wd_db demo_w1)"
    unfolding demo_w1_def
    by (rule r_into_rtranclp, rule replacement_step.prepare) (simp_all add: demo_preparation_def)
  have ids: "map tx_transaction_id (t_transactions (wd_db demo_w1)) = [''t'']" by code_simp
  then obtain t where "t \<in> set (t_transactions (wd_db demo_w1))" "tx_transaction_id t = ''t''"
    by (cases "t_transactions (wd_db demo_w1)") auto
  moreover note replacements_are_bounded [OF start run, of demo_w1 "\<lambda>_. False" 70 "''t''" demo_preparation None]
  ultimately show ?thesis using ids by metis
qed


end
