(* ===== verification/Xir_Action_Rules.thy ===== *)
theory Xir_Action_Rules
  imports Xir_Actions
begin

text \<open>
  Forward rules for triples: consequence, checks that keep what is known and add what they found, and writes
  that either roll back or commit.
\<close>

lemma triple_pre: "triple I P m Q \<Longrightarrow> (\<And>w. P' w \<Longrightarrow> P w) \<Longrightarrow> triple I P' m Q"
  by (simp add: triple_def)

lemma triple_post: "triple I P m Q \<Longrightarrow> (\<And>a w. Q a w \<Longrightarrow> Q' a w) \<Longrightarrow> triple I P m Q'"
  unfolding triple_def by (fastforce split: sum.splits prod.splits)

lemma triple_ensure:
  "(\<And>w. P w \<Longrightarrow> I w) \<Longrightarrow> triple I P (act_lift (ensure b e)) (\<lambda>_ w. P w \<and> b)"
  "(\<And>w. P w \<Longrightarrow> I w) \<Longrightarrow> triple I P (act_lift (require x e)) (\<lambda>a w. P w \<and> x = Some a)"
  by (auto simp: triple_def act_lift_def exn_simps split: sum.splits option.splits)

lemma triple_check: "(\<And>w. P w \<Longrightarrow> I w) \<Longrightarrow> triple I P (act_lift x) (\<lambda>a w. P w \<and> x = Inr a)"
  by (auto simp: triple_def act_lift_def split: sum.splits)

lemma triple_write:
  assumes "\<And>w. P w \<Longrightarrow> I w" and "\<And>w a w'. P w \<Longrightarrow> body w = Inr (a, w') \<Longrightarrow> Q a w'"
  shows "triple I P (store_write body) Q"
  unfolding triple_def
proof (intro allI impI)
  fix w assume "P w"
  with assms show "case store_write body w of (Inl e, w') \<Rightarrow> I w' | (Inr a, w') \<Rightarrow> Q a w'"
    by (cases "body w") (auto simp: store_write_def)
qed

text \<open>The same for the first step of a program; what a pure check says becomes a fact and not part of the state predicate.\<close>

lemma bind_check:
  "(\<And>w. P w \<Longrightarrow> I w) \<Longrightarrow> (\<And>a. x = Inr a \<Longrightarrow> triple I P (f a) Q) \<Longrightarrow> triple I P (act_bind (act_lift x) f) Q"
  by (cases x) (auto simp: triple_def act_bind_def act_lift_def)

lemma bind_ensure:
  "(\<And>w. P w \<Longrightarrow> I w) \<Longrightarrow> (b \<Longrightarrow> triple I P (f ()) Q) \<Longrightarrow> triple I P (act_bind (act_lift (ensure b e)) f) Q"
  by (rule bind_check) (auto simp: exn_simps)

lemma bind_write:
  "(\<And>w. P w \<Longrightarrow> I w) \<Longrightarrow> (\<And>w a w'. P w \<Longrightarrow> body w = Inr (a, w') \<Longrightarrow> R a w') \<Longrightarrow> (\<And>a. triple I (R a) (f a) Q)
     \<Longrightarrow> triple I P (act_bind (store_write body) f) Q"
  by (rule triple_bind [OF triple_write])

text \<open>Programs all of whose steps keep a predicate.\<close>

lemma keep_bind: "triple I I m (\<lambda>_. I) \<Longrightarrow> (\<And>a. triple I I (f a) (\<lambda>_. I)) \<Longrightarrow> triple I I (act_bind m f) (\<lambda>_. I)"
  by (rule triple_bind)

lemma keep_write: "(\<And>w a w'. I w \<Longrightarrow> body w = Inr (a, w') \<Longrightarrow> I w') \<Longrightarrow> triple I I (store_write body) (\<lambda>_. I)"
  by (rule triple_write)

lemmas keep_rules = keep_bind triple_keep keep_write

end
