(* ===== verification/Xir_Finality_Properties.thy ===== *)
theory Xir_Finality_Properties
  imports Xir_Finality Xir_Action_Rules
begin

text \<open>
  The finality observations of a transaction form one chain of legal moves, whatever the provider answers,
  and a freeze audit that returns rests on finality the registered policy asks for and on a fresh check of
  canonicality.
\<close>

section \<open>Histories\<close>

definition history :: "string \<Rightarrow> evidence \<Rightarrow> finality_row list" where
  "history i ev = filter (\<lambda>r. fo_transaction_id r = i) (ev_finality ev)"

definition same_block :: "finality_row \<Rightarrow> finality_row \<Rightarrow> bool" where
  "same_block q r \<longleftrightarrow> fo_block_number q = fo_block_number r \<and> fo_block_hash q = fo_block_hash r"

text \<open>The observation that may come next: inclusion first, finality after inclusion in the same block, orphaning of what is current.\<close>

definition follows :: "finality_row option \<Rightarrow> finality_row \<Rightarrow> bool" where
  "follows p r \<longleftrightarrow> (case p of
     None \<Rightarrow> fo_state r = F_included
   | Some q \<Rightarrow> (case fo_state r of
       F_included \<Rightarrow> fo_state q = F_orphaned \<or> \<not> same_block q r
     | F_finalized \<Rightarrow> fo_state q = F_included \<and> same_block q r
     | F_orphaned \<Rightarrow> fo_state q \<noteq> F_orphaned \<and> same_block q r))"

fun linked :: "finality_row option \<Rightarrow> finality_row list \<Rightarrow> bool" where
  "linked p [] = True"
| "linked p (r # rs) = (fo_supersedes r = map_option fo_observation_id p \<and> follows p r \<and> linked (Some r) rs)"

definition last_opt :: "'a option \<Rightarrow> 'a list \<Rightarrow> 'a option" where
  "last_opt p xs = (if xs = [] then p else Some (last xs))"

lemma linked_append: "linked p (xs @ ys) \<longleftrightarrow> linked p xs \<and> linked (last_opt p xs) ys"
  by (induction xs arbitrary: p) (auto simp: last_opt_def)

definition coordinates_of :: "string \<Rightarrow> evidence \<Rightarrow> (int \<times> string) option" where
  "coordinates_of i ev = map_option (\<lambda>(t, run). (tx_chain_id t, run)) (run_of_transaction i (ev_db ev))"

text \<open>A finalized observation stands on the registered policy of its run and chain.\<close>

definition backed :: "evidence \<Rightarrow> finality_row \<Rightarrow> bool" where
  "backed ev r \<longleftrightarrow> (\<exists>run p head. coordinates_of (fo_transaction_id r) ev = Some (fo_chain_id r, run)
     \<and> find_policy run (fo_chain_id r) ev = Some p \<and> fp_kind p = fo_policy_kind r
     \<and> fo_policy_head r = Some head \<and> reached p head (fo_block_number r))"

definition finality_inv :: "evidence \<Rightarrow> bool" where
  "finality_inv ev \<longleftrightarrow> distinct (map fo_observation_id (ev_finality ev)) \<and> (\<forall>i. linked None (history i ev))
     \<and> (\<forall>r\<in>set (ev_finality ev). lower (fo_block_hash r) = fo_block_hash r)
     \<and> (\<forall>r\<in>set (ev_finality ev). fo_state r = F_finalized \<longrightarrow> backed ev r)"

lemma lower_idem [simp]: "lower (lower s) = lower s"
proof -
  have "lower_char (lower_char c) = lower_char c" for c
  proof (cases "65 \<le> (of_char c :: nat) \<and> (of_char c :: nat) \<le> 90")
    case True
    then have "(of_char (char_of ((of_char c :: nat) + 32)) :: nat) = of_char c + 32"
      by (simp add: of_char_of)
    with True show ?thesis by (simp add: lower_char_def)
  next
    case False
    then have "lower_char c = c" unfolding lower_char_def by (rule if_not_P)
    then show ?thesis by simp
  qed
  then show ?thesis by (simp add: lower_def)
qed

text \<open>The observation nothing supersedes is the last of the history.\<close>

lemma find_unique:
  assumes x: "x \<in> set xs" "P x" and same: "\<And>y. y \<in> set xs \<Longrightarrow> P y \<Longrightarrow> y = x"
  shows "find P xs = Some x"
proof (cases "find P xs")
  case None
  with x show ?thesis by (meson find_None_iff)
next
  case (Some y)
  then have "y \<in> set xs" "P y" by (auto simp: find_Some_iff)
  from same [OF this] Some show ?thesis by simp
qed

lemma superseded_in_history:
  assumes inv: "finality_inv ev" and r: "r \<in> set (history i ev)"
  shows "list_ex (\<lambda>l. fo_supersedes l = Some (fo_observation_id r)) (ev_finality ev) \<longleftrightarrow> r \<noteq> last (history i ev)"
proof
  have dist: "distinct (map fo_observation_id (ev_finality ev))" and link: "linked None (history j ev)" for j
    using inv by (simp_all add: finality_inv_def)
  have hist: "distinct (history j ev)" for j
    using dist by (simp add: history_def distinct_map)
  assume "list_ex (\<lambda>l. fo_supersedes l = Some (fo_observation_id r)) (ev_finality ev)"
  then obtain l where l: "l \<in> set (ev_finality ev)" "fo_supersedes l = Some (fo_observation_id r)"
    by (auto simp: list_ex_iff)
  then have "l \<in> set (history (fo_transaction_id l) ev)" by (simp add: history_def)
  then obtain xs ys where split: "history (fo_transaction_id l) ev = xs @ l # ys" by (auto simp: in_set_conv_decomp)
  with link [of "fo_transaction_id l"] l(2) have "xs \<noteq> []" "fo_observation_id (last xs) = fo_observation_id r"
    by (auto simp: linked_append last_opt_def split: if_splits)
  moreover from split \<open>xs \<noteq> []\<close> have lx: "last xs \<in> set (history (fo_transaction_id l) ev)" by simp
  ultimately have "last xs = r"
    using dist r by (auto simp: history_def distinct_map inj_on_def)
  with lx r have "fo_transaction_id l = i" by (auto simp: history_def)
  from \<open>xs \<noteq> []\<close> \<open>last xs = r\<close> have "r \<in> set xs" by auto
  moreover have "set xs \<inter> set (l # ys) = {}" using hist [of "fo_transaction_id l"] by (simp add: split)
  moreover have "last (history i ev) = last (l # ys)" using split \<open>fo_transaction_id l = i\<close> by simp
  moreover have "last (l # ys) \<in> set (l # ys)" by (rule last_in_set) simp
  ultimately show "r \<noteq> last (history i ev)" by (metis disjoint_iff)
next
  assume "r \<noteq> last (history i ev)"
  from r obtain xs zs where "history i ev = xs @ r # zs" using split_list by fast
  with \<open>r \<noteq> last (history i ev)\<close> obtain y ys where "history i ev = xs @ r # y # ys"
    by (cases zs) simp_all
  moreover have "linked None (history i ev)" using inv by (simp add: finality_inv_def)
  ultimately have "fo_supersedes y = Some (fo_observation_id r)" "y \<in> set (history i ev)"
    by (auto simp: linked_append last_opt_def)
  then show "list_ex (\<lambda>l. fo_supersedes l = Some (fo_observation_id r)) (ev_finality ev)"
    by (auto simp: list_ex_iff history_def)
qed

lemma latest_is_last:
  assumes "finality_inv ev"
  shows "latest i ev = last_opt None (history i ev)"
proof (cases "history i ev = []")
  case True
  then show ?thesis by (auto simp: latest_def last_opt_def history_def filter_empty_conv find_None_iff)
next
  case False
  then have last: "last (history i ev) \<in> set (history i ev)" by simp
  have "latest i ev = Some (last (history i ev))"
    unfolding latest_def
  proof (rule find_unique)
    from last show "last (history i ev) \<in> set (ev_finality ev)" by (simp add: history_def)
    from superseded_in_history [OF assms last] last
    show "fo_transaction_id (last (history i ev)) = i \<and> \<not> list_ex (\<lambda>l. fo_supersedes l =
        Some (fo_observation_id (last (history i ev)))) (ev_finality ev)" by (simp add: history_def)
    fix y assume y: "y \<in> set (ev_finality ev)" "fo_transaction_id y = i
        \<and> \<not> list_ex (\<lambda>l. fo_supersedes l = Some (fo_observation_id y)) (ev_finality ev)"
    then have "y \<in> set (history i ev)" by (simp add: history_def)
    from superseded_in_history [OF assms this] y show "y = last (history i ev)" by blast
  qed
  with False show ?thesis by (simp add: last_opt_def)
qed

lemma latestD:
  assumes "latest i ev = Some r"
  shows "r \<in> set (ev_finality ev)" "fo_transaction_id r = i"
  using assms unfolding latest_def by (auto dest: find_SomeD)

section \<open>One observation\<close>

definition next_for :: "evidence \<Rightarrow> finality_row \<Rightarrow> bool" where
  "next_for ev r \<longleftrightarrow> fo_supersedes r = map_option fo_observation_id (latest (fo_transaction_id r) ev)
     \<and> follows (latest (fo_transaction_id r) ev) r \<and> lower (fo_block_hash r) = fo_block_hash r
     \<and> (fo_state r = F_finalized \<longrightarrow> backed ev r)"

lemma backed_cong:
  assumes "\<And>c. coordinates_of (fo_transaction_id r) ev = Some c \<Longrightarrow> coordinates_of (fo_transaction_id r) ev' = Some c"
    and "\<And>run chain p. find_policy run chain ev = Some p \<Longrightarrow> find_policy run chain ev' = Some p"
  shows "backed ev r \<Longrightarrow> backed ev' r"
  using assms unfolding backed_def by blast

lemma finality_inv_cong:
  assumes "finality_inv ev" and "ev_finality ev' = ev_finality ev"
    and "\<And>i c. coordinates_of i ev = Some c \<Longrightarrow> coordinates_of i ev' = Some c"
    and "\<And>run chain p. find_policy run chain ev = Some p \<Longrightarrow> find_policy run chain ev' = Some p"
  shows "finality_inv ev'"
  using assms(1,2) backed_cong [of _ ev ev'] assms(3,4)
  unfolding finality_inv_def history_def by simp

lemma append_inv:
  assumes inv: "finality_inv ev" and nxt: "next_for ev r" and run: "append_txn r ev = Inr (x, ev')"
  shows "finality_inv ev' \<and> x = r \<and> latest (fo_transaction_id r) ev' = Some r
    \<and> ev_db ev' = ev_db ev \<and> ev_policies ev' = ev_policies ev"
proof -
  from run have ev': "ev' = ev\<lparr>ev_finality := ev_finality ev @ [r]\<rparr>" and x: "x = r"
    and fresh: "fo_observation_id r \<notin> fo_observation_id ` set (ev_finality ev)"
    by (auto simp: append_txn_def exn_simps list_ex_iff)
  have keep: "backed ev' s" if "backed ev s" for s
    by (rule backed_cong [OF _ _ that]) (simp_all add: ev' coordinates_of_def find_policy_def)
  have "linked None (history i ev')" for i
  proof (cases "fo_transaction_id r = i")
    case True
    with inv nxt latest_is_last [OF inv, of i] show ?thesis
      by (simp add: ev' history_def linked_append finality_inv_def next_for_def)
  next
    case False
    with inv show ?thesis by (simp add: ev' history_def finality_inv_def)
  qed
  with inv nxt fresh keep have inv': "finality_inv ev'"
    by (auto simp: finality_inv_def next_for_def ev')
  moreover have "latest (fo_transaction_id r) ev' = Some r"
    using latest_is_last [OF inv', of "fo_transaction_id r"] by (simp add: ev' history_def last_opt_def)
  ultimately show ?thesis using x ev' by simp
qed

lemma set_state_keeps:
  assumes "set_transaction_state_txn clk i s ev = Inr (u, ev')"
  shows "ev_finality ev' = ev_finality ev" "ev_policies ev' = ev_policies ev" "coordinates_of j ev' = coordinates_of j ev"
proof -
  from assms obtain g :: stage_row where ev': "ev' = ev\<lparr>ev_db := (ev_db ev)
      \<lparr>t_transactions := update_where (\<lambda>r. tx_transaction_id r = i) (stamped clk s) (t_transactions (ev_db ev)),
       t_stages := update_where (\<lambda>x. sg_stage_id x = sg_stage_id g)
          (sg_state_update (\<lambda>_. stage_after s (sg_state g))) (t_stages (ev_db ev))\<rparr>\<rparr>"
    by (auto simp: set_transaction_state_txn_def Let_def exn_simps)
  show "ev_finality ev' = ev_finality ev" "ev_policies ev' = ev_policies ev" by (simp_all add: ev')
  have st: "tx_transaction_id (stamped clk s t) = tx_transaction_id t" "tx_intent_id (stamped clk s t) = tx_intent_id t"
    "tx_chain_id (stamped clk s t) = tx_chain_id t" for t by (cases s; simp add: stamped_def)+
  show "coordinates_of j ev' = coordinates_of j ev"
    unfolding coordinates_of_def run_of_transaction_def find_transaction_def find_stage_def find_intent_def
      find_attempt_def find_condition_def ev'
    by (simp add: find_update_where st split: option.split bind_splits)
qed

section \<open>Calls of the manager\<close>

definition good :: "finality_world \<Rightarrow> bool" where
  "good w \<longleftrightarrow> finality_inv (fw_ev w)"

lemma fin_read_triple: "(\<And>w. P w \<Longrightarrow> I w) \<Longrightarrow> triple I P (fin_read f) (\<lambda>a w. P w \<and> f (fw_ev w) = Inr a)"
  by (auto simp: triple_def fin_read_def split: sum.splits)

lemma triple_ask:
  "(\<And>w. P (fw_ev w) \<Longrightarrow> I w) \<Longrightarrow> (\<And>w n. I (w\<lparr>fw_calls := n\<rparr>) = I w) \<Longrightarrow>
     triple I (\<lambda>w. P (fw_ev w)) (fin_hash pv c b) (\<lambda>_ w. P (fw_ev w))"
  "(\<And>w. P (fw_ev w) \<Longrightarrow> I w) \<Longrightarrow> (\<And>w n. I (w\<lparr>fw_calls := n\<rparr>) = I w) \<Longrightarrow>
     triple I (\<lambda>w. P (fw_ev w)) (fin_head pv c k) (\<lambda>_ w. P (fw_ev w))"
  by (auto simp: triple_def fin_hash_def fin_head_def split: sum.splits)

definition current :: "string \<Rightarrow> finality_row \<Rightarrow> evidence \<Rightarrow> bool" where
  "current i r ev \<longleftrightarrow> finality_inv ev \<and> latest i ev = Some r"

lemma latest_cong: "ev_finality ev' = ev_finality ev \<Longrightarrow> latest i ev' = latest i ev"
  by (simp add: latest_def)

lemma set_state_current:
  assumes "set_transaction_state_txn clk j s ev = Inr (u, ev')"
  shows "finality_inv ev \<Longrightarrow> finality_inv ev'" "latest i ev' = latest i ev"
  using set_state_keeps [OF assms] finality_inv_cong [of ev ev'] latest_cong [of ev' ev]
  by (simp_all add: find_policy_def)

lemma observation_triple:
  "triple good (\<lambda>w. finality_inv (fw_ev w) \<and> next_for (fw_ev w) r) (record_observation clk r)
     (\<lambda>x w. x = r \<and> current (fo_transaction_id r) r (fw_ev w))"
  unfolding triple_def
proof (intro allI impI)
  fix w :: finality_world assume pre: "finality_inv (fw_ev w) \<and> next_for (fw_ev w) r"
  show "case record_observation clk r w of (Inl e, w') \<Rightarrow> good w'
      | (Inr x, w') \<Rightarrow> x = r \<and> current (fo_transaction_id r) r (fw_ev w')"
  proof (cases "append_txn r (fw_ev w)")
    case (Inl e)
    with pre show ?thesis by (simp add: record_observation_def act_bind_def fin_write_def store_write_def good_def)
  next
    case (Inr q)
    obtain x ev1 where q: "q = (x, ev1)" by (cases q)
    from append_inv [of "fw_ev w" r x ev1] pre Inr q have
      one: "finality_inv ev1" "x = r" "latest (fo_transaction_id r) ev1 = Some r" by simp_all
    show ?thesis
    proof (cases "set_transaction_state_txn clk (fo_transaction_id r) (fo_state r) ev1")
      case (Inl e)
      with one \<open>append_txn r (fw_ev w) = Inr q\<close> q show ?thesis
        by (simp add: record_observation_def act_bind_def fin_write_def store_write_def good_def)
    next
      case (Inr s)
      obtain u ev2 where s: "s = (u, ev2)" by (cases s)
      from set_state_current [of clk "fo_transaction_id r" "fo_state r" ev1 u ev2] one Inr s
      have "current (fo_transaction_id r) r ev2" by (simp add: current_def)
      with one \<open>append_txn r (fw_ev w) = Inr q\<close> q Inr s show ?thesis
        by (simp add: record_observation_def act_bind_def fin_write_def store_write_def act_return_def)
    qed
  qed
qed

definition observed :: "string \<Rightarrow> finality_row \<Rightarrow> finality_world \<Rightarrow> bool" where
  "observed i r w \<longleftrightarrow> current i r (fw_ev w) \<and> fo_state r \<in> {F_included, F_finalized}"

lemma good_calls: "good (w\<lparr>fw_calls := n\<rparr>) = good w"
  by (simp add: good_def)

lemma inclusion_triple: "triple good good (observe_included h pv clk i) (\<lambda>r. observed i r)"
  unfolding observe_included_def Let_def
proof (rule triple_bind [OF fin_read_triple])
  fix x :: "transaction_row \<times> receipt_row \<times> string"
  obtain t rc run where x: "x = (t, rc, run)" by (metis prod_cases3)
  let ?new = "\<lambda>p l. new_observation h clk i (fp_chain_id p) (rp_block_number rc) (rp_block_hash rc) F_included
     (fp_kind p) None (map_option fo_observation_id l)"
  have last: "triple good (\<lambda>w. finality_inv (fw_ev w) \<and> latest i (fw_ev w) = l)
     (case l of Some r \<Rightarrow> if still_current rc r then act_return r else record_observation clk (?new p l)
        | None \<Rightarrow> record_observation clk (?new p l)) (\<lambda>r. observed i r)" for l p
  proof -
    have rec: "triple good (\<lambda>w. finality_inv (fw_ev w) \<and> latest i (fw_ev w) = l)
       (record_observation clk (?new p l)) (\<lambda>r. observed i r)"
      if "case l of None \<Rightarrow> True | Some r \<Rightarrow> \<not> still_current rc r"
    proof (rule triple_post [OF triple_pre [OF observation_triple]])
      fix w assume "finality_inv (fw_ev w) \<and> latest i (fw_ev w) = l"
      with that show "finality_inv (fw_ev w) \<and> next_for (fw_ev w) (?new p l)"
        by (cases l) (auto simp: next_for_def follows_def new_observation_def still_current_def same_block_def
          intro: finality_state.exhaust)
    qed (simp add: observed_def new_observation_def)
    show ?thesis
    proof (cases l)
      case None
      with rec show ?thesis by simp
    next
      case (Some r)
      show ?thesis
      proof (cases "still_current rc r")
        case True
        with Some show ?thesis by (auto intro!: triple_return simp: observed_def still_current_def current_def)
      next
        case False
        with Some rec show ?thesis by simp
      qed
    qed
  qed
  show "triple good (\<lambda>w. good w \<and> transaction_receipt i (fw_ev w) = Inr x)
     ((\<lambda>(t, rc, run_id). act_bind (fin_read (policy_of run_id (tx_chain_id t))) (\<lambda>policy.
        act_bind (fin_hash pv (fp_chain_id policy) (rp_block_number rc)) (\<lambda>canonical_hash.
        act_bind (act_lift (ensure (matches_hash canonical_hash (lower (rp_block_hash rc))) (FinalityError FE_not_canonical))) (\<lambda>_.
        act_bind (fin_read (\<lambda>ev. Inr (latest i ev))) (\<lambda>l.
          case l of Some r \<Rightarrow> if still_current rc r then act_return r
              else record_observation clk (new_observation h clk i (fp_chain_id policy) (rp_block_number rc)
                 (rp_block_hash rc) F_included (fp_kind policy) None (map_option fo_observation_id l))
          | None \<Rightarrow> record_observation clk (new_observation h clk i (fp_chain_id policy) (rp_block_number rc)
                 (rp_block_hash rc) F_included (fp_kind policy) None (map_option fo_observation_id l))))))) x)
     (\<lambda>r. observed i r)"
    unfolding x prod.case
    by (rule triple_bind [OF triple_pre [OF fin_read_triple [where P = good]]], simp, simp,
        rule triple_bind [OF triple_pre [OF triple_ask(1) [where P = finality_inv]]],
        simp add: good_def, rule good_calls, simp add: good_def,
        rule triple_bind [OF triple_ensure(1)], simp add: good_def,
        rule triple_bind [OF fin_read_triple], simp add: good_def,
        rule triple_pre [OF last], simp)
qed simp

lemma policy_for_transaction_sound:
  assumes "policy_for_transaction i ev = Inr p"
  shows "\<exists>run. coordinates_of i ev = Some (fp_chain_id p, run) \<and> find_policy run (fp_chain_id p) ev = Some p"
proof -
  from assms obtain t :: transaction_row and rc run where t: "transaction_receipt i ev = Inr (t, rc, run)"
    "find_policy run (tx_chain_id t) ev = Some p"
    by (auto simp: policy_for_transaction_def policy_of_def exn_simps split: bind_splits option.splits)
  then have "run_of_transaction i (ev_db ev) = Some (t, run)"
    by (auto simp: transaction_receipt_def exn_simps bind_eq_Some_conv)
  moreover from t(2) have "fp_chain_id p = tx_chain_id t" unfolding find_policy_def by (auto simp: find_Some_iff)
  ultimately show ?thesis using t(2) by (auto simp: coordinates_of_def)
qed

lemma finalize_next:
  assumes "current i r ev" "fo_state r = F_included" "policy_for_transaction i ev = Inr p" "reached p head (fo_block_number r)"
  shows "next_for ev (new_observation h clk i (fp_chain_id p) (fo_block_number r) (fo_block_hash r) F_finalized
     (fp_kind p) (Some head) (Some (fo_observation_id r)))"
proof -
  from assms(1) latestD [of i ev r] have "lower (fo_block_hash r) = fo_block_hash r"
    by (auto simp: current_def finality_inv_def)
  with assms policy_for_transaction_sound [OF assms(3)] show ?thesis
    by (auto simp: next_for_def new_observation_def current_def follows_def same_block_def backed_def)
qed

lemma finalize_triple: "triple good good (finalize h pv clk i) (\<lambda>r. observed i r)"
  unfolding finalize_def
proof (rule triple_bind [OF inclusion_triple], rule triple_if)
  fix r
  show "triple good (observed i r) (act_return r) (\<lambda>r. observed i r)" by (rule triple_return)
  assume other: "fo_state r \<noteq> F_finalized"
  let ?P = "\<lambda>p ev. current i r ev \<and> fo_state r = F_included \<and> policy_for_transaction i ev = Inr p"
  have P: "good w" if "?P p (fw_ev w)" for p w using that by (simp add: good_def current_def)
  show "triple good (observed i r)
     (act_bind (fin_read (policy_for_transaction i)) (\<lambda>policy.
     act_bind (fin_head pv (fp_chain_id policy) (fp_kind policy)) (\<lambda>policy_head.
     act_bind (act_lift (require policy_head (FinalityError FE_head_unavailable))) (\<lambda>head.
     act_bind (act_lift (ensure (fp_kind policy = Confirmations \<longrightarrow> fp_confirmation_count policy \<noteq> None) AssertionError)) (\<lambda>_.
     act_bind (act_lift (ensure (reached policy head (fo_block_number r)) (FinalityError FE_not_reached))) (\<lambda>_.
     act_bind (fin_hash pv (fp_chain_id policy) (fo_block_number r)) (\<lambda>canonical_hash.
     act_bind (act_lift (ensure (matches_hash canonical_hash (fo_block_hash r)) (FinalityError FE_hash_changed))) (\<lambda>_.
     record_observation clk (new_observation h clk i (fp_chain_id policy) (fo_block_number r)
       (fo_block_hash r) F_finalized (fp_kind policy) (Some head) (Some (fo_observation_id r)))))))))))
     (\<lambda>r. observed i r)"
  proof (rule triple_bind [OF fin_read_triple])
    fix w assume "observed i r w"
    then show "good w" by (simp add: observed_def current_def good_def)
  next
    fix p
    have last: "triple good (\<lambda>w. (?P p (fw_ev w) \<and> reached p head (fo_block_number r)) \<and> b)
      (record_observation clk (new_observation h clk i (fp_chain_id p) (fo_block_number r)
       (fo_block_hash r) F_finalized (fp_kind p) (Some head) (Some (fo_observation_id r)))) (\<lambda>r. observed i r)" for head b
    proof (rule triple_post [OF triple_pre [OF observation_triple]])
      fix w assume "(?P p (fw_ev w) \<and> reached p head (fo_block_number r)) \<and> b"
      then show "finality_inv (fw_ev w) \<and> next_for (fw_ev w) (new_observation h clk i (fp_chain_id p)
          (fo_block_number r) (fo_block_hash r) F_finalized (fp_kind p) (Some head) (Some (fo_observation_id r)))"
        using finalize_next [of i r "fw_ev w" p head h clk] by (simp add: current_def)
    qed (simp add: observed_def new_observation_def)
    have five: "triple good (\<lambda>w. ?P p (fw_ev w) \<and> reached p head (fo_block_number r))
      (act_bind (fin_hash pv (fp_chain_id p) (fo_block_number r)) (\<lambda>canonical_hash.
       act_bind (act_lift (ensure (matches_hash canonical_hash (fo_block_hash r)) (FinalityError FE_hash_changed))) (\<lambda>_.
       record_observation clk (new_observation h clk i (fp_chain_id p) (fo_block_number r)
         (fo_block_hash r) F_finalized (fp_kind p) (Some head) (Some (fo_observation_id r)))))) (\<lambda>r. observed i r)" for head
      by (rule triple_bind [OF triple_ask(1)], erule P [OF conjunct1], rule good_calls,
          rule triple_bind [OF triple_ensure(1)], erule P [OF conjunct1], rule last)
    show "triple good (\<lambda>w. observed i r w \<and> policy_for_transaction i (fw_ev w) = Inr p)
     (act_bind (fin_head pv (fp_chain_id p) (fp_kind p)) (\<lambda>policy_head.
     act_bind (act_lift (require policy_head (FinalityError FE_head_unavailable))) (\<lambda>head.
     act_bind (act_lift (ensure (fp_kind p = Confirmations \<longrightarrow> fp_confirmation_count p \<noteq> None) AssertionError)) (\<lambda>_.
     act_bind (act_lift (ensure (reached p head (fo_block_number r)) (FinalityError FE_not_reached))) (\<lambda>_.
     act_bind (fin_hash pv (fp_chain_id p) (fo_block_number r)) (\<lambda>canonical_hash.
     act_bind (act_lift (ensure (matches_hash canonical_hash (fo_block_hash r)) (FinalityError FE_hash_changed))) (\<lambda>_.
     record_observation clk (new_observation h clk i (fp_chain_id p) (fo_block_number r)
       (fo_block_hash r) F_finalized (fp_kind p) (Some head) (Some (fo_observation_id r))))))))))
     (\<lambda>r. observed i r)"
    proof (rule triple_bind [OF triple_pre [OF triple_ask(2) [where P = "?P p"]]])
      show "?P p (fw_ev w)" if "observed i r w \<and> policy_for_transaction i (fw_ev w) = Inr p" for w
        using that other by (auto simp: observed_def)
    qed (rule P, assumption, rule good_calls, rule triple_bind [OF triple_ensure(2)], erule P,
        rule triple_bind [OF triple_ensure(1)], erule P [OF conjunct1],
        rule triple_bind [OF triple_ensure(1)], erule P [OF conjunct1 [OF conjunct1]],
        rule triple_pre [OF five], simp)
  qed
qed

lemma orphan_next:
  assumes "current i r ev" "fo_state r \<noteq> F_orphaned"
  shows "next_for ev (new_observation h clk i c (fo_block_number r) (fo_block_hash r) F_orphaned k None (Some (fo_observation_id r)))"
  using assms latestD [of i ev r]
  by (auto simp: next_for_def new_observation_def current_def follows_def same_block_def finality_inv_def)

lemma recheck_triple: "triple good good (recheck_all h pv clk is) (\<lambda>_. good)"
proof (induction "is")
  case Nil
  then show ?case by (simp add: triple_return)
next
  case (Cons i "is")
  have orphan: "triple good (\<lambda>w. (current i r (fw_ev w) \<and> c) \<and> d)
     (act_bind (record_observation clk (new_observation h clk i (fp_chain_id policy) (fo_block_number r)
                     (fo_block_hash r) F_orphaned (fp_kind policy) None (Some (fo_observation_id r)))) (\<lambda>_.
         act_bind (recheck_all h pv clk is) (\<lambda>rest. act_return (i # rest)))) (\<lambda>_. good)"
    if "fo_state r \<noteq> F_orphaned" for r policy c d
  proof (rule triple_bind [OF triple_pre [OF observation_triple]])
    fix w assume "(current i r (fw_ev w) \<and> c) \<and> d"
    then show "finality_inv (fw_ev w) \<and> next_for (fw_ev w) (new_observation h clk i (fp_chain_id policy)
        (fo_block_number r) (fo_block_hash r) F_orphaned (fp_kind policy) None (Some (fo_observation_id r)))"
      using orphan_next [OF _ that] by (auto simp: current_def)
  next
    fix a
    show "triple good (\<lambda>w. a = new_observation h clk i (fp_chain_id policy) (fo_block_number r) (fo_block_hash r)
        F_orphaned (fp_kind policy) None (Some (fo_observation_id r)) \<and> current (fo_transaction_id
          (new_observation h clk i (fp_chain_id policy) (fo_block_number r) (fo_block_hash r) F_orphaned (fp_kind policy)
             None (Some (fo_observation_id r)))) (new_observation h clk i (fp_chain_id policy) (fo_block_number r)
               (fo_block_hash r) F_orphaned (fp_kind policy) None (Some (fo_observation_id r))) (fw_ev w))
       (act_bind (recheck_all h pv clk is) (\<lambda>rest. act_return (i # rest))) (\<lambda>_. good)"
      by (rule triple_pre [OF triple_bind [OF Cons.IH triple_return]]) (simp_all add: current_def good_def)
  qed
  show ?case unfolding recheck_all.simps
  proof (rule triple_bind [OF fin_read_triple], simp)
    fix l
    have skip: "triple good (\<lambda>w. current i r (fw_ev w) \<and> c) (recheck_all h pv clk is) (\<lambda>_. good)" for r c
      by (rule triple_pre [OF Cons.IH]) (simp add: current_def good_def)
    have cur: "good w" if "current i r (fw_ev w)" for r w using that by (simp add: current_def good_def)
    show "triple good (\<lambda>w. good w \<and> Inr (latest i (fw_ev w)) = Inr l)
      (case l of None \<Rightarrow> recheck_all h pv clk is
     | Some r \<Rightarrow>
         if fo_state r = F_orphaned then recheck_all h pv clk is
         else
         act_bind (fin_read (policy_for_transaction i)) (\<lambda>policy.
         act_bind (fin_hash pv (fp_chain_id policy) (fo_block_number r)) (\<lambda>canonical_hash.
         act_bind (act_lift (require canonical_hash (FinalityError (FE_hash_unavailable i)))) (\<lambda>x.
         if lower x = fo_block_hash r then recheck_all h pv clk is
         else
         act_bind (record_observation clk (new_observation h clk i (fp_chain_id policy) (fo_block_number r)
                     (fo_block_hash r) F_orphaned (fp_kind policy) None (Some (fo_observation_id r)))) (\<lambda>_.
         act_bind (recheck_all h pv clk is) (\<lambda>rest. act_return (i # rest)))))))
      (\<lambda>_. good)"
    proof (cases l)
      case None
      show ?thesis unfolding None option.case by (rule triple_pre [OF Cons.IH]) simp
    next
      case (Some r)
      show ?thesis
      proof (cases "fo_state r = F_orphaned")
        case True
        show ?thesis unfolding Some option.case if_P [OF True] by (rule triple_pre [OF Cons.IH]) simp
      next
        case False
        show ?thesis unfolding Some option.case if_not_P [OF False]
          by (rule triple_bind [OF triple_pre [OF fin_read_triple [where P = "\<lambda>w. current i r (fw_ev w)"]]],
              erule cur, simp add: current_def good_def,
              rule triple_bind [OF triple_pre [OF triple_ask(1) [where P = "current i r"]]], erule cur, rule good_calls, simp,
              rule triple_bind [OF triple_ensure(2)], erule cur,
              rule triple_if, rule skip, rule triple_pre [OF orphan [OF False, of True True]], simp)
      qed
    qed
  qed
qed

section \<open>Histories of calls\<close>

lemma register_triple: "triple good good (register_policies clk run_id ps) (\<lambda>_. good)"
  unfolding register_policies_def
proof (rule triple_bind [OF triple_lift_same], assumption)
  fix u
  have one: "finality_inv ev2" if "finality_inv ev1" "register_policy clk run_id p ev1 = Inr ev2" for p ev1 ev2
    using that(2) by (intro finality_inv_cong [OF that(1)])
      (auto simp: register_policy_def exn_simps find_policy_def coordinates_of_def find_append split: option.splits)
  show "triple good good (fin_write (register_policies_txn clk run_id ps)) (\<lambda>_. good)"
    unfolding triple_def
  proof (intro allI impI)
    fix w :: finality_world assume w: "good w"
    show "case fin_write (register_policies_txn clk run_id ps) w of (Inl e, w') \<Rightarrow> good w' | (Inr a, w') \<Rightarrow> good w'"
    proof (cases "register_policies_txn clk run_id ps (fw_ev w)")
      case (Inl e)
      with w show ?thesis by (simp add: fin_write_def store_write_def)
    next
      case (Inr q)
      then obtain ev' where q: "q = ((), ev')" and run: "foldE (register_policy clk run_id) ps (fw_ev w) = Inr ev'"
        by (auto simp: register_policies_txn_def exn_simps)
      from w have "finality_inv ev'" unfolding good_def
        by (rule foldE_invariant [where P = finality_inv, OF run]) (rule one)
      with Inr q show ?thesis by (simp add: fin_write_def store_write_def good_def)
    qed
  qed
qed

lemma audit_triple: "triple good good (audit_for_freeze h pv clk run_id) (\<lambda>_. good)"
  unfolding audit_for_freeze_def recheck_canonicality_def
  by (rule triple_bind [OF triple_bind [OF fin_read_triple triple_pre [OF recheck_triple]] triple_post [OF fin_read_triple]]) auto

text \<open>
  Any sequence of calls, with any answers of the chains, interleaved with anything that leaves the
  observations alone and forgets neither policies nor the coordinates of a transaction.
\<close>

inductive finality_step :: "(json \<Rightarrow> string) \<Rightarrow> finality_provider \<Rightarrow> finality_world \<Rightarrow> finality_world \<Rightarrow> bool"
  for h pv where
  register: "finality_step h pv w (snd (register_policies clk run_id ps w))"
| observe: "finality_step h pv w (snd (observe_included h pv clk i w))"
| finalize: "finality_step h pv w (snd (finalize h pv clk i w))"
| recheck: "finality_step h pv w (snd (recheck_canonicality h pv clk run_id w))"
| audit: "finality_step h pv w (snd (audit_for_freeze h pv clk run_id w))"
| other: "ev_finality (fw_ev w') = ev_finality (fw_ev w) \<Longrightarrow>
    (\<And>i c. coordinates_of i (fw_ev w) = Some c \<Longrightarrow> coordinates_of i (fw_ev w') = Some c) \<Longrightarrow>
    (\<And>run chain p. find_policy run chain (fw_ev w) = Some p \<Longrightarrow> find_policy run chain (fw_ev w') = Some p) \<Longrightarrow>
    finality_step h pv w w'"

definition unobserved :: "finality_world \<Rightarrow> bool" where
  "unobserved w \<longleftrightarrow> ev_finality (fw_ev w) = []"

lemma recheck_canonicality_triple: "triple good good (recheck_canonicality h pv clk run_id) (\<lambda>_. good)"
  unfolding recheck_canonicality_def by (rule triple_bind [OF fin_read_triple triple_pre [OF recheck_triple]]) auto

interpretation finality: transition_system unobserved "finality_step h pv" good for h pv
proof
  fix w assume "unobserved w"
  then show "good w" by (simp add: unobserved_def good_def finality_inv_def history_def)
next
  have obs: "triple good good m (\<lambda>_. good)" if "triple good good m (\<lambda>r. observed i r)" for m i
    by (rule triple_post [OF that]) (simp add: observed_def current_def good_def)
  fix w w' assume "good w" "finality_step h pv w w'"
  from this(2) show "good w'"
  proof cases
    case (register clk run_id ps)
    show ?thesis unfolding register by (rule triple_keeps [OF register_triple \<open>good w\<close>])
  next
    case (observe clk i)
    show ?thesis unfolding observe by (rule triple_keeps [OF obs [OF inclusion_triple] \<open>good w\<close>])
  next
    case (finalize clk i)
    show ?thesis unfolding finalize by (rule triple_keeps [OF obs [OF finalize_triple] \<open>good w\<close>])
  next
    case (recheck clk run_id)
    show ?thesis unfolding recheck by (rule triple_keeps [OF recheck_canonicality_triple \<open>good w\<close>])
  next
    case (audit clk run_id)
    show ?thesis unfolding audit by (rule triple_keeps [OF audit_triple \<open>good w\<close>])
  next
    case other
    show ?thesis unfolding good_def by (rule finality_inv_cong [OF \<open>good w\<close> [unfolded good_def] other])
  qed
qed

section \<open>A freeze audit that returns\<close>

definition confirmed :: "finality_provider \<Rightarrow> nat \<Rightarrow> nat \<Rightarrow> finality_row \<Rightarrow> bool" where
  "confirmed pv m n r \<longleftrightarrow> (\<exists>k x. m \<le> k \<and> k < n \<and> pv_canonical pv k (fo_chain_id r) (fo_block_number r) = Inr (Some x)
     \<and> lower x = fo_block_hash r)"

lemma confirmed_mono: "confirmed pv m n r \<Longrightarrow> m' \<le> m \<Longrightarrow> n \<le> n' \<Longrightarrow> confirmed pv m' n' r"
  unfolding confirmed_def by (meson le_trans less_le_trans)

lemma recheck_clean:
  assumes "recheck_all h pv clk is w = (Inr [], w')" and "finality_inv (fw_ev w)"
  shows "fw_ev w' = fw_ev w \<and> fw_calls w \<le> fw_calls w' \<and> (\<forall>i\<in>set is. \<forall>r. latest i (fw_ev w) = Some r
     \<and> fo_state r = F_finalized \<longrightarrow> confirmed pv (fw_calls w) (fw_calls w') r)"
  using assms
proof (induction "is" arbitrary: w)
  case Nil
  then show ?case by (simp add: act_return_def)
next
  case (Cons i "is")
  show ?case
  proof (cases "latest i (fw_ev w)")
    case None
    with Cons show ?thesis by (simp add: act_bind_def fin_read_def)
  next
    case (Some r)
    show ?thesis
    proof (cases "fo_state r = F_orphaned")
      case True
      with Cons Some show ?thesis by (simp add: act_bind_def fin_read_def)
    next
      case False
      let ?w = "w\<lparr>fw_calls := Suc (fw_calls w)\<rparr>"
      from Cons.prems(1) Some False obtain p x where p: "policy_for_transaction i (fw_ev w) = Inr p"
        and x: "pv_canonical pv (fw_calls w) (fp_chain_id p) (fo_block_number r) = Inr (Some x)" "lower x = fo_block_hash r"
        and rest: "recheck_all h pv clk is ?w = (Inr [], w')"
        by (auto simp: act_bind_def fin_read_def fin_hash_def act_lift_def act_return_def require_def
            split: sum.splits option.splits prod.splits if_splits)
      from Cons.IH [OF rest] Cons.prems(2) have ih: "fw_ev w' = fw_ev w" "Suc (fw_calls w) \<le> fw_calls w'"
        "\<forall>i\<in>set is. \<forall>r. latest i (fw_ev w) = Some r \<and> fo_state r = F_finalized
           \<longrightarrow> confirmed pv (Suc (fw_calls w)) (fw_calls w') r" by simp_all
      have "confirmed pv (fw_calls w) (fw_calls w') r" if "fo_state r = F_finalized"
      proof -
        from Some that Cons.prems(2) latestD [OF Some] have "backed (fw_ev w) r" by (auto simp: finality_inv_def)
        with policy_for_transaction_sound [OF p] latestD [OF Some] have "fo_chain_id r = fp_chain_id p"
          by (auto simp: backed_def)
        with x ih(2) show ?thesis by (auto simp: confirmed_def)
      qed
      moreover have "confirmed pv (fw_calls w) (fw_calls w') s" if "confirmed pv (Suc (fw_calls w)) (fw_calls w') s" for s
        by (rule confirmed_mono [OF that]) simp_all
      ultimately show ?thesis using ih Some by auto
    qed
  qed
qed

lemma audit_splits:
  assumes run: "audit_for_freeze h pv clk run_id w = (Inr a, w')"
  shows "recheck_all h pv clk (map tx_transaction_id (run_transactions run_id (ev_db (fw_ev w)))) w = (Inr [], w')
     \<and> freeze_audit run_id [] (fw_ev w') = Inr a"
proof -
  let ?is = "map tx_transaction_id (run_transactions run_id (ev_db (fw_ev w)))"
  obtain q w1 where qw: "recheck_all h pv clk ?is w = (q, w1)" by (cases "recheck_all h pv clk ?is w")
  have audit: "audit_for_freeze h pv clk run_id w
     = (case q of Inl e \<Rightarrow> (Inl e, w1) | Inr orphaned \<Rightarrow> (freeze_audit run_id orphaned (fw_ev w1), w1))"
    by (simp add: audit_for_freeze_def recheck_canonicality_def act_bind_def fin_read_def qw split: sum.split)
  with run obtain orphaned where q: "q = Inr orphaned" by (cases q) simp_all
  with qw audit run have re: "recheck_all h pv clk ?is w = (Inr orphaned, w1)"
    and au: "freeze_audit run_id orphaned (fw_ev w1) = Inr a" and w': "w' = w1" by simp_all
  from au have "orphaned = []" unfolding freeze_audit_def Let_def by (cases orphaned) (simp_all add: ensure_def)
  with re au w' show ?thesis by simp
qed

lemma audit_summary:
  assumes run: "audit_for_freeze h pv clk run_id w = (Inr a, w')" and inv: "finality_inv (fw_ev w)"
  shows "fw_ev w' = fw_ev w \<and> fa_finalized_transactions a = length (run_transactions run_id (ev_db (fw_ev w)))
     \<and> fa_orphaned_transactions a = []"
proof -
  from audit_splits [OF run] obtain re: "recheck_all h pv clk (map tx_transaction_id (run_transactions run_id (ev_db (fw_ev w)))) w
      = (Inr [], w')" and au: "freeze_audit run_id [] (fw_ev w') = Inr a" by blast
  from recheck_clean [OF re inv] have "fw_ev w' = fw_ev w" by blast
  with au show ?thesis by (auto simp: freeze_audit_def Let_def exn_simps)
qed

lemma audit_returns:
  assumes run: "audit_for_freeze h pv clk run_id w = (Inr a, w')" and inv: "finality_inv (fw_ev w)"
    and t: "t \<in> set (run_transactions run_id (ev_db (fw_ev w)))"
  obtains r where "tx_state t = T_finalized" "latest (tx_transaction_id t) (fw_ev w) = Some r" "fo_state r = F_finalized"
    "backed (fw_ev w) r" "confirmed pv (fw_calls w) (fw_calls w') r"
proof -
  let ?is = "map tx_transaction_id (run_transactions run_id (ev_db (fw_ev w)))"
  from audit_splits [OF run] have re: "recheck_all h pv clk ?is w = (Inr [], w')"
    and au: "freeze_audit run_id [] (fw_ev w') = Inr a" by blast+
  note clean = recheck_clean [OF re inv]
  then have ev: "fw_ev w' = fw_ev w" by blast
  from au have "\<forall>t\<in>set (run_transactions run_id (ev_db (fw_ev w'))). finalized_now (fw_ev w') t"
    unfolding freeze_audit_def Let_def by (force simp: exn_simps filter_empty_conv)
  with t have "finalized_now (fw_ev w) t" unfolding ev by blast
  then obtain r where r: "tx_state t = T_finalized" "latest (tx_transaction_id t) (fw_ev w) = Some r" "fo_state r = F_finalized"
    by (auto simp: finalized_now_def split: option.splits)
  moreover from inv r latestD [OF r(2)] have "backed (fw_ev w) r" unfolding finality_inv_def by blast
  moreover from t have "tx_transaction_id t \<in> set ?is" by simp
  with clean r have "confirmed pv (fw_calls w) (fw_calls w') r" by blast
  ultimately show ?thesis by (rule that)
qed

section \<open>Properties\<close>

text \<open>
  C37. Whatever the chains answer and in whatever order the calls of \<^verbatim>\<open>collect/finality.py\<close> run, the
  observations of a transaction form one chain: the first is an inclusion, each one supersedes its predecessor,
  finality follows inclusion in the same block, only what stands is orphaned, and a new inclusion needs an
  orphaned predecessor or another block. \<^verbatim>\<open>_latest\<close> returns the end of that chain, and a transaction it shows as
  finalized stands on the policy registered for its run and chain, with a head that reached the depth asked for.
\<close>

theorem finality_history_is_linear:
  assumes "unobserved w" and "(finality_step h pv)\<^sup>*\<^sup>* w w'"
  shows "linked None (history i (fw_ev w')) \<and> latest i (fw_ev w') = last_opt None (history i (fw_ev w'))
     \<and> (case latest i (fw_ev w') of None \<Rightarrow> True | Some r \<Rightarrow> fo_state r \<noteq> F_finalized \<or> backed (fw_ev w') r)"
proof -
  from finality.reachable_inv [OF assms] have inv: "finality_inv (fw_ev w')" by (simp add: good_def)
  moreover have "fo_state r \<noteq> F_finalized \<or> backed (fw_ev w') r" if "latest i (fw_ev w') = Some r" for r
    using inv latestD [OF that] unfolding finality_inv_def by blast
  ultimately show ?thesis using latest_is_last [OF inv] by (auto simp: finality_inv_def split: option.split)
qed

definition demo_observation_hash :: "json \<Rightarrow> string" where
  "demo_observation_hash j = (case j of
     JObj (_ # (_, JList [_, _, JStr s, _, _]) # _) \<Rightarrow> s | _ \<Rightarrow> ''hash'')"

definition demo_collected_db :: db where
  "demo_collected_db = empty_db
    \<lparr>t_runs := [\<lparr>rn_run_id = ''run'', rn_profile_id = ''p'', rn_plan_sha256 = ''s'', rn_state = Run_other ''planned'', rn_created_at = 0\<rparr>],
     t_conditions := [\<lparr>cd_condition_id = ''c'', cd_run_id = ''run'', cd_carrier_sequence = ''x'', cd_state = ''planned''\<rparr>],
     t_attempts := [\<lparr>at_attempt_id = ''a'', at_condition_id = ''c'', at_pair_id = None, at_arm = Xir, at_attempt_kind = Primary,
       at_original_attempt_kind = None, at_retry_of = None, at_schedule_index = None, at_batch_index = None,
       at_state = A_planned, at_created_at = 0\<rparr>],
     t_stages := [\<lparr>sg_stage_id = ''g'', sg_attempt_id = ''a'', sg_ordinal = 0, sg_stage_name = ''source'',
       sg_stage_template_id = None, sg_chain_id = Some 10, sg_accounting_bucket = None, sg_logical_labels = None,
       sg_state = G_collecting\<rparr>],
     t_intents := [\<lparr>it_intent_id = ''i'', it_stage_id = ''g'', it_signer_operation_id = ''o'', it_chain_id = 10, it_nonce = 7,
       it_state = T_submitted, it_payload_sha256 = ''p'', it_approval_id = None, it_approval_payload_sha256 = None,
       it_signer_id = None, it_signer_identity_sha256 = None, it_network_identity_sha256 = None, it_quote_sha256 = None,
       it_quote_valid_until = None, it_simulation_sha256 = None, it_simulation_valid_until = None, it_reservation_id = None,
       it_reservation_stage_key = None, it_requested_wei = None, it_created_at = 0\<rparr>],
     t_transactions := [\<lparr>tx_transaction_id = ''t'', tx_intent_id = ''i'', tx_chain_id = 10, tx_nonce = 7,
       tx_transaction_hash = Some ''0xaa'', tx_replaces_transaction_id = None, tx_state = T_submitted, tx_signed_sha256 = None,
       tx_signed_length = None, tx_spool_relative_path = None, tx_signer_returned_at = None, tx_signed_hash_persisted_at = None,
       tx_broadcast_started_at = None, tx_submitted_at = Some 1, tx_included_at = None, tx_finalized_at = None\<rparr>]\<rparr>"

definition demo_collected :: finality_world where
  "demo_collected = \<lparr>fw_ev = (empty_evidence demo_collected_db)\<lparr>ev_receipts := [\<lparr>rp_transaction_id = ''t'', rp_block_number = 100,
     rp_block_hash = ''0xBEEF'', rp_receipt_status = 1, rp_gas_used = 21000, rp_effective_gas_price_wei = ''1'',
     rp_raw_sha256 = ''r''\<rparr>]\<rparr>, fw_calls = 0\<rparr>"

definition demo_chain :: finality_provider where
  "demo_chain = \<lparr>pv_canonical = (\<lambda>n c b. Inr (Some (if n < 6 then ''0xbeef'' else ''0xfork''))), pv_head = (\<lambda>n c k. Inr (Some 111))\<rparr>"

definition demo_policied :: finality_world where
  "demo_policied = snd (register_policies 1 ''run'' [\<lparr>cp_chain_id = 10, cp_kind = Confirmations, cp_confirmation_count = Some 12\<rparr>]
     demo_collected)"

definition demo_finalized :: finality_world where
  "demo_finalized = snd (finalize demo_observation_hash demo_chain 2 ''t'' demo_policied)"

lemma demo_finalized_reachable:
  "unobserved demo_collected \<and> (finality_step demo_observation_hash demo_chain)\<^sup>*\<^sup>* demo_collected demo_finalized"
proof -
  have "finality_step demo_observation_hash demo_chain demo_collected demo_policied"
    "finality_step demo_observation_hash demo_chain demo_policied demo_finalized"
    unfolding demo_policied_def demo_finalized_def by (rule finality_step.intros)+
  moreover have "unobserved demo_collected" by code_simp
  ultimately show ?thesis by (meson converse_rtranclp_into_rtranclp rtranclp.rtrancl_refl)
qed

theorem finality_history_is_linear_witness:
  "map fo_state (history ''t'' (fw_ev demo_finalized)) = [F_included, F_finalized]
   \<and> linked None (history ''t'' (fw_ev demo_finalized))
   \<and> map_option fo_state (latest ''t'' (fw_ev demo_finalized)) = Some F_finalized"
proof -
  have "map fo_state (history ''t'' (fw_ev demo_finalized)) = [F_included, F_finalized]" by code_simp
  moreover from this have "history ''t'' (fw_ev demo_finalized) \<noteq> []" by auto
  moreover note finality_history_is_linear [of demo_collected demo_observation_hash demo_chain demo_finalized "''t''"]
    demo_finalized_reachable
  ultimately show ?thesis by (auto simp: last_opt_def last_map [symmetric])
qed

text \<open>
  C38. A freeze audit that returns has written nothing, and every transaction of the run is then recorded as
  finalized, its latest observation is finalized and stands on the registered policy, and during this very audit
  the chain gave the hash of its block. A missing hash, an orphaned or an unfinished transaction raises instead.
\<close>

theorem freeze_audit_is_sound:
  assumes "unobserved w0" and "(finality_step h pv)\<^sup>*\<^sup>* w0 w"
    and "audit_for_freeze h pv clk run_id w = (Inr a, w')"
  shows "fw_ev w' = fw_ev w \<and> fa_finalized_transactions a = length (run_transactions run_id (ev_db (fw_ev w)))
     \<and> fa_orphaned_transactions a = []
     \<and> (\<forall>t\<in>set (run_transactions run_id (ev_db (fw_ev w))). tx_state t = T_finalized
          \<and> (\<exists>r. latest (tx_transaction_id t) (fw_ev w) = Some r \<and> fo_state r = F_finalized \<and> backed (fw_ev w) r
               \<and> confirmed pv (fw_calls w) (fw_calls w') r))"
proof -
  from finality.reachable_inv [OF assms(1,2)] have inv: "finality_inv (fw_ev w)" by (simp add: good_def)
  from audit_summary [OF assms(3) inv] audit_returns [OF assms(3) inv] show ?thesis by meson
qed

theorem freeze_audit_is_sound_witness:
  "fst (audit_for_freeze demo_observation_hash demo_chain 3 ''run'' demo_finalized)
     = Inr \<lparr>fa_run_id = ''run'', fa_finalized_transactions = 1, fa_labels = [Confirmations], fa_orphaned_transactions = []\<rparr>
   \<and> fw_ev (snd (audit_for_freeze demo_observation_hash demo_chain 3 ''run'' demo_finalized)) = fw_ev demo_finalized"
proof -
  have r: "fst (audit_for_freeze demo_observation_hash demo_chain 3 ''run'' demo_finalized)
     = Inr \<lparr>fa_run_id = ''run'', fa_finalized_transactions = 1, fa_labels = [Confirmations], fa_orphaned_transactions = []\<rparr>"
    by code_simp
  then have "audit_for_freeze demo_observation_hash demo_chain 3 ''run'' demo_finalized
     = (Inr \<lparr>fa_run_id = ''run'', fa_finalized_transactions = 1, fa_labels = [Confirmations], fa_orphaned_transactions = []\<rparr>,
        snd (audit_for_freeze demo_observation_hash demo_chain 3 ''run'' demo_finalized))"
    by (metis prod.collapse)
  from freeze_audit_is_sound [OF _ _ this] demo_finalized_reachable r show ?thesis by blast
qed

text \<open>
  The observation and the state of the transaction are two commits. Where the process ends between them, a
  second \<^verbatim>\<open>finalize\<close> returns the stored observation and leaves the transaction as it was, so that the audit of the
  run cannot return any more.
\<close>

definition demo_crashed :: finality_world where
  "demo_crashed = demo_finalized\<lparr>fw_ev := (fw_ev demo_finalized)\<lparr>ev_db := ev_db (fw_ev
     (snd (observe_included demo_observation_hash demo_chain 2 ''t'' demo_policied)))\<rparr>, fw_calls := 0\<rparr>"

lemma finalize_does_not_repair:
  "map_option fo_state (latest ''t'' (fw_ev demo_crashed)) = Some F_finalized
   \<and> (\<exists>r. fst (finalize demo_observation_hash demo_chain 4 ''t'' demo_crashed) = Inr r)
   \<and> map tx_state (t_transactions (ev_db (fw_ev (snd (finalize demo_observation_hash demo_chain 4 ''t'' demo_crashed))))) = [T_included]
   \<and> fst (audit_for_freeze demo_observation_hash demo_chain 5 ''run''
       (snd (finalize demo_observation_hash demo_chain 4 ''t'' demo_crashed))) = Inl (FinalityError (FE_unresolved [''t'']))"
proof -
  have "map_option fo_state (latest ''t'' (fw_ev demo_crashed)) = Some F_finalized" by code_simp
  moreover have "\<not> isl (fst (finalize demo_observation_hash demo_chain 4 ''t'' demo_crashed))" by code_simp
  moreover have "map tx_state (t_transactions (ev_db (fw_ev (snd (finalize demo_observation_hash demo_chain 4 ''t'' demo_crashed)))))
      = [T_included]" by code_simp
  moreover have "fst (audit_for_freeze demo_observation_hash demo_chain 5 ''run''
       (snd (finalize demo_observation_hash demo_chain 4 ''t'' demo_crashed))) = Inl (FinalityError (FE_unresolved [''t'']))"
    by code_simp
  ultimately show ?thesis by (simp add: isl_def) (metis sumE)
qed

end
