(* ===== verification/Xir_Outcomes.thy ===== *)
theory Xir_Outcomes
  imports Xir_Evidence Xir_Actions Xir_Scheduler Xir_Floats
begin

text \<open>
  \<^verbatim>\<open>collect/outcomes.py\<close>: observation windows, deadline, eventual and failure outcomes of attempts, and the
  clocks of observers and chains. A method is a program over the evidence whose writes are separate
  transactions; an exception leaves what was written before. \<open>clk\<close> is the system clock.
\<close>

section \<open>Time stamps and programs\<close>

text \<open>
  A time stamp as the text the caller passes: not a date, without an offset, or an instant (microseconds of
  UTC) with its offset. \<^verbatim>\<open>_utc\<close> takes only the offset zero.
\<close>

datatype timestamp = TS_invalid | TS_naive | TS_at int int

definition stamp_utc :: "timestamp \<Rightarrow> exn + int" where
  "stamp_utc value =
     (case value of
        TS_invalid \<Rightarrow> Inl (OutcomeClockError OC_invalid_timestamp)
      | TS_naive \<Rightarrow> Inl (OutcomeClockError OC_not_utc)
      | TS_at instant offset \<Rightarrow> if offset \<noteq> 0 then Inl (OutcomeClockError OC_not_utc) else Inr instant)"

type_synonym 'a col = "(evidence, 'a) action"

definition ev_read :: "(evidence \<Rightarrow> exn + 'a) \<Rightarrow> 'a col" where
  "ev_read f ev = (f ev, ev)"

definition outcome_recorder :: "int \<Rightarrow> exn + int" where
  "outcome_recorder threshold_ms =
     (if threshold_ms < 0 then Inl (OutcomeClockError OC_negative_threshold) else Inr threshold_ms)"

definition int64_opt :: "int option \<Rightarrow> bool" where
  "int64_opt x = (case x of None \<Rightarrow> True | Some n \<Rightarrow> int64 n)"

section \<open>Observation windows\<close>

definition find_window :: "string \<Rightarrow> evidence \<Rightarrow> window_row option" where
  "find_window attempt_id ev = find (\<lambda>w. aw_attempt_id w = attempt_id) (ev_windows ev)"

definition window_values :: "window_row \<Rightarrow> string \<times> string \<times> string \<times> int \<times> int \<times> int" where
  "window_values w = (aw_approval_id w, aw_approval_payload_sha256 w, aw_observer_session_id w, aw_started_utc w,
     aw_started_monotonic_ns w, aw_deadline_utc w)"

definition register_window_txn :: "window_row \<Rightarrow> unit ev_txn" where
  "register_window_txn w ev =
     bindE (ensure (case find (\<lambda>c. ac_approval_id c = aw_approval_id w) (t_consumptions (ev_db ev)) of
                      None \<Rightarrow> False | Some c \<Rightarrow> ac_payload_sha256 c = aw_approval_payload_sha256 w)
              (OutcomeClockError OC_approval_binding)) (\<lambda>_.
     case find_window (aw_attempt_id w) ev of
       Some existing \<Rightarrow>
         bindE (ensure (window_values existing = window_values w) (OutcomeClockError OC_window_immutable)) (\<lambda>_.
         Inr ((), ev))
     | None \<Rightarrow>
         bindE (ensure (int64 (aw_started_monotonic_ns w)) OverflowError) (\<lambda>_.
         bindE (ensure (length (aw_approval_payload_sha256 w) = 64
                        \<and> find_attempt (aw_attempt_id w) (ev_db ev) \<noteq> None) IntegrityError) (\<lambda>_.
         Inr ((), ev\<lparr>ev_windows := ev_windows ev @ [w]\<rparr>))))"

definition register_window ::
  "int \<Rightarrow> string \<Rightarrow> string \<Rightarrow> string \<Rightarrow> string \<Rightarrow> timestamp \<Rightarrow> int \<Rightarrow> timestamp \<Rightarrow> unit col" where
  "register_window clk attempt_id approval_id payload_sha256 session_id started_utc started_monotonic_ns deadline_utc =
     act_bind (act_lift (stamp_utc started_utc)) (\<lambda>start.
     act_bind (act_lift (stamp_utc deadline_utc)) (\<lambda>deadline.
     act_bind (act_lift (ensure (\<not> deadline \<le> start) (OutcomeClockError OC_deadline_order))) (\<lambda>_.
     act_bind (act_lift (ensure (\<not> (started_monotonic_ns < 0 \<or> session_id = [])) (OutcomeClockError OC_session_start))) (\<lambda>_.
     store_write (register_window_txn
       \<lparr>aw_attempt_id = attempt_id, aw_approval_id = approval_id, aw_approval_payload_sha256 = payload_sha256,
        aw_observer_session_id = session_id, aw_started_utc = start, aw_started_monotonic_ns = started_monotonic_ns,
        aw_deadline_utc = deadline, aw_registered_at = clk\<rparr>)))))"

definition window_of :: "string \<Rightarrow> evidence \<Rightarrow> exn + window_row" where
  "window_of attempt_id ev = require (find_window attempt_id ev) (OutcomeClockError OC_no_window)"

section \<open>Observer clocks\<close>

text \<open>The row with the greatest monotonic reading; SQL leaves open which of several equal ones.\<close>

definition last_phase :: "string \<Rightarrow> string \<Rightarrow> evidence \<Rightarrow> observer_clock_row option" where
  "last_phase attempt_id session_id ev =
     (case filter (\<lambda>r. oc_attempt_id r = attempt_id \<and> oc_observer_session_id r = session_id) (ev_observer_clocks ev) of
        [] \<Rightarrow> None
      | r # rs \<Rightarrow> Some (fold (\<lambda>x y. if oc_monotonic_ns y < oc_monotonic_ns x then x else y) rs r))"

definition phase_discontinuity :: "int \<Rightarrow> observer_clock_row option \<Rightarrow> int \<Rightarrow> int \<Rightarrow> exn + bool" where
  "phase_discontinuity threshold_ms prior wall monotonic_ns =
     (case prior of
        None \<Rightarrow> Inr False
      | Some r \<Rightarrow>
          let monotonic_delta_ms = (monotonic_ns - oc_monotonic_ns r) div 1000000
          in bindE (ensure (\<not> monotonic_delta_ms < 0) (OutcomeClockError OC_clock_backwards)) (\<lambda>_.
             Inr (\<bar>total_milliseconds (wall - oc_wall_utc r) - monotonic_delta_ms\<bar> > threshold_ms)))"

definition observer_clock_id :: "(json \<Rightarrow> string) \<Rightarrow> string \<Rightarrow> string \<Rightarrow> string \<Rightarrow> int \<Rightarrow> string" where
  "observer_clock_id h attempt_id session_id phase monotonic_ns =
     stable_id h ''observation'' [JStr ''observer-clock'', JStr attempt_id, JStr session_id, JStr phase, JInt monotonic_ns]"

definition insert_phase_txn :: "observer_clock_row \<Rightarrow> observer_clock_row ev_txn" where
  "insert_phase_txn r ev =
     bindE (ensure (int64 (oc_monotonic_ns r)) OverflowError) (\<lambda>_.
     bindE (ensure (\<not> list_ex (\<lambda>x. oc_observation_id x = oc_observation_id r) (ev_observer_clocks ev)
                    \<and> find_attempt (oc_attempt_id r) (ev_db ev) \<noteq> None) IntegrityError) (\<lambda>_.
     Inr (r, ev\<lparr>ev_observer_clocks := ev_observer_clocks ev @ [r]\<rparr>)))"

definition record_phase ::
  "(json \<Rightarrow> string) \<Rightarrow> int \<Rightarrow> string \<Rightarrow> string \<Rightarrow> string \<Rightarrow> timestamp \<Rightarrow> int \<Rightarrow> observer_clock_row col" where
  "record_phase h threshold_ms attempt_id phase session_id wall_utc monotonic_ns =
     act_bind (act_lift (stamp_utc wall_utc)) (\<lambda>wall.
     act_bind (act_lift (ensure (\<not> (phase = [] \<or> session_id = [] \<or> monotonic_ns < 0)) (OutcomeClockError OC_phase_fields))) (\<lambda>_.
     act_bind (ev_read (\<lambda>ev. phase_discontinuity threshold_ms (last_phase attempt_id session_id ev) wall monotonic_ns)) (\<lambda>discontinuity.
     store_write (insert_phase_txn
       \<lparr>oc_observation_id = observer_clock_id h attempt_id session_id phase monotonic_ns, oc_attempt_id = attempt_id,
        oc_phase = phase, oc_observer_session_id = session_id, oc_wall_utc = wall, oc_monotonic_ns = monotonic_ns,
        oc_wall_clock_discontinuity = discontinuity,
        oc_discontinuity_reason = (if discontinuity then Some ''wall_and_monotonic_elapsed_diverged'' else None)\<rparr>))))"

definition observer_clock_of :: "string \<Rightarrow> evidence \<Rightarrow> exn + observer_clock_row" where
  "observer_clock_of i ev =
     require (find (\<lambda>r. oc_observation_id r = i) (ev_observer_clocks ev)) (OutcomeClockError OC_unknown_clock)"

section \<open>Measurements\<close>

definition kind_of_measurement :: "measurement_kind \<Rightarrow> string" where
  "kind_of_measurement k = (case k of Observer_elapsed \<Rightarrow> ''observer_elapsed''
                            | Cross_chain_block_interval \<Rightarrow> ''cross_chain_block_interval'')"

text \<open>\<^verbatim>\<open>INSERT OR IGNORE\<close>: a stored measurement of the same end points stays, the new one is returned all the same.\<close>

definition measurement_txn :: "measurement_row \<Rightarrow> measurement_row ev_txn" where
  "measurement_txn m ev =
     bindE (ensure (int64_opt (cx_elapsed_ms m)) OverflowError) (\<lambda>_.
     if list_ex (\<lambda>x. cx_measurement_id x = cx_measurement_id m) (ev_measurements ev)
        \<or> (case cx_elapsed_ms m of None \<Rightarrow> False | Some n \<Rightarrow> n < 0) then Inr (m, ev)
     else bindE (ensure (find_attempt (cx_attempt_id m) (ev_db ev) \<noteq> None) IntegrityError) (\<lambda>_.
          Inr (m, ev\<lparr>ev_measurements := ev_measurements ev @ [m]\<rparr>)))"

definition measurement ::
  "(json \<Rightarrow> string) \<Rightarrow> int \<Rightarrow> string \<Rightarrow> measurement_kind \<Rightarrow> string \<Rightarrow> string \<Rightarrow> int option \<Rightarrow> string option \<Rightarrow> string
     \<Rightarrow> measurement_row col" where
  "measurement h clk attempt_id kind start_id end_id elapsed_ms unavailable statement =
     store_write (measurement_txn
       \<lparr>cx_measurement_id = stable_id h ''observation''
          [JStr ''clock-measurement'', JStr (kind_of_measurement kind), JStr start_id, JStr end_id],
        cx_attempt_id = attempt_id, cx_kind = kind, cx_start_observation_id = start_id, cx_end_observation_id = end_id,
        cx_elapsed_ms = elapsed_ms, cx_unavailable_reason = unavailable, cx_clock_statement = statement,
        cx_created_at = clk\<rparr>)"

definition elapsed_between :: "observer_clock_row \<Rightarrow> observer_clock_row \<Rightarrow> int option \<times> string option" where
  "elapsed_between start end =
     (if oc_observer_session_id start \<noteq> oc_observer_session_id end then (None, Some ''monotonic_sessions_differ'')
      else if oc_monotonic_ns end < oc_monotonic_ns start then (None, Some ''monotonic_order_invalid'')
      else (Some ((oc_monotonic_ns end - oc_monotonic_ns start) div 1000000),
            if oc_wall_clock_discontinuity start \<or> oc_wall_clock_discontinuity end
            then Some ''wall_clock_discontinuity_recorded'' else None))"

definition observer_duration :: "(json \<Rightarrow> string) \<Rightarrow> int \<Rightarrow> string \<Rightarrow> string \<Rightarrow> measurement_row col" where
  "observer_duration h clk start_id end_id =
     act_bind (ev_read (observer_clock_of start_id)) (\<lambda>start.
     act_bind (ev_read (observer_clock_of end_id)) (\<lambda>end.
     act_bind (act_lift (ensure (oc_attempt_id start = oc_attempt_id end) (OutcomeClockError OC_duration_attempt))) (\<lambda>_.
     measurement h clk (oc_attempt_id start) Observer_elapsed start_id end_id
       (fst (elapsed_between start end)) (snd (elapsed_between start end))
       ''elapsed time uses one process monotonic clock session'')))"

section \<open>Chain clocks\<close>

definition role_text :: "clock_role \<Rightarrow> string" where
  "role_text r = (case r of CR_source \<Rightarrow> ''source'' | CR_intermediate \<Rightarrow> ''intermediate'' | CR_destination \<Rightarrow> ''destination'')"

definition chain_clock_txn :: "chain_clock_row \<Rightarrow> chain_clock_row ev_txn" where
  "chain_clock_txn r ev =
     bindE (ensure (int64 (cc_chain_id r) \<and> int64 (cc_block_number r) \<and> int64 (cc_block_timestamp r)) OverflowError) (\<lambda>_.
     if list_ex (\<lambda>x. cc_observation_id x = cc_observation_id r
          \<or> (cc_attempt_id x, cc_role x, cc_block_hash x) = (cc_attempt_id r, cc_role r, cc_block_hash r)) (ev_chain_clocks ev)
     then Inr (r, ev)
     else bindE (ensure (find_attempt (cc_attempt_id r) (ev_db ev) \<noteq> None) IntegrityError) (\<lambda>_.
          Inr (r, ev\<lparr>ev_chain_clocks := ev_chain_clocks ev @ [r]\<rparr>)))"

definition record_chain_clock ::
  "(json \<Rightarrow> string) \<Rightarrow> string \<Rightarrow> clock_role \<Rightarrow> int \<Rightarrow> int \<Rightarrow> string \<Rightarrow> int \<Rightarrow> chain_clock_row col" where
  "record_chain_clock h attempt_id role chain_id block_number block_hash block_timestamp =
     act_bind (act_lift (ensure (\<not> (chain_id \<le> 0 \<or> block_number < 0 \<or> block_timestamp < 0))
                 (OutcomeClockError OC_chain_fields))) (\<lambda>_.
     store_write (chain_clock_txn
       \<lparr>cc_observation_id = stable_id h ''observation'' [JStr ''chain-clock'', JStr attempt_id, JStr (role_text role),
          JInt chain_id, JStr (lower block_hash)],
        cc_attempt_id = attempt_id, cc_role = role, cc_chain_id = chain_id, cc_block_number = block_number,
        cc_block_hash = lower block_hash, cc_block_timestamp = block_timestamp\<rparr>))"

definition chain_clock_of :: "string \<Rightarrow> evidence \<Rightarrow> exn + chain_clock_row" where
  "chain_clock_of i ev =
     require (find (\<lambda>r. cc_observation_id r = i) (ev_chain_clocks ev)) (OutcomeClockError OC_unknown_chain_clock)"

definition interval_between :: "int \<Rightarrow> chain_clock_row \<Rightarrow> chain_clock_row \<Rightarrow> int option \<times> string option" where
  "interval_between maximum source terminal =
     (let seconds = cc_block_timestamp terminal - cc_block_timestamp source in
      if seconds < 0 then (None, Some ''independent_chain_clocks_out_of_order'')
      else if seconds > maximum then (None, Some ''independent_chain_clocks_implausible'')
      else (Some (seconds * 1000), None))"

definition cross_chain_interval :: "(json \<Rightarrow> string) \<Rightarrow> int \<Rightarrow> string \<Rightarrow> string \<Rightarrow> int \<Rightarrow> measurement_row col" where
  "cross_chain_interval h clk source_id terminal_id maximum =
     act_bind (ev_read (chain_clock_of source_id)) (\<lambda>source.
     act_bind (ev_read (chain_clock_of terminal_id)) (\<lambda>terminal.
     act_bind (act_lift (ensure (cc_attempt_id source = cc_attempt_id terminal) (OutcomeClockError OC_interval_attempt))) (\<lambda>_.
     act_bind (act_lift (ensure (\<not> (cc_role source \<noteq> CR_source \<or> cc_role terminal \<noteq> CR_destination))
                 (OutcomeClockError OC_interval_endpoints))) (\<lambda>_.
     measurement h clk (cc_attempt_id source) Cross_chain_block_interval source_id terminal_id
       (fst (interval_between maximum source terminal)) (snd (interval_between maximum source terminal))
       ''independent chain block timestamps are not a precise common clock''))))"

section \<open>Outcomes\<close>

definition outcome_kind_text :: "outcome_kind \<Rightarrow> string" where
  "outcome_kind_text k = (case k of OK_deadline \<Rightarrow> ''deadline'' | OK_eventual \<Rightarrow> ''eventual'' | OK_failure \<Rightarrow> ''failure'')"

definition find_outcome :: "string \<Rightarrow> outcome_kind \<Rightarrow> evidence \<Rightarrow> outcome_observation_row option" where
  "find_outcome attempt_id kind ev =
     find (\<lambda>r. ao_attempt_id r = attempt_id \<and> ao_kind r = kind) (ev_outcomes ev)"

text \<open>The insertion; any violated constraint is reported as an outcome that is already recorded.\<close>

definition insert_outcome_txn :: "outcome_observation_row \<Rightarrow> outcome_observation_row ev_txn" where
  "insert_outcome_txn r ev =
     bindE (ensure (int64_opt (ao_observation_horizon_ms r) \<and> int64 (ao_observed_monotonic_ns r)) OverflowError) (\<lambda>_.
     bindE (ensure (\<not> list_ex (\<lambda>x. ao_observation_id x = ao_observation_id r
                        \<or> ao_attempt_id x = ao_attempt_id r \<and> ao_kind x = ao_kind r) (ev_outcomes ev)
                    \<and> find_attempt (ao_attempt_id r) (ev_db ev) \<noteq> None
                    \<and> (case ao_observation_horizon_ms r of None \<Rightarrow> True | Some n \<Rightarrow> 0 \<le> n)
                    \<and> (case ao_proof_finality_observation_id r of None \<Rightarrow> True
                       | Some p \<Rightarrow> list_ex (\<lambda>f. fo_observation_id f = p) (ev_finality ev)))
              (OutcomeClockError OC_already_recorded)) (\<lambda>_.
     Inr (r, ev\<lparr>ev_outcomes := ev_outcomes ev @ [r]\<rparr>)))"

definition append_outcome ::
  "(json \<Rightarrow> string) \<Rightarrow> string \<Rightarrow> outcome_kind \<Rightarrow> string \<Rightarrow> failure_source option \<Rightarrow> string option \<Rightarrow> int option
     \<Rightarrow> int \<Rightarrow> string \<Rightarrow> int \<Rightarrow> string option \<Rightarrow> outcome_observation_row col" where
  "append_outcome h attempt_id kind outcome source code horizon_ms observed session_id monotonic_ns proof =
     act_bind (act_lift (ensure (\<not> (monotonic_ns < 0 \<or> session_id = [])) (OutcomeClockError OC_observer_clock))) (\<lambda>_.
     store_write (insert_outcome_txn
       \<lparr>ao_observation_id = stable_id h ''observation''
          [JStr ''attempt-outcome'', JStr attempt_id, JStr (outcome_kind_text kind), JStr outcome],
        ao_attempt_id = attempt_id, ao_kind = kind, ao_outcome = outcome, ao_failure_source = source,
        ao_failure_code = code, ao_observation_horizon_ms = horizon_ms, ao_observed_utc = observed,
        ao_observer_session_id = session_id, ao_observed_monotonic_ns = monotonic_ns,
        ao_proof_finality_observation_id = proof\<rparr>))"

definition set_attempt_txn :: "string \<Rightarrow> attempt_state \<Rightarrow> unit ev_txn" where
  "set_attempt_txn attempt_id s ev = Inr ((), ev\<lparr>ev_db := set_attempt_state attempt_id s (ev_db ev)\<rparr>)"

definition mark_deadline_timeout ::
  "(json \<Rightarrow> string) \<Rightarrow> string \<Rightarrow> timestamp \<Rightarrow> string \<Rightarrow> int \<Rightarrow> outcome_observation_row col" where
  "mark_deadline_timeout h attempt_id observed_utc session_id monotonic_ns =
     act_bind (ev_read (window_of attempt_id)) (\<lambda>window.
     act_bind (act_lift (stamp_utc observed_utc)) (\<lambda>observed.
     act_bind (act_lift (ensure (\<not> observed < aw_deadline_utc window) (OutcomeClockError OC_before_deadline))) (\<lambda>_.
     act_bind (ev_read (\<lambda>ev. require (find_attempt attempt_id (ev_db ev)) (OutcomeClockError OC_unknown_attempt))) (\<lambda>attempt.
     act_bind (act_lift (ensure (at_state attempt \<notin> {A_delivered, A_carrier_failed, A_xir_rejected, A_destination_failed})
                 (OutcomeClockError OC_terminal_outcome))) (\<lambda>_.
     act_bind (append_outcome h attempt_id OK_deadline ''timed_out'' None None
                 (Some (total_milliseconds (aw_deadline_utc window - aw_started_utc window))) observed session_id
                 monotonic_ns None) (\<lambda>observation.
     act_bind (store_write (set_attempt_txn attempt_id A_timed_out)) (\<lambda>_. act_return observation)))))))"

text \<open>
  \<^verbatim>\<open>_validate_destination_finality\<close>: the proof is a current, canonical, finalized observation of a
  transaction of the attempt's last stage.
\<close>

definition last_ordinal :: "string \<Rightarrow> db \<Rightarrow> int option" where
  "last_ordinal attempt_id db =
     (case map sg_ordinal (filter (\<lambda>s. sg_attempt_id s = attempt_id) (t_stages db)) of
        [] \<Rightarrow> None | x # xs \<Rightarrow> Some (fold max xs x))"

definition proof_stage :: "string \<Rightarrow> evidence \<Rightarrow> (finality_row \<times> stage_row) option" where
  "proof_stage observation_id ev =
     Option.bind (find (\<lambda>f. fo_observation_id f = observation_id
                        \<and> \<not> list_ex (\<lambda>l. fo_supersedes l = Some observation_id) (ev_finality ev)) (ev_finality ev)) (\<lambda>f.
     Option.bind (find_transaction (fo_transaction_id f) (ev_db ev)) (\<lambda>t.
     Option.bind (find_intent (tx_intent_id t) (ev_db ev)) (\<lambda>i.
     map_option (\<lambda>g. (f, g)) (find_stage (it_stage_id i) (ev_db ev)))))"

definition validate_destination_finality :: "string \<Rightarrow> string \<Rightarrow> evidence \<Rightarrow> exn + unit" where
  "validate_destination_finality attempt_id observation_id ev =
     ensure (case proof_stage observation_id ev of
               None \<Rightarrow> False
             | Some (f, g) \<Rightarrow> sg_attempt_id g = attempt_id \<and> fo_state f = F_finalized \<and> fo_canonical f
                 \<and> last_ordinal (sg_attempt_id g) (ev_db ev) = Some (sg_ordinal g))
       (OutcomeClockError OC_proof_invalid)"

definition check_eventual :: "string \<Rightarrow> string \<Rightarrow> string option \<Rightarrow> evidence \<Rightarrow> exn + unit" where
  "check_eventual attempt_id outcome proof ev =
     bindE (ensure (case find_outcome attempt_id OK_deadline ev of None \<Rightarrow> False | Some d \<Rightarrow> ao_outcome d = ''timed_out'')
              (OutcomeClockError OC_needs_timeout)) (\<lambda>_.
     if outcome = ''delivered_after_timeout''
     then bindE (require proof (OutcomeClockError OC_needs_proof)) (\<lambda>p. validate_destination_finality attempt_id p ev)
     else ensure (proof = None) (OutcomeClockError OC_unexpected_proof))"

definition record_eventual_outcome ::
  "(json \<Rightarrow> string) \<Rightarrow> string \<Rightarrow> string \<Rightarrow> timestamp \<Rightarrow> string \<Rightarrow> int \<Rightarrow> string option \<Rightarrow> outcome_observation_row col" where
  "record_eventual_outcome h attempt_id outcome observed_utc session_id monotonic_ns proof =
     act_bind (ev_read (check_eventual attempt_id outcome proof)) (\<lambda>_.
     act_bind (act_lift (stamp_utc observed_utc)) (\<lambda>observed.
     append_outcome h attempt_id OK_eventual outcome None None None observed session_id monotonic_ns proof))"

definition expected_sources :: "string \<Rightarrow> exn + failure_source list" where
  "expected_sources outcome =
     require (map_of [(''observer_failed'', [FS_observer]), (''incomplete_evidence'', [FS_observer, FS_evidence]),
                      (''submission_failed'', [FS_submission]), (''carrier_failed'', [FS_carrier]),
                      (''xir_rejected'', [FS_xir]), (''destination_failed'', [FS_destination])] outcome) KeyError"

definition failed_state :: "string \<Rightarrow> attempt_state" where
  "failed_state outcome =
     (case map_of [(''observer_failed'', A_observer_failed), (''incomplete_evidence'', A_incomplete_evidence),
                   (''submission_failed'', A_submission_failed), (''carrier_failed'', A_carrier_failed),
                   (''xir_rejected'', A_xir_rejected), (''destination_failed'', A_destination_failed)] outcome of
        None \<Rightarrow> A_other outcome | Some s \<Rightarrow> s)"

definition record_failure ::
  "(json \<Rightarrow> string) \<Rightarrow> string \<Rightarrow> string \<Rightarrow> failure_source \<Rightarrow> string \<Rightarrow> timestamp \<Rightarrow> string \<Rightarrow> int
     \<Rightarrow> outcome_observation_row col" where
  "record_failure h attempt_id outcome source code observed_utc session_id monotonic_ns =
     act_bind (ev_read (window_of attempt_id)) (\<lambda>_.
     act_bind (act_lift (expected_sources outcome)) (\<lambda>sources.
     act_bind (act_lift (ensure (source \<in> set sources) (OutcomeClockError OC_failure_source))) (\<lambda>_.
     act_bind (act_lift (stamp_utc observed_utc)) (\<lambda>observed.
     act_bind (append_outcome h attempt_id OK_failure outcome (Some source) (Some code) None observed session_id
                 monotonic_ns None) (\<lambda>observation.
     act_bind (ev_read (\<lambda>ev. Inr (find_outcome attempt_id OK_deadline ev))) (\<lambda>deadline.
     if deadline = None
     then act_bind (store_write (set_attempt_txn attempt_id (failed_state outcome))) (\<lambda>_. act_return observation)
     else act_return observation))))))"

end
