(* ===== verification/Xir_Outcomes_Properties.thy ===== *)
theory Xir_Outcomes_Properties
  imports Xir_Outcomes Xir_Action_Rules "HOL-Library.Sublist"
begin

text \<open>
  The outcome record is history: what is recorded about an attempt is never changed, each kind of outcome is
  recorded once, after what it presupposes, and the readings of an observer session never go back.
\<close>

section \<open>Invariant\<close>

definition outcome_ok :: "evidence \<Rightarrow> outcome_observation_row \<Rightarrow> bool" where
  "outcome_ok ev r \<longleftrightarrow> (case ao_kind r of
     OK_deadline \<Rightarrow> ao_outcome r = ''timed_out''
       \<and> (\<exists>w. find_window (ao_attempt_id r) ev = Some w \<and> aw_deadline_utc w \<le> ao_observed_utc r)
   | OK_eventual \<Rightarrow> find_outcome (ao_attempt_id r) OK_deadline ev \<noteq> None
       \<and> (ao_outcome r = ''delivered_after_timeout'' \<longleftrightarrow> ao_proof_finality_observation_id r \<noteq> None)
   | OK_failure \<Rightarrow> find_window (ao_attempt_id r) ev \<noteq> None
       \<and> (\<exists>source sources. ao_failure_source r = Some source \<and> expected_sources (ao_outcome r) = Inr sources
            \<and> source \<in> set sources))"

definition readings :: "string \<Rightarrow> string \<Rightarrow> evidence \<Rightarrow> int list" where
  "readings attempt_id session_id ev = map oc_monotonic_ns
     (filter (\<lambda>r. oc_attempt_id r = attempt_id \<and> oc_observer_session_id r = session_id) (ev_observer_clocks ev))"

definition outcome_inv :: "evidence \<Rightarrow> bool" where
  "outcome_inv ev \<longleftrightarrow> distinct (map (\<lambda>r. (ao_attempt_id r, ao_kind r)) (ev_outcomes ev))
     \<and> (\<forall>r\<in>set (ev_outcomes ev). outcome_ok ev r) \<and> (\<forall>a s. sorted (readings a s ev))"

text \<open>Evidence only grows at the end.\<close>

definition history_grows :: "evidence \<Rightarrow> evidence \<Rightarrow> bool" where
  "history_grows ev ev' \<longleftrightarrow> prefix (ev_outcomes ev) (ev_outcomes ev') \<and> prefix (ev_windows ev) (ev_windows ev')
     \<and> prefix (ev_observer_clocks ev) (ev_observer_clocks ev')"

lemma history_grows_refl [simp]: "history_grows ev ev"
  by (simp add: history_grows_def)

lemma history_grows_trans: "history_grows a b \<Longrightarrow> history_grows b c \<Longrightarrow> history_grows a c"
  unfolding history_grows_def by (meson prefix_order.trans)

lemma find_prefix: "prefix xs ys \<Longrightarrow> find P xs = Some x \<Longrightarrow> find P ys = Some x"
  by (auto simp: prefix_def find_append)

lemma outcome_ok_grows:
  assumes "history_grows ev ev'" and "outcome_ok ev r"
  shows "outcome_ok ev' r"
proof -
  have w: "find_window i ev' = Some w" if "find_window i ev = Some w" for i w
    using find_prefix [of "ev_windows ev" "ev_windows ev'"] assms(1) that by (simp add: find_window_def history_grows_def)
  have o: "find_outcome i k ev' = Some x" if "find_outcome i k ev = Some x" for i k x
    using find_prefix [of "ev_outcomes ev" "ev_outcomes ev'"] assms(1) that by (simp add: find_outcome_def history_grows_def)
  show ?thesis
  proof (cases "ao_kind r")
    case OK_deadline
    with assms(2) w show ?thesis unfolding outcome_ok_def by (auto simp only: outcome_kind.case)
  next
    case OK_eventual
    with assms(2) o show ?thesis unfolding outcome_ok_def by (auto simp only: outcome_kind.case)
  next
    case OK_failure
    with assms(2) w show ?thesis unfolding outcome_ok_def by (auto simp only: outcome_kind.case)
  qed
qed

definition held :: "evidence \<Rightarrow> evidence \<Rightarrow> bool" where
  "held e0 ev \<longleftrightarrow> outcome_inv ev \<and> history_grows e0 ev"

text \<open>What touches none of the three tables keeps everything.\<close>

lemma held_cong:
  assumes "held e0 ev" and "ev_outcomes ev' = ev_outcomes ev" and "ev_windows ev' = ev_windows ev"
    and "ev_observer_clocks ev' = ev_observer_clocks ev"
  shows "held e0 ev'"
proof -
  have "history_grows ev ev'" using assms(2-) by (simp add: history_grows_def)
  with assms outcome_ok_grows [of ev ev'] history_grows_trans [of e0 ev ev'] show ?thesis
    by (simp add: held_def outcome_inv_def readings_def)
qed

section \<open>Single writes\<close>

lemma insert_outcome_held:
  assumes "held e0 ev" and "outcome_ok ev r" and "insert_outcome_txn r ev = Inr (x, ev')"
  shows "held e0 ev' \<and> x = r"
proof -
  from assms(3) have ev': "ev' = ev\<lparr>ev_outcomes := ev_outcomes ev @ [r]\<rparr>" and x: "x = r"
    and fresh: "\<forall>y\<in>set (ev_outcomes ev). \<not> (ao_attempt_id y = ao_attempt_id r \<and> ao_kind y = ao_kind r)"
    by (auto simp: insert_outcome_txn_def exn_simps list_ex_iff)
  have g: "history_grows ev ev'" by (simp add: history_grows_def ev')
  with assms(1) have "history_grows e0 ev'" using history_grows_trans by (auto simp: held_def)
  moreover from assms(1,2) fresh outcome_ok_grows [OF g] have "outcome_inv ev'"
    by (auto simp: held_def outcome_inv_def ev' readings_def)
  ultimately show ?thesis using x by (simp add: held_def)
qed

lemma last_phase_max:
  assumes "last_phase a s ev = Some r"
  shows "\<forall>x\<in>set (readings a s ev). x \<le> oc_monotonic_ns r"
proof -
  have max: "\<forall>x\<in>set (z # zs). oc_monotonic_ns x
      \<le> oc_monotonic_ns (fold (\<lambda>x y. if oc_monotonic_ns y < oc_monotonic_ns x then x else y) zs z)" for z :: observer_clock_row and zs
    by (induction zs arbitrary: z) (force split: if_splits)+
  let ?rows = "filter (\<lambda>r. oc_attempt_id r = a \<and> oc_observer_session_id r = s) (ev_observer_clocks ev)"
  from assms obtain z zs where "?rows = z # zs"
    and "r = fold (\<lambda>x y. if oc_monotonic_ns y < oc_monotonic_ns x then x else y) zs z"
    unfolding last_phase_def by (cases ?rows) auto
  with max [of z zs] show ?thesis unfolding readings_def by (simp only: set_map ball_simps)
qed

lemma last_phase_none: "last_phase a s ev = None \<Longrightarrow> readings a s ev = []"
  by (simp add: last_phase_def readings_def split: list.splits)

lemma insert_phase_held:
  assumes "held e0 ev" and "insert_phase_txn r ev = Inr (x, ev')"
    and "\<forall>x\<in>set (readings (oc_attempt_id r) (oc_observer_session_id r) ev). x \<le> oc_monotonic_ns r"
  shows "held e0 ev'"
proof -
  from assms(2) have ev': "ev' = ev\<lparr>ev_observer_clocks := ev_observer_clocks ev @ [r]\<rparr>"
    by (auto simp: insert_phase_txn_def exn_simps)
  have g: "history_grows ev ev'" by (simp add: history_grows_def ev')
  have "sorted (readings a s ev')" for a s
    using assms(1,3) by (auto simp: held_def outcome_inv_def readings_def ev' sorted_append)
  with assms(1) outcome_ok_grows [OF g] history_grows_trans [OF _ g] show ?thesis
    by (auto simp: held_def outcome_inv_def ev')
qed

lemma phase_not_back:
  assumes "phase_discontinuity t (last_phase a s ev) wall n = Inr d"
  shows "\<forall>x\<in>set (readings a s ev). x \<le> n"
proof (cases "last_phase a s ev")
  case None
  then show ?thesis by (simp add: last_phase_none)
next
  case (Some r)
  with assms have "0 \<le> (n - oc_monotonic_ns r) div 1000000"
    by (simp add: phase_discontinuity_def Let_def exn_simps)
  then have "oc_monotonic_ns r \<le> n" by simp
  with last_phase_max [OF Some] show ?thesis by force
qed

lemma register_window_held:
  assumes "held e0 ev" and "register_window_txn w ev = Inr (u, ev')"
  shows "held e0 ev'"
proof (cases "find_window (aw_attempt_id w) ev")
  case (Some x)
  with assms show ?thesis by (auto simp: register_window_txn_def exn_simps)
next
  case None
  with assms(2) have ev': "ev' = ev\<lparr>ev_windows := ev_windows ev @ [w]\<rparr>"
    by (auto simp: register_window_txn_def exn_simps)
  have g: "history_grows ev ev'" by (simp add: history_grows_def ev')
  from assms(1) outcome_ok_grows [OF g] history_grows_trans [OF _ g] show ?thesis
    by (auto simp: held_def outcome_inv_def ev' readings_def)
qed
section \<open>Methods\<close>

lemma ev_read_triple: "(\<And>e. P e \<Longrightarrow> I e) \<Longrightarrow> triple I P (ev_read f) (\<lambda>a e. P e \<and> f e = Inr a)"
  by (auto simp: triple_def ev_read_def split: sum.splits)

lemma append_outcome_triple:
  assumes "\<And>e r. P e \<Longrightarrow> held e0 e
     \<and> (ao_attempt_id r = i \<longrightarrow> ao_kind r = k \<longrightarrow> ao_outcome r = out \<longrightarrow> ao_failure_source r = src \<longrightarrow> ao_observed_utc r = obs
          \<longrightarrow> ao_proof_finality_observation_id r = pf \<longrightarrow> outcome_ok e r)"
  shows "triple (held e0) P (append_outcome h i k out src code hor obs ses ns pf) (\<lambda>_. held e0)"
  unfolding append_outcome_def
proof (rule triple_bind [OF triple_ensure(1)])
  show "held e0 e" if "P e" for e using assms [OF that] by blast
next
  fix u
  show "triple (held e0) (\<lambda>e. P e \<and> \<not> (ns < 0 \<or> ses = []))
     (store_write (insert_outcome_txn \<lparr>ao_observation_id = stable_id h ''observation''
          [JStr ''attempt-outcome'', JStr i, JStr (outcome_kind_text k), JStr out],
        ao_attempt_id = i, ao_kind = k, ao_outcome = out, ao_failure_source = src,
        ao_failure_code = code, ao_observation_horizon_ms = hor, ao_observed_utc = obs,
        ao_observer_session_id = ses, ao_observed_monotonic_ns = ns,
        ao_proof_finality_observation_id = pf\<rparr>)) (\<lambda>_. held e0)" (is "triple _ _ (store_write (insert_outcome_txn ?r)) _")
  proof (rule triple_write)
    show "held e0 e" if "P e \<and> \<not> (ns < 0 \<or> ses = [])" for e using assms that by blast
    fix e a e' assume "P e \<and> \<not> (ns < 0 \<or> ses = [])" and run: "insert_outcome_txn ?r e = Inr (a, e')"
    then have "held e0 e" "outcome_ok e ?r" using assms [of e ?r] by simp_all
    from insert_outcome_held [OF this run] show "held e0 e'" by blast
  qed
qed

lemma set_attempt_triple: "triple (held e0) (held e0) (store_write (set_attempt_txn i s)) (\<lambda>_. held e0)"
  by (rule triple_write) (auto simp: set_attempt_txn_def intro: held_cong)

lemma mark_deadline_triple: "triple (held e0) (held e0) (mark_deadline_timeout h i t ses ns) (\<lambda>_. held e0)"
  unfolding mark_deadline_timeout_def
proof (rule triple_bind [OF ev_read_triple], assumption, rule triple_bind [OF triple_check], blast,
    rule triple_bind [OF triple_ensure(1)], blast, rule triple_bind [OF ev_read_triple], blast,
    rule triple_bind [OF triple_ensure(1)], blast, rule triple_bind)
  fix window observed u attempt v
  show "triple (held e0) (\<lambda>w. ((((held e0 w \<and> window_of i w = Inr window) \<and> stamp_utc t = Inr observed)
      \<and> \<not> observed < aw_deadline_utc window) \<and> require (find_attempt i (ev_db w)) (OutcomeClockError OC_unknown_attempt) = Inr attempt)
      \<and> at_state attempt \<notin> {A_delivered, A_carrier_failed, A_xir_rejected, A_destination_failed})
     (append_outcome h i OK_deadline ''timed_out'' None None
        (Some (total_milliseconds (aw_deadline_utc window - aw_started_utc window))) observed ses ns None) (\<lambda>_. held e0)"
    by (rule append_outcome_triple) (auto simp: outcome_ok_def window_of_def exn_simps)
  fix a
  show "triple (held e0) (held e0) (act_bind (store_write (set_attempt_txn i A_timed_out)) (\<lambda>_. act_return a)) (\<lambda>_. held e0)"
    by (rule triple_bind [OF set_attempt_triple], rule triple_keep)
qed

lemma eventual_triple: "triple (held e0) (held e0) (record_eventual_outcome h i out t ses ns pf) (\<lambda>_. held e0)"
  unfolding record_eventual_outcome_def
  by (rule triple_bind [OF ev_read_triple], assumption, rule triple_bind [OF triple_check], blast, rule append_outcome_triple)
    (auto simp: outcome_ok_def check_eventual_def exn_simps split: option.splits if_splits)

lemma failure_triple: "triple (held e0) (held e0) (record_failure h i out src code t ses ns) (\<lambda>_. held e0)"
  unfolding record_failure_def
proof (rule triple_bind [OF ev_read_triple], assumption, rule triple_bind [OF triple_check], blast,
    rule triple_bind [OF triple_ensure(1)], blast, rule triple_bind [OF triple_check], blast, rule triple_bind)
  fix window sources u observed
  show "triple (held e0) (\<lambda>w. (((held e0 w \<and> window_of i w = Inr window) \<and> expected_sources out = Inr sources)
      \<and> src \<in> set sources) \<and> stamp_utc t = Inr observed)
     (append_outcome h i OK_failure out (Some src) (Some code) None observed ses ns None) (\<lambda>_. held e0)"
    by (rule append_outcome_triple) (auto simp: outcome_ok_def window_of_def exn_simps)
  fix a
  show "triple (held e0) (held e0) (act_bind (ev_read (\<lambda>ev. Inr (find_outcome i OK_deadline ev))) (\<lambda>deadline.
     if deadline = None then act_bind (store_write (set_attempt_txn i (failed_state out))) (\<lambda>_. act_return a) else act_return a))
     (\<lambda>_. held e0)"
    by (rule triple_bind [OF ev_read_triple], assumption, rule triple_if,
        rule triple_bind [OF triple_pre [OF set_attempt_triple]], blast, rule triple_keep, rule triple_return, blast)
qed

lemma window_triple: "triple (held e0) (held e0) (register_window clk i ap sha ses st ns dl) (\<lambda>_. held e0)"
  unfolding register_window_def
  by (rule triple_bind [OF triple_check], assumption, rule triple_bind [OF triple_check], blast,
      rule triple_bind [OF triple_ensure(1)], blast, rule triple_bind [OF triple_ensure(1)], blast,
      rule triple_write, blast, rule register_window_held, blast)

lemma phase_triple: "triple (held e0) (held e0) (record_phase h thr i ph ses t ns) (\<lambda>_. held e0)"
  unfolding record_phase_def
proof (rule triple_bind [OF triple_check], assumption, rule triple_bind [OF triple_ensure(1)], blast,
    rule triple_bind [OF ev_read_triple], blast, rule triple_write, blast)
  fix wall u d e a e'
  assume pre: "((held e0 e \<and> stamp_utc t = Inr wall) \<and> \<not> (ph = [] \<or> ses = [] \<or> ns < 0))
      \<and> phase_discontinuity thr (last_phase i ses e) wall ns = Inr d"
    and run: "insert_phase_txn \<lparr>oc_observation_id = observer_clock_id h i ses ph ns, oc_attempt_id = i,
        oc_phase = ph, oc_observer_session_id = ses, oc_wall_utc = wall, oc_monotonic_ns = ns,
        oc_wall_clock_discontinuity = d,
        oc_discontinuity_reason = (if d then Some ''wall_and_monotonic_elapsed_diverged'' else None)\<rparr> e = Inr (a, e')"
  from pre have "\<forall>x\<in>set (readings i ses e). x \<le> ns" by (blast dest: phase_not_back)
  with pre run show "held e0 e'" by (intro insert_phase_held [OF _ run]) simp_all
qed

lemma measurement_triple: "triple (held e0) (\<lambda>e. held e0 e \<and> c e) (measurement h clk i k a b el un st) (\<lambda>_. held e0)"
  unfolding measurement_def
  by (rule triple_write) (auto simp: measurement_txn_def exn_simps elim!: held_cong split: if_splits)

lemma duration_triple: "triple (held e0) (held e0) (observer_duration h clk a b) (\<lambda>_. held e0)"
  unfolding observer_duration_def
  by (rule triple_bind [OF ev_read_triple], assumption, rule triple_bind [OF ev_read_triple], blast,
      rule triple_bind [OF triple_ensure(1)], blast, rule triple_pre [OF measurement_triple [where c = "\<lambda>_. True"]], blast)

lemma chain_clock_triple: "triple (held e0) (held e0) (record_chain_clock h i r c n b t) (\<lambda>_. held e0)"
  unfolding record_chain_clock_def
  by (rule triple_bind [OF triple_ensure(1)], assumption, rule triple_write)
    (auto simp: chain_clock_txn_def exn_simps elim!: held_cong split: if_splits)

lemma interval_triple: "triple (held e0) (held e0) (cross_chain_interval h clk a b m) (\<lambda>_. held e0)"
  unfolding cross_chain_interval_def
  by (rule triple_bind [OF ev_read_triple], assumption, rule triple_bind [OF ev_read_triple], blast,
      rule triple_bind [OF triple_ensure(1)], blast, rule triple_bind [OF triple_ensure(1)], blast,
      rule triple_pre [OF measurement_triple [where c = "\<lambda>_. True"]], blast)

section \<open>Histories\<close>

text \<open>Calls of the recorder in any order, interleaved with whatever leaves its three tables alone.\<close>

inductive outcome_step :: "(json \<Rightarrow> string) \<Rightarrow> evidence \<Rightarrow> evidence \<Rightarrow> bool" for h where
  window: "outcome_step h e (snd (register_window clk i ap sha ses st ns dl e))"
| phase: "outcome_step h e (snd (record_phase h thr i ph ses t ns e))"
| duration: "outcome_step h e (snd (observer_duration h clk a b e))"
| chain_clock: "outcome_step h e (snd (record_chain_clock h i r c n b ts e))"
| interval: "outcome_step h e (snd (cross_chain_interval h clk a b m e))"
| deadline: "outcome_step h e (snd (mark_deadline_timeout h i t ses ns e))"
| eventual: "outcome_step h e (snd (record_eventual_outcome h i out t ses ns pf e))"
| failure: "outcome_step h e (snd (record_failure h i out src code t ses ns e))"
| other: "ev_outcomes e' = ev_outcomes e \<Longrightarrow> ev_windows e' = ev_windows e \<Longrightarrow>
    ev_observer_clocks e' = ev_observer_clocks e \<Longrightarrow> outcome_step h e e'"

lemma outcome_step_held:
  assumes "outcome_step h e e'" and "held e0 e"
  shows "held e0 e'"
  using assms(1)
proof cases
  case (window clk i ap sha ses st ns dl)
  show ?thesis unfolding window by (rule triple_keeps [OF window_triple assms(2)])
next
  case (phase thr i ph ses t ns)
  show ?thesis unfolding phase by (rule triple_keeps [OF phase_triple assms(2)])
next
  case (duration clk a b)
  show ?thesis unfolding duration by (rule triple_keeps [OF duration_triple assms(2)])
next
  case (chain_clock i r c n b ts)
  show ?thesis unfolding chain_clock by (rule triple_keeps [OF chain_clock_triple assms(2)])
next
  case (interval clk a b m)
  show ?thesis unfolding interval by (rule triple_keeps [OF interval_triple assms(2)])
next
  case (deadline i t ses ns)
  show ?thesis unfolding deadline by (rule triple_keeps [OF mark_deadline_triple assms(2)])
next
  case (eventual i out t ses ns pf)
  show ?thesis unfolding eventual by (rule triple_keeps [OF eventual_triple assms(2)])
next
  case (failure i out src code t ses ns)
  show ?thesis unfolding failure by (rule triple_keeps [OF failure_triple assms(2)])
next
  case other
  show ?thesis by (rule held_cong [OF assms(2) other])
qed

definition unrecorded :: "evidence \<Rightarrow> bool" where
  "unrecorded e \<longleftrightarrow> ev_outcomes e = [] \<and> ev_windows e = [] \<and> ev_observer_clocks e = []"

interpretation outcomes: transition_system unrecorded "outcome_step h" outcome_inv for h
proof
  fix e assume "unrecorded e"
  then show "outcome_inv e" by (simp add: unrecorded_def outcome_inv_def readings_def)
next
  fix e e' assume "outcome_inv e" "outcome_step h e e'"
  then show "outcome_inv e'" using outcome_step_held [of h e e' e] by (simp add: held_def)
qed

lemma steps_grow: "(outcome_step h)\<^sup>*\<^sup>* e e' \<Longrightarrow> outcome_inv e \<Longrightarrow> held e e'"
  by (induction rule: rtranclp_induct) (simp add: held_def, rule outcome_step_held)

text \<open>
  C39. Whatever calls of \<^verbatim>\<open>collect/outcomes.py\<close> run and however they end, an attempt has at most one deadline, one
  eventual and one failure outcome. A timeout is recorded not before the deadline of a registered window, an
  eventual outcome only after a timeout, a delivery only with a proof, a failure only with a source that fits it.
  The monotonic readings of an observer session never decrease, and nothing of all this is ever changed or removed.
\<close>

theorem outcomes_are_history:
  assumes "unrecorded e0" and "(outcome_step h)\<^sup>*\<^sup>* e0 e1" and "(outcome_step h)\<^sup>*\<^sup>* e1 e2"
  shows "distinct (map (\<lambda>r. (ao_attempt_id r, ao_kind r)) (ev_outcomes e2)) \<and> (\<forall>r\<in>set (ev_outcomes e2). outcome_ok e2 r)
     \<and> (\<forall>a s. sorted (readings a s e2)) \<and> history_grows e1 e2"
proof -
  from outcomes.reachable_inv [OF assms(1,2)] have "outcome_inv e1" .
  from steps_grow [OF assms(3) this] show ?thesis by (simp add: held_def outcome_inv_def)
qed

definition demo_observed :: evidence where
  "demo_observed = empty_evidence (empty_db\<lparr>t_attempts := [\<lparr>at_attempt_id = ''a'', at_condition_id = ''c'', at_pair_id = None,
       at_arm = Xir, at_attempt_kind = Primary, at_original_attempt_kind = None, at_retry_of = None,
       at_schedule_index = None, at_batch_index = None, at_state = A_in_flight, at_created_at = 0\<rparr>],
     t_consumptions := [\<lparr>ac_approval_id = ''ap'', ac_issuer_id = ''i'', ac_approval_key_id = ''k'', ac_issuer_sequence = 1,
       ac_operation_type = ''run'', ac_operation_id = ''o'', ac_payload_sha256 = replicate 64 (CHR ''0''), ac_valid_from = 0,
       ac_valid_until = 9, ac_consumed_at = 1\<rparr>]\<rparr>)"

definition demo_digest :: "json \<Rightarrow> string" where "demo_digest j = ''digest''"

definition demo_windowed :: evidence where
  "demo_windowed = snd (register_window 1 ''a'' ''ap'' (replicate 64 (CHR ''0'')) ''s'' (TS_at 0 0) 5 (TS_at 1005000 0) demo_observed)"

definition demo_timed_out :: evidence where
  "demo_timed_out = snd (mark_deadline_timeout demo_digest ''a'' (TS_at 1005000 0) ''s'' 9 demo_windowed)"

lemma demo_windowed_rows:
  "find_window ''a'' demo_windowed = Some \<lparr>aw_attempt_id = ''a'', aw_approval_id = ''ap'',
     aw_approval_payload_sha256 = replicate 64 (CHR ''0''), aw_observer_session_id = ''s'', aw_started_utc = 0,
     aw_started_monotonic_ns = 5, aw_deadline_utc = 1005000, aw_registered_at = 1\<rparr>"
  "map_option at_state (find_attempt ''a'' (ev_db demo_windowed)) = Some A_in_flight"
  "map at_attempt_id (t_attempts (ev_db demo_windowed)) = [''a'']" "ev_outcomes demo_windowed = []"
  by code_simp+

lemma demo_horizon: "total_milliseconds 1005000 = 1004"
  by code_simp

text \<open>The timeout on any evidence with that window, attempt in flight and outcomes so far.\<close>

lemma demo_timeout:
  assumes "find_window ''a'' e = find_window ''a'' demo_windowed" and "ev_db e = ev_db demo_windowed"
  shows "mark_deadline_timeout h ''a'' (TS_at 1005000 0) ''s'' 9 e =
    (let r = \<lparr>ao_observation_id = stable_id h ''observation''
          [JStr ''attempt-outcome'', JStr ''a'', JStr ''deadline'', JStr ''timed_out''],
        ao_attempt_id = ''a'', ao_kind = OK_deadline, ao_outcome = ''timed_out'', ao_failure_source = None,
        ao_failure_code = None, ao_observation_horizon_ms = Some 1004, ao_observed_utc = 1005000,
        ao_observer_session_id = ''s'', ao_observed_monotonic_ns = 9, ao_proof_finality_observation_id = None\<rparr>
     in if list_ex (\<lambda>x. ao_observation_id x = ao_observation_id r \<or> ao_attempt_id x = ''a'' \<and> ao_kind x = OK_deadline)
             (ev_outcomes e)
        then (Inl (OutcomeClockError OC_already_recorded), e)
        else (Inr r, e\<lparr>ev_outcomes := ev_outcomes e @ [r], ev_db := set_attempt_state ''a'' A_timed_out (ev_db e)\<rparr>))"
proof -
  from demo_windowed_rows(2) obtain a :: attempt_row where a: "find_attempt ''a'' (ev_db demo_windowed) = Some a" "at_state a = A_in_flight"
    by auto
  show ?thesis
    by (simp add: mark_deadline_timeout_def act_bind_def ev_read_def window_of_def assms demo_windowed_rows(1) a stamp_utc_def
        act_lift_def append_outcome_def store_write_def insert_outcome_txn_def int64_opt_def int64_def demo_horizon
        outcome_kind_text_def set_attempt_txn_def act_return_def require_def ensure_def bindE_def Let_def)
qed

theorem outcomes_are_history_witness:
  "map ao_outcome (ev_outcomes demo_timed_out) = [''timed_out'']
   \<and> map ao_observation_horizon_ms (ev_outcomes demo_timed_out) = [Some 1004]
   \<and> history_grows demo_windowed demo_timed_out \<and> list_all (outcome_ok demo_timed_out) (ev_outcomes demo_timed_out)"
proof -
  have "outcome_step demo_digest demo_observed demo_windowed" "outcome_step demo_digest demo_windowed demo_timed_out"
    unfolding demo_windowed_def demo_timed_out_def by (rule outcome_step.intros)+
  then have s: "(outcome_step demo_digest)\<^sup>*\<^sup>* demo_observed demo_windowed" "(outcome_step demo_digest)\<^sup>*\<^sup>* demo_windowed demo_timed_out"
    by blast+
  have "unrecorded demo_observed" by code_simp
  from outcomes_are_history [OF this s]
  have "history_grows demo_windowed demo_timed_out" "list_all (outcome_ok demo_timed_out) (ev_outcomes demo_timed_out)"
    unfolding list_all_iff by blast+
  then show ?thesis unfolding demo_timed_out_def demo_timeout [OF refl refl] Let_def demo_windowed_rows(4)
    by simp
qed

text \<open>What an eventual delivery rests on at the moment it is recorded.\<close>

lemma eventual_delivery_is_proven:
  assumes "record_eventual_outcome h i ''delivered_after_timeout'' t ses ns pf ev = (Inr r, ev')"
  shows "\<exists>p f g d. pf = Some p \<and> proof_stage p ev = Some (f, g) \<and> sg_attempt_id g = i \<and> fo_state f = F_finalized
     \<and> fo_canonical f \<and> last_ordinal i (ev_db ev) = Some (sg_ordinal g)
     \<and> find_outcome i OK_deadline ev = Some d \<and> ao_outcome d = ''timed_out''"
proof -
  from assms have "check_eventual i ''delivered_after_timeout'' pf ev = Inr ()"
    by (cases "check_eventual i ''delivered_after_timeout'' pf ev")
      (simp_all add: record_eventual_outcome_def act_bind_def ev_read_def)
  then show ?thesis
    by (cases "find_outcome i OK_deadline ev"; cases pf; cases "proof_stage (the pf) ev")
      (auto simp: check_eventual_def validate_destination_finality_def exn_simps)
qed

text \<open>
  Three places where the recorder does less than its words promise: a failure is recorded over a delivered
  attempt and takes its state away; a timeout that was recorded without its second commit cannot be completed; a
  measurement returned for the same end points need not be the one that is stored.
\<close>

lemma failure_overwrites_delivery:
  "map at_state (t_attempts (ev_db (snd (record_failure demo_digest ''a'' ''carrier_failed'' FS_carrier ''code'' (TS_at 7 0) ''s'' 9
      (demo_windowed\<lparr>ev_db := set_attempt_state ''a'' A_delivered (ev_db demo_windowed)\<rparr>))))) = [A_carrier_failed]"
  by code_simp

lemma timeout_is_not_completed:
  assumes "e = demo_timed_out\<lparr>ev_db := ev_db demo_windowed\<rparr>"
  shows "mark_deadline_timeout demo_digest ''a'' (TS_at 1005000 0) ''s'' 9 e = (Inl (OutcomeClockError OC_already_recorded), e)"
proof -
  have e: "ev_outcomes e = ev_outcomes demo_timed_out" "ev_windows e = ev_windows demo_timed_out" by (simp_all add: assms)
  have "ev_windows e = ev_windows demo_windowed" and dup: "\<exists>x\<in>set (ev_outcomes e). ao_attempt_id x = ''a'' \<and> ao_kind x = OK_deadline"
    unfolding e unfolding demo_timed_out_def demo_timeout [OF refl refl] Let_def demo_windowed_rows(4) by simp_all
  then have "find_window ''a'' e = find_window ''a'' demo_windowed" by (simp add: find_window_def)
  note run = demo_timeout [OF this, of demo_digest]
  from dup show ?thesis
    by (subst run) (auto simp: assms Let_def list_ex_iff)
qed

end
