(* ===== verification/Xir_Raw.thy ===== *)
theory Xir_Raw
  imports Xir_Evidence Xir_Signer Xir_Actions
begin

text \<open>
  The raw store of \<^verbatim>\<open>evidence/store.py\<close>: exact bytes under the name of their digest, one compressed file and one
  row each, the repair report, observations over raw blobs, transactions and freezes. \<open>sha\<close> is SHA-256 of bytes in
  hexadecimal, \<open>ser\<close> the canonical serialization of a JSON value, \<open>on_disk\<close> the size of a file on disk. Bytes are
  character lists.
\<close>

section \<open>Files and secrets\<close>

text \<open>
  A file of the raw root: the compressed form of some bytes, something \<^verbatim>\<open>gzip\<close> refuses with an \<^verbatim>\<open>OSError\<close> or
  \<^verbatim>\<open>EOFError\<close>, or a file whose compressed stream is damaged, where \<^verbatim>\<open>gzip\<close> raises \<^verbatim>\<open>zlib.error\<close>, an exception
  outside those two classes.
\<close>

datatype raw_file = Gzip string | Not_gzip | Bad_stream

record raw_world =
  rs_ev :: evidence
  rs_files :: "(string \<times> raw_file) list"

definition secret_markers :: "string list" where
  "secret_markers = [''private_key'', ''private key'', ''mnemonic'', ''seed phrase'', ''xir_deployer_private_key'',
     ''xir_administrator_private_key'']"

fun has_infix :: "string \<Rightarrow> string \<Rightarrow> bool" where
  "has_infix m [] = (m = [])"
| "has_infix m (c # cs) = (take (length m) (c # cs) = m \<or> has_infix m cs)"

definition scan_secret :: "string \<Rightarrow> string \<Rightarrow> exn + unit" where
  "scan_secret label value =
     ensure (\<not> list_ex (\<lambda>m. has_infix m (lower value)) secret_markers) (StoreError (ST_secret label))"

definition raw_path :: "string \<Rightarrow> string" where
  "raw_path digest = ''sha256/'' @ take 2 digest @ ''/'' @ digest @ ''.gz''"

section \<open>Writing and reading bytes\<close>

text \<open>
  The file appears under its final name by a rename, so it is complete or absent; an existing one is left as
  it is. \<^verbatim>\<open>INSERT OR IGNORE\<close> skips the row when the digest or the path is there or a check fails.
\<close>

definition put_file :: "(string \<Rightarrow> string) \<Rightarrow> string \<Rightarrow> (string \<times> raw_file) list \<Rightarrow> (string \<times> raw_file) list" where
  "put_file sha data fs =
     (let path = raw_path (sha data) in if map_of fs path = None then (path, Gzip data) # fs else fs)"

definition put_row_txn :: "raw_row \<Rightarrow> unit ev_txn" where
  "put_row_txn r ev =
     (if length (rw_raw_sha256 r) \<noteq> 64 \<or> list_ex (\<lambda>x. rw_raw_sha256 x = rw_raw_sha256 r
           \<or> rw_relative_path x = rw_relative_path r) (ev_raw ev) then Inr ((), ev)
      else Inr ((), ev\<lparr>ev_raw := ev_raw ev @ [r]\<rparr>))"

definition raw_row_of ::
  "(string \<Rightarrow> string) \<Rightarrow> (raw_file \<Rightarrow> int) \<Rightarrow> int \<Rightarrow> string \<Rightarrow> string \<Rightarrow> json \<Rightarrow> (string \<times> raw_file) list \<Rightarrow> raw_row" where
  "raw_row_of sha on_disk clk data media_type metadata fs =
     \<lparr>rw_raw_sha256 = sha data, rw_relative_path = raw_path (sha data), rw_exact_size = int (length data),
      rw_stored_size = (case map_of fs (raw_path (sha data)) of None \<Rightarrow> 0 | Some f \<Rightarrow> on_disk f),
      rw_media_type = media_type, rw_metadata = metadata, rw_created_at = clk\<rparr>"

definition put_raw ::
  "(json \<Rightarrow> string) \<Rightarrow> (string \<Rightarrow> string) \<Rightarrow> (raw_file \<Rightarrow> int) \<Rightarrow> int \<Rightarrow> string \<Rightarrow> string \<Rightarrow> json
     \<Rightarrow> (raw_world, string) action" where
  "put_raw ser sha on_disk clk data media_type metadata w =
     (case bindE (scan_secret ''raw blob'' data) (\<lambda>_. scan_secret ''raw metadata'' (ser metadata)) of
        Inl e \<Rightarrow> (Inl e, w)
      | Inr _ \<Rightarrow>
          let fs = put_file sha data (rs_files w)
          in (case store_write (put_row_txn (raw_row_of sha on_disk clk data media_type metadata fs)) (rs_ev w) of
                (Inl e, ev) \<Rightarrow> (Inl e, w\<lparr>rs_files := fs, rs_ev := ev\<rparr>)
              | (Inr _, ev) \<Rightarrow> (Inr (sha data), w\<lparr>rs_files := fs, rs_ev := ev\<rparr>)))"

definition find_raw :: "string \<Rightarrow> evidence \<Rightarrow> raw_row option" where
  "find_raw digest ev = find (\<lambda>r. rw_raw_sha256 r = digest) (ev_raw ev)"

definition read_raw :: "(string \<Rightarrow> string) \<Rightarrow> string \<Rightarrow> raw_world \<Rightarrow> exn + string" where
  "read_raw sha digest w =
     bindE (require (find_raw digest (rs_ev w)) (StoreError (ST_unknown_raw digest))) (\<lambda>row.
     case map_of (rs_files w) (rw_relative_path row) of
       None \<Rightarrow> Inl (StoreError (ST_unreadable_raw digest))
     | Some Not_gzip \<Rightarrow> Inl (StoreError (ST_unreadable_raw digest))
     | Some Bad_stream \<Rightarrow> Inl ExternalError
     | Some (Gzip data) \<Rightarrow>
         bindE (ensure (sha data = digest) (StoreError (ST_digest_mismatch digest))) (\<lambda>_. Inr data))"

section \<open>Repair report\<close>

record raw_report =
  rp_missing :: "string list"
  rp_corrupt :: "string list"
  rp_orphans :: "string list"

text \<open>The pattern \<^verbatim>\<open>sha256/*/*.gz\<close>.\<close>

definition raw_glob :: "string \<Rightarrow> bool" where
  "raw_glob p \<longleftrightarrow> (case split_path p of
     [a, b, c] \<Rightarrow> a = ''sha256'' \<and> b \<noteq> [] \<and> 3 \<le> length c \<and> drop (length c - 3) c = ''.gz''
   | _ \<Rightarrow> False)"

text \<open>The loop over the registered blobs; an exception that is not a \<^verbatim>\<open>StoreError\<close> ends it.\<close>

fun check_registered_raw ::
  "(string \<Rightarrow> string) \<Rightarrow> raw_world \<Rightarrow> raw_row list \<Rightarrow> string list \<times> string list \<Rightarrow> exn + string list \<times> string list" where
  "check_registered_raw sha w [] acc = Inr acc"
| "check_registered_raw sha w (r # rs) acc =
     (if map_of (rs_files w) (rw_relative_path r) = None
      then check_registered_raw sha w rs (fst acc @ [rw_raw_sha256 r], snd acc)
      else (case read_raw sha (rw_raw_sha256 r) w of
              Inr _ \<Rightarrow> check_registered_raw sha w rs acc
            | Inl (StoreError _) \<Rightarrow> check_registered_raw sha w rs (fst acc, snd acc @ [rw_raw_sha256 r])
            | Inl e \<Rightarrow> Inl e))"

definition repair_raw :: "(string \<Rightarrow> string) \<Rightarrow> raw_world \<Rightarrow> exn + raw_report" where
  "repair_raw sha w =
     bindE (check_registered_raw sha w (ev_raw (rs_ev w)) ([], [])) (\<lambda>(missing, corrupt).
     Inr \<lparr>rp_missing = text_sort missing, rp_corrupt = text_sort corrupt,
          rp_orphans = text_sort (filter (\<lambda>p. raw_glob p \<and> p \<notin> rw_relative_path ` set (ev_raw (rs_ev w)))
                         (remdups (map fst (rs_files w))))\<rparr>)"

section \<open>Observations and transactions\<close>

definition append_observation_txn :: "observation_row \<Rightarrow> unit ev_txn" where
  "append_observation_txn r ev =
     bindE (case ob_supersedes r of
              None \<Rightarrow> Inr ()
            | Some s \<Rightarrow>
                bindE (require (find (\<lambda>x. ob_observation_id x = s) (ev_observations ev)) (StoreError ST_unknown_superseded)) (\<lambda>prior.
                ensure ((ob_subject_kind prior, ob_subject_id prior) = (ob_subject_kind r, ob_subject_id r))
                  (StoreError ST_changed_subject))) (\<lambda>_.
     bindE (ensure (\<not> list_ex (\<lambda>x. ob_observation_id x = ob_observation_id r) (ev_observations ev)
                    \<and> find_raw (ob_raw_sha256 r) ev \<noteq> None) IntegrityError) (\<lambda>_.
     Inr ((), ev\<lparr>ev_observations := ev_observations ev @ [r]\<rparr>)))"

definition append_observation ::
  "int \<Rightarrow> string \<Rightarrow> string \<Rightarrow> string \<Rightarrow> string \<Rightarrow> string \<Rightarrow> string option \<Rightarrow> evidence \<Rightarrow> unit ev_outcome" where
  "append_observation clk observation_id subject_kind subject_id raw_sha256 status supersedes =
     store_write (append_observation_txn
       \<lparr>ob_observation_id = observation_id, ob_subject_kind = subject_kind, ob_subject_id = subject_id,
        ob_observed_at = clk, ob_raw_sha256 = raw_sha256, ob_supersedes = supersedes, ob_status = status\<rparr>)"

definition insert_transaction_txn ::
  "string \<Rightarrow> string \<Rightarrow> int \<Rightarrow> int \<Rightarrow> string option \<Rightarrow> string option \<Rightarrow> unit txn" where
  "insert_transaction_txn transaction_id intent_id chain_id nonce transaction_hash replaces db =
     bindE (case replaces of
              None \<Rightarrow> Inr ()
            | Some p \<Rightarrow>
                bindE (require (find_transaction p db) (StoreError ST_unknown_replacement_predecessor)) (\<lambda>prior.
                ensure ((tx_intent_id prior, tx_chain_id prior, tx_nonce prior) = (intent_id, chain_id, nonce))
                  (StoreError ST_replacement_changed))) (\<lambda>_.
     bindE (ensure (int64 chain_id \<and> int64 nonce) OverflowError) (\<lambda>_.
     bindE (ensure (find_transaction transaction_id db = None \<and> find_intent intent_id db \<noteq> None \<and> 0 \<le> nonce
                    \<and> (case transaction_hash of None \<Rightarrow> True
                       | Some x \<Rightarrow> \<not> list_ex (\<lambda>t. tx_chain_id t = chain_id \<and> tx_transaction_hash t = Some x) (t_transactions db))) IntegrityError) (\<lambda>_.
     Inr ((), db\<lparr>t_transactions := t_transactions db @
       [\<lparr>tx_transaction_id = transaction_id, tx_intent_id = intent_id, tx_chain_id = chain_id, tx_nonce = nonce,
         tx_transaction_hash = transaction_hash, tx_replaces_transaction_id = replaces, tx_state = T_prepared,
         tx_signed_sha256 = None, tx_signed_length = None, tx_spool_relative_path = None, tx_signer_returned_at = None,
         tx_signed_hash_persisted_at = None, tx_broadcast_started_at = None, tx_submitted_at = None,
         tx_included_at = None, tx_finalized_at = None\<rparr>]\<rparr>))))"

definition insert_transaction ::
  "string \<Rightarrow> string \<Rightarrow> int \<Rightarrow> int \<Rightarrow> string option \<Rightarrow> string option \<Rightarrow> db \<Rightarrow> unit outcome" where
  "insert_transaction transaction_id intent_id chain_id nonce transaction_hash replaces =
     store_write (insert_transaction_txn transaction_id intent_id chain_id nonce transaction_hash replaces)"

end
