(* ===== verification/Xir_Raw_Properties.thy ===== *)
theory Xir_Raw_Properties
  imports Xir_Raw
begin

text \<open>
  Bytes that were put into the raw store can be read back, whatever is put or interrupted afterwards, and the
  repair report names exactly the blobs that cannot be read.
\<close>

section \<open>Paths\<close>

lemma raw_path_length: "length (raw_path d) = 11 + min 2 (length d) + length d"
  by (simp add: raw_path_def)

lemma raw_path_inj: "raw_path a = raw_path b \<longleftrightarrow> a = b"
proof
  assume eq: "raw_path a = raw_path b"
  then have "length (raw_path a) = length (raw_path b)" by simp
  then have len: "length a = length b" by (simp add: raw_path_length min_def split: if_splits)
  have split: "raw_path d = (''sha256/'' @ take 2 d @ ''/'') @ d @ ''.gz''" for d by (simp add: raw_path_def)
  from len have "length (''sha256/'' @ take 2 a @ ''/'') = length (''sha256/'' @ take 2 b @ ''/'')" by simp
  from iffD1 [OF append_eq_append_conv [OF disjI1 [OF this]] eq [unfolded split]] show "a = b" by simp
qed simp

section \<open>Invariant\<close>

definition intact :: "(string \<Rightarrow> string) \<Rightarrow> (string \<times> raw_file) list \<Rightarrow> bool" where
  "intact sha fs \<longleftrightarrow> (\<forall>d f. map_of fs (raw_path d) = Some f \<longrightarrow> (\<exists>b. f = Gzip b \<and> sha b = d))"

definition raw_inv :: "(string \<Rightarrow> string) \<Rightarrow> raw_world \<Rightarrow> bool" where
  "raw_inv sha w \<longleftrightarrow> intact sha (rs_files w)
     \<and> (\<forall>r\<in>set (ev_raw (rs_ev w)). rw_relative_path r = raw_path (rw_raw_sha256 r)
          \<and> map_of (rs_files w) (rw_relative_path r) \<noteq> None)"

definition raw_grows :: "raw_world \<Rightarrow> raw_world \<Rightarrow> bool" where
  "raw_grows w w' \<longleftrightarrow> (\<forall>p f. map_of (rs_files w) p = Some f \<longrightarrow> map_of (rs_files w') p = Some f)
     \<and> (\<forall>d. find_raw d (rs_ev w) \<noteq> None \<longrightarrow> find_raw d (rs_ev w') \<noteq> None)"

lemma raw_grows_trans: "raw_grows a b \<Longrightarrow> raw_grows b c \<Longrightarrow> raw_grows a c"
  by (simp add: raw_grows_def)

lemma put_file_intact: "intact sha fs \<Longrightarrow> intact sha (put_file sha data fs)"
  by (auto simp: intact_def put_file_def Let_def raw_path_inj)

lemma put_file_keeps: "map_of fs p = Some f \<Longrightarrow> map_of (put_file sha data fs) p = Some f"
  by (auto simp: put_file_def Let_def)

lemma put_file_there: "map_of (put_file sha data fs) (raw_path (sha data)) \<noteq> None"
  by (simp add: put_file_def Let_def)

text \<open>What one call leaves: either nothing, or the file and, where the digest has its length, the row.\<close>

lemma put_raw_cases:
  obtains (refused) e where "put_raw ser sha on_disk clk data mt md w = (Inl e, w)"
  | (stored) ev where "put_raw ser sha on_disk clk data mt md w
      = (Inr (sha data), w\<lparr>rs_files := put_file sha data (rs_files w), rs_ev := ev\<rparr>)"
    "put_row_txn (raw_row_of sha on_disk clk data mt md (put_file sha data (rs_files w))) (rs_ev w) = Inr ((), ev)"
proof (cases "bindE (scan_secret ''raw blob'' data) (\<lambda>_. scan_secret ''raw metadata'' (ser md))")
  case (Inl e)
  then show ?thesis by (intro refused) (simp add: put_raw_def)
next
  case (Inr u)
  have "\<exists>ev. put_row_txn r (rs_ev w) = Inr ((), ev)" for r by (auto simp: put_row_txn_def)
  then obtain ev where "put_row_txn (raw_row_of sha on_disk clk data mt md (put_file sha data (rs_files w))) (rs_ev w) = Inr ((), ev)"
    by blast
  with Inr show ?thesis by (intro stored) (simp_all add: put_raw_def Let_def store_write_def)
qed

lemma put_row_find:
  assumes "put_row_txn r ev = Inr (u, ev')"
  shows "find_raw d ev \<noteq> None \<Longrightarrow> find_raw d ev' \<noteq> None"
    and "length (rw_raw_sha256 r) = 64 \<Longrightarrow> (\<forall>x\<in>set (ev_raw ev). rw_relative_path x = rw_relative_path r
      \<longrightarrow> rw_raw_sha256 x = rw_raw_sha256 r) \<Longrightarrow> find_raw (rw_raw_sha256 r) ev' \<noteq> None"
    and "set (ev_raw ev') \<subseteq> insert r (set (ev_raw ev))"
  using assms by (auto simp: put_row_txn_def find_raw_def find_None_iff list_ex_iff split: if_splits)

lemma put_raw_step:
  assumes inv: "raw_inv sha w" and run: "put_raw ser sha on_disk clk data mt md w = (x, w')"
  shows "raw_inv sha w' \<and> raw_grows w w'
    \<and> (x = Inr d \<longrightarrow> d = sha data \<and> (length d = 64 \<longrightarrow> find_raw d (rs_ev w') \<noteq> None)
         \<and> map_of (rs_files w') (raw_path d) \<noteq> None
         \<and> (map_of (rs_files w) (raw_path d) = None \<longrightarrow> map_of (rs_files w') (raw_path d) = Some (Gzip data)))"
proof (cases rule: put_raw_cases [of ser sha on_disk clk data mt md w])
  case (refused e)
  with assms show ?thesis by (auto simp: raw_grows_def)
next
  case (stored ev)
  let ?fs = "put_file sha data (rs_files w)"
  let ?r = "raw_row_of sha on_disk clk data mt md ?fs"
  from stored(1) run have w': "w' = w\<lparr>rs_files := ?fs, rs_ev := ev\<rparr>" and x: "x = Inr (sha data)" by simp_all
  note row = put_row_find [OF stored(2)]
  have r: "rw_raw_sha256 ?r = sha data" "rw_relative_path ?r = raw_path (sha data)" by (simp_all add: raw_row_of_def)
  have "raw_inv sha w'"
    unfolding raw_inv_def
  proof (intro conjI ballI)
    show "intact sha (rs_files w')" using inv put_file_intact by (simp add: raw_inv_def w')
    fix x assume "x \<in> set (ev_raw (rs_ev w'))"
    with row(3) consider "x = ?r" | "x \<in> set (ev_raw (rs_ev w))" by (auto simp: w')
    then have "rw_relative_path x = raw_path (rw_raw_sha256 x) \<and> map_of ?fs (rw_relative_path x) \<noteq> None"
    proof cases
      case 1
      then show ?thesis using put_file_there [of sha data "rs_files w"] by (simp only: r) simp
    next
      case 2
      with inv obtain f where "rw_relative_path x = raw_path (rw_raw_sha256 x)" "map_of (rs_files w) (rw_relative_path x) = Some f"
        unfolding raw_inv_def by blast
      then show ?thesis using put_file_keeps [of "rs_files w" "rw_relative_path x" f sha data] by simp
    qed
    then have at: "rw_relative_path x = raw_path (rw_raw_sha256 x)" and there: "map_of ?fs (rw_relative_path x) \<noteq> None" by blast+
    show "rw_relative_path x = raw_path (rw_raw_sha256 x)" by (rule at)
    show "map_of (rs_files w') (rw_relative_path x) \<noteq> None" using there unfolding w' by simp
  qed
  moreover have "raw_grows w w'"
    using row(1) put_file_keeps [of "rs_files w"] by (simp add: raw_grows_def w')
  moreover have "length (sha data) = 64 \<Longrightarrow> find_raw (sha data) ev \<noteq> None"
    using row(2) inv by (auto simp: r raw_inv_def raw_path_inj)
  ultimately show ?thesis using put_file_there [of sha data "rs_files w"]
    by (auto simp: x w' put_file_def Let_def)
qed

section \<open>Histories\<close>

text \<open>
  Calls of \<^verbatim>\<open>put_raw\<close>, calls that stop between the file and the row, and anything that leaves blobs alone. Damage
  to files is no step here: it is what the repair report is for.
\<close>

inductive raw_step :: "(string \<Rightarrow> string) \<Rightarrow> raw_world \<Rightarrow> raw_world \<Rightarrow> bool" for sha where
  put: "raw_step sha w (snd (put_raw ser sha on_disk clk data mt md w))"
| interrupted: "raw_step sha w (w\<lparr>rs_files := put_file sha data (rs_files w)\<rparr>)"
| other: "rs_files w' = rs_files w \<Longrightarrow> ev_raw (rs_ev w') = ev_raw (rs_ev w) \<Longrightarrow> raw_step sha w w'"

definition raw_empty :: "raw_world \<Rightarrow> bool" where
  "raw_empty w \<longleftrightarrow> rs_files w = [] \<and> ev_raw (rs_ev w) = []"

lemma raw_step_inv: "raw_step sha w w' \<Longrightarrow> raw_inv sha w \<Longrightarrow> raw_inv sha w' \<and> raw_grows w w'"
proof (induction rule: raw_step.induct)
  case (put w ser on_disk clk data mt md)
  with put_raw_step [of sha w ser on_disk clk data mt md] show ?case by (metis prod.collapse)
next
  case (interrupted w data)
  then show ?case
    using put_file_keeps [of "rs_files w"] put_file_intact [of sha "rs_files w" data]
    by (force simp: raw_inv_def raw_grows_def)
next
  case (other w' w)
  then show ?case by (auto simp: raw_inv_def raw_grows_def find_raw_def)
qed

interpretation raw_store: transition_system raw_empty "raw_step sha" "raw_inv sha" for sha
proof
  show "raw_inv sha w" if "raw_empty w" for w
    using that by (simp add: raw_empty_def raw_inv_def intact_def)
  show "raw_inv sha w'" if "raw_inv sha w" "raw_step sha w w'" for w w'
    using raw_step_inv that by blast
qed

lemma raw_steps_grow: "(raw_step sha)\<^sup>*\<^sup>* w w' \<Longrightarrow> raw_inv sha w \<Longrightarrow> raw_grows w w'"
proof (induction rule: rtranclp_induct)
  case base
  then show ?case by (simp add: raw_grows_def)
next
  case (step w1 w2)
  from raw_store.run_inv [OF step.hyps(1) step.prems] step raw_step_inv raw_grows_trans show ?case by blast
qed

lemma read_registered:
  assumes "raw_inv sha w" and "find_raw d (rs_ev w) \<noteq> None"
  obtains b where "read_raw sha d w = Inr b" "sha b = d" "map_of (rs_files w) (raw_path d) = Some (Gzip b)"
proof -
  from assms(2) obtain r where r: "find_raw d (rs_ev w) = Some r" by blast
  then have "r \<in> set (ev_raw (rs_ev w))" "rw_raw_sha256 r = d" by (auto simp: find_raw_def find_Some_iff)
  with assms(1) obtain f where "rw_relative_path r = raw_path d" "map_of (rs_files w) (raw_path d) = Some f"
    by (auto simp: raw_inv_def)
  moreover from this assms(1) obtain b where "f = Gzip b" "sha b = d" by (auto simp: raw_inv_def intact_def)
  ultimately show ?thesis using r by (intro that [of b]) (simp_all add: read_raw_def)
qed

text \<open>
  C25. Bytes accepted by \<^verbatim>\<open>put_raw\<close> are registered under their digest, and whatever is put or interrupted later,
  \<^verbatim>\<open>read_raw\<close> of that digest returns bytes with exactly that digest, without an error; they are the very bytes when
  no file of that digest was there before.
\<close>

theorem raw_bytes_survive:
  assumes "raw_empty w0" and "(raw_step sha)\<^sup>*\<^sup>* w0 w" and "put_raw ser sha on_disk clk data mt md w = (Inr d, w1)"
    and "(raw_step sha)\<^sup>*\<^sup>* w1 w2" and "length (sha data) = 64"
  shows "d = sha data \<and> (\<exists>b. read_raw sha d w2 = Inr b \<and> sha b = sha data
     \<and> (map_of (rs_files w) (raw_path d) = None \<longrightarrow> b = data))"
proof -
  from raw_store.reachable_inv [OF assms(1,2)] have "raw_inv sha w" .
  note put = put_raw_step [OF this assms(3), of d]
  then have one: "raw_inv sha w1" "d = sha data" by blast+
  with put assms(5) have two: "find_raw d (rs_ev w1) \<noteq> None"
    "map_of (rs_files w) (raw_path d) = None \<longrightarrow> map_of (rs_files w1) (raw_path d) = Some (Gzip data)" by blast+
  from raw_steps_grow [OF assms(4) one(1)] have "raw_grows w1 w2" .
  with two have "find_raw d (rs_ev w2) \<noteq> None"
    and kept: "map_of (rs_files w) (raw_path d) = None \<longrightarrow> map_of (rs_files w2) (raw_path d) = Some (Gzip data)"
    by (auto simp: raw_grows_def)
  from read_registered [OF raw_store.run_inv [OF assms(4) one(1)] this(1)] kept one(2) show ?thesis by force
qed

definition demo_raw_sha :: "string \<Rightarrow> string" where
  "demo_raw_sha b = take 64 (b @ replicate 64 (CHR ''0''))"

definition demo_raw :: raw_world where
  "demo_raw = \<lparr>rs_ev = empty_evidence empty_db, rs_files = []\<rparr>"

definition demo_put :: "string \<Rightarrow> raw_world \<Rightarrow> (exn + string) \<times> raw_world" where
  "demo_put b = put_raw (\<lambda>_. ''{}'') demo_raw_sha (\<lambda>_. 40) 1 b ''application/json'' (JObj [])"

theorem raw_bytes_survive_witness:
  "read_raw demo_raw_sha (demo_raw_sha ''page'') (snd (demo_put ''other'' (snd (demo_put ''page'' demo_raw)))) = Inr ''page''"
proof -
  let ?w1 = "snd (demo_put ''page'' demo_raw)"
  have s: "(raw_step demo_raw_sha)\<^sup>*\<^sup>* demo_raw demo_raw" "(raw_step demo_raw_sha)\<^sup>*\<^sup>* ?w1 (snd (demo_put ''other'' ?w1))"
    unfolding demo_put_def by (blast intro: raw_step.put)+
  have "fst (demo_put ''page'' demo_raw) = Inr (demo_raw_sha ''page'')" by code_simp
  then have put: "put_raw (\<lambda>_. ''{}'') demo_raw_sha (\<lambda>_. 40) 1 ''page'' ''application/json'' (JObj []) demo_raw
      = (Inr (demo_raw_sha ''page''), ?w1)" unfolding demo_put_def by (metis prod.collapse)
  have "raw_empty demo_raw" "length (demo_raw_sha ''page'') = 64" "map_of (rs_files demo_raw) (raw_path (demo_raw_sha ''page'')) = None"
    by code_simp+
  with raw_bytes_survive [OF _ s(1) put s(2)] show ?thesis by auto
qed

end
