(* ===== verification/Xir_Backfill.thy ===== *)
theory Xir_Backfill
  imports Xir_Raw Xir_Scheduler
begin

text \<open>
  \<^verbatim>\<open>collect/backfill.py\<close>: collection of chain events within an approved search scope. A versioned checkpoint fixes
  chain, addresses, topics and block bounds; a scan asks the read-only provider by known hash, by exact identifier
  and by a paged filter, keeps every page as raw bytes, and advances the checkpoint or marks it as backlogged. The
  provider is a parameter whose answers may depend on the number of the call.
\<close>

section \<open>Pages, providers and programs\<close>

record chain_event =
  ce_block_number :: int
  ce_block_hash :: string
  ce_transaction_hash :: string
  ce_log_index :: int
  ce_contract_address :: string
  ce_topic0 :: "string option"
  ce_exact_identifier_kind :: "string option"
  ce_exact_identifier :: "string option"

record event_page =
  pg_events :: "chain_event list"
  pg_next_page_token :: "string option"
  pg_complete :: bool
  pg_raw_bytes :: string
  pg_provider_id :: string

record exact_identifier =
  xi_kind :: string
  xi_value :: string

record scan_result =
  sn_checkpoint_id :: string
  sn_checkpoint_version :: int
  sn_provider_calls :: nat
  sn_unique_events :: nat
  sn_duplicate_events :: nat
  sn_advanced :: bool
  sn_backlog_reason :: "string option"

record backfill_provider =
  bp_by_hash :: "nat \<Rightarrow> string \<Rightarrow> exn + event_page"
  bp_by_identifier :: "nat \<Rightarrow> exact_identifier \<Rightarrow> exn + event_page"
  bp_by_filter :: "nat \<Rightarrow> int \<Rightarrow> string list \<Rightarrow> string list \<Rightarrow> int \<Rightarrow> int \<Rightarrow> string option \<Rightarrow> exn + event_page"

record backfill_tools =
  bl_digest :: "json \<Rightarrow> string"
  bl_serialize :: "json \<Rightarrow> string"
  bl_sha256 :: "string \<Rightarrow> string"
  bl_on_disk :: "raw_file \<Rightarrow> int"

record backfill_world =
  bw_raw :: raw_world
  bw_calls :: nat

type_synonym 'a bf = "(backfill_world, 'a) action"

definition bw_ev :: "backfill_world \<Rightarrow> evidence" where
  "bw_ev w = rs_ev (bw_raw w)"

definition bf_read :: "(evidence \<Rightarrow> exn + 'a) \<Rightarrow> 'a bf" where
  "bf_read f w = (f (bw_ev w), w)"

definition bf_write :: "'a ev_txn \<Rightarrow> 'a bf" where
  "bf_write body w = (case store_write body (bw_ev w) of (r, ev) \<Rightarrow> (r, w\<lparr>bw_raw := (bw_raw w)\<lparr>rs_ev := ev\<rparr>\<rparr>))"

definition bf_put :: "backfill_tools \<Rightarrow> int \<Rightarrow> string \<Rightarrow> json \<Rightarrow> string bf" where
  "bf_put tk clk data metadata w =
     (case put_raw (bl_serialize tk) (bl_sha256 tk) (bl_on_disk tk) clk data ''application/json'' metadata (bw_raw w) of
        (r, raw) \<Rightarrow> (r, w\<lparr>bw_raw := raw\<rparr>))"

definition bf_ask :: "(nat \<Rightarrow> exn + event_page) \<Rightarrow> event_page bf" where
  "bf_ask f w = (f (bw_calls w), w\<lparr>bw_calls := Suc (bw_calls w)\<rparr>)"

definition collector :: "int \<Rightarrow> exn + nat" where
  "collector max_pages = (if max_pages < 1 then Inl (BackfillError BE_max_pages) else Inr (nat max_pages))"

section \<open>Checkpoints\<close>

definition find_checkpoint :: "string \<Rightarrow> evidence \<Rightarrow> checkpoint_row option" where
  "find_checkpoint i ev = find (\<lambda>c. ck_checkpoint_id c = i) (ev_checkpoints ev)"

definition checkpoint_of :: "string \<Rightarrow> evidence \<Rightarrow> exn + checkpoint_row" where
  "checkpoint_of i ev = require (find_checkpoint i ev) (BackfillError BE_unknown_checkpoint)"

definition latest_version :: "string \<Rightarrow> evidence \<Rightarrow> int option" where
  "latest_version collector_key ev =
     (case map ck_version (filter (\<lambda>c. ck_collector_key c = collector_key) (ev_checkpoints ev)) of
        [] \<Rightarrow> None | v # vs \<Rightarrow> Some (fold max vs v))"

definition checkpoint_checks :: "checkpoint_row \<Rightarrow> exn + unit" where
  "checkpoint_checks c =
     bindE (ensure (\<not> (ck_collector_key c = [] \<or> ck_chain_id c \<le> 0)) (BackfillError BE_key_and_chain)) (\<lambda>_.
     bindE (ensure (\<not> (ck_contract_addresses c = [] \<or> ck_topics c = [])) (BackfillError BE_empty_filter)) (\<lambda>_.
     bindE (ensure (\<not> (ck_approved_from_block c < 0 \<or> ck_approved_to_block c < ck_approved_from_block c))
              (BackfillError BE_block_bounds)) (\<lambda>_.
     bindE (ensure (ck_approved_from_block c \<le> ck_last_finalized_block_number c
                    \<and> ck_last_finalized_block_number c \<le> ck_approved_to_block c) (BackfillError BE_outside_bounds)) (\<lambda>_.
     ensure (\<not> (ck_overlap_blocks c < 1 \<or> ck_parser_version c = [] \<or> ck_provider_id c = []))
       (BackfillError BE_missing_fields)))))"

text \<open>The row to insert, with normalized addresses, topics and hash and the next version of its key.\<close>

definition next_checkpoint :: "backfill_tools \<Rightarrow> int \<Rightarrow> checkpoint_row \<Rightarrow> evidence \<Rightarrow> checkpoint_row" where
  "next_checkpoint tk clk c ev =
     (let version = (case latest_version (ck_collector_key c) ev of None \<Rightarrow> 1 | Some v \<Rightarrow> v + 1) in
      c\<lparr>ck_checkpoint_id := stable_id (bl_digest tk) ''observation''
          [JStr ''collector-checkpoint'', JStr (ck_collector_key c), JInt version],
        ck_version := version, ck_contract_addresses := text_sort (remdups (map lower (ck_contract_addresses c))),
        ck_topics := map lower (ck_topics c), ck_last_finalized_block_hash := lower (ck_last_finalized_block_hash c),
        ck_state := CK_ready, ck_backlog_reason := None, ck_created_at := clk\<rparr>)"

definition create_checkpoint_txn :: "backfill_tools \<Rightarrow> int \<Rightarrow> checkpoint_row \<Rightarrow> string ev_txn" where
  "create_checkpoint_txn tk clk c ev =
     (let row = next_checkpoint tk clk c ev in
      bindE (ensure (int64 (ck_version row) \<and> int64 (ck_chain_id row) \<and> int64 (ck_approved_from_block row)
                     \<and> int64 (ck_approved_to_block row) \<and> int64 (ck_last_finalized_block_number row)
                     \<and> int64 (ck_overlap_blocks row)) OverflowError) (\<lambda>_.
      bindE (ensure (find_checkpoint (ck_checkpoint_id row) ev = None) IntegrityError) (\<lambda>_.
      Inr (ck_checkpoint_id row, ev\<lparr>ev_checkpoints := ev_checkpoints ev @ [row]\<rparr>))))"

definition create_checkpoint :: "backfill_tools \<Rightarrow> int \<Rightarrow> checkpoint_row \<Rightarrow> checkpoint_row bf" where
  "create_checkpoint tk clk c =
     act_bind (act_lift (checkpoint_checks c)) (\<lambda>_.
     act_bind (bf_write (create_checkpoint_txn tk clk c)) (\<lambda>i. bf_read (checkpoint_of i)))"

section \<open>One page\<close>

definition validate_event :: "checkpoint_row \<Rightarrow> int option \<Rightarrow> int option \<Rightarrow> chain_event \<Rightarrow> exn + unit" where
  "validate_event c from_block to_block e =
     bindE (ensure (\<not> ce_block_number e < ck_approved_from_block c) (BackfillError BE_below_approved)) (\<lambda>_.
     bindE (ensure (\<not> ce_block_number e > ck_approved_to_block c) (BackfillError BE_above_approved)) (\<lambda>_.
     bindE (ensure (case from_block of None \<Rightarrow> True | Some b \<Rightarrow> \<not> ce_block_number e < b) (BackfillError BE_below_requested)) (\<lambda>_.
     bindE (ensure (case to_block of None \<Rightarrow> True | Some b \<Rightarrow> \<not> ce_block_number e > b) (BackfillError BE_above_requested)) (\<lambda>_.
     bindE (ensure (lower (ce_contract_address e) \<in> set (ck_contract_addresses c)) (BackfillError BE_address)) (\<lambda>_.
     bindE (ensure (case ce_topic0 e of None \<Rightarrow> True | Some t \<Rightarrow> lower t \<in> set (ck_topics c)) (BackfillError BE_topic)) (\<lambda>_.
     ensure (\<not> ce_log_index e < 0) (BackfillError BE_log_index)))))))"

text \<open>\<^verbatim>\<open>query_value.split(":", maxsplit=1)\<close>.\<close>

definition split_colon :: "string \<Rightarrow> string \<times> string" where
  "split_colon s = (takeWhile (\<lambda>c. c \<noteq> CHR '':'') s, drop 1 (dropWhile (\<lambda>c. c \<noteq> CHR '':'') s))"

definition linked_event :: "backfill_strategy \<Rightarrow> string option \<Rightarrow> chain_event \<Rightarrow> exn + unit" where
  "linked_event strategy query e =
     (case strategy of
        BS_known_hash \<Rightarrow> ensure (Some (lower (ce_transaction_hash e)) = query) (BackfillError BE_hash_not_linked)
      | BS_exact_identifier \<Rightarrow>
          bindE (require query AssertionError) (\<lambda>q.
          ensure (ce_exact_identifier_kind e = Some (fst (split_colon q))
                  \<and> map_option lower (ce_exact_identifier e) = Some (snd (split_colon q)))
            (BackfillError BE_identifier_not_linked))
      | BS_bounded_filter \<Rightarrow> Inr ())"

definition check_event ::
  "checkpoint_row \<Rightarrow> backfill_strategy \<Rightarrow> string option \<Rightarrow> int option \<Rightarrow> int option \<Rightarrow> chain_event \<Rightarrow> exn + unit" where
  "check_event c strategy query from_block to_block e =
     bindE (validate_event c from_block to_block e) (\<lambda>_. linked_event strategy query e)"

definition strategy_text :: "backfill_strategy \<Rightarrow> string" where
  "strategy_text s = (case s of BS_known_hash \<Rightarrow> ''known_transaction_hash'' | BS_exact_identifier \<Rightarrow> ''exact_identifier''
                      | BS_bounded_filter \<Rightarrow> ''bounded_filter'')"

definition event_row :: "backfill_tools \<Rightarrow> int \<Rightarrow> string \<Rightarrow> nat \<Rightarrow> chain_event \<Rightarrow> chain_event_row" where
  "event_row tk chain_id raw_sha256 call_sequence e =
     \<lparr>ch_collector_event_id = stable_id (bl_digest tk) ''observation''
        [JStr ''collector-event'', JInt chain_id, JStr (lower (ce_block_hash e)), JStr (lower (ce_transaction_hash e)),
         JInt (ce_log_index e)],
      ch_chain_id = chain_id, ch_block_number = ce_block_number e, ch_block_hash = lower (ce_block_hash e),
      ch_transaction_hash = lower (ce_transaction_hash e), ch_log_index = ce_log_index e,
      ch_contract_address = lower (ce_contract_address e), ch_topic0 = map_option lower (ce_topic0 e),
      ch_exact_identifier_kind = ce_exact_identifier_kind e, ch_exact_identifier = ce_exact_identifier e,
      ch_raw_sha256 = raw_sha256, ch_first_call_sequence = call_sequence\<rparr>"

definition event_key :: "chain_event_row \<Rightarrow> int \<times> string \<times> string \<times> int" where
  "event_key r = (ch_chain_id r, ch_block_hash r, ch_transaction_hash r, ch_log_index r)"

text \<open>One \<^verbatim>\<open>INSERT OR IGNORE\<close>; the count is that of the inserted rows.\<close>

definition insert_event :: "chain_event_row \<Rightarrow> nat \<times> evidence \<Rightarrow> exn + nat \<times> evidence" where
  "insert_event r = (\<lambda>(inserted, ev).
     bindE (ensure (int64 (ch_chain_id r) \<and> int64 (ch_block_number r) \<and> int64 (ch_log_index r)) OverflowError) (\<lambda>_.
     if ch_block_number r < 0 \<or> ch_log_index r < 0
        \<or> list_ex (\<lambda>x. ch_collector_event_id x = ch_collector_event_id r \<or> event_key x = event_key r) (ev_chain_events ev)
     then Inr (inserted, ev)
     else bindE (ensure (find_raw (ch_raw_sha256 r) ev \<noteq> None) IntegrityError) (\<lambda>_.
          Inr (Suc inserted, ev\<lparr>ev_chain_events := ev_chain_events ev @ [r]\<rparr>))))"

definition call_row ::
  "int \<Rightarrow> checkpoint_row \<Rightarrow> backfill_strategy \<Rightarrow> string option \<Rightarrow> int option \<Rightarrow> int option \<Rightarrow> string option \<Rightarrow> event_page
     \<Rightarrow> string \<Rightarrow> nat \<Rightarrow> collector_call_row" where
  "call_row clk c strategy query from_block to_block token page raw_sha256 call_sequence =
     \<lparr>cl_call_sequence = call_sequence, cl_checkpoint_id = ck_checkpoint_id c, cl_strategy = strategy, cl_query_value = query,
      cl_from_block = from_block, cl_to_block = to_block, cl_page_token = token, cl_result_count = length (pg_events page),
      cl_complete = pg_complete page, cl_raw_sha256 = raw_sha256, cl_observed_at = clk\<rparr>"

text \<open>The sequence of a call is an autoincrement key of a table nothing is deleted from.\<close>

definition record_call_txn ::
  "backfill_tools \<Rightarrow> checkpoint_row \<Rightarrow> (nat \<Rightarrow> collector_call_row) \<Rightarrow> chain_event list \<Rightarrow> string \<Rightarrow> nat ev_txn" where
  "record_call_txn tk c call events raw_sha256 ev =
     (let n = Suc (length (ev_calls ev)) in
      bindE (ensure ((case cl_from_block (call n) of None \<Rightarrow> True | Some b \<Rightarrow> int64 b)
                     \<and> (case cl_to_block (call n) of None \<Rightarrow> True | Some b \<Rightarrow> int64 b)) OverflowError) (\<lambda>_.
      bindE (ensure (find_checkpoint (ck_checkpoint_id c) ev \<noteq> None \<and> find_raw raw_sha256 ev \<noteq> None) IntegrityError) (\<lambda>_.
      foldE (\<lambda>e. insert_event (event_row tk (ck_chain_id c) raw_sha256 n e)) events
        (0, ev\<lparr>ev_calls := ev_calls ev @ [call n]\<rparr>))))"

definition record_page ::
  "backfill_tools \<Rightarrow> int \<Rightarrow> checkpoint_row \<Rightarrow> backfill_strategy \<Rightarrow> string option \<Rightarrow> int option \<Rightarrow> int option \<Rightarrow> string option
     \<Rightarrow> event_page \<Rightarrow> (nat \<times> nat) bf" where
  "record_page tk clk c strategy query from_block to_block token page =
     act_bind (act_lift (ensure (pg_provider_id page = ck_provider_id c) (BackfillError BE_provider_changed))) (\<lambda>_.
     act_bind (act_lift (foldE (\<lambda>e _. check_event c strategy query from_block to_block e) (pg_events page) ())) (\<lambda>_.
     act_bind (bf_put tk clk (pg_raw_bytes page)
                 (JObj [(''source'', JStr ''public_read_rpc''), (''provider_id'', JStr (pg_provider_id page)),
                        (''kind'', JStr ''collector_log_page''), (''strategy'', JStr (strategy_text strategy))])) (\<lambda>raw_sha256.
     act_bind (bf_write (record_call_txn tk c (call_row clk c strategy query from_block to_block token page raw_sha256)
                           (pg_events page) raw_sha256)) (\<lambda>inserted.
     act_return (inserted, length (pg_events page) - inserted)))))"

section \<open>Scanning\<close>

text \<open>Calls, new events, duplicates and the reason of a backlog, as the loops accumulate them.\<close>

type_synonym scan_tally = "nat \<times> nat \<times> nat \<times> string option"

definition tally :: "scan_tally \<Rightarrow> nat \<times> nat \<Rightarrow> string option \<Rightarrow> scan_tally" where
  "tally acc counts reason =
     (case acc of (calls, unique, duplicate, _) \<Rightarrow> (Suc calls, unique + fst counts, duplicate + snd counts, reason))"

definition page_open :: "event_page \<Rightarrow> bool" where
  "page_open page \<longleftrightarrow> \<not> pg_complete page \<or> pg_next_page_token page \<noteq> None"

fun scan_hashes :: "backfill_tools \<Rightarrow> backfill_provider \<Rightarrow> int \<Rightarrow> checkpoint_row \<Rightarrow> string list \<Rightarrow> scan_tally \<Rightarrow> scan_tally bf" where
  "scan_hashes tk pv clk c [] acc = act_return acc"
| "scan_hashes tk pv clk c (x # xs) acc =
     act_bind (bf_ask (\<lambda>n. bp_by_hash pv n x)) (\<lambda>page.
     act_bind (record_page tk clk c BS_known_hash (Some (lower x)) None None None page) (\<lambda>counts.
     if page_open page then act_return (tally acc counts (Some ''known_hash_query_incomplete''))
     else scan_hashes tk pv clk c xs (tally acc counts None)))"

fun scan_identifiers ::
  "backfill_tools \<Rightarrow> backfill_provider \<Rightarrow> int \<Rightarrow> checkpoint_row \<Rightarrow> exact_identifier list \<Rightarrow> scan_tally \<Rightarrow> scan_tally bf" where
  "scan_identifiers tk pv clk c [] acc = act_return acc"
| "scan_identifiers tk pv clk c (x # xs) acc =
     act_bind (bf_ask (\<lambda>n. bp_by_identifier pv n x)) (\<lambda>page.
     act_bind (record_page tk clk c BS_exact_identifier (Some (xi_kind x @ '':'' @ lower (xi_value x))) None None None page) (\<lambda>counts.
     if page_open page then act_return (tally acc counts (Some ''exact_identifier_query_incomplete''))
     else scan_identifiers tk pv clk c xs (tally acc counts None)))"

definition scan_from :: "checkpoint_row \<Rightarrow> int" where
  "scan_from c = max (ck_approved_from_block c) (ck_last_finalized_block_number c - ck_overlap_blocks c + 1)"

text \<open>The paged filter: at most as many pages as the first argument says.\<close>

fun scan_pages ::
  "backfill_tools \<Rightarrow> backfill_provider \<Rightarrow> int \<Rightarrow> checkpoint_row \<Rightarrow> int \<Rightarrow> nat \<Rightarrow> string option \<Rightarrow> string list \<Rightarrow> scan_tally
     \<Rightarrow> scan_tally bf" where
  "scan_pages tk pv clk c target 0 token seen (calls, unique, duplicate, _) =
     act_return (calls, unique, duplicate, Some ''pagination_limit_exceeded'')"
| "scan_pages tk pv clk c target (Suc pages) token seen acc =
     act_bind (bf_ask (\<lambda>n. bp_by_filter pv n (ck_chain_id c) (ck_contract_addresses c) (ck_topics c) (scan_from c) target token)) (\<lambda>page.
     act_bind (record_page tk clk c BS_bounded_filter None (Some (scan_from c)) (Some target) token page) (\<lambda>counts.
     if \<not> pg_complete page then act_return (tally acc counts (Some ''bounded_filter_query_incomplete''))
     else (case pg_next_page_token page of
             None \<Rightarrow> act_return (tally acc counts None)
           | Some t \<Rightarrow>
               if t \<in> set seen then act_return (tally acc counts (Some ''pagination_token_repeated''))
               else scan_pages tk pv clk c target pages (Some t) (t # seen) (tally acc counts None))))"

definition backlog_txn :: "string \<Rightarrow> string \<Rightarrow> unit ev_txn" where
  "backlog_txn checkpoint_id reason ev =
     Inr ((), ev\<lparr>ev_checkpoints := update_where (\<lambda>c. ck_checkpoint_id c = checkpoint_id)
       (\<lambda>c. c\<lparr>ck_state := CK_backlogged, ck_backlog_reason := Some reason\<rparr>) (ev_checkpoints ev)\<rparr>)"

definition scan_checks :: "checkpoint_row \<Rightarrow> int \<Rightarrow> evidence \<Rightarrow> exn + unit" where
  "scan_checks c target ev =
     bindE (ensure (latest_version (ck_collector_key c) ev = Some (ck_version c)) (BackfillError BE_stale_version)) (\<lambda>_.
     bindE (ensure (ck_state c = CK_ready) (BackfillError BE_backlogged)) (\<lambda>_.
     ensure (ck_last_finalized_block_number c \<le> target \<and> target \<le> ck_approved_to_block c) (BackfillError BE_target_bounds)))"

text \<open>A loop of the scan runs only while there is no backlog.\<close>

definition unless_backlog :: "scan_tally \<Rightarrow> scan_tally bf \<Rightarrow> scan_tally bf" where
  "unless_backlog acc m = (case acc of (_, _, _, None) \<Rightarrow> m | _ \<Rightarrow> act_return acc)"

definition scan_result_of :: "checkpoint_row \<Rightarrow> scan_tally \<Rightarrow> bool \<Rightarrow> scan_result" where
  "scan_result_of c acc advanced =
     (case acc of (calls, unique, duplicate, reason) \<Rightarrow>
        \<lparr>sn_checkpoint_id = ck_checkpoint_id c, sn_checkpoint_version = ck_version c, sn_provider_calls = calls,
         sn_unique_events = unique, sn_duplicate_events = duplicate, sn_advanced = advanced, sn_backlog_reason = reason\<rparr>)"

definition scan ::
  "backfill_tools \<Rightarrow> backfill_provider \<Rightarrow> nat \<Rightarrow> int \<Rightarrow> string \<Rightarrow> string list \<Rightarrow> exact_identifier list \<Rightarrow> int \<Rightarrow> string
     \<Rightarrow> scan_result bf" where
  "scan tk pv max_pages clk checkpoint_id hashes identifiers target target_hash =
     act_bind (bf_read (checkpoint_of checkpoint_id)) (\<lambda>c.
     act_bind (bf_read (scan_checks c target)) (\<lambda>_.
     act_bind (scan_hashes tk pv clk c hashes (0, 0, 0, None)) (\<lambda>acc1.
     act_bind (unless_backlog acc1 (scan_identifiers tk pv clk c identifiers acc1)) (\<lambda>acc2.
     act_bind (unless_backlog acc2 (scan_pages tk pv clk c target max_pages None [] acc2)) (\<lambda>acc3.
     case snd (snd (snd acc3)) of
       Some reason \<Rightarrow>
         act_bind (bf_write (backlog_txn checkpoint_id reason)) (\<lambda>_. act_return (scan_result_of c acc3 False))
     | None \<Rightarrow>
         act_bind (create_checkpoint tk clk (c\<lparr>ck_last_finalized_block_number := target,
                                                ck_last_finalized_block_hash := target_hash\<rparr>)) (\<lambda>advanced.
         act_return (scan_result_of advanced acc3 True)))))))"

section \<open>Auxiliary carrier status\<close>

definition auxiliary_txn :: "auxiliary_row \<Rightarrow> unit ev_txn" where
  "auxiliary_txn r ev =
     bindE (ensure (list_ex (\<lambda>m. cm_attempt_id m = ax_attempt_id r \<and> cm_protocol m = ax_protocol r
                        \<and> lower (cm_protocol_identifier m) = ax_protocol_identifier r) (t_carrier_messages (ev_db ev)))
              (BackfillError BE_not_linked_to_message)) (\<lambda>_.
     if ax_protocol r \<notin> {''hyperlane'', ''layerzero-v2''}
        \<or> list_ex (\<lambda>x. ax_auxiliary_observation_id x = ax_auxiliary_observation_id r) (ev_auxiliary ev) then Inr ((), ev)
     else bindE (ensure (find_attempt (ax_attempt_id r) (ev_db ev) \<noteq> None \<and> find_raw (ax_raw_sha256 r) ev \<noteq> None) IntegrityError) (\<lambda>_.
          Inr ((), ev\<lparr>ev_auxiliary := ev_auxiliary ev @ [r]\<rparr>)))"

definition record_auxiliary_carrier_status ::
  "backfill_tools \<Rightarrow> int \<Rightarrow> string \<Rightarrow> string \<Rightarrow> string \<Rightarrow> string \<Rightarrow> string \<Rightarrow> string \<Rightarrow> string bf" where
  "record_auxiliary_carrier_status tk clk attempt_id protocol identifier status provider_id raw_bytes =
     act_bind (bf_put tk clk raw_bytes
                 (JObj [(''source'', JStr ''auxiliary_carrier_status_api''), (''provider_id'', JStr provider_id),
                        (''protocol'', JStr protocol)])) (\<lambda>raw_sha256.
     let i = stable_id (bl_digest tk) ''observation'' [JStr ''auxiliary-carrier-status'', JStr attempt_id, JStr protocol,
               JStr (lower identifier), JStr raw_sha256]
     in act_bind (bf_write (auxiliary_txn
          \<lparr>ax_auxiliary_observation_id = i, ax_attempt_id = attempt_id, ax_protocol = protocol,
           ax_protocol_identifier = lower identifier, ax_reported_status = status, ax_provider_id = provider_id,
           ax_raw_sha256 = raw_sha256, ax_observed_at = clk\<rparr>)) (\<lambda>_. act_return i))"

end
