(* ===== verification/Xir_Backfill_Properties.thy ===== *)
theory Xir_Backfill_Properties
  imports Xir_Backfill Xir_Action_Rules
begin

text \<open>
  Whatever the provider answers, what is collected lies within the scope that was approved and can be traced to
  the call and the page it came from; a scan asks a bounded number of questions and advances without a gap.
\<close>

section \<open>Scope\<close>

definition checkpoint_ok :: "checkpoint_row \<Rightarrow> bool" where
  "checkpoint_ok c \<longleftrightarrow> 0 \<le> ck_approved_from_block c \<and> ck_approved_from_block c \<le> ck_last_finalized_block_number c
     \<and> ck_last_finalized_block_number c \<le> ck_approved_to_block c \<and> 1 \<le> ck_overlap_blocks c"

definition event_in_scope :: "checkpoint_row \<Rightarrow> collector_call_row \<Rightarrow> chain_event_row \<Rightarrow> bool" where
  "event_in_scope c call r \<longleftrightarrow> ch_chain_id r = ck_chain_id c \<and> ch_raw_sha256 r = cl_raw_sha256 call
     \<and> ck_approved_from_block c \<le> ch_block_number r \<and> ch_block_number r \<le> ck_approved_to_block c
     \<and> ch_contract_address r \<in> set (ck_contract_addresses c) \<and> (\<forall>t. ch_topic0 r = Some t \<longrightarrow> t \<in> set (ck_topics c))
     \<and> (case cl_strategy call of
          BS_bounded_filter \<Rightarrow> (\<exists>a b. cl_from_block call = Some a \<and> cl_to_block call = Some b
             \<and> a \<le> ch_block_number r \<and> ch_block_number r \<le> b)
        | BS_known_hash \<Rightarrow> cl_query_value call = Some (ch_transaction_hash r)
        | BS_exact_identifier \<Rightarrow> (\<exists>q. cl_query_value call = Some q \<and> ch_exact_identifier_kind r = Some (fst (split_colon q))
             \<and> map_option lower (ch_exact_identifier r) = Some (snd (split_colon q))))"

definition traced :: "evidence \<Rightarrow> chain_event_row \<Rightarrow> bool" where
  "traced ev r \<longleftrightarrow> (\<exists>call c. call \<in> set (ev_calls ev) \<and> cl_call_sequence call = ch_first_call_sequence r
     \<and> find_checkpoint (cl_checkpoint_id call) ev = Some c \<and> checkpoint_ok c \<and> event_in_scope c call r
     \<and> find_raw (ch_raw_sha256 r) ev \<noteq> None)"

definition scope_inv :: "evidence \<Rightarrow> bool" where
  "scope_inv ev \<longleftrightarrow> (\<forall>c\<in>set (ev_checkpoints ev). checkpoint_ok c) \<and> (\<forall>r\<in>set (ev_chain_events ev). traced ev r)
     \<and> distinct (map event_key (ev_chain_events ev))
     \<and> map cl_call_sequence (ev_calls ev) = [1..<Suc (length (ev_calls ev))]"

text \<open>Two versions of a checkpoint row with the same scope.\<close>

definition same_scope :: "checkpoint_row \<Rightarrow> checkpoint_row \<Rightarrow> bool" where
  "same_scope c c' \<longleftrightarrow> ck_chain_id c' = ck_chain_id c \<and> ck_approved_from_block c' = ck_approved_from_block c
     \<and> ck_approved_to_block c' = ck_approved_to_block c \<and> ck_contract_addresses c' = ck_contract_addresses c
     \<and> ck_topics c' = ck_topics c"

lemma in_scope_cong: "same_scope c c' \<Longrightarrow> event_in_scope c call r \<Longrightarrow> event_in_scope c' call r"
  by (auto simp: same_scope_def event_in_scope_def)

lemma traced_cong:
  assumes "traced ev r" and "set (ev_calls ev) \<subseteq> set (ev_calls ev')"
    and "\<And>i c. find_checkpoint i ev = Some c \<Longrightarrow> checkpoint_ok c \<Longrightarrow>
      \<exists>c'. find_checkpoint i ev' = Some c' \<and> checkpoint_ok c' \<and> same_scope c c'"
    and "\<And>d. find_raw d ev \<noteq> None \<Longrightarrow> find_raw d ev' \<noteq> None"
  shows "traced ev' r"
  using assms in_scope_cong unfolding traced_def by (metis subset_iff)

lemma same_scope_refl [simp]: "same_scope c c"
  by (simp add: same_scope_def)

lemma scope_inv_cong:
  assumes "scope_inv ev" and "ev_chain_events ev' = ev_chain_events ev" and "ev_calls ev' = ev_calls ev"
    and "ev_checkpoints ev' = ev_checkpoints ev" and "\<And>d. find_raw d ev \<noteq> None \<Longrightarrow> find_raw d ev' \<noteq> None"
  shows "scope_inv ev'"
proof -
  have "traced ev' r" if "traced ev r" for r
    by (rule traced_cong [OF that]) (use assms in \<open>auto simp: find_checkpoint_def\<close>)
  with assms show ?thesis by (simp add: scope_inv_def)
qed

section \<open>Writes\<close>

lemma create_checkpoint_scope:
  assumes inv: "scope_inv ev" and ok: "checkpoint_checks c = Inr u" and run: "create_checkpoint_txn tk clk c ev = Inr (i, ev')"
  shows "scope_inv ev'" "find_checkpoint i ev' = Some (next_checkpoint tk clk c ev)"
    "find_checkpoint j ev = Some x \<Longrightarrow> find_checkpoint j ev' = Some x"
    "ev_checkpoints ev' = ev_checkpoints ev @ [next_checkpoint tk clk c ev]" "ev_calls ev' = ev_calls ev"
proof -
  let ?row = "next_checkpoint tk clk c ev"
  from run have ev': "ev' = ev\<lparr>ev_checkpoints := ev_checkpoints ev @ [?row]\<rparr>" and i: "i = ck_checkpoint_id ?row"
    and fresh: "find_checkpoint i ev = None"
    by (auto simp: create_checkpoint_txn_def Let_def exn_simps)
  show keep: "find_checkpoint j ev = Some x \<Longrightarrow> find_checkpoint j ev' = Some x" for j x
    by (simp add: ev' find_checkpoint_def find_append)
  from fresh show "find_checkpoint i ev' = Some ?row" by (simp add: ev' find_checkpoint_def find_append i)
  from ok have "checkpoint_ok ?row"
    by (auto simp: checkpoint_checks_def exn_simps checkpoint_ok_def next_checkpoint_def Let_def)
  moreover have "traced ev' r" if "traced ev r" for r
    by (rule traced_cong [OF that]) (use keep in \<open>auto simp: ev' find_raw_def\<close>)
  ultimately show "scope_inv ev'" using inv by (auto simp: scope_inv_def ev')
  show "ev_checkpoints ev' = ev_checkpoints ev @ [?row]" "ev_calls ev' = ev_calls ev" by (simp_all add: ev')
qed

lemma backlog_scope:
  assumes inv: "scope_inv ev" and run: "backlog_txn i reason ev = Inr (u, ev')"
  shows "scope_inv ev'"
proof -
  let ?f = "\<lambda>c :: checkpoint_row. if ck_checkpoint_id c = i then c\<lparr>ck_state := CK_backlogged, ck_backlog_reason := Some reason\<rparr> else c"
  from run have ev': "ev' = ev\<lparr>ev_checkpoints := map ?f (ev_checkpoints ev)\<rparr>"
    by (simp add: backlog_txn_def update_where_def)
  have find: "find_checkpoint j ev' = map_option ?f (find_checkpoint j ev)" for j
    using run by (auto simp: backlog_txn_def find_checkpoint_def find_update_where)
  have f: "checkpoint_ok (?f c) = checkpoint_ok c" "same_scope c (?f c)" for c
    by (simp_all add: checkpoint_ok_def same_scope_def)
  have "traced ev' r" if "traced ev r" for r
  proof (rule traced_cong [OF that])
    fix j c assume "find_checkpoint j ev = Some c" "checkpoint_ok c"
    with find [of j] f [of c] show "\<exists>c'. find_checkpoint j ev' = Some c' \<and> checkpoint_ok c' \<and> same_scope c c'"
      by (intro exI [of _ "?f c"]) simp
  qed (simp_all add: ev' find_raw_def)
  moreover have "checkpoint_ok (c\<lparr>ck_state := s, ck_backlog_reason := x\<rparr>) = checkpoint_ok c" for c s x
    by (simp add: checkpoint_ok_def)
  ultimately show ?thesis using inv by (auto simp: scope_inv_def ev')
qed

lemma insert_event_scope:
  assumes "insert_event r (n, ev) = Inr (n', ev')" and "scope_inv ev" and "traced ev r \<or> find_raw (ch_raw_sha256 r) ev = None"
  shows "scope_inv ev' \<and> ev_calls ev' = ev_calls ev \<and> ev_checkpoints ev' = ev_checkpoints ev \<and> ev_raw ev' = ev_raw ev"
proof (cases "ev' = ev")
  case True
  with assms show ?thesis by simp
next
  case False
  with assms(1) have ev': "ev' = ev\<lparr>ev_chain_events := ev_chain_events ev @ [r]\<rparr>" and raw: "find_raw (ch_raw_sha256 r) ev \<noteq> None"
    and key: "event_key r \<notin> event_key ` set (ev_chain_events ev)"
    by (auto simp: insert_event_def exn_simps list_ex_iff split: if_splits)
  have "traced ev' x" if "traced ev x" for x
    by (rule traced_cong [OF that]) (auto simp: ev' find_checkpoint_def find_raw_def)
  with assms(2,3) raw key show ?thesis by (auto simp: scope_inv_def ev')
qed

text \<open>A row made of a checked event is in scope of the call it is recorded under.\<close>

lemma checked_event_in_scope:
  assumes "check_event c strategy query a b e = Inr u"
    and "strategy = BS_bounded_filter \<Longrightarrow> a \<noteq> None \<and> b \<noteq> None"
  shows "event_in_scope c (call_row clk c strategy query a b token page d n) (event_row tk (ck_chain_id c) d n e)"
  using assms by (cases strategy) (auto simp: check_event_def validate_event_def linked_event_def exn_simps event_in_scope_def call_row_def event_row_def
      split: option.splits)

lemma record_call_scope:
  assumes inv: "scope_inv ev" and c: "find_checkpoint (ck_checkpoint_id c) ev = Some c"
    and run: "record_call_txn tk c call events d ev = Inr (k, ev')"
    and call: "\<And>n. cl_call_sequence (call n) = n \<and> cl_checkpoint_id (call n) = ck_checkpoint_id c"
    and scope: "\<And>e n. e \<in> set events \<Longrightarrow> event_in_scope c (call n) (event_row tk (ck_chain_id c) d n e)"
  shows "scope_inv ev' \<and> ev_checkpoints ev' = ev_checkpoints ev
    \<and> ev_calls ev' = ev_calls ev @ [call (Suc (length (ev_calls ev)))]"
proof -
  let ?n = "Suc (length (ev_calls ev))"
  let ?ev = "ev\<lparr>ev_calls := ev_calls ev @ [call ?n]\<rparr>"
  let ?P = "\<lambda>s. scope_inv (snd s) \<and> ev_calls (snd s) = ev_calls ?ev \<and> ev_checkpoints (snd s) = ev_checkpoints ev
     \<and> ev_raw (snd s) = ev_raw ev"
  from run have raw: "find_raw d ev \<noteq> None"
    and fold: "foldE (\<lambda>e. insert_event (event_row tk (ck_chain_id c) d ?n e)) events (0, ?ev) = Inr (k, ev')"
    by (auto simp: record_call_txn_def Let_def exn_simps)
  have "traced ?ev r" if "traced ev r" for r
    by (rule traced_cong [OF that]) (auto simp: find_checkpoint_def find_raw_def)
  with inv call have "scope_inv ?ev" by (auto simp: scope_inv_def)
  then have start: "?P (0, ?ev)" by simp
  have "?P t'" if e: "e \<in> set events" and t: "?P t" and ins: "insert_event (event_row tk (ck_chain_id c) d ?n e) t = Inr t'" for e t t'
  proof -
    obtain k1 ev1 k2 ev2 where s: "t = (k1, ev1)" "t' = (k2, ev2)" by (cases t; cases t')
    from inv c have "checkpoint_ok c" by (auto simp: scope_inv_def find_checkpoint_def find_Some_iff)
    moreover from t s have "find_checkpoint (ck_checkpoint_id c) ev1 = Some c" "find_raw d ev1 \<noteq> None" "call ?n \<in> set (ev_calls ev1)"
      using c raw by (simp_all add: find_checkpoint_def find_raw_def)
    ultimately have "traced ev1 (event_row tk (ck_chain_id c) d ?n e)"
      using scope [OF e, of ?n] call [of ?n] unfolding traced_def
      by (intro exI [of _ "call ?n"] exI [of _ c]) (simp add: event_row_def)
    with insert_event_scope [OF ins [unfolded s]] t s show ?thesis by auto
  qed
  from foldE_invariant [where P = ?P, OF fold start this] show ?thesis by simp
qed

section \<open>Programs\<close>

text \<open>The world is in scope, and the checkpoint the scan works on is stored as it was read.\<close>

definition scanning :: "checkpoint_row list \<Rightarrow> checkpoint_row \<Rightarrow> backfill_world \<Rightarrow> bool" where
  "scanning cs c w \<longleftrightarrow> scope_inv (bw_ev w) \<and> ev_checkpoints (bw_ev w) = cs
     \<and> find_checkpoint (ck_checkpoint_id c) (bw_ev w) = Some c"

definition scoped :: "backfill_world \<Rightarrow> bool" where
  "scoped w \<longleftrightarrow> scope_inv (bw_ev w)"

lemma scanning_scoped: "scanning cs c w \<Longrightarrow> scoped w"
  by (simp add: scanning_def scoped_def)

lemma bf_read_triple: "(\<And>w. P w \<Longrightarrow> I w) \<Longrightarrow> triple I P (bf_read f) (\<lambda>a w. P w \<and> f (bw_ev w) = Inr a)"
  by (auto simp: triple_def bf_read_def split: sum.splits)

lemma bf_ask_triple: "triple scoped (scanning cs c) (bf_ask f) (\<lambda>_. scanning cs c)"
  by (auto simp: triple_def bf_ask_def scanning_def scoped_def bw_ev_def split: sum.splits)

lemma bf_write_triple:
  assumes "\<And>w. P w \<Longrightarrow> scoped w"
    and "\<And>w a ev. P w \<Longrightarrow> body (bw_ev w) = Inr (a, ev) \<Longrightarrow> Q a (w\<lparr>bw_raw := (bw_raw w)\<lparr>rs_ev := ev\<rparr>\<rparr>)"
  shows "triple scoped P (bf_write body) Q"
  unfolding triple_def
proof (intro allI impI)
  fix w assume w: "P w"
  show "case bf_write body w of (Inl e, w') \<Rightarrow> scoped w' | (Inr a, w') \<Rightarrow> Q a w'"
  proof (cases "body (bw_ev w)")
    case (Inl e)
    with w assms(1) show ?thesis by (simp add: bf_write_def store_write_def scoped_def bw_ev_def)
  next
    case (Inr q)
    with w assms(2) show ?thesis by (cases q) (simp add: bf_write_def store_write_def)
  qed
qed

text \<open>Storing bytes only adds files and rows of raw blobs.\<close>

lemma bf_put_effect:
  obtains raw r where "bf_put tk clk data md w = (r, w\<lparr>bw_raw := raw\<rparr>)"
    and "ev_checkpoints (rs_ev raw) = ev_checkpoints (bw_ev w)" "ev_calls (rs_ev raw) = ev_calls (bw_ev w)"
    "ev_chain_events (rs_ev raw) = ev_chain_events (bw_ev w)"
    "\<And>d. find_raw d (bw_ev w) \<noteq> None \<Longrightarrow> find_raw d (rs_ev raw) \<noteq> None"
proof -
  have row: "ev_checkpoints ev = ev_checkpoints (bw_ev w) \<and> ev_calls ev = ev_calls (bw_ev w)
      \<and> ev_chain_events ev = ev_chain_events (bw_ev w) \<and> (\<forall>d. find_raw d (bw_ev w) \<noteq> None \<longrightarrow> find_raw d ev \<noteq> None)"
    if "put_row_txn x (bw_ev w) = Inr (u, ev)" for x u ev
    using that by (auto simp: put_row_txn_def find_raw_def find_append split: if_splits)
  show ?thesis
  proof (cases "bindE (scan_secret ''raw blob'' data) (\<lambda>_. scan_secret ''raw metadata'' (bl_serialize tk md))")
    case (Inl e)
    then have "bf_put tk clk data md w = (Inl e, w\<lparr>bw_raw := bw_raw w\<rparr>)" by (simp add: bf_put_def put_raw_def)
    then show ?thesis by (rule that) (simp_all add: bw_ev_def)
  next
    case (Inr u)
    let ?x = "raw_row_of (bl_sha256 tk) (bl_on_disk tk) clk data ''application/json'' md (put_file (bl_sha256 tk) data (rs_files (bw_raw w)))"
    have "\<exists>ev. put_row_txn ?x (bw_ev w) = Inr ((), ev)" by (auto simp: put_row_txn_def)
    then obtain ev where ev: "put_row_txn ?x (bw_ev w) = Inr ((), ev)" by blast
    with Inr have "bf_put tk clk data md w = (Inr (bl_sha256 tk data),
        w\<lparr>bw_raw := (bw_raw w)\<lparr>rs_files := put_file (bl_sha256 tk) data (rs_files (bw_raw w)), rs_ev := ev\<rparr>\<rparr>)"
      by (simp add: bf_put_def put_raw_def Let_def store_write_def bw_ev_def)
    then show ?thesis by (rule that) (use row [OF ev] in simp_all)
  qed
qed

lemma bf_put_scanning: "triple scoped (\<lambda>w. scanning cs c w \<and> b) (bf_put tk clk data md) (\<lambda>_ w. scanning cs c w \<and> b)"
  "triple scoped scoped (bf_put tk clk data md) (\<lambda>_. scoped)"
proof -
  have inv: "scope_inv (bw_ev (snd (bf_put tk clk data md w)))
      \<and> ev_checkpoints (bw_ev (snd (bf_put tk clk data md w))) = ev_checkpoints (bw_ev w)" if "scope_inv (bw_ev w)" for w
    by (rule bf_put_effect [of tk clk data md w]) (use scope_inv_cong [OF that] in \<open>auto simp: bw_ev_def\<close>)
  then have "scanning cs c (snd (bf_put tk clk data md w))" if "scanning cs c w" for w
    using that by (auto simp: scanning_def find_checkpoint_def)
  with inv show "triple scoped (\<lambda>w. scanning cs c w \<and> b) (bf_put tk clk data md) (\<lambda>_ w. scanning cs c w \<and> b)"
    "triple scoped scoped (bf_put tk clk data md) (\<lambda>_. scoped)"
    unfolding triple_def scoped_def by (auto simp: scanning_def split: prod.splits sum.splits) force+
qed

lemma foldE_unit: "foldE (\<lambda>e _. f e) xs () = Inr u \<Longrightarrow> x \<in> set xs \<Longrightarrow> f x = Inr ()"
  by (induction xs) (auto simp: exn_simps)

text \<open>A page that was recorded left the row of its call.\<close>

definition recorded_call ::
  "int \<Rightarrow> checkpoint_row \<Rightarrow> backfill_strategy \<Rightarrow> string option \<Rightarrow> int option \<Rightarrow> int option \<Rightarrow> string option \<Rightarrow> event_page
     \<Rightarrow> backfill_world \<Rightarrow> bool" where
  "recorded_call clk c strategy query a b token page w \<longleftrightarrow>
     (\<exists>d n. call_row clk c strategy query a b token page d n \<in> set (ev_calls (bw_ev w)))"

lemma record_page_triple:
  assumes "strategy = BS_bounded_filter \<Longrightarrow> a \<noteq> None \<and> b \<noteq> None"
  shows "triple scoped (scanning cs c) (record_page tk clk c strategy query a b token page)
    (\<lambda>_ w. scanning cs c w \<and> recorded_call clk c strategy query a b token page w)"
  unfolding record_page_def
proof (rule triple_bind [OF triple_ensure(1)], erule scanning_scoped, rule triple_bind [OF triple_check], erule scanning_scoped [OF conjunct1],
    rule triple_bind [OF triple_pre [OF bf_put_scanning(1) [where b = "\<exists>v. foldE (\<lambda>e _. check_event c strategy query a b e)
      (pg_events page) () = Inr v"]]], blast, rule triple_bind)
  fix d
  let ?checked = "\<exists>v. foldE (\<lambda>e _. check_event c strategy query a b e) (pg_events page) () = Inr v"
  let ?done = "\<lambda>w. scanning cs c w \<and> recorded_call clk c strategy query a b token page w"
  show "triple scoped (\<lambda>w. scanning cs c w \<and> ?checked)
     (bf_write (record_call_txn tk c (call_row clk c strategy query a b token page d) (pg_events page) d)) (\<lambda>_. ?done)"
  proof (rule bf_write_triple)
    show "scoped w" if "scanning cs c w \<and> ?checked" for w using that scanning_scoped by blast
    fix w n ev assume pre: "scanning cs c w \<and> ?checked"
      and run: "record_call_txn tk c (call_row clk c strategy query a b token page d) (pg_events page) d (bw_ev w) = Inr (n, ev)"
    have "check_event c strategy query a b e = Inr ()" if "e \<in> set (pg_events page)" for e
      using foldE_unit [of "check_event c strategy query a b", OF _ that] pre by blast
    with checked_event_in_scope [OF _ assms] record_call_scope [OF _ _ run] pre
    have "scope_inv ev \<and> ev_checkpoints ev = ev_checkpoints (bw_ev w)
      \<and> ev_calls ev = ev_calls (bw_ev w) @ [call_row clk c strategy query a b token page d (Suc (length (ev_calls (bw_ev w))))]"
      by (auto simp: scanning_def call_row_def)
    with pre show "?done (w\<lparr>bw_raw := (bw_raw w)\<lparr>rs_ev := ev\<rparr>\<rparr>)"
      by (auto simp: scanning_def bw_ev_def find_checkpoint_def recorded_call_def)
  qed
  fix n show "triple scoped ?done (act_return (n, length (pg_events page) - n)) (\<lambda>_. ?done)" by (rule triple_return)
qed

lemma record_page_scanning:
  "(strategy = BS_bounded_filter \<Longrightarrow> a \<noteq> None \<and> b \<noteq> None) \<Longrightarrow>
     triple scoped (scanning cs c) (record_page tk clk c strategy query a b token page) (\<lambda>_. scanning cs c)"
  by (rule triple_post [OF record_page_triple]) auto

lemma scan_hashes_triple: "triple scoped (scanning cs c) (scan_hashes tk pv clk c xs acc) (\<lambda>_. scanning cs c)"
proof (induction xs arbitrary: acc)
  case Nil
  show ?case by (simp add: triple_return)
next
  case (Cons x xs)
  show ?case unfolding scan_hashes.simps
    by (rule triple_bind [OF bf_ask_triple], rule triple_bind [OF record_page_scanning], simp,
        rule triple_if, rule triple_return, assumption, rule Cons.IH)
qed

lemma scan_identifiers_triple: "triple scoped (scanning cs c) (scan_identifiers tk pv clk c xs acc) (\<lambda>_. scanning cs c)"
proof (induction xs arbitrary: acc)
  case Nil
  show ?case by (simp add: triple_return)
next
  case (Cons x xs)
  show ?case unfolding scan_identifiers.simps
    by (rule triple_bind [OF bf_ask_triple], rule triple_bind [OF record_page_scanning], simp,
        rule triple_if, rule triple_return, assumption, rule Cons.IH)
qed

text \<open>The range from the overlap up to the target was answered completely in a recorded call.\<close>

definition scan_covered :: "checkpoint_row \<Rightarrow> int \<Rightarrow> evidence \<Rightarrow> bool" where
  "scan_covered c target ev \<longleftrightarrow> (\<exists>call\<in>set (ev_calls ev). cl_checkpoint_id call = ck_checkpoint_id c
     \<and> cl_strategy call = BS_bounded_filter \<and> cl_from_block call = Some (scan_from c) \<and> cl_to_block call = Some target
     \<and> cl_complete call)"

definition scanned :: "checkpoint_row list \<Rightarrow> checkpoint_row \<Rightarrow> int \<Rightarrow> scan_tally \<Rightarrow> backfill_world \<Rightarrow> bool" where
  "scanned cs c target acc w \<longleftrightarrow> scanning cs c w \<and> (snd (snd (snd acc)) = None \<longrightarrow> scan_covered c target (bw_ev w))"

lemma scan_pages_triple:
  "triple scoped (scanning cs c) (scan_pages tk pv clk c target pages token seen acc) (scanned cs c target)"
proof (induction pages arbitrary: token seen acc)
  case 0
  show ?case by (cases acc) (auto intro!: triple_return simp: scanned_def)
next
  case (Suc pages)
  have tally: "snd (snd (snd (tally acc counts r))) = r" for counts r by (simp add: tally_def split: prod.splits)
  show ?case unfolding scan_pages.simps
  proof (rule triple_bind [OF bf_ask_triple], rule triple_bind [OF record_page_triple], simp)
    fix page counts
    let ?done = "\<lambda>w. scanning cs c w \<and> recorded_call clk c BS_bounded_filter None (Some (scan_from c)) (Some target) token page w"
    have closed: "scanned cs c target (tally acc counts None) w" if "?done w" "pg_complete page" for w
      using that unfolding scanned_def scan_covered_def recorded_call_def tally by (force simp: call_row_def)
    show "triple scoped ?done
      (if \<not> pg_complete page then act_return (tally acc counts (Some ''bounded_filter_query_incomplete''))
       else case pg_next_page_token page of None \<Rightarrow> act_return (tally acc counts None)
         | Some t \<Rightarrow> if t \<in> set seen then act_return (tally acc counts (Some ''pagination_token_repeated''))
             else scan_pages tk pv clk c target pages (Some t) (t # seen) (tally acc counts None)) (scanned cs c target)"
    proof (rule triple_if)
      show "triple scoped ?done (act_return (tally acc counts (Some ''bounded_filter_query_incomplete''))) (scanned cs c target)"
        by (rule triple_return) (simp add: scanned_def tally)
      assume complete: "\<not> \<not> pg_complete page"
      show "triple scoped ?done (case pg_next_page_token page of None \<Rightarrow> act_return (tally acc counts None)
         | Some t \<Rightarrow> if t \<in> set seen then act_return (tally acc counts (Some ''pagination_token_repeated''))
             else scan_pages tk pv clk c target pages (Some t) (t # seen) (tally acc counts None)) (scanned cs c target)"
      proof (cases "pg_next_page_token page")
        case None
        with complete closed show ?thesis by (auto intro: triple_return)
      next
        case (Some t)
        show ?thesis unfolding Some option.case
        proof (rule triple_if)
          show "triple scoped ?done (act_return (tally acc counts (Some ''pagination_token_repeated''))) (scanned cs c target)"
            by (rule triple_return) (simp add: scanned_def tally)
          show "triple scoped ?done (scan_pages tk pv clk c target pages (Some t) (t # seen) (tally acc counts None)) (scanned cs c target)"
            by (rule triple_pre [OF Suc.IH]) blast
        qed
      qed
    qed
  qed
qed

section \<open>What a scan leaves\<close>

definition advanced_from :: "evidence \<Rightarrow> string \<Rightarrow> int \<Rightarrow> scan_result \<Rightarrow> evidence \<Rightarrow> bool" where
  "advanced_from ev i target r ev' \<longleftrightarrow> (\<exists>c c'. find_checkpoint i ev = Some c \<and> ck_state c = CK_ready
     \<and> latest_version (ck_collector_key c) ev = Some (ck_version c)
     \<and> ev_checkpoints ev' = ev_checkpoints ev @ [c'] \<and> find_checkpoint (sn_checkpoint_id r) ev' = Some c'
     \<and> ck_collector_key c' = ck_collector_key c \<and> ck_version c' = ck_version c + 1
     \<and> latest_version (ck_collector_key c) ev' = Some (ck_version c')
     \<and> ck_chain_id c' = ck_chain_id c \<and> ck_approved_from_block c' = ck_approved_from_block c
     \<and> ck_approved_to_block c' = ck_approved_to_block c \<and> ck_overlap_blocks c' = ck_overlap_blocks c
     \<and> ck_last_finalized_block_number c \<le> target \<and> ck_last_finalized_block_number c' = target
     \<and> scan_from c \<le> ck_last_finalized_block_number c + 1 \<and> scan_covered c target ev')"

definition backlogged_from :: "evidence \<Rightarrow> string \<Rightarrow> scan_result \<Rightarrow> evidence \<Rightarrow> bool" where
  "backlogged_from ev i r ev' \<longleftrightarrow> (\<exists>c reason. find_checkpoint i ev = Some c \<and> ck_state c = CK_ready
     \<and> sn_backlog_reason r = Some reason
     \<and> find_checkpoint i ev' = Some (c\<lparr>ck_state := CK_backlogged, ck_backlog_reason := Some reason\<rparr>)
     \<and> map ck_version (ev_checkpoints ev') = map ck_version (ev_checkpoints ev))"

definition scan_post :: "evidence \<Rightarrow> string \<Rightarrow> int \<Rightarrow> scan_result \<Rightarrow> evidence \<Rightarrow> bool" where
  "scan_post ev i target r ev' \<longleftrightarrow> (if sn_advanced r then advanced_from ev i target r ev' else backlogged_from ev i r ev')"

lemma latest_version_append:
  assumes "latest_version k ev = Some v" and "ev_checkpoints ev' = ev_checkpoints ev @ [c]" and "ck_collector_key c = k"
    and "ck_version c = v + 1"
  shows "latest_version k ev' = Some (v + 1)"
proof -
  have "fold max (xs @ [b]) a = max b (fold max xs a)" for xs and a b :: int by simp
  with assms show ?thesis by (auto simp: latest_version_def split: list.splits)
qed

lemma advance_post:
  assumes read: "find_checkpoint i ev = Some c" "scan_checks c target ev = Inr u" and cs: "ev_checkpoints ev1 = ev_checkpoints ev"
    and inv: "scope_inv ev1" and cov: "scan_covered c target ev1" and c1: "c1 = c\<lparr>ck_last_finalized_block_number := target,
       ck_last_finalized_block_hash := th\<rparr>"
    and ok: "checkpoint_checks c1 = Inr v" and run: "create_checkpoint_txn tk clk c1 ev1 = Inr (j, ev2)"
    and r: "find_checkpoint j ev2 = Some c'" "r = scan_result_of c' acc True"
  shows "scan_post ev i target r ev2"
proof -
  note made = create_checkpoint_scope [OF inv ok run]
  from made(2) r have c': "c' = next_checkpoint tk clk c1 ev1" by simp
  from read have checks: "latest_version (ck_collector_key c) ev = Some (ck_version c)" "ck_state c = CK_ready"
    "ck_last_finalized_block_number c \<le> target" by (simp_all add: scan_checks_def exn_simps)
  with cs have latest: "latest_version (ck_collector_key c) ev1 = Some (ck_version c)" by (simp add: latest_version_def)
  then have fields: "ck_collector_key c' = ck_collector_key c" "ck_version c' = ck_version c + 1" "ck_chain_id c' = ck_chain_id c"
    "ck_approved_from_block c' = ck_approved_from_block c" "ck_approved_to_block c' = ck_approved_to_block c"
    "ck_overlap_blocks c' = ck_overlap_blocks c" "ck_last_finalized_block_number c' = target"
    by (simp_all add: c' c1 next_checkpoint_def Let_def)
  from made(4) c' have app: "ev_checkpoints ev2 = ev_checkpoints ev1 @ [c']" by simp
  from inv cs read(1) have "checkpoint_ok c" by (auto simp: scope_inv_def find_checkpoint_def find_Some_iff)
  then have gap: "scan_from c \<le> ck_last_finalized_block_number c + 1" by (auto simp: checkpoint_ok_def scan_from_def)
  from cov made(5) have "scan_covered c target ev2" by (simp add: scan_covered_def)
  moreover have "ck_checkpoint_id c' = j" using r(1) unfolding find_checkpoint_def by (auto simp: find_Some_iff)
  ultimately have "advanced_from ev i target r ev2"
    unfolding advanced_from_def
    using read(1) checks fields app cs gap r latest_version_append [OF latest app] fields(1,2)
    by (intro exI [of _ c] exI [of _ c']) (simp add: scan_result_of_def split: prod.split)
  moreover have "sn_advanced r" using r(2) by (simp add: scan_result_of_def split: prod.split)
  ultimately show ?thesis by (simp add: scan_post_def)
qed

lemma backlog_post:
  assumes read: "find_checkpoint i ev = Some c" "scan_checks c target ev = Inr u" and cs: "ev_checkpoints ev1 = ev_checkpoints ev"
    and run: "backlog_txn i reason ev1 = Inr (x, ev2)" and r: "r = scan_result_of c acc False" "snd (snd (snd acc)) = Some reason"
  shows "scan_post ev i target r ev2"
proof -
  from run have ev2: "ev_checkpoints ev2 = update_where (\<lambda>c. ck_checkpoint_id c = i)
      (\<lambda>c. c\<lparr>ck_state := CK_backlogged, ck_backlog_reason := Some reason\<rparr>) (ev_checkpoints ev)"
    by (auto simp: backlog_txn_def cs)
  from read have "ck_checkpoint_id c = i" "ck_state c = CK_ready"
    by (auto simp: find_checkpoint_def find_Some_iff scan_checks_def exn_simps)
  with read(1) have "find_checkpoint i ev2 = Some (c\<lparr>ck_state := CK_backlogged, ck_backlog_reason := Some reason\<rparr>)"
    by (simp add: find_checkpoint_def ev2 find_update_where)
  moreover have "map ck_version (ev_checkpoints ev2) = map ck_version (ev_checkpoints ev)"
    by (simp add: ev2 update_where_def)
  moreover have "sn_advanced r = False" "sn_backlog_reason r = Some reason" using r by (auto simp: scan_result_of_def split: prod.splits)
  ultimately show ?thesis using read(1) \<open>ck_state c = CK_ready\<close> by (auto simp: scan_post_def backlogged_from_def)
qed

lemma scan_triple:
  "triple scoped (\<lambda>w. scoped w \<and> bw_ev w = ev) (scan tk pv m clk i hs xs target th)
     (\<lambda>r w. scoped w \<and> scan_post ev i target r (bw_ev w))"
  unfolding scan_def
proof (rule triple_bind [OF bf_read_triple], blast, rule triple_bind [OF bf_read_triple], blast)
  fix c u
  let ?cs = "ev_checkpoints ev"
  let ?read = "find_checkpoint i ev = Some c \<and> scan_checks c target ev = Inr u"
  let ?P = "\<lambda>w. scanning ?cs c w \<and> ?read"
  have strengthen: "triple scoped ?P m (\<lambda>a w. Q a w \<and> ?read)" if "triple scoped (scanning ?cs c) m Q"
    for m :: "'x bf" and Q using that by (fastforce simp: triple_def split: sum.splits prod.splits)
  have start: "?P w" if "((scoped w \<and> bw_ev w = ev) \<and> checkpoint_of i (bw_ev w) = Inr c) \<and> scan_checks c target (bw_ev w) = Inr u" for w
    using that by (auto simp: scanning_def scoped_def checkpoint_of_def exn_simps find_checkpoint_def find_Some_iff)
  have unless: "triple scoped ?P (unless_backlog acc m) (\<lambda>a w. scanning ?cs c w \<and> ?read)"
    if "triple scoped (scanning ?cs c) m (\<lambda>_. scanning ?cs c)" for acc m
    using strengthen [OF that] by (cases acc; cases "snd (snd (snd acc))") (auto simp: unless_backlog_def intro: triple_return)
  have unless_pages: "triple scoped ?P (unless_backlog acc (scan_pages tk pv clk c target m None [] acc))
      (\<lambda>a w. (scanning ?cs c w \<and> (snd (snd (snd a)) = None \<longrightarrow> scan_covered c target (bw_ev w))) \<and> ?read)" for acc
    using strengthen [OF scan_pages_triple [unfolded scanned_def]]
    by (cases acc; cases "snd (snd (snd acc))") (auto simp: unless_backlog_def intro: triple_return)
  show "triple scoped (\<lambda>w. ((scoped w \<and> bw_ev w = ev) \<and> checkpoint_of i (bw_ev w) = Inr c) \<and> scan_checks c target (bw_ev w) = Inr u)
     (act_bind (scan_hashes tk pv clk c hs (0, 0, 0, None)) (\<lambda>acc1.
      act_bind (unless_backlog acc1 (scan_identifiers tk pv clk c xs acc1)) (\<lambda>acc2.
      act_bind (unless_backlog acc2 (scan_pages tk pv clk c target m None [] acc2)) (\<lambda>acc3.
      case snd (snd (snd acc3)) of
        Some reason \<Rightarrow> act_bind (bf_write (backlog_txn i reason)) (\<lambda>_. act_return (scan_result_of c acc3 False))
      | None \<Rightarrow> act_bind (create_checkpoint tk clk (c\<lparr>ck_last_finalized_block_number := target,
                   ck_last_finalized_block_hash := th\<rparr>)) (\<lambda>advanced. act_return (scan_result_of advanced acc3 True))))))
     (\<lambda>r w. scoped w \<and> scan_post ev i target r (bw_ev w))"
  proof (rule triple_pre [OF _ start], rule triple_bind [OF strengthen [OF scan_hashes_triple]],
      rule triple_bind [OF unless [OF scan_identifiers_triple]], rule triple_bind [OF unless_pages])
    fix acc :: scan_tally
    let ?last = "\<lambda>w. (scanning ?cs c w \<and> (snd (snd (snd acc)) = None \<longrightarrow> scan_covered c target (bw_ev w))) \<and> ?read"
    show "triple scoped ?last (case snd (snd (snd acc)) of
        Some reason \<Rightarrow> act_bind (bf_write (backlog_txn i reason)) (\<lambda>_. act_return (scan_result_of c acc False))
      | None \<Rightarrow> act_bind (create_checkpoint tk clk (c\<lparr>ck_last_finalized_block_number := target,
                   ck_last_finalized_block_hash := th\<rparr>)) (\<lambda>advanced. act_return (scan_result_of advanced acc True)))
     (\<lambda>r w. scoped w \<and> scan_post ev i target r (bw_ev w))"
    proof (cases "snd (snd (snd acc))")
      case (Some reason)
      let ?Q = "\<lambda>w. scoped w \<and> scan_post ev i target (scan_result_of c acc False) (bw_ev w)"
      have writes: "triple scoped ?last (bf_write (backlog_txn i reason)) (\<lambda>_. ?Q)"
      proof (rule bf_write_triple)
        show "scoped w" if "?last w" for w using that scanning_scoped by blast
        fix w x ev2 assume end_: "?last w" and run: "backlog_txn i reason (bw_ev w) = Inr (x, ev2)"
        from end_ have "scope_inv (bw_ev w)" "ev_checkpoints (bw_ev w) = ev_checkpoints ev" by (simp_all add: scanning_def)
        with backlog_scope [OF this(1) run] backlog_post [of i ev c target u "bw_ev w" reason x ev2 _ acc] end_ run Some
        show "?Q (w\<lparr>bw_raw := (bw_raw w)\<lparr>rs_ev := ev2\<rparr>\<rparr>)"
          by (simp add: scoped_def bw_ev_def)
      qed
      show ?thesis by (subst Some, subst option.case, rule triple_bind [OF writes triple_return])
    next
      case None
      let ?c = "c\<lparr>ck_last_finalized_block_number := target, ck_last_finalized_block_hash := th\<rparr>"
      let ?Q = "\<lambda>j w. scoped w \<and> (\<forall>c'. find_checkpoint j (bw_ev w) = Some c' \<longrightarrow>
          scan_post ev i target (scan_result_of c' acc True) (bw_ev w))"
      have writes: "triple scoped (\<lambda>w. ?last w \<and> checkpoint_checks ?c = Inr v) (bf_write (create_checkpoint_txn tk clk ?c)) ?Q" for v
      proof (rule bf_write_triple)
        show "scoped w" if "?last w \<and> checkpoint_checks ?c = Inr v" for w using that scanning_scoped by blast
        fix w j ev2 assume end_: "?last w \<and> checkpoint_checks ?c = Inr v" and run: "create_checkpoint_txn tk clk ?c (bw_ev w) = Inr (j, ev2)"
        then have pre: "scope_inv (bw_ev w)" "ev_checkpoints (bw_ev w) = ev_checkpoints ev" "scan_covered c target (bw_ev w)"
          using None by (simp_all add: scanning_def)
        from end_ have ok: "checkpoint_checks ?c = Inr v" by blast
        from create_checkpoint_scope(1) [OF pre(1) ok run]
          advance_post [of i ev c target u "bw_ev w", OF _ _ pre(2,1,3) refl ok run] end_
        show "?Q j (w\<lparr>bw_raw := (bw_raw w)\<lparr>rs_ev := ev2\<rparr>\<rparr>)" by (simp add: scoped_def bw_ev_def)
      qed
      have advance: "triple scoped ?last (create_checkpoint tk clk ?c)
          (\<lambda>a w. scoped w \<and> scan_post ev i target (scan_result_of a acc True) (bw_ev w))"
        unfolding create_checkpoint_def
      proof (rule triple_bind [OF triple_check])
        show "scoped w" if "?last w" for w using that scanning_scoped by blast
        fix v show "triple scoped (\<lambda>w. ?last w \<and> checkpoint_checks ?c = Inr v)
            (act_bind (bf_write (create_checkpoint_txn tk clk ?c)) (\<lambda>j. bf_read (checkpoint_of j)))
            (\<lambda>a w. scoped w \<and> scan_post ev i target (scan_result_of a acc True) (bw_ev w))"
          by (rule triple_bind [OF writes triple_post [OF bf_read_triple]]) (auto simp: checkpoint_of_def exn_simps)
      qed
      show ?thesis by (subst None, subst option.case, rule triple_bind [OF advance triple_return])
    qed
  qed
qed

section \<open>Questions to the provider\<close>













section \<open>Histories\<close>

text \<open>
  Calls of the collector, and anything else that keeps the collector's rows and the registered blobs.
\<close>

inductive backfill_step :: "backfill_world \<Rightarrow> backfill_world \<Rightarrow> bool" where
  checkpoint: "backfill_step w (snd (create_checkpoint tk clk c w))"
| scanning: "backfill_step w (snd (scan tk pv pages clk i hs xs target th w))"
| auxiliary: "backfill_step w (snd (record_auxiliary_carrier_status tk clk a p x st q raw w))"
| other: "ev_checkpoints (bw_ev w') = ev_checkpoints (bw_ev w) \<Longrightarrow> ev_calls (bw_ev w') = ev_calls (bw_ev w) \<Longrightarrow>
    ev_chain_events (bw_ev w') = ev_chain_events (bw_ev w) \<Longrightarrow>
    (\<And>d. find_raw d (bw_ev w) \<noteq> None \<Longrightarrow> find_raw d (bw_ev w') \<noteq> None) \<Longrightarrow> backfill_step w w'"

definition backfill_empty :: "backfill_world \<Rightarrow> bool" where
  "backfill_empty w \<longleftrightarrow> ev_checkpoints (bw_ev w) = [] \<and> ev_calls (bw_ev w) = [] \<and> ev_chain_events (bw_ev w) = []"

lemma create_triple: "triple scoped scoped (create_checkpoint tk clk c) (\<lambda>_. scoped)"
  unfolding create_checkpoint_def
proof (rule triple_bind [OF triple_check])
  fix v show "triple scoped (\<lambda>w. scoped w \<and> checkpoint_checks c = Inr v)
      (act_bind (bf_write (create_checkpoint_txn tk clk c)) (\<lambda>j. bf_read (checkpoint_of j))) (\<lambda>_. scoped)"
    by (rule triple_bind [OF bf_write_triple [where Q = "\<lambda>_. scoped"] triple_post [OF bf_read_triple]])
      (auto simp: scoped_def bw_ev_def intro: create_checkpoint_scope(1))
qed

lemma auxiliary_triple: "triple scoped scoped (record_auxiliary_carrier_status tk clk a p x st q raw) (\<lambda>_. scoped)"
  unfolding record_auxiliary_carrier_status_def Let_def
proof (rule triple_bind [OF bf_put_scanning(2)], rule triple_bind [OF bf_write_triple [where Q = "\<lambda>_. scoped"] triple_return])
  fix w u ev r assume inv: "scoped w" and run: "auxiliary_txn r (bw_ev w) = Inr (u, ev)"
  from run have "ev_checkpoints ev = ev_checkpoints (bw_ev w)" "ev_calls ev = ev_calls (bw_ev w)"
    "ev_chain_events ev = ev_chain_events (bw_ev w)" "ev_raw ev = ev_raw (bw_ev w)"
    by (auto simp: auxiliary_txn_def exn_simps split: if_splits)
  with inv show "scoped (w\<lparr>bw_raw := (bw_raw w)\<lparr>rs_ev := ev\<rparr>\<rparr>)"
    by (auto simp: scoped_def bw_ev_def find_raw_def intro!: scope_inv_cong [OF inv [unfolded scoped_def]])
qed auto

lemma backfill_step_scoped: "backfill_step w w' \<Longrightarrow> scoped w \<Longrightarrow> scoped w'"
proof (induction rule: backfill_step.induct)
  case (checkpoint w tk clk c)
  show ?case by (rule triple_keeps [OF create_triple checkpoint])
next
  case (scanning w tk pv pages clk i hs xs target th)
  have "triple scoped (\<lambda>v. scoped v \<and> bw_ev v = bw_ev w) (scan tk pv pages clk i hs xs target th) (\<lambda>_. scoped)"
    by (rule triple_post [OF scan_triple], erule conjunct1)
  from triple_keeps [OF this] scanning show ?case by simp
next
  case (auxiliary w tk clk a p x st q raw)
  show ?case by (rule triple_keeps [OF auxiliary_triple auxiliary])
next
  case (other w' w)
  from other(5) show ?case unfolding scoped_def by (rule scope_inv_cong) (use other in simp_all)
qed

interpretation backfills: transition_system backfill_empty backfill_step scoped
  by unfold_locales (simp add: backfill_empty_def scoped_def scope_inv_def, erule backfill_step_scoped)

text \<open>
  C40. Whatever the read-only provider answers, and however the calls of the collector end, every stored chain event
  has a contract, topic and block of the approved search scope, belongs to a recorded call under a stored checkpoint
  and to registered raw bytes, and answers the question of that call (the requested range, the known hash or the
  exact identifier); no event is stored twice and the calls are numbered without a gap.
\<close>

theorem collected_events_stay_in_scope:
  assumes "backfill_empty w0" and "backfill_step\<^sup>*\<^sup>* w0 w"
  shows "list_all (traced (bw_ev w)) (ev_chain_events (bw_ev w)) \<and> distinct (map event_key (ev_chain_events (bw_ev w)))
    \<and> list_all checkpoint_ok (ev_checkpoints (bw_ev w))
    \<and> map cl_call_sequence (ev_calls (bw_ev w)) = [1..<Suc (length (ev_calls (bw_ev w)))]"
  using backfills.reachable_inv [OF assms] by (simp add: scoped_def scope_inv_def list_all_iff del: upt_Suc)

definition demo_backfill_digest :: "json \<Rightarrow> string" where
  "demo_backfill_digest j = (case j of JObj [_, (_, JList [_, _, JInt n])] \<Rightarrow> if n = 1 then ''a'' else ''b'' | _ \<Rightarrow> ''e'')"

definition demo_backfill_tools :: backfill_tools where
  "demo_backfill_tools = \<lparr>bl_digest = demo_backfill_digest,
     bl_serialize = (\<lambda>_. ''{}''), bl_sha256 = (\<lambda>b. take 64 (b @ replicate 64 (CHR ''0''))), bl_on_disk = (\<lambda>_. 40)\<rparr>"

definition demo_event :: chain_event where
  "demo_event = \<lparr>ce_block_number = 7, ce_block_hash = ''0xb'', ce_transaction_hash = ''0xT'', ce_log_index = 0,
     ce_contract_address = ''0xC'', ce_topic0 = Some ''0xt'', ce_exact_identifier_kind = None, ce_exact_identifier = None\<rparr>"

definition demo_provider :: backfill_provider where
  "demo_provider = (let page = \<lparr>pg_events = [demo_event], pg_next_page_token = None, pg_complete = True, pg_raw_bytes = ''page'',
       pg_provider_id = ''rpc''\<rparr> in
     \<lparr>bp_by_hash = (\<lambda>_ _. Inr page), bp_by_identifier = (\<lambda>_ _. Inr page), bp_by_filter = (\<lambda>_ _ _ _ _ _ _. Inr page)\<rparr>)"

definition demo_checkpoint :: checkpoint_row where
  "demo_checkpoint = \<lparr>ck_checkpoint_id = [], ck_collector_key = ''k'', ck_version = 0, ck_chain_id = 5,
     ck_contract_addresses = [''0xC''], ck_topics = [''0xT''], ck_exact_filter = JObj [], ck_approved_from_block = 0, ck_approved_to_block = 100,
     ck_last_finalized_block_number = 3, ck_last_finalized_block_hash = ''0x3'', ck_overlap_blocks = 2,
     ck_parser_version = ''1'', ck_provider_id = ''rpc'', ck_state = CK_ready, ck_backlog_reason = None, ck_created_at = 0\<rparr>"

definition demo_backfill :: backfill_world where
  "demo_backfill = \<lparr>bw_raw = \<lparr>rs_ev = empty_evidence empty_db, rs_files = []\<rparr>, bw_calls = 0\<rparr>"

definition demo_checkpointed :: backfill_world where
  "demo_checkpointed = snd (create_checkpoint demo_backfill_tools 1 demo_checkpoint demo_backfill)"

definition demo_scan :: "(exn + scan_result) \<times> backfill_world" where
  "demo_scan = scan demo_backfill_tools demo_provider 3 2 ''observation_a'' [''0xt''] [] 50 ''0x50'' demo_checkpointed"

lemma demo_scanned: "backfill_step\<^sup>*\<^sup>* demo_backfill demo_checkpointed"
  "backfill_step\<^sup>*\<^sup>* demo_backfill (snd demo_scan)" "backfill_empty demo_backfill"
proof -
  show one: "backfill_step\<^sup>*\<^sup>* demo_backfill demo_checkpointed"
    unfolding demo_checkpointed_def by (rule r_into_rtranclp, rule backfill_step.checkpoint)
  have "backfill_step demo_checkpointed (snd demo_scan)" unfolding demo_scan_def by (rule backfill_step.scanning)
  with one show "backfill_step\<^sup>*\<^sup>* demo_backfill (snd demo_scan)" by (rule rtranclp.rtrancl_into_rtrancl)
  show "backfill_empty demo_backfill" by code_simp
qed

theorem collected_events_stay_in_scope_witness:
  "map ch_block_number (ev_chain_events (bw_ev (snd demo_scan))) = [7]
     \<and> traced (bw_ev (snd demo_scan)) (hd (ev_chain_events (bw_ev (snd demo_scan))))"
proof -
  have events: "map ch_block_number (ev_chain_events (bw_ev (snd demo_scan))) = [7]" by code_simp
  with collected_events_stay_in_scope [OF demo_scanned(3,2)] show ?thesis
    by (cases "ev_chain_events (bw_ev (snd demo_scan))") simp_all
qed



end
