(* ===== verification/Xir_Linking.thy ===== *)
theory Xir_Linking
  imports Xir_Evidence Xir_Actions Xir_Scheduler
begin

text \<open>
  \<^verbatim>\<open>collect/protocol.py\<close> and \<^verbatim>\<open>collect/xir.py\<close>: a dispatch and a delivery become one carrier message of a
  leg, the records of the source, both verifications and the effect become one trace of an attempt, and the
  effect at the destination is recorded for either arm.
\<close>

section \<open>Attempts of transactions\<close>

definition stage_of_transaction :: "transaction_row \<Rightarrow> db \<Rightarrow> stage_row option" where
  "stage_of_transaction t db = Option.bind (find_intent (tx_intent_id t) db) (\<lambda>i. find_stage (it_stage_id i) db)"

definition is_bytes32 :: "string \<Rightarrow> bool" where
  "is_bytes32 value \<longleftrightarrow> length value = 66 \<and> take 2 value = ''0x''
     \<and> list_all (\<lambda>c. c \<in> set ''0123456789abcdefABCDEF'') (drop 2 value)"

section \<open>Carrier messages\<close>

record carrier_route =
  cr_protocol :: string
  cr_leg_index :: int
  cr_source_selector :: int
  cr_destination_selector :: int

record decoded_event =
  de_event_kind :: string
  de_transaction_id :: string
  de_protocol :: string
  de_protocol_identifier :: string
  de_leg_index :: int
  de_source_selector :: int
  de_destination_selector :: int
  de_protocol_nonce :: "int option"
  de_payload_sha256 :: string

record linked_message =
  lm_carrier_message_id :: string
  lm_attempt_id :: string
  lm_protocol :: string
  lm_protocol_identifier :: string
  lm_leg_index :: int
  lm_source_transaction_id :: string
  lm_destination_transaction_id :: string

type_synonym route_table = "((string \<times> int) \<times> carrier_route) list"

text \<open>The constructor: four routes that cover both carriers on both legs.\<close>

definition carrier_linker :: "carrier_route list \<Rightarrow> exn + route_table" where
  "carrier_linker routes =
     (let coordinates = map (\<lambda>r. ((cr_protocol r, cr_leg_index r), r)) routes in
      bindE (ensure (\<not> (length routes \<noteq> 4 \<or> set (map fst coordinates)
                       \<noteq> {(''hyperlane'', 0), (''hyperlane'', 1), (''layerzero-v2'', 0), (''layerzero-v2'', 1)}))
              (ProtocolLinkError PL_route_coverage)) (\<lambda>_.
      bindE (ensure (\<not> list_ex (\<lambda>r. cr_source_selector r \<le> 0 \<or> cr_destination_selector r \<le> 0) routes)
              (ProtocolLinkError PL_selectors)) (\<lambda>_. Inr coordinates)))"

text \<open>\<^verbatim>\<open>LEG_CHAINS\<close>; a leg of the route table is 0 or 1.\<close>

definition leg_chains :: "int \<Rightarrow> int \<times> int" where
  "leg_chains leg = (if leg = 0 then (11155420, 421614) else (421614, 84532))"

definition event_coordinates :: "decoded_event \<Rightarrow> string \<times> string \<times> int \<times> int \<times> int \<times> int option \<times> string" where
  "event_coordinates e = (de_protocol e, lower (de_protocol_identifier e), de_leg_index e, de_source_selector e,
     de_destination_selector e, de_protocol_nonce e, de_payload_sha256 e)"

definition carrier_checks :: "route_table \<Rightarrow> decoded_event \<Rightarrow> decoded_event \<Rightarrow> exn + unit" where
  "carrier_checks routes dispatch delivery =
     bindE (ensure (\<not> (de_event_kind dispatch \<noteq> ''dispatch'' \<or> de_event_kind delivery \<noteq> ''delivery''))
              (ProtocolLinkError PL_order)) (\<lambda>_.
     bindE (ensure (event_coordinates dispatch = event_coordinates delivery) (ProtocolLinkError PL_differ)) (\<lambda>_.
     bindE (ensure (is_bytes32 (de_protocol_identifier dispatch)) (ProtocolLinkError PL_identifier)) (\<lambda>_.
     bindE (ensure (is_sha256_hex (de_payload_sha256 dispatch)) (ProtocolLinkError PL_digest)) (\<lambda>_.
     bindE (ensure (\<not> (de_protocol dispatch = ''layerzero-v2'' \<and> de_protocol_nonce dispatch = None))
              (ProtocolLinkError PL_nonce_required)) (\<lambda>_.
     bindE (ensure (case de_protocol_nonce dispatch of None \<Rightarrow> True | Some n \<Rightarrow> \<not> n < 0)
              (ProtocolLinkError PL_nonce_negative)) (\<lambda>_.
     bindE (require (map_of (rev routes) (de_protocol dispatch, de_leg_index dispatch)) KeyError) (\<lambda>route.
     ensure ((cr_source_selector route, cr_destination_selector route)
             = (de_source_selector dispatch, de_destination_selector dispatch))
       (ProtocolLinkError PL_route_identity))))))))"

type_synonym 'a link_act = "(evidence, 'a) action"

definition link_read :: "(evidence \<Rightarrow> exn + 'a) \<Rightarrow> 'a link_act" where
  "link_read f ev = (f ev, ev)"

definition carrier_transaction :: "string \<Rightarrow> evidence \<Rightarrow> exn + int \<times> string" where
  "carrier_transaction i ev =
     require (Option.bind (find_transaction i (ev_db ev)) (\<lambda>t.
              Option.bind (stage_of_transaction t (ev_db ev)) (\<lambda>g. Some (tx_chain_id t, sg_attempt_id g))))
       (ProtocolLinkError (PL_unknown_transaction i))"

definition message_row :: "(json \<Rightarrow> string) \<Rightarrow> string \<Rightarrow> decoded_event \<Rightarrow> decoded_event \<Rightarrow> carrier_message_row" where
  "message_row h attempt_id dispatch delivery =
     \<lparr>cm_carrier_message_id = stable_id h ''message'' [JStr attempt_id, JInt (de_leg_index dispatch),
        JStr (de_protocol dispatch), JStr (lower (de_protocol_identifier dispatch))],
      cm_attempt_id = attempt_id, cm_leg_index = de_leg_index dispatch, cm_protocol = de_protocol dispatch,
      cm_protocol_identifier = lower (de_protocol_identifier dispatch),
      cm_source_selector = Some (de_source_selector dispatch),
      cm_destination_selector = Some (de_destination_selector dispatch), cm_protocol_nonce = de_protocol_nonce dispatch,
      cm_payload_sha256 = Some (de_payload_sha256 dispatch),
      cm_source_transaction_id = Some (de_transaction_id dispatch),
      cm_destination_transaction_id = Some (de_transaction_id delivery)\<rparr>"

definition message_constraints :: "carrier_message_row \<Rightarrow> db \<Rightarrow> bool" where
  "message_constraints r db \<longleftrightarrow> cm_leg_index r \<in> {0, 1} \<and> cm_protocol r \<in> {''hyperlane'', ''layerzero-v2''}
     \<and> (case cm_protocol_nonce r of None \<Rightarrow> True | Some n \<Rightarrow> 0 \<le> n)
     \<and> (case cm_payload_sha256 r of None \<Rightarrow> True | Some d \<Rightarrow> length d = 64)
     \<and> (case cm_source_transaction_id r of None \<Rightarrow> True | Some t \<Rightarrow> find_transaction t db \<noteq> None)
     \<and> (case cm_destination_transaction_id r of None \<Rightarrow> True | Some t \<Rightarrow> find_transaction t db \<noteq> None)
     \<and> find_attempt (cm_attempt_id r) db \<noteq> None
     \<and> \<not> list_ex (\<lambda>x. cm_carrier_message_id x = cm_carrier_message_id r
          \<or> (cm_protocol x, cm_protocol_identifier x) = (cm_protocol r, cm_protocol_identifier r)
          \<or> (cm_attempt_id x, cm_leg_index x) = (cm_attempt_id r, cm_leg_index r)) (t_carrier_messages db)"

definition message_linkage :: "carrier_message_row \<Rightarrow> string \<times> int \<times> string \<times> string \<times> string option \<times> string option" where
  "message_linkage r = (cm_attempt_id r, cm_leg_index r, cm_protocol r, cm_protocol_identifier r,
     cm_source_transaction_id r, cm_destination_transaction_id r)"

definition link_message_txn :: "carrier_message_row \<Rightarrow> unit ev_txn" where
  "link_message_txn r ev =
     (case find (\<lambda>x. cm_carrier_message_id x = cm_carrier_message_id r) (t_carrier_messages (ev_db ev)) of
        Some existing \<Rightarrow>
          bindE (ensure (message_linkage existing = message_linkage r) (ProtocolLinkError PL_changed_linkage)) (\<lambda>_.
          Inr ((), ev))
      | None \<Rightarrow>
          bindE (ensure (list_all (\<lambda>x. case x of None \<Rightarrow> True | Some n \<Rightarrow> int64 n)
                  [Some (cm_leg_index r), cm_source_selector r, cm_destination_selector r, cm_protocol_nonce r])
                  OverflowError) (\<lambda>_.
          bindE (ensure (message_constraints r (ev_db ev)) (ProtocolLinkError PL_already_linked)) (\<lambda>_.
          Inr ((), ev\<lparr>ev_db := (ev_db ev)\<lparr>t_carrier_messages := t_carrier_messages (ev_db ev) @ [r]\<rparr>\<rparr>))))"

definition link_carrier ::
  "(json \<Rightarrow> string) \<Rightarrow> route_table \<Rightarrow> decoded_event \<Rightarrow> decoded_event \<Rightarrow> linked_message link_act" where
  "link_carrier h routes dispatch delivery =
     act_bind (act_lift (carrier_checks routes dispatch delivery)) (\<lambda>_.
     act_bind (link_read (carrier_transaction (de_transaction_id dispatch))) (\<lambda>source.
     act_bind (link_read (carrier_transaction (de_transaction_id delivery))) (\<lambda>destination.
     act_bind (act_lift (ensure (snd source = snd destination) (ProtocolLinkError PL_attempts))) (\<lambda>_.
     act_bind (act_lift (ensure ((fst source, fst destination) = leg_chains (de_leg_index dispatch))
                           (ProtocolLinkError PL_chains))) (\<lambda>_.
     let r = message_row h (snd source) dispatch delivery in
     act_bind (store_write (link_message_txn r)) (\<lambda>_.
     act_return \<lparr>lm_carrier_message_id = cm_carrier_message_id r, lm_attempt_id = cm_attempt_id r,
       lm_protocol = cm_protocol r, lm_protocol_identifier = cm_protocol_identifier r, lm_leg_index = cm_leg_index r,
       lm_source_transaction_id = de_transaction_id dispatch,
       lm_destination_transaction_id = de_transaction_id delivery\<rparr>))))))"

section \<open>Traces\<close>

record decoded_source =
  ds_transaction_id :: string
  ds_rid :: string
  ds_mid :: string
  ds_payload_sha256 :: string
  ds_profile_sha256 :: string
  ds_evidence_sha256 :: string
  ds_transition_sha256 :: string

record decoded_verification =
  dv_transaction_id :: string
  dv_location :: string
  dv_rid :: string
  dv_mid :: string
  dv_consumed_key :: string
  dv_verified :: bool
  dv_carrier_protocol_identifier :: string

record decoded_effect =
  dx_transaction_id :: string
  dx_destination_effect_id :: string
  dx_payload_sha256 :: string
  dx_before_state_sha256 :: string
  dx_after_state_sha256 :: string
  dx_succeeded :: bool

record linked_trace =
  lt_attempt_id :: string
  lt_rid :: string
  lt_mid :: string
  lt_destination_effect_id :: string

definition trace_checks ::
  "decoded_source \<Rightarrow> decoded_verification \<Rightarrow> decoded_verification \<Rightarrow> decoded_effect \<Rightarrow> exn + unit" where
  "trace_checks s m d x =
     bindE (ensure (\<not> (dv_location m \<noteq> ''intermediate'' \<or> dv_location d \<noteq> ''destination'')) (XirLinkError XL_locations)) (\<lambda>_.
     bindE (ensure ((lower (ds_rid s), lower (ds_mid s)) = (lower (dv_rid m), lower (dv_mid m))
                    \<and> (lower (ds_rid s), lower (ds_mid s)) = (lower (dv_rid d), lower (dv_mid d)))
              (XirLinkError XL_continuity)) (\<lambda>_.
     bindE (ensure (is_bytes32 (ds_rid s)) (XirLinkError (XL_bytes32 ''RID''))) (\<lambda>_.
     bindE (ensure (is_bytes32 (ds_mid s)) (XirLinkError (XL_bytes32 ''MID''))) (\<lambda>_.
     bindE (ensure (list_all is_sha256_hex [ds_payload_sha256 s, ds_profile_sha256 s, ds_evidence_sha256 s,
                      ds_transition_sha256 s, dx_payload_sha256 x, dx_before_state_sha256 x, dx_after_state_sha256 x])
              (XirLinkError XL_digest)) (\<lambda>_.
     bindE (ensure (ds_payload_sha256 s = dx_payload_sha256 x) (XirLinkError XL_payload)) (\<lambda>_.
     bindE (ensure (dv_consumed_key m = dv_consumed_key d) (XirLinkError XL_consumed_key)) (\<lambda>_.
     bindE (ensure (dv_verified m \<and> dv_verified d) (XirLinkError XL_not_verified)) (\<lambda>_.
     ensure (dx_succeeded x) (XirLinkError XL_not_succeeded)))))))))"

definition xir_transaction :: "string \<Rightarrow> evidence \<Rightarrow> exn + int \<times> string \<times> arm" where
  "xir_transaction i ev =
     require (Option.bind (find_transaction i (ev_db ev)) (\<lambda>t.
              Option.bind (stage_of_transaction t (ev_db ev)) (\<lambda>g.
              Option.bind (find_attempt (sg_attempt_id g) (ev_db ev)) (\<lambda>a. Some (tx_chain_id t, at_attempt_id a, at_arm a)))))
       (XirLinkError (XL_unknown_transaction i))"

text \<open>The messages of an attempt by leg; of two with one leg the later would win.\<close>

definition attempt_messages :: "string \<Rightarrow> evidence \<Rightarrow> carrier_message_row list" where
  "attempt_messages attempt_id ev =
     sort_key cm_leg_index (filter (\<lambda>m. cm_attempt_id m = attempt_id) (t_carrier_messages (ev_db ev)))"

definition both_legs :: "string \<Rightarrow> evidence \<Rightarrow> exn + carrier_message_row \<times> carrier_message_row" where
  "both_legs attempt_id ev =
     (let ms = attempt_messages attempt_id ev in
      bindE (ensure (set (map cm_leg_index ms) = {0, 1}) (XirLinkError XL_both_legs)) (\<lambda>_.
      bindE (require (find (\<lambda>m. cm_leg_index m = 0) (rev ms)) KeyError) (\<lambda>leg0.
      bindE (require (find (\<lambda>m. cm_leg_index m = 1) (rev ms)) KeyError) (\<lambda>leg1.
      Inr (leg0, leg1)))))"

definition path_checks ::
  "decoded_source \<Rightarrow> decoded_verification \<Rightarrow> decoded_verification \<Rightarrow> carrier_message_row \<times> carrier_message_row
     \<Rightarrow> exn + unit" where
  "path_checks s m d legs =
     bindE (ensure (lower (dv_carrier_protocol_identifier m) = lower (cm_protocol_identifier (fst legs))
                    \<and> lower (dv_carrier_protocol_identifier d) = lower (cm_protocol_identifier (snd legs)))
              (XirLinkError XL_path)) (\<lambda>_.
     ensure (cm_payload_sha256 (fst legs) = Some (ds_payload_sha256 s)
             \<and> cm_payload_sha256 (snd legs) = Some (ds_payload_sha256 s)) (XirLinkError XL_carrier_payload))"

definition trace_row ::
  "string \<Rightarrow> decoded_source \<Rightarrow> decoded_verification \<Rightarrow> decoded_verification \<Rightarrow> decoded_effect
     \<Rightarrow> carrier_message_row \<times> carrier_message_row \<Rightarrow> xir_record_row" where
  "trace_row attempt_id s m d x legs =
     \<lparr>xr_attempt_id = attempt_id, xr_rid = lower (ds_rid s), xr_mid = lower (ds_mid s),
      xr_payload_sha256 = ds_payload_sha256 s, xr_profile_sha256 = ds_profile_sha256 s,
      xr_evidence_sha256 = ds_evidence_sha256 s, xr_transition_sha256 = ds_transition_sha256 s,
      xr_consumed_key = dv_consumed_key m, xr_leg0_carrier_message_id = cm_carrier_message_id (fst legs),
      xr_leg1_carrier_message_id = cm_carrier_message_id (snd legs), xr_source_transaction_id = ds_transaction_id s,
      xr_intermediate_transaction_id = dv_transaction_id m, xr_destination_transaction_id = dv_transaction_id d,
      xr_intermediate_verified = True, xr_destination_verified = True,
      xr_destination_effect_id = dx_destination_effect_id x, xr_effect_before_sha256 = dx_before_state_sha256 x,
      xr_effect_after_sha256 = dx_after_state_sha256 x, xr_effect_succeeded = True\<rparr>"

text \<open>A second call with the same trace compares all columns but the three flags.\<close>

definition trace_unchanged :: "xir_record_row \<Rightarrow> xir_record_row \<Rightarrow> bool" where
  "trace_unchanged r r' \<longleftrightarrow> r'\<lparr>xr_attempt_id := xr_attempt_id r, xr_intermediate_verified := xr_intermediate_verified r,
     xr_destination_verified := xr_destination_verified r, xr_effect_succeeded := xr_effect_succeeded r\<rparr> = r"

definition effect_ignore :: "effect_row \<Rightarrow> evidence \<Rightarrow> evidence" where
  "effect_ignore r ev =
     (if list_ex (\<lambda>x. ef_attempt_id x = ef_attempt_id r) (ev_effects ev) then ev
      else ev\<lparr>ev_effects := ev_effects ev @ [r]\<rparr>)"

definition link_trace_txn :: "xir_record_row \<Rightarrow> unit ev_txn" where
  "link_trace_txn r ev =
     (let effect = \<lparr>ef_attempt_id = xr_attempt_id r, ef_transaction_id = xr_destination_transaction_id r,
        ef_destination_effect_id = xr_destination_effect_id r, ef_predicate_sha256 = xr_effect_after_sha256 r,
        ef_succeeded = True\<rparr> in
      case find (\<lambda>x. xr_attempt_id x = xr_attempt_id r) (ev_xir_records ev) of
        Some existing \<Rightarrow>
          bindE (ensure (trace_unchanged existing r) (XirLinkError XL_changed_trace)) (\<lambda>_.
          Inr ((), effect_ignore effect ev))
      | None \<Rightarrow>
          bindE (ensure (\<not> list_ex (\<lambda>x. xr_rid x = xr_rid r \<or> xr_mid x = xr_mid r) (ev_xir_records ev))
                  (XirLinkError XL_already_linked)) (\<lambda>_.
          Inr ((), effect_ignore effect (ev\<lparr>ev_xir_records := ev_xir_records ev @ [r]\<rparr>))))"

definition link_trace ::
  "decoded_source \<Rightarrow> decoded_verification \<Rightarrow> decoded_verification \<Rightarrow> decoded_effect \<Rightarrow> linked_trace link_act" where
  "link_trace s m d x =
     act_bind (act_lift (trace_checks s m d x)) (\<lambda>_.
     act_bind (link_read (xir_transaction (ds_transaction_id s))) (\<lambda>source.
     act_bind (link_read (xir_transaction (dv_transaction_id m))) (\<lambda>intermediate.
     act_bind (link_read (xir_transaction (dv_transaction_id d))) (\<lambda>destination.
     act_bind (act_lift (ensure (fst (snd source) = fst (snd intermediate) \<and> fst (snd source) = fst (snd destination))
                           (XirLinkError XL_attempts))) (\<lambda>_.
     act_bind (act_lift (ensure (snd (snd source) = Xir) (XirLinkError XL_baseline))) (\<lambda>_.
     act_bind (act_lift (ensure ((fst source, fst intermediate, fst destination) = (11155420, 421614, 84532))
                           (XirLinkError XL_route_order))) (\<lambda>_.
     act_bind (act_lift (ensure (dx_transaction_id x = dv_transaction_id d) (XirLinkError XL_not_atomic))) (\<lambda>_.
     act_bind (link_read (both_legs (fst (snd source)))) (\<lambda>legs.
     act_bind (act_lift (path_checks s m d legs)) (\<lambda>_.
     act_bind (store_write (link_trace_txn (trace_row (fst (snd source)) s m d x legs))) (\<lambda>_.
     act_return \<lparr>lt_attempt_id = fst (snd source), lt_rid = lower (ds_rid s), lt_mid = lower (ds_mid s),
       lt_destination_effect_id = dx_destination_effect_id x\<rparr>)))))))))))"

section \<open>Destination effects\<close>

definition record_effect_txn :: "effect_row \<Rightarrow> unit ev_txn" where
  "record_effect_txn r ev =
     bindE (require (Option.bind (find_transaction (ef_transaction_id r) (ev_db ev)) (\<lambda>t. stage_of_transaction t (ev_db ev)))
              (XirLinkError XL_final_stage)) (\<lambda>g.
     bindE (ensure (\<not> (sg_attempt_id g \<noteq> ef_attempt_id r
                     \<or> list_ex (\<lambda>p. sg_attempt_id p = sg_attempt_id g \<and> sg_ordinal g < sg_ordinal p) (t_stages (ev_db ev))))
              (XirLinkError XL_final_stage)) (\<lambda>_.
     case find (\<lambda>x. ef_attempt_id x = ef_attempt_id r) (ev_effects ev) of
       Some existing \<Rightarrow> bindE (ensure (existing = r) (XirLinkError XL_effect_immutable)) (\<lambda>_. Inr ((), ev))
     | None \<Rightarrow>
         bindE (ensure (find_attempt (ef_attempt_id r) (ev_db ev) \<noteq> None) IntegrityError) (\<lambda>_.
         Inr ((), ev\<lparr>ev_effects := ev_effects ev @ [r]\<rparr>))))"

definition record_effect :: "string \<Rightarrow> string \<Rightarrow> string \<Rightarrow> string \<Rightarrow> bool \<Rightarrow> unit link_act" where
  "record_effect attempt_id transaction_id destination_effect_id predicate_sha256 succeeded =
     act_bind (act_lift (ensure (is_sha256_hex predicate_sha256) (XirLinkError XL_digest))) (\<lambda>_.
     store_write (record_effect_txn
       \<lparr>ef_attempt_id = attempt_id, ef_transaction_id = transaction_id, ef_destination_effect_id = destination_effect_id,
        ef_predicate_sha256 = predicate_sha256, ef_succeeded = succeeded\<rparr>))"

end
