(* ===== verification/Xir_Reconcile.thy ===== *)
theory Xir_Reconcile
  imports Xir_Linking
begin

text \<open>
  \<^verbatim>\<open>analysis/reconcile.py\<close>: declared freeze scopes, the backfill status of attempts, and the reconciliation
  of a run: a report with one issue for every count, identity, pair, retry or scope member that does not hold.
\<close>

section \<open>Freeze scopes\<close>

definition run_attempt_rows :: "string \<Rightarrow> db \<Rightarrow> attempt_row list" where
  "run_attempt_rows run_id db =
     filter (\<lambda>a. case find_condition (at_condition_id a) db of None \<Rightarrow> False | Some c \<Rightarrow> cd_run_id c = run_id) (t_attempts db)"

definition null_or_text :: "string option \<Rightarrow> json" where
  "null_or_text x = (case x of None \<Rightarrow> JNull | Some s \<Rightarrow> JStr s)"

definition scope_document :: "string \<Rightarrow> int \<Rightarrow> string list \<Rightarrow> string option \<Rightarrow> string option \<Rightarrow> json" where
  "scope_document run_id version ordered prior_id prior_sha256 =
     JObj [(''run_id'', JStr run_id), (''version'', JInt version), (''attempt_ids'', JList (map JStr ordered)),
           (''prior_freeze_id'', null_or_text prior_id), (''prior_freeze_sha256'', null_or_text prior_sha256)]"

definition scope_constraints :: "scope_row \<Rightarrow> evidence \<Rightarrow> bool" where
  "scope_constraints r ev \<longleftrightarrow> 1 \<le> sk_version r \<and> length (sk_scope_sha256 r) = 64
     \<and> (case sk_prior_freeze_sha256 r of None \<Rightarrow> True | Some d \<Rightarrow> length d = 64)
     \<and> (sk_prior_freeze_id r = None \<longleftrightarrow> sk_prior_freeze_sha256 r = None)
     \<and> find_run (sk_run_id r) (ev_db ev) \<noteq> None
     \<and> (case sk_prior_freeze_id r of None \<Rightarrow> True | Some f \<Rightarrow> list_ex (\<lambda>z. fz_freeze_id z = f) (ev_freezes ev))
     \<and> \<not> list_ex (\<lambda>x. sk_scope_id x = sk_scope_id r \<or> (sk_run_id x, sk_version x) = (sk_run_id r, sk_version r)) (ev_scopes ev)"

definition declare_scope_txn :: "scope_row \<Rightarrow> unit ev_txn" where
  "declare_scope_txn r ev =
     (let known = map at_attempt_id (run_attempt_rows (sk_run_id r) (ev_db ev));
          unknown = filter (\<lambda>i. i \<notin> set known) (sk_attempt_ids r) in
      bindE (ensure (unknown = []) (ReconciliationError (RE_unknown_attempts unknown))) (\<lambda>_.
      bindE (case sk_prior_freeze_id r of
               None \<Rightarrow> Inr ()
             | Some f \<Rightarrow> ensure (case find (\<lambda>z. fz_freeze_id z = f) (ev_freezes ev) of
                          None \<Rightarrow> False | Some z \<Rightarrow> Some (fz_database_sha256 z) = sk_prior_freeze_sha256 r)
                         (ReconciliationError RE_prior_freeze)) (\<lambda>_.
      bindE (ensure (int64 (sk_version r)) OverflowError) (\<lambda>_.
      bindE (ensure (scope_constraints r ev) IntegrityError) (\<lambda>_.
      Inr ((), ev\<lparr>ev_scopes := ev_scopes ev @ [r]\<rparr>))))))"

definition declare_freeze_scope ::
  "(json \<Rightarrow> string) \<Rightarrow> int \<Rightarrow> string \<Rightarrow> string \<Rightarrow> int \<Rightarrow> string list \<Rightarrow> string option \<Rightarrow> string option
     \<Rightarrow> evidence \<Rightarrow> string ev_outcome" where
  "declare_freeze_scope h clk scope_id run_id version attempt_ids prior_id prior_sha256 ev =
     (if version < 1 \<or> \<not> distinct attempt_ids then (Inl (ReconciliationError RE_scope_invalid), ev)
      else let ordered = text_sort attempt_ids;
               digest = h (scope_document run_id version ordered prior_id prior_sha256)
           in (case store_write (declare_scope_txn
                 \<lparr>sk_scope_id = scope_id, sk_run_id = run_id, sk_version = version, sk_attempt_ids = ordered,
                  sk_scope_sha256 = digest, sk_prior_freeze_id = prior_id, sk_prior_freeze_sha256 = prior_sha256,
                  sk_declared_at = clk\<rparr>) ev of
                 (Inl e, ev') \<Rightarrow> (Inl e, ev') | (Inr _, ev') \<Rightarrow> (Inr digest, ev')))"

definition set_backfill_txn :: "backfill_row \<Rightarrow> unit ev_txn" where
  "set_backfill_txn r ev =
     (if list_ex (\<lambda>x. bf_attempt_id x = bf_attempt_id r) (ev_backfill ev)
      then Inr ((), ev\<lparr>ev_backfill := update_where (\<lambda>x. bf_attempt_id x = bf_attempt_id r) (\<lambda>_. r) (ev_backfill ev)\<rparr>)
      else bindE (ensure (find_attempt (bf_attempt_id r) (ev_db ev) \<noteq> None) IntegrityError) (\<lambda>_.
           Inr ((), ev\<lparr>ev_backfill := ev_backfill ev @ [r]\<rparr>)))"

definition set_backfill_status :: "int \<Rightarrow> string \<Rightarrow> string \<Rightarrow> string \<Rightarrow> evidence \<Rightarrow> unit ev_outcome" where
  "set_backfill_status clk attempt_id state reason_code ev =
     (if state \<notin> {''pending'', ''resolved''} \<or> reason_code = [] then (Inl (ReconciliationError RE_backfill_fields), ev)
      else store_write (set_backfill_txn
             \<lparr>bf_attempt_id = attempt_id, bf_state = (if state = ''pending'' then BF_pending else BF_resolved),
              bf_reason_code = reason_code, bf_updated_at = clk\<rparr>) ev)"

section \<open>The attempts of a run\<close>

record run_attempt =
  ra_row :: attempt_row
  ra_carrier_sequence :: string
  ra_submitted :: bool
  ra_terminal_at_deadline :: bool
  ra_pending :: bool

definition submitted_states :: "tx_state list" where
  "submitted_states = [T_broadcast_unknown, T_submitted, T_included, T_finalized, T_orphaned]"

definition attempt_transactions :: "string \<Rightarrow> db \<Rightarrow> transaction_row list" where
  "attempt_transactions attempt_id db =
     filter (\<lambda>t. map_option sg_attempt_id (stage_of_transaction t db) = Some attempt_id) (t_transactions db)"

definition attempt_submitted :: "string \<Rightarrow> db \<Rightarrow> bool" where
  "attempt_submitted attempt_id db = list_ex (\<lambda>t. tx_state t \<in> set submitted_states) (attempt_transactions attempt_id db)"

definition deadline_recorded :: "string \<Rightarrow> evidence \<Rightarrow> bool" where
  "deadline_recorded attempt_id ev = list_ex (\<lambda>x. ao_attempt_id x = attempt_id \<and> ao_kind x = OK_deadline) (ev_outcomes ev)"

definition backfill_pending :: "string \<Rightarrow> evidence \<Rightarrow> bool" where
  "backfill_pending attempt_id ev =
     (case find (\<lambda>x. bf_attempt_id x = attempt_id) (ev_backfill ev) of None \<Rightarrow> False | Some x \<Rightarrow> bf_state x = BF_pending)"

definition run_attempt_of :: "evidence \<Rightarrow> attempt_row \<Rightarrow> run_attempt" where
  "run_attempt_of ev a =
     \<lparr>ra_row = a,
      ra_carrier_sequence = (case find_condition (at_condition_id a) (ev_db ev) of None \<Rightarrow> [] | Some c \<Rightarrow> cd_carrier_sequence c),
      ra_submitted = attempt_submitted (at_attempt_id a) (ev_db ev),
      ra_terminal_at_deadline = deadline_recorded (at_attempt_id a) ev,
      ra_pending = backfill_pending (at_attempt_id a) ev\<rparr>"

definition run_attempts :: "string \<Rightarrow> evidence \<Rightarrow> run_attempt list" where
  "run_attempts run_id ev = sort_by_key (\<lambda>r. at_attempt_id (ra_row r)) (map (run_attempt_of ev) (run_attempt_rows run_id (ev_db ev)))"

section \<open>Issues\<close>

record count_expectation =
  ex_condition :: string
  ex_arm :: string
  ex_attempt_kind :: string
  ex_count :: int

record issue =
  is_code :: string
  is_subject_id :: string
  is_detail :: string

record reconciliation_report =
  rr_run_id :: string
  rr_planned :: nat
  rr_submitted :: nat
  rr_not_submitted :: nat
  rr_terminal_at_deadline :: nat
  rr_pending_backfill :: nat
  rr_issues :: "issue list"

type_synonym count_key = "string \<times> string \<times> string"

definition arm_name :: "arm \<Rightarrow> string" where
  "arm_name a = (case a of Baseline \<Rightarrow> ''baseline'' | Xir \<Rightarrow> ''xir'')"

definition attempt_kind_text :: "attempt_kind \<Rightarrow> string" where
  "attempt_kind_text k = (case k of Pilot \<Rightarrow> ''pilot'' | Warmup \<Rightarrow> ''warmup'' | Primary \<Rightarrow> ''primary'' | Retry \<Rightarrow> ''retry'')"

definition expectation_key :: "count_expectation \<Rightarrow> count_key" where
  "expectation_key e = (ex_condition e, ex_arm e, ex_attempt_kind e)"

definition attempt_key :: "run_attempt \<Rightarrow> count_key" where
  "attempt_key r = (ra_carrier_sequence r, arm_name (at_arm (ra_row r)), attempt_kind_text (at_attempt_kind (ra_row r)))"

definition expected_count :: "count_expectation list \<Rightarrow> count_key \<Rightarrow> int" where
  "expected_count expectations k =
     (case map_of (rev (map (\<lambda>e. (expectation_key e, ex_count e)) expectations)) k of None \<Rightarrow> 0 | Some n \<Rightarrow> n)"

definition actual_count :: "run_attempt list \<Rightarrow> count_key \<Rightarrow> int" where
  "actual_count attempts k = int (length (filter (\<lambda>r. attempt_key r = k) attempts))"

text \<open>Triples of strings in the order of Python tuples, by stable sorts from the last component.\<close>

definition sort_keys :: "count_key list \<Rightarrow> count_key list" where
  "sort_keys ks = sort_by_key fst (sort_by_key (\<lambda>k. fst (snd k)) (sort_by_key (\<lambda>k. snd (snd k)) ks))"

definition count_issue :: "count_expectation list \<Rightarrow> run_attempt list \<Rightarrow> count_key \<Rightarrow> issue" where
  "count_issue expectations attempts k =
     \<lparr>is_code = ''condition_arm_kind_count'', is_subject_id = fst k @ ''/'' @ fst (snd k) @ ''/'' @ snd (snd k),
      is_detail = ''expected='' @ str_int (expected_count expectations k) @ '' actual='' @ str_int (actual_count attempts k)\<rparr>"

definition count_issues :: "count_expectation list \<Rightarrow> run_attempt list \<Rightarrow> issue list" where
  "count_issues expectations attempts =
     map (count_issue expectations attempts)
       (filter (\<lambda>k. expected_count expectations k \<noteq> actual_count attempts k)
         (sort_keys (remdups (map expectation_key expectations @ map attempt_key attempts))))"

definition number_of :: "(run_attempt \<Rightarrow> bool) \<Rightarrow> run_attempt list \<Rightarrow> nat" where
  "number_of p attempts = length (filter p attempts)"

definition not_submitted :: "run_attempt \<Rightarrow> bool" where
  "not_submitted r \<longleftrightarrow> at_state (ra_row r) = A_not_submitted"

definition identity_issue :: "string \<Rightarrow> string \<Rightarrow> nat \<Rightarrow> nat \<Rightarrow> nat \<Rightarrow> issue list" where
  "identity_issue code run_id whole left right =
     (if whole \<noteq> left + right
      then [\<lparr>is_code = code, is_subject_id = run_id,
             is_detail = str_nat whole @ '' != '' @ str_nat left @ '' + '' @ str_nat right\<rparr>] else [])"

definition first_occurrences :: "'a list \<Rightarrow> 'a list" where
  "first_occurrences xs = rev (remdups (rev xs))"

definition primary_pairs :: "run_attempt list \<Rightarrow> string list" where
  "primary_pairs attempts = first_occurrences
     (List.map_filter (\<lambda>r. if at_attempt_kind (ra_row r) = Primary then at_pair_id (ra_row r) else None) attempts)"

definition pair_arms :: "run_attempt list \<Rightarrow> string \<Rightarrow> string list" where
  "pair_arms attempts p = text_sort (map (\<lambda>r. arm_name (at_arm (ra_row r)))
     (filter (\<lambda>r. at_attempt_kind (ra_row r) = Primary \<and> at_pair_id (ra_row r) = Some p) attempts))"

fun comma_quoted :: "string list \<Rightarrow> string" where
  "comma_quoted [] = []"
| "comma_quoted [x] = [CHR 0x27] @ x @ [CHR 0x27]"
| "comma_quoted (x # xs) = [CHR 0x27] @ x @ [CHR 0x27] @ '', '' @ comma_quoted xs"

definition pair_issues :: "run_attempt list \<Rightarrow> issue list" where
  "pair_issues attempts =
     map (\<lambda>p. \<lparr>is_code = ''primary_pair_arms'', is_subject_id = p,
                is_detail = ''arms=['' @ comma_quoted (pair_arms attempts p) @ '']''\<rparr>)
       (filter (\<lambda>p. pair_arms attempts p \<noteq> [''baseline'', ''xir'']) (primary_pairs attempts))"

definition retry_coordinates :: "attempt_row \<Rightarrow> string \<times> string option \<times> arm" where
  "retry_coordinates a = (at_condition_id a, at_pair_id a, at_arm a)"

definition retry_broken :: "run_attempt list \<Rightarrow> run_attempt \<Rightarrow> bool" where
  "retry_broken attempts r \<longleftrightarrow> at_attempt_kind (ra_row r) = Retry
     \<and> (case find (\<lambda>p. at_attempt_id (ra_row p) = (case at_retry_of (ra_row r) of None \<Rightarrow> ''None'' | Some i \<Rightarrow> i)) (rev attempts) of
          None \<Rightarrow> True | Some p \<Rightarrow> retry_coordinates (ra_row p) \<noteq> retry_coordinates (ra_row r))"

definition scope_open :: "string list \<Rightarrow> run_attempt \<Rightarrow> bool" where
  "scope_open scope r \<longleftrightarrow> at_attempt_id (ra_row r) \<in> set scope \<and> (\<not> ra_terminal_at_deadline r \<or> ra_pending r)"

definition attempt_issues :: "run_attempt list \<Rightarrow> string list \<Rightarrow> run_attempt \<Rightarrow> issue list" where
  "attempt_issues attempts scope r =
     (if retry_broken attempts r
      then [\<lparr>is_code = ''retry_lineage'', is_subject_id = at_attempt_id (ra_row r),
             is_detail = ''retry predecessor changed matching coordinates''\<rparr>] else [])
     @ (if scope_open scope r
      then [\<lparr>is_code = ''freeze_scope_pending'', is_subject_id = at_attempt_id (ra_row r),
             is_detail = ''scope attempt lacks reconciled deadline or has pending backfill''\<rparr>] else [])"

definition missing_issues :: "run_attempt list \<Rightarrow> string list \<Rightarrow> issue list" where
  "missing_issues attempts scope =
     map (\<lambda>i. \<lparr>is_code = ''freeze_scope_missing'', is_subject_id = i, is_detail = ''declared scope attempt is absent''\<rparr>)
       (text_sort (remdups (filter (\<lambda>i. i \<notin> (\<lambda>r. at_attempt_id (ra_row r)) ` set attempts) scope)))"

section \<open>Reconciliation\<close>

definition reconciliation_report_of ::
  "string \<Rightarrow> count_expectation list \<Rightarrow> run_attempt list \<Rightarrow> string list \<Rightarrow> reconciliation_report" where
  "reconciliation_report_of run_id expectations attempts scope =
     (let planned = length attempts; submitted = number_of ra_submitted attempts;
          unsent = number_of not_submitted attempts; terminal = number_of ra_terminal_at_deadline attempts;
          pending = number_of ra_pending attempts in
      \<lparr>rr_run_id = run_id, rr_planned = planned, rr_submitted = submitted, rr_not_submitted = unsent,
       rr_terminal_at_deadline = terminal, rr_pending_backfill = pending,
       rr_issues = count_issues expectations attempts
         @ identity_issue ''planned_submission_identity'' run_id planned submitted unsent
         @ identity_issue ''submitted_terminal_identity'' run_id submitted terminal pending
         @ pair_issues attempts @ concat (map (attempt_issues attempts scope) attempts) @ missing_issues attempts scope\<rparr>)"

definition reconcile_read ::
  "string \<Rightarrow> count_expectation list \<Rightarrow> string \<Rightarrow> evidence \<Rightarrow> exn + reconciliation_report" where
  "reconcile_read run_id expectations scope_id ev =
     bindE (require (find (\<lambda>s. sk_scope_id s = scope_id \<and> sk_run_id s = run_id) (ev_scopes ev))
              (ReconciliationError RE_no_scope)) (\<lambda>scope.
     bindE (ensure (distinct (map expectation_key expectations) \<and> list_all (\<lambda>e. \<not> ex_count e < 0) expectations)
              (ReconciliationError RE_expectations)) (\<lambda>_.
     Inr (reconciliation_report_of run_id expectations (run_attempts run_id ev) (sk_attempt_ids scope))))"

definition issue_detail :: "issue \<Rightarrow> (string \<times> json) list" where
  "issue_detail i = [(''subject_id'', JStr (is_subject_id i)), (''detail'', JStr (is_detail i))]"

definition issue_material :: "string \<Rightarrow> issue \<Rightarrow> json" where
  "issue_material run_id i = JObj ([(''run_id'', JStr run_id), (''code'', JStr (is_code i))] @ issue_detail i)"

text \<open>\<^verbatim>\<open>INSERT OR IGNORE\<close> of a violation; an unknown run is still refused.\<close>

definition violation_ignore :: "violation_row \<Rightarrow> db \<Rightarrow> exn + db" where
  "violation_ignore r db =
     (if list_ex (\<lambda>x. iv_violation_id x = iv_violation_id r) (t_violations db) then Inr db
      else bindE (ensure (find_run (iv_run_id r) db \<noteq> None) IntegrityError) (\<lambda>_.
           Inr (db\<lparr>t_violations := t_violations db @ [r]\<rparr>)))"

definition record_issues_txn :: "(json \<Rightarrow> string) \<Rightarrow> (issue \<Rightarrow> json) \<Rightarrow> string \<Rightarrow> issue list \<Rightarrow> unit ev_txn" where
  "record_issues_txn h details run_id issues ev =
     bindE (foldE (\<lambda>i. violation_ignore
              \<lparr>iv_violation_id = ''violation_'' @ take 24 (h (issue_material run_id i)), iv_run_id = run_id,
               iv_invariant_code = is_code i, iv_details = details i, iv_resolved_at = None\<rparr>) issues (ev_db ev)) (\<lambda>db.
     Inr ((), ev\<lparr>ev_db := db\<rparr>))"

definition reconcile ::
  "(json \<Rightarrow> string) \<Rightarrow> string \<Rightarrow> count_expectation list \<Rightarrow> string \<Rightarrow> bool \<Rightarrow> evidence \<Rightarrow> reconciliation_report ev_outcome" where
  "reconcile h run_id expectations scope_id record_violations ev =
     (case reconcile_read run_id expectations scope_id ev of
        Inl e \<Rightarrow> (Inl e, ev)
      | Inr report \<Rightarrow>
          if rr_issues report \<noteq> [] \<and> record_violations
          then (case store_write (record_issues_txn h (\<lambda>i. JObj (issue_detail i)) run_id (rr_issues report)) ev of
                  (Inl e, ev') \<Rightarrow> (Inl e, ev') | (Inr _, ev') \<Rightarrow> (Inr report, ev'))
          else (Inr report, ev))"

definition require_valid :: "reconciliation_report \<Rightarrow> exn + unit" where
  "require_valid report =
     ensure (rr_issues report = []) (ReconciliationError (RE_failed (length (rr_issues report))))"

end
