(* ===== verification/Xir_Demo_Route.thy ===== *)
theory Xir_Demo_Route
  imports Xir_Linking
begin

text \<open>
  A small run for the concrete instances: one condition, a pair of primary attempts \<open>b\<close> (baseline) and \<open>x\<close>, whose
  stages carry one transaction each, for \<open>x\<close> one on every chain of the fixed route.
\<close>

definition demo_route_attempt :: "string \<Rightarrow> arm \<Rightarrow> attempt_row" where
  "demo_route_attempt i a = \<lparr>at_attempt_id = i, at_condition_id = ''c'', at_pair_id = Some ''p'', at_arm = a, at_attempt_kind = Primary,
     at_original_attempt_kind = None, at_retry_of = None, at_schedule_index = None, at_batch_index = None,
     at_state = A_in_flight, at_created_at = 0\<rparr>"

definition demo_stage :: "string \<Rightarrow> string \<Rightarrow> int \<Rightarrow> int \<Rightarrow> stage_row" where
  "demo_stage i a n c = \<lparr>sg_stage_id = i, sg_attempt_id = a, sg_ordinal = n, sg_stage_name = i,
     sg_stage_template_id = Some i, sg_chain_id = Some c, sg_accounting_bucket = Some ''source'', sg_logical_labels = Some [],
     sg_state = G_in_flight\<rparr>"

definition demo_intent :: "string \<Rightarrow> int \<Rightarrow> intent_row" where
  "demo_intent i c = \<lparr>it_intent_id = i, it_stage_id = i, it_signer_operation_id = i, it_chain_id = c, it_nonce = 7,
     it_state = T_submitted, it_payload_sha256 = ''p'', it_approval_id = None, it_approval_payload_sha256 = None,
     it_signer_id = None, it_signer_identity_sha256 = None, it_network_identity_sha256 = None, it_quote_sha256 = None,
     it_quote_valid_until = None, it_simulation_sha256 = None, it_simulation_valid_until = None, it_reservation_id = None,
     it_reservation_stage_key = None, it_requested_wei = None, it_created_at = 0\<rparr>"

definition demo_tx :: "string \<Rightarrow> int \<Rightarrow> transaction_row" where
  "demo_tx i c = \<lparr>tx_transaction_id = i, tx_intent_id = i, tx_chain_id = c, tx_nonce = 7,
     tx_transaction_hash = Some (''0x'' @ i), tx_replaces_transaction_id = None, tx_state = T_submitted, tx_signed_sha256 = None,
     tx_signed_length = None, tx_spool_relative_path = None, tx_signer_returned_at = None, tx_signed_hash_persisted_at = None,
     tx_broadcast_started_at = None, tx_submitted_at = Some 1, tx_included_at = None, tx_finalized_at = None\<rparr>"

definition demo_legs :: "(string \<times> string \<times> int \<times> int) list" where
  "demo_legs = [(''x0'', ''x'', 0, 11155420), (''x1'', ''x'', 1, 421614), (''x2'', ''x'', 2, 84532), (''b0'', ''b'', 0, 11155420)]"

definition demo_route_db :: db where
  "demo_route_db = empty_db
    \<lparr>t_runs := [\<lparr>rn_run_id = ''run'', rn_profile_id = ''p'', rn_plan_sha256 = ''s'', rn_state = Run_other ''planned'', rn_created_at = 0\<rparr>],
     t_conditions := [\<lparr>cd_condition_id = ''c'', cd_run_id = ''run'', cd_carrier_sequence = ''HL'', cd_state = ''planned''\<rparr>],
     t_attempts := [demo_route_attempt ''x'' Xir, demo_route_attempt ''b'' Baseline],
     t_stages := map (\<lambda>(i, a, n, c). demo_stage i a n c) demo_legs,
     t_intents := map (\<lambda>(i, a, n, c). demo_intent i c) demo_legs,
     t_transactions := map (\<lambda>(i, a, n, c). demo_tx i c) demo_legs\<rparr>"

end
