(* ===== verification/Xir_Reconcile_Properties.thy ===== *)
theory Xir_Reconcile_Properties
  imports Xir_Reconcile Xir_Demo_Route "HOL-Library.Multiset"
begin

text \<open>
  Reconciliation against a reference definition that speaks about the stored rows and not about sorted lists,
  dictionaries and issues: a report is valid exactly when the run is reconciled.
\<close>

section \<open>Sorting keeps the rows\<close>

lemma mset_text_sort: "mset (text_sort ts) = mset ts"
proof -
  have "mset (text_insert s us) = add_mset s (mset us)" for s us by (induction us) auto
  then show ?thesis unfolding text_sort_def by (induction ts) auto
qed

lemma set_text_sort [simp]: "set (text_sort ts) = set ts"
  by (metis mset_text_sort set_mset_mset)

lemma text_sort_Nil_iff [simp]: "text_sort ts = [] \<longleftrightarrow> ts = []"
  by (metis mset_text_sort mset_zero_iff)

lemma mset_sort_by_key: "mset (sort_by_key f xs) = mset xs"
proof -
  have "mset (insert_item x ys) = add_mset x (mset ys)" for x and ys :: "(string \<times> 'a) list" by (induction ys) auto
  then have "mset (sorted_items ps) = mset ps" for ps :: "(string \<times> 'a) list"
    unfolding sorted_items_def by (induction ps) auto
  then show ?thesis by (simp add: sort_by_key_def image_mset.compositionality comp_def)
qed

lemma set_sort_by_key [simp]: "set (sort_by_key f xs) = set xs"
  by (metis mset_sort_by_key set_mset_mset)

lemma set_sort_keys [simp]: "set (sort_keys ks) = set ks"
  by (simp add: sort_keys_def)

lemma set_first_occurrences [simp]: "set (first_occurrences xs) = set xs"
  by (simp add: first_occurrences_def)

lemma mset_run_attempts: "mset (run_attempts run_id ev) = image_mset (run_attempt_of ev) (mset (run_attempt_rows run_id (ev_db ev)))"
  by (simp add: run_attempts_def mset_sort_by_key)

lemma set_run_attempts [simp]: "set (run_attempts run_id ev) = run_attempt_of ev ` set (run_attempt_rows run_id (ev_db ev))"
  by (simp add: run_attempts_def)

lemma number_of_run_attempts:
  "number_of p (run_attempts run_id ev) = length (filter (\<lambda>a. p (run_attempt_of ev a)) (run_attempt_rows run_id (ev_db ev)))"
proof -
  have sizes: "length (filter q xs) = size (filter_mset q (mset xs))" for q :: "run_attempt \<Rightarrow> bool" and xs by (metis mset_filter size_mset)
  show ?thesis unfolding number_of_def sizes mset_run_attempts filter_mset_image_mset
    by (simp add: comp_def flip: mset_filter)
qed

lemma run_attempt_of_simps [simp]:
  "ra_row (run_attempt_of ev a) = a" "ra_submitted (run_attempt_of ev a) = attempt_submitted (at_attempt_id a) (ev_db ev)"
  "ra_terminal_at_deadline (run_attempt_of ev a) = deadline_recorded (at_attempt_id a) ev"
  "ra_pending (run_attempt_of ev a) = backfill_pending (at_attempt_id a) ev"
  by (simp_all add: run_attempt_of_def)

section \<open>The reference\<close>

text \<open>What the schema says of the rows of \<^verbatim>\<open>attempts\<close>: a primary key, and a predecessor of every retry.\<close>

definition attempts_schema :: "db \<Rightarrow> bool" where
  "attempts_schema db \<longleftrightarrow> distinct (map at_attempt_id (t_attempts db))
     \<and> list_all (\<lambda>a. at_attempt_kind a = Retry \<longrightarrow> at_retry_of a \<noteq> None) (t_attempts db)"

definition rows_where :: "(attempt_row \<Rightarrow> bool) \<Rightarrow> string \<Rightarrow> evidence \<Rightarrow> nat" where
  "rows_where p run_id ev = length (filter p (run_attempt_rows run_id (ev_db ev)))"

definition primaries :: "string \<Rightarrow> string \<Rightarrow> evidence \<Rightarrow> attempt_row list" where
  "primaries p run_id ev =
     filter (\<lambda>a. at_attempt_kind a = Primary \<and> at_pair_id a = Some p) (run_attempt_rows run_id (ev_db ev))"

definition counts_agree :: "string \<Rightarrow> count_expectation list \<Rightarrow> evidence \<Rightarrow> bool" where
  "counts_agree run_id expectations ev \<longleftrightarrow>
     (\<forall>k. expected_count expectations k = int (rows_where (\<lambda>a. attempt_key (run_attempt_of ev a) = k) run_id ev))"

definition identities_hold :: "string \<Rightarrow> evidence \<Rightarrow> bool" where
  "identities_hold run_id ev \<longleftrightarrow>
     rows_where (\<lambda>_. True) run_id ev = rows_where (\<lambda>a. attempt_submitted (at_attempt_id a) (ev_db ev)) run_id ev
       + rows_where (\<lambda>a. at_state a = A_not_submitted) run_id ev
   \<and> rows_where (\<lambda>a. attempt_submitted (at_attempt_id a) (ev_db ev)) run_id ev
       = rows_where (\<lambda>a. deadline_recorded (at_attempt_id a) ev) run_id ev
       + rows_where (\<lambda>a. backfill_pending (at_attempt_id a) ev) run_id ev"

definition pairs_complete :: "string \<Rightarrow> evidence \<Rightarrow> bool" where
  "pairs_complete run_id ev \<longleftrightarrow> (\<forall>p. primaries p run_id ev = [] \<or> mset (map at_arm (primaries p run_id ev)) = {#Baseline, Xir#})"

definition retries_match :: "string \<Rightarrow> evidence \<Rightarrow> bool" where
  "retries_match run_id ev \<longleftrightarrow> (\<forall>a\<in>set (run_attempt_rows run_id (ev_db ev)). at_attempt_kind a = Retry \<longrightarrow>
     (\<exists>b\<in>set (run_attempt_rows run_id (ev_db ev)). at_retry_of a = Some (at_attempt_id b)
        \<and> at_condition_id b = at_condition_id a \<and> at_pair_id b = at_pair_id a \<and> at_arm b = at_arm a))"

definition scope_settled :: "string \<Rightarrow> string list \<Rightarrow> evidence \<Rightarrow> bool" where
  "scope_settled run_id scope ev \<longleftrightarrow> (\<forall>i\<in>set scope. deadline_recorded i ev \<and> \<not> backfill_pending i ev
     \<and> i \<in> at_attempt_id ` set (run_attempt_rows run_id (ev_db ev)))"

definition reconciled :: "string \<Rightarrow> count_expectation list \<Rightarrow> string list \<Rightarrow> evidence \<Rightarrow> bool" where
  "reconciled run_id expectations scope ev \<longleftrightarrow> counts_agree run_id expectations ev \<and> identities_hold run_id ev
     \<and> pairs_complete run_id ev \<and> retries_match run_id ev \<and> scope_settled run_id scope ev"

section \<open>Issue by issue\<close>

lemma actual_count_rows:
  "actual_count (run_attempts run_id ev) k = int (rows_where (\<lambda>a. attempt_key (run_attempt_of ev a) = k) run_id ev)"
  using number_of_run_attempts [of "\<lambda>r. attempt_key r = k"] by (simp add: actual_count_def number_of_def rows_where_def)

lemma count_issues_none:
  "count_issues expectations (run_attempts run_id ev) = [] \<longleftrightarrow> counts_agree run_id expectations ev"
proof -
  have out: "expected_count expectations k = actual_count (run_attempts run_id ev) k"
    if "k \<notin> set (map expectation_key expectations @ map attempt_key (run_attempts run_id ev))" for k
  proof -
    from that have "map_of (rev (map (\<lambda>e. (expectation_key e, ex_count e)) expectations)) k = None"
      by (force simp: map_of_eq_None_iff)
    moreover from that have "filter (\<lambda>r. attempt_key r = k) (run_attempts run_id ev) = []"
      by (force simp: filter_empty_conv)
    ultimately show ?thesis by (simp add: expected_count_def actual_count_def)
  qed
  have "count_issues expectations (run_attempts run_id ev) = []
      \<longleftrightarrow> (\<forall>k. expected_count expectations k = actual_count (run_attempts run_id ev) k)"
    unfolding count_issues_def using out
    by (simp only: map_is_Nil_conv filter_empty_conv set_sort_keys set_remdups) blast
  then show ?thesis by (simp add: counts_agree_def actual_count_rows)
qed

lemma identity_issue_none [simp]: "identity_issue code run_id whole left right = [] \<longleftrightarrow> whole = left + right"
  by (simp add: identity_issue_def)

lemma arm_name_inj: "arm_name a = arm_name b \<Longrightarrow> a = b"
  by (cases a; cases b) (simp_all add: arm_name_def)

lemma arms_sorted: "text_sort (map arm_name as) = [''baseline'', ''xir''] \<longleftrightarrow> mset as = {#Baseline, Xir#}"
proof
  assume "text_sort (map arm_name as) = [''baseline'', ''xir'']"
  then have "image_mset arm_name (mset as) = image_mset arm_name {#Baseline, Xir#}"
    using mset_text_sort [of "map arm_name as"] by (simp add: arm_name_def add_mset_commute)
  then show "mset as = {#Baseline, Xir#}" by (rule multiset.inj_map_strong [rotated]) (auto intro: arm_name_inj)
next
  assume ab: "mset as = {#Baseline, Xir#}"
  then have "length as = 2" by (metis size_mset size_add_mset size_empty numeral_2_eq_2)
  then obtain a b where "as = [a, b]" by (auto simp: length_Suc_conv numeral_2_eq_2)
  with ab have "as = [Baseline, Xir] \<or> as = [Xir, Baseline]" by (auto simp: add_eq_conv_ex)
  then show "text_sort (map arm_name as) = [''baseline'', ''xir'']"
    by (elim disjE) (simp_all only:, code_simp+)
qed

lemma pair_arms_mset: "mset (map at_arm (primaries p run_id ev)) = mset as \<Longrightarrow>
    pair_arms (run_attempts run_id ev) p = [''baseline'', ''xir''] \<longleftrightarrow> mset as = {#Baseline, Xir#}"
proof -
  assume "mset (map at_arm (primaries p run_id ev)) = mset as"
  moreover have "mset (map (\<lambda>r. at_arm (ra_row r)) (filter (\<lambda>r. at_attempt_kind (ra_row r) = Primary \<and> at_pair_id (ra_row r) = Some p)
      (run_attempts run_id ev))) = mset (map at_arm (primaries p run_id ev))"
    by (simp add: primaries_def mset_run_attempts filter_mset_image_mset image_mset.compositionality comp_def)
  ultimately show ?thesis
    using arms_sorted [of "map (\<lambda>r. at_arm (ra_row r)) (filter (\<lambda>r. at_attempt_kind (ra_row r) = Primary \<and> at_pair_id (ra_row r) = Some p)
      (run_attempts run_id ev))"] by (simp add: pair_arms_def comp_def)
qed

lemma pair_issues_none: "pair_issues (run_attempts run_id ev) = [] \<longleftrightarrow> pairs_complete run_id ev"
proof -
  have "p \<in> set (primary_pairs (run_attempts run_id ev)) \<longleftrightarrow> primaries p run_id ev \<noteq> []" for p
    by (auto simp: primary_pairs_def set_map_filter_xir primaries_def filter_empty_conv split: if_splits)
  then show ?thesis by (auto simp: pair_issues_def filter_empty_conv pairs_complete_def pair_arms_mset [OF refl])
qed

lemma retry_found:
  assumes "attempts_schema (ev_db ev)" and "a \<in> set (run_attempt_rows run_id (ev_db ev))"
  shows "retry_broken (run_attempts run_id ev) (run_attempt_of ev a) \<longleftrightarrow> at_attempt_kind a = Retry
    \<and> \<not> (\<exists>b\<in>set (run_attempt_rows run_id (ev_db ev)). at_retry_of a = Some (at_attempt_id b) \<and> retry_coordinates b = retry_coordinates a)"
proof (cases "at_attempt_kind a = Retry")
  case True
  let ?rows = "run_attempt_rows run_id (ev_db ev)"
  from assms True obtain i where i: "at_retry_of a = Some i" by (force simp: attempts_schema_def run_attempt_rows_def list_all_iff)
  have unique: "b = c" if "b \<in> set ?rows" "c \<in> set ?rows" "at_attempt_id b = at_attempt_id c" for b c
    using assms(1) that by (auto simp: attempts_schema_def run_attempt_rows_def distinct_map inj_on_def)
  show ?thesis
  proof (cases "find (\<lambda>p. at_attempt_id (ra_row p) = i) (rev (run_attempts run_id ev))")
    case None
    then have "at_attempt_id b \<noteq> i" if "b \<in> set ?rows" for b using that by (force simp: find_None_iff)
    with None True i show ?thesis by (auto simp: retry_broken_def)
  next
    case (Some p)
    from find_SomeD [OF Some] have "p \<in> run_attempt_of ev ` set ?rows" and p: "at_attempt_id (ra_row p) = i"
      by (simp_all only: set_rev set_run_attempts)
    then obtain b where b: "b \<in> set ?rows" "p = run_attempt_of ev b" by blast
    with p have "at_attempt_id b = i" by simp
    from Some True i b(2) have "retry_broken (run_attempts run_id ev) (run_attempt_of ev a) \<longleftrightarrow> retry_coordinates b \<noteq> retry_coordinates a"
      by (simp add: retry_broken_def)
    moreover have "(\<exists>c\<in>set ?rows. at_retry_of a = Some (at_attempt_id c) \<and> retry_coordinates c = retry_coordinates a)
        \<longleftrightarrow> retry_coordinates b = retry_coordinates a"
      using b(1) \<open>at_attempt_id b = i\<close> i unique by (metis option.inject)
    ultimately show ?thesis using True by simp
  qed
qed (simp add: retry_broken_def)

lemma attempt_issues_none:
  assumes "attempts_schema (ev_db ev)"
  shows "concat (map (attempt_issues (run_attempts run_id ev) scope) (run_attempts run_id ev)) = []
      \<and> missing_issues (run_attempts run_id ev) scope = []
    \<longleftrightarrow> retries_match run_id ev \<and> scope_settled run_id scope ev"
proof -
  let ?rows = "run_attempt_rows run_id (ev_db ev)"
  have "concat (map (attempt_issues (run_attempts run_id ev) scope) (run_attempts run_id ev)) = []
    \<longleftrightarrow> (\<forall>a\<in>set ?rows. \<not> retry_broken (run_attempts run_id ev) (run_attempt_of ev a) \<and> \<not> scope_open scope (run_attempt_of ev a))"
    by (auto simp: attempt_issues_def)
  moreover have "(\<forall>a\<in>set ?rows. \<not> retry_broken (run_attempts run_id ev) (run_attempt_of ev a)) \<longleftrightarrow> retries_match run_id ev"
    using retry_found [OF assms] by (auto simp: retries_match_def retry_coordinates_def)
  moreover have "missing_issues (run_attempts run_id ev) scope = [] \<longleftrightarrow> set scope \<subseteq> at_attempt_id ` set ?rows"
    by (auto simp: missing_issues_def filter_empty_conv image_image)
  moreover have "(\<forall>a\<in>set ?rows. \<not> scope_open scope (run_attempt_of ev a)) \<and> set scope \<subseteq> at_attempt_id ` set ?rows
      \<longleftrightarrow> scope_settled run_id scope ev"
    by (auto simp: scope_open_def scope_settled_def)
  ultimately show ?thesis by blast
qed

lemma report_valid:
  assumes "attempts_schema (ev_db ev)"
  shows "rr_issues (reconciliation_report_of run_id expectations (run_attempts run_id ev) scope) = []
    \<longleftrightarrow> reconciled run_id expectations scope ev"
proof -
  have "length (run_attempts run_id ev) = rows_where (\<lambda>_. True) run_id ev"
    using number_of_run_attempts [of "\<lambda>_. True"] by (simp add: number_of_def rows_where_def)
  then show ?thesis
    using attempt_issues_none [OF assms, of run_id scope]
    by (auto simp: reconciliation_report_of_def Let_def reconciled_def count_issues_none pair_issues_none identities_hold_def
        number_of_run_attempts not_submitted_def rows_where_def)
qed

section \<open>Reports\<close>

lemma find_run_violations [simp]: "find_run i (db\<lparr>t_violations := vs\<rparr>) = find_run i db"
  by (simp add: find_run_def)

text \<open>The row that records an issue. Recording only appends such rows, and leaves every issue on record.\<close>

definition issue_row :: "(json \<Rightarrow> string) \<Rightarrow> (issue \<Rightarrow> json) \<Rightarrow> string \<Rightarrow> issue \<Rightarrow> violation_row" where
  "issue_row h details run_id i =
     \<lparr>iv_violation_id = ''violation_'' @ take 24 (h (issue_material run_id i)), iv_run_id = run_id,
      iv_invariant_code = is_code i, iv_details = details i, iv_resolved_at = None\<rparr>"

lemma violations_ignored:
  assumes "foldE (\<lambda>i. violation_ignore (issue_row h details run_id i)) is db = Inr db'"
  shows "\<exists>vs. db' = db\<lparr>t_violations := t_violations db @ vs\<rparr> \<and> set vs \<subseteq> issue_row h details run_id ` set is
    \<and> (\<forall>i\<in>set is. \<exists>v\<in>set (t_violations db'). iv_violation_id v = iv_violation_id (issue_row h details run_id i))"
  using assms
proof (induction "is" arbitrary: db)
  case Nil
  then show ?case by (auto intro: exI [of _ "[]"])
next
  case (Cons i "is")
  then obtain mid where mid: "violation_ignore (issue_row h details run_id i) db = Inr mid"
    and rest: "foldE (\<lambda>i. violation_ignore (issue_row h details run_id i)) is mid = Inr db'" by (auto simp: exn_simps)
  let ?r = "issue_row h details run_id i"
  have "\<exists>us. mid = db\<lparr>t_violations := t_violations db @ us\<rparr> \<and> set us \<subseteq> {?r}
      \<and> (\<exists>v\<in>set (t_violations mid). iv_violation_id v = iv_violation_id ?r)"
  proof (cases "list_ex (\<lambda>x. iv_violation_id x = iv_violation_id ?r) (t_violations db)")
    case True
    with mid show ?thesis by (intro exI [of _ "[]"]) (auto simp: violation_ignore_def list_ex_iff)
  next
    case False
    with mid show ?thesis by (intro exI [of _ "[?r]"]) (auto simp: violation_ignore_def exn_simps)
  qed
  then obtain us where us: "mid = db\<lparr>t_violations := t_violations db @ us\<rparr>" "set us \<subseteq> {?r}"
    "\<exists>v\<in>set (t_violations mid). iv_violation_id v = iv_violation_id ?r" by blast
  from Cons.IH [OF rest] obtain vs where "db' = mid\<lparr>t_violations := t_violations mid @ vs\<rparr>"
    "set vs \<subseteq> issue_row h details run_id ` set is"
    "\<forall>i\<in>set is. \<exists>v\<in>set (t_violations db'). iv_violation_id v = iv_violation_id (issue_row h details run_id i)" by blast
  with us show ?case by (intro exI [of _ "us @ vs"]) auto
qed

lemma recorded_issues:
  assumes "record_issues_txn h details run_id issues ev = Inr (u, ev')"
  shows "\<exists>vs. ev' = ev\<lparr>ev_db := (ev_db ev)\<lparr>t_violations := t_violations (ev_db ev) @ vs\<rparr>\<rparr>
      \<and> set vs \<subseteq> issue_row h details run_id ` set issues"
    and "\<forall>i\<in>set issues. \<exists>v\<in>set (t_violations (ev_db ev')). iv_violation_id v = iv_violation_id (issue_row h details run_id i)"
  using assms violations_ignored [of h details run_id issues "ev_db ev"]
  by (auto simp: record_issues_txn_def issue_row_def exn_simps)

text \<open>
  C12. A reconciliation that returns found the declared scope, and its report passes \<^verbatim>\<open>require_valid\<close> exactly when the
  run is reconciled: the attempts of every condition, arm and kind are as many as expected, planned is submitted plus
  not submitted, submitted is terminal plus pending, every primary pair has one attempt of each arm, every retry
  has a predecessor of its run, condition, pair and arm, and every attempt of the scope belongs to the run, has a deadline
  outcome and no pending backfill. It writes nothing but rows of violations, one for an issue of the report, and
  only when it was asked to record them; then every issue of the report is on record under its identifier.
\<close>

theorem valid_report_is_reconciled:
  assumes "attempts_schema (ev_db ev)" and "reconcile h run_id expectations scope_id rec ev = (Inr report, ev')"
  shows "\<exists>s vs. s \<in> set (ev_scopes ev) \<and> sk_scope_id s = scope_id \<and> sk_run_id s = run_id
    \<and> (require_valid report = Inr () \<longleftrightarrow> reconciled run_id expectations (sk_attempt_ids s) ev)
    \<and> ev' = ev\<lparr>ev_db := (ev_db ev)\<lparr>t_violations := t_violations (ev_db ev) @ vs\<rparr>\<rparr>
    \<and> set vs \<subseteq> issue_row h (\<lambda>i. JObj (issue_detail i)) run_id ` set (rr_issues report)
    \<and> (if rec then (\<forall>i\<in>set (rr_issues report). \<exists>v\<in>set (t_violations (ev_db ev')).
          iv_violation_id v = ''violation_'' @ take 24 (h (issue_material run_id i))) else vs = [])"
proof -
  let ?details = "\<lambda>i. JObj (issue_detail i)"
  from assms(2) obtain s where s: "find (\<lambda>s. sk_scope_id s = scope_id \<and> sk_run_id s = run_id) (ev_scopes ev) = Some s"
    and report: "report = reconciliation_report_of run_id expectations (run_attempts run_id ev) (sk_attempt_ids s)"
    and ev': "if rr_issues report \<noteq> [] \<and> rec then \<exists>u. record_issues_txn h ?details run_id (rr_issues report) ev = Inr (u, ev') else ev' = ev"
    by (auto simp: reconcile_def reconcile_read_def store_write_def exn_simps split: sum.splits if_splits prod.splits)
  have "require_valid report = Inr () \<longleftrightarrow> rr_issues report = []" by (simp add: require_valid_def exn_simps)
  with report_valid [OF assms(1)] report
  have valid: "require_valid report = Inr () \<longleftrightarrow> reconciled run_id expectations (sk_attempt_ids s) ev" by simp
  have "\<exists>vs. ev' = ev\<lparr>ev_db := (ev_db ev)\<lparr>t_violations := t_violations (ev_db ev) @ vs\<rparr>\<rparr>
    \<and> set vs \<subseteq> issue_row h ?details run_id ` set (rr_issues report)
    \<and> (if rec then (\<forall>i\<in>set (rr_issues report). \<exists>v\<in>set (t_violations (ev_db ev')).
          iv_violation_id v = ''violation_'' @ take 24 (h (issue_material run_id i))) else vs = [])"
  proof (cases "rr_issues report \<noteq> [] \<and> rec")
    case True
    with ev' obtain u where "record_issues_txn h ?details run_id (rr_issues report) ev = Inr (u, ev')" by auto
    from recorded_issues [OF this] True show ?thesis by (auto simp: issue_row_def)
  next
    case False
    with ev' show ?thesis by (intro exI [of _ "[]"]) auto
  qed
  with find_SomeD [OF s] valid show ?thesis by blast
qed

definition demo_reconciled :: evidence where
  "demo_reconciled = (empty_evidence demo_route_db)
    \<lparr>ev_outcomes := map (\<lambda>a. \<lparr>ao_observation_id = a, ao_attempt_id = a, ao_kind = OK_deadline, ao_outcome = ''delivered'',
       ao_failure_source = None, ao_failure_code = None, ao_observation_horizon_ms = None, ao_observed_utc = 5,
       ao_observer_session_id = ''o'', ao_observed_monotonic_ns = 5, ao_proof_finality_observation_id = None\<rparr>) [''b'', ''x''],
     ev_scopes := [\<lparr>sk_scope_id = ''s'', sk_run_id = ''run'', sk_version = 1, sk_attempt_ids = [''b'', ''x''], sk_scope_sha256 = [],
       sk_prior_freeze_id = None, sk_prior_freeze_sha256 = None, sk_declared_at = 0\<rparr>]\<rparr>"

definition demo_expectations :: "count_expectation list" where
  "demo_expectations = map (\<lambda>a. \<lparr>ex_condition = ''HL'', ex_arm = a, ex_attempt_kind = ''primary'', ex_count = 1\<rparr>) [''xir'', ''baseline'']"

text \<open>A second store, whose baseline attempt has no outcome; its report has an issue, which is recorded.\<close>

definition demo_unreconciled :: evidence where
  "demo_unreconciled = demo_reconciled\<lparr>ev_outcomes := []\<rparr>"

theorem valid_report_is_reconciled_witness:
  "snd (reconcile (\<lambda>_. ''h'') ''run'' demo_expectations ''s'' True demo_reconciled) = demo_reconciled
     \<and> reconciled ''run'' demo_expectations [''b'', ''x''] demo_reconciled
     \<and> ''violation_h'' \<in> iv_violation_id ` set (t_violations (ev_db
          (snd (reconcile (\<lambda>_. ''h'') ''run'' demo_expectations ''s'' True demo_unreconciled))))"
proof -
  let ?r = "reconcile (\<lambda>_. ''h'') ''run'' demo_expectations ''s'' True demo_reconciled"
  let ?q = "reconcile (\<lambda>_. ''h'') ''run'' demo_expectations ''s'' True demo_unreconciled"
  have schema: "attempts_schema (ev_db demo_reconciled)" by code_simp
  then have schema2: "attempts_schema (ev_db demo_unreconciled)" by (simp add: demo_unreconciled_def)
  have "case fst ?r of Inl _ \<Rightarrow> False | Inr report \<Rightarrow> rr_issues report = []" by code_simp
  then obtain report where "?r = (Inr report, snd ?r)" and none: "rr_issues report = []"
    by (cases ?r) (auto split: sum.splits)
  from valid_report_is_reconciled [OF schema this(1)] none
  have one: "snd ?r = demo_reconciled" "reconciled ''run'' demo_expectations [''b'', ''x''] demo_reconciled"
    by (auto simp: demo_reconciled_def require_valid_def)
  have "case fst ?q of Inl _ \<Rightarrow> False | Inr report \<Rightarrow> rr_issues report \<noteq> []" by code_simp
  then obtain report where q: "?q = (Inr report, snd ?q)" and some: "rr_issues report \<noteq> []"
    by (cases ?q) (auto split: sum.splits)
  from some have "hd (rr_issues report) \<in> set (rr_issues report)" by simp
  moreover from valid_report_is_reconciled [OF schema2 q] have "\<forall>i\<in>set (rr_issues report).
      \<exists>v\<in>set (t_violations (ev_db (snd ?q))). iv_violation_id v = ''violation_'' @ take 24 ''h''" by auto
  ultimately have "\<exists>v\<in>set (t_violations (ev_db (snd ?q))). iv_violation_id v = ''violation_'' @ take 24 ''h''" by (rule bspec [rotated])
  then have "''violation_h'' \<in> iv_violation_id ` set (t_violations (ev_db (snd ?q)))" by (auto intro: rev_image_eqI)
  with one show ?thesis by simp
qed

text \<open>
  The identities are of totals only: here the baseline attempt was submitted and has neither a deadline outcome nor a
  pending backfill, the other one was never submitted and has a deadline outcome, and the report is valid.
\<close>

definition demo_compensated :: evidence where
  "demo_compensated = (let e = demo_reconciled in e
    \<lparr>ev_db := demo_route_db\<lparr>t_attempts := [(demo_route_attempt ''x'' Xir)\<lparr>at_state := A_not_submitted\<rparr>, demo_route_attempt ''b'' Baseline],
       t_transactions := [demo_tx ''b0'' 11155420]\<rparr>,
     ev_outcomes := filter (\<lambda>r. ao_attempt_id r = ''x'') (ev_outcomes e),
     ev_scopes := map (sk_attempt_ids_update (\<lambda>_. [''x''])) (ev_scopes e)\<rparr>)"

lemma identities_compensate:
  "(case fst (reconcile (\<lambda>_. ''h'') ''run'' demo_expectations ''s'' True demo_compensated) of
      Inl _ \<Rightarrow> False | Inr report \<Rightarrow> rr_issues report = [])
   \<and> attempt_submitted ''b'' (ev_db demo_compensated) \<and> \<not> deadline_recorded ''b'' demo_compensated
   \<and> \<not> backfill_pending ''b'' demo_compensated \<and> \<not> attempt_submitted ''x'' (ev_db demo_compensated)"
  by code_simp

end
