(* ===== verification/Xir_Validator.thy ===== *)
theory Xir_Validator
  imports Xir_Reconcile Xir_Raw
begin

text \<open>
  \<^verbatim>\<open>analysis/invariants.py\<close>: the checks across tables that run before any aggregation. \<open>validate\<close> reads
  the evidence and the raw store and reports one issue for each attempt, transaction, budget or resource that does not
  fit; it may record them. \<open>sha\<close> is SHA-256 of bytes, \<open>h\<close> the digest of canonical JSON.
\<close>

section \<open>Issues of an attempt\<close>

definition issue_of :: "string \<Rightarrow> string \<Rightarrow> string \<Rightarrow> issue" where
  "issue_of code subject detail = \<lparr>is_code = code, is_subject_id = subject, is_detail = detail\<rparr>"

record invariant_report =
  vr_run_id :: string
  vr_checked_attempts :: nat
  vr_issues :: "issue list"

fun comma_ints :: "int list \<Rightarrow> string" where
  "comma_ints [] = []"
| "comma_ints [x] = str_int x"
| "comma_ints (x # xs) = str_int x @ '', '' @ comma_ints xs"

definition stages_of_attempt :: "string \<Rightarrow> db \<Rightarrow> stage_row list" where
  "stages_of_attempt attempt_id db = sort_key sg_ordinal (filter (\<lambda>s. sg_attempt_id s = attempt_id) (t_stages db))"

definition untemplated :: "stage_row \<Rightarrow> bool" where
  "untemplated s \<longleftrightarrow> sg_stage_template_id s = None \<or> sg_chain_id s = None \<or> sg_accounting_bucket s = None
     \<or> sg_logical_labels s = None"

definition stage_issues :: "string \<Rightarrow> stage_row list \<Rightarrow> issue list" where
  "stage_issues attempt_id stages =
     (if stages = [] then [issue_of ''stage_template'' attempt_id ''formal attempt has no preregistered stages''] else [])
     @ (if map sg_ordinal stages \<noteq> map int [0..<length stages]
        then [issue_of ''stage_ordinals'' attempt_id (''ordinals=['' @ comma_ints (map sg_ordinal stages) @ '']'')] else [])
     @ map (\<lambda>s. issue_of ''stage_template'' (sg_stage_id s) ''formal stage lacks frozen template metadata'')
         (filter untemplated stages)"

definition unlinked_message :: "carrier_message_row \<Rightarrow> bool" where
  "unlinked_message m \<longleftrightarrow> cm_source_transaction_id m = None \<or> cm_destination_transaction_id m = None
     \<or> cm_payload_sha256 m = None"

definition message_issues :: "string \<Rightarrow> carrier_message_row list \<Rightarrow> issue list" where
  "message_issues attempt_id messages =
     (if messages = [] then []
      else (if map cm_leg_index messages \<noteq> [0, 1]
            then [issue_of ''carrier_leg_continuity'' attempt_id ''carrier path is not exactly legs 0 and 1''] else [])
         @ map (\<lambda>m. issue_of ''carrier_transaction_link'' (cm_carrier_message_id m)
                       ''carrier record lacks transaction or payload link'') (filter unlinked_message messages))"

definition trace_issues :: "string \<Rightarrow> arm \<Rightarrow> xir_record_row option \<Rightarrow> issue list" where
  "trace_issues attempt_id arm xir =
     (if arm = Xir
      then (case xir of
              None \<Rightarrow> [issue_of ''xir_trace_missing'' attempt_id ''XIR arm lacks RID/MID trace'']
            | Some r \<Rightarrow> if \<not> (xr_intermediate_verified r \<and> xr_destination_verified r \<and> xr_effect_succeeded r)
                then [issue_of ''xir_destination_effect'' attempt_id ''XIR verification/effect is not successful''] else [])
      else (case xir of
              None \<Rightarrow> []
            | Some _ \<Rightarrow> [issue_of ''baseline_xir_contamination'' attempt_id ''baseline arm contains an XIR trace'']))"

definition current_finality :: "string \<Rightarrow> evidence \<Rightarrow> finality_row option" where
  "current_finality transaction_id ev =
     find (\<lambda>x. fo_transaction_id x = transaction_id
              \<and> \<not> list_ex (\<lambda>l. fo_supersedes l = Some (fo_observation_id x)) (ev_finality ev)) (ev_finality ev)"

definition finality_issues :: "string \<Rightarrow> evidence \<Rightarrow> issue list" where
  "finality_issues attempt_id ev =
     map (\<lambda>t. issue_of ''finality'' (tx_transaction_id t) ''finalized transaction lacks current canonical finality'')
       (filter (\<lambda>t. tx_state t = T_finalized
                  \<and> (case current_finality (tx_transaction_id t) ev of
                       None \<Rightarrow> True | Some x \<Rightarrow> fo_state x \<noteq> F_finalized \<or> \<not> fo_canonical x))
          (attempt_transactions attempt_id (ev_db ev)))"

definition validate_attempt :: "evidence \<Rightarrow> string \<Rightarrow> issue list" where
  "validate_attempt ev attempt_id =
     (case find_attempt attempt_id (ev_db ev) of
        None \<Rightarrow> [issue_of ''scope_attempt_missing'' attempt_id ''attempt absent'']
      | Some a \<Rightarrow>
          stage_issues attempt_id (stages_of_attempt attempt_id (ev_db ev))
          @ message_issues attempt_id (attempt_messages attempt_id ev)
          @ trace_issues attempt_id (at_arm a) (find (\<lambda>x. xr_attempt_id x = attempt_id) (ev_xir_records ev))
          @ finality_issues attempt_id ev)"

section \<open>Issues of a run\<close>

definition unresolved_issues :: "string \<Rightarrow> db \<Rightarrow> issue list" where
  "unresolved_issues run_id db =
     map (\<lambda>v. issue_of ''unresolved_invariant'' (iv_violation_id v) (iv_invariant_code v))
       (filter (\<lambda>v. iv_run_id v = run_id \<and> iv_resolved_at v = None) (t_violations db))"

definition run_id_of_transaction :: "transaction_row \<Rightarrow> db \<Rightarrow> string option" where
  "run_id_of_transaction t db =
     Option.bind (stage_of_transaction t db) (\<lambda>g. Option.bind (find_attempt (sg_attempt_id g) db) (\<lambda>a.
       map_option cd_run_id (find_condition (at_condition_id a) db)))"

definition nonce_use :: "db \<Rightarrow> transaction_row \<Rightarrow> (int \<times> string option \<times> int) option" where
  "nonce_use db t = map_option (\<lambda>i. (tx_chain_id t, it_signer_id i, tx_nonce t)) (find_intent (tx_intent_id t) db)"

definition first_uses :: "string \<Rightarrow> db \<Rightarrow> (int \<times> string option \<times> int) list" where
  "first_uses run_id db = List.map_filter (nonce_use db)
     (filter (\<lambda>t. run_id_of_transaction t db = Some run_id \<and> tx_replaces_transaction_id t = None) (t_transactions db))"

text \<open>Groups come in the order of their keys, a null signer before all others.\<close>

definition signer_key :: "string option \<Rightarrow> string" where
  "signer_key s = (case s of None \<Rightarrow> [] | Some i \<Rightarrow> CHR 0x01 # i)"

definition signer_text :: "string option \<Rightarrow> string" where
  "signer_text s = (case s of None \<Rightarrow> ''None'' | Some i \<Rightarrow> i)"

definition nonce_issues :: "string \<Rightarrow> db \<Rightarrow> issue list" where
  "nonce_issues run_id db =
     map (\<lambda>k. issue_of ''nonce_uniqueness'' (str_int (fst k) @ '':'' @ signer_text (fst (snd k)) @ '':'' @ str_int (snd (snd k)))
                (''lineages='' @ str_nat (count_list (first_uses run_id db) k)))
       (filter (\<lambda>k. 1 < count_list (first_uses run_id db) k)
         (sort_key fst (sort_by_key (\<lambda>k. signer_key (fst (snd k))) (sort_key (\<lambda>k. snd (snd k)) (remdups (first_uses run_id db))))))"

text \<open>The replacements of all runs.\<close>

definition replacement_issues :: "db \<Rightarrow> issue list" where
  "replacement_issues db =
     map (\<lambda>t. issue_of ''replacement_lineage'' (tx_transaction_id t) ''replacement changed intent, chain, or nonce'')
       (filter (\<lambda>t. case Option.bind (tx_replaces_transaction_id t) (\<lambda>p. find_transaction p db) of
                      None \<Rightarrow> False
                    | Some p \<Rightarrow> tx_intent_id t \<noteq> tx_intent_id p \<or> tx_chain_id t \<noteq> tx_chain_id p \<or> tx_nonce t \<noteq> tx_nonce p)
          (t_transactions db))"

text \<open>SQLite's sum of integers raises on overflow.\<close>

definition sql_sum :: "int list \<Rightarrow> exn + int" where
  "sql_sum xs = foldE (\<lambda>x s. if int64 (s + x) then Inr (s + x) else Inl ExternalError) xs 0"

definition budget_subs :: "budget_row \<Rightarrow> db \<Rightarrow> sub_row list" where
  "budget_subs b db =
     filter (\<lambda>s. sb_reservation_id s = bg_reservation_id b \<and> sb_chain_id s = bg_chain_id b) (t_subs db)"

definition check_budget_sums :: "db \<Rightarrow> budget_row \<Rightarrow> issue list \<Rightarrow> exn + issue list" where
  "check_budget_sums db b issues =
     bindE (sql_sum (map sb_provisional_wei (budget_subs b db))) (\<lambda>provisional.
     bindE (sql_sum (map sb_finalized_wei (budget_subs b db))) (\<lambda>finalized.
     Inr (if bg_provisional_wei b \<noteq> provisional \<or> bg_finalized_wei b \<noteq> finalized
          then issues @ [issue_of ''budget_arithmetic'' (bg_reservation_id b @ '':'' @ str_int (bg_chain_id b))
                           ''budget and subreservation totals differ'']
          else issues)))"

definition budget_issues :: "string \<Rightarrow> db \<Rightarrow> exn + issue list" where
  "budget_issues run_id db =
     foldE (check_budget_sums db)
       (sort_by_key bg_reservation_id (sort_key bg_chain_id (filter (\<lambda>b. bg_run_id b = run_id) (t_budgets db)))) []"

definition resource_issues_of :: "resource_row \<Rightarrow> issue list" where
  "resource_issues_of r =
     (if rc_execution_fee_wei r \<noteq> rc_gas_used r * rc_effective_gas_price_wei r
      then [issue_of ''resource_arithmetic'' (rc_transaction_id r)
              (''execution_fee_wei != '' @ str_int (rc_gas_used r * rc_effective_gas_price_wei r))] else [])
     @ (if (rc_l1_data_fee_wei r = None) = (rc_l1_data_fee_unavailable_reason r = None)
        then [issue_of ''null_reason'' (rc_transaction_id r)
                ''L1 data fee needs exactly one value or unavailable reason''] else [])"

definition resource_issues :: "string \<Rightarrow> evidence \<Rightarrow> issue list" where
  "resource_issues run_id ev =
     concat (map resource_issues_of
       (filter (\<lambda>r. Option.bind (find_transaction (rc_transaction_id r) (ev_db ev)) (\<lambda>t. run_id_of_transaction t (ev_db ev))
                      = Some run_id) (ev_resources ev)))"

definition raw_issues :: "raw_report \<Rightarrow> issue list" where
  "raw_issues r = (let closed = ''raw evidence store is not closed and exact'' in
     map (\<lambda>d. issue_of ''raw_missing'' d closed) (rp_missing r)
     @ map (\<lambda>d. issue_of ''raw_corrupt'' d closed) (rp_corrupt r)
     @ map (\<lambda>d. issue_of ''raw_orphans'' d closed) (rp_orphans r))"

section \<open>Validation\<close>

definition validation_report ::
  "string \<Rightarrow> string list \<Rightarrow> evidence \<Rightarrow> issue list \<Rightarrow> raw_report \<Rightarrow> invariant_report" where
  "validation_report run_id attempt_ids ev budgets raw =
     \<lparr>vr_run_id = run_id, vr_checked_attempts = length attempt_ids,
      vr_issues = unresolved_issues run_id (ev_db ev) @ concat (map (validate_attempt ev) attempt_ids)
        @ nonce_issues run_id (ev_db ev) @ replacement_issues (ev_db ev)
        @ budgets @ resource_issues run_id ev @ raw_issues raw\<rparr>"

definition validate_read ::
  "(string \<Rightarrow> string) \<Rightarrow> string \<Rightarrow> string \<Rightarrow> raw_world \<Rightarrow> exn + invariant_report" where
  "validate_read sha run_id scope_id w =
     bindE (require (find (\<lambda>s. sk_scope_id s = scope_id \<and> sk_run_id s = run_id) (ev_scopes (rs_ev w))) ValueError) (\<lambda>scope.
     bindE (budget_issues run_id (ev_db (rs_ev w))) (\<lambda>budgets.
     bindE (repair_raw sha w) (\<lambda>raw.
     Inr (validation_report run_id (sk_attempt_ids scope) (rs_ev w) budgets raw))))"

definition validate ::
  "(json \<Rightarrow> string) \<Rightarrow> (string \<Rightarrow> string) \<Rightarrow> string \<Rightarrow> string \<Rightarrow> bool \<Rightarrow> (raw_world, invariant_report) action" where
  "validate h sha run_id scope_id record_violations w =
     (case validate_read sha run_id scope_id w of
        Inl e \<Rightarrow> (Inl e, w)
      | Inr report \<Rightarrow>
          if vr_issues report \<noteq> [] \<and> record_violations
          then (case store_write (record_issues_txn h (issue_material run_id) run_id (vr_issues report)) (rs_ev w) of
                  (Inl e, ev') \<Rightarrow> (Inl e, w\<lparr>rs_ev := ev'\<rparr>) | (Inr _, ev') \<Rightarrow> (Inr report, w\<lparr>rs_ev := ev'\<rparr>))
          else (Inr report, w))"

definition report_valid :: "invariant_report \<Rightarrow> bool" where
  "report_valid r \<longleftrightarrow> vr_issues r = []"

end
