(* ===== verification/Xir_Ledger_Backing.thy ===== *)
theory Xir_Ledger_Backing
  imports Xir_Ledger_Properties
begin

text \<open>
  The provisional and finalized wei of a reservation row are the sums over its sub-reservations, in every reachable
  ledger: the fact the validator of the evidence checks.
\<close>

definition sub_total :: "(sub_row \<Rightarrow> int) \<Rightarrow> budget_row \<Rightarrow> sub_row list \<Rightarrow> int" where
  "sub_total g b ss =
     total (\<lambda>s. if sb_reservation_id s = bg_reservation_id b \<and> sb_chain_id s = bg_chain_id b then g s else 0) ss"

definition row_backed :: "sub_row list \<Rightarrow> budget_row \<Rightarrow> bool" where
  "row_backed ss b \<longleftrightarrow> bg_provisional_wei b = sub_total sb_provisional_wei b ss
     \<and> bg_finalized_wei b = sub_total sb_finalized_wei b ss"

definition rows_backed :: "db \<Rightarrow> bool" where
  "rows_backed d \<longleftrightarrow> (\<forall>b\<in>set (t_budgets d). row_backed (t_subs d) b)"

section \<open>Updates\<close>

definition neutral_sub :: "(sub_row \<Rightarrow> sub_row) \<Rightarrow> bool" where
  "neutral_sub f \<longleftrightarrow> (\<forall>s. sb_reservation_id (f s) = sb_reservation_id s \<and> sb_chain_id (f s) = sb_chain_id s
     \<and> sb_provisional_wei (f s) = sb_provisional_wei s \<and> sb_finalized_wei (f s) = sb_finalized_wei s)"

definition neutral_budget :: "(budget_row \<Rightarrow> budget_row) \<Rightarrow> bool" where
  "neutral_budget g \<longleftrightarrow> (\<forall>b. bg_reservation_id (g b) = bg_reservation_id b \<and> bg_chain_id (g b) = bg_chain_id b
     \<and> bg_provisional_wei (g b) = bg_provisional_wei b \<and> bg_finalized_wei (g b) = bg_finalized_wei b)"

lemma sub_total_neutral:
  assumes "neutral_sub f"
  shows "sub_total sb_provisional_wei b (update_where q f ss) = sub_total sb_provisional_wei b ss"
    and "sub_total sb_finalized_wei b (update_where q f ss) = sub_total sb_finalized_wei b ss"
  unfolding sub_total_def using assms by (auto simp: neutral_sub_def intro!: total_update_where_same)

lemma backed_neutral:
  assumes "rows_backed d" and "t_budgets d' = update_where p g (t_budgets d)" "neutral_budget g"
    and "t_subs d' = update_where q f (t_subs d)" "neutral_sub f"
  shows "rows_backed d'"
proof -
  have "row_backed (t_subs d') (g b)" "row_backed (t_subs d') b" if "row_backed (t_subs d) b" for b
    using that assms(3) sub_total_neutral [OF assms(5)] by (auto simp: row_backed_def neutral_budget_def assms(4) sub_total_def)
  with assms(1) show ?thesis by (auto simp: rows_backed_def assms(2) set_update_where)
qed

lemma backed_same: "rows_backed d \<Longrightarrow> t_budgets d' = t_budgets d \<Longrightarrow> t_subs d' = t_subs d \<Longrightarrow> rows_backed d'"
  by (simp add: rows_backed_def)

text \<open>One settling operation: the row of the lineage moves, and its budget row moves by the same amounts.\<close>

lemma backed_move:
  assumes "rows_backed d" and one: "filter (\<lambda>r. sb_lineage_id r = Some L) (t_subs d) = [s]"
    and subs: "t_subs d' = update_where (\<lambda>r. sb_lineage_id r = Some L) f (t_subs d)"
    and f: "sb_reservation_id (f s) = sb_reservation_id s" "sb_chain_id (f s) = sb_chain_id s"
    and budgets: "t_budgets d' = update_where (\<lambda>r. bg_reservation_id r = sb_reservation_id s \<and> bg_chain_id r = sb_chain_id s) g (t_budgets d)"
    and g: "\<And>b. bg_reservation_id (g b) = bg_reservation_id b \<and> bg_chain_id (g b) = bg_chain_id b
      \<and> bg_provisional_wei (g b) = bg_provisional_wei b + (sb_provisional_wei (f s) - sb_provisional_wei s)
      \<and> bg_finalized_wei (g b) = bg_finalized_wei b + (sb_finalized_wei (f s) - sb_finalized_wei s)"
  shows "rows_backed d'"
proof -
  have moved: "sub_total h b (t_subs d') = sub_total h b (t_subs d)
      + (if bg_reservation_id b = sb_reservation_id s \<and> bg_chain_id b = sb_chain_id s then h (f s) - h s else 0)" for h b
    unfolding sub_total_def subs by (subst total_update_where_unique [OF one]) (auto simp: f)
  have "row_backed (t_subs d') (if bg_reservation_id b = sb_reservation_id s \<and> bg_chain_id b = sb_chain_id s then g b else b)"
    if "row_backed (t_subs d) b" for b
    using that g [of b] moved [of _ b] moved [of _ "g b"] unfolding row_backed_def by (auto simp: sub_total_def)
  with assms(1) show ?thesis unfolding rows_backed_def budgets set_update_where by blast
qed

lemma event_rows [simp]:
  "t_budgets (lineage_event s b ty rd pd fd js at d) = t_budgets d" "t_subs (lineage_event s b ty rd pd fd js at d) = t_subs d"
  by (simp_all add: lineage_event_def budget_event_def)

section \<open>Operations\<close>

lemma settle_backed: "rows_backed d \<Longrightarrow> rows_backed (settle_completed_budget_rows i d)"
  unfolding settle_completed_budget_rows_def
  by (rule backed_neutral [where q = "\<lambda>_. False" and f = id]) (auto simp: neutral_budget_def neutral_sub_def)

lemma lineage_ops_backed:
  assumes inv: "ledger_inv d" and backed: "rows_backed d"
  shows "record_included_txn L spent at d = Inr (u, d') \<Longrightarrow> rows_backed d'"
    and "finalize_lineage_txn L spent at d = Inr (u, d') \<Longrightarrow> rows_backed d'"
    and "mark_lineage_pending_txn clk L st sst now d = Inr (u, d') \<Longrightarrow> rows_backed d'"
    and "release_dead_lineage_txn L pf destroyed manual pr at d = Inr (u, d') \<Longrightarrow> rows_backed d'"
    and "reopen_txn L v at d = Inr (r, d') \<Longrightarrow> rows_backed d'"
proof -
  have keys: "keys_ok d" and amounts: "\<And>s n b. lineage L d = Inr (s, n, b) \<Longrightarrow> sub_amounts_ok s"
    using inv lineage_amounts [OF inv] by (auto simp: ledger_inv_def ledger_core_def)
  note one = lineage_unique [OF keys]
  show "rows_backed d'" if run: "record_included_txn L spent at d = Inr (u, d')"
  proof -
    from run obtain s n b d2 d3 where lin: "lineage L d = Inr (s, n, b)"
      and d2: "update_budget_amounts s (\<lambda>b. b\<lparr>bg_provisional_wei := bg_provisional_wei b + (spent - sb_provisional_wei s)\<rparr>)
        (update_lineage_sub L (\<lambda>s. s\<lparr>sb_provisional_wei := spent, sb_state := S_included\<rparr>)
          (update_lineage_nonce L (\<lambda>n. n\<lparr>nl_state := N_included, nl_locked := True\<rparr>) d)) = Inr d2"
      and d3: "change_totals (bg_run_id b) (bg_batch_id b) (sb_chain_id s) 0 (spent - sb_provisional_wei s) 0 at d2 = Inr d3"
      and d': "t_budgets d' = t_budgets d3" "t_subs d' = t_subs d3"
      by (auto simp: record_included_txn_def exn_simps Let_def lineage_event_def budget_event_def)
    show ?thesis
      by (rule backed_move [OF backed one [OF lin], where f = "\<lambda>s. s\<lparr>sb_provisional_wei := spent, sb_state := S_included\<rparr>"])
        (auto simp: d' change_totals_frame [OF d3] update_budget_amountsD [OF d2] update_lineage_sub_def update_lineage_nonce_def)
  qed
  show "rows_backed d'" if run: "mark_lineage_pending_txn clk L st sst now d = Inr (u, d')"
    using run by (auto simp: mark_lineage_pending_txn_def exn_simps lineage_event_def budget_event_def update_lineage_sub_def
        update_lineage_nonce_def neutral_sub_def neutral_budget_def
        intro!: backed_neutral [OF backed, where p = "\<lambda>_. False" and g = id])
  show "rows_backed d'" if run: "release_dead_lineage_txn L pf destroyed manual pr at d = Inr (u, d')"
  proof (cases "d' = d")
    case False
    with run obtain s n b d2 ty js where d2: "change_totals (bg_run_id b) (bg_batch_id b) (sb_chain_id s) (- sb_reserved_wei s) 0 0 at
        (update_lineage_nonce L (\<lambda>n. n\<lparr>nl_state := N_released, nl_locked := False, nl_released_at := Some at\<rparr>)
          (update_lineage_sub L (\<lambda>s. s\<lparr>sb_state := S_released, sb_release_proof_sha256 := pf,
             sb_manual_release_decision_sha256 := manual, sb_signed_bytes_destroyed := destroyed\<rparr>) d)) = Inr d2"
      and d': "d' = settle_completed_budget_rows (sb_reservation_id s) (lineage_event s b ty (- sb_reserved_wei s) 0 0 js at d2)"
      unfolding release_dead_lineage_txn_def Let_def by (fastforce simp: exn_simps split: if_splits)
    have "rows_backed (lineage_event s b ty (- sb_reserved_wei s) 0 0 js at d2)"
      by (rule backed_neutral [OF backed, where p = "\<lambda>_. False" and g = id])
        (auto simp: change_totals_frame [OF d2] update_lineage_sub_def update_lineage_nonce_def neutral_sub_def neutral_budget_def)
    then show ?thesis unfolding d' by (rule settle_backed)
  qed (use backed in simp)
  show "rows_backed d'" if run: "finalize_lineage_txn L spent at d = Inr (u, d')"
  proof (cases "d' = d")
    case False
    with run obtain s n b d2 d3 js where lin: "lineage L d = Inr (s, n, b)" and st: "sb_state s \<noteq> S_finalized"
      and d2: "update_budget_amounts s (\<lambda>b. b\<lparr>bg_provisional_wei := bg_provisional_wei b - sb_provisional_wei s,
                      bg_finalized_wei := bg_finalized_wei b + spent\<rparr>)
        (update_lineage_nonce L (\<lambda>n. n\<lparr>nl_state := N_finalized, nl_locked := False, nl_released_at := Some at\<rparr>)
          (update_lineage_sub L (\<lambda>s. s\<lparr>sb_provisional_wei := 0, sb_finalized_wei := spent, sb_state := S_finalized\<rparr>) d)) = Inr d2"
      and d3: "change_totals (bg_run_id b) (bg_batch_id b) (sb_chain_id s) (- sb_reserved_wei s) (- sb_provisional_wei s) spent at d2 = Inr d3"
      and d': "d' = settle_completed_budget_rows (sb_reservation_id s)
        (lineage_event s b ''lineage_finalized'' (- sb_reserved_wei s) (- sb_provisional_wei s) spent js at d3)"
      unfolding finalize_lineage_txn_def Let_def by (auto simp: exn_simps split: if_splits)
    from amounts [OF lin] st have "sb_finalized_wei s = 0" by (simp add: sub_amounts_ok_def)
    then have "rows_backed (lineage_event s b ''lineage_finalized'' (- sb_reserved_wei s) (- sb_provisional_wei s) spent js at d3)"
      by (intro backed_move [OF backed one [OF lin], where f = "\<lambda>s. s\<lparr>sb_provisional_wei := 0, sb_finalized_wei := spent, sb_state := S_finalized\<rparr>"])
        (auto simp: change_totals_frame [OF d3] update_budget_amountsD [OF d2] update_lineage_sub_def update_lineage_nonce_def)
    then show ?thesis unfolding d' by (rule settle_backed)
  qed (use backed in simp)
  show "rows_backed d'" if run: "reopen_txn L v at d = Inr (r, d')"
  proof -
    from run obtain s n b where lin: "lineage L d = Inr (s, n, b)" by (auto simp: reopen_txn_def exn_simps)
    consider (inc) "sb_state s = S_included" "reopen_included L s b at d = Inr d'"
      | (fin) "sb_state s = S_finalized" "reopen_finalized L s b at d = Inr d'"
      | (halt) e where "halt_after_reorg v L (bg_run_id b) e (sb_chain_id s) d = Inr d'"
      using run lin by (auto simp: reopen_txn_def exn_simps split: if_splits sum.splits exn.splits)
    then show ?thesis
    proof cases
      case inc
      then obtain d2 d3 where d2: "update_budget_amounts s (\<lambda>b. b\<lparr>bg_provisional_wei := bg_provisional_wei b - sb_provisional_wei s\<rparr>)
          (update_lineage_nonce L (\<lambda>n. n\<lparr>nl_state := N_active, nl_locked := True, nl_released_at := None\<rparr>)
            (update_lineage_sub L (\<lambda>s. s\<lparr>sb_provisional_wei := 0, sb_state := S_reopened\<rparr>) d)) = Inr d2"
        and d3: "change_totals (bg_run_id b) (bg_batch_id b) (sb_chain_id s) 0 (- sb_provisional_wei s) 0 at d2 = Inr d3"
        and d': "t_budgets d' = t_budgets d3" "t_subs d' = t_subs d3"
        by (auto simp: reopen_included_def exn_simps Let_def)
      show ?thesis
        by (rule backed_move [OF backed one [OF lin], where f = "\<lambda>s. s\<lparr>sb_provisional_wei := 0, sb_state := S_reopened\<rparr>"])
          (auto simp: d' change_totals_frame [OF d3] update_budget_amountsD [OF d2] update_lineage_sub_def update_lineage_nonce_def)
    next
      case fin
      then obtain d2 d3 where d2: "update_budget_amounts s (\<lambda>b. b\<lparr>bg_finalized_wei := bg_finalized_wei b - sb_finalized_wei s, bg_state := B_in_flight\<rparr>)
          (update_lineage_nonce L (\<lambda>n. n\<lparr>nl_state := N_active, nl_locked := True, nl_released_at := None\<rparr>)
            (update_lineage_sub L (\<lambda>s. s\<lparr>sb_finalized_wei := 0, sb_state := S_reopened\<rparr>) d)) = Inr d2"
        and d3: "change_totals (bg_run_id b) (bg_batch_id b) (sb_chain_id s) (sb_reserved_wei s) 0 (- sb_finalized_wei s) at d2 = Inr d3"
        and d': "t_budgets d' = t_budgets d3" "t_subs d' = t_subs d3"
        by (auto simp: reopen_finalized_def exn_simps Let_def)
      show ?thesis
        by (rule backed_move [OF backed one [OF lin], where f = "\<lambda>s. s\<lparr>sb_finalized_wei := 0, sb_state := S_reopened\<rparr>"])
          (auto simp: d' change_totals_frame [OF d3] update_budget_amountsD [OF d2] update_lineage_sub_def update_lineage_nonce_def)
    next
      case halt
      then have "t_budgets d' = t_budgets d" "t_subs d' = t_subs d" by (auto simp: halt_after_reorg_def exn_simps set_run_state_def)
      then show ?thesis by (rule backed_same [OF backed])
    qed
  qed
qed

text \<open>A new reservation row has no sub-reservations yet, and a new sub-reservation has spent nothing.\<close>

definition owned :: "db \<Rightarrow> bool" where
  "owned d \<longleftrightarrow> (\<forall>s\<in>set (t_subs d). owner (t_budgets d) s \<noteq> None)"

lemma sub_total_fresh:
  assumes "owned d" and "\<forall>x\<in>set (t_budgets d). (bg_reservation_id x, bg_chain_id x) \<noteq> (bg_reservation_id b, bg_chain_id b)"
  shows "sub_total h b (t_subs d) = 0"
  unfolding sub_total_def
proof (rule total_zero)
  fix s assume "s \<in> set (t_subs d)"
  with assms(1) obtain x where "owner (t_budgets d) s = Some x" by (auto simp: owned_def)
  then have "x \<in> set (t_budgets d)" "bg_reservation_id x = sb_reservation_id s" "bg_chain_id x = sb_chain_id s"
    by (auto simp: owner_def dest: find_SomeD)
  with assms(2) show "(if sb_reservation_id s = bg_reservation_id b \<and> sb_chain_id s = bg_chain_id b then h s else 0) = 0"
    by auto
qed

lemma reserve_chain_backed:
  assumes "rows_backed d" and own: "owned d" and run: "reserve_chain i a r b at cv d = Inr d'"
  shows "rows_backed d' \<and> owned d'"
proof -
  obtain c v where cv: "cv = (c, v)" by fastforce
  from run cv obtain row where row: "t_budgets d' = t_budgets d @ [row]" "bg_reservation_id row = i" "bg_chain_id row = c"
      "bg_provisional_wei row = 0" "bg_finalized_wei row = 0"
    and subs: "t_subs d' = t_subs d"
    by (auto simp: reserve_chain_def Let_def exn_simps budget_event_def change_totals_frame)
  have fresh: "\<forall>x\<in>set (t_budgets d). (bg_reservation_id x, bg_chain_id x) \<noteq> (i, c)"
    using run cv by (auto simp: reserve_chain_def Let_def exn_simps budget_conflict_def list_ex_iff)
  have "row_backed (t_subs d) row"
    using sub_total_fresh [OF own, of row] fresh unfolding row_backed_def row by simp
  moreover have "owned d'" using own owner_snoc by (fastforce simp: owned_def row subs)
  ultimately show ?thesis using assms(1) by (simp add: rows_backed_def row subs)
qed

lemma reserve_stage_backed:
  assumes "rows_backed d" and "reserve_stage i a nsv d = Inr d'"
  shows "rows_backed d'"
proof -
  obtain n st v where nsv: "nsv = (n, st, v)" by (cases nsv) auto
  have zero: "sub_total h b (ss @ [new_sub i a n st v]) = sub_total h b ss" if "h (new_sub i a n st v) = 0" for h b ss
    using that by (simp add: sub_total_def)
  have "sb_provisional_wei (new_sub i a n st v) = 0" "sb_finalized_wei (new_sub i a n st v) = 0"
    by (simp_all add: new_sub_def)
  with assms(1) reserve_stageD(4) [OF assms(2) [unfolded nsv]] show ?thesis
    by (simp add: rows_backed_def row_backed_def zero)
qed

lemma route_ops_backed:
  assumes inv: "ledger_inv d" and backed: "rows_backed d"
  shows "configure_limits_txn r rows now d = Inr (u, d') \<Longrightarrow> rows_backed d'"
    and "reserve_complete_route_txn clk i a b sts at d = Inr (u, d') \<Longrightarrow> rows_backed d'"
    and "mark_source_in_flight_txn clk i now' d = Inr (u, d') \<Longrightarrow> rows_backed d'"
    and "release_unstarted_route_txn i at d = Inr (u, d') \<Longrightarrow> rows_backed d'"
    and "acquire_nonce_txn l L i k signer h nc wei acquired expires d = Inr (u, d') \<Longrightarrow> rows_backed d'"
proof -
  show "rows_backed d'" if run: "configure_limits_txn r rows now d = Inr (u, d')"
  proof -
    from run have "foldE (configure_limit r now) rows d = Inr d'" by (auto simp: configure_limits_txn_def exn_simps)
    then show ?thesis
      by (rule foldE_invariant [where P = rows_backed])
        (use backed in \<open>auto simp: configure_limit_def init_totals_def upsert_limit_def Let_def exn_simps
          split: option.splits intro: backed_same\<close>)
  qed
  show "rows_backed d'" if run: "reserve_complete_route_txn clk i a b sts at d = Inr (u, d')"
  proof -
    from run obtain r d1 d2 where d1: "foldE (reserve_chain i a r b at) (by_chain sts) d = Inr d1"
      and d2: "foldE (reserve_stage i a) (enumerate 0 sts) d1 = Inr d2" and d': "same_ledger d2 d'"
      by (auto simp: reserve_complete_route_txn_def exn_simps same_ledger_def append_transition_def)
    have "rows_backed d \<and> owned d" using backed inv by (simp add: ledger_inv_def ledger_core_def covered_def owned_def)
    with d1 have "rows_backed d1 \<and> owned d1"
      by (rule foldE_invariant [where P = "\<lambda>d. rows_backed d \<and> owned d"]) (rule reserve_chain_backed; blast)
    then have "rows_backed d2"
      by (intro foldE_invariant [where P = rows_backed, OF d2]) (blast intro: reserve_stage_backed)+
    with d' show ?thesis by (auto simp: same_ledger_def intro: backed_same)
  qed
  show "rows_backed d'" if run: "mark_source_in_flight_txn clk i now' d = Inr (u, d')"
  proof (cases "d' = d")
    case False
    with run have "t_budgets d' = update_where (\<lambda>b. bg_reservation_id b = i)
        (\<lambda>b. b\<lparr>bg_source_in_flight := True, bg_state := B_in_flight\<rparr>) (t_budgets d)" "t_subs d' = t_subs d"
      by (auto simp: mark_source_in_flight_txn_def exn_simps append_transition_def set_attempt_state_def
          split: list.splits if_splits)
    then show ?thesis
      by (intro backed_neutral [OF backed, where q = "\<lambda>_. False" and f = id])
        (auto simp: neutral_budget_def neutral_sub_def)
  qed (use backed in simp)
  show "rows_backed d'" if run: "release_unstarted_route_txn i at d = Inr (u, d')"
  proof -
    let ?rows = "reservation_rows i d"
    from run obtain d1 where d1: "foldE (release_row i at) ?rows d = Inr d1"
      and d': "d' = d1\<lparr>t_subs := update_where (\<lambda>s. sb_reservation_id s = i) (sb_state_update (\<lambda>_. S_released)) (t_subs d1),
        t_budgets := update_where (\<lambda>b. bg_reservation_id b = i) (bg_state_update (\<lambda>_. B_released)) (t_budgets d1)\<rparr>"
      by (auto simp: release_unstarted_route_txn_def Let_def exn_simps)
    from d1 have "t_budgets d1 = t_budgets d \<and> t_subs d1 = t_subs d"
      by (rule foldE_invariant [where P = "\<lambda>t. t_budgets t = t_budgets d \<and> t_subs t = t_subs d"])
        (auto simp: release_row_def exn_simps budget_event_def change_totals_frame)
    then show ?thesis
      by (intro backed_neutral [OF backed]) (auto simp: d' neutral_budget_def neutral_sub_def)
  qed
  show "rows_backed d'" if run: "acquire_nonce_txn l L i k signer h nc wei acquired expires d = Inr (u, d')"
  proof -
    from run obtain q f where "t_budgets d' = t_budgets d" "t_subs d' = update_where q f (t_subs d)" "neutral_sub f"
      by (auto simp: acquire_nonce_txn_def exn_simps bind_new_nonce_def update_sub_def neutral_sub_def split: option.splits)
    then show ?thesis
      by (intro backed_neutral [OF backed, where p = "\<lambda>_. False" and g = id]) (auto simp: neutral_budget_def)
  qed
qed

lemma work_ops_backed:
  assumes inv: "machine_inv d" and backed: "rows_backed d"
  shows "acquire_work_txn clk l a h acquired expires d = Inr (u, d') \<Longrightarrow> rows_backed d'"
    and "heartbeat_work_txn l h beat expires d = Inr (x, d') \<Longrightarrow> rows_backed d'"
    and "release_work_txn clk l h d = Inr (v, d') \<Longrightarrow> rows_backed d'"
proof -
  have ok: "lease_tables_ok d" using inv by (simp add: machine_inv_def)
  have same: "same_ledger d d' \<Longrightarrow> rows_backed d'" using backed by (auto simp: same_ledger_def intro: backed_same)
  show "acquire_work_txn clk l a h acquired expires d = Inr (u, d') \<Longrightarrow> rows_backed d'"
    by (rule same) (rule acquire_work_tables [OF ok])
  show "heartbeat_work_txn l h beat expires d = Inr (x, d') \<Longrightarrow> rows_backed d'"
    by (rule same) (rule heartbeat_release_tables [OF ok], blast)
  show "release_work_txn clk l h d = Inr (v, d') \<Longrightarrow> rows_backed d'"
    by (rule same) (rule heartbeat_release_tables [OF ok], blast)
qed

section \<open>Reachable ledgers\<close>

lemma txn_backs:
  assumes "rows_backed d" and "\<And>u d'. body d = Inr (u, d') \<Longrightarrow> rows_backed d'"
  shows "rows_backed (snd (store_write body d))"
  using assms by (rule store_write_keeps)

lemma lease_step_backed:
  assumes "machine_inv d" and "rows_backed d" and "ledger_step d d'"
  shows "rows_backed d'"
proof -
  note inv = assms(1) [unfolded machine_inv_def, THEN conjunct1]
  note ops = route_ops_backed [OF inv assms(2)] lineage_ops_backed [OF inv assms(2)] work_ops_backed [OF assms(1,2)]
  from assms(3,2) show ?thesis
  proof cases
    case elsewhere
    with assms(2) show ?thesis by (auto simp: same_ledger_def intro: backed_same)
  qed (auto simp: public_ops Let_def reopen_snd intro!: txn_backs split: sum.splits option.splits dest: ops)
qed

lemma rows_backed_empty: "ledger_empty d \<Longrightarrow> rows_backed d"
  by (simp add: ledger_empty_def rows_backed_def)

interpretation backing: transition_system ledger_empty ledger_step "\<lambda>d. machine_inv d \<and> rows_backed d"
  by unfold_locales (auto intro: machine_inv_empty rows_backed_empty lease_step_inv lease_step_backed)

end
