(* ===== verification/Xir_Linking_Properties.thy ===== *)
theory Xir_Linking_Properties
  imports Xir_Demo_Route Xir_Action_Rules
begin

text \<open>
  Linked carrier messages and traces form causal routes: every message joins two transactions of one attempt on the
  chains of its leg, and every trace belongs to an attempt of the XIR arm with both legs and one payload.
\<close>

section \<open>What is linked\<close>

definition attempt_of :: "string \<Rightarrow> evidence \<Rightarrow> (int \<times> string) option" where
  "attempt_of i ev = Option.bind (find_transaction i (ev_db ev)) (\<lambda>t.
     Option.bind (stage_of_transaction t (ev_db ev)) (\<lambda>g. Some (tx_chain_id t, sg_attempt_id g)))"

definition message_ok :: "evidence \<Rightarrow> carrier_message_row \<Rightarrow> bool" where
  "message_ok ev m \<longleftrightarrow> cm_leg_index m \<in> {0, 1} \<and> cm_payload_sha256 m \<noteq> None
     \<and> (\<exists>s d. cm_source_transaction_id m = Some s \<and> cm_destination_transaction_id m = Some d
          \<and> attempt_of s ev = Some (fst (leg_chains (cm_leg_index m)), cm_attempt_id m)
          \<and> attempt_of d ev = Some (snd (leg_chains (cm_leg_index m)), cm_attempt_id m))"

definition trace_ok :: "evidence \<Rightarrow> xir_record_row \<Rightarrow> bool" where
  "trace_ok ev r \<longleftrightarrow> map_option at_arm (find_attempt (xr_attempt_id r) (ev_db ev)) = Some Xir
     \<and> attempt_of (xr_source_transaction_id r) ev = Some (11155420, xr_attempt_id r)
     \<and> attempt_of (xr_intermediate_transaction_id r) ev = Some (421614, xr_attempt_id r)
     \<and> attempt_of (xr_destination_transaction_id r) ev = Some (84532, xr_attempt_id r)
     \<and> (\<exists>m\<in>set (t_carrier_messages (ev_db ev)). cm_carrier_message_id m = xr_leg0_carrier_message_id r
          \<and> cm_attempt_id m = xr_attempt_id r \<and> cm_leg_index m = 0 \<and> cm_payload_sha256 m = Some (xr_payload_sha256 r))
     \<and> (\<exists>m\<in>set (t_carrier_messages (ev_db ev)). cm_carrier_message_id m = xr_leg1_carrier_message_id r
          \<and> cm_attempt_id m = xr_attempt_id r \<and> cm_leg_index m = 1 \<and> cm_payload_sha256 m = Some (xr_payload_sha256 r))
     \<and> xr_intermediate_verified r \<and> xr_destination_verified r \<and> xr_effect_succeeded r"

definition link_inv :: "evidence \<Rightarrow> bool" where
  "link_inv ev \<longleftrightarrow> list_all (message_ok ev) (t_carrier_messages (ev_db ev)) \<and> list_all (trace_ok ev) (ev_xir_records ev)
     \<and> distinct (map cm_carrier_message_id (t_carrier_messages (ev_db ev)))
     \<and> distinct (map (\<lambda>m. (cm_protocol m, cm_protocol_identifier m)) (t_carrier_messages (ev_db ev)))
     \<and> distinct (map (\<lambda>m. (cm_attempt_id m, cm_leg_index m)) (t_carrier_messages (ev_db ev)))
     \<and> distinct (map xr_attempt_id (ev_xir_records ev)) \<and> distinct (map xr_rid (ev_xir_records ev))
     \<and> distinct (map xr_mid (ev_xir_records ev)) \<and> distinct (map ef_attempt_id (ev_effects ev))"

text \<open>The tables that a route rests on, as far as they matter here.\<close>

definition same_routes :: "evidence \<Rightarrow> evidence \<Rightarrow> bool" where
  "same_routes ev ev' \<longleftrightarrow> (\<forall>i x. attempt_of i ev = Some x \<longrightarrow> attempt_of i ev' = Some x)
     \<and> (\<forall>i a. map_option at_arm (find_attempt i (ev_db ev)) = Some a \<longrightarrow> map_option at_arm (find_attempt i (ev_db ev')) = Some a)"

lemma same_routes_refl [simp]: "same_routes ev ev"
  by (simp add: same_routes_def)

lemma message_ok_mono: "same_routes ev ev' \<Longrightarrow> message_ok ev m \<Longrightarrow> message_ok ev' m"
  by (auto simp: same_routes_def message_ok_def)

lemma trace_ok_mono:
  "same_routes ev ev' \<Longrightarrow> set (t_carrier_messages (ev_db ev)) \<subseteq> set (t_carrier_messages (ev_db ev')) \<Longrightarrow> trace_ok ev r \<Longrightarrow> trace_ok ev' r"
  unfolding same_routes_def trace_ok_def by blast

lemma link_inv_cong:
  assumes "link_inv ev" and "same_routes ev ev'" and "t_carrier_messages (ev_db ev') = t_carrier_messages (ev_db ev)"
    and "ev_xir_records ev' = ev_xir_records ev" and "distinct (map ef_attempt_id (ev_effects ev'))"
  shows "link_inv ev'"
  using assms message_ok_mono [OF assms(2)] trace_ok_mono [OF assms(2)] by (auto simp: link_inv_def list_all_iff)

lemma link_inv_effects: "link_inv ev \<Longrightarrow> distinct (map ef_attempt_id (ev_effects ev))"
  by (simp add: link_inv_def)

section \<open>Writes\<close>

lemma routes_fields [simp]:
  "same_routes ev (ev\<lparr>ev_db := (ev_db ev)\<lparr>t_carrier_messages := ms\<rparr>\<rparr>)"
  "same_routes ev (ev\<lparr>ev_xir_records := xs\<rparr>)" "same_routes ev (ev\<lparr>ev_effects := es\<rparr>)"
  "same_routes ev (ev\<lparr>ev_xir_records := xs, ev_effects := es\<rparr>)"
  by (simp_all add: same_routes_def attempt_of_def find_transaction_def stage_of_transaction_def find_intent_def find_stage_def
      find_attempt_def)

lemma link_message_keeps:
  assumes inv: "link_inv ev" and run: "link_message_txn r ev = Inr (u, ev')" and ok: "message_ok ev r"
  shows "link_inv ev'"
proof (cases "ev' = ev")
  case False
  with run have ev': "ev' = ev\<lparr>ev_db := (ev_db ev)\<lparr>t_carrier_messages := t_carrier_messages (ev_db ev) @ [r]\<rparr>\<rparr>"
    and con: "message_constraints r (ev_db ev)"
    by (auto simp: link_message_txn_def exn_simps split: option.splits)
  from con have fresh: "cm_carrier_message_id r \<notin> cm_carrier_message_id ` set (t_carrier_messages (ev_db ev))"
    "(cm_protocol r, cm_protocol_identifier r) \<notin> (\<lambda>m. (cm_protocol m, cm_protocol_identifier m)) ` set (t_carrier_messages (ev_db ev))"
    "(cm_attempt_id r, cm_leg_index r) \<notin> (\<lambda>m. (cm_attempt_id m, cm_leg_index m)) ` set (t_carrier_messages (ev_db ev))"
    unfolding message_constraints_def list_ex_iff by force+
  have routes: "same_routes ev ev'" by (simp add: ev')
  have msgs: "t_carrier_messages (ev_db ev') = t_carrier_messages (ev_db ev) @ [r]" "ev_xir_records ev' = ev_xir_records ev"
    "ev_effects ev' = ev_effects ev" by (simp_all add: ev')
  from inv ok have "list_all (message_ok ev') (t_carrier_messages (ev_db ev'))" "list_all (trace_ok ev') (ev_xir_records ev')"
    using message_ok_mono [OF routes] trace_ok_mono [OF routes] by (auto simp: link_inv_def list_all_iff msgs)
  with inv fresh show ?thesis by (simp add: link_inv_def msgs)
qed (use inv in simp)

lemma effect_ignore_simps [simp]:
  "ev_db (effect_ignore e ev) = ev_db ev" "ev_xir_records (effect_ignore e ev) = ev_xir_records ev"
  "distinct (map ef_attempt_id (ev_effects (effect_ignore e ev))) \<longleftrightarrow> distinct (map ef_attempt_id (ev_effects ev))"
  "same_routes ev (effect_ignore e ev)"
  by (auto simp: effect_ignore_def list_ex_iff)

lemma link_trace_keeps:
  assumes inv: "link_inv ev" and run: "link_trace_txn r ev = Inr (u, ev')" and ok: "trace_ok ev r"
  shows "link_inv ev'"
proof (cases "find (\<lambda>x. xr_attempt_id x = xr_attempt_id r) (ev_xir_records ev)")
  case (Some existing)
  with run obtain e where "ev' = effect_ignore e ev" by (auto simp: link_trace_txn_def Let_def exn_simps)
  with link_inv_effects [OF inv] show ?thesis by (intro link_inv_cong [OF inv]) simp_all
next
  case None
  with run have eff: "\<exists>e. ev' = effect_ignore e (ev\<lparr>ev_xir_records := ev_xir_records ev @ [r]\<rparr>)"
    and fresh: "xr_rid r \<notin> xr_rid ` set (ev_xir_records ev)" "xr_mid r \<notin> xr_mid ` set (ev_xir_records ev)"
    by (auto simp: link_trace_txn_def Let_def exn_simps list_ex_iff)
  from eff obtain e where ev': "ev' = effect_ignore e (ev\<lparr>ev_xir_records := ev_xir_records ev @ [r]\<rparr>)" by blast
  let ?mid = "ev\<lparr>ev_xir_records := ev_xir_records ev @ [r]\<rparr>"
  have routes: "same_routes ev ?mid" by simp
  from inv ok have "list_all (message_ok ?mid) (t_carrier_messages (ev_db ?mid))" "list_all (trace_ok ?mid) (ev_xir_records ?mid)"
    using message_ok_mono [OF routes] trace_ok_mono [OF routes] by (auto simp: link_inv_def list_all_iff)
  with inv fresh None have "link_inv ?mid" by (auto simp: link_inv_def find_None_iff)
  from link_inv_cong [OF this, of ev'] link_inv_effects [OF this] show ?thesis by (simp add: ev')
qed

lemma record_effect_keeps:
  assumes inv: "link_inv ev" and run: "record_effect_txn r ev = Inr (u, ev')"
  shows "link_inv ev'"
proof (cases "ev' = ev")
  case False
  with run have "ev' = ev\<lparr>ev_effects := ev_effects ev @ [r]\<rparr>" "ef_attempt_id r \<notin> ef_attempt_id ` set (ev_effects ev)"
    by (auto simp: record_effect_txn_def exn_simps find_None_iff split: option.splits)
  with link_inv_effects [OF inv] show ?thesis by (intro link_inv_cong [OF inv]) simp_all
qed (use inv in simp)

section \<open>Calls\<close>

lemma link_read_triple: "(\<And>w. P w \<Longrightarrow> I w) \<Longrightarrow> triple I P (link_read f) (\<lambda>a w. P w \<and> f w = Inr a)"
  by (auto simp: triple_def link_read_def split: sum.splits)

lemma carrier_transaction_attempt: "carrier_transaction i ev = Inr x \<longleftrightarrow> attempt_of i ev = Some x"
  by (simp add: carrier_transaction_def attempt_of_def exn_simps)

lemma carrier_checked_leg:
  assumes "carrier_checks routes e f = Inr u" and "carrier_linker rs = Inr routes"
  shows "de_leg_index e \<in> {0, 1}" and "de_leg_index f = de_leg_index e"
proof -
  from assms(1) obtain route where "map_of (rev routes) (de_protocol e, de_leg_index e) = Some route"
    and same: "event_coordinates e = event_coordinates f" by (auto simp: carrier_checks_def exn_simps)
  from map_of_SomeD [OF this(1)] have "(de_protocol e, de_leg_index e) \<in> set (map fst routes)" by force
  moreover from assms(2) have "set (map fst routes)
      = {(''hyperlane'', 0), (''hyperlane'', 1), (''layerzero-v2'', 0), (''layerzero-v2'', 1)}"
    unfolding carrier_linker_def Let_def bindE_Inr ensure_Inr sum.inject by blast
  ultimately show "de_leg_index e \<in> {0, 1}" by (simp only: insert_iff empty_iff prod.inject) blast
  from same show "de_leg_index f = de_leg_index e" by (simp add: event_coordinates_def)
qed

lemma link_carrier_triple:
  assumes routes: "carrier_linker rs = Inr routes"
  shows "triple link_inv link_inv (link_carrier h routes e f)
    (\<lambda>m w. link_inv w \<and> (\<exists>r\<in>set (t_carrier_messages (ev_db w)). cm_carrier_message_id r = lm_carrier_message_id m))"
  unfolding link_carrier_def Let_def
proof (rule triple_bind [OF triple_check], assumption, rule triple_bind [OF link_read_triple], erule conjunct1,
    rule triple_bind [OF link_read_triple], erule conjunct1 [OF conjunct1], rule triple_bind [OF triple_ensure(1)],
    erule conjunct1 [OF conjunct1 [OF conjunct1]], rule triple_bind [OF triple_ensure(1)],
    erule conjunct1 [OF conjunct1 [OF conjunct1 [OF conjunct1]]])
  fix u v v' :: unit and s d :: "int \<times> string"
  let ?r = "message_row h (snd s) e f"
  let ?P = "\<lambda>w. ((((link_inv w \<and> carrier_checks routes e f = Inr u) \<and> carrier_transaction (de_transaction_id e) w = Inr s)
      \<and> carrier_transaction (de_transaction_id f) w = Inr d) \<and> snd s = snd d) \<and> (fst s, fst d) = leg_chains (de_leg_index e)"
  have writes: "triple link_inv ?P (store_write (link_message_txn ?r))
      (\<lambda>_ w. link_inv w \<and> (\<exists>r\<in>set (t_carrier_messages (ev_db w)). cm_carrier_message_id r = cm_carrier_message_id ?r))"
  proof (rule triple_write)
    fix w x w' assume P: "?P w" and run: "link_message_txn ?r w = Inr (x, w')"
    from P have "de_leg_index e \<in> {0, 1}" using carrier_checked_leg(1) [OF _ routes] by blast
    with P have "message_ok w ?r"
      by (cases s; cases d) (auto simp: message_ok_def message_row_def carrier_transaction_attempt leg_chains_def)
    from link_message_keeps [OF _ run this] P have "link_inv w'" by blast
    moreover from run have "\<exists>r\<in>set (t_carrier_messages (ev_db w')). cm_carrier_message_id r = cm_carrier_message_id ?r"
      by (auto simp: link_message_txn_def exn_simps find_Some_iff split: option.splits)
    ultimately show "link_inv w' \<and> (\<exists>r\<in>set (t_carrier_messages (ev_db w')). cm_carrier_message_id r = cm_carrier_message_id ?r)" ..
  qed blast
  show "triple link_inv ?P (act_bind (store_write (link_message_txn ?r)) (\<lambda>_. act_return
      \<lparr>lm_carrier_message_id = cm_carrier_message_id ?r, lm_attempt_id = cm_attempt_id ?r,
       lm_protocol = cm_protocol ?r, lm_protocol_identifier = cm_protocol_identifier ?r, lm_leg_index = cm_leg_index ?r,
       lm_source_transaction_id = de_transaction_id e, lm_destination_transaction_id = de_transaction_id f\<rparr>))
    (\<lambda>m w. link_inv w \<and> (\<exists>r\<in>set (t_carrier_messages (ev_db w)). cm_carrier_message_id r = lm_carrier_message_id m))"
    by (rule triple_bind [OF writes triple_return]) simp
qed

lemma bind_link_read:
  "(\<And>w. P w \<Longrightarrow> I w) \<Longrightarrow> (\<And>a. triple I (\<lambda>w. P w \<and> g w = Inr a) (f a) Q) \<Longrightarrow> triple I P (act_bind (link_read g) f) Q"
  by (rule triple_bind [OF link_read_triple])

lemma xir_transaction_attempt:
  "xir_transaction i ev = Inr (c, a, k) \<Longrightarrow> attempt_of i ev = Some (c, a) \<and> map_option at_arm (find_attempt a (ev_db ev)) = Some k"
proof -
  have "find_attempt i db = Some b \<Longrightarrow> at_attempt_id b = i" for i b and db :: db
    unfolding find_attempt_def using find_SomeD by fast
  then show "xir_transaction i ev = Inr (c, a, k) \<Longrightarrow>
      attempt_of i ev = Some (c, a) \<and> map_option at_arm (find_attempt a (ev_db ev)) = Some k"
    by (auto simp: xir_transaction_def attempt_of_def exn_simps bind_eq_Some_conv)
qed

lemma both_legs_messages:
  assumes "both_legs a ev = Inr legs"
  shows "fst legs \<in> set (t_carrier_messages (ev_db ev)) \<and> cm_attempt_id (fst legs) = a \<and> cm_leg_index (fst legs) = 0
    \<and> snd legs \<in> set (t_carrier_messages (ev_db ev)) \<and> cm_attempt_id (snd legs) = a \<and> cm_leg_index (snd legs) = 1"
  using assms by (auto simp: both_legs_def Let_def exn_simps attempt_messages_def dest!: find_SomeD)

lemma link_trace_triple:
  "triple link_inv link_inv (link_trace s m d x)
     (\<lambda>t w. link_inv w \<and> (\<exists>r\<in>set (ev_xir_records w). xr_attempt_id r = lt_attempt_id t))"
  unfolding link_trace_def
proof (rule bind_check, assumption, rule bind_link_read, assumption, rule bind_link_read, erule conjunct1, rule bind_link_read,
    erule conjunct1 [OF conjunct1])
  fix v :: unit and ts tm td :: "int \<times> string \<times> arm"
  let ?P = "\<lambda>w. ((link_inv w \<and> xir_transaction (ds_transaction_id s) w = Inr ts)
      \<and> xir_transaction (dv_transaction_id m) w = Inr tm) \<and> xir_transaction (dv_transaction_id d) w = Inr td"
  let ?Q = "\<lambda>t w. link_inv w \<and> (\<exists>r\<in>set (ev_xir_records w). xr_attempt_id r = lt_attempt_id t)"
  have P: "link_inv w" if "?P w" for w using that by blast
  show "triple link_inv ?P
     (act_bind (act_lift (ensure (fst (snd ts) = fst (snd tm) \<and> fst (snd ts) = fst (snd td)) (XirLinkError XL_attempts))) (\<lambda>_.
     act_bind (act_lift (ensure (snd (snd ts) = Xir) (XirLinkError XL_baseline))) (\<lambda>_.
     act_bind (act_lift (ensure ((fst ts, fst tm, fst td) = (11155420, 421614, 84532)) (XirLinkError XL_route_order))) (\<lambda>_.
     act_bind (act_lift (ensure (dx_transaction_id x = dv_transaction_id d) (XirLinkError XL_not_atomic))) (\<lambda>_.
     act_bind (link_read (both_legs (fst (snd ts)))) (\<lambda>legs.
     act_bind (act_lift (path_checks s m d legs)) (\<lambda>_.
     act_bind (store_write (link_trace_txn (trace_row (fst (snd ts)) s m d x legs))) (\<lambda>_.
     act_return \<lparr>lt_attempt_id = fst (snd ts), lt_rid = lower (ds_rid s), lt_mid = lower (ds_mid s),
       lt_destination_effect_id = dx_destination_effect_id x\<rparr>)))))))) ?Q"
  proof (rule bind_ensure, erule P, rule bind_ensure, erule P, rule bind_ensure, erule P, rule bind_ensure, erule P,
      rule bind_link_read, erule P, rule bind_check, erule P [OF conjunct1])
    fix legs and u :: unit
    assume same: "fst (snd ts) = fst (snd tm) \<and> fst (snd ts) = fst (snd td)" and arm: "snd (snd ts) = Xir"
      and chains: "(fst ts, fst tm, fst td) = (11155420, 421614, 84532)" and path: "path_checks s m d legs = Inr u"
    let ?r = "trace_row (fst (snd ts)) s m d x legs"
    have ok: "trace_ok w ?r" if "?P w \<and> both_legs (fst (snd ts)) w = Inr legs" for w
    proof -
      from that same arm chains have "xir_transaction (ds_transaction_id s) w = Inr (11155420, fst (snd ts), Xir)"
        "xir_transaction (dv_transaction_id m) w = Inr (421614, fst (snd ts), snd (snd tm))"
        "xir_transaction (dv_transaction_id d) w = Inr (84532, fst (snd ts), snd (snd td))"
        by (metis prod.collapse prod.inject)+
      from xir_transaction_attempt [OF this(1)] xir_transaction_attempt [OF this(2)] xir_transaction_attempt [OF this(3)]
        both_legs_messages [of "fst (snd ts)" w legs] that path
      show ?thesis unfolding trace_ok_def by (auto simp: trace_row_def path_checks_def exn_simps)
    qed
    show "triple link_inv (\<lambda>w. ?P w \<and> both_legs (fst (snd ts)) w = Inr legs)
      (act_bind (store_write (link_trace_txn ?r)) (\<lambda>_. act_return \<lparr>lt_attempt_id = fst (snd ts), lt_rid = lower (ds_rid s),
        lt_mid = lower (ds_mid s), lt_destination_effect_id = dx_destination_effect_id x\<rparr>)) ?Q"
    proof (rule bind_write [where R = "\<lambda>_ w. link_inv w \<and> (\<exists>r\<in>set (ev_xir_records w). xr_attempt_id r = xr_attempt_id ?r)"])
      fix w y w' assume pre: "?P w \<and> both_legs (fst (snd ts)) w = Inr legs" and run: "link_trace_txn ?r w = Inr (y, w')"
      from link_trace_keeps [OF _ run ok [OF pre]] pre have "link_inv w'" by blast
      moreover from run have "\<exists>r\<in>set (ev_xir_records w'). xr_attempt_id r = xr_attempt_id ?r"
        by (auto simp: link_trace_txn_def Let_def exn_simps find_Some_iff split: option.splits)
      ultimately show "link_inv w' \<and> (\<exists>r\<in>set (ev_xir_records w'). xr_attempt_id r = xr_attempt_id ?r)" ..
    qed (auto intro!: triple_return simp: trace_row_def)
  qed
qed

lemma record_effect_triple: "triple link_inv link_inv (record_effect a t i p b) (\<lambda>_. link_inv)"
  unfolding record_effect_def by (rule bind_ensure, assumption, rule triple_write) (auto intro: record_effect_keeps)

section \<open>Histories\<close>

text \<open>The calls of the linkers, and anything else that keeps their rows and the attempts, arms and chains of transactions.\<close>

inductive link_step :: "route_table \<Rightarrow> evidence \<Rightarrow> evidence \<Rightarrow> bool" for routes where
  carrier: "link_step routes ev (snd (link_carrier h routes e f ev))"
| trace: "link_step routes ev (snd (link_trace s m d x ev))"
| effect: "link_step routes ev (snd (record_effect a t i p b ev))"
| other: "same_routes ev ev' \<Longrightarrow> t_carrier_messages (ev_db ev') = t_carrier_messages (ev_db ev) \<Longrightarrow>
    ev_xir_records ev' = ev_xir_records ev \<Longrightarrow> ev_effects ev' = ev_effects ev \<Longrightarrow> link_step routes ev ev'"

definition unlinked :: "evidence \<Rightarrow> bool" where
  "unlinked ev \<longleftrightarrow> t_carrier_messages (ev_db ev) = [] \<and> ev_xir_records ev = [] \<and> ev_effects ev = []"

lemma link_step_inv:
  "link_step routes ev ev' \<Longrightarrow> carrier_linker rs = Inr routes \<Longrightarrow> link_inv ev \<Longrightarrow> link_inv ev'"
proof (induction rule: link_step.induct)
  case (carrier ev h e f)
  from triple_keeps [OF triple_post [OF link_carrier_triple [OF carrier(1)]] carrier(2)] show ?case by blast
next
  case (trace ev s m d x)
  from triple_keeps [OF triple_post [OF link_trace_triple] trace(2)] show ?case by blast
next
  case (effect ev a t i p b)
  show ?case by (rule triple_keeps [OF record_effect_triple effect(2)])
next
  case (other ev ev')
  from link_inv_effects [OF other(6)] other show ?case by (intro link_inv_cong [OF other(6,1)]) simp_all
qed

definition linking_step :: "evidence \<Rightarrow> evidence \<Rightarrow> bool" where
  "linking_step ev ev' \<longleftrightarrow> (\<exists>rs routes. carrier_linker rs = Inr routes \<and> link_step routes ev ev')"

interpretation links: transition_system unlinked linking_step link_inv
  by unfold_locales (auto simp: unlinked_def link_inv_def linking_step_def dest: link_step_inv)

text \<open>Nothing that was linked is lost.\<close>

definition links_in :: "carrier_message_row set \<Rightarrow> xir_record_row set \<Rightarrow> evidence \<Rightarrow> bool" where
  "links_in ms rs ev \<longleftrightarrow> ms \<subseteq> set (t_carrier_messages (ev_db ev)) \<and> rs \<subseteq> set (ev_xir_records ev)"

lemma keep_link_read: "triple I I (link_read g) (\<lambda>_. I)"
  by (rule triple_post [OF link_read_triple]) auto

lemma effect_ignore_links [simp]: "links_in ms rs (effect_ignore e ev) \<longleftrightarrow> links_in ms rs ev"
  by (simp add: links_in_def)

lemma link_txns_grow:
  "links_in ms rs ev \<Longrightarrow> link_message_txn m ev = Inr (u, ev') \<Longrightarrow> links_in ms rs ev'"
  "links_in ms rs ev \<Longrightarrow> link_trace_txn r ev = Inr (u, ev') \<Longrightarrow> links_in ms rs ev'"
  "links_in ms rs ev \<Longrightarrow> record_effect_txn e ev = Inr (u, ev') \<Longrightarrow> links_in ms rs ev'"
  by (auto simp: link_message_txn_def link_trace_txn_def record_effect_txn_def exn_simps Let_def links_in_def split: option.splits)

lemma linking_step_grows: "linking_step ev ev' \<Longrightarrow> links_in ms rs ev \<Longrightarrow> links_in ms rs ev'"
proof -
  have keeps: "triple (links_in ms rs) (links_in ms rs) (link_carrier h routes e f) (\<lambda>_. links_in ms rs)"
    "triple (links_in ms rs) (links_in ms rs) (link_trace s m d x) (\<lambda>_. links_in ms rs)"
    "triple (links_in ms rs) (links_in ms rs) (record_effect a t i p b) (\<lambda>_. links_in ms rs)" for h routes e f s m d x a t i p b
    unfolding link_carrier_def link_trace_def record_effect_def Let_def
    by (rule keep_rules keep_link_read | erule (1) link_txns_grow)+
  have "link_step routes ev ev' \<Longrightarrow> links_in ms rs ev \<Longrightarrow> links_in ms rs ev'" for routes
    by (erule link_step.cases, simp_all only: keeps [THEN triple_keeps], simp add: links_in_def)
  then show "linking_step ev ev' \<Longrightarrow> links_in ms rs ev \<Longrightarrow> links_in ms rs ev'" by (auto simp: linking_step_def)
qed

lemma linking_steps_grow: "linking_step\<^sup>*\<^sup>* ev ev' \<Longrightarrow> links_in ms rs ev \<Longrightarrow> links_in ms rs ev'"
  by (induction rule: rtranclp_induct) (auto intro: linking_step_grows)

text \<open>
  C15. In every reachable store each carrier message joins two transactions of its attempt on the two chains of its
  leg, and each trace belongs to an attempt of the XIR arm, its three transactions lie on the three chains of the route
  in order, both legs are linked for the attempt with the payload of the trace, and everything was verified; a message
  identifier, a leg of an attempt, a RID, a MID and an attempt are linked at most once. A trace that was linked
  is stored with its identifiers and stays as it is for ever.
\<close>

theorem linked_traces_are_causal:
  assumes "unlinked e0" and "linking_step\<^sup>*\<^sup>* e0 ev" and "link_trace s m d x ev = (Inr t, ev1)" and "linking_step\<^sup>*\<^sup>* ev1 ev2"
  shows "link_inv ev2 \<and> (\<exists>r\<in>set (ev_xir_records ev1). r \<in> set (ev_xir_records ev2) \<and> xr_attempt_id r = lt_attempt_id t \<and> trace_ok ev2 r)"
proof -
  from links.reachable_inv [OF assms(1,2)] have "link_inv ev" .
  with link_trace_triple [of s m d x] assms(3) have one: "link_inv ev1"
    and "\<exists>r\<in>set (ev_xir_records ev1). xr_attempt_id r = lt_attempt_id t"
    by (auto simp: triple_def split: sum.splits)
  then obtain r where r: "r \<in> set (ev_xir_records ev1)" "xr_attempt_id r = lt_attempt_id t" by blast
  from links.run_inv [OF assms(4) one] have two: "link_inv ev2" .
  from linking_steps_grow [OF assms(4), of "{}" "{r}"] r have "r \<in> set (ev_xir_records ev2)" by (simp add: links_in_def)
  with two r show ?thesis by (auto simp: link_inv_def list_all_iff)
qed

definition demo_hex :: "char \<Rightarrow> string" where "demo_hex c = ''0x'' @ replicate 64 c"

definition demo_payload :: string where "demo_payload = replicate 64 (CHR ''0'')"

definition demo_routes :: "carrier_route list" where
  "demo_routes = [\<lparr>cr_protocol = p, cr_leg_index = l, cr_source_selector = 1, cr_destination_selector = 2\<rparr>.
     p \<leftarrow> [''hyperlane'', ''layerzero-v2''], l \<leftarrow> [0, 1]]"

definition demo_leg_event :: "string \<Rightarrow> string \<Rightarrow> string \<Rightarrow> int \<Rightarrow> decoded_event" where
  "demo_leg_event kind i p l = \<lparr>de_event_kind = kind, de_transaction_id = i, de_protocol = p,
     de_protocol_identifier = demo_hex (if l = 0 then CHR ''1'' else CHR ''2''), de_leg_index = l, de_source_selector = 1,
     de_destination_selector = 2, de_protocol_nonce = Some 3, de_payload_sha256 = demo_payload\<rparr>"

definition demo_link_hash :: "json \<Rightarrow> string" where
  "demo_link_hash j = (case j of JObj [_, (_, JList [_, JInt l, _, _])] \<Rightarrow> str_int l | _ \<Rightarrow> ''h'')"

definition demo_linked_legs :: evidence where
  "demo_linked_legs = snd (link_carrier demo_link_hash (the (case carrier_linker demo_routes of Inr r \<Rightarrow> Some r | _ \<Rightarrow> None))
     (demo_leg_event ''dispatch'' ''x1'' ''layerzero-v2'' 1) (demo_leg_event ''delivery'' ''x2'' ''layerzero-v2'' 1)
     (snd (link_carrier demo_link_hash (the (case carrier_linker demo_routes of Inr r \<Rightarrow> Some r | _ \<Rightarrow> None))
       (demo_leg_event ''dispatch'' ''x0'' ''hyperlane'' 0) (demo_leg_event ''delivery'' ''x1'' ''hyperlane'' 0)
       (empty_evidence demo_route_db))))"

definition demo_source :: decoded_source where
  "demo_source = \<lparr>ds_transaction_id = ''x0'', ds_rid = demo_hex (CHR ''3''), ds_mid = demo_hex (CHR ''4''),
     ds_payload_sha256 = demo_payload, ds_profile_sha256 = demo_payload, ds_evidence_sha256 = demo_payload,
     ds_transition_sha256 = demo_payload\<rparr>"

definition demo_verification :: "string \<Rightarrow> string \<Rightarrow> char \<Rightarrow> decoded_verification" where
  "demo_verification i l c = \<lparr>dv_transaction_id = i, dv_location = l, dv_rid = demo_hex (CHR ''3''), dv_mid = demo_hex (CHR ''4''),
     dv_consumed_key = ''k'', dv_verified = True, dv_carrier_protocol_identifier = demo_hex c\<rparr>"

definition demo_effect :: decoded_effect where
  "demo_effect = \<lparr>dx_transaction_id = ''x2'', dx_destination_effect_id = ''e'', dx_payload_sha256 = demo_payload,
     dx_before_state_sha256 = demo_payload, dx_after_state_sha256 = demo_payload, dx_succeeded = True\<rparr>"

definition demo_linked_trace :: "(exn + linked_trace) \<times> evidence" where
  "demo_linked_trace = link_trace demo_source (demo_verification ''x1'' ''intermediate'' (CHR ''1''))
     (demo_verification ''x2'' ''destination'' (CHR ''2'')) demo_effect demo_linked_legs"

lemma demo_linked_reachable: "linking_step\<^sup>*\<^sup>* (empty_evidence demo_route_db) demo_linked_legs"
proof -
  let ?routes = "the (case carrier_linker demo_routes of Inr r \<Rightarrow> Some r | _ \<Rightarrow> None)"
  have "case carrier_linker demo_routes of Inl _ \<Rightarrow> False | Inr _ \<Rightarrow> True" by code_simp
  then have "carrier_linker demo_routes = Inr ?routes" by (auto split: sum.splits)
  then have "linking_step e (snd (link_carrier h ?routes a b e))" for e h a b
    unfolding linking_step_def by (blast intro: link_step.carrier)
  then show ?thesis unfolding demo_linked_legs_def by (meson converse_rtranclp_into_rtranclp rtranclp.rtrancl_refl)
qed

theorem linked_traces_are_causal_witness:
  "list_all (trace_ok (snd demo_linked_trace)) (ev_xir_records (snd demo_linked_trace))
     \<and> length (ev_xir_records (snd demo_linked_trace)) = 1"
proof -
  have run: "case fst demo_linked_trace of Inl _ \<Rightarrow> False | Inr t \<Rightarrow> length (ev_xir_records (snd demo_linked_trace)) = 1" by code_simp
  then obtain t where "fst demo_linked_trace = Inr t" by (auto split: sum.splits)
  then have "demo_linked_trace = (Inr t, snd demo_linked_trace)" by (simp add: prod_eq_iff)
  moreover have "unlinked (empty_evidence demo_route_db)" by code_simp
  moreover from run have "length (ev_xir_records (snd demo_linked_trace)) = 1" by (auto split: sum.splits)
  ultimately show ?thesis
    using linked_traces_are_causal [OF _ demo_linked_reachable _ rtranclp.rtrancl_refl] unfolding demo_linked_trace_def
    by (auto simp: link_inv_def)
qed

text \<open>
  An effect that was recorded before as not succeeded stays so: linking a trace ignores the row that is there.
\<close>

lemma failed_effect_survives_linking:
  "map ef_succeeded (ev_effects (snd (link_trace demo_source (demo_verification ''x1'' ''intermediate'' (CHR ''1''))
     (demo_verification ''x2'' ''destination'' (CHR ''2'')) demo_effect
     (snd (record_effect ''x'' ''x2'' ''e'' demo_payload False demo_linked_legs))))) = [False]"
  by code_simp



end
