(* ===== verification/Xir_Evm.thy ===== *)
theory Xir_Evm
  imports Xir_Raw Xir_Linking Xir_Signer
begin

text \<open>
  \<^verbatim>\<open>collect/evm.py\<close>: collection of one known transaction with receipt, block header and balances. What was read
  is checked and kept as raw bytes first; the normalized rows are one transaction of the store. The provider is a
  parameter whose answers may depend on the number of the call.
\<close>

section \<open>What a provider answers\<close>

record 'a envelope =
  en_value :: 'a
  en_raw_bytes :: string
  en_provider_id :: string

record public_transaction =
  pt_transaction_hash :: string
  pt_chain_id :: int
  pt_nonce :: int
  pt_sender :: string
  pt_recipient :: "string option"
  pt_input_hex :: string
  pt_value_wei :: int

record public_log =
  pl_log_index :: int
  pl_topic0 :: "string option"

record public_receipt =
  pc_transaction_hash :: string
  pc_block_number :: int
  pc_block_hash :: string
  pc_status :: int
  pc_gas_used :: int
  pc_effective_gas_price_wei :: int
  pc_logs :: "public_log list"
  pc_l1_data_fee_wei :: "int option"
  pc_l1_data_fee_unavailable_reason :: "string option"
  pc_carrier_payment_wei :: int
  pc_funding_attribution :: string

record public_block_header =
  ph_block_number :: int
  ph_block_hash :: string
  ph_parent_hash :: string
  ph_timestamp :: int

record public_balance =
  pb_address :: string
  pb_block_number :: int
  pb_balance_wei :: int

record collected_transaction =
  ct_transaction_id :: string
  ct_transaction_hash :: string
  ct_chain_id :: int
  ct_block_number :: int
  ct_gas_used :: int
  ct_execution_fee_wei :: int
  ct_input_bytes :: int
  ct_balance_snapshots :: int

record evm_provider =
  ep_transaction :: "nat \<Rightarrow> string \<Rightarrow> exn + public_transaction envelope option"
  ep_receipt :: "nat \<Rightarrow> string \<Rightarrow> exn + public_receipt envelope option"
  ep_block_header :: "nat \<Rightarrow> int \<Rightarrow> exn + public_block_header envelope option"
  ep_balance :: "nat \<Rightarrow> string \<Rightarrow> int \<Rightarrow> exn + public_balance envelope"

record evm_tools =
  et_digest :: "json \<Rightarrow> string"
  et_serialize :: "json \<Rightarrow> string"
  et_sha256 :: "string \<Rightarrow> string"
  et_on_disk :: "raw_file \<Rightarrow> int"
  et_crash :: "crash_point \<Rightarrow> bool"

record evm_world =
  ew_raw :: raw_world
  ew_calls :: nat

type_synonym 'a evm = "(evm_world, 'a) action"

definition ew_ev :: "evm_world \<Rightarrow> evidence" where
  "ew_ev w = rs_ev (ew_raw w)"

definition evm_read :: "(evidence \<Rightarrow> exn + 'a) \<Rightarrow> 'a evm" where
  "evm_read f w = (f (ew_ev w), w)"

definition evm_write :: "'a ev_txn \<Rightarrow> 'a evm" where
  "evm_write body w = (case store_write body (ew_ev w) of (r, ev) \<Rightarrow> (r, w\<lparr>ew_raw := (ew_raw w)\<lparr>rs_ev := ev\<rparr>\<rparr>))"

definition evm_ask :: "(nat \<Rightarrow> exn + 'a) \<Rightarrow> 'a evm" where
  "evm_ask f w = (f (ew_calls w), w\<lparr>ew_calls := Suc (ew_calls w)\<rparr>)"

text \<open>\<^verbatim>\<open>except Exception\<close> around a read.\<close>

definition evm_ask_or :: "evm_error \<Rightarrow> (nat \<Rightarrow> exn + 'a) \<Rightarrow> 'a evm" where
  "evm_ask_or e f = evm_ask (\<lambda>n. case f n of Inl _ \<Rightarrow> Inl (EvmCollectorError e) | Inr a \<Rightarrow> Inr a)"

definition evm_ensure :: "bool \<Rightarrow> evm_error \<Rightarrow> exn + unit" where
  "evm_ensure b e = ensure b (EvmCollectorError e)"

section \<open>Text forms\<close>

definition is_hex :: "char \<Rightarrow> bool" where
  "is_hex c \<longleftrightarrow> c \<in> set ''0123456789abcdefABCDEF''"

lemma is_hex_code [code]:
  "is_hex (Char b0 b1 b2 b3 b4 b5 b6 b7) \<longleftrightarrow> \<not> b7
     \<and> (if b6 then \<not> b4 \<and> \<not> b3 \<and> (b0 \<or> b1 \<or> b2) \<and> \<not> (b0 \<and> b1 \<and> b2) else b5 \<and> b4 \<and> \<not> (b3 \<and> (b2 \<or> b1)))"
  by (cases b0; cases b1; cases b2; cases b3; cases b4; cases b5; cases b6; cases b7; simp add: is_hex_def)

definition is_blank :: "char \<Rightarrow> bool" where
  "is_blank c \<longleftrightarrow> c \<in> {CHR '' '', CHR 0x09, CHR 0x0A, CHR 0x0B, CHR 0x0C, CHR 0x0D}"

text \<open>The number of bytes of \<^verbatim>\<open>bytes.fromhex\<close>, which skips blanks between bytes.\<close>

fun hex_bytes :: "string \<Rightarrow> nat option" where
  "hex_bytes [] = Some 0"
| "hex_bytes [c] = (if is_blank c then Some 0 else None)"
| "hex_bytes (c # d # s) = (if is_blank c then hex_bytes (d # s)
     else if is_hex c \<and> is_hex d then map_option Suc (hex_bytes s) else None)"

definition remove_0x :: "string \<Rightarrow> string" where
  "remove_0x s = (if take 2 s = ''0x'' then drop 2 s else s)"

text \<open>Digits with single underscores between them, as \<^verbatim>\<open>int(.., 16)\<close> reads ASCII text.\<close>

fun hex_run :: "string \<Rightarrow> bool" where
  "hex_run [] = False"
| "hex_run [c] = is_hex c"
| "hex_run (c # d # s) = (is_hex c \<and> (if d = CHR ''_'' then hex_run s else hex_run (d # s)))"

definition hex_literal :: "string \<Rightarrow> bool" where
  "hex_literal s =
     (let body = rev (dropWhile is_blank (rev s)) in hex_run (case body of c # cs \<Rightarrow> if c = CHR ''_'' then cs else body | [] \<Rightarrow> []))"

definition nonzero_address :: "string \<Rightarrow> bool" where
  "nonzero_address value \<longleftrightarrow> length value = 42 \<and> take 2 value = ''0x'' \<and> hex_literal (drop 2 value)
     \<and> list_ex (\<lambda>c. is_hex c \<and> c \<noteq> CHR ''0'') (drop 2 value)"

section \<open>Checks\<close>

definition evm_validate ::
  "string \<Rightarrow> int \<Rightarrow> int \<Rightarrow> public_transaction \<Rightarrow> public_receipt \<Rightarrow> public_block_header \<Rightarrow> exn + unit" where
  "evm_validate transaction_hash chain nonce t r b =
     bindE (evm_ensure (\<not> (lower (pt_transaction_hash t) \<noteq> lower transaction_hash
                        \<or> lower (pc_transaction_hash r) \<noteq> lower transaction_hash)) EC_hash) (\<lambda>_.
     bindE (evm_ensure (\<not> (pt_chain_id t \<noteq> chain \<or> pt_nonce t \<noteq> nonce)) EC_chain_nonce) (\<lambda>_.
     bindE (evm_ensure (\<not> (pc_block_number r \<noteq> ph_block_number b \<or> lower (pc_block_hash r) \<noteq> lower (ph_block_hash b)))
              EC_block_mismatch) (\<lambda>_.
     bindE (evm_ensure (pc_status r \<in> {0, 1}) EC_status) (\<lambda>_.
     bindE (evm_ensure (\<not> list_ex (\<lambda>n. n < 0) [pt_value_wei t, pc_block_number r, pc_gas_used r, pc_effective_gas_price_wei r,
                          pc_carrier_payment_wei r, ph_timestamp b]) EC_negative) (\<lambda>_.
     bindE (evm_ensure (pc_funding_attribution r \<in> {''experiment'', ''external''}) EC_funding) (\<lambda>_.
     bindE (evm_ensure (\<not> (pc_l1_data_fee_wei r = None \<and> pc_l1_data_fee_unavailable_reason r \<in> {None, Some []}
                        \<or> pc_l1_data_fee_wei r \<noteq> None \<and> pc_l1_data_fee_unavailable_reason r \<noteq> None)) EC_l1_fee) (\<lambda>_.
     bindE (evm_ensure (case pc_l1_data_fee_wei r of None \<Rightarrow> True | Some f \<Rightarrow> \<not> f < 0) EC_l1_negative) (\<lambda>_.
     bindE (evm_ensure (distinct (map pl_log_index (pc_logs r))) EC_log_indices) (\<lambda>_.
     evm_ensure (hex_bytes (remove_0x (pt_input_hex t)) \<noteq> None) EC_input_hex)))))))))"

section \<open>Collection\<close>

definition known_transaction :: "string \<Rightarrow> evidence \<Rightarrow> (transaction_row \<times> string) option" where
  "known_transaction i ev =
     Option.bind (find_transaction i (ev_db ev)) (\<lambda>t.
     Option.bind (stage_of_transaction t (ev_db ev)) (\<lambda>g. Some (t, sg_attempt_id g)))"

definition find_resource :: "string \<Rightarrow> evidence \<Rightarrow> resource_row option" where
  "find_resource i ev = find (\<lambda>r. rc_transaction_id r = i) (ev_resources ev)"

definition find_receipt_row :: "string \<Rightarrow> evidence \<Rightarrow> receipt_row option" where
  "find_receipt_row i ev = find (\<lambda>r. rp_transaction_id r = i) (ev_receipts ev)"

text \<open>The snapshots of the whole attempt of the transaction.\<close>

definition balance_count :: "string \<Rightarrow> evidence \<Rightarrow> int" where
  "balance_count i ev =
     (case known_transaction i ev of None \<Rightarrow> 0
      | Some (_, attempt_id) \<Rightarrow> int (length (filter (\<lambda>s. as_attempt_id s = attempt_id) (ev_snapshots ev))))"

definition existing_collection :: "string \<Rightarrow> evidence \<Rightarrow> collected_transaction option" where
  "existing_collection i ev =
     Option.bind (find_resource i ev) (\<lambda>r.
     Option.bind (find_receipt_row i ev) (\<lambda>p.
     Option.bind (find_transaction i (ev_db ev)) (\<lambda>t.
       Some \<lparr>ct_transaction_id = i, ct_transaction_hash = (case tx_transaction_hash t of None \<Rightarrow> ''None'' | Some x \<Rightarrow> x),
             ct_chain_id = rc_chain_id r, ct_block_number = rp_block_number p, ct_gas_used = rp_gas_used p,
             ct_execution_fee_wei = rc_execution_fee_wei r, ct_input_bytes = rc_input_bytes r,
             ct_balance_snapshots = balance_count i ev\<rparr>)))"

definition put_rpc_raw :: "evm_tools \<Rightarrow> int \<Rightarrow> string \<Rightarrow> string \<Rightarrow> string \<Rightarrow> string evm" where
  "put_rpc_raw tk clk data provider_id kind w =
     (case put_raw (et_serialize tk) (et_sha256 tk) (et_on_disk tk) clk data ''application/json''
             (JObj [(''source'', JStr ''public_read_rpc''), (''provider_id'', JStr provider_id), (''kind'', JStr kind)])
             (ew_raw w) of (r, raw) \<Rightarrow> (r, w\<lparr>ew_raw := raw\<rparr>))"

type_synonym balance_item = "string \<times> public_balance \<times> string"

definition collect_balance :: "evm_tools \<Rightarrow> evm_provider \<Rightarrow> int \<Rightarrow> string \<Rightarrow> int \<Rightarrow> balance_item evm" where
  "collect_balance tk pv clk address block_number =
     act_bind (evm_ask (\<lambda>n. ep_balance pv n address block_number)) (\<lambda>e.
     act_bind (act_lift (evm_ensure (\<not> (lower (pb_address (en_value e)) \<noteq> lower address
                   \<or> pb_block_number (en_value e) \<noteq> block_number \<or> pb_balance_wei (en_value e) < 0)) EC_balance)) (\<lambda>_.
     act_bind (put_rpc_raw tk clk (en_raw_bytes e) (en_provider_id e) ''balance'') (\<lambda>raw.
     act_return (address, en_value e, raw))))"

fun collect_blocks :: "evm_tools \<Rightarrow> evm_provider \<Rightarrow> int \<Rightarrow> string \<Rightarrow> int list \<Rightarrow> balance_item list \<Rightarrow> balance_item list evm" where
  "collect_blocks tk pv clk address [] acc = act_return acc"
| "collect_blocks tk pv clk address (b # bs) acc =
     act_bind (collect_balance tk pv clk address b) (\<lambda>x. collect_blocks tk pv clk address bs (acc @ [x]))"

fun collect_accounts ::
  "evm_tools \<Rightarrow> evm_provider \<Rightarrow> int \<Rightarrow> int list \<Rightarrow> string list \<Rightarrow> balance_item list \<Rightarrow> balance_item list evm" where
  "collect_accounts tk pv clk blocks [] acc = act_return acc"
| "collect_accounts tk pv clk blocks (a # as) acc =
     act_bind (act_lift (evm_ensure (nonzero_address a) EC_address)) (\<lambda>_.
     act_bind (collect_blocks tk pv clk a blocks acc) (\<lambda>acc'. collect_accounts tk pv clk blocks as acc'))"

definition balance_blocks :: "int \<Rightarrow> int list" where
  "balance_blocks n = (if max 0 (n - 1) = n then [n] else sort [max 0 (n - 1), n])"

section \<open>The normalized rows\<close>

definition header_ignore :: "header_row \<Rightarrow> evidence \<Rightarrow> exn + evidence" where
  "header_ignore r ev =
     bindE (ensure (int64 (hd_chain_id r) \<and> int64 (hd_block_number r) \<and> int64 (hd_block_timestamp r)) OverflowError) (\<lambda>_.
     if hd_block_number r < 0 \<or> hd_block_timestamp r < 0
        \<or> list_ex (\<lambda>x. (hd_chain_id x, hd_block_hash x) = (hd_chain_id r, hd_block_hash r)) (ev_headers ev) then Inr ev
     else bindE (ensure (find_raw (hd_raw_sha256 r) ev \<noteq> None) IntegrityError) (\<lambda>_.
          Inr (ev\<lparr>ev_headers := ev_headers ev @ [r]\<rparr>)))"

definition insert_receipt :: "receipt_row \<Rightarrow> evidence \<Rightarrow> exn + evidence" where
  "insert_receipt r ev =
     bindE (ensure (int64 (rp_block_number r) \<and> int64 (rp_receipt_status r) \<and> int64 (rp_gas_used r)) OverflowError) (\<lambda>_.
     bindE (ensure (0 \<le> rp_block_number r \<and> rp_receipt_status r \<in> {0, 1} \<and> 0 \<le> rp_gas_used r
                    \<and> find_receipt_row (rp_transaction_id r) ev = None \<and> find_raw (rp_raw_sha256 r) ev \<noteq> None
                    \<and> find_transaction (rp_transaction_id r) (ev_db ev) \<noteq> None) IntegrityError) (\<lambda>_.
     Inr (ev\<lparr>ev_receipts := ev_receipts ev @ [r]\<rparr>)))"

definition insert_resource :: "resource_row \<Rightarrow> evidence \<Rightarrow> exn + evidence" where
  "insert_resource r ev =
     bindE (ensure (int64 (rc_chain_id r) \<and> int64 (rc_input_bytes r) \<and> int64 (rc_gas_used r)) OverflowError) (\<lambda>_.
     bindE (ensure (0 \<le> rc_input_bytes r \<and> 0 \<le> rc_gas_used r \<and> rc_funding_attribution r \<in> {''experiment'', ''external''}
                    \<and> (rc_l1_data_fee_wei r = None) \<noteq> (rc_l1_data_fee_unavailable_reason r = None)
                    \<and> find_resource (rc_transaction_id r) ev = None) IntegrityError) (\<lambda>_.
     Inr (ev\<lparr>ev_resources := ev_resources ev @ [r]\<rparr>)))"

definition insert_log :: "event_log_row \<Rightarrow> evidence \<Rightarrow> exn + evidence" where
  "insert_log r ev =
     bindE (ensure (int64 (el_log_index r)) OverflowError) (\<lambda>_.
     bindE (ensure (0 \<le> el_log_index r \<and> find_raw (el_raw_sha256 r) ev \<noteq> None
                    \<and> \<not> list_ex (\<lambda>x. el_event_id x = el_event_id r
                         \<or> (el_transaction_id x, el_log_index x) = (el_transaction_id r, el_log_index r)) (ev_logs ev))
              IntegrityError) (\<lambda>_.
     Inr (ev\<lparr>ev_logs := ev_logs ev @ [r]\<rparr>)))"

definition insert_snapshot :: "snapshot_row \<Rightarrow> evidence \<Rightarrow> exn + evidence" where
  "insert_snapshot r ev =
     bindE (ensure (int64 (as_chain_id r) \<and> int64 (as_block_number r)) OverflowError) (\<lambda>_.
     bindE (ensure (0 \<le> as_block_number r \<and> find_raw (as_raw_sha256 r) ev \<noteq> None
                    \<and> find_attempt (as_attempt_id r) (ev_db ev) \<noteq> None
                    \<and> \<not> list_ex (\<lambda>x. as_snapshot_id x = as_snapshot_id r) (ev_snapshots ev)) IntegrityError) (\<lambda>_.
     Inr (ev\<lparr>ev_snapshots := ev_snapshots ev @ [r]\<rparr>)))"

definition log_row :: "evm_tools \<Rightarrow> string \<Rightarrow> string \<Rightarrow> public_log \<Rightarrow> event_log_row" where
  "log_row tk i raw l =
     \<lparr>el_event_id = stable_id (et_digest tk) ''observation'' [JStr ''log'', JStr i, JInt (pl_log_index l)],
      el_transaction_id = i, el_log_index = pl_log_index l, el_topic0 = pl_topic0 l, el_raw_sha256 = raw\<rparr>"

definition snapshot_row_of :: "evm_tools \<Rightarrow> string \<Rightarrow> string \<Rightarrow> int \<Rightarrow> balance_item \<Rightarrow> snapshot_row" where
  "snapshot_row_of tk i attempt_id chain = (\<lambda>(address, b, raw).
     \<lparr>as_snapshot_id = stable_id (et_digest tk) ''observation''
        [JStr ''balance'', JStr i, JStr (lower address), JInt (pb_block_number b)],
      as_attempt_id = attempt_id, as_chain_id = chain, as_account = address, as_balance_wei = pb_balance_wei b,
      as_block_number = pb_block_number b, as_raw_sha256 = raw\<rparr>)"

definition resource_row_of :: "string \<Rightarrow> public_transaction \<Rightarrow> public_receipt \<Rightarrow> resource_row" where
  "resource_row_of i t r =
     \<lparr>rc_transaction_id = i, rc_chain_id = pt_chain_id t, rc_sender = pt_sender t, rc_recipient = pt_recipient t,
      rc_input_bytes = (case hex_bytes (remove_0x (pt_input_hex t)) of None \<Rightarrow> 0 | Some n \<Rightarrow> int n),
      rc_transaction_value_wei = pt_value_wei t, rc_gas_used = pc_gas_used r,
      rc_effective_gas_price_wei = pc_effective_gas_price_wei r,
      rc_execution_fee_wei = pc_gas_used r * pc_effective_gas_price_wei r, rc_l1_data_fee_wei = pc_l1_data_fee_wei r,
      rc_l1_data_fee_unavailable_reason = pc_l1_data_fee_unavailable_reason r,
      rc_carrier_payment_wei = pc_carrier_payment_wei r, rc_funding_attribution = pc_funding_attribution r\<rparr>"

definition receipt_row_of :: "string \<Rightarrow> string \<Rightarrow> public_receipt \<Rightarrow> receipt_row" where
  "receipt_row_of i raw r =
     \<lparr>rp_transaction_id = i, rp_block_number = pc_block_number r, rp_block_hash = pc_block_hash r,
      rp_receipt_status = pc_status r, rp_gas_used = pc_gas_used r,
      rp_effective_gas_price_wei = str_int (pc_effective_gas_price_wei r), rp_raw_sha256 = raw\<rparr>"

definition header_row_of :: "int \<Rightarrow> string \<Rightarrow> public_block_header \<Rightarrow> header_row" where
  "header_row_of chain raw b =
     \<lparr>hd_chain_id = chain, hd_block_number = ph_block_number b, hd_block_hash = ph_block_hash b,
      hd_parent_hash = ph_parent_hash b, hd_block_timestamp = ph_timestamp b, hd_raw_sha256 = raw\<rparr>"

definition mark_included :: "int \<Rightarrow> string \<Rightarrow> string \<Rightarrow> string \<Rightarrow> db \<Rightarrow> exn + db" where
  "mark_included clk i transaction_raw receipt_raw db =
     bindE (require (find_transaction i db) (EvmCollectorError EC_disappeared)) (\<lambda>t.
     if tx_state t \<in> {T_included, T_finalized} then Inr db
     else Inr (append_transition clk ''transaction'' i (Some (E_tx (tx_state t))) (E_tx T_included)
                 (JObj [(''transaction_raw_sha256'', JStr transaction_raw), (''receipt_raw_sha256'', JStr receipt_raw)])
                 (db\<lparr>t_transactions := update_where (\<lambda>x. tx_transaction_id x = i) (tx_state_update (\<lambda>_. T_included))
                        (t_transactions db)\<rparr>)))"

definition normalize_txn ::
  "evm_tools \<Rightarrow> int \<Rightarrow> string \<Rightarrow> string \<Rightarrow> public_transaction \<times> string \<Rightarrow> public_receipt \<times> string
     \<Rightarrow> public_block_header \<times> string \<Rightarrow> balance_item list \<Rightarrow> unit ev_txn" where
  "normalize_txn tk clk i attempt_id t r b balances ev =
     bindE (header_ignore (header_row_of (pt_chain_id (fst t)) (snd b) (fst b)) ev) (\<lambda>ev.
     bindE (insert_receipt (receipt_row_of i (snd r) (fst r)) ev) (\<lambda>ev.
     bindE (insert_resource (resource_row_of i (fst t) (fst r)) ev) (\<lambda>ev.
     bindE (foldE (\<lambda>l. insert_log (log_row tk i (snd r) l)) (pc_logs (fst r)) ev) (\<lambda>ev.
     bindE (foldE (\<lambda>x. insert_snapshot (snapshot_row_of tk i attempt_id (pt_chain_id (fst t)) x)) balances ev) (\<lambda>ev.
     bindE (mark_included clk i (snd t) (snd r) (ev_db ev)) (\<lambda>db. Inr ((), ev\<lparr>ev_db := db\<rparr>)))))))"

definition collect_fresh ::
  "evm_tools \<Rightarrow> evm_provider \<Rightarrow> int \<Rightarrow> string \<Rightarrow> string list \<Rightarrow> transaction_row \<times> string \<Rightarrow> string
     \<Rightarrow> collected_transaction evm" where
  "collect_fresh tk pv clk i accounts known transaction_hash =
     act_bind (evm_ask_or EC_read_failed (\<lambda>n. ep_transaction pv n transaction_hash)) (\<lambda>t.
     act_bind (evm_ask_or EC_read_failed (\<lambda>n. ep_receipt pv n transaction_hash)) (\<lambda>r.
     act_bind (act_lift (require t (EvmCollectorError EC_no_transaction))) (\<lambda>t.
     act_bind (act_lift (require r (EvmCollectorError EC_no_receipt))) (\<lambda>r.
     act_bind (evm_ask_or EC_block_failed (\<lambda>n. ep_block_header pv n (pc_block_number (en_value r)))) (\<lambda>b.
     act_bind (act_lift (require b (EvmCollectorError EC_no_block))) (\<lambda>b.
     act_bind (act_lift (evm_validate transaction_hash (tx_chain_id (fst known)) (tx_nonce (fst known))
                           (en_value t) (en_value r) (en_value b))) (\<lambda>_.
     act_bind (act_lift (hit (et_crash tk) CP_after_receipt_before_raw_commit)) (\<lambda>_.
     act_bind (put_rpc_raw tk clk (en_raw_bytes t) (en_provider_id t) ''transaction'') (\<lambda>t_raw.
     act_bind (put_rpc_raw tk clk (en_raw_bytes r) (en_provider_id r) ''receipt'') (\<lambda>r_raw.
     act_bind (put_rpc_raw tk clk (en_raw_bytes b) (en_provider_id b) ''block_header'') (\<lambda>b_raw.
     act_bind (collect_accounts tk pv clk (balance_blocks (pc_block_number (en_value r)))
                 (text_sort (remdups accounts)) []) (\<lambda>balances.
     act_bind (act_lift (hit (et_crash tk) CP_after_raw_commit_before_normalized_commit)) (\<lambda>_.
     act_bind (evm_write (normalize_txn tk clk i (snd known) (en_value t, t_raw) (en_value r, r_raw) (en_value b, b_raw)
                            balances)) (\<lambda>_.
     act_return
       \<lparr>ct_transaction_id = i, ct_transaction_hash = transaction_hash, ct_chain_id = pt_chain_id (en_value t),
        ct_block_number = pc_block_number (en_value r), ct_gas_used = pc_gas_used (en_value r),
        ct_execution_fee_wei = rc_execution_fee_wei (resource_row_of i (en_value t) (en_value r)),
        ct_input_bytes = rc_input_bytes (resource_row_of i (en_value t) (en_value r)),
        ct_balance_snapshots = int (length balances)\<rparr>))))))))))))))"

definition collect_transaction ::
  "evm_tools \<Rightarrow> evm_provider \<Rightarrow> int \<Rightarrow> string \<Rightarrow> string list \<Rightarrow> collected_transaction evm" where
  "collect_transaction tk pv clk i accounts =
     act_bind (evm_read (\<lambda>ev. Inr (known_transaction i ev, existing_collection i ev))) (\<lambda>(known, existing).
     act_bind (act_lift (require (Option.bind known (\<lambda>k. map_option (Pair k) (tx_transaction_hash (fst k))))
                           (EvmCollectorError EC_no_hash))) (\<lambda>(k, transaction_hash).
     case existing of
       Some c \<Rightarrow> act_return c
     | None \<Rightarrow> collect_fresh tk pv clk i accounts k transaction_hash))"

end
