(* ===== verification/Xir_Evm_Properties.thy ===== *)
theory Xir_Evm_Properties
  imports Xir_Evm Xir_Action_Rules Xir_Demo_Route
begin

text \<open>
  A collection writes its normalized rows together or not at all, the rows agree with each other, and a collected
  transaction is answered from the store, without the provider.
\<close>

section \<open>Only raw bytes before the rows\<close>

definition raw_only :: "evidence \<Rightarrow> evm_world \<Rightarrow> bool" where
  "raw_only ev w \<longleftrightarrow> (\<exists>rs. ew_ev w = ev\<lparr>ev_raw := ev_raw ev @ rs\<rparr>)"

lemma raw_only_refl: "raw_only (ew_ev w) w"
  unfolding raw_only_def by (rule exI [of _ "[]"]) simp

lemma bind_evm_read:
  "(\<And>w. P w \<Longrightarrow> I w) \<Longrightarrow> (\<And>a. triple I (\<lambda>w. P w \<and> g (ew_ev w) = Inr a) (f a) Q) \<Longrightarrow> triple I P (act_bind (evm_read g) f) Q"
  by (rule triple_bind [where R = "\<lambda>a w. P w \<and> g (ew_ev w) = Inr a"]) (auto simp: triple_def evm_read_def split: sum.splits)

lemma keep_ask: "triple (raw_only ev) (raw_only ev) (evm_ask g) (\<lambda>_. raw_only ev)"
  "triple (raw_only ev) (raw_only ev) (evm_ask_or e g') (\<lambda>_. raw_only ev)"
  by (auto simp: triple_def evm_ask_def evm_ask_or_def raw_only_def ew_ev_def split: sum.splits)

lemma keep_put: "triple (raw_only ev) (raw_only ev) (put_rpc_raw tk clk d q k) (\<lambda>_. raw_only ev)"
proof -
  have row: "\<exists>rs. ev2 = ev1\<lparr>ev_raw := ev_raw ev1 @ rs\<rparr>" if "put_row_txn r ev1 = Inr (u, ev2)" for r u ev1 ev2
    using that by (auto simp: put_row_txn_def split: if_splits intro: exI [of _ "[]"])
  have raw: "\<exists>rs. rs_ev raw' = (rs_ev raw)\<lparr>ev_raw := ev_raw (rs_ev raw) @ rs\<rparr>"
    if "put_raw ser sha od c data mt md raw = (x, raw')" for ser sha od c data mt md raw x raw'
  proof (cases "rs_ev raw' = rs_ev raw")
    case True
    then show ?thesis by (intro exI [of _ "[]"]) simp
  next
    case False
    with that show ?thesis by (auto simp: put_raw_def Let_def store_write_def split: sum.splits prod.splits dest: row)
  qed
  have "raw_only ev (w\<lparr>ew_raw := raw'\<rparr>)" if "raw_only ev w" "put_raw ser sha od c data mt md (ew_raw w) = (x, raw')"
    for ser sha od c data mt md w x raw'
  proof -
    from that(1) obtain rs where "ew_ev w = ev\<lparr>ev_raw := ev_raw ev @ rs\<rparr>" by (auto simp: raw_only_def)
    with raw [OF that(2)] obtain qs where "rs_ev raw' = ev\<lparr>ev_raw := ev_raw ev @ (rs @ qs)\<rparr>" by (auto simp: ew_ev_def)
    then show ?thesis unfolding raw_only_def ew_ev_def by (intro exI [of _ "rs @ qs"]) simp
  qed
  then show ?thesis by (auto simp: triple_def put_rpc_raw_def split: sum.splits prod.splits)
qed

lemma keep_balance: "triple (raw_only ev) (raw_only ev) (collect_balance tk pv clk a b) (\<lambda>_. raw_only ev)"
  unfolding collect_balance_def by (intro keep_rules keep_ask keep_put)

lemma keep_blocks: "triple (raw_only ev) (raw_only ev) (collect_blocks tk pv clk a bs acc) (\<lambda>_. raw_only ev)"
  by (induction bs arbitrary: acc) (simp_all only: collect_blocks.simps, intro keep_rules, intro keep_bind keep_balance)

lemma keep_accounts: "triple (raw_only ev) (raw_only ev) (collect_accounts tk pv clk blocks as acc) (\<lambda>_. raw_only ev)"
  by (induction "as" arbitrary: acc) (simp_all only: collect_accounts.simps, intro keep_rules, intro keep_rules keep_blocks)

lemma bind_keep: "triple I I m (\<lambda>_. I) \<Longrightarrow> (\<And>a. triple I I (f a) Q) \<Longrightarrow> triple I I (act_bind m f) Q"
  by (rule triple_bind)

section \<open>The rows of one collection\<close>

definition normalized :: "evidence \<Rightarrow> db \<times> receipt_row list \<times> resource_row list \<times> header_row list \<times> event_log_row list \<times> snapshot_row list" where
  "normalized ev = (ev_db ev, ev_receipts ev, ev_resources ev, ev_headers ev, ev_logs ev, ev_snapshots ev)"

lemma raw_only_normalized: "raw_only ev w \<Longrightarrow> normalized (ew_ev w) = normalized ev"
  by (auto simp: raw_only_def normalized_def)

lemma header_effect: "header_ignore h ev = Inr ev' \<Longrightarrow> \<exists>hs. ev' = ev\<lparr>ev_headers := hs\<rparr>"
  by (auto simp: header_ignore_def exn_simps split: if_splits intro: exI [of _ "ev_headers ev"])

lemma logs_effect:
  assumes "foldE (\<lambda>l. insert_log (f l)) ls ev = Inr ev'"
  shows "\<exists>ls. ev' = ev\<lparr>ev_logs := ls\<rparr>"
proof (rule foldE_invariant [where P = "\<lambda>e. \<exists>ls. e = ev\<lparr>ev_logs := ls\<rparr>", OF assms])
  show "\<exists>ls. ev = ev\<lparr>ev_logs := ls\<rparr>" by (rule exI [of _ "ev_logs ev"]) simp
  show "\<exists>ls. e' = ev\<lparr>ev_logs := ls\<rparr>" if "\<exists>ls. e = ev\<lparr>ev_logs := ls\<rparr>" "insert_log (f l) e = Inr e'" for l e e'
    using that by (auto simp: insert_log_def exn_simps)
qed

lemma snapshots_effect:
  assumes "foldE (\<lambda>x. insert_snapshot (f x)) xs ev = Inr ev'"
  shows "\<exists>ss. ev' = ev\<lparr>ev_snapshots := ss\<rparr>"
proof (rule foldE_invariant [where P = "\<lambda>e. \<exists>ss. e = ev\<lparr>ev_snapshots := ss\<rparr>", OF assms])
  show "\<exists>ss. ev = ev\<lparr>ev_snapshots := ss\<rparr>" by (rule exI [of _ "ev_snapshots ev"]) simp
  show "\<exists>ss. e' = ev\<lparr>ev_snapshots := ss\<rparr>" if "\<exists>ss. e = ev\<lparr>ev_snapshots := ss\<rparr>" "insert_snapshot (f x) e = Inr e'" for x e e'
    using that by (auto simp: insert_snapshot_def exn_simps)
qed

lemma mark_included_effect:
  assumes "mark_included clk i d d' db = Inr db'"
  obtains t t' where "find_transaction i db = Some t" "find_transaction i db' = Some t'" "tx_transaction_hash t' = tx_transaction_hash t"
    "tx_state t' \<in> {T_included, T_finalized}" "stage_of_transaction t' db' = stage_of_transaction t db"
proof -
  from assms obtain t where t: "find_transaction i db = Some t" by (auto simp: mark_included_def exn_simps)
  show ?thesis
  proof (cases "tx_state t \<in> {T_included, T_finalized}")
    case True
    with assms t have "db' = db" by (auto simp: mark_included_def)
    with that [of t t] t True show ?thesis by simp
  next
    case False
    from find_SomeD [OF t [unfolded find_transaction_def]] have i: "tx_transaction_id t = i" by simp
    from False assms t have "find_transaction i db' = Some (t\<lparr>tx_state := T_included\<rparr>)" "t_intents db' = t_intents db"
      "t_stages db' = t_stages db"
      by (auto simp: mark_included_def append_transition_def find_transaction_def find_update_where i)
    moreover from this(2,3) have "stage_of_transaction (t\<lparr>tx_state := T_included\<rparr>) db' = stage_of_transaction t db"
      by (simp add: stage_of_transaction_def find_intent_def find_stage_def)
    ultimately show ?thesis using that [of t "t\<lparr>tx_state := T_included\<rparr>"] t by simp
  qed
qed

lemma normalize_effects:
  assumes run: "normalize_txn tk clk i a t r b balances ev = Inr (u, ev')"
  shows "ev_resources ev' = ev_resources ev @ [resource_row_of i (fst t) (fst r)]"
    "ev_receipts ev' = ev_receipts ev @ [receipt_row_of i (snd r) (fst r)]" "ev_raw ev' = ev_raw ev"
    "find_resource i ev = None" "find_receipt_row i ev = None" "find_raw (snd r) ev \<noteq> None"
    "(pc_l1_data_fee_wei (fst r) = None) \<noteq> (pc_l1_data_fee_unavailable_reason (fst r) = None)"
    "\<exists>x x'. find_transaction i (ev_db ev) = Some x \<and> find_transaction i (ev_db ev') = Some x'
       \<and> tx_transaction_hash x' = tx_transaction_hash x \<and> tx_state x' \<in> {T_included, T_finalized}
       \<and> stage_of_transaction x' (ev_db ev') = stage_of_transaction x (ev_db ev)"
proof -
  from run obtain e1 e2 e3 e4 e5 db where steps: "header_ignore (header_row_of (pt_chain_id (fst t)) (snd b) (fst b)) ev = Inr e1"
    "insert_receipt (receipt_row_of i (snd r) (fst r)) e1 = Inr e2" "insert_resource (resource_row_of i (fst t) (fst r)) e2 = Inr e3"
    "foldE (\<lambda>l. insert_log (log_row tk i (snd r) l)) (pc_logs (fst r)) e3 = Inr e4"
    "foldE (\<lambda>x. insert_snapshot (snapshot_row_of tk i a (pt_chain_id (fst t)) x)) balances e4 = Inr e5"
    "mark_included clk i (snd t) (snd r) (ev_db e5) = Inr db" "ev' = e5\<lparr>ev_db := db\<rparr>"
    by (auto simp: normalize_txn_def exn_simps)
  obtain hs where e1: "e1 = ev\<lparr>ev_headers := hs\<rparr>" using header_effect [OF steps(1)] by blast
  from steps(2) have e2: "e2 = ev\<lparr>ev_headers := hs, ev_receipts := ev_receipts ev @ [receipt_row_of i (snd r) (fst r)]\<rparr>"
    and no_receipt: "find_receipt_row i ev = None" and raw: "find_raw (snd r) ev \<noteq> None"
    by (auto simp: insert_receipt_def exn_simps receipt_row_of_def e1 find_receipt_row_def find_raw_def)
  from steps(3) have e3: "e3 = e2\<lparr>ev_resources := ev_resources ev @ [resource_row_of i (fst t) (fst r)]\<rparr>"
    and no_resource: "find_resource i ev = None"
    and l1: "(pc_l1_data_fee_wei (fst r) = None) \<noteq> (pc_l1_data_fee_unavailable_reason (fst r) = None)"
    by (auto simp: insert_resource_def exn_simps resource_row_of_def e2 find_resource_def)
  obtain ls ss where e5: "e5 = e3\<lparr>ev_logs := ls, ev_snapshots := ss\<rparr>"
    using logs_effect [OF steps(4)] snapshots_effect [OF steps(5)] by blast
  show "ev_resources ev' = ev_resources ev @ [resource_row_of i (fst t) (fst r)]"
    "ev_receipts ev' = ev_receipts ev @ [receipt_row_of i (snd r) (fst r)]" "ev_raw ev' = ev_raw ev"
    by (simp_all add: steps(7) e5 e3 e2)
  show "find_resource i ev = None" "find_receipt_row i ev = None" "find_raw (snd r) ev \<noteq> None"
    "(pc_l1_data_fee_wei (fst r) = None) \<noteq> (pc_l1_data_fee_unavailable_reason (fst r) = None)"
    by (rule no_resource no_receipt raw l1)+
  have "ev_db e5 = ev_db ev" by (simp add: e5 e3 e2)
  with mark_included_effect [OF steps(6)] obtain x x' where "find_transaction i (ev_db ev) = Some x" "find_transaction i db = Some x'"
    "tx_transaction_hash x' = tx_transaction_hash x" "tx_state x' \<in> {T_included, T_finalized}"
    "stage_of_transaction x' db = stage_of_transaction x (ev_db ev)" by metis
  then show "\<exists>x x'. find_transaction i (ev_db ev) = Some x \<and> find_transaction i (ev_db ev') = Some x'
       \<and> tx_transaction_hash x' = tx_transaction_hash x \<and> tx_state x' \<in> {T_included, T_finalized}
       \<and> stage_of_transaction x' (ev_db ev') = stage_of_transaction x (ev_db ev)"
    by (auto simp: steps(7))
qed

section \<open>One call\<close>

definition collected_of :: "string \<Rightarrow> string \<Rightarrow> public_transaction \<Rightarrow> public_receipt \<Rightarrow> int \<Rightarrow> collected_transaction" where
  "collected_of i transaction_hash t r n =
     \<lparr>ct_transaction_id = i, ct_transaction_hash = transaction_hash, ct_chain_id = pt_chain_id t,
      ct_block_number = pc_block_number r, ct_gas_used = pc_gas_used r,
      ct_execution_fee_wei = rc_execution_fee_wei (resource_row_of i t r),
      ct_input_bytes = rc_input_bytes (resource_row_of i t r), ct_balance_snapshots = n\<rparr>"

definition fresh_collection :: "evidence \<Rightarrow> string \<Rightarrow> string \<Rightarrow> collected_transaction \<Rightarrow> evidence \<Rightarrow> bool" where
  "fresh_collection ev i transaction_hash c ev' \<longleftrightarrow> (\<exists>tk clk a t r b balances rs.
     normalize_txn tk clk i a t r b balances (ev\<lparr>ev_raw := ev_raw ev @ rs\<rparr>) = Inr ((), ev')
     \<and> c = collected_of i transaction_hash (fst t) (fst r) (int (length balances)))"

lemma collect_fresh_triple:
  "triple (raw_only ev) (raw_only ev) (collect_fresh tk pv clk i accounts k transaction_hash)
     (\<lambda>c w. fresh_collection ev i transaction_hash c (ew_ev w))"
  unfolding collect_fresh_def
proof (rule bind_keep [OF keep_ask(2)], rule bind_keep [OF keep_ask(2)], rule bind_check, assumption, rule bind_check, assumption,
    rule bind_keep [OF keep_ask(2)], rule bind_check, assumption, rule bind_check, assumption, rule bind_check, assumption,
    rule bind_keep [OF keep_put], rule bind_keep [OF keep_put], rule bind_keep [OF keep_put], rule bind_keep [OF keep_accounts],
    rule bind_check, assumption)
  fix t :: "public_transaction envelope" and r :: "public_receipt envelope" and b :: "public_block_header envelope"
    and t_raw r_raw b_raw and balances :: "balance_item list"
  let ?txn = "normalize_txn tk clk i (snd k) (en_value t, t_raw) (en_value r, r_raw) (en_value b, b_raw) balances"
  let ?c = "collected_of i transaction_hash (en_value t) (en_value r) (int (length balances))"
  have "triple (raw_only ev) (raw_only ev) (evm_write ?txn) (\<lambda>_ w. fresh_collection ev i transaction_hash ?c (ew_ev w))"
    unfolding triple_def
  proof (intro allI impI)
    fix w assume w: "raw_only ev w"
    then obtain rs where rs: "ew_ev w = ev\<lparr>ev_raw := ev_raw ev @ rs\<rparr>" by (auto simp: raw_only_def)
    show "case evm_write ?txn w of (Inl e, w') \<Rightarrow> raw_only ev w' | (Inr a, w') \<Rightarrow> fresh_collection ev i transaction_hash ?c (ew_ev w')"
    proof (cases "?txn (ew_ev w)")
      case (Inl e)
      with w show ?thesis by (simp add: evm_write_def store_write_def raw_only_def ew_ev_def)
    next
      case (Inr x)
      then obtain ev' where "?txn (ew_ev w) = Inr ((), ev')" by (cases x) simp
      moreover from this have "fresh_collection ev i transaction_hash ?c ev'"
        unfolding fresh_collection_def rs by (metis fst_conv)
      ultimately show ?thesis by (simp add: evm_write_def store_write_def ew_ev_def)
    qed
  qed
  note writes = this
  show "triple (raw_only ev) (raw_only ev) (act_bind (evm_write ?txn) (\<lambda>_. act_return
       \<lparr>ct_transaction_id = i, ct_transaction_hash = transaction_hash, ct_chain_id = pt_chain_id (en_value t),
        ct_block_number = pc_block_number (en_value r), ct_gas_used = pc_gas_used (en_value r),
        ct_execution_fee_wei = rc_execution_fee_wei (resource_row_of i (en_value t) (en_value r)),
        ct_input_bytes = rc_input_bytes (resource_row_of i (en_value t) (en_value r)),
        ct_balance_snapshots = int (length balances)\<rparr>))
     (\<lambda>c w. fresh_collection ev i transaction_hash c (ew_ev w))"
    by (rule triple_bind [OF writes triple_return]) (simp add: collected_of_def)
qed

definition collect_post :: "evidence \<Rightarrow> string \<Rightarrow> collected_transaction \<Rightarrow> evidence \<Rightarrow> bool" where
  "collect_post ev i c ev' \<longleftrightarrow> (\<exists>t a transaction_hash. known_transaction i ev = Some (t, a) \<and> tx_transaction_hash t = Some transaction_hash
     \<and> (existing_collection i ev = Some c \<and> ev' = ev
        \<or> existing_collection i ev = None \<and> fresh_collection ev i transaction_hash c ev'))"

lemma collect_triple:
  "triple (raw_only ev) (\<lambda>w. ew_ev w = ev) (collect_transaction tk pv clk i accounts) (\<lambda>c w. collect_post ev i c (ew_ev w))"
  unfolding collect_transaction_def
proof (rule bind_evm_read)
  show "raw_only ev w" if "ew_ev w = ev" for w using raw_only_refl [of w] that by simp
  fix both :: "(transaction_row \<times> string) option \<times> collected_transaction option"
  obtain known existing where both: "both = (known, existing)" by (cases both)
  let ?P = "\<lambda>w. ew_ev w = ev \<and> (Inr (known_transaction i (ew_ev w), existing_collection i (ew_ev w)) :: exn + _) = Inr both"
  have P: "raw_only ev w" if "?P w" for w using raw_only_refl [of w] that by simp
  show "triple (raw_only ev) ?P (case both of (known, existing) \<Rightarrow>
      act_bind (act_lift (require (Option.bind known (\<lambda>k. map_option (Pair k) (tx_transaction_hash (fst k))))
                           (EvmCollectorError EC_no_hash))) (\<lambda>(k, transaction_hash).
      case existing of Some c \<Rightarrow> act_return c | None \<Rightarrow> collect_fresh tk pv clk i accounts k transaction_hash))
     (\<lambda>c w. collect_post ev i c (ew_ev w))"
    unfolding both prod.case
  proof (rule bind_check, use P both in blast)
    fix kh :: "(transaction_row \<times> string) \<times> string"
    assume kh: "require (Option.bind known (\<lambda>k. map_option (Pair k) (tx_transaction_hash (fst k)))) (EvmCollectorError EC_no_hash) = Inr kh"
    then obtain t a th where k: "kh = ((t, a), th)" "known = Some (t, a)" "tx_transaction_hash t = Some th"
      by (cases known) (auto simp: exn_simps)
    let ?P' = "\<lambda>w. ew_ev w = ev \<and> (Inr (known_transaction i (ew_ev w), existing_collection i (ew_ev w)) :: exn + _) = Inr (known, existing)"
    show "triple (raw_only ev) ?P' (case kh of (k, transaction_hash) \<Rightarrow>
        case existing of Some c \<Rightarrow> act_return c | None \<Rightarrow> collect_fresh tk pv clk i accounts k transaction_hash)
       (\<lambda>c w. collect_post ev i c (ew_ev w))"
    proof (cases existing)
      case (Some c)
      then show ?thesis unfolding k(1) prod.case by (auto intro!: triple_return simp: collect_post_def k)
    next
      case None
      show ?thesis unfolding k(1) prod.case None option.case triple_def
      proof (intro allI impI)
        fix w assume w: "ew_ev w = ev \<and> (Inr (known_transaction i (ew_ev w), existing_collection i (ew_ev w)) :: exn + _) = Inr (known, None)"
        then have "raw_only ev w" using raw_only_refl [of w] by simp
        note fresh = collect_fresh_triple [unfolded triple_def, rule_format, OF this, where tk = tk and pv = pv and clk = clk and i = i and accounts = accounts and k = "(t, a)" and transaction_hash = th]
        from w k(2) have "known_transaction i ev = Some (t, a)" "existing_collection i ev = None" by auto
        with fresh k(3)
        show "case collect_fresh tk pv clk i accounts (t, a) th w of
            (Inl e, w') \<Rightarrow> raw_only ev w' | (Inr c, w') \<Rightarrow> collect_post ev i c (ew_ev w')"
          by (auto simp: collect_post_def split: sum.splits prod.splits)
      qed
    qed
  qed
qed

section \<open>Histories\<close>

definition resource_ok :: "evidence \<Rightarrow> resource_row \<Rightarrow> bool" where
  "resource_ok ev r \<longleftrightarrow> rc_execution_fee_wei r = rc_gas_used r * rc_effective_gas_price_wei r
     \<and> (rc_l1_data_fee_wei r = None) \<noteq> (rc_l1_data_fee_unavailable_reason r = None)
     \<and> (\<exists>p. find_receipt_row (rc_transaction_id r) ev = Some p \<and> rp_gas_used p = rc_gas_used r
          \<and> rp_effective_gas_price_wei p = str_int (rc_effective_gas_price_wei r) \<and> find_raw (rp_raw_sha256 p) ev \<noteq> None)"

definition resources_inv :: "evidence \<Rightarrow> bool" where
  "resources_inv ev \<longleftrightarrow> list_all (resource_ok ev) (ev_resources ev) \<and> distinct (map rc_transaction_id (ev_resources ev))"

lemma find_receipt_append: "find_receipt_row i ev = Some p \<Longrightarrow> ev_receipts ev' = ev_receipts ev @ ps \<Longrightarrow> find_receipt_row i ev' = Some p"
  by (simp add: find_receipt_row_def find_append)

lemma find_raw_append: "find_raw d ev \<noteq> None \<Longrightarrow> ev_raw ev' = ev_raw ev @ rs \<Longrightarrow> find_raw d ev' \<noteq> None"
  by (auto simp: find_raw_def find_append)

lemma resource_ok_append:
  "resource_ok ev r \<Longrightarrow> ev_receipts ev' = ev_receipts ev @ ps \<Longrightarrow> ev_raw ev' = ev_raw ev @ rs \<Longrightarrow> resource_ok ev' r"
  unfolding resource_ok_def using find_receipt_append find_raw_append by meson

lemma fresh_collection_inv:
  assumes inv: "resources_inv ev" and fresh: "fresh_collection ev i th c ev'"
  shows "resources_inv ev'"
    and "known_transaction i ev = Some (x, k) \<Longrightarrow> tx_transaction_hash x = Some th \<Longrightarrow>
      existing_collection i ev' = Some (c\<lparr>ct_balance_snapshots := balance_count i ev'\<rparr>)
      \<and> (\<exists>x'. known_transaction i ev' = Some (x', k) \<and> tx_transaction_hash x' = Some th)"
proof -
  from fresh obtain tk clk a t r b balances rs where run: "normalize_txn tk clk i a t r b balances (ev\<lparr>ev_raw := ev_raw ev @ rs\<rparr>) = Inr ((), ev')"
    and c: "c = collected_of i th (fst t) (fst r) (int (length balances))" unfolding fresh_collection_def by blast
  note eff = normalize_effects [OF run]
  let ?res = "resource_row_of i (fst t) (fst r)" and ?rec = "receipt_row_of i (snd r) (fst r)"
  have rows: "ev_resources ev' = ev_resources ev @ [?res]" "ev_receipts ev' = ev_receipts ev @ [?rec]" "ev_raw ev' = ev_raw ev @ rs"
    using eff(1,2,3) by simp_all
  have none: "find_resource i ev = None" "find_receipt_row i ev = None" using eff(4,5) by (simp_all add: find_resource_def find_receipt_row_def)
  then have found: "find_receipt_row i ev' = Some ?rec" "find_resource i ev' = Some ?res"
    by (simp_all add: find_receipt_row_def find_resource_def rows find_append receipt_row_of_def resource_row_of_def)
  have "find_raw (snd r) ev' \<noteq> None" using eff(6) by (simp add: find_raw_def rows)
  with found(1) eff(7) have "resource_ok ev' ?res" by (simp add: resource_ok_def) (simp add: resource_row_of_def receipt_row_of_def)
  moreover have "resource_ok ev' x" if "x \<in> set (ev_resources ev)" for x
    using inv that by (auto simp: resources_inv_def list_all_iff intro: resource_ok_append [OF _ rows(2,3)])
  moreover have "i \<notin> rc_transaction_id ` set (ev_resources ev)" using none(1) by (auto simp: find_resource_def find_None_iff)
  ultimately show "resources_inv ev'" using inv by (auto simp: resources_inv_def list_all_iff rows resource_row_of_def)
  assume k: "known_transaction i ev = Some (x, k)" and th: "tx_transaction_hash x = Some th"
  then have "find_transaction i (ev_db ev) = Some x" by (auto simp: known_transaction_def bind_eq_Some_conv)
  with eff(8) obtain x' where tx: "find_transaction i (ev_db ev') = Some x'" "tx_transaction_hash x' = tx_transaction_hash x"
    "stage_of_transaction x' (ev_db ev') = stage_of_transaction x (ev_db ev)" by auto
  from tx k have "known_transaction i ev' = Some (x', k)" by (auto simp: known_transaction_def bind_eq_Some_conv)
  moreover from tx(1,2) th found have "existing_collection i ev' = Some (c\<lparr>ct_balance_snapshots := balance_count i ev'\<rparr>)"
    by (simp add: existing_collection_def c collected_of_def receipt_row_of_def resource_row_of_def)
  ultimately show "existing_collection i ev' = Some (c\<lparr>ct_balance_snapshots := balance_count i ev'\<rparr>)
      \<and> (\<exists>x'. known_transaction i ev' = Some (x', k) \<and> tx_transaction_hash x' = Some th)" using tx(2) th by auto
qed

text \<open>Collections, and anything else that keeps receipts, resources and registered bytes.\<close>

inductive evm_step :: "evm_world \<Rightarrow> evm_world \<Rightarrow> bool" where
  collect: "evm_step w (snd (collect_transaction tk pv clk i accounts w))"
| other: "ev_resources (ew_ev w') = ev_resources (ew_ev w) \<Longrightarrow> ev_receipts (ew_ev w') = ev_receipts (ew_ev w) \<Longrightarrow>
    ev_raw (ew_ev w') = ev_raw (ew_ev w) @ rs \<Longrightarrow> evm_step w w'"

definition uncollected :: "evm_world \<Rightarrow> bool" where
  "uncollected w \<longleftrightarrow> ev_resources (ew_ev w) = [] \<and> ev_receipts (ew_ev w) = []"

lemma resources_inv_cong:
  assumes "resources_inv ev" and "ev_resources ev' = ev_resources ev" "ev_receipts ev' = ev_receipts ev" "ev_raw ev' = ev_raw ev @ rs"
  shows "resources_inv ev'"
proof -
  have "resource_ok ev' x" if "resource_ok ev x" for x
    by (rule resource_ok_append [OF that, where ps = "[]"]) (simp_all add: assms)
  with assms(1,2) show ?thesis by (simp add: resources_inv_def list_all_iff)
qed

lemma resources_raw_only: "raw_only ev w \<Longrightarrow> resources_inv ev \<Longrightarrow> resources_inv (ew_ev w)"
  by (auto simp: raw_only_def intro: resources_inv_cong)

lemma collect_call:
  assumes "collect_transaction tk pv clk i accounts w = (r, w')" and "resources_inv (ew_ev w)"
  shows "resources_inv (ew_ev w')"
    and "case r of Inl e \<Rightarrow> raw_only (ew_ev w) w' | Inr c \<Rightarrow> collect_post (ew_ev w) i c (ew_ev w')"
proof -
  from collect_triple [of "ew_ev w" tk pv clk i accounts] assms(1)
  show post: "case r of Inl e \<Rightarrow> raw_only (ew_ev w) w' | Inr c \<Rightarrow> collect_post (ew_ev w) i c (ew_ev w')"
    by (auto simp: triple_def split: sum.splits)
  show "resources_inv (ew_ev w')"
    using post assms(2) by (cases r) (auto simp: collect_post_def intro: resources_raw_only fresh_collection_inv(1))
qed

interpretation collections: transition_system uncollected evm_step "\<lambda>w. resources_inv (ew_ev w)"
proof
  show "resources_inv (ew_ev w)" if "uncollected w" for w using that by (simp add: uncollected_def resources_inv_def)
  show "resources_inv (ew_ev w')" if "resources_inv (ew_ev w)" "evm_step w w'" for w w'
    using that(2)
  proof cases
    case (collect tk pv clk i accounts)
    with collect_call(1) [OF _ that(1)] show ?thesis by (metis prod.collapse)
  next
    case (other rs)
    from resources_inv_cong [OF that(1) this] show ?thesis .
  qed
qed

text \<open>
  C19. In every reachable world each resource row belongs to one transaction, its fee is gas times price, exactly one of L1
  fee and reason is there, and its gas and price are those of a stored receipt whose raw bytes are registered. A
  collection that raises left all normalized tables as they were. One that returns has its row stored, and asking for the
  same transaction again returns the same values from the store without a call of the provider and without a write,
  only the number of snapshots is that of the whole attempt.
\<close>

theorem collected_resources_are_exact:
  assumes "uncollected w0" and "evm_step\<^sup>*\<^sup>* w0 w" and "collect_transaction tk pv clk i accounts w = (r, w1)"
  shows "resources_inv (ew_ev w1)
    \<and> (case r of
         Inl e \<Rightarrow> normalized (ew_ev w1) = normalized (ew_ev w)
       | Inr c \<Rightarrow> existing_collection i (ew_ev w1) = Some (c\<lparr>ct_balance_snapshots := balance_count i (ew_ev w1)\<rparr>)
           \<and> collect_transaction tk' pv' clk' i accounts' w1 = (Inr (c\<lparr>ct_balance_snapshots := balance_count i (ew_ev w1)\<rparr>), w1))"
proof -
  from collections.reachable_inv [OF assms(1,2)] have inv: "resources_inv (ew_ev w)" .
  note call = collect_call [OF assms(3) inv]
  show ?thesis
  proof (cases r)
    case (Inl e)
    with call show ?thesis by (simp add: raw_only_normalized)
  next
    case (Inr c)
    with call(2) obtain t a th where known: "known_transaction i (ew_ev w) = Some (t, a)" "tx_transaction_hash t = Some th"
      and post: "existing_collection i (ew_ev w) = Some c \<and> ew_ev w1 = ew_ev w
        \<or> existing_collection i (ew_ev w) = None \<and> fresh_collection (ew_ev w) i th c (ew_ev w1)"
      by (auto simp: collect_post_def)
    have stored: "existing_collection i (ew_ev w1) = Some (c\<lparr>ct_balance_snapshots := balance_count i (ew_ev w1)\<rparr>)
        \<and> (\<exists>x'. known_transaction i (ew_ev w1) = Some (x', a) \<and> tx_transaction_hash x' = Some th)"
      using post
    proof
      assume "existing_collection i (ew_ev w) = Some c \<and> ew_ev w1 = ew_ev w"
      with known show ?thesis by (auto simp: existing_collection_def bind_eq_Some_conv)
    next
      assume "existing_collection i (ew_ev w) = None \<and> fresh_collection (ew_ev w) i th c (ew_ev w1)"
      with fresh_collection_inv(2) [OF inv _ known] show ?thesis by blast
    qed
    then have "collect_transaction tk' pv' clk' i accounts' w1 = (Inr (c\<lparr>ct_balance_snapshots := balance_count i (ew_ev w1)\<rparr>), w1)"
      by (auto simp: collect_transaction_def act_bind_def evm_read_def act_lift_def act_return_def)
    with stored call(1) Inr show ?thesis by simp
  qed
qed

definition demo_evm_provider :: evm_provider where
  "demo_evm_provider =
     \<lparr>ep_transaction = (\<lambda>n h. Inr (Some \<lparr>en_value = \<lparr>pt_transaction_hash = h, pt_chain_id = 11155420, pt_nonce = 7,
        pt_sender = ''s'', pt_recipient = None, pt_input_hex = ''0xAb 01'', pt_value_wei = 0\<rparr>, en_raw_bytes = ''t'', en_provider_id = ''rpc''\<rparr>)),
      ep_receipt = (\<lambda>n h. Inr (Some \<lparr>en_value = \<lparr>pc_transaction_hash = h, pc_block_number = 5, pc_block_hash = ''0xB'', pc_status = 1,
        pc_gas_used = 21, pc_effective_gas_price_wei = 2, pc_logs = [], pc_l1_data_fee_wei = Some 3,
        pc_l1_data_fee_unavailable_reason = None, pc_carrier_payment_wei = 0, pc_funding_attribution = ''experiment''\<rparr>,
        en_raw_bytes = ''r'', en_provider_id = ''rpc''\<rparr>)),
      ep_block_header = (\<lambda>n b. Inr (Some \<lparr>en_value = \<lparr>ph_block_number = b, ph_block_hash = ''0xb'', ph_parent_hash = ''0xa'',
        ph_timestamp = 1\<rparr>, en_raw_bytes = ''b'', en_provider_id = ''rpc''\<rparr>)),
      ep_balance = (\<lambda>n a b. Inr \<lparr>en_value = \<lparr>pb_address = a, pb_block_number = b, pb_balance_wei = 9\<rparr>, en_raw_bytes = ''w'',
        en_provider_id = ''rpc''\<rparr>)\<rparr>"

definition demo_evm_tools :: evm_tools where
  "demo_evm_tools = \<lparr>et_digest = (\<lambda>j. case j of JObj [_, (_, JList [_, _, JStr a, JInt b])] \<Rightarrow> str_int b @ rev a | _ \<Rightarrow> ''d''), et_serialize = (\<lambda>_. ''{}''),
     et_sha256 = (\<lambda>b. take 64 (b @ replicate 64 (CHR ''0''))), et_on_disk = (\<lambda>_. 40), et_crash = (\<lambda>_. False)\<rparr>"

definition demo_uncollected :: evm_world where
  "demo_uncollected = \<lparr>ew_raw = \<lparr>rs_ev = empty_evidence demo_route_db, rs_files = []\<rparr>, ew_calls = 0\<rparr>"

definition demo_collection :: "(exn + collected_transaction) \<times> evm_world" where
  "demo_collection = collect_transaction demo_evm_tools demo_evm_provider 1 ''x0'' [] demo_uncollected"

definition demo_collected_view :: "(exn + collected_transaction) \<times> evm_world \<Rightarrow> bool \<times> int list" where
  "demo_collected_view p = (isl (fst p), map rc_execution_fee_wei (ev_resources (ew_ev (snd p))))"

lemma demo_collected_viewed: "demo_collected_view demo_collection = (False, [42])"
  by code_simp

theorem collected_resources_are_exact_witness:
  "map rc_execution_fee_wei (ev_resources (ew_ev (snd demo_collection))) = [42]
     \<and> snd (collect_transaction demo_evm_tools demo_evm_provider 2 ''x0'' [''0x1''] (snd demo_collection)) = snd demo_collection"
proof -
  have fee: "map rc_execution_fee_wei (ev_resources (ew_ev (snd demo_collection))) = [42]" using demo_collected_viewed by (simp add: demo_collected_view_def)
  obtain c where "fst demo_collection = Inr c" using demo_collected_viewed by (cases "fst demo_collection") (auto simp: demo_collected_view_def)
  then have "demo_collection = (Inr c, snd demo_collection)" by (simp add: prod_eq_iff)
  moreover have "uncollected demo_uncollected" by code_simp
  ultimately show ?thesis using collected_resources_are_exact [OF _ rtranclp.rtrancl_refl, of demo_uncollected] fee
    unfolding demo_collection_def by force
qed

text \<open>
  The number of snapshots a repeated call reports is that of the attempt: here the second transaction of the attempt has
  none, and asking for it again answers with the two of the first.
\<close>

lemma repeated_collection_counts_the_attempt:
  "let a = [''0x'' @ replicate 39 (CHR ''0'') @ ''1''];
       w = snd (collect_transaction demo_evm_tools demo_evm_provider 1 ''x0'' a demo_uncollected) in
   map_option ct_balance_snapshots (existing_collection ''x0'' (ew_ev w)) = Some 2
   \<and> balance_count ''x1'' (ew_ev w) = 2"
  by code_simp

text \<open>Two spellings of one account make the identifiers of its snapshots collide: the collection raises and stores no row.\<close>

lemma account_spellings_collide:
  "let a = [''0x'' @ replicate 39 (CHR ''0'') @ ''a'', ''0x'' @ replicate 39 (CHR ''0'') @ ''A''] in
   fst (collect_transaction demo_evm_tools demo_evm_provider 1 ''x0'' a demo_uncollected) = Inl IntegrityError"
  by code_simp

end
