(* ===== verification/Xir_Validator_Properties.thy ===== *)
theory Xir_Validator_Properties
  imports Xir_Validator Xir_Ledger_Backing Xir_Linking_Properties Xir_Evm_Properties
begin

text \<open>
  What the ledger, the linkers and the collector write passes the validator: in no history of their calls does a report
  contain an issue about budgets, fees, links or verifications. The other issues of a report come from what these
  components leave open.
\<close>

section \<open>What passes\<close>

definition ledger_ok :: "db \<Rightarrow> bool" where
  "ledger_ok d \<longleftrightarrow> machine_inv d \<and> rows_backed d"

definition successful_trace :: "xir_record_row \<Rightarrow> bool" where
  "successful_trace r \<longleftrightarrow> xr_intermediate_verified r \<and> xr_destination_verified r \<and> xr_effect_succeeded r"

definition recorded_ok :: "evidence \<Rightarrow> bool" where
  "recorded_ok ev \<longleftrightarrow> ledger_ok (ev_db ev)
     \<and> list_all (\<lambda>m. \<not> unlinked_message m) (t_carrier_messages (ev_db ev))
     \<and> list_all successful_trace (ev_xir_records ev)
     \<and> list_all (\<lambda>r. resource_issues_of r = []) (ev_resources ev)"

definition settled_codes :: "string set" where
  "settled_codes = {''budget_arithmetic'', ''resource_arithmetic'', ''null_reason'', ''carrier_transaction_link'',
     ''xir_destination_effect''}"

lemma ledger_ok_elsewhere:
  assumes "ledger_ok d" and "same_ledger d d'" "t_work_leases d' = t_work_leases d" "t_nonce_leases d' = t_nonce_leases d"
  shows "ledger_ok d'"
  using backing.inv_step [OF _ lease_step.elsewhere [OF assms(2,3)]] assms(1,4) by (simp add: ledger_ok_def bindings_def)

lemma recorded_ok_cong:
  assumes "recorded_ok ev" and "ledger_ok (ev_db ev')" and "t_carrier_messages (ev_db ev') = t_carrier_messages (ev_db ev)"
    and "ev_xir_records ev' = ev_xir_records ev" "ev_resources ev' = ev_resources ev"
  shows "recorded_ok ev'"
  using assms by (simp add: recorded_ok_def)

section \<open>The sums of the validator\<close>

lemma sql_sum_exact: "sql_sum xs = Inr s \<Longrightarrow> s = sum_list xs"
proof -
  have "foldE (\<lambda>x s. if int64 (s + x) then Inr (s + x) else Inl ExternalError) xs a = Inr s \<Longrightarrow> s = a + sum_list xs" for a
  proof (induction xs arbitrary: a)
    case (Cons x xs)
    from Cons.IH [of "a + x"] Cons.prems show ?case by (simp add: exn_simps split: if_splits)
  qed (simp add: exn_simps)
  then show "sql_sum xs = Inr s \<Longrightarrow> s = sum_list xs" by (fastforce simp: sql_sum_def)
qed

lemma budget_subs_total: "sum_list (map g (budget_subs b d)) = sub_total g b (t_subs d)"
  by (simp add: budget_subs_def sub_total_def total_def sum_list_map_filter')

lemma sort_by_key_set: "set (sort_by_key f xs) = set xs"
  by (simp add: sort_by_key_def sorted_items_set image_image)

lemma backed_budgets_pass:
  assumes "rows_backed d" and "budget_issues run_id d = Inr issues"
  shows "issues = []"
proof -
  let ?rows = "sort_by_key bg_reservation_id (sort_key bg_chain_id (filter (\<lambda>b. bg_run_id b = run_id) (t_budgets d)))"
  from assms(2) have "foldE (check_budget_sums d) ?rows [] = Inr issues" by (simp add: budget_issues_def)
  then show ?thesis
  proof (rule foldE_invariant [where P = "\<lambda>is. is = []"])
    fix b acc acc' assume b: "b \<in> set ?rows" and acc: "acc = []" and run: "check_budget_sums d b acc = Inr acc'"
    from b have "b \<in> set (t_budgets d)" by (simp add: sort_by_key_set)
    with assms(1) have "row_backed (t_subs d) b" by (simp add: rows_backed_def)
    with run acc show "acc' = []"
      by (auto simp: check_budget_sums_def exn_simps row_backed_def budget_subs_total dest!: sql_sum_exact)
  qed simp
qed

section \<open>Reports on recorded evidence\<close>

lemma code_of_issue [simp]: "is_code (issue_of c s d) = c"
  by (simp add: issue_of_def)

definition codes :: "issue list \<Rightarrow> string set" where
  "codes is = is_code ` set is"

lemma codes_simps [simp]: "codes [] = {}" "codes (x # xs) = insert (is_code x) (codes xs)" "codes (xs @ ys) = codes xs \<union> codes ys"
  by (auto simp: codes_def)

lemma open_codes:
  "codes (stage_issues i gs) \<subseteq> {''stage_template'', ''stage_ordinals''}"
  "codes (finality_issues i ev) \<subseteq> {''finality''}"
  "codes (unresolved_issues r d) \<subseteq> {''unresolved_invariant''}"
  "codes (nonce_issues r d) \<subseteq> {''nonce_uniqueness''}"
  "codes (replacement_issues d) \<subseteq> {''replacement_lineage''}"
  "codes (raw_issues w) \<subseteq> {''raw_missing'', ''raw_corrupt'', ''raw_orphans''}"
  by (auto simp: codes_def stage_issues_def finality_issues_def unresolved_issues_def nonce_issues_def replacement_issues_def
      raw_issues_def Let_def)

lemma settled_parts:
  assumes "recorded_ok ev"
  shows "codes (message_issues i (attempt_messages i ev)) \<subseteq> {''carrier_leg_continuity''}"
    and "codes (trace_issues i a (find (\<lambda>x. xr_attempt_id x = i) (ev_xir_records ev))) \<subseteq> {''xir_trace_missing'', ''baseline_xir_contamination''}"
    and "resource_issues run_id ev = []"
proof -
  from assms have "filter unlinked_message (attempt_messages i ev) = []"
    by (auto simp: recorded_ok_def attempt_messages_def list_all_iff filter_empty_conv)
  then show "codes (message_issues i (attempt_messages i ev)) \<subseteq> {''carrier_leg_continuity''}"
    by (simp add: message_issues_def)
  from assms show "codes (trace_issues i a (find (\<lambda>x. xr_attempt_id x = i) (ev_xir_records ev))) \<subseteq> {''xir_trace_missing'', ''baseline_xir_contamination''}"
    by (auto simp: trace_issues_def recorded_ok_def list_all_iff successful_trace_def split: option.splits dest: find_SomeD)
  from assms show "resource_issues run_id ev = []"
    by (auto simp: resource_issues_def recorded_ok_def list_all_iff)
qed

definition attempt_code_set :: "string set" where
  "attempt_code_set = {''scope_attempt_missing'', ''stage_template'', ''stage_ordinals'', ''carrier_leg_continuity'',
     ''xir_trace_missing'', ''baseline_xir_contamination'', ''finality''}"

definition open_code_set :: "string set" where
  "open_code_set = attempt_code_set \<union> {''unresolved_invariant'', ''nonce_uniqueness'', ''replacement_lineage'',
     ''raw_missing'', ''raw_corrupt'', ''raw_orphans''}"

lemma attempt_codes:
  assumes "recorded_ok ev"
  shows "codes (validate_attempt ev i) \<subseteq> attempt_code_set"
proof (cases "find_attempt i (ev_db ev)")
  case None
  then show ?thesis by (simp add: validate_attempt_def attempt_code_set_def)
next
  case (Some a)
  have "{''stage_template'', ''stage_ordinals''} \<subseteq> attempt_code_set" "{''finality''} \<subseteq> attempt_code_set"
    "{''carrier_leg_continuity''} \<subseteq> attempt_code_set" "{''xir_trace_missing'', ''baseline_xir_contamination''} \<subseteq> attempt_code_set"
    by (simp_all add: attempt_code_set_def)
  with settled_parts(1,2) [OF assms] open_codes(1,2) show ?thesis
    unfolding validate_attempt_def Some option.case codes_simps by (intro Un_least) (rule subset_trans, assumption+)+
qed

lemma codes_concat: "(\<And>x. x \<in> set xs \<Longrightarrow> codes (f x) \<subseteq> S) \<Longrightarrow> codes (concat (map f xs)) \<subseteq> S"
  by (induction xs) auto

lemma validate_readD:
  "validate_read sha run_id scope_id w = Inr report \<Longrightarrow> \<exists>ids budgets raw. budget_issues run_id (ev_db (rs_ev w)) = Inr budgets
     \<and> report = validation_report run_id ids (rs_ev w) budgets raw"
  by (auto simp: validate_read_def exn_simps)

lemma recorded_report:
  assumes ok: "recorded_ok (rs_ev w)" and run: "validate_read sha run_id scope_id w = Inr report"
  shows "codes (vr_issues report) \<subseteq> open_code_set"
proof -
  from validate_readD [OF run] obtain ids budgets raw where b: "budget_issues run_id (ev_db (rs_ev w)) = Inr budgets"
    and report: "report = validation_report run_id ids (rs_ev w) budgets raw" by blast
  from ok have "rows_backed (ev_db (rs_ev w))" by (simp add: recorded_ok_def ledger_ok_def)
  then have "budgets = []" using b by (rule backed_budgets_pass)
  moreover have "codes (concat (map (validate_attempt (rs_ev w)) ids)) \<subseteq> open_code_set"
    by (rule codes_concat, rule subset_trans [OF attempt_codes [OF ok]], unfold open_code_set_def, rule Un_upper1)
  moreover have "codes (unresolved_issues run_id (ev_db (rs_ev w))) \<subseteq> open_code_set"
    "codes (nonce_issues run_id (ev_db (rs_ev w))) \<subseteq> open_code_set"
    "codes (replacement_issues (ev_db (rs_ev w))) \<subseteq> open_code_set" "codes (raw_issues raw) \<subseteq> open_code_set"
    by (rule subset_trans [OF open_codes(3)] subset_trans [OF open_codes(4)] subset_trans [OF open_codes(5)]
        subset_trans [OF open_codes(6)], simp add: open_code_set_def)+
  ultimately show ?thesis
    by (simp add: report validation_report_def settled_parts(3) [OF ok])
qed

lemma open_not_settled: "open_code_set \<inter> settled_codes = {}"
  by (simp add: open_code_set_def attempt_code_set_def settled_codes_def)

section \<open>The calls\<close>

lemma keep_message: "recorded_ok ev \<Longrightarrow> link_message_txn (message_row h a e f) ev = Inr (u, ev') \<Longrightarrow> recorded_ok ev'"
  by (auto simp: link_message_txn_def exn_simps recorded_ok_def message_row_def unlinked_message_def same_ledger_def
      split: option.splits intro: ledger_ok_elsewhere)

lemma keep_effect: "recorded_ok ev \<Longrightarrow> record_effect_txn r ev = Inr (u, ev') \<Longrightarrow> recorded_ok ev'"
  by (auto simp: record_effect_txn_def exn_simps recorded_ok_def split: option.splits)

lemma keep_trace:
  "recorded_ok ev \<Longrightarrow> link_trace_txn (trace_row a s m d x legs) ev = Inr (u, ev') \<Longrightarrow> recorded_ok ev'"
  by (auto simp: link_trace_txn_def Let_def exn_simps recorded_ok_def effect_ignore_def trace_row_def successful_trace_def
      split: option.splits if_splits)

lemma linking_recorded:
  "triple recorded_ok recorded_ok (link_carrier h routes e f) (\<lambda>_. recorded_ok)"
  "triple recorded_ok recorded_ok (link_trace s m d x) (\<lambda>_. recorded_ok)"
  "triple recorded_ok recorded_ok (record_effect a t i p b) (\<lambda>_. recorded_ok)"
  unfolding link_carrier_def link_trace_def record_effect_def Let_def
  by (intro keep_rules keep_link_read; blast intro: keep_message keep_trace keep_effect)+

lemma mark_included_ledger:
  "mark_included clk i x y d = Inr d' \<Longrightarrow> same_ledger d d' \<and> t_work_leases d' = t_work_leases d
     \<and> t_nonce_leases d' = t_nonce_leases d \<and> t_carrier_messages d' = t_carrier_messages d"
  by (auto simp: mark_included_def exn_simps append_transition_def same_ledger_def split: if_splits)

lemma keep_normalize:
  assumes ok: "recorded_ok ev" and run: "normalize_txn tk clk i a t r b balances ev = Inr (u, ev')"
  shows "recorded_ok ev'"
proof -
  from run obtain e1 e2 e3 e4 e5 db where steps: "header_ignore (header_row_of (pt_chain_id (fst t)) (snd b) (fst b)) ev = Inr e1"
    "insert_receipt (receipt_row_of i (snd r) (fst r)) e1 = Inr e2" "insert_resource (resource_row_of i (fst t) (fst r)) e2 = Inr e3"
    "foldE (\<lambda>l. insert_log (log_row tk i (snd r) l)) (pc_logs (fst r)) e3 = Inr e4"
    "foldE (\<lambda>x. insert_snapshot (snapshot_row_of tk i a (pt_chain_id (fst t)) x)) balances e4 = Inr e5"
    "mark_included clk i (snd t) (snd r) (ev_db e5) = Inr db" "ev' = e5\<lparr>ev_db := db\<rparr>"
    by (auto simp: normalize_txn_def exn_simps)
  from steps(2,3) header_effect [OF steps(1)] logs_effect [OF steps(4)] snapshots_effect [OF steps(5)]
  have "ev_db e5 = ev_db ev" "ev_xir_records e5 = ev_xir_records ev"
    by (auto simp: insert_receipt_def insert_resource_def exn_simps)
  with steps(6,7) have db: "mark_included clk i (snd t) (snd r) (ev_db ev) = Inr (ev_db ev')"
    and xir: "ev_xir_records ev' = ev_xir_records ev" by simp_all
  note eff = normalize_effects [OF run]
  have "resource_issues_of (resource_row_of i (fst t) (fst r)) = []"
    using eff(7) by (simp add: resource_issues_of_def resource_row_of_def)
  with ok mark_included_ledger [OF db] ledger_ok_elsewhere [of "ev_db ev" "ev_db ev'"] show ?thesis
    by (simp add: recorded_ok_def eff(1) xir)
qed

lemma collection_recorded:
  assumes ok: "recorded_ok (ew_ev w)"
  shows "recorded_ok (ew_ev (snd (collect_transaction tk pv clk i accounts w)))"
proof -
  have raw: "recorded_ok (ev\<lparr>ev_raw := rs\<rparr>) = recorded_ok ev" for ev rs by (simp add: recorded_ok_def)
  obtain r w' where run: "collect_transaction tk pv clk i accounts w = (r, w')" by fastforce
  with collect_triple [of "ew_ev w" tk pv clk i accounts]
  have "case r of Inl e \<Rightarrow> raw_only (ew_ev w) w' | Inr c \<Rightarrow> collect_post (ew_ev w) i c (ew_ev w')"
    by (auto simp: triple_def split: sum.splits)
  then have "raw_only (ew_ev w) w' \<or> ew_ev w' = ew_ev w \<or> (\<exists>th c. fresh_collection (ew_ev w) i th c (ew_ev w'))"
    by (auto simp: collect_post_def split: sum.splits)
  then show ?thesis
    using ok by (auto simp: run raw_only_def raw fresh_collection_def dest: keep_normalize [rotated])
qed

section \<open>Histories\<close>

definition on_ev :: "evidence \<Rightarrow> evm_world \<Rightarrow> evm_world" where
  "on_ev ev w = w\<lparr>ew_raw := (ew_raw w)\<lparr>rs_ev := ev\<rparr>\<rparr>"

text \<open>
  Calls of the linkers, of the collector and of the lease and budget manager in any order (no route with a
  released stage is started or released again: \<open>ledger_step\<close>), and anything else that leaves their rows
  alone; files of the raw store may change freely.
\<close>

inductive recording_step :: "evm_world \<Rightarrow> evm_world \<Rightarrow> bool" where
  carrier: "recording_step w (on_ev (snd (link_carrier h routes e f (ew_ev w))) w)"
| trace: "recording_step w (on_ev (snd (link_trace s m d x (ew_ev w))) w)"
| effect: "recording_step w (on_ev (snd (record_effect a t i p b (ew_ev w))) w)"
| collect: "recording_step w (snd (collect_transaction tk pv clk i accounts w))"
| ledger: "ledger_step (ev_db (ew_ev w)) d \<Longrightarrow> t_carrier_messages d = t_carrier_messages (ev_db (ew_ev w)) \<Longrightarrow>
    recording_step w (on_ev ((ew_ev w)\<lparr>ev_db := d\<rparr>) w)"
| elsewhere: "same_ledger (ev_db (ew_ev w)) (ev_db (ew_ev w')) \<Longrightarrow>
    t_work_leases (ev_db (ew_ev w')) = t_work_leases (ev_db (ew_ev w)) \<Longrightarrow>
    t_nonce_leases (ev_db (ew_ev w')) = t_nonce_leases (ev_db (ew_ev w)) \<Longrightarrow>
    t_carrier_messages (ev_db (ew_ev w')) = t_carrier_messages (ev_db (ew_ev w)) \<Longrightarrow>
    ev_xir_records (ew_ev w') = ev_xir_records (ew_ev w) \<Longrightarrow> ev_resources (ew_ev w') = ev_resources (ew_ev w) \<Longrightarrow>
    recording_step w w'"

definition nothing_recorded :: "evm_world \<Rightarrow> bool" where
  "nothing_recorded w \<longleftrightarrow> ledger_empty (ev_db (ew_ev w)) \<and> t_carrier_messages (ev_db (ew_ev w)) = []
     \<and> ev_xir_records (ew_ev w) = [] \<and> ev_resources (ew_ev w) = []"

lemma on_ev_read [simp]: "ew_ev (on_ev ev w) = ev"
  by (simp add: on_ev_def ew_ev_def)

lemma recording_step_ok: "recording_step w w' \<Longrightarrow> recorded_ok (ew_ev w) \<Longrightarrow> recorded_ok (ew_ev w')"
proof (induction rule: recording_step.induct)
  case (ledger w d)
  from ledger(3) have "ledger_ok (ev_db (ew_ev w))" by (simp add: recorded_ok_def)
  with backing.inv_step [OF _ ledger(1)] have "ledger_ok d" by (simp only: ledger_ok_def)
  then show ?case by (intro recorded_ok_cong [OF ledger(3)]) (simp_all add: ledger(2))
next
  case (elsewhere w w')
  from elsewhere(7) have "ledger_ok (ev_db (ew_ev w))" by (simp add: recorded_ok_def)
  from ledger_ok_elsewhere [OF this elsewhere(1-3)] show ?case by (rule recorded_ok_cong [OF elsewhere(7) _ elsewhere(4-6)])
qed (simp_all add: collection_recorded triple_keeps [OF linking_recorded(1)] triple_keeps [OF linking_recorded(2)]
       triple_keeps [OF linking_recorded(3)])

interpretation recordings: transition_system nothing_recorded recording_step "\<lambda>w. recorded_ok (ew_ev w)"
proof
  show "recorded_ok (ew_ev w)" if "nothing_recorded w" for w
    using that machine_inv_empty rows_backed_empty by (simp add: nothing_recorded_def recorded_ok_def ledger_ok_def)
qed (rule recording_step_ok)

text \<open>
  C16. Whatever the lease and budget manager (short of starting or releasing again a route with a released stage),
  the two linkers and the collector did since the tables were empty, in any order and with calls that failed between, a report of the validator on their evidence names no budget whose row differs
  from its sub-reservations, no fee that is not gas times price, no resource without exactly one of L1 fee and reason, no
  carrier message without its transactions and payload, and no trace with a failed verification or effect.
\<close>

theorem recorded_evidence_passes:
  assumes "nothing_recorded w0" and "recording_step\<^sup>*\<^sup>* w0 w"
    and "fst (validate h sha run_id scope_id record_violations (ew_raw w)) = Inr report"
  shows "is_code ` set (vr_issues report) \<inter> settled_codes = {}"
proof -
  from assms(3) have "validate_read sha run_id scope_id (ew_raw w) = Inr report"
    by (auto simp: validate_def split: sum.splits if_splits prod.splits)
  with recorded_report recordings.reachable_inv [OF assms(1,2)] have "codes (vr_issues report) \<subseteq> open_code_set"
    by (simp add: ew_ev_def)
  then show ?thesis using open_not_settled by (auto simp: codes_def)
qed


text \<open>The first leg of attempt \<open>x\<close> of the demonstration run is linked, under a scope over both attempts.\<close>

definition demo_scope :: scope_row where
  "demo_scope = \<lparr>sk_scope_id = ''scope'', sk_run_id = ''run'', sk_version = 1, sk_attempt_ids = [''b'', ''x''],
     sk_scope_sha256 = ''d'', sk_prior_freeze_id = None, sk_prior_freeze_sha256 = None, sk_declared_at = 0\<rparr>"

definition demo_unlinked_world :: evm_world where
  "demo_unlinked_world = \<lparr>ew_raw = \<lparr>rs_ev = (empty_evidence demo_route_db)\<lparr>ev_scopes := [demo_scope]\<rparr>, rs_files = []\<rparr>, ew_calls = 0\<rparr>"

definition demo_route_table :: route_table where
  "demo_route_table = map (\<lambda>r. ((cr_protocol r, cr_leg_index r), r)) demo_routes"

definition demo_leg_world :: evm_world where
  "demo_leg_world = on_ev (snd (link_carrier demo_link_hash demo_route_table (demo_leg_event ''dispatch'' ''x0'' ''hyperlane'' 0)
     (demo_leg_event ''delivery'' ''x1'' ''hyperlane'' 0) (ew_ev demo_unlinked_world))) demo_unlinked_world"

lemma demo_leg_checks:
  "carrier_checks demo_route_table (demo_leg_event ''dispatch'' ''x0'' ''hyperlane'' 0) (demo_leg_event ''delivery'' ''x1'' ''hyperlane'' 0) = Inr ()"
  by code_simp

lemmas demo_tables = demo_route_db_def empty_db_def demo_legs_def demo_tx_def demo_stage_def demo_intent_def demo_route_attempt_def

lemma demo_leg_attempts:
  "t_carrier_messages (ev_db ev) = [] \<Longrightarrow> ev_db ev = demo_route_db \<Longrightarrow> carrier_transaction ''x0'' ev = Inr (11155420, ''x'')"
  "t_carrier_messages (ev_db ev) = [] \<Longrightarrow> ev_db ev = demo_route_db \<Longrightarrow> carrier_transaction ''x1'' ev = Inr (421614, ''x'')"
  by (simp_all add: carrier_transaction_def find_transaction_def stage_of_transaction_def find_intent_def find_stage_def
      demo_tables exn_simps)

lemma demo_leg_row:
  "rs_ev (ew_raw demo_leg_world) = (empty_evidence (demo_route_db\<lparr>t_carrier_messages :=
     [message_row demo_link_hash ''x'' (demo_leg_event ''dispatch'' ''x0'' ''hyperlane'' 0) (demo_leg_event ''delivery'' ''x1'' ''hyperlane'' 0)]\<rparr>))
     \<lparr>ev_scopes := [demo_scope]\<rparr>"
proof -
  let ?e = "demo_leg_event ''dispatch'' ''x0'' ''hyperlane'' 0" and ?f = "demo_leg_event ''delivery'' ''x1'' ''hyperlane'' 0"
  let ?r = "message_row demo_link_hash ''x'' ?e ?f" and ?ev = "(empty_evidence demo_route_db)\<lparr>ev_scopes := [demo_scope]\<rparr>"
  have ids: "de_transaction_id ?e = ''x0''" "de_transaction_id ?f = ''x1''" "de_leg_index ?e = 0"
    by (simp_all add: demo_leg_event_def)
  have none: "t_carrier_messages demo_route_db = []" by (simp add: demo_route_db_def empty_db_def)
  have "message_constraints ?r demo_route_db"
    by (simp add: message_constraints_def message_row_def demo_leg_event_def demo_payload_def find_transaction_def find_attempt_def demo_tables)
  then have "link_message_txn ?r ?ev = Inr ((), ?ev\<lparr>ev_db := demo_route_db\<lparr>t_carrier_messages := [?r]\<rparr>\<rparr>)"
    by (simp add: link_message_txn_def exn_simps none empty_evidence_def message_row_def demo_leg_event_def int64_def)
  then show ?thesis
    by (simp add: demo_leg_world_def on_ev_def demo_unlinked_world_def ew_ev_def link_carrier_def act_bind_def act_lift_def
        demo_leg_checks link_read_def ids demo_leg_attempts none empty_evidence_def exn_simps leg_chains_def store_write_def
        Let_def act_return_def)
qed

definition demo_report :: "exn + invariant_report" where
  "demo_report = fst (validate (\<lambda>_. ''d'') (\<lambda>b. b) ''run'' ''scope'' False (ew_raw demo_leg_world))"

lemma demo_report_read:
  "demo_report = Inr (validation_report ''run'' [''b'', ''x''] (rs_ev (ew_raw demo_leg_world)) []
     \<lparr>rp_missing = [], rp_corrupt = [], rp_orphans = []\<rparr>)"
proof -
  have "t_budgets (ev_db (rs_ev (ew_raw demo_leg_world))) = []" "ev_raw (rs_ev (ew_raw demo_leg_world)) = []"
    "ev_scopes (rs_ev (ew_raw demo_leg_world)) = [demo_scope]"
    unfolding demo_leg_row by (simp_all add: empty_evidence_def demo_route_db_def empty_db_def)
  moreover have "rs_files (ew_raw demo_leg_world) = []" by (simp add: demo_leg_world_def on_ev_def demo_unlinked_world_def)
  ultimately show ?thesis
    by (simp add: demo_report_def validate_def validate_read_def exn_simps demo_scope_def budget_issues_def repair_raw_def
        text_sort_def sort_by_key_def sorted_items_def)
qed

theorem recorded_evidence_passes_witness:
  "(case demo_report of Inl e \<Rightarrow> False | Inr r \<Rightarrow> ''carrier_leg_continuity'' \<in> is_code ` set (vr_issues r)
      \<and> is_code ` set (vr_issues r) \<inter> settled_codes = {})"
proof -
  have start: "nothing_recorded demo_unlinked_world"
    by (simp add: nothing_recorded_def demo_unlinked_world_def ew_ev_def empty_evidence_def ledger_empty_def demo_route_db_def empty_db_def)
  have step: "recording_step\<^sup>*\<^sup>* demo_unlinked_world demo_leg_world"
    unfolding demo_leg_world_def by (rule r_into_rtranclp) (rule recording_step.carrier)
  note rep = demo_report_read [unfolded demo_report_def]
  note passes = recorded_evidence_passes [OF start step rep]
  have "issue_of ''carrier_leg_continuity'' ''x'' ''carrier path is not exactly legs 0 and 1''
    \<in> set (validate_attempt (rs_ev (ew_raw demo_leg_world)) ''x'')"
    unfolding demo_leg_row
    by (simp add: validate_attempt_def find_attempt_def demo_tables message_issues_def attempt_messages_def empty_evidence_def
        message_row_def)
  then have "''carrier_leg_continuity'' \<in> is_code ` set (vr_issues (validation_report ''run'' [''b'', ''x'']
      (rs_ev (ew_raw demo_leg_world)) [] \<lparr>rp_missing = [], rp_corrupt = [], rp_orphans = []\<rparr>))"
    by (force simp: validation_report_def intro: image_eqI [where x = "issue_of ''carrier_leg_continuity'' ''x'' ''carrier path is not exactly legs 0 and 1''"])
  with passes show ?thesis unfolding demo_report_read sum.case by blast
qed

end
