(* ===== verification/Xir_Records.thy ===== *)
theory Xir_Records
  imports Xir_Errors Xir_Store
begin

text \<open>
  \<^verbatim>\<open>evidence/records.py\<close>: the records of an evidence bundle and the checks across them, in the order of the
  code: unique identifiers, references, cells, retry lineages, replaced transactions, corrected observations and
  freeze scopes. Reading the file, its JSON schema and the decoding of the records come before and are left out.
\<close>

section \<open>Records\<close>

record run_record =
  nr_run_id :: string
  nr_profile_id :: string
  nr_plan_sha256 :: string

record condition_record =
  nc_condition_id :: string
  nc_run_id :: string
  nc_carrier_sequence :: string

record arm_record =
  na_arm_id :: string
  na_condition_id :: string
  na_arm :: arm

record pair_slot_record =
  np_pair_slot_id :: string
  np_condition_id :: string
  np_slot_index :: int

record repetition_record =
  nq_repetition_id :: string
  nq_pair_slot_id :: string
  nq_repetition_index :: int

record attempt_record =
  nt_attempt_id :: string
  nt_condition_id :: string
  nt_arm_id :: string
  nt_pair_slot_id :: "string option"
  nt_repetition_id :: "string option"
  nt_attempt_kind :: attempt_kind
  nt_prior_attempt_id :: "string option"
  nt_original_attempt_kind :: "attempt_kind option"
  nt_state :: string

record stage_record =
  ng_stage_id :: string
  ng_attempt_id :: string
  ng_stage_name :: string
  ng_ordinal :: int

record message_record =
  nm_message_id :: string
  nm_stage_id :: string
  nm_protocol :: string
  nm_protocol_message_id :: "string option"

record intent_record =
  ni_intent_id :: string
  ni_stage_id :: string
  ni_chain_id :: int
  ni_operation_id :: string

record transaction_record =
  nx_transaction_id :: string
  nx_intent_id :: string
  nx_chain_id :: int
  nx_nonce :: int
  nx_transaction_hash :: "string option"
  nx_replaces_transaction_id :: "string option"

record observation_record =
  nb_observation_id :: string
  nb_subject_kind :: string
  nb_subject_id :: string
  nb_observed_at :: string
  nb_raw_sha256 :: string
  nb_supersedes_observation_id :: "string option"

record freeze_scope_record =
  nf_freeze_scope_id :: string
  nf_run_id :: string
  nf_attempt_ids :: "string list"
  nf_prior_freeze_sha256 :: "string option"
  nf_scope_sha256 :: string

record record_bundle =
  bd_runs :: "run_record list"
  bd_conditions :: "condition_record list"
  bd_arms :: "arm_record list"
  bd_pair_slots :: "pair_slot_record list"
  bd_repetitions :: "repetition_record list"
  bd_attempts :: "attempt_record list"
  bd_stages :: "stage_record list"
  bd_messages :: "message_record list"
  bd_intents :: "intent_record list"
  bd_transactions :: "transaction_record list"
  bd_observations :: "observation_record list"
  bd_freeze_scopes :: "freeze_scope_record list"

section \<open>Helpers\<close>

text \<open>A loop that raises at the first element whose check does.\<close>

fun check_each :: "('r \<Rightarrow> exn + unit) \<Rightarrow> 'r list \<Rightarrow> exn + unit" where
  "check_each f [] = Inr ()"
| "check_each f (r # rs) = bindE (f r) (\<lambda>_. check_each f rs)"

text \<open>The dictionary of records by an identifier, or the set of their cells.\<close>

fun unique_keys :: "('r \<Rightarrow> record_error) \<Rightarrow> ('r \<Rightarrow> 'k) \<Rightarrow> 'k list \<Rightarrow> 'r list \<Rightarrow> exn + unit" where
  "unique_keys err key seen [] = Inr ()"
| "unique_keys err key seen (r # rs) =
     (if key r \<in> set seen then Inl (RecordError (err r)) else unique_keys err key (key r # seen) rs)"

definition unique_ids :: "('r \<Rightarrow> string) \<Rightarrow> string \<Rightarrow> 'r list \<Rightarrow> exn + unit" where
  "unique_ids key label = unique_keys (\<lambda>r. RD_duplicate label (key r)) key []"

definition unique_cells :: "string \<Rightarrow> ('r \<Rightarrow> 'k) \<Rightarrow> 'r list \<Rightarrow> exn + unit" where
  "unique_cells label cell = unique_keys (\<lambda>_. RD_cell label) cell []"

text \<open>\<^verbatim>\<open>_assert_reference\<close> and the lookup after it.\<close>

definition referred :: "('r \<Rightarrow> string) \<Rightarrow> string \<Rightarrow> 'r list \<Rightarrow> string \<Rightarrow> exn + 'r" where
  "referred key label rs i = require (find (\<lambda>r. key r = i) rs) (RecordError (RD_unknown label i))"

definition reference :: "('r \<Rightarrow> string) \<Rightarrow> string \<Rightarrow> 'r list \<Rightarrow> string \<Rightarrow> exn + unit" where
  "reference key label rs i = bindE (referred key label rs i) (\<lambda>_. Inr ())"

lemma walk_progress:
  assumes "i \<notin> set seen" and "find (\<lambda>r. key r = i) rs = Some r"
  shows "length (filter (\<lambda>x. key x \<notin> set (i # seen)) rs) < length (filter (\<lambda>x. key x \<notin> set seen) rs)"
proof -
  from find_SomeD [OF assms(2)] have r: "r \<in> set rs" "key r = i" by simp_all
  have "filter (\<lambda>x. key x \<notin> set (i # seen)) rs = filter (\<lambda>x. key x \<noteq> i) (filter (\<lambda>x. key x \<notin> set seen) rs)"
    by (simp add: conj_commute)
  also have "length \<dots> < length (filter (\<lambda>x. key x \<notin> set seen) rs)"
    by (rule length_filter_less [where x = r]) (use r assms(1) in auto)
  finally show ?thesis .
qed

text \<open>The walk of \<^verbatim>\<open>_assert_acyclic\<close> from one identifier along the predecessors.\<close>

function walk :: "('r \<Rightarrow> string) \<Rightarrow> ('r \<Rightarrow> string option) \<Rightarrow> string \<Rightarrow> 'r list \<Rightarrow> string list \<Rightarrow> string option \<Rightarrow> exn + unit" where
  "walk key pred label rs seen None = Inr ()"
| "walk key pred label rs seen (Some i) =
     (if i \<in> set seen then Inl (RecordError (RD_cyclic label i))
      else case find (\<lambda>r. key r = i) rs of
             None \<Rightarrow> Inl (RecordError (RD_unknown_predecessor label i))
           | Some r \<Rightarrow> walk key pred label rs (i # seen) (pred r))"
  by pat_completeness auto

termination
  by (relation "measure (\<lambda>(key, pred, label, rs, seen, i). length (filter (\<lambda>r. key r \<notin> set seen) rs))")
    (use walk_progress in auto)

definition assert_acyclic :: "('r \<Rightarrow> string) \<Rightarrow> ('r \<Rightarrow> string option) \<Rightarrow> string \<Rightarrow> 'r list \<Rightarrow> exn + unit" where
  "assert_acyclic key pred label rs = check_each (\<lambda>r. walk key pred label rs [] (Some (key r))) rs"

section \<open>Semantic validation\<close>

definition check_identifiers :: "record_bundle \<Rightarrow> exn + unit" where
  "check_identifiers b =
     bindE (unique_ids nr_run_id ''run'' (bd_runs b)) (\<lambda>_.
     bindE (unique_ids nc_condition_id ''condition'' (bd_conditions b)) (\<lambda>_.
     bindE (unique_ids na_arm_id ''arm'' (bd_arms b)) (\<lambda>_.
     bindE (unique_ids np_pair_slot_id ''pair slot'' (bd_pair_slots b)) (\<lambda>_.
     bindE (unique_ids nq_repetition_id ''repetition'' (bd_repetitions b)) (\<lambda>_.
     bindE (unique_ids nt_attempt_id ''attempt'' (bd_attempts b)) (\<lambda>_.
     bindE (unique_ids ng_stage_id ''stage'' (bd_stages b)) (\<lambda>_.
     bindE (unique_ids nm_message_id ''message'' (bd_messages b)) (\<lambda>_.
     bindE (unique_ids ni_intent_id ''intent'' (bd_intents b)) (\<lambda>_.
     bindE (unique_ids nx_transaction_id ''transaction'' (bd_transactions b)) (\<lambda>_.
     bindE (unique_ids nb_observation_id ''observation'' (bd_observations b)) (\<lambda>_.
     unique_ids nf_freeze_scope_id ''freeze scope'' (bd_freeze_scopes b))))))))))))"

definition check_layout :: "record_bundle \<Rightarrow> exn + unit" where
  "check_layout b =
     bindE (check_each (\<lambda>c. reference nr_run_id ''run'' (bd_runs b) (nc_run_id c)) (bd_conditions b)) (\<lambda>_.
     bindE (check_each (\<lambda>a. reference nc_condition_id ''condition'' (bd_conditions b) (na_condition_id a)) (bd_arms b)) (\<lambda>_.
     bindE (check_each (\<lambda>p. reference nc_condition_id ''condition'' (bd_conditions b) (np_condition_id p)) (bd_pair_slots b)) (\<lambda>_.
     bindE (check_each (\<lambda>q. reference np_pair_slot_id ''pair slot'' (bd_pair_slots b) (nq_pair_slot_id q)) (bd_repetitions b)) (\<lambda>_.
     bindE (unique_cells ''condition/arm'' (\<lambda>a. (na_condition_id a, na_arm a)) (bd_arms b)) (\<lambda>_.
     bindE (unique_cells ''condition/pair-slot'' (\<lambda>p. (np_condition_id p, np_slot_index p)) (bd_pair_slots b)) (\<lambda>_.
     unique_cells ''pair/repetition'' (\<lambda>q. (nq_pair_slot_id q, nq_repetition_index q)) (bd_repetitions b)))))))"

definition check_attempt :: "record_bundle \<Rightarrow> attempt_record \<Rightarrow> exn + unit" where
  "check_attempt b a =
     bindE (reference nc_condition_id ''condition'' (bd_conditions b) (nt_condition_id a)) (\<lambda>_.
     bindE (referred na_arm_id ''arm'' (bd_arms b) (nt_arm_id a)) (\<lambda>arm.
     bindE (ensure (na_condition_id arm = nt_condition_id a) (RecordError (RD_arm_condition (nt_attempt_id a)))) (\<lambda>_.
     bindE (if nt_attempt_kind a = Retry
            then ensure (\<not> (nt_prior_attempt_id a = None \<or> nt_original_attempt_kind a = None))
                   (RecordError (RD_retry_fields (nt_attempt_id a)))
            else ensure (\<not> (nt_prior_attempt_id a \<noteq> None \<or> nt_original_attempt_kind a \<noteq> None))
                   (RecordError (RD_non_retry (nt_attempt_id a)))) (\<lambda>_.
     bindE (case nt_pair_slot_id a of
              None \<Rightarrow> Inr ()
            | Some p \<Rightarrow>
                bindE (referred np_pair_slot_id ''pair slot'' (bd_pair_slots b) p) (\<lambda>pair.
                ensure (np_condition_id pair = nt_condition_id a) (RecordError (RD_pair_condition (nt_attempt_id a))))) (\<lambda>_.
     case nt_repetition_id a of
       None \<Rightarrow> Inr ()
     | Some q \<Rightarrow>
         bindE (referred nq_repetition_id ''repetition'' (bd_repetitions b) q) (\<lambda>repetition.
         ensure (Some (nq_pair_slot_id repetition) = nt_pair_slot_id a)
           (RecordError (RD_repetition_pair (nt_attempt_id a)))))))))"

definition record_coordinates :: "attempt_record \<Rightarrow> string \<times> string \<times> string option \<times> string option" where
  "record_coordinates a = (nt_condition_id a, nt_arm_id a, nt_pair_slot_id a, nt_repetition_id a)"

definition expected_original :: "attempt_record \<Rightarrow> attempt_kind option" where
  "expected_original prior =
     (if nt_attempt_kind prior = Retry then nt_original_attempt_kind prior else Some (nt_attempt_kind prior))"

definition check_retry :: "record_bundle \<Rightarrow> attempt_record \<Rightarrow> exn + unit" where
  "check_retry b a =
     (case nt_prior_attempt_id a of
        None \<Rightarrow> Inr ()
      | Some p \<Rightarrow>
          bindE (require (find (\<lambda>x. nt_attempt_id x = p) (bd_attempts b)) KeyError) (\<lambda>prior.
          bindE (ensure (record_coordinates a = record_coordinates prior)
                   (RecordError (RD_retry_coordinates (nt_attempt_id a)))) (\<lambda>_.
          ensure (nt_original_attempt_kind a = expected_original prior)
            (RecordError (RD_retry_kind (nt_attempt_id a))))))"

definition check_transaction :: "record_bundle \<Rightarrow> transaction_record \<Rightarrow> exn + unit" where
  "check_transaction b t =
     bindE (referred ni_intent_id ''intent'' (bd_intents b) (nx_intent_id t)) (\<lambda>intent.
     ensure (ni_chain_id intent = nx_chain_id t) (RecordError (RD_chain (nx_transaction_id t))))"

definition check_replaced :: "record_bundle \<Rightarrow> transaction_record \<Rightarrow> exn + unit" where
  "check_replaced b t =
     (case nx_replaces_transaction_id t of
        None \<Rightarrow> Inr ()
      | Some p \<Rightarrow>
          bindE (require (find (\<lambda>x. nx_transaction_id x = p) (bd_transactions b)) KeyError) (\<lambda>prior.
          ensure ((nx_intent_id t, nx_chain_id t, nx_nonce t) = (nx_intent_id prior, nx_chain_id prior, nx_nonce prior))
            (RecordError (RD_replacement (nx_transaction_id t)))))"

definition check_observation :: "record_bundle \<Rightarrow> observation_record \<Rightarrow> exn + unit" where
  "check_observation b x =
     (if nb_subject_kind x = ''attempt'' then reference nt_attempt_id ''attempt'' (bd_attempts b) (nb_subject_id x)
      else if nb_subject_kind x = ''stage'' then reference ng_stage_id ''stage'' (bd_stages b) (nb_subject_id x)
      else if nb_subject_kind x = ''message'' then reference nm_message_id ''message'' (bd_messages b) (nb_subject_id x)
      else if nb_subject_kind x = ''transaction''
           then reference nx_transaction_id ''transaction'' (bd_transactions b) (nb_subject_id x)
      else Inl KeyError)"

definition check_freeze :: "record_bundle \<Rightarrow> freeze_scope_record \<Rightarrow> exn + unit" where
  "check_freeze b f =
     bindE (reference nr_run_id ''run'' (bd_runs b) (nf_run_id f)) (\<lambda>_.
     check_each (\<lambda>i.
       bindE (referred nt_attempt_id ''attempt'' (bd_attempts b) i) (\<lambda>a.
       bindE (require (find (\<lambda>c. nc_condition_id c = nt_condition_id a) (bd_conditions b)) KeyError) (\<lambda>c.
       ensure (nc_run_id c = nf_run_id f) (RecordError (RD_freeze_run i))))) (nf_attempt_ids f))"

definition semantic_validation :: "record_bundle \<Rightarrow> exn + unit" where
  "semantic_validation b =
     bindE (check_identifiers b) (\<lambda>_.
     bindE (check_layout b) (\<lambda>_.
     bindE (check_each (check_attempt b) (bd_attempts b)) (\<lambda>_.
     bindE (assert_acyclic nt_attempt_id nt_prior_attempt_id ''retry'' (bd_attempts b)) (\<lambda>_.
     bindE (check_each (check_retry b) (bd_attempts b)) (\<lambda>_.
     bindE (check_each (\<lambda>s. reference nt_attempt_id ''attempt'' (bd_attempts b) (ng_attempt_id s)) (bd_stages b)) (\<lambda>_.
     bindE (check_each (\<lambda>m. reference ng_stage_id ''stage'' (bd_stages b) (nm_stage_id m)) (bd_messages b)) (\<lambda>_.
     bindE (check_each (\<lambda>i. reference ng_stage_id ''stage'' (bd_stages b) (ni_stage_id i)) (bd_intents b)) (\<lambda>_.
     bindE (check_each (check_transaction b) (bd_transactions b)) (\<lambda>_.
     bindE (assert_acyclic nx_transaction_id nx_replaces_transaction_id ''transaction replacement'' (bd_transactions b)) (\<lambda>_.
     bindE (check_each (check_replaced b) (bd_transactions b)) (\<lambda>_.
     bindE (check_each (check_observation b) (bd_observations b)) (\<lambda>_.
     bindE (assert_acyclic nb_observation_id nb_supersedes_observation_id ''observation correction'' (bd_observations b)) (\<lambda>_.
     check_each (check_freeze b) (bd_freeze_scopes b))))))))))))))"

end
