(* ===== verification/Xir_Records_Properties.thy ===== *)
theory Xir_Records_Properties
  imports Xir_Records
begin

text \<open>
  What the checks of \<^verbatim>\<open>evidence/records.py\<close> amount to: a bundle passes exactly when every retry, replacement and
  correction leads back to a root, the retries and replacements without changing what must not change, and every
  reference resolves within its run.
\<close>

section \<open>The checks as predicates\<close>

lemma check_each_Inr [exn_simps]: "check_each f rs = Inr u \<longleftrightarrow> (\<forall>r\<in>set rs. f r = Inr ())"
  by (induction rs) (auto simp: exn_simps)

lemma unique_keys_Inr: "unique_keys err key seen rs = Inr u \<longleftrightarrow> distinct (map key rs) \<and> set seen \<inter> key ` set rs = {}"
  by (induction rs arbitrary: seen) auto

lemma unique_ids_Inr [exn_simps]: "unique_ids key label rs = Inr u \<longleftrightarrow> distinct (map key rs)"
  by (simp add: unique_ids_def unique_keys_Inr)

lemma unique_cells_Inr [exn_simps]: "unique_cells label cell rs = Inr u \<longleftrightarrow> distinct (map cell rs)"
  by (simp add: unique_cells_def unique_keys_Inr)

lemma find_key:
  assumes "distinct (map key rs)"
  shows "find (\<lambda>r. key r = i) rs = Some r \<longleftrightarrow> r \<in> set rs \<and> key r = i"
proof
  assume "find (\<lambda>r. key r = i) rs = Some r"
  then show "r \<in> set rs \<and> key r = i" by (auto simp: find_Some_iff)
next
  assume r: "r \<in> set rs \<and> key r = i"
  then obtain x where x: "find (\<lambda>r. key r = i) rs = Some x"
    by (cases "find (\<lambda>r. key r = i) rs") (auto simp: find_None_iff)
  then have "x \<in> set rs" "key x = i" by (auto simp: find_Some_iff)
  with r assms have "x = r" by (auto simp: distinct_map dest: inj_onD)
  with x show "find (\<lambda>r. key r = i) rs = Some r" by simp
qed

lemma referred_Inr:
  "distinct (map key rs) \<Longrightarrow> referred key label rs i = Inr r \<longleftrightarrow> r \<in> set rs \<and> key r = i"
  by (simp add: referred_def require_Inr find_key)

lemma reference_Inr [exn_simps]: "reference key label rs i = Inr u \<longleftrightarrow> i \<in> key ` set rs"
proof (cases "find (\<lambda>r. key r = i) rs")
  case None
  moreover from None have "i \<notin> key ` set rs" by (auto simp: find_None_iff)
  ultimately show ?thesis by (simp add: reference_def referred_def)
next
  case (Some r)
  then have "r \<in> set rs" "key r = i" by (auto simp: find_Some_iff)
  with Some show ?thesis by (auto simp: reference_def referred_def)
qed

section \<open>Lineages\<close>

text \<open>The chain of predecessors of a record, from its direct predecessor to a record without one.\<close>

fun pred_chain :: "('r \<Rightarrow> string) \<Rightarrow> ('r \<Rightarrow> string option) \<Rightarrow> 'r list \<Rightarrow> 'r \<Rightarrow> 'r list \<Rightarrow> bool" where
  "pred_chain key pred rs r [] \<longleftrightarrow> pred r = None"
| "pred_chain key pred rs r (p # ps) \<longleftrightarrow> p \<in> set rs \<and> pred r = Some (key p) \<and> pred_chain key pred rs p ps"

lemma pred_chain_unique:
  assumes "distinct (map key rs)" and "pred_chain key pred rs r ps" and "pred_chain key pred rs r qs"
  shows "ps = qs"
  using assms(2,3)
proof (induction ps arbitrary: r qs)
  case Nil
  then show ?case by (cases qs) auto
next
  case (Cons p ps)
  then obtain q qs' where q: "qs = q # qs'" by (cases qs) auto
  with Cons.prems have "key p = key q" "p \<in> set rs" "q \<in> set rs" by auto
  with assms(1) have "p = q" by (auto simp: distinct_map dest: inj_onD)
  with Cons.prems Cons.IH [of p qs'] q show ?case by simp
qed

lemma pred_chain_suffix: "pred_chain key pred rs r (ps @ q # qs) \<Longrightarrow> pred_chain key pred rs q qs"
  by (induction ps arbitrary: r) auto

lemma pred_chain_irreflexive:
  assumes "distinct (map key rs)" and "pred_chain key pred rs r ps"
  shows "r \<notin> set ps"
proof
  assume "r \<in> set ps"
  then obtain xs ys where ps: "ps = xs @ r # ys" by (auto simp: in_set_conv_decomp)
  then have "ys = ps" using pred_chain_suffix pred_chain_unique assms by metis
  with ps show False by simp
qed

lemma pred_chain_set: "pred_chain key pred rs r ps \<Longrightarrow> set ps \<subseteq> set rs"
  by (induction ps arbitrary: r) auto

lemma pred_chain_walks:
  assumes d: "distinct (map key rs)" and "r \<in> set rs" and "pred_chain key pred rs r ps"
    and "\<forall>x\<in>set (r # ps). key x \<notin> set seen"
  shows "walk key pred label rs seen (Some (key r)) = Inr ()"
  using assms(2-)
proof (induction ps arbitrary: r seen)
  case Nil
  then show ?case by (simp add: find_key [OF d, THEN iffD2])
next
  case (Cons p ps)
  have "key x \<noteq> key r" if "x \<in> set (p # ps)" for x
  proof
    assume "key x = key r"
    moreover have "x \<in> set rs" using that pred_chain_set [OF Cons.prems(2)] by auto
    ultimately have "x = r" using d Cons.prems(1) by (auto simp: distinct_map dest: inj_onD)
    with that pred_chain_irreflexive [OF d Cons.prems(2)] show False by simp
  qed
  with Cons.prems have "walk key pred label rs (key r # seen) (Some (key p)) = Inr ()"
    by (intro Cons.IH) auto
  with Cons.prems show ?case by (simp add: find_key [OF d, THEN iffD2] del: walk.simps(2)) (simp add: find_key [OF d, THEN iffD2])
qed

lemma walk_pred_chain:
  "walk key pred label rs seen i = Inr u \<Longrightarrow> i = pred r \<Longrightarrow> \<exists>ps. pred_chain key pred rs r ps"
proof (induction key pred label rs seen i arbitrary: r rule: walk.induct)
  case (1 key pred label rs seen)
  then have "pred_chain key pred rs r []" by simp
  then show ?case ..
next
  case (2 key pred label rs seen i)
  from 2(2) have i: "i \<notin> set seen" by (auto split: if_splits)
  with 2(2) obtain p where p: "find (\<lambda>r. key r = i) rs = Some p" and w: "walk key pred label rs (i # seen) (pred p) = Inr u"
    by (auto split: option.splits)
  from 2(1) [OF i p w] obtain ps where "pred_chain key pred rs p ps" by blast
  moreover from p have "p \<in> set rs" "key p = i" by (auto simp: find_Some_iff)
  ultimately have "pred_chain key pred rs r (p # ps)" using 2(3) by simp
  then show ?case ..
qed

lemma assert_acyclic_Inr:
  assumes d: "distinct (map key rs)"
  shows "assert_acyclic key pred label rs = Inr u \<longleftrightarrow> (\<forall>r\<in>set rs. \<exists>ps. pred_chain key pred rs r ps)"
proof -
  have "walk key pred label rs [] (Some (key r)) = Inr () \<longleftrightarrow> (\<exists>ps. pred_chain key pred rs r ps)" if r: "r \<in> set rs" for r
  proof
    assume "walk key pred label rs [] (Some (key r)) = Inr ()"
    then have "walk key pred label rs [key r] (pred r) = Inr ()" using find_key [OF d, of "key r" r] r by simp
    then show "\<exists>ps. pred_chain key pred rs r ps" by (rule walk_pred_chain) simp
  next
    assume "\<exists>ps. pred_chain key pred rs r ps"
    then show "walk key pred label rs [] (Some (key r)) = Inr ()" using pred_chain_walks [OF d r] by auto
  qed
  then show ?thesis by (simp add: assert_acyclic_def check_each_Inr)
qed

section \<open>Reconstructable bundles\<close>

definition identified :: "record_bundle \<Rightarrow> bool" where
  "identified b \<longleftrightarrow>
     distinct (map nr_run_id (bd_runs b)) \<and> distinct (map nc_condition_id (bd_conditions b)) \<and>
     distinct (map na_arm_id (bd_arms b)) \<and> distinct (map np_pair_slot_id (bd_pair_slots b)) \<and>
     distinct (map nq_repetition_id (bd_repetitions b)) \<and> distinct (map nt_attempt_id (bd_attempts b)) \<and>
     distinct (map ng_stage_id (bd_stages b)) \<and> distinct (map nm_message_id (bd_messages b)) \<and>
     distinct (map ni_intent_id (bd_intents b)) \<and> distinct (map nx_transaction_id (bd_transactions b)) \<and>
     distinct (map nb_observation_id (bd_observations b)) \<and> distinct (map nf_freeze_scope_id (bd_freeze_scopes b))"

definition laid_out :: "record_bundle \<Rightarrow> bool" where
  "laid_out b \<longleftrightarrow>
     nc_run_id ` set (bd_conditions b) \<subseteq> nr_run_id ` set (bd_runs b) \<and>
     na_condition_id ` set (bd_arms b) \<subseteq> nc_condition_id ` set (bd_conditions b) \<and>
     np_condition_id ` set (bd_pair_slots b) \<subseteq> nc_condition_id ` set (bd_conditions b) \<and>
     nq_pair_slot_id ` set (bd_repetitions b) \<subseteq> np_pair_slot_id ` set (bd_pair_slots b) \<and>
     distinct (map (\<lambda>a. (na_condition_id a, na_arm a)) (bd_arms b)) \<and>
     distinct (map (\<lambda>p. (np_condition_id p, np_slot_index p)) (bd_pair_slots b)) \<and>
     distinct (map (\<lambda>q. (nq_pair_slot_id q, nq_repetition_index q)) (bd_repetitions b))"

text \<open>An attempt stands in one condition with its arm and pair, and its repetition in its pair.\<close>

definition placed :: "record_bundle \<Rightarrow> attempt_record \<Rightarrow> bool" where
  "placed b a \<longleftrightarrow>
     nt_condition_id a \<in> nc_condition_id ` set (bd_conditions b) \<and>
     (\<exists>arm\<in>set (bd_arms b). na_arm_id arm = nt_arm_id a \<and> na_condition_id arm = nt_condition_id a) \<and>
     (\<forall>p. nt_pair_slot_id a = Some p \<longrightarrow>
        (\<exists>pair\<in>set (bd_pair_slots b). np_pair_slot_id pair = p \<and> np_condition_id pair = nt_condition_id a)) \<and>
     (\<forall>q. nt_repetition_id a = Some q \<longrightarrow>
        (\<exists>rep\<in>set (bd_repetitions b). nq_repetition_id rep = q \<and> nt_pair_slot_id a = Some (nq_pair_slot_id rep)))"

text \<open>
  A retry descends from an attempt that is no retry, over retries with its coordinates, and carries the kind of that
  attempt; an attempt of any other kind descends from none.
\<close>

definition descends :: "record_bundle \<Rightarrow> attempt_record \<Rightarrow> bool" where
  "descends b a \<longleftrightarrow>
     (if nt_attempt_kind a = Retry
      then \<exists>retries root. pred_chain nt_attempt_id nt_prior_attempt_id (bd_attempts b) a (retries @ [root]) \<and>
             (\<forall>x\<in>set retries. nt_attempt_kind x = Retry) \<and> nt_attempt_kind root \<noteq> Retry \<and>
             nt_original_attempt_kind a = Some (nt_attempt_kind root) \<and>
             (\<forall>x\<in>set (root # retries). record_coordinates x = record_coordinates a)
      else nt_prior_attempt_id a = None \<and> nt_original_attempt_kind a = None)"

definition signed_for :: "record_bundle \<Rightarrow> transaction_record \<Rightarrow> bool" where
  "signed_for b t \<longleftrightarrow>
     (\<exists>i\<in>set (bd_intents b). ni_intent_id i = nx_intent_id t \<and> ni_chain_id i = nx_chain_id t) \<and>
     (\<exists>older. pred_chain nx_transaction_id nx_replaces_transaction_id (bd_transactions b) t older \<and>
        (\<forall>x\<in>set older. nx_intent_id x = nx_intent_id t \<and> nx_chain_id x = nx_chain_id t \<and> nx_nonce x = nx_nonce t))"

definition observed_subject :: "record_bundle \<Rightarrow> observation_record \<Rightarrow> bool" where
  "observed_subject b x \<longleftrightarrow>
     (nb_subject_kind x, nb_subject_id x) \<in>
       Pair ''attempt'' ` nt_attempt_id ` set (bd_attempts b) \<union> Pair ''stage'' ` ng_stage_id ` set (bd_stages b) \<union>
       Pair ''message'' ` nm_message_id ` set (bd_messages b) \<union>
       Pair ''transaction'' ` nx_transaction_id ` set (bd_transactions b) \<and>
     (\<exists>older. pred_chain nb_observation_id nb_supersedes_observation_id (bd_observations b) x older)"

text \<open>A freeze names a run and only attempts of its conditions.\<close>

definition frozen_within :: "record_bundle \<Rightarrow> freeze_scope_record \<Rightarrow> bool" where
  "frozen_within b f \<longleftrightarrow>
     nf_run_id f \<in> nr_run_id ` set (bd_runs b) \<and>
     (\<forall>i\<in>set (nf_attempt_ids f). \<exists>a\<in>set (bd_attempts b). nt_attempt_id a = i \<and>
        (\<exists>c\<in>set (bd_conditions b). nc_condition_id c = nt_condition_id a \<and> nc_run_id c = nf_run_id f))"

definition reconstructable :: "record_bundle \<Rightarrow> bool" where
  "reconstructable b \<longleftrightarrow>
     identified b \<and> laid_out b \<and>
     Ball (set (bd_attempts b)) (placed b) \<and> Ball (set (bd_attempts b)) (descends b) \<and>
     ng_attempt_id ` set (bd_stages b) \<subseteq> nt_attempt_id ` set (bd_attempts b) \<and>
     nm_stage_id ` set (bd_messages b) \<subseteq> ng_stage_id ` set (bd_stages b) \<and>
     ni_stage_id ` set (bd_intents b) \<subseteq> ng_stage_id ` set (bd_stages b) \<and>
     Ball (set (bd_transactions b)) (signed_for b) \<and> Ball (set (bd_observations b)) (observed_subject b) \<and>
     Ball (set (bd_freeze_scopes b)) (frozen_within b)"

section \<open>The checks of each group\<close>

lemma check_identifiers_Inr: "check_identifiers b = Inr u \<longleftrightarrow> identified b"
  by (simp add: check_identifiers_def identified_def exn_simps)

lemma check_layout_Inr: "check_layout b = Inr u \<longleftrightarrow> laid_out b"
  by (simp add: check_layout_def laid_out_def exn_simps image_subset_iff)

text \<open>What \<^verbatim>\<open>check_attempt\<close> asks of the lineage fields.\<close>

definition lineage_fields :: "attempt_record \<Rightarrow> bool" where
  "lineage_fields a \<longleftrightarrow>
     (if nt_attempt_kind a = Retry then nt_prior_attempt_id a \<noteq> None \<and> nt_original_attempt_kind a \<noteq> None
      else nt_prior_attempt_id a = None \<and> nt_original_attempt_kind a = None)"

lemma check_attempt_Inr:
  assumes "identified b"
  shows "check_attempt b a = Inr u \<longleftrightarrow> placed b a \<and> lineage_fields a"
proof -
  have d: "distinct (map na_arm_id (bd_arms b))" "distinct (map np_pair_slot_id (bd_pair_slots b))"
    "distinct (map nq_repetition_id (bd_repetitions b))"
    using assms by (simp_all add: identified_def)
  have arm: "(\<exists>x. (x \<in> A \<and> k x) \<and> P x \<and> Q) \<longleftrightarrow> (\<exists>x\<in>A. k x \<and> P x) \<and> Q" for A :: "'x set" and k P Q by auto
  have pair: "(case p of None \<Rightarrow> Inr () | Some i \<Rightarrow> bindE (referred key l rs i) (\<lambda>r. ensure (P r) e)) = Inr v \<longleftrightarrow>
      (\<forall>i. p = Some i \<longrightarrow> (\<exists>r\<in>set rs. key r = i \<and> P r))"
    if "distinct (map key rs)" for p key l and rs :: "'r list" and P e v
    using that by (auto simp: exn_simps referred_Inr split: option.splits)
  have fields: "(if nt_attempt_kind a = Retry
            then ensure (\<not> (nt_prior_attempt_id a = None \<or> nt_original_attempt_kind a = None)) e
            else ensure (\<not> (nt_prior_attempt_id a \<noteq> None \<or> nt_original_attempt_kind a \<noteq> None)) e') = Inr v \<longleftrightarrow>
      lineage_fields a" for e e' v
    by (simp add: lineage_fields_def exn_simps)
  show ?thesis
    unfolding check_attempt_def placed_def bindE_Inr ensure_Inr reference_Inr referred_Inr [OF d(1)] pair [OF d(2)]
      pair [OF d(3)] fields arm
    by (simp add: eq_commute) blast
qed

text \<open>What \<^verbatim>\<open>check_retry\<close> and \<^verbatim>\<open>check_replaced\<close> ask of a record and its predecessor.\<close>

definition keeps :: "('r \<Rightarrow> string) \<Rightarrow> ('r \<Rightarrow> string option) \<Rightarrow> 'r list \<Rightarrow> ('r \<Rightarrow> 'r \<Rightarrow> bool) \<Rightarrow> 'r \<Rightarrow> bool" where
  "keeps key pred rs kept r \<longleftrightarrow> (\<forall>p. pred r = Some p \<longrightarrow> (\<exists>x\<in>set rs. key x = p \<and> kept r x))"

definition retry_keeps :: "attempt_record \<Rightarrow> attempt_record \<Rightarrow> bool" where
  "retry_keeps a p \<longleftrightarrow> record_coordinates a = record_coordinates p \<and> nt_original_attempt_kind a = expected_original p"

definition replacement_keeps :: "transaction_record \<Rightarrow> transaction_record \<Rightarrow> bool" where
  "replacement_keeps t p \<longleftrightarrow> (nx_intent_id t, nx_chain_id t, nx_nonce t) = (nx_intent_id p, nx_chain_id p, nx_nonce p)"

lemma check_retry_Inr:
  assumes "identified b"
  shows "check_retry b a = Inr u \<longleftrightarrow> keeps nt_attempt_id nt_prior_attempt_id (bd_attempts b) retry_keeps a"
proof -
  have d: "distinct (map nt_attempt_id (bd_attempts b))" using assms by (simp add: identified_def)
  show ?thesis
    by (cases "nt_prior_attempt_id a") (auto simp: check_retry_def keeps_def retry_keeps_def exn_simps find_key [OF d])
qed

lemma check_replaced_Inr:
  assumes "identified b"
  shows "check_replaced b t = Inr u \<longleftrightarrow>
    keeps nx_transaction_id nx_replaces_transaction_id (bd_transactions b) replacement_keeps t"
proof -
  have d: "distinct (map nx_transaction_id (bd_transactions b))" using assms by (simp add: identified_def)
  show ?thesis
    by (cases "nx_replaces_transaction_id t")
      (auto simp: check_replaced_def keeps_def replacement_keeps_def exn_simps find_key [OF d])
qed

lemma check_transaction_Inr:
  assumes "identified b"
  shows "check_transaction b t = Inr u \<longleftrightarrow>
    (\<exists>i\<in>set (bd_intents b). ni_intent_id i = nx_intent_id t \<and> ni_chain_id i = nx_chain_id t)"
proof -
  have d: "distinct (map ni_intent_id (bd_intents b))" using assms by (simp add: identified_def)
  show ?thesis by (auto simp: check_transaction_def exn_simps referred_Inr [OF d])
qed

lemma check_observation_Inr:
  "check_observation b x = Inr u \<longleftrightarrow>
     (nb_subject_kind x, nb_subject_id x) \<in>
       Pair ''attempt'' ` nt_attempt_id ` set (bd_attempts b) \<union> Pair ''stage'' ` ng_stage_id ` set (bd_stages b) \<union>
       Pair ''message'' ` nm_message_id ` set (bd_messages b) \<union>
       Pair ''transaction'' ` nx_transaction_id ` set (bd_transactions b)"
  by (simp add: check_observation_def reference_Inr image_image; blast)

lemma check_freeze_Inr:
  assumes "identified b"
  shows "check_freeze b f = Inr u \<longleftrightarrow> frozen_within b f"
proof -
  have d: "distinct (map nt_attempt_id (bd_attempts b))" "distinct (map nc_condition_id (bd_conditions b))"
    using assms by (simp_all add: identified_def)
  show ?thesis
    by (simp add: check_freeze_def frozen_within_def exn_simps referred_Inr [OF d(1)] find_key [OF d(2)] Bex_def conj_assoc)
qed

section \<open>Chains that keep what they must\<close>

lemma same_key:
  assumes "distinct (map key rs)" and "x \<in> set rs" and "y \<in> set rs" and "key x = key y"
  shows "x = y"
  using assms by (auto simp: distinct_map dest: inj_onD)

lemma keeps_next:
  assumes "distinct (map key rs)" and "p \<in> set rs" and "pred r = Some (key p)"
  shows "keeps key pred rs kept r \<longleftrightarrow> kept r p"
  using assms same_key [OF assms(1)] unfolding keeps_def by (auto; blast)

lemma retry_descends:
  assumes d: "distinct (map nt_attempt_id (bd_attempts b))"
    and all: "\<And>x. x \<in> set (bd_attempts b) \<Longrightarrow>
      lineage_fields x \<and> keeps nt_attempt_id nt_prior_attempt_id (bd_attempts b) retry_keeps x"
    and "a \<in> set (bd_attempts b)" and "nt_attempt_kind a = Retry"
    and "pred_chain nt_attempt_id nt_prior_attempt_id (bd_attempts b) a ps"
  shows "\<exists>retries root. ps = retries @ [root] \<and> (\<forall>x\<in>set retries. nt_attempt_kind x = Retry) \<and>
    nt_attempt_kind root \<noteq> Retry \<and> nt_original_attempt_kind a = Some (nt_attempt_kind root) \<and>
    (\<forall>x\<in>set (root # retries). record_coordinates x = record_coordinates a)"
  using assms(3-5)
proof (induction ps arbitrary: a)
  case Nil
  then show ?case using all [of a] by (simp add: lineage_fields_def)
next
  case (Cons p ps)
  then have p: "p \<in> set (bd_attempts b)" and l: "pred_chain nt_attempt_id nt_prior_attempt_id (bd_attempts b) p ps" by auto
  from Cons.prems keeps_next [OF d p, of nt_prior_attempt_id a retry_keeps] all [of a]
  have k: "record_coordinates a = record_coordinates p" "nt_original_attempt_kind a = expected_original p"
    by (auto simp: retry_keeps_def)
  show ?case
  proof (cases "nt_attempt_kind p = Retry")
    case True
    from Cons.IH [OF p True l] obtain retries root where
      "ps = retries @ [root]" "\<forall>x\<in>set retries. nt_attempt_kind x = Retry" "nt_attempt_kind root \<noteq> Retry"
      "nt_original_attempt_kind p = Some (nt_attempt_kind root)"
      "\<forall>x\<in>set (root # retries). record_coordinates x = record_coordinates p"
      by blast
    with True k show ?thesis
      by (intro exI [of _ "p # retries"] exI [of _ root]) (simp add: expected_original_def)
  next
    case False
    with all [OF p] l have "ps = []" by (cases ps) (auto simp: lineage_fields_def)
    with False k show ?thesis
      by (intro exI [of _ "[]"] exI [of _ p]) (simp add: expected_original_def)
  qed
qed

lemma descends_keeps:
  assumes d: "distinct (map nt_attempt_id (bd_attempts b))"
    and all: "\<And>x. x \<in> set (bd_attempts b) \<Longrightarrow> descends b x" and a: "a \<in> set (bd_attempts b)"
  shows "keeps nt_attempt_id nt_prior_attempt_id (bd_attempts b) retry_keeps a"
proof (cases "nt_attempt_kind a = Retry")
  case False
  with all [OF a] show ?thesis by (simp add: descends_def keeps_def)
next
  case True
  with all [OF a] obtain retries root where
    l: "pred_chain nt_attempt_id nt_prior_attempt_id (bd_attempts b) a (retries @ [root])" and
    k: "\<forall>x\<in>set retries. nt_attempt_kind x = Retry" "nt_attempt_kind root \<noteq> Retry"
      "nt_original_attempt_kind a = Some (nt_attempt_kind root)"
      "\<forall>x\<in>set (root # retries). record_coordinates x = record_coordinates a"
    unfolding descends_def by auto
  then obtain p ps where p: "retries @ [root] = p # ps" by (cases retries) auto
  with l have p_in: "p \<in> set (bd_attempts b)" and next_p: "nt_prior_attempt_id a = Some (nt_attempt_id p)"
    and l_p: "pred_chain nt_attempt_id nt_prior_attempt_id (bd_attempts b) p ps" by auto
  have "nt_original_attempt_kind a = expected_original p"
  proof (cases retries)
    case Nil
    with p k show ?thesis by (simp add: expected_original_def)
  next
    case (Cons q qs)
    with p k have "nt_attempt_kind p = Retry" "ps = qs @ [root]" by simp_all
    moreover from this(1) all [OF p_in] obtain older origin where
      "pred_chain nt_attempt_id nt_prior_attempt_id (bd_attempts b) p (older @ [origin])"
      "nt_original_attempt_kind p = Some (nt_attempt_kind origin)"
      unfolding descends_def by auto
    moreover from this(1) l_p have "older @ [origin] = ps" using pred_chain_unique [OF d] by blast
    ultimately show ?thesis using k by (simp add: expected_original_def)
  qed
  moreover have "record_coordinates p = record_coordinates a" using k(4) p by (cases retries) auto
  ultimately show ?thesis
    by (simp add: keeps_next [OF d p_in, of nt_prior_attempt_id a] next_p retry_keeps_def)
qed

lemma attempts_descend:
  assumes d: "distinct (map nt_attempt_id (bd_attempts b))"
  shows "(\<forall>a\<in>set (bd_attempts b). lineage_fields a) \<and>
      (\<forall>a\<in>set (bd_attempts b). \<exists>ps. pred_chain nt_attempt_id nt_prior_attempt_id (bd_attempts b) a ps) \<and>
      (\<forall>a\<in>set (bd_attempts b). keeps nt_attempt_id nt_prior_attempt_id (bd_attempts b) retry_keeps a) \<longleftrightarrow>
    Ball (set (bd_attempts b)) (descends b)" (is "?l \<longleftrightarrow> ?r")
proof
  assume l: ?l
  show ?r
  proof
    fix a assume a: "a \<in> set (bd_attempts b)"
    show "descends b a"
    proof (cases "nt_attempt_kind a = Retry")
      case True
      from l a obtain ps where ps: "pred_chain nt_attempt_id nt_prior_attempt_id (bd_attempts b) a ps" by blast
      from l have "\<And>x. x \<in> set (bd_attempts b) \<Longrightarrow>
          lineage_fields x \<and> keeps nt_attempt_id nt_prior_attempt_id (bd_attempts b) retry_keeps x" by blast
      from retry_descends [OF d this a True ps] ps True show ?thesis unfolding descends_def by auto
    next
      case False
      with l a show ?thesis by (auto simp: descends_def lineage_fields_def)
    qed
  qed
next
  assume r: ?r
  have "lineage_fields a \<and> (\<exists>ps. pred_chain nt_attempt_id nt_prior_attempt_id (bd_attempts b) a ps)"
    if a: "a \<in> set (bd_attempts b)" for a
  proof (cases "nt_attempt_kind a = Retry")
    case True
    from r a have "descends b a" by blast
    with True obtain retries root where
      l: "pred_chain nt_attempt_id nt_prior_attempt_id (bd_attempts b) a (retries @ [root])"
      "nt_original_attempt_kind a = Some (nt_attempt_kind root)"
      unfolding descends_def by auto
    then have "nt_prior_attempt_id a \<noteq> None" by (cases retries) auto
    with l True show ?thesis by (auto simp: lineage_fields_def)
  next
    case False
    with r a have "lineage_fields a" "pred_chain nt_attempt_id nt_prior_attempt_id (bd_attempts b) a []"
      by (auto simp: descends_def lineage_fields_def)
    then show ?thesis by blast
  qed
  with r descends_keeps [OF d] show ?l by blast
qed

lemma replacement_chain:
  assumes d: "distinct (map key rs)" and "pred_chain key pred rs r ps"
    and kept: "\<And>x y. kept x y \<longleftrightarrow> coord x = coord y"
    and "\<forall>x\<in>insert r (set ps). keeps key pred rs kept x"
  shows "\<forall>x\<in>set ps. coord x = coord r"
  using assms(2,4)
proof (induction ps arbitrary: r)
  case (Cons p ps)
  with keeps_next [OF d, of p pred r kept] have "coord r = coord p" by (simp add: kept)
  with Cons show ?case by auto
qed simp

lemma transactions_replace:
  assumes d: "distinct (map nx_transaction_id (bd_transactions b))"
  shows "(\<forall>t\<in>set (bd_transactions b). \<exists>i\<in>set (bd_intents b). ni_intent_id i = nx_intent_id t \<and> ni_chain_id i = nx_chain_id t) \<and>
      (\<forall>t\<in>set (bd_transactions b). \<exists>ps. pred_chain nx_transaction_id nx_replaces_transaction_id (bd_transactions b) t ps) \<and>
      (\<forall>t\<in>set (bd_transactions b).
         keeps nx_transaction_id nx_replaces_transaction_id (bd_transactions b) replacement_keeps t) \<longleftrightarrow>
    Ball (set (bd_transactions b)) (signed_for b)" (is "?i \<and> ?l \<and> ?k \<longleftrightarrow> ?r")
proof
  assume l: "?i \<and> ?l \<and> ?k"
  show ?r
  proof
    fix t assume t: "t \<in> set (bd_transactions b)"
    with l obtain ps where ps: "pred_chain nx_transaction_id nx_replaces_transaction_id (bd_transactions b) t ps" by blast
    have "\<forall>x\<in>set ps. (nx_intent_id x, nx_chain_id x, nx_nonce x) = (nx_intent_id t, nx_chain_id t, nx_nonce t)"
      by (rule replacement_chain [OF d ps, where kept = replacement_keeps])
        (use l t pred_chain_set [OF ps] in \<open>auto simp: replacement_keeps_def\<close>)
    with l t ps show "signed_for b t" unfolding signed_for_def by auto
  qed
next
  assume r: ?r
  have "keeps nx_transaction_id nx_replaces_transaction_id (bd_transactions b) replacement_keeps t"
    if t: "t \<in> set (bd_transactions b)" for t
  proof -
    from r t obtain ps where ps: "pred_chain nx_transaction_id nx_replaces_transaction_id (bd_transactions b) t ps"
      "\<forall>x\<in>set ps. nx_intent_id x = nx_intent_id t \<and> nx_chain_id x = nx_chain_id t \<and> nx_nonce x = nx_nonce t"
      unfolding signed_for_def by auto
    show ?thesis
    proof (cases ps)
      case Nil
      with ps show ?thesis by (simp add: keeps_def)
    next
      case (Cons p qs)
      with ps keeps_next [OF d, of p nx_replaces_transaction_id t replacement_keeps] show ?thesis
        by (simp add: replacement_keeps_def)
    qed
  qed
  with r show "?i \<and> ?l \<and> ?k" unfolding signed_for_def by blast
qed

section \<open>Semantic validation\<close>

lemma semantic_validation_groups:
  assumes i: "identified b"
  shows "semantic_validation b = Inr u \<longleftrightarrow>
    laid_out b \<and> (\<forall>a\<in>set (bd_attempts b). placed b a) \<and>
    ((\<forall>a\<in>set (bd_attempts b). lineage_fields a) \<and>
      (\<forall>a\<in>set (bd_attempts b). \<exists>ps. pred_chain nt_attempt_id nt_prior_attempt_id (bd_attempts b) a ps) \<and>
      (\<forall>a\<in>set (bd_attempts b). keeps nt_attempt_id nt_prior_attempt_id (bd_attempts b) retry_keeps a)) \<and>
    ng_attempt_id ` set (bd_stages b) \<subseteq> nt_attempt_id ` set (bd_attempts b) \<and>
    nm_stage_id ` set (bd_messages b) \<subseteq> ng_stage_id ` set (bd_stages b) \<and>
    ni_stage_id ` set (bd_intents b) \<subseteq> ng_stage_id ` set (bd_stages b) \<and>
    ((\<forall>t\<in>set (bd_transactions b). \<exists>i\<in>set (bd_intents b). ni_intent_id i = nx_intent_id t \<and> ni_chain_id i = nx_chain_id t) \<and>
      (\<forall>t\<in>set (bd_transactions b). \<exists>ps. pred_chain nx_transaction_id nx_replaces_transaction_id (bd_transactions b) t ps) \<and>
      (\<forall>t\<in>set (bd_transactions b).
         keeps nx_transaction_id nx_replaces_transaction_id (bd_transactions b) replacement_keeps t)) \<and>
    Ball (set (bd_observations b)) (observed_subject b) \<and> Ball (set (bd_freeze_scopes b)) (frozen_within b)"
proof -
  have d: "distinct (map nt_attempt_id (bd_attempts b))" "distinct (map nx_transaction_id (bd_transactions b))"
    "distinct (map nb_observation_id (bd_observations b))"
    using i by (simp_all add: identified_def)
  have split: "(\<forall>x\<in>A. P x \<and> Q x) \<longleftrightarrow> (\<forall>x\<in>A. P x) \<and> (\<forall>x\<in>A. Q x)" for A :: "'x set" and P Q by auto
  show ?thesis
    unfolding semantic_validation_def bindE_Inr check_each_Inr check_identifiers_Inr check_layout_Inr
      check_attempt_Inr [OF i] check_retry_Inr [OF i] check_transaction_Inr [OF i] check_replaced_Inr [OF i]
      check_observation_Inr check_freeze_Inr [OF i] reference_Inr assert_acyclic_Inr [OF d(1)]
      assert_acyclic_Inr [OF d(2)] assert_acyclic_Inr [OF d(3)] observed_subject_def split image_subset_iff
    by (simp only: i simp_thms; blast)
qed

text \<open>
  C8. Cross-record validation accepts a bundle exactly when it is reconstructable: identifiers and cells are unique,
  every reference resolves, every retry descends over retries of the same condition, arm, pair and repetition from one
  attempt that is no retry and carries the kind of that attempt, every replaced transaction keeps intent, chain and
  nonce back to the first one, every corrected observation leads back to an original, and a freeze contains only
  attempts of its run.
\<close>

theorem valid_bundle_is_reconstructable: "semantic_validation b = Inr () \<longleftrightarrow> reconstructable b"
proof (cases "identified b")
  case True
  then have "distinct (map nt_attempt_id (bd_attempts b))" "distinct (map nx_transaction_id (bd_transactions b))"
    by (simp_all add: identified_def)
  then show ?thesis
    by (simp only: semantic_validation_groups [OF True] attempts_descend transactions_replace reconstructable_def True simp_thms)
next
  case False
  then have "semantic_validation b \<noteq> Inr ()" by (simp add: semantic_validation_def bindE_Inr check_identifiers_Inr)
  with False show ?thesis by (simp add: reconstructable_def)
qed

end
