(* ===== verification/Xir_Native_Evidence.thy ===== *)
theory Xir_Native_Evidence
  imports Xir_Evidence Xir_Scheduler Xir_Floats
begin

text \<open>
  \<^verbatim>\<open>evidence/native.py\<close>: the intents, observations, protocol messages and process samples of the native
  protocol stack, with the constraints of their tables (\<^verbatim>\<open>002_native_stack.sql\<close>). Each operation is one
  transaction over the evidence and the four tables; \<open>clk\<close> is the system clock and \<open>h\<close> the digest of canonical JSON.
\<close>

section \<open>Rows\<close>

datatype native_protocol = NP_hyperlane | NP_layerzero | NP_xir | NP_application | NP_operations

datatype action_state =
  AS_intended | AS_signed | AS_broadcast_unknown | AS_submitted | AS_included | AS_finalized
| AS_succeeded | AS_failed | AS_skipped

definition terminal_action_states :: "action_state list" where
  "terminal_action_states = [AS_succeeded, AS_failed, AS_skipped]"

record native_action_row =
  na_action_id :: string
  na_run_id :: string
  na_attempt_id :: "string option"
  na_protocol :: native_protocol
  na_action_kind :: string
  na_chain_id :: "int option"
  na_actor_public_id :: string
  na_nonce :: "int option"
  na_target :: "string option"
  na_calldata_sha256 :: "string option"
  na_calldata_bytes :: "int option"
  na_protocol_identifier :: "string option"
  na_retry_of_action_id :: "string option"
  na_retry_index :: int
  na_intended_at :: int

record native_observation_row =
  no_observation_id :: string
  no_action_id :: string
  no_observation_index :: int
  no_state :: action_state
  no_transaction_id :: "string option"
  no_raw_sha256 :: "string option"
  no_error_class :: "string option"
  no_details :: json
  no_observed_at :: int

record native_message_row =
  pm_native_message_id :: string
  pm_attempt_id :: string
  pm_leg_index :: int
  pm_protocol :: native_protocol
  pm_protocol_identifier :: string
  pm_protocol_nonce :: "int option"
  pm_source_chain_id :: int
  pm_destination_chain_id :: int
  pm_source_transaction_id :: string
  pm_encoded_message_sha256 :: string
  pm_payload_sha256 :: string
  pm_dispatch_time :: string

record native_sample_row =
  ps_sample_id :: string
  ps_run_id :: string
  ps_phase :: string
  ps_process_kind :: string
  ps_process_id :: string
  ps_pid :: "int option"
  ps_cpu_percent :: "pyfloat option"
  ps_rss_bytes :: "int option"
  ps_read_bytes :: "int option"
  ps_write_bytes :: "int option"
  ps_network_rx_bytes :: "int option"
  ps_network_tx_bytes :: "int option"
  ps_queue_depth :: "int option"
  ps_healthy :: "bool option"
  ps_gap_error :: "string option"
  ps_observed_at :: int

record native_evidence =
  nv_evidence :: evidence
  nv_actions :: "native_action_row list"
  nv_observations :: "native_observation_row list"
  nv_messages :: "native_message_row list"
  nv_samples :: "native_sample_row list"

type_synonym 'a nv_txn = "native_evidence \<Rightarrow> exn + 'a \<times> native_evidence"
type_synonym 'a nv_outcome = "(exn + 'a) \<times> native_evidence"

definition native_evidence_id :: "(json \<Rightarrow> string) \<Rightarrow> string \<Rightarrow> json list \<Rightarrow> string" where
  "native_evidence_id h kind components =
     ''native_'' @ kind @ ''_'' @ take 24 (h (JObj [(''kind'', JStr kind), (''components'', JList components)]))"

definition find_action :: "string \<Rightarrow> native_evidence \<Rightarrow> native_action_row option" where
  "find_action i nv = find (\<lambda>a. na_action_id a = i) (nv_actions nv)"

definition action_coordinates ::
  "native_action_row \<Rightarrow> string option \<times> native_protocol \<times> string \<times> int option \<times> string \<times> string option \<times> string option \<times> string option"
  where
  "action_coordinates a = (na_attempt_id a, na_protocol a, na_action_kind a, na_chain_id a, na_actor_public_id a,
     na_target a, na_calldata_sha256 a, na_protocol_identifier a)"

definition within64 :: "int option \<Rightarrow> bool" where
  "within64 x = (case x of None \<Rightarrow> True | Some n \<Rightarrow> int64 n)"

definition not_negative :: "int option \<Rightarrow> bool" where
  "not_negative x = (case x of None \<Rightarrow> True | Some n \<Rightarrow> 0 \<le> n)"

definition refers :: "('k \<Rightarrow> 'r option) \<Rightarrow> 'k option \<Rightarrow> bool" where
  "refers lookup x = (case x of None \<Rightarrow> True | Some k \<Rightarrow> lookup k \<noteq> None)"

section \<open>Action intents\<close>

definition check_native_lineage :: "native_action_row \<Rightarrow> native_evidence \<Rightarrow> exn + unit" where
  "check_native_lineage a nv =
     (case na_retry_of_action_id a of
        Some p \<Rightarrow>
          bindE (require (find_action p nv) (StoreError (ST_native_unknown_predecessor p))) (\<lambda>prior.
          bindE (ensure (action_coordinates a = action_coordinates prior) (StoreError ST_native_coordinates)) (\<lambda>_.
          ensure (na_retry_index a = na_retry_index prior + 1) (StoreError ST_native_retry_index)))
      | None \<Rightarrow> ensure (na_retry_index a = 0) (StoreError ST_native_root_index))"

text \<open>
  The insertion: integers of 64 bits, references, one action per chain, actor and nonce where chain and nonce are
  given, and the range checks of the table.
\<close>

definition insert_action :: "native_action_row \<Rightarrow> native_evidence \<Rightarrow> exn + native_evidence" where
  "insert_action a nv =
     bindE (ensure (within64 (na_chain_id a) \<and> within64 (na_nonce a) \<and> within64 (na_calldata_bytes a)
                    \<and> int64 (na_retry_index a)) OverflowError) (\<lambda>_.
     bindE (ensure (\<not> list_ex (\<lambda>x. na_action_id x = na_action_id a) (nv_actions nv)
                    \<and> find_run (na_run_id a) (ev_db (nv_evidence nv)) \<noteq> None
                    \<and> refers (\<lambda>i. find_attempt i (ev_db (nv_evidence nv))) (na_attempt_id a)
                    \<and> refers (\<lambda>i. find_action i nv) (na_retry_of_action_id a)
                    \<and> not_negative (na_nonce a) \<and> not_negative (na_calldata_bytes a)
                    \<and> (na_retry_of_action_id a = None \<longleftrightarrow> na_retry_index a = 0) \<and> 0 \<le> na_retry_index a
                    \<and> (na_chain_id a = None \<or> na_nonce a = None \<or>
                       \<not> list_ex (\<lambda>x. na_chain_id x = na_chain_id a \<and> na_actor_public_id x = na_actor_public_id a
                                      \<and> na_nonce x = na_nonce a) (nv_actions nv))) IntegrityError) (\<lambda>_.
     Inr (nv\<lparr>nv_actions := nv_actions nv @ [a]\<rparr>)))"

definition insert_native_observation :: "native_observation_row \<Rightarrow> native_evidence \<Rightarrow> exn + native_evidence" where
  "insert_native_observation r nv =
     bindE (ensure (int64 (no_observation_index r)) OverflowError) (\<lambda>_.
     bindE (ensure (\<not> list_ex (\<lambda>x. no_observation_id x = no_observation_id r
                                    \<or> no_action_id x = no_action_id r \<and> no_observation_index x = no_observation_index r)
                          (nv_observations nv)
                    \<and> find_action (no_action_id r) nv \<noteq> None \<and> 0 \<le> no_observation_index r
                    \<and> refers (\<lambda>i. find_transaction i (ev_db (nv_evidence nv))) (no_transaction_id r)
                    \<and> refers (\<lambda>i. find (\<lambda>x. rw_raw_sha256 x = i) (ev_raw (nv_evidence nv))) (no_raw_sha256 r))
              IntegrityError) (\<lambda>_.
     Inr (nv\<lparr>nv_observations := nv_observations nv @ [r]\<rparr>)))"

definition intended_observation :: "(json \<Rightarrow> string) \<Rightarrow> int \<Rightarrow> string \<Rightarrow> native_observation_row" where
  "intended_observation h clk action_id =
     \<lparr>no_observation_id = native_evidence_id h ''action_observation'' [JStr action_id, JInt 0, JStr ''intended''],
      no_action_id = action_id, no_observation_index = 0, no_state = AS_intended, no_transaction_id = None,
      no_raw_sha256 = None, no_error_class = None, no_details = JObj [], no_observed_at = clk\<rparr>"

definition record_action_intent_txn :: "(json \<Rightarrow> string) \<Rightarrow> int \<Rightarrow> native_action_row \<Rightarrow> unit nv_txn" where
  "record_action_intent_txn h clk a nv =
     bindE (check_native_lineage a nv) (\<lambda>_.
     bindE (insert_action (a\<lparr>na_intended_at := clk\<rparr>) nv) (\<lambda>nv1.
     bindE (insert_native_observation (intended_observation h clk (na_action_id a)) nv1) (\<lambda>nv2.
     Inr ((), nv2))))"

definition record_action_intent ::
  "(json \<Rightarrow> string) \<Rightarrow> int \<Rightarrow> native_action_row \<Rightarrow> native_evidence \<Rightarrow> unit nv_outcome" where
  "record_action_intent h clk a nv =
     (if na_action_kind a = [] \<or> na_actor_public_id a = [] then (Inl (StoreError ST_native_fields), nv)
      else if (case na_calldata_sha256 a of None \<Rightarrow> False | Some d \<Rightarrow> length d \<noteq> 64)
      then (Inl (StoreError ST_native_digest), nv)
      else store_write (record_action_intent_txn h clk a) nv)"

section \<open>Action observations\<close>

definition latest_action_observation :: "string \<Rightarrow> native_evidence \<Rightarrow> native_observation_row option" where
  "latest_action_observation i nv =
     (case filter (\<lambda>r. no_action_id r = i) (nv_observations nv) of
        [] \<Rightarrow> None
      | r # rs \<Rightarrow> Some (fold (\<lambda>x y. if no_observation_index y < no_observation_index x then x else y) rs r))"

definition append_action_observation_txn :: "int \<Rightarrow> native_observation_row \<Rightarrow> unit nv_txn" where
  "append_action_observation_txn clk r nv =
     bindE (require (latest_action_observation (no_action_id r) nv) (StoreError (ST_native_no_intent (no_action_id r)))) (\<lambda>current.
     bindE (ensure (no_state current \<notin> set terminal_action_states) (StoreError (ST_native_terminal (no_action_id r)))) (\<lambda>_.
     bindE (ensure (no_state r \<noteq> AS_intended) (StoreError ST_native_intended)) (\<lambda>_.
     bindE (insert_native_observation
              (r\<lparr>no_observation_index := no_observation_index current + 1, no_observed_at := clk\<rparr>) nv) (\<lambda>nv1.
     Inr ((), nv1)))))"

definition append_action_observation ::
  "int \<Rightarrow> native_observation_row \<Rightarrow> native_evidence \<Rightarrow> unit nv_outcome" where
  "append_action_observation clk r = store_write (append_action_observation_txn clk r)"

section \<open>Protocol messages\<close>

definition has_message_intent :: "native_message_row \<Rightarrow> native_evidence \<Rightarrow> bool" where
  "has_message_intent m nv \<longleftrightarrow>
     list_ex (\<lambda>a. na_attempt_id a = Some (pm_attempt_id m) \<and> na_protocol a = pm_protocol m
                  \<and> na_protocol_identifier a = Some (pm_protocol_identifier m)
                  \<and> list_ex (\<lambda>r. no_action_id r = na_action_id a \<and> no_state r = AS_intended) (nv_observations nv))
       (nv_actions nv)"

definition record_protocol_message_txn :: "native_message_row \<Rightarrow> unit nv_txn" where
  "record_protocol_message_txn m nv =
     bindE (ensure (has_message_intent m nv) (StoreError ST_native_no_message_intent)) (\<lambda>_.
     bindE (ensure (int64 (pm_leg_index m) \<and> within64 (pm_protocol_nonce m) \<and> int64 (pm_source_chain_id m)
                    \<and> int64 (pm_destination_chain_id m)) OverflowError) (\<lambda>_.
     bindE (ensure (\<not> list_ex (\<lambda>x. pm_native_message_id x = pm_native_message_id m
                        \<or> pm_protocol x = pm_protocol m \<and> pm_protocol_identifier x = pm_protocol_identifier m
                        \<or> pm_attempt_id x = pm_attempt_id m \<and> pm_leg_index x = pm_leg_index m) (nv_messages nv)
                    \<and> find_attempt (pm_attempt_id m) (ev_db (nv_evidence nv)) \<noteq> None
                    \<and> find_transaction (pm_source_transaction_id m) (ev_db (nv_evidence nv)) \<noteq> None
                    \<and> pm_protocol m \<in> {NP_hyperlane, NP_layerzero} \<and> not_negative (pm_protocol_nonce m)
                    \<and> length (pm_encoded_message_sha256 m) = 64 \<and> length (pm_payload_sha256 m) = 64)
              IntegrityError) (\<lambda>_.
     Inr ((), nv\<lparr>nv_messages := nv_messages nv @ [m]\<rparr>))))"

definition record_protocol_message :: "native_message_row \<Rightarrow> native_evidence \<Rightarrow> unit nv_outcome" where
  "record_protocol_message m nv =
     (if pm_leg_index m \<noteq> 0 \<and> pm_leg_index m \<noteq> 1 then (Inl (StoreError ST_native_leg), nv)
      else store_write (record_protocol_message_txn m) nv)"

section \<open>Process samples\<close>

definition unmeasured :: "native_sample_row \<Rightarrow> bool" where
  "unmeasured s \<longleftrightarrow>
     ps_pid s = None \<and> ps_cpu_percent s = None \<and> ps_rss_bytes s = None \<and> ps_read_bytes s = None
     \<and> ps_write_bytes s = None \<and> ps_network_rx_bytes s = None \<and> ps_network_tx_bytes s = None
     \<and> ps_queue_depth s = None \<and> ps_healthy s = None"

definition sample_counters :: "native_sample_row \<Rightarrow> int option list" where
  "sample_counters s =
     [ps_rss_bytes s, ps_read_bytes s, ps_write_bytes s, ps_network_rx_bytes s, ps_network_tx_bytes s, ps_queue_depth s]"

definition record_process_sample_txn :: "int \<Rightarrow> native_sample_row \<Rightarrow> unit nv_txn" where
  "record_process_sample_txn clk s nv =
     bindE (ensure (list_all within64 (ps_pid s # sample_counters s)) OverflowError) (\<lambda>_.
     bindE (ensure (\<not> list_ex (\<lambda>x. ps_sample_id x = ps_sample_id s) (nv_samples nv)
                    \<and> find_run (ps_run_id s) (ev_db (nv_evidence nv)) \<noteq> None
                    \<and> ps_phase s \<in> {''smoke'', ''rehearsal'', ''scale'', ''recovery''}
                    \<and> (case ps_pid s of None \<Rightarrow> True | Some p \<Rightarrow> 0 < p) \<and> list_all not_negative (sample_counters s))
              IntegrityError) (\<lambda>_.
     Inr ((), nv\<lparr>nv_samples := nv_samples nv @ [s\<lparr>ps_observed_at := clk\<rparr>]\<rparr>)))"

definition record_process_sample :: "int \<Rightarrow> native_sample_row \<Rightarrow> native_evidence \<Rightarrow> unit nv_outcome" where
  "record_process_sample clk s nv =
     (if ps_gap_error s = None \<and> unmeasured s then (Inl (StoreError ST_native_empty_sample), nv)
      else store_write (record_process_sample_txn clk s) nv)"

end
