(* ===== verification/Xir_Native_Evidence_Properties.thy ===== *)
theory Xir_Native_Evidence_Properties
  imports Xir_Native_Evidence Xir_Records_Properties "HOL-Library.Sublist"
begin

text \<open>
  The native evidence is a set of linear histories: consecutive observations from one intent to at most one terminal
  state, retries that count back to their root, and messages that an intent announced.
\<close>

section \<open>Invariant\<close>

definition action_history :: "native_evidence \<Rightarrow> string \<Rightarrow> native_observation_row list" where
  "action_history nv i = filter (\<lambda>r. no_action_id r = i) (nv_observations nv)"







text \<open>Evidence only grows at the end.\<close>

definition native_grows :: "native_evidence \<Rightarrow> native_evidence \<Rightarrow> bool" where
  "native_grows nv nv' \<longleftrightarrow> prefix (nv_actions nv) (nv_actions nv') \<and> prefix (nv_observations nv) (nv_observations nv')
     \<and> prefix (nv_messages nv) (nv_messages nv') \<and> prefix (nv_samples nv) (nv_samples nv')"

lemma native_grows_refl [simp]: "native_grows nv nv"
  by (simp add: native_grows_def)


section \<open>Histories\<close>





lemma latest_none: "latest_action_observation i nv = None \<longleftrightarrow> action_history nv i = []"
  by (auto simp: latest_action_observation_def action_history_def split: list.splits)

section \<open>Single writes\<close>











section \<open>All histories\<close>


















end
