(* ===== verification/Xir_Operations.thy ===== *)
theory Xir_Operations
  imports Xir_Submission Xir_Raw
begin

text \<open>
  \<^verbatim>\<open>execute/approved_operations.py\<close>: batches of approved deployment, configuration and closeout transactions, executed
  one after the other against a journal file. The journal is replaced by a rename, so it is the old document or the new
  one. \<open>ext\<close> is the external signer, \<open>ident\<close> its public address, \<open>bc\<close> the broadcaster, \<open>receipt\<close> and \<open>account_nonce\<close> the
  public lookups; each may raise. The other parameters are those of \<^verbatim>\<open>Xir_Signer\<close> and \<^verbatim>\<open>Xir_Raw\<close>.
  The integers of a journal are assumed within the range of canonical JSON, beyond which writing it raises.
\<close>

section \<open>Batches\<close>

datatype operation_kind = OPK_deployment | OPK_configuration | OPK_closeout

definition operation_kind_text :: "operation_kind \<Rightarrow> string" where
  "operation_kind_text k =
     (case k of OPK_deployment \<Rightarrow> ''deployment'' | OPK_configuration \<Rightarrow> ''configuration'' | OPK_closeout \<Rightarrow> ''closeout'')"

record approved_transaction =
  av_transaction_id :: string
  av_request :: signer_request
  av_expected_created_address :: "string option"

record operation_batch =
  ab_operation_id :: string
  ab_operation_type :: operation_kind
  ab_approval_id :: string
  ab_approval_payload_sha256 :: string
  ab_transactions :: "approved_transaction list"
  ab_batch_sha256 :: string

definition signer_coordinate :: "approved_transaction \<Rightarrow> int \<times> string \<times> int" where
  "signer_coordinate a = (sr_chain_id (av_request a), sr_signer_id (av_request a), sr_nonce (av_request a))"

definition batch_json :: "(json \<Rightarrow> string) \<Rightarrow> string \<Rightarrow> operation_kind \<Rightarrow> string \<Rightarrow> string \<Rightarrow> approved_transaction list \<Rightarrow> json" where
  "batch_json h operation_id operation_type approval_id approval_payload_sha256 transactions =
     JObj [(''operation_id'', JStr operation_id), (''operation_type'', JStr (operation_kind_text operation_type)),
       (''approval_id'', JStr approval_id), (''approval_payload_sha256'', JStr approval_payload_sha256),
       (''transactions'', JList (map (\<lambda>a. JObj
          [(''transaction_id'', JStr (av_transaction_id a)),
           (''signer_operation_id'', JStr (signer_operation_id h (av_request a))),
           (''unsigned_transaction_sha256'', JStr (sr_unsigned_transaction_sha256 (av_request a))),
           (''expected_created_address'', json_text (av_expected_created_address a))]) transactions))]"

definition build_approved_operation_batch ::
  "(json \<Rightarrow> string) \<Rightarrow> string \<Rightarrow> operation_kind \<Rightarrow> string \<Rightarrow> string \<Rightarrow> approved_transaction list \<Rightarrow> exn + operation_batch" where
  "build_approved_operation_batch h operation_id operation_type approval_id approval_payload_sha256 transactions =
     bindE (ensure (is_sha256_hex approval_payload_sha256) (ApprovedOperationError OE_digest)) (\<lambda>_.
     bindE (ensure (\<not> (operation_id = [] \<or> approval_id = [] \<or> transactions = []
                        \<or> \<not> distinct (map av_transaction_id transactions))) (ApprovedOperationError OE_identity)) (\<lambda>_.
     bindE (ensure (distinct (map signer_coordinate transactions)) (ApprovedOperationError OE_nonce_reused)) (\<lambda>_.
     Inr \<lparr>ab_operation_id = operation_id, ab_operation_type = operation_type, ab_approval_id = approval_id,
          ab_approval_payload_sha256 = approval_payload_sha256, ab_transactions = transactions,
          ab_batch_sha256 = h (batch_json h operation_id operation_type approval_id approval_payload_sha256 transactions)\<rparr>)))"

section \<open>Journal and world\<close>

datatype operation_state =
  OS_planned | OS_signed_hash_persisted | OS_broadcast_unknown | OS_submitted | OS_included | OS_finalized | OS_blocked

record operation_entry =
  oe_transaction_id :: string
  oe_state :: operation_state
  oe_signer_operation_id :: string
  oe_chain_id :: int
  oe_nonce :: int
  oe_transaction_hash :: "string option"
  oe_spool_reference :: "spool_reference option"
  oe_provider_reference :: "string option"
  oe_receipt_raw_sha256 :: "string option"
  oe_block_number :: "int option"
  oe_block_hash :: "string option"
  oe_contract_address :: "string option"
  oe_reason_code :: string

record operation_journal =
  oj_operation_id :: string
  oj_operation_type :: operation_kind
  oj_approval_id :: string
  oj_approval_payload_sha256 :: string
  oj_batch_sha256 :: string
  oj_transactions :: "operation_entry list"
  oj_updated_at :: int

datatype journal_file = Journal_absent | Journal_unreadable | Journal_not_object | Journal_document operation_journal

record operation_world =
  opw_journal :: journal_file
  opw_spool :: spool
  opw_raw :: raw_world
  opw_signed :: "string list"
  opw_sent :: "(string \<times> string) list"

type_synonym 'a op_act = "(operation_world, 'a) action"

record operation_receipt =
  oq_transaction_hash :: string
  oq_chain_id :: int
  oq_nonce :: int
  oq_status :: int
  oq_block_number :: int
  oq_block_hash :: string
  oq_contract_address :: "string option"
  oq_raw_bytes :: string
  oq_finalized :: bool

definition operation_persist :: "int \<Rightarrow> operation_journal \<Rightarrow> unit op_act" where
  "operation_persist clk doc w = (Inr (), w\<lparr>opw_journal := Journal_document (doc\<lparr>oj_updated_at := clk\<rparr>)\<rparr>)"

definition operation_sign ::
  "(json \<Rightarrow> string) \<Rightarrow> (string \<Rightarrow> string) \<Rightarrow> (crash_point \<Rightarrow> bool) \<Rightarrow> signer \<Rightarrow> signer_request \<Rightarrow> (spool_reference \<times> string) op_act" where
  "operation_sign h sha crash ext request w =
     (case sign_to_spool h sha crash ext request (opw_spool w) of
        (r, sp) \<Rightarrow> (r, w\<lparr>opw_spool := sp, opw_signed := opw_signed w @ [signer_operation_id h request]\<rparr>))"

definition operation_send :: "broadcaster \<Rightarrow> string \<Rightarrow> string \<Rightarrow> broadcast_result op_act" where
  "operation_send bc signed_bytes expected_hash w =
     (bc signed_bytes expected_hash, w\<lparr>opw_sent := opw_sent w @ [(signed_bytes, expected_hash)]\<rparr>)"

definition operation_put_raw ::
  "(json \<Rightarrow> string) \<Rightarrow> (string \<Rightarrow> string) \<Rightarrow> (raw_file \<Rightarrow> int) \<Rightarrow> int \<Rightarrow> string \<Rightarrow> json \<Rightarrow> string op_act" where
  "operation_put_raw ser sha on_disk clk data metadata w =
     (case put_raw ser sha on_disk clk data ''application/json'' metadata (opw_raw w) of (r, raw) \<Rightarrow> (r, w\<lparr>opw_raw := raw\<rparr>))"

section \<open>Initialization, loading and lookup\<close>

definition planned_entry :: "(json \<Rightarrow> string) \<Rightarrow> approved_transaction \<Rightarrow> operation_entry" where
  "planned_entry h a =
     \<lparr>oe_transaction_id = av_transaction_id a, oe_state = OS_planned,
      oe_signer_operation_id = signer_operation_id h (av_request a), oe_chain_id = sr_chain_id (av_request a),
      oe_nonce = sr_nonce (av_request a), oe_transaction_hash = None, oe_spool_reference = None,
      oe_provider_reference = None, oe_receipt_raw_sha256 = None, oe_block_number = None, oe_block_hash = None,
      oe_contract_address = None, oe_reason_code = ''planned''\<rparr>"

definition fresh_journal :: "(json \<Rightarrow> string) \<Rightarrow> int \<Rightarrow> operation_batch \<Rightarrow> operation_journal" where
  "fresh_journal h clk b =
     \<lparr>oj_operation_id = ab_operation_id b, oj_operation_type = ab_operation_type b, oj_approval_id = ab_approval_id b,
      oj_approval_payload_sha256 = ab_approval_payload_sha256 b, oj_batch_sha256 = ab_batch_sha256 b,
      oj_transactions = map (planned_entry h) (ab_transactions b), oj_updated_at = clk\<rparr>"

definition read_journal :: "operation_batch \<Rightarrow> operation_world \<Rightarrow> exn + operation_journal" where
  "read_journal b w =
     (case opw_journal w of
        Journal_absent \<Rightarrow> Inl (ApprovedOperationError OE_journal_corrupt)
      | Journal_unreadable \<Rightarrow> Inl (ApprovedOperationError OE_journal_corrupt)
      | Journal_not_object \<Rightarrow> Inl (ApprovedOperationError OE_journal_root)
      | Journal_document doc \<Rightarrow>
          bindE (ensure (oj_batch_sha256 doc = ab_batch_sha256 b) (ApprovedOperationError OE_journal_digest)) (\<lambda>_. Inr doc))"

definition operation_initialize :: "(json \<Rightarrow> string) \<Rightarrow> int \<Rightarrow> operation_batch \<Rightarrow> unit op_act" where
  "operation_initialize h clk b w =
     (if opw_journal w \<noteq> Journal_absent
      then (bindE (read_journal b w) (\<lambda>existing.
              ensure (oj_batch_sha256 existing = ab_batch_sha256 b) (ApprovedOperationError OE_other_batch)), w)
      else operation_persist clk (fresh_journal h clk b) w)"

definition operation_load :: "(json \<Rightarrow> string) \<Rightarrow> int \<Rightarrow> operation_batch \<Rightarrow> operation_journal op_act" where
  "operation_load h clk b =
     act_bind (\<lambda>w. if opw_journal w = Journal_absent then operation_initialize h clk b w else (Inr (), w)) (\<lambda>_ w.
     (read_journal b w, w))"

text \<open>\<^verbatim>\<open>zip(.., strict=True)\<close> raises when it meets the end of one list only.\<close>

fun find_record ::
  "string \<Rightarrow> nat \<Rightarrow> operation_entry list \<Rightarrow> approved_transaction list \<Rightarrow> exn + nat \<times> operation_entry \<times> approved_transaction" where
  "find_record tid k [] [] = Inl (ApprovedOperationError OE_unknown_transaction)"
| "find_record tid k (r # rs) (a # as) =
     (if av_transaction_id a = tid
      then bindE (ensure (oe_transaction_id r = tid) (ApprovedOperationError OE_journal_order)) (\<lambda>_. Inr (k, r, a))
      else find_record tid (Suc k) rs as)"
| "find_record tid k _ _ = Inl ValueError"

definition operation_record ::
  "operation_batch \<Rightarrow> operation_journal \<Rightarrow> string \<Rightarrow> exn + nat \<times> operation_entry \<times> approved_transaction" where
  "operation_record b doc tid = find_record tid 0 (oj_transactions doc) (ab_transactions b)"

text \<open>The hash is absent only while the entry is planned, when it is not asked for.\<close>

definition entry_hash :: "operation_entry \<Rightarrow> string" where
  "entry_hash r = (case oe_transaction_hash r of None \<Rightarrow> [] | Some x \<Rightarrow> x)"

definition set_entry :: "nat \<Rightarrow> operation_entry \<Rightarrow> operation_journal \<Rightarrow> operation_journal" where
  "set_entry k r doc = doc\<lparr>oj_transactions := (oj_transactions doc)[k := r]\<rparr>"

definition entry_reference :: "operation_entry \<Rightarrow> exn + spool_reference" where
  "entry_reference r = require (oe_spool_reference r) TypeError"

definition load_signed :: "(string \<Rightarrow> string) \<Rightarrow> spool_reference \<Rightarrow> string op_act" where
  "load_signed sha reference w = (spool_load sha reference (opw_spool w), w)"

section \<open>Advancing\<close>

definition signed_entry :: "spool_reference \<Rightarrow> string \<Rightarrow> operation_entry \<Rightarrow> operation_entry" where
  "signed_entry reference transaction_hash r =
     r\<lparr>oe_spool_reference := Some reference, oe_transaction_hash := Some transaction_hash,
       oe_state := OS_signed_hash_persisted, oe_reason_code := ''signed_bytes_private''\<rparr>"

definition unknown_entry :: "operation_entry \<Rightarrow> operation_entry" where
  "unknown_entry r = r\<lparr>oe_state := OS_broadcast_unknown, oe_reason_code := ''broadcast_started_ack_unknown''\<rparr>"

definition submitted_entry :: "broadcast_result \<Rightarrow> string \<Rightarrow> operation_entry \<Rightarrow> operation_entry" where
  "submitted_entry result reason r =
     r\<lparr>oe_state := OS_submitted, oe_provider_reference := br_provider_reference result, oe_reason_code := reason\<rparr>"

text \<open>From the planned state: sign into the spool and persist hash and reference.\<close>

definition sign_entry ::
  "(json \<Rightarrow> string) \<Rightarrow> (string \<Rightarrow> string) \<Rightarrow> (crash_point \<Rightarrow> bool) \<Rightarrow> signer \<Rightarrow> int \<Rightarrow> operation_journal \<Rightarrow> nat
     \<Rightarrow> operation_entry \<Rightarrow> approved_transaction \<Rightarrow> operation_entry op_act" where
  "sign_entry h sha crash ext clk doc k r a =
     act_bind (operation_sign h sha crash ext (av_request a)) (\<lambda>(reference, transaction_hash).
     act_bind (act_lift (hit crash CP_after_signer_return)) (\<lambda>_.
     act_bind (operation_persist clk (set_entry k (signed_entry reference transaction_hash r) doc)) (\<lambda>_.
     act_bind (act_lift (hit crash CP_after_hash_reference_persistence)) (\<lambda>_.
     act_return (signed_entry reference transaction_hash r)))))"

text \<open>From a signed state: the start is persisted before the bytes leave, the acknowledgement after.\<close>

definition send_entry ::
  "(string \<Rightarrow> string) \<Rightarrow> (crash_point \<Rightarrow> bool) \<Rightarrow> broadcaster \<Rightarrow> int \<Rightarrow> operation_journal \<Rightarrow> nat \<Rightarrow> operation_entry
     \<Rightarrow> operation_state op_act" where
  "send_entry sha crash bc clk doc k r =
     act_bind (act_lift (entry_reference r)) (\<lambda>reference.
     act_bind (load_signed sha reference) (\<lambda>signed_bytes.
     act_bind (operation_persist clk (set_entry k (unknown_entry r) doc)) (\<lambda>_.
     act_bind (operation_send bc signed_bytes (entry_hash r)) (\<lambda>result.
     act_bind (act_lift (hit crash CP_after_broadcast_before_acknowledgement)) (\<lambda>_.
     if br_accepted result
     then act_bind (operation_persist clk (set_entry k (submitted_entry result ''rpc_acknowledged'' r) doc)) (\<lambda>_.
          act_return OS_submitted)
     else act_return OS_broadcast_unknown)))))"

definition advance_entry ::
  "(json \<Rightarrow> string) \<Rightarrow> (string \<Rightarrow> string) \<Rightarrow> (crash_point \<Rightarrow> bool) \<Rightarrow> signer \<Rightarrow> broadcaster \<Rightarrow> int \<Rightarrow> operation_journal \<Rightarrow> nat
     \<Rightarrow> operation_entry \<Rightarrow> approved_transaction \<Rightarrow> operation_state op_act" where
  "advance_entry h sha crash ext bc clk doc k r a =
     act_bind (if oe_state r = OS_planned then sign_entry h sha crash ext clk doc k r a else act_return r) (\<lambda>r1.
     if oe_state r1 \<noteq> OS_signed_hash_persisted \<and> oe_state r1 \<noteq> OS_broadcast_unknown then act_return (oe_state r1)
     else send_entry sha crash bc clk (set_entry k r1 doc) k r1)"

definition operation_advance ::
  "(json \<Rightarrow> string) \<Rightarrow> (string \<Rightarrow> string) \<Rightarrow> (crash_point \<Rightarrow> bool) \<Rightarrow> signer \<Rightarrow> broadcaster \<Rightarrow> int \<Rightarrow> operation_batch
     \<Rightarrow> string \<Rightarrow> operation_state op_act" where
  "operation_advance h sha crash ext bc clk b tid =
     act_bind (operation_load h clk b) (\<lambda>doc.
     act_bind (act_lift (operation_record b doc tid)) (\<lambda>(k, r, a).
     act_bind (act_lift (ensure (list_all (\<lambda>x. oe_state x = OS_finalized) (take k (oj_transactions doc)))
                (ApprovedOperationError OE_order))) (\<lambda>_.
     advance_entry h sha crash ext bc clk doc k r a)))"

section \<open>Reconciling\<close>

definition marked :: "operation_state \<Rightarrow> string \<Rightarrow> operation_entry \<Rightarrow> operation_entry" where
  "marked s reason r = r\<lparr>oe_state := s, oe_reason_code := reason\<rparr>"

definition persist_entry :: "int \<Rightarrow> operation_journal \<Rightarrow> nat \<Rightarrow> operation_entry \<Rightarrow> operation_state op_act" where
  "persist_entry clk doc k r = act_bind (operation_persist clk (set_entry k r doc)) (\<lambda>_. act_return (oe_state r))"

text \<open>No receipt while the broadcast is unknown: what the public nonce of the signer says.\<close>

definition operation_absent ::
  "(string \<Rightarrow> exn + string) \<Rightarrow> (int \<Rightarrow> string \<Rightarrow> exn + int option) \<Rightarrow> int \<Rightarrow> operation_journal \<Rightarrow> nat \<Rightarrow> operation_entry
     \<Rightarrow> approved_transaction \<Rightarrow> operation_state op_act" where
  "operation_absent ident account_nonce clk doc k r a =
     act_bind (act_lift (ident (sr_network_id (av_request a)))) (\<lambda>address.
     act_bind (act_lift (account_nonce (sr_chain_id (av_request a)) address)) (\<lambda>nonce.
     persist_entry clk doc k
       (case nonce of
          None \<Rightarrow> r\<lparr>oe_reason_code := ''nonce_lookup_unavailable''\<rparr>
        | Some n \<Rightarrow>
            if n > sr_nonce (av_request a) then marked OS_blocked ''nonce_consumed_without_exact_receipt'' r
            else r\<lparr>oe_reason_code := ''exact_hash_absent_exact_rebroadcast_allowed''\<rparr>)))"

definition receipt_matches :: "operation_receipt \<Rightarrow> string \<Rightarrow> approved_transaction \<Rightarrow> bool" where
  "receipt_matches q transaction_hash a \<longleftrightarrow>
     \<not> (lower (oq_transaction_hash q) \<noteq> lower transaction_hash \<or> oq_chain_id q \<noteq> sr_chain_id (av_request a)
        \<or> oq_nonce q \<noteq> sr_nonce (av_request a) \<or> oq_status q \<noteq> 1)"

definition created_as_expected :: "operation_receipt \<Rightarrow> approved_transaction \<Rightarrow> bool" where
  "created_as_expected q a \<longleftrightarrow>
     (case av_expected_created_address a of
        None \<Rightarrow> True
      | Some expected \<Rightarrow>
          (case oq_contract_address q of None \<Rightarrow> False | Some address \<Rightarrow> lower address = lower expected))"

definition receipt_metadata :: "string \<Rightarrow> operation_receipt \<Rightarrow> json" where
  "receipt_metadata tid q =
     JObj [(''kind'', JStr ''approved-operation-receipt''), (''transaction_id'', JStr tid),
           (''chain_id'', JInt (oq_chain_id q)), (''public_facts_only'', JBool True)]"

definition receipt_entry :: "operation_receipt \<Rightarrow> string \<Rightarrow> operation_entry \<Rightarrow> operation_entry" where
  "receipt_entry q raw_sha256 r =
     r\<lparr>oe_receipt_raw_sha256 := Some raw_sha256, oe_block_number := Some (oq_block_number q),
       oe_block_hash := Some (oq_block_hash q), oe_contract_address := oq_contract_address q,
       oe_state := (if oq_finalized q then OS_finalized else OS_included),
       oe_reason_code := (if oq_finalized q then ''canonical_receipt_finalized'' else ''canonical_receipt_included'')\<rparr>"

definition apply_receipt ::
  "(json \<Rightarrow> string) \<Rightarrow> (string \<Rightarrow> string) \<Rightarrow> (raw_file \<Rightarrow> int) \<Rightarrow> int \<Rightarrow> operation_journal \<Rightarrow> nat \<Rightarrow> operation_entry
     \<Rightarrow> approved_transaction \<Rightarrow> string \<Rightarrow> operation_receipt \<Rightarrow> operation_state op_act" where
  "apply_receipt ser sha on_disk clk doc k r a tid q =
     (if \<not> receipt_matches q (entry_hash r) a
      then persist_entry clk doc k (marked OS_blocked ''receipt_identity_or_status_mismatch'' r)
      else if \<not> created_as_expected q a then persist_entry clk doc k (marked OS_blocked ''created_address_mismatch'' r)
      else act_bind (operation_put_raw ser sha on_disk clk (oq_raw_bytes q) (receipt_metadata tid q)) (\<lambda>raw_sha256.
           persist_entry clk doc k (receipt_entry q raw_sha256 r)))"

definition reconcile_entry ::
  "(json \<Rightarrow> string) \<Rightarrow> (string \<Rightarrow> string) \<Rightarrow> (raw_file \<Rightarrow> int) \<Rightarrow> (string \<Rightarrow> exn + string) \<Rightarrow> (int \<Rightarrow> string \<Rightarrow> exn + int option)
     \<Rightarrow> (int \<Rightarrow> string \<Rightarrow> exn + operation_receipt option) \<Rightarrow> int \<Rightarrow> operation_journal \<Rightarrow> nat \<Rightarrow> operation_entry
     \<Rightarrow> approved_transaction \<Rightarrow> string \<Rightarrow> operation_state op_act" where
  "reconcile_entry ser sha on_disk ident account_nonce receipt clk doc k r a tid =
     act_bind (act_lift (ensure (oe_state r \<in> {OS_broadcast_unknown, OS_submitted, OS_included, OS_finalized})
                (ApprovedOperationError OE_not_observable))) (\<lambda>_.
     if oe_state r = OS_finalized then act_return OS_finalized
     else
     act_bind (act_lift (receipt (sr_chain_id (av_request a)) (entry_hash r))) (\<lambda>found.
     case found of
       None \<Rightarrow>
         if oe_state r \<noteq> OS_broadcast_unknown then act_return (oe_state r)
         else operation_absent ident account_nonce clk doc k r a
     | Some q \<Rightarrow> apply_receipt ser sha on_disk clk doc k r a tid q))"

definition operation_reconcile ::
  "(json \<Rightarrow> string) \<Rightarrow> (json \<Rightarrow> string) \<Rightarrow> (string \<Rightarrow> string) \<Rightarrow> (raw_file \<Rightarrow> int) \<Rightarrow> (string \<Rightarrow> exn + string)
     \<Rightarrow> (int \<Rightarrow> string \<Rightarrow> exn + int option) \<Rightarrow> (int \<Rightarrow> string \<Rightarrow> exn + operation_receipt option) \<Rightarrow> int \<Rightarrow> operation_batch
     \<Rightarrow> string \<Rightarrow> operation_state op_act" where
  "operation_reconcile h ser sha on_disk ident account_nonce receipt clk b tid =
     act_bind (operation_load h clk b) (\<lambda>doc.
     act_bind (act_lift (operation_record b doc tid)) (\<lambda>(k, r, a).
     reconcile_entry ser sha on_disk ident account_nonce receipt clk doc k r a tid))"

section \<open>Repeating\<close>

definition repeat_entry ::
  "(string \<Rightarrow> string) \<Rightarrow> broadcaster \<Rightarrow> int \<Rightarrow> operation_journal \<Rightarrow> nat \<Rightarrow> operation_entry \<Rightarrow> broadcast_result op_act" where
  "repeat_entry sha bc clk doc k r =
     act_bind (act_lift (ensure (\<not> (oe_state r \<noteq> OS_broadcast_unknown
                  \<or> oe_reason_code r \<noteq> ''exact_hash_absent_exact_rebroadcast_allowed'')) (ApprovedOperationError OE_rebroadcast))) (\<lambda>_.
     act_bind (act_lift (entry_reference r)) (\<lambda>reference.
     act_bind (load_signed sha reference) (\<lambda>signed_bytes.
     act_bind (operation_send bc signed_bytes (entry_hash r)) (\<lambda>result.
     if br_accepted result
     then act_bind (operation_persist clk (set_entry k (submitted_entry result ''exact_bytes_rebroadcast_acknowledged'' r) doc))
            (\<lambda>_. act_return result)
     else act_return result))))"

definition repeat_exact_broadcast ::
  "(json \<Rightarrow> string) \<Rightarrow> (string \<Rightarrow> string) \<Rightarrow> broadcaster \<Rightarrow> int \<Rightarrow> operation_batch \<Rightarrow> string \<Rightarrow> broadcast_result op_act" where
  "repeat_exact_broadcast h sha bc clk b tid =
     act_bind (operation_load h clk b) (\<lambda>doc.
     act_bind (act_lift (operation_record b doc tid)) (\<lambda>(k, r, a).
     repeat_entry sha bc clk doc k r))"

end
