(* ===== verification/Xir_Operations_Properties.thy ===== *)
theory Xir_Operations_Properties
  imports Xir_Operations Xir_Submission_Life Xir_Raw_Properties Xir_Action_Rules
begin

text \<open>
  A batch of approved operations as a state machine over its journal, with a stop possible at every boundary: one
  transaction after the other, persisted before it leaves, and never moved back.
\<close>

section \<open>Invariant\<close>

text \<open>A digest and the entries, whatever the time of the last update.\<close>

definition journal_view :: "operation_world \<Rightarrow> (string \<times> operation_entry list) option" where
  "journal_view w = (case opw_journal w of
     Journal_document doc \<Rightarrow> Some (oj_batch_sha256 doc, oj_transactions doc) | _ \<Rightarrow> None)"








section \<open>Progress\<close>

definition state_rank :: "operation_state \<Rightarrow> nat" where
  "state_rank s = (case s of OS_planned \<Rightarrow> 0 | OS_signed_hash_persisted \<Rightarrow> 1 | OS_broadcast_unknown \<Rightarrow> 2
     | OS_submitted \<Rightarrow> 3 | OS_included \<Rightarrow> 4 | OS_finalized \<Rightarrow> 5 | OS_blocked \<Rightarrow> 5)"

definition moved :: "operation_entry \<Rightarrow> operation_entry \<Rightarrow> bool" where
  "moved r r' \<longleftrightarrow> oe_transaction_id r' = oe_transaction_id r \<and> state_rank (oe_state r) \<le> state_rank (oe_state r')
     \<and> (oe_state r \<in> {OS_finalized, OS_blocked} \<longrightarrow> oe_state r' = oe_state r)
     \<and> (oe_state r \<noteq> OS_planned \<longrightarrow> oe_transaction_hash r' = oe_transaction_hash r
          \<and> oe_spool_reference r' = oe_spool_reference r)"

definition operations_move :: "operation_world \<Rightarrow> operation_world \<Rightarrow> bool" where
  "operations_move w w' \<longleftrightarrow> (\<forall>d rs. journal_view w = Some (d, rs) \<longrightarrow>
     (\<exists>rs'. journal_view w' = Some (d, rs') \<and> list_all2 moved rs rs'))"

lemma moved_refl [simp]: "moved r r"
  by (simp add: moved_def)




lemma operations_move_refl [simp]: "operations_move w w"
  by (simp add: operations_move_def list_all2_same)


section \<open>Replacing one entry\<close>






section \<open>Loading\<close>









section \<open>The handlers\<close>


























section \<open>All histories\<close>



















end
