(* ===== verification/Xir_Preflight.thy ===== *)
theory Xir_Preflight
  imports Xir_Evm Xir_Outcomes
begin

text \<open>
  \<^verbatim>\<open>preflight/estimator.py\<close>, \<^verbatim>\<open>preflight/funding.py\<close> and \<^verbatim>\<open>preflight/readiness.py\<close>: what a run will cost at most, the
  manual funding this asks for, the verification of what was deposited, and the gates of the host. All of it is pure;
  the public facts come from providers that may raise. Numbers are assumed short enough for
  \<^verbatim>\<open>str\<close>, which raises beyond 4300 digits. \<open>h\<close> is the digest of canonical JSON; \<open>request_schema\<close> and
  \<open>handoff_schema\<close> stand for the JSON-schema validation of the two documents.
\<close>

section \<open>Estimator inputs\<close>

datatype role = Deployer | Runner

definition funding_role :: "role \<Rightarrow> string" where
  "funding_role r = (case r of Deployer \<Rightarrow> ''deployer'' | Runner \<Rightarrow> ''runner'')"

definition chain_names :: "(int \<times> string) list" where
  "chain_names = [(11155420, ''OP Sepolia''), (421614, ''Arbitrum Sepolia''), (84532, ''Base Sepolia'')]"

definition role_operations :: "role \<Rightarrow> string list" where
  "role_operations r =
     (case r of Deployer \<Rightarrow> [''deployment'', ''configuration'', ''closeout''] | Runner \<Rightarrow> [''pilot'', ''primary'', ''scale''])"

record chain_estimate_state =
  xs_chain_id :: int
  xs_deployer_address :: string
  xs_runner_address :: string
  xs_deployer_nonce :: int
  xs_runner_nonce :: int
  xs_deployer_balance_wei :: int
  xs_runner_balance_wei :: int
  xs_deployer_budget_wei :: int
  xs_runner_budget_wei :: int
  xs_deployer_balance_floor_wei :: int
  xs_runner_balance_floor_wei :: int
  xs_read_rpc_reachable :: bool
  xs_write_endpoint_identity_verified :: bool

record cost_item =
  ci_item_id :: string
  ci_chain_id :: int
  ci_role :: role
  ci_operation_type :: string
  ci_physical_transactions :: int
  ci_gas_limit :: int
  ci_max_fee_per_gas_wei :: int
  ci_carrier_payment_wei :: int
  ci_transaction_value_wei :: int
  ci_seconds_per_transaction :: int
  ci_evidence_bytes_per_transaction :: int
  ci_rpc_requests_per_transaction :: int

definition per_transaction_wei :: "cost_item \<Rightarrow> int" where
  "per_transaction_wei i =
     ci_gas_limit i * ci_max_fee_per_gas_wei i + ci_carrier_payment_wei i + ci_transaction_value_wei i"

definition item_total_wei :: "cost_item \<Rightarrow> int" where
  "item_total_wei i = per_transaction_wei i * ci_physical_transactions i"

record funding_target =
  ft_chain_id :: int
  ft_role :: string
  ft_address :: string
  ft_maximum_deposit_wei :: int

record capacity_state =
  kp_collector_healthy :: bool
  kp_backup_writable :: bool
  kp_disk_available_bytes :: int
  kp_backup_reserve_bytes :: int
  kp_clock_skew_seconds :: int
  kp_maximum_clock_skew_seconds :: int
  kp_maximum_physical_transactions :: int
  kp_maximum_duration_seconds :: int
  kp_maximum_storage_bytes :: int
  kp_max_concurrency :: int
  kp_maximum_rpc_requests :: int

record frozen_measurement =
  fm_profile_kind :: string
  fm_freeze_sha256 :: string
  fm_validated :: bool

datatype measured = Measured_int int | Measured_bool bool

record estimate_check =
  ek_check_id :: string
  ek_passed :: bool
  ek_reason_code :: string
  ek_observed :: measured
  ek_limit :: measured

record funding_instruction =
  fi_chain_id :: int
  fi_network_name :: string
  fi_role :: role
  fi_recipient_address :: string
  fi_estimated_spend_wei :: int
  fi_margin_wei :: int
  fi_balance_floor_wei :: int
  fi_observed_balance_wei :: int
  fi_required_manual_deposit_wei :: int
  fi_maximum_deposit_wei :: int

record estimate_report =
  et_checks :: "estimate_check list"
  et_funding_instructions :: "funding_instruction list"
  et_projected_nonces :: "((int \<times> role) \<times> int) list"
  et_estimated_physical_transactions :: int
  et_estimated_duration_seconds :: int
  et_estimated_storage_bytes :: int
  et_estimated_rpc_requests :: int

definition estimate_passed :: "estimate_report \<Rightarrow> bool" where
  "estimate_passed report \<longleftrightarrow> list_all ek_passed (et_checks report)"

section \<open>Validation of the inputs\<close>

definition estimator_ensure :: "bool \<Rightarrow> estimator_error \<Rightarrow> exn + unit" where
  "estimator_ensure b e = ensure b (EstimatorError e)"

fun every :: "('a \<Rightarrow> exn + 'b) \<Rightarrow> 'a list \<Rightarrow> exn + 'b list" where
  "every f [] = Inr []"
| "every f (x # xs) = bindE (f x) (\<lambda>y. bindE (every f xs) (\<lambda>ys. Inr (y # ys)))"

definition find_chain :: "int \<Rightarrow> chain_estimate_state list \<Rightarrow> chain_estimate_state option" where
  "find_chain i cs = find (\<lambda>c. xs_chain_id c = i) cs"

definition validate_chain :: "chain_estimate_state \<Rightarrow> exn + unit" where
  "validate_chain c =
     bindE (estimator_ensure (list_all (\<lambda>n. 0 \<le> n)
       [xs_deployer_nonce c, xs_runner_nonce c, xs_deployer_balance_wei c, xs_runner_balance_wei c, xs_deployer_budget_wei c,
        xs_runner_budget_wei c, xs_deployer_balance_floor_wei c, xs_runner_balance_floor_wei c]) ES_negative) (\<lambda>_.
     estimator_ensure (\<not> (\<not> nonzero_address (xs_deployer_address c) \<or> \<not> nonzero_address (xs_runner_address c)
       \<or> lower (xs_deployer_address c) = lower (xs_runner_address c))) ES_addresses)"

definition validate_cost :: "chain_estimate_state list \<Rightarrow> cost_item \<Rightarrow> exn + unit" where
  "validate_cost cs i =
     bindE (estimator_ensure (find_chain (ci_chain_id i) cs \<noteq> None \<and> list_all (\<lambda>n. 0 \<le> n)
       [ci_physical_transactions i, ci_gas_limit i, ci_max_fee_per_gas_wei i, ci_carrier_payment_wei i,
        ci_transaction_value_wei i, ci_seconds_per_transaction i, ci_evidence_bytes_per_transaction i,
        ci_rpc_requests_per_transaction i]) ES_cost) (\<lambda>_.
     estimator_ensure (ci_operation_type i \<in> set (role_operations (ci_role i))) ES_role)"

definition expected_targets :: "(int \<times> string) list" where
  "expected_targets = List.product (map fst chain_names) [''deployer'', ''runner'']"

definition validate_target :: "chain_estimate_state list \<Rightarrow> funding_target \<Rightarrow> exn + unit" where
  "validate_target cs t =
     bindE (require (find_chain (ft_chain_id t) cs) KeyError) (\<lambda>c.
     estimator_ensure (\<not> (ft_maximum_deposit_wei t < 0
       \<or> lower (ft_address t) \<noteq> lower (if ft_role t = ''deployer'' then xs_deployer_address c else xs_runner_address c))) ES_target)"

definition validate_inputs ::
  "chain_estimate_state list \<Rightarrow> cost_item list \<Rightarrow> funding_target list \<Rightarrow> capacity_state \<Rightarrow> int \<Rightarrow> exn + unit" where
  "validate_inputs cs costs funding_targets capacity margin_bps =
     bindE (estimator_ensure (set (map xs_chain_id cs) = set (map fst chain_names)) ES_coverage) (\<lambda>_.
     bindE (estimator_ensure (length cs = length chain_names) ES_unique) (\<lambda>_.
     bindE (estimator_ensure (\<not> margin_bps < 0) ES_margin) (\<lambda>_.
     bindE (estimator_ensure (list_all (\<lambda>n. 0 \<le> n)
              [kp_disk_available_bytes capacity, kp_backup_reserve_bytes capacity, kp_maximum_clock_skew_seconds capacity,
               kp_maximum_physical_transactions capacity, kp_maximum_duration_seconds capacity,
               kp_maximum_storage_bytes capacity, kp_maximum_rpc_requests capacity]
            \<and> \<not> kp_max_concurrency capacity < 1) ES_capacity) (\<lambda>_.
     bindE (every validate_chain cs) (\<lambda>_.
     bindE (every (validate_cost cs) costs) (\<lambda>_.
     bindE (estimator_ensure (length funding_targets = 6
              \<and> set (map (\<lambda>t. (ft_chain_id t, ft_role t)) funding_targets) = set expected_targets) ES_targets) (\<lambda>_.
     bindE (every (validate_target cs) funding_targets) (\<lambda>_. Inr ()))))))))"

section \<open>The estimate\<close>

definition bool_check :: "string \<Rightarrow> bool \<Rightarrow> bool \<Rightarrow> string \<Rightarrow> estimate_check" where
  "bool_check check_id observed limit failure =
     \<lparr>ek_check_id = check_id, ek_passed = (observed = limit),
      ek_reason_code = (if observed = limit then ''within_limit'' else failure),
      ek_observed = Measured_bool observed, ek_limit = Measured_bool limit\<rparr>"

definition upper_check :: "string \<Rightarrow> int \<Rightarrow> int \<Rightarrow> string \<Rightarrow> estimate_check" where
  "upper_check check_id observed limit failure =
     \<lparr>ek_check_id = check_id, ek_passed = (observed \<le> limit),
      ek_reason_code = (if observed \<le> limit then ''within_limit'' else failure),
      ek_observed = Measured_int observed, ek_limit = Measured_int limit\<rparr>"

definition lower_check :: "string \<Rightarrow> int \<Rightarrow> int \<Rightarrow> string \<Rightarrow> estimate_check" where
  "lower_check check_id observed limit failure =
     \<lparr>ek_check_id = check_id, ek_passed = (observed \<ge> limit),
      ek_reason_code = (if observed \<ge> limit then ''within_limit'' else failure),
      ek_observed = Measured_int observed, ek_limit = Measured_int limit\<rparr>"

text \<open>The accumulators of the loop over the cost items.\<close>

definition items_of :: "int \<Rightarrow> role \<Rightarrow> cost_item list \<Rightarrow> cost_item list" where
  "items_of chain_id r costs = filter (\<lambda>i. ci_chain_id i = chain_id \<and> ci_role i = r) costs"

definition role_total :: "cost_item list \<Rightarrow> int \<Rightarrow> role \<Rightarrow> int" where
  "role_total costs chain_id r = total item_total_wei (items_of chain_id r costs)"

definition role_transactions :: "cost_item list \<Rightarrow> int \<Rightarrow> role \<Rightarrow> int" where
  "role_transactions costs chain_id r = total ci_physical_transactions (items_of chain_id r costs)"

definition estimated_duration :: "cost_item list \<Rightarrow> capacity_state \<Rightarrow> int" where
  "estimated_duration costs capacity =
     (total (\<lambda>i. ci_physical_transactions i * ci_seconds_per_transaction i) costs + kp_max_concurrency capacity - 1)
       div kp_max_concurrency capacity"

definition estimated_storage :: "cost_item list \<Rightarrow> int" where
  "estimated_storage costs = total (\<lambda>i. ci_physical_transactions i * ci_evidence_bytes_per_transaction i) costs"

definition estimated_requests :: "cost_item list \<Rightarrow> int" where
  "estimated_requests costs = total (\<lambda>i. ci_physical_transactions i * ci_rpc_requests_per_transaction i) costs"

definition capacity_checks :: "cost_item list \<Rightarrow> capacity_state \<Rightarrow> estimate_check list" where
  "capacity_checks costs capacity =
     [bool_check ''collector_health'' (kp_collector_healthy capacity) True ''collector_unhealthy'',
      bool_check ''backup_writable'' (kp_backup_writable capacity) True ''backup_unwritable'',
      upper_check ''clock_skew'' \<bar>kp_clock_skew_seconds capacity\<bar> (kp_maximum_clock_skew_seconds capacity) ''clock_skew_exceeded'',
      upper_check ''physical_transactions'' (total ci_physical_transactions costs)
        (kp_maximum_physical_transactions capacity) ''physical_transaction_limit'',
      upper_check ''duration'' (estimated_duration costs capacity) (kp_maximum_duration_seconds capacity) ''duration_limit'',
      upper_check ''storage'' (estimated_storage costs) (kp_maximum_storage_bytes capacity) ''storage_limit'',
      upper_check ''rpc_requests'' (estimated_requests costs) (kp_maximum_rpc_requests capacity) ''rpc_quota_limit'',
      lower_check ''disk_capacity'' (kp_disk_available_bytes capacity)
        (estimated_storage costs + kp_backup_reserve_bytes capacity) ''disk_capacity_insufficient'']"

definition scale_checks :: "cost_item list \<Rightarrow> frozen_measurement list \<Rightarrow> estimate_check list" where
  "scale_checks costs scale_measurements =
     (if list_ex (\<lambda>i. ci_operation_type i = ''scale'') costs
      then [bool_check ''scale_frozen_measurements''
             (set (map fm_profile_kind (filter (\<lambda>m. fm_validated m \<and> length (fm_freeze_sha256 m) = 64) scale_measurements))
                = {''pilot'', ''primary''}) True ''scale_requires_frozen_pilot_and_primary_measurements'']
      else [])"

definition find_target :: "int \<Rightarrow> role \<Rightarrow> funding_target list \<Rightarrow> funding_target option" where
  "find_target chain_id r targets = find (\<lambda>t. ft_chain_id t = chain_id \<and> ft_role t = funding_role r) targets"

definition funding_margin :: "int \<Rightarrow> int \<Rightarrow> int" where
  "funding_margin estimated bps = (estimated * bps + 9999) div 10000"

definition role_nonce :: "role \<Rightarrow> chain_estimate_state \<Rightarrow> int" where
  "role_nonce r c = (case r of Deployer \<Rightarrow> xs_deployer_nonce c | Runner \<Rightarrow> xs_runner_nonce c)"

definition role_balance :: "role \<Rightarrow> chain_estimate_state \<Rightarrow> int" where
  "role_balance r c = (case r of Deployer \<Rightarrow> xs_deployer_balance_wei c | Runner \<Rightarrow> xs_runner_balance_wei c)"

definition role_budget :: "role \<Rightarrow> chain_estimate_state \<Rightarrow> int" where
  "role_budget r c = (case r of Deployer \<Rightarrow> xs_deployer_budget_wei c | Runner \<Rightarrow> xs_runner_budget_wei c)"

definition role_floor :: "role \<Rightarrow> chain_estimate_state \<Rightarrow> int" where
  "role_floor r c = (case r of Deployer \<Rightarrow> xs_deployer_balance_floor_wei c | Runner \<Rightarrow> xs_runner_balance_floor_wei c)"

definition role_address :: "role \<Rightarrow> chain_estimate_state \<Rightarrow> string" where
  "role_address r c = (case r of Deployer \<Rightarrow> xs_deployer_address c | Runner \<Rightarrow> xs_runner_address c)"

definition scoped_id :: "string \<Rightarrow> int \<Rightarrow> role \<Rightarrow> string" where
  "scoped_id label chain_id r = label @ '':'' @ str_int chain_id @ '':'' @ funding_role r"

definition role_estimate ::
  "cost_item list \<Rightarrow> funding_target list \<Rightarrow> int \<Rightarrow> chain_estimate_state \<Rightarrow> role
     \<Rightarrow> exn + estimate_check list \<times> funding_instruction \<times> ((int \<times> role) \<times> int)" where
  "role_estimate costs targets bps c r =
     (let chain_id = xs_chain_id c; estimated = role_total costs chain_id r; margin = funding_margin estimated bps;
          planned = estimated + margin; required_deposit = max 0 (planned + role_floor r c - role_balance r c)
      in bindE (require (find_target chain_id r targets) KeyError) (\<lambda>target.
         bindE (require (map_of chain_names chain_id) KeyError) (\<lambda>name.
         Inr ([upper_check (scoped_id ''budget'' chain_id r) planned (role_budget r c) ''budget_insufficient'',
               upper_check (scoped_id ''maximum_deposit'' chain_id r) required_deposit (ft_maximum_deposit_wei target)
                 ''maximum_deposit_exceeded''],
              \<lparr>fi_chain_id = chain_id, fi_network_name = name, fi_role = r, fi_recipient_address = role_address r c,
               fi_estimated_spend_wei = estimated, fi_margin_wei = margin, fi_balance_floor_wei = role_floor r c,
               fi_observed_balance_wei = role_balance r c, fi_required_manual_deposit_wei = required_deposit,
               fi_maximum_deposit_wei = ft_maximum_deposit_wei target\<rparr>,
              ((chain_id, r), role_nonce r c + role_transactions costs chain_id r)))))"

definition chain_checks :: "chain_estimate_state \<Rightarrow> estimate_check list" where
  "chain_checks c =
     [bool_check (''read_rpc:'' @ str_int (xs_chain_id c)) (xs_read_rpc_reachable c) True ''read_rpc_unreachable'',
      bool_check (''write_endpoint_identity:'' @ str_int (xs_chain_id c)) (xs_write_endpoint_identity_verified c) True
        ''write_endpoint_identity_mismatch'']"

definition chain_estimate ::
  "cost_item list \<Rightarrow> funding_target list \<Rightarrow> int \<Rightarrow> chain_estimate_state
     \<Rightarrow> exn + estimate_check list \<times> funding_instruction list \<times> ((int \<times> role) \<times> int) list" where
  "chain_estimate costs targets bps c =
     bindE (every (role_estimate costs targets bps c) [Deployer, Runner]) (\<lambda>roles.
     Inr (chain_checks c @ concat (map fst roles), map (fst \<circ> snd) roles, map (snd \<circ> snd) roles))"

definition estimate_preflight ::
  "chain_estimate_state list \<Rightarrow> cost_item list \<Rightarrow> funding_target list \<Rightarrow> capacity_state \<Rightarrow> int \<Rightarrow> frozen_measurement list
     \<Rightarrow> exn + estimate_report" where
  "estimate_preflight cs costs funding_targets capacity bps scale_measurements =
     bindE (validate_inputs cs costs funding_targets capacity bps) (\<lambda>_.
     bindE (every (chain_estimate costs funding_targets bps) (sort_key xs_chain_id cs)) (\<lambda>parts.
     Inr \<lparr>et_checks = capacity_checks costs capacity @ scale_checks costs scale_measurements @ concat (map fst parts),
          et_funding_instructions = concat (map (fst \<circ> snd) parts),
          et_projected_nonces = concat (map (snd \<circ> snd) parts),
          et_estimated_physical_transactions = total ci_physical_transactions costs,
          et_estimated_duration_seconds = estimated_duration costs capacity,
          et_estimated_storage_bytes = estimated_storage costs, et_estimated_rpc_requests = estimated_requests costs\<rparr>))"

section \<open>Funding requests\<close>

text \<open>A canonical decimal wei text; \<^verbatim>\<open>int\<close> refuses texts of more than 4300 digits.\<close>

definition is_digit :: "char \<Rightarrow> bool" where
  "is_digit c \<longleftrightarrow> 48 \<le> (of_char c :: nat) \<and> (of_char c :: nat) \<le> 57"

definition digits_value :: "string \<Rightarrow> int" where
  "digits_value s = foldl (\<lambda>n c. 10 * n + (int (of_char c) - 48)) 0 s"

definition canonical_wei :: "string \<Rightarrow> string \<Rightarrow> exn + int" where
  "canonical_wei label value =
     (if value = [] \<or> value \<noteq> ''0'' \<and> hd value = CHR ''0'' \<or> \<not> list_all is_digit value
      then Inl (FundingHandoffError (FU_wei label))
      else if 4300 < length value then Inl ValueError else Inr (digits_value value))"

definition funding_time :: "timestamp \<Rightarrow> exn + int" where
  "funding_time value =
     (case value of
        TS_invalid \<Rightarrow> Inl (FundingHandoffError FU_time)
      | TS_naive \<Rightarrow> Inl (FundingHandoffError FU_offset)
      | TS_at instant offset \<Rightarrow> Inr instant)"

record request_target =
  fq_chain_id :: int
  fq_network_name :: string
  fq_native_test_token :: string
  fq_role :: string
  fq_recipient :: string
  fq_observed_balance_wei :: string
  fq_estimated_spend_wei :: string
  fq_balance_floor_wei :: string
  fq_required_manual_deposit_wei :: string
  fq_maximum_manual_deposit_wei :: string
  fq_approved_budget_wei :: string

record request_payload =
  fy_config_sha256 :: string
  fy_generated_at :: timestamp
  fy_expires_at :: timestamp
  fy_targets :: "request_target list"

record funding_request =
  fr_request_id :: string
  fr_request_sha256 :: string
  fr_payload :: request_payload

definition stamp_json :: "timestamp \<Rightarrow> json" where
  "stamp_json value =
     (case value of TS_invalid \<Rightarrow> JStr ''invalid'' | TS_naive \<Rightarrow> JStr ''naive''
      | TS_at instant offset \<Rightarrow> JList [JTime instant, JInt offset])"

definition request_target_json :: "request_target \<Rightarrow> json" where
  "request_target_json t =
     JObj [(''chain_id'', JInt (fq_chain_id t)), (''network_name'', JStr (fq_network_name t)),
       (''native_test_token'', JStr (fq_native_test_token t)), (''role'', JStr (fq_role t)),
       (''recipient'', JStr (fq_recipient t)), (''observed_balance_wei'', JStr (fq_observed_balance_wei t)),
       (''estimated_spend_wei'', JStr (fq_estimated_spend_wei t)), (''balance_floor_wei'', JStr (fq_balance_floor_wei t)),
       (''required_manual_deposit_wei'', JStr (fq_required_manual_deposit_wei t)),
       (''maximum_manual_deposit_wei'', JStr (fq_maximum_manual_deposit_wei t)),
       (''approved_budget_wei'', JStr (fq_approved_budget_wei t))]"

definition request_payload_json :: "request_payload \<Rightarrow> json" where
  "request_payload_json p =
     JObj [(''domain'', JStr ''xir-lab-funding-request-v1''), (''config_sha256'', JStr (fy_config_sha256 p)),
       (''generated_at'', stamp_json (fy_generated_at p)), (''expires_at'', stamp_json (fy_expires_at p)),
       (''targets'', JList (map request_target_json (fy_targets p))),
       (''prohibited_actions'', JList (map JStr
          [''automatic_faucet_claim'', ''automatic_bridge'', ''mainnet_transfer'', ''asset_purchase'']))]"

definition instruction_target :: "funding_instruction \<Rightarrow> request_target" where
  "instruction_target i =
     \<lparr>fq_chain_id = fi_chain_id i, fq_network_name = fi_network_name i,
      fq_native_test_token = fi_network_name i @ '' native test ETH'', fq_role = funding_role (fi_role i),
      fq_recipient = fi_recipient_address i, fq_observed_balance_wei = str_int (fi_observed_balance_wei i),
      fq_estimated_spend_wei = str_int (fi_estimated_spend_wei i), fq_balance_floor_wei = str_int (fi_balance_floor_wei i),
      fq_required_manual_deposit_wei = str_int (fi_required_manual_deposit_wei i),
      fq_maximum_manual_deposit_wei = str_int (fi_maximum_deposit_wei i),
      fq_approved_budget_wei = str_int (fi_estimated_spend_wei i + fi_margin_wei i)\<rparr>"

definition build_funding_request ::
  "(json \<Rightarrow> string) \<Rightarrow> (funding_request \<Rightarrow> bool) \<Rightarrow> estimate_report \<Rightarrow> string \<Rightarrow> int \<Rightarrow> int \<Rightarrow> exn + funding_request" where
  "build_funding_request h request_schema estimate config_sha256 generated expires =
     bindE (ensure (\<not> expires \<le> generated) (FundingHandoffError FU_expiry)) (\<lambda>_.
     bindE (ensure (estimate_passed estimate) (FundingHandoffError FU_not_passing)) (\<lambda>_.
     let targets = map instruction_target
           (sort_key fi_chain_id (sort_by_key (funding_role \<circ> fi_role) (et_funding_instructions estimate)));
         payload = \<lparr>fy_config_sha256 = config_sha256, fy_generated_at = TS_at generated 0,
                    fy_expires_at = TS_at expires 0, fy_targets = targets\<rparr>;
         digest = h (request_payload_json payload);
         document = \<lparr>fr_request_id = ''funding_'' @ take 24 digest, fr_request_sha256 = digest, fr_payload = payload\<rparr>
     in bindE (ensure (request_schema document) (FundingHandoffError FU_schema)) (\<lambda>_. Inr document)))"

section \<open>Verification of deposits\<close>

record funding_receipt =
  fc_chain_id :: int
  fc_role :: string
  fc_recipient :: string
  fc_transaction_hash :: string
  fc_amount_wei :: string
  fc_observation_block :: int
  fc_observation_block_hash :: string
  fc_resulting_balance_wei :: string
  fc_observed_at :: timestamp

record handoff_payload =
  hp_request_id :: string
  hp_request_sha256 :: string
  hp_receipts :: "funding_receipt list"

record funding_handoff =
  fh_payload :: handoff_payload
  fh_payload_sha256 :: string

record public_funding_transaction =
  pf_transaction_hash :: string
  pf_chain_id :: int
  pf_recipient :: string
  pf_amount_wei :: int
  pf_block_number :: int
  pf_block_hash :: string
  pf_canonical :: bool

record funding_provider =
  vp_transaction :: "string \<Rightarrow> exn + public_funding_transaction"
  vp_balance_at :: "string \<Rightarrow> int \<Rightarrow> exn + int"
  vp_block_hash :: "int \<Rightarrow> exn + string option"

record verified_receipt =
  vr_chain_id :: int
  vr_role :: string
  vr_recipient :: string
  vr_transaction_hash :: string
  vr_amount_wei :: int
  vr_observation_block :: int
  vr_resulting_balance_wei :: int
  vr_approved_budget_wei :: string

definition receipt_json :: "funding_receipt \<Rightarrow> json" where
  "receipt_json r =
     JObj [(''chain_id'', JInt (fc_chain_id r)), (''role'', JStr (fc_role r)), (''recipient'', JStr (fc_recipient r)),
       (''transaction_hash'', JStr (fc_transaction_hash r)), (''amount_wei'', JStr (fc_amount_wei r)),
       (''observation_block'', JInt (fc_observation_block r)),
       (''observation_block_hash'', JStr (fc_observation_block_hash r)),
       (''resulting_balance_wei'', JStr (fc_resulting_balance_wei r)), (''observed_at'', stamp_json (fc_observed_at r))]"

definition handoff_payload_json :: "handoff_payload \<Rightarrow> json" where
  "handoff_payload_json p =
     JObj [(''request_id'', JStr (hp_request_id p)), (''request_sha256'', JStr (hp_request_sha256 p)),
       (''receipts'', JList (map receipt_json (hp_receipts p)))]"

text \<open>The targets that ask for a deposit; of equal keys the last one counts.\<close>

definition deposit_targets :: "request_target list \<Rightarrow> exn + request_target list" where
  "deposit_targets targets =
     bindE (every (\<lambda>t. bindE (canonical_wei ''required deposit'' (fq_required_manual_deposit_wei t)) (\<lambda>n. Inr (t, n))) targets) (\<lambda>ps.
     Inr (rev (map fst (filter (\<lambda>p. 0 < snd p) ps))))"

definition check_amounts ::
  "funding_provider \<Rightarrow> request_target \<Rightarrow> funding_receipt \<Rightarrow> string \<Rightarrow> public_funding_transaction \<Rightarrow> exn + verified_receipt" where
  "check_amounts pv target r transaction_hash public =
     bindE (vp_block_hash pv (pf_block_number public)) (\<lambda>current_hash.
     bindE (ensure (case current_hash of None \<Rightarrow> False | Some x \<Rightarrow> lower x = lower (pf_block_hash public)) (FundingHandoffError FU_reorg)) (\<lambda>_.
     bindE (canonical_wei ''required deposit'' (fq_required_manual_deposit_wei target)) (\<lambda>required.
     bindE (ensure (required \<le> pf_amount_wei public) (FundingHandoffError FU_bounds)) (\<lambda>_.
     bindE (canonical_wei ''maximum deposit'' (fq_maximum_manual_deposit_wei target)) (\<lambda>maximum.
     bindE (ensure (pf_amount_wei public \<le> maximum) (FundingHandoffError FU_bounds)) (\<lambda>_.
     bindE (vp_balance_at pv (pf_recipient public) (pf_block_number public)) (\<lambda>balance.
     bindE (canonical_wei ''resulting balance'' (fc_resulting_balance_wei r)) (\<lambda>resulting.
     bindE (ensure (balance = resulting) (FundingHandoffError FU_balance)) (\<lambda>_.
     bindE (canonical_wei ''approved budget'' (fq_approved_budget_wei target)) (\<lambda>budget.
     bindE (canonical_wei ''balance floor'' (fq_balance_floor_wei target)) (\<lambda>floor.
     bindE (ensure (\<not> balance < budget + floor) (FundingHandoffError FU_floor)) (\<lambda>_.
     Inr \<lparr>vr_chain_id = fc_chain_id r, vr_role = fc_role r, vr_recipient = pf_recipient public,
          vr_transaction_hash = transaction_hash, vr_amount_wei = pf_amount_wei public,
          vr_observation_block = pf_block_number public, vr_resulting_balance_wei = balance,
          vr_approved_budget_wei = fq_approved_budget_wei target\<rparr>))))))))))))"

definition verify_receipt ::
  "(int \<times> funding_provider) list \<Rightarrow> int \<Rightarrow> request_target list \<Rightarrow> string list \<Rightarrow> funding_receipt \<Rightarrow> exn + verified_receipt" where
  "verify_receipt providers expires targets seen r =
     bindE (require (find (\<lambda>t. (fq_chain_id t, fq_role t) = (fc_chain_id r, fc_role r)) targets) KeyError) (\<lambda>target.
     bindE (ensure (lower (fc_recipient r) = lower (fq_recipient target)) (FundingHandoffError FU_recipient)) (\<lambda>_.
     let transaction_hash = lower (fc_transaction_hash r) in
     bindE (ensure (transaction_hash \<notin> set seen) (FundingHandoffError FU_duplicate_hash)) (\<lambda>_.
     bindE (funding_time (fc_observed_at r)) (\<lambda>observed_at.
     bindE (ensure (\<not> observed_at > expires) (FundingHandoffError FU_expired)) (\<lambda>_.
     bindE (require (map_of providers (fc_chain_id r)) KeyError) (\<lambda>pv.
     bindE (vp_transaction pv transaction_hash) (\<lambda>public.
     bindE (canonical_wei ''funding receipt amount'' (fc_amount_wei r)) (\<lambda>amount.
     bindE (ensure ((pf_chain_id public, lower (pf_recipient public), pf_amount_wei public, pf_block_number public,
                     lower (pf_block_hash public))
                    = (fc_chain_id r, lower (fq_recipient target), amount, fc_observation_block r,
                       lower (fc_observation_block_hash r)) \<and> pf_canonical public) (FundingHandoffError FU_facts)) (\<lambda>_.
     check_amounts pv target r transaction_hash public)))))))))"

fun verify_receipts ::
  "(int \<times> funding_provider) list \<Rightarrow> int \<Rightarrow> request_target list \<Rightarrow> string list \<Rightarrow> funding_receipt list
     \<Rightarrow> exn + verified_receipt list" where
  "verify_receipts providers expires targets seen [] = Inr []"
| "verify_receipts providers expires targets seen (r # rs) =
     bindE (verify_receipt providers expires targets seen r) (\<lambda>v.
     bindE (verify_receipts providers expires targets (vr_transaction_hash v # seen) rs) (\<lambda>vs.
     Inr (v # vs)))"

definition verify_funding_handoff ::
  "(json \<Rightarrow> string) \<Rightarrow> (funding_request \<Rightarrow> bool) \<Rightarrow> (funding_handoff \<Rightarrow> bool) \<Rightarrow> funding_request \<Rightarrow> funding_handoff
     \<Rightarrow> (int \<times> funding_provider) list \<Rightarrow> exn + verified_receipt list" where
  "verify_funding_handoff h request_schema handoff_schema request handoff providers =
     bindE (ensure (request_schema request) (FundingHandoffError FU_schema)) (\<lambda>_.
     bindE (ensure (handoff_schema handoff) (FundingHandoffError FU_schema)) (\<lambda>_.
     bindE (ensure (h (request_payload_json (fr_payload request)) = fr_request_sha256 request)
              (FundingHandoffError FU_request_digest)) (\<lambda>_.
     bindE (ensure (h (handoff_payload_json (fh_payload handoff)) = fh_payload_sha256 handoff)
              (FundingHandoffError FU_handoff_digest)) (\<lambda>_.
     bindE (ensure (\<not> (hp_request_id (fh_payload handoff) \<noteq> fr_request_id request
                      \<or> hp_request_sha256 (fh_payload handoff) \<noteq> fr_request_sha256 request))
              (FundingHandoffError FU_other_request)) (\<lambda>_.
     bindE (ensure (set (map fst providers) = set (map fst chain_names)) (FundingHandoffError FU_providers)) (\<lambda>_.
     bindE (funding_time (fy_expires_at (fr_payload request))) (\<lambda>expires.
     bindE (deposit_targets (fy_targets (fr_payload request))) (\<lambda>targets.
     let receipts = hp_receipts (fh_payload handoff); cells = map (\<lambda>r. (fc_chain_id r, fc_role r)) receipts in
     bindE (ensure (distinct cells) (FundingHandoffError FU_duplicate_target)) (\<lambda>_.
     bindE (ensure (set cells = set (map (\<lambda>t. (fq_chain_id t, fq_role t)) targets)) (FundingHandoffError FU_coverage)) (\<lambda>_.
     bindE (verify_receipts providers expires targets [] receipts) (\<lambda>verified.
     Inr (sort_key vr_chain_id (sort_by_key vr_role verified)))))))))))))"

section \<open>Host readiness\<close>

record readiness_facts =
  hf_clock_skew_seconds :: "int option"
  hf_disk_available_bytes :: "int option"
  hf_backup_writable :: "bool option"
  hf_raw_store_writable :: "bool option"
  hf_database_integrity_ok :: "bool option"
  hf_rpc_quota_remaining :: "int option"
  hf_observation_window_seconds :: "int option"

record readiness_limits =
  hl_maximum_clock_skew_seconds :: int
  hl_minimum_disk_available_bytes :: int
  hl_minimum_rpc_quota_remaining :: int
  hl_minimum_observation_window_seconds :: int

datatype gate_status = Gate_pass | Gate_fail | Gate_unknown

record readiness_gate =
  hg_gate_id :: string
  hg_status :: gate_status
  hg_reason_code :: string

definition gate :: "string \<Rightarrow> bool option \<Rightarrow> string \<Rightarrow> readiness_gate" where
  "gate gate_id ok failure =
     (case ok of
        None \<Rightarrow> \<lparr>hg_gate_id = gate_id, hg_status = Gate_unknown, hg_reason_code = gate_id @ ''_unknown''\<rparr>
      | Some False \<Rightarrow> \<lparr>hg_gate_id = gate_id, hg_status = Gate_fail, hg_reason_code = failure\<rparr>
      | Some True \<Rightarrow> \<lparr>hg_gate_id = gate_id, hg_status = Gate_pass, hg_reason_code = gate_id @ ''_ready''\<rparr>)"

definition maximum_gate :: "string \<Rightarrow> int option \<Rightarrow> int \<Rightarrow> string \<Rightarrow> readiness_gate" where
  "maximum_gate gate_id value maximum failure = gate gate_id (map_option (\<lambda>v. \<not> \<bar>v\<bar> > maximum) value) failure"

definition minimum_gate :: "string \<Rightarrow> int option \<Rightarrow> int \<Rightarrow> string \<Rightarrow> readiness_gate" where
  "minimum_gate gate_id value minimum failure = gate gate_id (map_option (\<lambda>v. \<not> v < minimum) value) failure"

definition boolean_gate :: "string \<Rightarrow> bool option \<Rightarrow> string \<Rightarrow> readiness_gate" where
  "boolean_gate gate_id value failure = gate gate_id value failure"

definition assess_host_readiness :: "readiness_facts \<Rightarrow> readiness_limits \<Rightarrow> exn + readiness_gate list \<times> string" where
  "assess_host_readiness facts limits =
     bindE (ensure (list_all (\<lambda>n. 0 \<le> n)
              [hl_maximum_clock_skew_seconds limits, hl_minimum_disk_available_bytes limits,
               hl_minimum_rpc_quota_remaining limits, hl_minimum_observation_window_seconds limits])
              (ReadinessError RE_negative)) (\<lambda>_.
     let gates =
       [maximum_gate ''clock'' (hf_clock_skew_seconds facts) (hl_maximum_clock_skew_seconds limits) ''clock_skew_exceeded'',
        minimum_gate ''disk'' (hf_disk_available_bytes facts) (hl_minimum_disk_available_bytes limits) ''disk_floor_not_met'',
        boolean_gate ''backup'' (hf_backup_writable facts) ''backup_not_writable'',
        boolean_gate ''evidence_storage'' (hf_raw_store_writable facts) ''raw_store_not_writable'',
        boolean_gate ''database'' (hf_database_integrity_ok facts) ''database_integrity_failed'',
        minimum_gate ''rpc_quota'' (hf_rpc_quota_remaining facts) (hl_minimum_rpc_quota_remaining limits) ''rpc_quota_exhausted'',
        minimum_gate ''observation_window'' (hf_observation_window_seconds facts)
          (hl_minimum_observation_window_seconds limits) ''observation_window_too_short'']
     in Inr (gates, if list_all (\<lambda>g. hg_status g = Gate_pass) gates then ''pass'' else ''blocked''))"

end
