(* ===== verification/Xir_Preflight_Properties.thy ===== *)
theory Xir_Preflight_Properties
  imports Xir_Preflight Xir_Reconcile_Properties
begin

text \<open>
  The funding of a run from the estimate to the verified deposits: what each account finally holds covers what the
  estimate says it may spend, its margin and its floor.
\<close>

section \<open>Decimal texts\<close>

lemma every_Inr: "every f xs = Inr ys \<longleftrightarrow> list_all2 (\<lambda>x y. f x = Inr y) xs ys"
  by (induction xs arbitrary: ys) (auto simp: bindE_Inr list_all2_Cons1)

lemma every_Inr_all: "every f xs = Inr ys \<Longrightarrow> x \<in> set xs \<Longrightarrow> \<exists>y\<in>set ys. f x = Inr y"
  by (auto simp: every_Inr list_all2_conv_all_nth in_set_conv_nth)

lemma every_Inr_back: "every f xs = Inr ys \<Longrightarrow> y \<in> set ys \<Longrightarrow> \<exists>x\<in>set xs. f x = Inr y"
  by (induction xs arbitrary: ys) (auto simp: bindE_Inr)

lemma digits_value_snoc: "digits_value (s @ [c]) = 10 * digits_value s + (int (of_char c) - 48)"
  by (simp add: digits_value_def)

lemma digits_value_str_nat: "digits_value (str_nat n) = int n"
proof (induction n rule: str_nat.induct)
  case (1 n)
  show ?case
  proof (cases "n < 10")
    case True
    then show ?thesis by (simp add: str_nat.simps [of n] digits_value_def)
  next
    case False
    with 1 have "digits_value (str_nat n) = 10 * int (n div 10) + int (n mod 10)"
      by (simp add: str_nat.simps [of n] digits_value_snoc)
    then show ?thesis by (simp add: zdiv_int zmod_int)
  qed
qed

lemma canonical_wei_str_int: "0 \<le> n \<Longrightarrow> canonical_wei l (str_int n) = Inr m \<Longrightarrow> m = n"
  by (auto simp: canonical_wei_def str_int_def digits_value_str_nat split: if_splits)

section \<open>The estimate\<close>

lemma validate_inputs_facts:
  assumes "validate_inputs cs costs targets capacity bps = Inr ()"
  shows "distinct (map xs_chain_id cs)" and "0 \<le> bps" and "\<forall>i\<in>set costs. 0 \<le> item_total_wei i"
    and "\<forall>c\<in>set cs. 0 \<le> role_floor r c \<and> 0 \<le> role_balance r c" and "\<forall>t\<in>set targets. 0 \<le> ft_maximum_deposit_wei t"
proof -
  have "set (map xs_chain_id cs) = set (map fst chain_names)" and "length cs = length chain_names" and "0 \<le> bps"
    and cs: "\<forall>c\<in>set cs. validate_chain c = Inr ()" and costs: "\<forall>i\<in>set costs. validate_cost cs i = Inr ()"
    and targets: "\<forall>t\<in>set targets. validate_target cs t = Inr ()"
    using assms every_Inr_all [of validate_chain cs] every_Inr_all [of "validate_cost cs" costs]
      every_Inr_all [of "validate_target cs" targets]
    unfolding validate_inputs_def bindE_Inr estimator_ensure_def ensure_Inr by (force+)
  then show "distinct (map xs_chain_id cs)" "0 \<le> bps"
    by (simp_all add: card_distinct chain_names_def)
  show "\<forall>i\<in>set costs. 0 \<le> item_total_wei i"
    using costs by (auto simp: validate_cost_def bindE_Inr estimator_ensure_def ensure_Inr item_total_wei_def per_transaction_wei_def)
  show "\<forall>c\<in>set cs. 0 \<le> role_floor r c \<and> 0 \<le> role_balance r c"
    using cs by (cases r) (auto simp: validate_chain_def bindE_Inr estimator_ensure_def ensure_Inr role_floor_def role_balance_def)
  show "\<forall>t\<in>set targets. 0 \<le> ft_maximum_deposit_wei t"
    using targets by (auto simp: validate_target_def bindE_Inr estimator_ensure_def ensure_Inr)
qed

definition instructed :: "cost_item list \<Rightarrow> funding_target list \<Rightarrow> int \<Rightarrow> chain_estimate_state \<Rightarrow> role \<Rightarrow> funding_instruction \<Rightarrow> bool" where
  "instructed costs targets bps c r i \<longleftrightarrow> (let estimated = role_total costs (xs_chain_id c) r; margin = funding_margin estimated bps in
     fi_chain_id i = xs_chain_id c \<and> fi_role i = r \<and> fi_recipient_address i = role_address r c
     \<and> fi_estimated_spend_wei i = estimated \<and> fi_margin_wei i = margin \<and> fi_balance_floor_wei i = role_floor r c
     \<and> fi_required_manual_deposit_wei i = max 0 (estimated + margin + role_floor r c - role_balance r c)
     \<and> (\<exists>t\<in>set targets. ft_chain_id t = xs_chain_id c \<and> ft_role t = funding_role r
          \<and> ft_maximum_deposit_wei t = fi_maximum_deposit_wei i)
     \<and> estimated + margin \<le> role_budget r c \<and> fi_required_manual_deposit_wei i \<le> fi_maximum_deposit_wei i)"

lemma role_estimate_instructed:
  assumes "role_estimate costs targets bps c r = Inr (ks, i, n)" and "list_all ek_passed ks"
  shows "instructed costs targets bps c r i"
  using assms by (auto simp: role_estimate_def Let_def bindE_Inr require_Inr instructed_def upper_check_def find_target_def
      find_Some_iff intro!: bexI [of _ "targets ! _"])

lemma chain_estimate_instructed:
  assumes "chain_estimate costs targets bps c = Inr (ks, is, ns)" and "list_all ek_passed ks"
  shows "(\<forall>i\<in>set is. \<exists>r. instructed costs targets bps c r i) \<and> (\<forall>r. \<exists>i\<in>set is. instructed costs targets bps c r i)"
proof -
  obtain k1 i1 n1 k2 i2 n2 where e: "role_estimate costs targets bps c Deployer = Inr (k1, i1, n1)"
      "role_estimate costs targets bps c Runner = Inr (k2, i2, n2)" "is = [i1, i2]" "list_all ek_passed (k1 @ k2)"
    using assms by (auto simp: chain_estimate_def bindE_Inr)
  then have "instructed costs targets bps c Deployer i1" "instructed costs targets bps c Runner i2"
    using role_estimate_instructed by auto
  with e(3) show ?thesis by simp (metis role.exhaust)
qed

lemma estimate_instructions:
  assumes "estimate_preflight cs costs targets capacity bps ms = Inr rep" and "estimate_passed rep"
  shows "\<forall>i\<in>set (et_funding_instructions rep). \<exists>c\<in>set cs. \<exists>r. instructed costs targets bps c r i"
    and "\<forall>c\<in>set cs. \<forall>r. \<exists>i\<in>set (et_funding_instructions rep). instructed costs targets bps c r i"
proof -
  obtain parts where parts: "every (chain_estimate costs targets bps) (sort_key xs_chain_id cs) = Inr parts"
      "et_funding_instructions rep = concat (map (fst \<circ> snd) parts)"
      "et_checks rep = capacity_checks costs capacity @ scale_checks costs ms @ concat (map fst parts)"
    using assms(1) by (auto simp: estimate_preflight_def bindE_Inr)
  have passed: "list_all ek_passed (fst p)" if "p \<in> set parts" for p
    using that assms(2) by (auto simp: parts(3) estimate_passed_def list_all_iff)
  have step: "(\<forall>i\<in>set (fst (snd p)). \<exists>r. instructed costs targets bps c r i) \<and> (\<forall>r. \<exists>i\<in>set (fst (snd p)). instructed costs targets bps c r i)"
    if "p \<in> set parts" "chain_estimate costs targets bps c = Inr p" for p c
    using chain_estimate_instructed [of costs targets bps c "fst p" "fst (snd p)" "snd (snd p)"] that passed by simp
  show "\<forall>i\<in>set (et_funding_instructions rep). \<exists>c\<in>set cs. \<exists>r. instructed costs targets bps c r i"
  proof
    fix i assume "i \<in> set (et_funding_instructions rep)"
    then obtain p where p: "p \<in> set parts" "i \<in> set (fst (snd p))" by (auto simp: parts(2))
    with every_Inr_back [OF parts(1) p(1)] obtain c where "c \<in> set cs" "chain_estimate costs targets bps c = Inr p"
      by (metis set_sort)
    with step [OF p(1)] p(2) show "\<exists>c\<in>set cs. \<exists>r. instructed costs targets bps c r i" by blast
  qed
  show "\<forall>c\<in>set cs. \<forall>r. \<exists>i\<in>set (et_funding_instructions rep). instructed costs targets bps c r i"
  proof (intro ballI allI)
    fix c r assume "c \<in> set cs"
    with every_Inr_all [OF parts(1), of c] obtain p where p: "p \<in> set parts" "chain_estimate costs targets bps c = Inr p" by auto
    with step [OF p] show "\<exists>i\<in>set (et_funding_instructions rep). instructed costs targets bps c r i"
      by (auto simp: parts(2)) blast
  qed
qed

section \<open>The deposits\<close>

lemma funding_role_inject [simp]: "funding_role r = funding_role r' \<longleftrightarrow> r = r'"
  by (cases r; cases r') (simp_all add: funding_role_def)

lemma deposit_targets_set:
  assumes "deposit_targets ts = Inr ds"
  shows "\<exists>w. (\<forall>t\<in>set ts. canonical_wei ''required deposit'' (fq_required_manual_deposit_wei t) = Inr (w t))
    \<and> set ds = {t \<in> set ts. 0 < w t}"
proof -
  define w where "w t = (case canonical_wei ''required deposit'' (fq_required_manual_deposit_wei t) of Inr n \<Rightarrow> n | Inl e \<Rightarrow> 0)" for t :: request_target
  obtain ps where ps: "every (\<lambda>t. bindE (canonical_wei ''required deposit'' (fq_required_manual_deposit_wei t)) (\<lambda>n. Inr (t, n))) ts = Inr ps"
      "ds = rev (map fst (filter (\<lambda>p. 0 < snd p) ps))"
    using assms by (auto simp: deposit_targets_def bindE_Inr)
  from ps(1) have "ps = map (\<lambda>t. (t, w t)) ts \<and> (\<forall>t\<in>set ts. canonical_wei ''required deposit'' (fq_required_manual_deposit_wei t) = Inr (w t))"
    unfolding every_Inr by (induction ts ps rule: list_all2_induct) (auto simp: bindE_Inr w_def)
  with ps(2) show ?thesis by (intro exI [of _ w]) (auto simp: filter_map comp_def)
qed

text \<open>The provider of its chain knows the deposit, and the balance it left at the recipient.\<close>

definition observed_deposit :: "(int \<times> funding_provider) list \<Rightarrow> string \<Rightarrow> verified_receipt \<Rightarrow> bool" where
  "observed_deposit providers address v \<longleftrightarrow> lower (vr_recipient v) = lower address
     \<and> (\<exists>pv public. map_of providers (vr_chain_id v) = Some pv \<and> vp_transaction pv (vr_transaction_hash v) = Inr public
          \<and> pf_canonical public \<and> pf_amount_wei public = vr_amount_wei v \<and> pf_recipient public = vr_recipient v
          \<and> vp_balance_at pv (vr_recipient v) (vr_observation_block v) = Inr (vr_resulting_balance_wei v))"

text \<open>What a verified receipt says, against the target it answers and the public facts.\<close>

definition deposit_backed :: "(int \<times> funding_provider) list \<Rightarrow> request_target \<Rightarrow> verified_receipt \<Rightarrow> bool" where
  "deposit_backed providers t v \<longleftrightarrow> fq_chain_id t = vr_chain_id v \<and> fq_role t = vr_role v
     \<and> (\<exists>lo hi b f. canonical_wei ''required deposit'' (fq_required_manual_deposit_wei t) = Inr lo \<and> lo \<le> vr_amount_wei v
          \<and> canonical_wei ''maximum deposit'' (fq_maximum_manual_deposit_wei t) = Inr hi \<and> vr_amount_wei v \<le> hi
          \<and> canonical_wei ''approved budget'' (fq_approved_budget_wei t) = Inr b
          \<and> canonical_wei ''balance floor'' (fq_balance_floor_wei t) = Inr f \<and> b + f \<le> vr_resulting_balance_wei v)
     \<and> observed_deposit providers (fq_recipient t) v"

lemma verify_receipt_backed:
  assumes "verify_receipt providers expires ts seen r = Inr v"
  shows "(vr_chain_id v, vr_role v) = (fc_chain_id r, fc_role r) \<and> (\<exists>t\<in>set ts. deposit_backed providers t v)"
proof -
  obtain t pv public amount where t: "find (\<lambda>t. (fq_chain_id t, fq_role t) = (fc_chain_id r, fc_role r)) ts = Some t"
      "map_of providers (fc_chain_id r) = Some pv" "vp_transaction pv (lower (fc_transaction_hash r)) = Inr public"
      "pf_chain_id public = fc_chain_id r" "lower (pf_recipient public) = lower (fq_recipient t)" "pf_canonical public"
      "check_amounts pv t r (lower (fc_transaction_hash r)) public = Inr v"
    using assms by (auto simp: verify_receipt_def Let_def bindE_Inr require_Inr ensure_Inr)
  have "t \<in> set ts" "fq_chain_id t = fc_chain_id r" "fq_role t = fc_role r"
    using t(1) by (auto simp: find_Some_iff)
  moreover from t(7) have "deposit_backed providers t v \<and> (vr_chain_id v, vr_role v) = (fc_chain_id r, fc_role r)"
    using t(2-6) calculation by (auto simp: check_amounts_def bindE_Inr ensure_Inr deposit_backed_def observed_deposit_def)
  ultimately show ?thesis by blast
qed

lemma verify_receipts_backed:
  assumes "verify_receipts providers expires ts seen rs = Inr vs"
  shows "map (\<lambda>v. (vr_chain_id v, vr_role v)) vs = map (\<lambda>r. (fc_chain_id r, fc_role r)) rs \<and> (\<forall>v\<in>set vs. \<exists>t\<in>set ts. deposit_backed providers t v)"
  using assms
proof (induction rs arbitrary: seen vs)
  case (Cons r rs)
  then obtain v vs' where v: "verify_receipt providers expires ts seen r = Inr v" "vs = v # vs'"
      "verify_receipts providers expires ts (vr_transaction_hash v # seen) rs = Inr vs'"
    by (auto simp: bindE_Inr)
  with Cons.IH [OF v(3)] verify_receipt_backed [OF v(1)] show ?case by auto
qed simp

lemma verify_handoff_backed:
  assumes "verify_funding_handoff h request_schema handoff_schema req handoff providers = Inr vs"
  obtains w where "\<And>t. t \<in> set (fy_targets (fr_payload req)) \<Longrightarrow> canonical_wei ''required deposit'' (fq_required_manual_deposit_wei t) = Inr (w t)"
    and "\<And>v. v \<in> set vs \<Longrightarrow> \<exists>t\<in>set (fy_targets (fr_payload req)). 0 < w t \<and> deposit_backed providers t v"
    and "\<And>t. t \<in> set (fy_targets (fr_payload req)) \<Longrightarrow> 0 < w t \<Longrightarrow> \<exists>v\<in>set vs. vr_chain_id v = fq_chain_id t \<and> vr_role v = fq_role t"
proof -
  obtain expires ts vs' where ts: "deposit_targets (fy_targets (fr_payload req)) = Inr ts"
      "set (map (\<lambda>r. (fc_chain_id r, fc_role r)) (hp_receipts (fh_payload handoff))) = set (map (\<lambda>t. (fq_chain_id t, fq_role t)) ts)"
      "verify_receipts providers expires ts [] (hp_receipts (fh_payload handoff)) = Inr vs'" "set vs = set vs'"
    using assms unfolding verify_funding_handoff_def Let_def bindE_Inr ensure_Inr
    by (metis set_sort set_sort_by_key sum.inject(2))
  from deposit_targets_set [OF ts(1)] obtain w where w:
      "\<forall>t\<in>set (fy_targets (fr_payload req)). canonical_wei ''required deposit'' (fq_required_manual_deposit_wei t) = Inr (w t)"
      "set ts = {t \<in> set (fy_targets (fr_payload req)). 0 < w t}"
    by blast
  note vs = verify_receipts_backed [OF ts(3)]
  show ?thesis
  proof (rule that [of w])
    show "\<exists>t\<in>set (fy_targets (fr_payload req)). 0 < w t \<and> deposit_backed providers t v" if "v \<in> set vs" for v
      using vs that w(2) ts(4) by auto
    show "\<exists>v\<in>set vs. vr_chain_id v = fq_chain_id t \<and> vr_role v = fq_role t"
      if "t \<in> set (fy_targets (fr_payload req))" "0 < w t" for t
    proof -
      have "(fq_chain_id t, fq_role t) \<in> set (map (\<lambda>v. (vr_chain_id v, vr_role v)) vs')"
        using that w(2) ts(2) vs by auto
      then show ?thesis using ts(4) by auto
    qed
  qed (use w(1) in blast)
qed

definition spendable :: "verified_receipt list \<Rightarrow> chain_estimate_state \<Rightarrow> role \<Rightarrow> int" where
  "spendable vs c r =
     (case find (\<lambda>v. vr_chain_id v = xs_chain_id c \<and> vr_role v = funding_role r) vs of
        None \<Rightarrow> role_balance r c | Some v \<Rightarrow> vr_resulting_balance_wei v)"

definition planned_wei :: "cost_item list \<Rightarrow> int \<Rightarrow> chain_estimate_state \<Rightarrow> role \<Rightarrow> int" where
  "planned_wei costs bps c r = role_total costs (xs_chain_id c) r + funding_margin (role_total costs (xs_chain_id c) r) bps"

definition deposit_within ::
  "cost_item list \<Rightarrow> funding_target list \<Rightarrow> int \<Rightarrow> (int \<times> funding_provider) list \<Rightarrow> chain_estimate_state \<Rightarrow> role \<Rightarrow> verified_receipt \<Rightarrow> bool" where
  "deposit_within costs targets bps providers c r v \<longleftrightarrow>
     planned_wei costs bps c r + role_floor r c - role_balance r c \<le> vr_amount_wei v
     \<and> (\<exists>t\<in>set targets. ft_chain_id t = xs_chain_id c \<and> ft_role t = funding_role r \<and> vr_amount_wei v \<le> ft_maximum_deposit_wei t)
     \<and> planned_wei costs bps c r + role_floor r c \<le> vr_resulting_balance_wei v
     \<and> observed_deposit providers (role_address r c) v"

lemma planned_nonneg:
  assumes "validate_inputs cs costs targets capacity bps = Inr ()"
  shows "0 \<le> planned_wei costs bps c r"
proof -
  have "0 \<le> role_total costs (xs_chain_id c) r"
    using validate_inputs_facts(3) [OF assms] unfolding role_total_def items_of_def by (intro total_nonneg) auto
  moreover from this validate_inputs_facts(2) [OF assms] have "0 \<le> role_total costs (xs_chain_id c) r * bps" by simp
  ultimately show ?thesis by (simp add: planned_wei_def funding_margin_def)
qed

lemma backed_instruction:
  assumes "validate_inputs cs costs targets capacity bps = Inr ()" and "c \<in> set cs" and "instructed costs targets bps c r i"
    and "deposit_backed providers (instruction_target i) v"
  shows "deposit_within costs targets bps providers c r v"
proof -
  have floor: "0 \<le> role_floor r c" "0 \<le> planned_wei costs bps c r" "\<forall>t\<in>set targets. 0 \<le> ft_maximum_deposit_wei t"
    using validate_inputs_facts(4,5) [OF assms(1)] assms(2) planned_nonneg [OF assms(1)] by auto
  from assms(4) obtain lo hi b f where w: "canonical_wei ''required deposit'' (str_int (fi_required_manual_deposit_wei i)) = Inr lo"
      "lo \<le> vr_amount_wei v" "canonical_wei ''maximum deposit'' (str_int (fi_maximum_deposit_wei i)) = Inr hi" "vr_amount_wei v \<le> hi"
      "canonical_wei ''approved budget'' (str_int (fi_estimated_spend_wei i + fi_margin_wei i)) = Inr b"
      "canonical_wei ''balance floor'' (str_int (fi_balance_floor_wei i)) = Inr f" "b + f \<le> vr_resulting_balance_wei v"
      "observed_deposit providers (fi_recipient_address i) v"
    unfolding deposit_backed_def instruction_target_def by auto
  from assms(3) floor have i: "0 \<le> fi_required_manual_deposit_wei i" "0 \<le> fi_maximum_deposit_wei i"
      "fi_estimated_spend_wei i + fi_margin_wei i = planned_wei costs bps c r" "fi_balance_floor_wei i = role_floor r c"
      "fi_required_manual_deposit_wei i = max 0 (planned_wei costs bps c r + role_floor r c - role_balance r c)"
      "\<exists>t\<in>set targets. ft_chain_id t = xs_chain_id c \<and> ft_role t = funding_role r \<and> ft_maximum_deposit_wei t = fi_maximum_deposit_wei i"
      "fi_recipient_address i = role_address r c"
    by (auto simp: instructed_def Let_def planned_wei_def)
  from canonical_wei_str_int [OF _ w(1)] canonical_wei_str_int [OF _ w(3)] canonical_wei_str_int [OF _ w(5)]
    canonical_wei_str_int [OF _ w(6)] i(1-4) floor(1,2)
  have "lo = fi_required_manual_deposit_wei i" "hi = fi_maximum_deposit_wei i" "b = planned_wei costs bps c r" "f = role_floor r c"
    by simp_all
  with w(2,4,7,8) i(5-7) show ?thesis unfolding deposit_within_def by auto
qed

lemma instructed_unique:
  assumes "validate_inputs cs costs targets capacity bps = Inr ()" and "c \<in> set cs" and "c' \<in> set cs"
    and "instructed costs targets bps c r i" and "instructed costs targets bps c' r' i'"
    and "fi_chain_id i' = xs_chain_id c" and "fi_role i' = r"
  shows "c' = c \<and> r' = r"
  using assms(4-7) validate_inputs_facts(1) [OF assms(1)] assms(2,3) by (auto simp: instructed_def Let_def distinct_map dest: inj_onD)

text \<open>
  C7. Deposits cover the estimate. When the inputs passed the estimator, a funding request was built from its report and
  the handoff of the deposits was verified against that request, then for every chain and role the estimated spend with
  its margin is within the role's budget, and what the account holds, the balance verified after its deposit or the
  observed balance when no deposit was asked for, covers the spend, the margin and the balance floor. Every verified
  deposit is at least the missing amount and at most the maximum of its target, and it is a canonical transaction to the
  address of that role as the provider of that chain reports it.
\<close>

theorem deposits_cover_the_estimate:
  assumes "estimate_preflight cs costs targets capacity bps ms = Inr rep"
    and "build_funding_request h request_schema rep config_sha256 generated expires = Inr req"
    and "verify_funding_handoff h request_schema handoff_schema req handoff providers = Inr vs"
    and "c \<in> set cs"
  shows "planned_wei costs bps c r \<le> role_budget r c
     \<and> planned_wei costs bps c r + role_floor r c \<le> spendable vs c r
     \<and> (\<forall>v\<in>set vs. vr_chain_id v = xs_chain_id c \<longrightarrow> vr_role v = funding_role r \<longrightarrow> deposit_within costs targets bps providers c r v)"
proof -
  have valid: "validate_inputs cs costs targets capacity bps = Inr ()"
    using assms(1) by (auto simp: estimate_preflight_def bindE_Inr)
  have passed: "estimate_passed rep"
    and ts: "set (fy_targets (fr_payload req)) = instruction_target ` set (et_funding_instructions rep)"
    using assms(2) by (auto simp: build_funding_request_def bindE_Inr ensure_Inr Let_def)
  note instr = estimate_instructions [OF assms(1) passed]
  from verify_handoff_backed [OF assms(3)] obtain w where w:
      "\<And>t. t \<in> set (fy_targets (fr_payload req)) \<Longrightarrow> canonical_wei ''required deposit'' (fq_required_manual_deposit_wei t) = Inr (w t)"
      "\<And>v. v \<in> set vs \<Longrightarrow> \<exists>t\<in>set (fy_targets (fr_payload req)). 0 < w t \<and> deposit_backed providers t v"
      "\<And>t. t \<in> set (fy_targets (fr_payload req)) \<Longrightarrow> 0 < w t \<Longrightarrow> \<exists>v\<in>set vs. vr_chain_id v = fq_chain_id t \<and> vr_role v = fq_role t"
    by blast
  from instr(2) assms(4) obtain i where i: "i \<in> set (et_funding_instructions rep)" "instructed costs targets bps c r i" by blast
  have within: "deposit_within costs targets bps providers c r v"
    if "v \<in> set vs" "vr_chain_id v = xs_chain_id c" "vr_role v = funding_role r" for v
  proof -
    from w(2) [OF that(1)] ts obtain i' where i': "i' \<in> set (et_funding_instructions rep)" "deposit_backed providers (instruction_target i') v"
      by auto
    with instr(1) obtain c' r' where c': "c' \<in> set cs" "instructed costs targets bps c' r' i'" by blast
    from i'(2) that(2,3) have "fi_chain_id i' = xs_chain_id c" "fi_role i' = r" by (auto simp: deposit_backed_def instruction_target_def)
    from instructed_unique [OF valid assms(4) c'(1) i(2) c'(2) this] c' i'(2) backed_instruction [OF valid] show ?thesis by blast
  qed
  have "planned_wei costs bps c r + role_floor r c \<le> spendable vs c r"
  proof (cases "find (\<lambda>v. vr_chain_id v = xs_chain_id c \<and> vr_role v = funding_role r) vs")
    case None
    have "\<not> 0 < w (instruction_target i)"
      using w(3) [of "instruction_target i"] i None ts
      by (auto simp: find_None_iff instructed_def Let_def instruction_target_def)
    moreover have "w (instruction_target i) = fi_required_manual_deposit_wei i"
      using w(1) [of "instruction_target i"] i ts
      by (intro canonical_wei_str_int) (auto simp: instruction_target_def instructed_def Let_def)
    ultimately show ?thesis using None i(2) by (auto simp: spendable_def instructed_def Let_def planned_wei_def)
  next
    case (Some v)
    then have "v \<in> set vs" "vr_chain_id v = xs_chain_id c" "vr_role v = funding_role r" by (auto simp: find_Some_iff)
    from within [OF this] Some show ?thesis by (simp add: spendable_def deposit_within_def)
  qed
  with within i(2) show ?thesis by (auto simp: instructed_def Let_def planned_wei_def)
qed

text \<open>Three chains; only the deployer of the first one lacks funds, and one deposit supplies them.\<close>

definition demo_address :: "char \<Rightarrow> string" where "demo_address c = ''0x'' @ replicate 40 c"

definition demo_funds :: "int \<Rightarrow> int \<Rightarrow> chain_estimate_state" where
  "demo_funds i balance = \<lparr>xs_chain_id = i, xs_deployer_address = demo_address CHR ''a'',
     xs_runner_address = demo_address CHR ''b'', xs_deployer_nonce = 0, xs_runner_nonce = 0,
     xs_deployer_balance_wei = balance, xs_runner_balance_wei = 9, xs_deployer_budget_wei = 20, xs_runner_budget_wei = 20,
     xs_deployer_balance_floor_wei = 3, xs_runner_balance_floor_wei = 3, xs_read_rpc_reachable = True,
     xs_write_endpoint_identity_verified = True\<rparr>"

definition demo_chains :: "chain_estimate_state list" where
  "demo_chains = [demo_funds 84532 4, demo_funds 421614 9, demo_funds 11155420 9]"

definition demo_costs :: "cost_item list" where
  "demo_costs = [\<lparr>ci_item_id = ''i'', ci_chain_id = 84532, ci_role = Deployer, ci_operation_type = ''deployment'',
     ci_physical_transactions = 2, ci_gas_limit = 2, ci_max_fee_per_gas_wei = 2, ci_carrier_payment_wei = 1,
     ci_transaction_value_wei = 0, ci_seconds_per_transaction = 1, ci_evidence_bytes_per_transaction = 1,
     ci_rpc_requests_per_transaction = 1\<rparr>]"

definition demo_targets :: "funding_target list" where
  "demo_targets = map (\<lambda>(i, r). \<lparr>ft_chain_id = i, ft_role = r,
     ft_address = demo_address (if r = ''deployer'' then CHR ''A'' else CHR ''b''), ft_maximum_deposit_wei = 50\<rparr>) expected_targets"

definition demo_capacity :: capacity_state where
  "demo_capacity = \<lparr>kp_collector_healthy = True, kp_backup_writable = True, kp_disk_available_bytes = 99,
     kp_backup_reserve_bytes = 1, kp_clock_skew_seconds = 0, kp_maximum_clock_skew_seconds = 1,
     kp_maximum_physical_transactions = 9, kp_maximum_duration_seconds = 9, kp_maximum_storage_bytes = 9,
     kp_max_concurrency = 1, kp_maximum_rpc_requests = 9\<rparr>"

definition demo_deposit_provider :: funding_provider where
  "demo_deposit_provider = \<lparr>vp_transaction = (\<lambda>x. Inr \<lparr>pf_transaction_hash = x, pf_chain_id = 84532,
       pf_recipient = demo_address CHR ''a'', pf_amount_wei = 12, pf_block_number = 7, pf_block_hash = ''0xbb'',
       pf_canonical = True\<rparr>),
     vp_balance_at = (\<lambda>_ _. Inr 16), vp_block_hash = (\<lambda>_. Inr (Some ''0xbb''))\<rparr>"

definition demo_handoff :: funding_handoff where
  "demo_handoff = \<lparr>fh_payload = \<lparr>hp_request_id = ''funding_d'', hp_request_sha256 = ''d'',
     hp_receipts = [\<lparr>fc_chain_id = 84532, fc_role = ''deployer'', fc_recipient = demo_address CHR ''A'',
       fc_transaction_hash = ''0xAA'', fc_amount_wei = ''12'', fc_observation_block = 7, fc_observation_block_hash = ''0xBB'',
       fc_resulting_balance_wei = ''16'', fc_observed_at = TS_at 5 0\<rparr>]\<rparr>, fh_payload_sha256 = ''d''\<rparr>"

definition demo_request_target :: "int \<Rightarrow> string \<Rightarrow> string \<Rightarrow> char \<Rightarrow> string \<Rightarrow> string \<Rightarrow> string \<Rightarrow> string \<Rightarrow> request_target" where
  "demo_request_target i name r c balance spend deposit budget =
     \<lparr>fq_chain_id = i, fq_network_name = name, fq_native_test_token = name @ '' native test ETH'', fq_role = r,
      fq_recipient = demo_address c, fq_observed_balance_wei = balance, fq_estimated_spend_wei = spend,
      fq_balance_floor_wei = ''3'', fq_required_manual_deposit_wei = deposit, fq_maximum_manual_deposit_wei = ''50'',
      fq_approved_budget_wei = budget\<rparr>"

definition demo_request_targets :: "request_target list" where
  "demo_request_targets =
     [demo_request_target 84532 ''Base Sepolia'' ''deployer'' CHR ''a'' ''4'' ''10'' ''10'' ''11'',
      demo_request_target 84532 ''Base Sepolia'' ''runner'' CHR ''b'' ''9'' ''0'' ''0'' ''0'',
      demo_request_target 421614 ''Arbitrum Sepolia'' ''deployer'' CHR ''a'' ''9'' ''0'' ''0'' ''0'',
      demo_request_target 421614 ''Arbitrum Sepolia'' ''runner'' CHR ''b'' ''9'' ''0'' ''0'' ''0'',
      demo_request_target 11155420 ''OP Sepolia'' ''deployer'' CHR ''a'' ''9'' ''0'' ''0'' ''0'',
      demo_request_target 11155420 ''OP Sepolia'' ''runner'' CHR ''b'' ''9'' ''0'' ''0'' ''0'']"

lemma demo_valid: "validate_inputs demo_chains demo_costs demo_targets demo_capacity 1000 = Inr ()"
  by code_simp

lemma demo_sorted: "sort_key xs_chain_id demo_chains = [demo_funds 84532 4, demo_funds 421614 9, demo_funds 11155420 9]"
  by (simp add: demo_chains_def demo_funds_def)

lemma demo_texts: "str_int 10 = ''10''" "str_int 12 = ''12''" "str_int 3 = ''3''" "str_int 0 = ''0''" "str_int 50 = ''50''"
    "str_int 11 = ''11''" "str_int 4 = ''4''" "str_int 9 = ''9''"
  by code_simp+

lemma demo_addresses: "lower (demo_address CHR ''A'') = demo_address CHR ''a''" "lower (demo_address CHR ''a'') = demo_address CHR ''a''"
  by code_simp+

lemma demo_hashes: "lower ''0xAA'' = ''0xaa''" "lower ''0xBB'' = ''0xbb''" "lower ''0xbb'' = ''0xbb''"
  by code_simp+

lemma demo_amounts: "canonical_wei l ''10'' = Inr 10" "canonical_wei l ''12'' = Inr 12" "canonical_wei l ''16'' = Inr 16"
    "canonical_wei l ''0'' = Inr 0" "canonical_wei l ''50'' = Inr 50" "canonical_wei l ''11'' = Inr 11" "canonical_wei l ''3'' = Inr 3"
  by (simp_all add: canonical_wei_def is_digit_def digits_value_def)

lemmas demo_estimate_defs = chain_estimate_def role_estimate_def find_target_def demo_targets_def expected_targets_def chain_names_def
  demo_costs_def role_total_def items_of_def item_total_wei_def per_transaction_wei_def funding_margin_def demo_funds_def
  role_transactions_def role_nonce_def role_balance_def role_floor_def role_address_def role_budget_def funding_role_def

lemmas demo_check_defs = estimate_passed_def chain_checks_def bool_check_def upper_check_def lower_check_def capacity_checks_def
  demo_capacity_def estimated_duration_def estimated_storage_def estimated_requests_def scale_checks_def

lemma demo_estimate:
  "map_sum (\<lambda>_. ()) (\<lambda>rep. (estimate_passed rep, map instruction_target (sort_key fi_chain_id (sort_by_key (funding_role \<circ> fi_role)
      (et_funding_instructions rep))))) (estimate_preflight demo_chains demo_costs demo_targets demo_capacity 1000 [])
   = Inr (True, demo_request_targets)"
  by (simp add: estimate_preflight_def demo_valid demo_sorted bindE_def,
      simp add: demo_estimate_defs Let_def require_def bindE_def,
      simp add: demo_check_defs sort_by_key_def sorted_items_def,
      simp add: instruction_target_def demo_request_targets_def demo_request_target_def demo_texts funding_role_def)

definition demo_funding_request :: funding_request where
  "demo_funding_request = \<lparr>fr_request_id = ''funding_d'', fr_request_sha256 = ''d'', fr_payload = \<lparr>fy_config_sha256 = ''c'',
     fy_generated_at = TS_at 1 0, fy_expires_at = TS_at 9 0, fy_targets = demo_request_targets\<rparr>\<rparr>"

lemma demo_verified:
  "map_sum (\<lambda>_. ()) (map vr_resulting_balance_wei) (verify_funding_handoff (\<lambda>_. ''d'') (\<lambda>_. True) (\<lambda>_. True) demo_funding_request
     demo_handoff (map (\<lambda>i. (i, demo_deposit_provider)) [84532, 421614, 11155420])) = Inr [16]"
  by (simp add: verify_funding_handoff_def demo_funding_request_def demo_handoff_def funding_time_def deposit_targets_def
        demo_request_targets_def demo_request_target_def demo_amounts ensure_def bindE_def chain_names_def insert_commute,
      simp add: verify_receipt_def demo_deposit_provider_def demo_addresses demo_hashes demo_amounts check_amounts_def require_def
        ensure_def bindE_def Let_def funding_time_def sort_by_key_def sorted_items_def)

lemma deposits_cover_the_estimate_witness:
  "\<exists>rep vs. estimate_preflight demo_chains demo_costs demo_targets demo_capacity 1000 [] = Inr rep
     \<and> build_funding_request (\<lambda>_. ''d'') (\<lambda>_. True) rep ''c'' 1 9 = Inr demo_funding_request
     \<and> map vr_resulting_balance_wei vs = [16]
     \<and> planned_wei demo_costs 1000 (demo_funds 84532 4) Deployer + role_floor Deployer (demo_funds 84532 4)
         \<le> spendable vs (demo_funds 84532 4) Deployer"
proof -
  obtain rep where rep: "estimate_preflight demo_chains demo_costs demo_targets demo_capacity 1000 [] = Inr rep"
      "estimate_passed rep" "map instruction_target (sort_key fi_chain_id (sort_by_key (funding_role \<circ> fi_role)
         (et_funding_instructions rep))) = demo_request_targets"
    using demo_estimate by (cases "estimate_preflight demo_chains demo_costs demo_targets demo_capacity 1000 []") simp_all
  have req: "build_funding_request (\<lambda>_. ''d'') (\<lambda>_. True) rep ''c'' 1 9 = Inr demo_funding_request"
    by (simp add: build_funding_request_def rep(2,3) demo_funding_request_def ensure_def Let_def)
  obtain vs where vs: "verify_funding_handoff (\<lambda>_. ''d'') (\<lambda>_. True) (\<lambda>_. True) demo_funding_request demo_handoff
         (map (\<lambda>i. (i, demo_deposit_provider)) [84532, 421614, 11155420]) = Inr vs" "map vr_resulting_balance_wei vs = [16]"
    using demo_verified by (cases "verify_funding_handoff (\<lambda>_. ''d'') (\<lambda>_. True) (\<lambda>_. True) demo_funding_request demo_handoff
         (map (\<lambda>i. (i, demo_deposit_provider)) [84532, 421614, 11155420])") simp_all
  have "demo_funds 84532 4 \<in> set demo_chains" by (simp add: demo_chains_def)
  from deposits_cover_the_estimate [OF rep(1) req vs(1) this, of Deployer]
  have "planned_wei demo_costs 1000 (demo_funds 84532 4) Deployer + role_floor Deployer (demo_funds 84532 4)
      \<le> spendable vs (demo_funds 84532 4) Deployer" by (elim conjE)
  with rep(1) req vs(2) show ?thesis by (intro exI conjI)
qed

end
