(* ===== verification/Xir_Wire.thy ===== *)
theory Xir_Wire
  imports Xir_Errors "HOL-Library.Word"
begin

text \<open>
  Byte formats of the native stack: the XIR trace of \<^verbatim>\<open>native/xir_trace.py\<close> (typed identifiers, records, contexts,
  receipts and the commitment to a bundle of receipts) and the LayerZero packets of \<^verbatim>\<open>native/layerzero.py\<close>.
  \<open>keccak\<close> is the hash function of the \<^verbatim>\<open>eth_utils\<close> package.
\<close>

section \<open>Bytes\<close>

type_synonym byte = "8 word"

definition ascii_bytes :: "string \<Rightarrow> byte list" where
  "ascii_bytes s = map of_char s"

fun big_endian :: "nat \<Rightarrow> int \<Rightarrow> byte list" where
  "big_endian 0 x = []"
| "big_endian (Suc n) x = big_endian n (x div 256) @ [word_of_int x]"

text \<open>\<^verbatim>\<open>int.to_bytes(n, "big")\<close> and \<^verbatim>\<open>int.from_bytes(.., "big")\<close>.\<close>

definition to_bytes :: "nat \<Rightarrow> int \<Rightarrow> exn + byte list" where
  "to_bytes n x = (if x < 0 \<or> 256 ^ n \<le> x then Inl OverflowError else Inr (big_endian n x))"

definition from_bytes :: "byte list \<Rightarrow> int" where
  "from_bytes bs = foldl (\<lambda>n b. 256 * n + uint b) 0 bs"

text \<open>\<^verbatim>\<open>bytes([n])\<close> of a number that has to be a byte.\<close>

definition single_byte :: "int \<Rightarrow> exn + byte list" where
  "single_byte x = (if 0 \<le> x \<and> x < 256 then Inr [word_of_int x] else Inl ValueError)"

fun joined :: "(exn + byte list) list \<Rightarrow> exn + byte list" where
  "joined [] = Inr []"
| "joined (x # xs) = bindE x (\<lambda>b. bindE (joined xs) (\<lambda>bs. Inr (b @ bs)))"

section \<open>XIR traces\<close>

type_synonym typed_id = "int \<times> byte list"

record xir_record =
  xc_source_gateway :: typed_id
  xc_source_app :: typed_id
  xc_destination_app :: typed_id
  xc_nonce :: int
  xc_payload_hash :: "byte list"

record xir_context =
  xk_required_security :: int
  xk_policy_hash :: "byte list"

record xir_receipt =
  xp_source_gateway :: typed_id
  xp_destination_gateway :: typed_id
  xp_profile_hash :: "byte list"
  xp_evidence_hash :: "byte list"
  xp_transition_hash :: "byte list"
  xp_prior_prefix :: "byte list"

definition encode_typed_id :: "typed_id \<Rightarrow> exn + byte list" where
  "encode_typed_id identifier =
     (let kind = fst identifier; value = snd identifier;
          expected = (if kind = 1 then 20 else if kind = 2 then 32 else 0)
      in bindE (ensure (length value = expected) ValueError) (\<lambda>_.
         joined [single_byte kind, single_byte (int (length value)), Inr value]))"

definition record_bytes :: "xir_record \<Rightarrow> exn + byte list" where
  "record_bytes r =
     joined [Inr (ascii_bytes ''XIR_RECORD_V1''), encode_typed_id (xc_source_gateway r), encode_typed_id (xc_source_app r),
       encode_typed_id (xc_destination_app r), to_bytes 8 (xc_nonce r), Inr (xc_payload_hash r)]"

definition record_hash :: "(byte list \<Rightarrow> byte list) \<Rightarrow> xir_record \<Rightarrow> exn + byte list" where
  "record_hash keccak r = bindE (record_bytes r) (\<lambda>bs. Inr (keccak bs))"

definition context_bytes :: "xir_context \<Rightarrow> exn + byte list" where
  "context_bytes c =
     joined [Inr (ascii_bytes ''XIR_CONTEXT_V1''), to_bytes 1 (xk_required_security c), Inr (xk_policy_hash c)]"

definition context_hash :: "(byte list \<Rightarrow> byte list) \<Rightarrow> xir_context \<Rightarrow> exn + byte list" where
  "context_hash keccak c = bindE (context_bytes c) (\<lambda>bs. Inr (keccak bs))"

definition root_bytes :: "(byte list \<Rightarrow> byte list) \<Rightarrow> xir_record \<Rightarrow> xir_context \<Rightarrow> int \<Rightarrow> exn + byte list" where
  "root_bytes keccak r c registry_version =
     joined [Inr (ascii_bytes ''XIR_RID_V1''), encode_typed_id (xc_source_gateway r), record_hash keccak r,
       context_hash keccak c, to_bytes 4 registry_version]"

definition root_id :: "(byte list \<Rightarrow> byte list) \<Rightarrow> xir_record \<Rightarrow> xir_context \<Rightarrow> int \<Rightarrow> exn + byte list" where
  "root_id keccak r c registry_version = bindE (root_bytes keccak r c registry_version) (\<lambda>bs. Inr (keccak bs))"

definition message_id :: "(byte list \<Rightarrow> byte list) \<Rightarrow> byte list \<Rightarrow> typed_id \<Rightarrow> exn + byte list" where
  "message_id keccak rid destination_app =
     bindE (joined [Inr (ascii_bytes ''XIR_MID_V1''), Inr rid, encode_typed_id destination_app]) (\<lambda>bs. Inr (keccak bs))"

definition root_prefix :: "(byte list \<Rightarrow> byte list) \<Rightarrow> byte list \<Rightarrow> byte list" where
  "root_prefix keccak rid = keccak (ascii_bytes ''XIR_ROOT_V1'' @ rid)"

definition transition_hash ::
  "(byte list \<Rightarrow> byte list) \<Rightarrow> xir_record \<Rightarrow> xir_context \<Rightarrow> typed_id \<Rightarrow> typed_id \<Rightarrow> exn + byte list" where
  "transition_hash keccak r c source destination =
     bindE (joined [Inr (ascii_bytes ''XIR_TRANSITION_V1''), record_hash keccak r, context_hash keccak c,
              encode_typed_id source, encode_typed_id destination]) (\<lambda>bs. Inr (keccak bs))"

definition receipt_hash :: "(byte list \<Rightarrow> byte list) \<Rightarrow> xir_receipt \<Rightarrow> exn + byte list" where
  "receipt_hash keccak r =
     bindE (joined [Inr (ascii_bytes ''XIR_HOP_V1''), Inr (xp_prior_prefix r), encode_typed_id (xp_source_gateway r),
              encode_typed_id (xp_destination_gateway r), Inr (xp_profile_hash r), Inr (xp_evidence_hash r),
              Inr (xp_transition_hash r)]) (\<lambda>bs. Inr (keccak bs))"

definition next_prefix :: "(byte list \<Rightarrow> byte list) \<Rightarrow> xir_receipt \<Rightarrow> exn + byte list" where
  "next_prefix keccak r =
     bindE (receipt_hash keccak r) (\<lambda>x. Inr (keccak (ascii_bytes ''XIR_PREFIX_V1'' @ xp_prior_prefix r @ x)))"

section \<open>Bundle commitments\<close>

text \<open>A tag padded to whole words, as \<^verbatim>\<open>abi.encode\<close> lays out \<^verbatim>\<open>bytes\<close>.\<close>

definition padded :: "byte list \<Rightarrow> byte list" where
  "padded tag = tag @ replicate ((32 - length tag mod 32) mod 32) 0"

definition start_bytes :: "int \<Rightarrow> exn + byte list" where
  "start_bytes receipt_count =
     bindE (ensure (\<not> receipt_count < 0) ValueError) (\<lambda>_.
     joined [to_bytes 32 64, to_bytes 32 receipt_count, to_bytes 32 13, Inr (padded (ascii_bytes ''XIR_BUNDLE_V1''))])"

definition bundle_start :: "(byte list \<Rightarrow> byte list) \<Rightarrow> int \<Rightarrow> exn + byte list" where
  "bundle_start keccak receipt_count = bindE (start_bytes receipt_count) (\<lambda>bs. Inr (keccak bs))"

definition step_bytes :: "byte list \<Rightarrow> int \<Rightarrow> xir_receipt \<Rightarrow> exn + byte list" where
  "step_bytes prefix index r =
     bindE (ensure (\<not> (length prefix \<noteq> 32 \<or> index < 0)) ValueError) (\<lambda>_.
     joined [to_bytes 32 192, Inr prefix, to_bytes 32 index, Inr (xp_profile_hash r), Inr (xp_evidence_hash r),
       Inr (xp_transition_hash r), to_bytes 32 18, Inr (padded (ascii_bytes ''XIR_BUNDLE_STEP_V1''))])"

definition bundle_step :: "(byte list \<Rightarrow> byte list) \<Rightarrow> byte list \<Rightarrow> int \<Rightarrow> xir_receipt \<Rightarrow> exn + byte list" where
  "bundle_step keccak prefix index r = bindE (step_bytes prefix index r) (\<lambda>bs. Inr (keccak bs))"

fun bundle_steps :: "(byte list \<Rightarrow> byte list) \<Rightarrow> int \<Rightarrow> byte list \<Rightarrow> xir_receipt list \<Rightarrow> exn + byte list" where
  "bundle_steps keccak index prefix [] = Inr prefix"
| "bundle_steps keccak index prefix (r # rs) =
     bindE (bundle_step keccak prefix index r) (\<lambda>p. bundle_steps keccak (index + 1) p rs)"

definition bundle_commitment :: "(byte list \<Rightarrow> byte list) \<Rightarrow> xir_receipt list \<Rightarrow> exn + byte list" where
  "bundle_commitment keccak receipts =
     bindE (bundle_start keccak (int (length receipts))) (\<lambda>prefix. bundle_steps keccak 0 prefix receipts)"

section \<open>LayerZero packets\<close>

record layerzero_packet =
  lz_encoded :: "byte list"
  lz_header :: "byte list"
  lz_version :: byte
  lz_nonce :: int
  lz_source_eid :: int
  lz_sender :: "byte list"
  lz_destination_eid :: int
  lz_receiver :: "byte list"
  lz_guid :: "byte list"
  lz_message :: "byte list"
  lz_payload_hash :: "byte list"

definition slice :: "nat \<Rightarrow> nat \<Rightarrow> byte list \<Rightarrow> byte list" where
  "slice a b bs = take (b - a) (drop a bs)"

definition hex_character :: "nat \<Rightarrow> char" where
  "hex_character n = ''0123456789abcdef'' ! n"

definition hex_text :: "byte list \<Rightarrow> string" where
  "hex_text bs = concat (map (\<lambda>b. [hex_character (unat b div 16), hex_character (unat b mod 16)]) bs)"

definition receiver_address :: "layerzero_packet \<Rightarrow> exn + string" where
  "receiver_address p =
     bindE (ensure (list_all (\<lambda>b. b = 0) (take 12 (lz_receiver p)))
              (LocalTopologyError ''LayerZero receiver is not an EVM bytes32 address'')) (\<lambda>_.
     Inr (''0x'' @ hex_text (drop 12 (lz_receiver p))))"

definition decode_packet :: "(byte list \<Rightarrow> byte list) \<Rightarrow> byte list \<Rightarrow> exn + layerzero_packet" where
  "decode_packet keccak encoded =
     bindE (ensure (\<not> length encoded < 113) (LocalTopologyError ''LayerZero packet is shorter than PacketV1Codec'')) (\<lambda>_.
     bindE (ensure (encoded ! 0 = 1) (LocalTopologyError ''LayerZero packet version is not V1'')) (\<lambda>_.
     let packet = \<lparr>lz_encoded = encoded, lz_header = take 81 encoded, lz_version = encoded ! 0,
           lz_nonce = from_bytes (slice 1 9 encoded), lz_source_eid = from_bytes (slice 9 13 encoded),
           lz_sender = slice 13 45 encoded, lz_destination_eid = from_bytes (slice 45 49 encoded),
           lz_receiver = slice 49 81 encoded, lz_guid = slice 81 113 encoded, lz_message = drop 113 encoded,
           lz_payload_hash = keccak (drop 81 encoded)\<rparr>
     in bindE (receiver_address packet) (\<lambda>_. Inr packet)))"

definition executor_lz_receive_options :: "int \<Rightarrow> exn + byte list" where
  "executor_lz_receive_options gas_limit =
     bindE (ensure (\<not> (gas_limit \<le> 0 \<or> 2 ^ 128 \<le> gas_limit))
              (LocalTopologyError ''LayerZero executor gas limit is out of uint128 range'')) (\<lambda>_.
     joined [to_bytes 2 3, to_bytes 1 1, to_bytes 2 17, to_bytes 1 1, to_bytes 16 gas_limit])"

end
