(* ===== verification/Xir_Wire_Properties.thy ===== *)
theory Xir_Wire_Properties
  imports Xir_Wire
begin

text \<open>
  The byte formats of the native stack: numbers and identifiers are read back from their bytes, a packet is exactly its
  fields, and the commitment to a bundle binds its receipts up to a collision of the hash function among the inputs.
\<close>

section \<open>Numbers\<close>

lemma big_endian_length [simp]: "length (big_endian n x) = n"
  by (induction n arbitrary: x) simp_all

lemma from_bytes_snoc: "from_bytes (bs @ [b]) = 256 * from_bytes bs + uint b"
  by (simp add: from_bytes_def)

lemma from_bytes_bounds: "0 \<le> from_bytes bs \<and> from_bytes bs < 256 ^ length bs"
proof (induction bs rule: rev_induct)
  case Nil
  show ?case by (simp add: from_bytes_def)
next
  case (snoc b bs)
  have "0 \<le> uint b" "uint b < 256" using uint_lt2p [of b] by simp_all
  with snoc show ?case by (simp add: from_bytes_snoc)
qed

lemma big_endian_from_bytes: "big_endian (length bs) (from_bytes bs) = bs"
proof (induction bs rule: rev_induct)
  case (snoc b bs)
  have b: "0 \<le> uint b" "uint b < 256" using uint_lt2p [of b] by simp_all
  then have "(256 * from_bytes bs + uint b) div 256 = from_bytes bs" by simp
  moreover have "(word_of_int (256 * from_bytes bs + uint b) :: byte) = b"
    unfolding word_uint_eq_iff by (subst uint_word_of_int) (use b in simp)
  ultimately show ?case using snoc by (simp add: from_bytes_snoc)
qed simp

lemma from_bytes_big_endian: "0 \<le> x \<Longrightarrow> x < 256 ^ n \<Longrightarrow> from_bytes (big_endian n x) = x"
proof (induction n arbitrary: x)
  case (Suc n)
  then have "x div 256 < 256 ^ n" by simp
  with Suc have "from_bytes (big_endian n (x div 256)) = x div 256" by simp
  moreover have "uint (word_of_int x :: byte) = x mod 256" by (simp add: uint_word_of_int)
  ultimately show ?case by (simp add: from_bytes_snoc)
qed (simp add: from_bytes_def)

lemma to_bytes_Inr: "to_bytes n x = Inr bs \<longleftrightarrow> length bs = n \<and> x = from_bytes bs"
proof
  assume "to_bytes n x = Inr bs"
  then show "length bs = n \<and> x = from_bytes bs" by (auto simp: to_bytes_def from_bytes_big_endian split: if_splits)
next
  assume "length bs = n \<and> x = from_bytes bs"
  then show "to_bytes n x = Inr bs" using from_bytes_bounds [of bs] big_endian_from_bytes [of bs] by (auto simp: to_bytes_def)
qed

section \<open>Packets\<close>

lemma drop_split: "drop n xs = take k (drop n xs) @ drop (n + k) xs"
  by (metis add.commute append_take_drop_id drop_drop)

definition packet_bytes :: "layerzero_packet \<Rightarrow> byte list" where
  "packet_bytes p = [lz_version p] @ big_endian 8 (lz_nonce p) @ big_endian 4 (lz_source_eid p) @ lz_sender p
     @ big_endian 4 (lz_destination_eid p) @ lz_receiver p @ lz_guid p @ lz_message p"

definition packet_wf :: "(byte list \<Rightarrow> byte list) \<Rightarrow> layerzero_packet \<Rightarrow> bool" where
  "packet_wf keccak p \<longleftrightarrow> lz_version p = 1 \<and> lz_nonce p \<in> {0..<2 ^ 64} \<and> lz_source_eid p \<in> {0..<2 ^ 32}
     \<and> lz_destination_eid p \<in> {0..<2 ^ 32} \<and> length (lz_sender p) = 32 \<and> length (lz_receiver p) = 32
     \<and> length (lz_guid p) = 32 \<and> take 12 (lz_receiver p) = replicate 12 0
     \<and> lz_header p = take 81 (packet_bytes p) \<and> lz_payload_hash p = keccak (lz_guid p @ lz_message p)"

lemma zero_bytes: "list_all (\<lambda>b. b = 0) bs \<longleftrightarrow> bs = replicate (length bs) (0::byte)"
  by (induction bs) auto

lemma decode_packet_parts:
  assumes "length e = 8" "length a = 4" "length s = 32" "length d = 4" "length r = 32" "length g = 32"
  shows "decode_packet keccak (v # e @ a @ s @ d @ r @ g @ m) =
    (if v \<noteq> 1 then Inl (LocalTopologyError ''LayerZero packet version is not V1'')
     else if take 12 r \<noteq> replicate 12 0 then Inl (LocalTopologyError ''LayerZero receiver is not an EVM bytes32 address'')
     else Inr \<lparr>lz_encoded = v # e @ a @ s @ d @ r @ g @ m, lz_header = v # e @ a @ s @ d @ r, lz_version = v,
       lz_nonce = from_bytes e, lz_source_eid = from_bytes a, lz_sender = s, lz_destination_eid = from_bytes d,
       lz_receiver = r, lz_guid = g, lz_message = m, lz_payload_hash = keccak (g @ m)\<rparr>)"
proof -
  define bs where "bs = v # e @ a @ s @ d @ r @ g @ m"
  have "slice 1 9 bs = e" "slice 9 13 bs = a" "slice 13 45 bs = s" "slice 45 49 bs = d" "slice 49 81 bs = r" "slice 81 113 bs = g"
      "drop 113 bs = m" "drop 81 bs = g @ m" "take 81 bs = v # e @ a @ s @ d @ r" "\<not> length bs < 113" "bs ! 0 = v"
    using assms by (simp_all add: slice_def bs_def)
  then show ?thesis unfolding bs_def [symmetric]
    by (simp add: decode_packet_def receiver_address_def zero_bytes assms ensure_def bindE_def Let_def)
qed

text \<open>
  C20. A LayerZero packet is exactly its fields: decoding some bytes gives a packet if and only if the bytes are the
  version, the nonce, the two endpoint identifiers, sender, receiver, GUID and message of that packet, each at its place
  and width, the version is 1, the receiver is an EVM address, and the header and the payload hash are those of the same
  bytes. So nothing of a packet is dropped or invented, and two byte strings never decode to the same packet.
\<close>

theorem packet_is_its_fields:
  "decode_packet keccak bs = Inr p \<longleftrightarrow> bs = packet_bytes p \<and> lz_encoded p = bs \<and> packet_wf keccak p"
proof
  assume d: "decode_packet keccak bs = Inr p"
  then have "113 \<le> length bs" by (auto simp: decode_packet_def bindE_Inr ensure_Inr)
  then obtain v c where c: "bs = v # c" "112 \<le> length c" by (cases bs) auto
  define e a s d' r g m where parts: "e = take 8 (drop 0 c)" "a = take 4 (drop 8 c)" "s = take 32 (drop 12 c)"
    "d' = take 4 (drop 44 c)" "r = take 32 (drop 48 c)" "g = take 32 (drop 80 c)" "m = drop 112 c"
  have "c = e @ a @ s @ d' @ r @ g @ m"
    using drop_split [of 0 c 8] drop_split [of 8 c 4] drop_split [of 12 c 32] drop_split [of 44 c 4] drop_split [of 48 c 32]
      drop_split [of 80 c 32] by (simp add: parts)
  with c(1) have bs: "bs = v # e @ a @ s @ d' @ r @ g @ m" by simp
  have len: "length e = 8" "length a = 4" "length s = 32" "length d' = 4" "length r = 32" "length g = 32"
    using c(2) by (simp_all add: parts)
  from d show "bs = packet_bytes p \<and> lz_encoded p = bs \<and> packet_wf keccak p"
    using len from_bytes_bounds [of e] from_bytes_bounds [of a] from_bytes_bounds [of d']
      big_endian_from_bytes [of e] big_endian_from_bytes [of a] big_endian_from_bytes [of d']
    unfolding bs decode_packet_parts [OF len]
    by (auto simp: packet_bytes_def packet_wf_def split: if_splits)
next
  assume p: "bs = packet_bytes p \<and> lz_encoded p = bs \<and> packet_wf keccak p"
  then have w: "lz_version p = 1" "length (lz_sender p) = 32" "length (lz_receiver p) = 32" "length (lz_guid p) = 32"
      "from_bytes (big_endian 8 (lz_nonce p)) = lz_nonce p" "from_bytes (big_endian 4 (lz_source_eid p)) = lz_source_eid p"
      "from_bytes (big_endian 4 (lz_destination_eid p)) = lz_destination_eid p"
    by (auto simp: packet_wf_def intro!: from_bytes_big_endian)
  have "decode_packet keccak (packet_bytes p) = Inr p"
    using decode_packet_parts [of "big_endian 8 (lz_nonce p)" "big_endian 4 (lz_source_eid p)" "lz_sender p"
      "big_endian 4 (lz_destination_eid p)" "lz_receiver p" "lz_guid p" keccak "lz_version p" "lz_message p"] p w
    by (simp add: packet_bytes_def packet_wf_def)
  with p show "decode_packet keccak bs = Inr p" by simp
qed

section \<open>Identifiers and records\<close>

text \<open>Typed identifiers are read back from the front of any bytes, so their concatenations are unambiguous.\<close>

lemma single_byte_Inr: "single_byte x = Inr bs \<longleftrightarrow> 0 \<le> x \<and> x < 256 \<and> bs = [word_of_int x]"
  unfolding single_byte_def by (cases "0 \<le> x \<and> x < 256") auto

lemma encode_typed_id_Inr:
  assumes "encode_typed_id i = Inr bs"
  shows "bs = word_of_int (fst i) # word_of_int (int (length (snd i))) # snd i \<and> 0 \<le> fst i \<and> fst i < 256
    \<and> length (snd i) = (if fst i = 1 then 20 else if fst i = 2 then 32 else 0)"
proof -
  have "length (snd i) = (if fst i = 1 then 20 else if fst i = 2 then 32 else 0)"
      "joined [single_byte (fst i), single_byte (int (length (snd i))), Inr (snd i)] = Inr bs"
    using assms unfolding encode_typed_id_def Let_def bindE_Inr ensure_Inr by blast+
  then show ?thesis unfolding joined.simps bindE_Inr single_byte_Inr by force
qed

lemma byte_inject: "0 \<le> x \<Longrightarrow> x < 256 \<Longrightarrow> 0 \<le> y \<Longrightarrow> y < 256 \<Longrightarrow> (word_of_int x :: byte) = word_of_int y \<longleftrightarrow> x = y"
  by (simp add: word_of_int_eq_iff take_bit_int_eq_self)

lemma typed_id_prefix:
  assumes "encode_typed_id i = Inr bs" and "encode_typed_id j = Inr cs" and "bs @ xs = cs @ ys"
  shows "i = j \<and> bs = cs \<and> xs = ys"
proof -
  note i = encode_typed_id_Inr [OF assms(1)] and j = encode_typed_id_Inr [OF assms(2)]
  from i j assms(3) have "(word_of_int (fst i) :: byte) = word_of_int (fst j)" "snd i @ xs = snd j @ ys" by simp_all
  moreover from this(1) i j have "fst i = fst j" by (simp add: byte_inject)
  moreover from this i j have "length (snd i) = length (snd j)" by simp
  ultimately show ?thesis using i j assms(3) by (auto simp: prod_eq_iff)
qed

lemma record_bytes_inject:
  assumes "record_bytes r = Inr bs" and "record_bytes r' = Inr bs"
  shows "r = r'"
proof -
  obtain g a d n where x: "encode_typed_id (xc_source_gateway r) = Inr g" "encode_typed_id (xc_source_app r) = Inr a"
      "encode_typed_id (xc_destination_app r) = Inr d" "to_bytes 8 (xc_nonce r) = Inr n"
      "bs = ascii_bytes ''XIR_RECORD_V1'' @ g @ a @ d @ n @ xc_payload_hash r"
    using assms(1) by (auto simp: record_bytes_def bindE_Inr)
  obtain g' a' d' n' where y: "encode_typed_id (xc_source_gateway r') = Inr g'" "encode_typed_id (xc_source_app r') = Inr a'"
      "encode_typed_id (xc_destination_app r') = Inr d'" "to_bytes 8 (xc_nonce r') = Inr n'"
      "bs = ascii_bytes ''XIR_RECORD_V1'' @ g' @ a' @ d' @ n' @ xc_payload_hash r'"
    using assms(2) by (auto simp: record_bytes_def bindE_Inr)
  from x(5) y(5) have e: "g @ a @ d @ n @ xc_payload_hash r = g' @ a' @ d' @ n' @ xc_payload_hash r'" by simp
  from typed_id_prefix [OF x(1) y(1) e] have e1: "xc_source_gateway r = xc_source_gateway r'"
      "a @ d @ n @ xc_payload_hash r = a' @ d' @ n' @ xc_payload_hash r'" by simp_all
  from typed_id_prefix [OF x(2) y(2) e1(2)] have e2: "xc_source_app r = xc_source_app r'"
      "d @ n @ xc_payload_hash r = d' @ n' @ xc_payload_hash r'" by simp_all
  from typed_id_prefix [OF x(3) y(3) e2(2)] have e3: "xc_destination_app r = xc_destination_app r'"
      "n @ xc_payload_hash r = n' @ xc_payload_hash r'" by simp_all
  from x(4) y(4) have "length n = length n'" "xc_nonce r = from_bytes n" "xc_nonce r' = from_bytes n'" by (simp_all add: to_bytes_Inr)
  with e1(1) e2(1) e3 show ?thesis by simp
qed

section \<open>Bundle commitments\<close>

definition receipt_words :: "xir_receipt \<Rightarrow> byte list \<times> byte list \<times> byte list" where
  "receipt_words r = (xp_profile_hash r, xp_evidence_hash r, xp_transition_hash r)"

definition word_sized :: "xir_receipt \<Rightarrow> bool" where
  "word_sized r \<longleftrightarrow> length (xp_profile_hash r) = 32 \<and> length (xp_evidence_hash r) = 32 \<and> length (xp_transition_hash r) = 32"

text \<open>Everything that is hashed for the commitment of a bundle.\<close>

fun step_inputs :: "(byte list \<Rightarrow> byte list) \<Rightarrow> int \<Rightarrow> byte list \<Rightarrow> xir_receipt list \<Rightarrow> byte list list" where
  "step_inputs keccak i p [] = []"
| "step_inputs keccak i p (r # rs) =
     (case step_bytes p i r of Inl e \<Rightarrow> [] | Inr bs \<Rightarrow> bs # step_inputs keccak (i + 1) (keccak bs) rs)"

definition bundle_inputs :: "(byte list \<Rightarrow> byte list) \<Rightarrow> xir_receipt list \<Rightarrow> byte list list" where
  "bundle_inputs keccak rs =
     (case start_bytes (int (length rs)) of Inl e \<Rightarrow> [] | Inr bs \<Rightarrow> bs # step_inputs keccak 0 (keccak bs) rs)"

definition collide :: "(byte list \<Rightarrow> byte list) \<Rightarrow> byte list set \<Rightarrow> byte list set \<Rightarrow> bool" where
  "collide keccak X Y \<longleftrightarrow> (\<exists>x\<in>X. \<exists>y\<in>Y. x \<noteq> y \<and> keccak x = keccak y)"

lemma collide_mono: "collide keccak X Y \<Longrightarrow> X \<subseteq> X' \<Longrightarrow> Y \<subseteq> Y' \<Longrightarrow> collide keccak X' Y'"
  unfolding collide_def by blast

lemma bundle_steps_snoc:
  assumes "bundle_steps keccak i p (rs @ [r]) = Inr c"
  obtains q bs where "bundle_steps keccak i p rs = Inr q" and "step_bytes q (i + int (length rs)) r = Inr bs" and "c = keccak bs"
    and "step_inputs keccak i p (rs @ [r]) = step_inputs keccak i p rs @ [bs]"
  using assms
proof (induction rs arbitrary: i p thesis)
  case Nil
  then show ?case by (auto simp: bindE_Inr bundle_step_def)
next
  case (Cons x rs)
  then obtain bs where bs: "step_bytes p i x = Inr bs" "bundle_steps keccak (i + 1) (keccak bs) (rs @ [r]) = Inr c"
    by (auto simp: bindE_Inr bundle_step_def)
  show ?case
    by (rule Cons.IH [OF _ bs(2)], rule Cons.prems(1)) (auto simp: bundle_step_def bs(1) algebra_simps)
qed

lemma step_bytes_parts:
  assumes "step_bytes q i r = Inr bs"
  shows "length q = 32 \<and> (\<exists>h n t. length h = 32 \<and> length n = 32 \<and> length t = 64
    \<and> bs = h @ q @ n @ xp_profile_hash r @ xp_evidence_hash r @ xp_transition_hash r @ t)"
proof -
  obtain h n l where "length q = 32" "to_bytes 32 192 = Inr h" "to_bytes 32 i = Inr n" "to_bytes 32 18 = Inr l"
      "bs = h @ q @ n @ xp_profile_hash r @ xp_evidence_hash r @ xp_transition_hash r @ l @ padded (ascii_bytes ''XIR_BUNDLE_STEP_V1'')"
    using assms by (auto simp: step_bytes_def bindE_Inr ensure_Inr)
  then show ?thesis
    by (intro conjI exI [of _ h] exI [of _ n] exI [of _ "l @ padded (ascii_bytes ''XIR_BUNDLE_STEP_V1'')"])
      (simp_all add: to_bytes_Inr padded_def ascii_bytes_def)
qed

lemma start_bytes_length: "start_bytes n = Inr bs \<Longrightarrow> length bs = 128"
  by (auto simp: start_bytes_def bindE_Inr ensure_Inr to_bytes_Inr padded_def ascii_bytes_def)

lemma steps_bind:
  assumes "start_bytes m = Inr s" and "start_bytes n = Inr t" and "\<forall>r\<in>set as \<union> set bs. word_sized r"
    and "bundle_steps keccak 0 (keccak s) as = Inr c" and "bundle_steps keccak 0 (keccak t) bs = Inr c"
  shows "map receipt_words as = map receipt_words bs
     \<or> collide keccak (insert s (set (step_inputs keccak 0 (keccak s) as))) (insert t (set (step_inputs keccak 0 (keccak t) bs)))"
  using assms(3-5)
proof (induction as arbitrary: bs c rule: rev_induct)
  case Nil
  show ?case
  proof (cases bs rule: rev_cases)
    case (snoc bs' r)
    from bundle_steps_snoc [OF Nil(3) [unfolded snoc]] obtain q y where y: "step_bytes q (0 + int (length bs')) r = Inr y"
        "c = keccak y" "step_inputs keccak 0 (keccak t) (bs' @ [r]) = step_inputs keccak 0 (keccak t) bs' @ [y]" .
    have "length y = 256" using step_bytes_parts [OF y(1)] Nil(1) by (auto simp: snoc word_sized_def)
    then have "s \<noteq> y" using start_bytes_length [OF assms(1)] by auto
    with Nil(2) y show ?thesis by (auto simp: collide_def snoc)
  qed simp
next
  case (snoc a as')
  from bundle_steps_snoc [OF snoc.prems(2)] obtain p x where x: "bundle_steps keccak 0 (keccak s) as' = Inr p"
      "step_bytes p (0 + int (length as')) a = Inr x" "c = keccak x"
      "step_inputs keccak 0 (keccak s) (as' @ [a]) = step_inputs keccak 0 (keccak s) as' @ [x]" .
  from step_bytes_parts [OF x(2)] obtain h n l where xp: "length p = 32" "length h = 32" "length n = 32"
      "x = h @ p @ n @ xp_profile_hash a @ xp_evidence_hash a @ xp_transition_hash a @ l" "length l = 64" by auto
  have a: "word_sized a" using snoc.prems(1) by simp
  show ?case
  proof (cases bs rule: rev_cases)
    case Nil
    have "length x = 256" using xp a by (simp add: word_sized_def)
    then have "x \<noteq> t" using start_bytes_length [OF assms(2)] by auto
    with snoc.prems(3) x(3,4) show ?thesis by (auto simp: collide_def Nil)
  next
    case (snoc bs' b)
    from bundle_steps_snoc [OF snoc.prems(3) [unfolded snoc]] obtain q y where y: "bundle_steps keccak 0 (keccak t) bs' = Inr q"
        "step_bytes q (0 + int (length bs')) b = Inr y" "c = keccak y"
        "step_inputs keccak 0 (keccak t) (bs' @ [b]) = step_inputs keccak 0 (keccak t) bs' @ [y]" .
    from step_bytes_parts [OF y(2)] obtain h' n' l' where yp: "length q = 32" "length h' = 32" "length n' = 32"
        "y = h' @ q @ n' @ xp_profile_hash b @ xp_evidence_hash b @ xp_transition_hash b @ l'" "length l' = 64" by auto
    have b: "word_sized b" using snoc.prems(1) by (simp add: snoc)
    show ?thesis
    proof (cases "x = y")
      case True
      with xp yp a b have "p = q" "receipt_words a = receipt_words b" by (auto simp: word_sized_def receipt_words_def)
      with y(1) x(1) snoc.IH [of bs' p] snoc.prems(1) show ?thesis
        by (auto simp: snoc x(4) y(4) intro: collide_mono)
    next
      case False
      with x(3) y(3) show ?thesis by (auto simp: collide_def snoc x(4) y(4))
    qed
  qed
qed

text \<open>
  C22. The commitment to a bundle of receipts binds them: when two bundles have the same commitment, they have the same
  number of receipts with the same profile, evidence and transition hashes in the same order, or two different inputs
  among those the code hashed for the two bundles have the same hash value. That the three fields are 32
  bytes long is an assumption, as the Python code concatenates them unchecked; nothing is assumed of the hash function.
\<close>

theorem bundle_commitment_binds:
  assumes "\<forall>r\<in>set rs \<union> set rs'. word_sized r"
    and "bundle_commitment keccak rs = Inr c" and "bundle_commitment keccak rs' = Inr c"
  shows "map receipt_words rs = map receipt_words rs'
     \<or> collide keccak (set (bundle_inputs keccak rs)) (set (bundle_inputs keccak rs'))"
proof -
  obtain s t where s: "start_bytes (int (length rs)) = Inr s" "bundle_steps keccak 0 (keccak s) rs = Inr c"
      "start_bytes (int (length rs')) = Inr t" "bundle_steps keccak 0 (keccak t) rs' = Inr c"
    using assms(2,3) by (auto simp: bundle_commitment_def bundle_start_def bindE_Inr)
  from steps_bind [OF s(1,3) assms(1) s(2,4)] show ?thesis by (simp add: bundle_inputs_def s)
qed

text \<open>With a weak hash that keeps one field only, two bundles that differ elsewhere collide, and the collision is exhibited.\<close>

definition demo_pick :: "byte list \<Rightarrow> byte list" where
  "demo_pick bs = take 32 (drop 96 bs)"

definition demo_hop :: "byte \<Rightarrow> xir_receipt" where
  "demo_hop e = \<lparr>xp_source_gateway = (0, []), xp_destination_gateway = (0, []), xp_profile_hash = replicate 32 1,
     xp_evidence_hash = replicate 32 e, xp_transition_hash = replicate 32 3, xp_prior_prefix = []\<rparr>"

lemma demo_commitments: "bundle_commitment demo_pick [demo_hop 2] = Inr (replicate 32 1)"
    "bundle_commitment demo_pick [demo_hop 5] = Inr (replicate 32 1)"
  by code_simp+

lemma bundle_commitment_binds_witness:
  "collide demo_pick (set (bundle_inputs demo_pick [demo_hop 2])) (set (bundle_inputs demo_pick [demo_hop 5]))"
proof -
  have "\<forall>r\<in>set [demo_hop 2] \<union> set [demo_hop 5]. word_sized r" by (simp add: word_sized_def demo_hop_def)
  from bundle_commitment_binds [OF this demo_commitments] show ?thesis
    by (simp add: receipt_words_def demo_hop_def)
qed

end
