(* ===== verification/Xir_Keystore.thy ===== *)
theory Xir_Keystore
  imports Xir_Signer
begin

text \<open>
  \<^verbatim>\<open>execute/signer_socket.py\<close>: the signer of encrypted keystores and its transport over a local socket. The private state
  directory is a list of complete files, replaced by a rename; \<open>acct\<close> is the account of the keystore, which signs an
  unsigned transaction and may answer every call differently; \<open>request_schema\<close>, \<open>response_schema\<close> are the JSON schemas, \<open>h\<close>
  the digest of canonical JSON, \<open>sha\<close> SHA-256 in hexadecimal, \<open>width\<close> the length of canonical JSON. File permissions, forbidden
  roots, the loading of the key, peer credentials and the life of the socket are not represented.
\<close>

section \<open>Requests\<close>

definition chain_networks :: "(int \<times> string) list" where
  "chain_networks = [(11155420, ''op-sepolia''), (421614, ''arbitrum-sepolia''), (84532, ''base-sepolia'')]"

definition opt_text :: "string option \<Rightarrow> json" where
  "opt_text x = (case x of None \<Rightarrow> JNull | Some s \<Rightarrow> JStr s)"

definition unsigned_json :: "int \<Rightarrow> int \<Rightarrow> string option \<Rightarrow> int \<Rightarrow> string \<Rightarrow> int \<Rightarrow> int \<Rightarrow> int \<Rightarrow> json" where
  "unsigned_json chain_id nonce dest amount data gas max_fee max_priority_fee =
     JObj [(''chainId'', JInt chain_id), (''nonce'', JInt nonce), (''to'', opt_text dest), (''value'', JInt amount),
       (''data'', JStr (''0x'' @ data)), (''gas'', JInt gas), (''maxFeePerGas'', JInt max_fee),
       (''maxPriorityFeePerGas'', JInt max_priority_fee), (''type'', JInt 2)]"

definition unsigned_transaction_document :: "signer_request \<Rightarrow> json" where
  "unsigned_transaction_document r =
     unsigned_json (sr_chain_id r) (sr_nonce r) (sr_destination r) (sr_value_wei r) (sr_calldata_hex r) (sr_gas_limit r)
       (sr_max_fee_per_gas_wei r) (sr_max_priority_fee_per_gas_wei r)"

definition unsigned_transaction_digest :: "(json \<Rightarrow> string) \<Rightarrow> signer_request \<Rightarrow> string" where
  "unsigned_transaction_digest h r = h (unsigned_transaction_document r)"

definition signer_request_document :: "string \<Rightarrow> signer_request \<Rightarrow> json" where
  "signer_request_document operation_id r =
     JObj ([(''schema_version'', JStr ''xir-lab-signer-request-v1''), (''operation_id'', JStr operation_id)]
       @ (case request_json r of JObj entries \<Rightarrow> entries | _ \<Rightarrow> []))"

definition signer_ensure :: "bool \<Rightarrow> signer_error \<Rightarrow> exn + unit" where
  "signer_ensure b e = ensure b (SignerError e)"

definition validate_signer_request ::
  "(json \<Rightarrow> string) \<Rightarrow> (string \<Rightarrow> string) \<Rightarrow> (json \<Rightarrow> bool) \<Rightarrow> string \<Rightarrow> signer_request \<Rightarrow> exn + string" where
  "validate_signer_request h sha request_schema operation_id r =
     (let document = signer_request_document operation_id r in
      bindE (signer_ensure (request_schema document) SG_schema) (\<lambda>_.
      bindE (signer_ensure (signer_operation_id h r = operation_id) SG_binding) (\<lambda>_.
      bindE (signer_ensure (map_of chain_networks (sr_chain_id r) = Some (sr_network_id r)) SG_network) (\<lambda>_.
      bindE (require (fromhex (sr_calldata_hex r)) ValueError) (\<lambda>calldata.
      bindE (signer_ensure (\<not> (int (length calldata) \<noteq> sr_calldata_length r \<or> sha calldata \<noteq> sr_calldata_sha256 r)) SG_calldata) (\<lambda>_.
      bindE (signer_ensure (unsigned_transaction_digest h r = sr_unsigned_transaction_sha256 r) SG_unsigned) (\<lambda>_.
      bindE (signer_ensure (\<not> sr_max_priority_fee_per_gas_wei r > sr_max_fee_per_gas_wei r) SG_priority) (\<lambda>_.
      bindE (signer_ensure (\<not> sr_gas_limit r * sr_max_fee_per_gas_wei r > sr_fee_limit_wei r) SG_fee) (\<lambda>_.
      Inr (h document))))))))))"

section \<open>The keystore signer\<close>

record keystore =
  kz_signer_id :: string
  kz_role :: string
  kz_address :: string
  kz_keystore_sha256 :: string
  kz_allowed :: "(string \<times> string) list"

record signer_response =
  kr_operation_id :: string
  kr_signer_id :: string
  kr_role :: string
  kr_address :: string
  kr_request_sha256 :: string
  kr_transaction_hash :: string
  kr_signed_bytes_hex :: string

type_synonym signed_files = "(string \<times> signer_response) list"

record public_identity =
  pi_signer_id :: string
  pi_network_id :: string
  pi_address :: string
  pi_identity_sha256 :: string

definition hex_char :: "nat \<Rightarrow> char" where
  "hex_char n = ''0123456789abcdef'' ! n"

definition to_hex :: "string \<Rightarrow> string" where
  "to_hex bs = concat (map (\<lambda>c. [hex_char (of_char c div 16), hex_char (of_char c mod 16)]) bs)"

definition open_keystore :: "keystore \<Rightarrow> exn + keystore" where
  "open_keystore kz = bindE (signer_ensure (kz_role kz \<in> {''deployer'', ''runner''}) SG_unsupported_role) (\<lambda>_. Inr kz)"

definition keystore_identity :: "(json \<Rightarrow> string) \<Rightarrow> keystore \<Rightarrow> string \<Rightarrow> exn + public_identity" where
  "keystore_identity h kz network_id =
     bindE (signer_ensure (network_id \<in> set (map snd chain_networks)) SG_unsupported_network) (\<lambda>_.
     Inr \<lparr>pi_signer_id = kz_signer_id kz, pi_network_id = network_id, pi_address = kz_address kz,
          pi_identity_sha256 = h (JObj [(''domain'', JStr ''xir-testnet-lab-signer-identity-v1''),
            (''signer_id'', JStr (kz_signer_id kz)), (''role'', JStr (kz_role kz)), (''address'', JStr (kz_address kz)),
            (''keystore_sha256'', JStr (kz_keystore_sha256 kz))])\<rparr>)"

definition stored_transaction :: "string \<Rightarrow> signer_response \<Rightarrow> exn + signed_transaction" where
  "stored_transaction operation_id s =
     bindE (require (fromhex (kr_signed_bytes_hex s)) ValueError) (\<lambda>bytes.
     Inr \<lparr>st_operation_id = operation_id, st_transaction_hash = kr_transaction_hash s, st_signed_bytes = bytes\<rparr>)"

definition response_json :: "signer_response \<Rightarrow> json" where
  "response_json s =
     JObj [(''schema_version'', JStr ''xir-lab-signer-response-v1''), (''operation_id'', JStr (kr_operation_id s)),
       (''signer_id'', JStr (kr_signer_id s)), (''role'', JStr (kr_role s)), (''address'', JStr (kr_address s)),
       (''request_sha256'', JStr (kr_request_sha256 s)), (''transaction_hash'', JStr (kr_transaction_hash s)),
       (''signed_bytes_hex'', JStr (kr_signed_bytes_hex s))]"

text \<open>A first signature is stored before it is returned.\<close>

definition sign_fresh ::
  "(string \<Rightarrow> string) \<Rightarrow> (json \<Rightarrow> bool) \<Rightarrow> (json \<Rightarrow> exn + string \<times> string) \<Rightarrow> keystore \<Rightarrow> string \<Rightarrow> signer_request \<Rightarrow> string
     \<Rightarrow> signed_files \<Rightarrow> (exn + signed_transaction) \<times> signed_files" where
  "sign_fresh sha response_schema acct kz operation_id r request_sha256 fs =
     (case acct (unsigned_transaction_document r) of
        Inl e \<Rightarrow> (Inl e, fs)
      | Inr (raw, transaction_hash) \<Rightarrow>
          let response = \<lparr>kr_operation_id = operation_id, kr_signer_id = kz_signer_id kz, kr_role = kz_role kz,
                kr_address = kz_address kz, kr_request_sha256 = request_sha256, kr_transaction_hash = transaction_hash,
                kr_signed_bytes_hex = to_hex raw\<rparr>
          in if \<not> response_schema (response_json response) then (Inl (SignerError SG_schema), fs)
             else (Inr \<lparr>st_operation_id = operation_id, st_transaction_hash = transaction_hash, st_signed_bytes = raw\<rparr>,
                   (sha operation_id, response) # fs))"

definition keystore_sign ::
  "(json \<Rightarrow> string) \<Rightarrow> (string \<Rightarrow> string) \<Rightarrow> (json \<Rightarrow> bool) \<Rightarrow> (json \<Rightarrow> bool) \<Rightarrow> (json \<Rightarrow> exn + string \<times> string) \<Rightarrow> keystore
     \<Rightarrow> string \<Rightarrow> signer_request \<Rightarrow> signed_files \<Rightarrow> (exn + signed_transaction) \<times> signed_files" where
  "keystore_sign h sha request_schema response_schema acct kz operation_id r fs =
     (case bindE (signer_ensure (\<not> (sr_signer_id r \<noteq> kz_signer_id kz \<or> sr_role r \<noteq> kz_role kz)) SG_role) (\<lambda>_.
           bindE (validate_signer_request h sha request_schema operation_id r) (\<lambda>request_sha256.
           bindE (require (map_of (kz_allowed kz) operation_id) (SignerError SG_not_allowed)) (\<lambda>expected.
           bindE (signer_ensure (expected = request_sha256) SG_allowed_digest) (\<lambda>_. Inr request_sha256)))) of
        Inl e \<Rightarrow> (Inl e, fs)
      | Inr request_sha256 \<Rightarrow>
          (case map_of fs (sha operation_id) of
             Some s \<Rightarrow>
               (bindE (signer_ensure (kr_request_sha256 s = request_sha256) SG_bound_request) (\<lambda>_. stored_transaction operation_id s), fs)
           | None \<Rightarrow> sign_fresh sha response_schema acct kz operation_id r request_sha256 fs))"

section \<open>The socket\<close>

text \<open>\<^verbatim>\<open>_dispatch\<close> on a request to sign, which the client built with \<^verbatim>\<open>signer_request_document\<close>.\<close>

definition dispatch_sign ::
  "(json \<Rightarrow> string) \<Rightarrow> (string \<Rightarrow> string) \<Rightarrow> (json \<Rightarrow> bool) \<Rightarrow> (json \<Rightarrow> bool) \<Rightarrow> (json \<Rightarrow> exn + string \<times> string) \<Rightarrow> keystore
     \<Rightarrow> string \<Rightarrow> signer_request \<Rightarrow> signed_files \<Rightarrow> (exn + signer_response) \<times> signed_files" where
  "dispatch_sign h sha request_schema response_schema acct kz operation_id r fs =
     (let document = signer_request_document operation_id r in
      if \<not> request_schema document then (Inl (SignerError SG_schema), fs)
      else case keystore_sign h sha request_schema response_schema acct kz operation_id r fs of
        (Inl e, fs1) \<Rightarrow> (Inl e, fs1)
      | (Inr signed, fs1) \<Rightarrow>
          (bindE (keystore_identity h kz (sr_network_id r)) (\<lambda>identity.
           let response = \<lparr>kr_operation_id = st_operation_id signed, kr_signer_id = pi_signer_id identity, kr_role = sr_role r,
                 kr_address = pi_address identity, kr_request_sha256 = h document,
                 kr_transaction_hash = st_transaction_hash signed, kr_signed_bytes_hex = to_hex (st_signed_bytes signed)\<rparr>
           in bindE (signer_ensure (response_schema (response_json response)) SG_schema) (\<lambda>_. Inr response)), fs1))"

definition rpc_json :: "string \<Rightarrow> signer_request \<Rightarrow> json" where
  "rpc_json operation_id r =
     JObj [(''schema_version'', JStr ''xir-lab-signer-rpc-v1''), (''method'', JStr ''sign_transaction''),
       (''request'', signer_request_document operation_id r)]"

definition message_fits :: "(json \<Rightarrow> nat) \<Rightarrow> json \<Rightarrow> bool" where
  "message_fits width message \<longleftrightarrow> width message \<noteq> 0 \<and> int (width message) \<le> 1048576"

text \<open>
  The client: any exception of the server, also a reply that does not fit, reaches it as a \<^verbatim>\<open>SignerError\<close>.
\<close>

definition socket_sign ::
  "(json \<Rightarrow> string) \<Rightarrow> (string \<Rightarrow> string) \<Rightarrow> (json \<Rightarrow> nat) \<Rightarrow> (json \<Rightarrow> bool) \<Rightarrow> (json \<Rightarrow> bool) \<Rightarrow> (json \<Rightarrow> exn + string \<times> string)
     \<Rightarrow> keystore \<Rightarrow> string \<Rightarrow> signer_request \<Rightarrow> signed_files \<Rightarrow> (exn + signed_transaction) \<times> signed_files" where
  "socket_sign h sha width request_schema response_schema acct kz operation_id r fs =
     (if \<not> message_fits width (rpc_json operation_id r) then (Inl (SignerError SG_message_size), fs)
      else case dispatch_sign h sha request_schema response_schema acct kz operation_id r fs of
        (Inl e, fs1) \<Rightarrow> (Inl (SignerError SG_rejected), fs1)
      | (Inr response, fs1) \<Rightarrow>
          (if \<not> message_fits width (JObj [(''ok'', JBool True), (''data'', response_json response)])
           then Inl (SignerError SG_rejected)
           else bindE (signer_ensure (response_schema (response_json response)) SG_schema) (\<lambda>_.
             stored_transaction (kr_operation_id response) response), fs1))"

end
