(* ===== verification/Xir_Keystore_Properties.thy ===== *)
theory Xir_Keystore_Properties
  imports Xir_Keystore Xir_Submission_Life
begin

text \<open>
  A history of the keystore signer is any sequence of calls: direct, through the socket, and through the socket with the answer
  lost on the way; the account may sign the same transaction differently each time. The submission coordinator assumes of its
  signer that repeats of an operation return the same bytes (\<open>signer_contract\<close>): here it is proved of this signer.
\<close>

section \<open>Bytes in hexadecimal\<close>

lemma hex_char_table: "\<forall>n \<in> set [0..<16]. hex_digit (hex_char n) = Some n \<and> (of_char (hex_char n) :: nat) \<notin> {9, 10, 11, 12, 13, 32}"
  by code_simp

lemma hex_char_value [simp]:
  assumes "n < 16"
  shows "hex_digit (hex_char n) = Some n" "(of_char (hex_char n) :: nat) \<notin> {9, 10, 11, 12, 13, 32}"
  using assms hex_char_table by (simp_all only: set_upt atLeastLessThan_iff Ball_def) auto

lemma of_char_halves: "(of_char c :: nat) div 16 < 16" "(of_char c :: nat) mod 16 < 16"
  using nat_of_char_less_256 [of c] by (simp_all add: less_mult_imp_div_less)

lemma fromhex_to_hex [simp]: "fromhex (to_hex bs) = Some bs"
proof (induction bs)
  case Nil
  then show ?case by (simp add: to_hex_def)
next
  case (Cons c bs)
  note hex_char_value(1) [OF of_char_halves(1), of c, simp] hex_char_value(1) [OF of_char_halves(2), of c, simp]
  from Cons hex_char_value(2) [OF of_char_halves(1), of c] show ?case by (simp add: to_hex_def)
qed

section \<open>One call\<close>

definition request_admitted :: "(json \<Rightarrow> string) \<Rightarrow> (string \<Rightarrow> string) \<Rightarrow> (json \<Rightarrow> bool) \<Rightarrow> keystore \<Rightarrow> string \<Rightarrow> signer_request \<Rightarrow> bool" where
  "request_admitted h sha request_schema kz operation_id r \<longleftrightarrow>
     sr_signer_id r = kz_signer_id kz \<and> sr_role r = kz_role kz
     \<and> validate_signer_request h sha request_schema operation_id r = Inr (h (signer_request_document operation_id r))
     \<and> map_of (kz_allowed kz) operation_id = Some (h (signer_request_document operation_id r))"

definition answer_stored :: "(json \<Rightarrow> string) \<Rightarrow> (string \<Rightarrow> string) \<Rightarrow> signed_files \<Rightarrow> string \<Rightarrow> signer_request \<Rightarrow> signed_transaction \<Rightarrow> bool" where
  "answer_stored h sha fs operation_id r t \<longleftrightarrow> st_operation_id t = operation_id
     \<and> (\<exists>s. map_of fs (sha operation_id) = Some s \<and> kr_request_sha256 s = h (signer_request_document operation_id r)
          \<and> kr_transaction_hash s = st_transaction_hash t \<and> fromhex (kr_signed_bytes_hex s) = Some (st_signed_bytes t))"

definition files_grow :: "signed_files \<Rightarrow> signed_files \<Rightarrow> bool" where
  "files_grow fs fs' \<longleftrightarrow> map_of fs \<subseteq>\<^sub>m map_of fs'"

lemma files_grow_refl [simp]: "files_grow fs fs" by (simp add: files_grow_def)

lemma files_grow_add: "map_of fs k = None \<Longrightarrow> files_grow fs ((k, s) # fs)"
  by (auto simp: files_grow_def map_le_def)

lemma answer_stored_grow: "answer_stored h sha fs op r t \<Longrightarrow> files_grow fs fs' \<Longrightarrow> answer_stored h sha fs' op r t"
  unfolding answer_stored_def files_grow_def map_le_def by (metis domI)

lemma validated_request:
  "validate_signer_request h sha request_schema operation_id r = Inr d \<longleftrightarrow>
     d = h (signer_request_document operation_id r) \<and> request_schema (signer_request_document operation_id r)
     \<and> signer_operation_id h r = operation_id \<and> map_of chain_networks (sr_chain_id r) = Some (sr_network_id r)
     \<and> (\<exists>calldata. fromhex (sr_calldata_hex r) = Some calldata \<and> int (length calldata) = sr_calldata_length r
          \<and> sha calldata = sr_calldata_sha256 r)
     \<and> unsigned_transaction_digest h r = sr_unsigned_transaction_sha256 r
     \<and> sr_max_priority_fee_per_gas_wei r \<le> sr_max_fee_per_gas_wei r
     \<and> sr_gas_limit r * sr_max_fee_per_gas_wei r \<le> sr_fee_limit_wei r"
  by (auto simp: validate_signer_request_def Let_def signer_ensure_def exn_simps split: option.splits)

lemma keystore_sign_answer:
  assumes "keystore_sign h sha request_schema response_schema acct kz operation_id r fs = (res, fs')"
  shows "files_grow fs fs'"
    and "res = Inr t \<Longrightarrow> request_admitted h sha request_schema kz operation_id r \<and> answer_stored h sha fs' operation_id r t"
  using assms
  by (auto simp: keystore_sign_def sign_fresh_def stored_transaction_def request_admitted_def answer_stored_def signer_ensure_def
      exn_simps Let_def validated_request intro!: files_grow_add split: sum.splits option.splits if_splits)


lemma dispatch_sign_answer:
  assumes "dispatch_sign h sha request_schema response_schema acct kz operation_id r fs = (res, fs')"
  shows "files_grow fs fs'"
    and "res = Inr response \<Longrightarrow> \<exists>t. keystore_sign h sha request_schema response_schema acct kz operation_id r fs = (Inr t, fs')
           \<and> stored_transaction (kr_operation_id response) response = Inr t"
  using assms
  by (auto simp: dispatch_sign_def stored_transaction_def signer_ensure_def exn_simps Let_def
      dest: keystore_sign_answer(1) split: if_splits prod.splits sum.splits)

lemma socket_sign_answer:
  assumes "socket_sign h sha width request_schema response_schema acct kz operation_id r fs = (res, fs')"
  shows "files_grow fs fs'"
    and "res = Inr t \<Longrightarrow> request_admitted h sha request_schema kz operation_id r \<and> answer_stored h sha fs' operation_id r t"
proof -
  let ?d = "dispatch_sign h sha request_schema response_schema acct kz operation_id r fs"
  from assms show "files_grow fs fs'"
    by (auto simp: socket_sign_def dest: dispatch_sign_answer(1) split: if_splits prod.splits sum.splits)
  assume "res = Inr t"
  with assms obtain response where "?d = (Inr response, fs')" "stored_transaction (kr_operation_id response) response = Inr t"
    by (auto simp: socket_sign_def signer_ensure_def exn_simps split: if_splits prod.splits sum.splits)
  then have "keystore_sign h sha request_schema response_schema acct kz operation_id r fs = (Inr t, fs')"
    using dispatch_sign_answer(2) by fastforce
  from keystore_sign_answer(2) [OF this] show "request_admitted h sha request_schema kz operation_id r \<and> answer_stored h sha fs' operation_id r t"
    by simp
qed

section \<open>Histories\<close>

record signer_history =
  kh_files :: signed_files
  kh_answers :: "(string \<times> signer_request \<times> signed_transaction) list"

definition answered :: "string \<Rightarrow> signer_request \<Rightarrow> exn + signed_transaction \<Rightarrow> signed_files \<Rightarrow> signer_history \<Rightarrow> signer_history" where
  "answered operation_id r res fs w =
     w\<lparr>kh_files := fs, kh_answers := (case res of Inl _ \<Rightarrow> kh_answers w | Inr t \<Rightarrow> (operation_id, r, t) # kh_answers w)\<rparr>"

inductive keystore_step ::
  "(json \<Rightarrow> string) \<Rightarrow> (string \<Rightarrow> string) \<Rightarrow> (json \<Rightarrow> nat) \<Rightarrow> (json \<Rightarrow> bool) \<Rightarrow> (json \<Rightarrow> bool) \<Rightarrow> keystore \<Rightarrow> signer_history \<Rightarrow> signer_history \<Rightarrow> bool"
  for h sha width request_schema response_schema kz where
  direct: "keystore_sign h sha request_schema response_schema acct kz operation_id r (kh_files w) = (res, fs) \<Longrightarrow>
     keystore_step h sha width request_schema response_schema kz w (answered operation_id r res fs w)"
| by_socket: "socket_sign h sha width request_schema response_schema acct kz operation_id r (kh_files w) = (res, fs) \<Longrightarrow>
     keystore_step h sha width request_schema response_schema kz w (answered operation_id r res fs w)"
| lost_answer: "dispatch_sign h sha request_schema response_schema acct kz operation_id r (kh_files w) = (res, fs) \<Longrightarrow>
     keystore_step h sha width request_schema response_schema kz w (w\<lparr>kh_files := fs\<rparr>)"

definition history_ok :: "(json \<Rightarrow> string) \<Rightarrow> (string \<Rightarrow> string) \<Rightarrow> (json \<Rightarrow> bool) \<Rightarrow> keystore \<Rightarrow> signer_history \<Rightarrow> bool" where
  "history_ok h sha request_schema kz w \<longleftrightarrow> (\<forall>op r t. (op, r, t) \<in> set (kh_answers w) \<longrightarrow>
     request_admitted h sha request_schema kz op r \<and> answer_stored h sha (kh_files w) op r t)"

lemma history_ok_files:
  "history_ok h sha request_schema kz w \<Longrightarrow> files_grow (kh_files w) fs \<Longrightarrow> history_ok h sha request_schema kz (w\<lparr>kh_files := fs\<rparr>)"
  unfolding history_ok_def using answer_stored_grow by fastforce

lemma history_ok_answered:
  assumes "history_ok h sha request_schema kz w" "files_grow (kh_files w) fs"
    "\<And>t. res = Inr t \<Longrightarrow> request_admitted h sha request_schema kz operation_id r \<and> answer_stored h sha fs operation_id r t"
  shows "history_ok h sha request_schema kz (answered operation_id r res fs w)"
  using history_ok_files [OF assms(1,2)] assms(3) by (cases res) (auto simp: history_ok_def answered_def)

interpretation keystore_calls: transition_system "\<lambda>w. kh_answers w = []" "keystore_step h sha width request_schema response_schema kz"
  "history_ok h sha request_schema kz"
proof
  show "history_ok h sha request_schema kz w" if "kh_answers w = []" for w using that by (simp add: history_ok_def)
  show "history_ok h sha request_schema kz v" if "history_ok h sha request_schema kz w"
    "keystore_step h sha width request_schema response_schema kz w v" for w v
    using that(2,1)
  proof cases
    case (direct acct operation_id r res fs)
    with that(1) keystore_sign_answer [OF direct(2)] show ?thesis by (auto intro: history_ok_answered)
  next
    case (by_socket acct operation_id r res fs)
    with that(1) socket_sign_answer [OF by_socket(2)] show ?thesis by (auto intro: history_ok_answered)
  next
    case (lost_answer acct operation_id r res fs)
    with that(1) dispatch_sign_answer(1) [OF lost_answer(2)] show ?thesis by (auto intro: history_ok_files)
  qed
qed

definition answer_bytes :: "(string \<Rightarrow> string) \<Rightarrow> signed_files \<Rightarrow> string \<Rightarrow> string" where
  "answer_bytes sha fs operation_id = the (fromhex (kr_signed_bytes_hex (the (map_of fs (sha operation_id)))))"

text \<open>
  C17: In every history of the keystore signer, with answers lost, requests repeated and an account that may sign one transaction
  differently every time: any two answers to one operation carry the same bytes and the same hash, so what the submission
  coordinator assumes of its signer holds of every signer that answers as recorded; and every answered request named this signer
  and its role, was on the allowlist under its own digest, has the operation identifier that binds it, the network of its chain,
  its calldata under their digest, a priority fee and a total fee within their limits.
\<close>

theorem keystore_meets_the_signer_contract:
  assumes "kh_answers w0 = []" "(keystore_step h sha width request_schema response_schema kz)\<^sup>*\<^sup>* w0 w"
  shows "(\<forall>ext. (\<forall>op r t. ext op r = Inr t \<longrightarrow> (op, r, t) \<in> set (kh_answers w))
             \<longrightarrow> signer_contract ext (answer_bytes sha (kh_files w)))
    \<and> (\<forall>op r t r' t'. (op, r, t) \<in> set (kh_answers w) \<longrightarrow> (op, r', t') \<in> set (kh_answers w) \<longrightarrow> t = t')
    \<and> (\<forall>op r t. (op, r, t) \<in> set (kh_answers w) \<longrightarrow> sr_signer_id r = kz_signer_id kz \<and> sr_role r = kz_role kz
        \<and> map_of (kz_allowed kz) op = Some (h (signer_request_document op r)) \<and> signer_operation_id h r = op
        \<and> map_of chain_networks (sr_chain_id r) = Some (sr_network_id r)
        \<and> (\<exists>calldata. fromhex (sr_calldata_hex r) = Some calldata \<and> int (length calldata) = sr_calldata_length r
             \<and> sha calldata = sr_calldata_sha256 r)
        \<and> sr_max_priority_fee_per_gas_wei r \<le> sr_max_fee_per_gas_wei r
        \<and> sr_gas_limit r * sr_max_fee_per_gas_wei r \<le> sr_fee_limit_wei r)"
proof -
  have ok: "request_admitted h sha request_schema kz op r \<and> answer_stored h sha (kh_files w) op r t"
    if "(op, r, t) \<in> set (kh_answers w)" for op r t
    using keystore_calls.reachable_inv [OF assms] that by (simp add: history_ok_def)
  have same: "t = t'" if "(op, r, t) \<in> set (kh_answers w)" "(op, r', t') \<in> set (kh_answers w)" for op r t r' t'
    using ok [OF that(1)] ok [OF that(2)] by (auto simp: answer_stored_def)
  have "signer_contract ext (answer_bytes sha (kh_files w))" if "\<forall>op r t. ext op r = Inr t \<longrightarrow> (op, r, t) \<in> set (kh_answers w)" for ext
    using that ok by (fastforce simp: signer_contract_def answer_stored_def answer_bytes_def)
  with ok same show ?thesis by (simp add: request_admitted_def validated_request)
qed


text \<open>An answer lost, and the same request again through the socket with an account that signs differently by now.\<close>

definition demo_keystore :: keystore where
  "demo_keystore = \<lparr>kz_signer_id = ''s'', kz_role = ''runner'', kz_address = ''0xa'', kz_keystore_sha256 = zeros,
     kz_allowed = [(signer_operation_id demo_h demo_request, zeros)]\<rparr>"

definition demo_k_request :: signer_request where
  "demo_k_request = demo_request\<lparr>sr_chain_id := 84532, sr_network_id := ''base-sepolia''\<rparr>"

definition demo_k0 :: signer_history where
  "demo_k0 = \<lparr>kh_files = [], kh_answers = []\<rparr>"

definition demo_k_lost :: "(exn + signer_response) \<times> signed_files" where
  "demo_k_lost = dispatch_sign demo_h demo_sha (\<lambda>_. True) (\<lambda>_. True) (\<lambda>_. Inr (''ab'', ''0xaa'')) demo_keystore
     (signer_operation_id demo_h demo_request) demo_k_request []"

definition demo_k_again :: "(exn + signed_transaction) \<times> signed_files" where
  "demo_k_again = socket_sign demo_h demo_sha (\<lambda>_. 9) (\<lambda>_. True) (\<lambda>_. True) (\<lambda>_. Inr (''cd'', ''0xbb'')) demo_keystore
     (signer_operation_id demo_h demo_request) demo_k_request (snd demo_k_lost)"

definition demo_k2 :: signer_history where
  "demo_k2 = answered (signer_operation_id demo_h demo_request) demo_k_request (fst demo_k_again) (snd demo_k_again)
     (demo_k0\<lparr>kh_files := snd demo_k_lost\<rparr>)"

lemma demo_k_run: "(keystore_step demo_h demo_sha (\<lambda>_. 9) (\<lambda>_. True) (\<lambda>_. True) demo_keystore)\<^sup>*\<^sup>* demo_k0 demo_k2"
proof -
  have "keystore_step demo_h demo_sha (\<lambda>_. 9) (\<lambda>_. True) (\<lambda>_. True) demo_keystore demo_k0 (demo_k0\<lparr>kh_files := snd demo_k_lost\<rparr>)"
    by (rule keystore_step.lost_answer [where res = "fst demo_k_lost"]) (simp add: demo_k_lost_def demo_k0_def)
  moreover have "keystore_step demo_h demo_sha (\<lambda>_. 9) (\<lambda>_. True) (\<lambda>_. True) demo_keystore
      (demo_k0\<lparr>kh_files := snd demo_k_lost\<rparr>) demo_k2"
    unfolding demo_k2_def by (rule keystore_step.by_socket) (simp add: demo_k_again_def)
  ultimately show ?thesis by (meson rtranclp.rtrancl_refl rtranclp.rtrancl_into_rtrancl)
qed

lemma demo_k_answers: "map (\<lambda>(op, r, t). (st_transaction_hash t, st_signed_bytes t)) (kh_answers demo_k2) = [(''0xaa'', ''ab'')]"
  by code_simp

text \<open>A signer that answers as recorded and refuses everything else.\<close>

definition demo_k_ext :: signer where
  "demo_k_ext op r = (case find (\<lambda>(o', r', _). o' = op \<and> r' = r) (kh_answers demo_k2) of
     None \<Rightarrow> Inl (SignerError SG_not_allowed) | Some (_, _, t) \<Rightarrow> Inr t)"

lemma demo_k_ext_recorded: "demo_k_ext op r = Inr t \<Longrightarrow> (op, r, t) \<in> set (kh_answers demo_k2)"
  by (auto simp: demo_k_ext_def find_Some_iff in_set_conv_nth split: option.splits)

lemma keystore_meets_the_signer_contract_witness:
  "map (\<lambda>(op, r, t). (st_transaction_hash t, st_signed_bytes t)) (kh_answers demo_k2) = [(''0xaa'', ''ab'')]
   \<and> signer_contract demo_k_ext (answer_bytes demo_sha (kh_files demo_k2))"
proof -
  have "kh_answers demo_k0 = []" by (simp add: demo_k0_def)
  from keystore_meets_the_signer_contract [OF this demo_k_run, THEN conjunct1] demo_k_ext_recorded
  have "signer_contract demo_k_ext (answer_bytes demo_sha (kh_files demo_k2))" by blast
  with demo_k_answers show ?thesis by (rule conjI)
qed

end
