(* ===== verification/Xir_Deployment.thy ===== *)
theory Xir_Deployment
  imports Xir_Keystore Xir_Operations
begin

text \<open>
  \<^verbatim>\<open>execute/deployment_plans.py\<close>: deterministic plans of contract creations and the signer requests made of them.
  \<open>artifact\<close> reads and parses an artifact file, \<open>encode\<close> is the ABI encoding of constructor arguments (\<open>None\<close>: it raised), \<open>create\<close> the
  checksummed address that a deployer creates with a nonce (RLP and Keccak), \<open>simulate\<close> the provider of the dry run.
\<close>

section \<open>Specifications and plans\<close>

datatype creation_value =
  AddressReference string
| ValueTuple "creation_value list"
| ValueList "creation_value list"
| PlainValue json

record creation_spec =
  cn_contract_id :: string
  cn_artifact_path :: string
  cn_constructor_types :: "string list"
  cn_constructor_values :: "creation_value list"
  cn_gas_limit :: int
  cn_value_wei :: int
  cn_factory_address :: "string option"

record planned_creation =
  pc_contract_id :: string
  pc_chain_id :: int
  pc_nonce :: int
  pc_predicted_address :: string
  pc_factory_address :: "string option"
  pc_creation_bytecode_sha256 :: string
  pc_constructor_args_sha256 :: string
  pc_runtime_code_sha256 :: string
  pc_gas_limit :: int
  pc_max_fee_per_gas_wei :: int
  pc_max_priority_fee_per_gas_wei :: int
  pc_value_wei :: int
  pc_unsigned_transaction_sha256 :: string
  pc_data_hex :: string

record deployment_plan =
  dl_plan_id :: string
  dl_chain_id :: int
  dl_deployer_address :: string
  dl_starting_nonce :: int
  dl_compiler_version :: string
  dl_toolchain_sha256 :: string
  dl_creations :: "planned_creation list"
  dl_plan_sha256 :: string

record deployment_simulation =
  ds_contract_id :: string
  ds_success :: bool
  ds_predicted_address :: string
  ds_runtime_code_sha256 :: string
  ds_gas_used :: int
  ds_reason_code :: string

section \<open>Parts of a creation\<close>

definition plan_ensure :: "bool \<Rightarrow> deployment_error \<Rightarrow> exn + unit" where
  "plan_ensure b e = ensure b (DeploymentPlanError e)"

definition without_0x :: "string \<Rightarrow> string" where
  "without_0x s = (if take 2 s = ''0x'' then drop 2 s else s)"

definition create_address :: "(string \<Rightarrow> int \<Rightarrow> string) \<Rightarrow> string \<Rightarrow> int \<Rightarrow> exn + string" where
  "create_address create deployer nonce =
     bindE (require (fromhex (without_0x deployer)) (DeploymentPlanError DP_deployer_hex)) (\<lambda>sender.
     bindE (plan_ensure (\<not> (length sender \<noteq> 20 \<or> nonce < 0)) DP_deployer) (\<lambda>_. Inr (create sender nonce)))"

text \<open>
  An index into a document that is no object, or without the key, is an invalid artifact; a code that is no text has no
  \<^verbatim>\<open>removeprefix\<close>, and that exception is not caught.
\<close>

definition artifact_index :: "string \<Rightarrow> string \<Rightarrow> json \<Rightarrow> exn + json" where
  "artifact_index path key doc =
     (case doc of JObj entries \<Rightarrow> require (map_of entries key) (DeploymentPlanError (DP_artifact path))
      | _ \<Rightarrow> Inl (DeploymentPlanError (DP_artifact path)))"

definition artifact_bytes :: "string \<Rightarrow> json \<Rightarrow> exn + string" where
  "artifact_bytes path code =
     (case code of JStr s \<Rightarrow> require (fromhex (without_0x s)) (DeploymentPlanError (DP_artifact path)) | _ \<Rightarrow> Inl AttributeError)"

definition load_artifact :: "(string \<Rightarrow> string) \<Rightarrow> (string \<Rightarrow> json option) \<Rightarrow> string \<Rightarrow> exn + string \<times> string" where
  "load_artifact sha artifact path =
     bindE (require (artifact path) (DeploymentPlanError (DP_artifact path))) (\<lambda>document.
     bindE (bindE (artifact_index path ''bytecode'' document) (artifact_index path ''object'')) (\<lambda>creation_hex.
     bindE (bindE (artifact_index path ''deployedBytecode'' document) (artifact_index path ''object'')) (\<lambda>runtime_hex.
     bindE (artifact_bytes path creation_hex) (\<lambda>creation.
     bindE (artifact_bytes path runtime_hex) (\<lambda>runtime.
     bindE (plan_ensure (\<not> (creation = [] \<or> runtime = [])) DP_empty_bytecode) (\<lambda>_. Inr (creation, sha runtime)))))))"

fun resolve_value :: "(string \<times> string) list \<Rightarrow> creation_value \<Rightarrow> exn + creation_value"
  and resolve_values :: "(string \<times> string) list \<Rightarrow> creation_value list \<Rightarrow> exn + creation_value list" where
  "resolve_value addresses (AddressReference contract_id) =
     bindE (require (map_of addresses contract_id) (DeploymentPlanError (DP_unknown_reference contract_id))) (\<lambda>a.
     Inr (PlainValue (JStr a)))"
| "resolve_value addresses (ValueTuple items) = bindE (resolve_values addresses items) (\<lambda>items'. Inr (ValueTuple items'))"
| "resolve_value addresses (ValueList items) = bindE (resolve_values addresses items) (\<lambda>items'. Inr (ValueList items'))"
| "resolve_value addresses (PlainValue v) = Inr (PlainValue v)"
| "resolve_values addresses [] = Inr []"
| "resolve_values addresses (v # vs) =
     bindE (resolve_value addresses v) (\<lambda>v'. bindE (resolve_values addresses vs) (\<lambda>vs'. Inr (v' # vs')))"

section \<open>The plan\<close>

fun creation_addresses :: "(string \<Rightarrow> int \<Rightarrow> string) \<Rightarrow> string \<Rightarrow> int \<Rightarrow> creation_spec list \<Rightarrow> exn + (string \<times> string) list" where
  "creation_addresses create deployer nonce [] = Inr []"
| "creation_addresses create deployer nonce (spec # specs) =
     bindE (create_address create deployer nonce) (\<lambda>address.
     bindE (creation_addresses create deployer (nonce + 1) specs) (\<lambda>rest. Inr ((cn_contract_id spec, address) # rest)))"

definition plan_creation ::
  "(json \<Rightarrow> string) \<Rightarrow> (string \<Rightarrow> string) \<Rightarrow> (string \<Rightarrow> json option) \<Rightarrow> (string list \<Rightarrow> creation_value list \<Rightarrow> string option)
     \<Rightarrow> int \<Rightarrow> int \<Rightarrow> int \<Rightarrow> (string \<times> string) list \<Rightarrow> int \<Rightarrow> creation_spec \<Rightarrow> exn + planned_creation" where
  "plan_creation h sha artifact encode chain_id max_fee max_priority_fee addresses nonce spec =
     bindE (plan_ensure (cn_factory_address spec = None) DP_factory) (\<lambda>_.
     bindE (plan_ensure (\<not> (cn_gas_limit spec \<le> 0 \<or> cn_value_wei spec < 0)) DP_bounds) (\<lambda>_.
     bindE (load_artifact sha artifact (cn_artifact_path spec)) (\<lambda>(bytecode, runtime_sha256).
     bindE (resolve_values addresses (cn_constructor_values spec)) (\<lambda>values.
     bindE (require (encode (cn_constructor_types spec) values) (DeploymentPlanError (DP_encoding (cn_contract_id spec)))) (\<lambda>arguments.
     let data = bytecode @ arguments in
     bindE (require (map_of addresses (cn_contract_id spec)) KeyError) (\<lambda>predicted_address.
     Inr \<lparr>pc_contract_id = cn_contract_id spec, pc_chain_id = chain_id, pc_nonce = nonce,
          pc_predicted_address = predicted_address, pc_factory_address = None, pc_creation_bytecode_sha256 = sha bytecode,
          pc_constructor_args_sha256 = sha arguments, pc_runtime_code_sha256 = runtime_sha256,
          pc_gas_limit = cn_gas_limit spec, pc_max_fee_per_gas_wei = max_fee, pc_max_priority_fee_per_gas_wei = max_priority_fee,
          pc_value_wei = cn_value_wei spec,
          pc_unsigned_transaction_sha256 = h (unsigned_json chain_id nonce None (cn_value_wei spec) (to_hex data)
             (cn_gas_limit spec) max_fee max_priority_fee),
          pc_data_hex = to_hex data\<rparr>))))))"

fun plan_creations ::
  "(json \<Rightarrow> string) \<Rightarrow> (string \<Rightarrow> string) \<Rightarrow> (string \<Rightarrow> json option) \<Rightarrow> (string list \<Rightarrow> creation_value list \<Rightarrow> string option)
     \<Rightarrow> int \<Rightarrow> int \<Rightarrow> int \<Rightarrow> (string \<times> string) list \<Rightarrow> int \<Rightarrow> creation_spec list \<Rightarrow> exn + planned_creation list" where
  "plan_creations h sha artifact encode chain_id max_fee max_priority_fee addresses nonce [] = Inr []"
| "plan_creations h sha artifact encode chain_id max_fee max_priority_fee addresses nonce (spec # specs) =
     bindE (plan_creation h sha artifact encode chain_id max_fee max_priority_fee addresses nonce spec) (\<lambda>c.
     bindE (plan_creations h sha artifact encode chain_id max_fee max_priority_fee addresses (nonce + 1) specs) (\<lambda>cs.
     Inr (c # cs)))"

definition creation_json :: "planned_creation \<Rightarrow> json" where
  "creation_json c = JObj
     [(''contract_id'', JStr (pc_contract_id c)), (''chain_id'', JInt (pc_chain_id c)), (''nonce'', JInt (pc_nonce c)),
      (''predicted_address'', JStr (pc_predicted_address c)), (''factory_address'', opt_text (pc_factory_address c)),
      (''creation_bytecode_sha256'', JStr (pc_creation_bytecode_sha256 c)),
      (''constructor_args_sha256'', JStr (pc_constructor_args_sha256 c)),
      (''runtime_code_sha256'', JStr (pc_runtime_code_sha256 c)), (''gas_limit'', JInt (pc_gas_limit c)),
      (''max_fee_per_gas_wei'', JInt (pc_max_fee_per_gas_wei c)),
      (''max_priority_fee_per_gas_wei'', JInt (pc_max_priority_fee_per_gas_wei c)), (''value_wei'', JInt (pc_value_wei c)),
      (''unsigned_transaction_sha256'', JStr (pc_unsigned_transaction_sha256 c))]"

definition build_deployment_plan ::
  "(json \<Rightarrow> string) \<Rightarrow> (string \<Rightarrow> string) \<Rightarrow> (string \<Rightarrow> int \<Rightarrow> string) \<Rightarrow> (string \<Rightarrow> json option)
     \<Rightarrow> (string list \<Rightarrow> creation_value list \<Rightarrow> string option) \<Rightarrow> string \<Rightarrow> int \<Rightarrow> string \<Rightarrow> int \<Rightarrow> string \<Rightarrow> string \<Rightarrow> int \<Rightarrow> int
     \<Rightarrow> creation_spec list \<Rightarrow> exn + deployment_plan" where
  "build_deployment_plan h sha create artifact encode plan_id chain_id deployer starting_nonce compiler_version toolchain_sha256
     max_fee max_priority_fee specs =
     bindE (plan_ensure (\<not> (specs = [] \<or> \<not> distinct (map cn_contract_id specs))) DP_specs) (\<lambda>_.
     bindE (plan_ensure (\<not> Min {chain_id, starting_nonce, max_fee, max_priority_fee} < 0) DP_negative) (\<lambda>_.
     bindE (plan_ensure (length toolchain_sha256 = 64) DP_toolchain) (\<lambda>_.
     bindE (creation_addresses create deployer starting_nonce specs) (\<lambda>addresses.
     bindE (plan_creations h sha artifact encode chain_id max_fee max_priority_fee addresses starting_nonce specs) (\<lambda>creations.
     let plan_body = JObj
       [(''plan_id'', JStr plan_id), (''chain_id'', JInt chain_id), (''deployer_address'', JStr (lower deployer)),
        (''starting_nonce'', JInt starting_nonce), (''compiler_version'', JStr compiler_version),
        (''toolchain_sha256'', JStr toolchain_sha256), (''creations'', JList (map creation_json creations))]
     in Inr \<lparr>dl_plan_id = plan_id, dl_chain_id = chain_id, dl_deployer_address = deployer, dl_starting_nonce = starting_nonce,
          dl_compiler_version = compiler_version, dl_toolchain_sha256 = toolchain_sha256, dl_creations = creations,
          dl_plan_sha256 = h plan_body\<rparr>)))))"

section \<open>Dry run, signer requests and the three chains\<close>

fun dry_run_creations :: "(planned_creation \<Rightarrow> exn + deployment_simulation) \<Rightarrow> planned_creation list \<Rightarrow> exn + deployment_simulation list" where
  "dry_run_creations simulate [] = Inr []"
| "dry_run_creations simulate (c # cs) =
     bindE (simulate c) (\<lambda>result.
     bindE (plan_ensure (\<not> (ds_contract_id result \<noteq> pc_contract_id c
           \<or> lower (ds_predicted_address result) \<noteq> lower (pc_predicted_address c)
           \<or> ds_runtime_code_sha256 result \<noteq> pc_runtime_code_sha256 c \<or> ds_gas_used result > pc_gas_limit c
           \<or> \<not> ds_success result)) (DP_simulation (pc_contract_id c))) (\<lambda>_.
     bindE (dry_run_creations simulate cs) (\<lambda>results. Inr (result # results))))"

definition dry_run_deployment_plan ::
  "(planned_creation \<Rightarrow> exn + deployment_simulation) \<Rightarrow> deployment_plan \<Rightarrow> exn + deployment_simulation list" where
  "dry_run_deployment_plan simulate plan = dry_run_creations simulate (dl_creations plan)"

definition creation_request ::
  "(string \<Rightarrow> string) \<Rightarrow> deployment_plan \<Rightarrow> string \<Rightarrow> string \<Rightarrow> string \<Rightarrow> string \<Rightarrow> planned_creation \<Rightarrow> exn + signer_request" where
  "creation_request sha plan network_id signer_id config_sha256 code_sha256 c =
     bindE (require (fromhex (pc_data_hex c)) ValueError) (\<lambda>calldata.
     Inr \<lparr>sr_network_id = network_id, sr_chain_id = dl_chain_id plan, sr_signer_id = signer_id,
          sr_intent_id = dl_plan_id plan @ '':'' @ pc_contract_id c, sr_nonce = pc_nonce c, sr_destination = None,
          sr_value_wei = pc_value_wei c, sr_calldata_sha256 = sha calldata, sr_calldata_length = int (length calldata),
          sr_fee_limit_wei = pc_gas_limit c * pc_max_fee_per_gas_wei c, sr_role = ''deployer'',
          sr_config_sha256 = config_sha256, sr_code_sha256 = code_sha256, sr_gas_limit = pc_gas_limit c,
          sr_max_fee_per_gas_wei = pc_max_fee_per_gas_wei c,
          sr_max_priority_fee_per_gas_wei = pc_max_priority_fee_per_gas_wei c, sr_calldata_hex = pc_data_hex c,
          sr_unsigned_transaction_sha256 = pc_unsigned_transaction_sha256 c\<rparr>)"

fun creation_requests ::
  "(json \<Rightarrow> string) \<Rightarrow> (string \<Rightarrow> string) \<Rightarrow> deployment_plan \<Rightarrow> string \<Rightarrow> string \<Rightarrow> string \<Rightarrow> string \<Rightarrow> planned_creation list
     \<Rightarrow> exn + signer_request list" where
  "creation_requests h sha plan network_id signer_id config_sha256 code_sha256 [] = Inr []"
| "creation_requests h sha plan network_id signer_id config_sha256 code_sha256 (c # cs) =
     bindE (creation_request sha plan network_id signer_id config_sha256 code_sha256 c) (\<lambda>request.
     bindE (plan_ensure (unsigned_transaction_digest h request = pc_unsigned_transaction_sha256 c) DP_changed) (\<lambda>_.
     bindE (creation_requests h sha plan network_id signer_id config_sha256 code_sha256 cs) (\<lambda>requests.
     Inr (request # requests))))"

definition deployment_signer_requests ::
  "(json \<Rightarrow> string) \<Rightarrow> (string \<Rightarrow> string) \<Rightarrow> deployment_plan \<Rightarrow> string \<Rightarrow> string \<Rightarrow> string \<Rightarrow> string \<Rightarrow> exn + signer_request list" where
  "deployment_signer_requests h sha plan network_id signer_id config_sha256 code_sha256 =
     bindE (plan_ensure (map_of chain_networks (dl_chain_id plan) = Some network_id) DP_network) (\<lambda>_.
     bindE (plan_ensure (length config_sha256 = 64) DP_configuration_digest) (\<lambda>_.
     bindE (plan_ensure (length code_sha256 = 64) DP_code_digest) (\<lambda>_.
     creation_requests h sha plan network_id signer_id config_sha256 code_sha256 (dl_creations plan))))"

record three_chain_plan =
  tp_plans :: "deployment_plan list"
  tp_route_order :: "string list"
  tp_plan_sha256 :: string

definition build_three_chain_deployment_plan :: "(json \<Rightarrow> string) \<Rightarrow> deployment_plan list \<Rightarrow> exn + three_chain_plan" where
  "build_three_chain_deployment_plan h plans =
     bindE (plan_ensure (map dl_chain_id plans = [11155420, 421614, 84532]) DP_order) (\<lambda>_.
     let route_order = [''op-sepolia'', ''arbitrum-sepolia'', ''base-sepolia''] in
     Inr \<lparr>tp_plans = plans, tp_route_order = route_order,
          tp_plan_sha256 = h (JObj [(''domain'', JStr ''xir-lab-three-chain-deployment-v1''),
            (''route_order'', JList (map JStr route_order)), (''plan_sha256'', JList (map (JStr \<circ> dl_plan_sha256) plans))])\<rparr>)"

end
