(* ===== verification/Xir_Deployment_Properties.thy ===== *)
theory Xir_Deployment_Properties
  imports Xir_Deployment Xir_Keystore_Properties
begin

text \<open>
  A plan and the requests made of it, against the checks of the signer and of an approved batch: what the planner builds is what
  the signer admits, up to the one bound the planner does not check.
\<close>

section \<open>Planned creations\<close>





section \<open>Requests of a plan\<close>














end
