(* ===== verification/Xir_Overhead.thy ===== *)
theory Xir_Overhead
  imports Xir_Validator Xir_Floats
begin

text \<open>
  \<^verbatim>\<open>analysis/overhead.py\<close>: which pairs of primary attempts may be compared, the values of both arms per chain,
  accounting bucket and metric, and their aggregation. The table of decisions stands beside the other tables. No other
  writer is assumed between the reads of one call. A signed float is a sign and a \<open>pyfloat\<close>.
\<close>

section \<open>Decisions\<close>

datatype metric =
  MT_gas_used | MT_input_bytes | MT_execution_fee_wei | MT_l1_data_fee_wei | MT_carrier_payment_wei | MT_transaction_value_wei
| MT_transaction_count

record pair_decision =
  od_pair_id :: string
  od_baseline_attempt_id :: string
  od_xir_attempt_id :: string
  od_eligible :: bool
  od_reasons :: "string list"

record overhead_world =
  ov_ev :: evidence
  ov_decisions :: "(pair_decision \<times> int) list"

definition finality_missing :: "transaction_row \<Rightarrow> evidence \<Rightarrow> bool" where
  "finality_missing t ev =
     (case current_finality (tx_transaction_id t) ev of
        None \<Rightarrow> True | Some x \<Rightarrow> fo_state x \<noteq> F_finalized \<or> \<not> fo_canonical x)"

definition arm_label :: "arm \<Rightarrow> string" where
  "arm_label a = (case a of Baseline \<Rightarrow> ''baseline'' | Xir \<Rightarrow> ''xir'')"

definition transaction_reasons :: "string \<Rightarrow> evidence \<Rightarrow> transaction_row \<Rightarrow> string list" where
  "transaction_reasons arm ev t =
     (if tx_state t \<noteq> T_finalized then [arm @ ''_nonfinal_transaction''] else [])
     @ (if find (\<lambda>r. rc_transaction_id r = tx_transaction_id t) (ev_resources ev) = None then [arm @ ''_resource_missing''] else [])
     @ (if Option.bind (stage_of_transaction t (ev_db ev)) sg_accounting_bucket = None then [arm @ ''_bucket_missing''] else [])
     @ (if finality_missing t ev then [arm @ ''_canonical_finality_missing''] else [])"

definition attempt_evidence_reasons :: "string \<Rightarrow> string \<Rightarrow> evidence \<Rightarrow> string list" where
  "attempt_evidence_reasons attempt_id arm ev =
     (let transactions = attempt_transactions attempt_id (ev_db ev)
      in (if transactions = [] then [arm @ ''_no_physical_transaction''] else [])
         @ concat (map (transaction_reasons arm ev) transactions))"

definition attempt_effect :: "string \<Rightarrow> evidence \<Rightarrow> (string \<times> string \<times> bool) option" where
  "attempt_effect attempt_id ev =
     map_option (\<lambda>r. (ef_destination_effect_id r, ef_predicate_sha256 r, ef_succeeded r))
       (find (\<lambda>r. ef_attempt_id r = attempt_id) (ev_effects ev))"

definition primary_attempts :: "string \<Rightarrow> arm \<Rightarrow> evidence \<Rightarrow> attempt_row list" where
  "primary_attempts pair_id arm ev =
     filter (\<lambda>a. at_pair_id a = Some pair_id \<and> at_attempt_kind a = Primary \<and> at_arm a = arm) (t_attempts (ev_db ev))"

definition row_reasons :: "evidence \<Rightarrow> attempt_row \<Rightarrow> string list" where
  "row_reasons ev a =
     (if at_state a \<noteq> A_delivered then [arm_label (at_arm a) @ ''_not_delivered''] else [])
     @ attempt_evidence_reasons (at_attempt_id a) (arm_label (at_arm a)) ev"

definition effect_reasons :: "evidence \<Rightarrow> attempt_row \<Rightarrow> attempt_row \<Rightarrow> string list" where
  "effect_reasons ev b x =
     (case (attempt_effect (at_attempt_id b) ev, attempt_effect (at_attempt_id x) ev) of
        (Some e, Some f) \<Rightarrow> if e \<noteq> f then [''destination_effect_mismatch''] else []
      | _ \<Rightarrow> [''destination_effect_missing''])"

definition first_id :: "attempt_row list \<Rightarrow> string" where
  "first_id rs = (case rs of [] \<Rightarrow> [] | r # _ \<Rightarrow> at_attempt_id r)"

text \<open>A decision, and whether it is stored.\<close>

definition decide_pair :: "string \<Rightarrow> evidence \<Rightarrow> pair_decision \<times> bool" where
  "decide_pair pair_id ev =
     (let baseline = primary_attempts pair_id Baseline ev; xir = primary_attempts pair_id Xir ev
      in if length baseline \<noteq> 1 \<or> length xir \<noteq> 1
         then (\<lparr>od_pair_id = pair_id, od_baseline_attempt_id = first_id baseline, od_xir_attempt_id = first_id xir,
                od_eligible = False, od_reasons = [''designated_primary_arms_missing_or_duplicated'']\<rparr>, False)
         else let b = hd baseline; x = hd xir; reasons = row_reasons ev b @ row_reasons ev x @ effect_reasons ev b x
              in (\<lparr>od_pair_id = pair_id, od_baseline_attempt_id = at_attempt_id b, od_xir_attempt_id = at_attempt_id x,
                   od_eligible = (reasons = []), od_reasons = text_sort (remdups reasons)\<rparr>, True))"

definition upsert_decision :: "pair_decision \<Rightarrow> int \<Rightarrow> (pair_decision \<times> int) list \<Rightarrow> (pair_decision \<times> int) list" where
  "upsert_decision d clk rows =
     (if list_ex (\<lambda>r. od_pair_id (fst r) = od_pair_id d) rows
      then update_where (\<lambda>r. od_pair_id (fst r) = od_pair_id d) (\<lambda>_. (d, clk)) rows
      else rows @ [(d, clk)])"

definition run_pairs :: "string \<Rightarrow> evidence \<Rightarrow> pair_row list" where
  "run_pairs run_id ev =
     sort_by_key pr_pair_id
       (filter (\<lambda>p. map_option cd_run_id (find_condition (pr_condition_id p) (ev_db ev)) = Some run_id) (t_pairs (ev_db ev)))"

fun decide_each :: "int \<Rightarrow> pair_row list \<Rightarrow> overhead_world \<Rightarrow> pair_decision list \<times> overhead_world" where
  "decide_each clk [] w = ([], w)"
| "decide_each clk (p # ps) w =
     (case decide_pair (pr_pair_id p) (ov_ev w) of (d, stored) \<Rightarrow>
        let w1 = (if stored then w\<lparr>ov_decisions := upsert_decision d clk (ov_decisions w)\<rparr> else w)
        in case decide_each clk ps w1 of (ds, w2) \<Rightarrow> (d # ds, w2))"

definition decide_pairs :: "int \<Rightarrow> string \<Rightarrow> overhead_world \<Rightarrow> pair_decision list \<times> overhead_world" where
  "decide_pairs clk run_id w = decide_each clk (run_pairs run_id (ov_ev w)) w"

section \<open>Values\<close>

type_synonym signed_float = "int \<times> pyfloat"

record pair_value =
  pv_pair_id :: string
  pv_condition :: string
  pv_chain_id :: int
  pv_accounting_bucket :: string
  pv_metric :: metric
  pv_baseline_value :: "int option"
  pv_xir_value :: "int option"
  pv_difference :: "int option"
  pv_relative_difference :: "signed_float option"
  pv_unavailable_reason :: "string option"

definition in_bucket :: "string \<Rightarrow> int \<Rightarrow> string \<Rightarrow> stage_row \<Rightarrow> bool" where
  "in_bucket attempt_id chain_id bucket g \<longleftrightarrow>
     sg_attempt_id g = attempt_id \<and> sg_chain_id g = Some chain_id \<and> sg_accounting_bucket g = Some bucket"

definition transaction_stage :: "string \<Rightarrow> db \<Rightarrow> stage_row option" where
  "transaction_stage i db = Option.bind (find_transaction i db) (\<lambda>t. stage_of_transaction t db)"

definition bucket_resources :: "string \<Rightarrow> int \<Rightarrow> string \<Rightarrow> evidence \<Rightarrow> resource_row list" where
  "bucket_resources attempt_id chain_id bucket ev =
     sort_by_key rc_transaction_id
       (filter (\<lambda>r. case transaction_stage (rc_transaction_id r) (ev_db ev) of
                      None \<Rightarrow> False | Some g \<Rightarrow> in_bucket attempt_id chain_id bucket g) (ev_resources ev))"

definition metric_column :: "metric \<Rightarrow> resource_row \<Rightarrow> int" where
  "metric_column m r =
     (case m of
        MT_gas_used \<Rightarrow> rc_gas_used r
      | MT_input_bytes \<Rightarrow> rc_input_bytes r
      | MT_execution_fee_wei \<Rightarrow> rc_execution_fee_wei r
      | MT_l1_data_fee_wei \<Rightarrow> (case rc_l1_data_fee_wei r of None \<Rightarrow> 0 | Some x \<Rightarrow> x)
      | MT_carrier_payment_wei \<Rightarrow> rc_carrier_payment_wei r
      | MT_transaction_value_wei \<Rightarrow> rc_transaction_value_wei r
      | MT_transaction_count \<Rightarrow> 1)"

definition metric_value :: "evidence \<Rightarrow> string \<Rightarrow> int \<Rightarrow> string \<Rightarrow> metric \<Rightarrow> int option \<times> string option" where
  "metric_value ev attempt_id chain_id bucket m =
     (let rows = bucket_resources attempt_id chain_id bucket ev;
          stages = filter (in_bucket attempt_id chain_id bucket) (t_stages (ev_db ev))
      in if rows = []
         then if stages \<noteq> [] \<and> list_all (\<lambda>g. sg_state g = G_completed) stages then (Some 0, None)
              else (None, Some ''bucket_completeness_unproved'')
         else if m = MT_transaction_count then (Some (int (length rows)), None)
         else if m = MT_l1_data_fee_wei
         then if list_ex (\<lambda>r. rc_l1_data_fee_wei r = None) rows then (None, Some ''l1_data_fee_unavailable'')
              else (Some (total (metric_column m) rows), None)
         else (Some (total (metric_column m) rows), None))"

text \<open>\<^verbatim>\<open>a / b\<close> on integers, for \<^verbatim>\<open>b\<close> not zero.\<close>

definition int_quotient :: "int \<Rightarrow> int \<Rightarrow> signed_float" where
  "int_quotient a b = (sgn a * sgn b, float_quotient \<bar>a\<bar> \<bar>b\<bar>)"

definition pair_value_of ::
  "evidence \<Rightarrow> pair_decision \<Rightarrow> string \<Rightarrow> int \<Rightarrow> string \<Rightarrow> metric \<Rightarrow> pair_value" where
  "pair_value_of ev d condition chain_id bucket m =
     (case metric_value ev (od_baseline_attempt_id d) chain_id bucket m of (baseline, baseline_reason) \<Rightarrow>
      case metric_value ev (od_xir_attempt_id d) chain_id bucket m of (xir, xir_reason) \<Rightarrow>
        let unavailable = (case baseline_reason of None \<Rightarrow> xir_reason | Some _ \<Rightarrow> baseline_reason);
            difference = (if unavailable \<noteq> None then None
                          else case (baseline, xir) of (Some b, Some x) \<Rightarrow> Some (x - b) | _ \<Rightarrow> None);
            relative = (case (difference, baseline) of (Some x, Some b) \<Rightarrow> if b \<noteq> 0 then Some (int_quotient x b) else None
                        | _ \<Rightarrow> None)
        in \<lparr>pv_pair_id = od_pair_id d, pv_condition = condition, pv_chain_id = chain_id, pv_accounting_bucket = bucket,
            pv_metric = m, pv_baseline_value = baseline, pv_xir_value = xir, pv_difference = difference,
            pv_relative_difference = relative,
            pv_unavailable_reason = (if unavailable = None \<and> difference \<noteq> None \<and> baseline = Some 0
                                     then Some ''relative_baseline_zero'' else unavailable)\<rparr>)"

definition coordinates_of_pair :: "evidence \<Rightarrow> pair_decision \<Rightarrow> (int \<times> string) list" where
  "coordinates_of_pair ev d =
     sort_key fst (sort_by_key snd (remdups (List.map_filter
       (\<lambda>g. if sg_attempt_id g = od_baseline_attempt_id d \<or> sg_attempt_id g = od_xir_attempt_id d
            then Option.bind (sg_chain_id g) (\<lambda>c. map_option (\<lambda>b. (c, b)) (sg_accounting_bucket g)) else None)
       (t_stages (ev_db ev)))))"

definition pair_condition :: "evidence \<Rightarrow> string \<Rightarrow> string" where
  "pair_condition ev pair_id =
     (case Option.bind (find (\<lambda>p. pr_pair_id p = pair_id) (t_pairs (ev_db ev)))
             (\<lambda>p. find_condition (pr_condition_id p) (ev_db ev)) of
        None \<Rightarrow> [] | Some c \<Rightarrow> cd_carrier_sequence c)"

definition decision_values :: "evidence \<Rightarrow> metric list \<Rightarrow> pair_decision \<Rightarrow> pair_value list" where
  "decision_values ev metrics d =
     (if od_eligible d
      then concat (map (\<lambda>(c, b). map (pair_value_of ev d (pair_condition ev (od_pair_id d)) c b) metrics) (coordinates_of_pair ev d))
      else [])"

definition pair_values :: "int \<Rightarrow> string \<Rightarrow> metric list \<Rightarrow> overhead_world \<Rightarrow> pair_value list \<times> overhead_world" where
  "pair_values clk run_id metrics w =
     (case decide_pairs clk run_id w of (ds, w1) \<Rightarrow> (concat (map (decision_values (ov_ev w1) metrics) ds), w1))"

section \<open>Aggregates\<close>

record pair_aggregate =
  pa_condition :: string
  pa_chain_id :: int
  pa_accounting_bucket :: string
  pa_metric :: metric
  pa_eligible_count :: nat
  pa_median :: signed_float
  pa_interquartile_range :: signed_float
  pa_minimum :: int
  pa_maximum :: int

definition metric_text :: "metric \<Rightarrow> string" where
  "metric_text m =
     (case m of
        MT_gas_used \<Rightarrow> ''gas_used'' | MT_input_bytes \<Rightarrow> ''input_bytes'' | MT_execution_fee_wei \<Rightarrow> ''execution_fee_wei''
      | MT_l1_data_fee_wei \<Rightarrow> ''l1_data_fee_wei'' | MT_carrier_payment_wei \<Rightarrow> ''carrier_payment_wei''
      | MT_transaction_value_wei \<Rightarrow> ''transaction_value_wei'' | MT_transaction_count \<Rightarrow> ''transaction_count'')"

type_synonym group_key = "string \<times> int \<times> string \<times> metric"

definition value_key :: "pair_value \<Rightarrow> group_key" where
  "value_key v = (pv_condition v, pv_chain_id v, pv_accounting_bucket v, pv_metric v)"

text \<open>The dictionary of groups in the order of first insertion.\<close>

fun group_differences :: "(group_key \<times> int list) list \<Rightarrow> pair_value list \<Rightarrow> (group_key \<times> int list) list" where
  "group_differences groups [] = groups"
| "group_differences groups (v # vs) =
     (case pv_difference v of
        None \<Rightarrow> group_differences groups vs
      | Some x \<Rightarrow>
          group_differences
            (if list_ex (\<lambda>g. fst g = value_key v) groups
             then update_where (\<lambda>g. fst g = value_key v) (\<lambda>g. (fst g, snd g @ [x])) groups
             else groups @ [(value_key v, [x])]) vs)"

definition signed_of_int :: "int \<Rightarrow> signed_float" where
  "signed_of_int n = (sgn n, float_of_int \<bar>n\<bar>)"

text \<open>\<^verbatim>\<open>float(statistics.median(..))\<close> of a sorted list of integers that is not empty.\<close>

definition float_median :: "int list \<Rightarrow> signed_float" where
  "float_median xs =
     (let n = length xs in
        if odd n then signed_of_int (xs ! (n div 2)) else int_quotient (xs ! (n div 2 - 1) + xs ! (n div 2)) 2)"

definition quartiles :: "int list \<Rightarrow> signed_float \<times> signed_float" where
  "quartiles xs =
     (if length xs = 1 then (signed_of_int (xs ! 0), signed_of_int (xs ! 0))
      else let midpoint = length xs div 2 in (float_median (take midpoint xs), float_median (drop (length xs - midpoint) xs)))"

text \<open>Subtraction, rounded once.\<close>

definition signed_minus :: "signed_float \<Rightarrow> signed_float \<Rightarrow> signed_float" where
  "signed_minus x y =
     (case x of (s, m, e) \<Rightarrow> case y of (t, n, f) \<Rightarrow>
        let k = min e f; v = s * m * 2 ^ nat (e - k) - t * n * 2 ^ nat (f - k) in (sgn v, round53 \<bar>v\<bar> k))"

definition aggregate_of :: "group_key \<times> int list \<Rightarrow> pair_aggregate" where
  "aggregate_of g =
     (case g of ((condition, chain_id, bucket, m), differences) \<Rightarrow>
        let ordered = sort differences; q = quartiles ordered
        in \<lparr>pa_condition = condition, pa_chain_id = chain_id, pa_accounting_bucket = bucket, pa_metric = m,
            pa_eligible_count = length ordered, pa_median = float_median ordered,
            pa_interquartile_range = signed_minus (snd q) (fst q), pa_minimum = ordered ! 0, pa_maximum = last ordered\<rparr>)"

definition aggregate_values :: "pair_value list \<Rightarrow> pair_aggregate list" where
  "aggregate_values vs =
     map aggregate_of
       (sort_by_key (\<lambda>g. fst (fst g)) (sort_key (\<lambda>g. fst (snd (fst g)))
         (sort_by_key (\<lambda>g. fst (snd (snd (fst g)))) (sort_by_key (\<lambda>g. metric_text (snd (snd (snd (fst g)))))
           (group_differences [] vs)))))"

end
