(* ===== verification/Xir_Overhead_Properties.thy ===== *)
theory Xir_Overhead_Properties
  imports Xir_Overhead Xir_Reconcile_Properties Xir_Demo_Route
begin

text \<open>
  What the comparison of the two arms rests on: a pair is eligible exactly when both of its primary attempts are complete
  in the evidence and had the same effect, differences are differences of exact sums over those attempts, and the
  aggregates partition the differences.
\<close>

section \<open>Eligibility\<close>









lemma decide_pair_refused: "\<not> snd (decide_pair p ev) \<Longrightarrow> \<not> od_eligible (fst (decide_pair p ev))"
  by (auto simp: decide_pair_def Let_def split: if_splits)







section \<open>Values\<close>
















text \<open>One eligible pair; the arms share one chain of the source bucket.\<close>

definition demo_gas :: "string \<Rightarrow> int \<Rightarrow> resource_row" where
  "demo_gas i gas = \<lparr>rc_transaction_id = i, rc_chain_id = 11155420, rc_sender = ''s'', rc_recipient = None, rc_input_bytes = 4,
     rc_transaction_value_wei = 0, rc_gas_used = gas, rc_effective_gas_price_wei = 1, rc_execution_fee_wei = gas,
     rc_l1_data_fee_wei = None, rc_l1_data_fee_unavailable_reason = Some ''n'', rc_carrier_payment_wei = 0,
     rc_funding_attribution = ''experiment''\<rparr>"

definition demo_settled :: "string \<Rightarrow> finality_row" where
  "demo_settled i = \<lparr>fo_observation_id = i, fo_transaction_id = i, fo_chain_id = 1, fo_block_number = 1, fo_block_hash = ''0x'',
     fo_state = F_finalized, fo_canonical = True, fo_policy_kind = Confirmations, fo_policy_head = None, fo_supersedes = None,
     fo_observed_at = 0\<rparr>"

definition demo_overhead :: overhead_world where
  "demo_overhead =
     (let db = demo_route_db\<lparr>t_pairs := [\<lparr>pr_pair_id = ''p'', pr_condition_id = ''c'', pr_slot_index = 0\<rparr>],
            t_attempts := map (\<lambda>a. a\<lparr>at_state := A_delivered\<rparr>) (t_attempts demo_route_db),
            t_transactions := map (\<lambda>t. t\<lparr>tx_state := T_finalized\<rparr>) (t_transactions demo_route_db)\<rparr>
      in \<lparr>ov_ev = (empty_evidence db)
            \<lparr>ev_resources := [demo_gas ''x0'' 10, demo_gas ''x1'' 5, demo_gas ''x2'' 5, demo_gas ''b0'' 7],
             ev_finality := map demo_settled [''x0'', ''x1'', ''x2'', ''b0''],
             ev_effects := map (\<lambda>i. \<lparr>ef_attempt_id = i, ef_transaction_id = i, ef_destination_effect_id = ''e'',
                ef_predicate_sha256 = ''p'', ef_succeeded = True\<rparr>) [''x'', ''b'']\<rparr>,
          ov_decisions = []\<rparr>)"

lemma demo_differences:
  "map (\<lambda>v. (pv_chain_id v, pv_difference v)) (fst (pair_values 1 ''run'' [MT_gas_used] demo_overhead))
    = [(84532, None), (421614, None), (11155420, Some 3)]"
  by code_simp


section \<open>Aggregates\<close>

definition differences_at :: "group_key \<Rightarrow> pair_value list \<Rightarrow> int list" where
  "differences_at k vs = List.map_filter pv_difference (filter (\<lambda>v. value_key v = k) vs)"

definition groups_ok :: "(group_key \<times> int list) list \<Rightarrow> bool" where
  "groups_ok gs \<longleftrightarrow> distinct (map fst gs) \<and> (\<forall>g\<in>set gs. snd g \<noteq> [])"

definition group_at :: "group_key \<Rightarrow> (group_key \<times> int list) list \<Rightarrow> int list" where
  "group_at k gs = (case map_of gs k of None \<Rightarrow> [] | Some xs \<Rightarrow> xs)"

definition insert_difference :: "group_key \<Rightarrow> int \<Rightarrow> (group_key \<times> int list) list \<Rightarrow> (group_key \<times> int list) list" where
  "insert_difference k x gs = (if list_ex (\<lambda>g. fst g = k) gs
     then update_where (\<lambda>g. fst g = k) (\<lambda>g. (fst g, snd g @ [x])) gs else gs @ [(k, [x])])"

lemma insert_difference_keeps:
  assumes "groups_ok gs"
  shows "groups_ok (insert_difference k x gs) \<and> group_at l (insert_difference k x gs) = group_at l gs @ (if l = k then [x] else [])"
proof (cases "list_ex (\<lambda>g. fst g = k) gs")
  case True
  have f: "map fst (update_where (\<lambda>g. fst g = k) (\<lambda>g. (fst g, snd g @ [x])) gs) = map fst gs"
    by (induction gs) auto
  have "map_of (update_where (\<lambda>g. fst g = k) (\<lambda>g. (fst g, snd g @ [x])) gs) l
      = map_option (\<lambda>xs. if l = k then xs @ [x] else xs) (map_of gs l)"
    by (induction gs) auto
  moreover have "map_of gs k \<noteq> None" using True by (auto simp: list_ex_iff map_of_eq_None_iff)
  ultimately show ?thesis using True assms f
    by (auto simp: insert_difference_def groups_ok_def group_at_def set_update_where split: option.splits)
next
  case False
  then have "map_of gs k = None" by (auto simp: list_ex_iff map_of_eq_None_iff)
  with False assms show ?thesis
    by (auto simp: insert_difference_def groups_ok_def group_at_def list_ex_iff map_add_def split: option.splits)
qed

lemma group_differences_insert: "group_differences gs (v # vs) =
    group_differences (case pv_difference v of None \<Rightarrow> gs | Some x \<Rightarrow> insert_difference (value_key v) x gs) vs"
  by (simp add: insert_difference_def split: option.split)

lemma group_differences_at:
  assumes "groups_ok gs"
  shows "groups_ok (group_differences gs vs) \<and> group_at k (group_differences gs vs) = group_at k gs @ differences_at k vs"
  using assms
proof (induction vs arbitrary: gs)
  case (Cons v vs)
  show ?case
  proof (cases "pv_difference v")
    case None
    with Cons show ?thesis by (simp add: group_differences_insert differences_at_def map_filter_simps del: group_differences.simps(2))
  next
    case (Some x)
    with Cons.IH [of "insert_difference (value_key v) x gs"] insert_difference_keeps [OF Cons.prems, of "value_key v" x k]
    show ?thesis by (simp add: group_differences_insert differences_at_def map_filter_simps del: group_differences.simps(2))
  qed
qed (simp add: differences_at_def map_filter_simps)

definition aggregate_key :: "pair_aggregate \<Rightarrow> group_key" where
  "aggregate_key a = (pa_condition a, pa_chain_id a, pa_accounting_bucket a, pa_metric a)"

definition grouped :: "(group_key \<times> int list) list \<Rightarrow> nat" where
  "grouped gs = sum_list (map (length \<circ> snd) gs)"

lemma grouped_insert: "groups_ok gs \<Longrightarrow> grouped (insert_difference k x gs) = Suc (grouped gs)"
proof (cases "list_ex (\<lambda>g. fst g = k) gs")
  case True
  assume "groups_ok gs"
  then have "distinct (map fst gs)" by (simp add: groups_ok_def)
  with True have "grouped (update_where (\<lambda>g. fst g = k) (\<lambda>g. (fst g, snd g @ [x])) gs) = Suc (grouped gs)"
  proof (induction gs)
    case (Cons g gs)
    show ?case
    proof (cases "fst g = k")
      case True
      with Cons.prems(2) have "update_where (\<lambda>g. fst g = k) (\<lambda>g. (fst g, snd g @ [x])) gs = gs"
        by (intro update_where_none ballI notI) (metis distinct.simps(2) image_eqI list.set_map list.simps(9))
      with True show ?thesis by (simp add: grouped_def)
    next
      case False
      with Cons show ?thesis by (simp add: grouped_def)
    qed
  qed simp
  with True show ?thesis by (simp add: insert_difference_def)
qed (simp add: insert_difference_def grouped_def)

lemma grouped_differences:
  "groups_ok gs \<Longrightarrow> grouped (group_differences gs vs) = grouped gs + length (filter (\<lambda>v. pv_difference v \<noteq> None) vs)"
proof (induction vs arbitrary: gs)
  case (Cons v vs)
  show ?case
  proof (cases "pv_difference v")
    case None
    with Cons show ?thesis by (simp add: group_differences_insert del: group_differences.simps(2))
  next
    case (Some x)
    with Cons.IH [of "insert_difference (value_key v) x gs"] insert_difference_keeps [OF Cons.prems, of "value_key v" x]
      grouped_insert [OF Cons.prems, of "value_key v" x]
    show ?thesis by (simp add: group_differences_insert del: group_differences.simps(2))
  qed
qed simp

lemma differences_at_nonempty:
  "differences_at k vs \<noteq> [] \<longleftrightarrow> k \<in> value_key ` {v \<in> set vs. pv_difference v \<noteq> None}"
  by (induction vs) (auto simp: differences_at_def map_filter_simps split: option.splits)

lemma sorted_extremes: "sorted xs \<Longrightarrow> xs \<noteq> [] \<Longrightarrow> xs ! 0 = Min (set xs) \<and> last xs = Max (set xs)"
  by (intro conjI Min_eqI [symmetric] Max_eqI [symmetric])
    (auto simp: in_set_conv_nth last_conv_nth intro: sorted_nth_mono exI [of _ "length xs - Suc 0"])

lemma aggregate_of_bounds:
  assumes "snd g \<noteq> []"
  shows "aggregate_key (aggregate_of g) = fst g \<and> pa_eligible_count (aggregate_of g) = length (snd g)
    \<and> pa_minimum (aggregate_of g) = Min (set (snd g)) \<and> pa_maximum (aggregate_of g) = Max (set (snd g))"
proof -
  obtain c i b m xs where g: "g = ((c, i, b, m), xs)" by (metis prod.collapse)
  have "sort xs \<noteq> []" using assms g by (metis length_0_conv length_sort snd_conv)
  then have "sort xs ! 0 = Min (set xs) \<and> last (sort xs) = Max (set xs)"
    using sorted_extremes [OF sorted_sort, of xs] by simp
  then show ?thesis by (simp add: g aggregate_of_def aggregate_key_def Let_def)
qed

text \<open>
  Aggregates partition the differences. The aggregates of any list of values have different groups; there is one for
  exactly the combinations of condition, chain, bucket and metric that have a difference; each counts all differences of
  its group, and its minimum and maximum are theirs; the counts of all aggregates add up to the number of available
  differences.
\<close>

theorem aggregates_partition_differences:
  "distinct (map aggregate_key (aggregate_values vs))
   \<and> aggregate_key ` set (aggregate_values vs) = value_key ` {v \<in> set vs. pv_difference v \<noteq> None}
   \<and> (\<forall>a\<in>set (aggregate_values vs). differences_at (aggregate_key a) vs \<noteq> []
        \<and> pa_eligible_count a = length (differences_at (aggregate_key a) vs)
        \<and> pa_minimum a = Min (set (differences_at (aggregate_key a) vs))
        \<and> pa_maximum a = Max (set (differences_at (aggregate_key a) vs)))
   \<and> sum_list (map pa_eligible_count (aggregate_values vs)) = length (filter (\<lambda>v. pv_difference v \<noteq> None) vs)"
proof -
  define gs where "gs = group_differences [] vs"
  have gs: "groups_ok gs" and at: "group_at k gs = differences_at k vs" for k
    using group_differences_at [of "[]" vs k] by (simp_all add: gs_def groups_ok_def group_at_def)
  define sorted_gs where "sorted_gs = sort_by_key (\<lambda>g. fst (fst g)) (sort_key (\<lambda>g. fst (snd (fst g)))
         (sort_by_key (\<lambda>g. fst (snd (snd (fst g)))) (sort_by_key (\<lambda>g. metric_text (snd (snd (snd (fst g))))) gs)))"
  have ms: "mset sorted_gs = mset gs" by (simp add: sorted_gs_def mset_sort_by_key)
  have agg: "aggregate_values vs = map aggregate_of sorted_gs" by (simp add: aggregate_values_def sorted_gs_def gs_def)
  have set: "set sorted_gs = set gs" using ms by (metis set_mset_mset)
  have pair: "snd g = differences_at (fst g) vs" "snd g \<noteq> []" if "g \<in> set gs" for g
  proof -
    have "map_of gs (fst g) = Some (snd g)" using gs that by (simp add: groups_ok_def map_of_is_SomeI)
    then show "snd g = differences_at (fst g) vs" using at [of "fst g"] by (simp add: group_at_def)
    show "snd g \<noteq> []" using gs that by (simp add: groups_ok_def)
  qed
  have keys: "map aggregate_key (aggregate_values vs) = map fst sorted_gs"
    using aggregate_of_bounds pair(2) set by (auto simp: agg)
  have fsts: "mset (map fst sorted_gs) = mset (map fst gs)" using ms by simp
  then have "distinct (map fst sorted_gs)" using gs by (metis groups_ok_def mset_eq_imp_distinct_iff)
  moreover have "fst ` set gs = value_key ` {v \<in> set vs. pv_difference v \<noteq> None}"
  proof -
    have "k \<in> fst ` set gs \<longleftrightarrow> differences_at k vs \<noteq> []" for k
    proof (cases "map_of gs k")
      case None
      with at [of k] show ?thesis by (simp add: group_at_def map_of_eq_None_iff)
    next
      case (Some xs)
      then have "(k, xs) \<in> set gs" by (rule map_of_SomeD)
      with pair [of "(k, xs)"] show ?thesis by (force simp: image_iff)
    qed
    then show ?thesis unfolding differences_at_nonempty by (rule set_eqI)
  qed
  moreover have "sum_list (map pa_eligible_count (aggregate_values vs)) = length (filter (\<lambda>v. pv_difference v \<noteq> None) vs)"
  proof -
    have "map pa_eligible_count (aggregate_values vs) = map (length \<circ> snd) sorted_gs"
      using aggregate_of_bounds pair(2) set by (auto simp: agg)
    moreover have "sum_list (map (length \<circ> snd) sorted_gs) = grouped gs"
      unfolding grouped_def by (metis mset_map ms sum_mset_sum_list)
    ultimately show ?thesis using grouped_differences [of "[]" vs] by (simp add: gs_def groups_ok_def grouped_def)
  qed
  moreover have "aggregate_key ` set (aggregate_values vs) = fst ` set gs"
    using arg_cong [OF keys, of set] set by simp
  moreover have "differences_at (aggregate_key a) vs \<noteq> [] \<and> pa_eligible_count a = length (differences_at (aggregate_key a) vs)
      \<and> pa_minimum a = Min (set (differences_at (aggregate_key a) vs)) \<and> pa_maximum a = Max (set (differences_at (aggregate_key a) vs))"
    if a: "a \<in> set (aggregate_values vs)" for a
  proof -
    from a obtain g where g: "g \<in> set gs" "a = aggregate_of g" using set by (auto simp: agg)
    from aggregate_of_bounds [OF pair(2) [OF g(1)]] pair [OF g(1)] g(2) show ?thesis by simp
  qed
  ultimately show ?thesis using keys by simp
qed

lemma aggregates_partition_differences_witness:
  "\<exists>a\<in>set (aggregate_values (fst (pair_values 1 ''run'' [MT_gas_used] demo_overhead))).
     pa_eligible_count a = length (differences_at (aggregate_key a) (fst (pair_values 1 ''run'' [MT_gas_used] demo_overhead)))"
proof -
  define vs where "vs = fst (pair_values 1 ''run'' [MT_gas_used] demo_overhead)"
  have "Some 3 \<in> set (map snd (map (\<lambda>v. (pv_chain_id v, pv_difference v)) vs))"
    using demo_differences by (simp add: vs_def)
  then obtain v where "v \<in> set vs" "pv_difference v = Some 3" by auto
  then have "value_key v \<in> aggregate_key ` set (aggregate_values vs)"
    using aggregates_partition_differences [of vs] by blast
  then obtain a where "a \<in> set (aggregate_values vs)" by blast
  with aggregates_partition_differences [of vs, THEN conjunct2, THEN conjunct2, THEN conjunct1, THEN bspec]
  show ?thesis unfolding vs_def [symmetric] by blast
qed

end
