(* ===== verification/Xir_Recommendation.thy ===== *)
theory Xir_Recommendation
  imports Xir_Errors
begin

text \<open>
  \<^verbatim>\<open>analysis/recommendation.py\<close>: what a frozen pilot recommends. \<open>h\<close> is the digest of canonical JSON. The eligible pairs per
  condition are the items of a dictionary in its order.
\<close>

datatype recommendation = Go | Revise | Stop

record recommendation_inputs =
  ri_run_id :: string
  ri_freeze_sha256 :: string
  ri_reconciliation_valid :: bool
  ri_invariants_valid :: bool
  ri_pending_backfill :: int
  ri_first_rebuild_sha256 :: string
  ri_second_rebuild_sha256 :: string
  ri_eligible_pairs_by_condition :: "(string \<times> int) list"
  ri_minimum_eligible_pairs_per_condition :: int
  ri_hard_stop_triggered :: bool
  ri_unresolved_limitations :: "string list"

record recommendation_document =
  rd_run_id :: string
  rd_freeze_sha256 :: string
  rd_recommendation :: recommendation
  rd_reason_codes :: "string list"
  rd_eligible_pairs_by_condition :: "(string \<times> int) list"
  rd_minimum_eligible_pairs_per_condition :: int
  rd_unresolved_limitations :: "string list"

definition scope_invalid :: "recommendation_inputs \<Rightarrow> bool" where
  "scope_invalid i \<longleftrightarrow>
     ri_run_id i = [] \<or> ri_pending_backfill i < 0 \<or> ri_minimum_eligible_pairs_per_condition i < 1
     \<or> set (map fst (ri_eligible_pairs_by_condition i)) \<noteq> {''HH'', ''HL'', ''LH'', ''LL''}
     \<or> list_ex (\<lambda>p. snd p < 0 \<or> snd p > 5) (ri_eligible_pairs_by_condition i)"

definition stop_reasons :: "recommendation_inputs \<Rightarrow> string list" where
  "stop_reasons i =
     (if \<not> ri_reconciliation_valid i then [''reconciliation_invalid''] else [])
     @ (if \<not> ri_invariants_valid i then [''invariants_invalid''] else [])
     @ (if ri_pending_backfill i \<noteq> 0 then [''pending_backfill''] else [])
     @ (if ri_first_rebuild_sha256 i \<noteq> ri_second_rebuild_sha256 i then [''offline_rebuild_mismatch''] else [])
     @ (if ri_hard_stop_triggered i then [''hard_stop_triggered''] else [])"

definition revise_reasons :: "recommendation_inputs \<Rightarrow> string list" where
  "revise_reasons i =
     (if list_ex (\<lambda>p. snd p < ri_minimum_eligible_pairs_per_condition i) (ri_eligible_pairs_by_condition i)
      then [''eligible_pair_coverage_below_threshold''] else [])
     @ (if ri_unresolved_limitations i \<noteq> [] then [''unresolved_limitations''] else [])"

definition recommend :: "recommendation_inputs \<Rightarrow> recommendation \<times> string list" where
  "recommend i =
     (if stop_reasons i \<noteq> [] then (Stop, stop_reasons i)
      else if revise_reasons i \<noteq> [] then (Revise, revise_reasons i) else (Go, [''pilot_evidence_gates_passed'']))"

definition recommendation_text :: "recommendation \<Rightarrow> string" where
  "recommendation_text r = (case r of Go \<Rightarrow> ''go'' | Revise \<Rightarrow> ''revise'' | Stop \<Rightarrow> ''stop'')"

definition recommendation_json :: "recommendation_document \<Rightarrow> json" where
  "recommendation_json d =
     JObj [(''schema_version'', JStr ''xir-lab-pilot-recommendation-v1''), (''run_id'', JStr (rd_run_id d)),
       (''freeze_sha256'', JStr (rd_freeze_sha256 d)), (''recommendation'', JStr (recommendation_text (rd_recommendation d))),
       (''reason_codes'', JList (map JStr (rd_reason_codes d))),
       (''eligible_pairs_by_condition'', JObj (map (\<lambda>(k, v). (k, JInt v)) (rd_eligible_pairs_by_condition d))),
       (''minimum_eligible_pairs_per_condition'', JInt (rd_minimum_eligible_pairs_per_condition d)),
       (''unresolved_limitations'', JList (map JStr (rd_unresolved_limitations d))),
       (''authority'', JObj [(''authorizes_primary'', JBool False), (''authorizes_scale'', JBool False),
          (''authorizes_any_public_write'', JBool False), (''new_openspec_change_required'', JBool True),
          (''fresh_approval_required'', JBool True)])]"

definition build_pilot_recommendation ::
  "(json \<Rightarrow> string) \<Rightarrow> recommendation_inputs \<Rightarrow> exn + recommendation_document \<times> string" where
  "build_pilot_recommendation h i =
     bindE (ensure (length (ri_freeze_sha256 i) = 64) (RecommendationError (RC_digest ''freeze''))) (\<lambda>_.
     bindE (ensure (length (ri_first_rebuild_sha256 i) = 64) (RecommendationError (RC_digest ''first rebuild''))) (\<lambda>_.
     bindE (ensure (length (ri_second_rebuild_sha256 i) = 64) (RecommendationError (RC_digest ''second rebuild''))) (\<lambda>_.
     bindE (ensure (\<not> scope_invalid i) (RecommendationError RC_scope)) (\<lambda>_.
     let d = \<lparr>rd_run_id = ri_run_id i, rd_freeze_sha256 = ri_freeze_sha256 i, rd_recommendation = fst (recommend i),
           rd_reason_codes = snd (recommend i), rd_eligible_pairs_by_condition = ri_eligible_pairs_by_condition i,
           rd_minimum_eligible_pairs_per_condition = ri_minimum_eligible_pairs_per_condition i,
           rd_unresolved_limitations = ri_unresolved_limitations i\<rparr>
     in Inr (d, h (recommendation_json d))))))"

text \<open>A run is recommended to go on only when every gate holds for it, and then each condition has enough pairs.\<close>

lemma go_needs_every_gate:
  assumes "build_pilot_recommendation h i = Inr (d, digest)" and "rd_recommendation d = Go"
  shows "ri_reconciliation_valid i \<and> ri_invariants_valid i \<and> ri_pending_backfill i = 0
    \<and> ri_first_rebuild_sha256 i = ri_second_rebuild_sha256 i \<and> \<not> ri_hard_stop_triggered i \<and> ri_unresolved_limitations i = []
    \<and> (\<forall>c\<in>{''HH'', ''HL'', ''LH'', ''LL''}. \<exists>n. (c, n) \<in> set (ri_eligible_pairs_by_condition i)
         \<and> ri_minimum_eligible_pairs_per_condition i \<le> n)"
proof -
  have ok: "\<not> scope_invalid i" and go: "fst (recommend i) = Go"
    using assms by (auto simp: build_pilot_recommendation_def bindE_Inr ensure_Inr Let_def)
  then have no: "stop_reasons i = []" "revise_reasons i = []" by (auto simp: recommend_def split: if_splits)
  from no(2) have enough: "\<forall>p\<in>set (ri_eligible_pairs_by_condition i). ri_minimum_eligible_pairs_per_condition i \<le> snd p"
    by (auto simp: revise_reasons_def list_ex_iff split: if_splits)
  have "\<exists>n. (c, n) \<in> set (ri_eligible_pairs_by_condition i) \<and> ri_minimum_eligible_pairs_per_condition i \<le> n"
    if "c \<in> {''HH'', ''HL'', ''LH'', ''LL''}" for c
  proof -
    from ok have "set (map fst (ri_eligible_pairs_by_condition i)) = {''HH'', ''HL'', ''LH'', ''LL''}"
      unfolding scope_invalid_def by blast
    with that obtain p where "p \<in> set (ri_eligible_pairs_by_condition i)" "fst p = c" by (metis (no_types) imageE list.set_map)
    with enough show ?thesis by (intro exI [of _ "snd p"]) auto
  qed
  with no show ?thesis by (auto simp: stop_reasons_def revise_reasons_def split: if_splits)
qed

end
