(* ===== verification/Spec2Isabelle.thy ===== *)
theory Spec2Isabelle
  imports Xir_Stop_Policies Xir_Scheduler_Properties Xir_Executor_Plan Xir_Executor_Claims Xir_Resolution_Properties
    Xir_Finality_Properties Xir_Outcomes_Properties Xir_Raw_Properties Xir_Backfill_Properties
    Xir_Reconcile_Properties Xir_Validator_Properties Xir_Records_Properties Xir_Native_Evidence_Properties
    Xir_Operations_Properties Xir_Preflight_Properties Xir_Wire_Properties Xir_Keystore_Properties Xir_Deployment_Properties
    Xir_Overhead_Properties Xir_Recommendation
begin

text \<open>
  \<^bold>\<open>XIR: the durable core of the cross-chain experiment runner, from the plan to validated evidence.\<close>

  The program (\<^verbatim>\<open>src/src/xir_lab\<close>) runs cross-chain message experiments on live networks: it
  expands a profile into routes, reserves the worst-case cost of every route, has transactions
  signed by an external signer and broadcasts them, while everything that matters is kept in a
  SQLite evidence store so that a crash at any moment neither loses money nor sends twice. It then collects
  receipts, events and outcomes, links them to traces and checks the evidence before it is analysed. This
  development models the control core, collection, and the checks.

  \<^bold>\<open>Theories and sources\<close> (paths below \<^verbatim>\<open>src/src/xir_lab\<close>).

  \<^item> \<^verbatim>\<open>Xir_Prelude\<close>: the exception monad of a fallible function (\<^verbatim>\<open>'e + 'a\<close>), Python truth and
    dictionary helpers, sorting of texts, timestamps, the locale \<^verbatim>\<open>transition_system\<close> (a step relation with an
    inductive invariant).
  \<^item> \<^verbatim>\<open>Xir_Errors\<close>: one datatype per exception class, one constructor per message.
  \<^item> \<^verbatim>\<open>Xir_Store\<close>: \<^verbatim>\<open>evidence/store.py\<close> with \<^verbatim>\<open>001_initial.sql\<close>. The database is a record \<open>db\<close> of
    tables (lists of rows in rowid order); a write transaction is a function on \<open>db\<close> whose state is
    kept on success and thrown away when it raises, as \<^verbatim>\<open>BEGIN IMMEDIATE\<close> with rollback does.
  \<^item> \<^verbatim>\<open>Xir_Leases\<close>: \<^verbatim>\<open>execute/leases.py\<close>, one definition per method of \<^verbatim>\<open>LeaseBudgetManager\<close>.
    \<^verbatim>\<open>Xir_Budget\<close>, \<^verbatim>\<open>Xir_Budget_Steps\<close> and \<^verbatim>\<open>Xir_Budget_Routes\<close> hold the accounting invariant
    (the running totals of every chain and role are the sums over the lineages) and its
    preservation by every method; \<^verbatim>\<open>Xir_Ledger\<close> is the manager as a step relation \<open>lease_step\<close> and
    interprets \<^verbatim>\<open>transition_system\<close>; \<^verbatim>\<open>Xir_Ledger_Properties\<close> holds C1 to C6; \<^verbatim>\<open>Xir_Ledger_Backing\<close>
    shows that the spent wei of a reservation are the sums over its stages in every reachable ledger.
  \<^item> \<^verbatim>\<open>Xir_Controls\<close>: \<^verbatim>\<open>execute/controls.py\<close>, run modes and their append-only transition log; C10
    and C13. The locale \<^verbatim>\<open>stop_plane\<close> is the contract of the control plane its clients rely on.
  \<^item> \<^verbatim>\<open>Xir_Stop_Policies\<close>: \<^verbatim>\<open>execute/stop_policies.py\<close> over that contract; a trigger stops a running run, and the
    financial policy agrees with the capacity check of the ledger.
  \<^item> \<^verbatim>\<open>Xir_Profiles\<close> and \<^verbatim>\<open>Xir_Scheduler\<close>, \<^verbatim>\<open>Xir_Scheduler_Properties\<close>: \<^verbatim>\<open>config/profiles.py\<close> and
    \<^verbatim>\<open>execute/scheduler.py\<close>, expansion of a profile and bounded dispatch; C21, C23 and C24. \<^verbatim>\<open>Xir_Floats\<close> has what they need
    of binary floating-point numbers.
  \<^item> \<^verbatim>\<open>Xir_Approvals\<close>: \<^verbatim>\<open>execute/approvals.py\<close>, signed approvals consumed once; C26 and C27.
  \<^item> \<^verbatim>\<open>Xir_Signer\<close>: \<^verbatim>\<open>execute/signer.py\<close> and \<^verbatim>\<open>faults.py\<close>, the spool as a map from names to bytes.
  \<^item> \<^verbatim>\<open>Xir_Actions\<close>: calls that run several transactions and talk to the outside in between, and
    triples about them that also say what an exception leaves; \<^verbatim>\<open>Xir_Action_Rules\<close> has forward rules for triples.
  \<^item> \<^verbatim>\<open>Xir_Submission\<close>: \<^verbatim>\<open>execute/submission.py\<close>, write-ahead intents, signing, broadcast,
    observation and recovery as actions on a \<open>world\<close> (store, spool, what the signer produced, what
    was sent). \<^verbatim>\<open>Xir_Submission_Properties\<close> and \<^verbatim>\<open>Xir_Submission_Life\<close> hold C28 to C30.
  \<^item> \<^verbatim>\<open>Xir_Stages\<close>: \<^verbatim>\<open>config/stages.py\<close>, the preregistered transactions of a route; C31.
  \<^item> \<^verbatim>\<open>Xir_Executor\<close>: \<^verbatim>\<open>execute/executor.py\<close>. \<^verbatim>\<open>Xir_Executor_Plan\<close> shows what registering a plan
    stores (C32), \<^verbatim>\<open>Xir_Executor_Claims\<close> the claims and the order of the stages (C33, C34).
  \<^item> \<^verbatim>\<open>Xir_Resolution\<close> and \<^verbatim>\<open>Xir_Resolution_Properties\<close>: \<^verbatim>\<open>execute/resolution.py\<close>, what becomes of
    ambiguous submissions and replacements of one nonce; C35, and the bound on replacements (\<open>replacements_are_bounded\<close>).
  \<^item> \<^verbatim>\<open>Xir_Evidence\<close>: the tables of \<^verbatim>\<open>001_initial.sql\<close> that collection writes, a record around \<open>db\<close>.
  \<^item> \<^verbatim>\<open>Xir_Finality\<close> and \<^verbatim>\<open>Xir_Finality_Properties\<close>: \<^verbatim>\<open>collect/finality.py\<close>, finality under a registered
    policy, rechecks of canonicality and the audit before a freeze; C37 and C38.
  \<^item> \<^verbatim>\<open>Xir_Outcomes\<close> and \<^verbatim>\<open>Xir_Outcomes_Properties\<close>: \<^verbatim>\<open>collect/outcomes.py\<close>, observation windows, deadline and
    eventual outcomes, clocks and intervals; C39.
  \<^item> \<^verbatim>\<open>Xir_Raw\<close> and \<^verbatim>\<open>Xir_Raw_Properties\<close>: the raw store of \<^verbatim>\<open>evidence/store.py\<close>, exact bytes under their digest,
    and observations over them; C25.
  \<^item> \<^verbatim>\<open>Xir_Backfill\<close> and \<^verbatim>\<open>Xir_Backfill_Properties\<close>: \<^verbatim>\<open>collect/backfill.py\<close>, the bounded scan of approved contracts;
    C9 and C40.
  \<^item> \<^verbatim>\<open>Xir_Linking\<close> and \<^verbatim>\<open>Xir_Linking_Properties\<close>: \<^verbatim>\<open>collect/protocol.py\<close> and \<^verbatim>\<open>collect/xir.py\<close>, carrier messages and
    traces; C15. \<^verbatim>\<open>Xir_Demo_Route\<close> is a small run for the concrete instances.
  \<^item> \<^verbatim>\<open>Xir_Evm\<close> and \<^verbatim>\<open>Xir_Evm_Properties\<close>: \<^verbatim>\<open>collect/evm.py\<close>, receipts, resources and balances of a transaction; C19.
  \<^item> \<^verbatim>\<open>Xir_Reconcile\<close> and \<^verbatim>\<open>Xir_Reconcile_Properties\<close>: \<^verbatim>\<open>analysis/reconcile.py\<close>, freeze scopes and the reconciliation of
    a run; C12.
  \<^item> \<^verbatim>\<open>Xir_Validator\<close> and \<^verbatim>\<open>Xir_Validator_Properties\<close>: \<^verbatim>\<open>analysis/invariants.py\<close>, and that what the ledger, the
    linkers and the collector record passes it; C16.
  \<^item> \<^verbatim>\<open>Xir_Records\<close> and \<^verbatim>\<open>Xir_Records_Properties\<close>: \<^verbatim>\<open>evidence/records.py\<close>, the checks across the records of a bundle; C8.
  \<^item> \<^verbatim>\<open>Xir_Native_Evidence\<close> and \<^verbatim>\<open>Xir_Native_Evidence_Properties\<close>: \<^verbatim>\<open>evidence/native.py\<close> with \<^verbatim>\<open>002_native_stack.sql\<close>,
    actions of the native stack, their observations and retries; C14.
  \<^item> \<^verbatim>\<open>Xir_Operations\<close> and \<^verbatim>\<open>Xir_Operations_Properties\<close>: \<^verbatim>\<open>execute/approved_operations.py\<close>, deployment and
    configuration transactions executed one after the other against a journal file; C11.
  \<^item> \<^verbatim>\<open>Xir_Preflight\<close> and \<^verbatim>\<open>Xir_Preflight_Properties\<close>: \<^verbatim>\<open>preflight/estimator.py\<close>, \<^verbatim>\<open>funding.py\<close> and \<^verbatim>\<open>readiness.py\<close>,
    from the cost estimate to the verified deposits; C7.
  \<^item> \<^verbatim>\<open>Xir_Wire\<close> and \<^verbatim>\<open>Xir_Wire_Properties\<close>: \<^verbatim>\<open>native/xir_trace.py\<close> and the packets of \<^verbatim>\<open>native/layerzero.py\<close>, byte
    formats and commitments; C20 and C22.
  \<^item> \<^verbatim>\<open>Xir_Keystore\<close> and \<^verbatim>\<open>Xir_Keystore_Properties\<close>: \<^verbatim>\<open>execute/signer_socket.py\<close>, the validation of signer requests, the
    signer of encrypted keystores and its socket; C17 proves the contract that C28 and C29 assume of their signer.
  \<^item> \<^verbatim>\<open>Xir_Deployment\<close> and \<^verbatim>\<open>Xir_Deployment_Properties\<close>: \<^verbatim>\<open>execute/deployment_plans.py\<close>, from contract specifications to signer
    requests; C36 composes it with the checks of the signer and with an approved batch.
  \<^item> \<^verbatim>\<open>Xir_Overhead\<close> and \<^verbatim>\<open>Xir_Overhead_Properties\<close>: \<^verbatim>\<open>analysis/overhead.py\<close>, eligible pairs, differences and aggregates; C18.
    \<^verbatim>\<open>Xir_Recommendation\<close>: \<^verbatim>\<open>analysis/recommendation.py\<close>, what a pilot run is recommended to become.

  \<^bold>\<open>How the parts interact.\<close> All of them share the one store. The scheduler creates attempts; the
  lease manager reserves budget and locks nonces for them; the submission coordinator refuses to
  sign or broadcast unless the control plane, the approval, the leases and the lineage of the
  transaction allow it; the stop policies halt a run through the control plane. The executor stores
  the scheduler's plan with the stages of the templates and claims attempts through the lease manager;
  the resolver reads what the submission coordinator left ambiguous, advances it or halts the run through
  the control plane, and replacements are prepared by the coordinator. The finality manager moves
  transactions and stages on from the receipts that were collected. It can reopen a completed stage when a
  block is orphaned, which is why the steps of C34 exclude it. The collector stores receipts, raw bytes and resources
  of known transactions, the linkers join transactions to carrier messages and traces, and the outcome recorder closes an
  attempt at its deadline. Reconciliation and the validator read all of these tables; C16 follows them through the ledger,
  the linkers and the collector to the report. Before a run, the estimator bounds its cost, the deposits it asks for are
  verified, the deployment plan becomes signer requests, and the approved operations deploy and configure the contracts with the same signer boundary, spool and raw
  store as the runs; the native stack records its own actions in tables beside them.

  \<^bold>\<open>Conventions.\<close> Python integers are \<open>int\<close>, strings are char lists, timestamps are naive or
  zoned instants, a clock is an argument. An operation returns the outcome (exception or value)
  with the state after it. A method called inside the transaction of another is composed the same
  way. Concurrency of writers is that of SQLite: calls of a component are atomic steps in any
  order, except in the submission coordinator, where a step is a whole call that may stop with a
  crash at every boundary between store, spool, signer and network (parameter \<open>crash\<close>), and the
  world it leaves is the start of the next call.

  \<^bold>\<open>Parameters.\<close> Code outside the repository is an argument: \<open>h\<close> is the hash of a canonical value,
  \<open>sha\<close> SHA-256 of bytes as hexadecimal, \<open>ed\<close> Ed25519 verification, \<open>schema\<close> JSON-schema validation,
  \<open>ext\<close> the external signer, \<open>bc\<close> the network's answer to a broadcast, \<open>pv\<close> the chain as the finality
  manager reads it (an answer may depend on the number of the call), the two lookups of the resolver, the providers of
  the collectors, \<open>keccak\<close> the hash of the native stack, \<open>acct\<close> the account of a keystore, \<open>create\<close> and \<open>encode\<close> the addresses and the ABI encoding of
  constructors, \<open>ser\<close> the canonical serialization of a value, \<open>on_disk\<close> the size of a compressed file. Hypotheses about them are
  named (\<open>hex_digests\<close>: digests are 64 hexadecimal digits; \<open>signer_contract\<close>: the signer answers one
  operation with the same bytes and reports their digest; injectivity of a digest), and every
  theorem that has one has a witness in which a concrete function satisfies it.

  \<^bold>\<open>Bounds.\<close> Loops are structural recursion over finite tables. Two searches have no structural bound
  and are \<^verbatim>\<open>partial_function (option)\<close>, where not returning is the value \<open>None\<close>: the root of a retry
  (C24 shows that it returns on every reachable schedule) and the ancestors of a replaced transaction
  (\<open>replacements_are_bounded\<close> shows that the count returns on every reachable store). There is no fuel.

  Canonical JSON is total here. The serializer of the code raises on integers beyond 53 bits (about 0.009 ether in wei), and
  then the operation ends before its digest is taken.

  Texts that the code parses (hexadecimal and decimal digits) are taken as ASCII. Damage to files of the raw store
  is not a step of a component: C25 is about histories without it, and C16 allows any.

  \<^bold>\<open>Not modelled.\<close> The files of a freeze and of a backup; file permissions, symbolic links and temporary files of the spool; parsing and
  JSON-schema validation of configuration files; the key, peer credentials and the life of the signer's socket; RPC and subprocesses; discovery of
  carriers and the encoding of configuration calls; ABI encodings and signatures of DVN instructions; the experiment
  drivers, statistics and figures of \<^verbatim>\<open>native\<close> and \<^verbatim>\<open>localnet\<close>; the command line.
\<close>

end
